(* ===== verification/Prelude.thy ===== *)
theory Prelude
  imports
    Complex_Main
    "HOL-Library.AList"
    "HOL-Library.List_Lexorder"
    "HOL-Library.Char_ord"
    "HOL-Library.Product_Lexorder"
begin

text \<open>
  Shared vocabulary of the development: the result monad that stands for Python's
  exceptions, insertion-ordered dictionaries, \<open>sorted(set(...))\<close>, stable sorting by a
  key, the string operations the code uses, and the generic lemmas the component
  theories share (collected in \<open>result_simps\<close> and \<open>dict_simps\<close>).
\<close>

named_theorems result_simps \<open>evaluation and inversion of the result monad\<close>
named_theorems dict_simps \<open>facts on insertion-ordered dictionaries\<close>

section \<open>Results: a value or a raised exception\<close>

type_synonym ('e, 'a) result = "'e + 'a"

definition ebind :: "('e, 'a) result \<Rightarrow> ('a \<Rightarrow> ('e, 'b) result) \<Rightarrow> ('e, 'b) result" where
  "ebind m f = (case m of Inl e \<Rightarrow> Inl e | Inr x \<Rightarrow> f x)"

text \<open>\<open>guard\<close> is \<open>if bad: raise e\<close>.\<close>

definition raise_if :: "bool \<Rightarrow> 'e \<Rightarrow> ('e, unit) result" where
  "raise_if bad e = (if bad then Inl e else Inr ())"

fun emap :: "('a \<Rightarrow> ('e, 'b) result) \<Rightarrow> 'a list \<Rightarrow> ('e, 'b list) result" where
  "emap f [] = Inr []"
| "emap f (x # xs) = ebind (f x) (\<lambda>y. ebind (emap f xs) (\<lambda>ys. Inr (y # ys)))"

fun efold :: "('s \<Rightarrow> 'a \<Rightarrow> ('e, 's) result) \<Rightarrow> 's \<Rightarrow> 'a list \<Rightarrow> ('e, 's) result" where
  "efold f s [] = Inr s"
| "efold f s (x # xs) = ebind (f s x) (\<lambda>s'. efold f s' xs)"

text \<open>\<open>try: m except E as e: raise h(e)\<close>: the handler rewrites the exception.\<close>

definition map_error :: "('e \<Rightarrow> 'f) \<Rightarrow> ('e, 'a) result \<Rightarrow> ('f, 'a) result" where
  "map_error h m = (case m of Inl e \<Rightarrow> Inl (h e) | Inr x \<Rightarrow> Inr x)"

definition is_ok :: "('e, 'a) result \<Rightarrow> bool" where
  "is_ok m = (case m of Inl _ \<Rightarrow> False | Inr _ \<Rightarrow> True)"

lemma ebind_simps [simp, result_simps]:
  "ebind (Inl e) f = Inl e"
  "ebind (Inr x) f = f x"
  by (simp_all add: ebind_def)

lemma ebind_Inr_iff [result_simps]:
  "ebind m f = Inr y \<longleftrightarrow> (\<exists>x. m = Inr x \<and> f x = Inr y)"
  by (cases m) auto

lemma ebind_Inl_iff:
  "ebind m f = Inl e \<longleftrightarrow> m = Inl e \<or> (\<exists>x. m = Inr x \<and> f x = Inl e)"
  by (cases m) auto

lemma ebind_InrE [elim]:
  assumes "ebind m f = Inr y"
  obtains x where "m = Inr x" "f x = Inr y"
  using assms by (cases m) auto

lemma raise_if_simps [simp, result_simps]:
  "raise_if True e = Inl e" "raise_if False e = Inr ()"
  by (simp_all add: raise_if_def)

lemma raise_if_Inr_iff [simp, result_simps]: "raise_if b e = Inr u \<longleftrightarrow> \<not> b"
  by (simp add: raise_if_def)

lemma raise_if_Inl_iff [simp]: "raise_if b e = Inl e' \<longleftrightarrow> b \<and> e' = e"
  by (auto simp: raise_if_def)

lemma map_error_simps [simp, result_simps]:
  "map_error h (Inl e) = Inl (h e)" "map_error h (Inr x) = Inr x"
  by (simp_all add: map_error_def)

lemma map_error_Inr_iff [simp, result_simps]: "map_error h m = Inr x \<longleftrightarrow> m = Inr x"
  by (cases m) auto

lemma is_ok_simps [simp, result_simps]: "is_ok (Inl e) = False" "is_ok (Inr x) = True"
  by (simp_all add: is_ok_def)

lemma is_ok_iff: "is_ok m \<longleftrightarrow> (\<exists>x. m = Inr x)"
  by (cases m) auto

lemma emap_Inr_iff:
  "emap f xs = Inr ys \<longleftrightarrow> list_all2 (\<lambda>x y. f x = Inr y) xs ys"
proof (induction xs arbitrary: ys)
  case Nil
  then show ?case by auto
next
  case (Cons x xs)
  then show ?case by (cases ys) (auto simp: ebind_Inr_iff)
qed

lemma emap_length: "emap f xs = Inr ys \<Longrightarrow> length ys = length xs"
  by (auto simp: emap_Inr_iff dest: list_all2_lengthD)

lemma emap_in_set:
  assumes "emap f xs = Inr ys" and "y \<in> set ys"
  shows "\<exists>x \<in> set xs. f x = Inr y"
  using assms by (fastforce simp: emap_Inr_iff list_all2_conv_all_nth in_set_conv_nth)

lemma emap_of_set:
  assumes "emap f xs = Inr ys" and "x \<in> set xs"
  shows "\<exists>y \<in> set ys. f x = Inr y"
  using assms by (induction xs arbitrary: ys) (auto simp: ebind_Inr_iff)

lemma emap_all_ok:
  assumes "\<And>x. x \<in> set xs \<Longrightarrow> f x = Inr (g x)"
  shows "emap f xs = Inr (map g xs)"
  using assms by (induction xs) auto

lemma emap_InlE:
  assumes "emap f xs = Inl e"
  obtains x where "x \<in> set xs" "f x = Inl e"
  using assms by (induction xs) (auto simp: ebind_Inl_iff)

lemma efold_append:
  "efold f s (xs @ ys) = ebind (efold f s xs) (\<lambda>s'. efold f s' ys)"
proof (induction xs arbitrary: s)
  case Nil
  then show ?case by simp
next
  case (Cons x xs)
  then show ?case by (cases "f s x") auto
qed

text \<open>The loop rule: what one iteration keeps, the whole loop keeps.\<close>

lemma efold_invariant:
  assumes "efold f s xs = Inr t" and "P s"
    and "\<And>s x s'. P s \<Longrightarrow> x \<in> set xs \<Longrightarrow> f s x = Inr s' \<Longrightarrow> P s'"
  shows "P t"
  using assms
proof (induction xs arbitrary: s)
  case Nil
  then show ?case by simp
next
  case (Cons x xs)
  from Cons.prems(1) obtain s' where s': "f s x = Inr s'" "efold f s' xs = Inr t"
    by (auto simp: ebind_Inr_iff)
  have "P s'" by (rule Cons.prems(3) [OF Cons.prems(2) _ s'(1)]) simp
  show ?case
  proof (rule Cons.IH [OF s'(2) \<open>P s'\<close>])
    show "P u'" if "P u" "y \<in> set xs" "f u y = Inr u'" for u y u'
      by (rule Cons.prems(3) [OF that(1) _ that(3)]) (use that(2) in simp)
  qed
qed

text \<open>A loop that only raises ran every iteration without raising.\<close>

lemma efold_each_ok:
  assumes "efold (\<lambda>_ x. ebind (f x) (\<lambda>_. Inr ())) () xs = Inr ()" "x \<in> set xs"
  shows "\<exists>y. f x = Inr y"
  using assms by (induction xs) (auto simp: ebind_Inr_iff)

section \<open>Dictionaries in insertion order\<close>

text \<open>
  A Python \<open>dict\<close> iterates in insertion order and keeps the position of a key that is
  assigned again, which is what \<open>AList.update\<close> does on an association list.
\<close>

type_synonym ('k, 'v) dict = "('k \<times> 'v) list"

abbreviation dict_set :: "'k \<Rightarrow> 'v \<Rightarrow> ('k, 'v) dict \<Rightarrow> ('k, 'v) dict" where
  "dict_set k v d \<equiv> AList.update k v d"

abbreviation dict_get :: "('k, 'v) dict \<Rightarrow> 'k \<Rightarrow> 'v option" where
  "dict_get d k \<equiv> map_of d k"

abbreviation dict_keys :: "('k, 'v) dict \<Rightarrow> 'k list" where
  "dict_keys d \<equiv> map fst d"

definition dict_get_or :: "('k, 'v) dict \<Rightarrow> 'k \<Rightarrow> 'v \<Rightarrow> 'v" where
  "dict_get_or d k dflt = (case map_of d k of None \<Rightarrow> dflt | Some v \<Rightarrow> v)"

text \<open>\<open>{**d, **e}\<close> and \<open>d.update(e)\<close>.\<close>

definition dict_merge :: "('k, 'v) dict \<Rightarrow> ('k, 'v) dict \<Rightarrow> ('k, 'v) dict" where
  "dict_merge d e = fold (\<lambda>(k, v). AList.update k v) e d"

text \<open>\<open>defaultdict(list)\<close>: append to the list under a key.\<close>

definition dict_append :: "'k \<Rightarrow> 'v \<Rightarrow> ('k, 'v list) dict \<Rightarrow> ('k, 'v list) dict" where
  "dict_append k v d = AList.update k (dict_get_or d k [] @ [v]) d"

text \<open>Group a list by a key, groups in the order their keys first appear.\<close>

definition group_by :: "('a \<Rightarrow> 'k) \<Rightarrow> 'a list \<Rightarrow> ('k, 'a list) dict" where
  "group_by key xs = fold (\<lambda>x. dict_append (key x) x) xs []"

text \<open>A dict comprehension \<open>{key(x): x for x in xs}\<close>: later entries win.\<close>

definition index_by :: "('a \<Rightarrow> 'k) \<Rightarrow> 'a list \<Rightarrow> ('k, 'a) dict" where
  "index_by key xs = fold (\<lambda>x. AList.update (key x) x) xs []"

lemma dict_get_set [dict_simps]: "map_of (AList.update k v d) = (map_of d)(k \<mapsto> v)"
  by (rule AList.update_conv')

lemma find_append: "find P (xs @ ys) = (case find P xs of None \<Rightarrow> find P ys | Some x \<Rightarrow> Some x)"
  by (induction xs) auto

lemma dict_get_index_by: "dict_get (index_by key xs) k = find (\<lambda>x. key x = k) (rev xs)"
proof -
  have "dict_get (fold (\<lambda>x. AList.update (key x) x) xs e) k =
      (case find (\<lambda>x. key x = k) (rev xs) of None \<Rightarrow> dict_get e k | Some x \<Rightarrow> Some x)" for e
    by (induction xs arbitrary: e) (auto simp: dict_get_set find_append split: option.splits)
  then show ?thesis by (auto simp: index_by_def split: option.splits)
qed

lemma dict_get_or_set [dict_simps]:
  "dict_get_or (AList.update k v d) k' dflt = (if k' = k then v else dict_get_or d k' dflt)"
  by (simp add: dict_get_or_def dict_get_set)

lemma dict_get_or_append [dict_simps]:
  "dict_get_or (dict_append k v d) k' [] =
     (if k' = k then dict_get_or d k [] @ [v] else dict_get_or d k' [])"
  by (simp add: dict_append_def dict_get_or_set)

lemma dict_get_or_Nil [simp]: "dict_get_or [] k dflt = dflt"
  by (simp add: dict_get_or_def)

lemma dict_keys_set_eq: "set (dict_keys (AList.update k v d)) = insert k (set (dict_keys d))"
  using AList.dom_update [of k v d] by simp

lemma dict_keys_append_eq: "set (dict_keys (dict_append k v d)) = insert k (set (dict_keys d))"
  by (simp add: dict_append_def dict_keys_set_eq del: set_map)

lemma dict_get_or_fold_append:
  "dict_get_or (fold (\<lambda>x. dict_append (key x) x) xs d) k [] =
     dict_get_or d k [] @ filter (\<lambda>x. key x = k) xs"
  by (induction xs arbitrary: d) (auto simp: dict_get_or_append)

lemma group_by_get [dict_simps]: "dict_get_or (group_by key xs) k [] = filter (\<lambda>x. key x = k) xs"
  by (simp add: group_by_def dict_get_or_fold_append)

lemma dict_keys_fold_append:
  "set (dict_keys (fold (\<lambda>x. dict_append (key x) x) xs d)) = key ` set xs \<union> set (dict_keys d)"
  by (induction xs arbitrary: d) (auto simp: dict_keys_append_eq simp del: set_map)

lemma group_by_keys [dict_simps]: "set (dict_keys (group_by key xs)) = key ` set xs"
  by (simp only: group_by_def dict_keys_fold_append) simp

lemma distinct_dict_set: "distinct (dict_keys d) \<Longrightarrow> distinct (dict_keys (AList.update k v d))"
  by (rule AList.distinct_update)

lemma distinct_dict_append: "distinct (dict_keys d) \<Longrightarrow> distinct (dict_keys (dict_append k v d))"
  by (simp add: dict_append_def distinct_dict_set)

lemma distinct_group_by: "distinct (dict_keys (group_by key xs))"
proof -
  have "distinct (dict_keys d) \<Longrightarrow> distinct (dict_keys (fold (\<lambda>x. dict_append (key x) x) xs d))" for d
    by (induction xs arbitrary: d) (auto intro: distinct_dict_append)
  then show ?thesis by (simp add: group_by_def)
qed

lemma group_by_entry:
  assumes "(k, g) \<in> set (group_by key xs)"
  shows "g = filter (\<lambda>x. key x = k) xs"
proof -
  have "map_of (group_by key xs) k = Some g"
    using assms distinct_group_by by (rule map_of_is_SomeI [rotated])
  then have "dict_get_or (group_by key xs) k [] = g" by (simp add: dict_get_or_def)
  then show ?thesis by (simp add: group_by_get)
qed

section \<open>Sorting and sets\<close>

text \<open>\<open>sorted(set(xs))\<close>; \<open>sorted(xs, key=f)\<close> is the library's stable \<open>sort_key f xs\<close>.\<close>

definition sorted_set :: "'a::linorder list \<Rightarrow> 'a list" where
  "sorted_set xs = sort (remdups xs)"

lemma set_sorted_set [simp]: "set (sorted_set xs) = set xs"
  by (simp add: sorted_set_def)

lemma sorted_sorted_set [simp]: "sorted (sorted_set xs)"
  by (simp add: sorted_set_def)

lemma distinct_sorted_set [simp]: "distinct (sorted_set xs)"
  by (simp add: sorted_set_def)

lemma sorted_set_cong: "set xs = set ys \<Longrightarrow> sorted_set xs = sorted_set ys"
  by (rule sorted_distinct_set_unique) auto

lemma sorted_set_Nil_iff [simp]: "sorted_set xs = [] \<longleftrightarrow> xs = []"
  by (metis set_empty set_sorted_set)

text \<open>\<open>{v for v in values if values.count(v) > 1}\<close>.\<close>

definition duplicates :: "'a list \<Rightarrow> 'a list" where
  "duplicates xs = filter (\<lambda>x. 1 < count_list xs x) xs"

lemma distinct_if_count_list_le_1:
  "\<forall>x \<in> set xs. count_list xs x \<le> 1 \<Longrightarrow> distinct xs"
proof (induction xs)
  case Nil
  then show ?case by simp
next
  case (Cons x xs)
  from Cons.prems have "count_list xs x = 0" by simp
  then have "x \<notin> set xs" by (simp add: count_list_0_iff)
  moreover have "\<forall>y \<in> set xs. count_list xs y \<le> 1"
    using Cons.prems by (metis count_list.simps(2) le_Suc_eq list.set_intros(2) trans_le_add1 add_leE)
  ultimately show ?case using Cons.IH by simp
qed

lemma count_list_distinct_le: "distinct xs \<Longrightarrow> count_list xs x \<le> 1"
  by (induction xs) (auto simp: count_list_0_iff)

lemma duplicates_Nil_iff [simp]: "duplicates xs = [] \<longleftrightarrow> distinct xs"
proof
  assume "duplicates xs = []"
  then have *: "\<forall>x \<in> set xs. count_list xs x \<le> 1"
    by (simp add: duplicates_def filter_empty_conv not_less)
  then show "distinct xs" by (rule distinct_if_count_list_le_1)
next
  assume "distinct xs"
  then show "duplicates xs = []"
    using count_list_distinct_le [of xs] by (auto simp: duplicates_def filter_empty_conv not_less)
qed

text \<open>Minimum and maximum of a non-empty sequence (the callers check emptiness first).\<close>

fun list_min :: "'a::linorder \<Rightarrow> 'a list \<Rightarrow> 'a" where
  "list_min m [] = m"
| "list_min m (x # xs) = list_min (min m x) xs"

fun list_max :: "'a::linorder \<Rightarrow> 'a list \<Rightarrow> 'a" where
  "list_max m [] = m"
| "list_max m (x # xs) = list_max (max m x) xs"

lemma list_min_le: "x \<in> set (m # xs) \<Longrightarrow> list_min m xs \<le> x"
proof (induction xs arbitrary: m x)
  case Nil
  then show ?case by simp
next
  case (Cons y ys)
  have "list_min (min m y) ys \<le> min m y" by (rule Cons.IH) simp
  moreover have "list_min (min m y) ys \<le> x" if "x \<in> set ys"
    by (rule Cons.IH) (use that in simp)
  ultimately show ?case using Cons.prems by auto
qed

lemma list_max_ge: "x \<in> set (m # xs) \<Longrightarrow> x \<le> list_max m xs"
proof (induction xs arbitrary: m x)
  case Nil
  then show ?case by simp
next
  case (Cons y ys)
  have "max m y \<le> list_max (max m y) ys" by (rule Cons.IH) simp
  moreover have "x \<le> list_max (max m y) ys" if "x \<in> set ys"
    by (rule Cons.IH) (use that in simp)
  ultimately show ?case using Cons.prems by auto
qed

lemma list_min_in: "list_min m xs \<in> set (m # xs)"
  by (induction xs arbitrary: m) (fastforce simp: min_def)+

lemma list_max_in: "list_max m xs \<in> set (m # xs)"
  by (induction xs arbitrary: m) (fastforce simp: max_def)+

section \<open>Strings\<close>

text \<open>
  Identifiers are byte strings; comparing them byte by byte is the code-point order of
  the UTF-8 text they stand for. \<open>str.strip\<close> and \<open>str.lower\<close> are modelled on the
  ASCII range.
\<close>

definition is_space :: "char \<Rightarrow> bool" where
  "is_space c \<longleftrightarrow> (let n = (of_char c :: nat) in n = 32 \<or> (9 \<le> n \<and> n \<le> 13) \<or> (28 \<le> n \<and> n \<le> 31))"

definition str_strip :: "string \<Rightarrow> string" where
  "str_strip s = rev (dropWhile is_space (rev (dropWhile is_space s)))"

definition lower_char :: "char \<Rightarrow> char" where
  "lower_char c = (let n = (of_char c :: nat) in if 65 \<le> n \<and> n \<le> 90 then char_of (n + 32) else c)"

definition str_lower :: "string \<Rightarrow> string" where
  "str_lower s = map lower_char s"

definition str_replace_char :: "char \<Rightarrow> char \<Rightarrow> string \<Rightarrow> string" where
  "str_replace_char a b s = map (\<lambda>c. if c = a then b else c) s"

definition str_join :: "string \<Rightarrow> string list \<Rightarrow> string" where
  "str_join sep xs = (case xs of [] \<Rightarrow> [] | y # ys \<Rightarrow> y @ concat (map (\<lambda>z. sep @ z) ys))"

definition starts_with :: "string \<Rightarrow> string \<Rightarrow> bool" where
  "starts_with p s \<longleftrightarrow> take (length p) s = p"

text \<open>\<open>p in s\<close> on strings.\<close>

fun contains_str :: "string \<Rightarrow> string \<Rightarrow> bool" where
  "contains_str p [] = (p = [])"
| "contains_str p (c # cs) = (starts_with p (c # cs) \<or> contains_str p cs)"

lemma starts_with_append [simp]: "starts_with p (p @ s)"
  by (simp add: starts_with_def)

section \<open>Dates\<close>

text \<open>
  A \<open>datetime.date\<close> is its proleptic Gregorian ordinal: \<open>date.min\<close> is 1 (a Monday),
  \<open>date.max\<close> is 3652059. Subtracting dates gives days, \<open>timedelta(days=n)\<close> is \<open>n\<close>.
\<close>

type_synonym date = int

definition date_min :: date where "date_min = 1"
definition date_max :: date where "date_max = 3652059"

text \<open>\<open>date.weekday()\<close>: Monday is 0.\<close>

definition weekday :: "date \<Rightarrow> int" where
  "weekday d = (d + 6) mod 7"

lemma weekday_range: "0 \<le> weekday d \<and> weekday d \<le> 6"
  by (auto simp: weekday_def)

end
