(* ===== verification/Float64.thy ===== *)
theory Float64
  imports Prelude
begin

text \<open>
  Python's \<open>float\<close>: the numbers a binary64 can hold, as a subtype of the rationals.
  Every operation computes the exact result and rounds it to nearest, ties to even, with
  53 significant bits and gradual underflow at \<open>2 ^ -1074\<close>. Magnitudes beyond \<open>2 ^ 1024\<close>
  (infinities, and the not-a-number they lead to, which the strict contracts of the code
  reject) are outside the type's use here: the exponent range is not bounded above.
  The two zeros are one value.
\<close>

section \<open>Rounding\<close>

function bit_length :: "int \<Rightarrow> int" where
  "bit_length n = (if n \<le> 0 then 0 else 1 + bit_length (n div 2))"
  by pat_completeness auto
termination
  by (relation "measure nat") auto

declare bit_length.simps [simp del]

definition pow2 :: "int \<Rightarrow> rat" where
  "pow2 k = (if 0 \<le> k then 2 ^ nat k else 1 / 2 ^ nat (- k))"

text \<open>The \<open>k\<close> with \<open>2 ^ k \<le> x < 2 ^ (k + 1)\<close>, for positive \<open>x\<close>.\<close>

definition ilog2 :: "rat \<Rightarrow> int" where
  "ilog2 x = (let (n, d) = quotient_of x; k = bit_length n - bit_length d
              in if pow2 k \<le> x then k else k - 1)"

text \<open>The distance between neighbouring floats around \<open>x\<close>.\<close>

definition ulp_exp :: "rat \<Rightarrow> int" where
  "ulp_exp x = max (ilog2 \<bar>x\<bar>) (- 1022) - 52"

definition round_half_even :: "rat \<Rightarrow> int" where
  "round_half_even y =
     (let f = \<lfloor>y\<rfloor>; r = y - of_int f in
      if r < 1 / 2 then f else if 1 / 2 < r then f + 1 else if even f then f else f + 1)"

definition rnd :: "rat \<Rightarrow> rat" where
  "rnd x = (if x = 0 then 0
            else of_int (round_half_even (x / pow2 (ulp_exp x))) * pow2 (ulp_exp x))"

lemma pow2_pos [simp]: "0 < pow2 k"
  by (simp add: pow2_def)

lemma pow2_nonneg [simp]: "0 \<le> pow2 k"
  using pow2_pos [of k] by linarith

lemma abs_pow2 [simp]: "\<bar>pow2 k\<bar> = pow2 k"
  by simp

lemma pow2_neq_0 [simp]: "pow2 k \<noteq> 0"
  using pow2_pos [of k] by linarith

lemma pow2_eq_powi: "pow2 k = 2 powi k"
  by (simp add: pow2_def power_int_def inverse_eq_divide power_one_over)

lemma pow2_add: "pow2 (a + b) = pow2 a * pow2 b"
  by (simp add: pow2_eq_powi power_int_add)

lemma pow2_0 [simp]: "pow2 0 = 1"
  by (simp add: pow2_def)

lemma pow2_1 [simp]: "pow2 1 = 2"
  by (simp add: pow2_def)

lemma pow2_diff: "pow2 (a - b) = pow2 a / pow2 b"
  by (simp add: pow2_eq_powi power_int_diff)

lemma pow2_mono: "a \<le> b \<Longrightarrow> pow2 a \<le> pow2 b"
  by (simp add: pow2_eq_powi power_int_increasing)

lemma pow2_strict_mono: "a < b \<Longrightarrow> pow2 a < pow2 b"
  by (simp add: pow2_eq_powi power_int_strict_increasing)

lemma pow2_less_iff [simp]: "pow2 a < pow2 b \<longleftrightarrow> a < b"
  using pow2_mono [of b a] pow2_strict_mono [of a b] by linarith

lemma pow2_le_iff [simp]: "pow2 a \<le> pow2 b \<longleftrightarrow> a \<le> b"
  using pow2_mono [of a b] pow2_strict_mono [of b a] by linarith

lemma pow2_nat: "0 \<le> k \<Longrightarrow> pow2 k = of_int (2 ^ nat k)"
  by (simp add: pow2_def)

lemma bit_length_bounds:
  "0 < n \<Longrightarrow> pow2 (bit_length n - 1) \<le> of_int n \<and> of_int n < pow2 (bit_length n) \<and> 0 < bit_length n"
proof (induction n rule: bit_length.induct)
  case (1 n)
  have unfold: "bit_length n = 1 + bit_length (n div 2)"
    using "1.prems" by (simp add: bit_length.simps [of n])
  show ?case
  proof (cases "n = 1")
    case True
    have "bit_length 0 = 0" by (simp add: bit_length.simps)
    with True unfold show ?thesis by simp
  next
    case False
    define m where "m = n div 2"
    have m: "0 < m" "2 * m \<le> n" "n \<le> 2 * m + 1"
      using "1.prems" False by (auto simp: m_def)
    have IH: "pow2 (bit_length m - 1) \<le> of_int m" "of_int m < pow2 (bit_length m)" "0 < bit_length m"
      using "1.IH" "1.prems" m(1) by (auto simp: m_def)
    have "of_int m + 1 \<le> pow2 (bit_length m)"
    proof -
      have "(of_int m :: rat) < of_int (2 ^ nat (bit_length m))"
        using IH(2,3) by (simp add: pow2_nat)
      then have "m + 1 \<le> 2 ^ nat (bit_length m)" by (simp only: of_int_less_iff)
      then have "(of_int (m + 1) :: rat) \<le> of_int (2 ^ nat (bit_length m))"
        by (simp only: of_int_le_iff)
      then show ?thesis using IH(3) by (simp add: pow2_nat)
    qed
    moreover have "(of_int (2 * m) :: rat) \<le> of_int n" "(of_int n :: rat) \<le> of_int (2 * m + 1)"
      using m by (simp_all only: of_int_le_iff)
    moreover have "pow2 (1 + bit_length m) = 2 * pow2 (bit_length m)"
      "pow2 (bit_length m) = 2 * pow2 (bit_length m - 1)"
      by (simp_all add: pow2_add pow2_diff)
    ultimately show ?thesis using IH unfold by (simp add: m_def)
  qed
qed

lemma ilog2_bounds:
  assumes "0 < x"
  shows "pow2 (ilog2 x) \<le> x" and "x < pow2 (ilog2 x + 1)"
proof -
  obtain n d where q: "quotient_of x = (n, d)" by (cases "quotient_of x")
  define k where "k = bit_length n - bit_length d"
  have x: "x = of_int n / of_int d" and d: "0 < d"
    using q by (auto intro: quotient_of_div quotient_of_denom_pos)
  then have n: "0 < n" using assms by (simp add: zero_less_divide_iff)
  have bn: "pow2 (bit_length n - 1) \<le> of_int n" "of_int n < pow2 (bit_length n)"
    and bd: "pow2 (bit_length d - 1) \<le> of_int d" "of_int d < pow2 (bit_length d)"
    using bit_length_bounds n d by auto
  have up: "x < pow2 (k + 1)"
  proof -
    have "x < pow2 (bit_length n) / of_int d"
      unfolding x using bn(2) d by (simp add: divide_strict_right_mono)
    also have "\<dots> \<le> pow2 (bit_length n) / pow2 (bit_length d - 1)"
      using bd(1) by (intro divide_left_mono) (simp_all add: d less_imp_le [OF pow2_pos])
    also have "\<dots> = pow2 (k + 1)"
      by (simp add: k_def pow2_diff [symmetric] algebra_simps)
    finally show ?thesis .
  qed
  have low: "pow2 (k - 1) \<le> x"
  proof -
    have "pow2 (k - 1) = pow2 (bit_length n - 1) / pow2 (bit_length d)"
      by (simp add: k_def pow2_diff [symmetric] algebra_simps)
    also have "\<dots> \<le> of_int n / pow2 (bit_length d)"
      using bn(1) by (simp add: divide_right_mono)
    also have "\<dots> \<le> x"
      unfolding x using bd(2) d n by (intro divide_left_mono) simp_all
    finally show ?thesis .
  qed
  have "ilog2 x = (if pow2 k \<le> x then k else k - 1)"
    by (simp add: ilog2_def q k_def)
  then show "pow2 (ilog2 x) \<le> x" "x < pow2 (ilog2 x + 1)"
    using up low by auto
qed

lemma ilog2_unique:
  assumes "pow2 k \<le> x" "x < pow2 (k + 1)"
  shows "ilog2 x = k"
proof -
  have "0 < x" using assms(1) pow2_pos [of k] by linarith
  then have "pow2 (ilog2 x) \<le> x" "x < pow2 (ilog2 x + 1)" by (rule ilog2_bounds)+
  with assms have "pow2 (ilog2 x) < pow2 (k + 1)" "pow2 k < pow2 (ilog2 x + 1)" by linarith+
  then show ?thesis by simp
qed

lemma ilog2_mono: "0 < x \<Longrightarrow> x \<le> y \<Longrightarrow> ilog2 x \<le> ilog2 y"
proof -
  assume "0 < x" "x \<le> y"
  then have "pow2 (ilog2 x) < pow2 (ilog2 y + 1)"
    using ilog2_bounds [of x] ilog2_bounds [of y] by linarith
  then show ?thesis by simp
qed


subsection \<open>Rounding to an integer\<close>

lemma round_half_even_of_int [simp]: "round_half_even (of_int m) = m"
  by (simp add: round_half_even_def)

lemma round_half_even_near: "\<bar>of_int (round_half_even y) - y\<bar> \<le> 1 / 2"
  using floor_correct [of y] by (simp add: round_half_even_def Let_def)

lemma round_half_even_mono:
  assumes "x \<le> y"
  shows "round_half_even x \<le> round_half_even y"
proof (cases "\<lfloor>x\<rfloor> = \<lfloor>y\<rfloor>")
  case True
  with assms show ?thesis by (auto simp: round_half_even_def Let_def)
next
  case False
  with assms have "\<lfloor>x\<rfloor> + 1 \<le> \<lfloor>y\<rfloor>" using floor_mono [OF assms] by linarith
  moreover have "round_half_even x \<le> \<lfloor>x\<rfloor> + 1" by (simp add: round_half_even_def Let_def)
  moreover have "\<lfloor>y\<rfloor> \<le> round_half_even y" by (simp add: round_half_even_def Let_def)
  ultimately show ?thesis by linarith
qed

lemma round_half_even_uminus: "round_half_even (- y) = - round_half_even y"
proof (cases "y = of_int \<lfloor>y\<rfloor>")
  case True
  then have "round_half_even y = \<lfloor>y\<rfloor>" by (metis round_half_even_of_int)
  moreover have "round_half_even (- y) = - \<lfloor>y\<rfloor>"
    using True by (metis of_int_minus round_half_even_of_int)
  ultimately show ?thesis by simp
next
  case False
  then have "of_int \<lfloor>y\<rfloor> < y"
    using floor_correct [of y] by linarith
  then have "\<lfloor>- y\<rfloor> = - \<lfloor>y\<rfloor> - 1"
    using floor_correct [of y] by (intro floor_unique) simp_all
  then show ?thesis by (auto simp: round_half_even_def Let_def)
qed

subsection \<open>Rounding to a float\<close>

lemma ulp_exp_ge: "- 1074 \<le> ulp_exp x"
  by (simp add: ulp_exp_def)

lemma ulp_exp_uminus [simp]: "ulp_exp (- x) = ulp_exp x"
  by (simp add: ulp_exp_def)

lemma ulp_exp_mono: "0 < x \<Longrightarrow> x \<le> y \<Longrightarrow> ulp_exp x \<le> ulp_exp y"
  using ilog2_mono [of x y] by (auto simp: ulp_exp_def)

lemma rnd_0 [simp]: "rnd 0 = 0"
  by (simp add: rnd_def)

lemma rnd_uminus: "rnd (- x) = - rnd x"
  by (simp add: rnd_def round_half_even_uminus)

text \<open>A multiple of the local spacing is already a float.\<close>

lemma rnd_multiple:
  assumes "x = of_int m * pow2 k" and "ulp_exp x \<le> k"
  shows "rnd x = x"
proof -
  have "x / pow2 (ulp_exp x) = of_int m * pow2 (k - ulp_exp x)"
    by (simp add: assms(1) pow2_diff)
  also have "\<dots> = of_int (m * 2 ^ nat (k - ulp_exp x))"
    using assms(2) by (simp add: pow2_nat)
  finally have "round_half_even (x / pow2 (ulp_exp x)) = m * 2 ^ nat (k - ulp_exp x)"
    by (metis round_half_even_of_int)
  then have "rnd x = of_int (m * 2 ^ nat (k - ulp_exp x)) * pow2 (ulp_exp x)" if "x \<noteq> 0"
    using that by (simp add: rnd_def)
  also have "\<dots> = of_int m * (pow2 (k - ulp_exp x) * pow2 (ulp_exp x))"
    using assms(2) by (simp add: pow2_nat)
  also have "\<dots> = x" by (simp add: assms(1) pow2_add [symmetric])
  finally show ?thesis by (cases "x = 0") simp_all
qed

lemma rnd_grid_less:
  assumes "x = of_int m * pow2 k" "\<bar>m\<bar> < 2 ^ 53" "- 1074 \<le> k"
  shows "rnd x = x"
proof (cases "m = 0")
  case True
  with assms show ?thesis by simp
next
  case False
  have "(of_int \<bar>m\<bar> :: rat) < of_int (2 ^ 53)" using assms(2) by (simp only: of_int_less_iff)
  then have "\<bar>x\<bar> < of_int (2 ^ 53) * pow2 k" by (simp add: assms(1) abs_mult)
  also have "\<dots> = pow2 (53 + k)" by (simp only: pow2_add) (simp add: pow2_def)
  finally have "\<bar>x\<bar> < pow2 (53 + k)" .
  moreover have "0 < \<bar>x\<bar>" using False by (simp add: assms(1))
  then have "pow2 (ilog2 \<bar>x\<bar>) \<le> \<bar>x\<bar>" by (rule ilog2_bounds)
  ultimately have "pow2 (ilog2 \<bar>x\<bar>) < pow2 (53 + k)" by linarith
  then have "ulp_exp x \<le> k" using assms(3) by (simp add: ulp_exp_def)
  with assms(1) show ?thesis by (rule rnd_multiple)
qed

lemma rnd_grid:
  assumes "x = of_int m * pow2 k" "\<bar>m\<bar> \<le> 2 ^ 53" "- 1074 \<le> k"
  shows "rnd x = x"
proof (cases "\<bar>m\<bar> = 2 ^ 53")
  case True
  define m' where "m' = m div 2"
  have m_cases: "m = 9007199254740992 \<or> m = - 9007199254740992"
    using True by (auto simp: abs_if split: if_splits)
  have m: "m = 2 * m'" "\<bar>m'\<bar> < 2 ^ 53"
    using m_cases by (auto simp: m'_def)
  have "x = of_int m' * pow2 (k + 1)" by (simp add: assms(1) m(1) pow2_add)
  then show ?thesis by (rule rnd_grid_less) (use m(2) assms(3) in simp_all)
next
  case False
  with assms(2) have "\<bar>m\<bar> < 2 ^ 53" by linarith
  with assms(1,3) show ?thesis by (intro rnd_grid_less)
qed

lemma rnd_of_int: "\<bar>m\<bar> \<le> 2 ^ 53 \<Longrightarrow> rnd (of_int m) = of_int m"
  by (rule rnd_grid [of _ m 0]) simp_all

text \<open>Every rounded number lies on a grid with at most 53 bits, so rounding is idempotent.\<close>

lemma rnd_on_grid:
  obtains m where "rnd x = of_int m * pow2 (ulp_exp x)" "\<bar>m\<bar> \<le> 2 ^ 53"
proof (cases "x = 0")
  case True
  then show ?thesis using that [of 0] by simp
next
  case False
  define e where "e = ulp_exp x"
  define m where "m = round_half_even (x / pow2 e)"
  have "0 < \<bar>x\<bar>" using False by simp
  then have "\<bar>x\<bar> < pow2 (ilog2 \<bar>x\<bar> + 1)" by (rule ilog2_bounds)
  also have "\<dots> \<le> pow2 (e + 53)" by (simp add: e_def ulp_exp_def)
  also have "\<dots> = of_int (2 ^ 53) * pow2 e" by (simp only: pow2_add) (simp add: pow2_def)
  finally have "\<bar>x / pow2 e\<bar> \<le> of_int (2 ^ 53)" by (simp add: abs_divide pos_divide_le_eq)
  then have "x / pow2 e \<le> of_int (2 ^ 53)" "of_int (- (2 ^ 53)) \<le> x / pow2 e"
    by (simp_all only: of_int_minus abs_le_iff) linarith+
  then have "m \<le> 2 ^ 53" "- (2 ^ 53) \<le> m"
    unfolding m_def by (metis round_half_even_mono round_half_even_of_int)+
  then have "\<bar>m\<bar> \<le> 2 ^ 53" by linarith
  moreover have "rnd x = of_int m * pow2 e" using False by (simp add: rnd_def m_def e_def)
  ultimately show ?thesis using that by (simp add: e_def)
qed

lemma rnd_rnd [simp]: "rnd (rnd x) = rnd x"
proof -
  obtain m where "rnd x = of_int m * pow2 (ulp_exp x)" "\<bar>m\<bar> \<le> 2 ^ 53" by (rule rnd_on_grid)
  then show ?thesis by (rule rnd_grid) (rule ulp_exp_ge)
qed

lemma rnd_nonneg: "0 \<le> x \<Longrightarrow> 0 \<le> rnd x"
proof -
  assume "0 \<le> x"
  then have "0 \<le> x / pow2 (ulp_exp x)" using pow2_pos [of "ulp_exp x"] by simp
  then have "round_half_even 0 \<le> round_half_even (x / pow2 (ulp_exp x))" by (rule round_half_even_mono)
  then have "0 \<le> round_half_even (x / pow2 (ulp_exp x))" using round_half_even_of_int [of 0] by simp
  then show ?thesis by (simp add: rnd_def less_imp_le)
qed

lemma rnd_same_ulp: "x \<le> y \<Longrightarrow> x \<noteq> 0 \<Longrightarrow> y \<noteq> 0 \<Longrightarrow> ulp_exp x = ulp_exp y \<Longrightarrow> rnd x \<le> rnd y"
  by (simp add: rnd_def round_half_even_mono divide_right_mono less_imp_le)

lemma rnd_pow2: "- 1074 \<le> k \<Longrightarrow> rnd (pow2 k) = pow2 k"
  by (rule rnd_grid [of _ 1]) simp_all

lemma rnd_mono_pos:
  assumes "0 < x" "x \<le> y"
  shows "rnd x \<le> rnd y"
proof (cases "ulp_exp x = ulp_exp y")
  case True
  with assms show ?thesis by (intro rnd_same_ulp) simp_all
next
  case False
  with ulp_exp_mono [OF assms] have less: "ulp_exp x < ulp_exp y" by simp
  define k where "k = ilog2 y"
  have y: "0 < y" using assms by linarith
  have k: "ulp_exp y = k - 52" "- 1022 < k" "ilog2 x < k"
    using less assms y by (auto simp: ulp_exp_def k_def split: if_splits)
  have ky: "pow2 k \<le> y" using ilog2_bounds(1) [OF y] by (simp add: k_def)
  have "x < pow2 (ilog2 x + 1)" using assms(1) by (rule ilog2_bounds)
  also have "\<dots> \<le> pow2 k" using k(3) by simp
  finally have xk: "x \<le> pow2 k" by simp
  have r: "rnd (pow2 k) = pow2 k" using k(2) by (intro rnd_pow2) simp
  have "of_int (round_half_even (x / pow2 (ulp_exp x))) * pow2 (ulp_exp x) \<le> pow2 k"
  proof -
    have "0 \<le> k - ulp_exp x" using less k by simp
    then have p: "pow2 (k - ulp_exp x) = of_int (2 ^ nat (k - ulp_exp x))" by (rule pow2_nat)
    have "x / pow2 (ulp_exp x) \<le> pow2 (k - ulp_exp x)"
      using xk by (simp add: pow2_diff divide_right_mono less_imp_le)
    then have "round_half_even (x / pow2 (ulp_exp x)) \<le> 2 ^ nat (k - ulp_exp x)"
      using round_half_even_mono p round_half_even_of_int by metis
    then have "(of_int (round_half_even (x / pow2 (ulp_exp x))) :: rat) \<le> of_int (2 ^ nat (k - ulp_exp x))"
      by (simp only: of_int_le_iff)
    then have "of_int (round_half_even (x / pow2 (ulp_exp x))) \<le> pow2 (k - ulp_exp x)" by (simp only: p)
    then show ?thesis by (simp add: pow2_diff pos_le_divide_eq)
  qed
  then have "rnd x \<le> pow2 k" using assms(1) by (simp add: rnd_def)
  also have "pow2 k \<le> rnd y"
  proof -
    have "of_int (2 ^ 52) = pow2 k / pow2 (ulp_exp y)"
      by (simp only: pow2_diff [symmetric] k(1)) (simp add: pow2_def)
    also have "\<dots> \<le> y / pow2 (ulp_exp y)" using ky by (simp add: divide_right_mono less_imp_le)
    finally have "2 ^ 52 \<le> round_half_even (y / pow2 (ulp_exp y))"
      using round_half_even_mono round_half_even_of_int by metis
    then have "(of_int (2 ^ 52) :: rat) \<le> of_int (round_half_even (y / pow2 (ulp_exp y)))"
      by (simp only: of_int_le_iff)
    then have "of_int (2 ^ 52) * pow2 (ulp_exp y) \<le> rnd y"
      using y by (simp add: rnd_def)
    moreover have "of_int (2 ^ 52) * pow2 (ulp_exp y) = pow2 k"
      by (simp add: k(1) pow2_diff) (simp add: pow2_def)
    ultimately show ?thesis by simp
  qed
  finally show ?thesis .
qed

lemma rnd_mono:
  assumes "x \<le> y"
  shows "rnd x \<le> rnd y"
proof -
  consider "0 < x" | "x \<le> 0" "0 \<le> y" | "y < 0" by linarith
  then show ?thesis
  proof cases
    case 1
    then show ?thesis using assms by (rule rnd_mono_pos)
  next
    case 2
    then have "0 \<le> rnd (- x)" "0 \<le> rnd y" by (auto intro: rnd_nonneg)
    then show ?thesis by (simp add: rnd_uminus)
  next
    case 3
    then have "rnd (- y) \<le> rnd (- x)" using assms by (intro rnd_mono_pos) simp_all
    then show ?thesis by (simp add: rnd_uminus)
  qed
qed


section \<open>The type of floats\<close>

typedef f64 = "{x :: rat. rnd x = x}" morphisms rat_of f64_of
  by (rule exI [of _ 0]) simp

setup_lifting type_definition_f64

text \<open>The float nearest to a rational: a literal such as \<open>0.001\<close>, or \<open>float(n)\<close>.\<close>

lift_definition fl :: "rat \<Rightarrow> f64" is rnd by simp

definition fint :: "int \<Rightarrow> f64" where
  "fint n = fl (of_int n)"

instantiation f64 :: "{zero, one, plus, minus, uminus, times, inverse, abs, linorder, equal}"
begin

lift_definition zero_f64 :: f64 is 0 by simp
lift_definition one_f64 :: f64 is 1 using rnd_of_int [of 1] by simp
lift_definition plus_f64 :: "f64 \<Rightarrow> f64 \<Rightarrow> f64" is "\<lambda>x y. rnd (x + y)" by simp
lift_definition minus_f64 :: "f64 \<Rightarrow> f64 \<Rightarrow> f64" is "\<lambda>x y. rnd (x - y)" by simp
lift_definition uminus_f64 :: "f64 \<Rightarrow> f64" is uminus by (simp add: rnd_uminus)
lift_definition times_f64 :: "f64 \<Rightarrow> f64 \<Rightarrow> f64" is "\<lambda>x y. rnd (x * y)" by simp
lift_definition divide_f64 :: "f64 \<Rightarrow> f64 \<Rightarrow> f64" is "\<lambda>x y. rnd (x / y)" by simp
lift_definition inverse_f64 :: "f64 \<Rightarrow> f64" is "\<lambda>x. rnd (1 / x)" by simp
lift_definition abs_f64 :: "f64 \<Rightarrow> f64" is abs by (simp add: abs_if rnd_uminus)
lift_definition less_eq_f64 :: "f64 \<Rightarrow> f64 \<Rightarrow> bool" is "(\<le>)" .
lift_definition less_f64 :: "f64 \<Rightarrow> f64 \<Rightarrow> bool" is "(<)" .
lift_definition equal_f64 :: "f64 \<Rightarrow> f64 \<Rightarrow> bool" is "(=)" .

instance
proof
  fix x y z :: f64
  show "x < y \<longleftrightarrow> x \<le> y \<and> \<not> y \<le> x" by transfer auto
  show "x \<le> x" by transfer simp
  show "x \<le> y \<Longrightarrow> y \<le> z \<Longrightarrow> x \<le> z" by transfer simp
  show "x \<le> y \<Longrightarrow> y \<le> x \<Longrightarrow> x = y" by transfer simp
  show "x \<le> y \<or> y \<le> x" by transfer auto
  show "HOL.equal x y \<longleftrightarrow> x = y" by transfer simp
qed

end

lemmas f64_rep = plus_f64.rep_eq minus_f64.rep_eq uminus_f64.rep_eq times_f64.rep_eq
  divide_f64.rep_eq zero_f64.rep_eq one_f64.rep_eq fl.rep_eq abs_f64.rep_eq

lemma rnd_rat_of [simp]: "rnd (rat_of x) = rat_of x"
  using rat_of [of x] by simp

lemma f64_eq_iff: "x = y \<longleftrightarrow> rat_of x = rat_of y"
  by (simp add: rat_of_inject)

lemma f64_le_iff: "x \<le> y \<longleftrightarrow> rat_of x \<le> rat_of y"
  by (rule less_eq_f64.rep_eq)

lemma f64_less_iff: "x < y \<longleftrightarrow> rat_of x < rat_of y"
  by (rule less_f64.rep_eq)

lemmas f64_cmp = f64_eq_iff f64_le_iff f64_less_iff

text \<open>Laws that hold for every float, rounding included.\<close>

named_theorems f64_laws \<open>laws of float arithmetic that rounding keeps\<close>

lemma f64_add_0 [simp]: "x + 0 = (x :: f64)" "0 + x = (x :: f64)"
  by (simp_all add: f64_cmp f64_rep)

lemma f64_diff_0 [simp]: "x - 0 = (x :: f64)" "x - x = (0 :: f64)"
  by (simp_all add: f64_cmp f64_rep)

lemma f64_mult_0 [simp]: "x * 0 = (0 :: f64)" "0 * x = (0 :: f64)"
  by (simp_all add: f64_cmp f64_rep)

lemma f64_mult_1 [simp]: "x * 1 = (x :: f64)" "1 * x = (x :: f64)"
  by (simp_all add: f64_cmp f64_rep)

lemma f64_div_1 [simp]: "x / 1 = (x :: f64)"
  by (simp add: f64_cmp f64_rep)

lemma f64_0_div [simp]: "0 / x = (0 :: f64)"
  by (simp add: f64_cmp f64_rep)

lemma f64_0_less_1 [simp]: "(0 :: f64) < 1" "(0 :: f64) \<le> 1" "(0 :: f64) \<noteq> 1" "(1 :: f64) \<noteq> 0"
  by (simp_all add: f64_cmp f64_rep)

lemma f64_add_comm: "x + y = y + (x :: f64)"
  by (simp add: f64_cmp f64_rep add.commute)

lemma f64_add_mono [f64_laws]: "a \<le> b \<Longrightarrow> c \<le> d \<Longrightarrow> a + c \<le> b + (d :: f64)"
  by (auto simp: f64_cmp f64_rep intro: rnd_mono add_mono)

lemma f64_add_nonneg [f64_laws]: "0 \<le> a \<Longrightarrow> 0 \<le> b \<Longrightarrow> 0 \<le> a + (b :: f64)"
  using f64_add_mono [of 0 a 0 b] by simp

lemma f64_add_increasing: "0 \<le> b \<Longrightarrow> a \<le> a + (b :: f64)"
  using f64_add_mono [of a a 0 b] by simp

lemma f64_diff_mono: "a \<le> b \<Longrightarrow> d \<le> c \<Longrightarrow> a - c \<le> b - (d :: f64)"
  by (auto simp: f64_cmp f64_rep intro: rnd_mono diff_mono)

lemma f64_diff_nonneg [f64_laws]: "b \<le> a \<Longrightarrow> 0 \<le> a - (b :: f64)"
  using f64_diff_mono [of b a b b] by simp

lemma f64_diff_le [f64_laws]: "0 \<le> b \<Longrightarrow> a - b \<le> (a :: f64)"
  using f64_diff_mono [of a a 0 b] by simp

lemma f64_mult_nonneg [f64_laws]: "0 \<le> a \<Longrightarrow> 0 \<le> b \<Longrightarrow> 0 \<le> a * (b :: f64)"
  by (simp add: f64_cmp f64_rep rnd_nonneg)

lemma f64_mult_right_mono [f64_laws]: "a \<le> b \<Longrightarrow> 0 \<le> c \<Longrightarrow> a * c \<le> b * (c :: f64)"
  by (auto simp: f64_cmp f64_rep intro: rnd_mono mult_right_mono)

lemma f64_div_nonneg [f64_laws]: "0 \<le> a \<Longrightarrow> 0 \<le> b \<Longrightarrow> 0 \<le> a / (b :: f64)"
  by (simp add: f64_cmp f64_rep rnd_nonneg)

lemma f64_div_right_mono [f64_laws]: "a \<le> b \<Longrightarrow> 0 \<le> c \<Longrightarrow> a / c \<le> b / (c :: f64)"
  by (auto simp: f64_cmp f64_rep intro: rnd_mono divide_right_mono)

text \<open>A difference of distinct floats never rounds to zero (gradual underflow).\<close>

lemma rnd_eq_0_iff_small: "rnd x = 0 \<Longrightarrow> \<bar>x\<bar> < pow2 (- 1074)"
proof (rule ccontr)
  assume *: "rnd x = 0" "\<not> \<bar>x\<bar> < pow2 (- 1074)"
  then have "rnd (pow2 (- 1074)) \<le> rnd \<bar>x\<bar>" by (intro rnd_mono) simp
  then have "pow2 (- 1074) \<le> rnd \<bar>x\<bar>" by (simp add: rnd_pow2)
  moreover have "rnd \<bar>x\<bar> = \<bar>rnd x\<bar>"
    using *(1) by (cases "0 \<le> x") (simp_all add: rnd_uminus)
  ultimately show False using * pow2_pos [of "- 1074"] by simp
qed

lemma f64_on_min_grid: obtains m where "rat_of x = of_int m * pow2 (- 1074)"
proof -
  obtain m where m: "rnd (rat_of x) = of_int m * pow2 (ulp_exp (rat_of x))" by (rule rnd_on_grid)
  have "pow2 (ulp_exp (rat_of x)) = pow2 (ulp_exp (rat_of x) + 1074) * pow2 (- 1074)"
    by (simp add: pow2_add [symmetric])
  also have "pow2 (ulp_exp (rat_of x) + 1074) = of_int (2 ^ nat (ulp_exp (rat_of x) + 1074))"
    using ulp_exp_ge [of "rat_of x"] by (intro pow2_nat) simp
  finally have "rat_of x = of_int (m * 2 ^ nat (ulp_exp (rat_of x) + 1074)) * pow2 (- 1074)"
    using m by simp
  then show ?thesis by (rule that)
qed

lemma f64_diff_eq_0_iff: "x - y = (0 :: f64) \<longleftrightarrow> x = y"
proof
  assume "x - y = 0"
  then have "rnd (rat_of x - rat_of y) = 0" by (simp add: f64_cmp f64_rep)
  then have small: "\<bar>rat_of x - rat_of y\<bar> < pow2 (- 1074)" by (rule rnd_eq_0_iff_small)
  obtain m where m: "rat_of x = of_int m * pow2 (- 1074)" by (rule f64_on_min_grid)
  obtain n where n: "rat_of y = of_int n * pow2 (- 1074)" by (rule f64_on_min_grid)
  have "rat_of x - rat_of y = of_int (m - n) * pow2 (- 1074)" by (simp add: m n algebra_simps)
  with small have "\<bar>of_int (m - n) :: rat\<bar> * pow2 (- 1074) < 1 * pow2 (- 1074)" by (simp add: abs_mult)
  then have "\<bar>of_int (m - n) :: rat\<bar> < 1" by (simp only: mult_less_cancel_right_pos pow2_pos)
  then have "m = n" by linarith
  then show "x = y" by (simp add: f64_cmp m n)
qed simp

lemma f64_diff_pos [f64_laws]: "y < x \<Longrightarrow> 0 < x - (y :: f64)"
  using f64_diff_nonneg [of y x] f64_diff_eq_0_iff [of x y] by (auto simp: order_less_le)

subsection \<open>Integers below \<open>2 ^ 53\<close> compute exactly\<close>

definition exact_int :: "int \<Rightarrow> bool" where
  "exact_int n \<longleftrightarrow> \<bar>n\<bar> \<le> 2 ^ 53"

lemma rat_of_fint [simp]: "exact_int n \<Longrightarrow> rat_of (fint n) = of_int n"
  by (simp add: fint_def exact_int_def fl.rep_eq rnd_of_int)

lemma fint_0 [simp]: "fint 0 = 0"
  by (simp add: f64_cmp f64_rep exact_int_def)

lemma fint_1 [simp]: "fint 1 = 1"
  by (simp add: f64_cmp f64_rep exact_int_def)

lemma fint_arith:
  assumes "exact_int a" "exact_int b"
  shows "exact_int (a + b) \<Longrightarrow> fint a + fint b = fint (a + b)"
    and "exact_int (a - b) \<Longrightarrow> fint a - fint b = fint (a - b)"
    and "exact_int (a * b) \<Longrightarrow> fint a * fint b = fint (a * b)"
    and "fint a \<le> fint b \<longleftrightarrow> a \<le> b" and "fint a < fint b \<longleftrightarrow> a < b" and "fint a = fint b \<longleftrightarrow> a = b"
  using assms
  by (simp_all add: f64_cmp f64_rep rnd_of_int exact_int_def
        flip: of_int_add of_int_diff of_int_mult)

lemma fint_zero_cmp:
  assumes "exact_int a"
  shows "0 \<le> fint a \<longleftrightarrow> 0 \<le> a" and "0 < fint a \<longleftrightarrow> 0 < a"
    and "fint a \<le> 0 \<longleftrightarrow> a \<le> 0" and "fint a < 0 \<longleftrightarrow> a < 0"
    and "fint a = 0 \<longleftrightarrow> a = 0" and "0 = fint a \<longleftrightarrow> a = 0"
  using assms by (simp_all add: f64_cmp f64_rep)

lemma fint_one_arith:
  assumes "exact_int a"
  shows "1 \<le> fint a \<longleftrightarrow> 1 \<le> a" and "1 < fint a \<longleftrightarrow> 1 < a"
    and "fint a \<le> 1 \<longleftrightarrow> a \<le> 1" and "fint a < 1 \<longleftrightarrow> a < 1" and "fint a = 1 \<longleftrightarrow> a = 1"
  using assms by (simp_all add: f64_cmp f64_rep)

text \<open>Evaluation of float expressions over integer literals.\<close>

lemmas fint_eval = fint_arith fint_zero_cmp fint_one_arith exact_int_def

section \<open>Library functions on floats\<close>

text \<open>\<open>math.isclose\<close>.\<close>

definition isclose :: "f64 \<Rightarrow> f64 \<Rightarrow> f64 \<Rightarrow> f64 \<Rightarrow> bool" where
  "isclose a b rel_tol abs_tol \<longleftrightarrow>
     (if a = b then True
      else let diff = \<bar>b - a\<bar> in
        diff \<le> \<bar>rel_tol * b\<bar> \<or> diff \<le> \<bar>rel_tol * a\<bar> \<or> diff \<le> abs_tol)"

text \<open>
  The built-in \<open>sum\<close> over floats (CPython 3.12 and later): Neumaier's compensated
  summation, the running correction added at the end.
\<close>

fun neumaier :: "f64 \<Rightarrow> f64 \<Rightarrow> f64 list \<Rightarrow> f64" where
  "neumaier s c [] = (if c = 0 then s else s + c)"
| "neumaier s c (x # xs) =
     (let t = s + x in
      neumaier t (c + (if \<bar>x\<bar> \<le> \<bar>s\<bar> then (s - t) + x else (x - t) + s)) xs)"

definition py_sum :: "f64 list \<Rightarrow> f64" where
  "py_sum xs = neumaier 0 0 xs"

text \<open>An accumulation loop \<open>acc += x\<close> rounds at every step.\<close>

definition running_sum :: "f64 list \<Rightarrow> f64" where
  "running_sum xs = fold (\<lambda>x acc. acc + x) xs 0"

definition py_floor :: "f64 \<Rightarrow> int" where "py_floor x = \<lfloor>rat_of x\<rfloor>"
definition py_ceil :: "f64 \<Rightarrow> int" where "py_ceil x = \<lceil>rat_of x\<rceil>"
definition py_round :: "f64 \<Rightarrow> int" where "py_round x = round_half_even (rat_of x)"

lemma isclose_refl [simp]: "isclose a a r t"
  by (simp add: isclose_def)

lemma py_sum_Nil [simp]: "py_sum [] = 0"
  by (simp add: py_sum_def)

lemma py_sum_single [simp]: "py_sum [x] = x"
proof -
  have "x = 0" if "\<bar>x\<bar> \<le> \<bar>0 :: f64\<bar>" using that by (simp add: f64_cmp f64_rep)
  then show ?thesis by (auto simp: py_sum_def Let_def)
qed

lemma running_sum_nonneg: "\<forall>x \<in> set xs. 0 \<le> x \<Longrightarrow> 0 \<le> running_sum xs"
proof -
  have "0 \<le> acc \<Longrightarrow> \<forall>x \<in> set xs. 0 \<le> x \<Longrightarrow> 0 \<le> fold (\<lambda>x acc. acc + x) xs acc" for acc
    by (induction xs arbitrary: acc) (auto intro: f64_laws)
  then show "\<forall>x \<in> set xs. 0 \<le> x \<Longrightarrow> 0 \<le> running_sum xs" by (simp add: running_sum_def)
qed


subsection \<open>Sums of exact integers are exact\<close>

lemma neumaier_fint:
  assumes "\<forall>n \<in> set ns. 0 \<le> n" "0 \<le> s" "exact_int (s + sum_list ns)"
  shows "neumaier (fint s) 0 (map fint ns) = fint (s + sum_list ns)"
  using assms
proof (induction ns arbitrary: s)
  case Nil
  then show ?case by simp
next
  case (Cons n ns)
  have pos: "0 \<le> n" "0 \<le> sum_list ns" using Cons.prems by (auto intro: sum_list_nonneg)
  then have ex: "exact_int s" "exact_int n" "exact_int (s + n)" "exact_int (s - (s + n))"
    "exact_int (n - (s + n))" "exact_int (- n)" "exact_int (- s)" "exact_int 0"
    using Cons.prems by (auto simp: exact_int_def)
  have add: "fint s + fint n = fint (s + n)" using ex by (simp add: fint_arith)
  have corr: "(fint s - fint (s + n)) + fint n = 0" "(fint n - fint (s + n)) + fint s = 0"
    using ex fint_arith(1) [of "- n" n] fint_arith(1) [of "- s" s] by (simp_all add: fint_arith)
  have "neumaier (fint s) 0 (map fint (n # ns)) = neumaier (fint (s + n)) 0 (map fint ns)"
    by (simp add: Let_def add corr)
  also have "\<dots> = fint (s + n + sum_list ns)"
    using Cons.prems pos by (intro Cons.IH) (simp_all add: add.assoc)
  finally show ?case by (simp add: add.assoc)
qed

lemma py_sum_fint:
  assumes "\<forall>n \<in> set ns. 0 \<le> n" "exact_int (sum_list ns)"
  shows "py_sum (map fint ns) = fint (sum_list ns)"
  using neumaier_fint [of ns 0] assms by (simp add: py_sum_def)

subsection \<open>Nearby floats subtract exactly\<close>

lemma f64_on_grid_of:
  assumes "0 < rat_of a" "rat_of a \<le> rat_of b"
  obtains m where "rat_of b = of_int m * pow2 (ulp_exp (rat_of a))"
proof -
  let ?e = "ulp_exp (rat_of a)" and ?f = "ulp_exp (rat_of b)"
  obtain m where m: "rnd (rat_of b) = of_int m * pow2 ?f" by (rule rnd_on_grid)
  have le: "?e \<le> ?f" using assms by (rule ulp_exp_mono)
  have "pow2 ?f = pow2 (?f - ?e) * pow2 ?e" by (simp add: pow2_add [symmetric])
  also have "pow2 (?f - ?e) = of_int (2 ^ nat (?f - ?e))" using le by (intro pow2_nat) simp
  finally have "rat_of b = of_int (m * 2 ^ nat (?f - ?e)) * pow2 ?e" using m by simp
  then show ?thesis by (rule that)
qed

lemma sterbenz:
  assumes "0 \<le> a" "a \<le> b" "rat_of b \<le> 2 * rat_of a"
  shows "rat_of (b - a) = rat_of b - rat_of a"
proof (cases "rat_of a = 0")
  case True
  then have "rat_of b = 0" using assms by (simp add: f64_cmp zero_f64.rep_eq)
  with True show ?thesis by (simp add: f64_rep)
next
  case False
  let ?e = "ulp_exp (rat_of a)"
  have pos: "0 < rat_of a" using False assms(1) by (simp add: f64_cmp zero_f64.rep_eq)
  obtain k where k: "rnd (rat_of a) = of_int k * pow2 ?e" "\<bar>k\<bar> \<le> 2 ^ 53" by (rule rnd_on_grid)
  obtain m where m: "rat_of b = of_int m * pow2 ?e"
    using f64_on_grid_of [OF pos, of b] assms(2) by (auto simp: f64_cmp)
  have a: "rat_of a = of_int k * pow2 ?e" using k(1) by simp
  have "of_int k * pow2 ?e \<le> of_int m * pow2 ?e" using assms(2) a m by (simp add: f64_cmp)
  then have km: "k \<le> m" by simp
  have "of_int m * pow2 ?e \<le> 2 * (of_int k * pow2 ?e)" using assms(3) a m by linarith
  then have "of_int m * pow2 ?e \<le> of_int (2 * k) * pow2 ?e" by simp
  then have "(of_int m :: rat) \<le> of_int (2 * k)" by (rule mult_right_le_imp_le) simp
  then have "m \<le> 2 * k" by (simp only: of_int_le_iff)
  then have "\<bar>m - k\<bar> \<le> 2 ^ 53" using km k(2) by linarith
  moreover have "rat_of b - rat_of a = of_int m * pow2 ?e - of_int k * pow2 ?e" using a m by linarith
  then have "rat_of b - rat_of a = of_int (m - k) * pow2 ?e" by (simp add: left_diff_distrib)
  ultimately have "rnd (rat_of b - rat_of a) = rat_of b - rat_of a"
    using ulp_exp_ge by (intro rnd_grid) auto
  then show ?thesis by (simp add: f64_rep)
qed

lemma rnd_double: "rnd (2 * rat_of a) = 2 * rat_of a"
proof -
  obtain k where k: "rnd (rat_of a) = of_int k * pow2 (ulp_exp (rat_of a))" "\<bar>k\<bar> \<le> 2 ^ 53"
    by (rule rnd_on_grid)
  have "2 * rat_of a = of_int k * pow2 (ulp_exp (rat_of a) + 1)"
    using k(1) by (simp add: pow2_add)
  moreover have "- 1074 \<le> ulp_exp (rat_of a) + 1" using ulp_exp_ge [of "rat_of a"] by linarith
  ultimately show ?thesis using k(2) by (intro rnd_grid) auto
qed

lemma add_le_double:
  assumes "x \<le> s"
  shows "rat_of (s + x) \<le> 2 * rat_of s"
proof -
  have "rnd (rat_of s + rat_of x) \<le> rnd (2 * rat_of s)" using assms by (intro rnd_mono) (simp add: f64_cmp)
  then show ?thesis by (simp add: f64_rep rnd_double)
qed

lemma f64_uminus_diff: "a - b = - (b - (a :: f64))"
  using rnd_uminus [of "rat_of b - rat_of a"] by (simp add: f64_cmp f64_rep)

lemma f64_add_uminus_le: "0 \<le> s + c \<longleftrightarrow> - s \<le> (c :: f64)"
proof -
  have "0 \<le> rnd (rat_of s + rat_of c) \<longleftrightarrow> 0 \<le> rat_of s + rat_of c"
  proof
    assume r: "0 \<le> rnd (rat_of s + rat_of c)"
    show "0 \<le> rat_of s + rat_of c"
    proof (rule ccontr)
      assume neg: "\<not> 0 \<le> rat_of s + rat_of c"
      then have "rnd (rat_of s + rat_of c) \<le> rnd 0" by (intro rnd_mono) simp
      with r have "s - (- c) = 0" by (simp add: f64_cmp f64_rep)
      then have "s = - c" by (simp add: f64_diff_eq_0_iff)
      with neg show False by (simp add: f64_rep)
    qed
  qed (rule rnd_nonneg)
  then show ?thesis by (auto simp: f64_cmp f64_rep)
qed

text \<open>The correction of one step never exceeds the running sum.\<close>

lemma neumaier_error:
  assumes "0 \<le> s" "0 \<le> x" and big: "\<bar>x\<bar> \<le> \<bar>s\<bar>"
  shows "rat_of s - rat_of (s + x) \<le> rat_of ((s - (s + x)) + x)"
proof -
  have "x \<le> s" using assms by (simp add: f64_cmp f64_rep)
  then have "rat_of ((s + x) - s) = rat_of (s + x) - rat_of s"
    using assms(1,2) by (intro sterbenz add_le_double) (simp_all add: f64_add_increasing)
  then have d: "rat_of (s - (s + x)) = rat_of s - rat_of (s + x)"
    by (subst f64_uminus_diff) (simp add: f64_rep)
  have "s - (s + x) \<le> (s - (s + x)) + x" using assms(2) by (rule f64_add_increasing)
  then show ?thesis using d by (simp add: f64_cmp)
qed

lemma neumaier_nonneg:
  assumes "0 \<le> s" "- s \<le> c" "\<forall>x \<in> set xs. 0 \<le> x"
  shows "0 \<le> neumaier s c xs"
  using assms
proof (induction xs arbitrary: s c)
  case Nil
  then show ?case by (simp add: f64_add_uminus_le)
next
  case (Cons x xs)
  let ?t = "s + x"
  have x: "0 \<le> x" using Cons.prems(3) by simp
  have t: "0 \<le> ?t" using Cons.prems(1) x by (rule f64_add_nonneg)
  define err where "err = (if \<bar>x\<bar> \<le> \<bar>s\<bar> then (s - ?t) + x else (x - ?t) + s)"
  have "- rat_of ?t \<le> rat_of c + rat_of err"
  proof (cases "\<bar>x\<bar> \<le> \<bar>s\<bar>")
    case True
    then have "rat_of s - rat_of ?t \<le> rat_of err"
      using neumaier_error [OF Cons.prems(1) x True] by (simp add: err_def)
    then show ?thesis using Cons.prems(2) by (simp add: f64_cmp f64_rep)
  next
    case False
    then have "\<bar>s\<bar> \<le> \<bar>x\<bar>" and sx: "rat_of s \<le> rat_of x"
      using Cons.prems(1) x by (simp_all add: f64_cmp f64_rep)
    then have "rat_of x - rat_of ?t \<le> rat_of err"
      using neumaier_error [OF x Cons.prems(1)] False by (simp add: err_def f64_add_comm [of s x])
    then show ?thesis using Cons.prems(2) sx by (simp add: f64_cmp f64_rep)
  qed
  then have "rnd (- rat_of ?t) \<le> rnd (rat_of c + rat_of err)" by (rule rnd_mono)
  then have "- ?t \<le> c + err" by (simp add: f64_cmp f64_rep rnd_uminus)
  from Cons.IH [OF t this] Cons.prems(3) show ?case by (simp add: Let_def err_def)
qed

lemma py_sum_nonneg: "\<forall>x \<in> set xs. 0 \<le> x \<Longrightarrow> 0 \<le> py_sum xs"
  unfolding py_sum_def by (rule neumaier_nonneg) (simp_all add: f64_cmp f64_rep)

end
