(* ===== verification/Values.thy ===== *)
theory Values
  imports Float64
begin

text \<open>
  Dynamic values (\<open>dict[str, Any]\<close> details and provenance) and the exception hierarchy
  of \<open>shelfcash_core/exceptions.py\<close>. An exception carries its class, its code and its
  structured details; the human-readable message is not modelled. A date that the code
  stores as its ISO string is the value \<open>PDate\<close>.
\<close>

section \<open>Dynamic values\<close>

datatype pyval =
    PNone
  | PBool bool
  | PInt int
  | PNum f64
  | PStr string
  | PDate date
  | PList "pyval list"
  | PDict "(string \<times> pyval) list"

type_synonym payload = "(string, pyval) dict"

definition opt_val :: "('a \<Rightarrow> pyval) \<Rightarrow> 'a option \<Rightarrow> pyval" where
  "opt_val f x = (case x of None \<Rightarrow> PNone | Some v \<Rightarrow> f v)"

definition PPair :: "string \<times> string \<Rightarrow> pyval" where
  "PPair k = PList [PStr (fst k), PStr (snd k)]"

section \<open>Exceptions\<close>

datatype err_class =
    RecipeValidationError
  | RecipeVersionError
  | UnitConversionError
  | InvalidUnitConversionError
  | ProductUnitConsistencyError
  | InventoryValidationError
  | InventoryAccountingError
  | UnknownExpiryError
  | OptimizationError
  | InfeasibleProcurementError
  | OptimizationNotAvailableError
  | PyValueError
  | PyKeyError
  | PyZeroDivisionError
  | PyAssertionError
  | PyOverflowError
  | PyTypeError

text \<open>The class attribute \<open>default_code\<close>; built-in exceptions have none.\<close>

fun default_code :: "err_class \<Rightarrow> string" where
  "default_code RecipeValidationError = ''INVALID_RECIPE''"
| "default_code RecipeVersionError = ''INVALID_RECIPE_VERSION''"
| "default_code UnitConversionError = ''UNIT_CONVERSION_NOT_SUPPORTED''"
| "default_code InvalidUnitConversionError = ''INVALID_UNIT_CONVERSION''"
| "default_code ProductUnitConsistencyError = ''INCONSISTENT_PRODUCT_UNIT''"
| "default_code InventoryValidationError = ''INVENTORY_VALIDATION_ERROR''"
| "default_code InventoryAccountingError = ''INVENTORY_ACCOUNTING_VIOLATION''"
| "default_code UnknownExpiryError = ''UNKNOWN_EXPIRY''"
| "default_code OptimizationError = ''OPTIMIZATION_ERROR''"
| "default_code InfeasibleProcurementError = ''INFEASIBLE_PROCUREMENT''"
| "default_code OptimizationNotAvailableError = ''OPTIMIZATION_NOT_AVAILABLE''"
| "default_code PyValueError = []"
| "default_code PyKeyError = []"
| "default_code PyZeroDivisionError = []"
| "default_code PyAssertionError = []"
| "default_code PyOverflowError = []"
| "default_code PyTypeError = []"

record core_error =
  err_class :: err_class
  err_code :: string
  err_details :: payload

type_synonym 'a py = "(core_error, 'a) result"

text \<open>\<open>raise C(message, details=...)\<close>, and the same with an explicit \<open>code=\<close>.\<close>

definition exn :: "err_class \<Rightarrow> payload \<Rightarrow> core_error" where
  "exn c d = \<lparr>err_class = c, err_code = default_code c, err_details = d\<rparr>"

definition exn_code :: "err_class \<Rightarrow> string \<Rightarrow> payload \<Rightarrow> core_error" where
  "exn_code c code d = \<lparr>err_class = c, err_code = code, err_details = d\<rparr>"

text \<open>The bases the handlers name: \<open>except BOMError\<close>, \<open>except InventoryError\<close>.\<close>

fun is_bom_class :: "err_class \<Rightarrow> bool" where
  "is_bom_class RecipeValidationError = True"
| "is_bom_class RecipeVersionError = True"
| "is_bom_class UnitConversionError = True"
| "is_bom_class InvalidUnitConversionError = True"
| "is_bom_class ProductUnitConsistencyError = True"
| "is_bom_class _ = False"

fun is_inventory_class :: "err_class \<Rightarrow> bool" where
  "is_inventory_class InventoryValidationError = True"
| "is_inventory_class InventoryAccountingError = True"
| "is_inventory_class UnknownExpiryError = True"
| "is_inventory_class _ = False"

definition is_bom_error :: "core_error \<Rightarrow> bool" where
  "is_bom_error e = is_bom_class (err_class e)"

definition is_inventory_error :: "core_error \<Rightarrow> bool" where
  "is_inventory_error e = is_inventory_class (err_class e)"

text \<open>A pydantic \<open>ValidationError\<close> is a \<open>ValueError\<close>: what a contract's validator raises.\<close>

definition value_error :: core_error where
  "value_error = exn PyValueError []"

definition contract :: "bool \<Rightarrow> 'a \<Rightarrow> 'a py" where
  "contract ok x = (if ok then Inr x else Inl value_error)"

lemma contract_Inr_iff [simp, result_simps]: "contract ok x = Inr y \<longleftrightarrow> ok \<and> y = x"
  by (auto simp: contract_def)

lemma contract_True [simp]: "contract True x = Inr x"
  by (simp add: contract_def)

lemma contract_False [simp]: "contract False x = Inl value_error"
  by (simp add: contract_def)

lemma exn_sel [simp]:
  "err_class (exn c d) = c" "err_class (exn_code c k d) = c"
  "err_code (exn c d) = default_code c" "err_code (exn_code c k d) = k"
  by (simp_all add: exn_def exn_code_def)

text \<open>Division that raises \<open>ZeroDivisionError\<close>.\<close>

definition py_div :: "f64 \<Rightarrow> f64 \<Rightarrow> f64 py" where
  "py_div a b = (if b = 0 then Inl (exn PyZeroDivisionError []) else Inr (a / b))"

lemma py_div_Inr_iff [simp, result_simps]: "py_div a b = Inr q \<longleftrightarrow> b \<noteq> 0 \<and> q = a / b"
  by (auto simp: py_div_def)

definition py_div_opt :: "f64 option \<Rightarrow> f64 \<Rightarrow> f64 option py" where
  "py_div_opt a b =
     (case a of None \<Rightarrow> Inr None | Some x \<Rightarrow> ebind (py_div x b) (\<lambda>q. Inr (Some q)))"

end
