(* ===== verification/Units.thy ===== *)
theory Units
  imports Values
begin

text \<open>
  \<open>shelfcash_core/bom/units.py\<close>: unit names, the built-in metric conversions, and the
  ingredient-specific conversion graph with its breadth-first search and its
  consistency check.
\<close>

section \<open>Unit names and built-in factors\<close>

definition UNIT_ALIASES :: "(string, string) dict" where
  "UNIT_ALIASES =
    [(''g'', ''g''), (''gram'', ''g''), (''grams'', ''g''),
     (''kg'', ''kg''), (''kilogram'', ''kg''), (''kilograms'', ''kg''),
     (''ml'', ''ml''), (''milliliter'', ''ml''), (''milliliters'', ''ml''),
     (''millilitre'', ''ml''), (''millilitres'', ''ml''),
     (''l'', ''liter''), (''liter'', ''liter''), (''liters'', ''liter''),
     (''litre'', ''liter''), (''litres'', ''liter''),
     (''unit'', ''unit''), (''units'', ''unit''), (''piece'', ''unit''), (''pieces'', ''unit''),
     (''pc'', ''unit''), (''pcs'', ''unit''), (''each'', ''unit''), (''item'', ''unit''),
     (''items'', ''unit''), (''cup'', ''unit''), (''cups'', ''unit''), (''ly'', ''unit''),
     (''serving'', ''unit''), (''servings'', ''unit''),
     (''pack'', ''pack''), (''packs'', ''pack''), (''package'', ''pack''), (''packages'', ''pack'')]"

definition UNIT_DIMENSIONS :: "(string, string) dict" where
  "UNIT_DIMENSIONS =
    [(''g'', ''mass''), (''kg'', ''mass''), (''ml'', ''volume''), (''liter'', ''volume''),
     (''unit'', ''count'')]"

definition CANONICAL_UNITS :: "(string, string) dict" where
  "CANONICAL_UNITS = [(''mass'', ''kg''), (''volume'', ''liter''), (''count'', ''unit'')]"

definition TO_CANONICAL_FACTORS :: "(string, f64) dict" where
  "TO_CANONICAL_FACTORS =
    [(''g'', fl (1 / 1000)), (''kg'', 1), (''ml'', fl (1 / 1000)), (''liter'', 1), (''unit'', 1)]"

definition normalize_unit :: "string \<Rightarrow> string py" where
  "normalize_unit unit =
     (let normalized = str_replace_char (CHR '' '') (CHR ''_'') (str_lower (str_strip unit)) in
      if normalized = [] then Inl (exn InvalidUnitConversionError [])
      else Inr (dict_get_or UNIT_ALIASES normalized normalized))"

definition unit_dimension :: "string \<Rightarrow> string option py" where
  "unit_dimension unit = ebind (normalize_unit unit) (\<lambda>u. Inr (dict_get UNIT_DIMENSIONS u))"

definition builtin_factor :: "string \<Rightarrow> string \<Rightarrow> f64 option py" where
  "builtin_factor from_unit to_unit =
     ebind (normalize_unit from_unit) (\<lambda>source.
     ebind (normalize_unit to_unit) (\<lambda>target.
     if source = target then Inr (Some 1)
     else case (dict_get UNIT_DIMENSIONS source, dict_get UNIT_DIMENSIONS target) of
       (Some sd, Some td) \<Rightarrow>
         if sd \<noteq> td then
           Inl (exn UnitConversionError
             [(''from_unit'', PStr source), (''to_unit'', PStr target),
              (''from_dimension'', PStr sd), (''to_dimension'', PStr td)])
         else Inr (Some (dict_get_or TO_CANONICAL_FACTORS source 0
                          / dict_get_or TO_CANONICAL_FACTORS target 0))
     | _ \<Rightarrow> Inr None))"

definition convert_product_quantity :: "f64 \<Rightarrow> string \<Rightarrow> string \<Rightarrow> f64 py" where
  "convert_product_quantity quantity from_unit to_unit =
     ebind (builtin_factor from_unit to_unit) (\<lambda>factor.
     case factor of
       None \<Rightarrow> Inl (exn UnitConversionError
                 [(''product_unit'', PStr from_unit), (''yield_unit'', PStr to_unit)])
     | Some f \<Rightarrow> Inr (quantity * f))"

section \<open>The conversion graph\<close>

record unit_conversion_rule =
  ucr_ingredient_id :: string
  ucr_from_unit :: string
  ucr_to_unit :: string
  ucr_factor :: f64

text \<open>What the contract \<open>UnitConversionRule\<close> admits.\<close>

definition unit_conversion_rule_ok :: "unit_conversion_rule \<Rightarrow> bool" where
  "unit_conversion_rule_ok r \<longleftrightarrow>
     ucr_ingredient_id r \<noteq> [] \<and> ucr_from_unit r \<noteq> [] \<and> ucr_to_unit r \<noteq> [] \<and> 0 < ucr_factor r"

type_synonym unit_graph = "(string, (string \<times> f64) list) dict"

record unit_converter =
  uc_graphs :: "(string, unit_graph) dict"

definition rule_dump :: "unit_conversion_rule \<Rightarrow> payload" where
  "rule_dump r =
    [(''ingredient_id'', PStr (ucr_ingredient_id r)), (''from_unit'', PStr (ucr_from_unit r)),
     (''to_unit'', PStr (ucr_to_unit r)), (''factor'', PNum (ucr_factor r))]"

definition add_rule :: "unit_converter \<Rightarrow> unit_conversion_rule \<Rightarrow> unit_converter py" where
  "add_rule c rule =
     ebind (normalize_unit (ucr_from_unit rule)) (\<lambda>source.
     ebind (normalize_unit (ucr_to_unit rule)) (\<lambda>target.
     ebind (raise_if (source = target \<and> \<not> isclose (ucr_factor rule) 1 (fl (1 / 10 ^ 9)) 0)
             (exn InvalidUnitConversionError (rule_dump rule))) (\<lambda>_.
     ebind (raise_if (case (dict_get UNIT_DIMENSIONS source, dict_get UNIT_DIMENSIONS target) of
                        (Some sd, Some td) \<Rightarrow> sd \<noteq> td | _ \<Rightarrow> False)
             (exn InvalidUnitConversionError (rule_dump rule))) (\<lambda>_.
     ebind (builtin_factor source target) (\<lambda>builtin.
     ebind (case builtin of
              None \<Rightarrow> Inr ()
            | Some b \<Rightarrow> raise_if (\<not> isclose b (ucr_factor rule) (fl (1 / 10 ^ 12)) (fl (1 / 10 ^ 12)))
                (exn InvalidUnitConversionError
                  (rule_dump rule @ [(''built_in_factor'', PNum b)]))) (\<lambda>_.
     let graph = dict_get_or (uc_graphs c) (ucr_ingredient_id rule) [];
         graph1 = dict_append source (target, ucr_factor rule) graph;
         graph2 = dict_append target (source, 1 / ucr_factor rule) graph1
     in Inr (c\<lparr>uc_graphs := dict_set (ucr_ingredient_id rule) graph2 (uc_graphs c)\<rparr>)))))))"

definition neighbors :: "unit_converter \<Rightarrow> string \<Rightarrow> string \<Rightarrow> (string \<times> f64) list" where
  "neighbors c ingredient_id unit =
     dict_get_or (dict_get_or (uc_graphs c) ingredient_id []) unit [] @
     (if unit = ''g'' then [(''kg'', fl (1 / 1000))]
      else if unit = ''kg'' then [(''g'', fint 1000)]
      else if unit = ''ml'' then [(''liter'', fl (1 / 1000))]
      else if unit = ''liter'' then [(''ml'', fint 1000)]
      else [])"

subsection \<open>Breadth-first search for a conversion factor\<close>

text \<open>
  The inner loop over the neighbours of the unit just taken from the queue: \<open>Inl f\<close> is
  \<open>return factor\<close>, \<open>Inr\<close> the visited set and the queue when the loop ends.
\<close>

fun bfs_scan :: "string \<Rightarrow> f64 \<Rightarrow> (string \<times> f64) list \<Rightarrow> string list \<Rightarrow> (string \<times> f64) list
    \<Rightarrow> f64 + string list \<times> (string \<times> f64) list" where
  "bfs_scan target current_factor [] visited queue = Inr (visited, queue)"
| "bfs_scan target current_factor ((neighbor, edge_factor) # rest) visited queue =
     (if neighbor \<in> set visited then bfs_scan target current_factor rest visited queue
      else let factor = current_factor * edge_factor in
        if neighbor = target then Inl factor
        else bfs_scan target current_factor rest (neighbor # visited) (queue @ [(neighbor, factor)]))"

text \<open>Every unit an edge can lead to.\<close>

definition unit_universe :: "unit_converter \<Rightarrow> string \<Rightarrow> string set" where
  "unit_universe c i =
     {''g'', ''kg'', ''ml'', ''liter''}
     \<union> (\<Union>es \<in> set (map snd (dict_get_or (uc_graphs c) i [])). fst ` set es)"

lemma finite_unit_universe [simp]: "finite (unit_universe c i)"
  by (simp add: unit_universe_def)

lemma neighbors_in_universe: "fst ` set (neighbors c i u) \<subseteq> unit_universe c i"
proof
  fix v assume "v \<in> fst ` set (neighbors c i u)"
  then obtain f where vf: "(v, f) \<in> set (neighbors c i u)" by auto
  show "v \<in> unit_universe c i"
  proof (cases "(v, f) \<in> set (dict_get_or (dict_get_or (uc_graphs c) i []) u [])")
    case True
    then obtain es where es: "map_of (dict_get_or (uc_graphs c) i []) u = Some es" "(v, f) \<in> set es"
      by (cases "map_of (dict_get_or (uc_graphs c) i []) u") (auto simp: dict_get_or_def [of _ u])
    then have "(u, es) \<in> set (dict_get_or (uc_graphs c) i [])" by (simp add: map_of_SomeD)
    then show ?thesis using es(2) by (force simp: unit_universe_def)
  next
    case False
    with vf show ?thesis by (auto simp: neighbors_def unit_universe_def split: if_splits)
  qed
qed

lemma card_Diff_insert_Suc:
  assumes "n \<in> U" "n \<notin> A" "finite U"
  shows "card (U - A) = Suc (card (U - insert n A))"
proof -
  have eq: "U - insert n A = (U - A) - {n}" by auto
  have "Suc (card ((U - A) - {n})) = card (U - A)"
    using assms by (intro card_Suc_Diff1) auto
  then show ?thesis by (simp only: eq)
qed

lemma bfs_scan_measure:
  assumes "bfs_scan target cf ns visited queue = Inr (visited', queue')"
    and "fst ` set ns \<subseteq> U" "finite U"
  shows "length queue' + card (U - set visited') = length queue + card (U - set visited)"
  using assms
proof (induction target cf ns visited queue rule: bfs_scan.induct)
  case (1 target cf visited queue)
  then show ?case by simp
next
  case (2 target cf n e rest visited queue)
  show ?case
  proof (cases "n \<in> set visited")
    case True
    with 2 show ?thesis by simp
  next
    case False
    with "2.prems"(1) have nt: "n \<noteq> target" by (auto simp: Let_def)
    have "card (U - set visited) = Suc (card (U - set (n # visited)))"
      using card_Diff_insert_Suc [of n U "set visited"] "2.prems"(2,3) False
      by (simp del: card_Diff_insert)
    moreover have "bfs_scan target cf rest (n # visited) (queue @ [(n, cf * e)]) = Inr (visited', queue')"
      using "2.prems"(1) False nt by (simp add: Let_def)
    then have "length queue' + card (U - set visited') =
        length (queue @ [(n, cf * e)]) + card (U - set (n # visited))"
      using "2.IH"(2) [OF False refl nt] "2.prems"(2,3) by simp
    ultimately show ?thesis by simp
  qed
qed

function bfs_loop :: "unit_converter \<Rightarrow> string \<Rightarrow> string \<Rightarrow> string list \<Rightarrow> (string \<times> f64) list
    \<Rightarrow> f64 option" where
  "bfs_loop c ingredient_id target visited queue =
     (case queue of
        [] \<Rightarrow> None
      | (current, current_factor) # queue' \<Rightarrow>
          (case bfs_scan target current_factor (neighbors c ingredient_id current) visited queue' of
             Inl factor \<Rightarrow> Some factor
           | Inr (visited'', queue'') \<Rightarrow> bfs_loop c ingredient_id target visited'' queue''))"
  by pat_completeness auto
termination
proof (relation "measure (\<lambda>(c, i, t, v, q). length q + card (unit_universe c i - set v))")
  show "wf (measure (\<lambda>(c, i, t, v, q). length q + card (unit_universe c i - set v)))" by simp
next
  fix c i t v q x q' u f y v'' q''
  assume q: "q = x # q'" and x: "(u, f) = x"
    and scan: "bfs_scan t f (neighbors c i u) v q' = Inr y" and y: "(v'', q'') = y"
  have "length q'' + card (unit_universe c i - set v'') = length q' + card (unit_universe c i - set v)"
    by (rule bfs_scan_measure [OF _ neighbors_in_universe finite_unit_universe]) (use scan y in simp)
  then show "((c, i, t, v'', q''), c, i, t, v, q)
      \<in> measure (\<lambda>(c, i, t, v, q). length q + card (unit_universe c i - set v))"
    using q by simp
qed

declare bfs_loop.simps [simp del]

definition find_factor :: "unit_converter \<Rightarrow> string \<Rightarrow> string \<Rightarrow> string \<Rightarrow> f64 option py" where
  "find_factor c ingredient_id from_unit to_unit =
     ebind (normalize_unit from_unit) (\<lambda>source.
     ebind (normalize_unit to_unit) (\<lambda>target.
     if source = target then Inr (Some 1)
     else Inr (bfs_loop c ingredient_id target [source] [(source, 1)])))"

subsection \<open>The consistency check of the constructor\<close>

text \<open>
  The inner loop of \<open>_validate_graphs\<close>: \<open>potential\<close> is \<open>potentials[current]\<close>, which the
  loop never assigns again.
\<close>

fun val_scan :: "string \<Rightarrow> f64 \<Rightarrow> (string \<times> f64) list \<Rightarrow> (string, f64) dict \<Rightarrow> string list
    \<Rightarrow> ((string, f64) dict \<times> string list) py" where
  "val_scan ingredient_id potential [] potentials queue = Inr (potentials, queue)"
| "val_scan ingredient_id potential ((neighbor, factor) # rest) potentials queue =
     (let expected = potential * factor in
      case dict_get potentials neighbor of
        Some p \<Rightarrow>
          if \<not> isclose p expected (fl (1 / 10 ^ 9)) (fl (1 / 10 ^ 12)) then
            Inl (exn InvalidUnitConversionError
              [(''ingredient_id'', PStr ingredient_id), (''unit'', PStr neighbor)])
          else val_scan ingredient_id potential rest potentials queue
      | None \<Rightarrow>
          val_scan ingredient_id potential rest (dict_set neighbor expected potentials)
            (queue @ [neighbor]))"

lemma val_scan_measure:
  assumes "val_scan i p ns pots queue = Inr (pots', queue')"
    and "fst ` set ns \<subseteq> U" "finite U"
  shows "length queue' + card (U - set (dict_keys pots')) = length queue + card (U - set (dict_keys pots))"
  using assms
proof (induction i p ns pots queue rule: val_scan.induct)
  case (1 i p pots queue)
  then show ?case by simp
next
  case (2 i p n f rest pots queue)
  show ?case
  proof (cases "dict_get pots n")
    case (Some pn)
    with "2.prems" "2.IH"(2) [OF refl Some] show ?thesis by (simp split: if_splits)
  next
    case None
    then have "n \<notin> set (dict_keys pots)" by (simp add: map_of_eq_None_iff)
    then have "card (U - set (dict_keys pots)) = Suc (card (U - insert n (set (dict_keys pots))))"
      using "2.prems"(2,3) by (intro card_Diff_insert_Suc) simp_all
    then show ?thesis
      using "2.prems" "2.IH"(1) [OF refl None] None by (simp add: dict_keys_set_eq del: set_map)
  qed
qed

text \<open>The breadth-first traversal of one component; the last argument collects its units.\<close>

function val_loop :: "unit_converter \<Rightarrow> string \<Rightarrow> (string, f64) dict \<Rightarrow> string list \<Rightarrow> string list
    \<Rightarrow> ((string, f64) dict \<times> string list) py" where
  "val_loop c ingredient_id potentials queue component_units =
     (case queue of
        [] \<Rightarrow> Inr (potentials, component_units)
      | current # queue' \<Rightarrow>
          (case val_scan ingredient_id (dict_get_or potentials current 0)
                  (neighbors c ingredient_id current) potentials queue' of
             Inl e \<Rightarrow> Inl e
           | Inr (potentials'', queue'') \<Rightarrow>
               val_loop c ingredient_id potentials'' queue'' (component_units @ [current])))"
  by pat_completeness auto
termination
proof (relation "measure (\<lambda>(c, i, p, q, u). length q + card (unit_universe c i - set (dict_keys p)))")
  show "wf (measure (\<lambda>(c, i, p, q, u). length q + card (unit_universe c i - set (dict_keys p))))" by simp
next
  fix c i p q u x q' y p'' q''
  assume q: "q = x # q'"
    and scan: "val_scan i (dict_get_or p x 0) (neighbors c i x) p q' = Inr y" and y: "(p'', q'') = y"
  have "length q'' + card (unit_universe c i - set (dict_keys p'')) =
      length q' + card (unit_universe c i - set (dict_keys p))"
    by (rule val_scan_measure [OF _ neighbors_in_universe finite_unit_universe]) (use scan y in simp)
  then show "((c, i, p'', q'', u @ [x]), c, i, p, q, u)
      \<in> measure (\<lambda>(c, i, p, q, u). length q + card (unit_universe c i - set (dict_keys p)))"
    using q by simp
qed

declare val_loop.simps [simp del]

definition unit_dims :: "string list \<Rightarrow> string list" where
  "unit_dims units = remdups (List.map_filter (dict_get UNIT_DIMENSIONS) units)"

definition val_start :: "unit_converter \<Rightarrow> string \<Rightarrow> (string, f64) dict \<Rightarrow> string \<Rightarrow> (string, f64) dict py" where
  "val_start c ingredient_id potentials start =
     (if start \<in> set (dict_keys potentials) then Inr potentials
      else ebind (val_loop c ingredient_id (dict_set start 1 potentials) [start] [])
             (\<lambda>(potentials', component_units).
        if 1 < length (unit_dims component_units) then
          Inl (exn InvalidUnitConversionError
            [(''ingredient_id'', PStr ingredient_id),
             (''units'', PList (map PStr (sorted_set component_units))),
             (''dimensions'', PList (map PStr (sorted_set (unit_dims component_units))))])
        else Inr potentials'))"

definition validate_graphs :: "unit_converter \<Rightarrow> unit py" where
  "validate_graphs c =
     efold (\<lambda>_ (ingredient_id, graph).
        ebind (efold (val_start c ingredient_id) [] (dict_keys graph)) (\<lambda>_. Inr ()))
       () (uc_graphs c)"

definition make_unit_converter :: "unit_conversion_rule list \<Rightarrow> unit_converter py" where
  "make_unit_converter rules =
     ebind (efold add_rule \<lparr>uc_graphs = []\<rparr> rules) (\<lambda>c.
     ebind (validate_graphs c) (\<lambda>_. Inr c))"

section \<open>The operations of the converter\<close>

definition conversion_factor :: "unit_converter \<Rightarrow> string \<Rightarrow> string \<Rightarrow> string \<Rightarrow> f64 py" where
  "conversion_factor c ingredient_id from_unit to_unit =
     ebind (normalize_unit from_unit) (\<lambda>source.
     ebind (normalize_unit to_unit) (\<lambda>target.
     ebind (find_factor c ingredient_id source target) (\<lambda>factor.
     case factor of
       Some f \<Rightarrow> Inr f
     | None \<Rightarrow> Inl (exn UnitConversionError
         [(''ingredient_id'', PStr ingredient_id), (''from_unit'', PStr source),
          (''to_unit'', PStr target),
          (''from_dimension'', opt_val PStr (dict_get UNIT_DIMENSIONS source)),
          (''to_dimension'', opt_val PStr (dict_get UNIT_DIMENSIONS target))]))))"

definition convert_unit :: "unit_converter \<Rightarrow> f64 \<Rightarrow> string \<Rightarrow> string \<Rightarrow> string \<Rightarrow> f64 py" where
  "convert_unit c quantity from_unit to_unit ingredient_id =
     ebind (conversion_factor c ingredient_id from_unit to_unit) (\<lambda>f. Inr (quantity * f))"

definition canonical_unit :: "unit_converter \<Rightarrow> string \<Rightarrow> string \<Rightarrow> string py" where
  "canonical_unit c ingredient_id from_unit =
     ebind (normalize_unit from_unit) (\<lambda>source.
     case dict_get UNIT_DIMENSIONS source of
       Some dimension \<Rightarrow> Inr (dict_get_or CANONICAL_UNITS dimension [])
     | None \<Rightarrow>
         ebind (emap (\<lambda>target. ebind (find_factor c ingredient_id source target)
                                (\<lambda>f. Inr (target, f)))
                  [''kg'', ''liter'', ''unit'']) (\<lambda>found.
         let reachable = map fst (filter (\<lambda>(t, f). f \<noteq> None) found) in
         if 1 < length reachable then
           Inl (exn InvalidUnitConversionError
             [(''ingredient_id'', PStr ingredient_id), (''from_unit'', PStr source),
              (''canonical_candidates'', PList (map PStr reachable))])
         else case reachable of
           r # _ \<Rightarrow> Inr r
         | [] \<Rightarrow>
             if source = ''pack'' then
               Inl (exn UnitConversionError
                 [(''ingredient_id'', PStr ingredient_id), (''from_unit'', PStr source)])
             else Inr source))"

end
