(* ===== verification/Unit_Search.thy ===== *)
theory Unit_Search
  imports Units
begin

text \<open>
  Correctness of the unit converter of theory \<open>Units\<close>: the breadth-first search returns
  the product of the factors along a path of the ingredient's graph or the target is
  unreachable, a converter that was constructed has potentials that agree along every
  edge and never joins two physical dimensions, and the contract \<open>unit_service\<close> the other
  components rely on.
\<close>

section \<open>What the searches compute\<close>

subsection \<open>Unit names\<close>

lemma strip_no_space:
  assumes "s \<noteq> []" "\<not> is_space (hd s)" "\<not> is_space (last s)"
  shows "str_strip s = s"
proof -
  have "dropWhile is_space s = s" using assms(1,2) by (cases s) auto
  moreover have "dropWhile is_space (rev s) = rev s"
    using assms(1,3) by (cases s rule: rev_cases) auto
  ultimately show ?thesis by (simp add: str_strip_def)
qed

lemma strip_ends:
  assumes "str_strip s \<noteq> []"
  shows "\<not> is_space (hd (str_strip s))" and "\<not> is_space (last (str_strip s))"
proof -
  define t where "t = dropWhile is_space s"
  define r where "r = dropWhile is_space (rev t)"
  have st: "str_strip s = rev r" by (simp add: str_strip_def t_def r_def)
  with assms have r: "r \<noteq> []" by simp
  then have "\<not> is_space (hd r)" unfolding r_def by (rule hd_dropWhile)
  then show "\<not> is_space (last (str_strip s))" using r by (simp add: st last_rev)
  have "t \<noteq> []" using r by (auto simp: r_def)
  then have ht: "\<not> is_space (hd t)" unfolding t_def by (rule hd_dropWhile)
  obtain p where p: "rev t = p @ r" using takeWhile_dropWhile_id [of is_space "rev t"] r_def by metis
  then have "t = rev r @ rev p" by (metis rev_append rev_rev_ident)
  then have "hd t = hd (rev r)" using r by simp
  with ht show "\<not> is_space (hd (str_strip s))" by (simp add: st)
qed

lemma lower_char_idem [simp]: "lower_char (lower_char c) = lower_char c"
  by (auto simp: lower_char_def Let_def)

lemma is_space_lower [simp]: "is_space (lower_char c) = is_space c"
  by (auto simp: lower_char_def is_space_def Let_def)

definition norm_text :: "string \<Rightarrow> string" where
  "norm_text u = str_replace_char (CHR '' '') (CHR ''_'') (str_lower (str_strip u))"

lemma norm_text_idem: "norm_text (norm_text u) = norm_text u"
proof (cases "str_strip u = []")
  case True
  then show ?thesis by (simp add: norm_text_def str_replace_char_def str_lower_def) (simp add: str_strip_def)
next
  case False
  define g where "g = (\<lambda>c. if lower_char c = CHR '' '' then CHR ''_'' else lower_char c)"
  have nt: "norm_text u = map g (str_strip u)"
    by (simp add: norm_text_def str_replace_char_def str_lower_def g_def)
  have gs: "\<not> is_space (g c)" if "\<not> is_space c" for c
    using that by (auto simp: g_def) (simp add: is_space_def)
  have gi: "g (g c) = g c" for c
    by (auto simp: g_def) (auto simp: lower_char_def Let_def)
  have "str_strip (map g (str_strip u)) = map g (str_strip u)"
    using strip_ends [OF False] False gs by (intro strip_no_space) (auto simp: hd_map last_map)
  then have "norm_text (norm_text u) = map g (map g (str_strip u))"
    unfolding nt by (simp add: norm_text_def str_replace_char_def str_lower_def g_def)
  also have "\<dots> = norm_text u" by (simp add: nt gi)
  finally show ?thesis .
qed

lemma aliases_closed:
  "list_all (\<lambda>(k, v). norm_text v = v \<and> dict_get UNIT_ALIASES v = Some v) UNIT_ALIASES"
  by code_simp

lemma normalize_unit_alt:
  "normalize_unit u = (if norm_text u = [] then Inl (exn InvalidUnitConversionError [])
     else Inr (dict_get_or UNIT_ALIASES (norm_text u) (norm_text u)))"
  by (simp add: normalize_unit_def norm_text_def Let_def)

lemma normalize_unit_idem:
  assumes "normalize_unit u = Inr v"
  shows "normalize_unit v = Inr v"
proof -
  from assms have ne: "norm_text u \<noteq> []" and v: "v = dict_get_or UNIT_ALIASES (norm_text u) (norm_text u)"
    by (auto simp: normalize_unit_alt split: if_splits)
  show ?thesis
  proof (cases "dict_get UNIT_ALIASES (norm_text u)")
    case None
    with v have "v = norm_text u" by (simp add: dict_get_or_def)
    with ne None show ?thesis by (simp add: normalize_unit_alt norm_text_idem dict_get_or_def)
  next
    case (Some w)
    with v have "v = w" by (simp add: dict_get_or_def)
    moreover have "norm_text w = w \<and> dict_get UNIT_ALIASES w = Some w"
      using aliases_closed map_of_SomeD [OF Some] by (auto simp: list_all_iff)
    moreover have "w \<noteq> []"
    proof
      assume "w = []"
      with calculation(2) have "dict_get UNIT_ALIASES [] = Some []" by simp
      then show False by (simp add: UNIT_ALIASES_def)
    qed
    ultimately show ?thesis by (simp add: normalize_unit_alt dict_get_or_def)
  qed
qed

subsection \<open>The search finds a factor along a path, or the target is unreachable\<close>

definition unit_edges :: "unit_converter \<Rightarrow> string \<Rightarrow> (string \<times> string) set" where
  "unit_edges c i = {(u, v). v \<in> fst ` set (neighbors c i u)}"

inductive factor_path :: "unit_converter \<Rightarrow> string \<Rightarrow> string \<Rightarrow> f64 \<Rightarrow> string \<Rightarrow> bool"
  for c i s where
  fp_start: "factor_path c i s 1 s"
| fp_step: "factor_path c i s f u \<Longrightarrow> (v, e) \<in> set (neighbors c i u) \<Longrightarrow> factor_path c i s (f * e) v"

lemma factor_path_reach: "factor_path c i s f u \<Longrightarrow> (s, u) \<in> (unit_edges c i)\<^sup>*"
proof (induction rule: factor_path.induct)
  case fp_start
  show ?case by simp
next
  case (fp_step f u v e)
  then have "(u, v) \<in> unit_edges c i" by (force simp: unit_edges_def)
  with fp_step.IH show ?case by (rule rtrancl_into_rtrancl)
qed

lemma bfs_scan_Inl:
  "bfs_scan t cf ns vis q = Inl f \<Longrightarrow> \<exists>e. (t, e) \<in> set ns \<and> f = cf * e"
  by (induction t cf ns vis q rule: bfs_scan.induct) (auto simp: Let_def split: if_splits)

text \<open>What one pass over the neighbours adds to the visited set and to the queue.\<close>

definition scan_added :: "string \<Rightarrow> f64 \<Rightarrow> (string \<times> f64) list \<Rightarrow> string list \<Rightarrow> string list
    \<Rightarrow> (string \<times> f64) list \<Rightarrow> bool" where
  "scan_added t cf ns vis vis' new \<longleftrightarrow>
     (\<forall>v. v \<in> set vis' \<longleftrightarrow> v \<in> set vis \<or> v \<in> fst ` set ns) \<and>
     (\<forall>v \<in> set vis'. v \<in> set vis \<or> v \<in> fst ` set new) \<and>
     (\<forall>x \<in> set new. \<exists>e. (fst x, e) \<in> set ns \<and> snd x = cf * e) \<and>
     (t \<notin> set vis \<longrightarrow> t \<notin> set vis')"

lemma scan_added_skip:
  assumes "scan_added t cf rest vis vis' new" "n \<in> set vis"
  shows "scan_added t cf ((n, e) # rest) vis vis' new"
proof -
  have "v \<in> set vis' \<longleftrightarrow> v \<in> set vis \<or> v \<in> fst ` set ((n, e) # rest)" for v
    using assms by (auto simp: scan_added_def)
  moreover have "\<exists>d. (fst x, d) \<in> set ((n, e) # rest) \<and> snd x = cf * d" if "x \<in> set new" for x
    using assms that unfolding scan_added_def by (meson list.set_intros(2))
  ultimately show ?thesis using assms unfolding scan_added_def by blast
qed

lemma scan_added_push:
  assumes "scan_added t cf rest (n # vis) vis' new" "n \<noteq> t"
  shows "scan_added t cf ((n, e) # rest) vis vis' ((n, cf * e) # new)"
proof -
  have "v \<in> set vis' \<longleftrightarrow> v \<in> set vis \<or> v \<in> fst ` set ((n, e) # rest)" for v
    using assms by (auto simp: scan_added_def)
  moreover have "\<exists>d. (fst x, d) \<in> set ((n, e) # rest) \<and> snd x = cf * d"
    if "x \<in> set ((n, cf * e) # new)" for x
  proof (cases "x = (n, cf * e)")
    case True
    then show ?thesis by auto
  next
    case False
    with that assms show ?thesis unfolding scan_added_def by (metis list.set_intros(2) set_ConsD)
  qed
  moreover have "v \<in> set vis \<or> v \<in> fst ` set ((n, cf * e) # new)" if "v \<in> set vis'" for v
  proof -
    have "v \<in> set (n # vis) \<or> v \<in> fst ` set new"
      using assms(1) that unfolding scan_added_def by blast
    then show ?thesis by auto
  qed
  ultimately show ?thesis using assms by (simp add: scan_added_def)
qed

lemma bfs_scan_Inr:
  assumes "bfs_scan t cf ns vis q = Inr (vis', q')"
  shows "\<exists>new. q' = q @ new \<and> scan_added t cf ns vis vis' new"
  using assms
proof (induction t cf ns vis q rule: bfs_scan.induct)
  case (1 t cf vis q)
  then show ?case by (simp add: scan_added_def)
next
  case (2 t cf n e rest vis q)
  show ?case
  proof (cases "n \<in> set vis")
    case True
    with 2 show ?thesis by (auto intro: scan_added_skip)
  next
    case False
    with "2.prems" have nt: "n \<noteq> t"
      and scan: "bfs_scan t cf rest (n # vis) (q @ [(n, cf * e)]) = Inr (vis', q')"
      by (auto simp: Let_def split: if_splits)
    from "2.IH"(2) [OF False refl nt scan] obtain new where
      "q' = (q @ [(n, cf * e)]) @ new" "scan_added t cf rest (n # vis) vis' new"
      by blast
    with nt show ?thesis by (auto intro!: exI [of _ "(n, cf * e) # new"] scan_added_push)
  qed
qed

definition bfs_inv :: "unit_converter \<Rightarrow> string \<Rightarrow> string \<Rightarrow> string \<Rightarrow> string list \<Rightarrow> (string \<times> f64) list \<Rightarrow> bool" where
  "bfs_inv c i s t vis q \<longleftrightarrow>
     s \<in> set vis \<and> t \<notin> set vis \<and>
     (\<forall>(u, f) \<in> set q. factor_path c i s f u) \<and>
     (\<forall>u \<in> set vis. u \<in> fst ` set q \<or> fst ` set (neighbors c i u) \<subseteq> set vis)"

lemma bfs_inv_step:
  assumes inv: "bfs_inv c i s t vis ((u, f) # q)"
    and scan: "bfs_scan t f (neighbors c i u) vis q = Inr (vis', q')"
  shows "bfs_inv c i s t vis' q'"
proof -
  obtain new where q': "q' = q @ new" and new: "scan_added t f (neighbors c i u) vis vis' new"
    using bfs_scan_Inr [OF scan] by blast
  have nbrs: "v \<in> set vis' \<longleftrightarrow> v \<in> set vis \<or> v \<in> fst ` set (neighbors c i u)"
    and added: "v \<in> set vis' \<Longrightarrow> v \<in> set vis \<or> v \<in> fst ` set new" and t: "t \<notin> set vis'" for v
    using new inv unfolding scan_added_def bfs_inv_def by blast+
  have fu: "factor_path c i s f u" using inv by (simp add: bfs_inv_def)
  have paths: "factor_path c i s g n" if "(n, g) \<in> set new" for n g
  proof -
    have "\<forall>x \<in> set new. \<exists>e. (fst x, e) \<in> set (neighbors c i u) \<and> snd x = f * e"
      using new unfolding scan_added_def by blast
    from bspec [OF this that] obtain e where "(n, e) \<in> set (neighbors c i u)" "g = f * e" by auto
    then show ?thesis using fu by (auto intro: fp_step)
  qed
  have closed: "v \<in> fst ` set q' \<or> fst ` set (neighbors c i v) \<subseteq> set vis'" if "v \<in> set vis'" for v
  proof (cases "v \<in> set vis")
    case True
    then have "v \<in> fst ` set ((u, f) # q) \<or> fst ` set (neighbors c i v) \<subseteq> set vis"
      using inv unfolding bfs_inv_def by blast
    then consider "v = u" | "v \<in> fst ` set q" | "fst ` set (neighbors c i v) \<subseteq> set vis"
      by auto
    then show ?thesis by cases (use nbrs q' in auto)
  next
    case False
    with added [OF that] have "v \<in> fst ` set new" by blast
    with q' show ?thesis by auto
  qed
  have "s \<in> set vis'" "\<forall>(u, g) \<in> set q'. factor_path c i s g u"
    using inv paths by (auto simp: bfs_inv_def nbrs q')
  with t closed show ?thesis by (simp add: bfs_inv_def)
qed

lemma closed_reach:
  assumes "(s, t) \<in> R\<^sup>*" "s \<in> A" "\<And>u v. u \<in> A \<Longrightarrow> (u, v) \<in> R \<Longrightarrow> v \<in> A"
  shows "t \<in> A"
  using assms by (induction rule: rtrancl_induct) auto

lemma bfs_loop_correct:
  assumes "bfs_inv c i s t vis q"
  shows "case bfs_loop c i t vis q of
           Some f \<Rightarrow> factor_path c i s f t
         | None \<Rightarrow> (s, t) \<notin> (unit_edges c i)\<^sup>*"
  using assms
proof (induction c i t vis q rule: bfs_loop.induct)
  case (1 c i t vis q)
  show ?case
  proof (cases q)
    case Nil
    have "(s, t) \<notin> (unit_edges c i)\<^sup>*"
    proof
      assume "(s, t) \<in> (unit_edges c i)\<^sup>*"
      then have "t \<in> set vis"
        by (rule closed_reach) (use "1.prems" Nil in \<open>auto simp: bfs_inv_def unit_edges_def\<close>)
      then show False using "1.prems" by (simp add: bfs_inv_def)
    qed
    moreover have "bfs_loop c i t vis [] = None" by (subst bfs_loop.simps) simp
    ultimately show ?thesis by (simp add: Nil)
  next
    case (Cons x q')
    obtain u f where x: "x = (u, f)" by (cases x)
    show ?thesis
    proof (cases "bfs_scan t f (neighbors c i u) vis q'")
      case (Inl g)
      then obtain e where "(t, e) \<in> set (neighbors c i u)" "g = f * e" using bfs_scan_Inl by blast
      moreover have "factor_path c i s f u" using "1.prems" by (simp add: bfs_inv_def Cons x)
      ultimately have "factor_path c i s g t" by (auto intro: fp_step)
      moreover have "bfs_loop c i t vis q = Some g" by (subst bfs_loop.simps) (simp add: Cons x Inl)
      ultimately show ?thesis by simp
    next
      case (Inr y)
      obtain v2 q2 where y: "y = (v2, q2)" by (cases y)
      have "bfs_inv c i s t v2 q2"
        using bfs_inv_step "1.prems" Inr unfolding Cons x y by blast
      moreover have "bfs_loop c i t vis q = bfs_loop c i t v2 q2"
        by (subst bfs_loop.simps) (simp add: Cons x Inr y)
      ultimately show ?thesis
        using "1.IH" [OF Cons x [symmetric] Inr y [symmetric]] by simp
    qed
  qed
qed

lemma find_factor_cases:
  assumes "normalize_unit from_unit = Inr s" "normalize_unit to_unit = Inr t"
  obtains (found) f where "find_factor c i from_unit to_unit = Inr (Some f)" "factor_path c i s f t"
  | (unreachable) "find_factor c i from_unit to_unit = Inr None" "(s, t) \<notin> (unit_edges c i)\<^sup>*"
proof (cases "s = t")
  case True
  then show ?thesis using assms by (intro found [of 1]) (auto simp: find_factor_def intro: fp_start)
next
  case False
  then have "bfs_inv c i s t [s] [(s, 1)]" by (auto simp: bfs_inv_def intro: fp_start)
  from bfs_loop_correct [OF this] show ?thesis
    using assms False
    by (auto simp: find_factor_def split: option.splits intro: found unreachable)
qed

lemma find_factor_None_iff:
  assumes "normalize_unit from_unit = Inr s" "normalize_unit to_unit = Inr t"
  shows "find_factor c i from_unit to_unit = Inr None \<longleftrightarrow> (s, t) \<notin> (unit_edges c i)\<^sup>*"
  using assms by (cases rule: find_factor_cases [of from_unit s to_unit t c i])
    (auto dest: factor_path_reach)

subsection \<open>The constructor keeps physical dimensions apart\<close>

definition graph_sym :: "unit_graph \<Rightarrow> bool" where
  "graph_sym g \<longleftrightarrow> (\<forall>u v. v \<in> fst ` set (dict_get_or g u []) \<longrightarrow> u \<in> fst ` set (dict_get_or g v []))"

lemma graph_sym_add:
  assumes "graph_sym g"
  shows "graph_sym (dict_append t (s, b) (dict_append s (t, a) g))"
  using assms unfolding graph_sym_def by (auto simp: dict_get_or_append)

lemma add_rule_graphs:
  assumes "add_rule c r = Inr c'"
  obtains s t where
    "uc_graphs c' = dict_set (ucr_ingredient_id r)
       (dict_append t (s, 1 / ucr_factor r)
         (dict_append s (t, ucr_factor r) (dict_get_or (uc_graphs c) (ucr_ingredient_id r) [])))
       (uc_graphs c)"
    "normalize_unit (ucr_from_unit r) = Inr s" "normalize_unit (ucr_to_unit r) = Inr t"
  using assms by (auto simp: add_rule_def ebind_Inr_iff Let_def)

definition converter_sym :: "unit_converter \<Rightarrow> bool" where
  "converter_sym c \<longleftrightarrow> (\<forall>i. graph_sym (dict_get_or (uc_graphs c) i []))"

lemma add_rule_sym: "add_rule c r = Inr c' \<Longrightarrow> converter_sym c \<Longrightarrow> converter_sym c'"
  by (erule add_rule_graphs) (auto simp: converter_sym_def dict_get_or_set intro: graph_sym_add)

lemma make_converter_sym:
  assumes "make_unit_converter rules = Inr c"
  shows "converter_sym c"
proof -
  have "efold add_rule \<lparr>uc_graphs = []\<rparr> rules = Inr c"
    using assms by (auto simp: make_unit_converter_def ebind_Inr_iff)
  then show ?thesis
  proof (rule efold_invariant)
    show "converter_sym \<lparr>uc_graphs = []\<rparr>" by (simp add: converter_sym_def graph_sym_def)
  qed (rule add_rule_sym)
qed

definition builtin_pairs :: "(string \<times> string) set" where
  "builtin_pairs = {(''g'', ''kg''), (''kg'', ''g''), (''ml'', ''liter''), (''liter'', ''ml'')}"

lemma sym_unit_edges:
  assumes "converter_sym c"
  shows "sym (unit_edges c i)"
proof (rule symI)
  fix u v assume "(u, v) \<in> unit_edges c i"
  then have uv: "v \<in> fst ` set (neighbors c i u)" by (simp add: unit_edges_def)
  define g where "g = dict_get_or (uc_graphs c) i []"
  have g: "v \<in> fst ` set (dict_get_or g u []) \<Longrightarrow> u \<in> fst ` set (dict_get_or g v [])"
    using assms by (simp add: converter_sym_def graph_sym_def g_def)
  have nb: "w \<in> fst ` set (neighbors c i z) \<longleftrightarrow> w \<in> fst ` set (dict_get_or g z []) \<or> (z, w) \<in> builtin_pairs" for w z
    by (auto simp: neighbors_def g_def builtin_pairs_def)
  have "(z, w) \<in> builtin_pairs \<Longrightarrow> (w, z) \<in> builtin_pairs" for w z
    by (auto simp: builtin_pairs_def)
  with uv g have "u \<in> fst ` set (neighbors c i v)" unfolding nb by blast
  then show "(v, u) \<in> unit_edges c i" by (simp add: unit_edges_def)
qed

definition val_added :: "f64 \<Rightarrow> (string \<times> f64) list \<Rightarrow> (string, f64) dict \<Rightarrow> (string, f64) dict
    \<Rightarrow> string list \<Rightarrow> bool" where
  "val_added p ns pots pots' new \<longleftrightarrow>
     (\<forall>v. v \<in> dom (map_of pots') \<longleftrightarrow> v \<in> dom (map_of pots) \<or> v \<in> set new) \<and>
     set new \<inter> dom (map_of pots) = {} \<and> set new \<subseteq> fst ` set ns \<and>
     map_of pots \<subseteq>\<^sub>m map_of pots' \<and>
     (\<forall>(v, f) \<in> set ns. \<exists>pv. map_of pots' v = Some pv \<and>
        isclose pv (p * f) (fl (1 / 10 ^ 9)) (fl (1 / 10 ^ 12)))"

lemma val_added_skip:
  assumes "val_added p rest pots pots' new" "map_of pots n = Some pn"
    "isclose pn (p * f) (fl (1 / 10 ^ 9)) (fl (1 / 10 ^ 12))"
  shows "val_added p ((n, f) # rest) pots pots' new"
proof -
  have "map_of pots' n = Some pn"
    using assms(1,2) by (auto simp: val_added_def map_le_def dom_def)
  then show ?thesis using assms(1,3) unfolding val_added_def by auto
qed

lemma val_added_push:
  assumes "val_added p rest (dict_set n (p * f) pots) pots' new" "map_of pots n = None"
  shows "val_added p ((n, f) # rest) pots pots' (n # new)"
proof -
  have le: "(map_of pots)(n \<mapsto> p * f) \<subseteq>\<^sub>m map_of pots'"
    using assms(1) by (simp add: val_added_def dict_get_set)
  then have n: "map_of pots' n = Some (p * f)" by (auto simp: map_le_def dom_def split: if_splits)
  have "map_of pots \<subseteq>\<^sub>m map_of pots'"
    using le assms(2) by (auto simp: map_le_def dom_def fun_upd_def split: if_splits)
  then show ?thesis
    using assms n by (auto simp: val_added_def dict_get_set)
qed

lemma val_scan_Inr:
  assumes "val_scan i p ns pots q = Inr (pots', q')"
  shows "\<exists>new. q' = q @ new \<and> val_added p ns pots pots' new"
  using assms
proof (induction i p ns pots q rule: val_scan.induct)
  case (1 i p pots q)
  then show ?case by (simp add: val_added_def)
next
  case (2 i p n f rest pots q)
  show ?case
  proof (cases "dict_get pots n")
    case None
    with "2.prems" have "val_scan i p rest (dict_set n (p * f) pots) (q @ [n]) = Inr (pots', q')"
      by simp
    from "2.IH"(1) [OF refl None this] obtain new where
      "q' = (q @ [n]) @ new" "val_added p rest (dict_set n (p * f) pots) pots' new" by blast
    with None show ?thesis by (auto intro!: exI [of _ "n # new"] val_added_push)
  next
    case (Some pn)
    with "2.prems" have close: "isclose pn (p * f) (fl (1 / 10 ^ 9)) (fl (1 / 10 ^ 12))"
      and scan: "val_scan i p rest pots q = Inr (pots', q')" by (auto split: if_splits)
    from "2.IH"(2) [OF refl Some _ scan] close obtain new where
      "q' = q @ new" "val_added p rest pots pots' new" by auto
    with Some close show ?thesis by (auto intro: val_added_skip)
  qed
qed

text \<open>Node \<open>u\<close> and its potential agree with every neighbour, up to the tolerances of the check.\<close>

definition consistent_at :: "unit_converter \<Rightarrow> string \<Rightarrow> (string, f64) dict \<Rightarrow> string \<Rightarrow> bool" where
  "consistent_at c i pots u \<longleftrightarrow>
     (\<exists>pu. map_of pots u = Some pu \<and>
       (\<forall>(v, f) \<in> set (neighbors c i u). \<exists>pv. map_of pots v = Some pv \<and>
          isclose pv (pu * f) (fl (1 / 10 ^ 9)) (fl (1 / 10 ^ 12))))"

lemma consistent_at_extend:
  "consistent_at c i pots u \<Longrightarrow> map_of pots \<subseteq>\<^sub>m map_of pots' \<Longrightarrow> consistent_at c i pots' u"
  unfolding consistent_at_def map_le_def dom_def by fastforce

definition val_inv :: "unit_converter \<Rightarrow> string \<Rightarrow> (string, f64) dict \<Rightarrow> (string, f64) dict
    \<Rightarrow> string list \<Rightarrow> string list \<Rightarrow> bool" where
  "val_inv c i pots0 pots q us \<longleftrightarrow>
     (\<forall>v. v \<in> dom (map_of pots) \<longleftrightarrow> v \<in> dom (map_of pots0) \<or> v \<in> set us \<or> v \<in> set q) \<and>
     (set us \<union> set q) \<inter> dom (map_of pots0) = {} \<and>
     map_of pots0 \<subseteq>\<^sub>m map_of pots \<and>
     (\<forall>u \<in> set us. consistent_at c i pots u)"

lemma consistent_at_closed: "consistent_at c i pots u \<Longrightarrow> fst ` set (neighbors c i u) \<subseteq> dom (map_of pots)"
  by (fastforce simp: consistent_at_def)

lemma val_inv_step:
  assumes inv: "val_inv c i pots0 pots (u # q) us"
    and scan: "val_scan i (dict_get_or pots u 0) (neighbors c i u) pots q = Inr (pots', q')"
  shows "val_inv c i pots0 pots' q' (us @ [u])"
proof -
  obtain new where q': "q' = q @ new"
    and new: "val_added (dict_get_or pots u 0) (neighbors c i u) pots pots' new"
    using val_scan_Inr [OF scan] by blast
  have le: "map_of pots \<subseteq>\<^sub>m map_of pots'" using new by (simp add: val_added_def)
  have "u \<in> dom (map_of pots)" using inv by (simp add: val_inv_def)
  then obtain pu where pu: "map_of pots u = Some pu" by blast
  then have "dict_get_or pots u 0 = pu" by (simp add: dict_get_or_def)
  moreover have "map_of pots' u = Some pu" using le pu by (auto simp: map_le_def dom_def)
  ultimately have cu: "consistent_at c i pots' u"
    using new by (simp add: consistent_at_def val_added_def)
  have cons: "\<forall>w \<in> set (us @ [u]). consistent_at c i pots' w"
    using inv cu le by (auto simp: val_inv_def intro: consistent_at_extend)
  have keys: "\<forall>v. v \<in> dom (map_of pots') \<longleftrightarrow> v \<in> dom (map_of pots0) \<or> v \<in> set (us @ [u]) \<or> v \<in> set q'"
  proof
    fix v
    have "v \<in> dom (map_of pots') \<longleftrightarrow> v \<in> dom (map_of pots) \<or> v \<in> set new"
      using new unfolding val_added_def by blast
    moreover have "v \<in> dom (map_of pots) \<longleftrightarrow> v \<in> dom (map_of pots0) \<or> v \<in> set us \<or> v \<in> set (u # q)"
      using inv unfolding val_inv_def by blast
    ultimately show "v \<in> dom (map_of pots') \<longleftrightarrow> v \<in> dom (map_of pots0) \<or> v \<in> set (us @ [u]) \<or> v \<in> set q'"
      using q' by auto
  qed
  have "dom (map_of pots0) \<subseteq> dom (map_of pots)" using inv unfolding val_inv_def by blast
  moreover have "set new \<inter> dom (map_of pots) = {}" using new unfolding val_added_def by blast
  moreover have "(set us \<union> set (u # q)) \<inter> dom (map_of pots0) = {}" using inv unfolding val_inv_def by blast
  ultimately have disj: "(set (us @ [u]) \<union> set q') \<inter> dom (map_of pots0) = {}" using q' by auto
  have "map_of pots0 \<subseteq>\<^sub>m map_of pots'"
    using inv le by (auto simp: val_inv_def intro: map_le_trans)
  with keys disj cons show ?thesis unfolding val_inv_def by blast
qed

lemma val_loop_inv:
  assumes "val_inv c i pots0 pots q us" "val_loop c i pots q us = Inr (pots', us')"
  shows "val_inv c i pots0 pots' [] us' \<and> set us \<union> set q \<subseteq> set us'"
  using assms
proof (induction c i pots q us rule: val_loop.induct)
  case (1 c i pots q us)
  show ?case
  proof (cases q)
    case Nil
    with "1.prems" show ?thesis by (simp add: val_loop.simps [of c i pots "[]" us])
  next
    case (Cons u q')
    have eq: "val_loop c i pots q us =
      (case val_scan i (dict_get_or pots u 0) (neighbors c i u) pots q' of Inl e \<Rightarrow> Inl e
       | Inr (p2, q2) \<Rightarrow> val_loop c i p2 q2 (us @ [u]))"
      by (subst val_loop.simps) (simp add: Cons)
    then obtain y where y: "val_scan i (dict_get_or pots u 0) (neighbors c i u) pots q' = Inr y"
      using "1.prems"(2) by (cases "val_scan i (dict_get_or pots u 0) (neighbors c i u) pots q'") auto
    obtain p2 q2 where pq: "y = (p2, q2)" by (cases y)
    have scan: "val_scan i (dict_get_or pots u 0) (neighbors c i u) pots q' = Inr (p2, q2)"
      using y pq by simp
    have "val_inv c i pots0 p2 q2 (us @ [u])"
      using val_inv_step "1.prems"(1) scan unfolding Cons by blast
    moreover have "val_loop c i p2 q2 (us @ [u]) = Inr (pots', us')"
      using "1.prems"(2) eq scan by simp
    ultimately have "val_inv c i pots0 pots' [] us' \<and> set (us @ [u]) \<union> set q2 \<subseteq> set us'"
      using "1.IH" [OF Cons y pq [symmetric]] by blast
    moreover have "set q' \<subseteq> set q2" using val_scan_Inr [OF scan] by auto
    ultimately show ?thesis using Cons by auto
  qed
qed

definition one_dim :: "string set \<Rightarrow> bool" where
  "one_dim A \<longleftrightarrow> (\<forall>u \<in> A. \<forall>v \<in> A. \<forall>a b.
     dict_get UNIT_DIMENSIONS u = Some a \<longrightarrow> dict_get UNIT_DIMENSIONS v = Some b \<longrightarrow> a = b)"

lemma one_dim_mono: "one_dim B \<Longrightarrow> A \<subseteq> B \<Longrightarrow> one_dim A"
  by (auto simp: one_dim_def)

lemma unit_dims_one:
  assumes "\<not> 1 < length (unit_dims us)"
  shows "one_dim (set us)"
proof -
  have same: "a = b" if "a \<in> set (unit_dims us)" "b \<in> set (unit_dims us)" for a b
    using assms that by (cases "unit_dims us"; cases "tl (unit_dims us)") auto
  have mem: "a \<in> set (unit_dims us)" if "u \<in> set us" "dict_get UNIT_DIMENSIONS u = Some a" for u a
    using that by (force simp: unit_dims_def List.map_filter_def)
  show ?thesis unfolding one_dim_def using same mem by blast
qed

definition pots_inv :: "unit_converter \<Rightarrow> string \<Rightarrow> (string, f64) dict \<Rightarrow> bool" where
  "pots_inv c i pots \<longleftrightarrow>
     (\<forall>u \<in> dom (map_of pots). consistent_at c i pots u \<and> one_dim ((unit_edges c i)\<^sup>* `` {u}))"

lemma val_start_inv:
  assumes sym: "converter_sym c" and inv: "pots_inv c i pots"
    and step: "val_start c i pots start = Inr pots'"
  shows "pots_inv c i pots' \<and> dom (map_of pots) \<subseteq> dom (map_of pots') \<and> start \<in> dom (map_of pots')"
proof (cases "start \<in> set (dict_keys pots)")
  case True
  with step inv show ?thesis by (auto simp: val_start_def dom_map_of_conv_image_fst)
next
  case False
  with step obtain us where loop: "val_loop c i (dict_set start 1 pots) [start] [] = Inr (pots', us)"
    and dims: "\<not> 1 < length (unit_dims us)"
    by (auto simp: val_start_def ebind_Inr_iff split: if_splits)
  have ns: "start \<notin> dom (map_of pots)" using False by (simp add: dom_map_of_conv_image_fst)
  have "val_inv c i pots (dict_set start 1 pots) [start] []"
    using ns by (auto simp: val_inv_def dict_get_set map_le_def)
  from val_loop_inv [OF this loop]
  have v: "val_inv c i pots pots' [] us" and st: "start \<in> set us" by auto
  have keys: "v \<in> dom (map_of pots') \<longleftrightarrow> v \<in> dom (map_of pots) \<or> v \<in> set us" for v
    using v unfolding val_inv_def by simp
  have disj: "set us \<inter> dom (map_of pots) = {}" using v by (simp add: val_inv_def)
  have closed: "w \<in> set us" if "u \<in> set us" "(u, w) \<in> unit_edges c i" for u w
  proof (rule ccontr)
    assume nw: "w \<notin> set us"
    have "consistent_at c i pots' u" using v that(1) by (simp add: val_inv_def)
    then have "w \<in> dom (map_of pots')" using that(2) consistent_at_closed unfolding unit_edges_def by blast
    with keys nw have "w \<in> dom (map_of pots)" by blast
    then have "consistent_at c i pots w" using inv by (simp add: pots_inv_def)
    moreover have "(w, u) \<in> unit_edges c i" using sym_unit_edges [OF sym] that(2) by (rule symD)
    ultimately have "u \<in> dom (map_of pots)" using consistent_at_closed unfolding unit_edges_def by blast
    with disj that(1) show False by blast
  qed
  have "(unit_edges c i)\<^sup>* `` {u} \<subseteq> set us" if "u \<in> set us" for u
    using that closed by (auto intro: closed_reach)
  then have new: "one_dim ((unit_edges c i)\<^sup>* `` {u})" if "u \<in> set us" for u
    using that unit_dims_one [OF dims] one_dim_mono by blast
  have le: "map_of pots \<subseteq>\<^sub>m map_of pots'" using v by (simp add: val_inv_def)
  have "consistent_at c i pots' u \<and> one_dim ((unit_edges c i)\<^sup>* `` {u})" if "u \<in> dom (map_of pots')" for u
  proof (cases "u \<in> set us")
    case True
    with v new show ?thesis by (simp add: val_inv_def)
  next
    case False
    with that keys have "u \<in> dom (map_of pots)" by blast
    with inv le show ?thesis by (auto simp: pots_inv_def intro: consistent_at_extend)
  qed
  then show ?thesis using keys st by (auto simp: pots_inv_def)
qed

lemma val_starts_inv:
  assumes "converter_sym c" "pots_inv c i pots" "efold (val_start c i) pots starts = Inr pots'"
  shows "pots_inv c i pots' \<and> dom (map_of pots) \<subseteq> dom (map_of pots') \<and> set starts \<subseteq> dom (map_of pots')"
  using assms
proof (induction starts arbitrary: pots)
  case Nil
  then show ?case by simp
next
  case (Cons s ss)
  then obtain p where p: "val_start c i pots s = Inr p" "efold (val_start c i) p ss = Inr pots'"
    by (auto simp: ebind_Inr_iff)
  from val_start_inv [OF Cons.prems(1,2) p(1)] Cons.IH [OF Cons.prems(1) _ p(2)] show ?case by auto
qed

text \<open>The potentials the constructor found for one ingredient's graph.\<close>

lemma make_converter_potentials:
  assumes "make_unit_converter rules = Inr c" "(i, g) \<in> set (uc_graphs c)"
  obtains pots where "pots_inv c i pots" "set (dict_keys g) \<subseteq> dom (map_of pots)"
proof -
  have "validate_graphs c = Inr ()"
    using assms(1) by (auto simp: make_unit_converter_def ebind_Inr_iff)
  then have "\<exists>pots. efold (val_start c i) [] (dict_keys g) = Inr pots"
    using efold_each_ok [of "\<lambda>(ingredient_id, graph). efold (val_start c ingredient_id) [] (dict_keys graph)"
        "uc_graphs c" "(i, g)"] assms(2)
    by (simp add: validate_graphs_def case_prod_unfold)
  then obtain pots where "efold (val_start c i) [] (dict_keys g) = Inr pots" by blast
  from val_starts_inv [OF make_converter_sym [OF assms(1)] _ this] that show ?thesis
    by (auto simp: pots_inv_def)
qed

text \<open>No unit reaches two units of different physical dimensions.\<close>

lemma builtin_one_dim: "one_dim (insert u {v. (u, v) \<in> builtin_pairs})"
  by (auto simp: one_dim_def builtin_pairs_def UNIT_DIMENSIONS_def split: if_splits)

lemma no_key_edges_builtin:
  assumes "u \<notin> set (dict_keys (dict_get_or (uc_graphs c) i []))" "(u, v) \<in> unit_edges c i"
  shows "(u, v) \<in> builtin_pairs"
proof -
  have "map_of (dict_get_or (uc_graphs c) i []) u = None"
    using assms(1) by (simp add: map_of_eq_None_iff)
  then have "dict_get_or (dict_get_or (uc_graphs c) i []) u [] = []" by (simp add: dict_get_or_def [of _ u])
  then show ?thesis
    using assms(2) by (auto simp: unit_edges_def neighbors_def builtin_pairs_def split: if_splits)
qed

lemma reach_one_dim:
  assumes "make_unit_converter rules = Inr c"
  shows "one_dim ((unit_edges c i)\<^sup>* `` {u})"
proof -
  define g where "g = dict_get_or (uc_graphs c) i []"
  have sym: "sym ((unit_edges c i)\<^sup>*)"
    by (rule sym_rtrancl [OF sym_unit_edges [OF make_converter_sym [OF assms]]])
  show ?thesis
  proof (cases "\<exists>k \<in> set (dict_keys g). (u, k) \<in> (unit_edges c i)\<^sup>*")
    case True
    then obtain k where k: "k \<in> set (dict_keys g)" "(u, k) \<in> (unit_edges c i)\<^sup>*" by blast
    then have "(i, g) \<in> set (uc_graphs c)"
      by (cases "map_of (uc_graphs c) i") (auto simp: g_def dict_get_or_def dest: map_of_SomeD)
    with assms obtain pots where "pots_inv c i pots" "set (dict_keys g) \<subseteq> dom (map_of pots)"
      by (rule make_converter_potentials)
    with k(1) have "one_dim ((unit_edges c i)\<^sup>* `` {k})" unfolding pots_inv_def by blast
    moreover have "(unit_edges c i)\<^sup>* `` {u} \<subseteq> (unit_edges c i)\<^sup>* `` {k}"
      using symD [OF sym k(2)] by (auto intro: rtrancl_trans)
    ultimately show ?thesis by (rule one_dim_mono)
  next
    case False
    have "(unit_edges c i)\<^sup>* `` {u} \<subseteq> insert u {v. (u, v) \<in> builtin_pairs}"
    proof
      fix w assume "w \<in> (unit_edges c i)\<^sup>* `` {u}"
      then have "(u, w) \<in> (unit_edges c i)\<^sup>*" by simp
      then show "w \<in> insert u {v. (u, v) \<in> builtin_pairs}"
      proof (induction rule: rtrancl_induct)
        case base
        show ?case by simp
      next
        case (step y z)
        from step.hyps(1) False have "y \<notin> set (dict_keys g)" by blast
        then have "(y, z) \<in> builtin_pairs"
          using step.hyps(2) unfolding g_def by (rule no_key_edges_builtin)
        with step.IH show ?case by (auto simp: builtin_pairs_def)
      qed
    qed
    then show ?thesis using builtin_one_dim one_dim_mono by blast
  qed
qed

lemma dims_unreachable:
  assumes "make_unit_converter rules = Inr c"
    and "dict_get UNIT_DIMENSIONS s = Some a" "dict_get UNIT_DIMENSIONS t = Some b" "a \<noteq> b"
  shows "(u, s) \<notin> (unit_edges c i)\<^sup>* \<or> (u, t) \<notin> (unit_edges c i)\<^sup>*"
  using reach_one_dim [OF assms(1), of i u] assms(2-4) unfolding one_dim_def by blast

lemma find_factor_dims:
  assumes "make_unit_converter rules = Inr c" "normalize_unit from_unit = Inr s" "normalize_unit to_unit = Inr t"
    and "dict_get UNIT_DIMENSIONS s = Some a" "dict_get UNIT_DIMENSIONS t = Some b" "a \<noteq> b"
  shows "find_factor c i from_unit to_unit = Inr None"
  using dims_unreachable [OF assms(1,4,5,6), of s] find_factor_None_iff [OF assms(2,3)] by blast

subsection \<open>The contract of the converter\<close>

text \<open>
  What the BOM engine, the inventory adapters and the optimiser rely on: a factor is a
  function of the normalised names, equal names convert by one, and whatever fails is a
  \<open>BOMError\<close>, so that \<open>except BOMError\<close> catches it.
\<close>

locale unit_service =
  fixes factor :: "string \<Rightarrow> string \<Rightarrow> string \<Rightarrow> f64 py"
    and canonical :: "string \<Rightarrow> string \<Rightarrow> string py"
  assumes factor_same: "normalize_unit a = Inr u \<Longrightarrow> normalize_unit b = Inr u \<Longrightarrow> factor i a b = Inr 1"
    and factor_bom: "factor i a b = Inl e \<Longrightarrow> is_bom_error e"
    and canonical_bom: "canonical i a = Inl e \<Longrightarrow> is_bom_error e"
    and canonical_normal: "canonical i a = Inr u \<Longrightarrow> normalize_unit u = Inr u"
begin

lemma factor_refl: "normalize_unit a = Inr u \<Longrightarrow> factor i a u = Inr 1"
  by (rule factor_same [where u = u]) (auto intro: normalize_unit_idem)

lemma factor_canonical_self: "canonical i a = Inr u \<Longrightarrow> factor i u u = Inr 1"
  using canonical_normal factor_refl by blast

end

lemma normalize_unit_bom: "normalize_unit a = Inl e \<Longrightarrow> is_bom_error e"
  by (auto simp: normalize_unit_def Let_def is_bom_error_def split: if_splits)

lemma find_factor_bom: "find_factor c i a b = Inl e \<Longrightarrow> is_bom_error e"
  by (auto simp: find_factor_def ebind_Inl_iff split: if_splits intro: normalize_unit_bom)

lemma conversion_factor_bom: "conversion_factor c i a b = Inl e \<Longrightarrow> is_bom_error e"
  by (auto simp: conversion_factor_def ebind_Inl_iff is_bom_error_def [of "exn _ _"]
      split: option.splits intro: normalize_unit_bom find_factor_bom)

lemma conversion_factor_same:
  "normalize_unit a = Inr u \<Longrightarrow> normalize_unit b = Inr u \<Longrightarrow> conversion_factor c i a b = Inr 1"
  by (simp add: conversion_factor_def find_factor_def normalize_unit_idem)

lemma canonical_unit_bom:
  assumes "canonical_unit c i a = Inl e"
  shows "is_bom_error e"
proof (cases "normalize_unit a")
  case (Inl e')
  with assms show ?thesis by (auto simp: canonical_unit_def intro: normalize_unit_bom)
next
  case (Inr s)
  let ?m = "emap (\<lambda>t. ebind (find_factor c i s t) (\<lambda>f. Inr (t, f))) [''kg'', ''liter'', ''unit'']"
  show ?thesis
  proof (cases ?m)
    case m: (Inl e')
    then have "is_bom_error e'" by (elim emap_InlE) (auto simp: ebind_Inl_iff intro: find_factor_bom)
    with assms Inr m show ?thesis by (auto simp: canonical_unit_def simp del: emap.simps split: option.splits)
  next
    case m: (Inr found)
    show ?thesis
      using assms Inr m
      by (cases "map fst (filter (\<lambda>(t, f). f \<noteq> None) found)")
        (auto simp: canonical_unit_def Let_def is_bom_error_def simp del: emap.simps
          split: option.splits if_splits)
  qed
qed

lemma dimension_canonical:
  assumes "dict_get UNIT_DIMENSIONS s = Some d"
  shows "dict_get_or CANONICAL_UNITS d [] \<in> {''kg'', ''liter'', ''unit''}"
  using map_of_SomeD [OF assms] by (auto simp: UNIT_DIMENSIONS_def CANONICAL_UNITS_def dict_get_or_def)

lemma base_units_normal:
  "u \<in> {''kg'', ''liter'', ''unit''} \<Longrightarrow> normalize_unit u = Inr u"
proof -
  have "list_all (\<lambda>u. normalize_unit u = Inr u) [''kg'', ''liter'', ''unit'']" by code_simp
  then show "u \<in> {''kg'', ''liter'', ''unit''} \<Longrightarrow> normalize_unit u = Inr u" by auto
qed

lemma emap_find_factor:
  "emap (\<lambda>t. ebind (find_factor c i s t) (\<lambda>f. Inr (t, f))) ts = Inr found \<Longrightarrow>
     map fst found = ts \<and> (\<forall>(t, f) \<in> set found. find_factor c i s t = Inr f)"
  by (induction ts arbitrary: found) (auto simp: ebind_Inr_iff)

lemma canonical_unit_cases:
  assumes "canonical_unit c i a = Inr u" "normalize_unit a = Inr s"
  shows "u \<in> {''kg'', ''liter'', ''unit''} \<or> u = s"
proof (cases "dict_get UNIT_DIMENSIONS s")
  case (Some d)
  with assms dimension_canonical [OF Some] show ?thesis by (auto simp: canonical_unit_def)
next
  case None
  with assms obtain found where
    found: "emap (\<lambda>t. ebind (find_factor c i s t) (\<lambda>f. Inr (t, f))) [''kg'', ''liter'', ''unit''] = Inr found"
    and u: "u = s \<or> (\<exists>r rs. map fst (filter (\<lambda>(t, f). f \<noteq> None) found) = r # rs \<and> u = r)"
    by (auto simp: canonical_unit_def ebind_Inr_iff Let_def simp del: emap.simps
        split: if_splits list.splits)
  from u show ?thesis
  proof
    assume "\<exists>r rs. map fst (filter (\<lambda>(t, f). f \<noteq> None) found) = r # rs \<and> u = r"
    then have "u \<in> set (map fst (filter (\<lambda>(t, f). f \<noteq> None) found))" by (metis list.set_intros(1))
    then have "u \<in> set (map fst found)" by auto
    then show ?thesis using emap_find_factor [OF found] by simp
  qed simp
qed

lemma canonical_unit_normal:
  assumes "canonical_unit c i a = Inr u"
  shows "normalize_unit u = Inr u"
proof -
  obtain s where s: "normalize_unit a = Inr s"
    using assms by (auto simp: canonical_unit_def ebind_Inr_iff)
  from canonical_unit_cases [OF assms s] base_units_normal normalize_unit_idem [OF s] show ?thesis by auto
qed

interpretation conv: unit_service "conversion_factor c" "canonical_unit c" for c
  by unfold_locales
    (auto intro: conversion_factor_same conversion_factor_bom canonical_unit_bom canonical_unit_normal)

section \<open>Properties of the converter\<close>

text \<open>A rule for one ingredient, for concrete runs: two pieces of egg in a pack.\<close>

definition egg_pack :: unit_conversion_rule where
 "egg_pack = \<lparr>ucr_ingredient_id = ''egg'', ucr_from_unit = ''pack'', ucr_to_unit = ''piece'', ucr_factor = fint 2\<rparr>"
lemma egg_pack_converter: "is_ok (make_unit_converter [egg_pack])" by code_simp

text \<open>C4: a converter that was constructed never converts between two physical
  dimensions: whatever conversion rules it was built from, asking for the factor of two
  units of different dimensions (mass, volume, count) raises \<open>UnitConversionError\<close>.\<close>

theorem conversion_never_mixes_dimensions:
  assumes "make_unit_converter rules = Inr c"
    and "normalize_unit a = Inr s" "normalize_unit b = Inr t"
    and "dict_get UNIT_DIMENSIONS s = Some da" "dict_get UNIT_DIMENSIONS t = Some db" "da \<noteq> db"
  shows "\<exists>e. conversion_factor c i a b = Inl e \<and> err_class e = UnitConversionError"
proof -
  have "find_factor c i s t = Inr None"
    by (rule find_factor_dims [OF assms(1) normalize_unit_idem [OF assms(2)] normalize_unit_idem [OF assms(3)] assms(4-6)])
  then show ?thesis using assms(2,3) by (simp add: conversion_factor_def)
qed

theorem conversion_never_mixes_dimensions_witness:
  "\<exists>c e. make_unit_converter [egg_pack] = Inr c \<and>
     conversion_factor c ''egg'' ''Kilogram'' ''litre'' = Inl e \<and> err_class e = UnitConversionError"
proof -
  obtain c where c: "make_unit_converter [egg_pack] = Inr c"
    using egg_pack_converter by (auto simp: is_ok_iff)
  have n: "normalize_unit ''Kilogram'' = Inr ''kg''" "normalize_unit ''litre'' = Inr ''liter''"
    by code_simp+
  show ?thesis
    using conversion_never_mixes_dimensions [OF c n, of "''mass''" "''volume''" "''egg''"] c
    by (simp add: UNIT_DIMENSIONS_def)
qed

text \<open>\<open>canonical_unit\<close> is never ambiguous for a constructed converter: it returns a unit,
  and the only name it rejects is an unconvertible \<open>pack\<close>.\<close>

theorem canonical_unit_unambiguous:
  assumes "make_unit_converter rules = Inr c" "normalize_unit a = Inr s"
  shows "(\<exists>u. canonical_unit c i a = Inr u) \<or>
    (s = ''pack'' \<and> (\<exists>e. canonical_unit c i a = Inl e \<and> err_class e = UnitConversionError))"
proof (cases "dict_get UNIT_DIMENSIONS s")
  case (Some d)
  with assms(2) show ?thesis by (simp add: canonical_unit_def)
next
  case None
  define R where "R = (unit_edges c i)\<^sup>*"
  have ss: "normalize_unit s = Inr s" using normalize_unit_idem [OF assms(2)] .
  have norm: "normalize_unit ''kg'' = Inr ''kg''" "normalize_unit ''liter'' = Inr ''liter''"
    "normalize_unit ''unit'' = Inr ''unit''" by (simp_all add: base_units_normal)
  have dims: "dict_get UNIT_DIMENSIONS ''kg'' = Some ''mass''"
    "dict_get UNIT_DIMENSIONS ''liter'' = Some ''volume''" "dict_get UNIT_DIMENSIONS ''unit'' = Some ''count''"
    by (simp_all add: UNIT_DIMENSIONS_def)
  have ex: "\<exists>f. find_factor c i s t = Inr f \<and> (f = None \<longleftrightarrow> (s, t) \<notin> R)" if "normalize_unit t = Inr t" for t
    by (rule find_factor_cases [OF ss that, of c i]) (auto simp: R_def dest: factor_path_reach)
  obtain f1 f2 f3 where f: "find_factor c i s ''kg'' = Inr f1" "find_factor c i s ''liter'' = Inr f2"
    "find_factor c i s ''unit'' = Inr f3"
    and fn: "f1 = None \<longleftrightarrow> (s, ''kg'') \<notin> R" "f2 = None \<longleftrightarrow> (s, ''liter'') \<notin> R" "f3 = None \<longleftrightarrow> (s, ''unit'') \<notin> R"
    using ex norm by metis
  have "(s, ''kg'') \<notin> R \<or> (s, ''liter'') \<notin> R" "(s, ''kg'') \<notin> R \<or> (s, ''unit'') \<notin> R"
    "(s, ''liter'') \<notin> R \<or> (s, ''unit'') \<notin> R"
    using dims_unreachable [OF assms(1) dims(1) dims(2)] dims_unreachable [OF assms(1) dims(1) dims(3)]
      dims_unreachable [OF assms(1) dims(2) dims(3)]
    unfolding R_def by simp_all
  then show ?thesis
    using f fn None assms(2) by (auto simp: canonical_unit_def Let_def)
qed

theorem canonical_unit_unambiguous_witness:
  "\<exists>c. make_unit_converter [egg_pack] = Inr c \<and>
     (\<exists>u. canonical_unit c ''egg'' ''can'' = Inr u)"
proof -
  obtain c where c: "make_unit_converter [egg_pack] = Inr c"
    using egg_pack_converter by (auto simp: is_ok_iff)
  have n: "normalize_unit ''can'' = Inr ''can''" by code_simp
  show ?thesis using canonical_unit_unambiguous [OF c n, of "''egg''"] c by simp
qed
end
