(* ===== verification/Recipes.thy ===== *)
theory Recipes
  imports Unit_Search "HOL-Library.Multiset"
begin

text \<open>
  \<open>shelfcash_core/bom/adapter.py\<close> and \<open>recipe_resolver.py\<close>: recipe records and their
  contract, the adapter that turns a table into records, and the resolver that picks the
  one recipe version active at a date. What pandas computes on a cell (missing-value test,
  text, number and date parsing) is the parameter \<open>pandas\<close>.
\<close>

section \<open>Recipe records\<close>

record recipe_record =
  rr_recipe_line_id :: "string option"
  rr_recipe_id :: string
  rr_product_id :: string
  rr_ingredient_id :: string
  rr_ingredient_name :: "string option"
  rr_ingredient_quantity :: f64
  rr_ingredient_unit :: string
  rr_yield_quantity :: f64
  rr_yield_unit :: string
  rr_process_loss_rate :: f64
  rr_waste_allowance_rate :: f64
  rr_recipe_version :: string
  rr_effective_from :: date
  rr_effective_to :: "date option"

text \<open>The field constraints and \<open>validate_effective_range\<close>, after the text is stripped.\<close>

definition recipe_record_ok :: "recipe_record \<Rightarrow> bool" where
  "recipe_record_ok r \<longleftrightarrow>
     rr_recipe_id r \<noteq> [] \<and> rr_product_id r \<noteq> [] \<and> rr_ingredient_id r \<noteq> [] \<and>
     rr_ingredient_unit r \<noteq> [] \<and> rr_yield_unit r \<noteq> [] \<and> rr_recipe_version r \<noteq> [] \<and>
     0 \<le> rr_ingredient_quantity r \<and> 0 < rr_yield_quantity r \<and>
     0 \<le> rr_process_loss_rate r \<and> 0 \<le> rr_waste_allowance_rate r \<and>
     (case rr_effective_to r of None \<Rightarrow> True | Some t \<Rightarrow> \<not> t < rr_effective_from r)"

definition strip_required_text :: "recipe_record \<Rightarrow> recipe_record" where
  "strip_required_text r = r\<lparr>
     rr_recipe_id := str_strip (rr_recipe_id r), rr_product_id := str_strip (rr_product_id r),
     rr_ingredient_id := str_strip (rr_ingredient_id r),
     rr_ingredient_unit := str_strip (rr_ingredient_unit r),
     rr_yield_unit := str_strip (rr_yield_unit r),
     rr_recipe_version := str_strip (rr_recipe_version r)\<rparr>"

definition make_recipe_record :: "recipe_record \<Rightarrow> recipe_record py" where
  "make_recipe_record r = (let s = strip_required_text r in contract (recipe_record_ok s) s)"

section \<open>Tables\<close>

text \<open>
  What the adapter asks of pandas: \<open>pd.isna\<close>, \<open>str\<close>, \<open>isinstance(_, str)\<close>,
  \<open>pd.to_numeric(errors='coerce')\<close> and \<open>pd.to_datetime(errors='coerce')\<close> (\<open>None\<close> where the
  result is missing), the comparisons used to filter the sales history, and the cells it
  fills missing columns with.
\<close>

record 'c pandas =
  pd_isna :: "'c \<Rightarrow> bool"
  pd_str :: "'c \<Rightarrow> string"
  pd_is_str :: "'c \<Rightarrow> bool"
  pd_to_numeric :: "'c \<Rightarrow> f64 option"
  pd_to_datetime :: "'c \<Rightarrow> date option"
  pd_ne_empty :: "'c \<Rightarrow> bool"
  pd_ge_zero :: "'c \<Rightarrow> bool"
  pd_date_le :: "'c \<Rightarrow> date \<Rightarrow> bool"
  pd_zero :: 'c
  pd_NaT :: 'c
  pd_NA :: 'c

type_synonym 'c row = "string \<Rightarrow> 'c"

record 'c data_frame =
  df_columns :: "string list"
  df_rows :: "'c row list"

definition df_empty :: "'c data_frame \<Rightarrow> bool" where
  "df_empty f \<longleftrightarrow> df_columns f = [] \<or> df_rows f = []"

text \<open>\<open>if column not in frame.columns: frame[column] = value\<close>.\<close>

definition df_default :: "string \<Rightarrow> 'c \<Rightarrow> 'c data_frame \<Rightarrow> 'c data_frame" where
  "df_default col v f =
     (if col \<in> set (df_columns f) then f
      else \<lparr>df_columns = df_columns f @ [col], df_rows = map (\<lambda>row. row(col := v)) (df_rows f)\<rparr>)"

definition missing_columns :: "string list \<Rightarrow> 'c data_frame \<Rightarrow> string list" where
  "missing_columns required f = sorted_set (filter (\<lambda>c. c \<notin> set (df_columns f)) required)"

definition RECIPE_REQUIRED_COLUMNS :: "string list" where
  "RECIPE_REQUIRED_COLUMNS =
     [''recipe_id'', ''product_id'', ''ingredient_id'', ''ingredient_quantity'', ''ingredient_unit'',
      ''yield_quantity'', ''yield_unit'', ''recipe_version'', ''effective_from'']"

definition CONVERSION_REQUIRED_COLUMNS :: "string list" where
  "CONVERSION_REQUIRED_COLUMNS = [''ingredient_id'', ''from_unit'', ''to_unit'', ''factor'']"

definition missing_text :: "'c pandas \<Rightarrow> 'c \<Rightarrow> bool" where
  "missing_text pd v \<longleftrightarrow> pd_isna pd v \<or> str_strip (pd_str pd v) = []"

definition parse_date :: "'c pandas \<Rightarrow> 'c \<Rightarrow> date option" where
  "parse_date pd v =
     (if pd_isna pd v \<or> (pd_is_str pd v \<and> str_strip (pd_str pd v) = []) then None
      else pd_to_datetime pd v)"

definition parse_number :: "'c pandas \<Rightarrow> 'c \<Rightarrow> f64 option" where
  "parse_number pd v = pd_to_numeric pd v"

definition parse_optional_rate :: "'c pandas \<Rightarrow> 'c \<Rightarrow> f64 option" where
  "parse_optional_rate pd v =
     (if pd_isna pd v \<or> (pd_is_str pd v \<and> str_strip (pd_str pd v) = []) then Some 0
      else parse_number pd v)"

section \<open>Product units\<close>

definition raise_product_unit_conflicts :: "(string \<times> string, string list) dict \<Rightarrow> unit py" where
  "raise_product_unit_conflicts grouped_units =
     (let conflicts = map (\<lambda>(key, units).
            PDict [(''store_id'', PStr (fst key)), (''product_id'', PStr (snd key)),
                   (''normalized_units'', PList (map PStr (sorted_set units)))])
          (filter (\<lambda>(key, units). 1 < length (remdups units)) (sort_key fst grouped_units))
      in raise_if (conflicts \<noteq> [])
           (exn ProductUnitConsistencyError [(''conflicts'', PList conflicts)]))"

definition SALES_REQUIRED_COLUMNS :: "string list" where
  "SALES_REQUIRED_COLUMNS =
     [''date'', ''store_key'', ''product_key'', ''product_name'', ''quantity_sold'', ''unit'']"

definition sales_row_valid :: "'c pandas \<Rightarrow> date option \<Rightarrow> 'c row \<Rightarrow> bool" where
  "sales_row_valid pd cutoff_date row \<longleftrightarrow>
     \<not> pd_isna pd (row ''date'') \<and> \<not> pd_isna pd (row ''product_name'') \<and>
     pd_ne_empty pd (row ''product_name'') \<and> \<not> pd_isna pd (row ''quantity_sold'') \<and>
     pd_ge_zero pd (row ''quantity_sold'') \<and>
     (case cutoff_date of None \<Rightarrow> True | Some c \<Rightarrow> pd_date_le pd (row ''date'') c)"

definition validate_sales_product_unit_consistency ::
    "'c pandas \<Rightarrow> 'c data_frame \<Rightarrow> date option \<Rightarrow> unit py" where
  "validate_sales_product_unit_consistency pd sales cutoff_date =
     (let missing = missing_columns SALES_REQUIRED_COLUMNS sales in
      ebind (raise_if (missing \<noteq> [])
        (exn ProductUnitConsistencyError [(''missing_columns'', PList (map PStr missing))])) (\<lambda>_.
      ebind (efold (\<lambda>grouped row.
               if missing_text pd (row ''unit'') then Inr grouped
               else ebind (normalize_unit (pd_str pd (row ''unit''))) (\<lambda>u.
                 Inr (dict_append (pd_str pd (row ''store_key''), pd_str pd (row ''product_key'')) u grouped)))
             [] (filter (sales_row_valid pd cutoff_date) (df_rows sales))) (\<lambda>grouped_units.
      raise_product_unit_conflicts grouped_units)))"

section \<open>The recipe adapter\<close>

definition required_text_errors :: "'c pandas \<Rightarrow> string list \<Rightarrow> 'c row \<Rightarrow> string list" where
  "required_text_errors pd cols row =
     map (\<lambda>c. c @ '' is required'') (filter (\<lambda>c. missing_text pd (row c)) cols)"

definition RECIPE_TEXT_COLUMNS :: "string list" where
  "RECIPE_TEXT_COLUMNS =
     [''recipe_id'', ''product_id'', ''ingredient_id'', ''ingredient_unit'', ''yield_unit'', ''recipe_version'']"

definition bad_number :: "(f64 \<Rightarrow> bool) \<Rightarrow> f64 option \<Rightarrow> bool" where
  "bad_number good v = (case v of None \<Rightarrow> True | Some x \<Rightarrow> \<not> good x)"

definition recipe_row_errors :: "'c pandas \<Rightarrow> 'c row \<Rightarrow> string list" where
  "recipe_row_errors pd row =
     (let ingredient_quantity = parse_number pd (row ''ingredient_quantity'');
          yield_quantity = parse_number pd (row ''yield_quantity'');
          process_loss_rate = parse_optional_rate pd (row ''process_loss_rate'');
          waste_allowance_rate = parse_optional_rate pd (row ''waste_allowance_rate'');
          effective_from = parse_date pd (row ''effective_from'');
          effective_to = parse_date pd (row ''effective_to'');
          raw_effective_to = row ''effective_to''
      in required_text_errors pd RECIPE_TEXT_COLUMNS row
         @ (if bad_number (\<lambda>x. 0 \<le> x) ingredient_quantity then [''ingredient_quantity must be >= 0''] else [])
         @ (if bad_number (\<lambda>x. 0 < x) yield_quantity then [''yield_quantity must be > 0''] else [])
         @ (if bad_number (\<lambda>x. 0 \<le> x) process_loss_rate then [''process_loss_rate must be >= 0''] else [])
         @ (if bad_number (\<lambda>x. 0 \<le> x) waste_allowance_rate then [''waste_allowance_rate must be >= 0''] else [])
         @ (if effective_from = None then [''effective_from must be a valid date''] else [])
         @ (if \<not> pd_isna pd raw_effective_to \<and> str_strip (pd_str pd raw_effective_to) \<noteq> []
               \<and> effective_to = None
            then [''effective_to must be a valid date or null''] else [])
         @ (case (effective_from, effective_to) of
              (Some f, Some t) \<Rightarrow> if t < f then [''effective_to must be >= effective_from''] else []
            | _ \<Rightarrow> []))"

text \<open>The record built from a row that passed the checks (its parsed values exist).\<close>

definition build_recipe_record :: "'c pandas \<Rightarrow> string list \<Rightarrow> 'c row \<Rightarrow> recipe_record py" where
  "build_recipe_record pd columns row =
     (let text = (\<lambda>c. str_strip (pd_str pd (row c))) in
      ebind (normalize_unit (pd_str pd (row ''ingredient_unit''))) (\<lambda>ingredient_unit.
      ebind (normalize_unit (pd_str pd (row ''yield_unit''))) (\<lambda>yield_unit.
      Inr \<lparr>rr_recipe_line_id =
             (if ''recipe_line_id'' \<notin> set columns \<or> missing_text pd (row ''recipe_line_id'') then None
              else Some (text ''recipe_line_id'')),
           rr_recipe_id = text ''recipe_id'', rr_product_id = text ''product_id'',
           rr_ingredient_id = text ''ingredient_id'',
           rr_ingredient_name =
             (if missing_text pd (row ''ingredient_name'') then None else Some (text ''ingredient_name'')),
           rr_ingredient_quantity = the (parse_number pd (row ''ingredient_quantity'')),
           rr_ingredient_unit = ingredient_unit,
           rr_yield_quantity = the (parse_number pd (row ''yield_quantity'')),
           rr_yield_unit = yield_unit,
           rr_process_loss_rate = the (parse_optional_rate pd (row ''process_loss_rate'')),
           rr_waste_allowance_rate = the (parse_optional_rate pd (row ''waste_allowance_rate'')),
           rr_recipe_version = text ''recipe_version'',
           rr_effective_from = the (parse_date pd (row ''effective_from'')),
           rr_effective_to = parse_date pd (row ''effective_to'')\<rparr>)))"

definition row_error :: "nat \<Rightarrow> pyval list \<Rightarrow> pyval" where
  "row_error n es = PDict [(''row'', PInt (int n)), (''errors'', PList es)]"

text \<open>
  One iteration: the state is (records, errors). A \<open>ValueError\<close> of the contract becomes a row
  error whose text is not modelled; the errors of \<open>normalize_unit\<close> are no \<open>ValueError\<close> and propagate.
\<close>

definition adapt_recipe_row ::
    "'c pandas \<Rightarrow> string list \<Rightarrow> recipe_record list \<times> pyval list \<Rightarrow> nat \<times> 'c row
      \<Rightarrow> (recipe_record list \<times> pyval list) py" where
  "adapt_recipe_row pd columns st nrow =
     (case (st, nrow) of ((records, errors), (row_number, row)) \<Rightarrow>
      (let row_errors = recipe_row_errors pd row in
       if row_errors \<noteq> [] then Inr (records, errors @ [row_error row_number (map PStr row_errors)])
       else ebind (build_recipe_record pd columns row) (\<lambda>r.
         case make_recipe_record r of
           Inr record \<Rightarrow> Inr (records @ [record], errors)
         | Inl e \<Rightarrow> Inr (records, errors @ [row_error row_number [PNone]]))))"

definition recipe_metadata ::
    "recipe_record \<Rightarrow> (string \<times> pyval) list" where
  "recipe_metadata r =
     [(''product_id'', PStr (rr_product_id r)), (''recipe_id'', PStr (rr_recipe_id r)),
      (''recipe_version'', PStr (rr_recipe_version r)),
      (''yield_quantity'', PNum (rr_yield_quantity r)), (''yield_unit'', PStr (rr_yield_unit r)),
      (''effective_from'', PDate (rr_effective_from r)),
      (''effective_to'', opt_val PDate (rr_effective_to r))]"

definition inconsistent_fields :: "recipe_record list \<Rightarrow> string list" where
  "inconsistent_fields grp =
     filter (\<lambda>f. 1 < length (remdups (map (\<lambda>r. dict_get (recipe_metadata r) f) grp)))
       [''product_id'', ''recipe_id'', ''recipe_version'', ''yield_quantity'', ''yield_unit'',
        ''effective_from'', ''effective_to'']"

definition validate_recipe_metadata_consistency :: "recipe_record list \<Rightarrow> unit py" where
  "validate_recipe_metadata_consistency records =
     (let grouped = group_by (\<lambda>r. (rr_recipe_id r, rr_recipe_version r)) records;
          inconsistent = map (\<lambda>(key, grp).
              PDict [(''recipe_id'', PStr (fst key)), (''recipe_version'', PStr (snd key)),
                     (''inconsistent_fields'', PList (map PStr (inconsistent_fields grp)))])
            (filter (\<lambda>(key, grp). inconsistent_fields grp \<noteq> []) grouped)
      in raise_if (inconsistent \<noteq> [])
           (exn RecipeValidationError [(''inconsistent_versions'', PList inconsistent)]))"

definition recipe_frame :: "'c pandas \<Rightarrow> 'c data_frame \<Rightarrow> 'c data_frame" where
  "recipe_frame pd recipes =
     df_default ''ingredient_name'' (pd_NA pd)
      (df_default ''effective_to'' (pd_NaT pd)
       (df_default ''waste_allowance_rate'' (pd_zero pd)
        (df_default ''process_loss_rate'' (pd_zero pd) recipes)))"

definition adapt_recipes :: "'c pandas \<Rightarrow> 'c data_frame \<Rightarrow> recipe_record list py" where
  "adapt_recipes pd recipes =
     (let missing = missing_columns RECIPE_REQUIRED_COLUMNS recipes in
      ebind (raise_if (missing \<noteq> [])
        (exn RecipeValidationError [(''missing_columns'', PList (map PStr missing))])) (\<lambda>_.
      ebind (raise_if (df_empty recipes) (exn RecipeValidationError [])) (\<lambda>_.
      let frame = recipe_frame pd recipes in
      ebind (efold (adapt_recipe_row pd (df_columns frame)) ([], []) (enumerate 0 (df_rows frame)))
       (\<lambda>(records, errors).
      ebind (raise_if (errors \<noteq> [])
        (exn RecipeValidationError [(''row_errors'', PList errors)])) (\<lambda>_.
      ebind (validate_recipe_metadata_consistency records) (\<lambda>_.
      Inr records))))))"

section \<open>The conversion-rule adapter\<close>

type_synonym rule_key = "string \<times> string \<times> string"

record conversion_state =
  cs_rules :: "unit_conversion_rule list"
  cs_errors :: "pyval list"
  cs_seen :: "(rule_key, f64) dict"

definition adapt_conversion_row ::
    "'c pandas \<Rightarrow> conversion_state \<Rightarrow> nat \<times> 'c row \<Rightarrow> conversion_state py" where
  "adapt_conversion_row pd st nrow =
     (case nrow of (row_number, row) \<Rightarrow>
      (let factor = parse_number pd (row ''factor'');
           row_errors = required_text_errors pd [''ingredient_id'', ''from_unit'', ''to_unit''] row
             @ (if bad_number (\<lambda>x. 0 < x) factor then [''factor must be > 0''] else [])
       in if row_errors \<noteq> [] then
            Inr (st\<lparr>cs_errors := cs_errors st @ [row_error row_number (map PStr row_errors)]\<rparr>)
          else
            (let ingredient_id = str_strip (pd_str pd (row ''ingredient_id'')) in
             ebind (normalize_unit (pd_str pd (row ''from_unit''))) (\<lambda>from_unit.
             ebind (normalize_unit (pd_str pd (row ''to_unit''))) (\<lambda>to_unit.
             let key = (ingredient_id, from_unit, to_unit) in
             if (case dict_get (cs_seen st) key of None \<Rightarrow> False | Some p \<Rightarrow> p \<noteq> the factor) then
               Inr (st\<lparr>cs_errors := cs_errors st @
                 [row_error row_number [PStr ''conflicting conversion factor for the same rule'']]\<rparr>)
             else
               (let rule = \<lparr>ucr_ingredient_id = ingredient_id, ucr_from_unit = from_unit,
                            ucr_to_unit = to_unit, ucr_factor = the factor\<rparr> in
                ebind (contract (unit_conversion_rule_ok rule) rule) (\<lambda>rule.
                Inr (st\<lparr>cs_seen := dict_set key (the factor) (cs_seen st),
                         cs_rules := cs_rules st @ [rule]\<rparr>))))))))"

definition adapt_unit_conversions ::
    "'c pandas \<Rightarrow> 'c data_frame option \<Rightarrow> unit_conversion_rule list py" where
  "adapt_unit_conversions pd unit_conversions =
     (case unit_conversions of
        None \<Rightarrow> Inr []
      | Some f \<Rightarrow>
          if df_empty f then Inr []
          else
            (let missing = missing_columns CONVERSION_REQUIRED_COLUMNS f in
             ebind (raise_if (missing \<noteq> [])
               (exn InvalidUnitConversionError [(''missing_columns'', PList (map PStr missing))])) (\<lambda>_.
             ebind (efold (adapt_conversion_row pd) \<lparr>cs_rules = [], cs_errors = [], cs_seen = []\<rparr>
                      (enumerate 0 (df_rows f))) (\<lambda>st.
             ebind (raise_if (cs_errors st \<noteq> [])
               (exn InvalidUnitConversionError [(''row_errors'', PList (cs_errors st))])) (\<lambda>_.
             Inr (cs_rules st))))))"

section \<open>The recipe resolver\<close>

record bom_issue =
  bi_code :: string
  bi_details :: payload
  bi_recoverable :: bool

record recipe_resolution =
  res_records :: "recipe_record list"
  res_issue :: "bom_issue option"

definition res_found :: "recipe_resolution \<Rightarrow> bool" where
  "res_found r \<longleftrightarrow> res_records r \<noteq> []"

type_synonym recipe_resolver = "(string, recipe_record list) dict"

definition make_recipe_resolver :: "recipe_record list \<Rightarrow> recipe_resolver" where
  "make_recipe_resolver records = group_by rr_product_id records"

definition recipe_active :: "date \<Rightarrow> recipe_record \<Rightarrow> bool" where
  "recipe_active target_date r \<longleftrightarrow>
     rr_effective_from r \<le> target_date \<and>
     (case rr_effective_to r of None \<Rightarrow> True | Some t \<Rightarrow> target_date \<le> t)"

type_synonym version_key = "string \<times> string \<times> date \<times> date option"

definition recipe_version_key :: "recipe_record \<Rightarrow> version_key" where
  "recipe_version_key r =
     (rr_recipe_id r, rr_recipe_version r, rr_effective_from r, rr_effective_to r)"

definition version_details :: "version_key list \<Rightarrow> pyval" where
  "version_details versions =
     PList (map (\<lambda>(recipe_id, version, effective_from, effective_to).
         PDict [(''recipe_id'', PStr recipe_id), (''recipe_version'', PStr version),
                (''effective_from'', PDate effective_from),
                (''effective_to'', opt_val PDate effective_to)])
       (sort_key (\<lambda>(i, v, f, t). (i, v, f, case t of None \<Rightarrow> date_max | Some d \<Rightarrow> d)) versions))"

definition missing_recipe :: "string \<Rightarrow> date \<Rightarrow> string option \<Rightarrow> bom_issue" where
  "missing_recipe product_id target_date store_id =
     \<lparr>bi_code = ''MISSING_RECIPE'',
      bi_details = [(''product_id'', PStr product_id), (''target_date'', PDate target_date)]
        @ (case store_id of None \<Rightarrow> [] | Some s \<Rightarrow> [(''store_id'', PStr s)]),
      bi_recoverable = True\<rparr>"

definition resolve :: "recipe_resolver \<Rightarrow> string \<Rightarrow> date \<Rightarrow> string option \<Rightarrow> recipe_resolution py" where
  "resolve resolver product_id target_date store_id =
     (let active = filter (recipe_active target_date) (dict_get_or resolver product_id []) in
      if active = [] then
        Inr \<lparr>res_records = [], res_issue = Some (missing_recipe product_id target_date store_id)\<rparr>
      else
        (let versions = remdups (map recipe_version_key active) in
         if length versions \<noteq> 1 then
           Inl (exn RecipeVersionError
             [(''product_id'', PStr product_id), (''target_date'', PDate target_date),
              (''store_id'', opt_val PStr store_id), (''active_versions'', version_details versions)])
         else
           Inr \<lparr>res_records = sort_key (\<lambda>r. (rr_ingredient_id r, rr_ingredient_unit r,
                   rr_ingredient_quantity r)) active,
                res_issue = None\<rparr>))"

section \<open>What the adapters return\<close>

lemma required_text_errors_Nil [simp]:
  "required_text_errors pd cols row = [] \<longleftrightarrow> (\<forall>c \<in> set cols. \<not> missing_text pd (row c))"
  by (auto simp: required_text_errors_def filter_empty_conv)

lemma bad_number_iff: "\<not> bad_number good v \<longleftrightarrow> (\<exists>x. v = Some x \<and> good x)"
  by (auto simp: bad_number_def split: option.splits)

lemma strip_idem [simp]: "str_strip (str_strip s) = str_strip s"
proof (cases "str_strip s = []")
  case True
  moreover have "str_strip [] = []" by (simp add: str_strip_def)
  ultimately show ?thesis by simp
next
  case False
  then show ?thesis by (intro strip_no_space strip_ends)
qed

lemma norm_text_strip: "str_strip (norm_text u) = norm_text u"
proof (cases "str_strip u = []")
  case True
  then show ?thesis by (simp add: norm_text_def str_replace_char_def str_lower_def) (simp add: str_strip_def)
next
  case False
  define g where "g = (\<lambda>c. if lower_char c = CHR '' '' then CHR ''_'' else lower_char c)"
  have nt: "norm_text u = map g (str_strip u)"
    by (simp add: norm_text_def str_replace_char_def str_lower_def g_def)
  have "\<not> is_space (g c)" if "\<not> is_space c" for c
    using that by (auto simp: g_def) (simp add: is_space_def)
  then show ?thesis unfolding nt
    using strip_ends [OF False] False by (intro strip_no_space) (auto simp: hd_map last_map)
qed

lemma normalize_unit_norm_text:
  assumes "normalize_unit u = Inr v"
  shows "norm_text v = v" and "str_strip v = v" and "v \<noteq> []"
proof -
  have v: "v = dict_get_or UNIT_ALIASES (norm_text u) (norm_text u)"
    using assms by (auto simp: normalize_unit_alt split: if_splits)
  show n: "norm_text v = v"
  proof (cases "dict_get UNIT_ALIASES (norm_text u)")
    case None
    then show ?thesis using v by (simp add: dict_get_or_def norm_text_idem)
  next
    case (Some w)
    then show ?thesis
      using v aliases_closed map_of_SomeD [OF Some] by (auto simp: dict_get_or_def list_all_iff)
  qed
  show "str_strip v = v" using norm_text_strip [of v] n by simp
  show "v \<noteq> []" using normalize_unit_idem [OF assms] n by (auto simp: normalize_unit_alt split: if_splits)
qed

lemma recipe_row_errors_Nil:
  assumes "recipe_row_errors pd row = []"
  shows "\<forall>c \<in> set RECIPE_TEXT_COLUMNS. \<not> missing_text pd (row c)"
    and "\<exists>x. parse_number pd (row ''ingredient_quantity'') = Some x \<and> 0 \<le> x"
    and "\<exists>x. parse_number pd (row ''yield_quantity'') = Some x \<and> 0 < x"
    and "\<exists>x. parse_optional_rate pd (row ''process_loss_rate'') = Some x \<and> 0 \<le> x"
    and "\<exists>x. parse_optional_rate pd (row ''waste_allowance_rate'') = Some x \<and> 0 \<le> x"
    and "\<exists>f. parse_date pd (row ''effective_from'') = Some f \<and>
           (\<forall>t. parse_date pd (row ''effective_to'') = Some t \<longrightarrow> f \<le> t)"
proof -
  note e = assms [unfolded recipe_row_errors_def Let_def, simplified append_is_Nil_conv]
  show "\<forall>c \<in> set RECIPE_TEXT_COLUMNS. \<not> missing_text pd (row c)"
    using e by simp
  show "\<exists>x. parse_number pd (row ''ingredient_quantity'') = Some x \<and> 0 \<le> x"
    "\<exists>x. parse_number pd (row ''yield_quantity'') = Some x \<and> 0 < x"
    "\<exists>x. parse_optional_rate pd (row ''process_loss_rate'') = Some x \<and> 0 \<le> x"
    "\<exists>x. parse_optional_rate pd (row ''waste_allowance_rate'') = Some x \<and> 0 \<le> x"
    unfolding bad_number_iff [symmetric] using e by (simp_all split: if_splits)
  show "\<exists>f. parse_date pd (row ''effective_from'') = Some f \<and>
           (\<forall>t. parse_date pd (row ''effective_to'') = Some t \<longrightarrow> f \<le> t)"
    using e by (auto split: if_splits option.splits)
qed

text \<open>
  A row without errors always becomes a record: the contract never rejects what the row
  checks accepted, so the \<open>except\<close> branch of the adapter is not taken.
\<close>

definition normal_recipe :: "recipe_record \<Rightarrow> bool" where
  "normal_recipe r \<longleftrightarrow> recipe_record_ok r \<and> strip_required_text r = r \<and>
     normalize_unit (rr_ingredient_unit r) = Inr (rr_ingredient_unit r) \<and>
     normalize_unit (rr_yield_unit r) = Inr (rr_yield_unit r)"

lemma build_recipe_ok:
  assumes row: "recipe_row_errors pd row = []" and build: "build_recipe_record pd columns row = Inr r"
  shows "make_recipe_record r = Inr r \<and> normal_recipe r"
proof -
  note ok = recipe_row_errors_Nil [OF row]
  obtain iu yu where u: "normalize_unit (pd_str pd (row ''ingredient_unit'')) = Inr iu"
    "normalize_unit (pd_str pd (row ''yield_unit'')) = Inr yu"
    using build by (auto simp: build_recipe_record_def ebind_Inr_iff)
  note nu = normalize_unit_norm_text [OF u(1)] normalize_unit_norm_text [OF u(2)]
  have nonempty: "str_strip (pd_str pd (row c)) \<noteq> []" if "c \<in> set RECIPE_TEXT_COLUMNS" for c
    using ok(1) that by (auto simp: missing_text_def)
  have ne: "str_strip (pd_str pd (row ''recipe_id'')) \<noteq> []" "str_strip (pd_str pd (row ''product_id'')) \<noteq> []"
    "str_strip (pd_str pd (row ''ingredient_id'')) \<noteq> []" "str_strip (pd_str pd (row ''recipe_version'')) \<noteq> []"
    by (intro nonempty; simp add: RECIPE_TEXT_COLUMNS_def)+
  have s: "strip_required_text r = r"
    using build u nu by (auto simp: build_recipe_record_def strip_required_text_def Let_def)
  have "recipe_record_ok r"
    using build u nu ne ok(2-6)
    by (auto simp: build_recipe_record_def recipe_record_ok_def Let_def not_less split: option.splits)
  moreover have "normalize_unit (rr_ingredient_unit r) = Inr (rr_ingredient_unit r)"
    "normalize_unit (rr_yield_unit r) = Inr (rr_yield_unit r)"
    using build u normalize_unit_idem [OF u(1)] normalize_unit_idem [OF u(2)]
    by (auto simp: build_recipe_record_def Let_def)
  ultimately show ?thesis using s by (simp add: make_recipe_record_def normal_recipe_def)
qed

text \<open>Rows read so far split into records and errors.\<close>

definition recipe_fold_inv :: "recipe_record list \<times> pyval list \<Rightarrow> nat \<Rightarrow> bool" where
  "recipe_fold_inv st n \<longleftrightarrow> (\<forall>r \<in> set (fst st). normal_recipe r) \<and> length (fst st) + length (snd st) = n"

lemma adapt_recipe_row_inv:
  assumes "adapt_recipe_row pd columns st nrow = Inr st'" "recipe_fold_inv st n"
  shows "recipe_fold_inv st' (Suc n)"
proof -
  obtain rs es k row where st: "st = (rs, es)" "nrow = (k, row)" by (cases st; cases nrow)
  show ?thesis
  proof (cases "recipe_row_errors pd row = []")
    case False
    with assms st show ?thesis by (auto simp: adapt_recipe_row_def recipe_fold_inv_def Let_def)
  next
    case True
    with assms st obtain r where b: "build_recipe_record pd columns row = Inr r"
      by (auto simp: adapt_recipe_row_def ebind_Inr_iff)
    from build_recipe_ok [OF True b] b assms st True show ?thesis
      by (auto simp: adapt_recipe_row_def recipe_fold_inv_def)
  qed
qed

lemma adapt_recipe_rows_inv:
  "efold (adapt_recipe_row pd columns) st xs = Inr st' \<Longrightarrow> recipe_fold_inv st n \<Longrightarrow>
     recipe_fold_inv st' (n + length xs)"
proof (induction xs arbitrary: st n)
  case Nil
  then show ?case by simp
next
  case (Cons x xs)
  then obtain st1 where "adapt_recipe_row pd columns st x = Inr st1" "efold (adapt_recipe_row pd columns) st1 xs = Inr st'"
    by (auto simp: ebind_Inr_iff)
  from Cons.IH [OF this(2) adapt_recipe_row_inv [OF this(1) Cons.prems(2)]] show ?case by simp
qed

lemma remdups_length_le_1:
  assumes "\<not> 1 < length (remdups xs)" "a \<in> set xs" "b \<in> set xs"
  shows "a = b"
proof -
  have "a \<in> set (remdups xs)" "b \<in> set (remdups xs)" using assms(2,3) by simp_all
  with assms(1) show ?thesis by (cases "remdups xs"; cases "tl (remdups xs)") auto
qed

lemma metadata_consistent:
  assumes ok: "validate_recipe_metadata_consistency records = Inr ()"
    and r: "r \<in> set records" "r' \<in> set records"
    and key: "rr_recipe_id r = rr_recipe_id r'" "rr_recipe_version r = rr_recipe_version r'"
  shows "recipe_metadata r = recipe_metadata r'"
proof -
  let ?key = "\<lambda>r. (rr_recipe_id r, rr_recipe_version r)"
  define grp where "grp = filter (\<lambda>x. ?key x = ?key r) records"
  have mem: "r \<in> set grp" "r' \<in> set grp" using r key by (auto simp: grp_def)
  have "?key r \<in> set (dict_keys (group_by ?key records))" using r(1) by (simp only: group_by_keys) simp
  then obtain g where "(?key r, g) \<in> set (group_by ?key records)" by auto
  with group_by_entry [OF this] have "(?key r, grp) \<in> set (group_by ?key records)" by (simp add: grp_def)
  moreover have "filter (\<lambda>(key, grp). inconsistent_fields grp \<noteq> []) (group_by ?key records) = []"
    using ok by (simp add: validate_recipe_metadata_consistency_def Let_def)
  ultimately have "inconsistent_fields grp = []"
    unfolding filter_empty_conv by fastforce
  then have same: "dict_get (recipe_metadata r) f = dict_get (recipe_metadata r') f"
    if "f \<in> set [''product_id'', ''recipe_id'', ''recipe_version'', ''yield_quantity'', ''yield_unit'',
        ''effective_from'', ''effective_to'']" for f
  proof (intro remdups_length_le_1 [where xs = "map (\<lambda>r. dict_get (recipe_metadata r) f) grp"])
    show "\<not> 1 < length (remdups (map (\<lambda>r. dict_get (recipe_metadata r) f) grp))"
      using \<open>inconsistent_fields grp = []\<close> that unfolding inconsistent_fields_def filter_empty_conv by blast
  qed (use mem in auto)
  show ?thesis
    using same [of "''product_id''"] same [of "''recipe_id''"] same [of "''recipe_version''"]
      same [of "''yield_quantity''"] same [of "''yield_unit''"] same [of "''effective_from''"]
      same [of "''effective_to''"]
    by (simp add: recipe_metadata_def)
qed

lemma df_rows_recipe_frame: "length (df_rows (recipe_frame pd f)) = length (df_rows f)"
  by (simp add: recipe_frame_def df_default_def)

text \<open>What the recipe adapter accepts is a clean catalogue: one record per row, every record
  satisfies the contract with stripped text and normalised units, and two lines of the same
  recipe version agree on product, yield and validity dates.\<close>

theorem adapt_recipes_normal:
  assumes "adapt_recipes pd recipes = Inr records"
  shows "length records = length (df_rows recipes) \<and> records \<noteq> [] \<and> (\<forall>r \<in> set records. normal_recipe r) \<and>
    (\<forall>r \<in> set records. \<forall>r' \<in> set records.
       rr_recipe_id r = rr_recipe_id r' \<longrightarrow> rr_recipe_version r = rr_recipe_version r' \<longrightarrow>
       recipe_metadata r = recipe_metadata r')"
proof -
  let ?frame = "recipe_frame pd recipes"
  have ne: "df_rows recipes \<noteq> []" and meta: "validate_recipe_metadata_consistency records = Inr ()"
    and loop: "efold (adapt_recipe_row pd (df_columns ?frame)) ([], []) (enumerate 0 (df_rows ?frame)) = Inr (records, [])"
    using assms by (auto simp: adapt_recipes_def Let_def ebind_Inr_iff df_empty_def)
  have "recipe_fold_inv (records, []) (0 + length (enumerate 0 (df_rows ?frame)))"
    by (rule adapt_recipe_rows_inv [OF loop]) (simp add: recipe_fold_inv_def)
  then have "length records = length (df_rows recipes)" "\<forall>r \<in> set records. normal_recipe r"
    by (simp_all add: recipe_fold_inv_def df_rows_recipe_frame)
  with ne show ?thesis using metadata_consistent [OF meta] by (metis length_0_conv)
qed

text \<open>The rules accepted so far are exactly what \<open>seen\<close> remembers.\<close>

definition rule_key_of :: "unit_conversion_rule \<Rightarrow> rule_key" where
  "rule_key_of r = (ucr_ingredient_id r, ucr_from_unit r, ucr_to_unit r)"

definition conversion_inv :: "conversion_state \<Rightarrow> bool" where
  "conversion_inv st \<longleftrightarrow>
     (\<forall>r \<in> set (cs_rules st). unit_conversion_rule_ok r \<and>
        normalize_unit (ucr_from_unit r) = Inr (ucr_from_unit r) \<and>
        normalize_unit (ucr_to_unit r) = Inr (ucr_to_unit r) \<and>
        dict_get (cs_seen st) (rule_key_of r) = Some (ucr_factor r))"

lemma adapt_conversion_row_inv:
  assumes "adapt_conversion_row pd st nrow = Inr st'" "conversion_inv st"
  shows "conversion_inv st'"
proof -
  obtain k row where n: "nrow = (k, row)" by (cases nrow)
  let ?errs = "required_text_errors pd [''ingredient_id'', ''from_unit'', ''to_unit''] row
             @ (if bad_number (\<lambda>x. 0 < x) (parse_number pd (row ''factor'')) then [''factor must be > 0''] else [])"
  let ?i = "str_strip (pd_str pd (row ''ingredient_id''))"
  show ?thesis
  proof (cases "?errs = []")
    case False
    then have "st' = st\<lparr>cs_errors := cs_errors st @ [row_error k (map PStr ?errs)]\<rparr>"
      using assms(1) unfolding n adapt_conversion_row_def by (simp only: prod.case Let_def if_False simp_thms if_True Inr_inject) simp
    then show ?thesis using assms(2) by (simp add: conversion_inv_def)
  next
    case True
    then obtain f where f: "parse_number pd (row ''factor'') = Some f"
      by (auto simp: bad_number_def split: if_splits option.splits)
    obtain u v where uv: "normalize_unit (pd_str pd (row ''from_unit'')) = Inr u"
      "normalize_unit (pd_str pd (row ''to_unit'')) = Inr v"
      using assms(1) True by (auto simp: n adapt_conversion_row_def Let_def ebind_Inr_iff split: if_splits)
    let ?rule = "\<lparr>ucr_ingredient_id = ?i, ucr_from_unit = u, ucr_to_unit = v, ucr_factor = f\<rparr>"
    have "(\<exists>es. st' = st\<lparr>cs_errors := es\<rparr>) \<or>
        (unit_conversion_rule_ok ?rule \<and> dict_get (cs_seen st) (?i, u, v) \<in> {None, Some f} \<and>
         st' = st\<lparr>cs_seen := dict_set (?i, u, v) f (cs_seen st), cs_rules := cs_rules st @ [?rule]\<rparr>)"
      using assms(1) True uv f
      by (auto simp: n adapt_conversion_row_def Let_def ebind_Inr_iff split: if_splits option.splits)
    then show ?thesis
    proof
      assume "\<exists>es. st' = st\<lparr>cs_errors := es\<rparr>"
      with assms(2) show ?thesis by (auto simp: conversion_inv_def)
    next
      assume new: "unit_conversion_rule_ok ?rule \<and> dict_get (cs_seen st) (?i, u, v) \<in> {None, Some f} \<and>
         st' = st\<lparr>cs_seen := dict_set (?i, u, v) f (cs_seen st), cs_rules := cs_rules st @ [?rule]\<rparr>"
      then show ?thesis
        using assms(2) normalize_unit_idem [OF uv(1)] normalize_unit_idem [OF uv(2)]
        by (fastforce simp: conversion_inv_def rule_key_of_def dict_get_set)
    qed
  qed
qed

lemma adapt_unit_conversions_facts:
  assumes "adapt_unit_conversions pd frame = Inr rules"
  shows "(\<forall>r \<in> set rules. unit_conversion_rule_ok r \<and>
       normalize_unit (ucr_from_unit r) = Inr (ucr_from_unit r) \<and>
       normalize_unit (ucr_to_unit r) = Inr (ucr_to_unit r)) \<and>
    (\<forall>r \<in> set rules. \<forall>r' \<in> set rules. rule_key_of r = rule_key_of r' \<longrightarrow> ucr_factor r = ucr_factor r')"
proof (cases "rules = []")
  case True
  then show ?thesis by simp
next
  case False
  then obtain f where frame: "frame = Some f"
    using assms by (cases frame) (auto simp: adapt_unit_conversions_def)
  then have "\<exists>st. efold (adapt_conversion_row pd) \<lparr>cs_rules = [], cs_errors = [], cs_seen = []\<rparr>
      (enumerate 0 (df_rows f)) = Inr st \<and> rules = cs_rules st"
    using assms False by (auto simp: adapt_unit_conversions_def Let_def ebind_Inr_iff split: if_splits)
  then obtain st where "efold (adapt_conversion_row pd) \<lparr>cs_rules = [], cs_errors = [], cs_seen = []\<rparr>
      (enumerate 0 (df_rows f)) = Inr st" and rules: "rules = cs_rules st" by blast
  then have inv: "conversion_inv st"
    by (rule_tac efold_invariant) (auto simp: conversion_inv_def [of "\<lparr>cs_rules = [], cs_errors = [], cs_seen = []\<rparr>"]
        intro: adapt_conversion_row_inv)
  have "ucr_factor r = ucr_factor r'"
    if "r \<in> set rules" "r' \<in> set rules" "rule_key_of r = rule_key_of r'" for r r'
  proof -
    have "dict_get (cs_seen st) (rule_key_of r) = Some (ucr_factor r)"
      "dict_get (cs_seen st) (rule_key_of r') = Some (ucr_factor r')"
      using inv that(1,2) by (simp_all add: conversion_inv_def rules)
    with that(3) show ?thesis by simp
  qed
  then show ?thesis using inv unfolding conversion_inv_def rules by blast
qed

text \<open>The conversion rules the adapter accepts satisfy their contract, name normalised units,
  and are a function of (ingredient, from, to): conflicting factors are rejected.\<close>

theorem adapt_unit_conversions_functional:
  assumes "adapt_unit_conversions pd frame = Inr rules"
  shows "(\<forall>r \<in> set rules. unit_conversion_rule_ok r \<and>
       normalize_unit (ucr_from_unit r) = Inr (ucr_from_unit r) \<and>
       normalize_unit (ucr_to_unit r) = Inr (ucr_to_unit r)) \<and>
    (\<forall>r \<in> set rules. \<forall>r' \<in> set rules. rule_key_of r = rule_key_of r' \<longrightarrow> ucr_factor r = ucr_factor r')"
  using adapt_unit_conversions_facts [OF assms] .

section \<open>What the resolver returns\<close>

definition active_recipes :: "recipe_record list \<Rightarrow> string \<Rightarrow> date \<Rightarrow> recipe_record list" where
  "active_recipes records product_id target_date =
     filter (\<lambda>r. rr_product_id r = product_id \<and> recipe_active target_date r) records"

lemma resolver_active:
  "filter (recipe_active d) (dict_get_or (make_recipe_resolver rs) p []) = active_recipes rs p d"
  by (simp add: make_recipe_resolver_def group_by_get active_recipes_def conj_commute)

definition recipe_line_key :: "recipe_record \<Rightarrow> string \<times> string \<times> f64" where
  "recipe_line_key r = (rr_ingredient_id r, rr_ingredient_unit r, rr_ingredient_quantity r)"

lemma remdups_one_iff:
  assumes "xs \<noteq> []"
  shows "length (remdups xs) = 1 \<longleftrightarrow> (\<forall>a \<in> set xs. \<forall>b \<in> set xs. a = b)"
proof
  assume "length (remdups xs) = 1"
  then show "\<forall>a \<in> set xs. \<forall>b \<in> set xs. a = b" using remdups_length_le_1 [of xs] by simp
next
  assume same: "\<forall>a \<in> set xs. \<forall>b \<in> set xs. a = b"
  obtain x where "x \<in> set xs" using assms by (cases xs) auto
  with same have "set xs = {x}" by auto
  then show "length (remdups xs) = 1" by (metis card.empty card_insert_disjoint empty_iff finite.emptyI length_remdups_card_conv One_nat_def)
qed

definition one_version :: "recipe_record list \<Rightarrow> bool" where
  "one_version rs \<longleftrightarrow> (\<forall>a \<in> set rs. \<forall>b \<in> set rs. recipe_version_key a = recipe_version_key b)"

lemma one_version_iff:
  assumes "rs \<noteq> []"
  shows "length (remdups (map recipe_version_key rs)) = Suc 0 \<longleftrightarrow> one_version rs"
  using remdups_one_iff [of "map recipe_version_key rs"] assms by (simp add: one_version_def)

lemma one_version_cong: "set rs = set rs' \<Longrightarrow> one_version rs = one_version rs'"
  by (simp only: one_version_def)

lemma resolve_active:
  assumes "active_recipes rs p d \<noteq> []"
  shows "(case resolve (make_recipe_resolver rs) p d store of
      Inl e \<Rightarrow> err_class e = RecipeVersionError \<and> \<not> one_version (active_recipes rs p d)
    | Inr res \<Rightarrow> mset (res_records res) = mset (active_recipes rs p d) \<and>
        sorted (map recipe_line_key (res_records res)) \<and> res_found res \<and> res_issue res = None \<and>
        one_version (res_records res))"
proof -
  let ?act = "active_recipes rs p d"
  have lk: "(\<lambda>r. (rr_ingredient_id r, rr_ingredient_unit r, rr_ingredient_quantity r)) = recipe_line_key"
    by (rule ext) (simp add: recipe_line_key_def)
  have ne: "sort_key recipe_line_key ?act \<noteq> []" using assms by (metis mset_sort mset_zero_iff)
  show ?thesis
  proof (cases "one_version ?act")
    case True
    then have "resolve (make_recipe_resolver rs) p d store =
        Inr \<lparr>res_records = sort_key recipe_line_key ?act, res_issue = None\<rparr>"
      using assms by (simp add: resolve_def resolver_active lk Let_def one_version_iff)
    moreover have "one_version (sort_key recipe_line_key ?act)"
      using True one_version_cong [of ?act "sort_key recipe_line_key ?act"] by simp
    ultimately show ?thesis using ne by (simp add: res_found_def)
  next
    case False
    then show ?thesis
      using assms by (simp add: resolve_def resolver_active Let_def one_version_iff)
  qed
qed

text \<open>Exactly one version answers. When some line of the product is active at the date,
  the resolver returns all the active lines and only them, sorted, when they belong to one
  version, and raises \<open>RecipeVersionError\<close> when two versions overlap.\<close>

theorem resolve_one_version:
  assumes "active_recipes rs p d \<noteq> []"
  shows "(case resolve (make_recipe_resolver rs) p d store of
      Inl e \<Rightarrow> err_class e = RecipeVersionError \<and> \<not> one_version (active_recipes rs p d)
    | Inr res \<Rightarrow> mset (res_records res) = mset (active_recipes rs p d) \<and>
        sorted (map recipe_line_key (res_records res)) \<and> res_found res \<and> res_issue res = None \<and>
        one_version (res_records res))"
  using resolve_active [OF assms] .

lemma resolve_missing:
  assumes "active_recipes rs p d = []"
  shows "resolve (make_recipe_resolver rs) p d store =
    Inr \<lparr>res_records = [], res_issue = Some (missing_recipe p d store)\<rparr>"
  using assms by (simp add: resolve_def resolver_active Let_def)

section \<open>Concrete runs\<close>

text \<open>A table whose cells are dynamic values, and one recipe line in it.\<close>

definition cell_pandas :: "pyval pandas" where
  "cell_pandas =
     \<lparr>pd_isna = (\<lambda>v. v = PNone),
      pd_str = (\<lambda>v. case v of PStr s \<Rightarrow> s | PNone \<Rightarrow> ''nan'' | _ \<Rightarrow> ''0''),
      pd_is_str = (\<lambda>v. case v of PStr s \<Rightarrow> True | _ \<Rightarrow> False),
      pd_to_numeric = (\<lambda>v. case v of PNum x \<Rightarrow> Some x | PInt n \<Rightarrow> Some (fint n) | _ \<Rightarrow> None),
      pd_to_datetime = (\<lambda>v. case v of PDate d \<Rightarrow> Some d | _ \<Rightarrow> None),
      pd_ne_empty = (\<lambda>v. v \<noteq> PStr []),
      pd_ge_zero = (\<lambda>v. case v of PNum x \<Rightarrow> 0 \<le> x | PInt n \<Rightarrow> 0 \<le> n | _ \<Rightarrow> False),
      pd_date_le = (\<lambda>v c. case v of PDate d \<Rightarrow> d \<le> c | _ \<Rightarrow> False),
      pd_zero = PInt 0, pd_NaT = PNone, pd_NA = PNone\<rparr>"

definition row_of :: "(string, pyval) dict \<Rightarrow> pyval row" where
  "row_of d = (\<lambda>c. dict_get_or d c PNone)"

definition latte_table :: "pyval data_frame" where
  "latte_table =
     \<lparr>df_columns = RECIPE_REQUIRED_COLUMNS,
      df_rows = [row_of
        [(''recipe_id'', PStr ''latte''), (''product_id'', PStr ''latte''),
         (''ingredient_id'', PStr ''milk''), (''ingredient_quantity'', PInt 200),
         (''ingredient_unit'', PStr ''mL''), (''yield_quantity'', PInt 1),
         (''yield_unit'', PStr ''cup''), (''recipe_version'', PStr ''v1''),
         (''effective_from'', PDate 738000)]]\<rparr>"

definition egg_table :: "pyval data_frame" where
  "egg_table =
     \<lparr>df_columns = CONVERSION_REQUIRED_COLUMNS,
      df_rows = [row_of
        [(''ingredient_id'', PStr ''egg''), (''from_unit'', PStr ''Pack''), (''to_unit'', PStr ''pcs''),
         (''factor'', PInt 10)]]\<rparr>"

definition latte_recipe :: "string \<Rightarrow> date \<Rightarrow> recipe_record" where
  "latte_recipe version start =
     \<lparr>rr_recipe_line_id = None, rr_recipe_id = ''latte'', rr_product_id = ''latte'',
      rr_ingredient_id = ''milk'', rr_ingredient_name = None, rr_ingredient_quantity = fint 200,
      rr_ingredient_unit = ''ml'', rr_yield_quantity = 1, rr_yield_unit = ''unit'',
      rr_process_loss_rate = 0, rr_waste_allowance_rate = 0, rr_recipe_version = version,
      rr_effective_from = start, rr_effective_to = None\<rparr>"

theorem adapt_recipes_normal_witness:
  "\<exists>r. adapt_recipes cell_pandas latte_table = Inr [r] \<and> normal_recipe r"
proof -
  have "is_ok (adapt_recipes cell_pandas latte_table)" by code_simp
  then obtain rs where rs: "adapt_recipes cell_pandas latte_table = Inr rs" by (auto simp: is_ok_iff)
  from adapt_recipes_normal [OF this] have "length rs = 1" and n: "\<forall>r \<in> set rs. normal_recipe r"
    by (simp_all add: latte_table_def)
  then obtain r where "rs = [r]" by (auto simp: length_Suc_conv)
  with rs n show ?thesis by simp
qed

theorem adapt_unit_conversions_functional_witness:
  "\<exists>r. adapt_unit_conversions cell_pandas (Some egg_table) = Inr [r] \<and> unit_conversion_rule_ok r"
proof -
  have "\<exists>r. adapt_unit_conversions cell_pandas (Some egg_table) = Inr [r]"
  proof -
    have "is_ok (adapt_unit_conversions cell_pandas (Some egg_table)) \<and>
      length (projr (adapt_unit_conversions cell_pandas (Some egg_table))) = 1" by code_simp
    then show ?thesis by (auto simp: is_ok_iff length_Suc_conv)
  qed
  then obtain r where r: "adapt_unit_conversions cell_pandas (Some egg_table) = Inr [r]" by blast
  from adapt_unit_conversions_functional [OF this] r show ?thesis by auto
qed

theorem resolve_one_version_witness:
  "\<not> is_ok (resolve (make_recipe_resolver [latte_recipe ''v1'' 1, latte_recipe ''v2'' 5]) ''latte'' 7 None) \<and>
   one_version (active_recipes [latte_recipe ''v1'' 1, latte_recipe ''v2'' 5] ''latte'' 3)"
proof -
  let ?rs = "[latte_recipe ''v1'' 1, latte_recipe ''v2'' 5]"
  have ne: "active_recipes ?rs ''latte'' 7 \<noteq> []" "active_recipes ?rs ''latte'' 3 \<noteq> []" by code_simp+
  have two: "\<not> one_version (active_recipes ?rs ''latte'' 7)"
    and one: "one_version (active_recipes ?rs ''latte'' 3)" by code_simp+
  have "\<not> one_version rs" if "mset rs = mset (active_recipes ?rs ''latte'' 7)" for rs
    using two one_version_cong [OF mset_eq_setD [OF that]] by simp
  with resolve_one_version [OF ne(1), of None] show ?thesis
    by (auto simp: one is_ok_def split: sum.splits)
qed

end
