(* ===== verification/Bom_Engine.thy ===== *)
theory Bom_Engine
  imports Recipes
begin

text \<open>
  \<open>shelfcash_core/bom/engine.py\<close> with the forecast contract (\<open>shelfcash_core/contracts.py\<close>)
  and the ingredient-demand contracts of \<open>bom/contracts.py\<close>: product quantiles propagated
  through the active recipes into ingredient quantiles.
\<close>

section \<open>The forecast contract\<close>

record forecast_prediction =
  fp_store_id :: string
  fp_product_id :: string
  fp_product_name :: string
  fp_unit :: "string option"
  fp_target_date :: date
  fp_horizon :: int
  fp_p25 :: f64
  fp_p50 :: f64
  fp_p75 :: f64
  fp_interval_lower :: f64
  fp_interval_upper :: f64
  fp_baseline_p50 :: f64
  fp_calibration_source :: string
  fp_warnings :: "string list"

definition forecast_prediction_ok :: "forecast_prediction \<Rightarrow> bool" where
  "forecast_prediction_ok p \<longleftrightarrow>
     1 \<le> fp_horizon p \<and> 0 \<le> fp_p25 p \<and> 0 \<le> fp_p50 p \<and> 0 \<le> fp_p75 p \<and>
     0 \<le> fp_interval_lower p \<and> 0 \<le> fp_interval_upper p \<and> 0 \<le> fp_baseline_p50 p \<and>
     fp_p25 p \<le> fp_p50 p \<and> fp_p50 p \<le> fp_p75 p \<and>
     \<not> fp_interval_upper p < fp_interval_lower p"

record forecast_package =
  fk_forecast_date :: date
  fk_forecast_horizon :: int
  fk_model_version :: string
  fk_predictions :: "forecast_prediction list"
  fk_warnings :: "string list"

definition forecast_package_ok :: "forecast_package \<Rightarrow> bool" where
  "forecast_package_ok f \<longleftrightarrow>
     1 \<le> fk_forecast_horizon f \<and> list_all forecast_prediction_ok (fk_predictions f)"

definition validate_forecast_product_unit_consistency :: "forecast_package \<Rightarrow> unit py" where
  "validate_forecast_product_unit_consistency forecast =
     ebind (efold (\<lambda>grouped p.
         case fp_unit p of
           None \<Rightarrow> Inr grouped
         | Some u \<Rightarrow>
             if str_strip u = [] then Inr grouped
             else ebind (normalize_unit u) (\<lambda>n.
               Inr (dict_append (fp_store_id p, fp_product_id p) n grouped)))
       [] (fk_predictions forecast)) raise_product_unit_conflicts"

section \<open>Ingredient demand\<close>

record ingredient_source =
  is_product_id :: string
  is_product_name :: string
  is_product_unit :: "string option"
  is_recipe_id :: string
  is_recipe_version :: string
  is_recipe_line_id :: "string option"
  is_forecast_p25 :: f64
  is_forecast_p50 :: f64
  is_forecast_p75 :: f64
  is_recipe_quantity :: f64
  is_recipe_unit :: string
  is_yield_quantity :: f64
  is_yield_unit :: string
  is_process_loss_rate :: f64
  is_waste_allowance_rate :: f64
  is_base_p25 :: f64
  is_base_p50 :: f64
  is_base_p75 :: f64
  is_contribution_p25 :: f64
  is_contribution_p50 :: f64
  is_contribution_p75 :: f64
  is_contribution_unit :: string

definition ordered3 :: "f64 \<Rightarrow> f64 \<Rightarrow> f64 \<Rightarrow> bool" where
  "ordered3 low median high \<longleftrightarrow> low \<le> median \<and> median \<le> high"

definition ingredient_source_ok :: "ingredient_source \<Rightarrow> bool" where
  "ingredient_source_ok s \<longleftrightarrow>
     0 \<le> is_forecast_p25 s \<and> 0 \<le> is_forecast_p50 s \<and> 0 \<le> is_forecast_p75 s \<and>
     0 \<le> is_recipe_quantity s \<and> 0 < is_yield_quantity s \<and>
     0 \<le> is_process_loss_rate s \<and> 0 \<le> is_waste_allowance_rate s \<and>
     0 \<le> is_base_p25 s \<and> 0 \<le> is_base_p50 s \<and> 0 \<le> is_base_p75 s \<and>
     0 \<le> is_contribution_p25 s \<and> 0 \<le> is_contribution_p50 s \<and> 0 \<le> is_contribution_p75 s \<and>
     ordered3 (is_forecast_p25 s) (is_forecast_p50 s) (is_forecast_p75 s) \<and>
     ordered3 (is_base_p25 s) (is_base_p50 s) (is_base_p75 s) \<and>
     ordered3 (is_contribution_p25 s) (is_contribution_p50 s) (is_contribution_p75 s)"

record ingredient_prediction =
  ip_store_id :: string
  ip_ingredient_id :: string
  ip_ingredient_name :: "string option"
  ip_target_date :: date
  ip_p25 :: f64
  ip_p50 :: f64
  ip_p75 :: f64
  ip_unit :: string
  ip_sources :: "ingredient_source list"
  ip_warnings :: "string list"

text \<open>\<open>recipe_line_id or (...)\<close>: an absent or empty line id falls back to the line's numbers.\<close>

type_synonym source_identity =
  "string \<times> string \<times> string \<times> string \<times> (string + f64 \<times> string \<times> f64 \<times> string \<times> f64 \<times> f64)"

definition source_identity :: "string \<Rightarrow> ingredient_source \<Rightarrow> source_identity" where
  "source_identity ingredient_id s =
     (is_product_id s, is_recipe_id s, is_recipe_version s, ingredient_id,
      (let fallback = Inr (is_recipe_quantity s, is_recipe_unit s, is_yield_quantity s, is_yield_unit s,
             is_process_loss_rate s, is_waste_allowance_rate s)
       in case is_recipe_line_id s of None \<Rightarrow> fallback
          | Some l \<Rightarrow> if l = [] then fallback else Inl l))"

definition sum_close :: "f64 \<Rightarrow> f64 list \<Rightarrow> bool" where
  "sum_close actual xs \<longleftrightarrow> isclose actual (py_sum xs) (fl (1 / 10 ^ 9)) (fl (1 / 10 ^ 9))"

definition ingredient_prediction_ok :: "ingredient_prediction \<Rightarrow> bool" where
  "ingredient_prediction_ok p \<longleftrightarrow>
     0 \<le> ip_p25 p \<and> 0 \<le> ip_p50 p \<and> 0 \<le> ip_p75 p \<and> ip_unit p \<noteq> [] \<and>
     ordered3 (ip_p25 p) (ip_p50 p) (ip_p75 p) \<and>
     sum_close (ip_p25 p) (map is_contribution_p25 (ip_sources p)) \<and>
     sum_close (ip_p50 p) (map is_contribution_p50 (ip_sources p)) \<and>
     sum_close (ip_p75 p) (map is_contribution_p75 (ip_sources p)) \<and>
     distinct (map (source_identity (ip_ingredient_id p)) (ip_sources p))"

record ingredient_package =
  ik_forecast_date :: date
  ik_forecast_horizon :: int
  ik_forecast_model_version :: string
  ik_predictions :: "ingredient_prediction list"
  ik_issues :: "bom_issue list"
  ik_warnings :: "string list"
  ik_is_complete :: bool

section \<open>One forecast row through one recipe line\<close>

definition ingredient_adjustment_factor :: "f64 \<Rightarrow> f64 \<Rightarrow> f64" where
  "ingredient_adjustment_factor process_loss_rate waste_allowance_rate =
     (1 + process_loss_rate) * (1 + waste_allowance_rate)"

definition unit_missing_issue :: "forecast_prediction \<Rightarrow> recipe_record \<Rightarrow> bom_issue" where
  "unit_missing_issue p r =
     \<lparr>bi_code = ''PRODUCT_UNIT_MISSING'',
      bi_details = [(''store_id'', PStr (fp_store_id p)), (''product_id'', PStr (fp_product_id p)),
                    (''target_date'', PDate (fp_target_date p)), (''yield_unit'', PStr (rr_yield_unit r))],
      bi_recoverable = True\<rparr>"

definition already_reported :: "forecast_prediction \<Rightarrow> bom_issue list \<Rightarrow> bool" where
  "already_reported p issues \<longleftrightarrow>
     list_ex (\<lambda>i. bi_code i = ''PRODUCT_UNIT_MISSING'' \<and>
       dict_get_or (bi_details i) ''store_id'' PNone = PStr (fp_store_id p) \<and>
       dict_get_or (bi_details i) ''product_id'' PNone = PStr (fp_product_id p) \<and>
       dict_get_or (bi_details i) ''target_date'' PNone = PDate (fp_target_date p)) issues"

text \<open>\<open>except UnitConversionError\<close>: the class and its code stay, the details grow.\<close>

definition add_prediction_details :: "forecast_prediction \<Rightarrow> recipe_record \<Rightarrow> core_error \<Rightarrow> core_error" where
  "add_prediction_details p r e =
     (if err_class e = UnitConversionError then
        exn UnitConversionError (dict_merge (err_details e)
          [(''store_id'', PStr (fp_store_id p)), (''product_id'', PStr (fp_product_id p)),
           (''target_date'', PDate (fp_target_date p)), (''recipe_id'', PStr (rr_recipe_id r)),
           (''recipe_version'', PStr (rr_recipe_version r))])
      else e)"

definition convert_forecast_to_yield_unit ::
    "forecast_prediction \<Rightarrow> recipe_record \<Rightarrow> bom_issue list
      \<Rightarrow> ((f64 \<times> f64 \<times> f64 \<times> string option) \<times> bom_issue list) py" where
  "convert_forecast_to_yield_unit p r issues =
     (if fp_unit p = None \<or> str_strip (the (fp_unit p)) = [] then
        Inr ((fp_p25 p, fp_p50 p, fp_p75 p, None),
             if already_reported p issues then issues else issues @ [unit_missing_issue p r])
      else
        (let product_unit = the (fp_unit p);
             conv = (\<lambda>v. convert_product_quantity v product_unit (rr_yield_unit r)) in
         ebind (map_error (add_prediction_details p r)
           (ebind (conv (fp_p25 p)) (\<lambda>a. ebind (conv (fp_p50 p)) (\<lambda>b. ebind (conv (fp_p75 p)) (\<lambda>c.
              Inr (a, b, c)))))) (\<lambda>(a, b, c).
         ebind (normalize_unit product_unit) (\<lambda>u.
         Inr ((a, b, c, Some u), issues)))))"

definition emap3 :: "('a \<Rightarrow> 'b py) \<Rightarrow> 'a \<times> 'a \<times> 'a \<Rightarrow> ('b \<times> 'b \<times> 'b) py" where
  "emap3 f t = (case t of (a, b, c) \<Rightarrow>
     ebind (f a) (\<lambda>x. ebind (f b) (\<lambda>y. ebind (f c) (\<lambda>z. Inr (x, y, z)))))"

definition build_source ::
    "forecast_prediction \<Rightarrow> recipe_record \<Rightarrow> unit_converter \<Rightarrow> bom_issue list
      \<Rightarrow> (ingredient_source \<times> bom_issue list) py" where
  "build_source p r converter issues =
     ebind (convert_forecast_to_yield_unit p r issues) (\<lambda>((f25, f50, f75, product_unit), issues').
     ebind (emap3 (\<lambda>v. py_div (v * rr_ingredient_quantity r) (rr_yield_quantity r)) (f25, f50, f75)) (\<lambda>base.
     let adjustment = ingredient_adjustment_factor (rr_process_loss_rate r) (rr_waste_allowance_rate r);
         adjusted = (case base of (x, y, z) \<Rightarrow> (x * adjustment, y * adjustment, z * adjustment)) in
     ebind (canonical_unit converter (rr_ingredient_id r) (rr_ingredient_unit r)) (\<lambda>output_unit.
     let out = (\<lambda>v. convert_unit converter v (rr_ingredient_unit r) output_unit (rr_ingredient_id r)) in
     ebind (emap3 out base) (\<lambda>(b25, b50, b75).
     ebind (emap3 out adjusted) (\<lambda>(c25, c50, c75).
     let s = \<lparr>is_product_id = fp_product_id p, is_product_name = fp_product_name p,
              is_product_unit = product_unit, is_recipe_id = rr_recipe_id r,
              is_recipe_version = rr_recipe_version r, is_recipe_line_id = rr_recipe_line_id r,
              is_forecast_p25 = fp_p25 p, is_forecast_p50 = fp_p50 p, is_forecast_p75 = fp_p75 p,
              is_recipe_quantity = rr_ingredient_quantity r, is_recipe_unit = rr_ingredient_unit r,
              is_yield_quantity = rr_yield_quantity r, is_yield_unit = rr_yield_unit r,
              is_process_loss_rate = rr_process_loss_rate r,
              is_waste_allowance_rate = rr_waste_allowance_rate r,
              is_base_p25 = b25, is_base_p50 = b50, is_base_p75 = b75,
              is_contribution_p25 = c25, is_contribution_p50 = c50, is_contribution_p75 = c75,
              is_contribution_unit = output_unit\<rparr> in
     ebind (contract (ingredient_source_ok s) s) (\<lambda>s. Inr (s, issues')))))))"

section \<open>Aggregation\<close>

record ingredient_aggregate =
  ag_store_id :: string
  ag_ingredient_id :: string
  ag_target_date :: date
  ag_unit :: string
  ag_ingredient_name :: "string option"
  ag_p25 :: f64
  ag_p50 :: f64
  ag_p75 :: f64
  ag_sources :: "ingredient_source list"
  ag_warnings :: "string list"

type_synonym ingredient_key = "string \<times> string \<times> date"

record bom_state =
  bs_aggregates :: "(ingredient_key, ingredient_aggregate) dict"
  bs_issues :: "bom_issue list"
  bs_warning_codes :: "string list"

text \<open>\<open>set.add\<close> on a list without duplicates.\<close>

definition add_code :: "string \<Rightarrow> string list \<Rightarrow> string list" where
  "add_code c cs = (if c \<in> set cs then cs else cs @ [c])"

definition new_aggregate :: "forecast_prediction \<Rightarrow> recipe_record \<Rightarrow> string \<Rightarrow> ingredient_aggregate" where
  "new_aggregate p r unit =
     \<lparr>ag_store_id = fp_store_id p, ag_ingredient_id = rr_ingredient_id r,
      ag_target_date = fp_target_date p, ag_unit = unit, ag_ingredient_name = rr_ingredient_name r,
      ag_p25 = 0, ag_p50 = 0, ag_p75 = 0, ag_sources = [], ag_warnings = []\<rparr>"

definition name_conflict :: "ingredient_aggregate \<Rightarrow> recipe_record \<Rightarrow> bool" where
  "name_conflict a r \<longleftrightarrow> ag_ingredient_name a \<noteq> None \<and> rr_ingredient_name r \<noteq> None \<and>
     ag_ingredient_name a \<noteq> rr_ingredient_name r"

definition merge_name :: "ingredient_aggregate \<Rightarrow> recipe_record \<Rightarrow> ingredient_aggregate" where
  "merge_name a r =
     (if name_conflict a r then
        a\<lparr>ag_ingredient_name := None,
          ag_warnings := add_code ''INCONSISTENT_INGREDIENT_NAME'' (ag_warnings a)\<rparr>
      else if ag_ingredient_name a = None \<and> rr_ingredient_name r \<noteq> None
              \<and> ''INCONSISTENT_INGREDIENT_NAME'' \<notin> set (ag_warnings a) then
        a\<lparr>ag_ingredient_name := rr_ingredient_name r\<rparr>
      else a)"

definition add_source :: "forecast_prediction \<Rightarrow> ingredient_source \<Rightarrow> ingredient_aggregate \<Rightarrow> ingredient_aggregate" where
  "add_source p s a =
     a\<lparr>ag_p25 := ag_p25 a + is_contribution_p25 s, ag_p50 := ag_p50 a + is_contribution_p50 s,
       ag_p75 := ag_p75 a + is_contribution_p75 s, ag_sources := ag_sources a @ [s],
       ag_warnings := fold add_code (fp_warnings p) (ag_warnings a)\<rparr>"

definition bom_line :: "unit_converter \<Rightarrow> forecast_prediction \<Rightarrow> bom_state \<Rightarrow> recipe_record \<Rightarrow> bom_state py" where
  "bom_line converter p st r =
     ebind (build_source p r converter (bs_issues st)) (\<lambda>(s, issues).
     let key = (fp_store_id p, rr_ingredient_id r, fp_target_date p) in
     ebind (case dict_get (bs_aggregates st) key of
              None \<Rightarrow> Inr (new_aggregate p r (is_contribution_unit s))
            | Some a \<Rightarrow>
                if ag_unit a \<noteq> is_contribution_unit s then
                  Inl (exn UnitConversionError
                    [(''store_id'', PStr (fp_store_id p)), (''ingredient_id'', PStr (rr_ingredient_id r)),
                     (''target_date'', PDate (fp_target_date p)), (''existing_unit'', PStr (ag_unit a)),
                     (''incoming_unit'', PStr (is_contribution_unit s))])
                else Inr a) (\<lambda>a.
     Inr \<lparr>bs_aggregates = dict_set key (add_source p s (merge_name a r)) (bs_aggregates st),
          bs_issues = issues,
          bs_warning_codes = (if name_conflict a r
            then add_code ''INCONSISTENT_INGREDIENT_NAME'' (bs_warning_codes st) else bs_warning_codes st)\<rparr>))"

definition bom_prediction ::
    "recipe_resolver \<Rightarrow> unit_converter \<Rightarrow> bom_state \<Rightarrow> forecast_prediction \<Rightarrow> bom_state py" where
  "bom_prediction resolver converter st p =
     ebind (resolve resolver (fp_product_id p) (fp_target_date p) (Some (fp_store_id p))) (\<lambda>resolution.
     if \<not> res_found resolution then
       (case res_issue resolution of
          None \<Rightarrow> Inl (exn PyAssertionError [])
        | Some i \<Rightarrow> Inr (st\<lparr>bs_issues := bs_issues st @ [i],
                            bs_warning_codes := add_code (bi_code i) (bs_warning_codes st)\<rparr>))
     else
       ebind (efold (bom_line converter p) st (res_records resolution)) (\<lambda>st'.
       if length (bs_issues st) < length (bs_issues st') then
         Inr (st'\<lparr>bs_warning_codes := add_code ''PRODUCT_UNIT_MISSING'' (bs_warning_codes st')\<rparr>)
       else Inr st'))"

definition finish_aggregate :: "ingredient_aggregate \<Rightarrow> ingredient_prediction py" where
  "finish_aggregate a =
     (let p = \<lparr>ip_store_id = ag_store_id a, ip_ingredient_id = ag_ingredient_id a,
               ip_ingredient_name = ag_ingredient_name a, ip_target_date = ag_target_date a,
               ip_p25 = ag_p25 a, ip_p50 = ag_p50 a, ip_p75 = ag_p75 a, ip_unit = ag_unit a,
               ip_sources = sort_key (\<lambda>s. (is_product_id s, is_recipe_id s, is_recipe_version s,
                  is_recipe_unit s)) (ag_sources a),
               ip_warnings = sort (ag_warnings a)\<rparr>
      in contract (ingredient_prediction_ok p) p)"

definition propagate_ingredient_demand ::
    "'c pandas \<Rightarrow> forecast_package \<Rightarrow> 'c data_frame \<Rightarrow> 'c data_frame option \<Rightarrow> ingredient_package py" where
  "propagate_ingredient_demand pd forecast recipes unit_conversions =
     ebind (validate_forecast_product_unit_consistency forecast) (\<lambda>_.
     ebind (adapt_recipes pd recipes) (\<lambda>recipe_records.
     ebind (adapt_unit_conversions pd unit_conversions) (\<lambda>conversion_rules.
     ebind (make_unit_converter conversion_rules) (\<lambda>converter.
     let resolver = make_recipe_resolver recipe_records;
         ordered_predictions = sort_key (\<lambda>p. (fp_target_date p, fp_store_id p, fp_product_id p, fp_horizon p))
           (fk_predictions forecast) in
     ebind (efold (bom_prediction resolver converter)
              \<lparr>bs_aggregates = [], bs_issues = [], bs_warning_codes = remdups (fk_warnings forecast)\<rparr>
              ordered_predictions) (\<lambda>st.
     ebind (emap finish_aggregate
              (sort_key (\<lambda>a. (ag_target_date a, ag_store_id a, ag_ingredient_id a))
                (map snd (bs_aggregates st)))) (\<lambda>predictions.
     contract (1 \<le> fk_forecast_horizon forecast)
       \<lparr>ik_forecast_date = fk_forecast_date forecast, ik_forecast_horizon = fk_forecast_horizon forecast,
        ik_forecast_model_version = fk_model_version forecast, ik_predictions = predictions,
        ik_issues = bs_issues st, ik_warnings = sort (bs_warning_codes st),
        ik_is_complete = (bs_issues st = [])\<rparr>))))))"

section \<open>Factors are not negative\<close>

definition nonneg_graph :: "unit_graph \<Rightarrow> bool" where
  "nonneg_graph g \<longleftrightarrow> (\<forall>u. \<forall>x \<in> set (dict_get_or g u []). 0 \<le> snd x)"

definition nonneg_converter :: "unit_converter \<Rightarrow> bool" where
  "nonneg_converter c \<longleftrightarrow> (\<forall>i. nonneg_graph (dict_get_or (uc_graphs c) i []))"

lemma nonneg_graph_append: "nonneg_graph g \<Longrightarrow> 0 \<le> f \<Longrightarrow> nonneg_graph (dict_append u (v, f) g)"
  by (auto simp: nonneg_graph_def dict_get_or_append)

lemma add_rule_nonneg:
  assumes "add_rule c r = Inr c'" "nonneg_converter c" "unit_conversion_rule_ok r"
  shows "nonneg_converter c'"
proof -
  have f: "0 \<le> ucr_factor r" "0 \<le> 1 / ucr_factor r"
    using assms(3) by (auto simp: unit_conversion_rule_ok_def intro: f64_div_nonneg less_imp_le)
  from assms(1) show ?thesis
    by (elim add_rule_graphs)
      (use assms(2) f in \<open>auto simp: nonneg_converter_def dict_get_or_set intro: nonneg_graph_append\<close>)
qed

lemma make_converter_nonneg:
  assumes "make_unit_converter rules = Inr c" "\<forall>r \<in> set rules. unit_conversion_rule_ok r"
  shows "nonneg_converter c"
proof -
  have "efold add_rule \<lparr>uc_graphs = []\<rparr> rules = Inr c"
    using assms(1) by (auto simp: make_unit_converter_def ebind_Inr_iff)
  then show ?thesis
  proof (rule efold_invariant)
    show "nonneg_converter \<lparr>uc_graphs = []\<rparr>" by (simp add: nonneg_converter_def nonneg_graph_def)
  qed (use assms(2) add_rule_nonneg in blast)
qed

lemma fl_nonneg: "0 \<le> q \<Longrightarrow> 0 \<le> fl q"
  by (simp add: f64_le_iff fl.rep_eq zero_f64.rep_eq rnd_nonneg)

lemma fint_nonneg: "0 \<le> n \<Longrightarrow> 0 \<le> fint n"
  by (simp add: fint_def fl_nonneg)

lemma neighbors_nonneg:
  assumes "nonneg_converter c" "(v, f) \<in> set (neighbors c i u)"
  shows "0 \<le> f"
proof -
  have "0 \<le> fint 1000" "0 \<le> fl (1 / 1000)" by (simp_all add: fint_nonneg fl_nonneg)
  then show ?thesis
    using assms by (force simp: nonneg_converter_def nonneg_graph_def neighbors_def split: if_splits)
qed

lemma factor_path_nonneg: "factor_path c i s f u \<Longrightarrow> nonneg_converter c \<Longrightarrow> 0 \<le> f"
  by (induction rule: factor_path.induct) (auto intro: f64_mult_nonneg neighbors_nonneg)

lemma conversion_factor_nonneg:
  assumes "conversion_factor c i a b = Inr f" "nonneg_converter c"
  shows "0 \<le> f"
proof -
  obtain s t where st: "normalize_unit a = Inr s" "normalize_unit b = Inr t"
    and ff: "find_factor c i s t = Inr (Some f)"
    using assms(1) by (auto simp: conversion_factor_def ebind_Inr_iff split: option.splits)
  show ?thesis
    by (rule find_factor_cases [OF normalize_unit_idem [OF st(1)] normalize_unit_idem [OF st(2)], of c i])
      (use ff assms(2) factor_path_nonneg in auto)
qed

lemma to_canonical_nonneg: "0 \<le> dict_get_or TO_CANONICAL_FACTORS u 0"
  by (simp add: TO_CANONICAL_FACTORS_def dict_get_or_def fl_nonneg)

lemma builtin_factor_nonneg: "builtin_factor a b = Inr (Some f) \<Longrightarrow> 0 \<le> f"
  by (auto simp: builtin_factor_def ebind_Inr_iff to_canonical_nonneg intro!: f64_div_nonneg
      split: if_splits option.splits)

lemma builtin_factor_bom:
  assumes "builtin_factor a b = Inl e"
  shows "is_bom_error e"
proof (cases "normalize_unit a"; cases "normalize_unit b")
  fix s t
  assume "normalize_unit a = Inr s" "normalize_unit b = Inr t"
  with assms show ?thesis
    by (auto simp: builtin_factor_def is_bom_error_def split: if_splits option.splits)
qed (use assms in \<open>auto simp: builtin_factor_def intro: normalize_unit_bom\<close>)

lemma convert_product_mono:
  "convert_product_quantity x u v = Inr a \<Longrightarrow> convert_product_quantity y u v = Inr b \<Longrightarrow> x \<le> y \<Longrightarrow> a \<le> b"
  by (auto simp: convert_product_quantity_def ebind_Inr_iff intro: f64_mult_right_mono builtin_factor_nonneg
      split: option.splits if_splits)

lemma convert_product_nonneg: "convert_product_quantity x u v = Inr a \<Longrightarrow> 0 \<le> x \<Longrightarrow> 0 \<le> a"
  by (auto simp: convert_product_quantity_def ebind_Inr_iff intro: f64_mult_nonneg builtin_factor_nonneg
      split: option.splits if_splits)

lemma convert_product_bom: "convert_product_quantity x u v = Inl e \<Longrightarrow> is_bom_error e"
  by (auto simp: convert_product_quantity_def ebind_Inl_iff is_bom_error_def [of "exn _ _"]
      intro: builtin_factor_bom split: option.splits if_splits)

text \<open>Non-negative and ordered triples survive scaling.\<close>

definition quantiles :: "f64 \<times> f64 \<times> f64 \<Rightarrow> bool" where
  "quantiles t = (case t of (a, b, c) \<Rightarrow> 0 \<le> a \<and> a \<le> b \<and> b \<le> c)"

lemma emap3_quantiles:
  assumes "emap3 f t = Inr t'" "quantiles t"
    and "\<And>x y a b. f x = Inr a \<Longrightarrow> f y = Inr b \<Longrightarrow> x \<le> y \<Longrightarrow> a \<le> b"
    and "\<And>x a. f x = Inr a \<Longrightarrow> 0 \<le> x \<Longrightarrow> 0 \<le> a"
  shows "quantiles t'"
  using assms by (cases t) (auto simp: emap3_def quantiles_def ebind_Inr_iff)

lemma emap3_InlE:
  assumes "emap3 f t = Inl e"
  obtains x where "f x = Inl e"
  using assms by (cases t) (auto simp: emap3_def ebind_Inl_iff)

lemma quantiles_scale: "quantiles (x, y, z) \<Longrightarrow> 0 \<le> k \<Longrightarrow> quantiles (x * k, y * k, z * k)"
  by (auto simp: quantiles_def intro: f64_laws)

lemma quantiles_alt: "quantiles (a, b, c) \<longleftrightarrow> ordered3 a b c \<and> 0 \<le> a \<and> 0 \<le> b \<and> 0 \<le> c"
  by (auto simp: quantiles_def ordered3_def)

lemma convert_unit_mono:
  "nonneg_converter c \<Longrightarrow> convert_unit c x u v i = Inr a \<Longrightarrow> convert_unit c y u v i = Inr b \<Longrightarrow> x \<le> y \<Longrightarrow> a \<le> b"
  by (auto simp: convert_unit_def ebind_Inr_iff intro: f64_mult_right_mono [OF _ conversion_factor_nonneg])

lemma convert_unit_nonneg:
  "nonneg_converter c \<Longrightarrow> convert_unit c x u v i = Inr a \<Longrightarrow> 0 \<le> x \<Longrightarrow> 0 \<le> a"
  by (auto simp: convert_unit_def ebind_Inr_iff intro: f64_mult_nonneg dest: conversion_factor_nonneg)

section \<open>One source row\<close>

lemma convert_forecast_quantiles:
  assumes "convert_forecast_to_yield_unit p r issues = Inr ((a, b, c, u), issues')" "forecast_prediction_ok p"
  shows "quantiles (a, b, c) \<and> set issues \<subseteq> set issues'"
proof -
  have q: "quantiles (fp_p25 p, fp_p50 p, fp_p75 p)"
    using assms(2) by (simp add: quantiles_def forecast_prediction_ok_def)
  show ?thesis
  proof (cases "fp_unit p = None \<or> str_strip (the (fp_unit p)) = []")
    case True
    with assms(1) q show ?thesis by (auto simp: convert_forecast_to_yield_unit_def)
  next
    case False
    then have "emap3 (\<lambda>v. convert_product_quantity v (the (fp_unit p)) (rr_yield_unit r))
        (fp_p25 p, fp_p50 p, fp_p75 p) = Inr (a, b, c)" "issues' = issues"
      using assms(1) by (auto simp: convert_forecast_to_yield_unit_def emap3_def ebind_Inr_iff)
    with emap3_quantiles [OF this(1) q convert_product_mono convert_product_nonneg] show ?thesis by simp
  qed
qed

lemma add_prediction_details_bom: "is_bom_error e \<Longrightarrow> is_bom_error (add_prediction_details p r e)"
  by (simp add: add_prediction_details_def is_bom_error_def)

lemma convert_forecast_bom:
  assumes "convert_forecast_to_yield_unit p r issues = Inl e"
  shows "is_bom_error e"
proof -
  have unit: "\<not> (fp_unit p = None \<or> str_strip (the (fp_unit p)) = [])"
  proof
    assume "fp_unit p = None \<or> str_strip (the (fp_unit p)) = []"
    then show False using assms by (simp add: convert_forecast_to_yield_unit_def)
  qed
  let ?conv = "\<lambda>v. convert_product_quantity v (the (fp_unit p)) (rr_yield_unit r)"
  from assms unit consider e' where "emap3 ?conv (fp_p25 p, fp_p50 p, fp_p75 p) = Inl e'"
      "e = add_prediction_details p r e'"
    | "normalize_unit (the (fp_unit p)) = Inl e"
    unfolding convert_forecast_to_yield_unit_def emap3_def
    by (auto simp: ebind_Inl_iff Let_def map_error_def split: sum.splits)
  then show ?thesis
  proof cases
    case 1
    then show ?thesis by (elim emap3_InlE) (auto intro: add_prediction_details_bom convert_product_bom)
  next
    case 2
    then show ?thesis by (rule normalize_unit_bom)
  qed
qed

lemma ingredient_source_ok_alt:
  "ingredient_source_ok s \<longleftrightarrow>
     quantiles (is_forecast_p25 s, is_forecast_p50 s, is_forecast_p75 s) \<and>
     quantiles (is_base_p25 s, is_base_p50 s, is_base_p75 s) \<and>
     quantiles (is_contribution_p25 s, is_contribution_p50 s, is_contribution_p75 s) \<and>
     0 \<le> is_recipe_quantity s \<and> 0 < is_yield_quantity s \<and>
     0 \<le> is_process_loss_rate s \<and> 0 \<le> is_waste_allowance_rate s"
  by (auto simp: ingredient_source_ok_def quantiles_alt)

lemma adjustment_nonneg:
  "0 \<le> a \<Longrightarrow> 0 \<le> b \<Longrightarrow> 0 \<le> ingredient_adjustment_factor a b"
  by (simp add: ingredient_adjustment_factor_def f64_laws)

lemma base_quantiles:
  assumes "emap3 (\<lambda>v. py_div (v * q) y) t = Inr t'" "quantiles t" "0 \<le> q" "0 < y"
  shows "quantiles t'"
proof (rule emap3_quantiles [OF assms(1,2)])
  show "a \<le> b" if "py_div (v * q) y = Inr a" "py_div (w * q) y = Inr b" "v \<le> w" for v w a b
    using that assms(3,4) by (auto intro!: f64_div_right_mono f64_mult_right_mono)
  show "0 \<le> a" if "py_div (v * q) y = Inr a" "0 \<le> v" for v a
    using that assms(3,4) by (auto intro!: f64_div_nonneg f64_mult_nonneg)
qed

lemma convert_unit_bom: "convert_unit c v u w i = Inl e \<Longrightarrow> is_bom_error e"
  by (auto simp: convert_unit_def ebind_Inl_iff intro: conv.factor_bom)

text \<open>What the source row records of the forecast row and of the recipe line.\<close>

definition source_of :: "forecast_prediction \<Rightarrow> recipe_record \<Rightarrow> ingredient_source \<Rightarrow> bool" where
  "source_of p r s \<longleftrightarrow>
     is_product_id s = fp_product_id p \<and> is_recipe_id s = rr_recipe_id r \<and>
     is_recipe_version s = rr_recipe_version r \<and> is_recipe_line_id s = rr_recipe_line_id r \<and>
     is_recipe_quantity s = rr_ingredient_quantity r \<and> is_recipe_unit s = rr_ingredient_unit r \<and>
     is_forecast_p25 s = fp_p25 p \<and> is_forecast_p50 s = fp_p50 p \<and> is_forecast_p75 s = fp_p75 p"

lemma build_source_Inr:
  assumes "build_source p r c issues = Inr (s, issues')"
  shows "ingredient_source_ok s \<and> source_of p r s \<and>
    canonical_unit c (rr_ingredient_id r) (rr_ingredient_unit r) = Inr (is_contribution_unit s) \<and>
    (\<exists>x. convert_forecast_to_yield_unit p r issues = Inr (x, issues'))"
  using assms unfolding build_source_def
  by (auto simp: ebind_Inr_iff source_of_def Let_def split: prod.splits)

text \<open>Propagating one forecast row through one recipe line keeps the quantiles ordered. With a
  forecast row and a recipe line that satisfy their contracts, \<open>_build_source\<close> returns a row
  whose three quantile groups are non-negative and ordered, or raises a \<open>BOMError\<close>: its own
  pydantic check never rejects and it never divides by zero.\<close>

theorem build_source_total:
  assumes "make_unit_converter rules = Inr c" "\<forall>rule \<in> set rules. unit_conversion_rule_ok rule"
    and "forecast_prediction_ok p" "normal_recipe r"
  shows "(case build_source p r c issues of
      Inl e \<Rightarrow> is_bom_error e
    | Inr (s, _) \<Rightarrow> ingredient_source_ok s \<and> source_of p r s)"
proof (cases "build_source p r c issues")
  case (Inr x)
  then show ?thesis using build_source_Inr by (cases x) auto
next
  case err: (Inl e)
  note nn = make_converter_nonneg [OF assms(1,2)]
  have r: "0 \<le> rr_ingredient_quantity r" "0 < rr_yield_quantity r" "0 \<le> rr_process_loss_rate r"
    "0 \<le> rr_waste_allowance_rate r"
    using assms(4) by (auto simp: normal_recipe_def recipe_record_ok_def)
  let ?f = "\<lambda>v. py_div (v * rr_ingredient_quantity r) (rr_yield_quantity r)"
  let ?adj = "ingredient_adjustment_factor (rr_process_loss_rate r) (rr_waste_allowance_rate r)"
  have "is_bom_error e"
  proof (cases "convert_forecast_to_yield_unit p r issues")
    case (Inl e')
    with err show ?thesis by (auto simp: build_source_def intro: convert_forecast_bom)
  next
    case (Inr x)
    obtain a b d u issues' where x: "x = ((a, b, d, u), issues')" by (cases x) auto
    have q: "quantiles (a, b, d)" using convert_forecast_quantiles Inr assms(3) x by blast
    have "rr_yield_quantity r \<noteq> 0" using r(2) by auto
    then obtain x1 x2 x3 where base: "emap3 ?f (a, b, d) = Inr (x1, x2, x3)"
      by (auto simp: emap3_def py_div_def)
    have qb: "quantiles (x1, x2, x3)" by (rule base_quantiles [OF base q r(1,2)])
    have qa: "quantiles (x1 * ?adj, x2 * ?adj, x3 * ?adj)"
      by (rule quantiles_scale [OF qb adjustment_nonneg [OF r(3,4)]])
    show ?thesis
    proof (cases "canonical_unit c (rr_ingredient_id r) (rr_ingredient_unit r)")
      case (Inl e')
      with err Inr x base show ?thesis by (auto simp: build_source_def intro: conv.canonical_bom)
    next
      case can: (Inr out)
      let ?out = "\<lambda>v. convert_unit c v (rr_ingredient_unit r) out (rr_ingredient_id r)"
      have out: "quantiles t'" if "emap3 ?out t = Inr t'" "quantiles t" for t t'
        by (rule emap3_quantiles [OF that convert_unit_mono [OF nn] convert_unit_nonneg [OF nn]])
      show ?thesis
      proof (cases "emap3 ?out (x1, x2, x3)"; cases "emap3 ?out (x1 * ?adj, x2 * ?adj, x3 * ?adj)")
        fix y z
        assume yz: "emap3 ?out (x1, x2, x3) = Inr y" "emap3 ?out (x1 * ?adj, x2 * ?adj, x3 * ?adj) = Inr z"
        have "quantiles y" "quantiles z" using out yz qb qa by blast+
        moreover have "quantiles (fp_p25 p, fp_p50 p, fp_p75 p)"
          using assms(3) by (simp add: quantiles_def forecast_prediction_ok_def)
        ultimately show ?thesis
          using err Inr x base can yz r
          by (cases y; cases z) (auto simp: build_source_def ingredient_source_ok_alt Let_def)
      qed (use err Inr x base can in \<open>auto simp: build_source_def Let_def
            elim!: emap3_InlE intro: convert_unit_bom\<close>)
    qed
  qed
  with err show ?thesis by simp
qed

section \<open>The aggregates\<close>

lemma running_sum_snoc [simp]: "running_sum (xs @ [x]) = running_sum xs + x"
  by (simp add: running_sum_def)

lemma running_sum_Nil [simp]: "running_sum [] = 0"
  by (simp add: running_sum_def)

definition aggregate_key :: "ingredient_aggregate \<Rightarrow> ingredient_key" where
  "aggregate_key a = (ag_store_id a, ag_ingredient_id a, ag_target_date a)"

definition sums_sources :: "ingredient_aggregate \<Rightarrow> bool" where
  "sums_sources a \<longleftrightarrow>
     ag_p25 a = running_sum (map is_contribution_p25 (ag_sources a)) \<and>
     ag_p50 a = running_sum (map is_contribution_p50 (ag_sources a)) \<and>
     ag_p75 a = running_sum (map is_contribution_p75 (ag_sources a)) \<and>
     (\<forall>s \<in> set (ag_sources a). ingredient_source_ok s \<and> is_contribution_unit s = ag_unit a)"

definition bom_inv :: "bom_state \<Rightarrow> bool" where
  "bom_inv st \<longleftrightarrow> (\<forall>k a. dict_get (bs_aggregates st) k = Some a \<longrightarrow> aggregate_key a = k \<and> sums_sources a) \<and>
     distinct (dict_keys (bs_aggregates st))"

definition covered :: "bom_state \<Rightarrow> forecast_prediction \<Rightarrow> recipe_record \<Rightarrow> bool" where
  "covered st p r \<longleftrightarrow>
     (\<exists>a. dict_get (bs_aggregates st) (fp_store_id p, rr_ingredient_id r, fp_target_date p) = Some a \<and>
       (\<exists>s \<in> set (ag_sources a). source_of p r s))"

lemma new_aggregate_unit [simp]: "ag_unit (new_aggregate p r u) = u"
  by (simp add: new_aggregate_def)

text \<open>What happens to an aggregate when a source is added.\<close>

lemma merge_name_sel [simp]:
  "ag_sources (merge_name a r) = ag_sources a" "ag_unit (merge_name a r) = ag_unit a"
  "ag_p25 (merge_name a r) = ag_p25 a" "ag_p50 (merge_name a r) = ag_p50 a" "ag_p75 (merge_name a r) = ag_p75 a"
  "aggregate_key (merge_name a r) = aggregate_key a"
  by (simp_all add: merge_name_def aggregate_key_def)

lemma add_source_sel [simp]:
  "ag_sources (add_source p s a) = ag_sources a @ [s]" "ag_unit (add_source p s a) = ag_unit a"
  "aggregate_key (add_source p s a) = aggregate_key a"
  by (simp_all add: add_source_def aggregate_key_def)

lemma add_source_sums:
  "sums_sources a \<Longrightarrow> ingredient_source_ok s \<Longrightarrow> is_contribution_unit s = ag_unit a \<Longrightarrow>
     sums_sources (add_source p s (merge_name a r))"
  by (auto simp: sums_sources_def add_source_def)

lemma bom_lineE:
  assumes "bom_line c p st r = Inr st'"
  obtains s issues a where
    "build_source p r c (bs_issues st) = Inr (s, issues)"
    "bs_aggregates st' = dict_set (fp_store_id p, rr_ingredient_id r, fp_target_date p)
        (add_source p s (merge_name a r)) (bs_aggregates st)"
    "bs_issues st' = issues"
    "dict_get (bs_aggregates st) (fp_store_id p, rr_ingredient_id r, fp_target_date p) = Some a \<or>
     dict_get (bs_aggregates st) (fp_store_id p, rr_ingredient_id r, fp_target_date p) = None \<and>
     a = new_aggregate p r (is_contribution_unit s)"
    "ag_unit a = is_contribution_unit s"
proof -
  let ?k = "(fp_store_id p, rr_ingredient_id r, fp_target_date p)"
  obtain s issues where bs: "build_source p r c (bs_issues st) = Inr (s, issues)"
    using assms by (auto simp: bom_line_def ebind_Inr_iff)
  define m where "m = (case dict_get (bs_aggregates st) ?k of
              None \<Rightarrow> Inr (new_aggregate p r (is_contribution_unit s))
            | Some a \<Rightarrow>
                if ag_unit a \<noteq> is_contribution_unit s then
                  Inl (exn UnitConversionError
                    [(''store_id'', PStr (fp_store_id p)), (''ingredient_id'', PStr (rr_ingredient_id r)),
                     (''target_date'', PDate (fp_target_date p)), (''existing_unit'', PStr (ag_unit a)),
                     (''incoming_unit'', PStr (is_contribution_unit s))])
                else Inr a)"
  obtain a where m: "m = Inr a"
    and st': "bs_aggregates st' = dict_set ?k (add_source p s (merge_name a r)) (bs_aggregates st)"
      "bs_issues st' = issues"
    using assms bs unfolding bom_line_def by (auto simp: ebind_Inr_iff Let_def m_def)
  show thesis
    by (rule that [OF bs st']) (use m in \<open>auto simp: m_def split: option.splits if_splits\<close>)
qed

lemma bom_line_inv:
  assumes "bom_line c p st r = Inr st'" "bom_inv st"
  shows "bom_inv st'"
  using assms(1)
proof (rule bom_lineE)
  fix s issues a
  let ?k = "(fp_store_id p, rr_ingredient_id r, fp_target_date p)"
  assume bs: "build_source p r c (bs_issues st) = Inr (s, issues)"
    and ag: "bs_aggregates st' = dict_set ?k (add_source p s (merge_name a r)) (bs_aggregates st)"
    and old: "dict_get (bs_aggregates st) ?k = Some a \<or>
        dict_get (bs_aggregates st) ?k = None \<and> a = new_aggregate p r (is_contribution_unit s)"
    and u: "ag_unit a = is_contribution_unit s"
  have a: "aggregate_key a = ?k \<and> sums_sources a"
    using old assms(2) by (auto simp: bom_inv_def new_aggregate_def aggregate_key_def sums_sources_def)
  moreover have "ingredient_source_ok s" using build_source_Inr [OF bs] by simp
  ultimately have "sums_sources (add_source p s (merge_name a r))" using u by (simp add: add_source_sums)
  with a assms(2) show ?thesis
    by (auto simp: bom_inv_def ag dict_get_set distinct_dict_set simp del: distinct_map)
qed

lemma bom_line_covers:
  assumes "bom_line c p st r = Inr st'"
  shows "covered st' p r" and "covered st p2 r2 \<Longrightarrow> covered st' p2 r2"
proof -
  obtain s issues a where
    bs: "build_source p r c (bs_issues st) = Inr (s, issues)"
    and ag: "bs_aggregates st' = dict_set (fp_store_id p, rr_ingredient_id r, fp_target_date p)
        (add_source p s (merge_name a r)) (bs_aggregates st)"
    and old: "dict_get (bs_aggregates st) (fp_store_id p, rr_ingredient_id r, fp_target_date p) = Some a \<or>
        dict_get (bs_aggregates st) (fp_store_id p, rr_ingredient_id r, fp_target_date p) = None \<and>
        a = new_aggregate p r (is_contribution_unit s)"
    using assms by (rule bom_lineE) blast
  have "source_of p r s" using build_source_Inr [OF bs] by simp
  then show "covered st' p r" by (auto simp: covered_def ag dict_get_set)
  show "covered st' p2 r2" if "covered st p2 r2"
    using that old by (auto simp: covered_def ag dict_get_set)
qed

lemma convert_forecast_issues:
  "convert_forecast_to_yield_unit p r issues = Inr (x, issues') \<Longrightarrow>
     issues' = issues \<or> issues' = issues @ [unit_missing_issue p r]"
  by (auto simp: convert_forecast_to_yield_unit_def ebind_Inr_iff Let_def split: if_splits prod.splits)

lemma bom_line_issues: "bom_line c p st r = Inr st' \<Longrightarrow> set (bs_issues st) \<subseteq> set (bs_issues st')"
  by (erule bom_lineE) (use build_source_Inr convert_forecast_issues in \<open>fastforce\<close>)

lemma bom_lines:
  assumes "efold (bom_line c p) st rs = Inr st'"
  shows "(bom_inv st \<longrightarrow> bom_inv st') \<and> (\<forall>r \<in> set rs. covered st' p r) \<and>
    (\<forall>p2 r2. covered st p2 r2 \<longrightarrow> covered st' p2 r2) \<and> set (bs_issues st) \<subseteq> set (bs_issues st')"
  using assms
proof (induction rs arbitrary: st)
  case Nil
  then show ?case by simp
next
  case (Cons r rs)
  then obtain st1 where s1: "bom_line c p st r = Inr st1" and s2: "efold (bom_line c p) st1 rs = Inr st'"
    by (auto simp: ebind_Inr_iff)
  note IH = Cons.IH [OF s2]
  show ?case
    using IH bom_line_inv [OF s1] bom_line_covers [OF s1] bom_line_issues [OF s1] by auto
qed

lemma efold_snoc_induct:
  assumes "efold f s xs = Inr t" and "P [] s"
    and "\<And>ys y s1 s2. set (ys @ [y]) \<subseteq> set xs \<Longrightarrow> P ys s1 \<Longrightarrow> f s1 y = Inr s2 \<Longrightarrow> P (ys @ [y]) s2"
  shows "P xs t"
  using assms
proof (induction xs arbitrary: t rule: rev_induct)
  case Nil
  then show ?case by simp
next
  case (snoc x xs)
  then obtain s1 where s1: "efold f s xs = Inr s1" "f s1 x = Inr t" by (auto simp: efold_append ebind_Inr_iff)
  have "P xs s1"
  proof (rule snoc.IH [OF s1(1) snoc.prems(2)])
    show "P (ys @ [y]) s3" if "set (ys @ [y]) \<subseteq> set xs" "P ys s2" "f s2 y = Inr s3" for ys y s2 s3
      by (rule snoc.prems(3) [OF _ that(2,3)]) (use that(1) in auto)
  qed
  then show ?case using snoc.prems(3) [of xs x] s1(2) by simp
qed

text \<open>What holds after the forecast rows \<open>ps\<close> have been processed.\<close>

definition bom_done :: "recipe_record list \<Rightarrow> forecast_prediction list \<Rightarrow> bom_state \<Rightarrow> bool" where
  "bom_done rs ps st \<longleftrightarrow> bom_inv st \<and>
     (bs_issues st = [] \<longrightarrow> (\<forall>p \<in> set ps. active_recipes rs (fp_product_id p) (fp_target_date p) \<noteq> [] \<and>
        (\<forall>r \<in> set (active_recipes rs (fp_product_id p) (fp_target_date p)). covered st p r)))"

lemma bom_prediction_done:
  assumes "bom_prediction (make_recipe_resolver rs) c st p = Inr st'" "bom_done rs ps st"
  shows "bom_done rs (ps @ [p]) st'"
proof (cases "active_recipes rs (fp_product_id p) (fp_target_date p) = []")
  case True
  from resolve_missing [OF True] assms show ?thesis
    by (auto simp: bom_prediction_def res_found_def bom_done_def bom_inv_def)
next
  case False
  obtain res where res: "resolve (make_recipe_resolver rs) (fp_product_id p) (fp_target_date p) (Some (fp_store_id p)) = Inr res"
    using assms(1) by (auto simp: bom_prediction_def ebind_Inr_iff)
  from resolve_active [OF False, of "Some (fp_store_id p)"] res
  have rec: "set (res_records res) = set (active_recipes rs (fp_product_id p) (fp_target_date p))" and "res_found res"
    by (auto dest: mset_eq_setD)
  with assms(1) res obtain st1 where lines: "efold (bom_line c p) st (res_records res) = Inr st1"
    and agg: "bs_aggregates st' = bs_aggregates st1" "bs_issues st' = bs_issues st1"
    by (auto simp: bom_prediction_def ebind_Inr_iff split: if_splits)
  have cov: "covered st' = covered st1" "bom_inv st' = bom_inv st1"
    by (intro ext) (simp_all add: covered_def bom_inv_def agg)
  from bom_lines [OF lines] assms(2) rec False agg show ?thesis
    unfolding bom_done_def cov by auto
qed

lemma bom_loop_done:
  assumes "efold (bom_prediction (make_recipe_resolver rs) c)
      \<lparr>bs_aggregates = [], bs_issues = [], bs_warning_codes = ws\<rparr> ps = Inr st"
  shows "bom_done rs ps st"
proof (rule efold_snoc_induct [OF assms, where P = "bom_done rs"])
  show "bom_done rs [] \<lparr>bs_aggregates = [], bs_issues = [], bs_warning_codes = ws\<rparr>"
    by (simp add: bom_done_def bom_inv_def)
qed (rule bom_prediction_done)

lemma propagateE:
  assumes "propagate_ingredient_demand pd forecast recipes conversions = Inr k"
  obtains rs rules c st where "adapt_recipes pd recipes = Inr rs"
    "adapt_unit_conversions pd conversions = Inr rules" "make_unit_converter rules = Inr c"
    "bom_done rs (sort_key (\<lambda>p. (fp_target_date p, fp_store_id p, fp_product_id p, fp_horizon p))
        (fk_predictions forecast)) st"
    "emap finish_aggregate (sort_key (\<lambda>a. (ag_target_date a, ag_store_id a, ag_ingredient_id a))
        (map snd (bs_aggregates st))) = Inr (ik_predictions k)"
    "ik_issues k = bs_issues st" "ik_is_complete k = (bs_issues st = [])"
proof -
  obtain rs where rs: "adapt_recipes pd recipes = Inr rs"
    using assms by (auto simp: propagate_ingredient_demand_def ebind_Inr_iff)
  obtain rules where rules: "adapt_unit_conversions pd conversions = Inr rules"
    using assms by (auto simp: propagate_ingredient_demand_def ebind_Inr_iff)
  obtain c where c: "make_unit_converter rules = Inr c"
    using assms rs rules by (auto simp: propagate_ingredient_demand_def ebind_Inr_iff)
  from assms rs rules c show thesis
    by (auto simp: propagate_ingredient_demand_def ebind_Inr_iff Let_def
        intro!: that [OF rs rules c bom_loop_done])
qed

lemma finish_aggregate_Inr:
  assumes "finish_aggregate a = Inr p"
  shows "ingredient_prediction_ok p \<and> ip_store_id p = ag_store_id a \<and> ip_ingredient_id p = ag_ingredient_id a \<and>
    ip_target_date p = ag_target_date a \<and> ip_unit p = ag_unit a \<and> mset (ip_sources p) = mset (ag_sources a) \<and>
    ip_p25 p = ag_p25 a \<and> ip_p50 p = ag_p50 a \<and> ip_p75 p = ag_p75 a"
  using assms by (auto simp: finish_aggregate_def Let_def)

text \<open>The prediction adds its sources up, in some order, one float addition after the other.\<close>

definition adds_up :: "ingredient_prediction \<Rightarrow> bool" where
  "adds_up p \<longleftrightarrow> (\<exists>order. mset order = mset (ip_sources p) \<and>
     ip_p25 p = running_sum (map is_contribution_p25 order) \<and>
     ip_p50 p = running_sum (map is_contribution_p50 order) \<and>
     ip_p75 p = running_sum (map is_contribution_p75 order))"

lemma engine_predictions:
  assumes "propagate_ingredient_demand pd forecast recipes conversions = Inr k"
  shows "\<forall>p \<in> set (ik_predictions k). adds_up p \<and>
    0 \<le> ip_p25 p \<and> ip_p25 p \<le> ip_p50 p \<and> ip_p50 p \<le> ip_p75 p \<and>
    (\<forall>s \<in> set (ip_sources p). ingredient_source_ok s \<and> is_contribution_unit s = ip_unit p)"
proof
  fix p assume p: "p \<in> set (ik_predictions k)"
  from assms obtain rs ps st where fold_done: "bom_done rs ps st"
    and fin: "emap finish_aggregate (sort_key (\<lambda>a. (ag_target_date a, ag_store_id a, ag_ingredient_id a))
        (map snd (bs_aggregates st))) = Inr (ik_predictions k)"
    by (rule propagateE) blast
  from emap_in_set [OF fin p] obtain a where a: "a \<in> snd ` set (bs_aggregates st)" "finish_aggregate a = Inr p"
    by auto
  from a(1) obtain key where "(key, a) \<in> set (bs_aggregates st)" by auto
  then have "dict_get (bs_aggregates st) key = Some a"
    using fold_done by (auto simp: bom_done_def bom_inv_def intro: map_of_is_SomeI)
  then have s: "sums_sources a" using fold_done unfolding bom_done_def bom_inv_def by blast
  note f = finish_aggregate_Inr [OF a(2)]
  from f have set: "set (ip_sources p) = set (ag_sources a)" by (metis mset_eq_setD)
  have "adds_up p" unfolding adds_up_def
    by (rule exI [of _ "ag_sources a"]) (use s f in \<open>simp add: sums_sources_def\<close>)
  moreover have "0 \<le> ip_p25 p" "ip_p25 p \<le> ip_p50 p" "ip_p50 p \<le> ip_p75 p"
    using conjunct1 [OF f] by (simp_all add: ingredient_prediction_ok_def ordered3_def)
  moreover have "\<forall>s \<in> set (ip_sources p). ingredient_source_ok s \<and> is_contribution_unit s = ip_unit p"
    using f s set by (simp add: sums_sources_def)
  ultimately show "adds_up p \<and> 0 \<le> ip_p25 p \<and> ip_p25 p \<le> ip_p50 p \<and> ip_p50 p \<le> ip_p75 p \<and>
    (\<forall>s \<in> set (ip_sources p). ingredient_source_ok s \<and> is_contribution_unit s = ip_unit p)" by blast
qed

text \<open>C23: ingredient demand is the sum of its sources. In every package the engine returns, each
  prediction is the sum of the contributions of its source rows at each quantile, all in the
  prediction's unit, every source row is valid, and the quantiles are non-negative and ordered.\<close>

theorem ingredient_demand_sums:
  assumes "propagate_ingredient_demand pd forecast recipes conversions = Inr k"
  shows "\<forall>p \<in> set (ik_predictions k). adds_up p \<and>
    0 \<le> ip_p25 p \<and> ip_p25 p \<le> ip_p50 p \<and> ip_p50 p \<le> ip_p75 p \<and>
    (\<forall>s \<in> set (ip_sources p). ingredient_source_ok s \<and> is_contribution_unit s = ip_unit p)"
  by (rule engine_predictions [OF assms])

text \<open>A package marked complete covers the forecast: every forecast row has a recipe active at its
  date, and every active line of it contributes a source row to the demand of its ingredient,
  store and date.\<close>

theorem complete_package_covers_forecast:
  assumes "propagate_ingredient_demand pd forecast recipes conversions = Inr k" "ik_is_complete k"
    and "adapt_recipes pd recipes = Inr rs" "p \<in> set (fk_predictions forecast)"
  shows "active_recipes rs (fp_product_id p) (fp_target_date p) \<noteq> [] \<and>
    (\<forall>r \<in> set (active_recipes rs (fp_product_id p) (fp_target_date p)).
       \<exists>d \<in> set (ik_predictions k). ip_store_id d = fp_store_id p \<and>
         ip_ingredient_id d = rr_ingredient_id r \<and> ip_target_date d = fp_target_date p \<and>
         (\<exists>s \<in> set (ip_sources d). source_of p r s))"
proof -
  from assms(1) obtain rs' ps st where rs': "adapt_recipes pd recipes = Inr rs'"
    and fold_done: "bom_done rs' ps st" "set ps = set (fk_predictions forecast)"
    and fin: "emap finish_aggregate (sort_key (\<lambda>a. (ag_target_date a, ag_store_id a, ag_ingredient_id a))
        (map snd (bs_aggregates st))) = Inr (ik_predictions k)"
    and comp: "ik_is_complete k = (bs_issues st = [])"
    by (rule propagateE) simp
  have "rs' = rs" using rs' assms(3) by simp
  then have act: "active_recipes rs (fp_product_id p) (fp_target_date p) \<noteq> []"
    and cov: "\<forall>r \<in> set (active_recipes rs (fp_product_id p) (fp_target_date p)). covered st p r"
    using fold_done assms(2,4) comp by (auto simp: bom_done_def)
  have "\<exists>d \<in> set (ik_predictions k). ip_store_id d = fp_store_id p \<and>
         ip_ingredient_id d = rr_ingredient_id r \<and> ip_target_date d = fp_target_date p \<and>
         (\<exists>s \<in> set (ip_sources d). source_of p r s)" if cv: "covered st p r" for r
  proof -
    obtain a s where a: "dict_get (bs_aggregates st) (fp_store_id p, rr_ingredient_id r, fp_target_date p) = Some a"
      and s: "s \<in> set (ag_sources a)" "source_of p r s"
      using cv unfolding covered_def by blast
    have key: "aggregate_key a = (fp_store_id p, rr_ingredient_id r, fp_target_date p)"
      using fold_done a by (auto simp: bom_done_def bom_inv_def)
    have "a \<in> set (map snd (bs_aggregates st))" using map_of_SomeD [OF a] by force
    then obtain d where d: "d \<in> set (ik_predictions k)" "finish_aggregate a = Inr d"
      using emap_of_set [OF fin, of a] by auto
    note fd = finish_aggregate_Inr [OF d(2)]
    have "ip_store_id d = fp_store_id p" "ip_ingredient_id d = rr_ingredient_id r"
      "ip_target_date d = fp_target_date p"
      using fd key by (simp_all add: aggregate_key_def)
    moreover have "s \<in> set (ip_sources d)" using fd s(1) by (metis mset_eq_setD)
    ultimately show ?thesis using d(1) s(2) by blast
  qed
  with act cov show ?thesis by blast
qed

definition bun_table :: "pyval data_frame" where
  "bun_table =
     \<lparr>df_columns = RECIPE_REQUIRED_COLUMNS,
      df_rows = [row_of
        [(''recipe_id'', PStr ''burger''), (''product_id'', PStr ''burger''),
         (''ingredient_id'', PStr ''bun''), (''ingredient_quantity'', PInt 2),
         (''ingredient_unit'', PStr ''pcs''), (''yield_quantity'', PInt 1),
         (''yield_unit'', PStr ''unit''), (''recipe_version'', PStr ''v1''),
         (''effective_from'', PDate 738000)]]\<rparr>"

definition burger_forecast :: forecast_package where
  "burger_forecast =
     \<lparr>fk_forecast_date = 738100, fk_forecast_horizon = 1, fk_model_version = ''m1'',
      fk_predictions = [\<lparr>fp_store_id = ''s1'', fp_product_id = ''burger'', fp_product_name = ''Burger'',
        fp_unit = Some ''unit'', fp_target_date = 738101, fp_horizon = 1, fp_p25 = fint 3, fp_p50 = fint 5,
        fp_p75 = fint 8, fp_interval_lower = fint 2, fp_interval_upper = fint 9, fp_baseline_p50 = fint 5,
        fp_calibration_source = ''cqr'', fp_warnings = []\<rparr>],
      fk_warnings = []\<rparr>"

definition bun_recipe :: recipe_record where
  "bun_recipe =
     \<lparr>rr_recipe_line_id = None, rr_recipe_id = ''burger'', rr_product_id = ''burger'',
      rr_ingredient_id = ''bun'', rr_ingredient_name = None, rr_ingredient_quantity = fint 2,
      rr_ingredient_unit = ''unit'', rr_yield_quantity = fint 1, rr_yield_unit = ''unit'',
      rr_process_loss_rate = fint 0, rr_waste_allowance_rate = fint 0, rr_recipe_version = ''v1'',
      rr_effective_from = 738000, rr_effective_to = None\<rparr>"

lemma bun_adapt: "adapt_recipes cell_pandas bun_table = Inr [bun_recipe]"
  by code_simp

definition burger_source :: ingredient_source where
  "burger_source =
     \<lparr>is_product_id = ''burger'', is_product_name = ''Burger'', is_product_unit = Some ''unit'',
      is_recipe_id = ''burger'', is_recipe_version = ''v1'', is_recipe_line_id = None,
      is_forecast_p25 = fint 3, is_forecast_p50 = fint 5, is_forecast_p75 = fint 8,
      is_recipe_quantity = fint 2, is_recipe_unit = ''unit'', is_yield_quantity = fint 1,
      is_yield_unit = ''unit'', is_process_loss_rate = fint 0, is_waste_allowance_rate = fint 0,
      is_base_p25 = fint 6, is_base_p50 = fint 10, is_base_p75 = fint 16,
      is_contribution_p25 = fint 6, is_contribution_p50 = fint 10, is_contribution_p75 = fint 16,
      is_contribution_unit = ''unit''\<rparr>"

lemma unit_to_unit: "convert_product_quantity x ''unit'' ''unit'' = Inr x"
proof -
  have "builtin_factor ''unit'' ''unit'' = Inr (Some 1)" by code_simp
  then show ?thesis by (simp add: convert_product_quantity_def)
qed

lemma bun_units:
  "canonical_unit \<lparr>uc_graphs = []\<rparr> ''bun'' ''unit'' = Inr ''unit''"
  "conversion_factor \<lparr>uc_graphs = []\<rparr> ''bun'' ''unit'' ''unit'' = Inr 1"
  "normalize_unit ''unit'' = Inr ''unit''" "str_strip ''unit'' = ''unit''"
  by code_simp+

lemma burger_build:
  "build_source (hd (fk_predictions burger_forecast)) bun_recipe \<lparr>uc_graphs = []\<rparr> [] = Inr (burger_source, [])"
  by (simp add: build_source_def burger_forecast_def bun_recipe_def convert_forecast_to_yield_unit_def
      unit_to_unit bun_units emap3_def py_div_def convert_unit_def ingredient_adjustment_factor_def
      burger_source_def ingredient_source_ok_def ordered3_def fint_eval)

lemma burger_resolve:
  "resolve (make_recipe_resolver [bun_recipe]) ''burger'' 738101 (Some ''s1'') =
     Inr \<lparr>res_records = [bun_recipe], res_issue = None\<rparr>"
  by code_simp

lemma burger_prediction:
  "efold (bom_prediction (make_recipe_resolver [bun_recipe]) \<lparr>uc_graphs = []\<rparr>)
     \<lparr>bs_aggregates = [], bs_issues = [], bs_warning_codes = []\<rparr> (fk_predictions burger_forecast) =
   Inr \<lparr>bs_aggregates = [((''s1'', ''bun'', 738101),
          \<lparr>ag_store_id = ''s1'', ag_ingredient_id = ''bun'', ag_target_date = 738101, ag_unit = ''unit'',
           ag_ingredient_name = None, ag_p25 = fint 6, ag_p50 = fint 10, ag_p75 = fint 16,
           ag_sources = [burger_source], ag_warnings = []\<rparr>)],
        bs_issues = [], bs_warning_codes = []\<rparr>"
proof -
  define p where "p = hd (fk_predictions burger_forecast)"
  have ps: "fk_predictions burger_forecast = [p]" by (simp add: p_def burger_forecast_def)
  have f: "fp_product_id p = ''burger''" "fp_target_date p = 738101" "fp_store_id p = ''s1''" "fp_warnings p = []"
    by (simp_all add: p_def burger_forecast_def)
  have "build_source p bun_recipe \<lparr>uc_graphs = []\<rparr> [] = Inr (burger_source, [])"
    unfolding p_def by (rule burger_build)
  then show ?thesis
    by (simp add: ps bom_prediction_def f burger_resolve res_found_def bom_line_def new_aggregate_def
        merge_name_def name_conflict_def add_source_def) (simp add: bun_recipe_def burger_source_def)
qed

definition burger_demand :: ingredient_package where
  "burger_demand =
     \<lparr>ik_forecast_date = 738100, ik_forecast_horizon = 1, ik_forecast_model_version = ''m1'',
      ik_predictions = [\<lparr>ip_store_id = ''s1'', ip_ingredient_id = ''bun'', ip_ingredient_name = None,
        ip_target_date = 738101, ip_p25 = fint 6, ip_p50 = fint 10, ip_p75 = fint 16, ip_unit = ''unit'',
        ip_sources = [burger_source], ip_warnings = []\<rparr>],
      ik_issues = [], ik_warnings = [], ik_is_complete = True\<rparr>"

lemma burger_package:
  "propagate_ingredient_demand cell_pandas burger_forecast bun_table None = Inr burger_demand"
proof -
  have v: "validate_forecast_product_unit_consistency burger_forecast = Inr ()" by code_simp
  have c: "make_unit_converter [] = Inr \<lparr>uc_graphs = []\<rparr>" by code_simp
  have h: "fk_forecast_horizon burger_forecast = 1" "fk_warnings burger_forecast = []"
    "fk_forecast_date burger_forecast = 738100" "fk_model_version burger_forecast = ''m1''"
    "sort_key (\<lambda>p. (fp_target_date p, fp_store_id p, fp_product_id p, fp_horizon p))
        (fk_predictions burger_forecast) = fk_predictions burger_forecast"
    by (simp_all add: burger_forecast_def)
  have s: "sum_close (fint 6) [fint 6]" "sum_close (fint 10) [fint 10]" "sum_close (fint 16) [fint 16]"
    by (simp_all add: sum_close_def)
  show ?thesis
    by (simp add: propagate_ingredient_demand_def v c h bun_adapt adapt_unit_conversions_def
        burger_prediction finish_aggregate_def ingredient_prediction_ok_def ordered3_def
        burger_demand_def) (simp add: burger_source_def fint_eval s)
qed

theorem build_source_total_witness:
  "case build_source (hd (fk_predictions burger_forecast)) bun_recipe \<lparr>uc_graphs = []\<rparr> [] of
      Inl e \<Rightarrow> is_bom_error e
    | Inr (s, _) \<Rightarrow> ingredient_source_ok s \<and> source_of (hd (fk_predictions burger_forecast)) bun_recipe s"
proof (rule build_source_total)
  show "make_unit_converter [] = Inr \<lparr>uc_graphs = []\<rparr>" by code_simp
  show "forecast_prediction_ok (hd (fk_predictions burger_forecast))"
    by (simp add: burger_forecast_def forecast_prediction_ok_def fint_eval)
  show "normal_recipe bun_recipe"
    by code_simp
qed simp

theorem ingredient_demand_sums_witness:
  "\<exists>k d. propagate_ingredient_demand cell_pandas burger_forecast bun_table None = Inr k \<and>
     ik_predictions k = [d] \<and> adds_up d"
  using burger_package ingredient_demand_sums [OF burger_package] by (fastforce simp: burger_demand_def)

theorem complete_package_covers_forecast_witness:
  "\<exists>k d. propagate_ingredient_demand cell_pandas burger_forecast bun_table None = Inr k \<and>
     d \<in> set (ik_predictions k) \<and> ip_ingredient_id d = ''bun'' \<and> ip_sources d \<noteq> []"
proof -
  obtain k where k: "propagate_ingredient_demand cell_pandas burger_forecast bun_table None = Inr k" "ik_is_complete k"
    using burger_package by (simp add: burger_demand_def)
  let ?p = "hd (fk_predictions burger_forecast)"
  have p: "?p \<in> set (fk_predictions burger_forecast)" by (simp add: burger_forecast_def)
  have r: "bun_recipe \<in> set (active_recipes [bun_recipe] (fp_product_id ?p) (fp_target_date ?p))"
    by (simp add: active_recipes_def burger_forecast_def bun_recipe_def recipe_active_def)
  from complete_package_covers_forecast [OF k bun_adapt p] r k(1) show ?thesis
    by (fastforce simp: bun_recipe_def)
qed

end
