(* ===== verification/Scenarios.thy ===== *)
theory Scenarios
  imports Bom_Engine
begin

text \<open>
  \<open>shelfcash_core/scenario/contracts.py\<close> and \<open>scenario/bom.py\<close>: demand scenarios per product
  and per ingredient, and the propagation of every product scenario through the
  deterministic recipe engine. The yield-loss model is an interface: its source label and
  its multiplier.
\<close>

section \<open>Contracts\<close>

record product_line =
  pl_scenario_id :: string
  pl_store_id :: string
  pl_product_id :: string
  pl_product_name :: string
  pl_product_unit :: "string option"
  pl_target_date :: date
  pl_horizon :: int
  pl_quantity :: f64
  pl_source_model_version :: string
  pl_scenario_method :: string

definition product_line_ok :: "product_line \<Rightarrow> bool" where
  "product_line_ok l \<longleftrightarrow>
     pl_scenario_id l \<noteq> [] \<and> pl_store_id l \<noteq> [] \<and> pl_product_id l \<noteq> [] \<and> pl_product_name l \<noteq> [] \<and>
     1 \<le> pl_horizon l \<and> 0 \<le> pl_quantity l \<and> pl_source_model_version l \<noteq> [] \<and> pl_scenario_method l \<noteq> []"

record product_scenario =
  pn_scenario_id :: string
  pn_weight :: f64
  pn_lines :: "product_line list"
  pn_metadata :: payload

definition product_scenario_ok :: "product_scenario \<Rightarrow> bool" where
  "product_scenario_ok s \<longleftrightarrow>
     pn_scenario_id s \<noteq> [] \<and> 0 \<le> pn_weight s \<and> list_all product_line_ok (pn_lines s) \<and>
     list_all (\<lambda>l. pl_scenario_id l = pn_scenario_id s) (pn_lines s) \<and>
     distinct (map (\<lambda>l. (pl_store_id l, pl_product_id l, pl_target_date l)) (pn_lines s))"

definition weights_close_to_one :: "f64 list \<Rightarrow> bool" where
  "weights_close_to_one ws \<longleftrightarrow> isclose (py_sum ws) 1 (fl (1 / 10 ^ 9)) (fl (1 / 10 ^ 9))"

record product_bundle =
  pb_forecast_date :: date
  pb_horizon :: int
  pb_model_version :: string
  pb_scenario_method :: string
  pb_scenarios :: "product_scenario list"
  pb_diagnostics :: payload
  pb_warnings :: "string list"

definition product_bundle_ok :: "product_bundle \<Rightarrow> bool" where
  "product_bundle_ok b \<longleftrightarrow>
     1 \<le> pb_horizon b \<and> pb_model_version b \<noteq> [] \<and> pb_scenario_method b \<noteq> [] \<and>
     list_all product_scenario_ok (pb_scenarios b) \<and> distinct (map pn_scenario_id (pb_scenarios b)) \<and>
     (pb_scenarios b \<noteq> [] \<longrightarrow> weights_close_to_one (map pn_weight (pb_scenarios b)))"

record scenario_contribution =
  sb_product_id :: string
  sb_product_name :: string
  sb_recipe_id :: string
  sb_recipe_version :: string
  sb_fixed_quantity :: f64
  sb_final_quantity :: f64
  sb_unit :: string

definition scenario_contribution_ok :: "scenario_contribution \<Rightarrow> bool" where
  "scenario_contribution_ok c \<longleftrightarrow>
     sb_product_id c \<noteq> [] \<and> sb_product_name c \<noteq> [] \<and> sb_recipe_id c \<noteq> [] \<and> sb_recipe_version c \<noteq> [] \<and>
     0 \<le> sb_fixed_quantity c \<and> 0 \<le> sb_final_quantity c \<and> sb_unit c \<noteq> []"

record ingredient_line =
  il_scenario_id :: string
  il_store_id :: string
  il_ingredient_id :: string
  il_ingredient_name :: "string option"
  il_target_date :: date
  il_quantity :: f64
  il_unit :: string
  il_yield_loss_source :: string
  il_yield_loss_multiplier :: f64
  il_contributions :: "scenario_contribution list"
  il_warnings :: "string list"

definition ingredient_line_ok :: "ingredient_line \<Rightarrow> bool" where
  "ingredient_line_ok l \<longleftrightarrow>
     il_scenario_id l \<noteq> [] \<and> il_store_id l \<noteq> [] \<and> il_ingredient_id l \<noteq> [] \<and> 0 \<le> il_quantity l \<and>
     il_unit l \<noteq> [] \<and> il_yield_loss_source l \<noteq> [] \<and> 0 < il_yield_loss_multiplier l \<and>
     list_all scenario_contribution_ok (il_contributions l)"

record ingredient_scenario =
  in_scenario_id :: string
  in_weight :: f64
  in_lines :: "ingredient_line list"
  in_issues :: "bom_issue list"
  in_warnings :: "string list"
  in_is_complete :: bool

definition ingredient_scenario_ok :: "ingredient_scenario \<Rightarrow> bool" where
  "ingredient_scenario_ok s \<longleftrightarrow>
     in_scenario_id s \<noteq> [] \<and> 0 \<le> in_weight s \<and> list_all ingredient_line_ok (in_lines s) \<and>
     list_all (\<lambda>l. il_scenario_id l = in_scenario_id s) (in_lines s) \<and>
     distinct (map (\<lambda>l. (il_store_id l, il_ingredient_id l, il_target_date l)) (in_lines s)) \<and>
     in_is_complete s \<noteq> (in_issues s \<noteq> [])"

record ingredient_bundle =
  ib_forecast_date :: date
  ib_horizon :: int
  ib_forecast_model_version :: string
  ib_scenario_method :: string
  ib_scenarios :: "ingredient_scenario list"
  ib_diagnostics :: payload
  ib_warnings :: "string list"
  ib_is_complete :: bool

definition ingredient_bundle_ok :: "ingredient_bundle \<Rightarrow> bool" where
  "ingredient_bundle_ok b \<longleftrightarrow>
     1 \<le> ib_horizon b \<and> ib_forecast_model_version b \<noteq> [] \<and> ib_scenario_method b \<noteq> [] \<and>
     list_all ingredient_scenario_ok (ib_scenarios b) \<and> distinct (map in_scenario_id (ib_scenarios b)) \<and>
     (ib_scenarios b \<noteq> [] \<longrightarrow> weights_close_to_one (map in_weight (ib_scenarios b))) \<and>
     ib_is_complete b = list_all in_is_complete (ib_scenarios b)"

section \<open>Propagation\<close>

text \<open>The interface \<open>YieldLossModel\<close> and its default, the fixed recipe.\<close>

record yield_model =
  ym_source :: string
  ym_multiplier :: "string \<Rightarrow> string \<Rightarrow> date \<Rightarrow> f64 \<Rightarrow> f64 py"

definition FixedRecipeYieldLossModel :: yield_model where
  "FixedRecipeYieldLossModel =
     \<lparr>ym_source = ''recipe_fixed'', ym_multiplier = (\<lambda>store_id ingredient_id target_date quantity. Inr 1)\<rparr>"

definition scenario_prediction :: "string \<Rightarrow> product_line \<Rightarrow> forecast_prediction py" where
  "scenario_prediction scenario_id l =
     (let p = \<lparr>fp_store_id = pl_store_id l, fp_product_id = pl_product_id l,
               fp_product_name = pl_product_name l, fp_unit = pl_product_unit l,
               fp_target_date = pl_target_date l, fp_horizon = pl_horizon l,
               fp_p25 = pl_quantity l, fp_p50 = pl_quantity l, fp_p75 = pl_quantity l,
               fp_interval_lower = pl_quantity l, fp_interval_upper = pl_quantity l,
               fp_baseline_p50 = pl_quantity l, fp_calibration_source = ''scenario:'' @ scenario_id,
               fp_warnings = []\<rparr>
      in contract (forecast_prediction_ok p) p)"

definition scenario_forecast :: "product_bundle \<Rightarrow> product_scenario \<Rightarrow> forecast_package py" where
  "scenario_forecast b s =
     ebind (emap (scenario_prediction (pn_scenario_id s)) (pn_lines s)) (\<lambda>ps.
     let f = \<lparr>fk_forecast_date = pb_forecast_date b, fk_forecast_horizon = pb_horizon b,
              fk_model_version = pb_model_version b, fk_predictions = ps, fk_warnings = pb_warnings b\<rparr>
     in contract (forecast_package_ok f) f)"

definition scenario_source_contribution :: "f64 \<Rightarrow> ingredient_source \<Rightarrow> scenario_contribution py" where
  "scenario_source_contribution multiplier src =
     (let c = \<lparr>sb_product_id = is_product_id src, sb_product_name = is_product_name src,
               sb_recipe_id = is_recipe_id src, sb_recipe_version = is_recipe_version src,
               sb_fixed_quantity = is_contribution_p50 src,
               sb_final_quantity = is_contribution_p50 src * multiplier,
               sb_unit = is_contribution_unit src\<rparr>
      in contract (scenario_contribution_ok c) c)"

definition scenario_line :: "yield_model \<Rightarrow> string \<Rightarrow> ingredient_prediction \<Rightarrow> ingredient_line py" where
  "scenario_line model scenario_id p =
     ebind (ym_multiplier model (ip_store_id p) (ip_ingredient_id p) (ip_target_date p) (ip_p50 p)) (\<lambda>m.
     ebind (emap (scenario_source_contribution m) (ip_sources p)) (\<lambda>cs.
     let l = \<lparr>il_scenario_id = scenario_id, il_store_id = ip_store_id p, il_ingredient_id = ip_ingredient_id p,
              il_ingredient_name = ip_ingredient_name p, il_target_date = ip_target_date p,
              il_quantity = ip_p50 p * m, il_unit = ip_unit p, il_yield_loss_source = ym_source model,
              il_yield_loss_multiplier = m, il_contributions = cs, il_warnings = ip_warnings p\<rparr>
     in contract (ingredient_line_ok l) l))"

definition propagate_scenario ::
    "'c pandas \<Rightarrow> product_bundle \<Rightarrow> 'c data_frame \<Rightarrow> 'c data_frame option \<Rightarrow> yield_model
      \<Rightarrow> product_scenario \<Rightarrow> ingredient_scenario py" where
  "propagate_scenario pd b recipes unit_conversions model s =
     ebind (scenario_forecast b s) (\<lambda>forecast.
     ebind (propagate_ingredient_demand pd forecast recipes unit_conversions) (\<lambda>demand.
     ebind (emap (scenario_line model (pn_scenario_id s)) (ik_predictions demand)) (\<lambda>lines.
     let r = \<lparr>in_scenario_id = pn_scenario_id s, in_weight = pn_weight s, in_lines = lines,
              in_issues = ik_issues demand,
              in_warnings = sorted_set (ik_warnings demand @ pb_warnings b),
              in_is_complete = ik_is_complete demand\<rparr>
     in contract (ingredient_scenario_ok r) r)))"

definition propagate_ingredient_demand_scenarios ::
    "'c pandas \<Rightarrow> product_bundle \<Rightarrow> 'c data_frame \<Rightarrow> 'c data_frame option \<Rightarrow> yield_model option
      \<Rightarrow> ingredient_bundle py" where
  "propagate_ingredient_demand_scenarios pd b recipes unit_conversions yield_loss_model =
     (let model = (case yield_loss_model of None \<Rightarrow> FixedRecipeYieldLossModel | Some m \<Rightarrow> m) in
      ebind (emap (propagate_scenario pd b recipes unit_conversions model) (pb_scenarios b)) (\<lambda>scenarios.
      let r = \<lparr>ib_forecast_date = pb_forecast_date b, ib_horizon = pb_horizon b,
               ib_forecast_model_version = pb_model_version b, ib_scenario_method = pb_scenario_method b,
               ib_scenarios = scenarios,
               ib_diagnostics = dict_merge (pb_diagnostics b) [(''yield_loss_source'', PStr (ym_source model))],
               ib_warnings = sorted_set (pb_warnings b @ concat (map in_warnings scenarios)),
               ib_is_complete = list_all in_is_complete scenarios\<rparr>
      in contract (ingredient_bundle_ok r) r))"

end
