(* ===== verification/Inv_Contracts.thy ===== *)
theory Inv_Contracts
  imports Bom_Engine
begin

text \<open>
  \<open>shelfcash_core/inventory/contracts.py\<close>: lots, deliveries, waste events, demand
  scenarios, the simulation policy, the traces and ledgers the simulator writes and the
  summaries and risk metrics computed from them. Each \<open>..._ok\<close> predicate is the field
  constraints and model validators of its class. Floats are finite, so \<open>allow_inf_nan\<close>
  has nothing to reject.
\<close>

section \<open>Inputs\<close>

datatype tracking_mode = TrackRequired | TrackNotRequired | TrackUnknown
datatype source_type = InitialInventory | InboundSource | PlannedInboundSource
datatype arrival_condition = ArrivalNormal | ArrivedExpiredRealization
datatype unknown_expiry_mode = RejectUnknown | WarnAndPlaceLast
datatype retention_mode = RetainFull | RetainSummary | RetainSelected

fun source_type_name :: "source_type \<Rightarrow> string" where
  "source_type_name InitialInventory = ''initial_inventory''"
| "source_type_name InboundSource = ''inbound''"
| "source_type_name PlannedInboundSource = ''planned_inbound''"

fun arrival_condition_name :: "arrival_condition \<Rightarrow> string" where
  "arrival_condition_name ArrivalNormal = ''normal''"
| "arrival_condition_name ArrivedExpiredRealization = ''arrived_expired_realization''"

fun unknown_expiry_name :: "unknown_expiry_mode \<Rightarrow> string" where
  "unknown_expiry_name RejectUnknown = ''reject''"
| "unknown_expiry_name WarnAndPlaceLast = ''warn_and_place_last''"

type_synonym inv_key = "string \<times> string"

definition opt_nonneg :: "f64 option \<Rightarrow> bool" where
  "opt_nonneg v \<longleftrightarrow> (case v of None \<Rightarrow> True | Some x \<Rightarrow> 0 \<le> x)"

lemma opt_nonneg_simps [simp]: "opt_nonneg None" "opt_nonneg (Some x) \<longleftrightarrow> 0 \<le> x"
  by (simp_all add: opt_nonneg_def)

record inventory_lot =
  lt_lot_id :: string
  lt_store_id :: string
  lt_ingredient_id :: string
  lt_quantity :: f64
  lt_unit :: string
  lt_received_date :: "date option"
  lt_expiry_date :: "date option"
  lt_tracking :: tracking_mode
  lt_unit_cost :: "f64 option"
  lt_location :: "string option"
  lt_supplier_id :: "string option"
  lt_source_type :: source_type
  lt_source_reference_id :: "string option"
  lt_provenance :: payload

definition inventory_lot_ok :: "inventory_lot \<Rightarrow> bool" where
  "inventory_lot_ok l \<longleftrightarrow>
     lt_lot_id l \<noteq> [] \<and> lt_store_id l \<noteq> [] \<and> lt_ingredient_id l \<noteq> [] \<and> 0 \<le> lt_quantity l \<and>
     lt_unit l \<noteq> [] \<and> opt_nonneg (lt_unit_cost l)"

text \<open>
  An \<open>InboundDelivery\<close>; the subclass \<open>PlannedInboundDelivery\<close> is the same record with a
  \<open>source_plan_id\<close>, so \<open>isinstance(d, PlannedInboundDelivery)\<close> is \<open>is_planned\<close>.
\<close>

record delivery =
  dl_delivery_id :: string
  dl_lot_id :: string
  dl_purchase_order_id :: string
  dl_supplier_id :: string
  dl_store_id :: string
  dl_ingredient_id :: string
  dl_quantity :: f64
  dl_unit :: string
  dl_arrival_date :: date
  dl_expiry_date :: "date option"
  dl_tracking :: tracking_mode
  dl_unit_cost :: "f64 option"
  dl_location :: "string option"
  dl_arrival_condition :: arrival_condition
  dl_provenance :: payload
  dl_source_plan_id :: "string option"

definition is_planned :: "delivery \<Rightarrow> bool" where
  "is_planned d \<longleftrightarrow> dl_source_plan_id d \<noteq> None"

definition arrived_expired :: "delivery \<Rightarrow> bool" where
  "arrived_expired d \<longleftrightarrow> (case dl_expiry_date d of None \<Rightarrow> False | Some e \<Rightarrow> e < dl_arrival_date d)"

text \<open>Python truth of a value stored in a payload.\<close>

fun py_truthy :: "pyval \<Rightarrow> bool" where
  "py_truthy PNone = False"
| "py_truthy (PBool b) = b"
| "py_truthy (PInt n) = (n \<noteq> 0)"
| "py_truthy (PNum x) = (x \<noteq> 0)"
| "py_truthy (PStr s) = (s \<noteq> [])"
| "py_truthy (PDate d) = True"
| "py_truthy (PList xs) = (xs \<noteq> [])"
| "py_truthy (PDict d) = (d \<noteq> [])"

definition delivery_ok :: "delivery \<Rightarrow> bool" where
  "delivery_ok d \<longleftrightarrow>
     dl_delivery_id d \<noteq> [] \<and> dl_lot_id d \<noteq> [] \<and> dl_purchase_order_id d \<noteq> [] \<and> dl_supplier_id d \<noteq> [] \<and>
     dl_store_id d \<noteq> [] \<and> dl_ingredient_id d \<noteq> [] \<and> 0 < dl_quantity d \<and> dl_unit d \<noteq> [] \<and>
     opt_nonneg (dl_unit_cost d) \<and> dl_source_plan_id d \<noteq> Some [] \<and>
     (arrived_expired d \<longrightarrow> dl_arrival_condition d = ArrivedExpiredRealization) \<and>
     (arrived_expired d \<longrightarrow> py_truthy (dict_get_or (dl_provenance d) ''realization_type'' PNone)) \<and>
     (dl_arrival_condition d = ArrivedExpiredRealization \<longrightarrow> arrived_expired d)"

record waste_event =
  we_event_id :: string
  we_event_date :: date
  we_store_id :: string
  we_ingredient_id :: string
  we_quantity :: f64
  we_unit :: string
  we_lot_id :: "string option"
  we_reason :: string

definition waste_event_ok :: "waste_event \<Rightarrow> bool" where
  "waste_event_ok e \<longleftrightarrow>
     we_event_id e \<noteq> [] \<and> we_store_id e \<noteq> [] \<and> we_ingredient_id e \<noteq> [] \<and> 0 < we_quantity e \<and>
     we_unit e \<noteq> [] \<and> we_reason e \<noteq> []"

record demand_line =
  ln_scenario_id :: string
  ln_store_id :: string
  ln_ingredient_id :: string
  ln_target_date :: date
  ln_quantity :: f64
  ln_unit :: string

definition demand_line_ok :: "demand_line \<Rightarrow> bool" where
  "demand_line_ok l \<longleftrightarrow>
     ln_scenario_id l \<noteq> [] \<and> ln_store_id l \<noteq> [] \<and> ln_ingredient_id l \<noteq> [] \<and> 0 \<le> ln_quantity l \<and>
     ln_unit l \<noteq> []"

record demand_scenario =
  sc_scenario_id :: string
  sc_probability_weight :: "f64 option"
  sc_start_date :: "date option"
  sc_end_date :: "date option"
  sc_lines :: "demand_line list"
  sc_provenance :: payload
  sc_warnings :: "string list"

definition line_day_key :: "demand_line \<Rightarrow> string \<times> string \<times> date" where
  "line_day_key l = (ln_store_id l, ln_ingredient_id l, ln_target_date l)"

definition demand_scenario_ok :: "demand_scenario \<Rightarrow> bool" where
  "demand_scenario_ok s \<longleftrightarrow>
     sc_scenario_id s \<noteq> [] \<and> opt_nonneg (sc_probability_weight s) \<and>
     list_all demand_line_ok (sc_lines s) \<and>
     list_all (\<lambda>l. ln_scenario_id l = sc_scenario_id s) (sc_lines s) \<and>
     distinct (map line_day_key (sc_lines s)) \<and>
     (case (sc_start_date s, sc_end_date s) of (Some a, Some b) \<Rightarrow> \<not> b < a | _ \<Rightarrow> True) \<and>
     (case sc_start_date s of None \<Rightarrow> True
      | Some a \<Rightarrow> list_all (\<lambda>l. \<not> ln_target_date l < a) (sc_lines s)) \<and>
     (case sc_end_date s of None \<Rightarrow> True
      | Some b \<Rightarrow> list_all (\<lambda>l. \<not> b < ln_target_date l) (sc_lines s))"

definition make_demand_scenario :: "demand_scenario \<Rightarrow> demand_scenario py" where
  "make_demand_scenario s = contract (demand_scenario_ok s) s"

record sim_policy =
  po_expiry_inclusive :: bool
  po_unknown_expiry :: unknown_expiry_mode
  po_tolerance :: f64
  po_at_risk_days :: int
  po_waste_threshold :: f64
  po_fill_rate_target :: f64
  po_trace_retention :: retention_mode
  po_trace_scenario_ids :: "string list"

definition default_policy :: sim_policy where
  "default_policy =
     \<lparr>po_expiry_inclusive = True, po_unknown_expiry = RejectUnknown, po_tolerance = fl (1 / 10 ^ 8),
      po_at_risk_days = 2, po_waste_threshold = 0, po_fill_rate_target = fl (95 / 100),
      po_trace_retention = RetainFull, po_trace_scenario_ids = []\<rparr>"

definition sim_policy_ok :: "sim_policy \<Rightarrow> bool" where
  "sim_policy_ok p \<longleftrightarrow>
     0 < po_tolerance p \<and> 0 \<le> po_at_risk_days p \<and> 0 \<le> po_waste_threshold p \<and>
     0 \<le> po_fill_rate_target p \<and> po_fill_rate_target p \<le> 1 \<and>
     (po_trace_retention p = RetainSelected \<longrightarrow> po_trace_scenario_ids p \<noteq> [])"

record cost_assumption =
  ca_store_id :: string
  ca_ingredient_id :: string
  ca_unit :: string
  ca_holding :: f64
  ca_shortage :: f64
  ca_expired :: f64
  ca_waste :: f64
  ca_capacity :: "f64 option"

definition cost_assumption_ok :: "cost_assumption \<Rightarrow> bool" where
  "cost_assumption_ok a \<longleftrightarrow>
     ca_store_id a \<noteq> [] \<and> ca_ingredient_id a \<noteq> [] \<and> ca_unit a \<noteq> [] \<and> 0 \<le> ca_holding a \<and>
     0 \<le> ca_shortage a \<and> 0 \<le> ca_expired a \<and> 0 \<le> ca_waste a \<and> opt_nonneg (ca_capacity a)"

section \<open>Traces and ledgers\<close>

record consumption_trace =
  ct_scenario_id :: string
  ct_date :: date
  ct_store_id :: string
  ct_ingredient_id :: string
  ct_lot_id :: string
  ct_quantity :: f64
  ct_unit :: string
  ct_lot_expiry :: "date option"

record waste_trace =
  wt_scenario_id :: string
  wt_date :: date
  wt_store_id :: string
  wt_ingredient_id :: string
  wt_lot_id :: string
  wt_event_id :: string
  wt_quantity :: f64
  wt_unit :: string

record expiry_trace =
  et_scenario_id :: string
  et_date :: date
  et_store_id :: string
  et_ingredient_id :: string
  et_lot_id :: string
  et_unit :: string
  et_expiry_date :: date
  et_quantity :: f64
  et_source_type :: source_type
  et_source_reference_id :: "string option"
  et_supplier_id :: "string option"
  et_received_date :: "date option"
  et_provenance :: payload

record fefo_result =
  fr_updated_lots :: "inventory_lot list"
  fr_fulfilled :: f64
  fr_shortage :: f64
  fr_traces :: "consumption_trace list"
  fr_warnings :: "string list"

definition fefo_result_ok :: "fefo_result \<Rightarrow> bool" where
  "fefo_result_ok r \<longleftrightarrow>
     list_all inventory_lot_ok (fr_updated_lots r) \<and> 0 \<le> fr_fulfilled r \<and> 0 \<le> fr_shortage r \<and>
     list_all (\<lambda>t. 0 < ct_quantity t) (fr_traces r)"

record daily_ledger =
  lg_scenario_id :: string
  lg_date :: date
  lg_store_id :: string
  lg_ingredient_id :: string
  lg_unit :: string
  lg_beginning :: f64
  lg_inbound :: f64
  lg_demand :: f64
  lg_fulfilled :: f64
  lg_shortage :: f64
  lg_expired :: f64
  lg_waste :: f64
  lg_ending :: f64
  lg_maximum :: f64
  lg_at_risk :: f64
  lg_capacity_violation :: f64
  lg_holding_cost :: "f64 option"
  lg_shortage_cost :: "f64 option"
  lg_expiry_cost :: "f64 option"
  lg_waste_cost :: "f64 option"

definition daily_ledger_ok :: "daily_ledger \<Rightarrow> bool" where
  "daily_ledger_ok g \<longleftrightarrow>
     0 \<le> lg_beginning g \<and> 0 \<le> lg_inbound g \<and> 0 \<le> lg_demand g \<and> 0 \<le> lg_fulfilled g \<and>
     0 \<le> lg_shortage g \<and> 0 \<le> lg_expired g \<and> 0 \<le> lg_waste g \<and> 0 \<le> lg_ending g \<and>
     0 \<le> lg_maximum g \<and> 0 \<le> lg_at_risk g \<and> 0 \<le> lg_capacity_violation g \<and>
     opt_nonneg (lg_holding_cost g) \<and> opt_nonneg (lg_shortage_cost g) \<and>
     opt_nonneg (lg_expiry_cost g) \<and> opt_nonneg (lg_waste_cost g)"

section \<open>Summaries\<close>

record key_summary =
  ks_store_id :: string
  ks_ingredient_id :: string
  ks_unit :: string
  ks_total_demand :: f64
  ks_fulfilled :: f64
  ks_shortage :: f64
  ks_expired :: f64
  ks_waste :: f64
  ks_beginning :: f64
  ks_inbound :: f64
  ks_ending :: f64
  ks_maximum :: f64
  ks_fill_rate :: f64
  ks_days_of_supply :: "f64 option"
  ks_at_risk :: f64
  ks_stockout_date :: "date option"
  ks_stockout_events :: nat
  ks_capacity_violation :: "f64 option"
  ks_holding_cost :: "f64 option"
  ks_shortage_cost :: "f64 option"
  ks_expiry_cost :: "f64 option"
  ks_waste_cost :: "f64 option"
  ks_total_cost :: "f64 option"

definition key_summary_ok :: "key_summary \<Rightarrow> bool" where
  "key_summary_ok s \<longleftrightarrow>
     0 \<le> ks_total_demand s \<and> 0 \<le> ks_fulfilled s \<and> 0 \<le> ks_shortage s \<and> 0 \<le> ks_expired s \<and>
     0 \<le> ks_waste s \<and> 0 \<le> ks_beginning s \<and> 0 \<le> ks_inbound s \<and> 0 \<le> ks_ending s \<and>
     0 \<le> ks_maximum s \<and> 0 \<le> ks_fill_rate s \<and> ks_fill_rate s \<le> 1 \<and>
     opt_nonneg (ks_days_of_supply s) \<and> 0 \<le> ks_at_risk s \<and> opt_nonneg (ks_capacity_violation s) \<and>
     opt_nonneg (ks_holding_cost s) \<and> opt_nonneg (ks_shortage_cost s) \<and>
     opt_nonneg (ks_expiry_cost s) \<and> opt_nonneg (ks_waste_cost s) \<and> opt_nonneg (ks_total_cost s)"

record sim_summary =
  sm_by_key :: "key_summary list"
  sm_key_count :: nat
  sm_stockout_events :: nat
  sm_stockout_keys :: nat
  sm_mean_fill_rate :: f64
  sm_capacity_violations :: "nat option"
  sm_total_demand :: "f64 option"
  sm_total_fulfilled :: "f64 option"
  sm_total_shortage :: "f64 option"
  sm_total_expired :: "f64 option"
  sm_total_waste :: "f64 option"
  sm_ending_inventory :: "f64 option"
  sm_maximum_inventory :: "f64 option"
  sm_at_risk :: "f64 option"
  sm_fill_rate :: "f64 option"
  sm_capacity_violation_quantity :: "f64 option"
  sm_days_of_supply :: "f64 option"
  sm_consequence_cost :: "f64 option"

definition opt_unit :: "f64 option \<Rightarrow> bool" where
  "opt_unit v \<longleftrightarrow> (case v of None \<Rightarrow> True | Some x \<Rightarrow> 0 \<le> x \<and> x \<le> 1)"

definition sim_summary_ok :: "sim_summary \<Rightarrow> bool" where
  "sim_summary_ok s \<longleftrightarrow>
     list_all key_summary_ok (sm_by_key s) \<and> 1 \<le> sm_key_count s \<and>
     0 \<le> sm_mean_fill_rate s \<and> sm_mean_fill_rate s \<le> 1 \<and>
     opt_nonneg (sm_total_demand s) \<and> opt_nonneg (sm_total_fulfilled s) \<and> opt_nonneg (sm_total_shortage s) \<and>
     opt_nonneg (sm_total_expired s) \<and> opt_nonneg (sm_total_waste s) \<and> opt_nonneg (sm_ending_inventory s) \<and>
     opt_nonneg (sm_maximum_inventory s) \<and> opt_nonneg (sm_at_risk s) \<and> opt_unit (sm_fill_rate s) \<and>
     opt_nonneg (sm_capacity_violation_quantity s) \<and> opt_nonneg (sm_days_of_supply s) \<and>
     opt_nonneg (sm_consequence_cost s)"

record sim_result =
  sr_scenario_id :: string
  sr_probability_weight :: "f64 option"
  sr_start_date :: date
  sr_end_date :: date
  sr_ledgers :: "daily_ledger list"
  sr_consumption_traces :: "consumption_trace list"
  sr_waste_traces :: "waste_trace list"
  sr_expiry_traces :: "expiry_trace list"
  sr_ending_lots :: "inventory_lot list"
  sr_stockout_dates :: "date list"
  sr_summary :: sim_summary
  sr_accounting_valid :: bool
  sr_provenance :: payload
  sr_warnings :: "string list"

end
