(* ===== verification/Fefo.thy ===== *)
theory Fefo
  imports Inv_Contracts
begin

text \<open>
  \<open>shelfcash_core/inventory/fefo.py\<close> (first-expired-first-out consumption of lots) and
  \<open>accounting.py\<close> (the ledger identity checked after every day). The consumption loop is
  refined to the greedy allocation \<open>allocate\<close>, on which the FEFO discipline is proved.
\<close>

section \<open>The code\<close>

definition unknown_expiry :: "inventory_lot \<Rightarrow> bool" where
  "unknown_expiry l \<longleftrightarrow> lt_tracking l \<noteq> TrackNotRequired \<and> lt_expiry_date l = None"

definition unknown_expiry_error :: "inventory_lot \<Rightarrow> core_error" where
  "unknown_expiry_error l = exn UnknownExpiryError [(''lot_id'', PStr (lt_lot_id l))]"

definition is_expired :: "inventory_lot \<Rightarrow> date \<Rightarrow> sim_policy \<Rightarrow> bool py" where
  "is_expired l simulation_date policy =
     (if lt_tracking l = TrackNotRequired then Inr False
      else case lt_expiry_date l of
        None \<Rightarrow> if po_unknown_expiry policy = RejectUnknown then Inl (unknown_expiry_error l) else Inr False
      | Some e \<Rightarrow> if po_expiry_inclusive policy then Inr (e < simulation_date) else Inr (e \<le> simulation_date))"

type_synonym fefo_key = "date \<times> bool \<times> date \<times> string"

definition fefo_sort_key :: "inventory_lot \<Rightarrow> fefo_key" where
  "fefo_sort_key l =
     (let received = (case lt_received_date l of None \<Rightarrow> date_max | Some d \<Rightarrow> d) in
      if lt_tracking l = TrackNotRequired then
        (date_min, lt_received_date l = None, received, lt_lot_id l)
      else
        (case lt_expiry_date l of None \<Rightarrow> date_max | Some e \<Rightarrow> e,
         lt_received_date l = None, received, lt_lot_id l))"

record fefo_state =
  fs_remaining :: f64
  fs_updated :: "inventory_lot list"
  fs_traces :: "consumption_trace list"
  fs_warnings :: "string list"

definition consumption :: "string \<Rightarrow> date \<Rightarrow> inventory_lot \<Rightarrow> f64 \<Rightarrow> consumption_trace" where
  "consumption scenario_id simulation_date l consumed =
     \<lparr>ct_scenario_id = scenario_id, ct_date = simulation_date, ct_store_id = lt_store_id l,
      ct_ingredient_id = lt_ingredient_id l, ct_lot_id = lt_lot_id l, ct_quantity = consumed,
      ct_unit = lt_unit l, ct_lot_expiry = lt_expiry_date l\<rparr>"

text \<open>One iteration of the loop over the sorted lots.\<close>

definition fefo_step ::
    "string \<Rightarrow> date \<Rightarrow> sim_policy \<Rightarrow> fefo_state \<Rightarrow> inventory_lot \<Rightarrow> fefo_state py" where
  "fefo_step scenario_id simulation_date policy st l =
     ebind (if unknown_expiry l then
              if po_unknown_expiry policy = RejectUnknown then Inl (unknown_expiry_error l)
              else Inr (add_code ''UNKNOWN_EXPIRY_PLACED_LAST'' (fs_warnings st))
            else Inr (fs_warnings st)) (\<lambda>warnings.
     ebind (is_expired l simulation_date policy) (\<lambda>expired.
     if expired then Inr (st\<lparr>fs_updated := fs_updated st @ [l], fs_warnings := warnings\<rparr>)
     else
       (let consumed = min (lt_quantity l) (fs_remaining st);
            new_quantity = lt_quantity l - consumed in
        Inr \<lparr>fs_remaining = (if 0 < consumed then fs_remaining st - consumed else fs_remaining st),
             fs_updated = fs_updated st @ [l\<lparr>lt_quantity := new_quantity\<rparr>],
             fs_traces = fs_traces st @
               (if 0 < consumed then [consumption scenario_id simulation_date l consumed] else []),
             fs_warnings = warnings\<rparr>)))"

definition consume_fefo ::
    "inventory_lot list \<Rightarrow> f64 \<Rightarrow> string \<Rightarrow> date \<Rightarrow> sim_policy \<Rightarrow> fefo_result py" where
  "consume_fefo lots demand_quantity scenario_id simulation_date policy =
     ebind (efold (fefo_step scenario_id simulation_date policy)
              \<lparr>fs_remaining = demand_quantity, fs_updated = [], fs_traces = [], fs_warnings = []\<rparr>
              (sort_key fefo_sort_key lots)) (\<lambda>st.
     let r = \<lparr>fr_updated_lots = fs_updated st, fr_fulfilled = demand_quantity - fs_remaining st,
              fr_shortage = fs_remaining st, fr_traces = fs_traces st,
              fr_warnings = sort (fs_warnings st)\<rparr> in
     contract (fefo_result_ok r) r)"

text \<open>\<open>validate_accounting_ledger\<close>; the ledger dump in the details is not modelled.\<close>

definition ledger_expected :: "daily_ledger \<Rightarrow> f64" where
  "ledger_expected g = lg_beginning g + lg_inbound g - lg_fulfilled g - lg_expired g - lg_waste g"

definition validate_accounting_ledger :: "daily_ledger \<Rightarrow> f64 \<Rightarrow> unit py" where
  "validate_accounting_ledger g tolerance =
     raise_if (\<not> isclose (ledger_expected g) (lg_ending g) tolerance tolerance)
       (exn InventoryAccountingError
         [(''scenario_id'', PStr (lg_scenario_id g)), (''simulation_date'', PDate (lg_date g)),
          (''store_id'', PStr (lg_store_id g)), (''ingredient_id'', PStr (lg_ingredient_id g)),
          (''expected_ending'', PNum (ledger_expected g)), (''actual_ending'', PNum (lg_ending g))])"

section \<open>The greedy allocation\<close>

text \<open>
  The abstract behaviour: lots in order, each with a flag (may it be used?) and a quantity;
  the result is what is left in each lot and the demand nobody could serve.
\<close>

fun allocate :: "f64 \<Rightarrow> (bool \<times> f64) list \<Rightarrow> f64 list \<times> f64" where
  "allocate d [] = ([], d)"
| "allocate d ((usable, q) # xs) =
     (if usable then let c = min q d; (ns, r) = allocate (d - c) xs in ((q - c) # ns, r)
      else let (ns, r) = allocate d xs in (q # ns, r))"

lemma f64_min_diff_nonneg: "0 \<le> q \<Longrightarrow> 0 \<le> d \<Longrightarrow> 0 \<le> q - min q d \<and> 0 \<le> d - min q (d :: f64)"
  by (auto simp: min_def intro: f64_diff_nonneg)

lemma allocate_length [simp]: "length (fst (allocate d xs)) = length xs"
  by (induction d xs rule: allocate.induct) (auto simp: Let_def case_prod_unfold)

lemma allocate_bounds:
  assumes "0 \<le> d" "\<forall>x \<in> set xs. 0 \<le> snd x"
  shows "0 \<le> snd (allocate d xs) \<and> snd (allocate d xs) \<le> d \<and>
    list_all2 (\<lambda>x n. 0 \<le> n \<and> n \<le> snd x \<and> (\<not> fst x \<longrightarrow> n = snd x)) xs (fst (allocate d xs))"
  using assms
proof (induction d xs rule: allocate.induct)
  case (1 d)
  then show ?case by simp
next
  case (2 d usable q xs)
  show ?case
  proof (cases usable)
    case False
    with 2 show ?thesis by (auto simp: case_prod_unfold Let_def)
  next
    case True
    have q: "0 \<le> q" "0 \<le> min q d" using "2.prems" by auto
    have dm: "0 \<le> d - min q d" "0 \<le> q - min q d" using f64_min_diff_nonneg [OF q(1) "2.prems"(1)] by auto
    note IH = "2.IH"(1) [OF True refl dm(1)]
    have "d - min q d \<le> d" "q - min q d \<le> q" using q(2) by (auto intro: f64_diff_le)
    with IH dm "2.prems" True show ?thesis by (auto simp: case_prod_unfold Let_def intro: order_trans)
  qed
qed




section \<open>The loop computes the greedy allocation\<close>

definition flagged :: "date \<Rightarrow> sim_policy \<Rightarrow> inventory_lot \<Rightarrow> bool \<times> f64" where
  "flagged simulation_date policy l = (is_expired l simulation_date policy = Inr False, lt_quantity l)"

definition set_quantities :: "inventory_lot list \<Rightarrow> f64 list \<Rightarrow> inventory_lot list" where
  "set_quantities ls ns = map2 (\<lambda>l n. l\<lparr>lt_quantity := n\<rparr>) ls ns"

fun fefo_traces :: "string \<Rightarrow> date \<Rightarrow> sim_policy \<Rightarrow> f64 \<Rightarrow> inventory_lot list \<Rightarrow> consumption_trace list" where
  "fefo_traces s dt p d [] = []"
| "fefo_traces s dt p d (l # ls) =
     (if is_expired l dt p = Inr False then
        let c = min (lt_quantity l) d in
        (if 0 < c then [consumption s dt l c] else []) @ fefo_traces s dt p (d - c) ls
      else fefo_traces s dt p d ls)"

definition expiry_known :: "sim_policy \<Rightarrow> inventory_lot \<Rightarrow> bool" where
  "expiry_known p l \<longleftrightarrow> \<not> (unknown_expiry l \<and> po_unknown_expiry p = RejectUnknown)"

lemma is_expired_ok: "expiry_known p l \<longleftrightarrow> (\<exists>b. is_expired l dt p = Inr b)"
  by (auto simp: expiry_known_def unknown_expiry_def is_expired_def split: option.splits)

lemma is_expired_Inl: "is_expired l dt p = Inl e \<Longrightarrow> e = unknown_expiry_error l"
  by (auto simp: is_expired_def split: option.splits if_splits)

lemma fefo_step_cases:
  assumes "0 \<le> fs_remaining st" "0 \<le> lt_quantity l"
  shows "fefo_step s dt p st l =
    (if \<not> expiry_known p l then Inl (unknown_expiry_error l)
     else let w = (if unknown_expiry l then add_code ''UNKNOWN_EXPIRY_PLACED_LAST'' (fs_warnings st) else fs_warnings st)
       in if is_expired l dt p = Inr False then
         let c = min (lt_quantity l) (fs_remaining st) in
         Inr \<lparr>fs_remaining = fs_remaining st - c,
              fs_updated = fs_updated st @ [l\<lparr>lt_quantity := lt_quantity l - c\<rparr>],
              fs_traces = fs_traces st @ (if 0 < c then [consumption s dt l c] else []), fs_warnings = w\<rparr>
       else Inr (st\<lparr>fs_updated := fs_updated st @ [l], fs_warnings := w\<rparr>))"
proof (cases "expiry_known p l")
  case False
  then show ?thesis by (simp add: fefo_step_def expiry_known_def)
next
  case True
  then obtain b where b: "is_expired l dt p = Inr b" using is_expired_ok [of p l dt] by auto
  have "min (lt_quantity l) (fs_remaining st) = 0" if "\<not> 0 < min (lt_quantity l) (fs_remaining st)"
    using that assms by (auto simp: min_def split: if_splits)
  then show ?thesis using True b
    by (auto simp: fefo_step_def expiry_known_def Let_def)
qed

lemma fefo_fold_refines:
  assumes "\<forall>l \<in> set ls. 0 \<le> lt_quantity l" "0 \<le> fs_remaining st"
    and "efold (fefo_step s dt p) st ls = Inr st'"
  shows "fs_remaining st' = snd (allocate (fs_remaining st) (map (flagged dt p) ls)) \<and>
    fs_updated st' = fs_updated st @
      set_quantities ls (fst (allocate (fs_remaining st) (map (flagged dt p) ls))) \<and>
    fs_traces st' = fs_traces st @ fefo_traces s dt p (fs_remaining st) ls"
  using assms
proof (induction ls arbitrary: st)
  case Nil
  then show ?case by (simp add: set_quantities_def)
next
  case (Cons l ls)
  from Cons.prems(3) obtain st1 where s1: "fefo_step s dt p st l = Inr st1"
    and s2: "efold (fefo_step s dt p) st1 ls = Inr st'" by (auto simp: ebind_Inr_iff)
  have l: "0 \<le> lt_quantity l" and ls: "\<forall>l \<in> set ls. 0 \<le> lt_quantity l" using Cons.prems(1) by auto
  let ?c = "min (lt_quantity l) (fs_remaining st)"
  have rem: "0 \<le> fs_remaining st - ?c" using f64_min_diff_nonneg [OF l Cons.prems(2)] by simp
  have step: "if is_expired l dt p = Inr False then
         fs_remaining st1 = fs_remaining st - ?c \<and>
         fs_updated st1 = fs_updated st @ [l\<lparr>lt_quantity := lt_quantity l - ?c\<rparr>] \<and>
         fs_traces st1 = fs_traces st @ (if 0 < ?c then [consumption s dt l ?c] else [])
       else fs_remaining st1 = fs_remaining st \<and> fs_updated st1 = fs_updated st @ [l] \<and>
         fs_traces st1 = fs_traces st"
    using s1 fefo_step_cases [OF Cons.prems(2) l, of s dt p] by (auto simp: Let_def split: if_splits)
  then have "0 \<le> fs_remaining st1" using rem Cons.prems(2) by (auto split: if_splits)
  note IH = Cons.IH [OF ls this s2]
  show ?case
    using step IH by (auto simp: flagged_def [of _ _ l] set_quantities_def Let_def case_prod_unfold split: if_splits)
qed

lemma fefo_fold_ok:
  assumes "\<forall>l \<in> set ls. expiry_known p l"
  shows "\<exists>st'. efold (fefo_step s dt p) st ls = Inr st'"
  using assms
proof (induction ls arbitrary: st)
  case Nil
  then show ?case by simp
next
  case (Cons l ls)
  then obtain b where "is_expired l dt p = Inr b" using is_expired_ok [of p l dt] by auto
  then have "\<exists>st1. fefo_step s dt p st l = Inr st1"
    using Cons.prems by (auto simp: fefo_step_def expiry_known_def Let_def)
  then obtain st1 where s1: "fefo_step s dt p st l = Inr st1" by blast
  have "\<forall>l \<in> set ls. expiry_known p l" using Cons.prems by simp
  from Cons.IH [OF this, of st1] s1 show ?case by simp
qed

lemma fefo_fold_Inl:
  "efold (fefo_step s dt p) st ls = Inl e \<Longrightarrow> \<exists>l \<in> set ls. \<not> expiry_known p l \<and> e = unknown_expiry_error l"
proof (induction ls arbitrary: st)
  case Nil
  then show ?case by simp
next
  case (Cons l ls)
  show ?case
  proof (cases "fefo_step s dt p st l")
    case (Inl e')
    then have "\<not> expiry_known p l \<and> e' = unknown_expiry_error l"
      using is_expired_ok [of p l dt] is_expired_Inl [of l dt p]
      by (auto simp: fefo_step_def ebind_Inl_iff expiry_known_def Let_def split: if_splits)
    with Inl Cons.prems show ?thesis by auto
  next
    case (Inr st1)
    with Cons.prems have "efold (fefo_step s dt p) st1 ls = Inl e" by simp
    from Cons.IH [OF this] show ?thesis by auto
  qed
qed

lemma set_quantities_nth:
  "i < length ls \<Longrightarrow> length ns = length ls \<Longrightarrow> set_quantities ls ns ! i = (ls ! i)\<lparr>lt_quantity := ns ! i\<rparr>"
  by (simp add: set_quantities_def)

lemma set_quantities_length [simp]: "length ns = length ls \<Longrightarrow> length (set_quantities ls ns) = length ls"
  by (simp add: set_quantities_def)

lemma fefo_traces_pos: "t \<in> set (fefo_traces s dt p d ls) \<Longrightarrow> 0 < ct_quantity t"
  by (induction s dt p d ls rule: fefo_traces.induct)
    (auto simp: Let_def consumption_def split: if_splits)

text \<open>The result of a successful call, over the sorted lots.\<close>

definition fefo_spec :: "inventory_lot list \<Rightarrow> f64 \<Rightarrow> string \<Rightarrow> date \<Rightarrow> sim_policy \<Rightarrow> fefo_result \<Rightarrow> bool" where
  "fefo_spec lots d s dt p r \<longleftrightarrow>
     (let srt = sort_key fefo_sort_key lots; (ns, short) = allocate d (map (flagged dt p) srt) in
      fr_updated_lots r = set_quantities srt ns \<and> fr_shortage r = short \<and> fr_fulfilled r = d - short \<and>
      fr_traces r = fefo_traces s dt p d srt)"

definition good_lots :: "inventory_lot list \<Rightarrow> bool" where
  "good_lots ls \<longleftrightarrow> (\<forall>l \<in> set ls. inventory_lot_ok l)"

lemma good_lots_quantities: "good_lots ls \<Longrightarrow> \<forall>l \<in> set ls. 0 \<le> lt_quantity l"
  by (auto simp: good_lots_def inventory_lot_ok_def)

lemma set_quantities_ok:
  assumes "good_lots ls" "length ns = length ls" "\<forall>n \<in> set ns. 0 \<le> n"
  shows "good_lots (set_quantities ls ns)"
  using assms by (auto simp: good_lots_def set_quantities_def inventory_lot_ok_def dest: set_zip_leftD set_zip_rightD)

lemma allocate_nonneg:
  assumes "0 \<le> d" "\<forall>x \<in> set xs. 0 \<le> snd x"
  shows "\<forall>n \<in> set (fst (allocate d xs)). 0 \<le> n"
  using allocate_bounds [OF assms] by (force simp: list_all2_conv_all_nth in_set_conv_nth)

lemma consume_fefo_cases:
  assumes "good_lots lots" "0 \<le> d"
  shows "(case consume_fefo lots d s dt p of
      Inr r \<Rightarrow> fefo_spec lots d s dt p r \<and> good_lots (fr_updated_lots r)
    | Inl e \<Rightarrow> \<exists>l \<in> set lots. \<not> expiry_known p l \<and> e = unknown_expiry_error l)"
proof -
  let ?srt = "sort_key fefo_sort_key lots"
  let ?st0 = "\<lparr>fs_remaining = d, fs_updated = [], fs_traces = [], fs_warnings = []\<rparr>"
  let ?al = "allocate d (map (flagged dt p) ?srt)"
  have nn: "\<forall>l \<in> set ?srt. 0 \<le> lt_quantity l" using good_lots_quantities [OF assms(1)] by simp
  then have nn': "\<forall>x \<in> set (map (flagged dt p) ?srt). 0 \<le> snd x" by (auto simp: flagged_def)
  show ?thesis
  proof (cases "efold (fefo_step s dt p) ?st0 ?srt")
    case (Inl e)
    from fefo_fold_Inl [OF Inl] Inl show ?thesis by (simp add: consume_fefo_def)
  next
    case (Inr st')
    note f = fefo_fold_refines [OF nn _ Inr]
    have b: "0 \<le> snd ?al" "snd ?al \<le> d" using allocate_bounds [OF assms(2) nn'] by auto
    have ok: "good_lots (set_quantities ?srt (fst ?al))"
      by (rule set_quantities_ok) (use assms(1) allocate_nonneg [OF assms(2) nn'] in \<open>auto simp: good_lots_def\<close>)
    from f assms(2) have st: "fs_remaining st' = snd ?al" "fs_updated st' = set_quantities ?srt (fst ?al)"
      "fs_traces st' = fefo_traces s dt p d ?srt" by auto
    have "fefo_result_ok \<lparr>fr_updated_lots = fs_updated st', fr_fulfilled = d - fs_remaining st',
              fr_shortage = fs_remaining st', fr_traces = fs_traces st', fr_warnings = sort (fs_warnings st')\<rparr>"
      using b ok by (auto simp: fefo_result_ok_def st list_all_iff good_lots_def intro: f64_diff_nonneg fefo_traces_pos)
    then show ?thesis
      using Inr ok by (simp add: consume_fefo_def Let_def st fefo_spec_def case_prod_unfold)
  qed
qed

text \<open>C30: \<open>consume_fefo\<close> implements the greedy allocation and fails for one reason only. On valid lots
  and a non-negative demand it returns the allocation over the lots in FEFO order (its own
  contract never rejects), unless some lot has no expiry date while unknown expiry is
  rejected: then it raises \<open>UnknownExpiryError\<close> naming such a lot.\<close>

theorem consume_fefo_refines:
  assumes "good_lots lots" "0 \<le> d"
  shows "(case consume_fefo lots d s dt p of
      Inr r \<Rightarrow> fefo_spec lots d s dt p r \<and> good_lots (fr_updated_lots r)
    | Inl e \<Rightarrow> \<exists>l \<in> set lots. \<not> expiry_known p l \<and> e = unknown_expiry_error l)"
  by (rule consume_fefo_cases [OF assms])

section \<open>First expired, first out\<close>

text \<open>A lot the loop may take from.\<close>

definition usable :: "date \<Rightarrow> sim_policy \<Rightarrow> inventory_lot \<Rightarrow> bool" where
  "usable dt p l \<longleftrightarrow> is_expired l dt p = Inr False"

lemma flagged_sel [simp]: "fst (flagged dt p l) = usable dt p l" "snd (flagged dt p l) = lt_quantity l"
  by (simp_all add: flagged_def usable_def)



section \<open>Conservation in whole units\<close>

text \<open>A float that is a whole number small enough to be exact.\<close>

definition whole :: "f64 \<Rightarrow> bool" where
  "whole x \<longleftrightarrow> (\<exists>n. 0 \<le> n \<and> exact_int n \<and> x = fint n)"

lemma whole_fint: "0 \<le> n \<Longrightarrow> exact_int n \<Longrightarrow> whole (fint n)"
  by (auto simp: whole_def)

lemma whole_nonneg: "whole x \<Longrightarrow> 0 \<le> x"
  by (auto simp: whole_def fint_nonneg)

lemma whole_0 [simp]: "whole 0"
  by (auto simp: whole_def exact_int_def intro!: exI [of _ 0])

lemma whole_diff:
  assumes "whole x" "whole y" "y \<le> x"
  shows "whole (x - y) \<and> rat_of (x - y) = rat_of x - rat_of y"
proof -
  obtain a b where ab: "0 \<le> a" "exact_int a" "x = fint a" "0 \<le> b" "exact_int b" "y = fint b"
    using assms by (auto simp: whole_def)
  have "b \<le> a" using assms(3) ab by (simp add: fint_arith)
  then have e: "exact_int (a - b)" using ab by (auto simp: exact_int_def)
  have d: "x - y = fint (a - b)" using ab e by (simp add: fint_arith)
  have "whole (fint (a - b))" using e \<open>b \<le> a\<close> by (intro whole_fint) simp_all
  then show ?thesis using d e ab by simp
qed

lemma whole_min: "whole x \<Longrightarrow> whole y \<Longrightarrow> whole (min x y)"
  by (simp add: min_def)

lemma rat_of_0 [simp]: "rat_of 0 = 0"
  by (simp add: zero_f64.rep_eq)

abbreviation rat_total :: "f64 list \<Rightarrow> rat" where
  "rat_total xs \<equiv> sum_list (map rat_of xs)"

lemma allocate_whole:
  assumes "whole d" "\<forall>x \<in> set xs. whole (snd x)"
  shows "whole (snd (allocate d xs)) \<and> (\<forall>n \<in> set (fst (allocate d xs)). whole n) \<and>
    rat_total (fst (allocate d xs)) + rat_of d = rat_total (map snd xs) + rat_of (snd (allocate d xs))"
  using assms
proof (induction d xs rule: allocate.induct)
  case (1 d)
  then show ?case by simp
next
  case (2 d u q xs)
  show ?case
  proof (cases u)
    case False
    from "2.IH"(2) [OF False "2.prems"(1)] "2.prems"(2) False show ?thesis
      by (simp add: case_prod_unfold Let_def)
  next
    case True
    have q: "whole q" "whole d" using "2.prems" by auto
    have m: "whole (min q d)" using q by (rule whole_min)
    have d1: "whole (d - min q d)" "rat_of (d - min q d) = rat_of d - rat_of (min q d)"
      using whole_diff [OF q(2) m] by auto
    have q1: "whole (q - min q d)" "rat_of (q - min q d) = rat_of q - rat_of (min q d)"
      using whole_diff [OF q(1) m] by auto
    from "2.IH"(1) [OF True refl d1(1)] "2.prems"(2) d1 q1 True show ?thesis
      by (auto simp: case_prod_unfold Let_def)
  qed
qed

lemma fefo_traces_total:
  assumes "whole d" "\<forall>l \<in> set ls. whole (lt_quantity l)"
  shows "sum_list (map (\<lambda>t. rat_of (ct_quantity t)) (fefo_traces s dt p d ls)) +
    rat_of (snd (allocate d (map (flagged dt p) ls))) = rat_of d"
  using assms
proof (induction ls arbitrary: d)
  case Nil
  then show ?case by simp
next
  case (Cons l ls)
  show ?case
  proof (cases "is_expired l dt p = Inr False")
    case False
    with Cons show ?thesis by (simp add: usable_def flagged_def case_prod_unfold Let_def)
  next
    case True
    have m: "whole (min (lt_quantity l) d)" using Cons.prems by (intro whole_min) auto
    have d1: "whole (d - min (lt_quantity l) d)"
      "rat_of (d - min (lt_quantity l) d) = rat_of d - rat_of (min (lt_quantity l) d)"
      using whole_diff [OF Cons.prems(1) m] by auto
    have z: "rat_of (min (lt_quantity l) d) = 0" if "\<not> 0 < min (lt_quantity l) d"
      using that whole_nonneg [OF m] by (simp add: f64_cmp f64_rep)
    from Cons.IH [OF d1(1)] Cons.prems(2) d1(2) True z show ?thesis
      by (simp add: usable_def flagged_def consumption_def case_prod_unfold Let_def)
  qed
qed

lemma whole_rat: "whole x \<Longrightarrow> 0 \<le> rat_of x \<and> rat_of x \<le> 2 ^ 53"
  by (auto simp: whole_def exact_int_def)

lemma whole_add:
  assumes "whole x" "whole y" "rat_of x + rat_of y \<le> 2 ^ 53"
  shows "whole (x + y)" "rat_of (x + y) = rat_of x + rat_of y"
proof -
  obtain a b where ab: "0 \<le> a" "exact_int a" "x = fint a" "0 \<le> b" "exact_int b" "y = fint b"
    using assms(1,2) by (auto simp: whole_def)
  have "of_int (a + b) \<le> (of_int (2 ^ 53) :: rat)" using assms(3) ab by simp
  then have "a + b \<le> 2 ^ 53" by (simp only: of_int_le_iff)
  then have e: "exact_int (a + b)" using ab by (simp add: exact_int_def)
  have s: "x + y = fint (a + b)" using ab e by (simp add: fint_arith)
  show "whole (x + y)" unfolding s by (rule whole_fint) (use ab e in simp_all)
  show "rat_of (x + y) = rat_of x + rat_of y" unfolding s using ab e by simp
qed

lemma whole_list_fint:
  "\<forall>x \<in> set xs. whole x \<Longrightarrow> \<exists>ns. xs = map fint ns \<and> (\<forall>n \<in> set ns. 0 \<le> n) \<and> rat_total xs = of_int (sum_list ns)"
proof (induction xs)
  case Nil
  then show ?case by (intro exI [of _ "[]"]) simp
next
  case (Cons x xs)
  then obtain ns where ns: "xs = map fint ns" "\<forall>n \<in> set ns. 0 \<le> n" "rat_total xs = of_int (sum_list ns)" by auto
  from Cons.prems obtain n where "0 \<le> n" "exact_int n" "x = fint n" by (auto simp: whole_def)
  with ns show ?case by (intro exI [of _ "n # ns"]) auto
qed

lemma whole_py_sum:
  assumes "\<forall>x \<in> set xs. whole x" "rat_total xs \<le> 2 ^ 53"
  shows "whole (py_sum xs)" "rat_of (py_sum xs) = rat_total xs"
proof -
  obtain ns where ns: "xs = map fint ns" "\<forall>n \<in> set ns. 0 \<le> n" "rat_total xs = of_int (sum_list ns)"
    using whole_list_fint [OF assms(1)] by blast
  have "of_int (sum_list ns) \<le> (of_int (2 ^ 53) :: rat)" using assms(2) ns(3) by simp
  then have "sum_list ns \<le> 2 ^ 53" by (simp only: of_int_le_iff)
  moreover have "0 \<le> sum_list ns" using ns(2) by (simp add: sum_list_nonneg)
  ultimately have e: "exact_int (sum_list ns)" by (simp add: exact_int_def)
  have s: "py_sum xs = fint (sum_list ns)" using py_sum_fint [OF ns(2) e] ns(1) by simp
  show "whole (py_sum xs)" unfolding s by (rule whole_fint [OF \<open>0 \<le> sum_list ns\<close> e])
  show "rat_of (py_sum xs) = rat_total xs" unfolding s ns(3) using e by simp
qed

lemma rat_total_nonneg: "\<forall>x \<in> set xs. whole x \<Longrightarrow> 0 \<le> rat_total xs"
  by (induction xs) (auto dest: whole_rat)

lemma whole_running_sum:
  assumes "\<forall>x \<in> set xs. whole x" "whole a" "rat_of a + rat_total xs \<le> 2 ^ 53"
  shows "whole (fold (\<lambda>x acc. acc + x) xs a) \<and> rat_of (fold (\<lambda>x acc. acc + x) xs a) = rat_of a + rat_total xs"
  using assms
proof (induction xs arbitrary: a)
  case (Cons x xs)
  have x: "whole x" "0 \<le> rat_total xs" using Cons.prems rat_total_nonneg [of xs] by auto
  have le: "rat_of a + rat_of x \<le> 2 ^ 53" using Cons.prems(3) x(2) by simp
  note a = whole_add [OF Cons.prems(2) x(1) le]
  from Cons.IH [OF _ a(1)] Cons.prems a(2) show ?case by (simp add: add.assoc)
qed simp

abbreviation lots_total :: "inventory_lot list \<Rightarrow> rat" where
  "lots_total ls \<equiv> rat_total (map lt_quantity ls)"

definition whole_lots :: "inventory_lot list \<Rightarrow> bool" where
  "whole_lots ls \<longleftrightarrow> good_lots ls \<and> (\<forall>l \<in> set ls. whole (lt_quantity l))"

lemma whole_lots_simps [simp]:
  "whole_lots []" "whole_lots (l # ls) \<longleftrightarrow> inventory_lot_ok l \<and> whole (lt_quantity l) \<and> whole_lots ls"
  "whole_lots (xs @ ys) \<longleftrightarrow> whole_lots xs \<and> whole_lots ys"
  by (auto simp: whole_lots_def good_lots_def)

lemma whole_lots_filter: "whole_lots ls \<Longrightarrow> whole_lots (filter P ls)"
  by (auto simp: whole_lots_def good_lots_def)

lemma lots_total_filter: "lots_total ls = lots_total (filter P ls) + lots_total (filter (\<lambda>l. \<not> P l) ls)"
  by (induction ls) simp_all

lemma whole_lots_total: "whole_lots ls \<Longrightarrow> 0 \<le> lots_total ls"
  by (rule rat_total_nonneg) (simp add: whole_lots_def)

lemma consume_fefo_whole:
  assumes "whole_lots ls" "whole d" "consume_fefo ls d s dt p = Inr r"
  shows "whole_lots (fr_updated_lots r)" "whole (fr_fulfilled r)" "whole (fr_shortage r)"
    "lots_total (fr_updated_lots r) + rat_of (fr_fulfilled r) = lots_total ls"
    "rat_of (fr_fulfilled r) + rat_of (fr_shortage r) = rat_of d"
    "rat_total (map ct_quantity (fr_traces r)) = rat_of (fr_fulfilled r)"
proof -
  let ?srt = "sort_key fefo_sort_key ls"
  let ?xs = "map (flagged dt p) ?srt"
  have g: "good_lots ls" "\<forall>l \<in> set ls. whole (lt_quantity l)" using assms(1) by (auto simp: whole_lots_def)
  have sp: "fefo_spec ls d s dt p r" "good_lots (fr_updated_lots r)"
    using consume_fefo_cases [OF g(1) whole_nonneg [OF assms(2)], where s = s and dt = dt and p = p] assms(3) by auto
  then have r: "fr_updated_lots r = set_quantities ?srt (fst (allocate d ?xs))"
    "fr_shortage r = snd (allocate d ?xs)" "fr_fulfilled r = d - snd (allocate d ?xs)"
    "fr_traces r = fefo_traces s dt p d ?srt"
    by (auto simp: fefo_spec_def case_prod_unfold Let_def)
  have w: "\<forall>x \<in> set ?xs. whole (snd x)" "\<forall>l \<in> set ?srt. whole (lt_quantity l)" using g(2) by auto
  note a = allocate_whole [OF assms(2) w(1)]
  have "snd (allocate d ?xs) \<le> d"
    using allocate_bounds [OF whole_nonneg [OF assms(2)], of ?xs] w(1) whole_nonneg by blast
  then have f: "whole (d - snd (allocate d ?xs))" "rat_of (d - snd (allocate d ?xs)) = rat_of d - rat_of (snd (allocate d ?xs))"
    using whole_diff [OF assms(2)] a by auto
  show "whole (fr_fulfilled r)" "whole (fr_shortage r)" using a f by (auto simp: r)
  show "rat_of (fr_fulfilled r) + rat_of (fr_shortage r) = rat_of d" using f by (simp add: r)
  show "rat_total (map ct_quantity (fr_traces r)) = rat_of (fr_fulfilled r)"
    using fefo_traces_total [OF assms(2) w(2), of s dt p] f by (simp add: r comp_def)
  have q: "map lt_quantity (fr_updated_lots r) = fst (allocate d ?xs)"
    by (simp add: r(1) list_eq_iff_nth_eq set_quantities_nth)
  then have "\<forall>l \<in> set (fr_updated_lots r). whole (lt_quantity l)" using a by (metis list.set_map image_eqI)
  with sp(2) show "whole_lots (fr_updated_lots r)" by (simp add: whole_lots_def)
  have "lots_total ?srt = lots_total ls"
  proof -
    have "mset (map (rat_of \<circ> lt_quantity) ?srt) = mset (map (rat_of \<circ> lt_quantity) ls)" by simp
    then have "sum_list (map (rat_of \<circ> lt_quantity) ?srt) = sum_list (map (rat_of \<circ> lt_quantity) ls)"
      by (metis sum_mset_sum_list)
    then show ?thesis by (simp add: comp_def)
  qed
  then show "lots_total (fr_updated_lots r) + rat_of (fr_fulfilled r) = lots_total ls"
    using a f(2) q r(3) by (simp add: comp_def)
qed

text \<open>Conservation of stock. When the demand and all quantities are whole units, nothing is created
  or lost: what the lots held equals what is left in them plus what was fulfilled, demand
  splits exactly into fulfilled and shortage, and the traces account for every unit
  fulfilled.\<close>

theorem fefo_conserves:
  assumes "good_lots lots" "whole d" "\<forall>l \<in> set lots. whole (lt_quantity l)"
    and "consume_fefo lots d s dt p = Inr r"
  shows "lots_total (fr_updated_lots r) + rat_of (fr_fulfilled r) = lots_total lots \<and>
    rat_of (fr_fulfilled r) + rat_of (fr_shortage r) = rat_of d \<and>
    rat_total (map ct_quantity (fr_traces r)) = rat_of (fr_fulfilled r)"
proof -
  have w: "whole_lots lots" using assms(1,3) by (simp add: whole_lots_def)
  note c = consume_fefo_whole [OF w assms(2) assms(4)]
  show ?thesis using c by (simp add: comp_def)
qed

section \<open>Accounting\<close>

lemma ledger_validated:
  "validate_accounting_ledger g tol = Inr () \<longleftrightarrow> isclose (ledger_expected g) (lg_ending g) tol tol"
  by (simp add: validate_accounting_ledger_def)

section \<open>Concrete runs\<close>

definition flour :: "string \<Rightarrow> int \<Rightarrow> date option \<Rightarrow> inventory_lot" where
  "flour lot n expiry =
     \<lparr>lt_lot_id = lot, lt_store_id = ''s1'', lt_ingredient_id = ''flour'', lt_quantity = fint n,
      lt_unit = ''kg'', lt_received_date = None, lt_expiry_date = expiry, lt_tracking = TrackRequired,
      lt_unit_cost = None, lt_location = None, lt_supplier_id = None, lt_source_type = InitialInventory,
      lt_source_reference_id = None, lt_provenance = []\<rparr>"

definition flour_lots :: "inventory_lot list" where
  "flour_lots = [flour ''late'' 5 (Some 30), flour ''early'' 3 (Some 20), flour ''gone'' 4 (Some 9)]"

lemma flour_lots_good: "good_lots flour_lots" "\<forall>l \<in> set flour_lots. whole (lt_quantity l)"
  by (auto simp: flour_lots_def good_lots_def inventory_lot_ok_def flour_def fint_eval whole_def
      intro: exI [of _ 5] exI [of _ 3] exI [of _ 4])

lemma flour_run:
  "\<exists>r. consume_fefo flour_lots (fint 4) ''sc'' 10 default_policy = Inr r"
  using consume_fefo_cases [OF flour_lots_good(1), of "fint 4" default_policy "''sc''" 10]
  by (auto simp: fint_nonneg flour_lots_def flour_def expiry_known_def unknown_expiry_def split: sum.splits)

theorem consume_fefo_refines_witness:
  "case consume_fefo flour_lots (fint 4) ''sc'' 10 default_policy of
      Inr r \<Rightarrow> fefo_spec flour_lots (fint 4) ''sc'' 10 default_policy r
    | Inl e \<Rightarrow> False"
  using consume_fefo_refines [OF flour_lots_good(1), of "fint 4" default_policy "''sc''" 10]
  by (auto simp: fint_nonneg flour_lots_def flour_def expiry_known_def unknown_expiry_def split: sum.splits)


theorem fefo_conserves_witness:
  "\<exists>r. consume_fefo flour_lots (fint 4) ''sc'' 10 default_policy = Inr r \<and>
     rat_total (map lt_quantity (fr_updated_lots r)) + rat_of (fr_fulfilled r) = 12"
proof -
  obtain r where r: "consume_fefo flour_lots (fint 4) ''sc'' 10 default_policy = Inr r"
    using flour_run by blast
  have "whole (fint 4)" by (simp add: whole_fint exact_int_def)
  from fefo_conserves [OF flour_lots_good(1) this flour_lots_good(2) r] r show ?thesis
    by (auto simp: flour_lots_def flour_def exact_int_def)
qed

end
