(* ===== verification/Inv_Adapters.thy ===== *)
theory Inv_Adapters
  imports Fefo Scenarios
begin

text \<open>
  \<open>shelfcash_core/inventory/adapters.py\<close>: demand scenarios built from a quantile package or
  from a scenario bundle, and the normalisation of lots, deliveries, waste events and cost
  assumptions to one unit per store and ingredient.
\<close>

section \<open>Demand scenarios\<close>

text \<open>The issue list of the error details is reduced to the codes.\<close>

definition quantile_scenario ::
    "ingredient_package \<Rightarrow> string \<Rightarrow> string \<Rightarrow> (ingredient_prediction \<Rightarrow> f64) \<Rightarrow> demand_scenario py" where
  "quantile_scenario package scenario_id field_name quantile =
     make_demand_scenario
       \<lparr>sc_scenario_id = scenario_id, sc_probability_weight = None,
        sc_start_date = Some (ik_forecast_date package + 1),
        sc_end_date = Some (ik_forecast_date package + ik_forecast_horizon package),
        sc_lines = map (\<lambda>p. \<lparr>ln_scenario_id = scenario_id, ln_store_id = ip_store_id p,
            ln_ingredient_id = ip_ingredient_id p, ln_target_date = ip_target_date p,
            ln_quantity = quantile p, ln_unit = ip_unit p\<rparr>) (ik_predictions package),
        sc_provenance =
          [(''source'', PStr ''IngredientDemandPackage''), (''quantile_field'', PStr field_name),
           (''forecast_model_version'', PStr (ik_forecast_model_version package)),
           (''quantile_is_probability'', PBool False)],
        sc_warnings = ik_warnings package\<rparr>"

definition quantile_inventory_scenarios :: "ingredient_package \<Rightarrow> bool \<Rightarrow> demand_scenario list py" where
  "quantile_inventory_scenarios package allow_incomplete =
     (if \<not> ik_is_complete package \<and> \<not> allow_incomplete then
        Inl (exn_code InventoryValidationError ''INCOMPLETE_INGREDIENT_DEMAND''
          [(''issues'', PList (map (\<lambda>i. PStr (bi_code i)) (ik_issues package)))])
      else emap (\<lambda>(scenario_id, field_name, q). quantile_scenario package scenario_id field_name q)
        [(''LOW_P25'', ''p25'', ip_p25), (''MEDIAN_P50'', ''p50'', ip_p50), (''HIGH_P75'', ''p75'', ip_p75)])"

definition advanced_scenario :: "ingredient_bundle \<Rightarrow> ingredient_scenario \<Rightarrow> demand_scenario py" where
  "advanced_scenario bundle s =
     make_demand_scenario
       \<lparr>sc_scenario_id = in_scenario_id s, sc_probability_weight = Some (in_weight s),
        sc_start_date = Some (ib_forecast_date bundle + 1),
        sc_end_date = Some (ib_forecast_date bundle + ib_horizon bundle),
        sc_lines = map (\<lambda>l. \<lparr>ln_scenario_id = in_scenario_id s, ln_store_id = il_store_id l,
            ln_ingredient_id = il_ingredient_id l, ln_target_date = il_target_date l,
            ln_quantity = il_quantity l, ln_unit = il_unit l\<rparr>) (in_lines s),
        sc_provenance =
          [(''source'', PStr ''IngredientDemandScenarioBundle''),
           (''scenario_method'', PStr (ib_scenario_method bundle)),
           (''forecast_model_version'', PStr (ib_forecast_model_version bundle))],
        sc_warnings = sorted_set (ib_warnings bundle @ in_warnings s)\<rparr>"

definition advanced_inventory_scenarios :: "ingredient_bundle \<Rightarrow> bool \<Rightarrow> demand_scenario list py" where
  "advanced_inventory_scenarios bundle allow_incomplete =
     (if \<not> ib_is_complete bundle \<and> \<not> allow_incomplete then
        Inl (exn_code InventoryValidationError ''INCOMPLETE_INGREDIENT_DEMAND'' [])
      else emap (advanced_scenario bundle) (ib_scenarios bundle))"

section \<open>Units\<close>

type_synonym key_units = "(inv_key, string) dict"

definition unit_converter_from_frame :: "'c pandas \<Rightarrow> 'c data_frame option \<Rightarrow> unit_converter py" where
  "unit_converter_from_frame pd unit_conversions =
     ebind (adapt_unit_conversions pd unit_conversions) make_unit_converter"

text \<open>Python compares strings, so \<open>sorted({existing, unit})\<close> is the sorted pair.\<close>

definition unit_conflict :: "inv_key \<Rightarrow> string \<Rightarrow> string \<Rightarrow> core_error" where
  "unit_conflict key existing unit =
     exn_code InventoryValidationError ''INVALID_INVENTORY_UNIT''
       [(''key'', PPair key), (''units'', PList (map PStr (sorted_set [existing, unit])))]"

definition set_key_unit :: "key_units \<Rightarrow> inv_key \<Rightarrow> string \<Rightarrow> key_units py" where
  "set_key_unit units key unit =
     (case dict_get units key of
        Some existing \<Rightarrow> if existing \<noteq> unit then Inl (unit_conflict key existing unit)
                         else Inr (dict_set key unit units)
      | None \<Rightarrow> Inr (dict_set key unit units))"

definition demand_target_units :: "demand_scenario \<Rightarrow> key_units py" where
  "demand_target_units scenario =
     efold (\<lambda>units l. ebind (normalize_unit (ln_unit l)) (\<lambda>unit.
         set_key_unit units (ln_store_id l, ln_ingredient_id l) unit))
       [] (sc_lines scenario)"

text \<open>\<open>dict.get(key, default)\<close> evaluates its default first, also when the key is there.\<close>

definition destination_unit ::
    "string \<Rightarrow> string \<Rightarrow> string \<Rightarrow> key_units \<Rightarrow> unit_converter \<Rightarrow> string py" where
  "destination_unit store_id ingredient_id source_unit target_units converter =
     ebind (canonical_unit converter ingredient_id source_unit) (\<lambda>canonical.
     Inr (dict_get_or target_units (store_id, ingredient_id) canonical))"

definition normalize_lot :: "key_units \<Rightarrow> unit_converter \<Rightarrow> inventory_lot \<Rightarrow> inventory_lot py" where
  "normalize_lot target_units converter l =
     ebind (destination_unit (lt_store_id l) (lt_ingredient_id l) (lt_unit l) target_units converter) (\<lambda>destination.
     ebind (conversion_factor converter (lt_ingredient_id l) (lt_unit l) destination) (\<lambda>factor.
     ebind (py_div_opt (lt_unit_cost l) factor) (\<lambda>cost.
     Inr (l\<lparr>lt_quantity := lt_quantity l * factor, lt_unit := destination, lt_unit_cost := cost\<rparr>))))"

definition normalize_lots :: "inventory_lot list \<Rightarrow> key_units \<Rightarrow> unit_converter \<Rightarrow> inventory_lot list py" where
  "normalize_lots lots target_units converter = emap (normalize_lot target_units converter) lots"

definition normalize_delivery :: "key_units \<Rightarrow> unit_converter \<Rightarrow> delivery \<Rightarrow> delivery py" where
  "normalize_delivery target_units converter d =
     ebind (destination_unit (dl_store_id d) (dl_ingredient_id d) (dl_unit d) target_units converter) (\<lambda>destination.
     ebind (conversion_factor converter (dl_ingredient_id d) (dl_unit d) destination) (\<lambda>factor.
     ebind (py_div_opt (dl_unit_cost d) factor) (\<lambda>cost.
     Inr (d\<lparr>dl_quantity := dl_quantity d * factor, dl_unit := destination, dl_unit_cost := cost\<rparr>))))"

definition normalize_inbound :: "delivery list \<Rightarrow> key_units \<Rightarrow> unit_converter \<Rightarrow> delivery list py" where
  "normalize_inbound deliveries target_units converter =
     emap (normalize_delivery target_units converter) deliveries"

definition normalize_waste_event :: "key_units \<Rightarrow> unit_converter \<Rightarrow> waste_event \<Rightarrow> waste_event py" where
  "normalize_waste_event target_units converter e =
     ebind (destination_unit (we_store_id e) (we_ingredient_id e) (we_unit e) target_units converter) (\<lambda>destination.
     ebind (convert_unit converter (we_quantity e) (we_unit e) destination (we_ingredient_id e)) (\<lambda>quantity.
     Inr (e\<lparr>we_quantity := quantity, we_unit := destination\<rparr>)))"

definition normalize_waste_events :: "waste_event list \<Rightarrow> key_units \<Rightarrow> unit_converter \<Rightarrow> waste_event list py" where
  "normalize_waste_events events target_units converter =
     emap (normalize_waste_event target_units converter) events"

definition normalize_cost_assumption :: "key_units \<Rightarrow> unit_converter \<Rightarrow> cost_assumption \<Rightarrow> cost_assumption py" where
  "normalize_cost_assumption target_units converter a =
     ebind (destination_unit (ca_store_id a) (ca_ingredient_id a) (ca_unit a) target_units converter) (\<lambda>destination.
     ebind (conversion_factor converter (ca_ingredient_id a) (ca_unit a) destination) (\<lambda>factor.
     ebind (py_div (ca_holding a) factor) (\<lambda>holding.
     ebind (py_div (ca_shortage a) factor) (\<lambda>shortage.
     ebind (py_div (ca_expired a) factor) (\<lambda>expired.
     ebind (py_div (ca_waste a) factor) (\<lambda>waste.
     Inr (a\<lparr>ca_unit := destination, ca_holding := holding, ca_shortage := shortage,
             ca_expired := expired, ca_waste := waste,
             ca_capacity := map_option (\<lambda>q. q * factor) (ca_capacity a)\<rparr>)))))))"

definition normalize_cost_assumptions ::
    "cost_assumption list \<Rightarrow> key_units \<Rightarrow> unit_converter \<Rightarrow> cost_assumption list py" where
  "normalize_cost_assumptions assumptions target_units converter =
     emap (normalize_cost_assumption target_units converter) assumptions"

section \<open>Facts on the adapters\<close>

text \<open>The quantile scenarios are ordered line by line.\<close>

definition same_lines :: "demand_scenario \<Rightarrow> demand_scenario \<Rightarrow> bool" where
  "same_lines a b \<longleftrightarrow>
     list_all2 (\<lambda>x y. line_day_key x = line_day_key y \<and> ln_unit x = ln_unit y \<and> ln_quantity x \<le> ln_quantity y)
       (sc_lines a) (sc_lines b)"

definition quantile_lines ::
    "ingredient_package \<Rightarrow> string \<Rightarrow> (ingredient_prediction \<Rightarrow> f64) \<Rightarrow> demand_line list" where
  "quantile_lines package scenario_id q =
     map (\<lambda>p. \<lparr>ln_scenario_id = scenario_id, ln_store_id = ip_store_id p,
            ln_ingredient_id = ip_ingredient_id p, ln_target_date = ip_target_date p,
            ln_quantity = q p, ln_unit = ip_unit p\<rparr>) (ik_predictions package)"

definition in_window :: "date \<Rightarrow> date \<Rightarrow> demand_scenario \<Rightarrow> bool" where
  "in_window a b s \<longleftrightarrow> sc_start_date s = Some a \<and> sc_end_date s = Some b \<and> (\<forall>l \<in> set (sc_lines s). a \<le> ln_target_date l \<and> ln_target_date l \<le> b)"

lemma demand_scenario_window:
  "demand_scenario_ok s \<Longrightarrow> sc_start_date s = Some a \<Longrightarrow> sc_end_date s = Some b \<Longrightarrow> in_window a b s"
  by (simp add: demand_scenario_ok_def in_window_def list_all_iff not_less)

lemma quantile_scenario_Inr:
  assumes "quantile_scenario package sid fn q = Inr s"
  shows "demand_scenario_ok s" "sc_scenario_id s = sid" "sc_probability_weight s = None"
    "sc_lines s = quantile_lines package sid q"
    "in_window (ik_forecast_date package + 1) (ik_forecast_date package + ik_forecast_horizon package) s"
  using assms
  by (auto simp: quantile_scenario_def make_demand_scenario_def quantile_lines_def
      intro!: demand_scenario_window)

lemma quantile_lines_ordered:
  assumes "\<forall>p \<in> set (ik_predictions package). q p \<le> q' p"
    and "sc_lines a = quantile_lines package x q" "sc_lines b = quantile_lines package y q'"
  shows "same_lines a b"
  using assms by (simp add: same_lines_def quantile_lines_def list_all2_conv_all_nth line_day_key_def)

lemma quantile_scenarios_facts:
  assumes "\<forall>p \<in> set (ik_predictions package). ip_p25 p \<le> ip_p50 p \<and> ip_p50 p \<le> ip_p75 p"
    and "quantile_inventory_scenarios package allow_incomplete = Inr scenarios"
  shows "(\<exists>low median high. scenarios = [low, median, high] \<and>
      sc_scenario_id low = ''LOW_P25'' \<and> sc_scenario_id median = ''MEDIAN_P50'' \<and>
      sc_scenario_id high = ''HIGH_P75'' \<and> same_lines low median \<and> same_lines median high) \<and>
    (\<forall>s \<in> set scenarios. demand_scenario_ok s \<and> sc_probability_weight s = None \<and>
      in_window (ik_forecast_date package + 1) (ik_forecast_date package + ik_forecast_horizon package) s) \<and>
    (ik_is_complete package \<or> allow_incomplete)"
proof -
  have c: "ik_is_complete package \<or> allow_incomplete"
    using assms(2) by (auto simp: quantile_inventory_scenarios_def split: if_splits)
  then have "emap (\<lambda>(scenario_id, field_name, q). quantile_scenario package scenario_id field_name q)
      [(''LOW_P25'', ''p25'', ip_p25), (''MEDIAN_P50'', ''p50'', ip_p50), (''HIGH_P75'', ''p75'', ip_p75)] = Inr scenarios"
    using assms(2) by (auto simp: quantile_inventory_scenarios_def split: if_splits)
  then obtain l m h where s: "scenarios = [l, m, h]"
    and l: "quantile_scenario package ''LOW_P25'' ''p25'' ip_p25 = Inr l"
    and m: "quantile_scenario package ''MEDIAN_P50'' ''p50'' ip_p50 = Inr m"
    and h: "quantile_scenario package ''HIGH_P75'' ''p75'' ip_p75 = Inr h"
    by (auto simp: ebind_Inr_iff)
  note q = quantile_scenario_Inr [OF l] quantile_scenario_Inr [OF m] quantile_scenario_Inr [OF h]
  have "same_lines l m" by (rule quantile_lines_ordered [OF _ q(4) q(9)]) (use assms(1) in simp)
  moreover have "same_lines m h" by (rule quantile_lines_ordered [OF _ q(9) q(14)]) (use assms(1) in simp)
  ultimately show ?thesis using q c s by simp
qed

text \<open>The three quantile scenarios are one demand at three levels. They come in the order low,
  median, high, over the same stores, ingredients, dates and units, with quantities ordered
  line by line, in the window of the forecast horizon; an incomplete package is refused
  unless the caller allows it.\<close>

theorem quantile_scenarios_ordered:
  assumes "\<forall>p \<in> set (ik_predictions package). ip_p25 p \<le> ip_p50 p \<and> ip_p50 p \<le> ip_p75 p"
    and "quantile_inventory_scenarios package allow_incomplete = Inr scenarios"
  shows "(\<exists>low median high. scenarios = [low, median, high] \<and>
      sc_scenario_id low = ''LOW_P25'' \<and> sc_scenario_id median = ''MEDIAN_P50'' \<and>
      sc_scenario_id high = ''HIGH_P75'' \<and> same_lines low median \<and> same_lines median high) \<and>
    (\<forall>s \<in> set scenarios. demand_scenario_ok s \<and> sc_probability_weight s = None \<and>
      in_window (ik_forecast_date package + 1) (ik_forecast_date package + ik_forecast_horizon package) s) \<and>
    (ik_is_complete package \<or> allow_incomplete)"
  by (rule quantile_scenarios_facts [OF assms])

text \<open>A package with one line, for concrete runs.\<close>

definition flour_package :: ingredient_package where
  "flour_package =
     \<lparr>ik_forecast_date = 9, ik_forecast_horizon = 2, ik_forecast_model_version = ''m1'',
      ik_predictions = [\<lparr>ip_store_id = ''s1'', ip_ingredient_id = ''flour'', ip_ingredient_name = None,
        ip_target_date = 10, ip_p25 = fint 2, ip_p50 = fint 4, ip_p75 = fint 6, ip_unit = ''kg'',
        ip_sources = [], ip_warnings = []\<rparr>],
      ik_issues = [], ik_warnings = [], ik_is_complete = True\<rparr>"

theorem quantile_scenarios_ordered_witness:
  "\<exists>low median high. quantile_inventory_scenarios flour_package False = Inr [low, median, high] \<and>
     same_lines low median \<and> same_lines median high"
proof -
  have "\<exists>ss. quantile_inventory_scenarios flour_package False = Inr ss"
    by (simp add: quantile_inventory_scenarios_def quantile_scenario_def make_demand_scenario_def
        flour_package_def demand_scenario_ok_def demand_line_ok_def contract_def fint_eval)
  then obtain ss where ss: "quantile_inventory_scenarios flour_package False = Inr ss" by blast
  have "\<forall>p \<in> set (ik_predictions flour_package). ip_p25 p \<le> ip_p50 p \<and> ip_p50 p \<le> ip_p75 p"
    by (simp add: flour_package_def fint_eval)
  from quantile_scenarios_ordered [OF this ss] ss show ?thesis by fastforce
qed

end
