(* ===== verification/Metrics.thy ===== *)
theory Metrics
  imports Inv_Adapters
begin

text \<open>
  \<open>shelfcash_core/inventory/metrics.py\<close> with the risk contracts of \<open>inventory/contracts.py\<close>:
  the per-key summary of one simulated scenario and the probability-weighted risk metrics
  over many. The reductions of numpy (\<open>sum\<close>, \<open>mean\<close>, \<open>dot\<close>, \<open>cumsum\<close>, \<open>argsort\<close>,
  \<open>searchsorted\<close>) are the parameter \<open>numpy\<close>; elementwise operations are maps. A division by
  a zero weight sum gives NaN, which the contract that receives it rejects.
\<close>

section \<open>numpy\<close>

record numpy =
  np_sum :: "f64 list \<Rightarrow> f64"
  np_mean :: "f64 list \<Rightarrow> f64"
  np_dot :: "f64 list \<Rightarrow> f64 list \<Rightarrow> f64"
  np_cumsum :: "f64 list \<Rightarrow> f64 list"
  np_argsort :: "f64 list \<Rightarrow> nat list"
  np_searchsorted :: "f64 list \<Rightarrow> f64 \<Rightarrow> nat"

text \<open>
  What the documentation of numpy promises and the code relies on: \<open>argsort\<close> permutes the
  indices into increasing order, \<open>cumsum\<close> of non-negative weights increases, \<open>searchsorted\<close>
  with \<open>side='left'\<close> finds the insertion point in an increasing array, and reductions of
  non-negative terms are non-negative.
\<close>

definition numpy_ok :: "numpy \<Rightarrow> bool" where
  "numpy_ok np \<longleftrightarrow>
     (\<forall>xs. mset (np_argsort np xs) = mset [0..<length xs] \<and> sorted (map ((!) xs) (np_argsort np xs))) \<and>
     (\<forall>ws. length (np_cumsum np ws) = length ws \<and>
        ((\<forall>w \<in> set ws. 0 \<le> w) \<longrightarrow> sorted (np_cumsum np ws))) \<and>
     (\<forall>xs v. sorted xs \<longrightarrow> np_searchsorted np xs v = length (takeWhile (\<lambda>x. x < v) xs)) \<and>
     (\<forall>xs. (\<forall>x \<in> set xs. 0 \<le> x) \<longrightarrow> 0 \<le> np_sum np xs \<and> 0 \<le> np_mean np xs) \<and>
     (\<forall>xs ws. (\<forall>x \<in> set xs. 0 \<le> x) \<longrightarrow> (\<forall>w \<in> set ws. 0 \<le> w) \<longrightarrow> 0 \<le> np_dot np xs ws)"

text \<open>A plain implementation with these laws, for concrete runs.\<close>

fun prefix_sums :: "f64 \<Rightarrow> f64 list \<Rightarrow> f64 list" where
  "prefix_sums acc [] = []"
| "prefix_sums acc (w # ws) = (acc + w) # prefix_sums (acc + w) ws"

definition plain_numpy :: numpy where
  "plain_numpy =
     \<lparr>np_sum = running_sum,
      np_mean = (\<lambda>xs. running_sum xs / fint (int (length xs))),
      np_dot = (\<lambda>xs ws. running_sum (map2 (*) xs ws)),
      np_cumsum = prefix_sums 0,
      np_argsort = (\<lambda>xs. sort_key ((!) xs) [0..<length xs]),
      np_searchsorted = (\<lambda>xs v. length (takeWhile (\<lambda>x. x < v) xs))\<rparr>"

text \<open>\<open>weights[mask]\<close>.\<close>

definition np_mask :: "f64 list \<Rightarrow> bool list \<Rightarrow> f64 list" where
  "np_mask ws bs = map fst (filter snd (zip ws bs))"

section \<open>The summary of one scenario\<close>

definition unit_interval :: "f64 \<Rightarrow> f64" where
  "unit_interval value = min 1 (max 0 value)"

definition all_some :: "'a option list \<Rightarrow> bool" where
  "all_some xs \<longleftrightarrow> None \<notin> set xs"

definition somes :: "'a option list \<Rightarrow> 'a list" where
  "somes xs = List.map_filter (\<lambda>x. x) xs"

definition sum_optional :: "f64 option list \<Rightarrow> f64 option" where
  "sum_optional xs = (if all_some xs then Some (py_sum (somes xs)) else None)"

type_synonym metric_key = "string \<times> string \<times> string"

definition ledger_key :: "daily_ledger \<Rightarrow> metric_key" where
  "ledger_key g = (lg_store_id g, lg_ingredient_id g, lg_unit g)"

definition lot_metric_key :: "inventory_lot \<Rightarrow> metric_key" where
  "lot_metric_key l = (lt_store_id l, lt_ingredient_id l, lt_unit l)"

definition ending_quantity :: "inventory_lot list \<Rightarrow> metric_key \<Rightarrow> f64" where
  "ending_quantity ending_lots key =
     running_sum (map lt_quantity (filter (\<lambda>l. lot_metric_key l = key) ending_lots))"

text \<open>\<open>max(...)\<close> of a non-empty list.\<close>

definition py_max :: "'a::linorder list \<Rightarrow> 'a" where
  "py_max xs = list_max (hd xs) (tl xs)"

definition py_min :: "'a::linorder list \<Rightarrow> 'a" where
  "py_min xs = list_min (hd xs) (tl xs)"

definition summarize_key ::
    "inv_key list \<Rightarrow> inventory_lot list \<Rightarrow> metric_key \<Rightarrow> daily_ledger list \<Rightarrow> key_summary py" where
  "summarize_key capacity_evaluated_keys ending_lots key group_ledgers =
     (case key of (store_id, ingredient_id, unit) \<Rightarrow>
      (let ls = sort_key lg_date group_ledgers;
           total_demand = py_sum (map lg_demand ls);
           fulfilled = py_sum (map lg_fulfilled ls);
           ending_inventory = ending_quantity ending_lots key;
           day_count = length (remdups (map lg_date ls)) in
       ebind (py_div total_demand (fint (int day_count))) (\<lambda>mean_daily_demand.
       ebind (if total_demand \<noteq> 0 then ebind (py_div fulfilled total_demand) (\<lambda>q. Inr (unit_interval q))
              else Inr 1) (\<lambda>fill_rate.
       ebind (if 0 < mean_daily_demand then py_div_opt (Some ending_inventory) mean_daily_demand else Inr None)
        (\<lambda>days_of_supply.
       let stockout_dates = map lg_date (filter (\<lambda>g. 0 < lg_shortage g) ls);
           capacity_evaluated = ((store_id, ingredient_id) \<in> set capacity_evaluated_keys);
           holding_cost = sum_optional (map lg_holding_cost ls);
           shortage_cost = sum_optional (map lg_shortage_cost ls);
           expiry_cost = sum_optional (map lg_expiry_cost ls);
           waste_cost = sum_optional (map lg_waste_cost ls);
           total_cost = sum_optional [holding_cost, shortage_cost, expiry_cost, waste_cost];
           s = \<lparr>ks_store_id = store_id, ks_ingredient_id = ingredient_id, ks_unit = unit,
                ks_total_demand = total_demand, ks_fulfilled = fulfilled,
                ks_shortage = py_sum (map lg_shortage ls), ks_expired = py_sum (map lg_expired ls),
                ks_waste = py_sum (map lg_waste ls), ks_beginning = lg_beginning (hd ls),
                ks_inbound = py_sum (map lg_inbound ls), ks_ending = ending_inventory,
                ks_maximum = py_max (map lg_maximum ls), ks_fill_rate = fill_rate,
                ks_days_of_supply = days_of_supply, ks_at_risk = py_max (map lg_at_risk ls),
                ks_stockout_date = (if stockout_dates = [] then None else Some (py_min stockout_dates)),
                ks_stockout_events = length stockout_dates,
                ks_capacity_violation =
                  (if capacity_evaluated then Some (py_max (map lg_capacity_violation ls)) else None),
                ks_holding_cost = holding_cost, ks_shortage_cost = shortage_cost,
                ks_expiry_cost = expiry_cost, ks_waste_cost = waste_cost, ks_total_cost = total_cost\<rparr>
       in contract (key_summary_ok s) s)))))"

definition summary_of_keys :: "numpy \<Rightarrow> key_summary list \<Rightarrow> sim_summary py" where
  "summary_of_keys np by_key =
     (let single = (case by_key of [s] \<Rightarrow> Some s | _ \<Rightarrow> None);
          of_single = (\<lambda>f. map_option f single);
          opt_of_single = (\<lambda>f. Option.bind single f);
          s = \<lparr>sm_by_key = by_key, sm_key_count = length by_key,
               sm_stockout_events = sum_list (map ks_stockout_events by_key),
               sm_stockout_keys = length (filter (\<lambda>k. 0 < ks_stockout_events k) by_key),
               sm_mean_fill_rate = unit_interval (np_mean np (map ks_fill_rate by_key)),
               sm_capacity_violations =
                 (if all_some (map ks_capacity_violation by_key)
                  then Some (length (filter (\<lambda>k. case ks_capacity_violation k of None \<Rightarrow> False | Some q \<Rightarrow> 0 < q) by_key))
                  else None),
               sm_total_demand = of_single ks_total_demand, sm_total_fulfilled = of_single ks_fulfilled,
               sm_total_shortage = of_single ks_shortage, sm_total_expired = of_single ks_expired,
               sm_total_waste = of_single ks_waste, sm_ending_inventory = of_single ks_ending,
               sm_maximum_inventory = of_single ks_maximum, sm_at_risk = of_single ks_at_risk,
               sm_fill_rate = of_single ks_fill_rate,
               sm_capacity_violation_quantity = opt_of_single ks_capacity_violation,
               sm_days_of_supply = opt_of_single ks_days_of_supply,
               sm_consequence_cost = sum_optional (map ks_total_cost by_key)\<rparr>
      in contract (sim_summary_ok s) s)"

definition summarize_simulation ::
    "numpy \<Rightarrow> daily_ledger list \<Rightarrow> inventory_lot list \<Rightarrow> inv_key list \<Rightarrow> sim_summary py" where
  "summarize_simulation np ledgers ending_lots capacity_evaluated_keys =
     (let grouped = group_by ledger_key ledgers in
      ebind (emap (\<lambda>(key, group_ledgers). summarize_key capacity_evaluated_keys ending_lots key group_ledgers)
               (sort_key fst grouped)) (\<lambda>by_key.
      ebind (raise_if (by_key = []) value_error) (\<lambda>_.
      summary_of_keys np by_key)))"

section \<open>Weighted statistics\<close>

definition weighted_quantile :: "numpy \<Rightarrow> f64 list \<Rightarrow> f64 list \<Rightarrow> f64 \<Rightarrow> f64" where
  "weighted_quantile np values weights quantile =
     (let order = np_argsort np values;
          ordered_values = map ((!) values) order;
          cumulative = np_cumsum np (map ((!) weights) order);
          index = min (np_searchsorted np cumulative quantile) (length values - 1)
      in ordered_values ! index)"

text \<open>The loop of \<open>weighted_cvar\<close>, with its early exit.\<close>

fun cvar_loop :: "f64 list \<Rightarrow> f64 list \<Rightarrow> nat list \<Rightarrow> f64 \<Rightarrow> f64 \<Rightarrow> f64" where
  "cvar_loop values weights [] remaining acc = acc"
| "cvar_loop values weights (index # order) remaining acc =
     (let used = min (weights ! index) remaining;
          acc' = acc + values ! index * used;
          remaining' = remaining - used in
      if remaining' \<le> fl (1 / 10 ^ 12) then acc'
      else cvar_loop values weights order remaining' acc')"

definition weighted_cvar :: "numpy \<Rightarrow> f64 list \<Rightarrow> f64 list \<Rightarrow> f64 \<Rightarrow> f64 py" where
  "weighted_cvar np values weights alpha =
     (let tail_mass = 1 - alpha in
      py_div (cvar_loop values weights (rev (np_argsort np values)) tail_mass 0) tail_mass)"

definition normalized_weights :: "numpy \<Rightarrow> sim_result list \<Rightarrow> f64 list py" where
  "normalized_weights np results =
     (let raw = map sr_probability_weight results in
      ebind (raise_if (\<not> all_some raw) value_error) (\<lambda>_.
      let values = somes raw; total = np_sum np values in
      if total = 0 then Inl value_error else Inr (map (\<lambda>v. v / total) values)))"

section \<open>Risk metrics per key\<close>

record key_risk =
  kr_store_id :: string
  kr_ingredient_id :: string
  kr_unit :: string
  kr_stockout_probability :: f64
  kr_expected_shortage :: f64
  kr_p50_shortage :: f64
  kr_p95_shortage :: f64
  kr_expected_expired :: f64
  kr_expected_waste :: f64
  kr_waste_exceedance :: f64
  kr_expected_fill_rate :: f64
  kr_fill_below_target :: f64
  kr_expected_ending :: f64
  kr_p50_ending :: f64
  kr_p95_ending :: f64
  kr_expected_maximum :: f64
  kr_p50_maximum :: f64
  kr_p95_maximum :: f64
  kr_expected_at_risk :: f64
  kr_p50_at_risk :: f64
  kr_p95_at_risk :: f64
  kr_capacity_probability :: "f64 option"
  kr_expected_days :: "f64 option"
  kr_p50_days :: "f64 option"
  kr_p95_days :: "f64 option"
  kr_stockout_distribution :: "(date, f64) dict"
  kr_expected_cost :: "f64 option"
  kr_p95_cost :: "f64 option"
  kr_cvar95_cost :: "f64 option"

definition in_unit :: "f64 \<Rightarrow> bool" where
  "in_unit x \<longleftrightarrow> 0 \<le> x \<and> x \<le> 1"

definition key_risk_ok :: "key_risk \<Rightarrow> bool" where
  "key_risk_ok r \<longleftrightarrow>
     in_unit (kr_stockout_probability r) \<and> 0 \<le> kr_expected_shortage r \<and> 0 \<le> kr_p50_shortage r \<and>
     0 \<le> kr_p95_shortage r \<and> 0 \<le> kr_expected_expired r \<and> 0 \<le> kr_expected_waste r \<and>
     in_unit (kr_waste_exceedance r) \<and> in_unit (kr_expected_fill_rate r) \<and> in_unit (kr_fill_below_target r) \<and>
     0 \<le> kr_expected_ending r \<and> 0 \<le> kr_p50_ending r \<and> 0 \<le> kr_p95_ending r \<and>
     0 \<le> kr_expected_maximum r \<and> 0 \<le> kr_p50_maximum r \<and> 0 \<le> kr_p95_maximum r \<and>
     0 \<le> kr_expected_at_risk r \<and> 0 \<le> kr_p50_at_risk r \<and> 0 \<le> kr_p95_at_risk r \<and>
     opt_unit (kr_capacity_probability r) \<and> opt_nonneg (kr_expected_days r) \<and>
     opt_nonneg (kr_p50_days r) \<and> opt_nonneg (kr_p95_days r) \<and> opt_nonneg (kr_expected_cost r) \<and>
     opt_nonneg (kr_p95_cost r) \<and> opt_nonneg (kr_cvar95_cost r)"

text \<open>Per-date probability mass, in date order; ISO dates sort like dates.\<close>

definition stockout_distribution :: "key_summary list \<Rightarrow> f64 list \<Rightarrow> (date, f64) dict" where
  "stockout_distribution summaries weights =
     sort_key fst (fold (\<lambda>(s, w) d. case ks_stockout_date s of None \<Rightarrow> d
         | Some day \<Rightarrow> dict_set day (dict_get_or d day 0 + w) d) (zip summaries weights) [])"

record day_stats =
  ds_expected :: "f64 option"
  ds_p50 :: "f64 option"
  ds_p95 :: "f64 option"

definition days_of_supply_stats :: "numpy \<Rightarrow> f64 option list \<Rightarrow> f64 list \<Rightarrow> day_stats py" where
  "days_of_supply_stats np day_values weights =
     (let known = filter (\<lambda>(v, w). v \<noteq> None) (zip day_values weights);
          day_array = map (\<lambda>(v, w). the v) known;
          raw = map snd known;
          total = np_sum np raw in
      if known = [] then Inr \<lparr>ds_expected = None, ds_p50 = None, ds_p95 = None\<rparr>
      else if total = 0 then Inl value_error
      else (let day_weights = map (\<lambda>w. w / total) raw in
        Inr \<lparr>ds_expected = Some (np_dot np day_array day_weights),
             ds_p50 = Some (weighted_quantile np day_array day_weights (fl (1 / 2))),
             ds_p95 = Some (weighted_quantile np day_array day_weights (fl (95 / 100)))\<rparr>))"

definition opt_array :: "f64 option list \<Rightarrow> f64 list option" where
  "opt_array xs = (if all_some xs then Some (somes xs) else None)"

definition opt_cvar :: "numpy \<Rightarrow> f64 list option \<Rightarrow> f64 list \<Rightarrow> f64 option py" where
  "opt_cvar np costs weights =
     (case costs of None \<Rightarrow> Inr None
      | Some cs \<Rightarrow> ebind (weighted_cvar np cs weights (fl (95 / 100))) (\<lambda>v. Inr (Some v)))"

definition key_risk_metrics ::
    "numpy \<Rightarrow> metric_key \<Rightarrow> key_summary list \<Rightarrow> f64 list \<Rightarrow> f64 \<Rightarrow> f64 \<Rightarrow> key_risk py" where
  "key_risk_metrics np key summaries weights waste_threshold fill_rate_target =
     (case key of (store_id, ingredient_id, unit) \<Rightarrow>
      (let values = (\<lambda>f. map f summaries);
           probability = (\<lambda>f. unit_interval (np_sum np (np_mask weights (map f summaries))));
           q = (\<lambda>f p. weighted_quantile np (values f) weights p);
           costs = opt_array (map ks_total_cost summaries) in
       ebind (days_of_supply_stats np (map ks_days_of_supply summaries) weights) (\<lambda>days.
       ebind (opt_cvar np costs weights) (\<lambda>cvar.
       let r = \<lparr>kr_store_id = store_id, kr_ingredient_id = ingredient_id, kr_unit = unit,
                kr_stockout_probability = probability (\<lambda>s. 0 < ks_shortage s),
                kr_expected_shortage = np_dot np (values ks_shortage) weights,
                kr_p50_shortage = q ks_shortage (fl (1 / 2)), kr_p95_shortage = q ks_shortage (fl (95 / 100)),
                kr_expected_expired = np_dot np (values ks_expired) weights,
                kr_expected_waste = np_dot np (values ks_waste) weights,
                kr_waste_exceedance = probability (\<lambda>s. waste_threshold < ks_waste s),
                kr_expected_fill_rate = unit_interval (np_dot np (values ks_fill_rate) weights),
                kr_fill_below_target = probability (\<lambda>s. ks_fill_rate s < fill_rate_target),
                kr_expected_ending = np_dot np (values ks_ending) weights,
                kr_p50_ending = q ks_ending (fl (1 / 2)), kr_p95_ending = q ks_ending (fl (95 / 100)),
                kr_expected_maximum = np_dot np (values ks_maximum) weights,
                kr_p50_maximum = q ks_maximum (fl (1 / 2)), kr_p95_maximum = q ks_maximum (fl (95 / 100)),
                kr_expected_at_risk = np_dot np (values ks_at_risk) weights,
                kr_p50_at_risk = q ks_at_risk (fl (1 / 2)), kr_p95_at_risk = q ks_at_risk (fl (95 / 100)),
                kr_capacity_probability =
                  (if all_some (map ks_capacity_violation summaries)
                   then Some (probability (\<lambda>s. 0 < the (ks_capacity_violation s))) else None),
                kr_expected_days = ds_expected days, kr_p50_days = ds_p50 days, kr_p95_days = ds_p95 days,
                kr_stockout_distribution = stockout_distribution summaries weights,
                kr_expected_cost = map_option (\<lambda>cs. np_dot np cs weights) costs,
                kr_p95_cost = map_option (\<lambda>cs. weighted_quantile np cs weights (fl (95 / 100))) costs,
                kr_cvar95_cost = cvar\<rparr>
       in contract (key_risk_ok r) r))))"

section \<open>Risk metrics over all scenarios\<close>

record risk_metrics =
  rm_scenario_count :: nat
  rm_by_key :: "key_risk list"
  rm_any_stockout :: f64
  rm_expected_affected :: f64
  rm_expected_affected_share :: f64
  rm_mean_fill_rate :: f64
  rm_any_capacity :: "f64 option"
  rm_expected_cost :: "f64 option"
  rm_p95_cost :: "f64 option"
  rm_cvar95_cost :: "f64 option"
  rm_single :: "key_risk option"

text \<open>
  The scalar fields kept for one inventory key are all copies of that key's metrics:
  \<open>rm_single\<close> holds them.
\<close>

definition risk_metrics_ok :: "risk_metrics \<Rightarrow> bool" where
  "risk_metrics_ok r \<longleftrightarrow>
     1 \<le> rm_scenario_count r \<and> list_all key_risk_ok (rm_by_key r) \<and> in_unit (rm_any_stockout r) \<and>
     0 \<le> rm_expected_affected r \<and> in_unit (rm_expected_affected_share r) \<and> in_unit (rm_mean_fill_rate r) \<and>
     opt_unit (rm_any_capacity r) \<and> opt_nonneg (rm_expected_cost r) \<and> opt_nonneg (rm_p95_cost r) \<and>
     opt_nonneg (rm_cvar95_cost r) \<and>
     (case rm_single r of None \<Rightarrow> True | Some k \<Rightarrow> key_risk_ok k)"

definition summary_key :: "key_summary \<Rightarrow> metric_key" where
  "summary_key s = (ks_store_id s, ks_ingredient_id s, ks_unit s)"

definition summary_map :: "sim_result \<Rightarrow> (metric_key, key_summary) dict" where
  "summary_map r = index_by summary_key (sm_by_key (sr_summary r))"

definition aggregate_risk_metrics :: "numpy \<Rightarrow> sim_result list \<Rightarrow> f64 \<Rightarrow> f64 \<Rightarrow> risk_metrics py" where
  "aggregate_risk_metrics np results waste_threshold fill_rate_target =
     (case results of
        [] \<Rightarrow> Inl value_error
      | first # _ \<Rightarrow>
          ebind (normalized_weights np results) (\<lambda>weights.
          let expected_keys = sorted_set (map summary_key (sm_by_key (sr_summary first))) in
          ebind (emap (\<lambda>r. let m = summary_map r in
                   if sorted_set (dict_keys m) \<noteq> expected_keys then Inl value_error else Inr m) results)
           (\<lambda>summary_maps.
          ebind (emap (\<lambda>key. key_risk_metrics np key (map (\<lambda>m. the (dict_get m key)) summary_maps) weights
                    waste_threshold fill_rate_target) expected_keys) (\<lambda>by_key.
          let affected = map (\<lambda>r. fint (int (sm_stockout_keys (sr_summary r)))) results;
              violations = map (\<lambda>r. sm_capacity_violations (sr_summary r)) results;
              costs = opt_array (map (\<lambda>r. sm_consequence_cost (sr_summary r)) results) in
          ebind (emap (\<lambda>a. py_div a (fint (int (length expected_keys)))) affected) (\<lambda>shares.
          ebind (opt_cvar np costs weights) (\<lambda>cvar.
          let r = \<lparr>rm_scenario_count = length results, rm_by_key = by_key,
                   rm_any_stockout = unit_interval (np_sum np (np_mask weights (map (\<lambda>a. 0 < a) affected))),
                   rm_expected_affected = np_dot np affected weights,
                   rm_expected_affected_share = unit_interval (np_dot np shares weights),
                   rm_mean_fill_rate = unit_interval (np_mean np (map kr_expected_fill_rate by_key)),
                   rm_any_capacity =
                     (if all_some violations then
                        Some (unit_interval (np_sum np (np_mask weights (map (\<lambda>v. 0 < the v) violations))))
                      else None),
                   rm_expected_cost = map_option (\<lambda>cs. np_dot np cs weights) costs,
                   rm_p95_cost = map_option (\<lambda>cs. weighted_quantile np cs weights (fl (95 / 100))) costs,
                   rm_cvar95_cost = cvar,
                   rm_single = (case by_key of [k] \<Rightarrow> Some k | _ \<Rightarrow> None)\<rparr>
          in contract (risk_metrics_ok r) r))))))"

section \<open>Summaries are always valid\<close>

lemma prefix_sums_sorted:
  "\<forall>w \<in> set ws. 0 \<le> w \<Longrightarrow> sorted (prefix_sums acc ws) \<and> (\<forall>x \<in> set (prefix_sums acc ws). acc \<le> x)"
proof (induction ws arbitrary: acc)
  case Nil
  then show ?case by simp
next
  case (Cons w ws)
  have "acc \<le> acc + w" using Cons.prems by (simp add: f64_add_increasing)
  with Cons.IH [of "acc + w"] Cons.prems show ?case by (auto intro: order_trans)
qed

lemma prefix_sums_length [simp]: "length (prefix_sums acc ws) = length ws"
  by (induction ws arbitrary: acc) auto

lemma plain_numpy_ok: "numpy_ok plain_numpy"
proof -
  have nn: "0 \<le> fint (int n)" for n by (simp add: fint_nonneg)
  have dot: "0 \<le> running_sum (map2 (*) xs ws)"
    if "\<forall>x \<in> set xs. 0 \<le> x" "\<forall>w \<in> set ws. 0 \<le> w" for xs ws :: "f64 list"
    using that by (intro running_sum_nonneg) (auto intro!: f64_mult_nonneg dest: set_zip_leftD set_zip_rightD)
  show ?thesis
    unfolding numpy_ok_def plain_numpy_def
    using dot by (auto simp: running_sum_nonneg nn prefix_sums_sorted intro: f64_div_nonneg)
qed

lemma unit_interval_bounds: "0 \<le> unit_interval v" "unit_interval v \<le> 1"
  by (simp_all add: unit_interval_def)

lemma unit_interval_in_unit [simp]: "in_unit (unit_interval v)"
  by (simp add: in_unit_def unit_interval_bounds)

lemma somes_set: "set (somes xs) = {x. Some x \<in> set xs}"
  by (force simp: somes_def List.map_filter_def)

lemma sum_optional_nonneg:
  assumes "\<forall>x \<in> set xs. opt_nonneg x"
  shows "opt_nonneg (sum_optional xs)"
proof -
  have "\<forall>x \<in> set (somes xs). 0 \<le> x"
    using assms by (metis mem_Collect_eq opt_nonneg_simps(2) somes_set)
  then show ?thesis by (simp add: sum_optional_def py_sum_nonneg)
qed

lemma py_max_in: "xs \<noteq> [] \<Longrightarrow> py_max xs \<in> set xs"
  using list_max_in [of "hd xs" "tl xs"] by (cases xs) (auto simp: py_max_def)

lemma py_min_in: "xs \<noteq> [] \<Longrightarrow> py_min xs \<in> set xs"
  using list_min_in [of "hd xs" "tl xs"] by (cases xs) (auto simp: py_min_def)

lemma py_max_ge: "x \<in> set xs \<Longrightarrow> x \<le> py_max xs"
  using list_max_ge [of x "hd xs" "tl xs"] by (cases xs) (auto simp: py_max_def)

lemma py_min_le: "x \<in> set xs \<Longrightarrow> py_min xs \<le> x"
  using list_min_le [of x "hd xs" "tl xs"] by (cases xs) (auto simp: py_min_def)

lemma fint_pos: "1 \<le> n \<Longrightarrow> 0 < fint n"
proof -
  assume "1 \<le> n"
  then have "rnd 1 \<le> rnd (of_int n)" by (intro rnd_mono) simp
  then show ?thesis by (simp add: f64_less_iff fint_def fl.rep_eq zero_f64.rep_eq one_f64.rep_eq
        rnd_of_int [of 1, simplified])
qed

lemma ending_quantity_nonneg: "good_lots ls \<Longrightarrow> 0 \<le> ending_quantity ls k"
  unfolding ending_quantity_def by (rule running_sum_nonneg) (auto simp: good_lots_def inventory_lot_ok_def)

text \<open>The days with a shortage, counted by the summary.\<close>

definition shortage_days :: "daily_ledger list \<Rightarrow> date list" where
  "shortage_days gs = map lg_date (filter (\<lambda>g. 0 < lg_shortage g) gs)"

lemma summarize_key_ok:
  assumes "gs \<noteq> []" "\<forall>g \<in> set gs. daily_ledger_ok g" "good_lots lots"
  shows "\<exists>s. summarize_key ks lots key gs = Inr s \<and> key_summary_ok s \<and> summary_key s = key"
proof -
  let ?ls = "sort_key lg_date gs"
  obtain store ingredient unit where key: "key = (store, ingredient, unit)" by (cases key)
  have ok: "\<forall>g \<in> set ?ls. daily_ledger_ok g" using assms(2) by simp
  have ne: "?ls \<noteq> []" using assms(1) by (metis length_0_conv length_sort)
  then have "remdups (map lg_date ?ls) \<noteq> []" by simp
  then have "1 \<le> int (length (remdups (map lg_date ?ls)))"
    by (cases "remdups (map lg_date ?ls)") simp_all
  then have dc: "0 < fint (int (length (remdups (map lg_date ?ls))))" by (rule fint_pos)
  then have dc0: "fint (int (length (remdups (map lg_date ?ls)))) \<noteq> 0" by auto
  have sums: "0 \<le> py_sum (map f ?ls)" if "\<And>g. daily_ledger_ok g \<Longrightarrow> 0 \<le> f g" for f
    by (rule py_sum_nonneg) (use ok that in auto)
  have maxs: "0 \<le> py_max (map f ?ls)" if "\<And>g. daily_ledger_ok g \<Longrightarrow> 0 \<le> f g" for f
  proof -
    have "py_max (map f ?ls) \<in> set (map f ?ls)" using ne by (intro py_max_in) simp
    then show ?thesis using ok that by auto
  qed
  have opts: "opt_nonneg (sum_optional (map f ?ls))" if "\<And>g. daily_ledger_ok g \<Longrightarrow> opt_nonneg (f g)" for f
    by (rule sum_optional_nonneg) (use ok that in auto)
  have fields: "0 \<le> lg_demand g" "0 \<le> lg_fulfilled g" "0 \<le> lg_shortage g" "0 \<le> lg_expired g" "0 \<le> lg_waste g"
      "0 \<le> lg_inbound g" "0 \<le> lg_maximum g" "0 \<le> lg_at_risk g" "0 \<le> lg_capacity_violation g"
      "opt_nonneg (lg_holding_cost g)" "opt_nonneg (lg_shortage_cost g)" "opt_nonneg (lg_expiry_cost g)"
      "opt_nonneg (lg_waste_cost g)" "0 \<le> lg_beginning g" if "daily_ledger_ok g" for g
    using that by (simp_all add: daily_ledger_ok_def)
  have hd: "0 \<le> lg_beginning (hd ?ls)" using hd_in_set [OF ne] ok fields(14) by blast
  have e: "0 \<le> ending_quantity lots key" by (rule ending_quantity_nonneg [OF assms(3)])
  have costs: "opt_nonneg (sum_optional (map lg_holding_cost ?ls))" "opt_nonneg (sum_optional (map lg_shortage_cost ?ls))"
    "opt_nonneg (sum_optional (map lg_expiry_cost ?ls))" "opt_nonneg (sum_optional (map lg_waste_cost ?ls))"
    by (intro opts fields; assumption)+
  have tot: "opt_nonneg (sum_optional [sum_optional (map lg_holding_cost ?ls), sum_optional (map lg_shortage_cost ?ls),
      sum_optional (map lg_expiry_cost ?ls), sum_optional (map lg_waste_cost ?ls)])"
    by (rule sum_optional_nonneg) (use costs in simp)
  have mean: "0 \<le> ending_quantity lots key / m" if "0 < m" for m
    using e that by (simp add: f64_div_nonneg)
  let ?tot = "py_sum (map lg_demand ?ls)" and ?ful = "py_sum (map lg_fulfilled ?ls)"
  let ?closing = "ending_quantity lots (store, ingredient, unit)"
  define m where "m = ?tot / fint (int (length (remdups (map lg_date ?ls))))"
  have m: "py_div ?tot (fint (int (length (remdups (map lg_date ?ls))))) = Inr m"
    using dc0 by (simp add: m_def)
  obtain fr where fr: "(if ?tot \<noteq> 0 then ebind (py_div ?ful ?tot) (\<lambda>q. Inr (unit_interval q)) else Inr 1) = Inr fr"
    and fr01: "0 \<le> fr" "fr \<le> 1"
    by (cases "?tot = 0") (simp_all add: py_div_def unit_interval_bounds)
  obtain d where d: "(if 0 < m then py_div_opt (Some ?closing) m else Inr None) = Inr d" and dn: "opt_nonneg d"
  proof (cases "0 < m")
    case True
    then have "m \<noteq> 0" by auto
    with True show ?thesis using mean [OF True] that by (simp add: py_div_opt_def py_div_def key)
  next
    case False
    then show ?thesis using that by simp
  qed
  show ?thesis
    unfolding summarize_key_def key prod.case Let_def m ebind_simps fr d
    using sums [OF fields(1)] sums [OF fields(2)] sums [OF fields(3)] sums [OF fields(4)] sums [OF fields(5)]
      sums [OF fields(6)] maxs [OF fields(7)] maxs [OF fields(8)] maxs [OF fields(9)] hd e fr01 dn costs tot
    by (simp add: key key_summary_ok_def summary_key_def)
qed

lemma summary_of_keys_ok:
  assumes "by_key \<noteq> []" "\<forall>s \<in> set by_key. key_summary_ok s"
  shows "\<exists>s. summary_of_keys np by_key = Inr s \<and> sim_summary_ok s \<and> sm_by_key s = by_key"
proof -
  have c: "opt_nonneg (sum_optional (map ks_total_cost by_key))"
    by (rule sum_optional_nonneg) (use assms(2) in \<open>auto simp: key_summary_ok_def\<close>)
  obtain k rest where k: "by_key = k # rest" using assms(1) by (cases by_key) auto
  then have "key_summary_ok k" using assms(2) by simp
  then show ?thesis
    using c assms(2) k
    by (cases rest)
      (auto simp: summary_of_keys_def sim_summary_ok_def key_summary_ok_def opt_unit_def Let_def
        unit_interval_bounds list_all_iff)
qed

lemma summarize_simulation_ok:
  assumes "ledgers \<noteq> []" "\<forall>g \<in> set ledgers. daily_ledger_ok g" "good_lots lots"
  shows "\<exists>s. summarize_simulation np ledgers lots ks = Inr s \<and> sim_summary_ok s \<and>
    set (map summary_key (sm_by_key s)) = set (map ledger_key ledgers) \<and>
    distinct (map summary_key (sm_by_key s))"
proof -
  let ?grp = "group_by ledger_key ledgers"
  let ?srt = "sort_key fst ?grp"
  let ?f = "\<lambda>(key, gs). summarize_key ks lots key gs"
  have entry: "gs \<noteq> [] \<and> (\<forall>g \<in> set gs. daily_ledger_ok g)" if "(key, gs) \<in> set ?grp" for key gs
  proof -
    have gs: "gs = filter (\<lambda>x. ledger_key x = key) ledgers" using that by (rule group_by_entry)
    have "key \<in> set (dict_keys ?grp)" using that by force
    then have "key \<in> ledger_key ` set ledgers" by (simp only: group_by_keys)
    then show ?thesis using gs assms(2) by (auto simp: filter_empty_conv)
  qed
  have each: "\<exists>s. ?f x = Inr s \<and> key_summary_ok s \<and> summary_key s = fst x" if "x \<in> set ?srt" for x
    using summarize_key_ok [OF _ _ assms(3), of "snd x" ks "fst x"] entry [of "fst x" "snd x"] that
    by (simp add: case_prod_unfold)
  define g where "g = (\<lambda>x. SOME s. ?f x = Inr s \<and> key_summary_ok s \<and> summary_key s = fst x)"
  have g: "?f x = Inr (g x) \<and> key_summary_ok (g x) \<and> summary_key (g x) = fst x" if "x \<in> set ?srt" for x
    unfolding g_def using each [OF that] by (rule someI_ex)
  have m: "emap ?f ?srt = Inr (map g ?srt)" by (rule emap_all_ok) (use g in blast)
  have keys: "map summary_key (map g ?srt) = map fst ?srt" using g by (simp cong: map_cong)
  have ne: "map g ?srt \<noteq> []"
  proof
    assume "map g ?srt = []"
    then have "set ?srt = {}" by simp
    then have "set ?grp = {}" by simp
    then have "set (dict_keys ?grp) = {}" by simp
    then show False using assms(1) by (simp only: group_by_keys) simp
  qed
  have ok: "\<forall>s \<in> set (map g ?srt). key_summary_ok s" using g by auto
  obtain s where s: "summary_of_keys np (map g ?srt) = Inr s" "sim_summary_ok s" "sm_by_key s = map g ?srt"
    using summary_of_keys_ok [OF ne ok, of np] by blast
  have "summarize_simulation np ledgers lots ks = Inr s"
    using m ne s(1) by (simp add: summarize_simulation_def Let_def del: list.map)
  moreover have "set (map summary_key (sm_by_key s)) = set (map ledger_key ledgers)"
    unfolding s(3) keys by (simp only: set_map set_sort) (simp only: set_map [symmetric] group_by_keys)
  moreover have "distinct (map summary_key (sm_by_key s))"
    unfolding s(3) keys using distinct_group_by [of ledger_key ledgers] by (simp add: distinct_map)
  ultimately show ?thesis using s(2) by blast
qed

text \<open>Every simulated ledger can be summarised. For valid ledgers and lots, and whatever numpy
  computes as a mean, \<open>summarize_simulation\<close> returns a summary that satisfies its contract (rates
  in [0, 1], no negative total), with exactly one entry per store, ingredient and unit.\<close>

theorem summary_total:
  assumes "ledgers \<noteq> []" "\<forall>g \<in> set ledgers. daily_ledger_ok g" "good_lots lots"
  shows "\<exists>s. summarize_simulation np ledgers lots ks = Inr s \<and> sim_summary_ok s \<and>
    set (map summary_key (sm_by_key s)) = set (map ledger_key ledgers) \<and>
    distinct (map summary_key (sm_by_key s))"
  using summarize_simulation_ok [OF assms] .

section \<open>Weighted quantiles\<close>

lemma numpy_argsort:
  assumes "numpy_ok np"
  shows "length (np_argsort np xs) = length xs" "set (np_argsort np xs) = {0..<length xs}"
    "sorted (map ((!) xs) (np_argsort np xs))"
proof -
  have m: "mset (np_argsort np xs) = mset [0..<length xs]" using assms by (simp add: numpy_ok_def)
  show "length (np_argsort np xs) = length xs" using mset_eq_length [OF m] by simp
  show "set (np_argsort np xs) = {0..<length xs}" using mset_eq_setD [OF m] by simp
  show "sorted (map ((!) xs) (np_argsort np xs))" using assms by (simp add: numpy_ok_def)
qed

lemma weighted_quantile_in:
  assumes "numpy_ok np" "values \<noteq> []"
  shows "weighted_quantile np values ws q \<in> set values"
proof -
  let ?o = "np_argsort np values"
  note o = numpy_argsort [OF assms(1), of "values"]
  define i where "i = min (np_searchsorted np (np_cumsum np (map ((!) ws) ?o)) q) (length values - 1)"
  have "length values - 1 < length values" using assms(2) by (cases "values") simp_all
  then have i: "i < length ?o" using o(1) by (simp add: i_def)
  then have "?o ! i \<in> {0..<length values}" using o(2) nth_mem by blast
  then show ?thesis unfolding weighted_quantile_def Let_def i_def [symmetric] using i by simp
qed

lemma takeWhile_less_mono:
  fixes v w :: "'a::linorder"
  shows "v \<le> w \<Longrightarrow> length (takeWhile (\<lambda>x. x < v) xs) \<le> length (takeWhile (\<lambda>x. x < w) xs)"
  by (induction xs) auto

lemma weighted_quantile_mono:
  assumes "numpy_ok np" "values \<noteq> []" "length ws = length values" "\<forall>w \<in> set ws. 0 \<le> w" "p \<le> q"
  shows "weighted_quantile np values ws p \<le> weighted_quantile np values ws q"
proof -
  let ?o = "np_argsort np values"
  note o = numpy_argsort [OF assms(1), of "values"]
  let ?c = "np_cumsum np (map ((!) ws) ?o)"
  have "\<forall>w \<in> set (map ((!) ws) ?o). 0 \<le> w" using assms(3,4) o(2) by auto
  then have "sorted ?c" using assms(1) unfolding numpy_ok_def by blast
  then have ss: "np_searchsorted np ?c v = length (takeWhile (\<lambda>x. x < v) ?c)" for v
    using assms(1) unfolding numpy_ok_def by blast
  define i where "i = (\<lambda>v. min (np_searchsorted np ?c v) (length values - 1))"
  have "length values - 1 < length values" using assms(2) by (cases "values") simp_all
  then have i: "i v < length (map ((!) values) ?o)" for v using o(1) by (simp add: i_def)
  have "i p \<le> i q" using takeWhile_less_mono [OF assms(5), of ?c] by (simp add: i_def ss min_le_iff_disj)
  then have "map ((!) values) ?o ! i p \<le> map ((!) values) ?o ! i q"
    using o(3) i by (intro sorted_nth_mono)
  then show ?thesis by (simp add: weighted_quantile_def Let_def i_def)
qed

lemma fl_mono: "a \<le> b \<Longrightarrow> fl a \<le> fl b"
  by (simp add: f64_le_iff fl.rep_eq rnd_mono)

lemma half_le_95: "fl (1 / 2) \<le> fl (95 / 100)"
  by (rule fl_mono) simp

lemma tail_mass_pos: "0 < 1 - fl (95 / 100)"
  by code_simp

section \<open>Conditional value at risk\<close>

lemma cvar_loop_nonneg:
  assumes "\<forall>i \<in> set order. 0 \<le> vs ! i \<and> 0 \<le> ws ! i" "0 \<le> remaining" "0 \<le> acc"
  shows "0 \<le> cvar_loop vs ws order remaining acc"
  using assms
proof (induction vs ws order remaining acc rule: cvar_loop.induct)
  case (1 vs ws remaining acc)
  then show ?case by simp
next
  case (2 vs ws i order remaining acc)
  have u: "0 \<le> min (ws ! i) remaining" "min (ws ! i) remaining \<le> remaining" using "2.prems" by auto
  then have "0 \<le> acc + vs ! i * min (ws ! i) remaining" "0 \<le> remaining - min (ws ! i) remaining"
    using "2.prems" by (auto intro!: f64_add_nonneg f64_mult_nonneg f64_diff_nonneg)
  with 2 show ?case by (auto simp: Let_def)
qed

lemma opt_cvar_ok:
  assumes "numpy_ok np" "\<forall>x \<in> set cs. 0 \<le> x" "\<forall>w \<in> set ws. 0 \<le> w" "length ws = length cs"
  shows "\<exists>v. opt_cvar np (Some cs) ws = Inr (Some v) \<and> 0 \<le> v"
proof -
  have "\<forall>i \<in> set (rev (np_argsort np cs)). 0 \<le> cs ! i \<and> 0 \<le> ws ! i"
    using numpy_argsort(2) [OF assms(1), of cs] assms(2-4) by auto
  then have "0 \<le> cvar_loop cs ws (rev (np_argsort np cs)) (1 - fl (95 / 100)) 0"
    using tail_mass_pos by (intro cvar_loop_nonneg) (auto simp: less_imp_le)
  moreover have "1 - fl (95 / 100) \<noteq> 0" using tail_mass_pos by auto
  ultimately show ?thesis
    using tail_mass_pos by (auto simp: opt_cvar_def weighted_cvar_def Let_def py_div_def less_imp_le intro!: f64_div_nonneg)
qed

section \<open>Risk metrics are valid and their quantiles ordered\<close>

lemma np_mask_nonneg: "\<forall>w \<in> set ws. 0 \<le> w \<Longrightarrow> \<forall>w \<in> set (np_mask ws bs). 0 \<le> w"
  by (auto simp: np_mask_def dest: set_zip_leftD)

lemma numpy_dot_nonneg:
  "numpy_ok np \<Longrightarrow> \<forall>x \<in> set xs. 0 \<le> x \<Longrightarrow> \<forall>w \<in> set ws. 0 \<le> w \<Longrightarrow> 0 \<le> np_dot np xs ws"
  by (simp add: numpy_ok_def)

lemma numpy_sum_nonneg: "numpy_ok np \<Longrightarrow> \<forall>x \<in> set xs. 0 \<le> x \<Longrightarrow> 0 \<le> np_sum np xs"
  by (simp add: numpy_ok_def)

text \<open>The weights of the scenarios in which a days-of-supply value exists.\<close>

definition known_day_weights :: "key_summary list \<Rightarrow> f64 list \<Rightarrow> f64 list" where
  "known_day_weights summaries ws =
     map snd (filter (\<lambda>(v, w). v \<noteq> None) (zip (map ks_days_of_supply summaries) ws))"

definition ordered_days :: "f64 option \<Rightarrow> f64 option \<Rightarrow> bool" where
  "ordered_days a b \<longleftrightarrow> (case (a, b) of (Some x, Some y) \<Rightarrow> x \<le> y | (None, None) \<Rightarrow> True | _ \<Rightarrow> False)"

lemma days_stats_ok:
  assumes np: "numpy_ok np" and ok: "\<forall>s \<in> set summaries. key_summary_ok s"
    and ws: "\<forall>w \<in> set ws. 0 \<le> w"
    and mass: "known_day_weights summaries ws = [] \<or> np_sum np (known_day_weights summaries ws) \<noteq> 0"
  shows "\<exists>d. days_of_supply_stats np (map ks_days_of_supply summaries) ws = Inr d \<and>
    opt_nonneg (ds_expected d) \<and> opt_nonneg (ds_p50 d) \<and> opt_nonneg (ds_p95 d) \<and> ordered_days (ds_p50 d) (ds_p95 d)"
proof -
  let ?known = "filter (\<lambda>(v, w). v \<noteq> None) (zip (map ks_days_of_supply summaries) ws)"
  let ?raw = "map snd ?known" and ?arr = "map (\<lambda>(v, w). the v) ?known"
  show ?thesis
  proof (cases "?known = []")
    case True
    then show ?thesis by (simp add: days_of_supply_stats_def Let_def ordered_days_def)
  next
    case False
    then have tot: "np_sum np ?raw \<noteq> 0" using mass by (simp add: known_day_weights_def)
    have raw: "\<forall>w \<in> set ?raw. 0 \<le> w" using ws by (auto dest: set_zip_rightD)
    have arr: "\<forall>v \<in> set ?arr. 0 \<le> v"
    proof
      fix v assume "v \<in> set ?arr"
      then obtain w where "(Some v, w) \<in> set (zip (map ks_days_of_supply summaries) ws)" by auto
      then have "Some v \<in> set (map ks_days_of_supply summaries)" by (rule set_zip_leftD)
      then show "0 \<le> v" using ok by (auto simp: key_summary_ok_def) (metis opt_nonneg_simps(2))
    qed
    define dw where "dw = map (\<lambda>w. w / np_sum np ?raw) ?raw"
    have dw: "\<forall>w \<in> set dw. 0 \<le> w" using raw numpy_sum_nonneg [OF np raw] by (auto simp: dw_def intro!: f64_div_nonneg)
    have len: "length dw = length ?arr" by (simp add: dw_def)
    have ne: "?arr \<noteq> []" using False by simp
    have q: "0 \<le> weighted_quantile np ?arr dw p" for p using weighted_quantile_in [OF np ne] arr by blast
    have eq: "days_of_supply_stats np (map ks_days_of_supply summaries) ws =
      Inr \<lparr>ds_expected = Some (np_dot np ?arr dw), ds_p50 = Some (weighted_quantile np ?arr dw (fl (1 / 2))),
           ds_p95 = Some (weighted_quantile np ?arr dw (fl (95 / 100)))\<rparr>"
      using False tot by (simp only: days_of_supply_stats_def Let_def dw_def if_False)
    show ?thesis
      unfolding eq using q numpy_dot_nonneg [OF np arr dw] weighted_quantile_mono [OF np ne len dw half_le_95]
      by (simp add: ordered_days_def del: set_map)
  qed
qed

text \<open>Risk metrics of one key are always valid. For valid summaries and non-negative weights the
  metrics satisfy their contract (probabilities in [0, 1], no negative expectation), every
  quantile is a value some scenario attained, and P50 never exceeds P95. The one condition is
  that the scenarios with a days-of-supply value have positive total weight.\<close>

theorem key_risk_total:
  assumes np: "numpy_ok np" and ne: "summaries \<noteq> []" and ok: "\<forall>s \<in> set summaries. key_summary_ok s"
    and ws: "\<forall>w \<in> set ws. 0 \<le> w" and len: "length ws = length summaries"
    and mass: "known_day_weights summaries ws = [] \<or> np_sum np (known_day_weights summaries ws) \<noteq> 0"
  shows "\<exists>r. key_risk_metrics np key summaries ws waste_threshold fill_rate_target = Inr r \<and> key_risk_ok r \<and>
    (kr_store_id r, kr_ingredient_id r, kr_unit r) = key \<and>
    kr_p50_shortage r \<in> ks_shortage ` set summaries \<and> kr_p95_shortage r \<in> ks_shortage ` set summaries \<and>
    kr_p50_shortage r \<le> kr_p95_shortage r \<and> kr_p50_ending r \<le> kr_p95_ending r \<and>
    kr_p50_maximum r \<le> kr_p95_maximum r \<and> kr_p50_at_risk r \<le> kr_p95_at_risk r \<and>
    ordered_days (kr_p50_days r) (kr_p95_days r)"
proof -
  obtain store ingredient unit where key: "key = (store, ingredient, unit)" by (cases key)
  obtain d where d: "days_of_supply_stats np (map ks_days_of_supply summaries) ws = Inr d"
    and dn: "opt_nonneg (ds_expected d)" "opt_nonneg (ds_p50 d)" "opt_nonneg (ds_p95 d)"
      "ordered_days (ds_p50 d) (ds_p95 d)"
    using days_stats_ok [OF np ok ws mass] by blast
  define costs where "costs = opt_array (map ks_total_cost summaries)"
  have costs: "costs = None \<or> (\<exists>cs. costs = Some cs \<and> length cs = length summaries \<and> cs \<noteq> [] \<and> (\<forall>c \<in> set cs. 0 \<le> c))"
  proof (cases "all_some (map ks_total_cost summaries)")
    case False
    then show ?thesis by (simp add: costs_def opt_array_def)
  next
    case True
    have l: "all_some xs \<Longrightarrow> length (somes xs) = length xs" for xs :: "f64 option list"
    proof (induction xs)
      case (Cons x xs)
      then show ?case by (cases x) (auto simp: all_some_def somes_def List.map_filter_simps)
    qed (simp add: somes_def List.map_filter_simps)
    have nn: "\<forall>c \<in> set (somes (map ks_total_cost summaries)). 0 \<le> c"
      using ok by (auto simp: somes_set key_summary_ok_def) (metis opt_nonneg_simps(2))
    have "somes (map ks_total_cost summaries) \<noteq> []" using l [OF True] ne by auto
    then show ?thesis using True l [OF True] nn by (simp add: costs_def opt_array_def)
  qed
  have "\<exists>cv. opt_cvar np costs ws = Inr cv \<and> opt_nonneg cv"
  proof (cases costs)
    case None
    then show ?thesis by (simp add: opt_cvar_def)
  next
    case (Some cs)
    then have cs: "\<forall>c \<in> set cs. 0 \<le> c" "length ws = length cs" using costs len by auto
    from opt_cvar_ok [OF np cs(1) ws cs(2)] obtain v where "opt_cvar np (Some cs) ws = Inr (Some v)" "0 \<le> v" by blast
    then show ?thesis using Some by simp
  qed
  then obtain cv where cv: "opt_cvar np costs ws = Inr cv" "opt_nonneg cv" by blast
  have cost_stats: "opt_nonneg (map_option (\<lambda>cs. np_dot np cs ws) costs)"
    "opt_nonneg (map_option (\<lambda>cs. weighted_quantile np cs ws (fl (95 / 100))) costs)"
    using costs numpy_dot_nonneg [OF np _ ws] weighted_quantile_in [OF np, of _ ws "fl (95 / 100)"] by auto
  have vals: "\<forall>x \<in> set (map f summaries). 0 \<le> x" if "\<And>s. key_summary_ok s \<Longrightarrow> 0 \<le> f s" for f :: "key_summary \<Rightarrow> f64"
    using that ok by simp
  have dot: "0 \<le> np_dot np (map f summaries) ws" if "\<And>s. key_summary_ok s \<Longrightarrow> 0 \<le> f s" for f
    by (rule numpy_dot_nonneg [OF np vals [OF that] ws])
  have q_in: "weighted_quantile np (map f summaries) ws p \<in> f ` set summaries" for f p
    using weighted_quantile_in [OF np, of "map f summaries"] ne by simp
  have q: "0 \<le> weighted_quantile np (map f summaries) ws p" if "\<And>s. key_summary_ok s \<Longrightarrow> 0 \<le> f s" for f p
    using q_in [of f p] ok that by auto
  have mono: "weighted_quantile np (map f summaries) ws (fl (1 / 2)) \<le>
      weighted_quantile np (map f summaries) ws (fl (95 / 100))" for f
    by (rule weighted_quantile_mono [OF np _ _ ws half_le_95]) (use ne len in simp_all)
  have fields: "0 \<le> ks_shortage s" "0 \<le> ks_expired s" "0 \<le> ks_waste s" "0 \<le> ks_ending s"
    "0 \<le> ks_maximum s" "0 \<le> ks_at_risk s" if "key_summary_ok s" for s
    using that by (simp_all add: key_summary_ok_def)
  show ?thesis
    unfolding key_risk_metrics_def key prod.case Let_def d ebind_simps costs_def [symmetric] cv(1)
    using cv(2) dn cost_stats dot [OF fields(1)] dot [OF fields(2)] dot [OF fields(3)] dot [OF fields(4)]
      dot [OF fields(5)] dot [OF fields(6)] q [OF fields(1)] q [OF fields(4)] q [OF fields(5)] q [OF fields(6)]
      mono q_in
    by (simp add: key_risk_ok_def opt_unit_def unit_interval_bounds del: map_option_eq_Some)
qed

section \<open>Concrete runs\<close>

definition flour_ledger :: "date \<Rightarrow> int \<Rightarrow> int \<Rightarrow> daily_ledger" where
  "flour_ledger day demand short =
     \<lparr>lg_scenario_id = ''sc'', lg_date = day, lg_store_id = ''s1'', lg_ingredient_id = ''flour'', lg_unit = ''kg'',
      lg_beginning = fint 8, lg_inbound = fint 0, lg_demand = fint demand, lg_fulfilled = fint (demand - short),
      lg_shortage = fint short, lg_expired = fint 0, lg_waste = fint 0, lg_ending = fint 0, lg_maximum = fint 8,
      lg_at_risk = fint 0, lg_capacity_violation = fint 0, lg_holding_cost = None, lg_shortage_cost = None,
      lg_expiry_cost = None, lg_waste_cost = None\<rparr>"

lemma flour_ledger_ok: "daily_ledger_ok (flour_ledger 10 9 1)"
  by (simp add: daily_ledger_ok_def flour_ledger_def fint_eval)

theorem summary_total_witness:
  "\<exists>s. summarize_simulation plain_numpy [flour_ledger 10 9 1] flour_lots [] = Inr s \<and> sim_summary_ok s"
  using summary_total [of "[flour_ledger 10 9 1]" flour_lots plain_numpy "[]"] flour_ledger_ok flour_lots_good(1)
  by auto

definition flour_summary :: "int \<Rightarrow> key_summary" where
  "flour_summary short =
     \<lparr>ks_store_id = ''s1'', ks_ingredient_id = ''flour'', ks_unit = ''kg'', ks_total_demand = fint 9,
      ks_fulfilled = fint (9 - short), ks_shortage = fint short, ks_expired = fint 0, ks_waste = fint 0,
      ks_beginning = fint 8, ks_inbound = fint 0, ks_ending = fint 0, ks_maximum = fint 8, ks_fill_rate = fint 1,
      ks_days_of_supply = None, ks_at_risk = fint 0, ks_stockout_date = None, ks_stockout_events = 1,
      ks_capacity_violation = None, ks_holding_cost = None, ks_shortage_cost = None, ks_expiry_cost = None,
      ks_waste_cost = None, ks_total_cost = None\<rparr>"

theorem key_risk_total_witness:
  "\<exists>r. key_risk_metrics plain_numpy (''s1'', ''flour'', ''kg'') [flour_summary 1, flour_summary 3] [fint 1, fint 0] 0 1 = Inr r \<and>
     kr_p50_shortage r \<le> kr_p95_shortage r"
proof -
  have "\<forall>s \<in> set [flour_summary 1, flour_summary 3]. key_summary_ok s"
    by (simp add: flour_summary_def key_summary_ok_def fint_eval)
  from key_risk_total [OF plain_numpy_ok _ this, of "[fint 1, fint 0]" "(''s1'', ''flour'', ''kg'')" 0 1] show ?thesis
    by (auto simp: fint_eval known_day_weights_def flour_summary_def)
qed

end
