(* ===== verification/Simulator.thy ===== *)
theory Simulator
  imports Metrics
begin

text \<open>
  \<open>shelfcash_core/inventory/simulator.py\<close>: the lot-level simulator. One scenario is a loop
  over days and, within a day, over the store-ingredient keys in order; one iteration is
  \<open>sim_key_day\<close>, a step on the record \<open>sim_state\<close> of what the loop carries. Around it
  are the checks of the inputs, their conversion to one unit per key, and the assembly of
  the result; \<open>simulate_inventory_scenarios\<close> and \<open>simulate_quantile_inventory\<close> run the
  simulator over many scenarios.
\<close>

section \<open>Waste events\<close>

definition date_range :: "date \<Rightarrow> date \<Rightarrow> date list" where
  "date_range a b = [a..b]"

text \<open>The label only occurs in the message, which errors do not carry.\<close>

definition validate_unique :: "string list \<Rightarrow> unit py" where
  "validate_unique xs =
     raise_if (duplicates xs \<noteq> [])
       (exn InventoryValidationError [(''duplicates'', PList (map PStr (sorted_set (duplicates xs))))])"

record waste_state =
  ws_lots :: "inventory_lot list"
  ws_remaining :: f64
  ws_total :: f64
  ws_traces :: "waste_trace list"

definition waste_of :: "string \<Rightarrow> date \<Rightarrow> waste_event \<Rightarrow> inventory_lot \<Rightarrow> f64 \<Rightarrow> waste_trace" where
  "waste_of scenario_id simulation_date e l deducted =
     \<lparr>wt_scenario_id = scenario_id, wt_date = simulation_date, wt_store_id = lt_store_id l,
      wt_ingredient_id = lt_ingredient_id l, wt_lot_id = lt_lot_id l, wt_event_id = we_event_id e,
      wt_quantity = deducted, wt_unit = lt_unit l\<rparr>"

definition waste_lot_step :: "string \<Rightarrow> date \<Rightarrow> waste_event \<Rightarrow> waste_state \<Rightarrow> nat \<Rightarrow> waste_state" where
  "waste_lot_step scenario_id simulation_date e st index =
     (let l = ws_lots st ! index; deducted = min (lt_quantity l) (ws_remaining st) in
      if deducted \<le> 0 then st
      else st\<lparr>ws_lots := (ws_lots st)[index := l\<lparr>lt_quantity := lt_quantity l - deducted\<rparr>],
              ws_remaining := ws_remaining st - deducted,
              ws_total := ws_total st + deducted,
              ws_traces := ws_traces st @ [waste_of scenario_id simulation_date e l deducted]\<rparr>)"

definition waste_candidates :: "waste_event \<Rightarrow> inventory_lot list \<Rightarrow> nat list" where
  "waste_candidates e lots =
     sort_key (\<lambda>i. fefo_sort_key (lots ! i))
       (filter (\<lambda>i. we_lot_id e = None \<or> we_lot_id e = Some (lt_lot_id (lots ! i))) [0..<length lots])"

definition waste_event_step :: "string \<Rightarrow> date \<Rightarrow> f64 \<Rightarrow> waste_state \<Rightarrow> waste_event \<Rightarrow> waste_state py" where
  "waste_event_step scenario_id simulation_date tolerance st e =
     (let st' = fold (\<lambda>i s. waste_lot_step scenario_id simulation_date e s i)
                  (waste_candidates e (ws_lots st)) (st\<lparr>ws_remaining := we_quantity e\<rparr>) in
      if tolerance < ws_remaining st' then
        Inl (exn_code InventoryValidationError ''INVALID_WASTE_EVENT''
          [(''event_id'', PStr (we_event_id e)), (''requested_quantity'', PNum (we_quantity e)),
           (''unapplied_quantity'', PNum (ws_remaining st'))])
      else Inr st')"

definition apply_waste_events ::
    "inventory_lot list \<Rightarrow> waste_event list \<Rightarrow> string \<Rightarrow> date \<Rightarrow> f64 \<Rightarrow> waste_state py" where
  "apply_waste_events lots events scenario_id simulation_date tolerance =
     efold (waste_event_step scenario_id simulation_date tolerance)
       \<lparr>ws_lots = lots, ws_remaining = 0, ws_total = 0, ws_traces = []\<rparr>
       (sort_key we_event_id events)"

section \<open>One key on one day\<close>

type_synonym day_key = "date \<times> string \<times> string"

text \<open>What is fixed before the loop starts.\<close>

record sim_inputs =
  si_scenario_id :: string
  si_policy :: sim_policy
  si_key_units :: key_units
  si_demand :: "(day_key, f64) dict"
  si_inbound :: "(day_key, delivery list) dict"
  si_waste :: "(day_key, waste_event list) dict"
  si_assumptions :: "(inv_key, cost_assumption) dict"

record sim_state =
  ss_lots :: "(inv_key, inventory_lot list) dict"
  ss_ledgers :: "daily_ledger list"
  ss_consumption :: "consumption_trace list"
  ss_waste_traces :: "waste_trace list"
  ss_expiry :: "expiry_trace list"
  ss_warnings :: "string list"
  ss_stockouts :: "date list"

definition received_lot :: "delivery \<Rightarrow> inventory_lot" where
  "received_lot d =
     \<lparr>lt_lot_id = dl_lot_id d, lt_store_id = dl_store_id d, lt_ingredient_id = dl_ingredient_id d,
      lt_quantity = dl_quantity d, lt_unit = dl_unit d, lt_received_date = Some (dl_arrival_date d),
      lt_expiry_date = dl_expiry_date d, lt_tracking = dl_tracking d, lt_unit_cost = dl_unit_cost d,
      lt_location = dl_location d, lt_supplier_id = Some (dl_supplier_id d),
      lt_source_type = (if is_planned d then PlannedInboundSource else InboundSource),
      lt_source_reference_id = Some (dl_delivery_id d),
      lt_provenance = dict_merge (dl_provenance d)
        [(''arrival_condition'', PStr (arrival_condition_name (dl_arrival_condition d))),
         (''purchase_order_id'', PStr (dl_purchase_order_id d)),
         (''arrival_date'', PDate (dl_arrival_date d))]\<rparr>"

definition receive_delivery :: "delivery \<Rightarrow> inventory_lot py" where
  "receive_delivery d = contract (inventory_lot_ok (received_lot d)) (received_lot d)"

definition delivery_warnings :: "delivery \<Rightarrow> string list" where
  "delivery_warnings d =
     (if arrived_expired d then [''ARRIVED_EXPIRED''] else []) @
     (if is_planned d \<and> dl_expiry_date d = None \<and> dl_tracking d \<noteq> TrackNotRequired
      then [''PLANNED_PURCHASE_SHELF_LIFE_NOT_CONFIGURED''] else [])"

text \<open>The pass over the lots that separates the expired ones.\<close>

record expiry_state =
  es_usable :: "inventory_lot list"
  es_expired :: f64
  es_traces :: "expiry_trace list"
  es_warnings :: "string list"

definition expiry_of :: "string \<Rightarrow> date \<Rightarrow> inventory_lot \<Rightarrow> expiry_trace" where
  "expiry_of scenario_id simulation_date l =
     \<lparr>et_scenario_id = scenario_id, et_date = simulation_date, et_store_id = lt_store_id l,
      et_ingredient_id = lt_ingredient_id l, et_lot_id = lt_lot_id l, et_unit = lt_unit l,
      et_expiry_date = the (lt_expiry_date l), et_quantity = lt_quantity l,
      et_source_type = lt_source_type l, et_source_reference_id = lt_source_reference_id l,
      et_supplier_id = lt_supplier_id l, et_received_date = lt_received_date l,
      et_provenance = lt_provenance l\<rparr>"

definition expiry_step :: "string \<Rightarrow> date \<Rightarrow> sim_policy \<Rightarrow> expiry_state \<Rightarrow> inventory_lot \<Rightarrow> expiry_state py" where
  "expiry_step scenario_id simulation_date policy st l =
     ebind (is_expired l simulation_date policy) (\<lambda>expired.
     let warnings = (if unknown_expiry l then add_code ''UNKNOWN_EXPIRY_PLACED_LAST'' (es_warnings st)
                     else es_warnings st) in
     if expired then
       Inr (st\<lparr>es_expired := es_expired st + lt_quantity l,
               es_traces := es_traces st @
                 (if po_tolerance policy < lt_quantity l then [expiry_of scenario_id simulation_date l] else []),
               es_warnings := warnings\<rparr>)
     else Inr (st\<lparr>es_usable := es_usable st @ [l], es_warnings := warnings\<rparr>))"

definition expiry_pass :: "string \<Rightarrow> date \<Rightarrow> sim_policy \<Rightarrow> inventory_lot list \<Rightarrow> expiry_state py" where
  "expiry_pass scenario_id simulation_date policy lots =
     efold (expiry_step scenario_id simulation_date policy)
       \<lparr>es_usable = [], es_expired = 0, es_traces = [], es_warnings = []\<rparr> lots"

definition at_risk_lot :: "date \<Rightarrow> sim_policy \<Rightarrow> inventory_lot \<Rightarrow> bool" where
  "at_risk_lot simulation_date policy l =
     (case lt_expiry_date l of None \<Rightarrow> False
      | Some e \<Rightarrow> 0 \<le> e - simulation_date \<and> e - simulation_date \<le> po_at_risk_days policy)"

definition capacity_violation :: "cost_assumption option \<Rightarrow> f64 \<Rightarrow> f64" where
  "capacity_violation assumption maximum_quantity =
     (case assumption of None \<Rightarrow> 0
      | Some a \<Rightarrow> (case ca_capacity a of None \<Rightarrow> 0 | Some c \<Rightarrow> max 0 (maximum_quantity - c)))"

definition cost_of :: "cost_assumption option \<Rightarrow> (cost_assumption \<Rightarrow> f64) \<Rightarrow> f64 \<Rightarrow> f64 option" where
  "cost_of assumption rate quantity = map_option (\<lambda>a. quantity * rate a) assumption"

definition day_ledger ::
    "sim_inputs \<Rightarrow> date \<Rightarrow> inv_key \<Rightarrow> string \<Rightarrow> f64 \<Rightarrow> f64 \<Rightarrow> f64 \<Rightarrow> f64 \<Rightarrow> fefo_result \<Rightarrow> waste_state \<Rightarrow> daily_ledger" where
  "day_ledger ctx simulation_date key unit beginning inbound_quantity demand_quantity expired_quantity fefo waste =
     (let after_waste = ws_lots waste;
          ending = py_sum (map lt_quantity after_waste);
          maximum_quantity = beginning + inbound_quantity;
          assumption = dict_get (si_assumptions ctx) key in
      \<lparr>lg_scenario_id = si_scenario_id ctx, lg_date = simulation_date, lg_store_id = fst key,
       lg_ingredient_id = snd key, lg_unit = unit, lg_beginning = beginning, lg_inbound = inbound_quantity,
       lg_demand = demand_quantity, lg_fulfilled = fr_fulfilled fefo, lg_shortage = fr_shortage fefo,
       lg_expired = expired_quantity, lg_waste = ws_total waste, lg_ending = ending,
       lg_maximum = maximum_quantity,
       lg_at_risk = py_sum (map lt_quantity (filter (at_risk_lot simulation_date (si_policy ctx)) after_waste)),
       lg_capacity_violation = capacity_violation assumption maximum_quantity,
       lg_holding_cost = cost_of assumption ca_holding ending,
       lg_shortage_cost = cost_of assumption ca_shortage (fr_shortage fefo),
       lg_expiry_cost = cost_of assumption ca_expired expired_quantity,
       lg_waste_cost = cost_of assumption ca_waste (ws_total waste)\<rparr>)"

definition no_unit_error :: "inv_key \<Rightarrow> core_error" where
  "no_unit_error key = exn_code InventoryValidationError ''INVALID_INVENTORY_UNIT'' [(''key'', PPair key)]"

definition sim_key_day :: "sim_inputs \<Rightarrow> date \<Rightarrow> sim_state \<Rightarrow> inv_key \<Rightarrow> sim_state py" where
  "sim_key_day ctx simulation_date st key =
     (case dict_get (si_key_units ctx) key of
        None \<Rightarrow> Inl (no_unit_error key)
      | Some unit \<Rightarrow>
      (let current_lots = dict_get_or (ss_lots st) key [];
           day = (simulation_date, fst key, snd key);
           policy = si_policy ctx;
           beginning = py_sum (map lt_quantity current_lots);
           todays_inbound = dict_get_or (si_inbound ctx) day [];
           inbound_quantity = py_sum (map dl_quantity todays_inbound) in
       ebind (emap receive_delivery todays_inbound) (\<lambda>received.
       let current_lots = current_lots @ received;
           warnings = fold add_code (concat (map delivery_warnings todays_inbound)) (ss_warnings st) in
       ebind (expiry_pass (si_scenario_id ctx) simulation_date policy current_lots) (\<lambda>es.
       let demand_quantity = dict_get_or (si_demand ctx) day 0;
           warnings = fold add_code (es_warnings es) warnings in
       ebind (consume_fefo (es_usable es) demand_quantity (si_scenario_id ctx) simulation_date policy) (\<lambda>fefo.
       let warnings = fold add_code (fr_warnings fefo) warnings;
           stockouts = (if po_tolerance policy < fr_shortage fefo \<and> simulation_date \<notin> set (ss_stockouts st)
                        then ss_stockouts st @ [simulation_date] else ss_stockouts st) in
       ebind (apply_waste_events (fr_updated_lots fefo) (dict_get_or (si_waste ctx) day [])
                (si_scenario_id ctx) simulation_date (po_tolerance policy)) (\<lambda>waste.
       let ledger = day_ledger ctx simulation_date key unit beginning inbound_quantity demand_quantity
                      (es_expired es) fefo waste in
       ebind (contract (daily_ledger_ok ledger) ledger) (\<lambda>ledger.
       ebind (validate_accounting_ledger ledger (po_tolerance policy)) (\<lambda>_.
       Inr \<lparr>ss_lots = dict_set key (ws_lots waste) (ss_lots st),
            ss_ledgers = ss_ledgers st @ [ledger],
            ss_consumption = ss_consumption st @ fr_traces fefo,
            ss_waste_traces = ss_waste_traces st @ ws_traces waste,
            ss_expiry = ss_expiry st @ es_traces es,
            ss_warnings = warnings,
            ss_stockouts = stockouts\<rparr>))))))))"

definition sim_day :: "sim_inputs \<Rightarrow> inv_key list \<Rightarrow> sim_state \<Rightarrow> date \<Rightarrow> sim_state py" where
  "sim_day ctx keys st simulation_date = efold (sim_key_day ctx simulation_date) st keys"

definition sim_days :: "sim_inputs \<Rightarrow> inv_key list \<Rightarrow> date list \<Rightarrow> sim_state \<Rightarrow> sim_state py" where
  "sim_days ctx keys days st = efold (sim_day ctx keys) st days"

section \<open>Inputs of a run\<close>

definition policy_or_default :: "sim_policy option \<Rightarrow> sim_policy" where
  "policy_or_default policy = (case policy of None \<Rightarrow> default_policy | Some p \<Rightarrow> p)"

definition first_some :: "'a option list \<Rightarrow> 'a \<Rightarrow> 'a" where
  "first_some xs dflt = (case somes xs of [] \<Rightarrow> dflt | x # _ \<Rightarrow> x)"

text \<open>The simulated window and the checks on it.\<close>

definition sim_window ::
    "demand_scenario \<Rightarrow> date option \<Rightarrow> date option \<Rightarrow> (date \<times> date) py" where
  "sim_window scenario start_override end_override =
     (if sc_lines scenario = [] then Inl (exn InventoryValidationError [])
      else (let demand_start = py_min (map ln_target_date (sc_lines scenario));
                demand_end = py_max (map ln_target_date (sc_lines scenario));
                start_date = first_some [start_override, sc_start_date scenario] demand_start;
                end_date = first_some [end_override, sc_end_date scenario] demand_end in
        if end_date < start_date \<or> demand_start < start_date \<or> end_date < demand_end then
          Inl (exn_code InventoryValidationError ''HORIZON_MISMATCH''
            [(''simulation_start_date'', PDate start_date), (''simulation_end_date'', PDate end_date),
             (''demand_start_date'', PDate demand_start), (''demand_end_date'', PDate demand_end)])
        else Inr (start_date, end_date)))"

definition snapshot_ok :: "date \<Rightarrow> inventory_lot \<Rightarrow> bool" where
  "snapshot_ok snapshot_date l \<longleftrightarrow>
     (case lt_received_date l of None \<Rightarrow> True | Some d \<Rightarrow> \<not> snapshot_date < d)"

definition check_snapshot ::
    "date \<Rightarrow> inventory_lot list \<Rightarrow> delivery list \<Rightarrow> waste_event list \<Rightarrow> unit py" where
  "check_snapshot start_date lots deliveries events =
     ebind (raise_if (\<not> list_all (snapshot_ok (start_date - 1)) lots)
       (exn InventoryValidationError [(''expected_snapshot_date'', PDate (start_date - 1))])) (\<lambda>_.
     ebind (raise_if (list_ex (\<lambda>d. dl_arrival_date d < start_date) deliveries)
       (exn InventoryValidationError [])) (\<lambda>_.
     raise_if (list_ex (\<lambda>e. we_event_date e < start_date) events)
       (exn_code InventoryValidationError ''INVALID_WASTE_EVENT'' [])))"

definition check_identifiers :: "inventory_lot list \<Rightarrow> delivery list \<Rightarrow> waste_event list \<Rightarrow> unit py" where
  "check_identifiers lots deliveries events =
     ebind (validate_unique (map lt_lot_id lots)) (\<lambda>_.
     ebind (validate_unique (map dl_delivery_id deliveries)) (\<lambda>_.
     ebind (validate_unique (map lt_lot_id lots @ map dl_lot_id deliveries)) (\<lambda>_.
     validate_unique (map we_event_id events))))"

text \<open>The inputs in one unit per key; \<open>except BOMError\<close> becomes \<open>INVALID_INVENTORY_UNIT\<close>.\<close>

record canonical_inputs =
  cn_target_units :: key_units
  cn_lots :: "inventory_lot list"
  cn_deliveries :: "delivery list"
  cn_waste :: "waste_event list"
  cn_assumptions :: "cost_assumption list"

definition wrap_bom_error :: "core_error \<Rightarrow> core_error" where
  "wrap_bom_error e =
     (if is_bom_error e then exn_code InventoryValidationError ''INVALID_INVENTORY_UNIT'' (err_details e) else e)"

definition canonicalize ::
    "'c pandas \<Rightarrow> 'c data_frame option \<Rightarrow> demand_scenario \<Rightarrow> inventory_lot list \<Rightarrow> delivery list \<Rightarrow>
     waste_event list \<Rightarrow> cost_assumption list \<Rightarrow> canonical_inputs py" where
  "canonicalize pd unit_conversions scenario lots deliveries events cost_assumptions =
     map_error wrap_bom_error
      (ebind (unit_converter_from_frame pd unit_conversions) (\<lambda>converter.
       ebind (demand_target_units scenario) (\<lambda>target_units.
       ebind (normalize_lots lots target_units converter) (\<lambda>lots.
       ebind (normalize_inbound deliveries target_units converter) (\<lambda>deliveries.
       ebind (normalize_waste_events events target_units converter) (\<lambda>waste.
       ebind (normalize_cost_assumptions cost_assumptions target_units converter) (\<lambda>assumptions.
       Inr \<lparr>cn_target_units = target_units, cn_lots = lots, cn_deliveries = deliveries,
            cn_waste = waste, cn_assumptions = assumptions\<rparr>)))))))"

definition lot_key :: "inventory_lot \<Rightarrow> inv_key" where
  "lot_key l = (lt_store_id l, lt_ingredient_id l)"

definition delivery_key :: "delivery \<Rightarrow> inv_key" where
  "delivery_key d = (dl_store_id d, dl_ingredient_id d)"

definition waste_key :: "waste_event \<Rightarrow> inv_key" where
  "waste_key e = (we_store_id e, we_ingredient_id e)"

definition assumption_key :: "cost_assumption \<Rightarrow> inv_key" where
  "assumption_key a = (ca_store_id a, ca_ingredient_id a)"

definition add_assumption ::
    "(inv_key, cost_assumption) dict \<Rightarrow> cost_assumption \<Rightarrow> (inv_key, cost_assumption) dict py" where
  "add_assumption m a =
     (if dict_get m (assumption_key a) \<noteq> None then
        Inl (exn InventoryValidationError [(''key'', PPair (assumption_key a))])
      else Inr (dict_set (assumption_key a) a m))"

text \<open>Every input of a key must be in one unit: first over all items, then over the lots.\<close>

definition all_key_units :: "canonical_inputs \<Rightarrow> key_units py" where
  "all_key_units cn =
     efold (\<lambda>units (key, unit). set_key_unit units key unit) (cn_target_units cn)
       (map (\<lambda>l. (lot_key l, lt_unit l)) (cn_lots cn) @ map (\<lambda>d. (delivery_key d, dl_unit d)) (cn_deliveries cn) @
        map (\<lambda>e. (waste_key e, we_unit e)) (cn_waste cn) @ map (\<lambda>a. (assumption_key a, ca_unit a)) (cn_assumptions cn))"

definition check_lot_units :: "inv_key \<times> inventory_lot list \<Rightarrow> unit py" where
  "check_lot_units entry =
     (let units = sorted_set (map lt_unit (snd entry)) in
      raise_if (1 < length units)
        (exn_code InventoryValidationError ''INVALID_INVENTORY_UNIT''
          [(''key'', PPair (fst entry)), (''units'', PList (map PStr units))]))"

definition inventory_keys :: "canonical_inputs \<Rightarrow> inv_key list" where
  "inventory_keys cn =
     sorted_set (map lot_key (cn_lots cn) @ dict_keys (cn_target_units cn) @
       map delivery_key (cn_deliveries cn) @ map waste_key (cn_waste cn))"

definition demand_by_day :: "demand_scenario \<Rightarrow> (day_key, f64) dict" where
  "demand_by_day scenario =
     fold (\<lambda>l. dict_set (ln_target_date l, ln_store_id l, ln_ingredient_id l) (ln_quantity l)) (sc_lines scenario) []"

definition delivery_day :: "delivery \<Rightarrow> day_key" where
  "delivery_day d = (dl_arrival_date d, dl_store_id d, dl_ingredient_id d)"

definition waste_day :: "waste_event \<Rightarrow> day_key" where
  "waste_day e = (we_event_date e, we_store_id e, we_ingredient_id e)"

text \<open>What the loop is given, and the state it starts from.\<close>

record sim_setup =
  su_inputs :: sim_inputs
  su_keys :: "inv_key list"
  su_start :: sim_state
  su_capacity_keys :: "inv_key list"
  su_cost_evaluated :: bool

definition prepare ::
    "sim_policy \<Rightarrow> demand_scenario \<Rightarrow> date \<Rightarrow> delivery list \<Rightarrow> canonical_inputs \<Rightarrow> sim_setup py" where
  "prepare policy scenario end_date all_deliveries cn =
     ebind (efold add_assumption [] (cn_assumptions cn)) (\<lambda>assumption_map.
     ebind (all_key_units cn) (\<lambda>units.
     let lots_by_key = group_by lot_key (cn_lots cn) in
     ebind (emap check_lot_units lots_by_key) (\<lambda>_.
     let keys = inventory_keys cn;
         cost_evaluated = list_all (\<lambda>k. dict_get assumption_map k \<noteq> None) keys;
         warnings = fold add_code
           (sc_warnings scenario @
            (if list_ex (\<lambda>d. end_date < dl_arrival_date d) all_deliveries
             then [''INBOUND_AFTER_HORIZON_NOT_REALIZED''] else []) @
            (if list_ex (\<lambda>e. end_date < we_event_date e) (cn_waste cn)
             then [''WASTE_EVENT_AFTER_HORIZON_NOT_REALIZED''] else []) @
            (if cost_evaluated then [] else [''CONSEQUENCE_COST_NOT_EVALUATED''])) [] in
     Inr \<lparr>su_inputs = \<lparr>si_scenario_id = sc_scenario_id scenario, si_policy = policy, si_key_units = units,
              si_demand = demand_by_day scenario, si_inbound = group_by delivery_day (cn_deliveries cn),
              si_waste = group_by waste_day (cn_waste cn), si_assumptions = assumption_map\<rparr>,
          su_keys = keys,
          su_start = \<lparr>ss_lots = lots_by_key, ss_ledgers = [], ss_consumption = [], ss_waste_traces = [],
              ss_expiry = [], ss_warnings = warnings, ss_stockouts = []\<rparr>,
          su_capacity_keys =
            sorted_set (map fst (filter (\<lambda>(k, a). ca_capacity a \<noteq> None) assumption_map)),
          su_cost_evaluated = cost_evaluated\<rparr>)))"

section \<open>Result of a run\<close>

definition ending_lots :: "sim_policy \<Rightarrow> (inv_key, inventory_lot list) dict \<Rightarrow> inventory_lot list" where
  "ending_lots policy lots_by_key =
     concat (map (\<lambda>(key, lots). filter (\<lambda>l. po_tolerance policy < lt_quantity l) (sort_key fefo_sort_key lots))
       (sort_key fst lots_by_key))"

definition drops_traces :: "sim_policy \<Rightarrow> string \<Rightarrow> bool" where
  "drops_traces policy scenario_id \<longleftrightarrow>
     po_trace_retention policy = RetainSummary \<or>
     (po_trace_retention policy = RetainSelected \<and> scenario_id \<notin> set (po_trace_scenario_ids policy))"

definition run_provenance ::
    "sim_policy \<Rightarrow> demand_scenario \<Rightarrow> date \<Rightarrow> delivery list \<Rightarrow> sim_setup \<Rightarrow> date option \<Rightarrow> date option \<Rightarrow> payload" where
  "run_provenance policy scenario start_date planned_inbound su start_override end_override =
     dict_merge (sc_provenance scenario)
       [(''initial_inventory_snapshot_date'', PDate (start_date - 1)),
        (''expiry_inclusive'', PBool (po_expiry_inclusive policy)),
        (''unknown_expiry_policy'', PStr (unknown_expiry_name (po_unknown_expiry policy))),
        (''planned_inbound_is_supplied_action'', PBool (planned_inbound \<noteq> [])),
        (''capacity_evaluated'', PBool (su_capacity_keys su \<noteq> [])),
        (''capacity_evaluated_keys'', PList (map (\<lambda>k. PDict [(''store_id'', PStr (fst k)), (''ingredient_id'', PStr (snd k))])
           (su_capacity_keys su))),
        (''capacity_evaluation_status'',
           PStr (if su_capacity_keys su \<noteq> [] then ''evaluated'' else ''not_configured'')),
        (''capacity_checkpoint'', PStr ''post_receipt_pre_expiry_pre_consumption''),
        (''consequence_cost_evaluated'', PBool (su_cost_evaluated su)),
        (''simulation_window_source'',
           PStr (if start_override \<noteq> None \<or> end_override \<noteq> None \<or>
                    sc_start_date scenario \<noteq> None \<or> sc_end_date scenario \<noteq> None
                 then ''explicit'' else ''demand_inferred_backward_compatibility''))]"

definition assemble ::
    "numpy \<Rightarrow> sim_policy \<Rightarrow> demand_scenario \<Rightarrow> date \<times> date \<Rightarrow> sim_setup \<Rightarrow> payload \<Rightarrow> sim_state \<Rightarrow> sim_result py" where
  "assemble np policy scenario window su provenance st =
     (let lots = ending_lots policy (ss_lots st);
          drop = drops_traces policy (sc_scenario_id scenario) in
      ebind (summarize_simulation np (ss_ledgers st) lots (su_capacity_keys su)) (\<lambda>summary.
      Inr \<lparr>sr_scenario_id = sc_scenario_id scenario, sr_probability_weight = sc_probability_weight scenario,
           sr_start_date = fst window, sr_end_date = snd window, sr_ledgers = ss_ledgers st,
           sr_consumption_traces = (if drop then [] else ss_consumption st),
           sr_waste_traces = (if drop then [] else ss_waste_traces st),
           sr_expiry_traces = (if drop then [] else ss_expiry st),
           sr_ending_lots = lots, sr_stockout_dates = sorted_set (ss_stockouts st),
           sr_summary = summary, sr_accounting_valid = True, sr_provenance = provenance,
           sr_warnings = sorted_set (ss_warnings st)\<rparr>))"

definition simulate_inventory ::
    "numpy \<Rightarrow> 'c pandas \<Rightarrow> inventory_lot list \<Rightarrow> demand_scenario \<Rightarrow> delivery list \<Rightarrow> delivery list \<Rightarrow>
     waste_event list \<Rightarrow> sim_policy option \<Rightarrow> 'c data_frame option \<Rightarrow> cost_assumption list \<Rightarrow>
     date option \<Rightarrow> date option \<Rightarrow> sim_result py" where
  "simulate_inventory np pd initial_inventory scenario inbound planned_inbound events policy unit_conversions
       cost_assumptions start_override end_override =
     (let policy = policy_or_default policy; all_deliveries = inbound @ planned_inbound in
      ebind (sim_window scenario start_override end_override) (\<lambda>(start_date, end_date).
      ebind (check_snapshot start_date initial_inventory all_deliveries events) (\<lambda>_.
      ebind (check_identifiers initial_inventory all_deliveries events) (\<lambda>_.
      ebind (canonicalize pd unit_conversions scenario initial_inventory all_deliveries events cost_assumptions) (\<lambda>cn.
      ebind (prepare policy scenario end_date all_deliveries cn) (\<lambda>su.
      ebind (sim_days (su_inputs su) (su_keys su) (date_range start_date end_date) (su_start su)) (\<lambda>st.
      assemble np policy scenario (start_date, end_date) su
        (run_provenance policy scenario start_date planned_inbound su start_override end_override) st)))))))"

section \<open>What one step does\<close>

lemma sim_key_dayE:
  assumes "sim_key_day ctx dt st key = Inr st'"
  obtains unit received es fefo waste where
    "dict_get (si_key_units ctx) key = Some unit"
    "emap receive_delivery (dict_get_or (si_inbound ctx) (dt, fst key, snd key) []) = Inr received"
    "expiry_pass (si_scenario_id ctx) dt (si_policy ctx) (dict_get_or (ss_lots st) key [] @ received) = Inr es"
    "consume_fefo (es_usable es) (dict_get_or (si_demand ctx) (dt, fst key, snd key) 0) (si_scenario_id ctx) dt (si_policy ctx) = Inr fefo"
    "apply_waste_events (fr_updated_lots fefo) (dict_get_or (si_waste ctx) (dt, fst key, snd key) [])
       (si_scenario_id ctx) dt (po_tolerance (si_policy ctx)) = Inr waste"
    "daily_ledger_ok (last (ss_ledgers st'))"
    "validate_accounting_ledger (last (ss_ledgers st')) (po_tolerance (si_policy ctx)) = Inr ()"
    "ss_lots st' = dict_set key (ws_lots waste) (ss_lots st)"
    "ss_ledgers st' = ss_ledgers st @ [day_ledger ctx dt key unit
       (py_sum (map lt_quantity (dict_get_or (ss_lots st) key [])))
       (py_sum (map dl_quantity (dict_get_or (si_inbound ctx) (dt, fst key, snd key) [])))
       (dict_get_or (si_demand ctx) (dt, fst key, snd key) 0) (es_expired es) fefo waste]"
    "ss_consumption st' = ss_consumption st @ fr_traces fefo"
    "ss_waste_traces st' = ss_waste_traces st @ ws_traces waste"
    "ss_expiry st' = ss_expiry st @ es_traces es"
    "ss_stockouts st' = (if po_tolerance (si_policy ctx) < fr_shortage fefo \<and> dt \<notin> set (ss_stockouts st)
       then ss_stockouts st @ [dt] else ss_stockouts st)"
proof -
  obtain unit where u: "dict_get (si_key_units ctx) key = Some unit"
    using assms by (cases "dict_get (si_key_units ctx) key") (auto simp: sim_key_day_def)
  show ?thesis
    using assms unfolding sim_key_day_def u option.case Let_def
    by (elim ebind_InrE) (rule that [OF u], assumption, assumption, assumption, assumption; clarsimp)
qed

text \<open>Loop rule for the whole simulation.\<close>

lemma sim_days_invariant:
  assumes "sim_days ctx keys days st = Inr st'" "P st"
    and "\<And>s d k s'. P s \<Longrightarrow> d \<in> set days \<Longrightarrow> k \<in> set keys \<Longrightarrow> sim_key_day ctx d s k = Inr s' \<Longrightarrow> P s'"
  shows "P st'"
proof (rule efold_invariant [OF assms(1) [unfolded sim_days_def], of P])
  show "P st" by (rule assms(2))
  fix s d s' assume s: "P s" "d \<in> set days" "sim_day ctx keys s d = Inr s'"
  show "P s'"
    by (rule efold_invariant [OF s(3) [unfolded sim_day_def], of P]) (use s assms(3) in auto)
qed

section \<open>The ledgers of a run\<close>

definition ledger_slot :: "daily_ledger \<Rightarrow> date \<times> inv_key" where
  "ledger_slot g = (lg_date g, lg_store_id g, lg_ingredient_id g)"

lemma day_ledger_sel [simp]:
  "lg_date (day_ledger ctx dt key unit b i d x fefo waste) = dt"
  "lg_store_id (day_ledger ctx dt key unit b i d x fefo waste) = fst key"
  "lg_ingredient_id (day_ledger ctx dt key unit b i d x fefo waste) = snd key"
  "lg_beginning (day_ledger ctx dt key unit b i d x fefo waste) = b"
  "lg_inbound (day_ledger ctx dt key unit b i d x fefo waste) = i"
  "lg_demand (day_ledger ctx dt key unit b i d x fefo waste) = d"
  "lg_expired (day_ledger ctx dt key unit b i d x fefo waste) = x"
  "lg_fulfilled (day_ledger ctx dt key unit b i d x fefo waste) = fr_fulfilled fefo"
  "lg_shortage (day_ledger ctx dt key unit b i d x fefo waste) = fr_shortage fefo"
  "lg_waste (day_ledger ctx dt key unit b i d x fefo waste) = ws_total waste"
  "lg_ending (day_ledger ctx dt key unit b i d x fefo waste) = py_sum (map lt_quantity (ws_lots waste))"
  "lg_maximum (day_ledger ctx dt key unit b i d x fefo waste) = b + i"
  "lg_scenario_id (day_ledger ctx dt key unit b i d x fefo waste) = si_scenario_id ctx"
  "lg_unit (day_ledger ctx dt key unit b i d x fefo waste) = unit"
  by (simp_all add: day_ledger_def Let_def)

lemma sim_day_slots:
  "efold (sim_key_day ctx d) st keys = Inr st' \<Longrightarrow>
     map ledger_slot (ss_ledgers st') = map ledger_slot (ss_ledgers st) @ map (Pair d) keys"
proof (induction keys arbitrary: st)
  case (Cons k ks)
  from Cons.prems obtain s where s: "sim_key_day ctx d st k = Inr s" "efold (sim_key_day ctx d) s ks = Inr st'"
    by (auto simp: ebind_Inr_iff)
  from s(1) have "map ledger_slot (ss_ledgers s) = map ledger_slot (ss_ledgers st) @ [(d, k)]"
    by (elim sim_key_dayE) (simp add: ledger_slot_def)
  with Cons.IH [OF s(2)] show ?case by simp
qed simp

lemma sim_days_slots:
  "efold (sim_day ctx keys) st days = Inr st' \<Longrightarrow>
     map ledger_slot (ss_ledgers st') = map ledger_slot (ss_ledgers st) @ concat (map (\<lambda>d. map (Pair d) keys) days)"
proof (induction days arbitrary: st)
  case (Cons d ds)
  from Cons.prems obtain s where s: "sim_day ctx keys st d = Inr s" "efold (sim_day ctx keys) s ds = Inr st'"
    by (auto simp: ebind_Inr_iff)
  from Cons.IH [OF s(2)] sim_day_slots [OF s(1) [unfolded sim_day_def]] show ?case by simp
qed simp

lemma simulate_inventoryE:
  assumes "simulate_inventory np pd lots scenario inbound planned events policy uc ca so eo = Inr r"
  obtains a b cn su st where
    "sim_window scenario so eo = Inr (a, b)"
    "check_snapshot a lots (inbound @ planned) events = Inr ()"
    "check_identifiers lots (inbound @ planned) events = Inr ()"
    "canonicalize pd uc scenario lots (inbound @ planned) events ca = Inr cn"
    "prepare (policy_or_default policy) scenario b (inbound @ planned) cn = Inr su"
    "sim_days (su_inputs su) (su_keys su) (date_range a b) (su_start su) = Inr st"
    "assemble np (policy_or_default policy) scenario (a, b) su
       (run_provenance (policy_or_default policy) scenario a planned su so eo) st = Inr r"
proof -
  from assms obtain a b where w: "sim_window scenario so eo = Inr (a, b)"
    by (cases "sim_window scenario so eo") (auto simp: simulate_inventory_def)
  show ?thesis
    using assms unfolding simulate_inventory_def Let_def w ebind_simps prod.case
    by (elim ebind_InrE) (rule that [OF w]; simp)
qed

lemma assemble_Inr:
  assumes "assemble np policy scenario window su pv st = Inr r"
  shows "sr_ledgers r = ss_ledgers st" "sr_start_date r = fst window" "sr_end_date r = snd window"
    "sr_scenario_id r = sc_scenario_id scenario" "sr_probability_weight r = sc_probability_weight scenario"
    "sr_ending_lots r = ending_lots policy (ss_lots st)" "sr_stockout_dates r = sorted_set (ss_stockouts st)"
    "sr_accounting_valid r" "set (sr_consumption_traces r) \<subseteq> set (ss_consumption st)"
    "summarize_simulation np (ss_ledgers st) (ending_lots policy (ss_lots st)) (su_capacity_keys su) = Inr (sr_summary r)"
  using assms by (auto simp: assemble_def Let_def elim!: ebind_InrE split: if_splits)

lemma prepareE:
  assumes "prepare policy scenario b ds cn = Inr su"
  obtains am units where
    "efold add_assumption [] (cn_assumptions cn) = Inr am"
    "all_key_units cn = Inr units"
    "su_keys su = inventory_keys cn"
    "su_inputs su = \<lparr>si_scenario_id = sc_scenario_id scenario, si_policy = policy, si_key_units = units,
              si_demand = demand_by_day scenario, si_inbound = group_by delivery_day (cn_deliveries cn),
              si_waste = group_by waste_day (cn_waste cn), si_assumptions = am\<rparr>"
    "ss_lots (su_start su) = group_by lot_key (cn_lots cn)" "ss_ledgers (su_start su) = []"
    "ss_consumption (su_start su) = []" "ss_stockouts (su_start su) = []"
proof -
  from assms obtain am units where
    am: "efold add_assumption [] (cn_assumptions cn) = Inr am" and units: "all_key_units cn = Inr units"
    unfolding prepare_def by (elim ebind_InrE)
  show ?thesis
    using assms unfolding prepare_def am units ebind_simps Let_def
    by (elim ebind_InrE) (rule that [OF am units]; auto)
qed

definition ledger_balanced :: "sim_policy \<Rightarrow> daily_ledger \<Rightarrow> bool" where
  "ledger_balanced p g \<longleftrightarrow>
     daily_ledger_ok g \<and> isclose (ledger_expected g) (lg_ending g) (po_tolerance p) (po_tolerance p)"

lemma sim_key_day_balanced:
  assumes "sim_key_day ctx d st k = Inr st'" "list_all (ledger_balanced (si_policy ctx)) (ss_ledgers st)"
  shows "list_all (ledger_balanced (si_policy ctx)) (ss_ledgers st')"
  using assms(1)
proof (rule sim_key_dayE)
qed (use assms(2) in \<open>auto simp: ledger_balanced_def ledger_validated\<close>)

lemma run_ledgers:
  assumes "simulate_inventory np pd lots scenario inbound planned events policy uc ca so eo = Inr r"
  shows "\<exists>keys. sorted keys \<and> distinct keys \<and>
    map ledger_slot (sr_ledgers r) =
      concat (map (\<lambda>day. map (Pair day) keys) [sr_start_date r..sr_end_date r]) \<and>
    list_all (ledger_balanced (policy_or_default policy)) (sr_ledgers r) \<and> sr_accounting_valid r"
proof -
  from assms obtain a b cn su st where
    p: "prepare (policy_or_default policy) scenario b (inbound @ planned) cn = Inr su"
    and run: "sim_days (su_inputs su) (su_keys su) (date_range a b) (su_start su) = Inr st"
    and r: "assemble np (policy_or_default policy) scenario (a, b) su
       (run_provenance (policy_or_default policy) scenario a planned su so eo) st = Inr r"
    by (rule simulate_inventoryE)
  from p obtain keys: "su_keys su = inventory_keys cn" and pol: "si_policy (su_inputs su) = policy_or_default policy"
    and l0: "ss_ledgers (su_start su) = []" by (rule prepareE) auto
  note R = assemble_Inr [OF r]
  have "list_all (ledger_balanced (si_policy (su_inputs su))) (ss_ledgers st)"
    by (rule sim_days_invariant [OF run]) (auto simp: l0 intro: sim_key_day_balanced)
  moreover have "map ledger_slot (ss_ledgers st) = concat (map (\<lambda>day. map (Pair day) (su_keys su)) [a..b])"
    using sim_days_slots [OF run [unfolded sim_days_def date_range_def]] by (simp add: l0)
  ultimately show ?thesis using R pol by (intro exI [of _ "su_keys su"]) (simp add: keys inventory_keys_def)
qed

text \<open>The ledgers of a run. A successful run has exactly one ledger per day of its window and per
  store-ingredient key, day by day with the keys in order, and every one of them has
  non-negative entries and passes the accounting identity.\<close>

theorem simulation_ledgers_complete:
  assumes "simulate_inventory np pd lots scenario inbound planned events policy uc ca so eo = Inr r"
  shows "\<exists>keys. sorted keys \<and> distinct keys \<and>
    map ledger_slot (sr_ledgers r) =
      concat (map (\<lambda>day. map (Pair day) keys) [sr_start_date r..sr_end_date r]) \<and>
    list_all (ledger_balanced (policy_or_default policy)) (sr_ledgers r) \<and> sr_accounting_valid r"
  by (rule run_ledgers [OF assms])

section \<open>Stock rolls forward\<close>

text \<open>The first ledger opens with \<open>b\<close>, each opens with what the one before closed with, the last closes with \<open>e\<close>.\<close>

fun rolls :: "f64 \<Rightarrow> daily_ledger list \<Rightarrow> f64 \<Rightarrow> bool" where
  "rolls b [] e = (b = e)"
| "rolls b (g # gs) e = (lg_beginning g = b \<and> rolls (lg_ending g) gs e)"

lemma rolls_snoc: "rolls b (gs @ [g]) e \<longleftrightarrow> rolls b gs (lg_beginning g) \<and> lg_ending g = e"
  by (induction gs arbitrary: b) auto

definition inv_key_of :: "daily_ledger \<Rightarrow> inv_key" where
  "inv_key_of g = (lg_store_id g, lg_ingredient_id g)"

definition stock :: "inventory_lot list \<Rightarrow> f64" where
  "stock lots = py_sum (map lt_quantity lots)"

definition rolled :: "(inv_key, inventory_lot list) dict \<Rightarrow> sim_state \<Rightarrow> bool" where
  "rolled lots0 st \<longleftrightarrow> (\<forall>k. rolls (stock (dict_get_or lots0 k []))
     (filter (\<lambda>g. inv_key_of g = k) (ss_ledgers st)) (stock (dict_get_or (ss_lots st) k [])))"

lemma sim_key_day_rolls:
  assumes "sim_key_day ctx d st k = Inr st'" "rolled lots0 st"
  shows "rolled lots0 st'"
  using assms(1)
proof (rule sim_key_dayE)
qed (use assms(2) in \<open>auto simp: rolled_def inv_key_of_def dict_get_or_set rolls_snoc stock_def\<close>)

text \<open>C1: stock rolls forward. For every key the first day opens with the stock of the converted initial
  lots and every later day opens with exactly the quantity the day before closed with; no
  day loses or gains stock overnight, rounding included.\<close>

theorem stock_rolls_forward:
  assumes "simulate_inventory np pd lots scenario inbound planned events policy uc ca so eo = Inr r"
  shows "\<exists>cn. canonicalize pd uc scenario lots (inbound @ planned) events ca = Inr cn \<and>
    (\<forall>k. \<exists>closing. rolls (stock (filter (\<lambda>l. lot_key l = k) (cn_lots cn)))
       (filter (\<lambda>g. inv_key_of g = k) (sr_ledgers r)) closing)"
proof -
  from assms obtain a b cn su st where cn: "canonicalize pd uc scenario lots (inbound @ planned) events ca = Inr cn"
    and p: "prepare (policy_or_default policy) scenario b (inbound @ planned) cn = Inr su"
    and run: "sim_days (su_inputs su) (su_keys su) (date_range a b) (su_start su) = Inr st"
    and r: "assemble np (policy_or_default policy) scenario (a, b) su
       (run_provenance (policy_or_default policy) scenario a planned su so eo) st = Inr r"
    by (rule simulate_inventoryE)
  from p obtain l0: "ss_ledgers (su_start su) = []" and lots0: "ss_lots (su_start su) = group_by lot_key (cn_lots cn)"
    by (rule prepareE) auto
  have "rolled (ss_lots (su_start su)) st"
  proof (rule sim_days_invariant [OF run])
    show "rolled (ss_lots (su_start su)) (su_start su)" by (simp add: rolled_def l0)
  qed (rule sim_key_day_rolls)
  then show ?thesis
    using cn assemble_Inr [OF r] by (auto simp: rolled_def lots0 group_by_get)
qed

section \<open>Stockout dates\<close>

definition stockouts_match :: "sim_policy \<Rightarrow> sim_state \<Rightarrow> bool" where
  "stockouts_match p st \<longleftrightarrow>
     set (ss_stockouts st) = lg_date ` set (filter (\<lambda>g. po_tolerance p < lg_shortage g) (ss_ledgers st))"

lemma sim_key_day_stockouts:
  assumes "sim_key_day ctx d st k = Inr st'" "stockouts_match (si_policy ctx) st"
  shows "stockouts_match (si_policy ctx) st'"
  using assms(1)
proof (rule sim_key_dayE)
qed (use assms(2) in \<open>simp add: stockouts_match_def insert_absorb\<close>)

text \<open>The stockout dates are exactly the days on which some key's shortage exceeds the accounting
  tolerance, in order and without repetition.\<close>

theorem stockout_dates_exact:
  assumes "simulate_inventory np pd lots scenario inbound planned events policy uc ca so eo = Inr r"
  shows "sorted (sr_stockout_dates r) \<and> distinct (sr_stockout_dates r) \<and>
    set (sr_stockout_dates r) =
      lg_date ` {g \<in> set (sr_ledgers r). po_tolerance (policy_or_default policy) < lg_shortage g}"
proof -
  from assms obtain a b cn su st where
    p: "prepare (policy_or_default policy) scenario b (inbound @ planned) cn = Inr su"
    and run: "sim_days (su_inputs su) (su_keys su) (date_range a b) (su_start su) = Inr st"
    and r: "assemble np (policy_or_default policy) scenario (a, b) su
       (run_provenance (policy_or_default policy) scenario a planned su so eo) st = Inr r"
    by (rule simulate_inventoryE)
  from p obtain l0: "ss_ledgers (su_start su) = []" and s0: "ss_stockouts (su_start su) = []"
    and pol: "si_policy (su_inputs su) = policy_or_default policy"
    by (rule prepareE) auto
  have "stockouts_match (si_policy (su_inputs su)) st"
  proof (rule sim_days_invariant [OF run])
    show "stockouts_match (si_policy (su_inputs su)) (su_start su)" by (simp add: stockouts_match_def l0 s0)
  qed (rule sim_key_day_stockouts)
  then show ?thesis
    using assemble_Inr [OF r] by (simp add: stockouts_match_def pol)
qed

section \<open>Errors of the simulator\<close>

text \<open>\<open>no_bom m\<close>: if the computation raises, the exception is not a \<open>BOMError\<close>.\<close>

definition no_bom :: "'a py \<Rightarrow> bool" where
  "no_bom m \<longleftrightarrow> (\<forall>e. m = Inl e \<longrightarrow> \<not> is_bom_error e)"

named_theorems no_bom_intros \<open>computations that raise no BOM error\<close>

lemma no_bom_exn [simp]:
  "is_bom_error (exn c d) = is_bom_class c" "is_bom_error (exn_code c k d) = is_bom_class c"
  "is_bom_error value_error = False"
  by (simp_all add: is_bom_error_def value_error_def)

lemma no_bom_Inl [simp]: "no_bom (Inl e) \<longleftrightarrow> \<not> is_bom_error e" and no_bom_Inr [simp]: "no_bom (Inr x)"
  by (simp_all add: no_bom_def)

lemma no_bom_ebind [no_bom_intros]: "no_bom m \<Longrightarrow> (\<And>x. no_bom (f x)) \<Longrightarrow> no_bom (ebind m f)"
  by (cases m) (auto simp: no_bom_def)

lemma no_bom_raise_if [no_bom_intros]: "\<not> is_bom_error e \<Longrightarrow> no_bom (raise_if b e)"
  by (simp add: no_bom_def)

lemma no_bom_contract [no_bom_intros]: "no_bom (contract b x)"
  by (simp add: contract_def)

lemma no_bom_py_div [no_bom_intros]: "no_bom (py_div a b)"
  by (simp add: py_div_def)

lemma no_bom_py_div_opt [no_bom_intros]: "no_bom (py_div_opt a b)"
  by (cases a) (auto simp: py_div_opt_def intro!: no_bom_ebind no_bom_py_div)

lemma no_bom_emap [no_bom_intros]: "(\<And>x. no_bom (f x)) \<Longrightarrow> no_bom (emap f xs)"
  by (induction xs) (auto intro!: no_bom_ebind)

lemma no_bom_efold [no_bom_intros]: "(\<And>s x. no_bom (f s x)) \<Longrightarrow> no_bom (efold f s xs)"
  by (induction xs arbitrary: s) (auto intro!: no_bom_ebind)

lemma no_bom_if [no_bom_intros]: "(b \<Longrightarrow> no_bom x) \<Longrightarrow> (\<not> b \<Longrightarrow> no_bom y) \<Longrightarrow> no_bom (if b then x else y)"
  by simp

lemma no_bom_window [no_bom_intros]: "no_bom (sim_window s a b)"
  by (simp add: sim_window_def Let_def)

lemma no_bom_validate_unique [no_bom_intros]: "no_bom (validate_unique xs)"
  by (simp add: validate_unique_def no_bom_raise_if)

lemma no_bom_snapshot [no_bom_intros]: "no_bom (check_snapshot d ls ds es)"
  unfolding check_snapshot_def by (intro no_bom_intros) simp_all

lemma no_bom_identifiers [no_bom_intros]: "no_bom (check_identifiers ls ds es)"
  unfolding check_identifiers_def by (intro no_bom_intros)

lemma wrap_not_bom: "\<not> is_bom_error (wrap_bom_error e)"
  by (simp add: wrap_bom_error_def)

lemma no_bom_canonicalize [no_bom_intros]: "no_bom (canonicalize pd uc s ls ds es ca)"
  unfolding canonicalize_def by (auto simp: no_bom_def map_error_def wrap_not_bom split: sum.splits)

lemma no_bom_set_key_unit [no_bom_intros]: "no_bom (set_key_unit u k v)"
  by (simp add: set_key_unit_def unit_conflict_def split: option.split)

lemma no_bom_prepare [no_bom_intros]: "no_bom (prepare p s d ds cn)"
  unfolding prepare_def Let_def all_key_units_def check_lot_units_def case_prod_unfold add_assumption_def
  by (intro no_bom_intros) simp_all

lemma no_bom_is_expired [no_bom_intros]: "no_bom (is_expired l d p)"
  by (simp add: is_expired_def unknown_expiry_error_def split: option.split)

lemma no_bom_expiry_pass [no_bom_intros]: "no_bom (expiry_pass s d p ls)"
  unfolding expiry_pass_def expiry_step_def Let_def by (intro no_bom_intros) simp_all

lemma no_bom_consume [no_bom_intros]: "no_bom (consume_fefo ls d s dt p)"
  unfolding consume_fefo_def fefo_step_def Let_def
  by (intro no_bom_intros) (simp_all add: unknown_expiry_error_def)

lemma no_bom_waste [no_bom_intros]: "no_bom (apply_waste_events ls es s dt t)"
  unfolding apply_waste_events_def waste_event_step_def Let_def by (intro no_bom_intros) simp_all

lemma no_bom_accounting [no_bom_intros]: "no_bom (validate_accounting_ledger g t)"
  unfolding validate_accounting_ledger_def by (intro no_bom_intros) simp

lemma no_bom_receive [no_bom_intros]: "no_bom (receive_delivery d)"
  unfolding receive_delivery_def by (intro no_bom_intros)

lemma no_bom_key_day [no_bom_intros]: "no_bom (sim_key_day ctx d st k)"
proof (cases "dict_get (si_key_units ctx) k")
  case None
  then show ?thesis by (simp add: sim_key_day_def no_unit_error_def)
next
  case (Some u)
  show ?thesis unfolding sim_key_day_def Some option.case Let_def by (intro no_bom_intros) simp
qed

lemma no_bom_days [no_bom_intros]: "no_bom (sim_days ctx keys days st)"
  unfolding sim_days_def sim_day_def by (intro no_bom_intros)

lemma no_bom_summarize [no_bom_intros]: "no_bom (summarize_simulation np gs ls ks)"
  unfolding summarize_simulation_def summarize_key_def summary_of_keys_def Let_def case_prod_unfold
  by (intro no_bom_intros) simp_all

lemma no_bom_assemble [no_bom_intros]: "no_bom (assemble np p s w su pv st)"
  unfolding assemble_def Let_def by (intro no_bom_intros) simp

text \<open>A run never lets an exception of the BOM escape. Whatever the inputs, if the simulator raises,
  the exception is not a \<open>BOMError\<close>: the unit and conversion errors of the inputs have been
  turned into \<open>InventoryValidationError\<close>.\<close>

theorem simulation_wraps_bom_errors:
  "case simulate_inventory np pd lots scenario inbound planned events policy uc ca so eo of
      Inr r \<Rightarrow> True | Inl e \<Rightarrow> \<not> is_bom_error e"
proof -
  have "no_bom (simulate_inventory np pd lots scenario inbound planned events policy uc ca so eo)"
    unfolding simulate_inventory_def Let_def case_prod_unfold by (intro no_bom_intros)
  then show ?thesis by (simp add: no_bom_def split: sum.splits)
qed

section \<open>Lots are used between their arrival and their expiry\<close>

text \<open>What a lot keeps through conversion, consumption and waste.\<close>

type_synonym lot_stamp = "string \<times> tracking_mode \<times> date option \<times> date option"

definition stamp :: "inventory_lot \<Rightarrow> lot_stamp" where
  "stamp l = (lt_lot_id l, lt_tracking l, lt_expiry_date l, lt_received_date l)"

definition stamps :: "inventory_lot list \<Rightarrow> lot_stamp set" where
  "stamps ls = stamp ` set ls"

lemma stamp_quantity [simp]: "stamp (l\<lparr>lt_quantity := q\<rparr>) = stamp l"
  by (simp add: stamp_def)

lemma stamps_append [simp]: "stamps (xs @ ys) = stamps xs \<union> stamps ys"
  by (auto simp: stamps_def)

lemma stamps_simps [simp]: "stamps [] = {}" "stamps (x # xs) = insert (stamp x) (stamps xs)"
  by (simp_all add: stamps_def)

lemma stamp_usable: "stamp x = stamp y \<Longrightarrow> usable d p x \<longleftrightarrow> usable d p y"
  by (auto simp: stamp_def usable_def is_expired_def split: option.splits)

lemma stamp_sel: "stamp x = stamp y \<Longrightarrow> lt_lot_id x = lt_lot_id y \<and> lt_expiry_date x = lt_expiry_date y \<and>
    lt_received_date x = lt_received_date y"
  by (simp add: stamp_def)

lemma stamps_update:
  assumes "i < length xs" "stamp y = stamp (xs ! i)"
  shows "stamps (xs[i := y]) = stamps xs"
proof -
  have "map stamp (xs[i := y]) = map stamp xs"
    using assms by (simp add: map_update list_update_same_conv)
  then show ?thesis by (metis stamps_def list.set_map)
qed

text \<open>A consumption trace names a usable lot of the list it was taken from.\<close>

definition traced :: "inventory_lot list \<Rightarrow> date \<Rightarrow> sim_policy \<Rightarrow> consumption_trace \<Rightarrow> bool" where
  "traced ls d p t \<longleftrightarrow> (\<exists>l \<in> set ls. ct_lot_id t = lt_lot_id l \<and> ct_lot_expiry t = lt_expiry_date l \<and>
     usable d p l \<and> ct_date t = d \<and> 0 < ct_quantity t)"

lemma consume_fefo_traced:
  assumes "consume_fefo ls dem s d p = Inr r"
  shows "stamps (fr_updated_lots r) \<subseteq> stamps ls \<and> (\<forall>t \<in> set (fr_traces r). traced ls d p t)"
proof -
  let ?P = "\<lambda>st. stamps (fs_updated st) \<subseteq> stamps ls \<and> (\<forall>t \<in> set (fs_traces st). traced ls d p t)"
  from assms obtain st where st: "efold (fefo_step s d p)
      \<lparr>fs_remaining = dem, fs_updated = [], fs_traces = [], fs_warnings = []\<rparr> (sort_key fefo_sort_key ls) = Inr st"
    and r: "fr_updated_lots r = fs_updated st" "fr_traces r = fs_traces st"
    by (auto simp: consume_fefo_def Let_def elim!: ebind_InrE)
  have "?P st"
  proof (rule efold_invariant [OF st, of ?P])
    show "?P \<lparr>fs_remaining = dem, fs_updated = [], fs_traces = [], fs_warnings = []\<rparr>" by (simp add: stamps_def)
    fix u l u' assume u: "?P u" "l \<in> set (sort_key fefo_sort_key ls)" "fefo_step s d p u l = Inr u'"
    have l: "l \<in> set ls" "stamp l \<in> stamps ls" using u(2) by (simp_all add: stamps_def)
    from u(3) obtain w e where e: "is_expired l d p = Inr e"
      and u': "(if e then Inr (u\<lparr>fs_updated := fs_updated u @ [l], fs_warnings := w\<rparr>)
        else (let consumed = min (lt_quantity l) (fs_remaining u); new_quantity = lt_quantity l - consumed in
          Inr \<lparr>fs_remaining = (if 0 < consumed then fs_remaining u - consumed else fs_remaining u),
             fs_updated = fs_updated u @ [l\<lparr>lt_quantity := new_quantity\<rparr>],
             fs_traces = fs_traces u @ (if 0 < consumed then [consumption s d l consumed] else []),
             fs_warnings = w\<rparr>)) = (Inr u' :: fefo_state py)"
      unfolding fefo_step_def by (elim ebind_InrE)
    have "traced ls d p (consumption s d l c)" if "0 < c" "\<not> e" for c
      unfolding traced_def by (rule bexI [OF _ l(1)]) (use that e in \<open>simp add: consumption_def usable_def\<close>)
    then show "?P u'" using u(1) u' l(2) by (cases e) (auto simp: Let_def)
  qed
  then show ?thesis by (simp add: r)
qed

lemma expiry_fold:
  "efold (expiry_step s d p) st ls = Inr es \<Longrightarrow>
     es_usable es = es_usable st @ filter (usable d p) ls \<and>
     es_expired es = fold (\<lambda>x acc. acc + x) (map lt_quantity (filter (\<lambda>l. \<not> usable d p l) ls)) (es_expired st)"
proof (induction ls arbitrary: st)
  case Nil
  then show ?case by simp
next
  case (Cons l ls)
  from Cons.prems obtain u where u: "expiry_step s d p st l = Inr u" "efold (expiry_step s d p) u ls = Inr es"
    by (auto simp: ebind_Inr_iff)
  from u(1) obtain e where e: "is_expired l d p = Inr e" unfolding expiry_step_def by (elim ebind_InrE)
  from u(1) Cons.IH [OF u(2)] show ?case by (cases e) (auto simp: expiry_step_def e Let_def usable_def)
qed

lemma expiry_pass_spec:
  assumes "expiry_pass s d p ls = Inr es"
  shows "es_usable es = filter (usable d p) ls"
    "es_expired es = running_sum (map lt_quantity (filter (\<lambda>l. \<not> usable d p l) ls))"
  using expiry_fold [OF assms [unfolded expiry_pass_def]] by (simp_all add: running_sum_def)

lemma waste_lot_step_stamps:
  assumes "i < length (ws_lots st)"
  shows "stamps (ws_lots (waste_lot_step s d e st i)) = stamps (ws_lots st) \<and>
    length (ws_lots (waste_lot_step s d e st i)) = length (ws_lots st)"
  using assms by (simp add: waste_lot_step_def Let_def stamps_update)

lemma waste_fold_stamps:
  "\<forall>i \<in> set is. i < length (ws_lots st) \<Longrightarrow>
   stamps (ws_lots (fold (\<lambda>i st. waste_lot_step s d e st i) is st)) = stamps (ws_lots st)"
  by (induction "is" arbitrary: st) (auto simp: waste_lot_step_stamps)

lemma apply_waste_stamps:
  assumes "apply_waste_events ls es s d t = Inr w"
  shows "stamps (ws_lots w) = stamps ls"
proof -
  let ?P = "\<lambda>st. stamps (ws_lots st) = stamps ls"
  show ?thesis
  proof (rule efold_invariant [OF assms [unfolded apply_waste_events_def], of ?P])
    fix u e u' assume u: "?P u" "waste_event_step s d t u e = Inr u'"
    have "\<forall>i \<in> set (waste_candidates e (ws_lots u)). i < length (ws_lots (u\<lparr>ws_remaining := we_quantity e\<rparr>))"
      by (auto simp: waste_candidates_def)
    from waste_fold_stamps [OF this, where s = s and d = d and e = e] u show "?P u'"
      by (auto simp: waste_event_step_def Let_def split: if_splits)
  qed simp
qed

text \<open>Loop rule with the day: what holds on a day holds on the days after it.\<close>

lemma sim_days_sorted_invariant:
  assumes "efold (sim_day ctx keys) st days = Inr st'" "sorted days" "\<forall>x \<in> set days. a \<le> x" "P a st"
    and "\<And>d s k s'. P d s \<Longrightarrow> sim_key_day ctx d s k = Inr s' \<Longrightarrow> P d s'"
    and "\<And>d d' s. P d s \<Longrightarrow> d \<le> d' \<Longrightarrow> P d' s"
  shows "\<exists>d. P d st'"
  using assms(1-4)
proof (induction days arbitrary: st a)
  case Nil
  then show ?case by auto
next
  case (Cons d ds)
  from Cons.prems(1) obtain s where s: "sim_day ctx keys st d = Inr s" "efold (sim_day ctx keys) s ds = Inr st'"
    by (auto simp: ebind_Inr_iff)
  have "P d st" using assms(6) [OF Cons.prems(4)] Cons.prems(3) by simp
  then have "P d s"
    using efold_invariant [OF s(1) [unfolded sim_day_def], of "P d"] assms(5) by blast
  then show ?case using Cons.IH [OF s(2), of d] Cons.prems(2) by auto
qed

definition received_by :: "date \<Rightarrow> lot_stamp \<Rightarrow> bool" where
  "received_by d x \<longleftrightarrow> (case snd (snd (snd x)) of None \<Rightarrow> True | Some r \<Rightarrow> r \<le> d)"

text \<open>The trace comes from one of the stamped lots, on hand and not expired on the day.\<close>

definition justified :: "inventory_lot list \<Rightarrow> sim_policy \<Rightarrow> consumption_trace \<Rightarrow> bool" where
  "justified sources p t \<longleftrightarrow>
     (\<exists>l \<in> set sources. ct_lot_id t = lt_lot_id l \<and> ct_lot_expiry t = lt_expiry_date l \<and>
        usable (ct_date t) p l \<and> received_by (ct_date t) (stamp l))"

definition origin_inv :: "inventory_lot list \<Rightarrow> sim_policy \<Rightarrow> date \<Rightarrow> sim_state \<Rightarrow> bool" where
  "origin_inv sources p d st \<longleftrightarrow>
     (\<forall>k. stamps (dict_get_or (ss_lots st) k []) \<subseteq> {x \<in> stamps sources. received_by d x}) \<and>
     (\<forall>t \<in> set (ss_consumption st). justified sources p t)"

lemma origin_inv_later: "origin_inv sources p d st \<Longrightarrow> d \<le> d' \<Longrightarrow> origin_inv sources p d' st"
  by (fastforce simp: origin_inv_def received_by_def split: option.splits)

definition inbound_from :: "inventory_lot list \<Rightarrow> sim_inputs \<Rightarrow> bool" where
  "inbound_from sources ctx \<longleftrightarrow> (\<forall>day. \<forall>x \<in> set (dict_get_or (si_inbound ctx) day []).
     dl_arrival_date x = fst day \<and> stamp (received_lot x) \<in> stamps sources)"

lemma receive_delivery_Inr: "receive_delivery d = Inr l \<Longrightarrow> l = received_lot d"
  by (simp add: receive_delivery_def)

lemma sim_key_day_origin:
  assumes "sim_key_day ctx d st k = Inr st'" "origin_inv sources (si_policy ctx) d st" "inbound_from sources ctx"
  shows "origin_inv sources (si_policy ctx) d st'"
  using assms(1)
proof (rule sim_key_dayE)
  fix unit received es fefo waste
  let ?day = "(d, fst k, snd k)" and ?p = "si_policy ctx"
  let ?ok = "{x \<in> stamps sources. received_by d x}"
  assume rec: "emap receive_delivery (dict_get_or (si_inbound ctx) ?day []) = Inr received"
    and es: "expiry_pass (si_scenario_id ctx) d ?p (dict_get_or (ss_lots st) k [] @ received) = Inr es"
    and fefo: "consume_fefo (es_usable es) (dict_get_or (si_demand ctx) ?day 0) (si_scenario_id ctx) d ?p = Inr fefo"
    and waste: "apply_waste_events (fr_updated_lots fefo) (dict_get_or (si_waste ctx) ?day [])
       (si_scenario_id ctx) d (po_tolerance ?p) = Inr waste"
    and lots: "ss_lots st' = dict_set k (ws_lots waste) (ss_lots st)"
    and cons: "ss_consumption st' = ss_consumption st @ fr_traces fefo"
  have "stamps received \<subseteq> ?ok"
  proof
    fix x assume "x \<in> stamps received"
    then obtain l where l: "l \<in> set received" "x = stamp l" by (auto simp: stamps_def)
    from emap_in_set [OF rec l(1)] obtain y where y: "y \<in> set (dict_get_or (si_inbound ctx) ?day [])"
      "l = received_lot y" by (auto dest: receive_delivery_Inr)
    have "dl_arrival_date y = d" "stamp l \<in> stamps sources"
      using assms(3) [unfolded inbound_from_def, rule_format, of y ?day] y by simp_all
    then show "x \<in> ?ok" using y l(2) by (simp add: received_by_def stamp_def received_lot_def)
  qed
  moreover have "stamps (dict_get_or (ss_lots st) k []) \<subseteq> ?ok" using assms(2) unfolding origin_inv_def by blast
  ultimately have "stamps (dict_get_or (ss_lots st) k [] @ received) \<subseteq> ?ok" by simp
  then have us: "stamps (es_usable es) \<subseteq> ?ok" using expiry_pass_spec(1) [OF es] by (auto simp: stamps_def)
  have ws: "stamps (ws_lots waste) \<subseteq> ?ok"
    using us consume_fefo_traced [OF fefo] apply_waste_stamps [OF waste] by blast
  have "justified sources ?p t" if "t \<in> set (fr_traces fefo)" for t
  proof -
    from consume_fefo_traced [OF fefo] that obtain l where l: "l \<in> set (es_usable es)"
      "ct_lot_id t = lt_lot_id l" "ct_lot_expiry t = lt_expiry_date l" "usable d ?p l" "ct_date t = d"
      unfolding traced_def by blast
    then obtain x where "x \<in> set sources" "stamp x = stamp l" "received_by d (stamp l)"
      using us by (auto simp: stamps_def)
    with l stamp_usable [of x l d ?p] stamp_sel [of x l] show ?thesis
      unfolding justified_def by (intro bexI [of _ x]) auto
  qed
  with ws assms(2) show ?thesis
    by (auto simp: origin_inv_def lots cons dict_get_or_set)
qed

lemma canonicalizeE:
  assumes "canonicalize pd uc scenario lots ds es ca = Inr cn"
  obtains converter where
    "unit_converter_from_frame pd uc = Inr converter"
    "demand_target_units scenario = Inr (cn_target_units cn)"
    "normalize_lots lots (cn_target_units cn) converter = Inr (cn_lots cn)"
    "normalize_inbound ds (cn_target_units cn) converter = Inr (cn_deliveries cn)"
    "normalize_waste_events es (cn_target_units cn) converter = Inr (cn_waste cn)"
    "normalize_cost_assumptions ca (cn_target_units cn) converter = Inr (cn_assumptions cn)"
proof -
  from assms obtain converter where c: "unit_converter_from_frame pd uc = Inr converter"
    unfolding canonicalize_def map_error_Inr_iff by (elim ebind_InrE)
  show ?thesis
    using assms unfolding canonicalize_def map_error_Inr_iff c ebind_simps
    by (elim ebind_InrE) (rule that [OF c]; clarsimp)
qed

lemma normalize_lot_stamp: "normalize_lot tu c l = Inr l' \<Longrightarrow> stamp l' = stamp l"
  by (auto simp: normalize_lot_def stamp_def elim!: ebind_InrE)

lemma normalize_delivery_stamp:
  "normalize_delivery tu c d = Inr d' \<Longrightarrow>
     stamp (received_lot d') = stamp (received_lot d) \<and> dl_arrival_date d' = dl_arrival_date d"
  by (auto simp: normalize_delivery_def stamp_def received_lot_def elim!: ebind_InrE)

lemma normalize_lots_stamps: "normalize_lots ls tu c = Inr ls' \<Longrightarrow> stamps ls' \<subseteq> stamps ls"
  by (fastforce simp: normalize_lots_def stamps_def dest: emap_in_set normalize_lot_stamp)

lemma sim_setup_sources:
  assumes "check_snapshot a lots ds es = Inr ()" "canonicalize pd uc scenario lots ds es ca = Inr cn"
    and "prepare p scenario b ds cn = Inr su"
  shows "inbound_from (lots @ map received_lot ds) (su_inputs su)"
    "origin_inv (lots @ map received_lot ds) p a (su_start su)"
    "si_policy (su_inputs su) = p"
proof -
  let ?src = "lots @ map received_lot ds"
  from assms(2) obtain c where l: "normalize_lots lots (cn_target_units cn) c = Inr (cn_lots cn)"
    and d: "normalize_inbound ds (cn_target_units cn) c = Inr (cn_deliveries cn)" by (rule canonicalizeE)
  from assms(3) obtain inb: "si_inbound (su_inputs su) = group_by delivery_day (cn_deliveries cn)"
    and pol: "si_policy (su_inputs su) = p" and lots0: "ss_lots (su_start su) = group_by lot_key (cn_lots cn)"
    and c0: "ss_consumption (su_start su) = []" by (rule prepareE) auto
  show "si_policy (su_inputs su) = p" by (rule pol)
  have "dl_arrival_date x = fst day \<and> stamp (received_lot x) \<in> stamps ?src"
    if x: "x \<in> set (dict_get_or (si_inbound (su_inputs su)) day [])" for x day
  proof -
    from x have "x \<in> set (cn_deliveries cn)" "delivery_day x = day" by (auto simp: inb group_by_get)
    with emap_in_set [OF d [unfolded normalize_inbound_def]] obtain y where "y \<in> set ds"
      "stamp (received_lot x) = stamp (received_lot y)" using normalize_delivery_stamp by blast
    with \<open>delivery_day x = day\<close> show ?thesis by (auto simp: delivery_day_def stamps_def)
  qed
  then show "inbound_from ?src (su_inputs su)" by (simp add: inbound_from_def)
  have rb: "received_by a x" if "x \<in> stamps lots" for x
    using that assms(1) by (auto simp: stamps_def stamp_def received_by_def check_snapshot_def ebind_Inr_iff
        list_all_iff snapshot_ok_def split: option.splits)
  have "stamps (dict_get_or (ss_lots (su_start su)) k []) \<subseteq> stamps lots" for k
    using normalize_lots_stamps [OF l] by (auto simp: lots0 group_by_get stamps_def)
  with rb show "origin_inv ?src p a (su_start su)" by (fastforce simp: origin_inv_def c0)
qed

text \<open>C3: no lot is used before it arrives or after it expires. Every consumption trace of a run comes
  from a lot of the initial snapshot or of a delivery that was received on or before that
  day and that the expiry policy still allows on that day.\<close>

theorem consumption_is_causal:
  assumes "simulate_inventory np pd lots scenario inbound planned events policy uc ca so eo = Inr r"
    and "t \<in> set (sr_consumption_traces r)"
  shows "justified (lots @ map received_lot (inbound @ planned)) (policy_or_default policy) t"
proof -
  let ?p = "policy_or_default policy" and ?src = "lots @ map received_lot (inbound @ planned)"
  from assms(1) obtain a b cn su st where sn: "check_snapshot a lots (inbound @ planned) events = Inr ()"
    and cn: "canonicalize pd uc scenario lots (inbound @ planned) events ca = Inr cn"
    and p: "prepare ?p scenario b (inbound @ planned) cn = Inr su"
    and run: "sim_days (su_inputs su) (su_keys su) (date_range a b) (su_start su) = Inr st"
    and r: "assemble np ?p scenario (a, b) su (run_provenance ?p scenario a planned su so eo) st = Inr r"
    by (rule simulate_inventoryE)
  note src = sim_setup_sources [OF sn cn p]
  have "\<exists>d. origin_inv ?src ?p d st"
  proof (rule sim_days_sorted_invariant [OF run [unfolded sim_days_def], of a])
    show "origin_inv ?src ?p a (su_start su)" by (rule src(2))
    show "origin_inv ?src ?p d s'" if "origin_inv ?src ?p d s" "sim_key_day (su_inputs su) d s k = Inr s'" for d s k s'
      using sim_key_day_origin [OF that(2) _ src(1)] that(1) by (simp add: src(3))
  qed (auto simp: date_range_def intro: origin_inv_later)
  then show ?thesis using assemble_Inr(9) [OF r] assms(2) by (auto simp: origin_inv_def)
qed

section \<open>Demand reaches the ledgers\<close>

definition line_slot :: "demand_line \<Rightarrow> date \<times> inv_key" where
  "line_slot l = (ln_target_date l, ln_store_id l, ln_ingredient_id l)"

lemma index_by_get:
  assumes "x \<in> set xs" "distinct (map f xs)"
  shows "map_of (fold (\<lambda>x. dict_set (f x) (g x)) xs d) (f x) = Some (g x)"
  using assms
proof (induction xs arbitrary: d)
  case (Cons y ys)
  have other: "map_of (fold (\<lambda>x. dict_set (f x) (g x)) ys d) k = map_of d k" if "k \<notin> f ` set ys" for d k
    using that by (induction ys arbitrary: d) (auto simp: dict_get_set)
  from Cons show ?case by (cases "x = y") (auto simp: other dict_get_set)
qed simp

lemma index_by_none:
  "k \<notin> f ` set xs \<Longrightarrow> map_of (fold (\<lambda>x. dict_set (f x) (g x)) xs d) k = map_of d k"
  by (induction xs arbitrary: d) (auto simp: dict_get_set)

lemma demand_by_day_line:
  assumes "demand_scenario_ok scenario" "l \<in> set (sc_lines scenario)"
  shows "dict_get_or (demand_by_day scenario) (line_slot l) 0 = ln_quantity l"
proof -
  have "distinct (map line_slot (sc_lines scenario))"
  proof -
    have d: "distinct (sc_lines scenario)" "inj_on line_day_key (set (sc_lines scenario))"
      using assms(1) by (simp_all add: demand_scenario_ok_def distinct_map)
    have "inj_on line_slot (set (sc_lines scenario))"
    proof (rule inj_onI)
      fix x y assume xy: "x \<in> set (sc_lines scenario)" "y \<in> set (sc_lines scenario)" "line_slot x = line_slot y"
      then have "line_day_key x = line_day_key y" by (simp add: line_slot_def line_day_key_def)
      then show "x = y" using inj_onD [OF d(2) _ xy(1,2)] by blast
    qed
    with d(1) show ?thesis by (simp add: distinct_map)
  qed
  from index_by_get [OF assms(2) this, of ln_quantity "[]"] show ?thesis
    by (simp add: demand_by_day_def dict_get_or_def line_slot_def)
qed

lemma demand_by_day_none:
  "k \<notin> line_slot ` set (sc_lines scenario) \<Longrightarrow> dict_get_or (demand_by_day scenario) k 0 = 0"
  using index_by_none [of k line_slot "sc_lines scenario" ln_quantity "[]"]
  by (simp add: demand_by_day_def dict_get_or_def line_slot_def)

lemma set_key_unit_keys: "set_key_unit u k v = Inr u' \<Longrightarrow> set (dict_keys u') = insert k (set (dict_keys u))"
  by (auto simp: set_key_unit_def dict_keys_set_eq simp del: set_map split: option.splits if_splits)

definition demand_key :: "demand_line \<Rightarrow> inv_key" where
  "demand_key l = (ln_store_id l, ln_ingredient_id l)"

lemma demand_target_units_keys:
  assumes "demand_target_units scenario = Inr tu"
  shows "set (dict_keys tu) = demand_key ` set (sc_lines scenario)"
proof -
  let ?f = "\<lambda>units l. ebind (normalize_unit (ln_unit l)) (\<lambda>unit. set_key_unit units (demand_key l) unit)"
  have "efold ?f u ls = Inr tu \<Longrightarrow> set (dict_keys tu) = demand_key ` set ls \<union> set (dict_keys u)" for u ls
  proof (induction ls arbitrary: u)
    case (Cons l ls)
    from Cons.prems obtain v u' where "set_key_unit u (demand_key l) v = Inr u'" "efold ?f u' ls = Inr tu"
      unfolding efold.simps by (elim ebind_InrE)
    from Cons.IH [OF this(2)] set_key_unit_keys [OF this(1)] show ?case by (simp only: list.set image_insert) blast
  next
    case Nil
    then show ?case by (simp del: set_map)
  qed
  from this [of "[]" "sc_lines scenario"] assms show ?thesis
    by (simp add: demand_target_units_def demand_key_def del: set_map)
qed

definition demand_recorded :: "sim_inputs \<Rightarrow> sim_state \<Rightarrow> bool" where
  "demand_recorded ctx st \<longleftrightarrow> (\<forall>g \<in> set (ss_ledgers st). lg_demand g = dict_get_or (si_demand ctx) (ledger_slot g) 0)"

lemma sim_key_day_demand:
  assumes "sim_key_day ctx d st k = Inr st'" "demand_recorded ctx st"
  shows "demand_recorded ctx st'"
  using assms(1)
proof (rule sim_key_dayE)
qed (use assms(2) in \<open>auto simp: demand_recorded_def ledger_slot_def\<close>)

lemma sim_window_covers:
  assumes "sim_window scenario so eo = Inr (a, b)" "l \<in> set (sc_lines scenario)"
  shows "a \<le> ln_target_date l" "ln_target_date l \<le> b"
proof -
  let ?ds = "map ln_target_date (sc_lines scenario)"
  have ne: "?ds \<noteq> []" using assms(2) by auto
  have mem: "ln_target_date l \<in> set ?ds" using assms(2) by simp
  have "py_min ?ds \<le> ln_target_date l" "ln_target_date l \<le> py_max ?ds"
    using py_min_le [OF mem] py_max_ge [OF mem] by simp_all
  then show "a \<le> ln_target_date l" "ln_target_date l \<le> b"
    using assms(1) ne by (auto simp: sim_window_def Let_def not_less split: if_splits)
qed

text \<open>Every demand line is simulated, and nothing else. Each line of the scenario has a ledger for
  its date, store and ingredient carrying exactly its quantity, and a ledger without a line
  has demand zero.\<close>

theorem demand_reaches_ledgers:
  assumes "demand_scenario_ok scenario"
    and "simulate_inventory np pd lots scenario inbound planned events policy uc ca so eo = Inr r"
  shows "(\<forall>l \<in> set (sc_lines scenario). \<exists>g \<in> set (sr_ledgers r). ledger_slot g = line_slot l \<and> lg_demand g = ln_quantity l) \<and>
    (\<forall>g \<in> set (sr_ledgers r). ledger_slot g \<in> line_slot ` set (sc_lines scenario) \<or> lg_demand g = 0)"
proof -
  from assms(2) obtain a b cn su st where w: "sim_window scenario so eo = Inr (a, b)"
    and cn: "canonicalize pd uc scenario lots (inbound @ planned) events ca = Inr cn"
    and p: "prepare (policy_or_default policy) scenario b (inbound @ planned) cn = Inr su"
    and run: "sim_days (su_inputs su) (su_keys su) (date_range a b) (su_start su) = Inr st"
    and r: "assemble np (policy_or_default policy) scenario (a, b) su
       (run_provenance (policy_or_default policy) scenario a planned su so eo) st = Inr r"
    by (rule simulate_inventoryE)
  from p obtain keys: "su_keys su = inventory_keys cn" and dem: "si_demand (su_inputs su) = demand_by_day scenario"
    and l0: "ss_ledgers (su_start su) = []" by (rule prepareE) auto
  have "demand_recorded (su_inputs su) st"
  proof (rule sim_days_invariant [OF run])
    show "demand_recorded (su_inputs su) (su_start su)" by (simp add: demand_recorded_def l0)
  qed (rule sim_key_day_demand)
  then have rec: "lg_demand g = dict_get_or (demand_by_day scenario) (ledger_slot g) 0" if "g \<in> set (ss_ledgers st)" for g
    using that by (simp add: demand_recorded_def dem)
  have slots: "ledger_slot ` set (ss_ledgers st) = {a..b} \<times> set (su_keys su)"
    using arg_cong [OF sim_days_slots [OF run [unfolded sim_days_def date_range_def]], of set] by (auto simp: l0)
  from cn have "set (dict_keys (cn_target_units cn)) = demand_key ` set (sc_lines scenario)"
    by (rule canonicalizeE) (rule demand_target_units_keys)
  then have key: "demand_key l \<in> set (su_keys su)" if "l \<in> set (sc_lines scenario)" for l
    using that unfolding keys inventory_keys_def set_sorted_set set_append by blast
  have "\<exists>g \<in> set (ss_ledgers st). ledger_slot g = line_slot l \<and> lg_demand g = ln_quantity l"
    if l: "l \<in> set (sc_lines scenario)" for l
  proof -
    have "line_slot l \<in> ledger_slot ` set (ss_ledgers st)"
      unfolding slots using sim_window_covers [OF w l] key [OF l] by (simp add: line_slot_def demand_key_def)
    then obtain g where g: "g \<in> set (ss_ledgers st)" "ledger_slot g = line_slot l" by auto
    with rec [OF g(1)] demand_by_day_line [OF assms(1) l] show ?thesis by auto
  qed
  with rec demand_by_day_none [of _ scenario] assemble_Inr(1) [OF r] show ?thesis by metis
qed

section \<open>A day in whole units balances exactly\<close>

text \<open>Waste moves quantity from the lots to the total.\<close>

definition waste_inv :: "rat \<Rightarrow> waste_state \<Rightarrow> bool" where
  "waste_inv amount st \<longleftrightarrow> whole_lots (ws_lots st) \<and> whole (ws_remaining st) \<and> whole (ws_total st) \<and>
     lots_total (ws_lots st) + rat_of (ws_total st) = amount"

lemma whole_lots_update:
  assumes "whole_lots ls" "i < length ls" "whole q"
  shows "whole_lots (ls[i := (ls ! i)\<lparr>lt_quantity := q\<rparr>])"
    "lots_total (ls[i := (ls ! i)\<lparr>lt_quantity := q\<rparr>]) = lots_total ls + rat_of q - rat_of (lt_quantity (ls ! i))"
  using assms
proof (induction ls arbitrary: i)
  case (Cons l ls)
  { case 1 then show ?case using Cons.IH(1) by (cases i) (auto simp: inventory_lot_ok_def whole_nonneg) }
  { case 2 then show ?case using Cons.IH(2) by (cases i) auto }
qed simp_all

lemma waste_lot_step_inv:
  assumes "waste_inv amount st" "amount \<le> 2 ^ 53" "i < length (ws_lots st)"
  shows "waste_inv amount (waste_lot_step s d e st i)"
proof -
  let ?l = "ws_lots st ! i"
  define c where "c = min (lt_quantity ?l) (ws_remaining st)"
  have w: "whole (lt_quantity ?l)" "whole (ws_remaining st)" "whole_lots (ws_lots st)"
    using assms(1,3) by (auto simp: waste_inv_def whole_lots_def)
  have c: "whole c" "c \<le> lt_quantity ?l" "c \<le> ws_remaining st" using w by (auto simp: c_def whole_min)
  note q = whole_diff [OF w(1) c(1) c(2)] and rem = whole_diff [OF w(2) c(1) c(3)]
  note up = whole_lots_update [OF w(3) assms(3) q [THEN conjunct1]]
  have rest: "rat_of c + rat_of (ws_total st) \<le> amount"
  proof -
    have "0 \<le> lots_total ((ws_lots st)[i := ?l\<lparr>lt_quantity := lt_quantity ?l - c\<rparr>])"
      by (rule whole_lots_total [OF up(1)])
    then show ?thesis using up(2) q assms(1) by (simp add: waste_inv_def)
  qed
  have tot: "whole (ws_total st + c)" "rat_of (ws_total st + c) = rat_of (ws_total st) + rat_of c"
    using whole_add [of "ws_total st" c] assms(1,2) c(1) rest by (simp_all add: waste_inv_def)
  show ?thesis
    using assms(1) up q rem tot by (simp add: waste_inv_def waste_lot_step_def Let_def c_def)
qed

lemma waste_lot_step_length [simp]: "length (ws_lots (waste_lot_step s d e st i)) = length (ws_lots st)"
  by (simp add: waste_lot_step_def Let_def)

lemma waste_fold_inv:
  assumes "waste_inv amount st" "amount \<le> 2 ^ 53" "\<forall>i \<in> set is. i < length (ws_lots st)"
  shows "waste_inv amount (fold (\<lambda>i st. waste_lot_step s d e st i) is st)"
  using assms
proof (induction "is" arbitrary: st)
  case (Cons i "is")
  have "waste_inv amount (waste_lot_step s d e st i)" by (rule waste_lot_step_inv) (use Cons.prems in auto)
  from Cons.IH [OF this Cons.prems(2)] Cons.prems(3) show ?case by simp
qed simp

lemma apply_waste_whole:
  assumes "whole_lots ls" "lots_total ls \<le> 2 ^ 53" "\<forall>e \<in> set es. whole (we_quantity e)"
    and "apply_waste_events ls es s d t = Inr w"
  shows "waste_inv (lots_total ls) w"
proof (rule efold_invariant [OF assms(4) [unfolded apply_waste_events_def], of "waste_inv (lots_total ls)"])
  show "waste_inv (lots_total ls) \<lparr>ws_lots = ls, ws_remaining = 0, ws_total = 0, ws_traces = []\<rparr>"
    using assms(1) by (simp add: waste_inv_def)
  fix u e u' assume u: "waste_inv (lots_total ls) u" "e \<in> set (sort_key we_event_id es)" "waste_event_step s d t u e = Inr u'"
  have i: "waste_inv (lots_total ls) (u\<lparr>ws_remaining := we_quantity e\<rparr>)"
    using u(1,2) assms(3) by (simp add: waste_inv_def)
  have "\<forall>i \<in> set (waste_candidates e (ws_lots u)). i < length (ws_lots (u\<lparr>ws_remaining := we_quantity e\<rparr>))"
    by (auto simp: waste_candidates_def)
  from waste_fold_inv [OF i assms(2) this, where s = s and d = d and e = e] u(3)
  show "waste_inv (lots_total ls) u'" by (auto simp: waste_event_step_def Let_def split: if_splits)
qed

lemma apply_waste_Inl:
  "apply_waste_events ls es s d t = Inl e \<Longrightarrow> es \<noteq> [] \<and> err_code e = ''INVALID_WASTE_EVENT''"
proof -
  have "efold (waste_event_step s d t) st xs = Inl e \<Longrightarrow> err_code e = ''INVALID_WASTE_EVENT''" for st xs
  proof (induction xs arbitrary: st)
    case (Cons x xs)
    then show ?case
      by (cases "waste_event_step s d t st x") (auto simp: waste_event_step_def Let_def split: if_splits)
  qed simp
  then show "apply_waste_events ls es s d t = Inl e \<Longrightarrow> es \<noteq> [] \<and> err_code e = ''INVALID_WASTE_EVENT''"
    by (auto simp: apply_waste_events_def)
qed

lemma received_lot_ok: "delivery_ok d \<Longrightarrow> inventory_lot_ok (received_lot d)"
  by (auto simp: delivery_ok_def inventory_lot_ok_def received_lot_def less_imp_le)

lemma receive_all: "\<forall>d \<in> set ds. delivery_ok d \<Longrightarrow> emap receive_delivery ds = Inr (map received_lot ds)"
  by (rule emap_all_ok) (simp add: receive_delivery_def received_lot_ok)

lemma expiry_pass_Inl:
  "expiry_pass s d p ls = Inl e \<Longrightarrow> \<exists>l \<in> set ls. \<not> expiry_known p l \<and> e = unknown_expiry_error l"
proof -
  have "efold (expiry_step s d p) st ls = Inl e \<Longrightarrow> \<exists>l \<in> set ls. \<not> expiry_known p l \<and> e = unknown_expiry_error l" for st
  proof (induction ls arbitrary: st)
    case (Cons l ls)
    show ?case
    proof (cases "expiry_step s d p st l")
      case (Inl e')
      then have "is_expired l d p = Inl e'" by (auto simp: expiry_step_def ebind_Inl_iff Let_def split: if_splits)
      with Cons.prems Inl is_expired_Inl is_expired_ok [of p l d] show ?thesis by auto
    next
      case (Inr u)
      with Cons show ?thesis by auto
    qed
  qed simp
  then show "expiry_pass s d p ls = Inl e \<Longrightarrow> \<exists>l \<in> set ls. \<not> expiry_known p l \<and> e = unknown_expiry_error l"
    by (simp add: expiry_pass_def)
qed

text \<open>The inputs of one key on one day, in whole units and below \<open>2 ^ 53\<close> in total.\<close>

definition whole_day :: "sim_inputs \<Rightarrow> date \<Rightarrow> sim_state \<Rightarrow> inv_key \<Rightarrow> bool" where
  "whole_day ctx d st k \<longleftrightarrow>
     (let day = (d, fst k, snd k);
          lots = dict_get_or (ss_lots st) k []; ds = dict_get_or (si_inbound ctx) day [] in
      whole_lots lots \<and> (\<forall>x \<in> set ds. delivery_ok x \<and> whole (dl_quantity x)) \<and>
      whole (dict_get_or (si_demand ctx) day 0) \<and>
      (\<forall>e \<in> set (dict_get_or (si_waste ctx) day []). whole (we_quantity e)) \<and>
      lots_total lots + rat_total (map dl_quantity ds) \<le> 2 ^ 53 \<and>
      dict_get (si_key_units ctx) k \<noteq> None \<and>
      (case dict_get (si_assumptions ctx) k of None \<Rightarrow> True | Some a \<Rightarrow> cost_assumption_ok a))"

definition balanced_exactly :: "daily_ledger \<Rightarrow> bool" where
  "balanced_exactly g \<longleftrightarrow>
     rat_of (lg_ending g) + rat_of (lg_fulfilled g) + rat_of (lg_expired g) + rat_of (lg_waste g) =
       rat_of (lg_beginning g) + rat_of (lg_inbound g) \<and>
     rat_of (lg_fulfilled g) + rat_of (lg_shortage g) = rat_of (lg_demand g)"

lemma cost_of_nonneg: "(case a of None \<Rightarrow> True | Some c \<Rightarrow> 0 \<le> f c) \<Longrightarrow> 0 \<le> q \<Longrightarrow> opt_nonneg (cost_of a f q)"
  by (cases a) (auto simp: cost_of_def f64_mult_nonneg)

lemma capacity_violation_nonneg: "0 \<le> capacity_violation a m"
  by (simp add: capacity_violation_def split: option.split)

lemma day_ledger_ok:
  assumes "0 \<le> b" "0 \<le> i" "0 \<le> dm" "0 \<le> x" "0 \<le> fr_fulfilled f" "0 \<le> fr_shortage f" "0 \<le> ws_total w"
    and "\<forall>l \<in> set (ws_lots w). 0 \<le> lt_quantity l"
    and "case dict_get (si_assumptions ctx) k of None \<Rightarrow> True | Some a \<Rightarrow> cost_assumption_ok a"
  shows "daily_ledger_ok (day_ledger ctx d k unit b i dm x f w)"
proof -
  have e: "0 \<le> py_sum (map lt_quantity (ws_lots w))"
    "0 \<le> py_sum (map lt_quantity (filter (at_risk_lot d (si_policy ctx)) (ws_lots w)))"
    using assms(8) by (auto intro!: py_sum_nonneg)
  have c: "opt_nonneg (cost_of (dict_get (si_assumptions ctx) k) f q)"
    if "0 \<le> q" "\<And>a. cost_assumption_ok a \<Longrightarrow> 0 \<le> f a" for f q
    by (rule cost_of_nonneg) (use assms(9) that in \<open>auto split: option.splits\<close>)
  show ?thesis
    using assms(1-7) e
    by (auto simp: daily_ledger_ok_def day_ledger_def Let_def f64_add_nonneg capacity_violation_nonneg cost_assumption_ok_def intro!: c)
qed

lemma isclose_exact: "rat_of x = rat_of y \<Longrightarrow> isclose x y t t'"
  by (simp add: f64_eq_iff isclose_def)

lemma whole_expected:
  assumes "whole b" "whole i" "rat_of b + rat_of i \<le> 2 ^ 53" "whole f" "whole x" "whole w"
    and "rat_of f + rat_of x + rat_of w \<le> rat_of b + rat_of i"
  shows "rat_of (b + i - f - x - w) = rat_of b + rat_of i - rat_of f - rat_of x - rat_of w"
proof -
  note nn = whole_rat [OF assms(4)] whole_rat [OF assms(5)] whole_rat [OF assms(6)]
  note s0 = whole_add [OF assms(1-3)]
  have "f \<le> b + i" using s0 assms(7) nn by (simp add: f64_le_iff)
  note s1 = whole_diff [OF s0(1) assms(4) this]
  have "x \<le> b + i - f" using s0 s1 assms(7) nn by (simp add: f64_le_iff)
  note s2 = whole_diff [OF s1 [THEN conjunct1] assms(5) this]
  have "w \<le> b + i - f - x" using s0 s1 s2 assms(7) by (simp add: f64_le_iff)
  note s3 = whole_diff [OF s2 [THEN conjunct1] assms(6) this]
  show ?thesis using s0 s1 s2 s3 by simp
qed

text \<open>A step once the unit is known and the deliveries are received.\<close>

lemma sim_key_day_received:
  fixes st :: sim_state
  assumes "dict_get (si_key_units ctx) k = Some u"
    and "emap receive_delivery (dict_get_or (si_inbound ctx) (d, fst k, snd k) []) = Inr received"
  defines "policy \<equiv> si_policy ctx" and "lots \<equiv> dict_get_or (ss_lots st) k []"
    and "ds \<equiv> dict_get_or (si_inbound ctx) (d, fst k, snd k) []"
    and "dm \<equiv> dict_get_or (si_demand ctx) (d, fst k, snd k) 0"
  shows "sim_key_day ctx d st k =
     ebind (expiry_pass (si_scenario_id ctx) d policy (lots @ received)) (\<lambda>ep.
     ebind (consume_fefo (es_usable ep) dm (si_scenario_id ctx) d policy) (\<lambda>fefo.
     ebind (apply_waste_events (fr_updated_lots fefo) (dict_get_or (si_waste ctx) (d, fst k, snd k) [])
              (si_scenario_id ctx) d (po_tolerance policy)) (\<lambda>waste.
     let ledger = day_ledger ctx d k u (py_sum (map lt_quantity lots)) (py_sum (map dl_quantity ds)) dm
                    (es_expired ep) fefo waste in
     ebind (contract (daily_ledger_ok ledger) ledger) (\<lambda>ledger.
     ebind (validate_accounting_ledger ledger (po_tolerance policy)) (\<lambda>_.
     Inr \<lparr>ss_lots = dict_set k (ws_lots waste) (ss_lots st), ss_ledgers = ss_ledgers st @ [ledger],
          ss_consumption = ss_consumption st @ fr_traces fefo,
          ss_waste_traces = ss_waste_traces st @ ws_traces waste, ss_expiry = ss_expiry st @ es_traces ep,
          ss_warnings = fold add_code (fr_warnings fefo) (fold add_code (es_warnings ep)
            (fold add_code (concat (map delivery_warnings ds)) (ss_warnings st))),
          ss_stockouts = (if po_tolerance policy < fr_shortage fefo \<and> d \<notin> set (ss_stockouts st)
             then ss_stockouts st @ [d] else ss_stockouts st)\<rparr>)))))"
  unfolding sim_key_day_def assms(1,2) option.case Let_def ebind_simps policy_def lots_def ds_def dm_def ..

lemma whole_ledger:
  fixes u :: string
  assumes b: "whole b" "whole i" "rat_of b + rat_of i = lots_total live + lots_total dead" "rat_of b + rat_of i \<le> 2 ^ 53"
    and live: "whole_lots live" and dead: "whole_lots dead" and x: "whole x" "rat_of x = lots_total dead"
    and dm: "whole dm" and fefo: "consume_fefo live dm s d p = Inr fefo"
    and es: "\<forall>e \<in> set es. whole (we_quantity e)"
    and waste: "apply_waste_events (fr_updated_lots fefo) es s d t = Inr w"
    and costs: "case dict_get (si_assumptions ctx) k of None \<Rightarrow> True | Some a \<Rightarrow> cost_assumption_ok a"
  defines "g \<equiv> day_ledger ctx d k u b i dm x fefo w"
  shows "daily_ledger_ok g" "balanced_exactly g" "validate_accounting_ledger g tol = Inr ()" "whole_lots (ws_lots w)"
proof -
  note cw = consume_fefo_whole [OF live dm fefo]
  have ft: "lots_total (fr_updated_lots fefo) \<le> 2 ^ 53"
    using cw(4) b(3,4) whole_lots_total [OF dead] whole_rat [OF cw(2)] by linarith
  note wi = apply_waste_whole [OF cw(1) ft es waste, unfolded waste_inv_def]
  have eq: "\<forall>x \<in> set (map lt_quantity (ws_lots w)). whole x" using wi by (simp add: whole_lots_def)
  have "0 \<le> rat_of (ws_total w)" using wi whole_rat by blast
  then have e: "whole (py_sum (map lt_quantity (ws_lots w)))"
    "rat_of (py_sum (map lt_quantity (ws_lots w))) = lots_total (ws_lots w)"
    using whole_py_sum [OF eq] wi ft by auto
  show "daily_ledger_ok g"
    unfolding g_def by (rule day_ledger_ok) (use b dm costs x cw wi in \<open>auto simp: whole_nonneg whole_lots_def\<close>)
  show "balanced_exactly g"
    using e(2) cw(4,5) x(2) b(3) wi by (simp add: balanced_exactly_def g_def)
  have ww: "whole (ws_total w)" using wi by simp
  have "rat_of (fr_fulfilled fefo) + rat_of x + rat_of (ws_total w) \<le> rat_of b + rat_of i"
    using cw(4) x(2) b(3) wi rat_total_nonneg [OF eq] by simp
  from whole_expected [OF b(1,2,4) cw(2) x(1) ww this]
  have "rat_of (ledger_expected g) = rat_of (lg_ending g)"
    using cw(4) x(2) b(3) wi e(2) by (simp add: ledger_expected_def g_def)
  then show "validate_accounting_ledger g tol = Inr ()" by (simp add: ledger_validated isclose_exact)
  show "whole_lots (ws_lots w)" using wi by simp
qed

lemma whole_ledger_shrinks:
  assumes "whole_lots live" "whole dm" "consume_fefo live dm s d p = Inr fefo"
    and "\<forall>e \<in> set es. whole (we_quantity e)" "apply_waste_events (fr_updated_lots fefo) es s d t = Inr w"
  shows "lots_total live \<le> 2 ^ 53 \<Longrightarrow> lots_total (ws_lots w) \<le> lots_total live"
proof -
  assume le: "lots_total live \<le> 2 ^ 53"
  note cw = consume_fefo_whole [OF assms(1-3)]
  have le': "lots_total (fr_updated_lots fefo) \<le> 2 ^ 53" using cw(4) le whole_rat [OF cw(2)] by linarith
  from apply_waste_whole [OF cw(1) le' assms(4,5)] show "lots_total (ws_lots w) \<le> lots_total live"
    using cw(4) whole_rat [OF cw(2)] whole_rat [of "ws_total w"] by (simp add: waste_inv_def)
qed

lemma whole_day_step:
  assumes "whole_day ctx d st k"
  shows "(case sim_key_day ctx d st k of
      Inr st' \<Rightarrow> balanced_exactly (last (ss_ledgers st')) \<and> whole_lots (dict_get_or (ss_lots st') k []) \<and>
        lots_total (dict_get_or (ss_lots st') k []) \<le> lots_total (dict_get_or (ss_lots st) k []) +
          rat_total (map dl_quantity (dict_get_or (si_inbound ctx) (d, fst k, snd k) []))
    | Inl e \<Rightarrow> (\<exists>l \<in> set (dict_get_or (ss_lots st) k [] @ map received_lot (dict_get_or (si_inbound ctx) (d, fst k, snd k) [])).
          \<not> expiry_known (si_policy ctx) l \<and> e = unknown_expiry_error l) \<or>
        dict_get_or (si_waste ctx) (d, fst k, snd k) [] \<noteq> [] \<and> err_code e = ''INVALID_WASTE_EVENT'')"
proof -
  let ?s = "si_scenario_id ctx" and ?p = "si_policy ctx" and ?day = "(d, fst k, snd k)"
  define lots where "lots = dict_get_or (ss_lots st) k []"
  define ds where "ds = dict_get_or (si_inbound ctx) ?day []"
  define dm where "dm = dict_get_or (si_demand ctx) ?day 0"
  define es where "es = dict_get_or (si_waste ctx) ?day []"
  note defs = lots_def ds_def dm_def es_def
  have w: "whole_lots lots" "\<forall>x \<in> set ds. delivery_ok x \<and> whole (dl_quantity x)" "whole dm"
    "\<forall>e \<in> set es. whole (we_quantity e)" "lots_total lots + rat_total (map dl_quantity ds) \<le> 2 ^ 53"
    "case dict_get (si_assumptions ctx) k of None \<Rightarrow> True | Some a \<Rightarrow> cost_assumption_ok a"
    and unit: "dict_get (si_key_units ctx) k \<noteq> None"
    using assms by (simp_all add: whole_day_def Let_def defs)
  from unit obtain u where u: "dict_get (si_key_units ctx) k = Some u" by blast
  have rec: "emap receive_delivery ds = Inr (map received_lot ds)" using receive_all w(2) by blast
  note step = sim_key_day_received [OF u rec [unfolded ds_def], where st = st, folded defs]
  define live where "live = filter (usable d ?p) (lots @ map received_lot ds)"
  define dead where "dead = filter (\<lambda>l. \<not> usable d ?p l) (lots @ map received_lot ds)"
  have "whole_lots (lots @ map received_lot ds)"
    using w(1,2) received_lot_ok by (auto simp: whole_lots_def good_lots_def received_lot_def)
  then have lw: "whole_lots live" "whole_lots dead" by (simp_all only: live_def dead_def whole_lots_filter)
  have lt: "lots_total lots + rat_total (map dl_quantity ds) = lots_total live + lots_total dead"
    unfolding live_def dead_def
    by (subst lots_total_filter [symmetric]) (simp add: received_lot_def comp_def)
  note lnn = whole_lots_total [OF lw(1)] whole_lots_total [OF lw(2)]
  have lq: "\<forall>x \<in> set (map lt_quantity lots). whole x" "\<forall>x \<in> set (map dl_quantity ds). whole x"
    using w(1,2) by (simp_all add: whole_lots_def)
  have b: "whole (py_sum (map lt_quantity lots))" "whole (py_sum (map dl_quantity ds))"
    "rat_of (py_sum (map lt_quantity lots)) + rat_of (py_sum (map dl_quantity ds)) = lots_total live + lots_total dead"
    "rat_of (py_sum (map lt_quantity lots)) + rat_of (py_sum (map dl_quantity ds)) \<le> 2 ^ 53"
    using whole_py_sum [OF lq(1)] whole_py_sum [OF lq(2)] w(5) lt rat_total_nonneg [OF lq(1)] rat_total_nonneg [OF lq(2)]
    by auto
  have "case sim_key_day ctx d st k of
      Inr st' \<Rightarrow> balanced_exactly (last (ss_ledgers st')) \<and> whole_lots (dict_get_or (ss_lots st') k []) \<and>
        lots_total (dict_get_or (ss_lots st') k []) \<le> lots_total lots + rat_total (map dl_quantity ds)
    | Inl e \<Rightarrow> (\<exists>l \<in> set (lots @ map received_lot ds). \<not> expiry_known ?p l \<and> e = unknown_expiry_error l) \<or>
        es \<noteq> [] \<and> err_code e = ''INVALID_WASTE_EVENT''" (is ?goal)
  proof (cases "expiry_pass ?s d ?p (lots @ map received_lot ds)")
    case (Inl e)
    with expiry_pass_Inl [OF Inl] show ?goal by (simp add: step)
  next
    case (Inr ep)
    note ep = Inr and us = expiry_pass_spec(1) [OF Inr, folded live_def]
    have x: "whole (es_expired ep)" "rat_of (es_expired ep) = lots_total dead"
      using whole_running_sum [of "map lt_quantity dead" 0] lw(2) w(5) lt lnn expiry_pass_spec(2) [OF Inr, folded dead_def]
      by (auto simp: running_sum_def whole_lots_def)
    show ?goal
    proof (cases "consume_fefo live dm ?s d ?p")
      case (Inl e)
      with consume_fefo_cases [of live dm, where s = ?s and dt = d and p = ?p] lw(1) whole_nonneg [OF w(3)]
      obtain l where "l \<in> set live" "\<not> expiry_known ?p l" "e = unknown_expiry_error l"
        by (auto simp: whole_lots_def)
      with Inl show ?goal by (auto simp: step ep us live_def)
    next
      case fefo: (Inr fefo)
      show ?goal
      proof (cases "apply_waste_events (fr_updated_lots fefo) es ?s d (po_tolerance ?p)")
        case (Inl e)
        with apply_waste_Inl [OF Inl] show ?goal by (simp add: step ep us fefo)
      next
        case (Inr waste)
        note g = whole_ledger [OF b lw x w(3) fefo w(4) Inr w(6)]
        have "lots_total (ws_lots waste) \<le> lots_total live"
          using whole_ledger_shrinks [OF lw(1) w(3) fefo w(4) Inr] lt w(5) lnn by linarith
        with g lt lnn show ?goal by (simp add: step ep us fefo Inr Let_def dict_get_or_set)
      qed
    qed
  qed
  then show ?thesis unfolding defs .
qed

text \<open>No false alarm. When a day's stock, deliveries, demand and waste are whole units totalling
  at most \<open>2 ^ 53\<close>, the simulator's step balances exactly: what was there and came in equals
  what was served, expired, wasted and is left, and demand splits exactly into served and
  short. The step cannot fail by its accounting check or a contract: only an unknown expiry
  date or a waste event larger than the stock stops it.\<close>

theorem whole_day_balances:
  assumes "whole_day ctx d st k"
  shows "(case sim_key_day ctx d st k of
      Inr st' \<Rightarrow> balanced_exactly (last (ss_ledgers st')) \<and> whole_lots (dict_get_or (ss_lots st') k [])
    | Inl e \<Rightarrow> err_class e = UnknownExpiryError \<or> err_code e = ''INVALID_WASTE_EVENT'')"
proof (cases "sim_key_day ctx d st k")
  case (Inl e)
  with whole_day_step [OF assms] show ?thesis by (auto simp: unknown_expiry_error_def)
next
  case (Inr st')
  with whole_day_step [OF assms] show ?thesis by simp
qed

end
