(* ===== verification/Sim_Monotone.thy ===== *)
theory Sim_Monotone
  imports Simulator
begin

text \<open>
  The simulator of theory \<open>Simulator\<close> is monotone in the demand: with more demand, every
  lot ends every day with at most as much, and no shortage gets smaller. The relation
  \<open>sim_more\<close> between the states of two runs is kept by every step; it rests on the greedy
  allocation of theory \<open>Fefo\<close> being monotone in the demand and in the lots.
\<close>

section \<open>Less stock\<close>

definition less_stock :: "inventory_lot \<Rightarrow> inventory_lot \<Rightarrow> bool" where
  "less_stock x y \<longleftrightarrow> x\<lparr>lt_quantity := lt_quantity y\<rparr> = y \<and> 0 \<le> lt_quantity x \<and> lt_quantity x \<le> lt_quantity y"

abbreviation less_lots :: "inventory_lot list \<Rightarrow> inventory_lot list \<Rightarrow> bool" where
  "less_lots \<equiv> list_all2 less_stock"

lemma quantity_update_sel:
  "fefo_sort_key (l\<lparr>lt_quantity := q\<rparr>) = fefo_sort_key l" "usable d p (l\<lparr>lt_quantity := q\<rparr>) = usable d p l"
  "lt_lot_id (l\<lparr>lt_quantity := q\<rparr>) = lt_lot_id l"
  by (cases l; simp add: fefo_sort_key_def usable_def is_expired_def Let_def split: option.split)+

lemma less_stock_same:
  assumes "less_stock x y"
  shows "fefo_sort_key y = fefo_sort_key x" "usable d p y = usable d p x" "lt_lot_id y = lt_lot_id x"
proof -
  from assms have y: "y = x\<lparr>lt_quantity := lt_quantity y\<rparr>" by (simp add: less_stock_def)
  show "fefo_sort_key y = fefo_sort_key x" by (subst y) (simp add: quantity_update_sel)
  show "usable d p y = usable d p x" by (subst y) (simp add: quantity_update_sel)
  show "lt_lot_id y = lt_lot_id x" by (subst y) simp
qed

lemma less_stock_refl: "0 \<le> lt_quantity x \<Longrightarrow> less_stock x x"
  by (simp add: less_stock_def)

lemma less_lots_refl: "\<forall>x \<in> set xs. 0 \<le> lt_quantity x \<Longrightarrow> less_lots xs xs"
  by (simp add: list_all2_same less_stock_refl)

lemma less_stock_update:
  "less_stock x y \<Longrightarrow> 0 \<le> a \<Longrightarrow> a \<le> b \<Longrightarrow> less_stock (x\<lparr>lt_quantity := a\<rparr>) (y\<lparr>lt_quantity := b\<rparr>)"
  by (cases x; cases y) (simp add: less_stock_def)

lemma less_lots_nonneg: "less_lots xs ys \<Longrightarrow> \<forall>x \<in> set xs. 0 \<le> lt_quantity x"
  by (induction rule: list_all2_induct) (auto simp: less_stock_def)

lemma less_lots_nonneg': "less_lots xs ys \<Longrightarrow> \<forall>y \<in> set ys. 0 \<le> lt_quantity y"
  by (induction rule: list_all2_induct) (auto simp: less_stock_def intro: order_trans)

lemma insort_less:
  assumes "less_stock x y" "less_lots xs ys"
  shows "less_lots (insort_key fefo_sort_key x xs) (insort_key fefo_sort_key y ys)"
  using assms(2)
proof (induction rule: list_all2_induct)
  case Nil
  then show ?case using assms(1) by simp
next
  case (Cons a as b bs)
  then show ?case using assms(1) by (simp add: less_stock_same(1) [OF assms(1)] less_stock_same(1) [OF Cons.hyps(1)])
qed

lemma sort_less: "less_lots xs ys \<Longrightarrow> less_lots (sort_key fefo_sort_key xs) (sort_key fefo_sort_key ys)"
  by (induction rule: list_all2_induct) (auto intro: insort_less)

lemma filter_less: "less_lots xs ys \<Longrightarrow> less_lots (filter (usable d p) xs) (filter (usable d p) ys)"
proof (induction rule: list_all2_induct)
  case (Cons a as b bs)
  then show ?case by (simp add: less_stock_same(2) [OF Cons.hyps(1)])
qed simp

section \<open>The greedy allocation is monotone\<close>

lemma take_mono:
  fixes q q' d d' :: f64
  assumes "0 \<le> q" "q \<le> q'" "0 \<le> d'" "d' \<le> d"
  shows "q - min q d \<le> q' - min q' d'" "d' - min q' d' \<le> d - min q d"
    "0 \<le> q - min q d" "0 \<le> d' - min q' d'"
proof -
  have nn: "0 \<le> q' - min q' d'" "0 \<le> d - min q d" "0 \<le> q - min q d" "0 \<le> d' - min q' d'"
    by (auto intro: f64_diff_nonneg)
  then show "0 \<le> q - min q d" "0 \<le> d' - min q' d'" by auto
  show "q - min q d \<le> q' - min q' d'"
    using assms nn by (cases "q \<le> d") (auto simp: min_def intro!: f64_diff_mono)
  show "d' - min q' d' \<le> d - min q d"
    using assms nn by (cases "d' \<le> q'") (auto simp: min_def intro!: f64_diff_mono)
qed

definition flag_le :: "bool \<times> f64 \<Rightarrow> bool \<times> f64 \<Rightarrow> bool" where
  "flag_le a b \<longleftrightarrow> fst a = fst b \<and> 0 \<le> snd a \<and> snd a \<le> snd b"

lemma allocate_mono:
  assumes "list_all2 flag_le xs ys" "0 \<le> d'" "d' \<le> d"
  shows "snd (allocate d' ys) \<le> snd (allocate d xs) \<and>
    list_all2 (\<lambda>a b. 0 \<le> a \<and> a \<le> b) (fst (allocate d xs)) (fst (allocate d' ys))"
  using assms
proof (induction xs ys arbitrary: d d' rule: list_all2_induct)
  case Nil
  then show ?case by simp
next
  case (Cons x xs y ys)
  obtain u q where x: "x = (u, q)" by (cases x)
  obtain q' where y: "y = (u, q')" and q: "0 \<le> q" "q \<le> q'" using Cons.hyps(1) by (cases y) (auto simp: flag_le_def x)
  show ?case
  proof (cases u)
    case False
    with Cons.IH [OF Cons.prems] q show ?thesis by (simp add: x y case_prod_unfold Let_def)
  next
    case True
    note t = take_mono [OF q Cons.prems]
    from Cons.IH [OF t(4) t(2)] t True show ?thesis by (simp add: x y case_prod_unfold Let_def)
  qed
qed

lemma flagged_less: "less_lots xs ys \<Longrightarrow> list_all2 flag_le (map (flagged d p) xs) (map (flagged d p) ys)"
proof (induction rule: list_all2_induct)
  case (Cons a as b bs)
  then show ?case by (simp add: flag_le_def less_stock_same(2) [OF Cons.hyps(1)] less_stock_def)
qed simp

lemma set_quantities_less:
  assumes "less_lots xs ys" "list_all2 (\<lambda>a b. 0 \<le> a \<and> a \<le> b) ns ms" "length ns = length xs"
  shows "less_lots (set_quantities xs ns) (set_quantities ys ms)"
  using assms
proof (induction xs ys arbitrary: ns ms rule: list_all2_induct)
  case (Cons x xs y ys)
  then obtain n ns' m ms' where "ns = n # ns'" "ms = m # ms'" by (cases ns; cases ms) auto
  with Cons show ?case by (simp add: set_quantities_def less_stock_update)
qed (simp add: set_quantities_def)

lemma consume_fefo_result:
  assumes "\<forall>l \<in> set ls. 0 \<le> lt_quantity l" "0 \<le> d" "consume_fefo ls d s dt p = Inr r"
  defines "al \<equiv> allocate d (map (flagged dt p) (sort_key fefo_sort_key ls))"
  shows "fr_shortage r = snd al" "fr_updated_lots r = set_quantities (sort_key fefo_sort_key ls) (fst al)"
proof -
  from assms(3) obtain st where st: "efold (fefo_step s dt p)
      \<lparr>fs_remaining = d, fs_updated = [], fs_traces = [], fs_warnings = []\<rparr> (sort_key fefo_sort_key ls) = Inr st"
    and r: "fr_updated_lots r = fs_updated st" "fr_shortage r = fs_remaining st"
    by (auto simp: consume_fefo_def Let_def elim!: ebind_InrE)
  from fefo_fold_refines [OF _ _ st] assms(1,2)
  show "fr_shortage r = snd al" "fr_updated_lots r = set_quantities (sort_key fefo_sort_key ls) (fst al)"
    by (simp_all add: r al_def)
qed

lemma consume_fefo_mono:
  assumes "less_lots xs ys" "0 \<le> d'" "d' \<le> d"
    and "consume_fefo xs d s dt p = Inr r" "consume_fefo ys d' s' dt p = Inr r'"
  shows "fr_shortage r' \<le> fr_shortage r" "less_lots (fr_updated_lots r) (fr_updated_lots r')"
proof -
  have d: "0 \<le> d" using assms(2,3) by simp
  note x = consume_fefo_result [OF less_lots_nonneg [OF assms(1)] d assms(4)]
  note y = consume_fefo_result [OF less_lots_nonneg' [OF assms(1)] assms(2) assms(5)]
  note s = sort_less [OF assms(1)]
  note a = allocate_mono [OF flagged_less [OF s] assms(2,3), of dt p]
  show "fr_shortage r' \<le> fr_shortage r" using a by (simp add: x y)
  show "less_lots (fr_updated_lots r) (fr_updated_lots r')"
    unfolding x y by (rule set_quantities_less [OF s]) (use a in simp_all)
qed

section \<open>Waste\<close>

lemma insort_key_cong: "\<forall>y \<in> set xs. f y = g y \<Longrightarrow> f x = g x \<Longrightarrow> insort_key f x xs = insort_key g x xs"
  by (induction xs) auto

lemma sort_key_cong_set: "\<forall>y \<in> set xs. f y = g y \<Longrightarrow> sort_key f xs = sort_key g xs"
  by (induction xs) (auto intro: insort_key_cong)

lemma waste_candidates_less:
  assumes "less_lots xs ys"
  shows "waste_candidates e ys = waste_candidates e xs"
proof -
  have len: "length ys = length xs" using assms by (simp add: list_all2_lengthD)
  have i: "fefo_sort_key (ys ! i) = fefo_sort_key (xs ! i)" "lt_lot_id (ys ! i) = lt_lot_id (xs ! i)" if "i < length xs" for i
    using less_stock_same list_all2_nthD [OF assms that] by blast+
  have f: "filter (\<lambda>i. we_lot_id e = None \<or> we_lot_id e = Some (lt_lot_id (ys ! i))) [0..<length ys] =
      filter (\<lambda>i. we_lot_id e = None \<or> we_lot_id e = Some (lt_lot_id (xs ! i))) [0..<length xs]"
    unfolding len by (rule filter_cong) (auto simp: i)
  show ?thesis unfolding waste_candidates_def f by (rule sort_key_cong_set) (auto simp: i)
qed

definition waste_less :: "waste_state \<Rightarrow> waste_state \<Rightarrow> bool" where
  "waste_less a b \<longleftrightarrow> less_lots (ws_lots a) (ws_lots b) \<and> 0 \<le> ws_remaining b \<and> ws_remaining b \<le> ws_remaining a"

lemma waste_lot_step_alt:
  assumes "\<forall>l \<in> set (ws_lots st). 0 \<le> lt_quantity l" "0 \<le> ws_remaining st" "i < length (ws_lots st)"
  defines "q \<equiv> lt_quantity (ws_lots st ! i)"
  shows "ws_lots (waste_lot_step s d e st i) =
      (ws_lots st)[i := (ws_lots st ! i)\<lparr>lt_quantity := q - min q (ws_remaining st)\<rparr>]"
    "ws_remaining (waste_lot_step s d e st i) = ws_remaining st - min q (ws_remaining st)"
proof -
  have "0 \<le> q" using assms(1,3) by (simp add: q_def)
  then have "min q (ws_remaining st) = 0" if "min q (ws_remaining st) \<le> 0" using that assms(2) by (auto simp: min_def)
  then show "ws_lots (waste_lot_step s d e st i) =
      (ws_lots st)[i := (ws_lots st ! i)\<lparr>lt_quantity := q - min q (ws_remaining st)\<rparr>]"
    "ws_remaining (waste_lot_step s d e st i) = ws_remaining st - min q (ws_remaining st)"
    by (auto simp: waste_lot_step_def Let_def q_def)
qed

lemma waste_lot_step_mono:
  assumes "waste_less a b" "i < length (ws_lots a)"
  shows "waste_less (waste_lot_step s d e a i) (waste_lot_step s' d e' b i)"
proof -
  have l: "less_lots (ws_lots a) (ws_lots b)" and r: "0 \<le> ws_remaining b" "ws_remaining b \<le> ws_remaining a"
    using assms(1) by (auto simp: waste_less_def)
  have ib: "i < length (ws_lots b)" using assms(2) l by (simp add: list_all2_lengthD)
  have li: "less_stock (ws_lots a ! i) (ws_lots b ! i)" using list_all2_nthD [OF l assms(2)] .
  have ra: "0 \<le> ws_remaining a" using r by simp
  have q: "0 \<le> lt_quantity (ws_lots a ! i)" "lt_quantity (ws_lots a ! i) \<le> lt_quantity (ws_lots b ! i)"
    using li by (auto simp: less_stock_def)
  note t = take_mono [OF q r]
  show ?thesis
    using t less_stock_update [OF li t(3) t(1)] l
    by (simp add: waste_less_def waste_lot_step_alt [OF less_lots_nonneg [OF l] ra assms(2)]
        waste_lot_step_alt [OF less_lots_nonneg' [OF l] r(1) ib] list_all2_update_cong)
qed

lemma waste_fold_mono:
  assumes "waste_less a b" "\<forall>i \<in> set is. i < length (ws_lots a)"
  shows "waste_less (fold (\<lambda>i st. waste_lot_step s d e st i) is a) (fold (\<lambda>i st. waste_lot_step s' d e' st i) is b)"
  using assms
proof (induction "is" arbitrary: a b)
  case (Cons i "is")
  have "waste_less (waste_lot_step s d e a i) (waste_lot_step s' d e' b i)"
    by (rule waste_lot_step_mono) (use Cons.prems in auto)
  from Cons.IH [OF this] Cons.prems(2) show ?case by simp
qed simp

lemma efold_related:
  assumes "efold f s xs = Inr t" "efold g s' xs = Inr t'" "R s s'"
    and "\<And>x u u' v v'. x \<in> set xs \<Longrightarrow> R u u' \<Longrightarrow> f u x = Inr v \<Longrightarrow> g u' x = Inr v' \<Longrightarrow> R v v'"
  shows "R t t'"
  using assms
proof (induction xs arbitrary: s s')
  case (Cons x xs)
  from Cons.prems(1) obtain u where u: "f s x = Inr u" "efold f u xs = Inr t"
    unfolding efold.simps by (rule ebind_InrE)
  from Cons.prems(2) obtain u' where u': "g s' x = Inr u'" "efold g u' xs = Inr t'"
    unfolding efold.simps by (rule ebind_InrE)
  have "R u u'" by (rule Cons.prems(4) [OF _ Cons.prems(3) u(1) u'(1)]) simp
  show ?case
  proof (rule Cons.IH [OF u(2) u'(2) \<open>R u u'\<close>])
    fix y w w' v v' assume y: "y \<in> set xs" "R w w'" "f w y = Inr v" "g w' y = Inr v'"
    show "R v v'" by (rule Cons.prems(4) [OF _ y(2,3,4)]) (use y(1) in simp)
  qed
next
  case Nil
  from Nil.prems(1,2) have "t = s" "t' = s'" by simp_all
  with Nil.prems(3) show ?case by simp
qed

lemma apply_waste_mono:
  assumes "less_lots xs ys" "\<forall>e \<in> set es. 0 \<le> we_quantity e"
    and "apply_waste_events xs es s d t = Inr w" "apply_waste_events ys es s' d t = Inr w'"
  shows "less_lots (ws_lots w) (ws_lots w')"
proof -
  let ?R = "\<lambda>a b. less_lots (ws_lots a) (ws_lots b)"
  show ?thesis
  proof (rule efold_related [OF assms(3,4) [unfolded apply_waste_events_def], of ?R])
    fix e u u' v v' assume e: "e \<in> set (sort_key we_event_id es)" and R: "?R u u'"
      and v: "waste_event_step s d t u e = Inr v" and v': "waste_event_step s' d t u' e = Inr v'"
    have "waste_less (u\<lparr>ws_remaining := we_quantity e\<rparr>) (u'\<lparr>ws_remaining := we_quantity e\<rparr>)"
      using R e assms(2) by (simp add: waste_less_def)
    from waste_fold_mono [OF this, of "waste_candidates e (ws_lots u)" s d e s' e] v v' waste_candidates_less [OF R, of e]
    show "?R v v'" by (auto simp: waste_event_step_def Let_def waste_less_def waste_candidates_def split: if_splits)
  qed (simp add: assms(1))
qed

section \<open>The simulation is monotone\<close>

definition slot_le :: "daily_ledger \<Rightarrow> daily_ledger \<Rightarrow> bool" where
  "slot_le a b \<longleftrightarrow> ledger_slot a = ledger_slot b \<and> lg_demand a \<le> lg_demand b \<and> lg_shortage a \<le> lg_shortage b"

text \<open>\<open>high\<close> is a state of the run with more demand, \<open>low\<close> of the run with less.\<close>

definition sim_more :: "sim_state \<Rightarrow> sim_state \<Rightarrow> bool" where
  "sim_more high low \<longleftrightarrow>
     (\<forall>k. less_lots (dict_get_or (ss_lots high) k []) (dict_get_or (ss_lots low) k [])) \<and>
     list_all2 slot_le (ss_ledgers low) (ss_ledgers high)"

definition demand_more :: "sim_inputs \<Rightarrow> sim_inputs \<Rightarrow> bool" where
  "demand_more high low \<longleftrightarrow>
     si_policy high = si_policy low \<and> si_inbound high = si_inbound low \<and> si_waste high = si_waste low \<and>
     (\<forall>day. 0 \<le> dict_get_or (si_demand low) day 0 \<and> dict_get_or (si_demand low) day 0 \<le> dict_get_or (si_demand high) day 0) \<and>
     (\<forall>day. \<forall>e \<in> set (dict_get_or (si_waste low) day []). 0 \<le> we_quantity e)"

lemma receive_nonneg:
  assumes "emap receive_delivery ds = Inr received"
  shows "\<forall>l \<in> set received. 0 \<le> lt_quantity l"
proof
  fix l assume "l \<in> set received"
  from emap_in_set [OF assms this] show "0 \<le> lt_quantity l"
    by (auto simp: receive_delivery_def inventory_lot_ok_def)
qed

lemma sim_key_day_mono:
  assumes "sim_more a b" "demand_more ctx ctx'" "sim_key_day ctx d a k = Inr a'" "sim_key_day ctx' d b k = Inr b'"
  shows "sim_more a' b'"
proof -
  let ?day = "(d, fst k, snd k)" and ?p = "si_policy ctx'"
  from assms(3) obtain u received es fefo waste where
    A: "emap receive_delivery (dict_get_or (si_inbound ctx) ?day []) = Inr received"
    "expiry_pass (si_scenario_id ctx) d (si_policy ctx) (dict_get_or (ss_lots a) k [] @ received) = Inr es"
    "consume_fefo (es_usable es) (dict_get_or (si_demand ctx) ?day 0) (si_scenario_id ctx) d (si_policy ctx) = Inr fefo"
    "apply_waste_events (fr_updated_lots fefo) (dict_get_or (si_waste ctx) ?day []) (si_scenario_id ctx) d
       (po_tolerance (si_policy ctx)) = Inr waste"
    "ss_lots a' = dict_set k (ws_lots waste) (ss_lots a)"
    "ss_ledgers a' = ss_ledgers a @ [day_ledger ctx d k u
       (py_sum (map lt_quantity (dict_get_or (ss_lots a) k [])))
       (py_sum (map dl_quantity (dict_get_or (si_inbound ctx) ?day [])))
       (dict_get_or (si_demand ctx) ?day 0) (es_expired es) fefo waste]"
    by (rule sim_key_dayE)
  from assms(4) obtain u' received' es' fefo' waste' where
    B: "emap receive_delivery (dict_get_or (si_inbound ctx') ?day []) = Inr received'"
    "expiry_pass (si_scenario_id ctx') d ?p (dict_get_or (ss_lots b) k [] @ received') = Inr es'"
    "consume_fefo (es_usable es') (dict_get_or (si_demand ctx') ?day 0) (si_scenario_id ctx') d ?p = Inr fefo'"
    "apply_waste_events (fr_updated_lots fefo') (dict_get_or (si_waste ctx') ?day []) (si_scenario_id ctx') d
       (po_tolerance ?p) = Inr waste'"
    "ss_lots b' = dict_set k (ws_lots waste') (ss_lots b)"
    "ss_ledgers b' = ss_ledgers b @ [day_ledger ctx' d k u'
       (py_sum (map lt_quantity (dict_get_or (ss_lots b) k [])))
       (py_sum (map dl_quantity (dict_get_or (si_inbound ctx') ?day [])))
       (dict_get_or (si_demand ctx') ?day 0) (es_expired es') fefo' waste']"
    by (rule sim_key_dayE)
  have p: "si_policy ctx = ?p" and i: "si_inbound ctx = si_inbound ctx'" and w: "si_waste ctx = si_waste ctx'"
    and dm: "0 \<le> dict_get_or (si_demand ctx') ?day 0" "dict_get_or (si_demand ctx') ?day 0 \<le> dict_get_or (si_demand ctx) ?day 0"
    and we: "\<forall>e \<in> set (dict_get_or (si_waste ctx') ?day []). 0 \<le> we_quantity e"
    using assms(2) unfolding demand_more_def by blast+
  have rec: "received' = received" using A(1) B(1) by (simp add: i)
  have lots: "less_lots (dict_get_or (ss_lots a) k []) (dict_get_or (ss_lots b) k [])"
    using assms(1) unfolding sim_more_def by blast
  have "less_lots (dict_get_or (ss_lots a) k [] @ received) (dict_get_or (ss_lots b) k [] @ received')"
    unfolding rec by (rule list_all2_appendI [OF lots less_lots_refl [OF receive_nonneg [OF A(1)]]])
  then have us: "less_lots (es_usable es) (es_usable es')"
    unfolding expiry_pass_spec(1) [OF A(2)] expiry_pass_spec(1) [OF B(2)] p by (rule filter_less)
  note c = consume_fefo_mono [OF us dm A(3) [unfolded p] B(3)]
  have ws: "less_lots (ws_lots waste) (ws_lots waste')"
    using A(4) B(4) unfolding p w by (rule apply_waste_mono [OF c(2) we])
  have "list_all2 slot_le (ss_ledgers b') (ss_ledgers a')"
    using assms(1) c(1) dm(2) unfolding sim_more_def A(6) B(6)
    by (intro list_all2_appendI) (simp_all add: slot_le_def ledger_slot_def)
  moreover have "less_lots (dict_get_or (ss_lots a') j []) (dict_get_or (ss_lots b') j [])" for j
  proof (cases "j = k")
    case False
    then show ?thesis using assms(1) unfolding sim_more_def A(5) B(5) dict_get_or_set by metis
  qed (simp add: A(5) B(5) dict_get_or_set ws)
  ultimately show ?thesis unfolding sim_more_def by blast
qed

lemma sim_days_mono:
  assumes "sim_more a b" "demand_more ctx ctx'" "sim_days ctx keys days a = Inr a'" "sim_days ctx' keys days b = Inr b'"
  shows "sim_more a' b'"
proof (rule efold_related [OF assms(3,4) [unfolded sim_days_def], of sim_more])
  fix d u u' v v' assume uv: "sim_more u u'" "sim_day ctx keys u d = Inr v" "sim_day ctx' keys u' d = Inr v'"
  show "sim_more v v'"
  proof (rule efold_related [OF uv(2,3) [unfolded sim_day_def], of sim_more])
    fix k w w' z z' assume "sim_more w w'" "sim_key_day ctx d w k = Inr z" "sim_key_day ctx' d w' k = Inr z'"
    then show "sim_more z z'" using sim_key_day_mono [OF _ assms(2)] by blast
  qed (rule uv(1))
qed (rule assms(1))

subsection \<open>Two scenarios with the same lines\<close>

lemma same_lines_nonempty: "same_lines a b \<Longrightarrow> (sc_lines a = []) = (sc_lines b = [])"
  by (auto simp: same_lines_def)

lemma same_lines_map:
  assumes "same_lines a b" "\<And>x y. line_day_key x = line_day_key y \<Longrightarrow> ln_unit x = ln_unit y \<Longrightarrow> f x = f y"
  shows "map f (sc_lines a) = map f (sc_lines b)"
  using assms(1) unfolding same_lines_def by (induction rule: list_all2_induct) (auto intro: assms(2))

lemma same_lines_window:
  assumes "same_lines a b" "sc_start_date a = sc_start_date b" "sc_end_date a = sc_end_date b"
  shows "sim_window a so eo = sim_window b so eo"
proof -
  have "map ln_target_date (sc_lines a) = map ln_target_date (sc_lines b)"
    by (rule same_lines_map [OF assms(1)]) (simp add: line_day_key_def)
  then show ?thesis using assms same_lines_nonempty [OF assms(1)] by (simp add: sim_window_def)
qed

lemma efold_map: "efold f s (map g xs) = efold (\<lambda>s x. f s (g x)) s xs"
proof (induction xs arbitrary: s)
  case (Cons x xs)
  then show ?case by (cases "f s (g x)") simp_all
qed simp

lemma same_lines_units:
  assumes "same_lines a b"
  shows "demand_target_units a = demand_target_units b"
proof -
  let ?f = "\<lambda>units (key, unit). ebind (normalize_unit unit) (\<lambda>unit. set_key_unit units key unit)"
  let ?g = "\<lambda>l. (demand_key l, ln_unit l)"
  have u: "demand_target_units s = efold ?f [] (map ?g (sc_lines s))" for s
    by (simp add: demand_target_units_def efold_map demand_key_def)
  have "map ?g (sc_lines a) = map ?g (sc_lines b)"
    by (rule same_lines_map [OF assms]) (simp add: demand_key_def line_day_key_def)
  then show ?thesis by (simp add: u)
qed

lemma demand_by_day_le:
  assumes "same_lines a b"
  shows "dict_get_or (demand_by_day a) day 0 \<le> dict_get_or (demand_by_day b) day 0"
proof -
  have "list_all2 (\<lambda>x y. line_day_key x = line_day_key y \<and> ln_unit x = ln_unit y \<and> ln_quantity x \<le> ln_quantity y) xs ys \<Longrightarrow>
      \<forall>day. dict_get_or d day 0 \<le> dict_get_or d' day (0 :: f64) \<Longrightarrow>
      dict_get_or (fold (\<lambda>l. dict_set (ln_target_date l, ln_store_id l, ln_ingredient_id l) (ln_quantity l)) xs d) day 0
      \<le> dict_get_or (fold (\<lambda>l. dict_set (ln_target_date l, ln_store_id l, ln_ingredient_id l) (ln_quantity l)) ys d') day 0"
    for xs ys d d'
  proof (induction xs ys arbitrary: d d' rule: list_all2_induct)
    case (Cons x xs y ys)
    have "\<forall>day. dict_get_or (dict_set (ln_target_date x, ln_store_id x, ln_ingredient_id x) (ln_quantity x) d) day 0 \<le>
        dict_get_or (dict_set (ln_target_date y, ln_store_id y, ln_ingredient_id y) (ln_quantity y) d') day 0"
      using Cons.hyps(1) Cons.prems by (simp add: dict_get_or_set line_day_key_def)
    from Cons.IH [OF this] show ?case by simp
  next
    case Nil
    then show ?case unfolding fold.simps id_apply by blast
  qed
  from this [OF assms [unfolded same_lines_def], of "[]" "[]"] show ?thesis by (simp add: demand_by_day_def)
qed

lemma demand_by_day_nonneg:
  assumes "demand_scenario_ok s"
  shows "0 \<le> dict_get_or (demand_by_day s) day 0"
proof (cases "day \<in> line_slot ` set (sc_lines s)")
  case True
  then obtain l where "l \<in> set (sc_lines s)" "day = line_slot l" by blast
  then show ?thesis
    using demand_by_day_line [OF assms] assms by (auto simp: demand_scenario_ok_def demand_line_ok_def list_all_iff)
qed (simp add: demand_by_day_none)

lemma unit_converter_from_frame_nonneg:
  assumes "unit_converter_from_frame pd uc = Inr c"
  shows "nonneg_converter c"
proof -
  from assms obtain rules where "adapt_unit_conversions pd uc = Inr rules" "make_unit_converter rules = Inr c"
    unfolding unit_converter_from_frame_def by (rule ebind_InrE)
  with adapt_unit_conversions_facts make_converter_nonneg show ?thesis by blast
qed

lemma normalize_lots_nonneg:
  assumes "normalize_lots ls tu c = Inr ls'" "nonneg_converter c" "\<forall>l \<in> set ls. 0 \<le> lt_quantity l"
  shows "\<forall>l \<in> set ls'. 0 \<le> lt_quantity l"
proof
  fix l' assume "l' \<in> set ls'"
  from emap_in_set [OF assms(1) [unfolded normalize_lots_def] this] obtain l where "l \<in> set ls" "normalize_lot tu c l = Inr l'" by blast
  with assms(2,3) show "0 \<le> lt_quantity l'"
    by (auto simp: normalize_lot_def elim!: ebind_InrE intro!: f64_mult_nonneg dest: conversion_factor_nonneg)
qed

lemma normalize_waste_nonneg:
  assumes "normalize_waste_events es tu c = Inr es'" "nonneg_converter c" "\<forall>e \<in> set es. 0 \<le> we_quantity e"
  shows "\<forall>e \<in> set es'. 0 \<le> we_quantity e"
proof
  fix e' assume "e' \<in> set es'"
  from emap_in_set [OF assms(1) [unfolded normalize_waste_events_def] this]
  obtain e where "e \<in> set es" "normalize_waste_event tu c e = Inr e'" by blast
  with assms(2,3) show "0 \<le> we_quantity e'"
    by (auto simp: normalize_waste_event_def convert_unit_def elim!: ebind_InrE intro!: f64_mult_nonneg dest: conversion_factor_nonneg)
qed

lemma canonicalize_same:
  assumes "same_lines a b"
  shows "canonicalize pd uc a ls ds es ca = canonicalize pd uc b ls ds es ca"
  by (simp add: canonicalize_def same_lines_units [OF assms])

lemma more_demand_run:
  assumes "same_lines low high" "demand_scenario_ok low"
    and "sc_start_date low = sc_start_date high" "sc_end_date low = sc_end_date high"
    and "good_lots lots" "\<forall>e \<in> set events. 0 \<le> we_quantity e"
    and "simulate_inventory np pd lots low inbound planned events policy uc ca so eo = Inr r"
    and "simulate_inventory np pd lots high inbound planned events policy uc ca so eo = Inr r'"
  shows "list_all2 slot_le (sr_ledgers r) (sr_ledgers r')"
proof -
  let ?p = "policy_or_default policy" and ?ds = "inbound @ planned"
  from assms(7) obtain a b cn su st where w: "sim_window low so eo = Inr (a, b)"
    and cn: "canonicalize pd uc low lots ?ds events ca = Inr cn" and p: "prepare ?p low b ?ds cn = Inr su"
    and run: "sim_days (su_inputs su) (su_keys su) (date_range a b) (su_start su) = Inr st"
    and r: "assemble np ?p low (a, b) su (run_provenance ?p low a planned su so eo) st = Inr r"
    by (rule simulate_inventoryE)
  from assms(8) obtain a' b' cn' su' st' where w': "sim_window high so eo = Inr (a', b')"
    and cn': "canonicalize pd uc high lots ?ds events ca = Inr cn'" and p': "prepare ?p high b' ?ds cn' = Inr su'"
    and run': "sim_days (su_inputs su') (su_keys su') (date_range a' b') (su_start su') = Inr st'"
    and r': "assemble np ?p high (a', b') su' (run_provenance ?p high a' planned su' so eo) st' = Inr r'"
    by (rule simulate_inventoryE)
  have "a' = a \<and> b' = b" using w w' same_lines_window [OF assms(1,3,4), of so eo] by simp
  moreover have "cn' = cn" using cn cn' canonicalize_same [OF assms(1), of pd uc lots ?ds events ca] by simp
  ultimately have eq: "a' = a" "b' = b" "cn' = cn" by simp_all
  from cn obtain c where c: "unit_converter_from_frame pd uc = Inr c"
    "normalize_lots lots (cn_target_units cn) c = Inr (cn_lots cn)"
    "normalize_waste_events events (cn_target_units cn) c = Inr (cn_waste cn)" by (rule canonicalizeE)
  note nn = unit_converter_from_frame_nonneg [OF c(1)]
  have lnn: "\<forall>l \<in> set (cn_lots cn). 0 \<le> lt_quantity l"
    by (rule normalize_lots_nonneg [OF c(2) nn good_lots_quantities [OF assms(5)]])
  have enn: "\<forall>e \<in> set (cn_waste cn). 0 \<le> we_quantity e" by (rule normalize_waste_nonneg [OF c(3) nn assms(6)])
  from p obtain am units where P: "all_key_units cn = Inr units" "efold add_assumption [] (cn_assumptions cn) = Inr am"
    "su_keys su = inventory_keys cn" "su_inputs su = \<lparr>si_scenario_id = sc_scenario_id low, si_policy = ?p, si_key_units = units,
              si_demand = demand_by_day low, si_inbound = group_by delivery_day (cn_deliveries cn),
              si_waste = group_by waste_day (cn_waste cn), si_assumptions = am\<rparr>"
    "ss_lots (su_start su) = group_by lot_key (cn_lots cn)" "ss_ledgers (su_start su) = []" by (rule prepareE)
  from p' obtain am' units' where P': "all_key_units cn' = Inr units'" "efold add_assumption [] (cn_assumptions cn') = Inr am'"
    "su_keys su' = inventory_keys cn'" "su_inputs su' = \<lparr>si_scenario_id = sc_scenario_id high, si_policy = ?p, si_key_units = units',
              si_demand = demand_by_day high, si_inbound = group_by delivery_day (cn_deliveries cn'),
              si_waste = group_by waste_day (cn_waste cn'), si_assumptions = am'\<rparr>"
    "ss_lots (su_start su') = group_by lot_key (cn_lots cn')" "ss_ledgers (su_start su') = []" by (rule prepareE)
  have start: "sim_more (su_start su') (su_start su)"
    using lnn by (simp add: sim_more_def P P' eq group_by_get less_lots_refl)
  have more: "demand_more (su_inputs su') (su_inputs su)"
    using enn demand_by_day_le [OF assms(1)] demand_by_day_nonneg [OF assms(2)]
    by (auto simp: demand_more_def P(4) P'(4) eq group_by_get)
  have "sim_more st' st"
    by (rule sim_days_mono [OF start more run' [unfolded P'(3) eq] run [unfolded P(3)]])
  then show ?thesis using assemble_Inr(1) [OF r] assemble_Inr(1) [OF r'] by (simp add: sim_more_def)
qed

text \<open>C21: more demand never means less shortage. If two runs get the same stock, deliveries, waste,
  policy and window, and every demand line of the second is at least that of the first, then
  in every ledger, day by day and key by key, the shortage of the second run is at least that
  of the first, rounding included.\<close>

theorem higher_demand_more_shortage:
  assumes "same_lines low high" "demand_scenario_ok low"
    and "sc_start_date low = sc_start_date high" "sc_end_date low = sc_end_date high"
    and "good_lots lots" "\<forall>e \<in> set events. 0 \<le> we_quantity e"
    and "simulate_inventory np pd lots low inbound planned events policy uc ca so eo = Inr r"
    and "simulate_inventory np pd lots high inbound planned events policy uc ca so eo = Inr r'"
  shows "list_all2 slot_le (sr_ledgers r) (sr_ledgers r')"
  by (rule more_demand_run [OF assms])

end
