(* ===== verification/Sim_Progress.thy ===== *)
theory Sim_Progress
  imports Sim_Monotone
begin

text \<open>
  The simulator makes progress: when all quantities are whole units and the expiry of
  every lot is known (or the policy admits unknown expiry), a run without waste events
  returns a result and every ledger of it balances exactly. The loop invariant is
  \<open>whole_run\<close>; the theory ends with concrete runs of the whole simulator.
\<close>

section \<open>What keeps a run going\<close>

lemma stamp_known: "stamp x = stamp y \<Longrightarrow> expiry_known p x \<longleftrightarrow> expiry_known p y"
  by (simp add: stamp_def expiry_known_def unknown_expiry_def)

definition day_quantity :: "sim_inputs \<Rightarrow> inv_key \<Rightarrow> date \<Rightarrow> rat" where
  "day_quantity ctx k d = rat_total (map dl_quantity (dict_get_or (si_inbound ctx) (d, fst k, snd k) []))"

text \<open>What one key needs for the days still to come.\<close>

definition whole_run :: "sim_inputs \<Rightarrow> date list \<Rightarrow> sim_state \<Rightarrow> inv_key \<Rightarrow> bool" where
  "whole_run ctx days st k \<longleftrightarrow>
     whole_lots (dict_get_or (ss_lots st) k []) \<and>
     (\<forall>l \<in> set (dict_get_or (ss_lots st) k []). expiry_known (si_policy ctx) l) \<and>
     (\<forall>d. \<forall>x \<in> set (dict_get_or (si_inbound ctx) (d, fst k, snd k) []).
        delivery_ok x \<and> whole (dl_quantity x) \<and> expiry_known (si_policy ctx) (received_lot x)) \<and>
     (\<forall>d. whole (dict_get_or (si_demand ctx) (d, fst k, snd k) 0)) \<and>
     (\<forall>d. dict_get_or (si_waste ctx) (d, fst k, snd k) [] = []) \<and>
     lots_total (dict_get_or (ss_lots st) k []) + sum_list (map (day_quantity ctx k) days) \<le> 2 ^ 53 \<and>
     dict_get (si_key_units ctx) k \<noteq> None \<and>
     (case dict_get (si_assumptions ctx) k of None \<Rightarrow> True | Some a \<Rightarrow> cost_assumption_ok a)"

lemma day_quantity_nonneg:
  assumes "whole_run ctx days st k"
  shows "0 \<le> day_quantity ctx k d"
proof -
  have "\<forall>x \<in> set (map dl_quantity (dict_get_or (si_inbound ctx) (d, fst k, snd k) [])). whole x"
    using assms unfolding whole_run_def by auto
  then show ?thesis unfolding day_quantity_def by (rule rat_total_nonneg)
qed

lemma whole_run_cong:
  "dict_get_or (ss_lots t) k [] = dict_get_or (ss_lots s) k [] \<Longrightarrow> whole_run ctx days t k = whole_run ctx days s k"
  unfolding whole_run_def by (simp only:)

lemma whole_run_later:
  assumes "whole_run ctx (d # days) st k"
  shows "whole_day ctx d st k"
proof -
  have "0 \<le> sum_list (map (day_quantity ctx k) days)"
    by (rule sum_list_nonneg) (use day_quantity_nonneg [OF assms] in auto)
  then show ?thesis using assms by (auto simp: whole_run_def whole_day_def Let_def day_quantity_def)
qed

lemma sim_key_day_known:
  assumes "sim_key_day ctx d st k = Inr st'"
    and "\<forall>l \<in> set (dict_get_or (ss_lots st) k []). expiry_known (si_policy ctx) l"
    and "\<forall>x \<in> set (dict_get_or (si_inbound ctx) (d, fst k, snd k) []). expiry_known (si_policy ctx) (received_lot x)"
  shows "\<forall>l \<in> set (dict_get_or (ss_lots st') k []). expiry_known (si_policy ctx) l"
  using assms(1)
proof (rule sim_key_dayE)
  fix unit received es fefo waste
  let ?day = "(d, fst k, snd k)" and ?p = "si_policy ctx"
  assume rec: "emap receive_delivery (dict_get_or (si_inbound ctx) ?day []) = Inr received"
    and es: "expiry_pass (si_scenario_id ctx) d ?p (dict_get_or (ss_lots st) k [] @ received) = Inr es"
    and fefo: "consume_fefo (es_usable es) (dict_get_or (si_demand ctx) ?day 0) (si_scenario_id ctx) d ?p = Inr fefo"
    and waste: "apply_waste_events (fr_updated_lots fefo) (dict_get_or (si_waste ctx) ?day [])
       (si_scenario_id ctx) d (po_tolerance ?p) = Inr waste"
    and lots: "ss_lots st' = dict_set k (ws_lots waste) (ss_lots st)"
  have r: "\<forall>l \<in> set received. expiry_known ?p l"
    using emap_in_set [OF rec] receive_delivery_Inr assms(3) by blast
  show ?thesis
  proof
    fix l assume "l \<in> set (dict_get_or (ss_lots st') k [])"
    then have "stamp l \<in> stamps (es_usable es)"
      using consume_fefo_traced [OF fefo] apply_waste_stamps [OF waste]
      by (auto simp: lots dict_get_or_set stamps_def)
    then obtain x where "x \<in> set (es_usable es)" "stamp l = stamp x" by (auto simp: stamps_def)
    with assms(2) r stamp_known [of l x] show "expiry_known ?p l" by (auto simp: expiry_pass_spec(1) [OF es])
  qed
qed

lemma whole_run_step:
  assumes "whole_run ctx (d # days) st k"
  obtains st' where "sim_key_day ctx d st k = Inr st'" "whole_run ctx days st' k"
    "\<And>j. j \<noteq> k \<Longrightarrow> dict_get_or (ss_lots st') j [] = dict_get_or (ss_lots st) j []"
    "list_all balanced_exactly (ss_ledgers st) \<Longrightarrow> list_all balanced_exactly (ss_ledgers st')"
proof -
  note W = whole_day_step [OF whole_run_later [OF assms]]
  obtain st' where st': "sim_key_day ctx d st k = Inr st'"
  proof (cases "sim_key_day ctx d st k")
    case (Inl e)
    with W assms have False by (auto simp: whole_run_def)
    then show ?thesis ..
  qed (rule that)
  have known: "\<forall>l \<in> set (dict_get_or (ss_lots st') k []). expiry_known (si_policy ctx) l"
    by (rule sim_key_day_known [OF st']) (use assms in \<open>auto simp: whole_run_def\<close>)
  from W st' have w: "balanced_exactly (last (ss_ledgers st'))" "whole_lots (dict_get_or (ss_lots st') k [])"
    "lots_total (dict_get_or (ss_lots st') k []) \<le> lots_total (dict_get_or (ss_lots st) k []) + day_quantity ctx k d"
    by (simp_all add: day_quantity_def)
  have "whole_run ctx days st' k" using assms known w(2,3) by (simp add: whole_run_def)
  moreover from st' obtain ls g where "ss_lots st' = dict_set k ls (ss_lots st)" "ss_ledgers st' = ss_ledgers st @ [g]"
    by (rule sim_key_dayE)
  ultimately show ?thesis using that [OF st'] w(1) by (simp add: dict_get_or_set)
qed

lemma whole_run_day:
  assumes "distinct keys" "\<forall>k \<in> set keys. whole_run ctx (d # days) st k" "list_all balanced_exactly (ss_ledgers st)"
  obtains st' where "sim_day ctx keys st d = Inr st'" "\<forall>k \<in> set keys. whole_run ctx days st' k"
    "list_all balanced_exactly (ss_ledgers st')"
proof -
  have "\<exists>st'. efold (sim_key_day ctx d) st keys = Inr st' \<and> (\<forall>k \<in> set keys. whole_run ctx days st' k) \<and>
      (\<forall>j. j \<notin> set keys \<longrightarrow> dict_get_or (ss_lots st') j [] = dict_get_or (ss_lots st) j []) \<and>
      list_all balanced_exactly (ss_ledgers st')"
    using assms
  proof (induction keys arbitrary: st)
    case (Cons k ks)
    from Cons.prems have "whole_run ctx (d # days) st k" by simp
    then obtain s where s: "sim_key_day ctx d st k = Inr s" "whole_run ctx days s k"
      "\<And>j. j \<noteq> k \<Longrightarrow> dict_get_or (ss_lots s) j [] = dict_get_or (ss_lots st) j []"
      "list_all balanced_exactly (ss_ledgers s)"
      using Cons.prems(3) whole_run_step by metis
    have "\<forall>j \<in> set ks. whole_run ctx (d # days) s j"
    proof
      fix j assume j: "j \<in> set ks"
      then have "j \<noteq> k" using Cons.prems(1) by auto
      with Cons.prems(2) j whole_run_cong [OF s(3) [OF this]] show "whole_run ctx (d # days) s j" by simp
    qed
    from Cons.IH [OF _ this s(4)] Cons.prems(1) obtain t where t: "efold (sim_key_day ctx d) s ks = Inr t"
      "\<forall>j \<in> set ks. whole_run ctx days t j" "list_all balanced_exactly (ss_ledgers t)"
      "\<forall>j. j \<notin> set ks \<longrightarrow> dict_get_or (ss_lots t) j [] = dict_get_or (ss_lots s) j []" by auto
    have "k \<notin> set ks" using Cons.prems(1) by simp
    with whole_run_cong [OF t(4) [rule_format, of k]] s(2) have "whole_run ctx days t k" by simp
    with t s show ?case by simp
  qed simp
  with that show ?thesis by (auto simp: sim_day_def)
qed

lemma whole_run_days:
  assumes "distinct keys" "\<forall>k \<in> set keys. whole_run ctx days st k" "list_all balanced_exactly (ss_ledgers st)"
  shows "\<exists>st'. sim_days ctx keys days st = Inr st' \<and> (\<forall>k \<in> set keys. whole_lots (dict_get_or (ss_lots st') k [])) \<and>
    list_all balanced_exactly (ss_ledgers st')"
  using assms(2,3)
proof (induction days arbitrary: st)
  case Nil
  then show ?case by (simp add: sim_days_def whole_run_def)
next
  case (Cons d ds)
  from whole_run_day [OF assms(1) Cons.prems] obtain s where s: "sim_day ctx keys st d = Inr s"
    "\<forall>k \<in> set keys. whole_run ctx ds s k" "list_all balanced_exactly (ss_ledgers s)" by blast
  from Cons.IH [OF s(2,3)] s(1) show ?case by (simp add: sim_days_def)
qed

section \<open>A run in whole units returns\<close>

lemma sim_window_order: "sim_window scenario so eo = Inr (a, b) \<Longrightarrow> a \<le> b"
  by (auto simp: sim_window_def Let_def split: if_splits)

lemma sim_window_lines: "sim_window scenario so eo = Inr w \<Longrightarrow> sc_lines scenario \<noteq> []"
  by (auto simp: sim_window_def split: if_splits)

lemma sim_key_day_lot_keys:
  assumes "sim_key_day ctx d st k = Inr st'"
  shows "set (dict_keys (ss_lots st')) = insert k (set (dict_keys (ss_lots st)))"
    and "distinct (dict_keys (ss_lots st)) \<Longrightarrow> distinct (dict_keys (ss_lots st'))"
proof -
  from assms obtain ls where ls: "ss_lots st' = dict_set k ls (ss_lots st)" by (rule sim_key_dayE)
  show "set (dict_keys (ss_lots st')) = insert k (set (dict_keys (ss_lots st)))"
    unfolding ls by (rule dict_keys_set_eq)
  show "distinct (dict_keys (ss_lots st)) \<Longrightarrow> distinct (dict_keys (ss_lots st'))"
    unfolding ls by (rule distinct_dict_set)
qed

lemma sim_days_lot_keys:
  assumes "sim_days ctx keys days st = Inr st'" "distinct (dict_keys (ss_lots st))" "set (dict_keys (ss_lots st)) \<subseteq> set keys"
  shows "distinct (dict_keys (ss_lots st')) \<and> set (dict_keys (ss_lots st')) \<subseteq> set keys"
proof (rule sim_days_invariant [OF assms(1)])
  show "distinct (dict_keys (ss_lots st)) \<and> set (dict_keys (ss_lots st)) \<subseteq> set keys" using assms(2,3) by blast
  fix s d k s' assume s: "distinct (dict_keys (ss_lots s)) \<and> set (dict_keys (ss_lots s)) \<subseteq> set keys"
    and k: "k \<in> set keys" and step: "sim_key_day ctx d s k = Inr s'"
  show "distinct (dict_keys (ss_lots s')) \<and> set (dict_keys (ss_lots s')) \<subseteq> set keys"
  proof
    show "distinct (dict_keys (ss_lots s'))" by (rule sim_key_day_lot_keys(2) [OF step]) (rule s [THEN conjunct1])
    show "set (dict_keys (ss_lots s')) \<subseteq> set keys"
      unfolding sim_key_day_lot_keys(1) [OF step] using s [THEN conjunct2] k by blast
  qed
qed

lemma inventory_keys_cover:
  "set (dict_keys (group_by lot_key (cn_lots cn))) \<subseteq> set (inventory_keys cn)"
  unfolding group_by_keys inventory_keys_def set_sorted_set set_append by auto

lemma inventory_keys_nonempty:
  assumes "canonicalize pd uc scenario lots ds es ca = Inr cn" "sc_lines scenario \<noteq> []"
  shows "inventory_keys cn \<noteq> []"
proof -
  from assms(1) have "set (dict_keys (cn_target_units cn)) = demand_key ` set (sc_lines scenario)"
    by (rule canonicalizeE) (rule demand_target_units_keys)
  with assms(2) have "dict_keys (cn_target_units cn) \<noteq> []" by (metis image_is_empty set_empty)
  then show ?thesis by (simp add: inventory_keys_def)
qed

lemma good_ending_lots:
  assumes "distinct (dict_keys m)" "\<forall>k \<in> set (dict_keys m). good_lots (dict_get_or m k [])"
  shows "good_lots (ending_lots p m)"
proof -
  have "good_lots ls" if "(k, ls) \<in> set m" for k ls
  proof -
    have "map_of m k = Some ls" using assms(1) that by (simp add: map_of_is_SomeI)
    moreover have "k \<in> set (dict_keys m)" using that by force
    ultimately show ?thesis using assms(2) by (auto simp: dict_get_or_def)
  qed
  then show ?thesis by (auto simp: ending_lots_def good_lots_def)
qed

lemma whole_run_succeeds:
  assumes w: "sim_window scenario so eo = Inr (a, b)"
    and sn: "check_snapshot a lots (inbound @ planned) events = Inr ()"
    and ids: "check_identifiers lots (inbound @ planned) events = Inr ()"
    and cn: "canonicalize pd uc scenario lots (inbound @ planned) events ca = Inr cn"
    and su: "prepare (policy_or_default policy) scenario b (inbound @ planned) cn = Inr su"
    and whole: "\<forall>k \<in> set (su_keys su). whole_run (su_inputs su) [a..b] (su_start su) k"
  shows "\<exists>r. simulate_inventory np pd lots scenario inbound planned events policy uc ca so eo = Inr r \<and>
    list_all balanced_exactly (sr_ledgers r)"
proof -
  from su obtain keys: "su_keys su = inventory_keys cn" and l0: "ss_ledgers (su_start su) = []"
    and lots0: "ss_lots (su_start su) = group_by lot_key (cn_lots cn)" by (rule prepareE)
  have dist: "distinct (su_keys su)" by (simp add: keys inventory_keys_def)
  from whole_run_days [OF dist whole] l0 obtain st where run: "sim_days (su_inputs su) (su_keys su) [a..b] (su_start su) = Inr st"
    and wl: "\<forall>k \<in> set (su_keys su). whole_lots (dict_get_or (ss_lots st) k [])" and bal: "list_all balanced_exactly (ss_ledgers st)"
    by auto
  have lk: "distinct (dict_keys (ss_lots st)) \<and> set (dict_keys (ss_lots st)) \<subseteq> set (su_keys su)"
    by (rule sim_days_lot_keys [OF run]) (simp_all only: lots0 keys inventory_keys_cover distinct_group_by)
  then have good: "good_lots (ending_lots (policy_or_default policy) (ss_lots st))"
    using wl by (intro good_ending_lots) (auto simp: whole_lots_def)
  have slots: "map ledger_slot (ss_ledgers st) = concat (map (\<lambda>d. map (Pair d) (su_keys su)) [a..b])"
    using sim_days_slots [OF run [unfolded sim_days_def]] by (simp add: l0)
  have "[a..b] \<noteq> []" using sim_window_order [OF w] by simp
  moreover have "su_keys su \<noteq> []"
    using inventory_keys_nonempty [OF cn sim_window_lines [OF w]] by (simp add: keys)
  ultimately have ne: "ss_ledgers st \<noteq> []" using slots by (cases "[a..b]"; cases "su_keys su") auto
  have "list_all (ledger_balanced (si_policy (su_inputs su))) (ss_ledgers st)"
  proof (rule sim_days_invariant [OF run])
    show "list_all (ledger_balanced (si_policy (su_inputs su))) (ss_ledgers (su_start su))" by (simp add: l0)
  qed (rule sim_key_day_balanced)
  then have ok: "\<forall>g \<in> set (ss_ledgers st). daily_ledger_ok g" by (auto simp: list_all_iff ledger_balanced_def)
  from summarize_simulation_ok [OF ne ok good, of np "su_capacity_keys su"] obtain sm where
    "summarize_simulation np (ss_ledgers st) (ending_lots (policy_or_default policy) (ss_lots st)) (su_capacity_keys su) = Inr sm"
    by blast
  then show ?thesis
    using w sn ids cn su run bal by (simp add: simulate_inventory_def date_range_def assemble_def Let_def)
qed


section \<open>Concrete runs\<close>

text \<open>Five kilograms of flour that expire on day 20, and a scenario that asks for \<open>n\<close> on day 10.\<close>

definition flour_stock :: "inventory_lot list" where
  "flour_stock = [flour ''lot'' 5 (Some 20)]"

definition flour_demand :: "int \<Rightarrow> demand_scenario" where
  "flour_demand n =
     \<lparr>sc_scenario_id = ''sc'', sc_probability_weight = None, sc_start_date = Some 10, sc_end_date = Some 11,
      sc_lines = [\<lparr>ln_scenario_id = ''sc'', ln_store_id = ''s1'', ln_ingredient_id = ''flour'',
        ln_target_date = 10, ln_quantity = fint n, ln_unit = ''kg''\<rparr>],
      sc_provenance = [], sc_warnings = []\<rparr>"

lemma kg_normal: "normalize_unit ''kg'' = Inr ''kg''"
  by code_simp

lemma kg_canonical: "canonical_unit c i ''kg'' = Inr ''kg''"
proof -
  have "dict_get UNIT_DIMENSIONS ''kg'' = Some ''mass''" "dict_get_or CANONICAL_UNITS ''mass'' [] = ''kg''" by code_simp+
  then show ?thesis by (simp add: canonical_unit_def kg_normal)
qed

lemma kg_factor: "conversion_factor c i ''kg'' ''kg'' = Inr 1"
  by (rule conv.factor_same [where u = "''kg''"]) (rule kg_normal)+

lemma no_rules_converter: "unit_converter_from_frame pd None = Inr \<lparr>uc_graphs = []\<rparr>"
  by (simp add: unit_converter_from_frame_def adapt_unit_conversions_def make_unit_converter_def validate_graphs_def)

definition flour_canonical :: canonical_inputs where
  "flour_canonical = \<lparr>cn_target_units = [((''s1'', ''flour''), ''kg'')], cn_lots = flour_stock, cn_deliveries = [],
     cn_waste = [], cn_assumptions = []\<rparr>"

lemma flour_canonicalize: "canonicalize pd None (flour_demand n) flour_stock [] [] [] = Inr flour_canonical"
  by (simp add: canonicalize_def no_rules_converter demand_target_units_def flour_demand_def kg_normal set_key_unit_def
      normalize_lots_def normalize_lot_def flour_stock_def flour_def destination_unit_def kg_canonical
      kg_factor dict_get_or_def py_div_opt_def normalize_inbound_def normalize_waste_events_def
      normalize_cost_assumptions_def flour_canonical_def)

lemma flour_keys: "inventory_keys flour_canonical = [(''s1'', ''flour'')]"
  by (simp add: inventory_keys_def flour_canonical_def flour_stock_def flour_def lot_key_def sorted_set_def)

lemma group_by_Nil [simp]: "group_by f [] = []"
  by (simp add: group_by_def)

lemma flour_group: "group_by lot_key flour_stock = [((''s1'', ''flour''), flour_stock)]"
  by (simp add: group_by_def flour_stock_def flour_def lot_key_def dict_append_def dict_get_or_def)

lemma flour_prepare:
  obtains su where "prepare p (flour_demand n) 11 [] flour_canonical = Inr su" "su_keys su = [(''s1'', ''flour'')]"
    "si_policy (su_inputs su) = p" "si_key_units (su_inputs su) = [((''s1'', ''flour''), ''kg'')]"
    "si_demand (su_inputs su) = [((10, ''s1'', ''flour''), fint n)]" "si_inbound (su_inputs su) = []"
    "si_waste (su_inputs su) = []" "si_assumptions (su_inputs su) = []"
    "ss_lots (su_start su) = [((''s1'', ''flour''), flour_stock)]"
proof -
  have u: "all_key_units flour_canonical = Inr [((''s1'', ''flour''), ''kg'')]"
    by (simp add: all_key_units_def flour_canonical_def flour_stock_def flour_def lot_key_def set_key_unit_def)
  have c: "check_lot_units ((''s1'', ''flour''), flour_stock) = Inr ()"
    by (simp add: check_lot_units_def flour_stock_def flour_def sorted_set_def)
  have d: "demand_by_day (flour_demand n) = [((10, ''s1'', ''flour''), fint n)]"
    by (simp add: demand_by_day_def flour_demand_def)
  have f: "cn_lots flour_canonical = flour_stock" "cn_deliveries flour_canonical = []" "cn_waste flour_canonical = []"
    "cn_assumptions flour_canonical = []" by (simp_all add: flour_canonical_def)
  obtain su where su: "prepare p (flour_demand n) 11 [] flour_canonical = Inr su"
    by (simp add: prepare_def Let_def u f flour_group c)
  from su show ?thesis
    by (rule prepareE) (rule that [OF su], simp_all add: f u flour_keys flour_group d)
qed

lemma flour_whole_setup:
  assumes "0 \<le> n" "exact_int n"
  obtains su where "prepare (policy_or_default None) (flour_demand n) 11 ([] @ []) flour_canonical = Inr su"
    "sim_window (flour_demand n) None None = Inr (10, 11)"
    "check_snapshot 10 flour_stock ([] @ []) [] = Inr ()" "check_identifiers flour_stock ([] @ []) [] = Inr ()"
    "canonicalize pd None (flour_demand n) flour_stock ([] @ []) [] [] = Inr flour_canonical"
    "\<forall>k \<in> set (su_keys su). whole_run (su_inputs su) [10..11] (su_start su) k"
proof -
  have w: "sim_window (flour_demand n) None None = Inr (10, 11)"
    by (simp add: sim_window_def flour_demand_def py_min_def py_max_def first_some_def somes_def List.map_filter_simps Let_def)
  have sn: "check_snapshot 10 flour_stock ([] @ []) [] = Inr ()"
    by (simp add: check_snapshot_def snapshot_ok_def flour_stock_def flour_def)
  have ids: "check_identifiers flour_stock ([] @ []) [] = Inr ()"
    by (simp add: check_identifiers_def validate_unique_def flour_stock_def)
  have cn: "canonicalize pd None (flour_demand n) flour_stock ([] @ []) [] [] = Inr flour_canonical"
    by (simp add: flour_canonicalize)
  let ?p = "policy_or_default None"
  obtain su where su: "prepare ?p (flour_demand n) 11 ([] @ []) flour_canonical = Inr su"
    and S: "su_keys su = [(''s1'', ''flour'')]" "si_policy (su_inputs su) = ?p"
    "si_key_units (su_inputs su) = [((''s1'', ''flour''), ''kg'')]"
    "si_demand (su_inputs su) = [((10, ''s1'', ''flour''), fint n)]" "si_inbound (su_inputs su) = []"
    "si_waste (su_inputs su) = []" "si_assumptions (su_inputs su) = []"
    "ss_lots (su_start su) = [((''s1'', ''flour''), flour_stock)]"
    using flour_prepare [of ?p n] by auto
  have q: "whole_lots flour_stock" "lots_total flour_stock = 5"
    by (simp_all add: flour_stock_def flour_def inventory_lot_ok_def fint_eval whole_fint exact_int_def)
  have k: "\<forall>l \<in> set flour_stock. expiry_known ?p l"
    by (simp add: flour_stock_def flour_def expiry_known_def unknown_expiry_def)
  have "day_quantity (su_inputs su) k = (\<lambda>_. 0)" for k
    by (rule ext) (simp add: day_quantity_def S)
  then have "whole_run (su_inputs su) [10..11] (su_start su) (''s1'', ''flour'')"
    using q k assms by (auto simp: whole_run_def S dict_get_or_def whole_fint split: option.split)
  then have "\<forall>k \<in> set (su_keys su). whole_run (su_inputs su) [10..11] (su_start su) k" by (simp add: S)
  with that [OF su w sn ids cn] show ?thesis by blast
qed

lemma flour_simulation:
  assumes "0 \<le> n" "exact_int n"
  obtains r where "simulate_inventory np pd flour_stock (flour_demand n) [] [] [] None None [] None None = Inr r"
    "list_all balanced_exactly (sr_ledgers r)"
proof -
  obtain su where su: "prepare (policy_or_default None) (flour_demand n) 11 ([] @ []) flour_canonical = Inr su"
    "sim_window (flour_demand n) None None = Inr (10, 11)"
    "check_snapshot 10 flour_stock ([] @ []) [] = Inr ()" "check_identifiers flour_stock ([] @ []) [] = Inr ()"
    "canonicalize pd None (flour_demand n) flour_stock ([] @ []) [] [] = Inr flour_canonical"
    "\<forall>k \<in> set (su_keys su). whole_run (su_inputs su) [10..11] (su_start su) k"
    by (rule flour_whole_setup [OF assms])
  from whole_run_succeeds [OF su(2-5) su(1) su(6)] that show ?thesis by blast
qed

lemma sim_days_consumption_grows:
  assumes "sim_days ctx keys days st = Inr st'" "ss_consumption st \<noteq> []"
  shows "ss_consumption st' \<noteq> []"
proof (rule sim_days_invariant [OF assms(1)])
  fix s d k s' assume "ss_consumption s \<noteq> []" "sim_key_day ctx d s k = Inr s'"
  then show "ss_consumption s' \<noteq> []" by (auto elim!: sim_key_dayE)
qed (rule assms(2))

lemma flour_day_consumption:
  assumes "sim_key_day ctx 10 st (''s1'', ''flour'') = Inr st'" "dict_get_or (ss_lots st) (''s1'', ''flour'') [] = flour_stock"
    "si_inbound ctx = []" "dict_get_or (si_demand ctx) (10, ''s1'', ''flour'') 0 = fint 3" "si_policy ctx = default_policy"
  shows "ss_consumption st' \<noteq> []"
  using assms(1)
proof (rule sim_key_dayE)
  fix unit received es fefo waste
  assume rec: "emap receive_delivery (dict_get_or (si_inbound ctx) (10, fst (''s1'', ''flour''), snd (''s1'', ''flour'')) []) = Inr received"
    and es: "expiry_pass (si_scenario_id ctx) 10 (si_policy ctx) (dict_get_or (ss_lots st) (''s1'', ''flour'') [] @ received) = Inr es"
    and fefo: "consume_fefo (es_usable es) (dict_get_or (si_demand ctx) (10, fst (''s1'', ''flour''), snd (''s1'', ''flour'')) 0)
       (si_scenario_id ctx) 10 (si_policy ctx) = Inr fefo"
    and c: "ss_consumption st' = ss_consumption st @ fr_traces fefo"
  have "received = []" using rec assms(3) by simp
  then have us: "es_usable es = flour_stock"
    using expiry_pass_spec(1) [OF es] assms(2,5)
    by (simp add: flour_stock_def flour_def usable_def is_expired_def default_policy_def)
  have q: "whole_lots flour_stock" "whole (fint 3)"
    by (simp_all add: flour_stock_def flour_def inventory_lot_ok_def fint_eval whole_fint exact_int_def)
  have u: "flagged 10 default_policy (flour ''lot'' 5 (Some 20)) = (True, fint 5)"
    by (simp add: flagged_def flour_def is_expired_def default_policy_def)
  have "allocate (fint 3) (map (flagged 10 default_policy) (sort_key fefo_sort_key flour_stock)) = ([fint 2], 0)"
    by (simp add: flour_stock_def u Let_def min_def fint_eval)
  moreover have "fefo_spec flour_stock (fint 3) (si_scenario_id ctx) 10 default_policy fefo"
    using consume_fefo_cases [of flour_stock "fint 3", where s = "si_scenario_id ctx" and dt = 10 and p = default_policy]
      fefo us assms(4,5) q by (simp add: whole_lots_def whole_nonneg)
  ultimately have "fr_fulfilled fefo = fint 3" by (simp add: fefo_spec_def Let_def)
  then have "rat_total (map ct_quantity (fr_traces fefo)) = 3"
    using consume_fefo_whole(6) [OF q] fefo us assms(4,5) by (simp add: exact_int_def)
  then show ?thesis by (auto simp: c)
qed

lemma flour_traces:
  assumes "simulate_inventory np pd flour_stock (flour_demand 3) [] [] [] None None [] None None = Inr r"
  shows "sr_consumption_traces r \<noteq> []"
  using assms
proof (rule simulate_inventoryE)
  fix a b cn su st
  assume w: "sim_window (flour_demand 3) None None = Inr (a, b)"
    and cn: "canonicalize pd None (flour_demand 3) flour_stock ([] @ []) [] [] = Inr cn"
    and su: "prepare (policy_or_default None) (flour_demand 3) b ([] @ []) cn = Inr su"
    and run: "sim_days (su_inputs su) (su_keys su) (date_range a b) (su_start su) = Inr st"
    and r: "assemble np (policy_or_default None) (flour_demand 3) (a, b) su
       (run_provenance (policy_or_default None) (flour_demand 3) a [] su None None) st = Inr r"
  have ab: "a = 10" "b = 11"
    using w by (simp_all add: sim_window_def flour_demand_def py_min_def py_max_def first_some_def somes_def List.map_filter_simps Let_def)
  have cn': "cn = flour_canonical" using cn by (simp add: flour_canonicalize)
  have dp: "policy_or_default None = default_policy" by (simp add: policy_or_default_def)
  have r11: "[10..11] = [10, 11 :: int]" by code_simp
  obtain su' where "prepare default_policy (flour_demand 3) 11 [] flour_canonical = Inr su'"
    "su_keys su' = [(''s1'', ''flour'')]" "si_policy (su_inputs su') = default_policy"
    "si_demand (su_inputs su') = [((10, ''s1'', ''flour''), fint 3)]" "si_inbound (su_inputs su') = []"
    "ss_lots (su_start su') = [((''s1'', ''flour''), flour_stock)]"
    using flour_prepare [of default_policy 3] by metis
  moreover from this(1) have "su' = su" using su by (simp add: ab cn' dp)
  ultimately have S: "su_keys su = [(''s1'', ''flour'')]" "si_policy (su_inputs su) = default_policy"
    "si_demand (su_inputs su) = [((10, ''s1'', ''flour''), fint 3)]" "si_inbound (su_inputs su) = []"
    "ss_lots (su_start su) = [((''s1'', ''flour''), flour_stock)]" by simp_all
  from run obtain s where s: "sim_key_day (su_inputs su) 10 (su_start su) (''s1'', ''flour'') = Inr s"
    "sim_days (su_inputs su) (su_keys su) [11] s = Inr st"
    by (auto simp: ab date_range_def sim_days_def sim_day_def S r11 elim!: ebind_InrE)
  have "ss_consumption s \<noteq> []" by (rule flour_day_consumption [OF s(1)]) (simp_all add: S dict_get_or_def)
  then have "ss_consumption st \<noteq> []" by (rule sim_days_consumption_grows [OF s(2)])
  then show ?thesis
    using r by (auto simp: assemble_def Let_def dp drops_traces_def default_policy_def elim!: ebind_InrE)
qed

theorem simulation_ledgers_complete_witness:
  "\<exists>r. simulate_inventory plain_numpy cell_pandas flour_stock (flour_demand 3) [] [] [] None None [] None None = Inr r \<and>
     list_all (ledger_balanced default_policy) (sr_ledgers r)"
proof -
  obtain r where r: "simulate_inventory plain_numpy cell_pandas flour_stock (flour_demand 3) [] [] [] None None [] None None = Inr r"
    using flour_simulation [of 3 plain_numpy cell_pandas] by (auto simp: exact_int_def)
  from simulation_ledgers_complete [OF r] r show ?thesis by (auto simp: policy_or_default_def)
qed

theorem stock_rolls_forward_witness:
  "\<exists>r closing. simulate_inventory plain_numpy cell_pandas flour_stock (flour_demand 3) [] [] [] None None [] None None = Inr r \<and>
     rolls (fint 5) (filter (\<lambda>g. inv_key_of g = (''s1'', ''flour'')) (sr_ledgers r)) closing"
proof -
  obtain r where r: "simulate_inventory plain_numpy cell_pandas flour_stock (flour_demand 3) [] [] [] None None [] None None = Inr r"
    using flour_simulation [of 3 plain_numpy cell_pandas] by (auto simp: exact_int_def)
  have "stock (filter (\<lambda>l. lot_key l = (''s1'', ''flour'')) flour_stock) = fint 5"
    by (simp add: stock_def flour_stock_def flour_def lot_key_def)
  moreover have "cn_lots flour_canonical = flour_stock" by (simp add: flour_canonical_def)
  ultimately show ?thesis
    using stock_rolls_forward [OF r] r by (auto simp: flour_canonicalize) metis
qed

theorem stockout_dates_exact_witness:
  "\<exists>r. simulate_inventory plain_numpy cell_pandas flour_stock (flour_demand 9) [] [] [] None None [] None None = Inr r \<and>
     sorted (sr_stockout_dates r)"
proof -
  obtain r where r: "simulate_inventory plain_numpy cell_pandas flour_stock (flour_demand 9) [] [] [] None None [] None None = Inr r"
    using flour_simulation [of 9 plain_numpy cell_pandas] by (auto simp: exact_int_def)
  from stockout_dates_exact [OF r] r show ?thesis by blast
qed

theorem consumption_is_causal_witness:
  "\<exists>r t. simulate_inventory plain_numpy cell_pandas flour_stock (flour_demand 3) [] [] [] None None [] None None = Inr r \<and>
     t \<in> set (sr_consumption_traces r) \<and> justified flour_stock default_policy t"
proof -
  obtain r where r: "simulate_inventory plain_numpy cell_pandas flour_stock (flour_demand 3) [] [] [] None None [] None None = Inr r"
    using flour_simulation [of 3 plain_numpy cell_pandas] by (auto simp: exact_int_def)
  then obtain t where "t \<in> set (sr_consumption_traces r)"
    using flour_traces [OF r] by (cases "sr_consumption_traces r") auto
  with consumption_is_causal [OF r this] r show ?thesis by (auto simp: policy_or_default_def)
qed

lemma flour_demand_ok: "0 \<le> n \<Longrightarrow> demand_scenario_ok (flour_demand n)"
  by (simp add: demand_scenario_ok_def flour_demand_def demand_line_ok_def fint_nonneg)

theorem demand_reaches_ledgers_witness:
  "\<exists>r. simulate_inventory plain_numpy cell_pandas flour_stock (flour_demand 3) [] [] [] None None [] None None = Inr r \<and>
     (\<exists>g \<in> set (sr_ledgers r). lg_date g = 10 \<and> lg_demand g = fint 3)"
proof -
  obtain r where r: "simulate_inventory plain_numpy cell_pandas flour_stock (flour_demand 3) [] [] [] None None [] None None = Inr r"
    using flour_simulation [of 3 plain_numpy cell_pandas] by (auto simp: exact_int_def)
  from demand_reaches_ledgers [OF flour_demand_ok r, THEN conjunct1] r show ?thesis
    by (force simp: flour_demand_def ledger_slot_def line_slot_def)
qed

theorem higher_demand_more_shortage_witness:
  "\<exists>r r'. simulate_inventory plain_numpy cell_pandas flour_stock (flour_demand 3) [] [] [] None None [] None None = Inr r \<and>
     simulate_inventory plain_numpy cell_pandas flour_stock (flour_demand 9) [] [] [] None None [] None None = Inr r' \<and>
     list_all2 slot_le (sr_ledgers r) (sr_ledgers r')"
proof -
  obtain r where r: "simulate_inventory plain_numpy cell_pandas flour_stock (flour_demand 3) [] [] [] None None [] None None = Inr r"
    using flour_simulation [of 3 plain_numpy cell_pandas] by (auto simp: exact_int_def)
  obtain r' where r': "simulate_inventory plain_numpy cell_pandas flour_stock (flour_demand 9) [] [] [] None None [] None None = Inr r'"
    using flour_simulation [of 9 plain_numpy cell_pandas] by (auto simp: exact_int_def)
  have s: "same_lines (flour_demand 3) (flour_demand 9)"
    by (simp add: same_lines_def flour_demand_def line_day_key_def fint_eval)
  have w: "sc_start_date (flour_demand 3) = sc_start_date (flour_demand 9)" "sc_end_date (flour_demand 3) = sc_end_date (flour_demand 9)"
    by (simp_all add: flour_demand_def)
  have g: "good_lots flour_stock"
    by (simp add: good_lots_def flour_stock_def flour_def inventory_lot_ok_def fint_eval)
  have e: "\<forall>e \<in> set []. 0 \<le> we_quantity e" by simp
  from higher_demand_more_shortage [OF s flour_demand_ok w g e r r'] r r' show ?thesis by auto
qed

text \<open>The first day of the same run, as a state.\<close>

definition flour_inputs :: sim_inputs where
  "flour_inputs = \<lparr>si_scenario_id = ''sc'', si_policy = default_policy, si_key_units = [((''s1'', ''flour''), ''kg'')],
     si_demand = [((10, ''s1'', ''flour''), fint 3)], si_inbound = [], si_waste = [], si_assumptions = []\<rparr>"

definition flour_state :: sim_state where
  "flour_state = \<lparr>ss_lots = [((''s1'', ''flour''), flour_stock)], ss_ledgers = [], ss_consumption = [],
     ss_waste_traces = [], ss_expiry = [], ss_warnings = [], ss_stockouts = []\<rparr>"

lemma flour_stock_whole: "whole_lots flour_stock"
  by (simp add: flour_stock_def flour_def inventory_lot_ok_def fint_eval whole_fint exact_int_def)

theorem whole_day_balances_witness:
  "case sim_key_day flour_inputs 10 flour_state (''s1'', ''flour'') of
      Inr st' \<Rightarrow> balanced_exactly (last (ss_ledgers st'))
    | Inl e \<Rightarrow> err_class e = UnknownExpiryError \<or> err_code e = ''INVALID_WASTE_EVENT''"
proof -
  have "whole_day flour_inputs 10 flour_state (''s1'', ''flour'')"
    using flour_stock_whole
    by (simp add: whole_day_def Let_def flour_inputs_def flour_state_def dict_get_or_def whole_fint exact_int_def)
      (simp add: flour_stock_def flour_def exact_int_def)
  from whole_day_balances [OF this] show ?thesis by (auto split: sum.splits)
qed


end
