(* ===== verification/Inv_Batch.thy ===== *)
theory Inv_Batch
  imports Simulator
begin

text \<open>
  Batches of runs: \<open>InventorySimulationPackage\<close> of \<open>inventory/contracts.py\<close>, the two batch
  functions of \<open>inventory/simulator.py\<close>, \<open>inventory/monte_carlo.py\<close> and \<open>inventory/stress.py\<close>.
  All of them run the one simulator over a list of scenarios and collect the results in one
  package; the locale \<open>scenario_runner\<close> is what they rely on.
\<close>

section \<open>The package\<close>

record sim_package =
  pk_start_date :: date
  pk_end_date :: date
  pk_results :: "sim_result list"
  pk_risk :: "risk_metrics option"
  pk_baseline :: "string list"
  pk_provenance :: payload
  pk_warnings :: "string list"

text \<open>Weights are all missing or all given; given ones sum to one up to \<open>1e-9\<close>.\<close>

definition partial_weights :: "f64 option list \<Rightarrow> bool" where
  "partial_weights ws \<longleftrightarrow> list_ex (\<lambda>w. w \<noteq> None) ws \<and> \<not> all_some ws"

definition bad_weight_sum :: "f64 option list \<Rightarrow> bool" where
  "bad_weight_sum ws \<longleftrightarrow> ws \<noteq> [] \<and> all_some ws \<and> \<not> weights_close_to_one (somes ws)"

definition sim_package_ok :: "sim_package \<Rightarrow> bool" where
  "sim_package_ok p \<longleftrightarrow>
     \<not> partial_weights (map sr_probability_weight (pk_results p)) \<and>
     \<not> bad_weight_sum (map sr_probability_weight (pk_results p)) \<and>
     distinct (map sr_scenario_id (pk_results p))"

text \<open>The constructor call the three runners share.\<close>

definition make_package :: "sim_result list \<Rightarrow> risk_metrics option \<Rightarrow> payload \<Rightarrow> sim_package py" where
  "make_package results risk provenance =
     (let p = \<lparr>pk_start_date = py_min (map sr_start_date results), pk_end_date = py_max (map sr_end_date results),
               pk_results = results, pk_risk = risk, pk_baseline = [], pk_provenance = provenance,
               pk_warnings = sorted_set (concat (map sr_warnings results))\<rparr> in
      contract (sim_package_ok p) p)"

section \<open>Batches of scenarios\<close>

datatype demand_input = ScenarioList "demand_scenario list" | ScenarioBundle ingredient_bundle

definition input_scenarios :: "demand_input \<Rightarrow> bool \<Rightarrow> demand_scenario list py" where
  "input_scenarios input allow_incomplete =
     (case input of
        ScenarioList scenarios \<Rightarrow> Inr scenarios
      | ScenarioBundle bundle \<Rightarrow> advanced_inventory_scenarios bundle allow_incomplete)"

definition check_scenarios :: "demand_scenario list \<Rightarrow> unit py" where
  "check_scenarios scenarios =
     ebind (raise_if (scenarios = []) (exn InventoryValidationError [])) (\<lambda>_.
     ebind (raise_if (\<not> distinct (map sc_scenario_id scenarios))
       (exn_code InventoryValidationError ''SCENARIO_DUPLICATE_KEY'' [])) (\<lambda>_.
     let weights = map sc_probability_weight scenarios in
     ebind (raise_if (partial_weights weights) (exn InventoryValidationError [])) (\<lambda>_.
     raise_if (bad_weight_sum weights) (exn_code InventoryValidationError ''INVALID_SCENARIO_WEIGHTS'' []))))"

definition risk_of :: "numpy \<Rightarrow> sim_policy \<Rightarrow> sim_result list \<Rightarrow> risk_metrics py" where
  "risk_of np policy results =
     aggregate_risk_metrics np results (po_waste_threshold policy) (po_fill_rate_target policy)"

definition batch_package :: "numpy \<Rightarrow> sim_policy \<Rightarrow> sim_result list \<Rightarrow> sim_package py" where
  "batch_package np policy results =
     (let has_probability_weights = all_some (map sr_probability_weight results) in
      ebind (if has_probability_weights then ebind (risk_of np policy results) (\<lambda>r. Inr (Some r)) else Inr None)
       (\<lambda>risk.
      make_package results risk
        [(''simulator'', PStr ''lot_level_fefo_v1''), (''probabilistic'', PBool has_probability_weights)]))"

definition simulate_inventory_scenarios ::
    "numpy \<Rightarrow> 'c pandas \<Rightarrow> inventory_lot list \<Rightarrow> demand_input \<Rightarrow> delivery list \<Rightarrow> delivery list \<Rightarrow>
     waste_event list \<Rightarrow> sim_policy option \<Rightarrow> 'c data_frame option \<Rightarrow> cost_assumption list \<Rightarrow> bool \<Rightarrow>
     date option \<Rightarrow> date option \<Rightarrow> sim_package py" where
  "simulate_inventory_scenarios np pd initial_inventory input inbound planned_inbound events policy
       unit_conversions cost_assumptions allow_incomplete start_override end_override =
     (let policy = policy_or_default policy in
      ebind (input_scenarios input allow_incomplete) (\<lambda>scenarios.
      ebind (check_scenarios scenarios) (\<lambda>_.
      ebind (emap (\<lambda>scenario. simulate_inventory np pd initial_inventory scenario inbound planned_inbound
               events (Some policy) unit_conversions cost_assumptions start_override end_override) scenarios)
       (batch_package np policy))))"

definition simulate_quantile_inventory ::
    "numpy \<Rightarrow> 'c pandas \<Rightarrow> inventory_lot list \<Rightarrow> ingredient_package \<Rightarrow> delivery list \<Rightarrow> delivery list \<Rightarrow>
     waste_event list \<Rightarrow> sim_policy option \<Rightarrow> 'c data_frame option \<Rightarrow> cost_assumption list \<Rightarrow> bool \<Rightarrow>
     date option \<Rightarrow> date option \<Rightarrow> sim_package py" where
  "simulate_quantile_inventory np pd initial_inventory ingredient_demand inbound planned_inbound events policy
       unit_conversions cost_assumptions allow_incomplete start_override end_override =
     ebind (quantile_inventory_scenarios ingredient_demand allow_incomplete) (\<lambda>scenarios.
     ebind (simulate_inventory_scenarios np pd initial_inventory (ScenarioList scenarios) inbound planned_inbound
              events policy unit_conversions cost_assumptions False start_override end_override) (\<lambda>package.
     Inr (package\<lparr>pk_baseline := map sc_scenario_id scenarios\<rparr>)))"

section \<open>Monte Carlo\<close>

text \<open>\<open>(m or {}).get(scenario_id, ())\<close>.\<close>

definition scenario_extra :: "(string, 'a list) dict option \<Rightarrow> string \<Rightarrow> 'a list" where
  "scenario_extra m scenario_id = (case m of None \<Rightarrow> [] | Some d \<Rightarrow> dict_get_or d scenario_id [])"

definition check_monte_carlo :: "demand_scenario list \<Rightarrow> unit py" where
  "check_monte_carlo scenarios =
     ebind (raise_if (scenarios = []) value_error) (\<lambda>_.
     let weights = map sc_probability_weight scenarios in
     ebind (raise_if (\<not> all_some weights)
       (exn_code InventoryValidationError ''INVALID_SCENARIO_WEIGHTS'' [])) (\<lambda>_.
     raise_if (\<not> weights_close_to_one (somes weights))
       (exn_code InventoryValidationError ''INVALID_SCENARIO_WEIGHTS'' [])))"

definition monte_carlo_run ::
    "numpy \<Rightarrow> 'c pandas \<Rightarrow> inventory_lot list \<Rightarrow> demand_input \<Rightarrow> delivery list \<Rightarrow> delivery list \<Rightarrow>
     waste_event list \<Rightarrow> (string, delivery list) dict option \<Rightarrow> (string, delivery list) dict option \<Rightarrow>
     (string, waste_event list) dict option \<Rightarrow> sim_policy option \<Rightarrow> 'c data_frame option \<Rightarrow>
     cost_assumption list \<Rightarrow> int \<Rightarrow> bool \<Rightarrow> date option \<Rightarrow> date option \<Rightarrow> sim_package py" where
  "monte_carlo_run np pd initial_inventory input inbound planned_inbound events scenario_inbound
       scenario_planned scenario_waste policy unit_conversions cost_assumptions seed allow_incomplete
       start_override end_override =
     (let policy = policy_or_default policy in
      ebind (input_scenarios input allow_incomplete) (\<lambda>scenarios.
      ebind (check_monte_carlo scenarios) (\<lambda>_.
      ebind (emap (\<lambda>scenario. simulate_inventory np pd initial_inventory scenario
               (inbound @ scenario_extra scenario_inbound (sc_scenario_id scenario))
               (planned_inbound @ scenario_extra scenario_planned (sc_scenario_id scenario))
               (events @ scenario_extra scenario_waste (sc_scenario_id scenario))
               (Some policy) unit_conversions cost_assumptions start_override end_override) scenarios) (\<lambda>results.
      ebind (risk_of np policy results) (\<lambda>risk.
      make_package results (Some risk)
        [(''runner'', PStr ''monte_carlo_inventory_v1''), (''transition_engine'', PStr ''lot_level_fefo_v1''),
         (''seed'', PInt seed), (''scenario_count'', PInt (int (length results)))])))))"

section \<open>Stress tests\<close>

text \<open>The set of supplier identifiers is listed without repetition.\<close>

record stress_definition =
  sd_stress_id :: string
  sd_multiplier :: f64
  sd_delay_days :: int
  sd_supplier_ids :: "string list"
  sd_preserve_shelf_life :: bool
  sd_description :: "string option"

definition stress_definition_ok :: "stress_definition \<Rightarrow> bool" where
  "stress_definition_ok s \<longleftrightarrow> sd_stress_id s \<noteq> [] \<and> 0 \<le> sd_multiplier s \<and> 0 \<le> sd_delay_days s"

definition stress_dump :: "stress_definition \<Rightarrow> pyval" where
  "stress_dump s = PDict
     [(''stress_id'', PStr (sd_stress_id s)), (''demand_multiplier'', PNum (sd_multiplier s)),
      (''supplier_delay_days'', PInt (sd_delay_days s)),
      (''supplier_ids'', PList (map PStr (sd_supplier_ids s))),
      (''preserve_remaining_shelf_life'', PBool (sd_preserve_shelf_life s)),
      (''description'', opt_val PStr (sd_description s))]"

text \<open>\<open>date + timedelta(days=offset)\<close> raises beyond \<open>date.max\<close>.\<close>

definition add_days :: "date \<Rightarrow> int \<Rightarrow> date py" where
  "add_days d offset =
     ebind (raise_if (date_max < d + offset \<or> d + offset < date_min) (exn PyOverflowError [])) (\<lambda>_.
     Inr (d + offset))"

definition stress_selects :: "stress_definition \<Rightarrow> delivery \<Rightarrow> bool" where
  "stress_selects s d \<longleftrightarrow> sd_supplier_ids s = [] \<or> dl_supplier_id d \<in> set (sd_supplier_ids s)"

definition stress_offset :: "stress_definition \<Rightarrow> delivery \<Rightarrow> int" where
  "stress_offset s d = (if stress_selects s d then sd_delay_days s else 0)"

definition delay_delivery :: "stress_definition \<Rightarrow> delivery \<Rightarrow> delivery py" where
  "delay_delivery s d =
     ebind (add_days (dl_arrival_date d) (stress_offset s d)) (\<lambda>arrival_date.
     ebind (case dl_expiry_date d of
              None \<Rightarrow> Inr None
            | Some e \<Rightarrow> if sd_preserve_shelf_life s then ebind (add_days e (stress_offset s d)) (\<lambda>e. Inr (Some e))
                        else Inr (Some e)) (\<lambda>expiry_date.
     let late = (case expiry_date of None \<Rightarrow> False | Some e \<Rightarrow> e < arrival_date);
         d' = d\<lparr>dl_arrival_date := arrival_date, dl_expiry_date := expiry_date,
                dl_arrival_condition := (if late then ArrivedExpiredRealization else ArrivalNormal),
                dl_provenance := dict_merge (dl_provenance d)
                  [(''realization_type'', PStr ''explicit_stress''), (''stress_id'', PStr (sd_stress_id s)),
                   (''original_arrival_date'', PDate (dl_arrival_date d))]\<rparr> in
     contract (delivery_ok d') d'))"

definition stress_demand :: "stress_definition \<Rightarrow> demand_scenario \<Rightarrow> demand_scenario" where
  "stress_demand s demand =
     demand\<lparr>sc_scenario_id := sd_stress_id s, sc_probability_weight := None,
       sc_lines := map (\<lambda>l. l\<lparr>ln_scenario_id := sd_stress_id s, ln_quantity := ln_quantity l * sd_multiplier s\<rparr>)
         (sc_lines demand),
       sc_provenance := dict_merge (sc_provenance demand)
         [(''stress_source_scenario'', PStr (sc_scenario_id demand)), (''stress_definition'', stress_dump s)]\<rparr>"

definition apply_stress ::
    "demand_scenario \<Rightarrow> delivery list \<Rightarrow> delivery list \<Rightarrow> stress_definition \<Rightarrow>
     (demand_scenario \<times> delivery list \<times> delivery list) py" where
  "apply_stress demand inbound planned_inbound s =
     ebind (emap (delay_delivery s) inbound) (\<lambda>inbound.
     ebind (emap (delay_delivery s) planned_inbound) (\<lambda>planned_inbound.
     Inr (stress_demand s demand, inbound, planned_inbound)))"

definition run_inventory_stress_tests ::
    "numpy \<Rightarrow> 'c pandas \<Rightarrow> inventory_lot list \<Rightarrow> demand_scenario \<Rightarrow> stress_definition list \<Rightarrow> delivery list \<Rightarrow>
     delivery list \<Rightarrow> sim_policy option \<Rightarrow> 'c data_frame option \<Rightarrow> cost_assumption list \<Rightarrow>
     date option \<Rightarrow> date option \<Rightarrow> sim_package py" where
  "run_inventory_stress_tests np pd initial_inventory baseline_demand definitions inbound planned_inbound
       policy unit_conversions cost_assumptions start_override end_override =
     ebind (raise_if (definitions = []) value_error) (\<lambda>_.
     ebind (emap (\<lambda>s. ebind (apply_stress baseline_demand inbound planned_inbound s)
              (\<lambda>(demand, stressed_inbound, stressed_planned).
              simulate_inventory np pd initial_inventory demand stressed_inbound stressed_planned [] policy
                unit_conversions cost_assumptions start_override end_override)) definitions) (\<lambda>results.
     make_package results None [(''runner'', PStr ''explicit_stress_v1''), (''probabilistic'', PBool False)]))"

end
