(* ===== verification/Batch_Facts.thy ===== *)
theory Batch_Facts
  imports Inv_Batch Sim_Progress
begin

text \<open>What a batch of runs guarantees, whichever runner collects it.\<close>

section \<open>The contract of a run\<close>

lemma emap_map:
  assumes "emap f xs = Inr ys" "\<And>x y. f x = Inr y \<Longrightarrow> g y = h x"
  shows "map g ys = map h xs"
  using assms by (induction xs arbitrary: ys) (auto elim!: ebind_InrE)

text \<open>
  A runner simulates something that has an identifier and perhaps a weight; the result carries
  both, and its ledgers lie in its own window.
\<close>

locale scenario_runner =
  fixes run :: "'s \<Rightarrow> sim_result py" and ident :: "'s \<Rightarrow> string" and weight :: "'s \<Rightarrow> f64 option"
  assumes run_ident: "run s = Inr r \<Longrightarrow> sr_scenario_id r = ident s"
    and run_weight: "run s = Inr r \<Longrightarrow> sr_probability_weight r = weight s"
    and run_window: "run s = Inr r \<Longrightarrow> g \<in> set (sr_ledgers r) \<Longrightarrow> sr_start_date r \<le> lg_date g \<and> lg_date g \<le> sr_end_date r"
begin

lemma batch_idents:
  assumes "emap run xs = Inr rs"
  shows "map sr_scenario_id rs = map ident xs"
  by (rule emap_map [OF assms run_ident])

lemma batch_weights:
  assumes "emap run xs = Inr rs"
  shows "map sr_probability_weight rs = map weight xs"
  by (rule emap_map [OF assms run_weight])

text \<open>The package's own contract never rejects a batch of checked scenarios.\<close>

lemma batch_package_ok:
  assumes "emap run xs = Inr rs" "distinct (map ident xs)"
    and "\<not> partial_weights (map weight xs)" "\<not> bad_weight_sum (map weight xs)"
  shows "is_ok (make_package rs risk pv)"
  using assms batch_idents [OF assms(1)] batch_weights [OF assms(1)]
  by (simp add: make_package_def sim_package_ok_def Let_def)

lemma batch_window:
  assumes "emap run xs = Inr rs" "make_package rs risk pv = Inr p" "r \<in> set (pk_results p)" "g \<in> set (sr_ledgers r)"
  shows "pk_start_date p \<le> lg_date g \<and> lg_date g \<le> pk_end_date p"
proof -
  have p: "pk_results p = rs" "pk_start_date p = py_min (map sr_start_date rs)" "pk_end_date p = py_max (map sr_end_date rs)"
    using assms(2) by (auto simp: make_package_def Let_def)
  with assms(3) have r: "r \<in> set rs" by simp
  with emap_in_set [OF assms(1)] run_window assms(4)
  have "sr_start_date r \<le> lg_date g" "lg_date g \<le> sr_end_date r" by blast+
  moreover have "pk_start_date p \<le> sr_start_date r" "sr_end_date r \<le> pk_end_date p"
    using r by (simp_all add: p py_min_le py_max_ge)
  ultimately show ?thesis by linarith
qed

end

lemma run_dates:
  assumes "simulate_inventory np pd lots s inbound planned events policy uc ca so eo = Inr r" "g \<in> set (sr_ledgers r)"
  shows "sr_start_date r \<le> lg_date g \<and> lg_date g \<le> sr_end_date r"
proof -
  from run_ledgers [OF assms(1)] obtain keys
    where "map ledger_slot (sr_ledgers r) = concat (map (\<lambda>day. map (Pair day) keys) [sr_start_date r..sr_end_date r])"
    by blast
  then have "ledger_slot ` set (sr_ledgers r) = set (concat (map (\<lambda>day. map (Pair day) keys) [sr_start_date r..sr_end_date r]))"
    by (metis set_map)
  with assms(2) have "ledger_slot g \<in> set (concat (map (\<lambda>day. map (Pair day) keys) [sr_start_date r..sr_end_date r]))" by blast
  then show ?thesis by (auto simp: ledger_slot_def)
qed

lemma run_names:
  assumes "simulate_inventory np pd lots s inbound planned events policy uc ca so eo = Inr r"
  shows "sr_scenario_id r = sc_scenario_id s" "sr_probability_weight r = sc_probability_weight s"
  using assms by (auto elim!: simulate_inventoryE dest: assemble_Inr)

text \<open>The simulator, with inputs that may depend on the scenario, and the stressed simulator.\<close>

interpretation scenario_run: scenario_runner
  "\<lambda>s. simulate_inventory np pd lots s (f s) (g s) (h s) policy uc ca so eo" sc_scenario_id sc_probability_weight
  for np pd lots f g h policy uc ca so eo
  by unfold_locales (blast dest: run_names run_dates)+

definition stress_run ::
    "numpy \<Rightarrow> 'c pandas \<Rightarrow> inventory_lot list \<Rightarrow> demand_scenario \<Rightarrow> delivery list \<Rightarrow> delivery list \<Rightarrow>
     sim_policy option \<Rightarrow> 'c data_frame option \<Rightarrow> cost_assumption list \<Rightarrow> date option \<Rightarrow> date option \<Rightarrow>
     stress_definition \<Rightarrow> sim_result py" where
  "stress_run np pd lots demand inbound planned policy uc ca so eo s =
     ebind (apply_stress demand inbound planned s) (\<lambda>(demand, inbound, planned).
     simulate_inventory np pd lots demand inbound planned [] policy uc ca so eo)"

lemma apply_stressE:
  assumes "apply_stress demand inbound planned s = Inr (d, i, p)"
  obtains "d = stress_demand s demand" "emap (delay_delivery s) inbound = Inr i" "emap (delay_delivery s) planned = Inr p"
  using assms by (auto simp: apply_stress_def)

lemma stress_runE:
  assumes "stress_run np pd lots demand inbound planned policy uc ca so eo s = Inr r"
  obtains i p where "emap (delay_delivery s) inbound = Inr i" "emap (delay_delivery s) planned = Inr p"
    "simulate_inventory np pd lots (stress_demand s demand) i p [] policy uc ca so eo = Inr r"
  using assms by (auto simp: stress_run_def elim!: apply_stressE)

interpretation stressed: scenario_runner "stress_run np pd lots demand inbound planned policy uc ca so eo" sd_stress_id "\<lambda>_. None"
  for np pd lots demand inbound planned policy uc ca so eo
  by unfold_locales (auto elim!: stress_runE dest: run_names run_dates simp: stress_demand_def)


section \<open>What a batch returns\<close>

text \<open>One result per scenario, in order, each the simulator's own; a window that covers them all.\<close>

definition covers_run :: "sim_package \<Rightarrow> sim_result \<Rightarrow> bool" where
  "covers_run p r \<longleftrightarrow> (\<forall>g \<in> set (sr_ledgers r). pk_start_date p \<le> lg_date g \<and> lg_date g \<le> pk_end_date p)"

lemma make_packageE:
  assumes "make_package rs risk pv = Inr p"
  obtains "pk_results p = rs" "pk_risk p = risk" "pk_baseline p = []" "pk_provenance p = pv" "sim_package_ok p"
  using assms by (auto simp: make_package_def Let_def)

lemma make_package_provenance:
  "make_package rs risk pv = ebind (make_package rs risk pw) (\<lambda>p. Inr (p\<lparr>pk_provenance := pv\<rparr>))"
  by (simp add: make_package_def Let_def contract_def sim_package_ok_def)

lemma check_scenarios_Inr:
  assumes "check_scenarios ss = Inr u"
  shows "ss \<noteq> []" "distinct (map sc_scenario_id ss)" "\<not> partial_weights (map sc_probability_weight ss)"
    "\<not> bad_weight_sum (map sc_probability_weight ss)"
  using assms by (auto simp: check_scenarios_def Let_def elim!: ebind_InrE)

text \<open>A batch either returns one result per scenario or fails for a reason of its inputs. The
  results come in the order of the scenarios, each is what \<open>simulate_inventory\<close> returns for that
  scenario, they are named apart, risk metrics are present exactly when the scenarios carry
  weights, and the package's window covers every ledger. A failure is a failure of the bundle's
  adapter, of the checks on the scenarios, of one scenario's run, or of the risk aggregation:
  the contract of the package never rejects.\<close>

theorem batch_runs_every_scenario:
  "case simulate_inventory_scenarios np pd lots input inbound planned events policy uc ca allow so eo of
     Inr p \<Rightarrow> \<exists>ss. input_scenarios input allow = Inr ss \<and>
       list_all2 (\<lambda>s r. simulate_inventory np pd lots s inbound planned events
         (Some (policy_or_default policy)) uc ca so eo = Inr r) ss (pk_results p) \<and>
       map sr_scenario_id (pk_results p) = map sc_scenario_id ss \<and> distinct (map sc_scenario_id ss) \<and>
       (pk_risk p \<noteq> None \<longleftrightarrow> all_some (map sc_probability_weight ss)) \<and>
       list_all (covers_run p) (pk_results p)
   | Inl e \<Rightarrow> input_scenarios input allow = Inl e \<or>
       (\<exists>ss. input_scenarios input allow = Inr ss \<and>
         (check_scenarios ss = Inl e \<or>
          (\<exists>s \<in> set ss. simulate_inventory np pd lots s inbound planned events
             (Some (policy_or_default policy)) uc ca so eo = Inl e) \<or>
          (\<exists>rs. map sr_scenario_id rs = map sc_scenario_id ss \<and> risk_of np (policy_or_default policy) rs = Inl e)))"
proof -
  let ?run = "\<lambda>s. simulate_inventory np pd lots s inbound planned events (Some (policy_or_default policy)) uc ca so eo"
  note defs = simulate_inventory_scenarios_def Let_def
  consider (input) e where "input_scenarios input allow = Inl e"
    | (check) ss e where "input_scenarios input allow = Inr ss" "check_scenarios ss = Inl e"
    | (run) ss u e where "input_scenarios input allow = Inr ss" "check_scenarios ss = Inr u" "emap ?run ss = Inl e"
    | (ok) ss u rs where "input_scenarios input allow = Inr ss" "check_scenarios ss = Inr u" "emap ?run ss = Inr rs"
    by (metis sum.exhaust)
  then show ?thesis
  proof cases
    case run
    from run(3) obtain s where "s \<in> set ss" "?run s = Inl e" by (rule emap_InlE)
    with run show ?thesis by (auto simp: defs)
  next
    case ok
    note C = check_scenarios_Inr [OF ok(2)]
    note names = scenario_run.batch_idents [OF ok(3)] and ws = scenario_run.batch_weights [OF ok(3)]
    have pk: "make_package rs risk pv \<noteq> Inl e" for risk pv e
      using scenario_run.batch_package_ok [OF ok(3) C(2-4), of risk pv] by (auto simp: is_ok_def)
    have win: "list_all (covers_run p) (pk_results p)" if "make_package rs risk pv = Inr p" for risk pv p
      using scenario_run.batch_window [OF ok(3) that] by (simp add: covers_run_def list_all_iff)
    have eq: "simulate_inventory_scenarios np pd lots input inbound planned events policy uc ca allow so eo =
        batch_package np (policy_or_default policy) rs" by (simp add: defs ok)
    have each: "list_all2 (\<lambda>s r. ?run s = Inr r) ss rs" using ok(3) by (simp add: emap_Inr_iff)
    show ?thesis
    proof (cases "batch_package np (policy_or_default policy) rs")
      case (Inl e)
      then have "risk_of np (policy_or_default policy) rs = Inl e"
        using pk by (auto simp: batch_package_def Let_def ebind_Inl_iff split: if_splits)
      then show ?thesis using ok names by (auto simp: eq Inl)
    next
      case (Inr p)
      then obtain risk pv where p: "make_package rs risk pv = Inr p" and r: "risk \<noteq> None \<longleftrightarrow> all_some (map sr_probability_weight rs)"
        by (auto simp: batch_package_def Let_def elim!: ebind_InrE split: if_splits)
      from p show ?thesis
        by (rule make_packageE) (use each names C r ws win [OF p] ok in \<open>auto simp: eq Inr\<close>)
    qed
  qed (simp_all add: defs)
qed


section \<open>Monte Carlo is the batch runner\<close>

definition monte_carlo_provenance :: "int \<Rightarrow> demand_scenario list \<Rightarrow> payload" where
  "monte_carlo_provenance seed ss =
     [(''runner'', PStr ''monte_carlo_inventory_v1''), (''transition_engine'', PStr ''lot_level_fefo_v1''),
      (''seed'', PInt seed), (''scenario_count'', PInt (int (length ss)))]"

text \<open>On weighted scenarios the Monte Carlo runner is the batch runner. With no scenario-specific
  deliveries or waste, on scenarios that all carry a weight, it returns the same package up to
  its provenance, and fails whenever the batch fails.\<close>

theorem monte_carlo_equals_batch:
  assumes "input_scenarios input allow = Inr ss" "all_some (map sc_probability_weight ss)"
  shows "case simulate_inventory_scenarios np pd lots input inbound planned events policy uc ca allow so eo of
      Inr p \<Rightarrow> monte_carlo_run np pd lots input inbound planned events None None None policy uc ca seed allow so eo =
        Inr (p\<lparr>pk_provenance := monte_carlo_provenance seed ss\<rparr>)
    | Inl e \<Rightarrow> \<exists>e'. monte_carlo_run np pd lots input inbound planned events None None None policy uc ca seed allow so eo = Inl e'"
proof -
  let ?run = "\<lambda>s. simulate_inventory np pd lots s inbound planned events (Some (policy_or_default policy)) uc ca so eo"
  let ?pv = "[(''simulator'', PStr ''lot_level_fefo_v1''), (''probabilistic'', PBool True)]"
  let ?mv = "\<lambda>rs. [(''runner'', PStr ''monte_carlo_inventory_v1''), (''transition_engine'', PStr ''lot_level_fefo_v1''),
      (''seed'', PInt seed), (''scenario_count'', PInt (int (length rs)))]"
  have batch: "simulate_inventory_scenarios np pd lots input inbound planned events policy uc ca allow so eo =
      ebind (check_scenarios ss) (\<lambda>_. ebind (emap ?run ss) (batch_package np (policy_or_default policy)))"
    by (simp add: simulate_inventory_scenarios_def Let_def assms(1))
  have monte: "monte_carlo_run np pd lots input inbound planned events None None None policy uc ca seed allow so eo =
      ebind (check_monte_carlo ss) (\<lambda>_. ebind (emap ?run ss) (\<lambda>rs.
        ebind (risk_of np (policy_or_default policy) rs) (\<lambda>risk. make_package rs (Some risk) (?mv rs))))"
    by (simp add: monte_carlo_run_def Let_def assms(1) scenario_extra_def)
  show ?thesis
  proof (cases "emap ?run ss")
    case (Inl e)
    then show ?thesis by (cases "check_scenarios ss"; cases "check_monte_carlo ss") (simp_all add: batch monte)
  next
    case rs: (Inr rs)
    note ids = scenario_run.batch_idents [OF rs] and ws = scenario_run.batch_weights [OF rs]
    have pkg: "batch_package np (policy_or_default policy) rs =
        ebind (risk_of np (policy_or_default policy) rs) (\<lambda>risk. make_package rs (Some risk) ?pv)"
      by (cases "risk_of np (policy_or_default policy) rs") (simp_all add: batch_package_def ws assms(2))
    have reject: "make_package rs risk pv = Inl value_error" if "\<not> distinct (map sc_scenario_id ss)" for risk pv
      using that by (simp add: make_package_def Let_def sim_package_ok_def ids)
    have mv: "make_package rs (Some risk) (?mv rs) =
        ebind (make_package rs (Some risk) ?pv) (\<lambda>p. Inr (p\<lparr>pk_provenance := monte_carlo_provenance seed ss\<rparr>))" for risk
      using make_package_provenance [of rs "Some risk" "?mv rs" ?pv] emap_length [OF rs]
      by (simp add: monte_carlo_provenance_def)
    show ?thesis
    proof (cases "check_scenarios ss")
      case (Inl e)
      with assms(2) have "ss = [] \<or> \<not> distinct (map sc_scenario_id ss) \<or>
          \<not> weights_close_to_one (somes (map sc_probability_weight ss))"
        by (auto simp: check_scenarios_def Let_def ebind_Inl_iff bad_weight_sum_def partial_weights_def)
      then have "monte_carlo_run np pd lots input inbound planned events None None None policy uc ca seed allow so eo \<noteq> Inr p" for p
        by (auto simp: monte check_monte_carlo_def rs reject Let_def elim!: ebind_InrE)
      then show ?thesis
        by (cases "monte_carlo_run np pd lots input inbound planned events None None None policy uc ca seed allow so eo")
          (auto simp: batch Inl)
    next
      case (Inr u)
      with assms(2) have "check_monte_carlo ss = Inr ()"
        by (auto simp: check_scenarios_def check_monte_carlo_def Let_def bad_weight_sum_def elim!: ebind_InrE)
      then show ?thesis
        by (cases "risk_of np (policy_or_default policy) rs"; cases "make_package rs (Some (projr (risk_of np (policy_or_default policy) rs))) ?pv")
          (simp_all add: batch monte Inr rs pkg mv)
    qed
  qed
qed


section \<open>Quantile batches\<close>

definition more_shortage :: "sim_result \<Rightarrow> sim_result \<Rightarrow> bool" where
  "more_shortage r r' \<longleftrightarrow> list_all2 slot_le (sr_ledgers r) (sr_ledgers r')"

lemma policy_or_default_idem [simp]: "policy_or_default (Some p) = p"
  by (simp add: policy_or_default_def)

text \<open>The quantile simulation is ordered end to end. On a demand package made by the BOM engine, a
  quantile run returns the three results low, median, high, named in the baseline list, and
  in every ledger the shortage grows from low to median to high.\<close>

theorem quantile_shortages_ordered:
  assumes "propagate_ingredient_demand pd forecast recipes conversions = Inr k"
    and "good_lots lots" "\<forall>e \<in> set events. 0 \<le> we_quantity e"
    and "simulate_quantile_inventory np pd lots k inbound planned events policy uc ca allow so eo = Inr p"
  shows "\<exists>low median high. pk_results p = [low, median, high] \<and>
    pk_baseline p = [''LOW_P25'', ''MEDIAN_P50'', ''HIGH_P75''] \<and>
    map sr_scenario_id (pk_results p) = pk_baseline p \<and> pk_risk p = None \<and>
    more_shortage low median \<and> more_shortage median high"
proof -
  let ?run = "\<lambda>s. simulate_inventory np pd lots s inbound planned events (Some (policy_or_default policy)) uc ca so eo"
  have ord: "\<forall>p \<in> set (ik_predictions k). ip_p25 p \<le> ip_p50 p \<and> ip_p50 p \<le> ip_p75 p"
    using engine_predictions [OF assms(1)] by blast
  from assms(4) obtain ss q where ss: "quantile_inventory_scenarios k allow = Inr ss"
    and q: "simulate_inventory_scenarios np pd lots (ScenarioList ss) inbound planned events policy uc ca False so eo = Inr q"
    and p: "p = q\<lparr>pk_baseline := map sc_scenario_id ss\<rparr>"
    by (auto simp: simulate_quantile_inventory_def elim!: ebind_InrE)
  note F = quantile_scenarios_facts [OF ord ss]
  from F obtain l m h where s3: "ss = [l, m, h]"
    and ids: "sc_scenario_id l = ''LOW_P25''" "sc_scenario_id m = ''MEDIAN_P50''" "sc_scenario_id h = ''HIGH_P75''"
    and same: "same_lines l m" "same_lines m h" by blast
  have each: "demand_scenario_ok x \<and> sc_probability_weight x = None \<and>
      in_window (ik_forecast_date k + 1) (ik_forecast_date k + ik_forecast_horizon k) x" if "x \<in> set ss" for x
    using F that by blast
  have ok: "demand_scenario_ok l" "demand_scenario_ok m" and w: "map sc_probability_weight ss = [None, None, None]"
    and win: "sc_start_date l = sc_start_date m" "sc_end_date l = sc_end_date m"
      "sc_start_date m = sc_start_date h" "sc_end_date m = sc_end_date h"
    using each [of l] each [of m] each [of h] by (simp_all add: s3 in_window_def)
  from q obtain rs where rs: "emap ?run ss = Inr rs" and pkg: "batch_package np (policy_or_default policy) rs = Inr q"
    by (auto simp: simulate_inventory_scenarios_def input_scenarios_def Let_def elim!: ebind_InrE)
  have "\<not> all_some (map sr_probability_weight rs)"
    using scenario_run.batch_weights [OF rs] w by (simp add: all_some_def)
  with pkg obtain pv where "make_package rs None pv = Inr q" by (auto simp: batch_package_def)
  then have q': "pk_results q = rs" "pk_risk q = None" by (auto elim: make_packageE)
  from rs s3 obtain a b c where r3: "rs = [a, b, c]" and a: "?run l = Inr a" and b: "?run m = Inr b" and c: "?run h = Inr c"
    by (auto simp: ebind_Inr_iff)
  have "more_shortage a b" unfolding more_shortage_def
    by (rule more_demand_run [OF same(1) ok(1) win(1,2) assms(2,3) a b])
  moreover have "more_shortage b c" unfolding more_shortage_def
    by (rule more_demand_run [OF same(2) ok(2) win(3,4) assms(2,3) b c])
  ultimately show ?thesis
    using scenario_run.batch_idents [OF rs] by (simp add: p q' s3 ids r3)
qed

section \<open>Stress tests\<close>

definition delayed :: "stress_definition \<Rightarrow> delivery \<Rightarrow> delivery \<Rightarrow> bool" where
  "delayed s d d' \<longleftrightarrow> delivery_ok d' \<and> dl_arrival_date d' = dl_arrival_date d + stress_offset s d \<and>
     dl_lot_id d' = dl_lot_id d \<and> dl_quantity d' = dl_quantity d \<and> dl_unit d' = dl_unit d \<and>
     dl_expiry_date d' = (if sd_preserve_shelf_life s then map_option (\<lambda>e. e + stress_offset s d) (dl_expiry_date d)
       else dl_expiry_date d)"

lemma dict_get_merge_tagged:
  "dict_get (dict_merge d [(''realization_type'', x), (''stress_id'', y), (''original_arrival_date'', z)]) ''realization_type'' = Some x"
  by (simp add: dict_merge_def update_conv')

lemma delay_delivery_cases:
  assumes "delivery_ok d"
  shows "case delay_delivery s d of Inr d' \<Rightarrow> delayed s d d' | Inl e \<Rightarrow> err_class e = PyOverflowError"
proof -
  have tag: "py_truthy (dict_get_or (dict_merge (dl_provenance d)
      [(''realization_type'', PStr ''explicit_stress''), (''stress_id'', x), (''original_arrival_date'', z)]) ''realization_type'' PNone)" for x z
    by (simp add: dict_get_or_def dict_get_merge_tagged)
  show ?thesis
    using assms unfolding delay_delivery_def add_days_def
    by (auto simp: ebind_def raise_if_def contract_def Let_def delayed_def delivery_ok_def arrived_expired_def tag
        split: option.splits if_splits)
qed

lemma emap_cases:
  assumes "\<forall>x \<in> set xs. case f x of Inr y \<Rightarrow> R x y | Inl e \<Rightarrow> E e"
  shows "case emap f xs of Inr ys \<Rightarrow> list_all2 R xs ys | Inl e \<Rightarrow> E e"
  using assms by (induction xs) (auto simp: ebind_def split: sum.splits)

text \<open>A stress never corrupts a delivery. Applied to valid deliveries it moves the arrival of the
  selected suppliers' deliveries by the delay, keeps lot, quantity and unit, keeps the
  remaining shelf life when asked to (and the expiry date otherwise), and every delivery it
  returns satisfies the contract again, also one that now arrives expired; the only failure
  is a date beyond the calendar.\<close>

theorem stressed_deliveries_valid:
  assumes "\<forall>d \<in> set (inbound @ planned). delivery_ok d"
  shows "case apply_stress demand inbound planned s of
      Inr (demand', inbound', planned') \<Rightarrow>
        list_all2 (delayed s) inbound inbound' \<and> list_all2 (delayed s) planned planned'
    | Inl e \<Rightarrow> err_class e = PyOverflowError"
proof -
  have "case emap (delay_delivery s) ds of Inr ds' \<Rightarrow> list_all2 (delayed s) ds ds' | Inl e \<Rightarrow> err_class e = PyOverflowError"
    if "\<forall>d \<in> set ds. delivery_ok d" for ds
    by (rule emap_cases) (use that delay_delivery_cases in blast)
  from this [of inbound] this [of planned] assms show ?thesis
    by (auto simp: apply_stress_def ebind_def split: sum.splits)
qed

definition harsher :: "stress_definition \<Rightarrow> stress_definition \<Rightarrow> bool" where
  "harsher s s' \<longleftrightarrow> s' = s\<lparr>sd_multiplier := sd_multiplier s'\<rparr> \<and> sd_multiplier s \<le> sd_multiplier s'"

lemma f64_mult_left_mono: "a \<le> b \<Longrightarrow> 0 \<le> c \<Longrightarrow> c * a \<le> c * (b :: f64)"
  by (auto simp: f64_cmp f64_rep intro: rnd_mono mult_left_mono)


lemma harsher_delay:
  assumes "harsher s s'"
  shows "delay_delivery s' = delay_delivery s"
proof -
  from assms have "s' = s\<lparr>sd_multiplier := sd_multiplier s'\<rparr>" by (simp add: harsher_def)
  then have eq: "sd_delay_days s' = sd_delay_days s" "sd_supplier_ids s' = sd_supplier_ids s"
    "sd_preserve_shelf_life s' = sd_preserve_shelf_life s" "sd_stress_id s' = sd_stress_id s"
    by (metis stress_definition.select_convs stress_definition.surjective stress_definition.update_convs(2))+
  have "stress_offset s' = stress_offset s"
    by (rule ext) (simp only: stress_offset_def stress_selects_def eq)
  then show ?thesis by (intro ext) (simp only: delay_delivery_def eq)
qed

lemma stress_demand_ok:
  assumes "demand_scenario_ok demand" "stress_definition_ok s"
  shows "demand_scenario_ok (stress_demand s demand)"
proof -
  let ?f = "\<lambda>l. l\<lparr>ln_scenario_id := sd_stress_id s, ln_quantity := ln_quantity l * sd_multiplier s\<rparr>"
  have key: "map line_day_key (map ?f ls) = map line_day_key ls" for ls by (simp add: line_day_key_def)
  have "list_all demand_line_ok (map ?f (sc_lines demand))"
    using assms by (auto simp: list_all_iff demand_scenario_ok_def demand_line_ok_def stress_definition_ok_def
        intro: f64_mult_nonneg)
  then show ?thesis
    using assms key [of "sc_lines demand"]
    by (simp add: demand_scenario_ok_def stress_demand_def stress_definition_ok_def list_all_iff del: map_map
        split: option.splits)
qed

lemma stress_demand_harsher:
  assumes "harsher s s'" "demand_scenario_ok demand"
  shows "same_lines (stress_demand s demand) (stress_demand s' demand)"
proof -
  have "0 \<le> ln_quantity l" if "l \<in> set (sc_lines demand)" for l
    using assms(2) that by (auto simp: demand_scenario_ok_def demand_line_ok_def list_all_iff)
  moreover have "sd_multiplier s \<le> sd_multiplier s'" using assms(1) by (simp add: harsher_def)
  ultimately show ?thesis
    by (auto simp: same_lines_def stress_demand_def list_all2_conv_all_nth line_day_key_def intro: f64_mult_left_mono)
qed

lemma harsher_run:
  assumes "harsher s s'" "stress_definition_ok s" "demand_scenario_ok demand" "good_lots lots"
    and "stress_run np pd lots demand inbound planned policy uc ca so eo s = Inr r"
    and "stress_run np pd lots demand inbound planned policy uc ca so eo s' = Inr r'"
  shows "more_shortage r r'"
proof -
  note s' = harsher_delay [OF assms(1)]
  from assms(5) obtain i p where i: "emap (delay_delivery s) inbound = Inr i" "emap (delay_delivery s) planned = Inr p"
    and r: "simulate_inventory np pd lots (stress_demand s demand) i p [] policy uc ca so eo = Inr r"
    by (rule stress_runE)
  from assms(6) i have r': "simulate_inventory np pd lots (stress_demand s' demand) i p [] policy uc ca so eo = Inr r'"
    by (auto elim!: stress_runE simp: s')
  show ?thesis unfolding more_shortage_def
    by (rule more_demand_run [OF stress_demand_harsher [OF assms(1,3)] stress_demand_ok [OF assms(3,2)] _ _ assms(4) _ r r'])
      (simp_all add: stress_demand_def)
qed

lemma stress_testsE:
  assumes "run_inventory_stress_tests np pd lots demand ds inbound planned policy uc ca so eo = Inr p"
  obtains "ds \<noteq> []" "emap (stress_run np pd lots demand inbound planned policy uc ca so eo) ds = Inr (pk_results p)"
    "pk_risk p = None"
proof -
  have "(\<lambda>s. ebind (apply_stress demand inbound planned s) (\<lambda>(demand, inbound, planned).
      simulate_inventory np pd lots demand inbound planned [] policy uc ca so eo)) =
      stress_run np pd lots demand inbound planned policy uc ca so eo"
    by (rule ext) (simp add: stress_run_def)
  with assms show ?thesis
    by (auto simp: run_inventory_stress_tests_def elim!: ebind_InrE make_packageE intro: that)
qed

text \<open>A harsher stress never shows less shortage. If the definitions of a second stress batch differ
  from those of the first only by larger demand multipliers, then result by result and ledger
  by ledger the second batch has at least the shortage of the first.\<close>

theorem stress_multiplier_monotone:
  assumes "list_all2 harsher ds ds'" "list_all stress_definition_ok ds" "demand_scenario_ok demand" "good_lots lots"
    and "run_inventory_stress_tests np pd lots demand ds inbound planned policy uc ca so eo = Inr p"
    and "run_inventory_stress_tests np pd lots demand ds' inbound planned policy uc ca so eo = Inr p'"
  shows "list_all2 more_shortage (pk_results p) (pk_results p')"
proof -
  let ?run = "stress_run np pd lots demand inbound planned policy uc ca so eo"
  from assms(5) have r: "list_all2 (\<lambda>s r. ?run s = Inr r) ds (pk_results p)"
    by (rule stress_testsE) (simp add: emap_Inr_iff)
  from assms(6) have r': "list_all2 (\<lambda>s r. ?run s = Inr r) ds' (pk_results p')"
    by (rule stress_testsE) (simp add: emap_Inr_iff)
  show ?thesis
    using assms(1,2) r r' harsher_run [OF _ _ assms(3,4)]
    by (fastforce simp: list_all2_conv_all_nth list_all_length)
qed


section \<open>Concrete batches\<close>

text \<open>A scenario with one line and a store without stock: the simplest run that returns.\<close>

definition one_line :: "demand_scenario \<Rightarrow> demand_line \<Rightarrow> bool" where
  "one_line s l \<longleftrightarrow> sc_lines s = [l] \<and> (\<exists>n. ln_quantity l = fint n \<and> 0 \<le> n \<and> exact_int n) \<and>
     (\<exists>u. normalize_unit (ln_unit l) = Inr u) \<and>
     sc_start_date s = Some (ln_target_date l) \<and> sc_end_date s = Some (ln_target_date l)"

lemma bare_simulation:
  assumes "one_line s l"
  obtains r where "simulate_inventory np pd [] s [] [] [] policy None [] None None = Inr r"
proof -
  let ?p = "policy_or_default policy" and ?d = "ln_target_date l" and ?k = "demand_key l"
  from assms obtain n u where L: "sc_lines s = [l]" "sc_start_date s = Some ?d" "sc_end_date s = Some ?d"
    and n: "ln_quantity l = fint n" "0 \<le> n" "exact_int n" and u: "normalize_unit (ln_unit l) = Inr u"
    by (auto simp: one_line_def)
  define cn where "cn = \<lparr>cn_target_units = [(?k, u)], cn_lots = [], cn_deliveries = [], cn_waste = [], cn_assumptions = []\<rparr>"
  have cn: "canonicalize pd None s [] ([] @ []) [] [] = Inr cn"
    by (simp add: canonicalize_def no_rules_converter demand_target_units_def L u set_key_unit_def normalize_lots_def
        normalize_inbound_def normalize_waste_events_def normalize_cost_assumptions_def cn_def demand_key_def)
  have w: "sim_window s None None = Inr (?d, ?d)"
    by (simp add: sim_window_def L py_min_def py_max_def first_some_def somes_def List.map_filter_simps Let_def)
  have units: "all_key_units cn = Inr [(?k, u)]" and keys: "inventory_keys cn = [?k]"
    by (simp_all add: all_key_units_def inventory_keys_def cn_def sorted_set_def)
  obtain su where su: "prepare ?p s ?d ([] @ []) cn = Inr su"
    using units by (simp add: prepare_def Let_def cn_def)
  from su obtain am where S: "su_keys su = [?k]" "su_inputs su = \<lparr>si_scenario_id = sc_scenario_id s, si_policy = ?p,
      si_key_units = [(?k, u)], si_demand = demand_by_day s, si_inbound = [], si_waste = [], si_assumptions = am\<rparr>"
      "ss_lots (su_start su) = []" "am = []"
    by (rule prepareE) (use units keys in \<open>auto simp: cn_def\<close>)
  have "whole (dict_get_or (demand_by_day s) day 0)" for day
    using n by (auto simp: demand_by_day_def L dict_get_or_def whole_fint)
  then have run: "\<forall>k \<in> set (su_keys su). whole_run (su_inputs su) [?d..?d] (su_start su) k"
    by (simp add: S whole_run_def dict_get_or_def day_quantity_def)
  have sn: "check_snapshot ?d [] ([] @ []) [] = Inr ()" and ids: "check_identifiers [] ([] @ []) [] = Inr ()"
    by (simp_all add: check_snapshot_def check_identifiers_def validate_unique_def)
  from whole_run_succeeds [OF w sn ids cn su run] that show ?thesis by blast
qed

theorem monte_carlo_equals_batch_witness:
  "\<exists>ss. input_scenarios (ScenarioList ss) False = Inr ss \<and> ss \<noteq> [] \<and>
    (case simulate_inventory_scenarios plain_numpy cell_pandas flour_stock (ScenarioList ss) [] [] [] None None [] False None None of
      Inr p \<Rightarrow> monte_carlo_run plain_numpy cell_pandas flour_stock (ScenarioList ss) [] [] [] None None None None None [] 7 False None None =
        Inr (p\<lparr>pk_provenance := monte_carlo_provenance 7 ss\<rparr>)
    | Inl e \<Rightarrow> \<exists>e'. monte_carlo_run plain_numpy cell_pandas flour_stock (ScenarioList ss) [] [] [] None None None None None [] 7 False None None = Inl e')"
  by (rule exI [of _ "[(flour_demand 3)\<lparr>sc_probability_weight := Some 1\<rparr>]"], intro conjI monte_carlo_equals_batch)
    (simp_all add: input_scenarios_def all_some_def)

lemma burger_scenario:
  assumes "sc_lines s = quantile_lines burger_demand sid q" "sc_start_date s = Some 738101" "sc_end_date s = Some 738101"
    and "q (hd (ik_predictions burger_demand)) = fint n" "0 \<le> n" "exact_int n"
  shows "one_line s (hd (sc_lines s))"
proof -
  have "normalize_unit ''unit'' = Inr ''unit''" by code_simp
  with assms show ?thesis by (auto simp: one_line_def quantile_lines_def burger_demand_def)
qed


lemma emap_exists: "\<forall>x \<in> set xs. \<exists>y. f x = Inr y \<Longrightarrow> \<exists>ys. emap f xs = Inr ys"
  by (induction xs) auto

lemma burger_quantile_run:
  "\<exists>p. simulate_quantile_inventory plain_numpy cell_pandas [] burger_demand [] [] [] None None [] False None None = Inr p"
proof -
  let ?run = "\<lambda>s. simulate_inventory plain_numpy cell_pandas [] s [] [] [] (Some (policy_or_default None)) None [] None None"
  obtain ss where ss: "quantile_inventory_scenarios burger_demand False = Inr ss"
    and len: "map sc_scenario_id ss = [''LOW_P25'', ''MEDIAN_P50'', ''HIGH_P75'']"
    and w: "map sc_probability_weight ss = [None, None, None]"
    and one: "\<forall>s \<in> set ss. one_line s (hd (sc_lines s))"
  proof -
    have "normalize_unit ''unit'' = Inr ''unit''" by code_simp
    moreover have "\<exists>n. fint k = fint n \<and> 0 \<le> n \<and> \<bar>n\<bar> \<le> 9007199254740992" if "0 \<le> k" "k \<le> 16" for k
      by (rule exI [of _ k]) (use that in simp)
    ultimately show ?thesis
      by (intro that) (auto simp: quantile_inventory_scenarios_def burger_demand_def quantile_scenario_def
        make_demand_scenario_def demand_scenario_ok_def demand_line_ok_def fint_eval one_line_def)
  qed
  have "\<exists>rs. emap ?run ss = Inr rs"
    by (rule emap_exists) (use one bare_simulation in metis)
  then obtain rs where rs: "emap ?run ss = Inr rs" by blast
  have nw: "\<not> partial_weights (map sc_probability_weight ss)" "\<not> bad_weight_sum (map sc_probability_weight ss)"
    "\<not> all_some (map sc_probability_weight ss)" "distinct (map sc_scenario_id ss)"
    unfolding w len by (simp_all add: partial_weights_def bad_weight_sum_def all_some_def)
  have "check_scenarios ss = Inr ()" using nw len by (auto simp: check_scenarios_def)
  moreover have "is_ok (make_package rs None pv)" for pv
    by (rule scenario_run.batch_package_ok [OF rs nw(4,1,2)])
  then obtain p where "make_package rs None [(''simulator'', PStr ''lot_level_fefo_v1''), (''probabilistic'', PBool False)] = Inr p"
    by (auto simp: is_ok_iff)
  ultimately show ?thesis
    using ss rs nw scenario_run.batch_weights [OF rs]
    by (simp add: simulate_quantile_inventory_def simulate_inventory_scenarios_def input_scenarios_def Let_def batch_package_def)
qed

theorem quantile_shortages_ordered_witness:
  "\<exists>p low median high. simulate_quantile_inventory plain_numpy cell_pandas [] burger_demand [] [] [] None None [] False None None = Inr p \<and>
     pk_results p = [low, median, high] \<and> more_shortage low median \<and> more_shortage median high"
  using burger_quantile_run quantile_shortages_ordered [OF burger_package, of "[]" "[]" plain_numpy "[]" "[]" None None "[]" False None None]
  by (fastforce simp: good_lots_def)

definition late_flour :: delivery where
  "late_flour = \<lparr>dl_delivery_id = ''d1'', dl_lot_id = ''l1'', dl_purchase_order_id = ''po1'', dl_supplier_id = ''mill'',
     dl_store_id = ''s1'', dl_ingredient_id = ''flour'', dl_quantity = fint 4, dl_unit = ''kg'', dl_arrival_date = 738101,
     dl_expiry_date = Some 738103, dl_tracking = TrackRequired, dl_unit_cost = None, dl_location = None,
     dl_arrival_condition = ArrivalNormal, dl_provenance = [], dl_source_plan_id = None\<rparr>"

definition slow_mill :: "int \<Rightarrow> stress_definition" where
  "slow_mill m = \<lparr>sd_stress_id = ''slow'', sd_multiplier = fint m, sd_delay_days = 5, sd_supplier_ids = [''mill''],
     sd_preserve_shelf_life = False, sd_description = None\<rparr>"

text \<open>Five days late, the flour that would have lasted until day 738103 arrives expired.\<close>

theorem stressed_deliveries_valid_witness:
  "\<exists>d. apply_stress (flour_demand 3) [late_flour] [] (slow_mill 2) = Inr (stress_demand (slow_mill 2) (flour_demand 3), [d], []) \<and>
     delayed (slow_mill 2) late_flour d \<and> dl_arrival_condition d = ArrivedExpiredRealization"
proof -
  have ok: "\<forall>d \<in> set ([late_flour] @ []). delivery_ok d"
    by (simp add: late_flour_def delivery_ok_def arrived_expired_def fint_eval)
  have "\<exists>d. delay_delivery (slow_mill 2) late_flour = Inr d \<and> dl_arrival_condition d = ArrivedExpiredRealization"
    by (simp add: delay_delivery_def late_flour_def slow_mill_def add_days_def date_max_def date_min_def stress_offset_def
        stress_selects_def delivery_ok_def arrived_expired_def fint_eval dict_get_or_def dict_merge_def)
  then obtain d where d: "delay_delivery (slow_mill 2) late_flour = Inr d" "dl_arrival_condition d = ArrivedExpiredRealization" by blast
  with stressed_deliveries_valid [OF ok, where demand = "flour_demand 3" and s = "slow_mill 2"] show ?thesis
    by (auto simp: apply_stress_def)
qed

definition one_flour :: demand_scenario where
  "one_flour = (flour_demand 3)\<lparr>sc_end_date := Some 10\<rparr>"

lemma flour_stress_run:
  assumes "m = 1 \<or> m = 2"
  shows "\<exists>p. run_inventory_stress_tests plain_numpy cell_pandas [] one_flour [slow_mill m] [] [] None None [] None None = Inr p"
proof -
  let ?run = "stress_run plain_numpy cell_pandas [] one_flour [] [] None None [] None None"
  have "normalize_unit ''kg'' = Inr ''kg''" by code_simp
  then have "one_line (stress_demand (slow_mill m) one_flour) (hd (sc_lines (stress_demand (slow_mill m) one_flour)))"
    using assms by (auto simp: one_line_def stress_demand_def slow_mill_def one_flour_def flour_demand_def fint_eval exact_int_def)
  then obtain r where r: "?run (slow_mill m) = Inr r"
    by (rule bare_simulation) (auto simp: stress_run_def apply_stress_def)
  then have "emap ?run [slow_mill m] = Inr [r]" by simp
  from stressed.batch_package_ok [OF this] have "is_ok (make_package [r] None pv)" for pv
    by (simp add: partial_weights_def bad_weight_sum_def all_some_def)
  with r show ?thesis
    by (simp add: run_inventory_stress_tests_def stress_run_def is_ok_iff) 
qed

theorem stress_multiplier_monotone_witness:
  "\<exists>p p'. run_inventory_stress_tests plain_numpy cell_pandas [] one_flour [slow_mill 1] [] [] None None [] None None = Inr p \<and>
     run_inventory_stress_tests plain_numpy cell_pandas [] one_flour [slow_mill 2] [] [] None None [] None None = Inr p' \<and>
     list_all2 more_shortage (pk_results p) (pk_results p')"
proof -
  obtain p p' where p: "run_inventory_stress_tests plain_numpy cell_pandas [] one_flour [slow_mill 1] [] [] None None [] None None = Inr p"
    "run_inventory_stress_tests plain_numpy cell_pandas [] one_flour [slow_mill 2] [] [] None None [] None None = Inr p'"
    using flour_stress_run [of 1] flour_stress_run [of 2] by auto
  have "list_all2 harsher [slow_mill 1] [slow_mill 2]" "list_all stress_definition_ok [slow_mill 1]"
    by (simp_all add: harsher_def slow_mill_def stress_definition_ok_def fint_eval)
  moreover have "demand_scenario_ok one_flour"
    by (simp add: one_flour_def flour_demand_def demand_scenario_ok_def demand_line_ok_def fint_eval)
  ultimately show ?thesis
    using stress_multiplier_monotone [of "[slow_mill 1]" "[slow_mill 2]" one_flour "[]"] p by (auto simp: good_lots_def)
qed

end
