(* ===== verification/Opt_Contracts.thy ===== *)
theory Opt_Contracts
  imports Inv_Batch
begin

text \<open>
  The contracts of \<open>shelfcash_core/optimization/contracts.py\<close>, the default strategies of
  \<open>strategies.py\<close>, the status of \<open>robust.py\<close> and the expiry rule of \<open>expiry.py\<close>. As in the
  inventory contracts, a pydantic class is a record and its validation a predicate.
\<close>

section \<open>Suppliers\<close>

datatype strategy_name = Lean | Balanced | Protected

fun strategy_text :: "strategy_name \<Rightarrow> string" where
  "strategy_text Lean = ''LEAN''"
| "strategy_text Balanced = ''BALANCED''"
| "strategy_text Protected = ''PROTECTED''"

record supplier_offer =
  of_offer_id :: string
  of_supplier_id :: string
  of_store_id :: string
  of_ingredient_id :: string
  of_unit :: string
  of_order_date :: date
  of_pack_size :: f64
  of_unit_price :: f64
  of_delivery_cost :: f64
  of_minimum :: f64
  of_maximum :: "f64 option"
  of_lead_time_days :: int
  of_delivery_days :: "int list option"
  of_shelf_life_days :: "int option"
  of_tracking :: tracking_mode
  of_available :: bool
  of_cutoff_date :: "date option"
  of_emergency :: bool

definition offer_key :: "supplier_offer \<Rightarrow> inv_key" where
  "offer_key o' = (of_store_id o', of_ingredient_id o')"

definition supplier_offer_ok :: "supplier_offer \<Rightarrow> bool" where
  "supplier_offer_ok o' \<longleftrightarrow>
     of_offer_id o' \<noteq> [] \<and> of_supplier_id o' \<noteq> [] \<and> of_store_id o' \<noteq> [] \<and> of_ingredient_id o' \<noteq> [] \<and>
     of_unit o' \<noteq> [] \<and> 0 < of_pack_size o' \<and> 0 \<le> of_unit_price o' \<and> 0 \<le> of_delivery_cost o' \<and>
     0 \<le> of_minimum o' \<and> (case of_maximum o' of None \<Rightarrow> True | Some m \<Rightarrow> 0 < m) \<and>
     0 \<le> of_lead_time_days o' \<and> (case of_shelf_life_days o' of None \<Rightarrow> True | Some n \<Rightarrow> 0 \<le> n) \<and>
     (case of_maximum o' of None \<Rightarrow> True | Some m \<Rightarrow> \<not> m < of_minimum o') \<and>
     (case of_delivery_days o' of None \<Rightarrow> True | Some ds \<Rightarrow> list_all (\<lambda>d. 0 \<le> d \<and> d \<le> 6) ds)"

record supplier_constraint =
  sk_supplier_id :: string
  sk_store_id :: "string option"
  sk_ingredient_id :: "string option"
  sk_unit :: "string option"
  sk_maximum_quantity :: "f64 option"
  sk_maximum_cost :: "f64 option"

definition supplier_constraint_ok :: "supplier_constraint \<Rightarrow> bool" where
  "supplier_constraint_ok c \<longleftrightarrow>
     sk_supplier_id c \<noteq> [] \<and> opt_nonneg (sk_maximum_quantity c) \<and> opt_nonneg (sk_maximum_cost c) \<and>
     (sk_maximum_quantity c \<noteq> None \<longrightarrow> sk_ingredient_id c \<noteq> None \<and> sk_unit c \<noteq> None)"

section \<open>Decisions, strategies and plans\<close>

record decision_line =
  pl_offer_id :: string
  pl_supplier_id :: string
  pl_store_id :: string
  pl_ingredient_id :: string
  pl_unit :: string
  pl_order_date :: date
  pl_arrival_date :: date
  pl_pack_count :: int
  pl_pack_size :: f64
  pl_order_quantity :: f64
  pl_unit_price :: f64
  pl_purchase_cost :: f64
  pl_delivery_cost :: f64
  pl_shelf_life_days :: "int option"
  pl_expiry_date :: "date option"
  pl_tracking :: tracking_mode
  pl_emergency :: bool

definition close9 :: "f64 \<Rightarrow> f64 \<Rightarrow> bool" where
  "close9 a b \<longleftrightarrow> isclose a b (fl (1 / 10 ^ 9)) (fl (1 / 10 ^ 9))"

definition decision_line_ok :: "decision_line \<Rightarrow> bool" where
  "decision_line_ok l \<longleftrightarrow>
     0 \<le> pl_pack_count l \<and> 0 < pl_pack_size l \<and> 0 \<le> pl_order_quantity l \<and> 0 \<le> pl_unit_price l \<and>
     0 \<le> pl_purchase_cost l \<and> 0 \<le> pl_delivery_cost l \<and>
     (case pl_shelf_life_days l of None \<Rightarrow> True | Some n \<Rightarrow> 0 \<le> n) \<and>
     close9 (pl_order_quantity l) (fint (pl_pack_count l) * pl_pack_size l) \<and>
     close9 (pl_purchase_cost l) (pl_order_quantity l * pl_unit_price l)"

record strategy_profile =
  sp_name :: strategy_name
  sp_shortage_penalty :: f64
  sp_holding_penalty :: f64
  sp_waste_penalty :: f64
  sp_cash_penalty :: f64
  sp_cvar_weight :: f64
  sp_cvar_alpha :: f64
  sp_max_stockout_probability :: "f64 option"
  sp_min_expected_fill :: "f64 option"
  sp_min_fill :: "f64 option"
  sp_required_fill_probability :: "f64 option"
  sp_acceptable_fill :: f64
  sp_acceptable_stockout :: f64
  sp_fill_gap :: f64
  sp_stockout_gap :: f64

definition strategy_profile_ok :: "strategy_profile \<Rightarrow> bool" where
  "strategy_profile_ok s \<longleftrightarrow>
     0 \<le> sp_shortage_penalty s \<and> 0 \<le> sp_holding_penalty s \<and> 0 \<le> sp_waste_penalty s \<and>
     0 \<le> sp_cash_penalty s \<and> 0 \<le> sp_cvar_weight s \<and> 0 < sp_cvar_alpha s \<and> sp_cvar_alpha s < 1 \<and>
     opt_unit (sp_max_stockout_probability s) \<and> opt_unit (sp_min_expected_fill s) \<and>
     opt_unit (sp_min_fill s) \<and> opt_unit (sp_required_fill_probability s) \<and>
     opt_unit (Some (sp_acceptable_fill s)) \<and> opt_unit (Some (sp_acceptable_stockout s)) \<and>
     opt_unit (Some (sp_fill_gap s)) \<and> opt_unit (Some (sp_stockout_gap s))"

text \<open>\<open>StrategyProfile(name=..., ...)\<close> with the field defaults of the class.\<close>

definition base_profile :: "strategy_name \<Rightarrow> f64 \<Rightarrow> f64 \<Rightarrow> f64 \<Rightarrow> f64 \<Rightarrow> strategy_profile" where
  "base_profile name shortage holding waste cash =
     \<lparr>sp_name = name, sp_shortage_penalty = shortage, sp_holding_penalty = holding, sp_waste_penalty = waste,
      sp_cash_penalty = cash, sp_cvar_weight = 0, sp_cvar_alpha = fl (95 / 100),
      sp_max_stockout_probability = None, sp_min_expected_fill = None, sp_min_fill = None,
      sp_required_fill_probability = None, sp_acceptable_fill = fl (1 / 2), sp_acceptable_stockout = fl (1 / 2),
      sp_fill_gap = fl (5 / 100), sp_stockout_gap = fl (5 / 100)\<rparr>"

definition default_strategy_profiles :: "strategy_profile list" where
  "default_strategy_profiles =
     [(base_profile Lean 1 (fint 3) (fint 3) 1)\<lparr>sp_acceptable_fill := fl (60 / 100), sp_acceptable_stockout := fl (35 / 100)\<rparr>,
      (base_profile Balanced (fint 10) 1 1 (fl (2 / 10)))\<lparr>sp_cvar_weight := fl (25 / 100),
        sp_acceptable_fill := fl (60 / 100), sp_acceptable_stockout := fl (15 / 100)\<rparr>,
      (base_profile Protected (fint 50) (fl (2 / 10)) (fl (5 / 10)) (fl (5 / 100)))\<lparr>sp_cvar_weight := 1,
        sp_max_stockout_probability := Some (fl (1 / 10)), sp_min_expected_fill := Some (fl (55 / 100)),
        sp_acceptable_fill := fl (55 / 100), sp_acceptable_stockout := fl (1 / 10)\<rparr>]"

record procurement_plan =
  pp_plan_id :: string
  pp_strategy :: strategy_name
  pp_orders :: "decision_line list"
  pp_recourse :: "(string, decision_line list) dict"
  pp_purchase_cost :: f64
  pp_expected_recourse_cost :: f64
  pp_objective_value :: "f64 option"
  pp_solver_status :: string
  pp_completed :: bool
  pp_provenance :: payload
  pp_warnings :: "string list"

definition procurement_plan_ok :: "procurement_plan \<Rightarrow> bool" where
  "procurement_plan_ok p \<longleftrightarrow>
     pp_plan_id p \<noteq> [] \<and> list_all decision_line_ok (pp_orders p) \<and>
     list_all (list_all decision_line_ok \<circ> snd) (pp_recourse p) \<and>
     0 \<le> pp_purchase_cost p \<and> 0 \<le> pp_expected_recourse_cost p"

text \<open>The evidence dictionary \<open>details\<close> of a critique, which no decision reads, is left out.\<close>

record critic_result =
  cr_passed :: bool
  cr_violations :: "string list"
  cr_warnings :: "string list"
  cr_checks :: "(string, bool) dict"

record candidate_evaluation =
  ce_plan :: procurement_plan
  ce_simulation :: "sim_package option"
  ce_risk_simulation :: "sim_package option"
  ce_stress_simulation :: "sim_package option"
  ce_critic :: critic_result

section \<open>Requests and results\<close>

record optimization_request =
  rq_request_id :: string
  rq_decision_date :: date
  rq_end_date :: date
  rq_inventory :: "inventory_lot list"
  rq_scenarios :: "demand_scenario list"
  rq_offers :: "supplier_offer list"
  rq_inbound :: "delivery list"
  rq_constraints :: "supplier_constraint list"
  rq_budget :: "f64 option"
  rq_costs :: "cost_assumption list"
  rq_conversions :: "unit_conversion_rule list"
  rq_policy :: sim_policy
  rq_stress :: "stress_definition list"
  rq_stress_base :: "string option"
  rq_profiles :: "strategy_profile list"
  rq_unknown_constraints :: "string list"
  rq_capacity_context :: payload
  rq_risk_scenarios :: "demand_scenario list"
  rq_risk_metadata :: payload
  rq_stochastic :: bool
  rq_seed :: int

definition in_horizon :: "optimization_request \<Rightarrow> demand_scenario \<Rightarrow> bool" where
  "in_horizon r s \<longleftrightarrow>
     list_all (\<lambda>l. \<not> (ln_target_date l < rq_decision_date r \<or> rq_end_date r < ln_target_date l)) (sc_lines s) \<and>
     (case sc_start_date s of None \<Rightarrow> True | Some a \<Rightarrow> \<not> rq_decision_date r < a) \<and>
     (case sc_end_date s of None \<Rightarrow> True | Some b \<Rightarrow> \<not> b < rq_end_date r)"

definition risk_weights_ok :: "f64 option list \<Rightarrow> bool" where
  "risk_weights_ok ws \<longleftrightarrow> ws = [] \<or> (all_some ws \<and> weights_close_to_one (somes ws))"

definition optimization_request_ok :: "optimization_request \<Rightarrow> bool" where
  "optimization_request_ok r \<longleftrightarrow>
     rq_request_id r \<noteq> [] \<and> list_all inventory_lot_ok (rq_inventory r) \<and>
     list_all demand_scenario_ok (rq_scenarios r) \<and> list_all supplier_offer_ok (rq_offers r) \<and>
     list_all delivery_ok (rq_inbound r) \<and> list_all supplier_constraint_ok (rq_constraints r) \<and>
     opt_nonneg (rq_budget r) \<and> list_all cost_assumption_ok (rq_costs r) \<and>
     list_all unit_conversion_rule_ok (rq_conversions r) \<and> sim_policy_ok (rq_policy r) \<and>
     list_all stress_definition_ok (rq_stress r) \<and> list_all strategy_profile_ok (rq_profiles r) \<and>
     list_all demand_scenario_ok (rq_risk_scenarios r) \<and>
     \<not> rq_end_date r < rq_decision_date r \<and>
     distinct (map sc_scenario_id (rq_scenarios r)) \<and>
     list_all (in_horizon r) (rq_scenarios r) \<and>
     \<not> partial_weights (map sc_probability_weight (rq_scenarios r)) \<and>
     \<not> bad_weight_sum (map sc_probability_weight (rq_scenarios r)) \<and>
     distinct (map sc_scenario_id (rq_risk_scenarios r)) \<and>
     risk_weights_ok (map sc_probability_weight (rq_risk_scenarios r))"

record optimization_result =
  os_request_id :: string
  os_evaluations :: "(strategy_name, candidate_evaluation) dict"
  os_recommended :: "strategy_name option"
  os_status :: string
  os_provenance :: payload
  os_warnings :: "string list"

record robust_status =
  rb_available :: bool
  rb_method :: string
  rb_missing :: "string list"
  rb_guarantee :: "string option"

text \<open>The prose of \<open>details\<close> is left out.\<close>

definition conformal_robust_status :: robust_status where
  "conformal_robust_status =
     \<lparr>rb_available = False, rb_method = ''conformal_robust_procurement'',
      rb_missing = [''joint calibrated ingredient-demand uncertainty set'',
        ''documented uncertainty-set geometry and coverage guarantee'',
        ''robust counterpart for the procurement constraints''],
      rb_guarantee = None\<rparr>"

record rolling_step =
  rs_decision_date :: date
  rs_result :: optimization_result
  rs_executed :: "decision_line list"

record rolling_result =
  rr_steps :: "rolling_step list"
  rr_provenance :: payload

section \<open>Expiry of inbound stock\<close>

definition resolve_inbound_expiry :: "date \<Rightarrow> date option \<Rightarrow> int option \<Rightarrow> date option py" where
  "resolve_inbound_expiry arrival_date explicit_expiry_date shelf_life_days =
     (case explicit_expiry_date of
        Some e \<Rightarrow> Inr (Some e)
      | None \<Rightarrow> (case shelf_life_days of
            None \<Rightarrow> Inr None
          | Some n \<Rightarrow> ebind (add_days arrival_date n) (\<lambda>e. Inr (Some e))))"

text \<open>The rule with its guard on the tracking mode, as the optimiser's modules call it.\<close>

definition planned_expiry :: "tracking_mode \<Rightarrow> date \<Rightarrow> int option \<Rightarrow> date option py" where
  "planned_expiry tracking arrival_date shelf_life_days =
     (if tracking = TrackNotRequired then Inr None
      else resolve_inbound_expiry arrival_date None shelf_life_days)"

end
