(* ===== verification/Opt_Data.thy ===== *)
theory Opt_Data
  imports Opt_Contracts
begin

text \<open>
  \<open>shelfcash_core/optimization/model_data.py\<close>: the numbers the procurement model is built from.
  Demand, stock, open deliveries and offers are brought to one unit per store and ingredient;
  an exception of the BOM becomes an \<open>OptimizationError\<close>, except the one \<open>normalize_unit\<close> may
  raise on a demand line, which the code does not catch.
\<close>

section \<open>Problem data\<close>

record eligible_offer =
  eo_offer :: supplier_offer
  eo_arrival :: date
  eo_factor :: f64
  eo_pack_quantity :: f64
  eo_expiry :: "date option"

record initial_bucket =
  ib_key :: inv_key
  ib_expiry :: date
  ib_quantity :: f64

record inbound_bucket =
  xb_key :: inv_key
  xb_arrival :: date
  xb_expiry :: date
  xb_quantity :: f64

record problem_data =
  md_keys :: "inv_key list"
  md_dates :: "date list"
  md_target_units :: key_units
  md_scenario_ids :: "string list"
  md_weights :: "f64 list"
  md_probabilistic :: bool
  md_demand :: "(string \<times> inv_key \<times> date, f64) dict"
  md_initial :: "(inv_key, f64) dict"
  md_initial_buckets :: "initial_bucket list"
  md_inbound :: "(inv_key \<times> date, f64) dict"
  md_inbound_buckets :: "inbound_bucket list"
  md_regular :: "eligible_offer list"
  md_emergency :: "eligible_offer list"
  md_assumptions :: "(inv_key, cost_assumption) dict"
  md_warnings :: "string list"

definition eo_key :: "eligible_offer \<Rightarrow> inv_key" where
  "eo_key e = offer_key (eo_offer e)"

text \<open>\<open>defaultdict(float)\<close>: \<open>d[k] += x\<close>.\<close>

definition dict_add :: "'k \<Rightarrow> f64 \<Rightarrow> ('k, f64) dict \<Rightarrow> ('k, f64) dict" where
  "dict_add k x d = dict_set k (dict_get_or d k 0 + x) d"

definition shortage_cost_per_target_unit :: "problem_data \<Rightarrow> inv_key \<Rightarrow> (f64 \<times> string) py" where
  "shortage_cost_per_target_unit data key =
     (let configured = (case dict_get (md_assumptions data) key of
          Some a \<Rightarrow> if 0 < ca_shortage a then Some (ca_shortage a) else None | None \<Rightarrow> None) in
      case configured of
        Some cost \<Rightarrow> Inr (cost, ''configured_shortage_consequence'')
      | None \<Rightarrow>
          ebind (emap (\<lambda>e. py_div (of_unit_price (eo_offer e)) (eo_factor e))
                  (filter (\<lambda>e. eo_key e = key) (md_regular data))) (\<lambda>prices.
          Inr (if prices \<noteq> [] then (py_min prices, ''supplier_replacement_cost_fallback'')
               else (0, ''not_configured''))))"

section \<open>Arrival dates\<close>

fun first_delivery_day :: "date \<Rightarrow> int list \<Rightarrow> int list \<Rightarrow> date option py" where
  "first_delivery_day nominal allowed [] = Inr None"
| "first_delivery_day nominal allowed (offset # offsets) =
     ebind (add_days nominal offset) (\<lambda>candidate.
     if weekday candidate \<in> set allowed then Inr (Some candidate)
     else first_delivery_day nominal allowed offsets)"

definition supplier_arrival_date :: "supplier_offer \<Rightarrow> date option py" where
  "supplier_arrival_date o' =
     ebind (add_days (of_order_date o') (of_lead_time_days o')) (\<lambda>nominal.
     case of_delivery_days o' of
       None \<Rightarrow> Inr (Some nominal)
     | Some allowed \<Rightarrow>
         if allowed = [] then Inr None else first_delivery_day nominal allowed [0..6])"

section \<open>Building the data\<close>

definition unit_error :: "payload \<Rightarrow> core_error \<Rightarrow> core_error" where
  "unit_error details e =
     (if is_bom_error e
      then exn_code OptimizationError ''INVALID_PROCUREMENT_UNIT'' (dict_merge details (err_details e))
      else e)"

record demand_state =
  ds_units :: key_units
  ds_demand :: "(string \<times> inv_key \<times> date, f64) dict"

definition add_demand_line :: "optimization_request \<Rightarrow> string \<Rightarrow> demand_state \<Rightarrow> demand_line \<Rightarrow> demand_state py" where
  "add_demand_line request scenario_id st l =
     (if \<not> (rq_decision_date request \<le> ln_target_date l \<and> ln_target_date l \<le> rq_end_date request) then Inr st
      else
       (let key = (ln_store_id l, ln_ingredient_id l) in
        ebind (normalize_unit (ln_unit l)) (\<lambda>normalized.
        ebind (case dict_get (ds_units st) key of
                 None \<Rightarrow> Inr ()
               | Some current \<Rightarrow> raise_if (current \<noteq> normalized) (exn OptimizationError
                   [(''key'', PPair key), (''units'', PList (map PStr (sorted_set [current, normalized])))])) (\<lambda>_.
        Inr \<lparr>ds_units = dict_set key normalized (ds_units st),
             ds_demand = dict_add (scenario_id, key, ln_target_date l) (ln_quantity l) (ds_demand st)\<rparr>))))"

definition collect_demand :: "optimization_request \<Rightarrow> demand_state py" where
  "collect_demand request =
     efold (\<lambda>st s. efold (add_demand_line request (sc_scenario_id s)) st (sc_lines s))
       \<lparr>ds_units = [], ds_demand = []\<rparr> (rq_scenarios request)"

definition target_factor :: "unit_converter \<Rightarrow> key_units \<Rightarrow> inv_key \<Rightarrow> string \<Rightarrow> f64 py" where
  "target_factor converter target_units key unit =
     map_error (unit_error [(''key'', PPair key)])
       (conversion_factor converter (snd key) unit (dict_get_or target_units key []))"

record stock_state =
  st_initial :: "(inv_key, f64) dict"
  st_buckets :: "(inv_key \<times> date, f64) dict"
  st_warnings :: "string list"

definition expired_at_start :: "optimization_request \<Rightarrow> inventory_lot \<Rightarrow> bool" where
  "expired_at_start request l \<longleftrightarrow> lt_tracking l \<noteq> TrackNotRequired \<and>
     (case lt_expiry_date l of
        None \<Rightarrow> False
      | Some e \<Rightarrow> if po_expiry_inclusive (rq_policy request) then e < rq_decision_date request
                  else e \<le> rq_decision_date request)"

definition add_initial_lot ::
    "optimization_request \<Rightarrow> unit_converter \<Rightarrow> key_units \<Rightarrow> stock_state \<Rightarrow> inventory_lot \<Rightarrow> stock_state py" where
  "add_initial_lot request converter target_units st l =
     (let key = lot_key l in
      if dict_get target_units key = None then Inr st
      else if expired_at_start request l then
        Inr (st\<lparr>st_warnings := add_code ''AGGREGATE_MODEL_EXCLUDED_PRESTART_EXPIRED_LOT'' (st_warnings st)\<rparr>)
      else
       (let warnings = (if unknown_expiry l
              then add_code ''AGGREGATE_MODEL_COUNTS_UNKNOWN_EXPIRY_LOT'' (st_warnings st) else st_warnings st) in
        ebind (target_factor converter target_units key (lt_unit l)) (\<lambda>factor.
        let quantity = lt_quantity l * factor in
        Inr \<lparr>st_initial = dict_add key quantity (st_initial st),
             st_buckets = (case lt_expiry_date l of
                 Some e \<Rightarrow> if lt_tracking l \<noteq> TrackNotRequired then dict_add (key, e) quantity (st_buckets st)
                           else st_buckets st
               | None \<Rightarrow> st_buckets st),
             st_warnings = warnings\<rparr>)))"

record inbound_state =
  xs_inbound :: "(inv_key \<times> date, f64) dict"
  xs_buckets :: "inbound_bucket list"
  xs_warnings :: "string list"

definition add_inbound ::
    "optimization_request \<Rightarrow> unit_converter \<Rightarrow> key_units \<Rightarrow> inbound_state \<Rightarrow> delivery \<Rightarrow> inbound_state py" where
  "add_inbound request converter target_units st d =
     (let key = delivery_key d in
      if dict_get target_units key \<noteq> None \<and> rq_decision_date request \<le> dl_arrival_date d \<and>
         dl_arrival_date d \<le> rq_end_date request then
        ebind (target_factor converter target_units key (dl_unit d)) (\<lambda>factor.
        let quantity = dl_quantity d * factor;
            tracked = (dl_tracking d \<noteq> TrackNotRequired) in
        Inr \<lparr>xs_inbound = dict_add (key, dl_arrival_date d) quantity (xs_inbound st),
             xs_buckets = (case dl_expiry_date d of
                 Some e \<Rightarrow> if tracked then xs_buckets st @ [\<lparr>xb_key = key, xb_arrival = dl_arrival_date d,
                             xb_expiry = e, xb_quantity = quantity\<rparr>] else xs_buckets st
               | None \<Rightarrow> xs_buckets st),
             xs_warnings = (if tracked \<and> dl_expiry_date d = None
               then add_code ''INBOUND_EXPIRY_NOT_EVALUATED'' (xs_warnings st) else xs_warnings st)\<rparr>)
      else Inr st)"

definition orderable :: "optimization_request \<Rightarrow> supplier_offer \<Rightarrow> date option \<Rightarrow> bool" where
  "orderable request o' arrival \<longleftrightarrow>
     of_available o' \<and> \<not> of_order_date o' < rq_decision_date request \<and> \<not> rq_end_date request < of_order_date o' \<and>
     (case arrival of None \<Rightarrow> False | Some a \<Rightarrow> \<not> rq_end_date request < a) \<and>
     (case of_cutoff_date o' of None \<Rightarrow> True | Some c \<Rightarrow> \<not> c < of_order_date o')"

definition add_offer ::
    "optimization_request \<Rightarrow> unit_converter \<Rightarrow> key_units \<Rightarrow> eligible_offer list \<times> string list \<Rightarrow> supplier_offer \<Rightarrow>
     (eligible_offer list \<times> string list) py" where
  "add_offer request converter target_units st o' =
     ebind (supplier_arrival_date o') (\<lambda>arrival.
     if dict_get target_units (offer_key o') = None \<or> \<not> orderable request o' arrival then Inr st
     else
       ebind (target_factor converter target_units (offer_key o') (of_unit o')) (\<lambda>conversion.
       ebind (planned_expiry (of_tracking o') (the arrival) (of_shelf_life_days o')) (\<lambda>expiry.
       Inr (fst st @ [\<lparr>eo_offer = o', eo_arrival = the arrival, eo_factor = conversion,
                        eo_pack_quantity = of_pack_size o' * conversion, eo_expiry = expiry\<rparr>],
            if of_shelf_life_days o' = None \<and> of_tracking o' \<noteq> TrackNotRequired
            then add_code ''PLANNED_PURCHASE_SHELF_LIFE_NOT_CONFIGURED'' (snd st) else snd st))))"

text \<open>Weights are normalised by their numpy sum, which the contract of the request makes close to one.\<close>

definition design_weights :: "numpy \<Rightarrow> demand_scenario list \<Rightarrow> f64 list" where
  "design_weights np scenarios =
     (let raw = map sc_probability_weight scenarios in
      if all_some raw then map (\<lambda>w. w / np_sum np (somes raw)) (somes raw)
      else replicate (length raw) (1 / fint (int (length raw))))"

definition shortage_warning :: "(inv_key, cost_assumption) dict \<Rightarrow> eligible_offer list \<Rightarrow> inv_key \<Rightarrow> string list" where
  "shortage_warning assumptions eligible key =
     (if (case dict_get assumptions key of None \<Rightarrow> True | Some a \<Rightarrow> ca_shortage a \<le> 0) then
        (if list_ex (\<lambda>e. eo_key e = key) eligible then [''SHORTAGE_COST_FALLBACK_USED'']
         else [''SHORTAGE_CONSEQUENCE_NOT_CONFIGURED''])
      else [])"

definition build_problem_data :: "numpy \<Rightarrow> optimization_request \<Rightarrow> problem_data py" where
  "build_problem_data np request =
     ebind (raise_if (rq_scenarios request = []) (exn OptimizationError [])) (\<lambda>_.
     ebind (map_error (unit_error []) (make_unit_converter (rq_conversions request))) (\<lambda>converter.
     ebind (collect_demand request) (\<lambda>dm.
     ebind (raise_if (ds_units dm = []) (exn OptimizationError [])) (\<lambda>_.
     let target_units = ds_units dm in
     ebind (efold (add_initial_lot request converter target_units)
              \<lparr>st_initial = [], st_buckets = [], st_warnings = []\<rparr> (rq_inventory request)) (\<lambda>stock.
     ebind (efold (add_inbound request converter target_units)
              \<lparr>xs_inbound = [], xs_buckets = [], xs_warnings = st_warnings stock\<rparr> (rq_inbound request)) (\<lambda>inbound.
     ebind (efold (add_offer request converter target_units) ([], xs_warnings inbound) (rq_offers request))
       (\<lambda>(eligible, warnings).
     let probabilistic = all_some (map sc_probability_weight (rq_scenarios request)) in
     ebind (map_error (unit_error []) (normalize_cost_assumptions (rq_costs request) target_units converter))
       (\<lambda>costs.
     let assumptions = index_by assumption_key costs in
     ebind (raise_if (length assumptions \<noteq> length costs) (exn OptimizationError [])) (\<lambda>_.
     Inr \<lparr>md_keys = sorted_set (dict_keys target_units),
          md_dates = date_range (rq_decision_date request) (rq_end_date request),
          md_target_units = target_units,
          md_scenario_ids = map sc_scenario_id (rq_scenarios request),
          md_weights = design_weights np (rq_scenarios request),
          md_probabilistic = probabilistic,
          md_demand = ds_demand dm,
          md_initial = st_initial stock,
          md_initial_buckets = map (\<lambda>((key, expiry), quantity). \<lparr>ib_key = key, ib_expiry = expiry, ib_quantity = quantity\<rparr>)
            (sort_key fst (st_buckets stock)),
          md_inbound = xs_inbound inbound,
          md_inbound_buckets = xs_buckets inbound,
          md_regular = filter (\<lambda>e. \<not> of_emergency (eo_offer e)) eligible,
          md_emergency = filter (\<lambda>e. of_emergency (eo_offer e)) eligible,
          md_assumptions = assumptions,
          md_warnings = sorted_set (warnings @
            (if probabilistic then [] else [''UNWEIGHTED_DESIGN_SCENARIOS_USE_EQUAL_CANDIDATE_WEIGHTS'']) @
            concat (map (shortage_warning assumptions eligible) (dict_keys target_units)))\<rparr>)))))))))"

definition demand_of :: "problem_data \<Rightarrow> string \<Rightarrow> inv_key \<Rightarrow> date \<Rightarrow> f64" where
  "demand_of data scenario_id key day = dict_get_or (md_demand data) (scenario_id, key, day) 0"

definition expected_daily_demand :: "problem_data \<Rightarrow> (inv_key \<times> date, f64) dict" where
  "expected_daily_demand data =
     concat (map (\<lambda>key. map (\<lambda>day. ((key, day),
         py_sum (map (\<lambda>(scenario_id, weight). weight * demand_of data scenario_id key day)
           (zip (md_scenario_ids data) (md_weights data))))) (md_dates data)) (md_keys data))"

section \<open>Arrival dates are the first possible ones\<close>

definition delivers_on :: "supplier_offer \<Rightarrow> date \<Rightarrow> bool" where
  "delivers_on o' d \<longleftrightarrow> (case of_delivery_days o' of None \<Rightarrow> True | Some ds \<Rightarrow> weekday d \<in> set ds)"

lemma add_days_cases: "add_days d n = (if date_max < d + n \<or> d + n < date_min then Inl (exn PyOverflowError []) else Inr (d + n))"
  by (simp add: add_days_def)

lemma first_delivery_day_cases:
  "case first_delivery_day nominal allowed offsets of
     Inl e \<Rightarrow> err_class e = PyOverflowError
   | Inr None \<Rightarrow> \<forall>n \<in> set offsets. weekday (nominal + n) \<notin> set allowed
   | Inr (Some d) \<Rightarrow> \<exists>i < length offsets. d = nominal + offsets ! i \<and> weekday d \<in> set allowed \<and>
       (\<forall>j < i. weekday (nominal + offsets ! j) \<notin> set allowed)"
proof (induction offsets)
  case (Cons n ns)
  show ?case
  proof (cases "date_max < nominal + n \<or> nominal + n < date_min")
    case True
    then show ?thesis by (simp add: add_days_cases)
  next
    case ok: False
    show ?thesis
    proof (cases "weekday (nominal + n) \<in> set allowed")
      case True
      with ok show ?thesis by (auto simp: add_days_cases)
    next
      case False
      with ok have eq: "first_delivery_day nominal allowed (n # ns) = first_delivery_day nominal allowed ns"
        by (simp add: add_days_cases)
      show ?thesis
      proof (cases "first_delivery_day nominal allowed ns")
        case (Inr v)
        show ?thesis
        proof (cases v)
          case (Some d)
          with Cons.IH Inr obtain i where i: "i < length ns" "d = nominal + ns ! i" "weekday d \<in> set allowed"
            "\<forall>j < i. weekday (nominal + ns ! j) \<notin> set allowed" by auto
          have "\<forall>j < Suc i. weekday (nominal + (n # ns) ! j) \<notin> set allowed"
            using i(4) False by (auto simp: less_Suc_eq_0_disj)
          with i show ?thesis unfolding eq Inr Some by (auto intro!: exI [of _ "Suc i"])
        qed (use Cons.IH Inr False eq in auto)
      qed (use Cons.IH eq in auto)
    qed
  qed
qed simp

lemma week_has_day:
  assumes "0 \<le> w" "w \<le> 6"
  shows "\<exists>n \<in> {0..6}. weekday (d + n) = w"
proof
  let ?n = "(w - d - 6) mod 7"
  show "?n \<in> {0..6}" by auto
  have "(d + ?n + 6) mod 7 = ((d + 6) + (w - d - 6) mod 7) mod 7" by (simp add: algebra_simps)
  also have "\<dots> = (d + 6 + (w - d - 6)) mod 7" by (rule mod_add_right_eq)
  finally show "weekday (d + ?n) = w" using assms by (simp add: weekday_def)
qed

text \<open>Searching one week of a calendar that names a weekday.\<close>

lemma first_week:
  assumes "w \<in> set allowed" "0 \<le> w" "w \<le> 6"
  shows "case first_delivery_day nominal allowed [0..6] of
      Inl e \<Rightarrow> err_class e = PyOverflowError
    | Inr None \<Rightarrow> False
    | Inr (Some d) \<Rightarrow> nominal \<le> d \<and> d \<le> nominal + 6 \<and> weekday d \<in> set allowed \<and>
        (\<forall>c. nominal \<le> c \<longrightarrow> c < d \<longrightarrow> weekday c \<notin> set allowed)"
proof -
  have nth: "[0..6] ! j = int j" if "j < 7" for j using that by (simp add: nth_upto)
  note F = first_delivery_day_cases [where nominal = nominal and allowed = allowed and offsets = "[0..6]"]
  show ?thesis
  proof (cases "first_delivery_day nominal allowed [0..6]")
    case (Inr v)
    show ?thesis
    proof (cases v)
      case None
      with F Inr have "\<forall>n \<in> {0..6}. weekday (nominal + n) \<notin> set allowed" by simp
      with week_has_day [OF assms(2,3), of nominal] assms(1) show ?thesis by auto
    next
      case (Some d)
      with F Inr obtain i where i: "i < 7" "d = nominal + int i" "weekday d \<in> set allowed"
        "\<forall>j < i. weekday (nominal + int j) \<notin> set allowed" by (auto simp: nth)
      have "weekday c \<notin> set allowed" if "nominal \<le> c" "c < d" for c
      proof -
        have "nat (c - nominal) < i" using that i by simp
        with i(4) have "weekday (nominal + int (nat (c - nominal))) \<notin> set allowed" by blast
        then show ?thesis using that by simp
      qed
      with i show ?thesis by (simp add: Inr Some)
    qed
  qed (use F in simp)
qed

text \<open>Deliveries arrive on the first possible day. For a valid offer the arrival date is the first
  day at or after the lead time on which the supplier delivers, at most six days later; only an
  empty calendar has none, and the only failure is a date beyond the calendar.\<close>

theorem arrival_is_first_delivery_day:
  assumes "supplier_offer_ok o'"
  shows "case supplier_arrival_date o' of
      Inl e \<Rightarrow> err_class e = PyOverflowError
    | Inr None \<Rightarrow> of_delivery_days o' = Some []
    | Inr (Some d) \<Rightarrow> of_order_date o' + of_lead_time_days o' \<le> d \<and>
        d \<le> of_order_date o' + of_lead_time_days o' + 6 \<and> delivers_on o' d \<and>
        (\<forall>c. of_order_date o' + of_lead_time_days o' \<le> c \<longrightarrow> c < d \<longrightarrow> \<not> delivers_on o' c)"
proof -
  let ?nominal = "of_order_date o' + of_lead_time_days o'"
  consider "date_max < ?nominal \<or> ?nominal < date_min"
    | "\<not> (date_max < ?nominal \<or> ?nominal < date_min)" "of_delivery_days o' = None \<or> of_delivery_days o' = Some []"
    | d ds where "\<not> (date_max < ?nominal \<or> ?nominal < date_min)" "of_delivery_days o' = Some (d # ds)"
    by (metis option.exhaust list.exhaust)
  then show ?thesis
  proof cases
    case 3
    then have "0 \<le> d" "d \<le> 6" using assms by (auto simp: supplier_offer_ok_def)
    with first_week [of d "d # ds" ?nominal] 3 show ?thesis
      by (auto simp: supplier_arrival_date_def add_days_cases delivers_on_def split: sum.splits option.splits)
  qed (auto simp: supplier_arrival_date_def add_days_cases delivers_on_def)
qed


section \<open>What the problem data holds\<close>

text \<open>An offer that can still be ordered in the horizon, with its arrival, expiry and pack in the target unit.\<close>

definition eligible_ok :: "optimization_request \<Rightarrow> key_units \<Rightarrow> eligible_offer \<Rightarrow> bool" where
  "eligible_ok request target_units e \<longleftrightarrow>
     eo_offer e \<in> set (rq_offers request) \<and> dict_get target_units (eo_key e) \<noteq> None \<and>
     supplier_arrival_date (eo_offer e) = Inr (Some (eo_arrival e)) \<and>
     orderable request (eo_offer e) (Some (eo_arrival e)) \<and>
     planned_expiry (of_tracking (eo_offer e)) (eo_arrival e) (of_shelf_life_days (eo_offer e)) = Inr (eo_expiry e) \<and>
     eo_pack_quantity e = of_pack_size (eo_offer e) * eo_factor e"

definition bucket_ok :: "optimization_request \<Rightarrow> inv_key \<times> date \<Rightarrow> bool" where
  "bucket_ok request k \<longleftrightarrow> (if po_expiry_inclusive (rq_policy request) then rq_decision_date request \<le> snd k
     else rq_decision_date request < snd k)"

lemma dict_keys_add: "set (dict_keys (dict_add k x d)) = insert k (set (dict_keys d))"
  by (simp only: dict_add_def dict_keys_set_eq)

lemma distinct_dict_add: "distinct (dict_keys d) \<Longrightarrow> distinct (dict_keys (dict_add k x d))"
  by (simp only: dict_add_def distinct_dict_set)

definition demand_ok :: "optimization_request \<Rightarrow> demand_state \<Rightarrow> bool" where
  "demand_ok request st \<longleftrightarrow>
     (\<forall>(s, k, d) \<in> set (dict_keys (ds_demand st)).
        k \<in> set (dict_keys (ds_units st)) \<and> rq_decision_date request \<le> d \<and> d \<le> rq_end_date request)"

lemma add_demand_line_cases:
  assumes "add_demand_line request s st l = Inr st'"
  obtains "st' = st"
  | u where "rq_decision_date request \<le> ln_target_date l" "ln_target_date l \<le> rq_end_date request"
      "ds_units st' = dict_set (demand_key l) u (ds_units st)"
      "ds_demand st' = dict_add (s, demand_key l, ln_target_date l) (ln_quantity l) (ds_demand st)"
proof (cases "rq_decision_date request \<le> ln_target_date l \<and> ln_target_date l \<le> rq_end_date request")
  case True
  then have "\<not> \<not> (rq_decision_date request \<le> ln_target_date l \<and> ln_target_date l \<le> rq_end_date request)" by blast
  from assms [unfolded add_demand_line_def Let_def demand_key_def [symmetric], simplified if_not_P [OF this]] True
  show ?thesis by (auto elim!: ebind_InrE intro!: that(2))
qed (use assms that(1) in \<open>auto simp: add_demand_line_def\<close>)

lemma collect_demand_ok:
  assumes "collect_demand request = Inr st"
  shows "demand_ok request st"
proof (rule efold_invariant [OF assms [unfolded collect_demand_def], of "demand_ok request"])
  show "demand_ok request \<lparr>ds_units = [], ds_demand = []\<rparr>" by (simp add: demand_ok_def)
  fix st s st' assume st: "demand_ok request st"
    and run: "efold (add_demand_line request (sc_scenario_id s)) st (sc_lines s) = Inr st'"
  show "demand_ok request st'"
  proof (rule efold_invariant [OF run, of "demand_ok request"])
    fix u l u' assume u: "demand_ok request u" and step: "add_demand_line request (sc_scenario_id s) u l = Inr u'"
    from step show "demand_ok request u'"
      by (rule add_demand_line_cases) (use u in \<open>auto simp only: demand_ok_def dict_keys_add dict_keys_set_eq\<close>)
  qed (rule st)
qed

lemma initial_buckets_ok:
  assumes "efold (add_initial_lot request c tu) \<lparr>st_initial = [], st_buckets = [], st_warnings = []\<rparr> ls = Inr st"
  shows "distinct (dict_keys (st_buckets st)) \<and> (\<forall>k \<in> set (dict_keys (st_buckets st)). bucket_ok request k)"
proof (rule efold_invariant [OF assms])
  fix u l u' assume u: "distinct (dict_keys (st_buckets u)) \<and> (\<forall>k \<in> set (dict_keys (st_buckets u)). bucket_ok request k)"
    and step: "add_initial_lot request c tu u l = Inr u'"
  have "st_buckets u' = st_buckets u \<or> (\<not> expired_at_start request l \<and> (\<exists>e q. lt_expiry_date l = Some e \<and>
      lt_tracking l \<noteq> TrackNotRequired \<and> st_buckets u' = dict_add (lot_key l, e) q (st_buckets u)))"
    using step by (auto simp: add_initial_lot_def Let_def elim!: ebind_InrE split: if_splits option.splits)
  moreover have "bucket_ok request (lot_key l, e)"
    if "\<not> expired_at_start request l" "lt_expiry_date l = Some e" "lt_tracking l \<noteq> TrackNotRequired" for e
    using that by (auto simp: expired_at_start_def bucket_ok_def split: if_splits)
  ultimately consider "st_buckets u' = st_buckets u"
    | e q where "bucket_ok request (lot_key l, e)" "st_buckets u' = dict_add (lot_key l, e) q (st_buckets u)"
    by blast
  then show "distinct (dict_keys (st_buckets u')) \<and> (\<forall>k \<in> set (dict_keys (st_buckets u')). bucket_ok request k)"
  proof cases
    case 2
    have "distinct (dict_keys (dict_add (lot_key l, e) q (st_buckets u)))" by (rule distinct_dict_add) (use u in blast)
    moreover have "\<forall>k \<in> insert (lot_key l, e) (set (dict_keys (st_buckets u))). bucket_ok request k" using u 2(1) by blast
    ultimately show ?thesis unfolding 2(2) dict_keys_add by blast
  qed (use u in simp)
qed simp

lemma eligible_offers_ok:
  assumes "efold (add_offer request c tu) ([], ws) os = Inr (es, ws')" "set os \<subseteq> set (rq_offers request)"
  shows "list_all (eligible_ok request tu) es"
proof -
  have "list_all (eligible_ok request tu) (fst (es, ws'))"
  proof (rule efold_invariant [OF assms(1), of "\<lambda>st. list_all (eligible_ok request tu) (fst st)"])
    fix u o' u' assume u: "list_all (eligible_ok request tu) (fst u)" and o: "o' \<in> set os"
      and step: "add_offer request c tu u o' = Inr u'"
    from o assms(2) have mem: "o' \<in> set (rq_offers request)" by blast
    from step obtain arrival where a: "supplier_arrival_date o' = Inr arrival"
      and rest: "(if dict_get tu (offer_key o') = None \<or> \<not> orderable request o' arrival then Inr u
        else ebind (target_factor c tu (offer_key o') (of_unit o')) (\<lambda>conversion.
          ebind (planned_expiry (of_tracking o') (the arrival) (of_shelf_life_days o')) (\<lambda>expiry.
          Inr (fst u @ [\<lparr>eo_offer = o', eo_arrival = the arrival, eo_factor = conversion,
                        eo_pack_quantity = of_pack_size o' * conversion, eo_expiry = expiry\<rparr>],
            if of_shelf_life_days o' = None \<and> of_tracking o' \<noteq> TrackNotRequired
            then add_code ''PLANNED_PURCHASE_SHELF_LIFE_NOT_CONFIGURED'' (snd u) else snd u)))) = Inr u'"
      unfolding add_offer_def by (rule ebind_InrE)
    show "list_all (eligible_ok request tu) (fst u')"
    proof (cases "dict_get tu (offer_key o') = None \<or> \<not> orderable request o' arrival")
      case True
      with rest u show ?thesis by simp
    next
      case False
      then obtain d where "arrival = Some d" by (cases arrival) (auto simp: orderable_def)
      with False rest u mem a show ?thesis
        by (auto simp: eligible_ok_def eo_key_def elim!: ebind_InrE)
    qed
  qed simp
  then show ?thesis by simp
qed

lemma build_problem_dataE:
  assumes "build_problem_data np request = Inr data"
  obtains c dm stock xs es ws where "collect_demand request = Inr dm" "ds_units dm \<noteq> []"
    "efold (add_initial_lot request c (ds_units dm)) \<lparr>st_initial = [], st_buckets = [], st_warnings = []\<rparr>
       (rq_inventory request) = Inr stock"
    "efold (add_offer request c (ds_units dm)) ([], xs) (rq_offers request) = Inr (es, ws)"
    "md_target_units data = ds_units dm" "md_keys data = sorted_set (dict_keys (ds_units dm))"
    "md_dates data = [rq_decision_date request..rq_end_date request]" "md_demand data = ds_demand dm"
    "md_initial_buckets data = map (\<lambda>((key, expiry), quantity). \<lparr>ib_key = key, ib_expiry = expiry, ib_quantity = quantity\<rparr>)
       (sort_key fst (st_buckets stock))"
    "md_regular data = filter (\<lambda>e. \<not> of_emergency (eo_offer e)) es"
    "md_emergency data = filter (\<lambda>e. of_emergency (eo_offer e)) es"
    "md_scenario_ids data = map sc_scenario_id (rq_scenarios request)"
    "md_weights data = design_weights np (rq_scenarios request)"
  using assms unfolding build_problem_data_def Let_def date_range_def
  by (elim ebind_InrE) (auto elim!: ebind_InrE split: prod.splits intro: that)


lemma problem_data_facts:
  assumes "build_problem_data np request = Inr data"
  shows "sorted (md_keys data) \<and> distinct (md_keys data) \<and>
    (\<forall>(s, k, d) \<in> set (dict_keys (md_demand data)). k \<in> set (md_keys data) \<and> d \<in> set (md_dates data)) \<and>
    distinct (map (\<lambda>b. (ib_key b, ib_expiry b)) (md_initial_buckets data)) \<and>
    (\<forall>b \<in> set (md_initial_buckets data). bucket_ok request (ib_key b, ib_expiry b)) \<and>
    (\<forall>e \<in> set (md_regular data) \<union> set (md_emergency data).
       eligible_ok request (md_target_units data) e \<and> eo_key e \<in> set (md_keys data))"
  using assms
proof (rule build_problem_dataE)
  fix c dm stock xs es ws
  assume dm: "collect_demand request = Inr dm"
    and stock: "efold (add_initial_lot request c (ds_units dm)) \<lparr>st_initial = [], st_buckets = [], st_warnings = []\<rparr>
       (rq_inventory request) = Inr stock"
    and es: "efold (add_offer request c (ds_units dm)) ([], xs) (rq_offers request) = Inr (es, ws)"
    and D: "md_target_units data = ds_units dm" "md_keys data = sorted_set (dict_keys (ds_units dm))"
      "md_dates data = [rq_decision_date request..rq_end_date request]" "md_demand data = ds_demand dm"
      "md_initial_buckets data = map (\<lambda>((key, expiry), quantity). \<lparr>ib_key = key, ib_expiry = expiry, ib_quantity = quantity\<rparr>)
         (sort_key fst (st_buckets stock))"
      "md_regular data = filter (\<lambda>e. \<not> of_emergency (eo_offer e)) es"
      "md_emergency data = filter (\<lambda>e. of_emergency (eo_offer e)) es"
  have el: "eligible_ok request (ds_units dm) e" if "e \<in> set es" for e
    using eligible_offers_ok [OF es subset_refl] that by (simp add: list_all_iff)
  have keys: "k \<in> set (md_keys data) \<longleftrightarrow> k \<in> set (dict_keys (ds_units dm))" for k by (simp only: D set_sorted_set)
  have pairs: "map (\<lambda>b. (ib_key b, ib_expiry b)) (md_initial_buckets data) = map fst (sort_key fst (st_buckets stock))"
    unfolding D by (simp add: comp_def case_prod_beta)
  have stk: "distinct (dict_keys (st_buckets stock))" "\<forall>k \<in> set (dict_keys (st_buckets stock)). bucket_ok request k"
    using initial_buckets_ok [OF stock] by blast+
  have "mset (map fst (sort_key fst (st_buckets stock))) = mset (dict_keys (st_buckets stock))"
    by (simp del: map_eq_conv)
  then have "distinct (map fst (sort_key fst (st_buckets stock)))" using stk(1) by (metis mset_eq_imp_distinct_iff)
  moreover have "bucket_ok request (ib_key b, ib_expiry b)" if "b \<in> set (md_initial_buckets data)" for b
  proof -
    from that have "(ib_key b, ib_expiry b) \<in> set (map (\<lambda>b. (ib_key b, ib_expiry b)) (md_initial_buckets data))" by force
    then show ?thesis using stk(2) unfolding pairs by force
  qed
  moreover have "(\<forall>(s, k, d) \<in> set (dict_keys (md_demand data)). k \<in> set (md_keys data) \<and> d \<in> set (md_dates data))"
    using collect_demand_ok [OF dm] unfolding demand_ok_def D(4) keys by (auto simp: D(3))
  moreover have "eligible_ok request (md_target_units data) e \<and> eo_key e \<in> set (md_keys data)"
    if "e \<in> set (md_regular data) \<union> set (md_emergency data)" for e
    using el [of e] that unfolding keys by (auto simp: D eligible_ok_def map_of_eq_None_iff)
  ultimately show ?thesis unfolding pairs by (auto simp: D(2))
qed

text \<open>The model is built from usable supply only. The keys are the demanded ones in order, demand lies
  in the planning horizon, stock buckets are distinct and none has expired by the decision date,
  and every offer of the model can be ordered in the horizon, arrives in it on its first
  delivery day and carries its exact expiry.\<close>

theorem problem_data_usable:
  assumes "build_problem_data np request = Inr data"
  shows "sorted (md_keys data) \<and> distinct (md_keys data) \<and>
    (\<forall>(s, k, d) \<in> set (dict_keys (md_demand data)). k \<in> set (md_keys data) \<and> d \<in> set (md_dates data)) \<and>
    distinct (map (\<lambda>b. (ib_key b, ib_expiry b)) (md_initial_buckets data)) \<and>
    (\<forall>b \<in> set (md_initial_buckets data). bucket_ok request (ib_key b, ib_expiry b)) \<and>
    (\<forall>e \<in> set (md_regular data) \<union> set (md_emergency data).
       eligible_ok request (md_target_units data) e \<and> eo_key e \<in> set (md_keys data))"
  by (rule problem_data_facts [OF assms])

end
