(* ===== verification/Opt_Milp.thy ===== *)
theory Opt_Milp
  imports Opt_Data
begin

text \<open>
  \<open>shelfcash_core/optimization/deterministic.py\<close> and \<open>infeasibility.py\<close>: the chronological
  mixed-integer model of a procurement request, and the plan read off the solver's answer.
  \<open>scipy.optimize.milp\<close> is a parameter: a function from the arrays the code passes to the
  attributes it reads.
\<close>

section \<open>The solver's interface\<close>

text \<open>\<open>None\<close> is an infinite bound; lower bounds of variables and upper bounds of rows are finite.\<close>

record milp_problem =
  mp_cost :: "f64 list"
  mp_integer :: "bool list"
  mp_lower :: "f64 list"
  mp_upper :: "f64 option list"
  mp_matrix :: "f64 list list"
  mp_lows :: "f64 option list"
  mp_highs :: "f64 list"

record milp_result =
  mr_status :: int
  mr_x :: "f64 list option"
  mr_fun :: "f64 option"

type_synonym milp = "milp_problem \<Rightarrow> milp_result"

section \<open>Variables\<close>

text \<open>
  The code keeps one index dictionary per family of variables (\<open>x_index\<close>, \<open>y_index\<close>,
  \<open>inventory_index\<close>, \<open>consumption_index\<close>, \<open>expiry_loss_index\<close>, \<open>shortage_index\<close>); here a
  variable is named by its family and dictionary key, and its column is its position.
\<close>

datatype mvar =
    Packs nat
  | Ordered nat
  | Stock inv_key "date option" date
  | Served inv_key "date option" date
  | Expired inv_key "date option" date
  | Short inv_key date

record 'v var_spec =
  vs_var :: 'v
  vs_cost :: f64
  vs_upper :: "f64 option"
  vs_integer :: bool

definition milp_var :: "'v \<Rightarrow> f64 \<Rightarrow> f64 option \<Rightarrow> bool \<Rightarrow> 'v var_spec" where
  "milp_var v cost upper integer = \<lparr>vs_var = v, vs_cost = cost, vs_upper = upper, vs_integer = integer\<rparr>"

text \<open>A row: coefficients by variable, lower bound, upper bound.\<close>

type_synonym 'v row = "('v, f64) dict \<times> f64 option \<times> f64"
type_synonym milp_row = "mvar row"

definition milp_arrays :: "'v var_spec list \<Rightarrow> 'v row list \<Rightarrow> milp_problem" where
  "milp_arrays vars rows =
     \<lparr>mp_cost = map vs_cost vars, mp_integer = map vs_integer vars, mp_lower = map (\<lambda>_. 0) vars,
      mp_upper = map vs_upper vars,
      mp_matrix = map (\<lambda>(coefficients, _). map (\<lambda>v. dict_get_or coefficients (vs_var v) 0) vars) rows,
      mp_lows = map (\<lambda>(_, low, _). low) rows, mp_highs = map (\<lambda>(_, _, high). high) rows\<rparr>"

section \<open>Bounds on orders\<close>

definition slack12 :: f64 where
  "slack12 = fl (1 / 10 ^ 12)"

definition offer_upper_packs ::
    "eligible_offer \<Rightarrow> optimization_request \<Rightarrow> (inv_key, f64) dict \<Rightarrow> int py" where
  "offer_upper_packs item request maximum_demand =
     (let o' = eo_offer item in
      case of_maximum o' of
        Some m \<Rightarrow> ebind (py_div m (of_pack_size o')) (\<lambda>q. Inr (py_floor (q + slack12)))
      | None \<Rightarrow>
          ebind (py_div (dict_get_or maximum_demand (offer_key o') 0) (eo_factor item)) (\<lambda>target_quantity.
          let safe = max (max target_quantity (of_minimum o')) (of_pack_size o');
              safe = (case rq_budget request of
                  Some b \<Rightarrow> if 0 < of_unit_price o' then min safe (b / of_unit_price o') else safe
                | None \<Rightarrow> safe) in
          ebind (py_div safe (of_pack_size o')) (\<lambda>q. Inr (max 0 (py_ceil (q - slack12))))))"

definition minimum_packs :: "supplier_offer \<Rightarrow> int py" where
  "minimum_packs o' =
     ebind (py_div (of_minimum o') (of_pack_size o')) (\<lambda>q. Inr (py_ceil (q - slack12)))"

definition maximum_demand_of :: "problem_data \<Rightarrow> (inv_key, f64) dict" where
  "maximum_demand_of data =
     map (\<lambda>key. (key, py_max (map (\<lambda>s. py_sum (map (demand_of data s key) (md_dates data))) (md_scenario_ids data))))
       (md_keys data)"

definition decision_of :: "eligible_offer \<Rightarrow> int \<Rightarrow> decision_line py" where
  "decision_of item packs =
     (let o' = eo_offer item; quantity = fint packs * of_pack_size o' in
      ebind (normalize_unit (of_unit o')) (\<lambda>unit.
      ebind (planned_expiry (of_tracking o') (eo_arrival item) (of_shelf_life_days o')) (\<lambda>expiry.
      let l = \<lparr>pl_offer_id = of_offer_id o', pl_supplier_id = of_supplier_id o', pl_store_id = of_store_id o',
               pl_ingredient_id = of_ingredient_id o', pl_unit = unit, pl_order_date = of_order_date o',
               pl_arrival_date = eo_arrival item, pl_pack_count = packs, pl_pack_size = of_pack_size o',
               pl_order_quantity = quantity, pl_unit_price = of_unit_price o',
               pl_purchase_cost = quantity * of_unit_price o', pl_delivery_cost = of_delivery_cost o',
               pl_shelf_life_days = of_shelf_life_days o', pl_expiry_date = expiry,
               pl_tracking = of_tracking o', pl_emergency = of_emergency o'\<rparr> in
      contract (decision_line_ok l) l)))"

section \<open>Expiry buckets\<close>

record bucket_state =
  bk_ids :: "(inv_key, date option list) dict"
  bk_initial :: "(inv_key \<times> date option, f64) dict"

definition add_bucket :: "inv_key \<Rightarrow> date \<Rightarrow> bucket_state \<Rightarrow> bucket_state" where
  "add_bucket key expiry st =
     (if Some expiry \<in> set (dict_get_or (bk_ids st) key []) then st
      else \<lparr>bk_ids = dict_append key (Some expiry) (bk_ids st),
            bk_initial = dict_set (key, Some expiry) 0 (bk_initial st)\<rparr>)"

definition initial_buckets :: "problem_data \<Rightarrow> bucket_state" where
  "initial_buckets data =
     fold (\<lambda>b st. \<lparr>bk_ids = dict_append (ib_key b) (Some (ib_expiry b)) (bk_ids st),
                    bk_initial = dict_set (ib_key b, Some (ib_expiry b)) (ib_quantity b) (bk_initial st)\<rparr>)
       (md_initial_buckets data)
       \<lparr>bk_ids = map (\<lambda>key. (key, [None])) (md_keys data),
        bk_initial = map (\<lambda>key. ((key, None), dict_get_or (md_initial data) key 0 -
            py_sum (map ib_quantity (filter (\<lambda>b. ib_key b = key) (md_initial_buckets data))))) (md_keys data)\<rparr>"

definition expiry_buckets :: "problem_data \<Rightarrow> bucket_state" where
  "expiry_buckets data =
     fold (\<lambda>e st. case eo_expiry e of None \<Rightarrow> st | Some x \<Rightarrow> add_bucket (eo_key e) x st) (md_regular data)
       (fold (\<lambda>b. add_bucket (xb_key b) (xb_expiry b)) (md_inbound_buckets data) (initial_buckets data))"

definition bucket_usable :: "optimization_request \<Rightarrow> date option \<Rightarrow> date \<Rightarrow> bool" where
  "bucket_usable request bucket day \<longleftrightarrow>
     (case bucket of None \<Rightarrow> True
      | Some e \<Rightarrow> if po_expiry_inclusive (rq_policy request) then day \<le> e else day < e)"

section \<open>The model\<close>

definition order_vars :: "strategy_profile \<Rightarrow> (eligible_offer \<times> int) list \<Rightarrow> mvar var_spec list" where
  "order_vars profile uppers =
     concat (map (\<lambda>(n, (item, upper)).
         let o' = eo_offer item; cash = 1 + sp_cash_penalty profile in
         [milp_var (Packs n) (of_pack_size o' * of_unit_price o' * cash) (Some (fint upper)) True,
          milp_var (Ordered n) (of_delivery_cost o' * cash) (Some 1) True])
       (enumerate 0 uppers))"

definition capacity_of :: "problem_data \<Rightarrow> inv_key \<Rightarrow> f64 option" where
  "capacity_of data key = Option.bind (dict_get (md_assumptions data) key) ca_capacity"

definition bucket_vars ::
    "optimization_request \<Rightarrow> problem_data \<Rightarrow> inv_key \<Rightarrow> f64 \<Rightarrow> date option \<Rightarrow> date \<Rightarrow> mvar var_spec list" where
  "bucket_vars request data key holding_cost bucket day =
     (let usable = bucket_usable request bucket day in
      [milp_var (Stock key bucket day) holding_cost
         (if usable \<and> capacity_of data key \<noteq> None then capacity_of data key
          else if usable then None else Some 0) False,
       milp_var (Served key bucket day) 0 (if usable then None else Some 0) False,
       milp_var (Expired key bucket day) 0 (if bucket \<noteq> None \<and> \<not> usable then None else Some 0) False])"

definition key_vars ::
    "optimization_request \<Rightarrow> problem_data \<Rightarrow> strategy_profile \<Rightarrow> bucket_state \<Rightarrow> inv_key \<Rightarrow> mvar var_spec list py" where
  "key_vars request data profile buckets key =
     (let holding = sp_holding_penalty profile *
            (case dict_get (md_assumptions data) key of None \<Rightarrow> 0 | Some a \<Rightarrow> ca_holding a) in
      ebind (shortage_cost_per_target_unit data key) (\<lambda>(cost, _).
      Inr (concat (map (\<lambda>bucket. concat (map (bucket_vars request data key holding bucket) (md_dates data)))
             (dict_get_or (bk_ids buckets) key [])) @
           map (\<lambda>day. milp_var (Short key day) (sp_shortage_penalty profile * cost) None False) (md_dates data))))"

definition order_rows :: "(eligible_offer \<times> int) list \<Rightarrow> milp_row list py" where
  "order_rows uppers =
     ebind (emap (\<lambda>(n, (item, upper)).
         ebind (minimum_packs (eo_offer item)) (\<lambda>minimum.
         Inr [([(Packs n, 1), (Ordered n, - fint upper)], None, 0),
              ([(Packs n, - 1), (Ordered n, fint minimum)], None, 0)])) (enumerate 0 uppers)) (\<lambda>rows.
     Inr (concat rows))"

text \<open>Opening stock of a bucket on a day and the receipts that are not decisions.\<close>

definition flow_constant :: "problem_data \<Rightarrow> bucket_state \<Rightarrow> inv_key \<Rightarrow> date option \<Rightarrow> date option \<Rightarrow> date \<Rightarrow> f64" where
  "flow_constant data buckets key bucket previous day =
     (let todays = filter (\<lambda>b. xb_key b = key \<and> xb_arrival b = day) (md_inbound_buckets data);
          starting = (if previous = None then dict_get_or (bk_initial buckets) (key, bucket) 0 else 0) in
      if bucket = None then
        starting + (dict_get_or (md_inbound data) (key, day) 0 - py_sum (map xb_quantity todays))
      else starting + py_sum (map xb_quantity (filter (\<lambda>b. Some (xb_expiry b) = bucket) todays)))"

definition flow_row ::
    "problem_data \<Rightarrow> bucket_state \<Rightarrow> inv_key \<Rightarrow> date option \<Rightarrow> date option \<times> date \<Rightarrow> milp_row" where
  "flow_row data buckets key bucket = (\<lambda>(previous, day).
     let arrivals = filter (\<lambda>(n, item). eo_key item = key \<and> eo_arrival item = day \<and> eo_expiry item = bucket)
           (enumerate 0 (md_regular data));
         constant = flow_constant data buckets key bucket previous day in
     ([(Stock key bucket day, 1), (Served key bucket day, 1), (Expired key bucket day, 1)] @
      (case previous of None \<Rightarrow> [] | Some d \<Rightarrow> [(Stock key bucket d, - 1)]) @
      map (\<lambda>(n, item). (Packs n, - eo_pack_quantity item)) arrivals, Some constant, constant))"

definition previous_days :: "date list \<Rightarrow> (date option \<times> date) list" where
  "previous_days days = zip (None # map Some days) days"

text \<open>The maximum stock of a key, checked after the receipts of a day.\<close>

definition capacity_row ::
    "problem_data \<Rightarrow> bucket_state \<Rightarrow> inv_key \<Rightarrow> f64 \<Rightarrow> date option \<times> date \<Rightarrow> milp_row" where
  "capacity_row data buckets key capacity = (\<lambda>(previous, day).
     let ids = dict_get_or (bk_ids buckets) key [];
         received = dict_get_or (md_inbound data) (key, day) 0;
         arrivals = filter (\<lambda>(n, item). eo_key item = key \<and> eo_arrival item = day) (enumerate 0 (md_regular data));
         constant = (case previous of
             None \<Rightarrow> py_sum (map (\<lambda>b. dict_get_or (bk_initial buckets) (key, b) 0) ids) + received
           | Some _ \<Rightarrow> received) in
     ((case previous of None \<Rightarrow> [] | Some d \<Rightarrow> map (\<lambda>b. (Stock key b d, 1)) ids) @
      map (\<lambda>(n, item). (Packs n, eo_pack_quantity item)) arrivals, None, capacity - constant))"

definition demand_row :: "bucket_state \<Rightarrow> (inv_key \<times> date, f64) dict \<Rightarrow> inv_key \<Rightarrow> date \<Rightarrow> milp_row" where
  "demand_row buckets daily key day =
     (let demand = dict_get_or daily (key, day) 0 in
      ((Short key day, 1) # map (\<lambda>b. (Served key b day, 1)) (dict_get_or (bk_ids buckets) key []),
       Some demand, demand))"

definition key_rows ::
    "problem_data \<Rightarrow> bucket_state \<Rightarrow> (inv_key \<times> date, f64) dict \<Rightarrow> inv_key \<Rightarrow> milp_row list" where
  "key_rows data buckets daily key =
     concat (map (\<lambda>bucket. map (flow_row data buckets key bucket) (previous_days (md_dates data)))
       (dict_get_or (bk_ids buckets) key [])) @
     (case capacity_of data key of None \<Rightarrow> []
      | Some capacity \<Rightarrow> map (capacity_row data buckets key capacity) (previous_days (md_dates data))) @
     map (demand_row buckets daily key) (md_dates data)"

definition service_row :: "problem_data \<Rightarrow> (inv_key \<times> date, f64) dict \<Rightarrow> f64 \<Rightarrow> inv_key \<Rightarrow> milp_row" where
  "service_row data daily fill key =
     (map (\<lambda>day. (Short key day, 1)) (md_dates data), None,
      py_sum (map (\<lambda>day. dict_get_or daily (key, day) 0) (md_dates data)) * (1 - fill))"

text \<open>What an order costs, as coefficients on its packs and its delivery.\<close>

definition cost_coefficients :: "(nat \<times> eligible_offer) list \<Rightarrow> (mvar, f64) dict" where
  "cost_coefficients items =
     concat (map (\<lambda>(n, item). [(Packs n, of_pack_size (eo_offer item) * of_unit_price (eo_offer item)),
                                (Ordered n, of_delivery_cost (eo_offer item))]) items)"

fun eany :: "('a \<Rightarrow> bool py) \<Rightarrow> 'a list \<Rightarrow> bool py" where
  "eany f [] = Inr False"
| "eany f (x # xs) = ebind (f x) (\<lambda>b. if b then Inr True else eany f xs)"

definition in_constraint_scope :: "supplier_constraint \<Rightarrow> supplier_offer \<Rightarrow> bool" where
  "in_constraint_scope c o' \<longleftrightarrow> of_supplier_id o' = sk_supplier_id c \<and>
     (sk_store_id c = None \<or> sk_store_id c = Some (of_store_id o')) \<and>
     (sk_ingredient_id c = None \<or> sk_ingredient_id c = Some (of_ingredient_id o'))"

definition constraint_unit :: "supplier_constraint \<Rightarrow> string" where
  "constraint_unit c = (case sk_unit c of None \<Rightarrow> [] | Some u \<Rightarrow> u)"

definition supplier_rows :: "problem_data \<Rightarrow> supplier_constraint \<Rightarrow> milp_row list py" where
  "supplier_rows data c =
     (let matching = filter (\<lambda>(n, item). in_constraint_scope c (eo_offer item)) (enumerate 0 (md_regular data)) in
      ebind (case sk_maximum_quantity c of
               None \<Rightarrow> Inr []
             | Some m \<Rightarrow>
                 ebind (eany (\<lambda>(n, item). ebind (normalize_unit (of_unit (eo_offer item))) (\<lambda>u.
                          ebind (normalize_unit (constraint_unit c)) (\<lambda>v. Inr (u \<noteq> v)))) matching) (\<lambda>mixed.
                 if mixed then Inl (exn_code OptimizationError ''INVALID_PROCUREMENT_UNIT'' [])
                 else Inr [(map (\<lambda>(n, item). (Packs n, of_pack_size (eo_offer item))) matching, None, m)]))
       (\<lambda>quantity_rows.
      Inr (quantity_rows @
        (case sk_maximum_cost c of None \<Rightarrow> [] | Some m \<Rightarrow> [(cost_coefficients matching, None, m)]))))"

record det_model =
  dm_uppers :: "(eligible_offer \<times> int) list"
  dm_buckets :: bucket_state
  dm_daily :: "(inv_key \<times> date, f64) dict"
  dm_vars :: "mvar var_spec list"
  dm_rows :: "milp_row list"

definition det_model_of :: "optimization_request \<Rightarrow> strategy_profile \<Rightarrow> problem_data \<Rightarrow> det_model py" where
  "det_model_of request profile data =
     (let daily = expected_daily_demand data; maximum_demand = maximum_demand_of data;
          buckets = expiry_buckets data in
      ebind (emap (\<lambda>item. ebind (offer_upper_packs item request maximum_demand) (\<lambda>u. Inr (item, u)))
              (md_regular data)) (\<lambda>uppers.
      ebind (emap (key_vars request data profile buckets) (md_keys data)) (\<lambda>kvars.
      ebind (order_rows uppers) (\<lambda>orows.
      ebind (emap (supplier_rows data) (rq_constraints request)) (\<lambda>srows.
      Inr \<lparr>dm_uppers = uppers, dm_buckets = buckets, dm_daily = daily,
           dm_vars = order_vars profile uppers @ concat kvars,
           dm_rows = orows @ concat (map (key_rows data buckets daily) (md_keys data)) @
             (case sp_min_expected_fill profile of None \<Rightarrow> []
              | Some fill \<Rightarrow> map (service_row data daily fill) (md_keys data)) @
             (case rq_budget request of None \<Rightarrow> []
              | Some b \<Rightarrow> [(cost_coefficients (enumerate 0 (md_regular data)), None, b)]) @
             concat srows\<rparr>)))))"

end
