(* ===== verification/Opt_Plan.thy ===== *)
theory Opt_Plan
  imports Opt_Milp
begin

text \<open>
  The second half of \<open>deterministic.py\<close>: from the solver's answer to a \<open>ProcurementPlan\<close> with its
  diagnostics, and \<open>infeasibility.py\<close>. Diagnostics are payloads; a dictionary the code keys by
  ISO dates is the list of its pairs.
\<close>

section \<open>Reading the solver's answer\<close>

definition solver_status :: "int \<Rightarrow> string" where
  "solver_status status =
     dict_get_or [(0, ''OPTIMAL''), (1, ''LIMIT_REACHED''), (2, ''INFEASIBLE''), (3, ''UNBOUNDED'')] status ''SOLVER_ERROR''"

definition value_of :: "'v var_spec list \<Rightarrow> f64 list \<Rightarrow> 'v \<Rightarrow> f64" where
  "value_of vars x v = dict_get_or (zip (map vs_var vars) x) v 0"

definition plan_orders :: "det_model \<Rightarrow> problem_data \<Rightarrow> milp_result \<Rightarrow> decision_line list py" where
  "plan_orders m data answer =
     (case mr_x answer of
        None \<Rightarrow> Inr []
      | Some x \<Rightarrow>
          if mr_status answer \<in> {0, 1} then
            emap (\<lambda>(packs, item). decision_of item packs)
              (filter (\<lambda>(packs, item). 0 < packs)
                (map (\<lambda>(n, item). (py_round (value_of (dm_vars m) x (Packs n)), item)) (enumerate 0 (md_regular data))))
          else Inr [])"

definition plan_cost :: "decision_line list \<Rightarrow> f64" where
  "plan_cost orders = py_sum (map (\<lambda>l. pl_purchase_cost l + pl_delivery_cost l) orders)"

definition first_stage_cost :: "strategy_profile \<Rightarrow> decision_line list \<Rightarrow> f64" where
  "first_stage_cost profile orders =
     py_sum (map (\<lambda>l. pl_purchase_cost l * (1 + sp_cash_penalty profile) +
                       pl_delivery_cost l * (1 + sp_cash_penalty profile)) orders)"

text \<open>Objective contribution of the variables of one family.\<close>

definition family_term :: "('v \<Rightarrow> bool) \<Rightarrow> 'v var_spec list \<Rightarrow> f64 list \<Rightarrow> f64" where
  "family_term family vars x =
     py_sum (map (\<lambda>v. value_of vars x (vs_var v) * vs_cost v) (filter (\<lambda>v. family (vs_var v)) vars))"

fun is_stock :: "mvar \<Rightarrow> bool" where
  "is_stock (Stock _ _ _) = True"
| "is_stock _ = False"

fun is_short :: "mvar \<Rightarrow> bool" where
  "is_short (Short _ _) = True"
| "is_short _ = False"

definition objective_breakdown :: "strategy_profile \<Rightarrow> det_model \<Rightarrow> decision_line list \<Rightarrow> milp_result \<Rightarrow> pyval" where
  "objective_breakdown profile m orders answer = PDict
     [(''cost_unit'', PStr ''supplier_offer_unit_price_currency_or_cost_unit''),
      (''purchase_term'', PNum (first_stage_cost profile orders)),
      (''shortage_term'', opt_val (\<lambda>x. PNum (family_term is_short (dm_vars m) x)) (mr_x answer)),
      (''holding_term'', opt_val (\<lambda>x. PNum (family_term is_stock (dm_vars m) x)) (mr_x answer)),
      (''waste_term'', PNum 0),
      (''total_objective'', opt_val PNum (mr_fun answer))]"

definition chronology_entry ::
    "problem_data \<Rightarrow> det_model \<Rightarrow> f64 list \<Rightarrow> inv_key \<Rightarrow> date option \<times> date \<Rightarrow> pyval" where
  "chronology_entry data m x key = (\<lambda>(previous, day).
     let ids = dict_get_or (bk_ids (dm_buckets m)) key [];
         val = value_of (dm_vars m) x;
         arrivals = filter (\<lambda>(n, item). eo_key item = key \<and> eo_arrival item = day) (enumerate 0 (md_regular data)) in
     PDict
       [(''ingredient_id'', PStr (snd key)), (''date'', PDate day),
        (''unit'', PStr (dict_get_or (md_target_units data) key [])),
        (''beginning_usable_inventory'', PNum (case previous of
            Some d \<Rightarrow> py_sum (map (\<lambda>b. val (Stock key b d)) ids)
          | None \<Rightarrow> py_sum (map (\<lambda>b. dict_get_or (bk_initial (dm_buckets m)) (key, b) 0) ids))),
        (''existing_inbound'', PNum (dict_get_or (md_inbound data) (key, day) 0)),
        (''planned_arrivals'', PNum (py_sum (map (\<lambda>(n, item).
            fint (py_round (val (Packs n))) * eo_pack_quantity item) arrivals))),
        (''expiry_loss'', PNum (py_sum (map (\<lambda>b. val (Expired key b day)) ids))),
        (''demand'', PNum (dict_get_or (dm_daily m) (key, day) 0)),
        (''served'', PNum (py_sum (map (\<lambda>b. val (Served key b day)) ids))),
        (''shortage'', PNum (val (Short key day))),
        (''ending_usable_inventory'', PNum (py_sum (map (\<lambda>b. val (Stock key b day)) ids)))])"

definition chronology_ledger :: "problem_data \<Rightarrow> det_model \<Rightarrow> milp_result \<Rightarrow> pyval" where
  "chronology_ledger data m answer = PList
     (case mr_x answer of None \<Rightarrow> []
      | Some x \<Rightarrow> concat (map (\<lambda>key. map (chronology_entry data m x key) (previous_days (md_dates data))) (md_keys data)))"

section \<open>Why nothing was ordered\<close>

definition slack9 :: f64 where
  "slack9 = fl (1 / 10 ^ 9)"

text \<open>The balance without purchases, and the first day it is negative.\<close>

definition first_shortage_date :: "problem_data \<Rightarrow> (inv_key \<times> date, f64) dict \<Rightarrow> inv_key \<Rightarrow> date option" where
  "first_shortage_date data daily key =
     snd (fold (\<lambda>day (balance, first).
         let balance = balance + dict_get_or (md_inbound data) (key, day) 0 - dict_get_or daily (key, day) 0 in
         (balance, if balance < - slack9 \<and> first = None then Some day else first))
       (md_dates data) (dict_get_or (md_initial data) key 0, None))"

definition baseline_shortage :: "problem_data \<Rightarrow> (inv_key \<times> date, f64) dict \<Rightarrow> inv_key \<Rightarrow> f64" where
  "baseline_shortage data daily key =
     snd (fold (\<lambda>day (balance, shortage).
         let balance = balance + dict_get_or (md_inbound data) (key, day) 0 - dict_get_or daily (key, day) 0 in
         if balance < 0 then (0, shortage + - balance) else (balance, shortage))
       (md_dates data) (dict_get_or (md_initial data) key 0, 0))"

definition least_order :: "supplier_offer \<Rightarrow> f64" where
  "least_order o' = max (of_minimum o') (of_pack_size o')"

definition least_cost :: "supplier_offer \<Rightarrow> f64" where
  "least_cost o' = least_order o' * of_unit_price o' + of_delivery_cost o'"

definition no_order_reason ::
    "problem_data \<Rightarrow> optimization_request \<Rightarrow> (inv_key \<times> date, f64) dict \<Rightarrow> inv_key \<Rightarrow> string py" where
  "no_order_reason data request daily key =
     (let eligible = filter (\<lambda>e. eo_key e = key) (md_regular data);
          matching = filter (\<lambda>o'. offer_key o' = key) (rq_offers request) in
      if first_shortage_date data daily key = None then Inr ''NO_PURCHASE_INVENTORY_SUFFICIENT''
      else if matching = [] then Inr ''NO_PURCHASE_NO_VALID_SUPPLIER''
      else if eligible = [] then
        ebind (emap supplier_arrival_date matching) (\<lambda>arrivals.
        Inr (if somes arrivals \<noteq> [] \<and> rq_end_date request < py_min (somes arrivals)
             then ''NO_PURCHASE_ARRIVES_TOO_LATE'' else ''NO_PURCHASE_NO_VALID_SUPPLIER''))
      else if (case rq_budget request of None \<Rightarrow> False
               | Some b \<Rightarrow> list_all (\<lambda>e. b + slack9 < least_cost (eo_offer e)) eligible) then
        Inr ''NO_PURCHASE_BUDGET_BLOCKED''
      else
        ebind (shortage_cost_per_target_unit data key) (\<lambda>(cost, _).
        Inr (if cost \<le> 0 then ''NO_PURCHASE_SHORTAGE_CONSEQUENCE_NOT_CONFIGURED''
             else ''NO_PURCHASE_OBJECTIVE_PREFERS_SHORTAGE'')))"

definition py_min_by :: "('a \<Rightarrow> 'k::linorder) \<Rightarrow> 'a list \<Rightarrow> 'a" where
  "py_min_by key xs = hd (sort_key key xs)"

definition purchase_candidate :: "problem_data \<Rightarrow> strategy_profile \<Rightarrow> inv_key \<Rightarrow> pyval py" where
  "purchase_candidate data profile key =
     (let eligible = filter (\<lambda>e. eo_key e = key) (md_regular data) in
      if eligible = [] then Inr PNone
      else
       (let item = py_min_by (\<lambda>e. (least_cost (eo_offer e), eo_arrival e, of_offer_id (eo_offer e))) eligible;
            o' = eo_offer item in
        ebind (py_div (least_order o') (of_pack_size o')) (\<lambda>q.
        let packs = fint (py_ceil (q - slack12));
            cost = packs * of_pack_size o' * of_unit_price o' + of_delivery_cost o' in
        Inr (PDict [(''quantity'', PNum (packs * eo_pack_quantity item)),
               (''quantity_unit'', PStr (dict_get_or (md_target_units data) key [])),
               (''arrival_date'', PDate (eo_arrival item)), (''cost'', PNum cost),
               (''objective_purchase_cost'', PNum (cost * (1 + sp_cash_penalty profile)))]))))"

definition offer_summary :: "eligible_offer \<Rightarrow> pyval" where
  "offer_summary e =
     (let o' = eo_offer e in PDict
       [(''supplier_id'', PStr (of_supplier_id o')), (''offer_id'', PStr (of_offer_id o')),
        (''available'', PBool (of_available o')), (''unit'', PStr (of_unit o')),
        (''unit_conversion_factor'', PNum (eo_factor e)), (''moq'', PNum (of_minimum o')),
        (''pack_size'', PNum (of_pack_size o')),
        (''maximum_order_quantity'', opt_val PNum (of_maximum o')),
        (''lead_time_days'', PInt (of_lead_time_days o')), (''order_date'', PDate (of_order_date o')),
        (''arrival_date'', PDate (eo_arrival e)), (''unit_purchase_price'', PNum (of_unit_price o'))])"

definition by_date :: "(date \<times> f64) list \<Rightarrow> pyval" where
  "by_date d = PList (map (\<lambda>(day, x). PList [PDate day, PNum x]) d)"

definition ordered_quantity :: "decision_line list \<Rightarrow> inv_key \<Rightarrow> f64" where
  "ordered_quantity orders key =
     running_sum (map pl_order_quantity (filter (\<lambda>l. (pl_store_id l, pl_ingredient_id l) = key) orders))"

definition positive_days :: "(inv_key \<times> date, f64) dict \<Rightarrow> inv_key \<Rightarrow> date list \<Rightarrow> (date \<times> f64) list" where
  "positive_days d key days =
     filter (\<lambda>(_, x). 0 < x) (map (\<lambda>day. (day, dict_get_or d (key, day) 0)) days)"

definition no_order_diagnostic ::
    "problem_data \<Rightarrow> optimization_request \<Rightarrow> (inv_key \<times> date, f64) dict \<Rightarrow> strategy_profile \<Rightarrow> inv_key \<Rightarrow> pyval py" where
  "no_order_diagnostic data request daily profile key =
     (let unit = PStr (dict_get_or (md_target_units data) key []);
          shortage = baseline_shortage data daily key in
      ebind (no_order_reason data request daily key) (\<lambda>reason.
      ebind (shortage_cost_per_target_unit data key) (\<lambda>(base_cost, cost_source).
      let unit_cost = base_cost * sp_shortage_penalty profile in
      ebind (purchase_candidate data profile key) (\<lambda>candidate.
      Inr (PDict
        [(''ingredient_id'', PStr (snd key)), (''unit'', unit),
         (''demand_by_date'', by_date (positive_days daily key (md_dates data))),
         (''usable_initial_inventory'', PNum (dict_get_or (md_initial data) key 0)),
         (''open_inbound_by_date'', by_date (positive_days (md_inbound data) key (md_dates data))),
         (''first_shortage_date_without_purchase'', opt_val PDate (first_shortage_date data daily key)),
         (''budget_limit'', opt_val PNum (rq_budget request)),
         (''no_order_reason'', PStr reason),
         (''no_purchase_consequence'', PDict
            [(''shortage_quantity'', PNum shortage), (''quantity_unit'', unit),
             (''shortage_cost_per_unit'', PNum unit_cost), (''base_cost_source'', PStr cost_source),
             (''shortage_cost'', PNum (shortage * unit_cost))]),
         (''purchase_candidate'', candidate),
         (''strategy_multiplier'', PNum (sp_shortage_penalty profile)),
         (''comparison'', PStr (if unit_cost \<le> 0 then ''configured_shortage_consequence_missing''
            else ''minimum_feasible_pack_vs_chronological_no_purchase_shortage'')),
         (''offers'', PList (map offer_summary (filter (\<lambda>e. eo_key e = key) (md_regular data))))])))))"

definition no_order_diagnostics ::
    "problem_data \<Rightarrow> optimization_request \<Rightarrow> (inv_key \<times> date, f64) dict \<Rightarrow> decision_line list \<Rightarrow>
     strategy_profile \<Rightarrow> pyval list py" where
  "no_order_diagnostics data request daily orders profile =
     emap (no_order_diagnostic data request daily profile)
       (filter (\<lambda>key. positive_days daily key (md_dates data) \<noteq> [] \<and> \<not> slack9 < ordered_quantity orders key)
         (md_keys data))"

section \<open>Infeasibility\<close>

definition still_usable :: "optimization_request \<Rightarrow> date \<Rightarrow> date \<Rightarrow> bool" where
  "still_usable request day expiry \<longleftrightarrow>
     (if po_expiry_inclusive (rq_policy request) then day \<le> expiry else day < expiry)"

text \<open>What stock and open deliveries can serve of a key by the end of a day.\<close>

definition usable_supply :: "problem_data \<Rightarrow> optimization_request \<Rightarrow> inv_key \<Rightarrow> date \<Rightarrow> f64" where
  "usable_supply data request key day =
     (let unbounded = dict_get_or (md_initial data) key 0 -
            py_sum (map ib_quantity (filter (\<lambda>b. ib_key b = key) (md_initial_buckets data)));
          finite = py_sum (map ib_quantity (filter (\<lambda>b. ib_key b = key \<and> still_usable request day (ib_expiry b))
            (md_initial_buckets data)));
          arrived = filter (\<lambda>b. xb_key b = key \<and> xb_arrival b \<le> day) (md_inbound_buckets data);
          known = py_sum (map xb_quantity (filter (\<lambda>b. still_usable request day (xb_expiry b)) arrived));
          total = py_sum (map snd (filter (\<lambda>((k, d), _). k = key \<and> d \<le> day) (md_inbound data))) in
      unbounded + finite + known + total - py_sum (map xb_quantity arrived))"

definition first_offer_arrival :: "problem_data \<Rightarrow> inv_key \<Rightarrow> date option" where
  "first_offer_arrival data key =
     (let arrivals = map eo_arrival (filter (\<lambda>e. eo_key e = key) (md_regular data)) in
      if arrivals = [] then None else Some (py_min arrivals))"

text \<open>The loop over days accumulates demand and stops at the first uncovered day.\<close>

fun chronology_gap ::
    "problem_data \<Rightarrow> optimization_request \<Rightarrow> (inv_key \<times> date, f64) dict \<Rightarrow> inv_key \<Rightarrow> f64 \<Rightarrow> date list \<Rightarrow> (date \<times> f64) option" where
  "chronology_gap data request daily key cumulative [] = None"
| "chronology_gap data request daily key cumulative (day # days) =
     (let cumulative = cumulative + dict_get_or daily (key, day) 0;
          early = (case first_offer_arrival data key of None \<Rightarrow> True | Some a \<Rightarrow> day < a) in
      if usable_supply data request key day + slack9 < cumulative \<and> early then Some (day, cumulative)
      else chronology_gap data request daily key cumulative days)"

definition chronology_diagnostic :: "problem_data \<Rightarrow> optimization_request \<Rightarrow> inv_key \<Rightarrow> pyval list" where
  "chronology_diagnostic data request key =
     (case chronology_gap data request (expected_daily_demand data) key 0 (md_dates data) of
        None \<Rightarrow> []
      | Some (day, cumulative) \<Rightarrow>
         (let available = usable_supply data request key day; first = first_offer_arrival data key in
          [PDict
            [(''code'', PStr (if first = None then ''NO_FEASIBLE_SUPPLY_SOURCE''
                else ''DEMAND_BEFORE_FIRST_FEASIBLE_ARRIVAL'')),
             (''constraint_family'', PStr ''supply_chronology''), (''severity'', PStr ''blocking''),
             (''confidence'', PStr ''proven''), (''ingredient_id'', PStr (snd key)), (''date'', PDate day),
             (''cumulative_demand'', PNum cumulative), (''cumulative_usable_supply'', PNum available),
             (''uncovered_quantity'', PNum (cumulative - available)),
             (''unit'', PStr (dict_get_or (md_target_units data) key [])),
             (''first_feasible_supplier_arrival'', opt_val PDate first)]]))"

definition family_code :: "string \<Rightarrow> string" where
  "family_code family = dict_get_or
     [(''budget'', ''BUDGET_CONSTRAINT_CONTRIBUTES_TO_INFEASIBILITY''),
      (''service'', ''SERVICE_TARGET_CONTRIBUTES_TO_INFEASIBILITY''),
      (''capacity'', ''MAXIMUM_STOCK_CONTRIBUTES_TO_INFEASIBILITY'')] family []"

definition probe_list :: "(string \<times> string) list \<Rightarrow> pyval" where
  "probe_list probes = PList (map (\<lambda>(family, status). PDict [(''family'', PStr family), (''solver_status'', PStr status)]) probes)"

definition diagnose_infeasibility ::
    "problem_data \<Rightarrow> optimization_request \<Rightarrow> (string \<Rightarrow> string py) \<Rightarrow> (pyval list \<times> (string \<times> string) list) py" where
  "diagnose_infeasibility data request probe =
     ebind (emap (\<lambda>family. ebind (probe family) (\<lambda>status. Inr (family, status))) [''budget'', ''service'', ''capacity''])
       (\<lambda>probes.
     let optimal = filter (\<lambda>(_, status). status = ''OPTIMAL'') probes;
         diagnostics = concat (map (chronology_diagnostic data request) (md_keys data)) @
           map (\<lambda>(family, _). PDict [(''code'', PStr (family_code family)), (''constraint_family'', PStr family),
              (''severity'', PStr ''blocking''), (''confidence'', PStr ''counterfactual'')]) optimal in
     Inr (if diagnostics = [] then
            [PDict [(''code'', PStr ''INFEASIBILITY_CAUSE_NOT_ISOLATED''), (''constraint_family'', PStr ''unknown''),
              (''severity'', PStr ''blocking''), (''confidence'', PStr ''not_evaluated''), (''probes'', probe_list probes)]]
          else if 1 < length optimal then
            diagnostics @ [PDict [(''code'', PStr ''MULTIPLE_OR_INTERACTING_CONSTRAINTS''),
              (''constraint_family'', PStr ''multiple''), (''severity'', PStr ''blocking''),
              (''confidence'', PStr ''counterfactual''), (''probes'', probe_list probes)]]
          else diagnostics, probes))"

section \<open>The plan\<close>

definition plan_name :: "optimization_request \<Rightarrow> strategy_profile \<Rightarrow> string" where
  "plan_name request profile = rq_request_id request @ ''-'' @ map lower_char (strategy_text (sp_name profile))"

definition det_provenance ::
    "strategy_profile \<Rightarrow> pyval \<Rightarrow> pyval \<Rightarrow> pyval list \<Rightarrow> pyval list \<Rightarrow> nat \<Rightarrow> payload" where
  "det_provenance profile breakdown ledger no_orders infeasibility probes =
     [(''solver'', PStr ''scipy.optimize.milp''),
      (''formulation'', PStr ''chronological_aggregate_inventory_mip_v1''),
      (''exact_inventory_physics'', PBool False), (''requires_m4_resimulation'', PBool True),
      (''deterministic_service_constraint'',
         if sp_min_expected_fill profile \<noteq> None then PStr ''aggregate_design_fill_rate'' else PNone),
      (''objective_breakdown'', breakdown), (''chronology_ledger'', ledger),
      (''expiry_model'', PStr ''initial_inventory_expiry_buckets_v1''),
      (''no_order_diagnostics'', PList no_orders),
      (''infeasibility_diagnostics'', PList infeasibility),
      (''infeasibility_diagnostic_probe_count'', PInt (int probes))]"

text \<open>
  One solve; \<open>diagnose\<close> stands for the probes, which solve again without diagnostics.
\<close>

definition solve_once ::
    "milp \<Rightarrow> numpy \<Rightarrow> optimization_request \<Rightarrow> strategy_profile \<Rightarrow>
     (problem_data \<Rightarrow> (pyval list \<times> (string \<times> string) list) py) \<Rightarrow> procurement_plan py" where
  "solve_once solve np request profile diagnose =
     ebind (build_problem_data np request) (\<lambda>data.
     ebind (det_model_of request profile data) (\<lambda>m.
     let answer = solve (milp_arrays (dm_vars m) (dm_rows m)); status = solver_status (mr_status answer) in
     ebind (plan_orders m data answer) (\<lambda>orders.
     ebind (if status = ''INFEASIBLE'' then diagnose data else Inr ([], [])) (\<lambda>(infeasibility, probes).
     ebind (no_order_diagnostics data request (dm_daily m) orders profile) (\<lambda>no_orders.
     let p = \<lparr>pp_plan_id = plan_name request profile, pp_strategy = sp_name profile, pp_orders = orders,
              pp_recourse = [], pp_purchase_cost = plan_cost orders,
              pp_expected_recourse_cost = (case mr_fun answer of
                  Some v \<Rightarrow> max 0 (v - first_stage_cost profile orders) | None \<Rightarrow> 0),
              pp_objective_value = mr_fun answer, pp_solver_status = status, pp_completed = False,
              pp_provenance = det_provenance profile (objective_breakdown profile m orders answer)
                (chronology_ledger data m answer) no_orders infeasibility (length probes),
              pp_warnings = md_warnings data\<rparr> in
     contract (procurement_plan_ok p) p)))))"

definition probe_plan ::
    "milp \<Rightarrow> numpy \<Rightarrow> optimization_request \<Rightarrow> strategy_profile \<Rightarrow> string \<Rightarrow> string py" where
  "probe_plan solve np request profile family =
     ebind (if family = ''budget'' then
              solve_once solve np (request\<lparr>rq_budget := None\<rparr>) profile (\<lambda>_. Inr ([], []))
            else if family = ''service'' then
              solve_once solve np request (profile\<lparr>sp_min_expected_fill := None\<rparr>) (\<lambda>_. Inr ([], []))
            else
              solve_once solve np (request\<lparr>rq_costs := map (\<lambda>a. a\<lparr>ca_capacity := None\<rparr>) (rq_costs request)\<rparr>)
                profile (\<lambda>_. Inr ([], []))) (\<lambda>p.
     Inr (pp_solver_status p))"

definition solve_deterministic_procurement ::
    "milp \<Rightarrow> numpy \<Rightarrow> optimization_request \<Rightarrow> strategy_profile \<Rightarrow> procurement_plan py" where
  "solve_deterministic_procurement solve np request profile =
     solve_once solve np request profile
       (\<lambda>data. diagnose_infeasibility data request (probe_plan solve np request profile))"

end
