(* ===== verification/Decimal_Text.thy ===== *)
theory Decimal_Text
  imports Values
begin

text \<open>
  Numbers and dates as text: the digits of \<open>str(int)\<close>, the format \<open>:04d\<close> and \<open>date.isoformat\<close>, with
  the facts that the digits can be read back.
\<close>

section \<open>Digits\<close>

definition digit :: "nat \<Rightarrow> char" where
  "digit n = char_of (48 + n)"

fun decimal :: "nat \<Rightarrow> string" where
  "decimal n = (if n < 10 then [digit n] else decimal (n div 10) @ [digit (n mod 10)])"

declare decimal.simps [simp del]

text \<open>The format \<open>:04d\<close>.\<close>

definition pad4 :: "nat \<Rightarrow> string" where
  "pad4 n = replicate (4 - length (decimal n)) (digit 0) @ decimal n"

text \<open>Reading a number back from its digits.\<close>

definition read_digits :: "string \<Rightarrow> nat" where
  "read_digits s = foldl (\<lambda>n c. 10 * n + (of_char c - 48)) 0 s"

lemma read_decimal: "read_digits (decimal n) = n"
proof (induction n rule: decimal.induct)
  case (1 n)
  have digit: "of_char (digit k) - 48 = k" if "k < 10" for k :: nat
    using that by (simp add: digit_def of_char_of)
  show ?case
  proof (cases "n < 10")
    case False
    with 1 have "read_digits (decimal (n div 10)) = n div 10" by simp
    moreover have "read_digits (decimal n) = 10 * read_digits (decimal (n div 10)) + (of_char (digit (n mod 10)) - 48)"
      using False by (simp add: decimal.simps [of n] read_digits_def)
    ultimately show ?thesis using digit [of "n mod 10"] by simp
  qed (simp add: decimal.simps [of n] read_digits_def digit)
qed

lemma read_pad4: "read_digits (pad4 n) = n"
proof -
  have zeros: "foldl (\<lambda>n c. 10 * n + (of_char c - 48)) 0 (replicate k (digit 0)) = (0 :: nat)" for k
    by (induction k) (simp_all add: digit_def of_char_of)
  show ?thesis using read_decimal [of n] by (simp add: read_digits_def pad4_def zeros)
qed

lemma pad4_inj: "pad4 m = pad4 n \<longleftrightarrow> m = n"
  using read_pad4 by metis

text \<open>\<open>str\<close> of an integer.\<close>

definition int_text :: "int \<Rightarrow> string" where
  "int_text n = (if n < 0 then CHR ''-'' # decimal (nat (- n)) else decimal (nat n))"

lemma decimal_digits: "c \<in> set (decimal n) \<Longrightarrow> \<exists>k < 10. c = digit k"
proof (induction n rule: decimal.induct)
  case (1 n)
  show ?case
  proof (cases "n < 10")
    case False
    then consider "c \<in> set (decimal (n div 10))" | "c = digit (n mod 10)" using 1(2) by (auto simp: decimal.simps [of n])
    then show ?thesis
    proof cases
      assume "c = digit (n mod 10)"
      then show ?thesis by (intro exI [of _ "n mod 10"]) simp
    qed (use 1(1) False in blast)
  qed (use 1(2) in \<open>auto simp: decimal.simps [of n]\<close>)
qed

lemma decimal_nonempty: "decimal n \<noteq> []"
  by (subst decimal.simps) simp

lemma digit_neq: "k < 10 \<Longrightarrow> of_char (digit k) = 48 + k"
  by (simp add: digit_def of_char_of)

lemma decimal_inj: "decimal m = decimal n \<longleftrightarrow> m = n"
  using read_decimal by metis

lemma minus_no_digit: "CHR ''-'' \<notin> set (decimal n)"
proof
  assume "CHR ''-'' \<in> set (decimal n)"
  then obtain k where k: "k < 10" "CHR ''-'' = digit k" using decimal_digits by blast
  then have "of_char (CHR ''-'') = 48 + k" using digit_neq by metis
  then show False by simp
qed

lemma int_text_inj: "int_text m = int_text n \<longleftrightarrow> m = n"
proof -
  have "decimal a \<noteq> CHR ''-'' # r" for a r using minus_no_digit [of a] by auto
  then show ?thesis
    by (auto simp: int_text_def decimal_inj) metis+
qed

section \<open>Dates\<close>

text \<open>\<open>_ord2ymd\<close> of the standard library: year, month and day of an ordinal.\<close>

definition days_before_month :: "nat list" where
  "days_before_month = [0, 0, 31, 59, 90, 120, 151, 181, 212, 243, 273, 304, 334]"

definition days_in_month :: "nat list" where
  "days_in_month = [0, 31, 28, 31, 30, 31, 30, 31, 31, 30, 31, 30, 31]"

definition month_and_day :: "bool \<Rightarrow> nat \<Rightarrow> nat \<times> nat" where
  "month_and_day leap n =
     (let month = (n + 50) div 32;
          preceding = days_before_month ! month + (if 2 < month \<and> leap then 1 else 0) in
      if n < preceding then
        (month - 1, n - (preceding - (days_in_month ! (month - 1) + (if month - 1 = 2 \<and> leap then 1 else 0))) + 1)
      else (month, n - preceding + 1))"

definition ymd_of :: "date \<Rightarrow> nat \<times> nat \<times> nat" where
  "ymd_of d =
     (let n = nat (d - 1); n400 = n div 146097; n = n mod 146097; n100 = n div 36524; n = n mod 36524;
          n4 = n div 1461; n = n mod 1461; n1 = n div 365; n = n mod 365;
          year = n400 * 400 + 1 + n100 * 100 + n4 * 4 + n1 in
      if n1 = 4 \<or> n100 = 4 then (year - 1, 12, 31)
      else (year, month_and_day (n1 = 3 \<and> (n4 \<noteq> 24 \<or> n100 = 3)) n))"

definition pad2 :: "nat \<Rightarrow> string" where
  "pad2 n = replicate (2 - length (decimal n)) (digit 0) @ decimal n"

text \<open>\<open>date.isoformat()\<close>.\<close>

definition iso_date :: "date \<Rightarrow> string" where
  "iso_date d = (case ymd_of d of (y, m, n) \<Rightarrow> pad4 y @ ''-'' @ pad2 m @ ''-'' @ pad2 n)"

end
