(* ===== verification/Opt_Critic.thy ===== *)
theory Opt_Critic
  imports Opt_Plan Decimal_Text
begin

text \<open>
  \<open>optimization/adapters.py\<close> (orders as planned deliveries), \<open>optimization/constraints.py\<close> (an
  order against its offer) and \<open>optimization/critic.py\<close> (the verdict on a simulated plan). The
  evidence dictionaries, which no decision reads, are left out, and so is the check that
  \<open>pack_count\<close>, an integer by its contract, is an integer.
\<close>

section \<open>Orders as planned deliveries\<close>

definition planned_delivery :: "string \<Rightarrow> string \<Rightarrow> nat \<times> decision_line \<Rightarrow> delivery py" where
  "planned_delivery plan_id suffix = (\<lambda>(index, line).
     ebind (planned_expiry (pl_tracking line) (pl_arrival_date line) (pl_shelf_life_days line)) (\<lambda>expiry.
     let d = \<lparr>dl_delivery_id = plan_id @ suffix @ ''-delivery-'' @ pad4 index,
              dl_lot_id = plan_id @ suffix @ ''-lot-'' @ pad4 index,
              dl_purchase_order_id = plan_id @ suffix @ ''-po-'' @ pad4 index,
              dl_supplier_id = pl_supplier_id line, dl_store_id = pl_store_id line,
              dl_ingredient_id = pl_ingredient_id line, dl_quantity = pl_order_quantity line,
              dl_unit = pl_unit line, dl_arrival_date = pl_arrival_date line, dl_expiry_date = expiry,
              dl_tracking = pl_tracking line, dl_unit_cost = Some (pl_unit_price line), dl_location = None,
              dl_arrival_condition = ArrivalNormal,
              dl_provenance = [(''realization_type'', PStr ''optimizer_fixed_lead_time''),
                (''expiry_status'', PStr (if expiry \<noteq> None then ''exact'' else ''unknown'')),
                (''expiry_source'', PStr (if expiry \<noteq> None then ''supplier_offer.shelf_life_days'' else ''not_configured''))],
              dl_source_plan_id = Some plan_id\<rparr> in
     contract (delivery_ok d) d))"

definition decisions_to_planned_inbound :: "decision_line list \<Rightarrow> string \<Rightarrow> string option \<Rightarrow> delivery list py" where
  "decisions_to_planned_inbound decisions plan_id scenario_id =
     (let suffix = (case scenario_id of None \<Rightarrow> [] | Some s \<Rightarrow> if s = [] then [] else ''-'' @ s) in
      emap (planned_delivery plan_id suffix) (enumerate 0 decisions))"

text \<open>
  The protocols \<open>LeadTimeModel\<close> and \<open>ShelfLifeModel\<close> with numpy's generator as a state that each
  call draws from: an arrival date with its source, an effective expiry with its source.
\<close>

record 'g supply_model =
  su_rng :: "int \<Rightarrow> 'g"
  su_lead_time :: "date \<Rightarrow> string \<Rightarrow> string \<Rightarrow> 'g \<Rightarrow> ((date \<times> string) \<times> 'g) py"
  su_shelf_life :: "date option \<Rightarrow> 'g \<Rightarrow> ((date option \<times> string) \<times> 'g) py"

definition realized_delivery ::
    "'g supply_model \<Rightarrow> string \<Rightarrow> string \<Rightarrow> delivery list \<times> 'g \<Rightarrow> nat \<times> decision_line \<Rightarrow> (delivery list \<times> 'g) py" where
  "realized_delivery model plan_id scenario_id st = (\<lambda>(index, line).
     ebind (su_lead_time model (pl_order_date line) (pl_supplier_id line) (pl_ingredient_id line) (snd st))
       (\<lambda>((arrival_date, lead_source), rng).
     ebind (planned_expiry (pl_tracking line) arrival_date (pl_shelf_life_days line)) (\<lambda>official_expiry.
     ebind (su_shelf_life model official_expiry rng) (\<lambda>((expiry, shelf_source), rng).
     let late = (case expiry of None \<Rightarrow> False | Some e \<Rightarrow> e < arrival_date);
         d = \<lparr>dl_delivery_id = plan_id @ ''-'' @ scenario_id @ ''-base-delivery-'' @ pad4 index,
              dl_lot_id = plan_id @ ''-'' @ scenario_id @ ''-base-lot-'' @ pad4 index,
              dl_purchase_order_id = plan_id @ ''-'' @ scenario_id @ ''-base-po-'' @ pad4 index,
              dl_supplier_id = pl_supplier_id line, dl_store_id = pl_store_id line,
              dl_ingredient_id = pl_ingredient_id line, dl_quantity = pl_order_quantity line,
              dl_unit = pl_unit line, dl_arrival_date = arrival_date, dl_expiry_date = expiry,
              dl_tracking = pl_tracking line, dl_unit_cost = Some (pl_unit_price line), dl_location = None,
              dl_arrival_condition = (if late then ArrivedExpiredRealization else ArrivalNormal),
              dl_provenance = [(''realization_type'', PStr ''external_supply_scenario''),
                (''lead_time_source'', PStr lead_source), (''shelf_life_source'', PStr shelf_source)],
              dl_source_plan_id = Some plan_id\<rparr> in
     ebind (contract (delivery_ok d) d) (\<lambda>d. Inr (fst st @ [d], rng))))))"

definition decisions_to_scenario_planned_inbound ::
    "'g supply_model \<Rightarrow> decision_line list \<Rightarrow> string list \<Rightarrow> string \<Rightarrow> int \<Rightarrow> (string, delivery list) dict py" where
  "decisions_to_scenario_planned_inbound model decisions scenario_ids plan_id seed =
     ebind (efold (\<lambda>(output, rng) scenario_id.
         ebind (efold (realized_delivery model plan_id scenario_id) ([], rng) (enumerate 0 decisions)) (\<lambda>(ds, rng).
         Inr (dict_set scenario_id ds output, rng))) ([], su_rng model seed) scenario_ids) (\<lambda>(output, _).
     Inr output)"

section \<open>Orders against their offers\<close>

text \<open>\<open>math.isclose\<close> with its default tolerances.\<close>

definition close_rel :: "f64 \<Rightarrow> f64 \<Rightarrow> bool" where
  "close_rel a b \<longleftrightarrow> isclose a b (fl (1 / 10 ^ 9)) 0"

definition flag_if :: "bool \<Rightarrow> string \<Rightarrow> string list" where
  "flag_if bad code = (if bad then [code] else [])"

definition line_violations :: "f64 \<Rightarrow> (string, supplier_offer) dict \<Rightarrow> decision_line \<Rightarrow> string list py" where
  "line_violations tolerance offer_map line =
     (let tag = (\<lambda>code. code @ '':'' @ pl_offer_id line) in
      case dict_get offer_map (pl_offer_id line) of
        None \<Rightarrow> Inr [tag ''UNKNOWN_OFFER'']
      | Some o' \<Rightarrow>
          ebind (add_days (pl_order_date line) (of_lead_time_days o')) (\<lambda>_.
          ebind (supplier_arrival_date o') (\<lambda>expected_arrival.
          ebind (planned_expiry (of_tracking o') (pl_arrival_date line) (of_shelf_life_days o')) (\<lambda>expected_expiry.
          ebind (normalize_unit (pl_unit line)) (\<lambda>line_unit.
          ebind (normalize_unit (of_unit o')) (\<lambda>offer_unit.
          Inr (flag_if (pl_supplier_id line \<noteq> of_supplier_id o' \<or> pl_store_id line \<noteq> of_store_id o' \<or>
                 pl_ingredient_id line \<noteq> of_ingredient_id o' \<or> pl_emergency line \<noteq> of_emergency o') (tag ''OFFER_IDENTITY'') @
               flag_if (pl_order_date line \<noteq> of_order_date o') (tag ''ORDER_DATE'') @
               flag_if (expected_arrival \<noteq> Some (pl_arrival_date line)) (tag ''LEAD_TIME'') @
               flag_if (\<not> close_rel (pl_pack_size line) (of_pack_size o')) (tag ''PACK_SIZE'') @
               flag_if (\<not> close_rel (pl_unit_price line) (of_unit_price o')) (tag ''UNIT_PRICE'') @
               flag_if (\<not> close_rel (pl_delivery_cost line) (of_delivery_cost o')) (tag ''DELIVERY_COST'') @
               flag_if (pl_shelf_life_days line \<noteq> of_shelf_life_days o') (tag ''SHELF_LIFE'') @
               flag_if (pl_expiry_date line \<noteq> expected_expiry) (tag ''SHELF_LIFE'') @
               flag_if (\<not> isclose (pl_order_quantity line) (fint (pl_pack_count line) * of_pack_size o')
                 (fl (1 / 10 ^ 9)) tolerance) (tag ''PACK_SIZE'') @
               flag_if (pl_order_quantity line + tolerance < of_minimum o') (tag ''MOQ'') @
               flag_if (case of_maximum o' of None \<Rightarrow> False | Some m \<Rightarrow> m + tolerance < pl_order_quantity line)
                 (tag ''SUPPLIER_OFFER_MAX'') @
               flag_if (\<not> of_available o') (tag ''SUPPLIER_UNAVAILABLE'') @
               flag_if (case of_cutoff_date o' of None \<Rightarrow> False | Some c \<Rightarrow> c < pl_order_date line) (tag ''ORDER_CUTOFF'') @
               flag_if (line_unit \<noteq> offer_unit) (tag ''UNIT_COMPATIBILITY''))))))))"

definition line_in_scope :: "supplier_constraint \<Rightarrow> decision_line \<Rightarrow> bool" where
  "line_in_scope c l \<longleftrightarrow> pl_supplier_id l = sk_supplier_id c \<and>
     (sk_ingredient_id c = None \<or> sk_ingredient_id c = Some (pl_ingredient_id l)) \<and>
     (sk_store_id c = None \<or> sk_store_id c = Some (pl_store_id l))"

definition unit_filtered :: "supplier_constraint \<Rightarrow> decision_line list \<Rightarrow> f64 list py" where
  "unit_filtered c lines =
     ebind (emap (\<lambda>l. ebind (normalize_unit (pl_unit l)) (\<lambda>u.
        ebind (normalize_unit (constraint_unit c)) (\<lambda>v. Inr (u = v, pl_order_quantity l)))) lines) (\<lambda>qs.
     Inr (map snd (filter fst qs)))"

definition group_violations ::
    "f64 \<Rightarrow> supplier_constraint \<Rightarrow> string \<times> decision_line list \<Rightarrow> string list py" where
  "group_violations tolerance c = (\<lambda>(group_id, lines).
     let scoped = filter (line_in_scope c) lines; tag = (\<lambda>code. code @ '':'' @ sk_supplier_id c @ '':'' @ group_id) in
     ebind (case sk_maximum_quantity c of
              None \<Rightarrow> Inr []
            | Some m \<Rightarrow> ebind (unit_filtered c scoped) (\<lambda>qs.
                Inr (flag_if (m + tolerance < py_sum qs) (tag ''SUPPLIER_MAX_QUANTITY'')))) (\<lambda>over.
     Inr (over @ (case sk_maximum_cost c of
              None \<Rightarrow> []
            | Some m \<Rightarrow> flag_if (m + tolerance < plan_cost scoped) (tag ''SUPPLIER_MAX_COST'')))))"

definition plan_lines :: "procurement_plan \<Rightarrow> decision_line list" where
  "plan_lines plan = pp_orders plan @ concat (map snd (pp_recourse plan))"

definition constraint_checks :: "string list \<Rightarrow> (string, bool) dict" where
  "constraint_checks unique =
     [(''offers'', \<not> list_ex (starts_with ''UNKNOWN_OFFER'') unique),
      (''pack_size'', \<not> list_ex (contains_str ''PACK_SIZE'') unique),
      (''moq'', \<not> list_ex (starts_with ''MOQ'') unique),
      (''budget'', ''BUDGET'' \<notin> set unique),
      (''supplier_capacity'', \<not> list_ex (starts_with ''SUPPLIER_MAX'') unique),
      (''availability'', \<not> list_ex (\<lambda>v. contains_str ''UNAVAILABLE'' v \<or> contains_str ''CUTOFF'' v) unique),
      (''unit_compatibility'', \<not> list_ex (starts_with ''UNIT_COMPATIBILITY'') unique),
      (''lead_time'', \<not> list_ex (starts_with ''LEAD_TIME'') unique)]"

definition validate_plan_constraints ::
    "procurement_plan \<Rightarrow> supplier_offer list \<Rightarrow> supplier_constraint list \<Rightarrow> f64 option \<Rightarrow> f64 \<Rightarrow>
     (string list \<times> (string, bool) dict) py" where
  "validate_plan_constraints plan offers supplier_constraints budget tolerance =
     ebind (emap (line_violations tolerance (index_by of_offer_id offers)) (plan_lines plan)) (\<lambda>line_codes.
     let groups = (''FIRST_STAGE'', pp_orders plan) #
           map (\<lambda>(scenario_id, lines). (scenario_id, pp_orders plan @ lines)) (pp_recourse plan) in
     ebind (emap (\<lambda>c. emap (group_violations tolerance c) groups) supplier_constraints) (\<lambda>supplier_codes.
     let unique = sorted_set (concat line_codes @
           flag_if (case budget of None \<Rightarrow> False | Some b \<Rightarrow> b + tolerance < plan_cost (pp_orders plan)) ''BUDGET'' @
           concat (concat supplier_codes)) in
     Inr (unique, constraint_checks unique)))"

section \<open>The critic\<close>

definition package_keys :: "sim_package \<Rightarrow> key_summary list" where
  "package_keys p = concat (map (\<lambda>r. sm_by_key (sr_summary r)) (pk_results p))"

definition py_min_or :: "f64 \<Rightarrow> f64 list \<Rightarrow> f64" where
  "py_min_or dflt xs = (if xs = [] then dflt else py_min xs)"

definition py_max_or :: "f64 \<Rightarrow> f64 list \<Rightarrow> f64" where
  "py_max_or dflt xs = (if xs = [] then dflt else py_max xs)"

definition minimum_exact_fill :: "sim_package \<Rightarrow> f64" where
  "minimum_exact_fill p = py_min_or 1 (map ks_fill_rate (package_keys p))"

definition exact_stockout :: "sim_package \<Rightarrow> f64 option" where
  "exact_stockout p = map_option rm_any_stockout (pk_risk p)"

text \<open>A number stored in a payload, as \<open>float(...)\<close> reads it.\<close>

definition py_float :: "pyval \<Rightarrow> f64 py" where
  "py_float v = (case v of PNum x \<Rightarrow> Inr x | PInt n \<Rightarrow> Inr (fint n) | PBool b \<Rightarrow> Inr (if b then 1 else 0)
     | _ \<Rightarrow> Inl value_error)"

definition risk_label :: "key_risk \<Rightarrow> string" where
  "risk_label k = kr_store_id k @ ''|'' @ kr_ingredient_id k @ ''|'' @ kr_unit k"

definition predicted_fills :: "payload \<Rightarrow> (string, f64) dict py" where
  "predicted_fills provenance =
     (case dict_get_or provenance ''predicted_expected_fill_rate_by_key'' (PDict []) of
        PDict d \<Rightarrow> emap (\<lambda>(k, v). ebind (py_float v) (\<lambda>x. Inr (k, x))) d
      | _ \<Rightarrow> Inl value_error)"

definition model_mismatch :: "procurement_plan \<Rightarrow> sim_package \<Rightarrow> strategy_profile \<Rightarrow> bool py" where
  "model_mismatch plan simulation profile =
     (let predicted_fill = dict_get_or (pp_provenance plan) ''predicted_expected_fill_rate'' PNone;
          predicted_stockout = dict_get_or (pp_provenance plan) ''predicted_stockout_probability'' PNone in
      case pk_risk simulation of
        None \<Rightarrow> Inr False
      | Some metrics \<Rightarrow>
          if predicted_fill = PNone \<or> predicted_stockout = PNone then Inr False
          else
            ebind (predicted_fills (pp_provenance plan)) (\<lambda>predicted.
            ebind (py_float predicted_fill) (\<lambda>fill.
            ebind (py_float predicted_stockout) (\<lambda>stockout.
            let actual = index_by risk_label (rm_by_key metrics);
                gaps = (if set (dict_keys predicted) = set (dict_keys actual)
                        then map (\<lambda>(label, k). dict_get_or predicted label 0 - kr_expected_fill_rate k) actual else []) in
            Inr (sp_fill_gap profile + slack9 < py_max_or (fill - rm_mean_fill_rate metrics) gaps \<or>
                 sp_stockout_gap profile + slack9 < rm_any_stockout metrics - stockout)))))"

definition accounting_holds :: "sim_package \<Rightarrow> bool" where
  "accounting_holds p \<longleftrightarrow> list_all sr_accounting_valid (pk_results p)"

definition or_zero :: "f64 option \<Rightarrow> f64" where
  "or_zero v = (case v of None \<Rightarrow> 0 | Some x \<Rightarrow> x)"

definition capacity_holds :: "sim_package \<Rightarrow> bool" where
  "capacity_holds p \<longleftrightarrow> list_all (\<lambda>k. or_zero (ks_capacity_violation k) \<le> slack9) (package_keys p)"

definition capacity_statuses :: "sim_package \<Rightarrow> pyval list" where
  "capacity_statuses p =
     map (\<lambda>r. dict_get_or (sr_provenance r) ''capacity_evaluation_status'' (PStr ''not_configured'')) (pk_results p)"

definition floor_holds :: "strategy_profile \<Rightarrow> sim_package \<Rightarrow> bool" where
  "floor_holds profile p \<longleftrightarrow>
     sp_acceptable_fill profile \<le> minimum_exact_fill p + slack9 \<and>
     (case exact_stockout p of None \<Rightarrow> True | Some q \<Rightarrow> q \<le> sp_acceptable_stockout profile + slack9)"

definition expected_fill_holds :: "strategy_profile \<Rightarrow> sim_package \<Rightarrow> bool" where
  "expected_fill_holds profile p \<longleftrightarrow>
     (case sp_min_expected_fill profile of
        None \<Rightarrow> True
      | Some required \<Rightarrow> required \<le> (case pk_risk p of
            Some metrics \<Rightarrow> py_min_or 1 (map kr_expected_fill_rate (rm_by_key metrics))
          | None \<Rightarrow> minimum_exact_fill p) + slack9)"

text \<open>The weight of the scenarios in which a key reaches the fill rate.\<close>

definition reach_probability :: "(sim_result \<times> f64) list \<Rightarrow> f64 \<Rightarrow> metric_key \<Rightarrow> f64 py" where
  "reach_probability weighted fill key =
     efold (\<lambda>probability (r, weight).
       case dict_get (summary_map r) key of
         None \<Rightarrow> Inl (exn PyKeyError [])
       | Some k \<Rightarrow> Inr (if fill \<le> ks_fill_rate k + slack9 then probability + weight else probability))
       0 weighted"

definition weighted_results :: "sim_package \<Rightarrow> (sim_result \<times> f64) list py" where
  "weighted_results p =
     emap (\<lambda>r. case sr_probability_weight r of None \<Rightarrow> Inl (exn PyTypeError []) | Some w \<Rightarrow> Inr (r, w)) (pk_results p)"

definition probability_service :: "strategy_profile \<Rightarrow> sim_package \<Rightarrow> (bool \<times> string list) py" where
  "probability_service profile p =
     (case (sp_min_fill profile, sp_required_fill_probability profile) of
        (Some fill, Some required) \<Rightarrow>
          (case pk_risk p of
             None \<Rightarrow> Inr (False, [''UNWEIGHTED_SERVICE_PROBABILITY_NOT_EVALUATED''])
           | Some metrics \<Rightarrow>
               ebind (weighted_results p) (\<lambda>weighted.
               ebind (emap (\<lambda>k. reach_probability weighted fill (kr_store_id k, kr_ingredient_id k, kr_unit k)) (rm_by_key metrics))
                (\<lambda>ps. Inr (list_all (\<lambda>q. required \<le> q + slack9) ps, []))))
      | _ \<Rightarrow> Inr (True, []))"

text \<open>Verdict of the risk section: the value of the check, a violation, the warnings.\<close>

definition risk_verdict :: "optimization_request \<Rightarrow> strategy_profile \<Rightarrow> sim_package \<Rightarrow> bool \<times> bool \<times> string list" where
  "risk_verdict request profile p =
     (case sp_max_stockout_probability profile of
        None \<Rightarrow> (True, False, [])
      | Some limit \<Rightarrow>
          if \<not> (rq_stochastic request \<and> py_truthy (dict_get_or (rq_risk_metadata request) ''stochastic_saa_enabled''
                 (PBool (rq_stochastic request)))) then (False, False, [''RISK_METRIC_NOT_AVAILABLE''])
          else (case pk_risk p of
              None \<Rightarrow> (False, False, [''UNWEIGHTED_STOCKOUT_PROBABILITY_NOT_EVALUATED'', ''RISK_METRIC_NOT_AVAILABLE''])
            | Some metrics \<Rightarrow>
                let valid = (rm_any_stockout metrics \<le> limit + slack9) in (valid, \<not> valid, [])))"

text \<open>Violations, warnings and checks of a simulated plan.\<close>

definition judge_simulation ::
    "procurement_plan \<Rightarrow> optimization_request \<Rightarrow> strategy_profile \<Rightarrow> sim_package \<Rightarrow>
     (string list \<times> string list \<times> (string, bool) dict) py" where
  "judge_simulation plan request profile p =
     (let evaluated = (set (capacity_statuses p) = {PStr ''evaluated''});
          unevaluated = (PStr ''not_evaluated'' \<in> set (capacity_statuses p)) in
      ebind (probability_service profile p) (\<lambda>(probability_valid, service_warnings).
      let service_valid = (expected_fill_holds profile p \<and> probability_valid);
          (risk_check, risk_violated, risk_warnings) = risk_verdict request profile p in
      ebind (model_mismatch plan p profile) (\<lambda>mismatch.
      Inr (flag_if (\<not> accounting_holds p) ''M4_ACCOUNTING_INVALID'' @
           flag_if (\<not> capacity_holds p) ''CAPACITY_CONSEQUENCE'' @
           flag_if (\<not> floor_holds profile p) ''EXACT_SIMULATION_SAFETY_FLOOR'' @
           flag_if (\<not> service_valid) ''SERVICE_LEVEL_REQUIREMENT'' @
           flag_if risk_violated ''RISK_CONSTRAINT_VIOLATION'' @
           flag_if mismatch ''CANDIDATE_MODEL_MISMATCH'',
           flag_if unevaluated ''CAPACITY_NOT_EVALUATED'' @ service_warnings @ risk_warnings,
           [(''m4_accounting'', accounting_holds p), (''capacity'', capacity_holds p \<and> evaluated),
            (''exact_service_floor'', floor_holds profile p), (''service_level'', service_valid),
            (''risk'', risk_check), (''candidate_model_match'', \<not> mismatch)]))))"

definition judge_stress :: "sim_package option \<Rightarrow> string list \<times> string list" where
  "judge_stress stress =
     (case stress of
        None \<Rightarrow> ([], [])
      | Some p \<Rightarrow>
          (flag_if (\<not> accounting_holds p) ''STRESS_ACCOUNTING_INVALID'',
           flag_if (list_ex (\<lambda>k. 0 < ks_shortage k) (package_keys p)) ''STRESS_SHORTAGE_OBSERVED'' @
           flag_if (list_ex (\<lambda>k. 0 < or_zero (ks_capacity_violation k)) (package_keys p)) ''STRESS_CAPACITY_VIOLATION''))"

definition failed_checks :: "(string, bool) dict" where
  "failed_checks = map (\<lambda>c. (c, False))
     [''m4_accounting'', ''capacity'', ''service_level'', ''risk'', ''exact_service_floor'', ''candidate_model_match'']"

text \<open>What the critic reports without a simulation.\<close>

definition own_violations :: "procurement_plan \<Rightarrow> optimization_request \<Rightarrow> string list" where
  "own_violations plan request =
     flag_if (pp_solver_status plan \<noteq> ''OPTIMAL'') (''SOLVER_STATUS:'' @ pp_solver_status plan) @
     map (\<lambda>name. ''UNKNOWN_CONSTRAINT:'' @ name) (rq_unknown_constraints request) @
     flag_if (po_unknown_expiry (rq_policy request) = RejectUnknown \<and>
       list_ex (\<lambda>l. pl_shelf_life_days l = None) (plan_lines plan)) ''UNKNOWN_EXPIRY''"

definition critique_procurement_plan ::
    "procurement_plan \<Rightarrow> optimization_request \<Rightarrow> strategy_profile \<Rightarrow> sim_package option \<Rightarrow> sim_package option \<Rightarrow>
     string option \<Rightarrow> critic_result py" where
  "critique_procurement_plan plan request profile simulation stress_simulation simulation_error =
     ebind (validate_plan_constraints plan (rq_offers request) (rq_constraints request) (rq_budget request)
              (fl (1 / 10 ^ 8))) (\<lambda>(violations, checks).
     ebind (case simulation of
              None \<Rightarrow> Inr ([''M4_SIMULATION_FAILED''],
                case simulation_error of None \<Rightarrow> [] | Some e \<Rightarrow> if e = [] then [] else [e], failed_checks)
            | Some p \<Rightarrow> judge_simulation plan request profile p) (\<lambda>(sim_violations, sim_warnings, sim_checks).
     let (stress_violations, stress_warnings) = judge_stress stress_simulation;
         unique = sorted_set (violations @ own_violations plan request @ sim_violations @ stress_violations) in
     Inr \<lparr>cr_passed = (unique = []), cr_violations = unique,
          cr_warnings = sorted_set (pp_warnings plan @ sim_warnings @ stress_warnings),
          cr_checks = dict_merge checks sim_checks\<rparr>))"

end
