(* ===== verification/Opt_Stochastic.thy ===== *)
theory Opt_Stochastic
  imports Opt_Plan
begin

text \<open>
  \<open>shelfcash_core/optimization/stochastic.py\<close>: the sample-average model, with one set of orders
  for all scenarios and inventory, consumption, expiry and shortage per scenario.
\<close>

datatype svar =
    SPacks nat
  | SOrdered nat
  | SStock string inv_key "date option" date
  | SServed string inv_key "date option" date
  | SExpired string inv_key "date option" date
  | SShort string inv_key date

section \<open>Buckets\<close>

text \<open>\<open>initial.setdefault(k, 0.0)\<close>; stock then overwrites the quantity.\<close>

definition saa_add_bucket :: "inv_key \<Rightarrow> date option \<Rightarrow> bucket_state \<Rightarrow> bucket_state" where
  "saa_add_bucket key bucket st =
     \<lparr>bk_ids = (if bucket \<in> set (dict_get_or (bk_ids st) key []) then bk_ids st else dict_append key bucket (bk_ids st)),
      bk_initial = (if dict_get (bk_initial st) (key, bucket) = None then dict_set (key, bucket) 0 (bk_initial st)
                    else bk_initial st)\<rparr>"

definition saa_buckets :: "problem_data \<Rightarrow> bucket_state" where
  "saa_buckets data =
     (let start = \<lparr>bk_ids = map (\<lambda>key. (key, [None])) (md_keys data),
            bk_initial = map (\<lambda>key. ((key, None), dict_get_or (md_initial data) key 0 -
              py_sum (map ib_quantity (filter (\<lambda>b. ib_key b = key) (md_initial_buckets data))))) (md_keys data)\<rparr>;
          stock = fold (\<lambda>b st. let st' = saa_add_bucket (ib_key b) (Some (ib_expiry b)) st in
              st'\<lparr>bk_initial := dict_set (ib_key b, Some (ib_expiry b)) (ib_quantity b) (bk_initial st')\<rparr>)
            (md_initial_buckets data) start;
          open' = fold (\<lambda>b. saa_add_bucket (xb_key b) (Some (xb_expiry b))) (md_inbound_buckets data) stock in
      fold (\<lambda>e st. case eo_expiry e of None \<Rightarrow> st | Some x \<Rightarrow> add_bucket (eo_key e) x st) (md_regular data) open')"

section \<open>The model\<close>

definition saa_order_vars :: "strategy_profile \<Rightarrow> (eligible_offer \<times> int) list \<Rightarrow> svar var_spec list" where
  "saa_order_vars profile uppers =
     concat (map (\<lambda>(n, (item, upper)).
         let o' = eo_offer item; cash = 1 + sp_cash_penalty profile in
         [milp_var (SPacks n) (of_pack_size o' * of_unit_price o' * cash) (Some (fint upper)) True,
          milp_var (SOrdered n) (of_delivery_cost o' * cash) (Some 1) True])
       (enumerate 0 uppers))"

definition saa_key_vars ::
    "optimization_request \<Rightarrow> problem_data \<Rightarrow> strategy_profile \<Rightarrow> bucket_state \<Rightarrow> string \<times> f64 \<Rightarrow> inv_key \<Rightarrow>
     svar var_spec list py" where
  "saa_key_vars request data profile buckets = (\<lambda>(s, weight) key.
     let hold = weight * sp_holding_penalty profile *
           (case dict_get (md_assumptions data) key of None \<Rightarrow> 0 | Some a \<Rightarrow> ca_holding a) in
     ebind (shortage_cost_per_target_unit data key) (\<lambda>(cost, _).
     Inr (concat (map (\<lambda>bucket. concat (map (\<lambda>day.
            let usable = bucket_usable request bucket day in
            [milp_var (SStock s key bucket day) hold (if usable then None else Some 0) False,
             milp_var (SServed s key bucket day) 0 (if usable then None else Some 0) False,
             milp_var (SExpired s key bucket day) 0 (if bucket \<noteq> None \<and> \<not> usable then None else Some 0) False])
           (md_dates data))) (dict_get_or (bk_ids buckets) key [])) @
          map (\<lambda>day. milp_var (SShort s key day) (weight * sp_shortage_penalty profile * cost)
             (Some (demand_of data s key day)) False) (md_dates data))))"

definition saa_order_rows :: "(eligible_offer \<times> int) list \<Rightarrow> svar row list py" where
  "saa_order_rows uppers =
     ebind (emap (\<lambda>(n, (item, upper)).
         ebind (minimum_packs (eo_offer item)) (\<lambda>minimum.
         Inr [([(SPacks n, 1), (SOrdered n, - fint upper)], None, 0),
              ([(SPacks n, - 1), (SOrdered n, fint minimum)], None, 0)])) (enumerate 0 uppers)) (\<lambda>rows.
     Inr (concat rows))"

definition saa_flow_row ::
    "problem_data \<Rightarrow> bucket_state \<Rightarrow> string \<Rightarrow> inv_key \<Rightarrow> date option \<Rightarrow> date option \<times> date \<Rightarrow> svar row" where
  "saa_flow_row data buckets s key bucket = (\<lambda>(previous, day).
     let arrivals = filter (\<lambda>(n, item). eo_key item = key \<and> eo_arrival item = day \<and> eo_expiry item = bucket)
           (enumerate 0 (md_regular data));
         constant = flow_constant data buckets key bucket previous day in
     ([(SStock s key bucket day, 1), (SServed s key bucket day, 1), (SExpired s key bucket day, 1)] @
      (case previous of None \<Rightarrow> [] | Some d \<Rightarrow> [(SStock s key bucket d, - 1)]) @
      map (\<lambda>(n, item). (SPacks n, - eo_pack_quantity item)) arrivals, Some constant, constant))"

definition saa_capacity_row ::
    "problem_data \<Rightarrow> bucket_state \<Rightarrow> string \<Rightarrow> inv_key \<Rightarrow> f64 \<Rightarrow> date option \<times> date \<Rightarrow> svar row" where
  "saa_capacity_row data buckets s key capacity = (\<lambda>(previous, day).
     let ids = dict_get_or (bk_ids buckets) key [];
         received = dict_get_or (md_inbound data) (key, day) 0;
         arrivals = filter (\<lambda>(n, item). eo_key item = key \<and> eo_arrival item = day) (enumerate 0 (md_regular data));
         constant = (case previous of
             None \<Rightarrow> received + py_sum (map (\<lambda>b. dict_get_or (bk_initial buckets) (key, b) 0) ids)
           | Some _ \<Rightarrow> received) in
     ((case previous of None \<Rightarrow> [] | Some d \<Rightarrow> map (\<lambda>b. (SStock s key b d, 1)) ids) @
      map (\<lambda>(n, item). (SPacks n, eo_pack_quantity item)) arrivals, None, capacity - constant))"

definition saa_demand_row :: "problem_data \<Rightarrow> bucket_state \<Rightarrow> string \<Rightarrow> inv_key \<Rightarrow> date \<Rightarrow> svar row" where
  "saa_demand_row data buckets s key day =
     (let demand = demand_of data s key day in
      ((SShort s key day, 1) # map (\<lambda>b. (SServed s key b day, 1)) (dict_get_or (bk_ids buckets) key []),
       Some demand, demand))"

definition saa_key_rows :: "problem_data \<Rightarrow> bucket_state \<Rightarrow> string \<Rightarrow> inv_key \<Rightarrow> svar row list" where
  "saa_key_rows data buckets s key =
     concat (map (\<lambda>bucket. map (saa_flow_row data buckets s key bucket) (previous_days (md_dates data)))
       (dict_get_or (bk_ids buckets) key [])) @
     (case capacity_of data key of None \<Rightarrow> []
      | Some capacity \<Rightarrow> map (saa_capacity_row data buckets s key capacity) (previous_days (md_dates data))) @
     map (saa_demand_row data buckets s key) (md_dates data)"

definition scenario_total :: "problem_data \<Rightarrow> string \<Rightarrow> inv_key \<Rightarrow> f64" where
  "scenario_total data s key = py_sum (map (demand_of data s key) (md_dates data))"

definition saa_service_row :: "problem_data \<Rightarrow> f64 \<Rightarrow> inv_key \<Rightarrow> svar row" where
  "saa_service_row data fill key =
     (concat (map (\<lambda>(s, weight).
         if scenario_total data s key = 0 then []
         else map (\<lambda>day. (SShort s key day, weight / scenario_total data s key)) (md_dates data))
       (zip (md_scenario_ids data) (md_weights data))), None, 1 - fill)"

definition saa_cost_coefficients :: "(nat \<times> eligible_offer) list \<Rightarrow> (svar, f64) dict" where
  "saa_cost_coefficients items =
     concat (map (\<lambda>(n, item). [(SPacks n, of_pack_size (eo_offer item) * of_unit_price (eo_offer item)),
                                (SOrdered n, of_delivery_cost (eo_offer item))]) items)"

definition saa_supplier_rows :: "problem_data \<Rightarrow> supplier_constraint \<Rightarrow> svar row list py" where
  "saa_supplier_rows data c =
     (let matching = filter (\<lambda>(n, item). in_constraint_scope c (eo_offer item)) (enumerate 0 (md_regular data)) in
      ebind (case sk_maximum_quantity c of
               None \<Rightarrow> Inr []
             | Some m \<Rightarrow>
                 ebind (eany (\<lambda>(n, item). ebind (normalize_unit (of_unit (eo_offer item))) (\<lambda>u.
                          ebind (normalize_unit (constraint_unit c)) (\<lambda>v. Inr (u \<noteq> v)))) matching) (\<lambda>mixed.
                 if mixed then Inl (exn_code OptimizationNotAvailableError ''INVALID_PROCUREMENT_UNIT'' [])
                 else Inr [(map (\<lambda>(n, item). (SPacks n, of_pack_size (eo_offer item))) matching, None, m)]))
       (\<lambda>quantity_rows.
      Inr (quantity_rows @
        (case sk_maximum_cost c of None \<Rightarrow> [] | Some m \<Rightarrow> [(saa_cost_coefficients matching, None, m)]))))"

record saa_model =
  sa_vars :: "svar var_spec list"
  sa_rows :: "svar row list"

definition saa_model_of :: "optimization_request \<Rightarrow> strategy_profile \<Rightarrow> problem_data \<Rightarrow> saa_model py" where
  "saa_model_of request profile data =
     (let buckets = saa_buckets data; maximum_demand = maximum_demand_of data;
          pairs = concat (map (\<lambda>sw. map (Pair sw) (md_keys data)) (zip (md_scenario_ids data) (md_weights data))) in
      ebind (emap (\<lambda>item. ebind (offer_upper_packs item request maximum_demand) (\<lambda>u. Inr (item, u)))
              (md_regular data)) (\<lambda>uppers.
      ebind (emap (\<lambda>(sw, key). saa_key_vars request data profile buckets sw key) pairs) (\<lambda>kvars.
      ebind (saa_order_rows uppers) (\<lambda>orows.
      ebind (emap (saa_supplier_rows data) (rq_constraints request)) (\<lambda>srows.
      Inr \<lparr>sa_vars = saa_order_vars profile uppers @ concat kvars,
           sa_rows = orows @
             concat (map (\<lambda>s. concat (map (saa_key_rows data buckets s) (md_keys data))) (md_scenario_ids data)) @
             (case sp_min_expected_fill profile of None \<Rightarrow> []
              | Some fill \<Rightarrow> map (saa_service_row data fill) (md_keys data)) @
             (case rq_budget request of None \<Rightarrow> []
              | Some b \<Rightarrow> [(saa_cost_coefficients (enumerate 0 (md_regular data)), None, b)]) @
             concat srows\<rparr>)))))"

section \<open>The plan\<close>

definition saa_orders :: "saa_model \<Rightarrow> problem_data \<Rightarrow> milp_result \<Rightarrow> decision_line list py" where
  "saa_orders m data answer =
     (case mr_x answer of
        None \<Rightarrow> Inr []
      | Some x \<Rightarrow>
          if mr_status answer \<in> {0, 1} then
            emap (\<lambda>(packs, item). decision_of item packs)
              (filter (\<lambda>(packs, item). 0 < packs)
                (map (\<lambda>(n, item). (py_round (value_of (sa_vars m) x (SPacks n)), item)) (enumerate 0 (md_regular data))))
          else Inr [])"

fun is_sstock :: "svar \<Rightarrow> bool" where
  "is_sstock (SStock _ _ _ _) = True"
| "is_sstock _ = False"

fun is_sshort :: "svar \<Rightarrow> bool" where
  "is_sshort (SShort _ _ _) = True"
| "is_sshort _ = False"

definition saa_purchase_term :: "strategy_profile \<Rightarrow> decision_line list \<Rightarrow> f64" where
  "saa_purchase_term profile orders =
     py_sum (map (\<lambda>l. (pl_purchase_cost l + pl_delivery_cost l) * (1 + sp_cash_penalty profile)) orders)"

record key_outcome =
  ko_demand :: f64
  ko_missing :: f64
  ko_fill_rate :: f64
  ko_stockout :: bool

definition key_outcome_of :: "problem_data \<Rightarrow> saa_model \<Rightarrow> f64 list \<Rightarrow> string \<Rightarrow> inv_key \<Rightarrow> key_outcome" where
  "key_outcome_of data m x s key =
     (let amount = scenario_total data s key;
          missing = py_sum (map (\<lambda>day. value_of (sa_vars m) x (SShort s key day)) (md_dates data)) in
      \<lparr>ko_demand = amount, ko_missing = missing,
       ko_fill_rate = (if amount = 0 then 1 else 1 - missing / amount),
       ko_stockout = (fl (1 / 10 ^ 8) < missing)\<rparr>)"

definition scenario_outcome :: "problem_data \<Rightarrow> saa_model \<Rightarrow> f64 list \<Rightarrow> string \<Rightarrow> pyval" where
  "scenario_outcome data m x s =
     (let outcomes = map (\<lambda>key. (key, key_outcome_of data m x s key)) (md_keys data) in
      PDict [(''stockout'', PBool (list_ex (ko_stockout \<circ> snd) outcomes)),
        (''per_key'', PDict (map (\<lambda>(key, k).
           (fst key @ ''|'' @ snd key @ ''|'' @ dict_get_or (md_target_units data) key [],
            PDict [(''demand'', PNum (ko_demand k)), (''shortage'', PNum (ko_missing k)),
              (''fill_rate'', PNum (ko_fill_rate k)), (''stockout'', PBool (ko_stockout k))])) outcomes))])"

definition saa_provenance ::
    "problem_data \<Rightarrow> strategy_profile \<Rightarrow> saa_model \<Rightarrow> decision_line list \<Rightarrow> milp_result \<Rightarrow> payload" where
  "saa_provenance data profile m orders answer =
     [(''solver'', PStr ''scipy.optimize.milp''), (''formulation'', PStr ''expiry_bucket_first_stage_saa_v1''),
      (''first_stage_non_anticipative'', PBool True),
      (''scenario_ids'', PList (map PStr (md_scenario_ids data))),
      (''scenario_weights'', PList (map PNum (md_weights data))),
      (''scenario_outcomes'', PDict (case mr_x answer of None \<Rightarrow> []
         | Some x \<Rightarrow> map (\<lambda>s. (s, scenario_outcome data m x s)) (md_scenario_ids data))),
      (''exact_inventory_physics'', PBool False), (''requires_m4_resimulation'', PBool True),
      (''objective_breakdown'', PDict
         [(''cost_unit'', PStr ''supplier_offer_unit_price_currency_or_cost_unit''),
          (''purchase_term'', PNum (saa_purchase_term profile orders)),
          (''shortage_term'', opt_val (\<lambda>x. PNum (family_term is_sshort (sa_vars m) x)) (mr_x answer)),
          (''holding_term'', opt_val (\<lambda>x. PNum (family_term is_sstock (sa_vars m) x)) (mr_x answer)),
          (''waste_term'', PNum 0), (''total_objective'', opt_val PNum (mr_fun answer))])]"

definition solve_stochastic_procurement ::
    "milp \<Rightarrow> numpy \<Rightarrow> optimization_request \<Rightarrow> strategy_profile \<Rightarrow> procurement_plan py" where
  "solve_stochastic_procurement solve np request profile =
     ebind (build_problem_data np request) (\<lambda>data.
     ebind (raise_if (\<not> md_probabilistic data \<or> length (md_scenario_ids data) < 2)
       (exn OptimizationNotAvailableError [])) (\<lambda>_.
     ebind (raise_if (list_ex (\<lambda>w. w \<le> 0) (md_weights data))
       (exn_code OptimizationNotAvailableError ''INVALID_SCENARIO_WEIGHTS'' [])) (\<lambda>_.
     ebind (saa_model_of request profile data) (\<lambda>m.
     let answer = solve (milp_arrays (sa_vars m) (sa_rows m)) in
     ebind (saa_orders m data answer) (\<lambda>orders.
     let p = \<lparr>pp_plan_id = plan_name request profile, pp_strategy = sp_name profile, pp_orders = orders,
              pp_recourse = [], pp_purchase_cost = plan_cost orders, pp_expected_recourse_cost = 0,
              pp_objective_value = mr_fun answer, pp_solver_status = solver_status (mr_status answer),
              pp_completed = False, pp_provenance = saa_provenance data profile m orders answer,
              pp_warnings = md_warnings data\<rparr> in
     contract (procurement_plan_ok p) p)))))"

end
