(* ===== verification/Opt_Loop.thy ===== *)
theory Opt_Loop
  imports Opt_Critic Opt_Stochastic
begin

text \<open>
  \<open>optimization/resimulation.py\<close>, \<open>optimizer.py\<close> and \<open>rolling_horizon.py\<close>: every candidate plan is
  simulated exactly, criticised, and the cheapest accepted one is recommended. The conversion
  rules reach the simulator as the table of their dumps, so cells are dynamic values here. The
  lead-time and the shelf-life model are one optional argument: the check that both are given
  or none is the type's.
\<close>

section \<open>Exact simulation of a plan\<close>

definition storage_unevaluated :: "payload \<Rightarrow> bool" where
  "storage_unevaluated context \<longleftrightarrow>
     (case dict_get_or context ''store_storage'' (PDict []) of
        PDict d \<Rightarrow> dict_get d ''status'' = Some (PStr ''not_evaluated'')
      | _ \<Rightarrow> False)"

definition with_capacity_context :: "payload \<Rightarrow> sim_package \<Rightarrow> sim_package" where
  "with_capacity_context context p =
     (if context = [] then p
      else p\<lparr>pk_results := map (\<lambda>r. r\<lparr>
          sr_provenance := dict_merge (sr_provenance r)
            [(''capacity_context'', PDict context),
             (''capacity_evaluation_status'',
                if storage_unevaluated context then PStr ''not_evaluated''
                else dict_get_or (sr_provenance r) ''capacity_evaluation_status'' (PStr ''not_configured''))],
          sr_warnings := sorted_set (sr_warnings r @ flag_if (storage_unevaluated context) ''CAPACITY_NOT_EVALUATED'')\<rparr>)
        (pk_results p)\<rparr>)"

definition rules_frame :: "unit_conversion_rule list \<Rightarrow> pyval data_frame option" where
  "rules_frame rules =
     (if rules = [] then None
      else Some \<lparr>df_columns = CONVERSION_REQUIRED_COLUMNS, df_rows = map (row_of \<circ> rule_dump) rules\<rparr>)"

text \<open>\<open>f"{exc.code}: {exc}"\<close>; the message itself is not modelled.\<close>

definition error_text :: "core_error \<Rightarrow> string" where
  "error_text e = err_code e @ '': ''"

text \<open>\<open>try: ... except E\<close>: a caught exception becomes a value, any other is raised again.\<close>

definition catching :: "(core_error \<Rightarrow> bool) \<Rightarrow> 'a py \<Rightarrow> (core_error + 'a) py" where
  "catching caught m = (case m of Inr x \<Rightarrow> Inr (Inr x) | Inl e \<Rightarrow> if caught e then Inr (Inl e) else Inl e)"

definition design_simulation ::
    "numpy \<Rightarrow> pyval pandas \<Rightarrow> optimization_request \<Rightarrow> delivery list \<Rightarrow> (string, delivery list) dict \<Rightarrow> sim_package py" where
  "design_simulation np pd request base_inbound recourse_inbound =
     ebind (if all_some (map sc_probability_weight (rq_scenarios request)) then
              monte_carlo_run np pd (rq_inventory request) (ScenarioList (rq_scenarios request)) (rq_inbound request)
                base_inbound [] None (Some recourse_inbound) None (Some (rq_policy request))
                (rules_frame (rq_conversions request)) (rq_costs request) (rq_seed request) False
                (Some (rq_decision_date request)) (Some (rq_end_date request))
            else
              simulate_inventory_scenarios np pd (rq_inventory request) (ScenarioList (rq_scenarios request))
                (rq_inbound request) base_inbound [] (Some (rq_policy request)) (rules_frame (rq_conversions request))
                (rq_costs request) False (Some (rq_decision_date request)) (Some (rq_end_date request))) (\<lambda>p.
     Inr (with_capacity_context (rq_capacity_context request) p))"

definition risk_run ::
    "numpy \<Rightarrow> pyval pandas \<Rightarrow> optimization_request \<Rightarrow> delivery list \<Rightarrow> sim_package py" where
  "risk_run np pd request base_inbound =
     ebind (monte_carlo_run np pd (rq_inventory request) (ScenarioList (rq_risk_scenarios request)) (rq_inbound request)
              base_inbound [] None None None (Some (rq_policy request)) (rules_frame (rq_conversions request))
              (rq_costs request) (rq_seed request) False (Some (rq_decision_date request)) (Some (rq_end_date request)))
      (\<lambda>p. Inr (with_capacity_context (rq_capacity_context request) p))"

text \<open>A failed risk evaluation is recorded in the request's metadata, which the code mutates.\<close>

definition risk_failure :: "core_error \<Rightarrow> optimization_request \<Rightarrow> optimization_request" where
  "risk_failure e request = request\<lparr>rq_risk_metadata := dict_merge (rq_risk_metadata request)
     [(''status'', PStr ''not_evaluated''), (''reason'', PStr ''SCENARIO_EVALUATION_FAILED''),
      (''error'', PStr [])]\<rparr>"

definition stress_baseline :: "optimization_request \<Rightarrow> demand_scenario option" where
  "stress_baseline request =
     find (\<lambda>s. rq_stress_base request = None \<or> rq_stress_base request = Some (sc_scenario_id s)) (rq_scenarios request)"

definition stress_simulation_of ::
    "numpy \<Rightarrow> pyval pandas \<Rightarrow> optimization_request \<Rightarrow> (string \<Rightarrow> delivery list) \<Rightarrow>
     (sim_package option \<times> string option) py" where
  "stress_simulation_of np pd request planned =
     (case stress_baseline request of
        None \<Rightarrow> Inr (None, Some ''STRESS_BASE_SCENARIO_NOT_FOUND'')
      | Some baseline \<Rightarrow>
          ebind (catching is_inventory_error (run_inventory_stress_tests np pd (rq_inventory request) baseline
                   (rq_stress request) (rq_inbound request) (planned (sc_scenario_id baseline)) (Some (rq_policy request))
                   (rules_frame (rq_conversions request)) (rq_costs request)
                   (Some (rq_decision_date request)) (Some (rq_end_date request)))) (\<lambda>outcome.
          Inr (case outcome of Inr p \<Rightarrow> (Some p, None) | Inl e \<Rightarrow> (None, Some (error_text e)))))"

definition merge_extra :: "(string, delivery list) dict \<Rightarrow> (string, delivery list) dict \<Rightarrow> (string, delivery list) dict" where
  "merge_extra extra recourse = fold (\<lambda>(s, ds) d. dict_set s (dict_get_or d s [] @ ds) d) extra recourse"

text \<open>The planned deliveries: common to all scenarios, and by scenario.\<close>

definition planned_supply ::
    "'g supply_model option \<Rightarrow> procurement_plan \<Rightarrow> optimization_request \<Rightarrow> (delivery list \<times> (string, delivery list) dict) py" where
  "planned_supply model plan request =
     ebind (if model = None then decisions_to_planned_inbound (pp_orders plan) (pp_plan_id plan) None else Inr []) (\<lambda>base.
     ebind (emap (\<lambda>(s, lines). ebind (decisions_to_planned_inbound lines (pp_plan_id plan) (Some s)) (\<lambda>ds. Inr (s, ds)))
              (pp_recourse plan)) (\<lambda>recourse.
     case model of
       None \<Rightarrow> Inr (base, recourse)
     | Some m \<Rightarrow>
         ebind (decisions_to_scenario_planned_inbound m (pp_orders plan) (map sc_scenario_id (rq_scenarios request))
                  (pp_plan_id plan) (rq_seed request)) (\<lambda>realized.
         Inr (base, merge_extra realized recourse))))"

text \<open>The risk evaluation: the design simulation when its scenarios are weighted, else a run over the risk
  scenarios, of the same plan.\<close>

definition evaluate_risk ::
    "numpy \<Rightarrow> pyval pandas \<Rightarrow> optimization_request \<Rightarrow> delivery list \<Rightarrow> sim_package option \<Rightarrow>
     (sim_package option \<times> optimization_request) py" where
  "evaluate_risk np pd request base simulation =
     (if all_some (map sc_probability_weight (rq_scenarios request)) then Inr (simulation, request)
      else if simulation \<noteq> None \<and> rq_risk_scenarios request \<noteq> [] then
        ebind (catching (\<lambda>e. is_inventory_error e \<or> err_class e = PyValueError) (risk_run np pd request base)) (\<lambda>risk.
        Inr (case risk of Inr p \<Rightarrow> (Some p, request) | Inl e \<Rightarrow> (None, risk_failure e request)))
      else Inr (None, request))"

definition evaluate_stress ::
    "numpy \<Rightarrow> pyval pandas \<Rightarrow> optimization_request \<Rightarrow> (string \<Rightarrow> delivery list) \<Rightarrow> sim_package option \<Rightarrow>
     (sim_package option \<times> string option) py" where
  "evaluate_stress np pd request planned simulation =
     (if simulation \<noteq> None \<and> rq_stress request \<noteq> [] then stress_simulation_of np pd request planned
      else Inr (None, None))"

definition evaluate_candidate_plan ::
    "numpy \<Rightarrow> pyval pandas \<Rightarrow> 'g supply_model option \<Rightarrow> procurement_plan \<Rightarrow> strategy_profile \<Rightarrow> optimization_request \<Rightarrow>
     (candidate_evaluation \<times> optimization_request) py" where
  "evaluate_candidate_plan np pd model plan profile request =
     ebind (planned_supply model plan request) (\<lambda>(base, recourse).
     ebind (catching is_inventory_error (design_simulation np pd request base recourse)) (\<lambda>design.
     let simulation = (case design of Inr p \<Rightarrow> Some p | Inl _ \<Rightarrow> None);
         error = (case design of Inr _ \<Rightarrow> None | Inl e \<Rightarrow> Some (error_text e)) in
     ebind (evaluate_risk np pd request base simulation) (\<lambda>(risk_simulation, request).
     ebind (evaluate_stress np pd request (\<lambda>s. if model = None then base else dict_get_or recourse s []) simulation)
       (\<lambda>(stress_simulation, stress_error).
     ebind (critique_procurement_plan plan request profile simulation stress_simulation
              (if stress_error \<noteq> None then stress_error else error)) (\<lambda>critic.
     Inr (\<lparr>ce_plan = plan\<lparr>pp_completed := cr_passed critic\<rparr>, ce_simulation = simulation,
           ce_risk_simulation = risk_simulation, ce_stress_simulation = stress_simulation, ce_critic = critic\<rparr>,
          request))))))"

section \<open>The optimizer\<close>

definition profiles_of :: "optimization_request \<Rightarrow> strategy_profile list" where
  "profiles_of request =
     (let defaults = dict_merge (index_by sp_name default_strategy_profiles)
            (map (\<lambda>p. (sp_name p, p)) (rq_profiles request)) in
      map (\<lambda>name. the (dict_get defaults name)) [Lean, Balanced, Protected])"

definition use_stochastic :: "optimization_request \<Rightarrow> bool" where
  "use_stochastic request \<longleftrightarrow>
     rq_stochastic request \<and> (rq_scenarios request \<noteq> [] \<and> all_some (map sc_probability_weight (rq_scenarios request))) \<and>
     1 < length (rq_scenarios request)"

text \<open>The candidate of a profile, and the warning when the stochastic model was not available.\<close>

definition candidate_plan ::
    "milp \<Rightarrow> numpy \<Rightarrow> optimization_request \<Rightarrow> strategy_profile \<Rightarrow> (procurement_plan \<times> string list) py" where
  "candidate_plan solve np request profile =
     ebind (catching (\<lambda>e. err_class e = OptimizationNotAvailableError)
              (if use_stochastic request then solve_stochastic_procurement solve np request profile
               else solve_deterministic_procurement solve np request profile)) (\<lambda>outcome.
     case outcome of
       Inr plan \<Rightarrow> Inr (plan, [])
     | Inl e \<Rightarrow> ebind (solve_deterministic_procurement solve np request profile) (\<lambda>plan. Inr (plan, [error_text e])))"

record optimizer_state =
  op_request :: optimization_request
  op_evaluations :: "(strategy_name, candidate_evaluation) dict"
  op_warnings :: "string list"

definition optimize_profile ::
    "milp \<Rightarrow> numpy \<Rightarrow> pyval pandas \<Rightarrow> 'g supply_model option \<Rightarrow> optimizer_state \<Rightarrow> strategy_profile \<Rightarrow> optimizer_state py" where
  "optimize_profile solve np pd model st profile =
     ebind (candidate_plan solve np (op_request st) profile) (\<lambda>(plan, warnings).
     ebind (evaluate_candidate_plan np pd model plan profile (op_request st)) (\<lambda>(evaluation, request).
     Inr \<lparr>op_request = request, op_evaluations = dict_set (sp_name profile) evaluation (op_evaluations st),
          op_warnings = op_warnings st @ warnings\<rparr>))"

definition recommend :: "(strategy_name, candidate_evaluation) dict \<Rightarrow> strategy_name option" where
  "recommend evaluations =
     (let valid = filter (\<lambda>(name, e). cr_passed (ce_critic e)) evaluations in
      if valid = [] then None
      else Some (fst (py_min_by (\<lambda>(name, e). (pp_purchase_cost (ce_plan e), strategy_text name)) valid)))"

definition optimizer_provenance :: "bool \<Rightarrow> bool \<Rightarrow> bool \<Rightarrow> payload" where
  "optimizer_provenance stochastic found external =
     [(''candidate_engine'', PStr (if stochastic then ''stochastic_saa'' else ''deterministic_mip'')),
      (''validation_engine'', PStr ''m4_lot_level_fefo_v1''),
      (''recommendation_rule'', PStr ''lowest_exact_valid_candidate_cost_then_strategy_name''),
      (''no_valid_plan_reason'', if found then PNone else PStr ''NO_VALID_PROCUREMENT_PLAN''),
      (''supply_uncertainty'', PStr (if external then ''externally_realized'' else ''supplier_offer_fixed_lead_time''))]"

definition optimize_procurement ::
    "milp \<Rightarrow> numpy \<Rightarrow> pyval pandas \<Rightarrow> 'g supply_model option \<Rightarrow> optimization_request \<Rightarrow> optimization_result py" where
  "optimize_procurement solve np pd model request =
     (let stochastic = use_stochastic request;
          start = flag_if (rq_stochastic request \<and> \<not> stochastic)
            ''STOCHASTIC_NOT_AVAILABLE_WITH_UNWEIGHTED_OR_SINGLE_SCENARIO'' in
      ebind (efold (optimize_profile solve np pd model)
               \<lparr>op_request = request, op_evaluations = [], op_warnings = start\<rparr> (profiles_of request)) (\<lambda>st.
      let recommended = recommend (op_evaluations st) in
      Inr \<lparr>os_request_id = rq_request_id request, os_evaluations = op_evaluations st, os_recommended = recommended,
           os_status = (if recommended \<noteq> None then ''COMPLETED'' else ''NO_VALID_PROCUREMENT_PLAN''),
           os_provenance = optimizer_provenance stochastic (recommended \<noteq> None) (model \<noteq> None),
           os_warnings = sorted_set (op_warnings st)\<rparr>))"

section \<open>Rolling horizon\<close>

definition executed_orders :: "optimization_result \<Rightarrow> date \<Rightarrow> decision_line list" where
  "executed_orders result decision_date =
     (case Option.bind (os_recommended result) (dict_get (os_evaluations result)) of
        None \<Rightarrow> []
      | Some e \<Rightarrow> filter (\<lambda>l. pl_order_date l = decision_date) (pp_orders (ce_plan e)))"

definition rolling_horizon_step ::
    "(date \<Rightarrow> optimization_result option \<Rightarrow> optimization_request) \<Rightarrow> (optimization_request \<Rightarrow> optimization_result py) \<Rightarrow>
     rolling_step list \<times> optimization_result option \<Rightarrow> date \<Rightarrow> (rolling_step list \<times> optimization_result option) py" where
  "rolling_horizon_step request_factory optimizer st decision_date =
     (let request = request_factory decision_date (snd st) in
      ebind (raise_if (rq_decision_date request \<noteq> decision_date) value_error) (\<lambda>_.
      ebind (optimizer request) (\<lambda>result.
      Inr (fst st @ [\<lparr>rs_decision_date = decision_date, rs_result = result,
                       rs_executed = executed_orders result decision_date\<rparr>], Some result))))"

definition rolling_horizon_run ::
    "date list \<Rightarrow> (date \<Rightarrow> optimization_result option \<Rightarrow> optimization_request) \<Rightarrow>
     (optimization_request \<Rightarrow> optimization_result py) \<Rightarrow> rolling_result py" where
  "rolling_horizon_run decision_dates request_factory optimizer =
     ebind (efold (rolling_horizon_step request_factory optimizer) ([], None) decision_dates) (\<lambda>(steps, _).
     Inr \<lparr>rr_steps = steps, rr_provenance =
       [(''controller'', PStr ''receding_horizon_v1''), (''execution_rule'', PStr ''first_actionable_period_only'')]\<rparr>)"

end
