(* ===== verification/Plan_Facts.thy ===== *)
theory Plan_Facts
  imports Opt_Loop Batch_Facts
begin

text \<open>
  What both solvers promise of a candidate plan whatever the solver answers: orders come from
  usable offers at their arrival dates and prices, so that the critic's checks of an order against
  its offer can only fail on quantities.
\<close>

section \<open>Orders come from usable offers\<close>

text \<open>A positive number of packs of an offer of the model, at the index of its variable.\<close>

definition order_at :: "problem_data \<Rightarrow> (nat \<Rightarrow> int) \<Rightarrow> nat \<Rightarrow> decision_line \<Rightarrow> bool" where
  "order_at data packs n l \<longleftrightarrow> n < length (md_regular data) \<and> 0 < packs n \<and>
     decision_of (md_regular data ! n) (packs n) = Inr l"

lemma packs_orders:
  assumes "emap (\<lambda>(packs, item). decision_of item packs) (filter (\<lambda>(packs, item). 0 < packs)
      (map (\<lambda>(n, item). (packs n, item)) (enumerate 0 (md_regular data)))) = Inr orders"
  shows "\<forall>l \<in> set orders. \<exists>n. order_at data packs n l"
proof
  fix l assume "l \<in> set orders"
  from emap_in_set [OF assms this] obtain x where x: "x \<in> set (filter (\<lambda>(packs, item). 0 < packs)
      (map (\<lambda>(n, item). (packs n, item)) (enumerate 0 (md_regular data))))" "(case x of (p, i) \<Rightarrow> decision_of i p) = Inr l"
    by blast
  then obtain n where "n < length (md_regular data)" "x = (packs n, md_regular data ! n)" "0 < packs n"
    by (auto simp: in_set_enumerate_eq)
  with x(2) show "\<exists>n. order_at data packs n l" by (auto simp: order_at_def)
qed

lemma plan_orders_at:
  assumes "plan_orders m data answer = Inr orders" "l \<in> set orders"
  obtains x n where "mr_x answer = Some x" "mr_status answer \<in> {0, 1}"
    "order_at data (\<lambda>n. py_round (value_of (dm_vars m) x (Packs n))) n l"
  using assms packs_orders [of "\<lambda>n. py_round (value_of (dm_vars m) (the (mr_x answer)) (Packs n))" data orders]
  by (auto simp: plan_orders_def split: option.splits if_splits)

lemma saa_orders_at:
  assumes "saa_orders m data answer = Inr orders" "l \<in> set orders"
  obtains x n where "mr_x answer = Some x" "mr_status answer \<in> {0, 1}"
    "order_at data (\<lambda>n. py_round (value_of (sa_vars m) x (SPacks n))) n l"
  using assms packs_orders [of "\<lambda>n. py_round (value_of (sa_vars m) (the (mr_x answer)) (SPacks n))" data orders]
  by (auto simp: saa_orders_def split: option.splits if_splits)

lemma solve_onceE:
  assumes "solve_once solve np request profile diagnose = Inr plan"
  obtains data m where "build_problem_data np request = Inr data" "det_model_of request profile data = Inr m"
    "plan_orders m data (solve (milp_arrays (dm_vars m) (dm_rows m))) = Inr (pp_orders plan)"
    "pp_solver_status plan = solver_status (mr_status (solve (milp_arrays (dm_vars m) (dm_rows m))))"
    "pp_strategy plan = sp_name profile" "pp_plan_id plan = plan_name request profile" "pp_recourse plan = []"
    "pp_purchase_cost plan = plan_cost (pp_orders plan)" "procurement_plan_ok plan" "\<not> pp_completed plan"
    "dict_get (pp_provenance plan) ''predicted_expected_fill_rate'' = None"
  using assms unfolding solve_once_def Let_def
  by (elim ebind_InrE) (auto elim!: ebind_InrE split: prod.splits intro!: that simp: det_provenance_def)

lemma solve_stochasticE:
  assumes "solve_stochastic_procurement solve np request profile = Inr plan"
  obtains data m where "build_problem_data np request = Inr data" "saa_model_of request profile data = Inr m"
    "saa_orders m data (solve (milp_arrays (sa_vars m) (sa_rows m))) = Inr (pp_orders plan)"
    "pp_solver_status plan = solver_status (mr_status (solve (milp_arrays (sa_vars m) (sa_rows m))))"
    "pp_strategy plan = sp_name profile" "pp_plan_id plan = plan_name request profile" "pp_recourse plan = []"
    "pp_purchase_cost plan = plan_cost (pp_orders plan)" "procurement_plan_ok plan" "\<not> pp_completed plan"
    "dict_get (pp_provenance plan) ''predicted_expected_fill_rate'' = None"
  using assms unfolding solve_stochastic_procurement_def Let_def
  by (elim ebind_InrE) (auto elim!: ebind_InrE intro!: that simp: saa_provenance_def)

text \<open>What both solvers promise of a candidate.\<close>

definition from_solver :: "numpy \<Rightarrow> optimization_request \<Rightarrow> strategy_profile \<Rightarrow> procurement_plan \<Rightarrow> bool" where
  "from_solver np request profile plan \<longleftrightarrow>
     (\<exists>data packs. build_problem_data np request = Inr data \<and> (\<forall>l \<in> set (pp_orders plan). \<exists>n. order_at data packs n l)) \<and>
     pp_strategy plan = sp_name profile \<and> pp_plan_id plan = plan_name request profile \<and> pp_recourse plan = [] \<and>
     pp_purchase_cost plan = plan_cost (pp_orders plan) \<and> procurement_plan_ok plan \<and> \<not> pp_completed plan \<and>
     dict_get (pp_provenance plan) ''predicted_expected_fill_rate'' = None"

lemma deterministic_from_solver:
  assumes "solve_deterministic_procurement solve np request profile = Inr plan"
  shows "from_solver np request profile plan"
  using assms unfolding solve_deterministic_procurement_def
proof (rule solve_onceE)
  fix data and m :: det_model
  let ?answer = "solve (milp_arrays (dm_vars m) (dm_rows m))"
  let ?packs = "\<lambda>n. py_round (value_of (dm_vars m) (the (mr_x ?answer)) (Packs n))"
  assume d: "build_problem_data np request = Inr data" and o: "plan_orders m data ?answer = Inr (pp_orders plan)"
    and rest: "pp_strategy plan = sp_name profile" "pp_plan_id plan = plan_name request profile" "pp_recourse plan = []"
    "pp_purchase_cost plan = plan_cost (pp_orders plan)" "procurement_plan_ok plan" "\<not> pp_completed plan"
    "dict_get (pp_provenance plan) ''predicted_expected_fill_rate'' = None"
  have "\<exists>n. order_at data ?packs n l" if "l \<in> set (pp_orders plan)" for l
    by (rule plan_orders_at [OF o that]) auto
  with d rest show ?thesis unfolding from_solver_def by blast
qed

lemma stochastic_from_solver:
  assumes "solve_stochastic_procurement solve np request profile = Inr plan"
  shows "from_solver np request profile plan"
  using assms
proof (rule solve_stochasticE)
  fix data and m :: saa_model
  let ?answer = "solve (milp_arrays (sa_vars m) (sa_rows m))"
  let ?packs = "\<lambda>n. py_round (value_of (sa_vars m) (the (mr_x ?answer)) (SPacks n))"
  assume d: "build_problem_data np request = Inr data" and o: "saa_orders m data ?answer = Inr (pp_orders plan)"
    and rest: "pp_strategy plan = sp_name profile" "pp_plan_id plan = plan_name request profile" "pp_recourse plan = []"
    "pp_purchase_cost plan = plan_cost (pp_orders plan)" "procurement_plan_ok plan" "\<not> pp_completed plan"
    "dict_get (pp_provenance plan) ''predicted_expected_fill_rate'' = None"
  have "\<exists>n. order_at data ?packs n l" if "l \<in> set (pp_orders plan)" for l
    by (rule saa_orders_at [OF o that]) auto
  with d rest show ?thesis unfolding from_solver_def by blast
qed

lemma candidate_from_solver:
  assumes "candidate_plan solve np request profile = Inr (plan, ws)"
  shows "from_solver np request profile plan"
  using assms unfolding candidate_plan_def
  by (auto simp: catching_def split: sum.splits if_splits elim!: ebind_InrE
      dest: stochastic_from_solver deterministic_from_solver)

section \<open>Orders satisfy the critic's checks of their offers\<close>

lemma decision_of_fields:
  assumes "decision_of item packs = Inr l"
  obtains u expiry where "normalize_unit (of_unit (eo_offer item)) = Inr u"
    "planned_expiry (of_tracking (eo_offer item)) (eo_arrival item) (of_shelf_life_days (eo_offer item)) = Inr expiry"
    "l = \<lparr>pl_offer_id = of_offer_id (eo_offer item), pl_supplier_id = of_supplier_id (eo_offer item),
       pl_store_id = of_store_id (eo_offer item), pl_ingredient_id = of_ingredient_id (eo_offer item), pl_unit = u,
       pl_order_date = of_order_date (eo_offer item), pl_arrival_date = eo_arrival item, pl_pack_count = packs,
       pl_pack_size = of_pack_size (eo_offer item), pl_order_quantity = fint packs * of_pack_size (eo_offer item),
       pl_unit_price = of_unit_price (eo_offer item),
       pl_purchase_cost = fint packs * of_pack_size (eo_offer item) * of_unit_price (eo_offer item),
       pl_delivery_cost = of_delivery_cost (eo_offer item), pl_shelf_life_days = of_shelf_life_days (eo_offer item),
       pl_expiry_date = expiry, pl_tracking = of_tracking (eo_offer item), pl_emergency = of_emergency (eo_offer item)\<rparr>"
  using assms by (auto simp: decision_of_def Let_def elim!: ebind_InrE intro: that)

lemma get_index_by:
  assumes "distinct (map key xs)" "x \<in> set xs"
  shows "dict_get (index_by key xs) (key x) = Some x"
  unfolding index_by_def by (rule index_by_get [OF assms(2,1)])

lemma add_days_of_arrival:
  assumes "supplier_arrival_date o' = Inr a"
  obtains d where "add_days (of_order_date o') (of_lead_time_days o') = Inr d"
  using assms by (auto simp: supplier_arrival_date_def elim!: ebind_InrE)

definition amount_codes :: "decision_line \<Rightarrow> string set" where
  "amount_codes l = {''MOQ:'' @ pl_offer_id l, ''SUPPLIER_OFFER_MAX:'' @ pl_offer_id l}"

lemma eligible_order_checks:
  assumes "eligible_ok request tu e" "decision_of e packs = Inr l" "distinct (map of_offer_id (rq_offers request))"
  shows "\<exists>codes. line_violations tol (index_by of_offer_id (rq_offers request)) l = Inr codes \<and> set codes \<subseteq> amount_codes l"
  using assms(2)
proof (rule decision_of_fields)
  let ?o = "eo_offer e"
  fix u expiry
  assume u: "normalize_unit (of_unit ?o) = Inr u"
    and x: "planned_expiry (of_tracking ?o) (eo_arrival e) (of_shelf_life_days ?o) = Inr expiry"
    and l: "l = \<lparr>pl_offer_id = of_offer_id ?o, pl_supplier_id = of_supplier_id ?o,
       pl_store_id = of_store_id ?o, pl_ingredient_id = of_ingredient_id ?o, pl_unit = u,
       pl_order_date = of_order_date ?o, pl_arrival_date = eo_arrival e, pl_pack_count = packs,
       pl_pack_size = of_pack_size ?o, pl_order_quantity = fint packs * of_pack_size ?o,
       pl_unit_price = of_unit_price ?o, pl_purchase_cost = fint packs * of_pack_size ?o * of_unit_price ?o,
       pl_delivery_cost = of_delivery_cost ?o, pl_shelf_life_days = of_shelf_life_days ?o,
       pl_expiry_date = expiry, pl_tracking = of_tracking ?o, pl_emergency = of_emergency ?o\<rparr>"
  from assms(1) have e: "?o \<in> set (rq_offers request)" "supplier_arrival_date ?o = Inr (Some (eo_arrival e))"
    "of_available ?o" "case of_cutoff_date ?o of None \<Rightarrow> True | Some c \<Rightarrow> \<not> c < of_order_date ?o"
    by (auto simp: eligible_ok_def orderable_def)
  obtain d where d: "add_days (of_order_date ?o) (of_lead_time_days ?o) = Inr d"
    by (rule add_days_of_arrival [OF e(2)])
  show ?thesis using u x e d get_index_by [OF assms(3) e(1)]
    by (auto simp: line_violations_def l amount_codes_def close_rel_def flag_if_def normalize_unit_idem
        split: option.splits)
qed

lemma solver_plan_checks:
  assumes "candidate_plan solve np request profile = Inr (plan, ws)" "distinct (map of_offer_id (rq_offers request))"
    "l \<in> set (pp_orders plan)"
  shows "\<exists>codes. line_violations tol (index_by of_offer_id (rq_offers request)) l = Inr codes \<and> set codes \<subseteq> amount_codes l"
proof -
  from candidate_from_solver [OF assms(1)] assms(3) obtain data packs n where data: "build_problem_data np request = Inr data"
    and n: "order_at data packs n l" unfolding from_solver_def by blast
  then have "md_regular data ! n \<in> set (md_regular data)" "decision_of (md_regular data ! n) (packs n) = Inr l"
    by (simp_all add: order_at_def)
  with problem_data_facts [OF data] eligible_order_checks [OF _ _ assms(2)] show ?thesis by blast
qed

text \<open>A solver's plan is consistent with the offers. When offer identifiers are distinct, every order of
  a candidate, deterministic or stochastic, passes all of the critic's checks against its offer
  (identity, dates, arrival, pack, prices, expiry, availability, cutoff, unit); only the minimum and
  maximum quantity, which depend on the solver's answer, can be reported.\<close>

theorem orders_match_their_offers:
  assumes "candidate_plan solve np request profile = Inr (plan, warnings)"
    and "distinct (map of_offer_id (rq_offers request))"
  shows "pp_recourse plan = [] \<and> pp_purchase_cost plan = plan_cost (pp_orders plan) \<and>
    (\<forall>l \<in> set (pp_orders plan). 0 < pl_pack_count l \<and> decision_line_ok l \<and>
      (\<exists>codes. line_violations tolerance (index_by of_offer_id (rq_offers request)) l = Inr codes \<and>
        set codes \<subseteq> amount_codes l))"
proof -
  have p: "from_solver np request profile plan" by (rule candidate_from_solver [OF assms(1)])
  have "0 < pl_pack_count l \<and> decision_line_ok l" if "l \<in> set (pp_orders plan)" for l
  proof -
    from p that obtain data packs n where "order_at data packs n l" unfolding from_solver_def by blast
    then show ?thesis by (auto simp: order_at_def decision_of_def Let_def elim!: ebind_InrE)
  qed
  with p solver_plan_checks [OF assms] show ?thesis unfolding from_solver_def by blast
qed

end
