(* ===== verification/Milp_Facts.thy ===== *)
theory Milp_Facts
  imports Plan_Facts
begin

text \<open>
  The mixed-integer models: what a point that is feasible up to a tolerance means for stock, demand
  and ordered packs, and the stochastic model as one deterministic block per scenario.
\<close>

section \<open>Feasible points of the model\<close>

text \<open>What the solver's contract promises of the point of an answer with status 0 or 1: bounds, integrality
  and rows hold up to a tolerance.\<close>

definition dot :: "f64 list \<Rightarrow> f64 list \<Rightarrow> rat" where
  "dot a x = sum_list (map2 (\<lambda>c v. rat_of c * rat_of v) a x)"

definition near_int :: "rat \<Rightarrow> rat \<Rightarrow> bool" where
  "near_int tol v \<longleftrightarrow> \<bar>v - of_int (round_half_even v)\<bar> \<le> tol"

definition entry_feasible :: "rat \<Rightarrow> bool \<times> f64 \<times> f64 option \<Rightarrow> f64 \<Rightarrow> bool" where
  "entry_feasible tol = (\<lambda>(integer, lower, upper) v.
     rat_of lower - tol \<le> rat_of v \<and> (case upper of None \<Rightarrow> True | Some u \<Rightarrow> rat_of v \<le> rat_of u + tol) \<and>
     (integer \<longrightarrow> near_int tol (rat_of v)))"

definition row_feasible :: "rat \<Rightarrow> f64 list \<Rightarrow> f64 list \<times> f64 option \<times> f64 \<Rightarrow> bool" where
  "row_feasible tol x = (\<lambda>(a, low, high).
     (case low of None \<Rightarrow> True | Some l \<Rightarrow> rat_of l - tol \<le> dot a x) \<and> dot a x \<le> rat_of high + tol)"

definition milp_feasible :: "rat \<Rightarrow> milp_problem \<Rightarrow> f64 list \<Rightarrow> bool" where
  "milp_feasible tol p x \<longleftrightarrow>
     list_all2 (entry_feasible tol) (zip (mp_integer p) (zip (mp_lower p) (mp_upper p))) x \<and>
     list_all (row_feasible tol x) (zip (mp_matrix p) (zip (mp_lows p) (mp_highs p)))"

lemma dot_single:
  assumes "distinct (map vs_var vars)" "length x = length vars"
  shows "dot (map (\<lambda>v. if vs_var v = k then c else 0) vars) x =
    (if k \<in> set (map vs_var vars) then rat_of c * rat_of (value_of vars x k) else 0)"
  using assms
proof (induction vars arbitrary: x)
  case (Cons v vars)
  then obtain y ys where x: "x = y # ys" "length ys = length vars" by (cases x) auto
  have "dot (map (\<lambda>v. if vs_var v = k then c else 0) vars) ys = 0" if "k \<notin> set (map vs_var vars)"
    using Cons.IH [of ys] Cons.prems x that by simp
  with Cons.IH [of ys] Cons.prems x show ?case
    by (auto simp: dot_def value_of_def dict_get_or_def zero_f64.rep_eq)
qed (simp add: dot_def)

lemma dot_add:
  assumes "length x = length vars" "\<And>v. v \<in> set vars \<Longrightarrow> rat_of (f v) = rat_of (g v) + rat_of (h v)"
  shows "dot (map f vars) x = dot (map g vars) x + dot (map h vars) x"
  using assms
proof (induction vars arbitrary: x)
  case (Cons v vars)
  then obtain y ys where x: "x = y # ys" "length ys = length vars" by (cases x) auto
  with Cons.IH [of ys] Cons.prems show ?case by (simp add: dot_def algebra_simps)
qed (simp add: dot_def)

definition row_value :: "'v var_spec list \<Rightarrow> f64 list \<Rightarrow> ('v, f64) dict \<Rightarrow> rat" where
  "row_value vars x coefficients = sum_list (map (\<lambda>(v, c). rat_of c * rat_of (value_of vars x v)) coefficients)"

text \<open>The product of a matrix row with a point is the sum over the row's coefficients.\<close>

lemma dot_row:
  assumes "distinct (map vs_var vars)" "length x = length vars"
    "distinct (dict_keys coefficients)" "set (dict_keys coefficients) \<subseteq> set (map vs_var vars)"
  shows "dot (map (\<lambda>v. dict_get_or coefficients (vs_var v) 0) vars) x = row_value vars x coefficients"
  using assms(3,4)
proof (induction coefficients)
  case Nil
  have "dot (map (\<lambda>v. 0) vars) x = 0" using assms(2)
    by (induction vars arbitrary: x) (auto simp: dot_def zero_f64.rep_eq Suc_length_conv length_Suc_conv)
  then show ?case by (simp add: row_value_def)
next
  case (Cons kc cs)
  obtain k c where kc: "kc = (k, c)" by force
  have get: "dict_get_or (kc # cs) (vs_var v) 0 = (if vs_var v = k then c else dict_get_or cs (vs_var v) 0)" for v :: "'a var_spec"
    by (auto simp: kc dict_get_or_def)
  have none: "dict_get_or cs k 0 = 0" using Cons.prems(1) by (auto simp: kc dict_get_or_def dest: map_of_SomeD split: option.split)
      (metis map_of_SomeD image_eqI fst_conv)
  have "dot (map (\<lambda>v. dict_get_or (kc # cs) (vs_var v) 0) vars) x =
    dot (map (\<lambda>v. if vs_var v = k then c else 0) vars) x + dot (map (\<lambda>v. dict_get_or cs (vs_var v) 0) vars) x"
    by (rule dot_add [OF assms(2)]) (auto simp: get none zero_f64.rep_eq)
  with Cons dot_single [OF assms(1,2), of k c] show ?case by (simp add: kc row_value_def)
qed

lemma distinct_tagged:
  assumes "distinct xs" "\<And>x. x \<in> set xs \<Longrightarrow> distinct (f x)" "\<And>x y. x \<in> set xs \<Longrightarrow> y \<in> set (f x) \<Longrightarrow> tag y = x"
  shows "distinct (concat (map f xs))"
  using assms
proof (induction xs)
  case (Cons x xs)
  then have "distinct (concat (map f xs))" by simp
  moreover have "y \<notin> set (concat (map f xs))" if "y \<in> set (f x)" for y
  proof
    assume "y \<in> set (concat (map f xs))"
    then obtain z where "z \<in> set xs" "y \<in> set (f z)" by auto
    with Cons.prems(3) [of z y] Cons.prems(3) [of x y] that Cons.prems(1) show False by auto
  qed
  ultimately show ?case using Cons.prems(2) [of x] by auto
qed simp

text \<open>A point and the rows of \<open>milp_arrays\<close>.\<close>

lemma milp_arrays_feasible:
  assumes "milp_feasible tol (milp_arrays vars rows) x" "distinct (map vs_var vars)"
  shows "length x = length vars"
    and "\<And>v. v \<in> set vars \<Longrightarrow> entry_feasible tol (vs_integer v, 0, vs_upper v) (value_of vars x (vs_var v))"
    and "\<And>a low high. (a, low, high) \<in> set rows \<Longrightarrow> distinct (dict_keys a) \<Longrightarrow> set (dict_keys a) \<subseteq> set (map vs_var vars) \<Longrightarrow>
      (case low of None \<Rightarrow> True | Some l \<Rightarrow> rat_of l - tol \<le> row_value vars x a) \<and> row_value vars x a \<le> rat_of high + tol"
proof -
  have z: "zip (map vs_integer vars) (zip (map (\<lambda>_. 0) vars) (map vs_upper vars)) = map (\<lambda>v. (vs_integer v, 0, vs_upper v)) vars"
    by (simp add: zip_map_map zip_same_conv_map comp_def)
  have e: "list_all2 (entry_feasible tol) (map (\<lambda>v. (vs_integer v, 0, vs_upper v)) vars) x"
    using assms(1) by (simp add: milp_feasible_def milp_arrays_def z)
  then show len: "length x = length vars" by (auto dest: list_all2_lengthD)
  show "entry_feasible tol (vs_integer v, 0, vs_upper v) (value_of vars x (vs_var v))" if "v \<in> set vars" for v
  proof -
    from that obtain i where i: "i < length vars" "v = vars ! i" by (auto simp: in_set_conv_nth)
    have "map_of (zip (map vs_var vars) x) (map vs_var vars ! i) = Some (x ! i)"
      by (rule map_of_zip_nth) (use i len assms(2) in auto)
    with i e show ?thesis by (auto simp: list_all2_conv_all_nth value_of_def dict_get_or_def)
  qed
  fix a low high assume r: "(a, low, high) \<in> set rows" and d: "distinct (dict_keys a)" "set (dict_keys a) \<subseteq> set (map vs_var vars)"
  have "zip (map (\<lambda>(c, _). map (\<lambda>v. dict_get_or c (vs_var v) 0) vars) rows) (zip (map (\<lambda>(_, low, _). low) rows) (map (\<lambda>(_, _, high). high) rows)) =
    map (\<lambda>(c, low, high). (map (\<lambda>v. dict_get_or c (vs_var v) 0) vars, low, high)) rows"
    by (simp add: zip_map_map zip_same_conv_map comp_def case_prod_beta)
  then have "list_all (row_feasible tol x) (map (\<lambda>(c, low, high). (map (\<lambda>v. dict_get_or c (vs_var v) 0) vars, low, high)) rows)"
    using assms(1) by (simp add: milp_feasible_def milp_arrays_def)
  with r have "row_feasible tol x (map (\<lambda>v. dict_get_or a (vs_var v) 0) vars, low, high)" by (auto simp: list_all_iff)
  then show "(case low of None \<Rightarrow> True | Some l \<Rightarrow> rat_of l - tol \<le> row_value vars x a) \<and> row_value vars x a \<le> rat_of high + tol"
    unfolding row_feasible_def prod.case dot_row [OF assms(2) len d] .
qed

section \<open>The variables of the deterministic model\<close>

lemma initial_buckets_ids:
  "dict_get_or (bk_ids (initial_buckets data)) key [] =
     (if key \<in> set (md_keys data) then [None] else []) @
     map (\<lambda>b. Some (ib_expiry b)) (filter (\<lambda>b. ib_key b = key) (md_initial_buckets data))"
proof -
  have f: "bk_ids (fold (\<lambda>b st. \<lparr>bk_ids = dict_append (ib_key b) (Some (ib_expiry b)) (bk_ids st),
      bk_initial = dict_set (ib_key b, Some (ib_expiry b)) (ib_quantity b) (bk_initial st)\<rparr>) bs st) =
    fold (\<lambda>b. dict_append (ib_key b) (Some (ib_expiry b))) bs (bk_ids st)" for bs st
    by (induction bs arbitrary: st) auto
  have g: "dict_get_or (fold (\<lambda>b. dict_append (ib_key b) (Some (ib_expiry b))) bs d) key [] =
    dict_get_or d key [] @ map (\<lambda>b. Some (ib_expiry b)) (filter (\<lambda>b. ib_key b = key) bs)" for bs d
    by (induction bs arbitrary: d) (auto simp: dict_get_or_append)
  have "dict_get_or (map (\<lambda>key. (key, [None :: date option])) ks) key [] = (if key \<in> set ks then [None] else [])" for ks
    by (induction ks) (auto simp: dict_get_or_def)
  then show ?thesis unfolding initial_buckets_def f g by simp
qed

definition bucket_ids_ok :: "bucket_state \<Rightarrow> bool" where
  "bucket_ids_ok st \<longleftrightarrow> (\<forall>key. distinct (dict_get_or (bk_ids st) key []))"

lemma add_bucket_ids: "bucket_ids_ok st \<Longrightarrow> bucket_ids_ok (add_bucket key x st)"
  by (auto simp: bucket_ids_ok_def add_bucket_def dict_get_or_append)

lemma fold_keeps: "(\<And>x st. P st \<Longrightarrow> P (f x st)) \<Longrightarrow> P st \<Longrightarrow> P (fold f xs st)"
  by (induction xs arbitrary: st) auto

lemma bucket_ids_distinct:
  assumes "distinct (map (\<lambda>b. (ib_key b, ib_expiry b)) (md_initial_buckets data))"
  shows "distinct (dict_get_or (bk_ids (expiry_buckets data)) key [])"
proof -
  have "distinct (map (\<lambda>b. Some (ib_expiry b)) (filter (\<lambda>b. ib_key b = key) bs))"
    if "distinct (map (\<lambda>b. (ib_key b, ib_expiry b)) bs)" for bs key using that by (induction bs) (auto simp: image_iff)
  from this [OF assms] have "bucket_ids_ok (initial_buckets data)"
    by (auto simp: bucket_ids_ok_def initial_buckets_ids)
  then have "bucket_ids_ok (fold (\<lambda>b. add_bucket (xb_key b) (xb_expiry b)) (md_inbound_buckets data) (initial_buckets data))"
    by (rule fold_keeps [rotated]) (rule add_bucket_ids)
  then have "bucket_ids_ok (expiry_buckets data)"
    unfolding expiry_buckets_def by (rule fold_keeps [rotated]) (simp add: add_bucket_ids split: option.split)
  then show ?thesis unfolding bucket_ids_ok_def by blast
qed

definition order_names :: "nat \<Rightarrow> mvar list" where
  "order_names n = [Packs n, Ordered n]"

definition bucket_names :: "inv_key \<Rightarrow> date list \<Rightarrow> date option \<Rightarrow> mvar list" where
  "bucket_names key days b = concat (map (\<lambda>d. [Stock key b d, Served key b d, Expired key b d]) days)"

definition key_names :: "bucket_state \<Rightarrow> date list \<Rightarrow> inv_key \<Rightarrow> mvar list" where
  "key_names buckets days key =
     concat (map (bucket_names key days) (dict_get_or (bk_ids buckets) key [])) @ map (Short key) days"

definition model_names :: "problem_data \<Rightarrow> bucket_state \<Rightarrow> mvar list" where
  "model_names data buckets = concat (map order_names [0..<length (md_regular data)]) @
     concat (map (key_names buckets (md_dates data)) (md_keys data))"

fun var_key :: "mvar \<Rightarrow> inv_key" where
  "var_key (Stock k _ _) = k" | "var_key (Served k _ _) = k" | "var_key (Expired k _ _) = k" | "var_key (Short k _) = k"
| "var_key _ = ([], [])"

fun var_bucket :: "mvar \<Rightarrow> date option" where
  "var_bucket (Stock _ b _) = b" | "var_bucket (Served _ b _) = b" | "var_bucket (Expired _ b _) = b" | "var_bucket _ = None"

fun var_day :: "mvar \<Rightarrow> date" where
  "var_day (Stock _ _ d) = d" | "var_day (Served _ _ d) = d" | "var_day (Expired _ _ d) = d" | "var_day (Short _ d) = d"
| "var_day _ = 0"

fun var_offer :: "mvar \<Rightarrow> nat" where
  "var_offer (Packs n) = n" | "var_offer (Ordered n) = n" | "var_offer _ = 0"

lemma bucket_names_distinct: "distinct days \<Longrightarrow> distinct (bucket_names key days b)"
  unfolding bucket_names_def by (rule distinct_tagged [where tag = var_day]) auto

lemma key_names_distinct:
  assumes "distinct days" "distinct (dict_get_or (bk_ids buckets) key [])"
  shows "distinct (key_names buckets days key)"
proof -
  have "distinct (concat (map (bucket_names key days) (dict_get_or (bk_ids buckets) key [])))"
    by (rule distinct_tagged [where tag = var_bucket]) (auto simp: assms bucket_names_distinct, auto simp: bucket_names_def)
  moreover have "distinct (map (Short key) days)" using assms(1) by (simp add: distinct_map inj_on_def)
  ultimately show ?thesis by (auto simp: key_names_def bucket_names_def)
qed

lemma model_names_distinct:
  assumes "distinct (md_dates data)" "distinct (md_keys data)" "\<And>key. distinct (dict_get_or (bk_ids buckets) key [])"
  shows "distinct (model_names data buckets)"
proof -
  have "distinct (concat (map order_names [0..<length (md_regular data)]))"
    by (rule distinct_tagged [where tag = var_offer]) (auto simp: order_names_def)
  moreover have "distinct (concat (map (key_names buckets (md_dates data)) (md_keys data)))"
    by (rule distinct_tagged [where tag = var_key])
      (use assms in \<open>auto simp: key_names_distinct, auto simp: key_names_def bucket_names_def\<close>)
  moreover have "set (order_names n) \<inter> set (key_names buckets (md_dates data) key) = {}" for n key
    by (auto simp: order_names_def key_names_def bucket_names_def)
  ultimately show ?thesis unfolding model_names_def distinct_append set_concat set_map by blast
qed

lemma order_vars_names: "map vs_var (order_vars profile uppers) = concat (map order_names [0..<length uppers])"
proof -
  have "map vs_var (concat (map (\<lambda>(n, (item, upper)). let o' = eo_offer item; cash = 1 + sp_cash_penalty profile in
      [milp_var (Packs n) (of_pack_size o' * of_unit_price o' * cash) (Some (fint upper)) True,
       milp_var (Ordered n) (of_delivery_cost o' * cash) (Some 1) True]) (enumerate k us))) =
     concat (map order_names [k..<k + length us])" for k and us :: "(eligible_offer \<times> int) list"
    by (induction us arbitrary: k) (auto simp: Let_def milp_var_def order_names_def upt_rec)
  from this [of 0 uppers] show ?thesis by (simp add: order_vars_def)
qed

lemma key_vars_names:
  assumes "key_vars request data profile buckets key = Inr vars"
  shows "map vs_var vars = key_names buckets (md_dates data) key"
proof -
  have "map vs_var (bucket_vars request data key h b d) = [Stock key b d, Served key b d, Expired key b d]" for h b d
    by (simp add: bucket_vars_def milp_var_def Let_def)
  with assms show ?thesis
    by (auto simp: key_vars_def key_names_def bucket_names_def [abs_def] map_concat comp_def milp_var_def Let_def elim!: ebind_InrE)
qed

lemma det_model_ofE:
  assumes "det_model_of request profile data = Inr m"
  obtains kvars orows srows where
    "emap (\<lambda>item. ebind (offer_upper_packs item request (maximum_demand_of data)) (\<lambda>u. Inr (item, u))) (md_regular data) = Inr (dm_uppers m)"
    "emap (key_vars request data profile (expiry_buckets data)) (md_keys data) = Inr kvars"
    "order_rows (dm_uppers m) = Inr orows" "emap (supplier_rows data) (rq_constraints request) = Inr srows"
    "dm_buckets m = expiry_buckets data" "dm_daily m = expected_daily_demand data"
    "dm_vars m = order_vars profile (dm_uppers m) @ concat kvars"
    "set orows \<subseteq> set (dm_rows m)" 
    "\<And>key. key \<in> set (md_keys data) \<Longrightarrow> set (key_rows data (expiry_buckets data) (expected_daily_demand data) key) \<subseteq> set (dm_rows m)"
  using assms unfolding det_model_of_def Let_def
  by (elim ebind_InrE) (auto intro!: that)

lemma det_model_names:
  assumes "det_model_of request profile data = Inr m"
  shows "map vs_var (dm_vars m) = model_names data (expiry_buckets data) \<and> map fst (dm_uppers m) = md_regular data"
  using assms
proof (rule det_model_ofE)
  fix kvars orows srows
  assume u: "emap (\<lambda>item. ebind (offer_upper_packs item request (maximum_demand_of data)) (\<lambda>u. Inr (item, u))) (md_regular data) = Inr (dm_uppers m)"
    and k: "emap (key_vars request data profile (expiry_buckets data)) (md_keys data) = Inr kvars"
    and v: "dm_vars m = order_vars profile (dm_uppers m) @ concat kvars"
  have "map (map vs_var) kvars = map (key_names (expiry_buckets data) (md_dates data)) (md_keys data)"
    using k unfolding emap_Inr_iff by (induction rule: list_all2_induct) (auto dest: key_vars_names)
  then have "map vs_var (concat kvars) = concat (map (key_names (expiry_buckets data) (md_dates data)) (md_keys data))"
    by (simp add: map_concat)
  moreover have "map fst (dm_uppers m) = md_regular data"
    using u unfolding emap_Inr_iff by (induction rule: list_all2_induct) (auto elim: ebind_InrE)
  moreover have "length (dm_uppers m) = length (md_regular data)" using u by (rule emap_length)
  ultimately show ?thesis by (simp add: v order_vars_names model_names_def)
qed

lemma det_model_distinct:
  assumes "build_problem_data np request = Inr data" "det_model_of request profile data = Inr m"
  shows "distinct (map vs_var (dm_vars m))"
proof -
  note F = problem_data_facts [OF assms(1)]
  have "md_dates data = [rq_decision_date request..rq_end_date request]" using assms(1) by (rule build_problem_dataE)
  then have "distinct (md_dates data)" by simp
  moreover have "distinct (dict_get_or (bk_ids (expiry_buckets data)) key [])" for key
    by (rule bucket_ids_distinct) (use F in blast)
  ultimately show ?thesis using det_model_names [OF assms(2)] F by (simp add: model_names_distinct)
qed

section \<open>Balances of a feasible point\<close>

abbreviation level :: "det_model \<Rightarrow> f64 list \<Rightarrow> mvar \<Rightarrow> rat" where
  "level m x v \<equiv> rat_of (value_of (dm_vars m) x v)"

text \<open>What the planned orders of a point bring into a bucket on a day.\<close>

definition planned_receipts :: "problem_data \<Rightarrow> det_model \<Rightarrow> f64 list \<Rightarrow> inv_key \<Rightarrow> date option \<Rightarrow> date \<Rightarrow> rat" where
  "planned_receipts data m x key bucket day =
     sum_list (map (\<lambda>(n, item). rat_of (eo_pack_quantity item) * level m x (Packs n))
       (filter (\<lambda>(n, item). eo_key item = key \<and> eo_arrival item = day \<and> eo_expiry item = bucket)
         (enumerate 0 (md_regular data))))"

definition opening_level :: "problem_data \<Rightarrow> det_model \<Rightarrow> f64 list \<Rightarrow> inv_key \<Rightarrow> date option \<Rightarrow> date option \<times> date \<Rightarrow> rat" where
  "opening_level data m x key bucket = (\<lambda>(previous, day).
     (case previous of None \<Rightarrow> 0 | Some d \<Rightarrow> level m x (Stock key bucket d)) +
     rat_of (flow_constant data (dm_buckets m) key bucket previous day))"

abbreviation bucket_ids :: "det_model \<Rightarrow> inv_key \<Rightarrow> date option list" where
  "bucket_ids m key \<equiv> dict_get_or (bk_ids (dm_buckets m)) key []"

text \<open>The balances of one bucket and day, and of one demand.\<close>

definition bucket_balances ::
    "rat \<Rightarrow> optimization_request \<Rightarrow> problem_data \<Rightarrow> det_model \<Rightarrow> f64 list \<Rightarrow> inv_key \<Rightarrow> date option \<Rightarrow> date option \<times> date \<Rightarrow> bool" where
  "bucket_balances tol request data m x key bucket = (\<lambda>(previous, day).
     \<bar>level m x (Stock key bucket day) + level m x (Served key bucket day) + level m x (Expired key bucket day) -
      (opening_level data m x key bucket (previous, day) + planned_receipts data m x key bucket day)\<bar> \<le> tol \<and>
     (if bucket_usable request bucket day then level m x (Expired key bucket day) \<le> tol
      else level m x (Stock key bucket day) \<le> tol \<and> level m x (Served key bucket day) \<le> tol))"

definition demand_split :: "rat \<Rightarrow> problem_data \<Rightarrow> det_model \<Rightarrow> f64 list \<Rightarrow> inv_key \<Rightarrow> date \<Rightarrow> bool" where
  "demand_split tol data m x key day \<longleftrightarrow>
     \<bar>level m x (Short key day) + sum_list (map (\<lambda>b. level m x (Served key b day)) (bucket_ids m key)) -
      rat_of (dict_get_or (expected_daily_demand data) (key, day) 0)\<bar> \<le> tol"

lemma names_mem:
  assumes "key \<in> set (md_keys data)" "day \<in> set (md_dates data)"
  shows "b \<in> set (dict_get_or (bk_ids buckets) key []) \<Longrightarrow>
      {Stock key b day, Served key b day, Expired key b day} \<subseteq> set (model_names data buckets)"
    and "Short key day \<in> set (model_names data buckets)"
    and "n < length (md_regular data) \<Longrightarrow> Packs n \<in> set (model_names data buckets) \<and> Ordered n \<in> set (model_names data buckets)"
  using assms by (auto simp: model_names_def key_names_def bucket_names_def order_names_def)

lemma previous_days_nth:
  assumes "(previous, day) \<in> set (previous_days days)"
  obtains i where "i < length days" "day = days ! i" "previous = (if i = 0 then None else Some (days ! (i - 1)))"
proof -
  from assms obtain i where i: "i < length days" "day = days ! i" "(None # map Some days) ! i = previous"
    by (auto simp: previous_days_def in_set_zip)
  moreover from this have "previous = (if i = 0 then None else Some (days ! (i - 1)))" by (cases i) auto
  ultimately show ?thesis using that by blast
qed

lemma previous_days_mem:
  assumes "(previous, day) \<in> set (previous_days days)"
  shows "day \<in> set days \<and> (case previous of None \<Rightarrow> True | Some d \<Rightarrow> d \<in> set days)"
  using assms by (rule previous_days_nth) auto

lemma previous_days_neq:
  assumes "distinct days" "(Some d, day) \<in> set (previous_days days)"
  shows "d \<noteq> day"
  using assms(2) by (rule previous_days_nth) (use assms(1) in \<open>auto simp: nth_eq_iff_index_eq split: if_splits\<close>)

lemma distinct_filter_packs:
  "distinct (map fst (map (\<lambda>(n, item). (Packs n, g item)) (filter P (enumerate k xs))))"
proof -
  have "map fst (map (\<lambda>(n, item). (Packs n, g item)) ys) = map Packs (map fst ys)" for ys
    by (simp add: comp_def case_prod_beta)
  moreover have "distinct (map fst (filter P (enumerate k xs)))"
    by (rule distinct_map_filter) (simp add: distinct_enumerate)
  ultimately show ?thesis by (simp add: distinct_map inj_on_def del: map_map)
qed

lemma row_value_simps:
  "row_value vars x [] = 0"
  "row_value vars x ((v, c) # cs) = rat_of c * rat_of (value_of vars x v) + row_value vars x cs"
  "row_value vars x (as @ bs) = row_value vars x as + row_value vars x bs"
  by (simp_all add: row_value_def)

lemma flow_row_value:
  assumes "flow_row data (dm_buckets m) key b (previous, day) = (a, low, high)"
  shows "low = Some high" "high = flow_constant data (dm_buckets m) key b previous day"
    "row_value (dm_vars m) x a = level m x (Stock key b day) + level m x (Served key b day) + level m x (Expired key b day) -
      ((case previous of None \<Rightarrow> 0 | Some d \<Rightarrow> level m x (Stock key b d)) + planned_receipts data m x key b day)"
proof -
  have r: "row_value (dm_vars m) x (map (\<lambda>(n, item). (Packs n, - eo_pack_quantity item)) ys) =
    - sum_list (map (\<lambda>(n, item). rat_of (eo_pack_quantity item) * level m x (Packs n)) ys)" for ys
    by (induction ys) (auto simp: row_value_def uminus_f64.rep_eq)
  show "low = Some high" "high = flow_constant data (dm_buckets m) key b previous day"
    using assms by (auto simp: flow_row_def Let_def)
  show "row_value (dm_vars m) x a = level m x (Stock key b day) + level m x (Served key b day) + level m x (Expired key b day) -
      ((case previous of None \<Rightarrow> 0 | Some d \<Rightarrow> level m x (Stock key b d)) + planned_receipts data m x key b day)"
    using assms by (auto simp: flow_row_def Let_def row_value_simps r planned_receipts_def one_f64.rep_eq uminus_f64.rep_eq split: option.split)
qed

lemma det_facts:
  assumes "build_problem_data np request = Inr data" "det_model_of request profile data = Inr m"
  shows "set (map vs_var (dm_vars m)) = set (model_names data (dm_buckets m))" "distinct (md_dates data)"
    "dm_daily m = expected_daily_demand data" "\<And>key. distinct (bucket_ids m key)"
    "\<And>key. key \<in> set (md_keys data) \<Longrightarrow> set (key_rows data (dm_buckets m) (dm_daily m) key) \<subseteq> set (dm_rows m)"
proof -
  have B: "dm_buckets m = expiry_buckets data" and D: "dm_daily m = expected_daily_demand data"
    and R: "\<And>key. key \<in> set (md_keys data) \<Longrightarrow>
      set (key_rows data (expiry_buckets data) (expected_daily_demand data) key) \<subseteq> set (dm_rows m)"
    by (rule det_model_ofE [OF assms(2)]; blast)+
  show "set (map vs_var (dm_vars m)) = set (model_names data (dm_buckets m))"
    using det_model_names [OF assms(2)] unfolding B by simp
  show "distinct (md_dates data)" by (rule build_problem_dataE [OF assms(1)]) simp
  show "dm_daily m = expected_daily_demand data" by (rule D)
  show "distinct (bucket_ids m key)" for key
    unfolding B by (rule bucket_ids_distinct) (use problem_data_facts [OF assms(1)] in blast)
  show "set (key_rows data (dm_buckets m) (dm_daily m) key) \<subseteq> set (dm_rows m)" if "key \<in> set (md_keys data)" for key
    unfolding B D by (rule R [OF that])
qed

lemma feasible_flow:
  assumes data: "build_problem_data np request = Inr data" and m: "det_model_of request profile data = Inr m"
    and x: "milp_feasible tol (milp_arrays (dm_vars m) (dm_rows m)) x"
    and key: "key \<in> set (md_keys data)" and b: "b \<in> set (bucket_ids m key)" and d: "(previous, day) \<in> set (previous_days (md_dates data))"
  shows "\<bar>level m x (Stock key b day) + level m x (Served key b day) + level m x (Expired key b day) -
      (opening_level data m x key b (previous, day) + planned_receipts data m x key b day)\<bar> \<le> tol"
proof -
  note F = det_facts [OF data m]
  have mem: "day \<in> set (md_dates data)" "case previous of None \<Rightarrow> True | Some d \<Rightarrow> d \<in> set (md_dates data)"
    using previous_days_mem [OF d] by auto
  obtain a low high where r: "flow_row data (dm_buckets m) key b (previous, day) = (a, low, high)" by (metis prod_cases3)
  have "flow_row data (dm_buckets m) key b (previous, day) \<in> set (key_rows data (dm_buckets m) (dm_daily m) key)"
    using b d by (auto simp: key_rows_def)
  with F(5) [OF key] have rows: "(a, low, high) \<in> set (dm_rows m)" by (auto simp: r)
  have a: "a = [(Stock key b day, 1), (Served key b day, 1), (Expired key b day, 1)] @
      (case previous of None \<Rightarrow> [] | Some d \<Rightarrow> [(Stock key b d, - 1)]) @
      map (\<lambda>(n, item). (Packs n, - eo_pack_quantity item))
        (filter (\<lambda>(n, item). eo_key item = key \<and> eo_arrival item = day \<and> eo_expiry item = b) (enumerate 0 (md_regular data)))"
    using r by (simp add: flow_row_def Let_def)
  have "previous \<noteq> Some day" using previous_days_neq [OF F(2), where d = day and day = day] d by auto
  then have da: "distinct (dict_keys a)" using distinct_filter_packs by (auto simp: a split: option.split)
  have sa: "set (dict_keys a) \<subseteq> set (map vs_var (dm_vars m))"
    unfolding F(1) using mem names_mem [OF key] b
    by (auto simp: a in_set_enumerate_eq split: option.splits)
  show ?thesis
    using milp_arrays_feasible(3) [OF x det_model_distinct [OF data m] rows da sa] flow_row_value(1,2) [OF r] flow_row_value(3) [OF r, of x]
    by (auto simp: opening_level_def)
qed

lemma feasible_demand:
  assumes data: "build_problem_data np request = Inr data" and m: "det_model_of request profile data = Inr m"
    and x: "milp_feasible tol (milp_arrays (dm_vars m) (dm_rows m)) x"
    and key: "key \<in> set (md_keys data)" and d: "day \<in> set (md_dates data)"
  shows "demand_split tol data m x key day"
proof -
  note F = det_facts [OF data m]
  let ?a = "(Short key day, 1) # map (\<lambda>b. (Served key b day, 1 :: f64)) (bucket_ids m key)"
  let ?d = "dict_get_or (expected_daily_demand data) (key, day) 0"
  have "demand_row (dm_buckets m) (dm_daily m) key day \<in> set (key_rows data (dm_buckets m) (dm_daily m) key)"
    using d by (auto simp: key_rows_def)
  with F(5) [OF key] have rows: "(?a, Some ?d, ?d) \<in> set (dm_rows m)" by (auto simp: demand_row_def F(3) Let_def)
  have da: "distinct (dict_keys ?a)" using F(4) [of key] by (auto simp: comp_def distinct_map inj_on_def)
  have sa: "set (dict_keys ?a) \<subseteq> set (map vs_var (dm_vars m))"
    unfolding F(1) using names_mem [OF key d] by auto
  have "row_value (dm_vars m) x ?a = level m x (Short key day) + sum_list (map (\<lambda>b. level m x (Served key b day)) (bucket_ids m key))"
    by (simp add: row_value_def comp_def one_f64.rep_eq)
  then show ?thesis
    using milp_arrays_feasible(3) [OF x det_model_distinct [OF data m] rows da sa] by (auto simp: demand_split_def)
qed

lemma subset_nested:
  "b \<in> set bs \<Longrightarrow> d \<in> set ds \<Longrightarrow> set (f b d) \<subseteq> set (concat (map (\<lambda>b. concat (map (f b) ds)) bs) @ r)"
  by auto

lemma feasible_bucket_bounds:
  assumes data: "build_problem_data np request = Inr data" and m: "det_model_of request profile data = Inr m"
    and x: "milp_feasible tol (milp_arrays (dm_vars m) (dm_rows m)) x"
    and key: "key \<in> set (md_keys data)" and b: "b \<in> set (bucket_ids m key)" and d: "day \<in> set (md_dates data)"
  shows "if bucket_usable request b day then level m x (Expired key b day) \<le> tol
      else level m x (Stock key b day) \<le> tol \<and> level m x (Served key b day) \<le> tol"
  using m
proof (rule det_model_ofE)
  fix kvars orows srows
  assume k: "emap (key_vars request data profile (expiry_buckets data)) (md_keys data) = Inr kvars"
    and B: "dm_buckets m = expiry_buckets data" and v: "dm_vars m = order_vars profile (dm_uppers m) @ concat kvars"
  from emap_of_set [OF k key] obtain kv where kv: "kv \<in> set kvars" "key_vars request data profile (expiry_buckets data) key = Inr kv" by blast
  then obtain h r where "kv = concat (map (\<lambda>b. concat (map (bucket_vars request data key h b) (md_dates data)))
      (dict_get_or (bk_ids (expiry_buckets data)) key [])) @ r"
    by (auto simp: key_vars_def Let_def elim!: ebind_InrE)
  then have "set (bucket_vars request data key h b day) \<subseteq> set kv"
    using subset_nested [OF b [unfolded B] d] by metis
  with kv v have sub: "w \<in> set (dm_vars m)" if "w \<in> set (bucket_vars request data key h b day)" for w using that by auto
  note E = milp_arrays_feasible(2) [OF x det_model_distinct [OF data m] sub]
  let ?u = "bucket_usable request b day"
  have e: "milp_var (Expired key b day) 0 (if b \<noteq> None \<and> \<not> ?u then None else Some 0) False \<in> set (bucket_vars request data key h b day)"
    and s: "milp_var (Served key b day) 0 (if ?u then None else Some 0) False \<in> set (bucket_vars request data key h b day)"
    and t: "\<not> ?u \<Longrightarrow> milp_var (Stock key b day) h (Some 0) False \<in> set (bucket_vars request data key h b day)"
    by (simp_all add: bucket_vars_def Let_def)
  show ?thesis
  proof (cases ?u)
    case True
    with E [OF e] show ?thesis by (simp add: milp_var_def entry_feasible_def zero_f64.rep_eq)
  next
    case False
    with E [OF s] E [OF t] show ?thesis by (simp add: milp_var_def entry_feasible_def zero_f64.rep_eq)
  qed
qed

text \<open>C9: the model accounts for its stock. At every point that is feasible up to a tolerance, each expiry
  bucket of each day splits what it held and received (stock, open deliveries, planned packs) into
  remaining stock, served demand and expiry loss; nothing is kept or served from an expired bucket
  and nothing expires early; and demand is exactly served plus short.\<close>

theorem model_balances_stock:
  assumes "build_problem_data np request = Inr data" "det_model_of request profile data = Inr m"
    and "milp_feasible tol (milp_arrays (dm_vars m) (dm_rows m)) x"
  shows "\<forall>key \<in> set (md_keys data).
    (\<forall>b \<in> set (bucket_ids m key). \<forall>pd \<in> set (previous_days (md_dates data)). bucket_balances tol request data m x key b pd) \<and>
    (\<forall>day \<in> set (md_dates data). demand_split tol data m x key day)"
proof (intro ballI conjI)
  fix key b pd assume key: "key \<in> set (md_keys data)" and b: "b \<in> set (bucket_ids m key)" and pd: "pd \<in> set (previous_days (md_dates data))"
  obtain p d where pd': "pd = (p, d)" by force
  with pd previous_days_mem have "d \<in> set (md_dates data)" by blast
  with feasible_flow [OF assms key b, of p d] feasible_bucket_bounds [OF assms key b, of d] pd
  show "bucket_balances tol request data m x key b pd" by (simp add: pd' bucket_balances_def)
qed (rule feasible_demand [OF assms])

section \<open>Ordered packs stay within their bounds\<close>








section \<open>The stochastic model is one deterministic block per scenario\<close>

definition buckets_listed :: "bucket_state \<Rightarrow> bool" where
  "buckets_listed st \<longleftrightarrow>
     (\<forall>key e. Some e \<in> set (dict_get_or (bk_ids st) key []) \<longleftrightarrow> dict_get (bk_initial st) (key, Some e) \<noteq> None)"

lemma add_bucket_listed: "buckets_listed st \<Longrightarrow> buckets_listed (add_bucket key e st)"
  by (auto simp: buckets_listed_def add_bucket_def dict_simps simp del: split_paired_All)

lemma saa_add_bucket_eq: "buckets_listed st \<Longrightarrow> saa_add_bucket key (Some e) st = add_bucket key e st"
  by (simp add: buckets_listed_def saa_add_bucket_def add_bucket_def del: split_paired_All)

lemma fold_eq_inv:
  assumes "P st" "\<And>x st. P st \<Longrightarrow> f x st = g x st" "\<And>x st. P st \<Longrightarrow> P (g x st)"
  shows "fold f xs st = fold g xs st"
  using assms(1) by (induction xs arbitrary: st) (simp_all add: assms)

text \<open>The stock step of the stochastic model, and the one of the deterministic model.\<close>

definition stock_bucket :: "initial_bucket \<Rightarrow> bucket_state \<Rightarrow> bucket_state" where
  "stock_bucket b st = \<lparr>bk_ids = dict_append (ib_key b) (Some (ib_expiry b)) (bk_ids st),
     bk_initial = dict_set (ib_key b, Some (ib_expiry b)) (ib_quantity b) (bk_initial st)\<rparr>"

lemma stock_bucket_listed: "buckets_listed st \<Longrightarrow> buckets_listed (stock_bucket b st)"
  by (auto simp: buckets_listed_def stock_bucket_def dict_simps simp del: split_paired_All)

lemma saa_stock_eq:
  assumes "Some (ib_expiry b) \<notin> set (dict_get_or (bk_ids st) (ib_key b) [])"
  shows "(let st' = saa_add_bucket (ib_key b) (Some (ib_expiry b)) st in
      st'\<lparr>bk_initial := dict_set (ib_key b, Some (ib_expiry b)) (ib_quantity b) (bk_initial st')\<rparr>) = stock_bucket b st"
  using assms by (simp add: saa_add_bucket_def stock_bucket_def Let_def AList.update_last)

lemma saa_stock_fold:
  assumes "distinct (map (\<lambda>b. (ib_key b, ib_expiry b)) bs)"
    "\<forall>b \<in> set bs. Some (ib_expiry b) \<notin> set (dict_get_or (bk_ids st) (ib_key b) [])"
  shows "fold (\<lambda>b st. let st' = saa_add_bucket (ib_key b) (Some (ib_expiry b)) st in
      st'\<lparr>bk_initial := dict_set (ib_key b, Some (ib_expiry b)) (ib_quantity b) (bk_initial st')\<rparr>) bs st = fold stock_bucket bs st"
  using assms
proof (induction bs arbitrary: st)
  case (Cons b bs)
  have "\<forall>c \<in> set bs. Some (ib_expiry c) \<notin> set (dict_get_or (bk_ids (stock_bucket b st)) (ib_key c) [])"
    using Cons.prems by (auto simp: stock_bucket_def dict_get_or_append image_iff)
  with Cons saa_stock_eq [of b st] show ?case by simp
qed simp

lemma same_buckets:
  assumes "distinct (map (\<lambda>b. (ib_key b, ib_expiry b)) (md_initial_buckets data))"
  shows "saa_buckets data = expiry_buckets data"
proof -
  let ?start = "\<lparr>bk_ids = map (\<lambda>key. (key, [None])) (md_keys data),
    bk_initial = map (\<lambda>key. ((key, None :: date option), dict_get_or (md_initial data) key 0 -
      py_sum (map ib_quantity (filter (\<lambda>b. ib_key b = key) (md_initial_buckets data))))) (md_keys data)\<rparr>"
  have g: "dict_get_or (map (\<lambda>key. (key, [None :: date option])) ks) key [] = (if key \<in> set ks then [None] else [])" for ks key
    by (induction ks) (auto simp: dict_get_or_def)
  have h: "dict_get (map (\<lambda>key. ((key, None :: date option), f key)) ks) (key, Some e) = None" for ks f key e
    by (simp add: map_of_eq_None_iff image_iff)
  have s: "buckets_listed ?start" by (simp add: buckets_listed_def g h)
  have init: "initial_buckets data = fold stock_bucket (md_initial_buckets data) ?start"
    by (simp add: initial_buckets_def stock_bucket_def [abs_def])
  have sb: "buckets_listed (initial_buckets data)"
    unfolding init by (rule fold_keeps [where P = buckets_listed]) (rule stock_bucket_listed, assumption, rule s)
  have i: "fold (\<lambda>b st. let st' = saa_add_bucket (ib_key b) (Some (ib_expiry b)) st in
      st'\<lparr>bk_initial := dict_set (ib_key b, Some (ib_expiry b)) (ib_quantity b) (bk_initial st')\<rparr>) (md_initial_buckets data) ?start =
    initial_buckets data"
    unfolding init by (rule saa_stock_fold [OF assms]) (simp add: g)
  have o: "fold (\<lambda>b. saa_add_bucket (xb_key b) (Some (xb_expiry b))) (md_inbound_buckets data) (initial_buckets data) =
    fold (\<lambda>b. add_bucket (xb_key b) (xb_expiry b)) (md_inbound_buckets data) (initial_buckets data)"
    by (rule fold_eq_inv [where P = buckets_listed]) (simp_all add: sb saa_add_bucket_eq add_bucket_listed)
  show ?thesis unfolding saa_buckets_def Let_def i [unfolded Let_def] o expiry_buckets_def by (rule refl)
qed

text \<open>The variables of a deterministic row, in a scenario.\<close>

fun in_scenario :: "string \<Rightarrow> mvar \<Rightarrow> svar" where
  "in_scenario s (Packs n) = SPacks n"
| "in_scenario s (Ordered n) = SOrdered n"
| "in_scenario s (Stock k b d) = SStock s k b d"
| "in_scenario s (Served k b d) = SServed s k b d"
| "in_scenario s (Expired k b d) = SExpired s k b d"
| "in_scenario s (Short k d) = SShort s k d"

definition row_in :: "string \<Rightarrow> milp_row \<Rightarrow> svar row" where
  "row_in s = (\<lambda>(a, low, high). (map (\<lambda>(v, c). (in_scenario s v, c)) a, low, high))"

lemma row_in_flow: "saa_flow_row data buckets s key b pd = row_in s (flow_row data buckets key b pd)"
  by (cases pd) (auto simp: saa_flow_row_def flow_row_def row_in_def Let_def split: option.split)

lemma row_in_capacity: "saa_capacity_row data buckets s key c pd = row_in s (capacity_row data buckets key c pd)"
  by (cases pd) (auto simp: saa_capacity_row_def capacity_row_def row_in_def Let_def f64_add_comm split: option.split)

lemma row_in_demand:
  "dict_get_or daily (key, day) 0 = demand_of data s key day \<Longrightarrow>
   saa_demand_row data buckets s key day = row_in s (demand_row buckets daily key day)"
  by (simp add: saa_demand_row_def demand_row_def row_in_def Let_def)

text \<open>The demand of one scenario as the daily demand of a deterministic model.\<close>

definition scenario_daily :: "problem_data \<Rightarrow> string \<Rightarrow> (inv_key \<times> date, f64) dict" where
  "scenario_daily data s = concat (map (\<lambda>key. map (\<lambda>day. ((key, day), demand_of data s key day)) (md_dates data)) (md_keys data))"

lemma scenario_daily_get:
  assumes "key \<in> set (md_keys data)" "day \<in> set (md_dates data)"
  shows "dict_get_or (scenario_daily data s) (key, day) 0 = demand_of data s key day"
proof -
  have "((key, day), demand_of data s key day) \<in> set (scenario_daily data s)" using assms by (auto simp: scenario_daily_def)
  then have "dict_get (scenario_daily data s) (key, day) \<noteq> None" unfolding map_of_eq_None_iff by (metis fst_conv image_eqI)
  then obtain q where q: "dict_get (scenario_daily data s) (key, day) = Some q" by blast
  then have "((key, day), q) \<in> set (scenario_daily data s)" by (rule map_of_SomeD)
  then have "q = demand_of data s key day" by (auto simp: scenario_daily_def)
  with q show ?thesis by (simp add: dict_get_or_def)
qed

text \<open>C29: the two models agree scenario by scenario. The stochastic model has the buckets of the deterministic
  one, and its constraints for a scenario and key (stock flow, capacity, demand) are the deterministic
  constraints for that scenario's demand with its variables renamed: only the orders are shared.\<close>

theorem stochastic_blocks_deterministic:
  assumes "build_problem_data np request = Inr data" "key \<in> set (md_keys data)"
  shows "saa_buckets data = expiry_buckets data \<and>
    saa_key_rows data (saa_buckets data) s key =
      map (row_in s) (key_rows data (expiry_buckets data) (scenario_daily data s) key)"
proof -
  have b: "saa_buckets data = expiry_buckets data" by (rule same_buckets) (use problem_data_facts [OF assms(1)] in blast)
  have "map (saa_demand_row data (expiry_buckets data) s key) (md_dates data) =
    map (\<lambda>day. row_in s (demand_row (expiry_buckets data) (scenario_daily data s) key day)) (md_dates data)"
    by (rule map_cong) (simp_all add: row_in_demand scenario_daily_get assms(2))
  then show ?thesis
    by (simp add: b saa_key_rows_def key_rows_def map_concat comp_def row_in_flow [abs_def] row_in_capacity [abs_def] split: option.split)
qed

end
