(* ===== verification/Critic_Facts.thy ===== *)
theory Critic_Facts
  imports Plan_Facts
begin

text \<open>
  What the critic accepts, what the optimizer recommends and what the receding horizon executes.
  The controller is a client of any optimizer that recommends accepted plans only (locale
  \<open>planner\<close>), which the modelled optimizer is.
\<close>

section \<open>What the critic accepts\<close>

definition critic_tolerance :: f64 where
  "critic_tolerance = fl (1 / 10 ^ 8)"

text \<open>No order violates its offer, the budget or a supplier's cap.\<close>

definition order_groups :: "procurement_plan \<Rightarrow> (string \<times> decision_line list) list" where
  "order_groups plan = (''FIRST_STAGE'', pp_orders plan) # map (\<lambda>(s, lines). (s, pp_orders plan @ lines)) (pp_recourse plan)"

definition orders_allowed :: "procurement_plan \<Rightarrow> optimization_request \<Rightarrow> bool" where
  "orders_allowed plan request \<longleftrightarrow>
     (\<forall>l \<in> set (plan_lines plan). line_violations critic_tolerance (index_by of_offer_id (rq_offers request)) l = Inr []) \<and>
     (case rq_budget request of None \<Rightarrow> True | Some b \<Rightarrow> plan_cost (pp_orders plan) \<le> b + critic_tolerance) \<and>
     (\<forall>c \<in> set (rq_constraints request). \<forall>g \<in> set (order_groups plan). group_violations critic_tolerance c g = Inr [])"

text \<open>The exact simulation balances, fits the capacities and reaches every service requirement.\<close>

definition simulation_allowed ::
    "procurement_plan \<Rightarrow> optimization_request \<Rightarrow> strategy_profile \<Rightarrow> sim_package \<Rightarrow> bool" where
  "simulation_allowed plan request profile p \<longleftrightarrow>
     accounting_holds p \<and> capacity_holds p \<and> floor_holds profile p \<and> expected_fill_holds profile p \<and>
     (\<exists>ws. probability_service profile p = Inr (True, ws)) \<and> \<not> fst (snd (risk_verdict request profile p)) \<and>
     model_mismatch plan p profile = Inr False"

lemma flag_if_Nil [simp]: "flag_if b c = [] \<longleftrightarrow> \<not> b"
  by (simp add: flag_if_def)

lemma emap_concat_Nil:
  assumes "emap f xs = Inr ys"
  shows "concat ys = [] \<longleftrightarrow> (\<forall>x \<in> set xs. f x = Inr [])"
  using assms by (induction xs arbitrary: ys) (auto elim!: ebind_InrE)

lemma emap_concat2_Nil:
  assumes "emap (\<lambda>c. emap (f c) gs) cs = Inr ys"
  shows "concat (concat ys) = [] \<longleftrightarrow> (\<forall>c \<in> set cs. \<forall>g \<in> set gs. f c g = Inr [])"
  using assms
proof (induction cs arbitrary: ys)
  case (Cons c cs)
  then obtain z zs where z: "emap (f c) gs = Inr z" "emap (\<lambda>c. emap (f c) gs) cs = Inr zs" "ys = z # zs"
    by (auto elim!: ebind_InrE)
  with Cons.IH [of zs] emap_concat_Nil [OF z(1)] show ?case by auto
qed simp

lemma validate_plan_Nil:
  assumes "validate_plan_constraints plan (rq_offers request) (rq_constraints request) (rq_budget request) critic_tolerance = Inr (vs, checks)"
  shows "vs = [] \<longleftrightarrow> orders_allowed plan request" "checks = constraint_checks vs"
proof -
  let ?line = "line_violations critic_tolerance (index_by of_offer_id (rq_offers request))"
  from assms obtain xs ys where x: "emap ?line (plan_lines plan) = Inr xs"
    and y: "emap (\<lambda>c. emap (group_violations critic_tolerance c) (order_groups plan)) (rq_constraints request) = Inr ys"
    and vs: "vs = sorted_set (concat xs @
       flag_if (case rq_budget request of None \<Rightarrow> False | Some b \<Rightarrow> b + critic_tolerance < plan_cost (pp_orders plan)) ''BUDGET'' @
       concat (concat ys))" and c: "checks = constraint_checks vs"
    by (auto simp: validate_plan_constraints_def order_groups_def Let_def elim!: ebind_InrE)
  show "checks = constraint_checks vs" by (rule c)
  show "vs = [] \<longleftrightarrow> orders_allowed plan request"
    unfolding vs sorted_set_Nil_iff append_is_Nil_conv emap_concat_Nil [OF x] emap_concat2_Nil [OF y] orders_allowed_def
    by (auto simp: not_less split: option.splits)
qed

lemma judge_simulation_Nil:
  assumes "judge_simulation plan request profile p = Inr (vs, ws, checks)"
  shows "vs = [] \<longleftrightarrow> simulation_allowed plan request profile p"
    "vs = [] \<Longrightarrow> \<forall>(c, v) \<in> set checks. v \<or> c \<in> {''capacity'', ''risk''}"
    "dict_keys checks = [''m4_accounting'', ''capacity'', ''exact_service_floor'', ''service_level'', ''risk'', ''candidate_model_match'']"
  using assms
  by (auto simp: judge_simulation_def simulation_allowed_def Let_def split: prod.splits elim!: ebind_InrE)

lemma set_dict_set: "set (dict_set k v d) \<subseteq> insert (k, v) (set d)"
  by (induction d) auto

lemma set_dict_merge: "set (dict_merge d e) \<subseteq> set d \<union> set e"
proof (induction e arbitrary: d)
  case (Cons kv e)
  obtain k v where "kv = (k, v)" by force
  then show ?case using Cons [of "dict_set k v d"] set_dict_set [of k v d] by (auto simp: dict_merge_def)
qed (simp add: dict_merge_def)

lemma critique_verdict:
  assumes "critique_procurement_plan plan request profile simulation stress err = Inr r"
  shows "cr_passed r \<longleftrightarrow>
     pp_solver_status plan = ''OPTIMAL'' \<and> rq_unknown_constraints request = [] \<and>
     (po_unknown_expiry (rq_policy request) = RejectUnknown \<longrightarrow> (\<forall>l \<in> set (plan_lines plan). pl_shelf_life_days l \<noteq> None)) \<and>
     orders_allowed plan request \<and>
     (\<exists>p. simulation = Some p \<and> simulation_allowed plan request profile p) \<and>
     (\<forall>s. stress = Some s \<longrightarrow> accounting_holds s)"
    and "cr_passed r \<Longrightarrow> (c, v) \<in> set (cr_checks r) \<Longrightarrow> v \<or> c \<in> {''capacity'', ''risk''}"
    and "cr_passed r \<longleftrightarrow> cr_violations r = []"
proof -
  let ?own = "own_violations plan request"
  from assms obtain vs checks svs sws schecks where
    v: "validate_plan_constraints plan (rq_offers request) (rq_constraints request) (rq_budget request) critic_tolerance = Inr (vs, checks)"
    and s: "(case simulation of None \<Rightarrow> Inr ([''M4_SIMULATION_FAILED''],
        case err of None \<Rightarrow> [] | Some e \<Rightarrow> if e = [] then [] else [e], failed_checks)
      | Some p \<Rightarrow> judge_simulation plan request profile p) = Inr (svs, sws, schecks)"
    and r: "cr_violations r = sorted_set (vs @ ?own @ svs @ fst (judge_stress stress))"
      "cr_passed r \<longleftrightarrow> cr_violations r = []" "cr_checks r = dict_merge checks schecks"
    unfolding critique_procurement_plan_def critic_tolerance_def [symmetric]
    by (auto simp: Let_def split: prod.splits elim!: ebind_InrE)
  have svs: "svs = [] \<longleftrightarrow> (\<exists>p. simulation = Some p \<and> simulation_allowed plan request profile p)"
  proof (cases simulation)
    case (Some p)
    with s have "judge_simulation plan request profile p = Inr (svs, sws, schecks)" by simp
    from judge_simulation_Nil(1) [OF this] Some show ?thesis by simp
  qed (use s in auto)
  have st: "fst (judge_stress stress) = [] \<longleftrightarrow> (\<forall>s. stress = Some s \<longrightarrow> accounting_holds s)"
    by (auto simp: judge_stress_def split: option.split)
  have own: "?own = [] \<longleftrightarrow> pp_solver_status plan = ''OPTIMAL'' \<and> rq_unknown_constraints request = [] \<and>
     (po_unknown_expiry (rq_policy request) = RejectUnknown \<longrightarrow> (\<forall>l \<in> set (plan_lines plan). pl_shelf_life_days l \<noteq> None))"
    by (auto simp: own_violations_def list_ex_iff)
  show "cr_passed r \<longleftrightarrow> cr_violations r = []" by (rule r)
  show "cr_passed r \<longleftrightarrow>
     pp_solver_status plan = ''OPTIMAL'' \<and> rq_unknown_constraints request = [] \<and>
     (po_unknown_expiry (rq_policy request) = RejectUnknown \<longrightarrow> (\<forall>l \<in> set (plan_lines plan). pl_shelf_life_days l \<noteq> None)) \<and>
     orders_allowed plan request \<and> (\<exists>p. simulation = Some p \<and> simulation_allowed plan request profile p) \<and>
     (\<forall>s. stress = Some s \<longrightarrow> accounting_holds s)"
    unfolding r sorted_set_Nil_iff append_is_Nil_conv [of vs] append_is_Nil_conv [of ?own] append_is_Nil_conv [of svs]
      own svs st validate_plan_Nil(1) [OF v] by blast
  assume passed: "cr_passed r" and c: "(c, v) \<in> set (cr_checks r)"
  then have nil: "vs = []" "svs = []" using r by simp_all
  then obtain p where "simulation = Some p" using svs by blast
  with s have j: "judge_simulation plan request profile p = Inr (svs, sws, schecks)" by simp
  have "checks = constraint_checks []" using validate_plan_Nil(2) [OF v] nil by simp
  then have "\<forall>(c, v) \<in> set checks. v" by (simp add: constraint_checks_def)
  then show "v \<or> c \<in> {''capacity'', ''risk''}"
    using c judge_simulation_Nil(2) [OF j nil(2)] set_dict_merge [of checks schecks] unfolding r by blast
qed


text \<open>Candidates are never compared with their model. Neither solver records the predictions the critic
  looks for, so the check \<open>candidate_model_match\<close> of every candidate succeeds without an evaluation.\<close>

theorem candidate_model_never_compared:
  assumes "candidate_plan solve np request profile = Inr (plan, warnings)"
  shows "model_mismatch plan simulation profile = Inr False"
  using candidate_from_solver [OF assms]
  by (auto simp: from_solver_def model_mismatch_def dict_get_or_def split: option.split)

section \<open>The recommendation\<close>

lemma strategy_text_inj: "strategy_text a = strategy_text b \<longleftrightarrow> a = b"
  by (cases a; cases b) simp_all

lemma py_min_by_in: "xs \<noteq> [] \<Longrightarrow> py_min_by key xs \<in> set xs"
  unfolding py_min_by_def by (metis hd_in_set set_sort sort_key_simps(1) set_empty)

lemma py_min_by_le:
  assumes "x \<in> set xs"
  shows "key (py_min_by key xs) \<le> key x"
proof (cases "sort_key key xs")
  case (Cons y ys)
  moreover have "sorted (map key (sort_key key xs))" by simp
  moreover have "x \<in> set (sort_key key xs)" using assms by simp
  ultimately show ?thesis by (auto simp: py_min_by_def)
qed (use assms in \<open>metis set_sort set_empty empty_iff\<close>)

text \<open>Profiles are listed under their own names.\<close>

definition profiles_named :: "(strategy_name, strategy_profile) dict \<Rightarrow> bool" where
  "profiles_named d \<longleftrightarrow> (\<forall>n p. dict_get d n = Some p \<longrightarrow> sp_name p = n)"

lemma profiles_of_names: "map sp_name (profiles_of request) = [Lean, Balanced, Protected]"
proof -
  have named: "profiles_named (dict_merge d (map (\<lambda>p. (sp_name p, p)) ps))" if "profiles_named d" for d ps
    using that
  proof (induction ps arbitrary: d)
    case (Cons p ps)
    have "profiles_named (dict_set (sp_name p) p d)" using Cons.prems by (simp add: profiles_named_def dict_get_set)
    from Cons.IH [OF this] show ?case by (simp add: dict_merge_def)
  qed (simp add: dict_merge_def)
  have kept: "dict_get (dict_merge d (map (\<lambda>p. (sp_name p, p)) ps)) n \<noteq> None" if "dict_get d n \<noteq> None" for d ps n
    using that
  proof (induction ps arbitrary: d)
    case (Cons p ps)
    have "dict_get (dict_set (sp_name p) p d) n \<noteq> None" using Cons.prems by (simp add: dict_get_set)
    from Cons.IH [OF this] show ?case by (simp add: dict_merge_def)
  qed (simp add: dict_merge_def)
  let ?d = "index_by sp_name default_strategy_profiles"
  have names: "map sp_name default_strategy_profiles = [Lean, Balanced, Protected]"
    by (simp add: default_strategy_profiles_def base_profile_def)
  then obtain a b c where abc: "default_strategy_profiles = [a, b, c]" "sp_name a = Lean" "sp_name b = Balanced" "sp_name c = Protected"
    by (auto simp: map_eq_Cons_conv)
  have di: "?d = [(Lean, a), (Balanced, b), (Protected, c)]" by (simp add: abc index_by_def)
  have d: "profiles_named ?d" unfolding di profiles_named_def by (simp add: abc)
  have dn: "dict_get ?d n \<noteq> None" for n unfolding di by (cases n) simp_all
  let ?m = "dict_merge ?d (map (\<lambda>p. (sp_name p, p)) (rq_profiles request))"
  have m: "profiles_named ?m" by (rule named [OF d])
  have mn: "dict_get ?m n \<noteq> None" for n by (rule kept [OF dn])
  have "sp_name (the (dict_get ?m n)) = n" for n
  proof -
    obtain p where p: "dict_get ?m n = Some p" using mn [of n] by blast
    with m have "sp_name p = n" unfolding profiles_named_def by blast
    then show ?thesis unfolding p by simp
  qed
  then show ?thesis by (simp add: profiles_of_def Let_def)
qed

text \<open>What one evaluation guarantees, whatever the request's risk metadata.\<close>

definition evaluated_for :: "optimization_request \<Rightarrow> strategy_profile \<Rightarrow> candidate_evaluation \<Rightarrow> bool" where
  "evaluated_for request profile e \<longleftrightarrow>
     pp_strategy (ce_plan e) = sp_name profile \<and> pp_completed (ce_plan e) = cr_passed (ce_critic e) \<and>
     pp_purchase_cost (ce_plan e) = plan_cost (pp_orders (ce_plan e)) \<and>
     (cr_passed (ce_critic e) \<longrightarrow> orders_allowed (ce_plan e) request \<and>
       (\<exists>p. ce_simulation e = Some p \<and> accounting_holds p \<and> capacity_holds p \<and> floor_holds profile p \<and> expected_fill_holds profile p) \<and>
       (\<forall>s. ce_stress_simulation e = Some s \<longrightarrow> accounting_holds s))"

text \<open>Requests that differ in risk metadata only.\<close>

definition same_planning :: "optimization_request \<Rightarrow> optimization_request \<Rightarrow> bool" where
  "same_planning r r' \<longleftrightarrow> (\<exists>md. r' = r\<lparr>rq_risk_metadata := md\<rparr>)"

lemma same_planning_refl: "same_planning r r"
  unfolding same_planning_def by (rule exI [of _ "rq_risk_metadata r"]) simp

lemma same_planning_trans: "same_planning a b \<Longrightarrow> same_planning b c \<Longrightarrow> same_planning a c"
  by (auto simp: same_planning_def)

lemma same_planning_orders: "same_planning r r' \<Longrightarrow> orders_allowed plan r' \<longleftrightarrow> orders_allowed plan r"
  by (auto simp: same_planning_def orders_allowed_def)

lemma risk_failure_same: "same_planning request (risk_failure e request)"
  unfolding same_planning_def risk_failure_def by blast

lemma evaluate_candidateE:
  assumes "evaluate_candidate_plan np pd model plan profile request = Inr (e, request')"
  obtains err where "same_planning request request'"
    "critique_procurement_plan plan request' profile (ce_simulation e) (ce_stress_simulation e) err = Inr (ce_critic e)"
    "ce_plan e = plan\<lparr>pp_completed := cr_passed (ce_critic e)\<rparr>"
proof -
  from assms obtain base simulation risk stress err critic where
    r: "evaluate_risk np pd request base simulation = Inr (risk, request')"
    and c: "critique_procurement_plan plan request' profile simulation stress err = Inr critic"
    and e: "e = \<lparr>ce_plan = plan\<lparr>pp_completed := cr_passed critic\<rparr>, ce_simulation = simulation,
        ce_risk_simulation = risk, ce_stress_simulation = stress, ce_critic = critic\<rparr>"
    unfolding evaluate_candidate_plan_def Let_def
    by (elim ebind_InrE) (auto elim!: ebind_InrE split: prod.splits)
  have "same_planning request request'"
    using r unfolding evaluate_risk_def
    by (auto simp: same_planning_refl risk_failure_same split: if_splits sum.splits elim!: ebind_InrE)
  with c show ?thesis using that by (simp add: e)
qed

lemma candidate_evaluated:
  assumes "candidate_plan solve np request profile = Inr (plan, ws)"
    "evaluate_candidate_plan np pd model plan profile request = Inr (e, request')"
  shows "evaluated_for request profile e"
  using assms(2)
proof (rule evaluate_candidateE)
  fix err assume s: "same_planning request request'"
    and c: "critique_procurement_plan plan request' profile (ce_simulation e) (ce_stress_simulation e) err = Inr (ce_critic e)"
    and e: "ce_plan e = plan\<lparr>pp_completed := cr_passed (ce_critic e)\<rparr>"
  have allowed: "orders_allowed (plan\<lparr>pp_completed := v\<rparr>) r = orders_allowed plan r" for v r
    by (cases "rq_budget r") (simp_all add: orders_allowed_def plan_lines_def order_groups_def)
  show ?thesis
    using candidate_from_solver [OF assms(1)] critique_verdict(1) [OF c] same_planning_orders [OF s]
    unfolding evaluated_for_def e allowed from_solver_def simulation_allowed_def by fastforce
qed

lemma candidate_same: "same_planning r r' \<Longrightarrow> evaluated_for r' profile e \<Longrightarrow> evaluated_for r profile e"
  unfolding evaluated_for_def using same_planning_orders by blast

lemma dict_set_new: "k \<notin> set (dict_keys d) \<Longrightarrow> dict_set k v d = d @ [(k, v)]"
  by (induction d) auto

lemma optimize_fold:
  assumes "efold (optimize_profile solve np pd model) st profiles = Inr st'" "same_planning request (op_request st)"
    "distinct (map sp_name profiles)" "set (dict_keys (op_evaluations st)) \<inter> set (map sp_name profiles) = {}"
  shows "\<exists>es. op_evaluations st' = op_evaluations st @ zip (map sp_name profiles) es \<and>
    list_all2 (evaluated_for request) profiles es"
  using assms
proof (induction profiles arbitrary: st)
  case (Cons p ps)
  from Cons.prems(1) obtain st1 where st1: "optimize_profile solve np pd model st p = Inr st1"
    and rest: "efold (optimize_profile solve np pd model) st1 ps = Inr st'" by (auto elim: ebind_InrE)
  from st1 obtain plan ws e r where c: "candidate_plan solve np (op_request st) p = Inr (plan, ws)"
    and ev: "evaluate_candidate_plan np pd model plan p (op_request st) = Inr (e, r)"
    and st1': "op_request st1 = r" "op_evaluations st1 = dict_set (sp_name p) e (op_evaluations st)"
    unfolding optimize_profile_def by (auto elim!: ebind_InrE)
  have new: "sp_name p \<notin> set (dict_keys (op_evaluations st))" using Cons.prems(4) by auto
  then have app: "op_evaluations st1 = op_evaluations st @ [(sp_name p, e)]" by (simp add: st1' dict_set_new)
  have "same_planning (op_request st) r" using ev by (rule evaluate_candidateE)
  then have s1: "same_planning request (op_request st1)" using Cons.prems(2) same_planning_trans unfolding st1' by blast
  have "evaluated_for request p e" by (rule candidate_same [OF Cons.prems(2) candidate_evaluated [OF c ev]])
  moreover obtain es where "op_evaluations st' = op_evaluations st1 @ zip (map sp_name ps) es" "list_all2 (evaluated_for request) ps es"
    using Cons.IH [OF rest s1] Cons.prems(3,4) by (auto simp: app)
  ultimately show ?case by (intro exI [of _ "e # es"]) (simp add: app)
qed simp

lemma recommend_cases:
  "case recommend evaluations of
     None \<Rightarrow> \<forall>(n, e) \<in> set evaluations. \<not> cr_passed (ce_critic e)
   | Some n \<Rightarrow> \<exists>e. (n, e) \<in> set evaluations \<and> cr_passed (ce_critic e) \<and>
       (\<forall>(n', e') \<in> set evaluations. cr_passed (ce_critic e') \<longrightarrow>
          (pp_purchase_cost (ce_plan e), strategy_text n) \<le> (pp_purchase_cost (ce_plan e'), strategy_text n'))"
proof -
  let ?valid = "filter (\<lambda>(name, e). cr_passed (ce_critic e)) evaluations"
  let ?key = "\<lambda>(name, e). (pp_purchase_cost (ce_plan e), strategy_text name)"
  show ?thesis
  proof (cases "?valid = []")
    case True
    then show ?thesis by (auto simp: recommend_def Let_def filter_empty_conv)
  next
    case False
    obtain n e where ne: "py_min_by ?key ?valid = (n, e)" by force
    with py_min_by_in [OF False, of ?key] have "(n, e) \<in> set ?valid" by simp
    moreover have "?key (n, e) \<le> ?key x" if "x \<in> set ?valid" for x using py_min_by_le [OF that, of ?key] ne by simp
    ultimately show ?thesis using False ne by (fastforce simp: recommend_def Let_def)
  qed
qed

text \<open>The facts about a result that the controller and the properties use.\<close>

definition good_result :: "optimization_request \<Rightarrow> optimization_result \<Rightarrow> bool" where
  "good_result request result \<longleftrightarrow>
     dict_keys (os_evaluations result) = [Lean, Balanced, Protected] \<and>
     (\<forall>(n, e) \<in> set (os_evaluations result). \<exists>profile \<in> set (profiles_of request). sp_name profile = n \<and> evaluated_for request profile e) \<and>
     (case os_recommended result of
        None \<Rightarrow> os_status result = ''NO_VALID_PROCUREMENT_PLAN'' \<and> (\<forall>(n, e) \<in> set (os_evaluations result). \<not> cr_passed (ce_critic e))
      | Some n \<Rightarrow> os_status result = ''COMPLETED'' \<and> (\<exists>e. dict_get (os_evaluations result) n = Some e \<and> cr_passed (ce_critic e) \<and>
          (\<forall>(n', e') \<in> set (os_evaluations result). cr_passed (ce_critic e') \<longrightarrow>
            (pp_purchase_cost (ce_plan e), strategy_text n) \<le> (pp_purchase_cost (ce_plan e'), strategy_text n'))))"

lemma optimize_good:
  assumes "optimize_procurement solve np pd model request = Inr result"
  shows "good_result request result"
proof -
  from assms obtain ws st where st: "efold (optimize_profile solve np pd model)
      \<lparr>op_request = request, op_evaluations = [], op_warnings = ws\<rparr> (profiles_of request) = Inr st"
    and R: "os_evaluations result = op_evaluations st" "os_recommended result = recommend (op_evaluations st)"
      "os_status result = (if recommend (op_evaluations st) \<noteq> None then ''COMPLETED'' else ''NO_VALID_PROCUREMENT_PLAN'')"
    unfolding optimize_procurement_def Let_def by (auto elim!: ebind_InrE)
  obtain es where es: "op_evaluations st = zip (map sp_name (profiles_of request)) es"
    "list_all2 (evaluated_for request) (profiles_of request) es"
    using optimize_fold [OF st, of request] by (auto simp: profiles_of_names same_planning_refl)
  have len: "length es = length (profiles_of request)" using es(2) by (simp add: list_all2_lengthD)
  have keys: "dict_keys (op_evaluations st) = [Lean, Balanced, Protected]"
  proof -
    have "length (map sp_name (profiles_of request)) = length es" using len by simp
    from map_fst_zip [OF this] show ?thesis unfolding es(1) by (simp only: profiles_of_names)
  qed
  have ev: "\<exists>profile \<in> set (profiles_of request). sp_name profile = n \<and> evaluated_for request profile e"
    if "(n, e) \<in> set (op_evaluations st)" for n e
  proof -
    from that obtain i where "i < length es" "n = map sp_name (profiles_of request) ! i" "e = es ! i"
      by (auto simp: es(1) in_set_zip)
    then show ?thesis using es(2) len by (intro bexI [of _ "profiles_of request ! i"]) (auto simp: list_all2_conv_all_nth)
  qed
  have get: "dict_get (op_evaluations st) n = Some e" if "(n, e) \<in> set (op_evaluations st)" for n e
    by (rule map_of_is_SomeI [OF _ that]) (simp add: keys)
  show ?thesis
    unfolding good_result_def R
    using keys ev recommend_cases [of "op_evaluations st"] get by (fastforce split: option.splits)
qed

text \<open>C5: the recommendation is safe and cheapest. A result has one evaluation per strategy, each of a plan whose
  cost is that of its orders; a recommended plan was accepted, so its orders are allowed and its own
  exact simulation balances, fits the capacities and meets its profile's floor and expected fill, and
  no accepted plan is cheaper (names break ties); there is none exactly if no plan was accepted.\<close>

theorem recommendation_safe_and_cheapest:
  assumes "optimize_procurement solve np pd model request = Inr result"
  shows "good_result request result"
  by (rule optimize_good [OF assms])

section \<open>The receding horizon\<close>





section \<open>Failed stress runs\<close>

lemma critique_ignores_error:
  "critique_procurement_plan plan request profile (Some p) stress err = critique_procurement_plan plan request profile (Some p) stress None"
  by (simp add: critique_procurement_plan_def)

lemma critique_ignores_stress_set:
  "critique_procurement_plan plan (request\<lparr>rq_stress := ss\<rparr>) profile sim stress err = critique_procurement_plan plan request profile sim stress err"
  by (simp add: critique_procurement_plan_def own_violations_def judge_simulation_def risk_verdict_def split: option.split)

lemma evaluate_risk_ignores_stress_set:
  "evaluate_risk np pd (request\<lparr>rq_stress := ss\<rparr>) base sim =
     ebind (evaluate_risk np pd request base sim) (\<lambda>(p, r). Inr (p, r\<lparr>rq_stress := ss\<rparr>))"
proof -
  have "risk_run np pd (request\<lparr>rq_stress := ss\<rparr>) base = risk_run np pd request base" by (simp add: risk_run_def)
  then show ?thesis
    by (auto simp: evaluate_risk_def risk_failure_def ebind_def split: sum.splits)
qed

end
