(* ===== verification/Resim_Facts.thy ===== *)
theory Resim_Facts
  imports Critic_Facts
begin

text \<open>
  The exact simulation of a candidate: its orders always become valid deliveries with identifiers of
  their own, and a stress test that fails changes nothing.
\<close>

lemma stress_simulation_same:
  "same_planning request request' \<Longrightarrow> stress_simulation_of np pd request' planned = stress_simulation_of np pd request planned"
  by (auto simp: same_planning_def stress_simulation_of_def stress_baseline_def cong: option.case_cong)

lemma evaluate_risk_same: "evaluate_risk np pd request base sim = Inr (risk, request') \<Longrightarrow> same_planning request request'"
  by (auto simp: evaluate_risk_def same_planning_refl risk_failure_same split: if_splits sum.splits elim!: ebind_InrE)

text \<open>C31: a failed stress test leaves no trace. When the stress runs of a request fail, for a missing base
  scenario or an inventory error, every candidate is evaluated, criticised and accepted exactly as
  if no stress test had been requested; the recorded error reaches neither the verdict nor the warnings.\<close>

theorem failed_stress_is_silent:
  assumes "\<forall>planned. \<exists>err. stress_simulation_of np pd request planned = Inr (None, err)"
  shows "evaluate_candidate_plan np pd model plan profile (request\<lparr>rq_stress := []\<rparr>) =
    ebind (evaluate_candidate_plan np pd model plan profile request) (\<lambda>(e, r). Inr (e, r\<lparr>rq_stress := []\<rparr>))"
proof -
  let ?quiet = "request\<lparr>rq_stress := []\<rparr>"
  have sup: "planned_supply model plan ?quiet = planned_supply model plan request" by (simp add: planned_supply_def cong: option.case_cong)
  have design: "design_simulation np pd ?quiet base recourse = design_simulation np pd request base recourse" for base recourse
    by (simp add: design_simulation_def)
  have rest: "ebind (evaluate_stress np pd (r\<lparr>rq_stress := []\<rparr>) planned sim) (\<lambda>(stress, stress_error).
      ebind (critique_procurement_plan plan (r\<lparr>rq_stress := []\<rparr>) profile sim stress (if stress_error \<noteq> None then stress_error else err)) (\<lambda>critic.
      Inr (f stress critic, r\<lparr>rq_stress := []\<rparr>))) =
    ebind (ebind (evaluate_stress np pd r planned sim) (\<lambda>(stress, stress_error).
      ebind (critique_procurement_plan plan r profile sim stress (if stress_error \<noteq> None then stress_error else err)) (\<lambda>critic.
      Inr (f stress critic, r)))) (\<lambda>(e, r). Inr (e, r\<lparr>rq_stress := []\<rparr>))"
    if sr: "same_planning request r" for r planned sim err and f :: "sim_package option \<Rightarrow> critic_result \<Rightarrow> candidate_evaluation"
  proof -
    obtain se where se: "stress_simulation_of np pd r planned = Inr (None, se)"
      using assms stress_simulation_same [OF sr] by metis
    show ?thesis
    proof (cases sim)
      case (Some p)
      have ign: "critique_procurement_plan plan r profile (Some p) None (Some y) = critique_procurement_plan plan r profile (Some p) None err" for y
        using critique_ignores_error by metis
      show ?thesis unfolding Some evaluate_stress_def
        by (cases se) (auto simp: se ign critique_ignores_stress_set ebind_def split: sum.splits)
    qed (auto simp: evaluate_stress_def critique_ignores_stress_set ebind_def split: sum.splits)
  qed
  show ?thesis
  proof (cases "planned_supply model plan request")
    case (Inr br)
    obtain base recourse where br: "br = (base, recourse)" by force
    show ?thesis
    proof (cases "catching is_inventory_error (design_simulation np pd request base recourse)")
      case design': (Inr d)
      let ?sim = "case d of Inr p \<Rightarrow> Some p | Inl _ \<Rightarrow> None"
      show ?thesis
      proof (cases "evaluate_risk np pd request base ?sim")
        case risk: (Inr rr)
        obtain risk' r where rr: "rr = (risk', r)" by force
        have same: "same_planning request r" by (rule evaluate_risk_same [OF risk [unfolded rr]])
        show ?thesis
          unfolding evaluate_candidate_plan_def sup Inr br design prod.case ebind_simps design' Let_def
            evaluate_risk_ignores_stress_set risk rr
          by (rule rest [OF same])
      qed (simp add: evaluate_candidate_plan_def sup Inr br design design' Let_def evaluate_risk_ignores_stress_set)
    qed (simp add: evaluate_candidate_plan_def sup Inr br design)
  qed (simp add: evaluate_candidate_plan_def sup)
qed

section \<open>Orders as deliveries\<close>

definition delivery_for :: "string \<Rightarrow> decision_line \<Rightarrow> delivery \<Rightarrow> bool" where
  "delivery_for plan_id l d \<longleftrightarrow>
     delivery_ok d \<and> dl_source_plan_id d = Some plan_id \<and> dl_store_id d = pl_store_id l \<and>
     dl_ingredient_id d = pl_ingredient_id l \<and> dl_quantity d = pl_order_quantity l \<and> dl_unit d = pl_unit l \<and>
     dl_arrival_date d = pl_arrival_date l \<and> dl_expiry_date d = pl_expiry_date l \<and> dl_tracking d = pl_tracking l"

lemma normalize_unit_nonempty: "normalize_unit u = Inr v \<Longrightarrow> v \<noteq> []"
proof -
  assume "normalize_unit u = Inr v"
  then have "normalize_unit v = Inr v" by (rule normalize_unit_idem)
  moreover have "\<not> is_ok (normalize_unit [])" by code_simp
  ultimately show "v \<noteq> []" by auto
qed

lemma fint_ge_1: "0 < n \<Longrightarrow> 1 \<le> fint n"
  using rnd_mono [of 1 "of_int n"] rnd_of_int [of 1]
  by (simp add: f64_le_iff fint_def fl.rep_eq one_f64.rep_eq)

lemma ordered_quantity_pos:
  assumes "0 < n" "0 < (p :: f64)"
  shows "0 < fint n * p"
proof -
  have "1 * p \<le> fint n * p" by (rule f64_mult_right_mono) (use assms in \<open>auto simp: fint_ge_1\<close>)
  with assms(2) show ?thesis by simp
qed

lemma planned_expiry_later:
  assumes "planned_expiry t a n = Inr (Some e)" "\<And>k. n = Some k \<Longrightarrow> 0 \<le> k"
  shows "a \<le> e"
  using assms by (auto simp: planned_expiry_def resolve_inbound_expiry_def add_days_def ebind_Inr_iff split: if_splits option.splits)

lemma planned_delivery_succeeds:
  assumes "decision_of e n = Inr l" "0 < n" "supplier_offer_ok (eo_offer e)" "plan_id \<noteq> []"
  shows "\<exists>d. planned_delivery plan_id suffix (i, l) = Inr d \<and> delivery_for plan_id l d \<and>
    dl_delivery_id d = plan_id @ suffix @ ''-delivery-'' @ pad4 i \<and> dl_lot_id d = plan_id @ suffix @ ''-lot-'' @ pad4 i"
  using assms(1)
proof (rule decision_of_fields)
  let ?o = "eo_offer e"
  fix u x
  assume u: "normalize_unit (of_unit ?o) = Inr u"
    and x: "planned_expiry (of_tracking ?o) (eo_arrival e) (of_shelf_life_days ?o) = Inr x"
    and l: "l = \<lparr>pl_offer_id = of_offer_id ?o, pl_supplier_id = of_supplier_id ?o,
       pl_store_id = of_store_id ?o, pl_ingredient_id = of_ingredient_id ?o, pl_unit = u,
       pl_order_date = of_order_date ?o, pl_arrival_date = eo_arrival e, pl_pack_count = n,
       pl_pack_size = of_pack_size ?o, pl_order_quantity = fint n * of_pack_size ?o,
       pl_unit_price = of_unit_price ?o, pl_purchase_cost = fint n * of_pack_size ?o * of_unit_price ?o,
       pl_delivery_cost = of_delivery_cost ?o, pl_shelf_life_days = of_shelf_life_days ?o,
       pl_expiry_date = x, pl_tracking = of_tracking ?o, pl_emergency = of_emergency ?o\<rparr>"
  have shelf: "0 \<le> k" if "of_shelf_life_days ?o = Some k" for k using assms(3) that by (simp add: supplier_offer_ok_def)
  have fresh: "\<not> y < eo_arrival e" if "x = Some y" for y
    using planned_expiry_later [OF x [unfolded that] shelf] by simp
  have "0 < fint n * of_pack_size ?o" using assms(2,3) by (simp add: ordered_quantity_pos supplier_offer_ok_def)
  with u x fresh assms(3,4) normalize_unit_nonempty [OF u] show ?thesis
    by (auto simp: planned_delivery_def l delivery_for_def delivery_ok_def arrived_expired_def supplier_offer_ok_def Let_def
        split: option.splits)
qed

text \<open>A candidate's orders, as deliveries of one plan.\<close>

lemma planned_inbound_succeeds:
  assumes "from_solver np request profile plan" "list_all supplier_offer_ok (rq_offers request)"
  shows "\<exists>ds. decisions_to_planned_inbound (pp_orders plan) (pp_plan_id plan) sid = Inr ds \<and>
    list_all2 (delivery_for (pp_plan_id plan)) (pp_orders plan) ds \<and>
    distinct (map dl_delivery_id ds) \<and> distinct (map dl_lot_id ds)"
proof -
  from assms(1) obtain data packs where data: "build_problem_data np request = Inr data"
    and orders: "\<forall>l \<in> set (pp_orders plan). \<exists>n. order_at data packs n l" and name: "pp_plan_id plan = plan_name request profile"
    unfolding from_solver_def by blast
  have plan_id: "pp_plan_id plan \<noteq> []" by (simp add: name plan_name_def)
  define suffix where "suffix = (case sid of None \<Rightarrow> [] | Some s \<Rightarrow> if s = [] then [] else ''-'' @ s)"
  let ?f = "planned_delivery (pp_plan_id plan) suffix"
  let ?ok = "\<lambda>(i, l) d. delivery_for (pp_plan_id plan) l d \<and>
    dl_delivery_id d = pp_plan_id plan @ suffix @ ''-delivery-'' @ pad4 i \<and> dl_lot_id d = pp_plan_id plan @ suffix @ ''-lot-'' @ pad4 i"
  have one: "\<exists>d. ?f x = Inr d \<and> ?ok x d" if mem: "x \<in> set (enumerate 0 (pp_orders plan))" for x
  proof -
    obtain i l where x: "x = (i, l)" by force
    with mem have "l \<in> set (pp_orders plan)" by (auto simp: in_set_enumerate_eq)
    then obtain n where n: "order_at data packs n l" using orders by blast
    then have "eligible_ok request (md_target_units data) (md_regular data ! n)"
      using problem_data_facts [OF data] by (auto simp: order_at_def)
    then have "supplier_offer_ok (eo_offer (md_regular data ! n))" using assms(2) by (auto simp: eligible_ok_def list_all_iff)
    with planned_delivery_succeeds [OF _ _ this plan_id, of "packs n" l suffix i] n show ?thesis by (auto simp: x order_at_def)
  qed
  have "\<forall>x \<in> set (enumerate 0 (pp_orders plan)). \<exists>d. ?f x = Inr d" using one by blast
  then obtain ds where ds: "emap ?f (enumerate 0 (pp_orders plan)) = Inr ds" using emap_exists [of "enumerate 0 (pp_orders plan)" ?f] by blast
  have "?ok x d" if "x \<in> set (enumerate 0 (pp_orders plan))" "?f x = Inr d" for x d using one [OF that(1)] that(2) by simp
  then have "list_all2 ?ok (enumerate 0 (pp_orders plan)) ds"
    by (rule list.rel_mono_strong [OF ds [unfolded emap_Inr_iff]])
  then have nth: "length ds = length (pp_orders plan)" "\<And>i. i < length ds \<Longrightarrow> ?ok (i, pp_orders plan ! i) (ds ! i)"
    by (auto simp: list_all2_conv_all_nth nth_enumerate_eq)
  have "distinct (map dl_delivery_id ds)" "distinct (map dl_lot_id ds)"
    unfolding distinct_conv_nth using nth(2) by (auto simp: pad4_inj)
  moreover have "list_all2 (delivery_for (pp_plan_id plan)) (pp_orders plan) ds"
    using nth by (auto simp: list_all2_conv_all_nth)
  ultimately show ?thesis using ds by (simp add: decisions_to_planned_inbound_def suffix_def [symmetric])
qed

text \<open>Every candidate can be simulated. The orders of a candidate always become deliveries, one per order and
  in order, that satisfy their contract and carry the order's quantity, unit, arrival and expiry; their
  delivery and lot identifiers, numbered with at least four digits, are distinct.\<close>

theorem orders_become_deliveries:
  assumes "candidate_plan solve np request profile = Inr (plan, warnings)"
    and "list_all supplier_offer_ok (rq_offers request)"
  shows "\<exists>ds. decisions_to_planned_inbound (pp_orders plan) (pp_plan_id plan) scenario_id = Inr ds \<and>
    list_all2 (delivery_for (pp_plan_id plan)) (pp_orders plan) ds \<and>
    distinct (map dl_delivery_id ds) \<and> distinct (map dl_lot_id ds)"
  by (rule planned_inbound_succeeds [OF candidate_from_solver [OF assms(1)] assms(2)])

end
