(* ===== verification/Opt_Witness.thy ===== *)
theory Opt_Witness
  imports Milp_Facts Resim_Facts
begin

text \<open>
  One request from end to end: five kilograms of flour, a demand of three, and one offer of packs of
  two. Its problem data and its model, a solver that answers with one pack, the plan, the delivery,
  its exact simulation, the accepted verdict and the recommendation; the optimisation properties are
  applied along the way.
\<close>

section \<open>A concrete request\<close>

definition mill_offer :: supplier_offer where
  "mill_offer = \<lparr>of_offer_id = ''o1'', of_supplier_id = ''mill'', of_store_id = ''s1'', of_ingredient_id = ''flour'',
     of_unit = ''kg'', of_order_date = 10, of_pack_size = fint 2, of_unit_price = 1, of_delivery_cost = 0, of_minimum = fint 2,
     of_maximum = None, of_lead_time_days = 1, of_delivery_days = None, of_shelf_life_days = None,
     of_tracking = TrackNotRequired, of_available = True, of_cutoff_date = None, of_emergency = False\<rparr>"

text \<open>The offer states no shelf life, and the critic rejects that under the default policy even where no expiry is tracked.\<close>

definition mill_policy :: sim_policy where
  "mill_policy = default_policy\<lparr>po_unknown_expiry := WarnAndPlaceLast\<rparr>"

definition thrifty :: "strategy_name \<Rightarrow> strategy_profile" where
  "thrifty name = (base_profile name 1 1 1 0)\<lparr>sp_acceptable_fill := 0\<rparr>"

definition flour_request :: optimization_request where
  "flour_request = \<lparr>rq_request_id = ''r'', rq_decision_date = 10, rq_end_date = 11, rq_inventory = flour_stock,
     rq_scenarios = [flour_demand 3], rq_offers = [mill_offer], rq_inbound = [], rq_constraints = [], rq_budget = None,
     rq_costs = [], rq_conversions = [], rq_policy = mill_policy, rq_stress = [], rq_stress_base = None,
     rq_profiles = map thrifty [Lean, Balanced, Protected], rq_unknown_constraints = [], rq_capacity_context = [], rq_risk_scenarios = [],
     rq_risk_metadata = [], rq_stochastic = False, rq_seed = 0\<rparr>"

lemma mill_fields:
  "of_offer_id mill_offer = ''o1''" "of_supplier_id mill_offer = ''mill''" "of_store_id mill_offer = ''s1''"
  "of_ingredient_id mill_offer = ''flour''" "of_unit mill_offer = ''kg''" "of_order_date mill_offer = 10"
  "of_pack_size mill_offer = fint 2" "of_unit_price mill_offer = 1" "of_delivery_cost mill_offer = 0"
  "of_minimum mill_offer = fint 2" "of_maximum mill_offer = None" "of_lead_time_days mill_offer = 1"
  "of_delivery_days mill_offer = None" "of_shelf_life_days mill_offer = None" "of_tracking mill_offer = TrackNotRequired"
  "of_available mill_offer" "of_cutoff_date mill_offer = None" "\<not> of_emergency mill_offer"
  "offer_key mill_offer = (''s1'', ''flour'')"
  by (simp_all add: mill_offer_def offer_key_def)

lemma flour_request_fields:
  "rq_request_id flour_request = ''r''" "rq_decision_date flour_request = 10" "rq_end_date flour_request = 11"
  "rq_inventory flour_request = flour_stock" "rq_scenarios flour_request = [flour_demand 3]"
  "rq_offers flour_request = [mill_offer]" "rq_inbound flour_request = []" "rq_constraints flour_request = []"
  "rq_budget flour_request = None" "rq_costs flour_request = []" "rq_conversions flour_request = []"
  "rq_policy flour_request = mill_policy" "rq_stress flour_request = []"
  "rq_profiles flour_request = [thrifty Lean, thrifty Balanced, thrifty Protected]"
  "rq_unknown_constraints flour_request = []" "rq_capacity_context flour_request = []"
  "rq_risk_scenarios flour_request = []" "\<not> rq_stochastic flour_request"
  by (simp_all add: flour_request_def)

text \<open>The offer as the model sees it.\<close>

definition mill_item :: eligible_offer where
  "mill_item = \<lparr>eo_offer = mill_offer, eo_arrival = 11, eo_factor = 1, eo_pack_quantity = fint 2, eo_expiry = None\<rparr>"

definition flour_data :: problem_data where
  "flour_data = \<lparr>md_keys = [(''s1'', ''flour'')], md_dates = [10, 11], md_target_units = [((''s1'', ''flour''), ''kg'')],
     md_scenario_ids = [''sc''], md_weights = [1], md_probabilistic = False,
     md_demand = [((''sc'', (''s1'', ''flour''), 10), fint 3)], md_initial = [((''s1'', ''flour''), fint 5)],
     md_initial_buckets = [\<lparr>ib_key = (''s1'', ''flour''), ib_expiry = 20, ib_quantity = fint 5\<rparr>],
     md_inbound = [], md_inbound_buckets = [], md_regular = [mill_item], md_emergency = [], md_assumptions = [],
     md_warnings = sorted_set ([] @ [''UNWEIGHTED_DESIGN_SCENARIOS_USE_EQUAL_CANDIDATE_WEIGHTS''] @ [''SHORTAGE_COST_FALLBACK_USED''])\<rparr>"

lemma flour_rules: "make_unit_converter [] = Inr \<lparr>uc_graphs = []\<rparr>"
  by (simp add: make_unit_converter_def validate_graphs_def)

lemma mill_arrival: "supplier_arrival_date mill_offer = Inr (Some 11)"
  by (simp add: supplier_arrival_date_def mill_fields add_days_def date_max_def date_min_def)

lemma mill_eligible:
  "add_offer flour_request c [((''s1'', ''flour''), ''kg'')] ([], ws) mill_offer = Inr ([mill_item], ws)"
proof -
  have "orderable flour_request mill_offer (Some 11)" by (simp add: orderable_def flour_request_fields mill_fields)
  then show ?thesis
    by (simp add: add_offer_def mill_arrival mill_fields target_factor_def dict_get_or_def kg_factor
        planned_expiry_def mill_item_def)
qed

lemma flour_problem: "build_problem_data np flour_request = Inr flour_data"
proof -
  have "collect_demand flour_request = Inr \<lparr>ds_units = [((''s1'', ''flour''), ''kg'')],
      ds_demand = [((''sc'', (''s1'', ''flour''), 10), fint 3)]\<rparr>"
    by (simp add: collect_demand_def flour_request_fields add_demand_line_def flour_demand_def kg_normal dict_add_def dict_get_or_def Let_def)
  moreover have "efold (add_initial_lot flour_request c [((''s1'', ''flour''), ''kg'')]) \<lparr>st_initial = [], st_buckets = [], st_warnings = []\<rparr> flour_stock =
    Inr \<lparr>st_initial = [((''s1'', ''flour''), fint 5)], st_buckets = [(((''s1'', ''flour''), 20), fint 5)], st_warnings = []\<rparr>" for c
    by (simp add: add_initial_lot_def flour_stock_def flour_def lot_key_def expired_at_start_def unknown_expiry_def
        target_factor_def kg_factor dict_get_or_def dict_add_def flour_request_fields mill_policy_def default_policy_def Let_def)
  moreover have "design_weights np [flour_demand 3] = [1]" "\<not> all_some (map sc_probability_weight [flour_demand 3])"
    by (simp_all add: design_weights_def flour_demand_def all_some_def)
  moreover have "sc_scenario_id (flour_demand 3) = ''sc''" "[10..11] = [10, 11 :: int]"
    "normalize_cost_assumptions [] tu c = Inr []" for tu c
    by (simp add: flour_demand_def) (code_simp, simp add: normalize_cost_assumptions_def)
  ultimately show ?thesis
    by (simp add: build_problem_data_def flour_request_fields flour_rules mill_eligible date_range_def flour_data_def
        mill_item_def mill_fields shortage_warning_def eo_key_def index_by_def sorted_set_def)
qed

section \<open>Its model and a feasible point\<close>

abbreviation flour_key :: inv_key where
  "flour_key \<equiv> (''s1'', ''flour'')"

lemma flour_data_fields:
  "md_keys flour_data = [flour_key]" "md_dates flour_data = [10, 11]" "md_target_units flour_data = [(flour_key, ''kg'')]"
  "md_scenario_ids flour_data = [''sc'']" "md_weights flour_data = [1]" "md_probabilistic flour_data = False"
  "md_demand flour_data = [((''sc'', flour_key, 10), fint 3)]" "md_initial flour_data = [(flour_key, fint 5)]"
  "md_initial_buckets flour_data = [\<lparr>ib_key = flour_key, ib_expiry = 20, ib_quantity = fint 5\<rparr>]"
  "md_inbound flour_data = []" "md_inbound_buckets flour_data = []" "md_regular flour_data = [mill_item]"
  "md_assumptions flour_data = []"
  by (simp_all add: flour_data_def)

lemma flour_buckets:
  "expiry_buckets flour_data = \<lparr>bk_ids = [(flour_key, [None, Some 20])],
     bk_initial = [((flour_key, None), 0), ((flour_key, Some 20), fint 5)]\<rparr>"
  by (simp add: expiry_buckets_def initial_buckets_def flour_data_fields mill_item_def dict_get_or_def dict_append_def fint_eval)

lemma flour_daily: "expected_daily_demand flour_data = [((flour_key, 10), fint 3), ((flour_key, 11), 0)]"
  by (simp add: expected_daily_demand_def flour_data_fields demand_of_def dict_get_or_def)

lemma pack_roundings: "py_ceil (fint 2 / fint 2 - slack12) = 1" "py_ceil (fint 3 / fint 2 - slack12) = 2"
  by code_simp+

lemma flour_upper: "offer_upper_packs mill_item flour_request (maximum_demand_of flour_data) = Inr 2"
proof -
  have "py_sum [fint 3, 0] = fint 3" using py_sum_fint [of "[3, 0]"] by (simp add: fint_eval)
  then have "maximum_demand_of flour_data = [(flour_key, fint 3)]"
    by (simp add: maximum_demand_of_def flour_data_fields demand_of_def dict_get_or_def py_max_def)
  moreover have "fint 2 \<noteq> 0" "max (fint 3) (fint 2) = fint 3" by (simp_all add: fint_eval max_def)
  ultimately show ?thesis
    by (simp add: offer_upper_packs_def mill_item_def mill_fields flour_request_fields dict_get_or_def py_div_def pack_roundings)
qed

lemma flour_minimum: "minimum_packs mill_offer = Inr 1"
proof -
  have "fint 2 \<noteq> 0" by (simp add: fint_eval)
  then show ?thesis by (simp add: minimum_packs_def mill_fields py_div_def pack_roundings)
qed

lemma thrifty_fields:
  "sp_name (thrifty name) = name" "sp_shortage_penalty (thrifty name) = 1" "sp_holding_penalty (thrifty name) = 1" "sp_cash_penalty (thrifty name) = 0"
  "sp_min_expected_fill (thrifty name) = None" "sp_acceptable_fill (thrifty name) = 0" "sp_acceptable_stockout (thrifty name) = fl (1 / 2)"
  "sp_required_fill_probability (thrifty name) = None" "sp_max_stockout_probability (thrifty name) = None" "sp_min_fill (thrifty name) = None"
  by (simp_all add: thrifty_def base_profile_def)

lemma flour_shortage_cost: "shortage_cost_per_target_unit flour_data flour_key = Inr (1, ''supplier_replacement_cost_fallback'')"
  by (simp add: shortage_cost_per_target_unit_def flour_data_fields eo_key_def mill_item_def mill_fields py_div_def py_min_def)

definition flour_model :: det_model where
  "flour_model = \<lparr>dm_uppers = [(mill_item, 2)], dm_buckets = expiry_buckets flour_data, dm_daily = expected_daily_demand flour_data,
     dm_vars = [milp_var (Packs 0) (fint 2) (Some (fint 2)) True, milp_var (Ordered 0) 0 (Some 1) True] @
       concat (map (\<lambda>b. concat (map (bucket_vars flour_request flour_data flour_key 0 b) [10, 11])) [None, Some 20]) @
       map (\<lambda>d. milp_var (Short flour_key d) 1 None False) [10, 11],
     dm_rows = [([(Packs 0, 1), (Ordered 0, - fint 2)], None, 0), ([(Packs 0, - 1), (Ordered 0, 1)], None, 0)] @
       key_rows flour_data (expiry_buckets flour_data) (expected_daily_demand flour_data) flour_key\<rparr>"

lemma flour_model_of: "det_model_of flour_request (thrifty name) flour_data = Inr flour_model"
proof -
  have "key_vars flour_request flour_data (thrifty name) (expiry_buckets flour_data) flour_key =
    Inr (concat (map (\<lambda>b. concat (map (bucket_vars flour_request flour_data flour_key 0 b) [10, 11])) [None, Some 20]) @
       map (\<lambda>d. milp_var (Short flour_key d) 1 None False) [10, 11])"
    by (simp add: key_vars_def flour_shortage_cost thrifty_fields flour_data_fields flour_buckets dict_get_or_def)
  moreover have "order_vars (thrifty name) [(mill_item, 2)] = [milp_var (Packs 0) (fint 2) (Some (fint 2)) True, milp_var (Ordered 0) 0 (Some 1) True]"
    by (simp add: order_vars_def mill_item_def mill_fields thrifty_fields Let_def)
  moreover have "order_rows [(mill_item, 2)] = Inr [([(Packs 0, 1), (Ordered 0, - fint 2)], None, 0), ([(Packs 0, - 1), (Ordered 0, 1)], None, 0)]"
    by (simp add: order_rows_def mill_item_def flour_minimum)
  ultimately show ?thesis
    by (simp add: det_model_of_def Let_def flour_data_fields flour_upper flour_request_fields thrifty_fields flour_model_def)
qed

text \<open>One pack arrives on day 11; day 10 is served from the stock that expires on day 20.\<close>

definition flour_point :: "f64 list" where
  "flour_point = map fint [1, 1, 0, 0, 0, 2, 0, 0, 2, 3, 0, 2, 0, 0, 0, 0]"

lemma flour_feasible: "milp_feasible 0 (milp_arrays (dm_vars flour_model) (dm_rows flour_model)) flour_point"
proof -
  have r: "rat_of 0 = 0" "rat_of 1 = 1" "rat_of (- x) = - rat_of x" for x :: f64
    by (simp_all add: zero_f64.rep_eq one_f64.rep_eq uminus_f64.rep_eq)
  have n: "near_int 0 0" "near_int 0 1" "near_int 0 2"
    using round_half_even_of_int [of 0] round_half_even_of_int [of 1] round_half_even_of_int [of 2] by (simp_all add: near_int_def)
  show ?thesis
    by (simp add: flour_model_def flour_point_def milp_feasible_def milp_arrays_def bucket_vars_def bucket_usable_def key_rows_def
        flour_buckets flour_daily flour_data_fields previous_days_def flow_row_def flow_constant_def capacity_of_def demand_row_def
        milp_var_def Let_def dict_get_or_def flour_request_fields mill_policy_def default_policy_def eo_key_def mill_item_def mill_fields
        entry_feasible_def row_feasible_def dot_def r n exact_int_def)
qed

section \<open>Its plan\<close>

text \<open>A solver that only ever answers with the point above, and only where it is feasible.\<close>

definition mill_solver :: milp where
  "mill_solver p = (if milp_feasible 0 p flour_point then \<lparr>mr_status = 0, mr_x = Some flour_point, mr_fun = Some 0\<rparr>
     else \<lparr>mr_status = 4, mr_x = None, mr_fun = None\<rparr>)"


definition mill_line :: decision_line where
  "mill_line = \<lparr>pl_offer_id = ''o1'', pl_supplier_id = ''mill'', pl_store_id = ''s1'', pl_ingredient_id = ''flour'', pl_unit = ''kg'',
     pl_order_date = 10, pl_arrival_date = 11, pl_pack_count = 1, pl_pack_size = fint 2, pl_order_quantity = fint 2,
     pl_unit_price = 1, pl_purchase_cost = fint 2, pl_delivery_cost = 0, pl_shelf_life_days = None, pl_expiry_date = None,
     pl_tracking = TrackNotRequired, pl_emergency = False\<rparr>"

lemma mill_decision: "decision_of mill_item 1 = Inr mill_line"
  by (simp add: decision_of_def mill_item_def mill_fields kg_normal planned_expiry_def decision_line_ok_def close9_def
      fint_eval mill_line_def Let_def)

lemma mill_plan_orders:
  "plan_orders flour_model flour_data (mill_solver (milp_arrays (dm_vars flour_model) (dm_rows flour_model))) = Inr [mill_line]"
proof -
  have "value_of (dm_vars flour_model) flour_point (Packs 0) = 1"
    by (simp add: value_of_def flour_model_def flour_point_def milp_var_def dict_get_or_def)
  then have "py_round (value_of (dm_vars flour_model) flour_point (Packs 0)) = 1"
    using round_half_even_of_int [of 1] by (simp add: py_round_def one_f64.rep_eq)
  then show ?thesis
    by (simp add: plan_orders_def mill_solver_def flour_feasible flour_data_fields mill_decision)
qed

lemma slack9_small: "slack9 < fint 2"
  by code_simp

lemma mill_plan:
  obtains plan where "solve_deterministic_procurement mill_solver np flour_request (thrifty name) = Inr plan"
    "pp_orders plan = [mill_line]" "pp_solver_status plan = ''OPTIMAL''"
    "pp_plan_id plan = plan_name flour_request (thrifty name)" "pp_recourse plan = []"
proof -
  have "ordered_quantity [mill_line] flour_key = fint 2"
    by (simp add: ordered_quantity_def mill_line_def running_sum_def)
  then have "no_order_diagnostics flour_data flour_request d [mill_line] (thrifty name) = Inr []" for d
    by (simp add: no_order_diagnostics_def flour_data_fields slack9_small)
  moreover have "plan_cost [mill_line] = fint 2" by (simp add: plan_cost_def mill_line_def)
  moreover have "decision_line_ok mill_line" using mill_decision by (auto simp: decision_of_def Let_def elim!: ebind_InrE)
  moreover have "mr_status (mill_solver (milp_arrays (dm_vars flour_model) (dm_rows flour_model))) = 0"
    "mr_fun (mill_solver (milp_arrays (dm_vars flour_model) (dm_rows flour_model))) = Some 0"
    by (simp_all add: mill_solver_def flour_feasible)
  moreover have "solver_status 0 = ''OPTIMAL''" by (simp add: solver_status_def dict_get_or_def)
  ultimately have "\<exists>plan. solve_deterministic_procurement mill_solver np flour_request (thrifty name) = Inr plan \<and>
      pp_orders plan = [mill_line] \<and> pp_solver_status plan = ''OPTIMAL'' \<and> pp_plan_id plan = plan_name flour_request (thrifty name) \<and>
      pp_recourse plan = []"
    by (simp add: solve_deterministic_procurement_def solve_once_def flour_problem flour_model_of mill_plan_orders
        procurement_plan_ok_def plan_name_def flour_request_fields fint_eval Let_def)
  with that show ?thesis by blast
qed

text \<open>One day of the calendar: the mill delivers on Saturdays only, three days after its lead time.\<close>

theorem arrival_is_first_delivery_day_witness:
  "supplier_offer_ok (mill_offer\<lparr>of_delivery_days := Some [5]\<rparr>) \<and>
   supplier_arrival_date (mill_offer\<lparr>of_delivery_days := Some [5]\<rparr>) = Inr (Some 13) \<and>
   delivers_on (mill_offer\<lparr>of_delivery_days := Some [5]\<rparr>) 13 \<and> \<not> delivers_on (mill_offer\<lparr>of_delivery_days := Some [5]\<rparr>) 12"
proof -
  let ?o = "mill_offer\<lparr>of_delivery_days := Some [5]\<rparr>"
  have ok: "supplier_offer_ok ?o" by (simp add: supplier_offer_ok_def mill_fields fint_eval)
  have "supplier_arrival_date ?o = Inr (Some 13)" by code_simp
  with ok arrival_is_first_delivery_day [OF ok] show ?thesis by (simp add: mill_fields)
qed

theorem problem_data_usable_witness:
  "build_problem_data plain_numpy flour_request = Inr flour_data \<and>
   eligible_ok flour_request (md_target_units flour_data) mill_item \<and> bucket_ok flour_request (flour_key, 20)"
  using problem_data_usable [OF flour_problem] flour_problem by (simp add: flour_data_fields)

theorem model_balances_stock_witness:
  "bucket_balances 0 flour_request flour_data flour_model flour_point flour_key (Some 20) (None, 10) \<and>
   demand_split 0 flour_data flour_model flour_point flour_key 10"
  using model_balances_stock [OF flour_problem flour_model_of flour_feasible]
  by (simp add: flour_data_fields flour_model_def flour_buckets dict_get_or_def previous_days_def)



theorem stochastic_blocks_deterministic_witness:
  "saa_key_rows flour_data (saa_buckets flour_data) ''sc'' flour_key =
     map (row_in ''sc'') (key_rows flour_data (expiry_buckets flour_data) (scenario_daily flour_data ''sc'') flour_key)"
proof -
  have "flour_key \<in> set (md_keys flour_data)" by (simp add: flour_data_fields)
  from stochastic_blocks_deterministic [OF flour_problem this, of "''sc''"] show ?thesis by (rule conjunct2)
qed

lemma mill_candidate:
  obtains plan where "candidate_plan mill_solver np flour_request (thrifty name) = Inr (plan, [])" "pp_orders plan = [mill_line]"
    "pp_solver_status plan = ''OPTIMAL''" "pp_plan_id plan = plan_name flour_request (thrifty name)" "pp_recourse plan = []"
proof -
  have "\<not> use_stochastic flour_request" by (simp add: use_stochastic_def flour_request_fields)
  moreover obtain plan where "solve_deterministic_procurement mill_solver np flour_request (thrifty name) = Inr plan"
    "pp_orders plan = [mill_line]" "pp_solver_status plan = ''OPTIMAL''"
    "pp_plan_id plan = plan_name flour_request (thrifty name)" "pp_recourse plan = []" by (rule mill_plan)
  ultimately show ?thesis using that by (simp add: candidate_plan_def catching_def)
qed

theorem orders_match_their_offers_witness:
  "\<exists>plan. candidate_plan mill_solver plain_numpy flour_request (thrifty Lean) = Inr (plan, []) \<and> pp_orders plan = [mill_line] \<and>
     (\<exists>codes. line_violations critic_tolerance (index_by of_offer_id [mill_offer]) mill_line = Inr codes \<and> set codes \<subseteq> amount_codes mill_line)"
proof -
  obtain plan where plan: "candidate_plan mill_solver plain_numpy flour_request (thrifty Lean) = Inr (plan, [])" "pp_orders plan = [mill_line]"
    by (rule mill_candidate)
  have "distinct (map of_offer_id (rq_offers flour_request))" by (simp add: flour_request_fields)
  from orders_match_their_offers [OF plan(1) this] plan show ?thesis by (simp add: flour_request_fields)
qed

theorem candidate_model_never_compared_witness:
  "\<exists>plan. candidate_plan mill_solver plain_numpy flour_request (thrifty Lean) = Inr (plan, []) \<and>
     (\<forall>p. model_mismatch plan p (thrifty Lean) = Inr False)"
  using mill_candidate [of plain_numpy] candidate_model_never_compared by metis

theorem orders_become_deliveries_witness:
  "\<exists>plan ds. candidate_plan mill_solver plain_numpy flour_request (thrifty Lean) = Inr (plan, []) \<and>
     decisions_to_planned_inbound (pp_orders plan) (pp_plan_id plan) None = Inr ds \<and>
     list_all2 (delivery_for (pp_plan_id plan)) [mill_line] ds"
proof -
  obtain plan where plan: "candidate_plan mill_solver plain_numpy flour_request (thrifty Lean) = Inr (plan, [])" "pp_orders plan = [mill_line]"
    by (rule mill_candidate)
  have "list_all supplier_offer_ok (rq_offers flour_request)"
    by (simp add: flour_request_fields supplier_offer_ok_def mill_fields fint_eval)
  from orders_become_deliveries [OF plan(1) this, of None] plan show ?thesis by auto
qed

definition lost_stress :: optimization_request where
  "lost_stress = flour_request\<lparr>rq_stress := [slow_mill 2], rq_stress_base := Some ''none''\<rparr>"

theorem failed_stress_is_silent_witness:
  "\<exists>plan. candidate_plan mill_solver plain_numpy flour_request (thrifty Lean) = Inr (plan, []) \<and>
   evaluate_candidate_plan plain_numpy cell_pandas (None :: unit supply_model option) plan (thrifty Lean) (lost_stress\<lparr>rq_stress := []\<rparr>) =
     ebind (evaluate_candidate_plan plain_numpy cell_pandas (None :: unit supply_model option) plan (thrifty Lean) lost_stress) (\<lambda>(e, r). Inr (e, r\<lparr>rq_stress := []\<rparr>))"
proof -
  obtain plan where plan: "candidate_plan mill_solver plain_numpy flour_request (thrifty Lean) = Inr (plan, [])"
    by (rule mill_candidate)
  have "stress_simulation_of plain_numpy cell_pandas lost_stress planned = Inr (None, Some ''STRESS_BASE_SCENARIO_NOT_FOUND'')" for planned
    by (simp add: stress_simulation_of_def stress_baseline_def lost_stress_def flour_request_def flour_demand_def)
  then have "\<forall>planned. \<exists>err. stress_simulation_of plain_numpy cell_pandas lost_stress planned = Inr (None, err)" by blast
  from failed_stress_is_silent [OF this, where model = "None :: unit supply_model option" and plan = plan and profile = "thrifty Lean"] plan
  show ?thesis by blast
qed

section \<open>Its delivery\<close>

definition truck :: "string \<Rightarrow> delivery" where
  "truck pid = \<lparr>dl_delivery_id = pid @ ''-delivery-0000'', dl_lot_id = pid @ ''-lot-0000'', dl_purchase_order_id = pid @ ''-po-0000'',
     dl_supplier_id = ''mill'', dl_store_id = ''s1'', dl_ingredient_id = ''flour'', dl_quantity = fint 2, dl_unit = ''kg'',
     dl_arrival_date = 11, dl_expiry_date = None, dl_tracking = TrackNotRequired, dl_unit_cost = Some 1, dl_location = None,
     dl_arrival_condition = ArrivalNormal,
     dl_provenance = [(''realization_type'', PStr ''optimizer_fixed_lead_time''), (''expiry_status'', PStr ''unknown''),
       (''expiry_source'', PStr ''not_configured'')], dl_source_plan_id = Some pid\<rparr>"

lemma pad4_0: "pad4 0 = ''0000''"
  by (simp add: pad4_def decimal.simps digit_def) code_simp

lemma truck_ok: "pid \<noteq> [] \<Longrightarrow> delivery_ok (truck pid)"
  by (simp add: truck_def delivery_ok_def arrived_expired_def fint_eval)

lemma mill_truck: "pid \<noteq> [] \<Longrightarrow> decisions_to_planned_inbound [mill_line] pid None = Inr [truck pid]"
proof -
  assume "pid \<noteq> []"
  then have "planned_delivery pid [] (0, mill_line) = Inr (truck pid)"
    using truck_ok [of pid] by (simp add: planned_delivery_def mill_line_def planned_expiry_def pad4_0 truck_def Let_def)
  then show "decisions_to_planned_inbound [mill_line] pid None = Inr [truck pid]"
    by (simp add: decisions_to_planned_inbound_def Let_def)
qed

definition delivered :: "string \<Rightarrow> canonical_inputs" where
  "delivered pid = \<lparr>cn_target_units = [(flour_key, ''kg'')], cn_lots = flour_stock, cn_deliveries = [truck pid],
     cn_waste = [], cn_assumptions = []\<rparr>"

lemma delivered_canonicalize: "canonicalize pd None (flour_demand n) flour_stock ([] @ [truck pid]) [] [] = Inr (delivered pid)"
  by (simp add: canonicalize_def no_rules_converter demand_target_units_def flour_demand_def kg_normal set_key_unit_def
      normalize_lots_def normalize_lot_def flour_stock_def flour_def destination_unit_def kg_canonical normalize_delivery_def
      kg_factor dict_get_or_def py_div_opt_def py_div_def normalize_inbound_def normalize_waste_events_def truck_def
      normalize_cost_assumptions_def delivered_def)

lemma delivered_setup:
  assumes "pid \<noteq> []"
  obtains su where "prepare (policy_or_default (Some mill_policy)) (flour_demand 3) 11 ([] @ [truck pid]) (delivered pid) = Inr su"
    "\<forall>k \<in> set (su_keys su). whole_run (su_inputs su) [10..11] (su_start su) k"
    "su_capacity_keys su = []"
proof -
  let ?p = "policy_or_default (Some mill_policy)"
  have f: "cn_lots (delivered pid) = flour_stock" "cn_deliveries (delivered pid) = [truck pid]" "cn_waste (delivered pid) = []"
    "cn_assumptions (delivered pid) = []" "cn_target_units (delivered pid) = [(flour_key, ''kg'')]" by (simp_all add: delivered_def)
  have u: "all_key_units (delivered pid) = Inr [(flour_key, ''kg'')]"
    by (simp add: all_key_units_def f flour_stock_def flour_def lot_key_def delivery_key_def truck_def set_key_unit_def)
  have c: "check_lot_units (flour_key, flour_stock) = Inr ()"
    by (simp add: check_lot_units_def flour_stock_def flour_def sorted_set_def)
  have k: "inventory_keys (delivered pid) = [flour_key]"
    by (simp add: inventory_keys_def f flour_stock_def flour_def lot_key_def delivery_key_def truck_def sorted_set_def)
  have d: "demand_by_day (flour_demand 3) = [((10, ''s1'', ''flour''), fint 3)]" by (simp add: demand_by_day_def flour_demand_def)
  have i: "group_by delivery_day [truck pid] = [((11, ''s1'', ''flour''), [truck pid])]"
    by (simp add: group_by_def delivery_day_def truck_def dict_append_def dict_get_or_def)
  obtain su where su: "prepare ?p (flour_demand 3) 11 ([] @ [truck pid]) (delivered pid) = Inr su" and cap: "su_capacity_keys su = []"
    by (simp add: prepare_def Let_def u f flour_group c sorted_set_def)
  from su have S: "su_keys su = [flour_key]" "su_inputs su = \<lparr>si_scenario_id = ''sc'', si_policy = ?p,
      si_key_units = [(flour_key, ''kg'')], si_demand = [((10, ''s1'', ''flour''), fint 3)],
      si_inbound = [((11, ''s1'', ''flour''), [truck pid])], si_waste = [], si_assumptions = []\<rparr>"
    "ss_lots (su_start su) = [(flour_key, flour_stock)]"
    by (rule prepareE; simp add: f u k d i flour_group; simp add: flour_demand_def)+
  have q: "whole_lots flour_stock" "lots_total flour_stock = 5"
    by (simp_all add: flour_stock_def flour_def inventory_lot_ok_def fint_eval whole_fint exact_int_def)
  have kn: "\<forall>l \<in> set flour_stock. expiry_known ?p l" "expiry_known ?p (received_lot (truck pid))"
    by (simp_all add: flour_stock_def flour_def expiry_known_def unknown_expiry_def received_lot_def truck_def)
  have "dl_quantity (truck pid) = fint 2" by (simp add: truck_def)
  then have "whole_run (su_inputs su) [10..11] (su_start su) flour_key"
    using q kn truck_ok [OF assms]
    by (auto simp: whole_run_def S dict_get_or_def whole_fint day_quantity_def exact_int_def upto.simps split: option.split)
  with that [OF su] show ?thesis by (simp add: S cap)
qed

section \<open>Its simulation and its verdict\<close>

lemma summaries_without_capacity:
  assumes "summarize_simulation np ledgers lots [] = Inr s"
  shows "\<forall>k \<in> set (sm_by_key s). ks_capacity_violation k = None \<and> 0 \<le> ks_fill_rate k"
proof -
  have one: "ks_capacity_violation k = None" if "summarize_key [] lots key gs = Inr k" for key gs k
    using that by (auto simp: summarize_key_def Let_def contract_def split: prod.splits if_splits elim!: ebind_InrE)
  have "\<forall>k \<in> set (sm_by_key s). ks_capacity_violation k = None"
    using assms by (auto simp: summarize_simulation_def summary_of_keys_def contract_def Let_def split: if_splits
        elim!: ebind_InrE dest!: emap_in_set one)
  moreover have "sim_summary_ok s"
    using assms by (auto simp: summarize_simulation_def summary_of_keys_def contract_def Let_def split: if_splits elim!: ebind_InrE)
  ultimately show ?thesis by (simp add: sim_summary_ok_def list_all_iff key_summary_ok_def)
qed

lemma delivered_run:
  assumes "pid \<noteq> []"
  obtains r where "simulate_inventory np pd flour_stock (flour_demand 3) [] [truck pid] [] (Some mill_policy) None [] (Some 10) (Some 11) = Inr r"
    "sr_accounting_valid r" "\<forall>k \<in> set (sm_by_key (sr_summary r)). ks_capacity_violation k = None \<and> 0 \<le> ks_fill_rate k"
proof -
  obtain su where su: "prepare (policy_or_default (Some mill_policy)) (flour_demand 3) 11 ([] @ [truck pid]) (delivered pid) = Inr su"
    "\<forall>k \<in> set (su_keys su). whole_run (su_inputs su) [10..11] (su_start su) k" "su_capacity_keys su = []"
    by (rule delivered_setup [OF assms])
  have w: "sim_window (flour_demand 3) (Some 10) (Some 11) = Inr (10, 11)"
    by (simp add: sim_window_def flour_demand_def py_min_def py_max_def first_some_def somes_def List.map_filter_simps Let_def)
  have sn: "check_snapshot 10 flour_stock ([] @ [truck pid]) [] = Inr ()"
    by (simp add: check_snapshot_def snapshot_ok_def flour_stock_def flour_def truck_def)
  have "''lot'' \<noteq> pid @ ''-lot-0000''"
    by (rule notI, drule arg_cong [of _ _ length]) simp
  then have ids: "check_identifiers flour_stock ([] @ [truck pid]) [] = Inr ()"
    by (simp add: check_identifiers_def validate_unique_def flour_stock_def flour_def truck_def)
  from whole_run_succeeds [OF w sn ids delivered_canonicalize su(1,2), of np] obtain r
    where r: "simulate_inventory np pd flour_stock (flour_demand 3) [] [truck pid] [] (Some mill_policy) None [] (Some 10) (Some 11) = Inr r"
    by blast
  have a: "sr_accounting_valid r"
    using r by (auto simp: simulate_inventory_def assemble_def Let_def elim!: ebind_InrE)
  obtain gs lots where sm: "summarize_simulation np gs lots [] = Inr (sr_summary r)"
    using r su(1,3) delivered_canonicalize [of pd 3 pid] w
    by (auto simp: simulate_inventory_def assemble_def Let_def elim!: ebind_InrE)
  with summaries_without_capacity [OF sm] that [OF r a] show ?thesis by blast
qed

definition sound_package :: "sim_package \<Rightarrow> bool" where
  "sound_package p \<longleftrightarrow> pk_risk p = None \<and> list_all sr_accounting_valid (pk_results p) \<and>
     list_all (\<lambda>k. ks_capacity_violation k = None \<and> 0 \<le> ks_fill_rate k) (package_keys p)"

lemma delivered_package:
  assumes "pid \<noteq> []"
  obtains p where "design_simulation np pd flour_request [truck pid] [] = Inr p" "sound_package p"
proof -
  obtain r where r: "simulate_inventory np pd flour_stock (flour_demand 3) [] [truck pid] [] (Some mill_policy) None [] (Some 10) (Some 11) = Inr r"
    "sr_accounting_valid r" "\<forall>k \<in> set (sm_by_key (sr_summary r)). ks_capacity_violation k = None \<and> 0 \<le> ks_fill_rate k"
    by (rule delivered_run [OF assms])
  let ?run = "\<lambda>s. simulate_inventory np pd flour_stock s [] [truck pid] [] (Some mill_policy) None [] (Some 10) (Some 11)"
  have rs: "emap ?run [flour_demand 3] = Inr [r]" using r(1) by simp
  have w: "sc_probability_weight (flour_demand 3) = None" by (simp add: flour_demand_def)
  then have rw: "sr_probability_weight r = None" using scenario_run.batch_weights [OF rs] by simp
  have "is_ok (make_package [r] None pv)" for pv
    by (rule scenario_run.batch_package_ok [OF rs]) (simp_all add: w partial_weights_def bad_weight_sum_def all_some_def)
  then obtain p where p: "make_package [r] None [(''simulator'', PStr ''lot_level_fefo_v1''), (''probabilistic'', PBool False)] = Inr p"
    by (auto simp: is_ok_iff)
  have "design_simulation np pd flour_request [truck pid] [] = Inr p"
    using p r(1) by (simp add: design_simulation_def flour_request_fields w all_some_def simulate_inventory_scenarios_def input_scenarios_def
        check_scenarios_def partial_weights_def bad_weight_sum_def batch_package_def rw rules_frame_def with_capacity_context_def
        policy_or_default_def Let_def)
  moreover have "sound_package p"
    using p r(2,3) by (auto simp: sound_package_def make_package_def package_keys_def contract_def Let_def list_all_iff split: if_splits)
  ultimately show ?thesis by (rule that)
qed

lemma slack9_nonneg: "0 \<le> slack9"
  by code_simp

lemma py_min_or_ge: "0 \<le> c \<Longrightarrow> list_all (\<lambda>x. 0 \<le> x) xs \<Longrightarrow> 0 \<le> py_min_or c xs"
  using py_min_in [of xs] by (auto simp: py_min_or_def list_all_iff)

lemma sound_judgement:
  assumes "sound_package p" "candidate_plan solve np request (thrifty name) = Inr (plan, ws)"
  shows "\<exists>ws checks. judge_simulation plan request' (thrifty name) p = Inr ([], ws, checks)"
proof -
  have keys: "\<forall>k \<in> set (package_keys p). ks_capacity_violation k = None \<and> 0 \<le> ks_fill_rate k"
    using assms(1) unfolding sound_package_def list_all_iff by (elim conjE)
  have "0 \<le> minimum_exact_fill p"
    unfolding minimum_exact_fill_def using keys by (intro py_min_or_ge) (simp_all add: list_all_iff)
  then have "0 \<le> minimum_exact_fill p + slack9"
    using f64_add_increasing [OF slack9_nonneg] order_trans by blast
  then have "floor_holds (thrifty name) p"
    using assms(1) by (simp add: floor_holds_def thrifty_fields exact_stockout_def sound_package_def)
  moreover have "accounting_holds p" using assms(1) unfolding sound_package_def accounting_holds_def by (elim conjE)
  moreover have "capacity_holds p"
    using keys by (simp add: capacity_holds_def or_zero_def list_all_iff slack9_nonneg)
  moreover have "model_mismatch plan p (thrifty name) = Inr False"
    using candidate_from_solver [OF assms(2)] by (auto simp: from_solver_def model_mismatch_def dict_get_or_def split: option.split)
  ultimately show ?thesis
    by (simp add: judge_simulation_def probability_service_def thrifty_fields expected_fill_holds_def risk_verdict_def Let_def)
qed

lemma slack8_nonneg: "0 \<le> fl (1 / 10 ^ 8)"
  by code_simp

lemma close_same: "isclose x x rt ab"
  by (simp add: isclose_def)

lemma mill_line_sound: "line_violations (fl (1 / 10 ^ 8)) [(''o1'', mill_offer)] mill_line = Inr []"
proof -
  have "fint 2 \<le> fint 2 + fl (1 / 10 ^ 8)" by (rule f64_add_increasing [OF slack8_nonneg])
  then show ?thesis
    by (simp add: line_violations_def mill_line_def mill_fields mill_arrival kg_normal planned_expiry_def add_days_def
        date_max_def date_min_def flag_if_def close_rel_def close_same Let_def)
qed

lemma mill_constraints:
  assumes "pp_orders plan = [mill_line]" "pp_recourse plan = []"
  shows "\<exists>checks. validate_plan_constraints plan [mill_offer] [] None (fl (1 / 10 ^ 8)) = Inr ([], checks)"
  using assms mill_line_sound
  by (simp add: validate_plan_constraints_def plan_lines_def index_by_def mill_fields flag_if_def sorted_set_def Let_def)

lemma mill_verdict:
  assumes "candidate_plan mill_solver np flour_request (thrifty name) = Inr (plan, [])" "pp_orders plan = [mill_line]"
    "pp_solver_status plan = ''OPTIMAL''" "pp_recourse plan = []" "sound_package p"
  shows "\<exists>c. critique_procurement_plan plan flour_request (thrifty name) (Some p) None err = Inr c \<and> cr_passed c"
proof -
  obtain checks where "validate_plan_constraints plan [mill_offer] [] None (fl (1 / 10 ^ 8)) = Inr ([], checks)"
    using mill_constraints [OF assms(2,4)] by blast
  moreover obtain ws sc where "judge_simulation plan flour_request (thrifty name) p = Inr ([], ws, sc)"
    using sound_judgement [OF assms(5,1)] by blast
  moreover have "own_violations plan flour_request = []"
    by (simp add: own_violations_def assms(3) flour_request_fields mill_policy_def default_policy_def flag_if_def)
  ultimately show ?thesis
    by (simp add: critique_procurement_plan_def flour_request_fields judge_stress_def sorted_set_def Let_def)
qed

lemma mill_evaluation:
  obtains plan e where "candidate_plan mill_solver np flour_request (thrifty name) = Inr (plan, [])" "pp_orders plan = [mill_line]"
    "evaluate_candidate_plan np pd (None :: unit supply_model option) plan (thrifty name) flour_request = Inr (e, flour_request)"
    "cr_passed (ce_critic e)" "pp_orders (ce_plan e) = [mill_line]"
proof -
  obtain plan where plan: "candidate_plan mill_solver np flour_request (thrifty name) = Inr (plan, [])" "pp_orders plan = [mill_line]"
    "pp_solver_status plan = ''OPTIMAL''" "pp_plan_id plan = plan_name flour_request (thrifty name)" "pp_recourse plan = []"
    by (rule mill_candidate)
  have "pp_plan_id plan \<noteq> []" by (simp add: plan(4) plan_name_def)
  then obtain p where p: "design_simulation np pd flour_request [truck (pp_plan_id plan)] [] = Inr p" "sound_package p"
    by (rule delivered_package)
  obtain c where c: "critique_procurement_plan plan flour_request (thrifty name) (Some p) None None = Inr c" "cr_passed c"
    using mill_verdict [OF plan(1-3,5) p(2)] by blast
  have "planned_supply (None :: unit supply_model option) plan flour_request = Inr ([truck (pp_plan_id plan)], [])"
    using mill_truck [OF \<open>pp_plan_id plan \<noteq> []\<close>] by (simp add: planned_supply_def plan(2,5))
  moreover have "evaluate_risk np pd flour_request b s = Inr (None, flour_request)" for b s
    by (simp add: evaluate_risk_def flour_request_fields flour_demand_def all_some_def)
  moreover have "evaluate_stress np pd flour_request b s = Inr (None, None)" for b s
    by (simp add: evaluate_stress_def flour_request_fields)
  ultimately have "evaluate_candidate_plan np pd (None :: unit supply_model option) plan (thrifty name) flour_request =
    Inr (\<lparr>ce_plan = plan\<lparr>pp_completed := True\<rparr>, ce_simulation = Some p, ce_risk_simulation = None,
      ce_stress_simulation = None, ce_critic = c\<rparr>, flour_request)"
    using p(1) c by (simp add: evaluate_candidate_plan_def catching_def Let_def)
  from that [OF plan(1,2) this] show ?thesis using c(2) plan(2) by simp
qed


section \<open>The recommendation\<close>

lemma mill_profiles: "profiles_of flour_request = [thrifty Lean, thrifty Balanced, thrifty Protected]"
  by (simp add: profiles_of_def flour_request_fields default_strategy_profiles_def base_profile_def thrifty_fields index_by_def
      dict_merge_def Let_def)

lemma mill_result:
  obtains result where "optimize_procurement mill_solver np pd (None :: unit supply_model option) flour_request = Inr result"
    "os_recommended result \<noteq> None" "executed_orders result 10 = [mill_line]"
proof -
  have one: "\<exists>e. (\<forall>evs ws. optimize_profile mill_solver np pd (None :: unit supply_model option)
      \<lparr>op_request = flour_request, op_evaluations = evs, op_warnings = ws\<rparr> (thrifty name) =
        Inr \<lparr>op_request = flour_request, op_evaluations = dict_set name e evs, op_warnings = ws\<rparr>) \<and>
      cr_passed (ce_critic e) \<and> pp_orders (ce_plan e) = [mill_line]" for name
    by (rule mill_evaluation [of np name pd]) (auto simp: optimize_profile_def thrifty_fields)
  obtain lean where lean: "\<And>evs ws. optimize_profile mill_solver np pd (None :: unit supply_model option)
      \<lparr>op_request = flour_request, op_evaluations = evs, op_warnings = ws\<rparr> (thrifty Lean) =
        Inr \<lparr>op_request = flour_request, op_evaluations = dict_set Lean lean evs, op_warnings = ws\<rparr>"
    "cr_passed (ce_critic lean)" "pp_orders (ce_plan lean) = [mill_line]" using one [of Lean] by blast
  obtain bal where bal: "\<And>evs ws. optimize_profile mill_solver np pd (None :: unit supply_model option)
      \<lparr>op_request = flour_request, op_evaluations = evs, op_warnings = ws\<rparr> (thrifty Balanced) =
        Inr \<lparr>op_request = flour_request, op_evaluations = dict_set Balanced bal evs, op_warnings = ws\<rparr>"
    "cr_passed (ce_critic bal)" "pp_orders (ce_plan bal) = [mill_line]" using one [of Balanced] by blast
  obtain pro where pro: "\<And>evs ws. optimize_profile mill_solver np pd (None :: unit supply_model option)
      \<lparr>op_request = flour_request, op_evaluations = evs, op_warnings = ws\<rparr> (thrifty Protected) =
        Inr \<lparr>op_request = flour_request, op_evaluations = dict_set Protected pro evs, op_warnings = ws\<rparr>"
    "cr_passed (ce_critic pro)" "pp_orders (ce_plan pro) = [mill_line]" using one [of Protected] by blast
  let ?evs = "[(Lean, lean), (Balanced, bal), (Protected, pro)]"
  obtain result where r: "optimize_procurement mill_solver np pd (None :: unit supply_model option) flour_request = Inr result"
    "os_evaluations result = ?evs" "os_recommended result = recommend ?evs"
    by (simp add: optimize_procurement_def mill_profiles lean(1) bal(1) pro(1) Let_def)
  have "filter (\<lambda>(name, e). cr_passed (ce_critic e)) ?evs = ?evs" by (simp add: lean(2) bal(2) pro(2))
  then obtain n where n: "recommend ?evs = Some n" by (simp add: recommend_def Let_def)
  obtain e where "dict_get ?evs n = Some e" "pp_orders (ce_plan e) = [mill_line]"
    using lean(3) bal(3) pro(3) by (cases n) simp_all
  moreover have "pl_order_date mill_line = 10" by (simp add: mill_line_def)
  ultimately have "executed_orders result 10 = [mill_line]"
    unfolding executed_orders_def r(2,3) n Option.bind.simps by (simp only: option.case filter.simps if_True simp_thms)
  with that [OF r(1)] show ?thesis by (simp add: r(3) n)
qed

theorem recommendation_safe_and_cheapest_witness:
  "\<exists>result. optimize_procurement mill_solver plain_numpy cell_pandas (None :: unit supply_model option) flour_request = Inr result \<and>
     os_recommended result \<noteq> None \<and> good_result flour_request result"
  by (rule mill_result [of plain_numpy cell_pandas]) (use recommendation_safe_and_cheapest in blast)


end
