(* ===== verification/Canonical_Json.thy ===== *)
theory Canonical_Json
  imports Decimal_Text
begin

text \<open>
  \<open>shelfcash_forecast/decision_intelligence/integrity.py\<close>: the canonical form of a value, its JSON text
  and its content hash. \<open>hashlib.sha256\<close>, the text of a float and of an instant are the record
  \<open>hashing\<close>; a float of the model is finite, so the check for infinities is the type's.
\<close>

section \<open>The canonical form\<close>

datatype json = JNull | JBool bool | JInt int | JNum f64 | JStr string | JList "json list" | JDict "(string \<times> json) list"

text \<open>\<open>_canonical_value\<close>: dates become text, dictionaries are sorted by key.\<close>

fun canonical_value :: "pyval \<Rightarrow> json" where
  "canonical_value PNone = JNull"
| "canonical_value (PBool b) = JBool b"
| "canonical_value (PInt n) = JInt n"
| "canonical_value (PNum x) = JNum x"
| "canonical_value (PStr s) = JStr s"
| "canonical_value (PDate d) = JStr (iso_date d)"
| "canonical_value (PList xs) = JList (map canonical_value xs)"
| "canonical_value (PDict d) = JDict (sort_key fst (map (\<lambda>(k, v). (k, canonical_value v)) d))"

section \<open>Its text\<close>

definition hex_digit :: "nat \<Rightarrow> char" where
  "hex_digit n = (if n < 10 then digit n else char_of (87 + n))"

text \<open>The escapes of \<open>json.dumps(..., ensure_ascii=False)\<close>.\<close>

definition json_char :: "char \<Rightarrow> string" where
  "json_char c =
     (let n = of_char c :: nat; bs = CHR 0x5C in
      if n = 34 \<or> n = 92 then [bs, c]
      else if n = 10 then [bs, CHR ''n'']
      else if n = 13 then [bs, CHR ''r'']
      else if n = 9 then [bs, CHR ''t'']
      else if n = 12 then [bs, CHR ''f'']
      else if n = 8 then [bs, CHR ''b'']
      else if n < 32 then [bs, CHR ''u'', CHR ''0'', CHR ''0'', hex_digit (n div 16), hex_digit (n mod 16)]
      else [c])"

definition quote_char :: char where
  "quote_char = CHR 0x22"

definition json_string :: "string \<Rightarrow> string" where
  "json_string s = quote_char # concat (map json_char s) @ [quote_char]"

text \<open>\<open>json.dumps\<close> with the separators \<open>","\<close> and \<open>":"\<close>, given the text of floats.\<close>

fun json_text :: "(f64 \<Rightarrow> string) \<Rightarrow> json \<Rightarrow> string" where
  "json_text rep JNull = ''null''"
| "json_text rep (JBool b) = (if b then ''true'' else ''false'')"
| "json_text rep (JInt n) = int_text n"
| "json_text rep (JNum x) = rep x"
| "json_text rep (JStr s) = json_string s"
| "json_text rep (JList xs) = ''['' @ str_join '','' (map (json_text rep) xs) @ '']''"
| "json_text rep (JDict d) = ''{'' @ str_join '','' (map (\<lambda>(k, v). json_string k @ '':'' @ json_text rep v) d) @ ''}''"

section \<open>The content hash\<close>

text \<open>SHA-256 in hexadecimal, \<open>float.__repr__\<close>, and \<open>datetime.isoformat\<close> of an instant in UTC.\<close>

record hashing =
  hs_sha256 :: "string \<Rightarrow> string"
  hs_float :: "f64 \<Rightarrow> string"
  hs_instant :: "int \<Rightarrow> string"

definition HASH_PREFIX :: string where
  "HASH_PREFIX = ''sha256:''"

definition canonical_json :: "hashing \<Rightarrow> pyval \<Rightarrow> string" where
  "canonical_json H v = json_text (hs_float H) (canonical_value v)"

definition sha256_content_hash :: "hashing \<Rightarrow> pyval \<Rightarrow> string" where
  "sha256_content_hash H v = HASH_PREFIX @ hs_sha256 H (canonical_json H v)"

definition evidence_package_hash :: "hashing \<Rightarrow> string \<Rightarrow> string \<Rightarrow> string list \<Rightarrow> (string \<times> string) list \<Rightarrow> string" where
  "evidence_package_hash H request_id schema_version source_layers ordered_items =
     sha256_content_hash H (PDict
       [(''request_id'', PStr request_id), (''schema_version'', PStr schema_version),
        (''source_layers'', PList (map PStr source_layers)),
        (''ordered_items'', PList (map (\<lambda>(evidence_id, content_hash).
           PDict [(''evidence_id'', PStr evidence_id), (''content_hash'', PStr content_hash)]) ordered_items))])"

definition is_full_sha256 :: "string \<Rightarrow> bool" where
  "is_full_sha256 value \<longleftrightarrow>
     starts_with HASH_PREFIX value \<and>
     (let d = drop (length HASH_PREFIX) value in
      length d = 64 \<and> list_all (\<lambda>c. c \<in> set ''0123456789abcdef'') d)"

section \<open>The text determines the value\<close>

text \<open>What the code relies on in the text of a float: it is a number, never an integer literal, and its own.\<close>

definition number_chars :: "char set" where
  "number_chars = set ''0123456789+-.e''"

definition float_text_ok :: "(f64 \<Rightarrow> string) \<Rightarrow> bool" where
  "float_text_ok rep \<longleftrightarrow> inj rep \<and>
     (\<forall>x. rep x \<noteq> [] \<and> set (rep x) \<subseteq> number_chars \<and> (CHR ''.'' \<in> set (rep x) \<or> CHR ''e'' \<in> set (rep x)))"

text \<open>A value ends where no number can go on.\<close>

definition ends_value :: "string \<Rightarrow> bool" where
  "ends_value s \<longleftrightarrow> s = [] \<or> hd s \<notin> number_chars"

text \<open>One escaped character, read back.\<close>

definition hex_value :: "char \<Rightarrow> nat" where
  "hex_value c = (if of_char c < (58 :: nat) then of_char c - 48 else of_char c - 87)"

definition unescape :: "string \<Rightarrow> char \<times> string" where
  "unescape s = (case s of
     c # d # r \<Rightarrow> if c = CHR 0x5C then
         (if d = CHR ''n'' then (char_of (10 :: nat), r) else if d = CHR ''r'' then (char_of (13 :: nat), r)
          else if d = CHR ''t'' then (char_of (9 :: nat), r) else if d = CHR ''f'' then (char_of (12 :: nat), r)
          else if d = CHR ''b'' then (char_of (8 :: nat), r)
          else if d = CHR ''u'' then (char_of (hex_value (r ! 2) * 16 + hex_value (r ! 3)), drop 4 r)
          else (d, r))
       else (c, d # r)
   | [c] \<Rightarrow> (c, []) | [] \<Rightarrow> (CHR ''x'', []))"

lemma hex_digit_back: "n < 16 \<Longrightarrow> hex_value (hex_digit n) = n"
  by (simp add: hex_digit_def hex_value_def digit_neq of_char_of)

lemma special_chars: "char_of (34 :: nat) = CHR 0x22" "char_of (92 :: nat) = CHR 0x5C"
  by code_simp+

lemma unescape_json_char: "unescape (json_char c @ r) = (c, r)"
proof -
  have c: "c = char_of (of_char c :: nat)" by simp
  let ?n = "of_char c :: nat"
  consider "?n = 34" | "?n = 92" | "?n = 10" | "?n = 13" | "?n = 9" | "?n = 12" | "?n = 8"
    | "?n < 32" "?n \<notin> {10, 13, 9, 12, 8}" | "32 \<le> ?n" "?n \<noteq> 34" "?n \<noteq> 92" by force
  then show ?thesis
  proof cases
    case 1
    then have "c = CHR 0x22" using c by (simp add: special_chars)
    then show ?thesis by (simp add: json_char_def unescape_def Let_def)
  next
    case 2
    then have "c = CHR 0x5C" using c by (simp add: special_chars)
    then show ?thesis by (simp add: json_char_def unescape_def Let_def)
  next
    case 3
    then show ?thesis using c by (simp add: json_char_def unescape_def Let_def of_char_of)
  next
    case 8
    have "?n div 16 < 16" "?n mod 16 < 16" using 8 by auto
    note h = hex_digit_back [OF this(1)] hex_digit_back [OF this(2)]
    have j: "json_char c @ r = CHR 0x5C # CHR ''u'' # CHR ''0'' # CHR ''0'' # hex_digit (?n div 16) # hex_digit (?n mod 16) # r"
      using 8 by (simp add: json_char_def Let_def)
    have "?n div 16 * 16 + ?n mod 16 = ?n" by simp
    then show ?thesis unfolding j by (simp add: unescape_def h del: div_mult_mod_eq)
  next
    case 9
    then have "c \<noteq> CHR 0x5C" by auto
    with 9 show ?thesis by (cases r) (simp_all add: json_char_def unescape_def Let_def)
  qed (use c in \<open>simp_all add: json_char_def unescape_def Let_def of_char_of\<close>)
qed


lemma json_char_start: "json_char c \<noteq> [] \<and> hd (json_char c) \<noteq> CHR 0x22"
proof (cases "of_char c = (34 :: nat)")
  case False
  then have "c \<noteq> CHR 0x22" by auto
  then show ?thesis by (simp add: json_char_def Let_def)
qed (simp add: json_char_def)

lemma json_chars_cancel:
  assumes "concat (map json_char s) @ CHR 0x22 # r = concat (map json_char s') @ CHR 0x22 # r'"
  shows "s = s' \<and> r = r'"
  using assms
proof (induction s arbitrary: s')
  case Nil
  then show ?case using json_char_start by (cases s') (auto, metis append_eq_Cons_conv list.sel(1))
next
  case (Cons c cs)
  show ?case
  proof (cases s')
    case Nil
    then show ?thesis using Cons.prems json_char_start [of c] by (auto simp: append_eq_Cons_conv)
  next
    case (Cons d ds)
    have "unescape (json_char c @ concat (map json_char cs) @ CHR 0x22 # r) = unescape (json_char d @ concat (map json_char ds) @ CHR 0x22 # r')"
      using Cons.prems Cons by simp
    then show ?thesis using Cons.IH [of ds] Cons by (simp add: unescape_json_char)
  qed
qed

lemma json_string_cancel: "json_string k @ s = json_string k' @ t \<longleftrightarrow> k = k' \<and> s = t"
  using json_chars_cancel [of k s k' t] by (auto simp: json_string_def quote_char_def)

section \<open>Sequences\<close>

lemma number_cancel:
  assumes "set u \<subseteq> number_chars" "set v \<subseteq> number_chars" "ends_value s" "ends_value t" "u @ s = v @ t"
  shows "u = v \<and> s = t"
proof -
  have "takeWhile (\<lambda>c. c \<in> number_chars) (u @ s) = u" if "set u \<subseteq> number_chars" "ends_value s" for u s
    using that by (cases s) (auto simp: ends_value_def takeWhile_append)
  from this [OF assms(1,3)] this [OF assms(2,4)] assms(5) show ?thesis by auto
qed

definition splits_off :: "('a \<Rightarrow> string) \<Rightarrow> 'a \<Rightarrow> bool" where
  "splits_off f x \<longleftrightarrow> (\<forall>y s t. ends_value s \<longrightarrow> ends_value t \<longrightarrow> f x @ s = f y @ t \<longrightarrow> x = y \<and> s = t)"

lemma tail_cancel:
  assumes "\<forall>x \<in> set xs. splits_off f x" "c \<notin> number_chars" "c \<noteq> CHR '',''"
    and "concat (map (\<lambda>z. '','' @ f z) xs) @ c # s = concat (map (\<lambda>z. '','' @ f z) ys) @ c # t"
  shows "xs = ys \<and> s = t"
  using assms(1,4)
proof (induction xs arbitrary: ys)
  case Nil
  then show ?case using assms(3) by (cases ys) auto
next
  case (Cons x xs)
  have e: "ends_value (concat (map (\<lambda>z. '','' @ f z) zs) @ c # r)" for zs r
    using assms(2) by (cases zs) (auto simp: ends_value_def number_chars_def)
  show ?case
  proof (cases ys)
    case (Cons y ys')
    then have "f x @ concat (map (\<lambda>z. '','' @ f z) xs) @ c # s = f y @ concat (map (\<lambda>z. '','' @ f z) ys') @ c # t"
      using Cons.prems(2) by simp
    then have "x = y" "concat (map (\<lambda>z. '','' @ f z) xs) @ c # s = concat (map (\<lambda>z. '','' @ f z) ys') @ c # t"
      using Cons.prems(1) e unfolding splits_off_def by (metis list.set_intros(1))+
    then show ?thesis using Cons.IH [of ys'] Cons.prems(1) Cons by simp
  qed (use Cons.prems(2) assms(3) in auto)
qed

lemma join_cancel:
  assumes "\<forall>x \<in> set xs. splits_off f x" "c \<notin> number_chars" "c \<noteq> CHR '',''"
    and "\<forall>x r. f x @ r \<noteq> [] \<and> hd (f x @ r) \<noteq> c"
    and "str_join '','' (map f xs) @ c # s = str_join '','' (map f ys) @ c # t"
  shows "xs = ys \<and> s = t"
proof (cases "xs = [] \<or> ys = []")
  case True
  have "str_join '','' (map f zs) @ c # r \<noteq> c # r'" if nz: "zs \<noteq> []" for zs r r'
  proof -
    obtain z zs' where zs: "zs = z # zs'" using nz by (cases zs) auto
    have "str_join '','' (map f zs) @ c # r = f z @ concat (map (\<lambda>z. '','' @ z) (map f zs')) @ c # r"
      by (simp add: zs str_join_def comp_def)
    then show ?thesis using assms(4) by (metis list.sel(1))
  qed
  note open_close = this
  show ?thesis
  proof (cases "xs = []")
    case True
    with assms(5) have "str_join '','' (map f ys) @ c # t = c # s" by (simp add: str_join_def)
    with open_close have ys: "ys = []" by blast
    then show ?thesis using True assms(5) by (simp add: str_join_def)
  next
    case False
    with True assms(5) have "ys = []" "str_join '','' (map f xs) @ c # s = c # t" by (simp_all add: str_join_def)
    with open_close False show ?thesis by blast
  qed
next
  case False
  then obtain x xs' y ys' where xy: "xs = x # xs'" "ys = y # ys'" by (cases xs; cases ys) auto
  have "concat (map (\<lambda>z. '','' @ f z) xs) @ c # s = concat (map (\<lambda>z. '','' @ f z) ys) @ c # t"
    using assms(5) by (simp add: xy str_join_def comp_def)
  from tail_cancel [OF assms(1-3) this] show ?thesis .
qed


section \<open>Values\<close>

text \<open>What the first character of a text says.\<close>

definition starts_as :: "json \<Rightarrow> char \<Rightarrow> bool" where
  "starts_as v c \<longleftrightarrow> (case v of JNull \<Rightarrow> c = CHR ''n'' | JBool b \<Rightarrow> c = (if b then CHR ''t'' else CHR ''f'')
     | JInt n \<Rightarrow> c \<in> number_chars | JNum x \<Rightarrow> c \<in> number_chars | JStr s \<Rightarrow> c = CHR 0x22
     | JList xs \<Rightarrow> c = CHR ''['' | JDict d \<Rightarrow> c = CHR ''{'')"

lemma digit_number: "k < 10 \<Longrightarrow> digit k \<in> number_chars"
proof -
  assume "k < 10"
  then have "k \<in> set [0, 1, 2, 3, 4, 5, 6, 7, 8, 9]" by force
  moreover have "map digit [0, 1, 2, 3, 4, 5, 6, 7, 8, 9] = ''0123456789''" by code_simp
  ultimately have "digit k \<in> set ''0123456789''" by (metis image_eqI set_map)
  then show ?thesis by (auto simp: number_chars_def)
qed

lemma int_text_number: "int_text n \<noteq> [] \<and> set (int_text n) \<subseteq> number_chars"
proof -
  have "set (decimal k) \<subseteq> number_chars" for k using decimal_digits digit_number by blast
  then show ?thesis using decimal_nonempty by (auto simp: int_text_def number_chars_def)
qed

lemma text_starts:
  assumes "float_text_ok rep"
  shows "json_text rep v \<noteq> [] \<and> starts_as v (hd (json_text rep v))"
proof -
  have "rep x \<noteq> [] \<and> hd (rep x) \<in> number_chars" for x
    using assms unfolding float_text_ok_def by (meson hd_in_set subsetD)
  moreover have "int_text n \<noteq> [] \<and> hd (int_text n) \<in> number_chars" for n
    using int_text_number [of n] by (meson hd_in_set subsetD)
  ultimately show ?thesis by (cases v) (simp_all add: starts_as_def json_string_def quote_char_def)
qed

lemma int_text_plain: "CHR ''.'' \<notin> set (int_text n) \<and> CHR ''e'' \<notin> set (int_text n)"
proof -
  have "c \<noteq> CHR ''.'' \<and> c \<noteq> CHR ''e''" if c: "c \<in> set (decimal k)" for c k
  proof -
    obtain j where "j < 10" "c = digit j" using decimal_digits [OF c] by blast
    then have "of_char c = 48 + j" "j < 10" by (simp_all add: digit_neq)
    then show ?thesis by auto
  qed
  then show ?thesis by (auto simp: int_text_def)
qed

lemma same_start:
  assumes "float_text_ok rep" "json_text rep v @ s = json_text rep w @ t"
  shows "\<exists>c. starts_as v c \<and> starts_as w c"
  using text_starts [OF assms(1), of v] text_starts [OF assms(1), of w] assms(2) by (metis hd_append2)

lemma number_splits:
  assumes "float_text_ok rep" "v = JInt n \<or> v = JNum x" "ends_value s" "ends_value t" "json_text rep v @ s = json_text rep w @ t"
  shows "v = w \<and> s = t"
proof -
  obtain c where c: "starts_as v c" "starts_as w c" using same_start [OF assms(1,5)] by blast
  have num: "set (json_text rep u) \<subseteq> number_chars" if "(\<exists>n. u = JInt n) \<or> (\<exists>x. u = JNum x)" for u
    using that
  proof (elim disjE exE)
    fix n assume "u = JInt n"
    then show ?thesis using int_text_number [of n] by simp
  next
    fix x assume "u = JNum x"
    then show ?thesis using assms(1) by (simp add: float_text_ok_def)
  qed
  have w: "(\<exists>n. w = JInt n) \<or> (\<exists>x. w = JNum x)"
    using c assms(2) by (cases w) (auto simp: starts_as_def number_chars_def split: if_splits)
  have t: "json_text rep v = json_text rep w" "s = t"
    using number_cancel [OF num num assms(3-5)] assms(2) w by blast+
  have dot: "CHR ''.'' \<in> set (rep x) \<or> CHR ''e'' \<in> set (rep x)" and inj: "rep x = rep y \<longleftrightarrow> x = y" for x y
    using assms(1) by (auto simp: float_text_ok_def inj_def)
  show ?thesis using t assms(2) w int_text_plain dot by (auto simp: int_text_inj inj) metis+
qed

lemma text_splits:
  assumes rep: "float_text_ok rep"
  shows "splits_off (json_text rep) v"
proof (induction v)
  case (JList xs)
  show ?case unfolding splits_off_def
  proof (intro allI impI)
    fix w s t assume st: "ends_value s" "ends_value t" and eq: "json_text rep (JList xs) @ s = json_text rep w @ t"
    obtain ys where w: "w = JList ys"
      using same_start [OF rep eq] by (cases w) (auto simp: starts_as_def number_chars_def split: if_splits)
    have "hd (json_text rep x @ r) \<noteq> CHR '']''" "json_text rep x @ r \<noteq> []" for x r
      using text_starts [OF rep, of x] by (cases x; auto simp: starts_as_def number_chars_def split: if_splits)+
    then have "xs = ys \<and> s = t"
      by (intro join_cancel [of xs "json_text rep" "CHR '']''"]) (use JList eq w in \<open>auto simp: number_chars_def\<close>)
    then show "JList xs = w \<and> s = t" by (simp add: w)
  qed
next
  case (JDict d)
  let ?f = "\<lambda>(k, v). json_string k @ '':'' @ json_text rep v"
  have each: "splits_off ?f x" if "x \<in> set d" for x
    using JDict [OF that, of "snd x"] by (cases x) (auto simp: splits_off_def json_string_cancel snds.simps)
  show ?case unfolding splits_off_def
  proof (intro allI impI)
    fix w s t assume st: "ends_value s" "ends_value t" and eq: "json_text rep (JDict d) @ s = json_text rep w @ t"
    obtain d' where w: "w = JDict d'"
      using same_start [OF rep eq] by (cases w) (auto simp: starts_as_def number_chars_def split: if_splits)
    have "hd (?f x @ r) \<noteq> CHR ''}''" "?f x @ r \<noteq> []" for x r
      by (auto simp: json_string_def quote_char_def split: prod.split)
    then have "d = d' \<and> s = t"
      by (intro join_cancel [of d ?f "CHR ''}''"]) (use each eq w in \<open>auto simp: number_chars_def\<close>)
    then show "JDict d = w \<and> s = t" by (simp add: w)
  qed
next
  case (JStr a)
  show ?case unfolding splits_off_def
  proof (intro allI impI)
    fix w s t assume eq: "json_text rep (JStr a) @ s = json_text rep w @ t"
    obtain b where w: "w = JStr b"
      using same_start [OF rep eq] by (cases w) (auto simp: starts_as_def number_chars_def split: if_splits)
    with eq show "JStr a = w \<and> s = t" by (simp add: json_string_cancel)
  qed
next
  case (JInt n)
  then show ?case unfolding splits_off_def using number_splits [OF rep] by blast
next
  case (JNum x)
  then show ?case unfolding splits_off_def using number_splits [OF rep] by blast
next
  case (JBool b)
  show ?case unfolding splits_off_def
  proof (intro allI impI)
    fix w s t assume eq: "json_text rep (JBool b) @ s = json_text rep w @ t"
    obtain b' where w: "w = JBool b'"
      using same_start [OF rep eq] by (cases w) (auto simp: starts_as_def number_chars_def split: if_splits)
    with eq show "JBool b = w \<and> s = t" by (auto split: if_splits)
  qed
next
  case JNull
  show ?case unfolding splits_off_def
  proof (intro allI impI)
    fix w s t assume eq: "json_text rep JNull @ s = json_text rep w @ t"
    have "w = JNull"
      using same_start [OF rep eq] by (cases w) (auto simp: starts_as_def number_chars_def split: if_splits)
    with eq show "JNull = w \<and> s = t" by auto
  qed
qed

lemma json_text_inj: "float_text_ok rep \<Longrightarrow> json_text rep v = json_text rep w \<longleftrightarrow> v = w"
  using text_splits [of rep v] unfolding splits_off_def ends_value_def by (metis append_Nil2)

end
