(* ===== verification/Approval.thy ===== *)
theory Approval
  imports Canonical_Json Opt_Contracts
begin

text \<open>
  \<open>shelfcash_forecast/decision_intelligence/approval\<close>: the human approval of a decision's orders. A case
  binds the orders and the hash of the decision package; its events form a hash chain, and each
  event is a transition of the state. Of a decision package the code reads the request id, the
  strategy and the immediate orders and hashes the rest, which is its dump; the request is the
  record of \<open>Opt_Contracts\<close>, of which the id and the offers are read. An instant is a number in UTC,
  and the roles of a policy, a \<open>set[str]\<close>, are listed in the iteration order of the set.
\<close>

section \<open>Contracts\<close>

datatype approval_state = Draft | PendingApproval | Approved | Rejected | Cancelled | Expired | Stale

fun approval_state_text :: "approval_state \<Rightarrow> string" where
  "approval_state_text Draft = ''DRAFT''"
| "approval_state_text PendingApproval = ''PENDING_APPROVAL''"
| "approval_state_text Approved = ''APPROVED''"
| "approval_state_text Rejected = ''REJECTED''"
| "approval_state_text Cancelled = ''CANCELLED''"
| "approval_state_text Expired = ''EXPIRED''"
| "approval_state_text Stale = ''STALE''"

text \<open>\<open>ApprovalError\<close> with its code, or a rejection by a contract.\<close>

datatype approval_error = ApprovalError string | ContractError string

type_synonym 'a approval = "(approval_error, 'a) result"

record approval_policy =
  ap_policy_id :: string
  ap_submitters :: "string list"
  ap_approvers :: "string list"
  ap_cancellers :: "string list"
  ap_self_approval :: bool

definition policy_dump :: "approval_policy \<Rightarrow> pyval" where
  "policy_dump p = PDict
     [(''policy_id'', PStr (ap_policy_id p)), (''submitter_roles'', PList (map PStr (ap_submitters p))),
      (''approver_roles'', PList (map PStr (ap_approvers p))), (''cancellation_roles'', PList (map PStr (ap_cancellers p))),
      (''allow_self_approval'', PBool (ap_self_approval p))]"

record approval_line =
  al_offer_id :: string
  al_supplier_id :: string
  al_store_id :: string
  al_ingredient_id :: string
  al_unit :: string
  al_order_date :: string
  al_arrival_date :: string
  al_pack_count :: int
  al_pack_size :: f64
  al_order_quantity :: f64
  al_unit_price :: f64
  al_purchase_cost :: f64
  al_delivery_cost :: f64

definition approval_line_ok :: "approval_line \<Rightarrow> bool" where
  "approval_line_ok l \<longleftrightarrow> 0 \<le> al_pack_count l \<and> 0 < al_pack_size l \<and> 0 \<le> al_order_quantity l \<and>
     0 \<le> al_unit_price l \<and> 0 \<le> al_purchase_cost l \<and> 0 \<le> al_delivery_cost l"

definition line_dump :: "approval_line \<Rightarrow> pyval" where
  "line_dump l = PDict
     [(''offer_id'', PStr (al_offer_id l)), (''supplier_id'', PStr (al_supplier_id l)), (''store_id'', PStr (al_store_id l)),
      (''ingredient_id'', PStr (al_ingredient_id l)), (''unit'', PStr (al_unit l)), (''order_date'', PStr (al_order_date l)),
      (''arrival_date'', PStr (al_arrival_date l)), (''pack_count'', PInt (al_pack_count l)), (''pack_size'', PNum (al_pack_size l)),
      (''order_quantity'', PNum (al_order_quantity l)), (''unit_price'', PNum (al_unit_price l)),
      (''purchase_cost'', PNum (al_purchase_cost l)), (''delivery_cost'', PNum (al_delivery_cost l))]"

record approval_event =
  ae_sequence :: nat
  ae_event_id :: string
  ae_previous_hash :: "string option"
  ae_event_hash :: string
  ae_actor :: string
  ae_role :: string
  ae_from :: "approval_state option"
  ae_to :: approval_state
  ae_reason :: string
  ae_timestamp :: int
  ae_payload_hash :: string
  ae_idempotency_key :: string

record approval_case =
  cs_case_id :: string
  cs_state :: approval_state
  cs_decision_hash :: string
  cs_request_id :: string
  cs_strategy :: strategy_name
  cs_orders :: "approval_line list"
  cs_orders_hash :: string
  cs_created_at :: int
  cs_expires_at :: int
  cs_policy :: approval_policy
  cs_requester :: string
  cs_requester_role :: string
  cs_idempotency_key :: string
  cs_events :: "approval_event list"
  cs_limitations :: "string list"
  cs_case_hash :: string

section \<open>Hashes\<close>

text \<open>The JSON form of an instant: \<open>isoformat().replace("+00:00", "Z")\<close>, which is how pydantic dumps it.\<close>

fun replace_str :: "string \<Rightarrow> string \<Rightarrow> string \<Rightarrow> string" where
  "replace_str old new [] = []"
| "replace_str old new (c # s) =
     (if old \<noteq> [] \<and> starts_with old (c # s) then new @ replace_str old new (drop (length old - 1) s)
      else c # replace_str old new s)"

definition instant_text :: "hashing \<Rightarrow> int \<Rightarrow> string" where
  "instant_text H t = replace_str ''+00:00'' ''Z'' (hs_instant H t)"

text \<open>An event without its hash and its identifier.\<close>

definition event_material :: "hashing \<Rightarrow> approval_event \<Rightarrow> pyval" where
  "event_material H e = PDict
     [(''sequence'', PInt (int (ae_sequence e))), (''previous_event_hash'', opt_val PStr (ae_previous_hash e)),
      (''actor'', PStr (ae_actor e)), (''role'', PStr (ae_role e)),
      (''from_state'', opt_val (PStr \<circ> approval_state_text) (ae_from e)), (''to_state'', PStr (approval_state_text (ae_to e))),
      (''reason'', PStr (ae_reason e)), (''timestamp'', PStr (instant_text H (ae_timestamp e))),
      (''payload_hash'', PStr (ae_payload_hash e)), (''idempotency_key'', PStr (ae_idempotency_key e))]"

text \<open>\<open>hash[7:31]\<close>.\<close>

definition short_hash :: "string \<Rightarrow> string" where
  "short_hash h = take 24 (drop 7 h)"

definition event_id_of :: "string \<Rightarrow> string" where
  "event_id_of h = ''approval-event-'' @ short_hash h"

definition make_event ::
    "hashing \<Rightarrow> nat \<Rightarrow> string option \<Rightarrow> string \<Rightarrow> string \<Rightarrow> approval_state option \<Rightarrow> approval_state \<Rightarrow> string \<Rightarrow> int \<Rightarrow>
     string \<Rightarrow> string \<Rightarrow> approval_event" where
  "make_event H sequence previous actor role from_state to_state reason timestamp payload_hash key =
     (let e = \<lparr>ae_sequence = sequence, ae_event_id = [], ae_previous_hash = previous, ae_event_hash = [], ae_actor = actor,
               ae_role = role, ae_from = from_state, ae_to = to_state, ae_reason = reason, ae_timestamp = timestamp,
               ae_payload_hash = payload_hash, ae_idempotency_key = key\<rparr>;
          h = sha256_content_hash H (event_material H e) in
      e\<lparr>ae_event_id := event_id_of h, ae_event_hash := h\<rparr>)"

definition orders_digest :: "hashing \<Rightarrow> approval_line list \<Rightarrow> string" where
  "orders_digest H orders = sha256_content_hash H (PList (map line_dump orders))"

definition event_dump :: "hashing \<Rightarrow> approval_event \<Rightarrow> pyval" where
  "event_dump H e = PDict
     [(''sequence'', PInt (int (ae_sequence e))), (''event_id'', PStr (ae_event_id e)),
      (''previous_event_hash'', opt_val PStr (ae_previous_hash e)), (''event_hash'', PStr (ae_event_hash e)),
      (''actor'', PStr (ae_actor e)), (''role'', PStr (ae_role e)),
      (''from_state'', opt_val (PStr \<circ> approval_state_text) (ae_from e)), (''to_state'', PStr (approval_state_text (ae_to e))),
      (''reason'', PStr (ae_reason e)), (''timestamp'', PStr (instant_text H (ae_timestamp e))),
      (''payload_hash'', PStr (ae_payload_hash e)), (''idempotency_key'', PStr (ae_idempotency_key e))]"

text \<open>A case without its own hash.\<close>

definition case_dump :: "hashing \<Rightarrow> approval_case \<Rightarrow> pyval" where
  "case_dump H c = PDict
     [(''case_id'', PStr (cs_case_id c)), (''state'', PStr (approval_state_text (cs_state c))),
      (''decision_package_hash'', PStr (cs_decision_hash c)), (''request_id'', PStr (cs_request_id c)),
      (''recommended_strategy'', PStr (strategy_text (cs_strategy c))), (''orders'', PList (map line_dump (cs_orders c))),
      (''orders_hash'', PStr (cs_orders_hash c)), (''package_created_at'', PStr (instant_text H (cs_created_at c))),
      (''expires_at'', PStr (instant_text H (cs_expires_at c))), (''policy'', policy_dump (cs_policy c)),
      (''requester_actor'', PStr (cs_requester c)), (''requester_role'', PStr (cs_requester_role c)),
      (''idempotency_key'', PStr (cs_idempotency_key c)), (''events'', PList (map (event_dump H) (cs_events c))),
      (''limitations'', PList (map PStr (cs_limitations c)))]"

section \<open>Integrity of a case\<close>

text \<open>The loop over the events: the sequence number and the hash each event must carry on.\<close>

definition chain_step :: "hashing \<Rightarrow> nat \<times> string option \<Rightarrow> approval_event \<Rightarrow> (nat \<times> string option) approval" where
  "chain_step H = (\<lambda>(sequence, previous) e.
     ebind (raise_if (ae_sequence e \<noteq> sequence \<or> ae_previous_hash e \<noteq> previous)
       (ContractError ''M6_APPROVAL_EVENT_CHAIN_BROKEN'')) (\<lambda>_.
     let expected = sha256_content_hash H (event_material H e) in
     ebind (raise_if (ae_event_hash e \<noteq> expected \<or> ae_event_id e \<noteq> event_id_of expected)
       (ContractError ''M6_APPROVAL_EVENT_HASH_MISMATCH'')) (\<lambda>_.
     Inr (Suc sequence, Some (ae_event_hash e)))))"

text \<open>\<open>ApprovalCase.validate_integrity\<close>, which sets the hash of the case.\<close>

definition validate_case :: "hashing \<Rightarrow> approval_case \<Rightarrow> approval_case approval" where
  "validate_case H c =
     ebind (raise_if (cs_expires_at c \<le> cs_created_at c) (ContractError ''M6_APPROVAL_EXPIRY_INVALID'')) (\<lambda>_.
     ebind (raise_if (cs_orders_hash c \<noteq> orders_digest H (cs_orders c)) (ContractError ''M6_APPROVAL_ORDER_BINDING_MISMATCH'')) (\<lambda>_.
     ebind (raise_if (\<not> is_full_sha256 (cs_decision_hash c)) (ContractError ''M6_APPROVAL_DECISION_HASH_INVALID'')) (\<lambda>_.
     ebind (efold (chain_step H) (0, None) (cs_events c)) (\<lambda>_.
     ebind (raise_if (cs_events c = [] \<or> ae_to (last (cs_events c)) \<noteq> cs_state c)
       (ContractError ''M6_APPROVAL_STATE_EVENT_MISMATCH'')) (\<lambda>_.
     let expected = sha256_content_hash H (case_dump H c) in
     ebind (raise_if (cs_case_hash c \<noteq> [] \<and> cs_case_hash c \<noteq> expected) (ContractError ''M6_APPROVAL_CASE_HASH_MISMATCH'')) (\<lambda>_.
     Inr (c\<lparr>cs_case_hash := expected\<rparr>)))))))"

section \<open>Opening a case\<close>

datatype decision_stage = FirstStage | ScenarioRecourse

record order_explanation =
  ox_evidence_id :: string
  ox_stage :: decision_stage
  ox_scenario_id :: "string option"
  ox_offer_id :: string
  ox_supplier_id :: string
  ox_store_id :: string
  ox_ingredient_id :: string
  ox_unit :: string
  ox_order_date :: date
  ox_arrival_date :: date
  ox_pack_count :: int
  ox_order_quantity :: f64
  ox_purchase_cost :: f64
  ox_delivery_cost :: f64
  ox_emergency :: bool

record final_decision =
  fd_request_id :: string
  fd_recommended :: "strategy_name option"
  fd_immediate_orders :: "order_explanation list"
  fd_dump :: pyval

definition decision_snapshot_hash :: "hashing \<Rightarrow> final_decision \<Rightarrow> string" where
  "decision_snapshot_hash H d = sha256_content_hash H (fd_dump d)"

definition approval_tolerance :: f64 where
  "approval_tolerance = fl (1 / 10 ^ 9)"

text \<open>One order bound to its offer, with the offer's price and pack.\<close>

definition bound_order :: "(string, supplier_offer) dict \<Rightarrow> order_explanation \<Rightarrow> approval_line approval" where
  "bound_order offers o' =
     (let unbound = Inl (ApprovalError ''M6_APPROVAL_ORDER_OFFER_BINDING_FAILED'') in
      case dict_get offers (ox_offer_id o') of
        None \<Rightarrow> unbound
      | Some offer \<Rightarrow>
          if (of_supplier_id offer, of_store_id offer, of_ingredient_id offer, of_unit offer) \<noteq>
             (ox_supplier_id o', ox_store_id o', ox_ingredient_id o', ox_unit o') then unbound
          else if \<not> isclose (ox_order_quantity o') (fint (ox_pack_count o') * of_pack_size offer) approval_tolerance approval_tolerance \<or>
             \<not> isclose (ox_purchase_cost o') (ox_order_quantity o' * of_unit_price offer) approval_tolerance approval_tolerance
          then Inl (ApprovalError ''M6_APPROVAL_ORDER_PRICE_OR_PACK_BINDING_FAILED'')
          else
            let line = \<lparr>al_offer_id = ox_offer_id o', al_supplier_id = ox_supplier_id o', al_store_id = ox_store_id o',
                  al_ingredient_id = ox_ingredient_id o', al_unit = ox_unit o', al_order_date = iso_date (ox_order_date o'),
                  al_arrival_date = iso_date (ox_arrival_date o'), al_pack_count = ox_pack_count o',
                  al_pack_size = of_pack_size offer, al_order_quantity = ox_order_quantity o',
                  al_unit_price = of_unit_price offer, al_purchase_cost = ox_purchase_cost o',
                  al_delivery_cost = ox_delivery_cost o'\<rparr> in
            ebind (raise_if (\<not> approval_line_ok line) (ContractError [])) (\<lambda>_. Inr line))"

definition bound_orders :: "final_decision \<Rightarrow> optimization_request \<Rightarrow> approval_line list approval" where
  "bound_orders decision request =
     ebind (emap (bound_order (index_by of_offer_id (rq_offers request))) (fd_immediate_orders decision)) (\<lambda>rows.
     Inr (sort_key (\<lambda>r. (al_offer_id r, al_store_id r, al_ingredient_id r, al_order_date r)) rows))"

definition case_material ::
    "hashing \<Rightarrow> string \<Rightarrow> string \<Rightarrow> strategy_name \<Rightarrow> string \<Rightarrow> int \<Rightarrow> int \<Rightarrow> approval_policy \<Rightarrow> string \<Rightarrow> string \<Rightarrow> string \<Rightarrow> pyval" where
  "case_material H decision_hash request_id strategy orders_hash created expires policy actor role key = PDict
     [(''decision_package_hash'', PStr decision_hash), (''request_id'', PStr request_id),
      (''recommended_strategy'', PStr (strategy_text strategy)), (''orders_hash'', PStr orders_hash),
      (''package_created_at'', PStr (hs_instant H created)), (''expires_at'', PStr (hs_instant H expires)),
      (''policy'', policy_dump policy), (''requester_actor'', PStr actor), (''requester_role'', PStr role),
      (''idempotency_key'', PStr key)]"

definition approval_limitations :: "string list" where
  "approval_limitations =
     [''ACTOR_IDENTITY_IS_CALLER_ATTESTED_AND_NOT_EXTERNALLY_AUTHENTICATED'',
      ''APPROVED records a human decision only; it never executes supplier procurement.'']"

definition create_approval_case ::
    "hashing \<Rightarrow> final_decision \<Rightarrow> optimization_request \<Rightarrow> approval_policy \<Rightarrow> string \<Rightarrow> string \<Rightarrow> string \<Rightarrow> int \<Rightarrow> int \<Rightarrow>
     approval_case approval" where
  "create_approval_case H decision request policy actor role key created expires =
     ebind (raise_if (fd_request_id decision \<noteq> rq_request_id request) (ApprovalError ''M6_APPROVAL_FOREIGN_REQUEST'')) (\<lambda>_.
     case fd_recommended decision of
       None \<Rightarrow> Inl (ApprovalError ''M6_APPROVAL_NO_VALID_PLAN'')
     | Some strategy \<Rightarrow>
         ebind (raise_if (role \<notin> set (ap_submitters policy)) (ApprovalError ''M6_APPROVAL_UNAUTHORIZED_ROLE'')) (\<lambda>_.
         ebind (bound_orders decision request) (\<lambda>orders.
         let orders_hash = orders_digest H orders; decision_hash = decision_snapshot_hash H decision;
             material = case_material H decision_hash (fd_request_id decision) strategy orders_hash created expires policy actor role key;
             first = make_event H 0 None actor role None Draft ''Approval case created and bound to exact decision orders.''
               created orders_hash key in
         validate_case H
           \<lparr>cs_case_id = ''approval-'' @ short_hash (sha256_content_hash H material), cs_state = Draft,
            cs_decision_hash = decision_hash, cs_request_id = fd_request_id decision, cs_strategy = strategy,
            cs_orders = orders, cs_orders_hash = orders_hash, cs_created_at = created, cs_expires_at = expires,
            cs_policy = policy, cs_requester = actor, cs_requester_role = role, cs_idempotency_key = key,
            cs_events = [first], cs_limitations = approval_limitations, cs_case_hash = []\<rparr>)))"

section \<open>Moving a case\<close>

fun approval_transitions :: "approval_state \<Rightarrow> approval_state list" where
  "approval_transitions Draft = [PendingApproval, Cancelled, Expired, Stale]"
| "approval_transitions PendingApproval = [Approved, Rejected, Cancelled, Expired, Stale]"
| "approval_transitions Approved = [Stale]"
| "approval_transitions Rejected = []"
| "approval_transitions Cancelled = []"
| "approval_transitions Expired = []"
| "approval_transitions Stale = []"

definition role_allowed :: "approval_policy \<Rightarrow> approval_state \<Rightarrow> string \<Rightarrow> bool" where
  "role_allowed p target role \<longleftrightarrow>
     (if target = PendingApproval then role \<in> set (ap_submitters p)
      else if target = Approved \<or> target = Rejected then role \<in> set (ap_approvers p)
      else if target = Cancelled then role \<in> set (ap_cancellers p)
      else role = ''SYSTEM'')"

text \<open>The target that counts, with the actor, the role and the reason recorded for it.\<close>

definition effective_move ::
    "approval_case \<Rightarrow> approval_state \<Rightarrow> string \<Rightarrow> string \<Rightarrow> string \<Rightarrow> string \<Rightarrow> int \<Rightarrow> approval_state \<times> string \<times> string \<times> string" where
  "effective_move c target actor role reason current_hash now =
     (if current_hash \<noteq> cs_decision_hash c then (Stale, ''SYSTEM'', ''SYSTEM'', ''Decision package hash changed.'')
      else if cs_expires_at c \<le> now \<and> target \<notin> {Expired, Stale}
      then (Expired, ''SYSTEM'', ''SYSTEM'', ''Approval window expired.'')
      else (target, actor, role, reason))"

definition transition_approval_case ::
    "hashing \<Rightarrow> approval_case \<Rightarrow> approval_state \<Rightarrow> string \<Rightarrow> string \<Rightarrow> string \<Rightarrow> string \<Rightarrow> string \<Rightarrow> int \<Rightarrow> approval_case approval" where
  "transition_approval_case H c target actor role reason key current_hash now =
     (case find (\<lambda>e. ae_idempotency_key e = key) (cs_events c) of
        Some e \<Rightarrow> if ae_to e = target then Inr c else Inl (ApprovalError ''M6_APPROVAL_IDEMPOTENCY_CONFLICT'')
      | None \<Rightarrow>
          let (target, actor, role, reason) = effective_move c target actor role reason current_hash now in
          ebind (raise_if (target \<notin> set (approval_transitions (cs_state c))) (ApprovalError ''M6_APPROVAL_INVALID_TRANSITION'')) (\<lambda>_.
          ebind (raise_if (\<not> role_allowed (cs_policy c) target role) (ApprovalError ''M6_APPROVAL_UNAUTHORIZED_ROLE'')) (\<lambda>_.
          ebind (raise_if (target = Approved \<and> actor = cs_requester c \<and> \<not> ap_self_approval (cs_policy c))
            (ApprovalError ''M6_APPROVAL_SELF_APPROVAL_FORBIDDEN'')) (\<lambda>_.
          let e = make_event H (length (cs_events c)) (Some (ae_event_hash (last (cs_events c)))) actor role (Some (cs_state c))
                target reason now (cs_orders_hash c) key in
          validate_case H (c\<lparr>cs_state := target, cs_events := cs_events c @ [e], cs_case_hash := []\<rparr>)))))"

definition inspect_approval_case :: "hashing \<Rightarrow> approval_case \<Rightarrow> final_decision \<Rightarrow> int \<Rightarrow> int \<Rightarrow> approval_case approval" where
  "inspect_approval_case H c decision now now' =
     (let current_hash = decision_snapshot_hash H decision in
      if current_hash \<noteq> cs_decision_hash c \<and> Stale \<in> set (approval_transitions (cs_state c)) then
        transition_approval_case H c Stale ''SYSTEM'' ''SYSTEM'' ''Decision package changed.'' (''system-stale-'' @ current_hash)
          current_hash now'
      else if cs_expires_at c \<le> now \<and> Expired \<in> set (approval_transitions (cs_state c)) then
        transition_approval_case H c Expired ''SYSTEM'' ''SYSTEM'' ''Approval window expired.''
          (''system-expired-'' @ hs_instant H (cs_expires_at c)) (cs_decision_hash c) now'
      else Inr c)"

definition approval_binds_current_decision :: "hashing \<Rightarrow> approval_case \<Rightarrow> final_decision \<Rightarrow> bool" where
  "approval_binds_current_decision H c decision \<longleftrightarrow>
     cs_request_id c = fd_request_id decision \<and> Some (cs_strategy c) = fd_recommended decision \<and>
     cs_decision_hash c = decision_snapshot_hash H decision"

end
