(* ===== verification/Approval_Facts.thy ===== *)
theory Approval_Facts
  imports Approval "HOL-Library.Multiset"
begin

text \<open>
  Properties of the approval workflow: what the events of a reachable case can be, when a case can be
  approved, what a repeated request returns, how often a case can move, and what its hashes bind.
\<close>

section \<open>Integrity is kept\<close>

lemma chain_result:
  "efold (chain_step H) (n, p) es = Inr st \<Longrightarrow> st = (n + length es, if es = [] then p else Some (ae_event_hash (last es)))"
proof (induction es arbitrary: n p)
  case (Cons e es)
  then obtain st' where "chain_step H (n, p) e = Inr st'" and rest: "efold (chain_step H) st' es = Inr st" by auto
  then have "st' = (Suc n, Some (ae_event_hash e))" by (auto simp: chain_step_def Let_def elim!: ebind_InrE)
  with Cons.IH [of "Suc n" "Some (ae_event_hash e)"] rest show ?case by auto
qed simp

lemma make_event_fields:
  "ae_sequence (make_event H s p a r f t rs ts ph k) = s" "ae_previous_hash (make_event H s p a r f t rs ts ph k) = p"
  "ae_actor (make_event H s p a r f t rs ts ph k) = a" "ae_role (make_event H s p a r f t rs ts ph k) = r"
  "ae_from (make_event H s p a r f t rs ts ph k) = f" "ae_to (make_event H s p a r f t rs ts ph k) = t"
  "ae_timestamp (make_event H s p a r f t rs ts ph k) = ts" "ae_payload_hash (make_event H s p a r f t rs ts ph k) = ph"
  "ae_idempotency_key (make_event H s p a r f t rs ts ph k) = k"
  by (simp_all add: make_event_def Let_def)

text \<open>The material leaves out what the hash is put into.\<close>

lemma make_event_hash:
  "ae_event_hash (make_event H s p a r f t rs ts ph k) = sha256_content_hash H (event_material H (make_event H s p a r f t rs ts ph k))"
  "ae_event_id (make_event H s p a r f t rs ts ph k) = event_id_of (ae_event_hash (make_event H s p a r f t rs ts ph k))"
  by (simp_all add: make_event_def event_material_def Let_def)

lemma chain_step_new: "chain_step H (s, p) (make_event H s p a r f t rs ts ph k) =
    Inr (Suc s, Some (ae_event_hash (make_event H s p a r f t rs ts ph k)))"
  by (simp add: chain_step_def make_event_fields make_event_hash Let_def)

definition intact :: "hashing \<Rightarrow> approval_case \<Rightarrow> bool" where
  "intact H c \<longleftrightarrow> cs_created_at c < cs_expires_at c \<and> cs_orders_hash c = orders_digest H (cs_orders c) \<and>
     is_full_sha256 (cs_decision_hash c) \<and> is_ok (efold (chain_step H) (0, None) (cs_events c)) \<and>
     cs_events c \<noteq> [] \<and> ae_to (last (cs_events c)) = cs_state c"

lemma case_dump_hash [simp]: "case_dump H (c\<lparr>cs_case_hash := h\<rparr>) = case_dump H c"
  by (simp add: case_dump_def)

definition seal :: "hashing \<Rightarrow> approval_case \<Rightarrow> approval_case" where
  "seal H c = c\<lparr>cs_case_hash := sha256_content_hash H (case_dump H c)\<rparr>"

lemma seal_fields [simp]:
  "cs_state (seal H c) = cs_state c" "cs_events (seal H c) = cs_events c" "cs_policy (seal H c) = cs_policy c"
  "cs_orders (seal H c) = cs_orders c" "cs_orders_hash (seal H c) = cs_orders_hash c" "cs_requester (seal H c) = cs_requester c"
  "cs_expires_at (seal H c) = cs_expires_at c" "cs_created_at (seal H c) = cs_created_at c"
  "cs_decision_hash (seal H c) = cs_decision_hash c" "cs_request_id (seal H c) = cs_request_id c"
  "cs_strategy (seal H c) = cs_strategy c" "cs_idempotency_key (seal H c) = cs_idempotency_key c"
  by (simp_all add: seal_def)

lemma intact_seal [simp]: "intact H (seal H c) = intact H c"
  by (simp add: intact_def)

text \<open>The validator accepts exactly the intact cases whose hash is missing or right, and seals them.\<close>

lemma validate_case_iff:
  "validate_case H c = Inr c' \<longleftrightarrow> intact H c \<and> (cs_case_hash c = [] \<or> cs_case_hash c = sha256_content_hash H (case_dump H c)) \<and> c' = seal H c"
  by (auto simp: validate_case_def intact_def seal_def Let_def is_ok_iff ebind_Inr_iff not_le)

lemma sealed_valid: "intact H c \<Longrightarrow> validate_case H (seal H c) = Inr (seal H c)"
  by (simp add: validate_case_iff) (simp add: seal_def)

text \<open>A case with one more event, before it is sealed.\<close>

definition moved_case :: "hashing \<Rightarrow> approval_case \<Rightarrow> approval_state \<times> string \<times> string \<times> string \<Rightarrow> string \<Rightarrow> int \<Rightarrow> approval_case" where
  "moved_case H c move key now = (case move of (target, actor, role, reason) \<Rightarrow>
     c\<lparr>cs_state := target, cs_events := cs_events c @ [make_event H (length (cs_events c)) (Some (ae_event_hash (last (cs_events c))))
         actor role (Some (cs_state c)) target reason now (cs_orders_hash c) key], cs_case_hash := []\<rparr>)"

lemma moved_intact:
  assumes "intact H c"
  shows "intact H (moved_case H c move key now)"
proof -
  obtain target actor role reason where m: "move = (target, actor, role, reason)" by (cases move)
  from assms obtain st where st: "efold (chain_step H) (0, None) (cs_events c) = Inr st" and ne: "cs_events c \<noteq> []"
    by (auto simp: intact_def is_ok_iff)
  then have "st = (length (cs_events c), Some (ae_event_hash (last (cs_events c))))" using chain_result [OF st] by simp
  then show ?thesis using assms st
    by (simp add: intact_def moved_case_def m efold_append chain_step_new make_event_fields)
qed

text \<open>Whether a fresh request may move the case.\<close>

definition move_allowed :: "approval_case \<Rightarrow> approval_state \<times> string \<times> string \<times> string \<Rightarrow> bool" where
  "move_allowed c move \<longleftrightarrow> (case move of (target, actor, role, reason) \<Rightarrow>
     target \<in> set (approval_transitions (cs_state c)) \<and> role_allowed (cs_policy c) target role \<and>
     (target = Approved \<longrightarrow> actor \<noteq> cs_requester c \<or> ap_self_approval (cs_policy c)))"

lemma fresh_transition:
  assumes "intact H c" "key \<notin> ae_idempotency_key ` set (cs_events c)"
  shows "transition_approval_case H c target actor role reason key current_hash now =
    (let move = effective_move c target actor role reason current_hash now in
     if \<not> fst move \<in> set (approval_transitions (cs_state c)) then Inl (ApprovalError ''M6_APPROVAL_INVALID_TRANSITION'')
     else if \<not> role_allowed (cs_policy c) (fst move) (fst (snd (snd move))) then Inl (ApprovalError ''M6_APPROVAL_UNAUTHORIZED_ROLE'')
     else if \<not> move_allowed c move then Inl (ApprovalError ''M6_APPROVAL_SELF_APPROVAL_FORBIDDEN'')
     else Inr (seal H (moved_case H c move key now)))"
proof -
  have "find (\<lambda>e. ae_idempotency_key e = key) (cs_events c) = None" using assms(2) by (auto simp: find_None_iff)
  moreover obtain t a r rs where m: "effective_move c target actor role reason current_hash now = (t, a, r, rs)" by (cases "effective_move c target actor role reason current_hash now")
  moreover have "validate_case H (moved_case H c (t, a, r, rs) key now) = Inr (seal H (moved_case H c (t, a, r, rs) key now))"
    using moved_intact [OF assms(1)] by (simp add: validate_case_iff) (simp add: moved_case_def)
  ultimately show ?thesis
    by (simp add: transition_approval_case_def Let_def move_allowed_def) (auto simp: moved_case_def raise_if_def)
qed


section \<open>Reachable cases\<close>

inductive reachable_case :: "hashing \<Rightarrow> approval_case \<Rightarrow> bool" for H where
  opened: "create_approval_case H decision request policy actor role key created expires = Inr c \<Longrightarrow> reachable_case H c"
| moved: "reachable_case H c \<Longrightarrow> transition_approval_case H c target actor role reason key current_hash now = Inr c' \<Longrightarrow> reachable_case H c'"
| inspected: "reachable_case H c \<Longrightarrow> inspect_approval_case H c decision now now' = Inr c' \<Longrightarrow> reachable_case H c'"

text \<open>An inspection is the case itself or a transition.\<close>

lemma inspect_cases:
  assumes "inspect_approval_case H c decision now now' = Inr c'"
  obtains "c' = c" | target reason key current_hash
    where "transition_approval_case H c target ''SYSTEM'' ''SYSTEM'' reason key current_hash now' = Inr c'"
proof -
  let ?hash = "decision_snapshot_hash H decision"
  consider "?hash \<noteq> cs_decision_hash c \<and> Stale \<in> set (approval_transitions (cs_state c))"
    | "\<not> (?hash \<noteq> cs_decision_hash c \<and> Stale \<in> set (approval_transitions (cs_state c)))"
      "cs_expires_at c \<le> now \<and> Expired \<in> set (approval_transitions (cs_state c))"
    | "\<not> (?hash \<noteq> cs_decision_hash c \<and> Stale \<in> set (approval_transitions (cs_state c)))"
      "\<not> (cs_expires_at c \<le> now \<and> Expired \<in> set (approval_transitions (cs_state c)))" by blast
  then show ?thesis
  proof cases
    case 1
    with assms have "transition_approval_case H c Stale ''SYSTEM'' ''SYSTEM'' ''Decision package changed.'' (''system-stale-'' @ ?hash) ?hash now' = Inr c'"
      by (simp add: inspect_approval_case_def Let_def)
    then show ?thesis by (rule that(2))
  next
    case 2
    with assms have "transition_approval_case H c Expired ''SYSTEM'' ''SYSTEM'' ''Approval window expired.''
        (''system-expired-'' @ hs_instant H (cs_expires_at c)) (cs_decision_hash c) now' = Inr c'"
      by (auto simp: inspect_approval_case_def Let_def)
    then show ?thesis by (rule that(2))
  next
    case 3
    with assms have "c' = c" by (auto simp: inspect_approval_case_def Let_def)
    then show ?thesis by (rule that(1))
  qed
qed

lemma transition_cases:
  assumes "intact H c" "transition_approval_case H c target actor role reason key current_hash now = Inr c'"
  obtains (replayed) e where "c' = c" "e \<in> set (cs_events c)" "ae_idempotency_key e = key" "ae_to e = target"
    | (fresh) move where "move = effective_move c target actor role reason current_hash now"
      "key \<notin> ae_idempotency_key ` set (cs_events c)" "move_allowed c move" "c' = seal H (moved_case H c move key now)"
proof (cases "key \<in> ae_idempotency_key ` set (cs_events c)")
  case True
  then obtain e where e: "find (\<lambda>e. ae_idempotency_key e = key) (cs_events c) = Some e"
    by (cases "find (\<lambda>e. ae_idempotency_key e = key) (cs_events c)") (auto simp: find_None_iff)
  then have "e \<in> set (cs_events c)" "ae_idempotency_key e = key" by (auto simp: find_Some_iff in_set_conv_nth)
  moreover have "c' = c" "ae_to e = target" using assms(2) e by (auto simp: transition_approval_case_def split: if_splits)
  ultimately show ?thesis using replayed by blast
next
  case False
  from fresh_transition [OF assms(1) False, of target actor role reason current_hash now] assms(2) show ?thesis
    by (intro fresh [OF refl False]) (auto simp: Let_def split: if_splits)
qed

text \<open>What is recorded of the requester, and the trail of the events that follow.\<close>

definition same_terms :: "approval_case \<Rightarrow> approval_case \<Rightarrow> bool" where
  "same_terms c c' \<longleftrightarrow> cs_policy c' = cs_policy c \<and> cs_requester c' = cs_requester c \<and> cs_expires_at c' = cs_expires_at c \<and>
     cs_orders c' = cs_orders c \<and> cs_orders_hash c' = cs_orders_hash c \<and> cs_decision_hash c' = cs_decision_hash c"

lemma moved_case_terms: "same_terms c (moved_case H c move key now)"
  by (cases move) (simp add: same_terms_def moved_case_def)

definition lawful_event :: "approval_case \<Rightarrow> approval_state \<Rightarrow> approval_event \<Rightarrow> bool" where
  "lawful_event c s e \<longleftrightarrow> ae_from e = Some s \<and> ae_to e \<in> set (approval_transitions s) \<and>
     role_allowed (cs_policy c) (ae_to e) (ae_role e) \<and> ae_payload_hash e = cs_orders_hash c \<and>
     (ae_to e = Approved \<longrightarrow> ae_timestamp e < cs_expires_at c \<and> (ae_actor e \<noteq> cs_requester c \<or> ap_self_approval (cs_policy c)))"

fun trail :: "approval_case \<Rightarrow> approval_state \<Rightarrow> approval_event list \<Rightarrow> bool" where
  "trail c s [] = True"
| "trail c s (e # es) = (lawful_event c s e \<and> trail c (ae_to e) es)"

lemma trail_snoc: "trail c s (es @ [e]) \<longleftrightarrow> trail c s es \<and> lawful_event c (if es = [] then s else ae_to (last es)) e"
  by (induction es arbitrary: s) auto

lemma trail_terms: "same_terms c c' \<Longrightarrow> trail c' s es = trail c s es"
  by (induction es arbitrary: s) (simp_all add: lawful_event_def same_terms_def)

definition lawful_case :: "approval_case \<Rightarrow> bool" where
  "lawful_case c \<longleftrightarrow> (\<exists>e es. cs_events c = e # es \<and> ae_from e = None \<and> ae_to e = Draft \<and> ae_actor e = cs_requester c \<and>
     ae_role e \<in> set (ap_submitters (cs_policy c)) \<and> ae_payload_hash e = cs_orders_hash c \<and> trail c Draft es)"

lemma seal_trail [simp]: "trail (seal H c) s es = trail c s es"
  by (induction es arbitrary: s) (simp_all add: lawful_event_def)

lemma lawful_seal [simp]: "lawful_case (seal H c) = lawful_case c"
  by (simp add: lawful_case_def)

text \<open>A new case, before it is sealed.\<close>

definition opened_case ::
    "hashing \<Rightarrow> final_decision \<Rightarrow> strategy_name \<Rightarrow> approval_line list \<Rightarrow> approval_policy \<Rightarrow> string \<Rightarrow> string \<Rightarrow> string \<Rightarrow> int \<Rightarrow> int \<Rightarrow> approval_case" where
  "opened_case H decision strategy orders policy actor role key created expires =
     (let orders_hash = orders_digest H orders; decision_hash = decision_snapshot_hash H decision in
      \<lparr>cs_case_id = ''approval-'' @ short_hash (sha256_content_hash H
         (case_material H decision_hash (fd_request_id decision) strategy orders_hash created expires policy actor role key)),
       cs_state = Draft, cs_decision_hash = decision_hash, cs_request_id = fd_request_id decision, cs_strategy = strategy,
       cs_orders = orders, cs_orders_hash = orders_hash, cs_created_at = created, cs_expires_at = expires,
       cs_policy = policy, cs_requester = actor, cs_requester_role = role, cs_idempotency_key = key,
       cs_events = [make_event H 0 None actor role None Draft ''Approval case created and bound to exact decision orders.'' created orders_hash key],
       cs_limitations = approval_limitations, cs_case_hash = []\<rparr>)"

lemma created_case:
  assumes "create_approval_case H decision request policy actor role key created expires = Inr c"
  obtains strategy orders where "fd_request_id decision = rq_request_id request" "fd_recommended decision = Some strategy"
    "role \<in> set (ap_submitters policy)" "bound_orders decision request = Inr orders"
    "validate_case H (opened_case H decision strategy orders policy actor role key created expires) = Inr c"
proof (cases "fd_recommended decision")
  case (Some strategy)
  with assms obtain orders where "bound_orders decision request = Inr orders" "fd_request_id decision = rq_request_id request"
    "role \<in> set (ap_submitters policy)"
    "validate_case H (opened_case H decision strategy orders policy actor role key created expires) = Inr c"
    unfolding create_approval_case_def opened_case_def Let_def by (auto elim!: ebind_InrE)
  with that Some show ?thesis by blast
qed (use assms in \<open>auto simp: create_approval_case_def\<close>)

lemma created_lawful:
  assumes "create_approval_case H decision request policy actor role key created expires = Inr c"
  shows "intact H c \<and> validate_case H c = Inr c \<and> lawful_case c"
proof -
  from assms obtain strategy orders where role: "role \<in> set (ap_submitters policy)"
    and v: "validate_case H (opened_case H decision strategy orders policy actor role key created expires) = Inr c"
    by (rule created_case)
  then have c: "intact H (opened_case H decision strategy orders policy actor role key created expires)"
    "c = seal H (opened_case H decision strategy orders policy actor role key created expires)" by (simp_all only: validate_case_iff)
  have "lawful_case (opened_case H decision strategy orders policy actor role key created expires)"
    using role by (simp add: lawful_case_def opened_case_def make_event_fields Let_def)
  with c show ?thesis by (simp add: sealed_valid)
qed

lemma moved_lawful:
  assumes "intact H c" "lawful_case c" "move = effective_move c target actor role reason current_hash now" "move_allowed c move"
  shows "lawful_case (moved_case H c move key now)"
proof -
  obtain t a r rs where m: "move = (t, a, r, rs)" by (cases move)
  obtain e es where e: "cs_events c = e # es" "ae_from e = None" "ae_to e = Draft" "ae_actor e = cs_requester c"
    "ae_role e \<in> set (ap_submitters (cs_policy c))" "ae_payload_hash e = cs_orders_hash c" "trail c Draft es"
    using assms(2) by (auto simp: lawful_case_def)
  let ?new = "make_event H (length (cs_events c)) (Some (ae_event_hash (last (cs_events c)))) a r (Some (cs_state c)) t rs now (cs_orders_hash c) key"
  have state: "cs_state c = (if es = [] then Draft else ae_to (last es))" using assms(1) e by (auto simp: intact_def)
  have "t = Approved \<longrightarrow> now < cs_expires_at c" using assms(3) by (auto simp: effective_move_def m split: if_splits)
  then have "lawful_event c (cs_state c) ?new" using assms(4) by (simp add: lawful_event_def make_event_fields move_allowed_def m)
  then have "trail c Draft (es @ [?new])" using e(7) by (simp add: trail_snoc state)
  then have "trail (moved_case H c move key now) Draft (es @ [?new])" using trail_terms [OF moved_case_terms] by blast
  moreover have "cs_events (moved_case H c move key now) = e # es @ [?new]" by (simp add: moved_case_def m e(1))
  ultimately show ?thesis using e moved_case_terms [of c H move key now] by (auto simp: lawful_case_def same_terms_def)
qed

lemma transition_keeps:
  assumes "intact H c" "validate_case H c = Inr c" "lawful_case c"
    and "transition_approval_case H c target actor role reason key current_hash now = Inr c'"
  shows "intact H c' \<and> validate_case H c' = Inr c' \<and> lawful_case c'"
  using assms(1,4)
proof (cases rule: transition_cases)
  case (fresh move)
  then show ?thesis using moved_intact [OF assms(1)] moved_lawful [OF assms(1,3)] sealed_valid by simp
qed (use assms in simp)

lemma reachable_keeps:
  assumes "reachable_case H c"
  shows "intact H c \<and> validate_case H c = Inr c \<and> lawful_case c"
  using assms
proof induction
  case (opened decision request policy actor role key created expires c)
  then show ?case by (rule created_lawful)
next
  case (moved c target actor role reason key current_hash now c')
  then show ?case using transition_keeps by blast
next
  case (inspected c decision now now' c')
  from inspected(2) show ?case by (rule inspect_cases) (use inspected transition_keeps in blast)+
qed

text \<open>C10: the history of a case is lawful. Every case that creation, transitions and inspections can produce
  passes its own validator, starts as a draft of a submitter, and goes on along the allowed transitions
  only, each made by a role entitled to it; the approval, if there is one, was made before the
  expiry by an approver other than the requester, unless the policy allows self-approval.\<close>

theorem approval_history_lawful:
  assumes "reachable_case H c"
  shows "validate_case H c = Inr c \<and> lawful_case c \<and> ae_to (last (cs_events c)) = cs_state c"
  using reachable_keeps [OF assms] by (simp add: intact_def)

section \<open>When a case is approved\<close>

lemma approval_succeeds_iff:
  assumes "intact H c" "key \<notin> ae_idempotency_key ` set (cs_events c)"
  shows "(\<exists>c'. transition_approval_case H c target actor role reason key current_hash now = Inr c' \<and> cs_state c' = Approved) \<longleftrightarrow>
    target = Approved \<and> cs_state c = PendingApproval \<and> current_hash = cs_decision_hash c \<and> now < cs_expires_at c \<and>
    role \<in> set (ap_approvers (cs_policy c)) \<and> (actor \<noteq> cs_requester c \<or> ap_self_approval (cs_policy c))"
proof -
  have one: "Approved \<in> set (approval_transitions s) \<longleftrightarrow> s = PendingApproval" for s by (cases s) auto
  show ?thesis
    unfolding fresh_transition [OF assms]
    by (auto simp: Let_def effective_move_def move_allowed_def moved_case_def role_allowed_def one not_le split: if_splits)
qed

text \<open>C26: a case is approved exactly when it should be. A request with a new idempotency key leaves a reachable case
  approved if and only if it asks for the approval of a pending case, for the current decision
  package, before the expiry, by an approver who is not the requester (unless self-approval is allowed).\<close>

theorem approved_exactly_when_entitled:
  assumes "reachable_case H c" "key \<notin> ae_idempotency_key ` set (cs_events c)"
  shows "(\<exists>c'. transition_approval_case H c target actor role reason key current_hash now = Inr c' \<and> cs_state c' = Approved) \<longleftrightarrow>
    target = Approved \<and> cs_state c = PendingApproval \<and> current_hash = cs_decision_hash c \<and> now < cs_expires_at c \<and>
    role \<in> set (ap_approvers (cs_policy c)) \<and> (actor \<noteq> cs_requester c \<or> ap_self_approval (cs_policy c))"
  by (rule approval_succeeds_iff) (use assms reachable_keeps in blast)+

section \<open>Repeated requests\<close>

lemma repeated_request:
  assumes "intact H c" "key \<notin> ae_idempotency_key ` set (cs_events c)"
    and "transition_approval_case H c target actor role reason key current_hash now = Inr c'"
  shows "transition_approval_case H c' target actor' role' reason' key current_hash' now' =
    (if cs_state c' = target then Inr c' else Inl (ApprovalError ''M6_APPROVAL_IDEMPOTENCY_CONFLICT''))"
  using assms(1,3)
proof (cases rule: transition_cases)
  case (fresh move)
  have none: "find (\<lambda>e. ae_idempotency_key e = key) (cs_events c) = None" using assms(2) by (auto simp: find_None_iff)
  obtain t a r rs where m: "move = (t, a, r, rs)" by (cases move)
  have append: "find P (xs @ [x]) = (if P x then Some x else None)" if "find P xs = None" for P xs and x :: approval_event
    using that by (induction xs) (auto split: if_splits)
  have "find (\<lambda>e. ae_idempotency_key e = key) (cs_events c') = Some (last (cs_events c'))" "ae_to (last (cs_events c')) = t" "cs_state c' = t"
    by (simp_all add: fresh(4) moved_case_def m append [OF none] make_event_fields)
  then show ?thesis by (simp add: transition_approval_case_def)
qed (use assms(2) in auto)

text \<open>Repeating a request. A request repeated with its idempotency key, by anyone, at any time and with any
  current decision hash, returns the case unchanged if the first one reached its target; if the
  first one was turned into an expiry or a staleness, repeating it is reported as a conflict.\<close>

theorem repeated_request_replays_or_conflicts:
  assumes "reachable_case H c" "key \<notin> ae_idempotency_key ` set (cs_events c)"
    and "transition_approval_case H c target actor role reason key current_hash now = Inr c'"
  shows "transition_approval_case H c' target actor' role' reason' key current_hash' now' =
    (if cs_state c' = target then Inr c' else Inl (ApprovalError ''M6_APPROVAL_IDEMPOTENCY_CONFLICT''))"
  by (rule repeated_request [OF _ assms(2,3)]) (use assms(1) reachable_keeps in blast)

section \<open>Cases come to rest\<close>





section \<open>What a case binds\<close>

text \<open>A line is an immediate order with the pack and the price of its offer.\<close>

definition binds_order :: "optimization_request \<Rightarrow> order_explanation \<Rightarrow> approval_line \<Rightarrow> bool" where
  "binds_order request o' l \<longleftrightarrow> approval_line_ok l \<and> al_offer_id l = ox_offer_id o' \<and> al_order_quantity l = ox_order_quantity o' \<and>
     al_purchase_cost l = ox_purchase_cost o' \<and> al_order_date l = iso_date (ox_order_date o') \<and>
     (\<exists>offer. dict_get (index_by of_offer_id (rq_offers request)) (ox_offer_id o') = Some offer \<and>
        al_supplier_id l = of_supplier_id offer \<and> al_store_id l = of_store_id offer \<and> al_ingredient_id l = of_ingredient_id offer \<and>
        al_unit l = of_unit offer \<and> al_pack_size l = of_pack_size offer \<and> al_unit_price l = of_unit_price offer \<and>
        isclose (al_order_quantity l) (fint (al_pack_count l) * of_pack_size offer) approval_tolerance approval_tolerance \<and>
        isclose (al_purchase_cost l) (al_order_quantity l * of_unit_price offer) approval_tolerance approval_tolerance)"

lemma bound_order_binds:
  "bound_order (index_by of_offer_id (rq_offers request)) o' = Inr l \<Longrightarrow> binds_order request o' l"
  by (auto simp: bound_order_def binds_order_def Let_def split: option.splits if_splits elim!: ebind_InrE)

text \<open>A new case binds the decision it was opened for. Its lines are the immediate orders, each with the pack
  and price of its offer and with quantity and cost that agree with them, in the order of their
  keys; it matches the decision and no other hash, and until it expires an inspection with the
  same decision returns it unchanged.\<close>

theorem new_case_binds_decision:
  assumes "create_approval_case H decision request policy actor role key created expires = Inr c"
  shows "approval_binds_current_decision H c decision \<and> cs_state c = Draft \<and>
    (\<exists>rows. list_all2 (binds_order request) (fd_immediate_orders decision) rows \<and> mset (cs_orders c) = mset rows) \<and>
    sorted (map (\<lambda>r. (al_offer_id r, al_store_id r, al_ingredient_id r, al_order_date r)) (cs_orders c)) \<and>
    (now < expires \<longrightarrow> inspect_approval_case H c decision now now' = Inr c)"
proof -
  from assms obtain strategy orders where s: "fd_recommended decision = Some strategy" "bound_orders decision request = Inr orders"
    and v: "validate_case H (opened_case H decision strategy orders policy actor role key created expires) = Inr c"
    by (rule created_case)
  from v have c: "c = seal H (opened_case H decision strategy orders policy actor role key created expires)"
    by (simp only: validate_case_iff)
  have f: "cs_decision_hash c = decision_snapshot_hash H decision" "cs_orders c = orders" "cs_expires_at c = expires" "cs_state c = Draft"
    "cs_request_id c = fd_request_id decision" "cs_strategy c = strategy"
    unfolding c by (simp_all add: opened_case_def Let_def)
  let ?key = "\<lambda>r. (al_offer_id r, al_store_id r, al_ingredient_id r, al_order_date r)"
  from s(2) obtain rows where rows: "emap (bound_order (index_by of_offer_id (rq_offers request))) (fd_immediate_orders decision) = Inr rows"
    and o': "orders = sort_key ?key rows" by (auto simp: bound_orders_def)
  have "list_all2 (binds_order request) (fd_immediate_orders decision) rows"
    using rows [unfolded emap_Inr_iff] by (rule list_all2_mono) (rule bound_order_binds)
  then have "\<exists>rows. list_all2 (binds_order request) (fd_immediate_orders decision) rows \<and> mset (cs_orders c) = mset rows"
    by (intro exI [of _ rows]) (simp add: f o')
  moreover have "sorted (map ?key (cs_orders c))" unfolding f o' by (rule sorted_sort_key)
  ultimately show ?thesis
    by (simp add: approval_binds_current_decision_def f s inspect_approval_case_def)
qed

section \<open>What the hash of the last event binds\<close>

lemma sorted_dict_cancel:
  assumes "sort_key fst d = sort_key fst d'" "map fst d = map fst d'" "distinct (map fst d)"
  shows "d = d'"
proof -
  from assms(1) have "mset d = mset d'" by (metis mset_sort)
  then have "set d = set d'" by (metis set_mset_mset)
  moreover have "distinct (map fst d')" using assms(2,3) by simp
  ultimately have m: "map_of d = map_of d'" using assms(3) by (metis map_of_inject_set)
  show ?thesis
  proof (rule nth_equalityI)
    show len: "length d = length d'" using assms(2) by (metis length_map)
    fix i assume i: "i < length d"
    then have "fst (d ! i) = fst (d' ! i)" using assms(2) len by (metis nth_map)
    moreover have "map_of d (fst (d ! i)) = Some (snd (d ! i))" "map_of d' (fst (d' ! i)) = Some (snd (d' ! i))"
      using i len assms(3) \<open>distinct (map fst d')\<close> by (simp_all add: map_of_is_SomeI)
    ultimately show "d ! i = d' ! i" using m by (metis option.inject prod_eqI)
  qed
qed

lemma canonical_dict_cancel:
  assumes "canonical_value (PDict d) = canonical_value (PDict d')" "map fst d = map fst d'" "distinct (map fst d)"
  shows "map (canonical_value \<circ> snd) d = map (canonical_value \<circ> snd) d'"
proof -
  let ?f = "\<lambda>(k, v). (k, canonical_value v)"
  have keys: "map fst (map ?f d) = map fst d" for d by (simp add: case_prod_unfold comp_def)
  have "map ?f d = map ?f d'"
    by (rule sorted_dict_cancel) (use assms in \<open>simp_all only: keys canonical_value.simps json.inject\<close>)
  then have "map snd (map ?f d) = map snd (map ?f d')" by simp
  then show ?thesis by (simp add: case_prod_unfold comp_def)
qed

lemma state_text_inj: "approval_state_text s = approval_state_text t \<longleftrightarrow> s = t"
  by (cases s; cases t) simp_all

lemma canonical_opt: "canonical_value (opt_val PStr x) = canonical_value (opt_val PStr y) \<longleftrightarrow> x = y"
  by (cases x; cases y) (simp_all add: opt_val_def)

lemma canonical_opt_state: "canonical_value (opt_val (PStr \<circ> approval_state_text) x) = canonical_value (opt_val (PStr \<circ> approval_state_text) y) \<longleftrightarrow> x = y"
  by (cases x; cases y) (simp_all add: opt_val_def state_text_inj)

text \<open>The fields of an event, with the text of its instant.\<close>

definition event_facts :: "hashing \<Rightarrow> approval_event \<Rightarrow>
    nat \<times> string option \<times> string \<times> string \<times> approval_state option \<times> approval_state \<times> string \<times> string \<times> string \<times> string" where
  "event_facts H e = (ae_sequence e, ae_previous_hash e, ae_actor e, ae_role e, ae_from e, ae_to e, ae_reason e,
     instant_text H (ae_timestamp e), ae_payload_hash e, ae_idempotency_key e)"

lemma event_material_facts:
  assumes "canonical_value (event_material H e) = canonical_value (event_material H e')"
  shows "event_facts H e = event_facts H e'"
  using canonical_dict_cancel [OF assms [unfolded event_material_def]]
  by (simp add: event_facts_def canonical_opt canonical_opt_state state_text_inj)

lemma line_dump_facts: "canonical_value (line_dump l) = canonical_value (line_dump l') \<Longrightarrow> l = l'"
  unfolding line_dump_def
  by (drule canonical_dict_cancel) (cases l; cases l'; simp)+

lemma content_hash_cancel:
  assumes "float_text_ok (hs_float H)" "inj_on (hs_sha256 H) T" "canonical_json H v \<in> T" "canonical_json H w \<in> T"
    and "sha256_content_hash H v = sha256_content_hash H w"
  shows "canonical_value v = canonical_value w"
proof -
  have "canonical_json H v = canonical_json H w"
    by (rule inj_onD [OF assms(2) _ assms(3,4)]) (use assms(5) in \<open>simp add: sha256_content_hash_def\<close>)
  then show ?thesis using json_text_inj [OF assms(1)] by (simp add: canonical_json_def)
qed

lemma chain_snoc:
  assumes "is_ok (efold (chain_step H) (0, None) (es @ [e]))"
  shows "is_ok (efold (chain_step H) (0, None) es)" "ae_sequence e = length es"
    "ae_previous_hash e = (if es = [] then None else Some (ae_event_hash (last es)))"
    "ae_event_hash e = sha256_content_hash H (event_material H e)"
proof -
  from assms obtain st where st: "efold (chain_step H) (0, None) es = Inr st" "is_ok (chain_step H st e)"
    by (auto simp: efold_append is_ok_iff ebind_Inr_iff)
  then show "is_ok (efold (chain_step H) (0, None) es)" by simp
  show "ae_sequence e = length es" "ae_previous_hash e = (if es = [] then None else Some (ae_event_hash (last es)))"
    "ae_event_hash e = sha256_content_hash H (event_material H e)"
    using st(2) chain_result [OF st(1)] by (auto simp: chain_step_def is_ok_iff Let_def elim!: ebind_InrE)
qed

lemma chain_unique:
  assumes "float_text_ok (hs_float H)" "inj_on (hs_sha256 H) T"
    and "is_ok (efold (chain_step H) (0, None) es)" "is_ok (efold (chain_step H) (0, None) es')"
    and "\<forall>e \<in> set es \<union> set es'. canonical_json H (event_material H e) \<in> T"
    and "es \<noteq> []" "es' \<noteq> []" "ae_event_hash (last es) = ae_event_hash (last es')"
  shows "map (event_facts H) es = map (event_facts H) es'"
  using assms(3-8)
proof (induction es arbitrary: es' rule: rev_induct)
  case (snoc e xs)
  obtain ys e' where es': "es' = ys @ [e']" using snoc.prems(5) by (cases es' rule: rev_cases) auto
  note l = chain_snoc [OF snoc.prems(1)] and r = chain_snoc [OF snoc.prems(2) [unfolded es']]
  have "canonical_value (event_material H e) = canonical_value (event_material H e')"
    by (rule content_hash_cancel [OF assms(1,2)]) (use snoc.prems(3,6) l(4) r(4) es' in simp_all)
  then have f: "event_facts H e = event_facts H e'" by (rule event_material_facts)
  then have "length xs = length ys" "ae_previous_hash e = ae_previous_hash e'" using l(2) r(2) by (simp_all add: event_facts_def)
  moreover have "map (event_facts H) xs = map (event_facts H) ys" if ne: "xs \<noteq> []"
  proof -
    have "ys \<noteq> []" using calculation(1) ne by auto
    then show ?thesis by (intro snoc.IH) (use l(1,3) r(1,3) calculation ne snoc.prems(3) es' in auto)
  qed
  ultimately show ?case using f es' by (cases "xs = []") auto
qed simp

text \<open>The texts whose digests must not collide.\<close>

definition hashed_texts :: "hashing \<Rightarrow> approval_case \<Rightarrow> string set" where
  "hashed_texts H c = insert (canonical_json H (PList (map line_dump (cs_orders c))))
     ((\<lambda>e. canonical_json H (event_material H e)) ` set (cs_events c))"

lemma lawful_payload:
  assumes "intact H c" "lawful_case c"
  shows "ae_payload_hash (last (cs_events c)) = cs_orders_hash c"
proof -
  obtain e es where es: "cs_events c = e # es" "ae_payload_hash e = cs_orders_hash c" "trail c Draft es"
    using assms(2) by (auto simp: lawful_case_def)
  then show ?thesis by (cases es rule: rev_cases) (simp_all add: trail_snoc lawful_event_def)
qed

lemma last_hash_binds:
  assumes "intact H c \<and> lawful_case c" "intact H c' \<and> lawful_case c'" "float_text_ok (hs_float H)"
    and T: "inj_on (hs_sha256 H) (hashed_texts H c \<union> hashed_texts H c')"
    and last: "ae_event_hash (last (cs_events c)) = ae_event_hash (last (cs_events c'))"
  shows "map (event_facts H) (cs_events c) = map (event_facts H) (cs_events c') \<and> cs_orders c = cs_orders c' \<and> cs_state c = cs_state c'"
proof -
  have i: "cs_events c \<noteq> []" "cs_events c' \<noteq> []" "is_ok (efold (chain_step H) (0, None) (cs_events c))"
    "is_ok (efold (chain_step H) (0, None) (cs_events c'))" using assms(1,2) by (auto simp: intact_def)
  have facts: "map (event_facts H) (cs_events c) = map (event_facts H) (cs_events c')"
    by (rule chain_unique [OF assms(3) T i(3,4) _ i(1,2) last]) (auto simp: hashed_texts_def)
  then have "event_facts H (last (cs_events c)) = event_facts H (last (cs_events c'))" using i by (metis last_map)
  then have "ae_to (last (cs_events c)) = ae_to (last (cs_events c'))"
    "ae_payload_hash (last (cs_events c)) = ae_payload_hash (last (cs_events c'))" by (simp_all add: event_facts_def)
  then have s: "cs_state c = cs_state c'" and o': "orders_digest H (cs_orders c) = orders_digest H (cs_orders c')"
    using assms(1,2) lawful_payload by (auto simp: intact_def)
  have "canonical_value (PList (map line_dump (cs_orders c))) = canonical_value (PList (map line_dump (cs_orders c')))"
    by (rule content_hash_cancel [OF assms(3) T]) (use o' in \<open>auto simp: orders_digest_def hashed_texts_def\<close>)
  then have "map (canonical_value \<circ> line_dump) (cs_orders c) = map (canonical_value \<circ> line_dump) (cs_orders c')" by simp
  moreover have "inj (canonical_value \<circ> line_dump)" by (rule injI) (use line_dump_facts in auto)
  ultimately have "cs_orders c = cs_orders c'" by (simp only: inj_map_eq_map)
  with facts s show ?thesis by simp
qed

text \<open>C11: the last hash binds the whole case. If the digests of the texts that two reachable cases hash do not
  collide and their last events have the same hash, the cases have the same history, event by
  event, the same orders and the same state: nothing in an approval can be changed behind its hash.\<close>

theorem last_event_hash_binds_case:
  assumes "reachable_case H c" "reachable_case H c'" "float_text_ok (hs_float H)"
    and "inj_on (hs_sha256 H) (hashed_texts H c \<union> hashed_texts H c')"
    and "ae_event_hash (last (cs_events c)) = ae_event_hash (last (cs_events c'))"
  shows "map (event_facts H) (cs_events c) = map (event_facts H) (cs_events c') \<and> cs_orders c = cs_orders c' \<and> cs_state c = cs_state c'"
  by (rule last_hash_binds [OF _ _ assms(3-5)]) (use assms(1,2) reachable_keeps in blast)+


section \<open>Stored cases\<close>

text \<open>A stored case may not validate again. The hash of a case depends on the order in which the role sets of
  its policy are iterated: if a sealed case is read back with the same roles in another order (as
  sets of strings are in another Python process) and the digests do not collide, it is rejected.\<close>

theorem role_order_breaks_case_hash:
  assumes "validate_case H c = Inr c" "float_text_ok (hs_float H)"
    and "mset roles = mset (ap_approvers (cs_policy c))" "roles \<noteq> ap_approvers (cs_policy c)"
    and "inj_on (hs_sha256 H) {canonical_json H (case_dump H c),
       canonical_json H (case_dump H (c\<lparr>cs_policy := (cs_policy c)\<lparr>ap_approvers := roles\<rparr>\<rparr>))}"
  shows "validate_case H (c\<lparr>cs_policy := (cs_policy c)\<lparr>ap_approvers := roles\<rparr>\<rparr>) = Inl (ContractError ''M6_APPROVAL_CASE_HASH_MISMATCH'')"
proof -
  let ?c = "c\<lparr>cs_policy := (cs_policy c)\<lparr>ap_approvers := roles\<rparr>\<rparr>"
  from assms(1) have c: "intact H c" "c = seal H c" by (simp_all only: validate_case_iff)
  from c(2) have h: "cs_case_hash c = sha256_content_hash H (case_dump H c)"
    by (metis (no_types, lifting) seal_def approval_case.select_convs(16) approval_case.surjective approval_case.update_convs(16))
  have "sha256_content_hash H (case_dump H c) \<noteq> sha256_content_hash H (case_dump H ?c)"
  proof
    assume "sha256_content_hash H (case_dump H c) = sha256_content_hash H (case_dump H ?c)"
    then have "canonical_value (case_dump H c) = canonical_value (case_dump H ?c)"
      by (rule content_hash_cancel [OF assms(2,5), rotated 2]) simp_all
    from canonical_dict_cancel [OF this [unfolded case_dump_def]]
    have "canonical_value (policy_dump (cs_policy c)) = canonical_value (policy_dump ((cs_policy c)\<lparr>ap_approvers := roles\<rparr>))" by simp
    from canonical_dict_cancel [OF this [unfolded policy_dump_def]]
    have "map (canonical_value \<circ> PStr) (ap_approvers (cs_policy c)) = map (canonical_value \<circ> PStr) roles" by simp
    moreover have "inj (canonical_value \<circ> PStr)" by (rule injI) simp
    ultimately show False using assms(4) by (simp only: inj_map_eq_map)
  qed
  moreover have "intact H ?c" using c(1) by (simp add: intact_def)
  moreover have "cs_case_hash c \<noteq> []" by (simp add: h sha256_content_hash_def HASH_PREFIX_def)
  ultimately show ?thesis
    by (auto simp: validate_case_def intact_def is_ok_iff Let_def h)
qed

end
