(* ===== verification/Approval_Witness.thy ===== *)
theory Approval_Witness
  imports Approval_Facts Opt_Witness
begin

text \<open>
  A case for the orders of \<open>Opt_Witness\<close>: opened, submitted, approved or expired, and read back with its
  roles in another order; the approval properties are applied along the way.
\<close>

section \<open>A hashing\<close>

text \<open>A float as the exact quotient, which is a number with a point in it.\<close>

definition plain_float :: "f64 \<Rightarrow> string" where
  "plain_float x = (case quotient_of (rat_of x) of (n, d) \<Rightarrow> int_text n @ ''.'' @ int_text d)"

lemma plain_float_ok: "float_text_ok plain_float"
proof -
  have "x = y" if eq: "plain_float x = plain_float y" for x y
  proof -
    obtain n d m e where q: "quotient_of (rat_of x) = (n, d)" "quotient_of (rat_of y) = (m, e)" by force
    have t: "takeWhile (\<lambda>c. c \<noteq> CHR ''.'') (int_text a @ CHR ''.'' # int_text b) = int_text a" for a b
      using int_text_plain [of a] by (subst takeWhile_append2) auto
    have "int_text n @ CHR ''.'' # int_text d = int_text m @ CHR ''.'' # int_text e" using eq by (simp add: plain_float_def q)
    moreover from this have "int_text n = int_text m" using t by metis
    ultimately have "n = m" "d = e" by (simp_all add: int_text_inj)
    then have "rat_of x = rat_of y" using q by (metis quotient_of_inject)
    then show ?thesis by (simp add: rat_of_inject)
  qed
  moreover have "plain_float x \<noteq> [] \<and> set (plain_float x) \<subseteq> number_chars \<and> CHR ''.'' \<in> set (plain_float x)" for x
  proof -
    obtain n d where "quotient_of (rat_of x) = (n, d)" by force
    then have "plain_float x = int_text n @ CHR ''.'' # int_text d" by (simp add: plain_float_def)
    moreover have "CHR ''.'' \<in> number_chars" by (simp add: number_chars_def)
    ultimately show ?thesis using int_text_number [of n] int_text_number [of d] by simp
  qed
  ultimately show ?thesis by (auto simp: float_text_ok_def inj_def)
qed

definition plain_hashing :: hashing where
  "plain_hashing = \<lparr>hs_sha256 = (\<lambda>s. replicate 64 (if hd s = CHR ''['' then CHR ''0'' else CHR ''a'')),
     hs_float = plain_float, hs_instant = (\<lambda>t. int_text t @ ''+00:00'')\<rparr>"

section \<open>A case\<close>

definition mill_order :: order_explanation where
  "mill_order = \<lparr>ox_evidence_id = ''e1'', ox_stage = FirstStage, ox_scenario_id = None, ox_offer_id = ''o1'', ox_supplier_id = ''mill'', ox_store_id = ''s1'', ox_ingredient_id = ''flour'', ox_unit = ''kg'',
     ox_order_date = 10, ox_arrival_date = 11, ox_pack_count = 1, ox_order_quantity = fint 2, ox_purchase_cost = fint 2,
     ox_delivery_cost = 0, ox_emergency = False\<rparr>"

definition mill_final :: final_decision where
  "mill_final = \<lparr>fd_request_id = ''r'', fd_recommended = Some Lean, fd_immediate_orders = [mill_order],
     fd_dump = PDict [(''request_id'', PStr ''r'')]\<rparr>"

definition shop_policy :: approval_policy where
  "shop_policy = \<lparr>ap_policy_id = ''p'', ap_submitters = [''staff''], ap_approvers = [''boss'', ''owner''], ap_cancellers = [''staff''],
     ap_self_approval = False\<rparr>"

lemma mill_final_fields:
  "fd_request_id mill_final = ''r''" "fd_recommended mill_final = Some Lean" "fd_immediate_orders mill_final = [mill_order]"
  by (simp_all add: mill_final_def)

lemma shop_fields:
  "ap_submitters shop_policy = [''staff'']" "ap_approvers shop_policy = [''boss'', ''owner'']" "\<not> ap_self_approval shop_policy"
  by (simp_all add: shop_policy_def)

definition bound_mill_line :: approval_line where
  "bound_mill_line = \<lparr>al_offer_id = ''o1'', al_supplier_id = ''mill'', al_store_id = ''s1'', al_ingredient_id = ''flour'', al_unit = ''kg'',
     al_order_date = iso_date 10, al_arrival_date = iso_date 11, al_pack_count = 1, al_pack_size = fint 2, al_order_quantity = fint 2,
     al_unit_price = 1, al_purchase_cost = fint 2, al_delivery_cost = 0\<rparr>"

lemma mill_bound: "bound_orders mill_final flour_request = Inr [bound_mill_line]"
  by (simp add: bound_orders_def mill_final_fields flour_request_fields index_by_def bound_order_def mill_order_def mill_fields
      isclose_def approval_line_ok_def bound_mill_line_def fint_eval Let_def)

definition draft_under :: "approval_policy \<Rightarrow> approval_case" where
  "draft_under p = seal plain_hashing (opened_case plain_hashing mill_final Lean [bound_mill_line] p ''an'' ''staff'' ''k0'' 0 100)"

abbreviation draft_case :: approval_case where
  "draft_case \<equiv> draft_under shop_policy"

lemma plain_sha: "hs_sha256 plain_hashing s = replicate 64 (if hd s = CHR ''['' then CHR ''0'' else CHR ''a'')"
  by (simp add: plain_hashing_def)

lemma plain_sha_full: "is_full_sha256 (sha256_content_hash plain_hashing v)"
  by (auto simp: is_full_sha256_def sha256_content_hash_def plain_hashing_def HASH_PREFIX_def starts_with_def list_all_iff)

lemma draft_intact: "intact plain_hashing (draft_under p)"
  by (simp add: draft_under_def intact_def opened_case_def chain_step_new make_event_fields decision_snapshot_hash_def plain_sha_full Let_def)

lemma draft_created:
  assumes "''staff'' \<in> set (ap_submitters p)"
  shows "create_approval_case plain_hashing mill_final flour_request p ''an'' ''staff'' ''k0'' 0 100 = Inr (draft_under p)"
proof -
  have "validate_case plain_hashing (opened_case plain_hashing mill_final Lean [bound_mill_line] p ''an'' ''staff'' ''k0'' 0 100) = Inr (draft_under p)"
    using draft_intact [of p] by (simp add: validate_case_iff draft_under_def) (simp add: opened_case_def Let_def)
  then show ?thesis using assms
    by (simp add: create_approval_case_def opened_case_def mill_bound mill_final_fields flour_request_fields Let_def)
qed

lemma shop_created: "create_approval_case plain_hashing mill_final flour_request shop_policy ''an'' ''staff'' ''k0'' 0 100 = Inr draft_case"
  by (rule draft_created) (simp add: shop_fields)

lemma draft_fields:
  "cs_state draft_case = Draft" "cs_policy draft_case = shop_policy" "cs_requester draft_case = ''an''" "cs_expires_at draft_case = 100"
  "ae_idempotency_key ` set (cs_events draft_case) = {''k0''}" "cs_decision_hash draft_case = decision_snapshot_hash plain_hashing mill_final"
  by (simp_all add: draft_under_def opened_case_def make_event_fields Let_def)

definition pending_case :: approval_case where
  "pending_case = seal plain_hashing (moved_case plain_hashing draft_case (PendingApproval, ''an'', ''staff'', ''please'') ''k1'' 5)"

lemma pending_moved:
  "transition_approval_case plain_hashing draft_case PendingApproval ''an'' ''staff'' ''please'' ''k1''
     (decision_snapshot_hash plain_hashing mill_final) 5 = Inr pending_case"
  by (subst fresh_transition [OF draft_intact])
    (simp_all add: draft_fields effective_move_def move_allowed_def role_allowed_def shop_fields pending_case_def Let_def)

lemma pending_intact: "intact plain_hashing pending_case"
  using moved_intact [OF draft_intact] by (simp add: pending_case_def)

lemma pending_fields:
  "cs_state pending_case = PendingApproval" "cs_policy pending_case = shop_policy" "cs_requester pending_case = ''an''"
  "cs_expires_at pending_case = 100" "ae_idempotency_key ` set (cs_events pending_case) = {''k0'', ''k1''}"
  "cs_decision_hash pending_case = decision_snapshot_hash plain_hashing mill_final"
  using draft_fields by (auto simp: pending_case_def moved_case_def make_event_fields)

lemma draft_reachable: "reachable_case plain_hashing draft_case"
  by (rule reachable_case.opened [OF shop_created])

lemma pending_reachable: "reachable_case plain_hashing pending_case"
  by (rule reachable_case.moved [OF draft_reachable pending_moved])

theorem new_case_binds_decision_witness:
  "create_approval_case plain_hashing mill_final flour_request shop_policy ''an'' ''staff'' ''k0'' 0 100 = Inr draft_case \<and>
   approval_binds_current_decision plain_hashing draft_case mill_final \<and> inspect_approval_case plain_hashing draft_case mill_final 5 6 = Inr draft_case"
  using new_case_binds_decision [OF shop_created, of 5 6] shop_created by simp

theorem approved_exactly_when_entitled_witness:
  "(\<exists>c'. transition_approval_case plain_hashing pending_case Approved ''binh'' ''boss'' ''ok'' ''k2''
      (decision_snapshot_hash plain_hashing mill_final) 9 = Inr c' \<and> cs_state c' = Approved) \<and>
   \<not> (\<exists>c'. transition_approval_case plain_hashing pending_case Approved ''an'' ''boss'' ''ok'' ''k2''
      (decision_snapshot_hash plain_hashing mill_final) 9 = Inr c' \<and> cs_state c' = Approved)"
proof -
  have "''k2'' \<notin> ae_idempotency_key ` set (cs_events pending_case)" by (simp add: pending_fields)
  note iff = approved_exactly_when_entitled [OF pending_reachable this]
  show ?thesis unfolding iff by (simp add: pending_fields shop_fields)
qed

text \<open>The approval comes after the expiry: the case expires, and repeating the request is a conflict.\<close>

theorem repeated_request_replays_or_conflicts_witness:
  "\<exists>c'. transition_approval_case plain_hashing pending_case Approved ''binh'' ''boss'' ''ok'' ''k2''
      (decision_snapshot_hash plain_hashing mill_final) 200 = Inr c' \<and> cs_state c' = approval_state.Expired \<and>
    transition_approval_case plain_hashing c' Approved ''binh'' ''boss'' ''ok'' ''k2'' (decision_snapshot_hash plain_hashing mill_final) 201 =
      Inl (ApprovalError ''M6_APPROVAL_IDEMPOTENCY_CONFLICT'')"
proof -
  have fresh: "''k2'' \<notin> ae_idempotency_key ` set (cs_events pending_case)" by (simp add: pending_fields)
  have "\<exists>c'. transition_approval_case plain_hashing pending_case Approved ''binh'' ''boss'' ''ok'' ''k2''
      (decision_snapshot_hash plain_hashing mill_final) 200 = Inr c' \<and> cs_state c' = approval_state.Expired"
    by (subst fresh_transition [OF pending_intact fresh])
      (simp add: pending_fields effective_move_def move_allowed_def role_allowed_def moved_case_def Let_def)
  then obtain c' where c': "transition_approval_case plain_hashing pending_case Approved ''binh'' ''boss'' ''ok'' ''k2''
      (decision_snapshot_hash plain_hashing mill_final) 200 = Inr c'" "cs_state c' = approval_state.Expired" by blast
  with repeated_request_replays_or_conflicts [OF pending_reachable fresh c'(1)] show ?thesis by auto
qed

theorem approval_history_lawful_witness:
  "\<exists>c. reachable_case plain_hashing c \<and> cs_state c = Approved \<and> lawful_case c"
proof -
  have "''k2'' \<notin> ae_idempotency_key ` set (cs_events pending_case)" by (simp add: pending_fields)
  note iff = approval_succeeds_iff [OF pending_intact this]
  have "\<exists>c. transition_approval_case plain_hashing pending_case Approved ''binh'' ''boss'' ''ok'' ''k2''
      (decision_snapshot_hash plain_hashing mill_final) 9 = Inr c \<and> cs_state c = Approved"
    unfolding iff by (simp add: pending_fields shop_fields)
  then obtain c where "transition_approval_case plain_hashing pending_case Approved ''binh'' ''boss'' ''ok'' ''k2''
      (decision_snapshot_hash plain_hashing mill_final) 9 = Inr c" "cs_state c = Approved" by blast
  moreover from this(1) have "reachable_case plain_hashing c" by (rule reachable_case.moved [OF pending_reachable])
  ultimately show ?thesis using approval_history_lawful by blast
qed


text \<open>Two cases of one decision under different policies.\<close>

theorem last_event_hash_binds_case_witness:
  "let lenient = shop_policy\<lparr>ap_self_approval := True\<rparr> in
   draft_under lenient \<noteq> draft_case \<and> map (event_facts plain_hashing) (cs_events (draft_under lenient)) = map (event_facts plain_hashing) (cs_events draft_case) \<and>
   cs_orders (draft_under lenient) = cs_orders draft_case"
proof -
  let ?lenient = "shop_policy\<lparr>ap_self_approval := True\<rparr>"
  have "create_approval_case plain_hashing mill_final flour_request ?lenient ''an'' ''staff'' ''k0'' 0 100 = Inr (draft_under ?lenient)"
    by (rule draft_created) (simp add: shop_fields)
  then have r: "reachable_case plain_hashing (draft_under ?lenient)" by (rule reachable_case.opened)
  obtain e where e: "cs_events (draft_under p) = [e]" for p by (simp add: draft_under_def opened_case_def Let_def)
  have "hd (canonical_json plain_hashing (PList xs)) = CHR ''[''" "hd (canonical_json plain_hashing (event_material plain_hashing e)) = CHR ''{''" for xs
    by (simp_all add: canonical_json_def event_material_def)
  moreover have o': "cs_orders (draft_under p) = [bound_mill_line]" for p by (simp add: draft_under_def opened_case_def Let_def)
  ultimately have "inj_on (hs_sha256 plain_hashing) (hashed_texts plain_hashing (draft_under ?lenient) \<union> hashed_texts plain_hashing draft_case)"
    unfolding hashed_texts_def e o' by (intro inj_onI) (auto simp: plain_sha)
  moreover have "float_text_ok (hs_float plain_hashing)" using plain_float_ok by (simp add: plain_hashing_def)
  moreover have "cs_policy (draft_under p) = p" for p by (simp add: draft_under_def opened_case_def Let_def)
  then have "draft_under ?lenient \<noteq> draft_case" by (metis approval_policy.select_convs(5) approval_policy.surjective approval_policy.update_convs(5) shop_fields(3))
  ultimately show ?thesis using last_event_hash_binds_case [OF r draft_reachable] e by (simp add: Let_def)
qed

section \<open>A policy read back\<close>

definition swapped_policy :: approval_policy where
  "swapped_policy = shop_policy\<lparr>ap_approvers := [''owner'', ''boss'']\<rparr>"

text \<open>A digest that tells the case with the swapped approvers from all other texts.\<close>

definition swapped_text :: string where
  "swapped_text = canonical_json plain_hashing (case_dump plain_hashing (draft_case\<lparr>cs_policy := swapped_policy\<rparr>))"

definition telling_hashing :: hashing where
  "telling_hashing = plain_hashing\<lparr>hs_sha256 := (\<lambda>s. if s = swapped_text then replicate 64 (CHR ''b'') else hs_sha256 plain_hashing s)\<rparr>"

lemma telling_fields: "hs_float telling_hashing = plain_float" "hs_instant telling_hashing = hs_instant plain_hashing"
  by (simp_all add: telling_hashing_def plain_hashing_def)

lemma telling_json: "canonical_json telling_hashing v = canonical_json plain_hashing v"
  by (simp add: canonical_json_def telling_fields) (simp add: plain_hashing_def)

lemma telling_dumps: "event_material telling_hashing = event_material plain_hashing" "case_dump telling_hashing = case_dump plain_hashing"
  "case_material telling_hashing = case_material plain_hashing"
  by (intro ext, simp add: event_material_def case_dump_def event_dump_def instant_text_def case_material_def telling_fields)+

text \<open>Other texts are of lists or of dictionaries of another size.\<close>

lemma telling_hash:
  assumes "\<not> (\<exists>d. v = PDict d \<and> length d = 15)"
  shows "sha256_content_hash telling_hashing v = sha256_content_hash plain_hashing v"
proof -
  have "canonical_json plain_hashing v \<noteq> swapped_text"
  proof
    assume "canonical_json plain_hashing v = swapped_text"
    then have "canonical_value v = canonical_value (case_dump plain_hashing (draft_case\<lparr>cs_policy := swapped_policy\<rparr>))"
      using json_text_inj [OF plain_float_ok] by (simp add: swapped_text_def canonical_json_def plain_hashing_def)
    then obtain d where "v = PDict d" "length (map (\<lambda>(k, v). (k, canonical_value v)) d) = 15"
      by (cases v) (auto simp: case_dump_def dest: arg_cong [of _ _ length])
    with assms show False by simp
  qed
  then show ?thesis by (simp add: sha256_content_hash_def telling_json) (simp add: telling_hashing_def)
qed

lemma telling_draft:
  "opened_case telling_hashing mill_final Lean [bound_mill_line] p ''an'' ''staff'' ''k0'' 0 100 =
   opened_case plain_hashing mill_final Lean [bound_mill_line] p ''an'' ''staff'' ''k0'' 0 100"
proof -
  have o': "orders_digest telling_hashing ls = orders_digest plain_hashing ls" for ls by (simp add: orders_digest_def telling_hash)
  have d: "decision_snapshot_hash telling_hashing mill_final = decision_snapshot_hash plain_hashing mill_final"
    by (simp add: decision_snapshot_hash_def mill_final_def telling_hash)
  have e: "make_event telling_hashing s q a r f t rs ts ph k = make_event plain_hashing s q a r f t rs ts ph k" for s q a r f t rs ts ph k
    by (simp add: make_event_def telling_dumps Let_def telling_hash event_material_def)
  have m: "sha256_content_hash telling_hashing (case_material plain_hashing dh i st oh c x po ac ro k) =
    sha256_content_hash plain_hashing (case_material plain_hashing dh i st oh c x po ac ro k)" for dh i st oh c x po ac ro k
    by (rule telling_hash) (simp add: case_material_def)
  show ?thesis by (simp only: opened_case_def o' d e m telling_dumps)
qed

definition told_case :: approval_case where
  "told_case = seal telling_hashing (opened_case plain_hashing mill_final Lean [bound_mill_line] shop_policy ''an'' ''staff'' ''k0'' 0 100)"

lemma told_valid: "validate_case telling_hashing told_case = Inr told_case"
proof -
  have "is_full_sha256 (sha256_content_hash telling_hashing v)" for v
    by (auto simp: is_full_sha256_def sha256_content_hash_def telling_hashing_def plain_sha HASH_PREFIX_def starts_with_def list_all_iff)
  then have "intact telling_hashing (opened_case telling_hashing mill_final Lean [bound_mill_line] shop_policy ''an'' ''staff'' ''k0'' 0 100)"
    by (simp add: intact_def opened_case_def chain_step_new make_event_fields decision_snapshot_hash_def Let_def)
  then show ?thesis unfolding told_case_def telling_draft by (rule sealed_valid)
qed

theorem role_order_breaks_case_hash_witness:
  "validate_case telling_hashing told_case = Inr told_case \<and>
   validate_case telling_hashing (told_case\<lparr>cs_policy := swapped_policy\<rparr>) = Inl (ContractError ''M6_APPROVAL_CASE_HASH_MISMATCH'')"
proof -
  have p: "cs_policy told_case = shop_policy" by (simp add: told_case_def opened_case_def Let_def)
  have s: "told_case\<lparr>cs_policy := (cs_policy told_case)\<lparr>ap_approvers := [''owner'', ''boss'']\<rparr>\<rparr> = told_case\<lparr>cs_policy := swapped_policy\<rparr>"
    by (simp add: p swapped_policy_def)
  have d: "case_dump plain_hashing (told_case\<lparr>cs_policy := q\<rparr>) = case_dump plain_hashing (draft_case\<lparr>cs_policy := q\<rparr>)"
    "case_dump plain_hashing told_case = case_dump plain_hashing draft_case" for q
    by (simp_all add: told_case_def draft_under_def case_dump_def) (simp_all add: seal_def)
  have "canonical_json plain_hashing (case_dump plain_hashing draft_case) \<noteq> swapped_text"
  proof
    assume "canonical_json plain_hashing (case_dump plain_hashing draft_case) = swapped_text"
    then have "canonical_value (case_dump plain_hashing draft_case) = canonical_value (case_dump plain_hashing (draft_case\<lparr>cs_policy := swapped_policy\<rparr>))"
      using json_text_inj [OF plain_float_ok] by (simp add: swapped_text_def canonical_json_def plain_hashing_def)
    from canonical_dict_cancel [OF this [unfolded case_dump_def]]
    have "canonical_value (policy_dump shop_policy) = canonical_value (policy_dump swapped_policy)" by (simp add: draft_fields)
    from canonical_dict_cancel [OF this [unfolded policy_dump_def]] show False by (simp add: swapped_policy_def shop_fields)
  qed
  then have "inj_on (hs_sha256 telling_hashing) {canonical_json telling_hashing (case_dump telling_hashing told_case),
       canonical_json telling_hashing (case_dump telling_hashing (told_case\<lparr>cs_policy := swapped_policy\<rparr>))}"
    unfolding telling_json telling_dumps d by (intro inj_onI) (auto simp: swapped_text_def [symmetric] telling_hashing_def plain_sha split: if_splits)
  moreover have "float_text_ok (hs_float telling_hashing)" by (simp add: telling_fields plain_float_ok)
  ultimately have "validate_case telling_hashing (told_case\<lparr>cs_policy := swapped_policy\<rparr>) = Inl (ContractError ''M6_APPROVAL_CASE_HASH_MISMATCH'')"
    using role_order_breaks_case_hash [OF told_valid, of "[''owner'', ''boss'']"] unfolding s by (simp add: p shop_fields)
  with told_valid show ?thesis by simp
qed

end
