(* ===== verification/App_Base.thy ===== *)
theory App_Base
  imports Canonical_Json Opt_Contracts
begin

text \<open>
  What the services of \<open>src/app\<close> share: the errors of \<open>core/exceptions.py\<close>, Python's \<open>Decimal\<close>
  arithmetic at its default precision of 28 digits, the units of \<open>core/units.py\<close>, the dates of
  \<open>core/business_time.py\<close>, the request hash of \<open>core/provenance.py\<close> and the idempotency records of
  \<open>services/idempotency_service.py\<close>. Strings are UTF-8 bytes. An error carries its code and its HTTP
  status; messages and details are left out. \<open>IntegrityFailure\<close> is the \<open>IntegrityError\<close> of a violated constraint of the database.
\<close>

section \<open>Errors\<close>

datatype app_error =
    AppError string nat
  | CoreFailure core_error
  | DecimalError
  | IntegrityFailure

type_synonym 'a app = "(app_error, 'a) result"

definition validation_error :: app_error where
  "validation_error = AppError ''VALIDATION_ERROR'' 422"

definition store_not_found :: app_error where
  "store_not_found = AppError ''STORE_NOT_FOUND'' 404"

definition resource_not_found :: app_error where
  "resource_not_found = AppError ''RESOURCE_NOT_FOUND'' 404"

definition version_conflict :: app_error where
  "version_conflict = AppError ''VERSION_CONFLICT'' 409"

definition duplicate_request :: app_error where
  "duplicate_request = AppError ''DUPLICATE_REQUEST'' 409"

definition budget_exceeded :: app_error where
  "budget_exceeded = AppError ''BUDGET_EXCEEDED'' 409"

definition invalid_state_transition :: app_error where
  "invalid_state_transition = AppError ''INVALID_STATE_TRANSITION'' 409"

definition planning_error :: "string \<Rightarrow> app_error" where
  "planning_error code = AppError code 422"

definition constraint_error :: "string \<Rightarrow> app_error" where
  "constraint_error code = AppError code 422"

definition identity_conflict :: "string \<Rightarrow> app_error" where
  "identity_conflict code = AppError code 409"

section \<open>Decimal arithmetic\<close>

text \<open>
  A finite \<open>Decimal\<close> is the rational number it denotes. An operation rounds its exact result to 28
  significant digits, half to even; the exponent limits of the context (a million digits) are not modelled.
\<close>

type_synonym dec = rat

function dec_digits :: "int \<Rightarrow> int" where
  "dec_digits n = (if n \<le> 0 then 0 else 1 + dec_digits (n div 10))"
  by pat_completeness auto
termination
  by (relation "measure nat") auto

declare dec_digits.simps [simp del]

definition pow10 :: "int \<Rightarrow> rat" where
  "pow10 k = (if 0 \<le> k then 10 ^ nat k else 1 / 10 ^ nat (- k))"

text \<open>The \<open>k\<close> with \<open>10 ^ k \<le> x < 10 ^ (k + 1)\<close>, for positive \<open>x\<close>.\<close>

definition ilog10 :: "rat \<Rightarrow> int" where
  "ilog10 x = (let (n, d) = quotient_of x; k = dec_digits n - dec_digits d
               in if pow10 k \<le> x then k else k - 1)"

definition dec_rnd :: "rat \<Rightarrow> dec" where
  "dec_rnd x =
     (if x = 0 then 0
      else let e = ilog10 \<bar>x\<bar> - 27 in of_int (round_half_even (x / pow10 e)) * pow10 e)"

definition dec_add :: "dec \<Rightarrow> dec \<Rightarrow> dec" where "dec_add a b = dec_rnd (a + b)"
definition dec_sub :: "dec \<Rightarrow> dec \<Rightarrow> dec" where "dec_sub a b = dec_rnd (a - b)"
definition dec_mul :: "dec \<Rightarrow> dec \<Rightarrow> dec" where "dec_mul a b = dec_rnd (a * b)"

definition dec_div :: "dec \<Rightarrow> dec \<Rightarrow> dec app" where
  "dec_div a b = (if b = 0 then Inl DecimalError else Inr (dec_rnd (a / b)))"

text \<open>\<open>sum(xs, Decimal(0))\<close>.\<close>

definition dec_sum :: "dec list \<Rightarrow> dec" where
  "dec_sum xs = foldl dec_add 0 xs"

text \<open>\<open>int(x)\<close> truncates towards zero.\<close>

definition dec_int :: "dec \<Rightarrow> int" where
  "dec_int x = (if x < 0 then \<lceil>x\<rceil> else \<lfloor>x\<rfloor>)"

text \<open>\<open>x % y\<close> takes the sign of \<open>x\<close> and fails when the integer quotient needs more than 28 digits.\<close>

definition dec_mod :: "dec \<Rightarrow> dec \<Rightarrow> dec app" where
  "dec_mod a b =
     (if b = 0 then Inl DecimalError
      else let q = dec_int (a / b) in
        if 10 ^ 28 \<le> \<bar>q\<bar> then Inl DecimalError else Inr (a - b * of_int q))"

subsection \<open>Exact results\<close>

lemma pow10_pos [simp]: "0 < pow10 k"
  by (simp add: pow10_def)

lemma pow10_nonneg [simp]: "0 \<le> pow10 k"
  using pow10_pos [of k] by linarith

lemma pow10_neq_0 [simp]: "pow10 k \<noteq> 0"
  using pow10_pos [of k] by linarith

lemma pow10_eq_powi: "pow10 k = 10 powi k"
  by (simp add: pow10_def power_int_def inverse_eq_divide power_one_over)

lemma pow10_add: "pow10 (a + b) = pow10 a * pow10 b"
  by (simp add: pow10_eq_powi power_int_add)

lemma pow10_diff: "pow10 (a - b) = pow10 a / pow10 b"
  by (simp add: pow10_eq_powi power_int_diff)

lemma pow10_mono: "a \<le> b \<Longrightarrow> pow10 a \<le> pow10 b"
  unfolding pow10_eq_powi by (rule power_int_increasing) simp_all

lemma pow10_less_iff [simp]: "pow10 a < pow10 b \<longleftrightarrow> a < b"
  by (metis linorder_not_le order_less_irrefl pow10_eq_powi pow10_mono power_int_strict_increasing order_le_less_trans
      one_less_numeral_iff semiring_norm(76))

lemma pow10_nat: "0 \<le> k \<Longrightarrow> pow10 k = of_int (10 ^ nat k)"
  by (simp add: pow10_def)

lemma dec_digits_bounds:
  assumes "0 < n"
  shows "1 \<le> dec_digits n" "(10 :: int) ^ nat (dec_digits n - 1) \<le> n" "n < 10 ^ nat (dec_digits n)"
proof -
  have "1 \<le> dec_digits n \<and> (10 :: int) ^ nat (dec_digits n - 1) \<le> n \<and> n < 10 ^ nat (dec_digits n)"
    using assms
  proof (induction n rule: dec_digits.induct)
    case (1 n)
    show ?case
    proof (cases "n < 10")
      case True
      with 1(2) have "n div 10 = 0" by simp
      with 1(2) True show ?thesis by (simp add: dec_digits.simps [of n] dec_digits.simps [of 0])
    next
      case False
      let ?k = "dec_digits (n div 10)"
      have p: "0 < n div 10" using False by (simp add: pos_imp_zdiv_pos_iff)
      with 1 have ih: "1 \<le> ?k" "(10 :: int) ^ nat (?k - 1) \<le> n div 10" "n div 10 < 10 ^ nat ?k" by auto
      have d: "dec_digits n = 1 + ?k" using 1(2) by (simp add: dec_digits.simps [of n])
      have "nat ?k = Suc (nat (?k - 1))" "nat (1 + ?k) = Suc (nat ?k)" using ih(1) by linarith+
      with ih(2,3) have "(10 :: int) ^ nat ?k \<le> n" "n < 10 ^ nat (1 + ?k)" by simp_all linarith+
      with ih(1) show ?thesis by (simp add: d)
    qed
  qed
  then show "1 \<le> dec_digits n" "(10 :: int) ^ nat (dec_digits n - 1) \<le> n" "n < 10 ^ nat (dec_digits n)" by blast+
qed

lemma ilog10_lower:
  assumes "0 < x"
  shows "pow10 (ilog10 x) \<le> x"
proof -
  obtain n d where q: "quotient_of x = (n, d)" by (cases "quotient_of x")
  have d: "0 < d" using q by (rule quotient_of_denom_pos)
  have x: "x = of_int n / of_int d" using q by (rule quotient_of_div)
  have n: "0 < n" using assms d by (simp add: x zero_less_divide_iff)
  define k where "k = dec_digits n - dec_digits d"
  have "pow10 (k - 1) * of_int d \<le> pow10 (k - 1) * pow10 (dec_digits d)"
    using dec_digits_bounds(1,3) [OF d]
    by (intro mult_left_mono) (auto simp: pow10_nat simp del: of_int_power intro: less_imp_le)
  also have "\<dots> = pow10 (dec_digits n - 1)" by (simp add: k_def pow10_add [symmetric])
  also have "\<dots> \<le> of_int n"
    using dec_digits_bounds(1,2) [OF n] by (simp add: pow10_nat del: of_int_power)
  finally have "pow10 (k - 1) \<le> x" using d by (simp add: x pos_le_divide_eq)
  then show ?thesis by (simp add: ilog10_def q k_def [symmetric] Let_def)
qed

text \<open>A number of at most 28 digits is not rounded.\<close>

lemma dec_rnd_exact:
  assumes x: "x = of_int m * pow10 k" and m: "\<bar>m\<bar> < 10 ^ 28"
  shows "dec_rnd x = x"
proof (cases "m = 0")
  case True
  with x show ?thesis by (simp add: dec_rnd_def)
next
  case False
  define e where "e = ilog10 \<bar>x\<bar> - 27"
  have "(of_int \<bar>m\<bar> :: rat) < of_int (10 ^ 28)" using m by (simp only: of_int_less_iff)
  then have "\<bar>x\<bar> < of_int (10 ^ 28) * pow10 k" by (simp add: x abs_mult)
  also have "\<dots> = pow10 (28 + k)" by (simp only: pow10_add) (simp add: pow10_def)
  finally have "\<bar>x\<bar> < pow10 (28 + k)" .
  moreover have "pow10 (ilog10 \<bar>x\<bar>) \<le> \<bar>x\<bar>" using False by (intro ilog10_lower) (simp add: x)
  ultimately have "pow10 (ilog10 \<bar>x\<bar>) < pow10 (28 + k)" by linarith
  then have e: "0 \<le> k - e" by (simp add: e_def)
  have "x / pow10 e = of_int m * pow10 (k - e)" by (simp add: x pow10_diff)
  also have "\<dots> = of_int (m * 10 ^ nat (k - e))" using e by (simp add: pow10_nat)
  finally have "round_half_even (x / pow10 e) = m * 10 ^ nat (k - e)" by (metis round_half_even_of_int)
  then have "dec_rnd x = of_int m * (pow10 (k - e) * pow10 e)"
    using False e unfolding dec_rnd_def Let_def e_def [symmetric] by (simp add: x pow10_nat)
  also have "\<dots> = x" by (simp add: x pow10_add [symmetric])
  finally show ?thesis .
qed

section \<open>Units\<close>

text \<open>\<open>unicodedata.normalize("NFC", s).strip().casefold()\<close>, whose tables are the runtime's, is the argument
  \<open>nfc\<close>. The unit that stands for no unit is \<open>None\<close>.\<close>

definition LITER :: string where
  "LITER = [CHR ''l'', CHR 0xC3, CHR 0xAD, CHR ''t'']"

definition PIECE :: string where
  "PIECE = [CHR ''c'', CHR 0xC3, CHR 0xA1, CHR ''i'']"

definition app_aliases :: "(string, string) dict" where
  "app_aliases =
     [(''kg'', ''kg''), (''kilogram'', ''kg''), (''kilograms'', ''kg''),
      (''g'', ''g''), (''gram'', ''g''), (''grams'', ''g''),
      (''l'', LITER), (''liter'', LITER), (''litre'', LITER), (''liters'', LITER),
      (''litres'', LITER), (''lit'', LITER), (LITER, LITER),
      (''ml'', ''ml''), (''milliliter'', ''ml''), (''millilitre'', ''ml''),
      (''piece'', PIECE), (''pieces'', PIECE), (''pcs'', PIECE), (''unit'', PIECE), (''units'', PIECE), (PIECE, PIECE)]"

definition app_dimensions :: "(string, string) dict" where
  "app_dimensions = [(''kg'', ''mass''), (''g'', ''mass''), (LITER, ''volume''), (''ml'', ''volume''), (PIECE, ''count'')]"

definition app_to_base :: "(string, dec) dict" where
  "app_to_base = [(''kg'', 1000), (''g'', 1), (LITER, 1000), (''ml'', 1), (PIECE, 1)]"

type_synonym text_fun = "string \<Rightarrow> string"

definition normalize_unit_app :: "text_fun \<Rightarrow> string option \<Rightarrow> string option app" where
  "normalize_unit_app nfc unit =
     (let key = nfc (case unit of None \<Rightarrow> ''None'' | Some u \<Rightarrow> u) in
      if key = ''none'' then Inr None
      else case dict_get app_aliases key of None \<Rightarrow> Inl validation_error | Some u \<Rightarrow> Inr (Some u))"

definition unit_dimension_app :: "text_fun \<Rightarrow> string option \<Rightarrow> string app" where
  "unit_dimension_app nfc unit =
     ebind (normalize_unit_app nfc unit) (\<lambda>u.
     Inr (case u of None \<Rightarrow> ''missing'' | Some u \<Rightarrow> dict_get_or app_dimensions u []))"

definition validate_compatible :: "text_fun \<Rightarrow> string option \<Rightarrow> string option \<Rightarrow> unit app" where
  "validate_compatible nfc from_unit to_unit =
     ebind (unit_dimension_app nfc from_unit) (\<lambda>source.
     ebind (unit_dimension_app nfc to_unit) (\<lambda>target.
     raise_if (''missing'' \<notin> {source, target} \<and> source \<noteq> target) validation_error))"

definition convert_quantity :: "text_fun \<Rightarrow> dec \<Rightarrow> string option \<Rightarrow> string option \<Rightarrow> dec app" where
  "convert_quantity nfc quantity from_unit to_unit =
     ebind (normalize_unit_app nfc from_unit) (\<lambda>source.
     ebind (normalize_unit_app nfc to_unit) (\<lambda>target.
     case (source, target) of
       (Some s, Some t) \<Rightarrow>
         ebind (validate_compatible nfc source target) (\<lambda>_.
         dec_div (dec_mul quantity (dict_get_or app_to_base s 0)) (dict_get_or app_to_base t 0))
     | _ \<Rightarrow> Inr quantity))"

section \<open>Dates\<close>

text \<open>\<open>strftime("%Y-%m")\<close> of a date from the year 1000 on, and the first and last day of its month.\<close>

definition month_period :: "date \<Rightarrow> string" where
  "month_period d = (case ymd_of d of (y, m, _) \<Rightarrow> pad4 y @ ''-'' @ pad2 m)"

definition month_start :: "date \<Rightarrow> date" where
  "month_start d = (case ymd_of d of (_, _, n) \<Rightarrow> d - int n + 1)"

definition leap_year :: "nat \<Rightarrow> bool" where
  "leap_year y \<longleftrightarrow> y mod 4 = 0 \<and> (y mod 100 \<noteq> 0 \<or> y mod 400 = 0)"

definition month_end :: "date \<Rightarrow> date" where
  "month_end d =
     (case ymd_of d of (y, m, _) \<Rightarrow> month_start d + int (days_in_month ! m + (if m = 2 \<and> leap_year y then 1 else 0)) - 1)"

definition planning_start_date :: "date \<Rightarrow> date py" where
  "planning_start_date cutoff = add_days cutoff 1"

definition planning_end_date :: "date \<Rightarrow> int \<Rightarrow> date py" where
  "planning_end_date cutoff horizon_days =
     ebind (raise_if (horizon_days < 1) (exn PyValueError [])) (\<lambda>_.
     ebind (planning_start_date cutoff) (\<lambda>start. add_days start (horizon_days - 1)))"

section \<open>Requests\<close>

text \<open>\<open>canonical_hash\<close> of a JSON value: keys that start with \<open>_volatile\<close> are dropped before the canonical text.\<close>

fun stable :: "pyval \<Rightarrow> pyval" where
  "stable (PDict d) = PDict (map (\<lambda>(k, v). (k, stable v)) (filter (\<lambda>(k, v). \<not> starts_with ''_volatile'' k) d))"
| "stable (PList xs) = PList (map stable xs)"
| "stable v = v"

definition canonical_hash :: "hashing \<Rightarrow> pyval \<Rightarrow> string" where
  "canonical_hash H v = hs_sha256 H (canonical_json H (stable v))"

text \<open>A body keeps the dump it is hashed by. The JSON text of a stored response is kept as the response.\<close>

record 'r idem_record =
  ir_store :: "string option"
  ir_endpoint :: string
  ir_method :: string
  ir_key :: string
  ir_hash :: "string option"
  ir_resource_type :: "string option"
  ir_resource_id :: "string option"
  ir_status :: "int option"
  ir_body :: "'r option"

definition upper_char :: "char \<Rightarrow> char" where
  "upper_char c = (let n = of_char c :: nat in if 97 \<le> n \<and> n \<le> 122 then char_of (n - 32) else c)"

definition str_upper :: "string \<Rightarrow> string" where
  "str_upper = map upper_char"

definition idem_matches :: "string option \<Rightarrow> string \<Rightarrow> string \<Rightarrow> string \<Rightarrow> 'r idem_record \<Rightarrow> bool" where
  "idem_matches store endpoint http_method key r \<longleftrightarrow>
     ir_store r = store \<and> ir_endpoint r = endpoint \<and> ir_method r = str_upper http_method \<and> ir_key r = key"

definition idem_get ::
    "'r idem_record list \<Rightarrow> string option \<Rightarrow> string \<Rightarrow> string \<Rightarrow> string \<Rightarrow> 'r idem_record option" where
  "idem_get records store endpoint http_method key = find (idem_matches store endpoint http_method key) records"

text \<open>\<open>IdempotencyService.register\<close>: the records after it, the record of the key, and whether it is a replay.\<close>

definition idem_register ::
    "'r idem_record list \<Rightarrow> string option \<Rightarrow> string \<Rightarrow> string \<Rightarrow> string \<Rightarrow> string option \<Rightarrow>
     ('r idem_record list \<times> 'r idem_record \<times> bool) app" where
  "idem_register records store endpoint http_method key request_hash =
     (case idem_get records store endpoint http_method key of
        Some existing \<Rightarrow>
          ebind (raise_if (ir_hash existing \<noteq> request_hash) duplicate_request) (\<lambda>_. Inr (records, existing, True))
      | None \<Rightarrow>
          let r = \<lparr>ir_store = store, ir_endpoint = endpoint, ir_method = str_upper http_method, ir_key = key,
                   ir_hash = request_hash, ir_resource_type = None, ir_resource_id = None, ir_status = None, ir_body = None\<rparr>
          in Inr (records @ [r], r, False))"

text \<open>The record found by a key, updated in place.\<close>

fun update_first :: "('a \<Rightarrow> bool) \<Rightarrow> ('a \<Rightarrow> 'a) \<Rightarrow> 'a list \<Rightarrow> 'a list" where
  "update_first P f [] = []"
| "update_first P f (x # xs) = (if P x then f x # xs else x # update_first P f xs)"

definition idem_update ::
    "'r idem_record list \<Rightarrow> string option \<Rightarrow> string \<Rightarrow> string \<Rightarrow> string \<Rightarrow> ('r idem_record \<Rightarrow> 'r idem_record) \<Rightarrow>
     'r idem_record list" where
  "idem_update records store endpoint http_method key f =
     update_first (idem_matches store endpoint http_method key) f records"

text \<open>A request with a key: a replay returns the stored response and writes nothing, else the work is done on
  the registered records and its response is stored.\<close>

definition with_idempotency ::
    "'r idem_record list \<Rightarrow> string option \<Rightarrow> string \<Rightarrow> string \<Rightarrow> string option \<Rightarrow> string \<Rightarrow>
     ('r idem_record list \<Rightarrow> 's app) \<Rightarrow> ('r idem_record \<Rightarrow> 's app) \<Rightarrow> 's app" where
  "with_idempotency records store endpoint http_method key request_hash work replay =
     (case key of
        Some k \<Rightarrow>
          if k = [] then work records
          else ebind (idem_register records store endpoint http_method k (Some request_hash)) (\<lambda>(records', r, is_replay).
               if is_replay then replay r else work records')
      | None \<Rightarrow> work records)"

end
