(* ===== verification/Constraints.thy ===== *)
theory Constraints
  imports App_Base
begin

text \<open>
  The business constraints of a store: the registry and the normalisation of \<open>app/core/business_constraints.py\<close>,
  the versioned table with the operations of \<open>services/inventory_constraint_write_service.py\<close> and of the import
  (\<open>services/business_persistence.py\<close>), the query of \<open>repositories/inventory_constraints.py\<close> and the resolvers
  of \<open>services/business_constraint_resolver.py\<close> and \<open>services/budget_resolver.py\<close>. A table lists its rows in the
  order they were added; a request either commits the tables it returns or, with an error, leaves them alone.
\<close>

section \<open>The registry\<close>

datatype constraint_dimension = QuantityDim | DurationDim | RatioDim | CapacityDim | CurrencyDim

datatype constraint_scope = IngredientScope | StoreScope | StoreOrIngredient

record constraint_definition =
  cd_name :: string
  cd_aliases :: "string list"
  cd_dimension :: constraint_dimension
  cd_scope :: constraint_scope
  cd_ingredient_required :: bool
  cd_unit_required :: bool
  cd_allowed_units :: "string list"
  cd_canonical_unit :: "string option"
  cd_minimum :: dec
  cd_maximum :: "dec option"
  cd_integer :: bool
  cd_support :: string
  cd_priority :: "int option"

definition PHYSICAL_UNITS :: "string list" where
  "PHYSICAL_UNITS = [''kg'', ''g'', LITER, ''ml'', PIECE]"

definition VOLUME_UNITS :: "string list" where
  "VOLUME_UNITS = [LITER, ''ml'']"

text \<open>\<open>_definition\<close> with its defaults.\<close>

definition define_constraint ::
    "string \<Rightarrow> string list \<Rightarrow> constraint_dimension \<Rightarrow> constraint_scope \<Rightarrow> bool \<Rightarrow> bool \<Rightarrow> string list \<Rightarrow> constraint_definition" where
  "define_constraint name aliases dimension scope ingredient_required unit_required allowed =
     \<lparr>cd_name = name, cd_aliases = aliases, cd_dimension = dimension, cd_scope = scope,
      cd_ingredient_required = ingredient_required, cd_unit_required = unit_required, cd_allowed_units = allowed,
      cd_canonical_unit = None, cd_minimum = 0, cd_maximum = None, cd_integer = False,
      cd_support = ''configured_only'', cd_priority = None\<rparr>"

definition CONSTRAINT_DEFINITIONS :: "constraint_definition list" where
  "CONSTRAINT_DEFINITIONS =
     [(define_constraint ''safety_stock'' [''safety stock''] QuantityDim IngredientScope True True PHYSICAL_UNITS)
        \<lparr>cd_support := ''supported''\<rparr>,
      (define_constraint ''maximum_stock'' [''maximum stock'', ''max_stock''] QuantityDim IngredientScope True True PHYSICAL_UNITS)
        \<lparr>cd_support := ''supported''\<rparr>,
      define_constraint ''minimum_stock'' [''minimum stock'', ''min_stock''] QuantityDim IngredientScope True True PHYSICAL_UNITS,
      define_constraint ''reorder_point'' [''reorder point''] QuantityDim IngredientScope True True PHYSICAL_UNITS,
      (define_constraint ''shelf_life_target'' [''shelf life target'', ''shelf_life''] DurationDim IngredientScope True True [''day''])
        \<lparr>cd_canonical_unit := Some ''day'', cd_integer := True\<rparr>,
      (define_constraint ''service_level_target'' [''service level target'', ''service_level''] RatioDim StoreOrIngredient False True
        [''ratio'', ''percent''])\<lparr>cd_canonical_unit := Some ''ratio''\<rparr>,
      (define_constraint ''storage_capacity'' [''storage capacity''] CapacityDim StoreScope False True PHYSICAL_UNITS)
        \<lparr>cd_priority := Some 2\<rparr>,
      (define_constraint ''warehouse_capacity'' [''warehouse capacity''] CapacityDim StoreScope False True PHYSICAL_UNITS)
        \<lparr>cd_priority := Some 3\<rparr>,
      (define_constraint ''maximum_storage_volume'' [''maximum storage volume'', ''max_storage_volume''] CapacityDim StoreScope False True
        VOLUME_UNITS)\<lparr>cd_canonical_unit := Some LITER, cd_priority := Some 1\<rparr>,
      (define_constraint ''budget'' [''store_budget''] CurrencyDim StoreScope False True [''VND''])\<lparr>cd_canonical_unit := Some ''VND''\<rparr>]"

text \<open>Texts of the runtime: NFC with \<open>strip\<close> and \<open>casefold\<close>; \<open>strip\<close>, \<open>casefold\<close> and NFD without combining marks;
  the former with runs of white space replaced by a space; and \<open>format(x.normalize(), "f")\<close> of a decimal.\<close>

record unicode =
  un_nfc :: text_fun
  un_plain :: text_fun
  un_name :: text_fun
  un_decimal :: "dec \<Rightarrow> string"

definition DONG :: string where
  "DONG = [CHR 0xC4, CHR 0x91]"

text \<open>The replacement of the letter \<open>DONG\<close> by \<open>d\<close>.\<close>

fun replace_dong :: "string \<Rightarrow> string" where
  "replace_dong (a # b # s) = (if [a, b] = DONG then CHR ''d'' # replace_dong s else a # replace_dong (b # s))"
| "replace_dong s = s"

definition fold_text :: "unicode \<Rightarrow> string option \<Rightarrow> string" where
  "fold_text U value = replace_dong (un_plain U (case value of None \<Rightarrow> [] | Some s \<Rightarrow> s))"

definition underscored :: "string \<Rightarrow> string" where
  "underscored s = str_replace_char (CHR ''-'') (CHR ''_'') (str_replace_char (CHR '' '') (CHR ''_'') s)"

definition constraint_alias_index :: "unicode \<Rightarrow> (string, string) dict" where
  "constraint_alias_index U =
     foldl (\<lambda>d (alias, canonical). dict_set alias canonical d) []
       (concat (map (\<lambda>c. map (\<lambda>raw. (underscored (fold_text U (Some raw)), cd_name c)) (cd_name c # cd_aliases c))
         CONSTRAINT_DEFINITIONS))"

definition normalize_constraint_type :: "unicode \<Rightarrow> string option \<Rightarrow> string" where
  "normalize_constraint_type U value =
     (let normalized = underscored (fold_text U value) in dict_get_or (constraint_alias_index U) normalized normalized)"

definition constraint_definition_of :: "unicode \<Rightarrow> string option \<Rightarrow> (string \<times> constraint_definition) app" where
  "constraint_definition_of U constraint_type =
     (let kind = normalize_constraint_type U constraint_type in
      case find (\<lambda>c. cd_name c = kind) CONSTRAINT_DEFINITIONS of
        None \<Rightarrow> Inl (constraint_error ''BUSINESS_CONSTRAINT_TYPE_UNSUPPORTED'')
      | Some d \<Rightarrow> Inr (kind, d))"

section \<open>Normalisation\<close>

definition DURATION_UNITS :: "(string, string) dict" where
  "DURATION_UNITS = [(''day'', ''day''), (''days'', ''day''), (''d'', ''day''), (''ngay'', ''day'')]"

definition RATIO_UNITS :: "(string, string \<times> dec) dict" where
  "RATIO_UNITS =
     [(''ratio'', (''ratio'', 1)), (''percent'', (''ratio'', 1 / 100)), (''percentage'', (''ratio'', 1 / 100)), (''%'', (''ratio'', 1 / 100))]"

definition CURRENCY_UNITS :: "(string, string) dict" where
  "CURRENCY_UNITS = [(''vnd'', ''VND''), (DONG, ''VND''), (''dong'', ''VND'')]"

definition value_invalid :: app_error where
  "value_invalid = constraint_error ''BUSINESS_CONSTRAINT_VALUE_INVALID''"

definition unit_invalid :: app_error where
  "unit_invalid = constraint_error ''BUSINESS_CONSTRAINT_UNIT_INVALID''"

text \<open>\<open>_decimal\<close>; a value that is no finite decimal is \<open>None\<close>.\<close>

definition constraint_decimal :: "constraint_definition \<Rightarrow> dec option \<Rightarrow> dec app" where
  "constraint_decimal d value =
     (case value of
        None \<Rightarrow> Inl value_invalid
      | Some n \<Rightarrow>
          ebind (raise_if (n < cd_minimum d \<or> (case cd_maximum d of None \<Rightarrow> False | Some m \<Rightarrow> m < n)) value_invalid) (\<lambda>_.
          ebind (raise_if (cd_integer d \<and> (n \<le> 0 \<or> n \<noteq> of_int \<lfloor>n\<rfloor>)) value_invalid) (\<lambda>_. Inr n)))"

record ingredient_row =
  ig_id :: string
  ig_store :: string
  ig_name :: string
  ig_normalized :: string
  ig_base_unit :: string
  ig_tracking :: tracking_mode
  ig_declared :: bool

record normalized_constraint =
  nb_kind :: string
  nb_value :: dec
  nb_unit :: string
  nb_dimension :: constraint_dimension
  nb_scope :: constraint_scope

text \<open>The branches on the dimension: the value and its canonical unit, from the stripped unit.\<close>

definition unit_text :: "string option \<Rightarrow> string" where
  "unit_text u = (case u of None \<Rightarrow> ''None'' | Some s \<Rightarrow> s)"

definition canonical_constraint_unit ::
    "unicode \<Rightarrow> constraint_definition \<Rightarrow> ingredient_row option \<Rightarrow> dec \<Rightarrow> string \<Rightarrow> (dec \<times> string) app" where
  "canonical_constraint_unit U d ingredient number raw_unit =
     (case cd_dimension d of
        QuantityDim \<Rightarrow>
          ebind (raise_if (raw_unit = []) unit_invalid) (\<lambda>_.
          ebind (map_error (\<lambda>_. unit_invalid) (normalize_unit_app (un_nfc U) (Some raw_unit))) (\<lambda>unit.
          case ingredient of
            None \<Rightarrow> Inl unit_invalid
          | Some i \<Rightarrow>
              ebind (map_error (\<lambda>_. unit_invalid) (validate_compatible (un_nfc U) (Some (unit_text unit)) (Some (ig_base_unit i)))) (\<lambda>_.
              Inr (number, unit_text unit))))
      | DurationDim \<Rightarrow>
          (case dict_get DURATION_UNITS (fold_text U (Some raw_unit)) of
             None \<Rightarrow> Inl unit_invalid | Some unit \<Rightarrow> Inr (number, unit))
      | RatioDim \<Rightarrow>
          (case dict_get RATIO_UNITS (fold_text U (Some raw_unit)) of
             None \<Rightarrow> Inl unit_invalid
           | Some (unit, multiplier) \<Rightarrow>
               let n = dec_mul number multiplier in
               ebind (raise_if (n < 0 \<or> 1 < n) value_invalid) (\<lambda>_. Inr (n, unit)))
      | CapacityDim \<Rightarrow>
          ebind (raise_if (raw_unit = []) unit_invalid) (\<lambda>_.
          ebind (map_error (\<lambda>_. unit_invalid) (normalize_unit_app (un_nfc U) (Some raw_unit))) (\<lambda>unit.
          ebind (map_error (\<lambda>_. unit_invalid) (unit_dimension_app (un_nfc U) (Some (unit_text unit)))) (\<lambda>dimension.
          ebind (raise_if (cd_canonical_unit d = Some LITER \<and> dimension \<noteq> ''volume'') unit_invalid) (\<lambda>_.
          Inr (number, unit_text unit)))))
      | CurrencyDim \<Rightarrow>
          (case dict_get CURRENCY_UNITS (fold_text U (if raw_unit = [] then cd_canonical_unit d else Some raw_unit)) of
             None \<Rightarrow> Inl unit_invalid | Some unit \<Rightarrow> Inr (number, unit)))"

definition validate_and_normalize ::
    "unicode \<Rightarrow> string option \<Rightarrow> dec option \<Rightarrow> string option \<Rightarrow> ingredient_row option \<Rightarrow> normalized_constraint app" where
  "validate_and_normalize U constraint_type value unit ingredient =
     ebind (constraint_definition_of U constraint_type) (\<lambda>(kind, d).
     ebind (raise_if (cd_ingredient_required d \<and> ingredient = None) (constraint_error ''INGREDIENT_NOT_FOUND'')) (\<lambda>_.
     ebind (raise_if (cd_scope d = StoreScope \<and> ingredient \<noteq> None) value_invalid) (\<lambda>_.
     ebind (constraint_decimal d value) (\<lambda>number.
     ebind (canonical_constraint_unit U d ingredient number (str_strip (case unit of None \<Rightarrow> [] | Some s \<Rightarrow> s))) (\<lambda>(n, canonical).
     Inr \<lparr>nb_kind = kind, nb_value = n, nb_unit = canonical, nb_dimension = cd_dimension d, nb_scope = cd_scope d\<rparr>)))))"

section \<open>The versioned table\<close>

record constraint_row =
  cn_id :: string
  cn_store :: string
  cn_ingredient :: "string option"
  cn_kind :: string
  cn_value :: dec
  cn_unit :: string
  cn_currency :: "string option"
  cn_effective :: date
  cn_end :: "date option"
  cn_version :: int
  cn_active :: bool
  cn_source :: string
  cn_hash :: "string option"
  cn_note :: "string option"
  cn_superseded :: "string option"

text \<open>The response to a write: the constraint and the history of its family, newest version first.\<close>

record history_item =
  hi_id :: string
  hi_version :: int
  hi_effective :: date
  hi_end :: "date option"
  hi_active :: bool
  hi_superseded :: "string option"

record constraint_response =
  kr_constraint :: constraint_row
  kr_history :: "history_item list"

text \<open>What a correction asks of the planning tables: per plan of a run its store and status, the cutoff of its
  forecast and the ingredients of its constraint trace.\<close>

record plan_trace =
  pt_store :: string
  pt_status :: string
  pt_cutoff :: date
  pt_ingredients :: "string list"

record audit_row =
  au_store :: string
  au_action :: string
  au_type :: string
  au_resource :: string

record constraint_db =
  kd_stores :: "string list"
  kd_ingredients :: "ingredient_row list"
  kd_aliases :: "(string \<times> string \<times> string) list"
  kd_constraints :: "constraint_row list"
  kd_plans :: "plan_trace list"
  kd_idem :: "constraint_response idem_record list"
  kd_audit :: "audit_row list"

text \<open>A family is the rows of one store, ingredient and kind.\<close>

definition in_family :: "string \<Rightarrow> string option \<Rightarrow> string \<Rightarrow> constraint_row \<Rightarrow> bool" where
  "in_family store ingredient kind r \<longleftrightarrow> cn_store r = store \<and> cn_ingredient r = ingredient \<and> cn_kind r = kind"

definition family :: "constraint_row list \<Rightarrow> string \<Rightarrow> string option \<Rightarrow> string \<Rightarrow> constraint_row list" where
  "family rows store ingredient kind = sort_key (\<lambda>r. - cn_version r) (filter (in_family store ingredient kind) rows)"

definition latest :: "constraint_row list \<Rightarrow> string \<Rightarrow> string option \<Rightarrow> string \<Rightarrow> constraint_row option" where
  "latest rows store ingredient kind =
     (case family rows store ingredient kind of [] \<Rightarrow> None | r # _ \<Rightarrow> Some r)"

definition required_constraint :: "constraint_row list \<Rightarrow> string \<Rightarrow> string \<Rightarrow> constraint_row app" where
  "required_constraint rows store constraint_id =
     (case find (\<lambda>r. cn_store r = store \<and> cn_id r = constraint_id) rows of
        None \<Rightarrow> Inl resource_not_found | Some r \<Rightarrow> Inr r)"

text \<open>The rows with a given id, rewritten in place.\<close>

definition update_row :: "string \<Rightarrow> (constraint_row \<Rightarrow> constraint_row) \<Rightarrow> constraint_row list \<Rightarrow> constraint_row list" where
  "update_row constraint_id f rows = map (\<lambda>r. if cn_id r = constraint_id then f r else r) rows"

definition used_by_completed_plan :: "plan_trace list \<Rightarrow> constraint_row \<Rightarrow> bool" where
  "used_by_completed_plan plans c \<longleftrightarrow>
     list_ex (\<lambda>p. pt_store p = cn_store c \<and> pt_status p = ''completed'' \<and> cn_effective c \<le> pt_cutoff p \<and>
       \<not> (case cn_end c of None \<Rightarrow> False | Some e \<Rightarrow> e < pt_cutoff p) \<and>
       (case cn_ingredient c of None \<Rightarrow> True | Some i \<Rightarrow> i \<in> set (pt_ingredients p))) plans"

definition write_response :: "constraint_row list \<Rightarrow> constraint_row \<Rightarrow> constraint_response" where
  "write_response rows current =
     \<lparr>kr_constraint = current,
      kr_history = map (\<lambda>r. \<lparr>hi_id = cn_id r, hi_version = cn_version r, hi_effective = cn_effective r, hi_end = cn_end r,
          hi_active = cn_active r, hi_superseded = cn_superseded r\<rparr>)
        (family rows (cn_store current) (cn_ingredient current) (cn_kind current))\<rparr>"

text \<open>\<open>_normalize\<close>: the ingredient of the request and its normalised constraint.\<close>

definition normalize_write ::
    "unicode \<Rightarrow> constraint_db \<Rightarrow> string \<Rightarrow> string option \<Rightarrow> string \<Rightarrow> dec \<Rightarrow> string option \<Rightarrow> string option \<Rightarrow>
     normalized_constraint app" where
  "normalize_write U db store ingredient_id constraint_type value unit currency =
     ebind (case ingredient_id of
              None \<Rightarrow> Inr None
            | Some i \<Rightarrow> (case find (\<lambda>g. ig_store g = store \<and> ig_id g = i) (kd_ingredients db) of
                None \<Rightarrow> Inl resource_not_found | Some g \<Rightarrow> Inr (Some g))) (\<lambda>ingredient.
     ebind (raise_if (case (currency, unit) of (Some c, Some u) \<Rightarrow> str_upper c \<noteq> str_upper u | _ \<Rightarrow> False) validation_error) (\<lambda>_.
     ebind (raise_if (currency \<noteq> None \<and> constraint_type \<notin> {''budget'', ''store_budget''}) validation_error) (\<lambda>_.
     validate_and_normalize U (Some constraint_type) (Some value)
       (case currency of Some c \<Rightarrow> if c = [] then unit else currency | None \<Rightarrow> unit) ingredient)))"

definition require_store :: "string list \<Rightarrow> string \<Rightarrow> unit app" where
  "require_store stores store = raise_if (store \<notin> set stores) store_not_found"

text \<open>A stored response; one without a body cannot be decoded.\<close>

definition stored_response :: "'r idem_record \<Rightarrow> 'r app" where
  "stored_response r = (case ir_body r of None \<Rightarrow> Inl (CoreFailure (exn PyTypeError [])) | Some b \<Rightarrow> Inr b)"

text \<open>The end of a write: the audit row, and the response under the key of the request.\<close>

definition finish_write ::
    "constraint_db \<Rightarrow> string \<Rightarrow> string \<Rightarrow> string \<Rightarrow> string option \<Rightarrow> string \<Rightarrow> constraint_row \<Rightarrow> constraint_response \<Rightarrow> constraint_db" where
  "finish_write db store path http_method key action model result =
     db\<lparr>kd_audit := kd_audit db @ [\<lparr>au_store = store, au_action = action, au_type = ''inventory_constraint'', au_resource = cn_id model\<rparr>],
        kd_idem := (case key of
          None \<Rightarrow> kd_idem db
        | Some k \<Rightarrow> if k = [] then kd_idem db
            else idem_update (kd_idem db) (Some store) path http_method k
              (\<lambda>r. r\<lparr>ir_resource_type := Some ''inventory_constraint'', ir_resource_id := Some (cn_id model),
                     ir_status := Some 200, ir_body := Some result\<rparr>))\<rparr>"

section \<open>The operations\<close>

definition constraints_path :: "string \<Rightarrow> string" where
  "constraints_path store = ''/api/v1/stores/'' @ store @ ''/inventory-constraints''"

record create_body =
  cb_ingredient :: "string option"
  cb_type :: string
  cb_value :: dec
  cb_unit :: "string option"
  cb_currency :: "string option"
  cb_effective :: date
  cb_note :: "string option"
  cb_dump :: pyval

definition create_row :: "string \<Rightarrow> create_body \<Rightarrow> normalized_constraint \<Rightarrow> string \<Rightarrow> constraint_row" where
  "create_row store body n new_id =
     \<lparr>cn_id = new_id, cn_store = store, cn_ingredient = cb_ingredient body, cn_kind = nb_kind n, cn_value = nb_value n,
      cn_unit = nb_unit n, cn_currency = (if nb_dimension n = CurrencyDim then Some (nb_unit n) else None),
      cn_effective = cb_effective body, cn_end = None, cn_version = 1, cn_active = True, cn_source = ''api'',
      cn_hash = None, cn_note = cb_note body, cn_superseded = None\<rparr>"

text \<open>The work of a request that is no replay, on the records with its own.\<close>

definition create_work ::
    "unicode \<Rightarrow> constraint_db \<Rightarrow> string \<Rightarrow> create_body \<Rightarrow> string option \<Rightarrow> string \<Rightarrow> constraint_response idem_record list \<Rightarrow>
     (constraint_db \<times> constraint_response) app" where
  "create_work U db store body key new_id records =
     ebind (normalize_write U db store (cb_ingredient body) (cb_type body) (cb_value body) (cb_unit body) (cb_currency body)) (\<lambda>n.
     ebind (raise_if (latest (kd_constraints db) store (cb_ingredient body) (nb_kind n) \<noteq> None) version_conflict) (\<lambda>_.
     let model = create_row store body n new_id;
         rows = kd_constraints db @ [model];
         result = write_response rows model in
     Inr (finish_write (db\<lparr>kd_constraints := rows, kd_idem := records\<rparr>) store (constraints_path store) ''POST'' key
            ''inventory_constraint_created'' model result, result)))"

definition replay_response :: "constraint_db \<Rightarrow> constraint_response idem_record \<Rightarrow> (constraint_db \<times> constraint_response) app" where
  "replay_response db r = ebind (stored_response r) (\<lambda>result. Inr (db, result))"

definition create_constraint ::
    "unicode \<Rightarrow> hashing \<Rightarrow> constraint_db \<Rightarrow> string \<Rightarrow> create_body \<Rightarrow> string option \<Rightarrow> string \<Rightarrow>
     (constraint_db \<times> constraint_response) app" where
  "create_constraint U H db store body key new_id =
     ebind (require_store (kd_stores db) store) (\<lambda>_.
     with_idempotency (kd_idem db) (Some store) (constraints_path store) ''POST'' key (canonical_hash H (cb_dump body))
       (create_work U db store body key new_id) (replay_response db))"

record update_body =
  ub_expected :: int
  ub_value :: dec
  ub_unit :: "string option"
  ub_currency :: "string option"
  ub_effective :: "date option"
  ub_note :: "string option option"
  ub_correction :: bool
  ub_dump :: pyval

definition update_path :: "string \<Rightarrow> string \<Rightarrow> string" where
  "update_path store constraint_id = constraints_path store @ ''/'' @ constraint_id"

definition update_effective :: "update_body \<Rightarrow> constraint_row \<Rightarrow> date" where
  "update_effective body current = (case ub_effective body of None \<Rightarrow> cn_effective current | Some d \<Rightarrow> d)"

definition next_row :: "constraint_row \<Rightarrow> update_body \<Rightarrow> normalized_constraint \<Rightarrow> string \<Rightarrow> constraint_row" where
  "next_row current body n new_id =
     \<lparr>cn_id = new_id, cn_store = cn_store current, cn_ingredient = cn_ingredient current, cn_kind = cn_kind current,
      cn_value = nb_value n, cn_unit = nb_unit n,
      cn_currency = (if nb_dimension n = CurrencyDim then Some (nb_unit n) else None),
      cn_effective = update_effective body current, cn_end = None, cn_version = cn_version current + 1, cn_active = True,
      cn_source = ''api'', cn_hash = None, cn_note = (case ub_note body of None \<Rightarrow> cn_note current | Some note \<Rightarrow> note),
      cn_superseded = None\<rparr>"

text \<open>The version that is replaced: superseded from the same date, or ended the day before.\<close>

definition close_row :: "date \<Rightarrow> string \<Rightarrow> constraint_row \<Rightarrow> constraint_row" where
  "close_row effective new_id r =
     (if effective = cn_effective r then r\<lparr>cn_active := False, cn_superseded := Some new_id\<rparr>
      else r\<lparr>cn_active := False, cn_end := Some (effective - 1)\<rparr>)"

definition update_work ::
    "unicode \<Rightarrow> constraint_db \<Rightarrow> string \<Rightarrow> string \<Rightarrow> update_body \<Rightarrow> string option \<Rightarrow> string \<Rightarrow>
     constraint_response idem_record list \<Rightarrow> (constraint_db \<times> constraint_response) app" where
  "update_work U db store constraint_id body key new_id records =
     ebind (required_constraint (kd_constraints db) store constraint_id) (\<lambda>current.
     ebind (raise_if (map_option cn_id (latest (kd_constraints db) store (cn_ingredient current) (cn_kind current)) \<noteq> Some (cn_id current) \<or>
                      cn_version current \<noteq> ub_expected body) version_conflict) (\<lambda>_.
     let effective = update_effective body current; same_date = (effective = cn_effective current) in
     ebind (raise_if (same_date \<and> \<not> ub_correction body) validation_error) (\<lambda>_.
     ebind (raise_if (effective < cn_effective current) validation_error) (\<lambda>_.
     ebind (raise_if (same_date \<and> used_by_completed_plan (kd_plans db) current)
              (AppError ''BUSINESS_CONSTRAINT_CORRECTION_BLOCKED'' 409)) (\<lambda>_.
     ebind (normalize_write U db store (cn_ingredient current) (cn_kind current) (ub_value body) (ub_unit body) (ub_currency body)) (\<lambda>n.
     let model = next_row current body n new_id;
         rows = update_row (cn_id current) (close_row effective new_id) (kd_constraints db) @ [model];
         result = write_response rows model in
     Inr (finish_write (db\<lparr>kd_constraints := rows, kd_idem := records\<rparr>) store (update_path store constraint_id) ''PATCH'' key
            (if same_date then ''inventory_constraint_corrected'' else ''inventory_constraint_version_created'') model result,
          result)))))))"

definition update_constraint ::
    "unicode \<Rightarrow> hashing \<Rightarrow> constraint_db \<Rightarrow> string \<Rightarrow> string \<Rightarrow> update_body \<Rightarrow> string option \<Rightarrow> string \<Rightarrow>
     (constraint_db \<times> constraint_response) app" where
  "update_constraint U H db store constraint_id body key new_id =
     ebind (require_store (kd_stores db) store) (\<lambda>_.
     with_idempotency (kd_idem db) (Some store) (update_path store constraint_id) ''PATCH'' key (canonical_hash H (ub_dump body))
       (update_work U db store constraint_id body key new_id) (replay_response db))"

record deactivate_body =
  db_expected :: int
  db_end :: date
  db_note :: "string option"
  db_dump :: pyval

definition deactivate_path :: "string \<Rightarrow> string \<Rightarrow> string" where
  "deactivate_path store constraint_id = update_path store constraint_id @ ''/deactivate''"

definition end_row :: "deactivate_body \<Rightarrow> constraint_row \<Rightarrow> constraint_row" where
  "end_row body r =
     r\<lparr>cn_active := False, cn_end := Some (db_end body), cn_note := (case db_note body of None \<Rightarrow> cn_note r | Some n \<Rightarrow> Some n)\<rparr>"

definition deactivate_work ::
    "constraint_db \<Rightarrow> string \<Rightarrow> string \<Rightarrow> deactivate_body \<Rightarrow> string option \<Rightarrow> constraint_response idem_record list \<Rightarrow>
     (constraint_db \<times> constraint_response) app" where
  "deactivate_work db store constraint_id body key records =
     ebind (required_constraint (kd_constraints db) store constraint_id) (\<lambda>current.
     ebind (raise_if (map_option cn_id (latest (kd_constraints db) store (cn_ingredient current) (cn_kind current)) \<noteq> Some (cn_id current) \<or>
                      cn_version current \<noteq> db_expected body) version_conflict) (\<lambda>_.
     ebind (raise_if (db_end body < cn_effective current) validation_error) (\<lambda>_.
     let model = end_row body current;
         rows = update_row (cn_id current) (end_row body) (kd_constraints db);
         result = write_response rows model in
     Inr (finish_write (db\<lparr>kd_constraints := rows, kd_idem := records\<rparr>) store (deactivate_path store constraint_id) ''POST'' key
            ''inventory_constraint_deactivated'' model result, result))))"

definition deactivate_constraint ::
    "hashing \<Rightarrow> constraint_db \<Rightarrow> string \<Rightarrow> string \<Rightarrow> deactivate_body \<Rightarrow> string option \<Rightarrow> (constraint_db \<times> constraint_response) app" where
  "deactivate_constraint H db store constraint_id body key =
     ebind (require_store (kd_stores db) store) (\<lambda>_.
     with_idempotency (kd_idem db) (Some store) (deactivate_path store constraint_id) ''POST'' key (canonical_hash H (db_dump body))
       (deactivate_work db store constraint_id body key) (replay_response db))"

text \<open>\<open>CompletionService.inventory_constraint_write\<close>.\<close>

datatype constraint_request =
    CreateRequest create_body
  | UpdateRequest string update_body
  | DeactivateRequest string deactivate_body

definition inventory_constraint_write ::
    "unicode \<Rightarrow> hashing \<Rightarrow> constraint_db \<Rightarrow> string \<Rightarrow> constraint_request \<Rightarrow> string option \<Rightarrow> string \<Rightarrow>
     (constraint_db \<times> constraint_response) app" where
  "inventory_constraint_write U H db store request key new_id =
     (case request of
        CreateRequest body \<Rightarrow> create_constraint U H db store body key new_id
      | UpdateRequest constraint_id body \<Rightarrow> update_constraint U H db store constraint_id body key new_id
      | DeactivateRequest constraint_id body \<Rightarrow> deactivate_constraint H db store constraint_id body key)"

section \<open>Import\<close>

text \<open>A row of a sheet: a value that is no decimal and a date that is none are \<open>None\<close>, and an absent end date
  is \<open>Some None\<close>. The alias table has the store, the normalised alias and the ingredient.\<close>

record import_row =
  mr_type :: "string option"
  mr_value :: "dec option"
  mr_ingredient :: "string option"
  mr_unit :: "string option"
  mr_currency :: "string option"
  mr_effective :: "date option"
  mr_end :: "date option option"
  mr_note :: "string option"

definition normalize_name :: "unicode \<Rightarrow> string option \<Rightarrow> string app" where
  "normalize_name U value =
     (let name = un_name U (case value of None \<Rightarrow> ''None'' | Some s \<Rightarrow> s) in
      if name = [] then Inl validation_error else Inr name)"

definition find_ingredient :: "unicode \<Rightarrow> constraint_db \<Rightarrow> string \<Rightarrow> string option \<Rightarrow> ingredient_row option app" where
  "find_ingredient U db store value =
     ebind (normalize_name U value) (\<lambda>name.
     Inr (case find (\<lambda>g. ig_store g = store \<and> ig_normalized g = name) (kd_ingredients db) of
            Some g \<Rightarrow> Some g
          | None \<Rightarrow> (case find (\<lambda>(s, alias, _). s = store \<and> alias = name) (kd_aliases db) of
              None \<Rightarrow> None
            | Some (_, _, i) \<Rightarrow> find (\<lambda>g. ig_store g = store \<and> ig_id g = i) (kd_ingredients db))))"

definition non_empty :: "string option \<Rightarrow> string option" where
  "non_empty s = (if s = Some [] then None else s)"

definition import_content :: "unicode \<Rightarrow> string option \<Rightarrow> normalized_constraint \<Rightarrow> import_row \<Rightarrow> date \<Rightarrow> date option \<Rightarrow> pyval" where
  "import_content U ingredient_id n row effective end_date = PDict
     [(''ingredient_id'', opt_val PStr ingredient_id), (''constraint_type'', PStr (nb_kind n)),
      (''value'', PStr (un_decimal U (nb_value n))), (''unit'', PStr (nb_unit n)),
      (''currency'', if nb_dimension n = CurrencyDim then PStr (nb_unit n) else PNone), (''note'', opt_val PStr (mr_note row)),
      (''effective_date'', PDate effective), (''end_date'', opt_val PDate end_date)]"

text \<open>The version the import ends: only an active one, and only if it would overlap.\<close>

definition retire_row :: "date \<Rightarrow> constraint_row \<Rightarrow> constraint_row" where
  "retire_row effective r =
     (if \<not> cn_active r then r
      else r\<lparr>cn_active := False,
             cn_end := (case cn_end r of
               None \<Rightarrow> Some (effective - 1)
             | Some e \<Rightarrow> Some (if effective \<le> e then effective - 1 else e))\<rparr>)"

definition import_version ::
    "string \<Rightarrow> string option \<Rightarrow> string \<Rightarrow> normalized_constraint \<Rightarrow> date \<Rightarrow> date option \<Rightarrow> string \<Rightarrow> string option \<Rightarrow> string \<Rightarrow> int \<Rightarrow>
     constraint_row" where
  "import_version store ingredient_id kind n effective end_date content note new_id version =
     \<lparr>cn_id = new_id, cn_store = store, cn_ingredient = ingredient_id, cn_kind = kind, cn_value = nb_value n, cn_unit = nb_unit n,
      cn_currency = (if nb_dimension n = CurrencyDim then Some (nb_unit n) else None), cn_effective = effective, cn_end = end_date,
      cn_version = version, cn_active = True, cn_source = ''import'', cn_hash = Some content, cn_note = note, cn_superseded = None\<rparr>"

text \<open>The rows after a valid row of the sheet: unchanged if it repeats the latest version.\<close>

definition append_version ::
    "constraint_row list \<Rightarrow> constraint_row option \<Rightarrow> string \<Rightarrow> date \<Rightarrow> (int \<Rightarrow> constraint_row) \<Rightarrow> constraint_row list app" where
  "append_version rows previous content effective version =
     (case previous of
        None \<Rightarrow> Inr (rows @ [version 1])
      | Some p \<Rightarrow>
          if cn_hash p = Some content then Inr rows
          else
            ebind (raise_if (effective \<le> cn_effective p) (constraint_error ''BUSINESS_CONSTRAINT_EFFECTIVE_DATE_INVALID'')) (\<lambda>_.
            Inr (update_row (cn_id p) (retire_row effective) rows @ [version (cn_version p + 1)])))"

text \<open>One row of \<open>_persist_business_constraints\<close>, for a kind that is no store setting.\<close>

definition import_constraint ::
    "unicode \<Rightarrow> hashing \<Rightarrow> constraint_db \<Rightarrow> string \<Rightarrow> import_row \<Rightarrow> string \<Rightarrow> constraint_db app" where
  "import_constraint U H db store row new_id =
     ebind (constraint_definition_of U (Some (normalize_constraint_type U (mr_type row)))) (\<lambda>(kind, d).
     ebind (if cd_scope d = IngredientScope \<or> (cd_scope d = StoreOrIngredient \<and> non_empty (mr_ingredient row) \<noteq> None) then
              ebind (find_ingredient U db store (mr_ingredient row)) (\<lambda>g.
              case g of None \<Rightarrow> Inl (constraint_error ''INGREDIENT_NOT_FOUND'') | Some g \<Rightarrow> Inr (Some g))
            else Inr None) (\<lambda>ingredient.
     ebind (validate_and_normalize U (Some kind) (mr_value row)
              (case non_empty (mr_unit row) of None \<Rightarrow> mr_currency row | Some u \<Rightarrow> Some u) ingredient) (\<lambda>n.
     case (mr_effective row, mr_end row) of
       (Some effective, Some end_date) \<Rightarrow>
         ebind (raise_if (case end_date of None \<Rightarrow> False | Some e \<Rightarrow> e < effective)
           (constraint_error ''BUSINESS_CONSTRAINT_EFFECTIVE_DATE_INVALID'')) (\<lambda>_.
         let ingredient_id = map_option ig_id ingredient;
             content = canonical_hash H (import_content U ingredient_id n row effective end_date) in
         ebind (append_version (kd_constraints db) (latest (kd_constraints db) store ingredient_id kind) content effective
                  (import_version store ingredient_id kind n effective end_date content (mr_note row) new_id)) (\<lambda>rows.
         Inr (db\<lparr>kd_constraints := rows\<rparr>)))
     | _ \<Rightarrow> Inl (constraint_error ''BUSINESS_CONSTRAINT_EFFECTIVE_DATE_INVALID''))))"

section \<open>Resolution\<close>

definition covers :: "date \<Rightarrow> constraint_row \<Rightarrow> bool" where
  "covers day r \<longleftrightarrow>
     cn_superseded r = None \<and> cn_effective r \<le> day \<and> (case cn_end r of None \<Rightarrow> True | Some e \<Rightarrow> day \<le> e)"

definition effective_constraints ::
    "constraint_row list \<Rightarrow> string \<Rightarrow> string \<Rightarrow> string option \<Rightarrow> date \<Rightarrow> constraint_row list" where
  "effective_constraints rows store kind ingredient_id day =
     sort_key (\<lambda>r. - cn_version r) (filter (\<lambda>r. in_family store ingredient_id kind r \<and> covers day r) rows)"

definition resolve_constraint ::
    "unicode \<Rightarrow> constraint_row list \<Rightarrow> string \<Rightarrow> string \<Rightarrow> string option \<Rightarrow> date \<Rightarrow> constraint_row option app" where
  "resolve_constraint U rows store constraint_type ingredient_id day =
     ebind (constraint_definition_of U (Some constraint_type)) (\<lambda>(kind, _).
     case effective_constraints rows store kind ingredient_id day of
       [] \<Rightarrow> Inr None
     | [r] \<Rightarrow> Inr (Some r)
     | _ \<Rightarrow> Inl (planning_error ''BUSINESS_CONSTRAINT_AMBIGUOUS''))"

definition of_dimension :: "unicode \<Rightarrow> string \<Rightarrow> constraint_dimension \<Rightarrow> string app" where
  "of_dimension U constraint_type dimension =
     ebind (constraint_definition_of U (Some constraint_type)) (\<lambda>(kind, d).
     ebind (raise_if (cd_dimension d \<noteq> dimension) (planning_error ''BUSINESS_CONSTRAINT_DIMENSION_MISMATCH'')) (\<lambda>_. Inr kind))"

definition resolve_quantity ::
    "unicode \<Rightarrow> constraint_row list \<Rightarrow> string \<Rightarrow> string \<Rightarrow> string option \<Rightarrow> string \<Rightarrow> date \<Rightarrow> dec option app" where
  "resolve_quantity U rows store constraint_type ingredient_id target_unit day =
     ebind (of_dimension U constraint_type QuantityDim) (\<lambda>kind.
     ebind (resolve_constraint U rows store kind ingredient_id day) (\<lambda>item.
     case item of
       None \<Rightarrow> Inr None
     | Some r \<Rightarrow>
         ebind (map_error (\<lambda>_. planning_error ''BUSINESS_CONSTRAINT_UNIT_CONVERSION_FAILED'')
           (convert_quantity (un_nfc U) (cn_value r) (Some (cn_unit r)) (Some target_unit))) (\<lambda>q. Inr (Some q))))"

definition resolve_duration_days ::
    "unicode \<Rightarrow> constraint_row list \<Rightarrow> string \<Rightarrow> string \<Rightarrow> string option \<Rightarrow> date \<Rightarrow> dec option app" where
  "resolve_duration_days U rows store constraint_type ingredient_id day =
     ebind (of_dimension U constraint_type DurationDim) (\<lambda>kind.
     ebind (resolve_constraint U rows store kind ingredient_id day) (\<lambda>item.
     case item of
       None \<Rightarrow> Inr None
     | Some r \<Rightarrow> ebind (raise_if (cn_unit r \<noteq> ''day'') (planning_error ''BUSINESS_CONSTRAINT_UNIT_INVALID'')) (\<lambda>_. Inr (Some (cn_value r)))))"

definition resolve_ratio ::
    "unicode \<Rightarrow> constraint_row list \<Rightarrow> string \<Rightarrow> string \<Rightarrow> string option \<Rightarrow> date \<Rightarrow> dec option app" where
  "resolve_ratio U rows store constraint_type ingredient_id day =
     ebind (of_dimension U constraint_type RatioDim) (\<lambda>kind.
     ebind (resolve_constraint U rows store kind ingredient_id day) (\<lambda>item.
     case item of
       None \<Rightarrow> Inr None
     | Some r \<Rightarrow> ebind (raise_if (cn_unit r \<noteq> ''ratio'' \<or> cn_value r < 0 \<or> 1 < cn_value r)
         (planning_error ''BUSINESS_CONSTRAINT_VALUE_INVALID'')) (\<lambda>_. Inr (Some (cn_value r)))))"

text \<open>The first capacity constraint that is effective, in the order of their priorities.\<close>

fun first_effective :: "unicode \<Rightarrow> constraint_row list \<Rightarrow> string \<Rightarrow> date \<Rightarrow> string list \<Rightarrow> constraint_row option app" where
  "first_effective U rows store day [] = Inr None"
| "first_effective U rows store day (kind # kinds) =
     ebind (resolve_constraint U rows store kind None day) (\<lambda>item.
     case item of None \<Rightarrow> first_effective U rows store day kinds | Some r \<Rightarrow> Inr (Some r))"

definition capacity_kinds :: "string list" where
  "capacity_kinds =
     map cd_name (sort_key (\<lambda>d. case cd_priority d of None \<Rightarrow> 0 | Some p \<Rightarrow> p)
       (filter (\<lambda>d. cd_dimension d = CapacityDim) CONSTRAINT_DEFINITIONS))"

definition resolve_storage_capacity :: "unicode \<Rightarrow> constraint_row list \<Rightarrow> string \<Rightarrow> date \<Rightarrow> constraint_row option app" where
  "resolve_storage_capacity U rows store day = first_effective U rows store day capacity_kinds"

section \<open>The budget\<close>

record budget_row =
  bg_store :: string
  bg_period :: string
  bg_monthly :: int
  bg_reserved :: int
  bg_spent :: int

datatype budget_source = RequestOverride | BudgetPeriod | BusinessConstraintBudget | LegacyStoreSettings | NotConfigured

text \<open>A resolved budget: its limit, its source and the period of its trace.\<close>

record resolved_budget =
  rv_limit :: "int option"
  rv_source :: budget_source
  rv_start :: "date option"
  rv_end :: "date option"

definition budget_result :: "int \<Rightarrow> budget_source \<Rightarrow> date option \<Rightarrow> date option \<Rightarrow> resolved_budget" where
  "budget_result value source a b = \<lparr>rv_limit = Some value, rv_source = source, rv_start = a, rv_end = b\<rparr>"

fun period_policy :: "budget_source \<Rightarrow> string" where
  "period_policy RequestOverride = ''REQUEST_SCOPED_CAP''"
| "period_policy BudgetPeriod = ''REMAINING_AS_OF_MONTH_CAP''"
| "period_policy LegacyStoreSettings = ''REMAINING_AS_OF_MONTH_CAP''"
| "period_policy BusinessConstraintBudget = ''EFFECTIVE_CONSTRAINT_CAP''"
| "period_policy NotConfigured = ''NONE''"

text \<open>Of the settings the monthly budget per store is read.\<close>

definition resolve_budget ::
    "unicode \<Rightarrow> budget_row list \<Rightarrow> constraint_row list \<Rightarrow> (string, int) dict \<Rightarrow> string \<Rightarrow> date \<Rightarrow> int option \<Rightarrow> date option \<Rightarrow>
     resolved_budget app" where
  "resolve_budget U budgets rows settings store as_of requested_override horizon_end =
     (case requested_override of
        Some v \<Rightarrow> Inr (budget_result v RequestOverride (Some as_of) (Some (case horizon_end of None \<Rightarrow> as_of | Some e \<Rightarrow> e)))
      | None \<Rightarrow>
          (case find (\<lambda>b. bg_store b = store \<and> bg_period b = month_period as_of) budgets of
             Some b \<Rightarrow> Inr (budget_result (max 0 (bg_monthly b - bg_reserved b - bg_spent b)) BudgetPeriod
                         (Some (month_start as_of)) (Some (month_end as_of)))
           | None \<Rightarrow>
               ebind (resolve_constraint U rows store ''budget'' None as_of) (\<lambda>c.
               case c of
                 Some r \<Rightarrow>
                   let currency = (case non_empty (cn_currency r) of None \<Rightarrow> cn_unit r | Some s \<Rightarrow> s) in
                   ebind (raise_if (str_upper currency \<noteq> ''VND'') (planning_error ''BUSINESS_CONSTRAINT_UNIT_INVALID'')) (\<lambda>_.
                   ebind (raise_if (cn_value r \<noteq> of_int \<lfloor>cn_value r\<rfloor>) (planning_error ''BUSINESS_CONSTRAINT_VALUE_INVALID'')) (\<lambda>_.
                   Inr (budget_result (dec_int (cn_value r)) BusinessConstraintBudget (Some (cn_effective r)) (cn_end r))))
               | None \<Rightarrow>
                   (case dict_get settings store of
                      Some m \<Rightarrow> if 0 < m then Inr (budget_result m LegacyStoreSettings (Some (month_start as_of)) (Some (month_end as_of)))
                        else Inr \<lparr>rv_limit = None, rv_source = NotConfigured, rv_start = None, rv_end = None\<rparr>
                    | None \<Rightarrow> Inr \<lparr>rv_limit = None, rv_source = NotConfigured, rv_start = None, rv_end = None\<rparr>))))"

end
