(* ===== verification/Constraint_Facts.thy ===== *)
theory Constraint_Facts
  imports Constraints
begin

text \<open>
  The history of a business constraint. Versions are appended and closed one after the other, so at most one is
  effective on a day: shown first for any timeline whose entries are closed before the next begins (the locale
  \<open>timeline\<close>), then for every table that requests and safe imports build.
\<close>

section \<open>Timelines\<close>

locale timeline =
  fixes related :: "'r \<Rightarrow> 'r \<Rightarrow> bool"
    and starts :: "'r \<Rightarrow> int"
    and effective_on :: "int \<Rightarrow> 'r \<Rightarrow> bool"
    and closed_before :: "'r \<Rightarrow> 'r \<Rightarrow> bool"
  assumes effective_starts: "effective_on d r \<Longrightarrow> starts r \<le> d"
    and closed_ends: "closed_before r s \<Longrightarrow> effective_on d r \<Longrightarrow> d < starts s"
begin

definition in_sequence :: "'r list \<Rightarrow> bool" where
  "in_sequence rs \<longleftrightarrow> sorted_wrt (\<lambda>r s. related r s \<longrightarrow> closed_before r s) rs"

lemma never_both:
  assumes "closed_before r s" "effective_on d r"
  shows "\<not> effective_on d s"
  using closed_ends [OF assms] effective_starts by fastforce

lemma at_most_one:
  assumes "in_sequence rs" "\<And>r s. P r \<Longrightarrow> P s \<Longrightarrow> related r s"
  shows "length (filter (\<lambda>r. P r \<and> effective_on d r) rs) \<le> 1"
  using assms(1) unfolding in_sequence_def
proof (induction rs)
  case (Cons r rs)
  have "filter (\<lambda>s. P s \<and> effective_on d s) rs = []" if "P r" "effective_on d r"
    using Cons.prems that assms(2) never_both unfolding filter_empty_conv by fastforce
  with Cons show ?case by auto
qed simp

end

section \<open>The closing of versions\<close>

definition same_family :: "constraint_row \<Rightarrow> constraint_row \<Rightarrow> bool" where
  "same_family r s \<longleftrightarrow> cn_store r = cn_store s \<and> cn_ingredient r = cn_ingredient s \<and> cn_kind r = cn_kind s"

definition ended_before :: "constraint_row \<Rightarrow> constraint_row \<Rightarrow> bool" where
  "ended_before r s \<longleftrightarrow> cn_superseded r \<noteq> None \<or> (case cn_end r of None \<Rightarrow> False | Some e \<Rightarrow> e < cn_effective s)"

interpretation versions: timeline same_family cn_effective covers ended_before
  by unfold_locales (auto simp: covers_def ended_before_def split: option.splits)

text \<open>Within a family later rows have larger versions, start no earlier and find the earlier ones ended.\<close>

definition follows :: "constraint_row \<Rightarrow> constraint_row \<Rightarrow> bool" where
  "follows r s \<longleftrightarrow> cn_version r < cn_version s \<and> cn_effective r \<le> cn_effective s \<and> ended_before r s"

definition table_ok :: "constraint_row list \<Rightarrow> bool" where
  "table_ok rows \<longleftrightarrow> distinct (map cn_id rows) \<and> sorted_wrt (\<lambda>r s. same_family r s \<longrightarrow> follows r s) rows"

lemma table_ok_Nil [simp]: "table_ok []"
  by (simp add: table_ok_def)

lemma table_sequence: "table_ok rows \<Longrightarrow> versions.in_sequence rows"
  unfolding table_ok_def versions.in_sequence_def by (auto elim!: sorted_wrt_mono_rel [rotated] simp: follows_def)

lemma in_family_same: "in_family s i k r \<Longrightarrow> in_family s i k r' \<Longrightarrow> same_family r r'"
  by (simp add: in_family_def same_family_def)

lemma one_effective:
  assumes "table_ok rows"
  shows "length (effective_constraints rows store kind i day) \<le> 1"
  unfolding effective_constraints_def length_sort
  by (rule versions.at_most_one [OF table_sequence [OF assms] in_family_same])

lemma table_ok_append:
  assumes "table_ok rows" "cn_id r \<notin> cn_id ` set rows" "\<And>s. s \<in> set rows \<Longrightarrow> same_family s r \<Longrightarrow> follows s r"
  shows "table_ok (rows @ [r])"
  using assms by (auto simp: table_ok_def sorted_wrt_append)

subsection \<open>The latest version\<close>

lemma family_sorted:
  assumes "table_ok rows"
  shows "sorted_wrt (\<lambda>r s. follows r s) (filter (in_family store i k) rows)"
proof -
  have "sorted_wrt (\<lambda>r s. same_family r s \<longrightarrow> follows r s) (filter (in_family store i k) rows)"
    using assms by (simp add: table_ok_def sorted_wrt_filter)
  then show ?thesis by (rule sorted_wrt_mono_rel [rotated]) (auto intro: in_family_same)
qed

lemma latest_unfold: "latest rows store i k = (case sort_key (\<lambda>r. - cn_version r) (filter (in_family store i k) rows) of [] \<Rightarrow> None | r # _ \<Rightarrow> Some r)"
  by (simp add: latest_def family_def)

lemma latest_None: "latest rows store i k = None \<longleftrightarrow> (\<forall>r \<in> set rows. \<not> in_family store i k r)"
proof -
  have "sort_key (\<lambda>r. - cn_version r) (filter (in_family store i k) rows) = [] \<longleftrightarrow> filter (in_family store i k) rows = []"
    by (metis length_0_conv length_sort)
  then show ?thesis by (auto simp: latest_unfold filter_empty_conv split: list.splits)
qed

lemma latest_Some:
  assumes "latest rows store i k = Some r"
  shows "r \<in> set rows" "in_family store i k r" "\<And>s. s \<in> set rows \<Longrightarrow> in_family store i k s \<Longrightarrow> cn_version s \<le> cn_version r"
proof -
  let ?f = "filter (in_family store i k) rows"
  from assms obtain rest where s: "sort_key (\<lambda>r. - cn_version r) ?f = r # rest"
    by (auto simp: latest_unfold split: list.splits)
  then have m: "set ?f = set (r # rest)" by (metis set_sort)
  then show "r \<in> set rows" "in_family store i k r" by auto
  have "sorted (map (\<lambda>r. - cn_version r) (r # rest))" by (metis s sorted_sort_key)
  then show "cn_version s \<le> cn_version r" if "s \<in> set rows" "in_family store i k s" for s
    using that m by (auto simp: set_eq_iff)
qed

lemma follows_version: "follows r s \<Longrightarrow> cn_version r < cn_version s"
  by (simp add: follows_def)

lemma latest_split:
  assumes "table_ok rows" "r \<in> set rows" "\<And>s. s \<in> set rows \<Longrightarrow> same_family s r \<Longrightarrow> cn_version s \<le> cn_version r"
  obtains before after where "rows = before @ r # after" "\<forall>s \<in> set after. \<not> same_family r s"
    "\<forall>s \<in> set before. same_family s r \<longrightarrow> follows s r" "\<forall>s \<in> set before \<union> set after. cn_id s \<noteq> cn_id r"
proof -
  from assms(2) obtain before after where s: "rows = before @ r # after" by (meson split_list)
  have "\<not> same_family r s" if "s \<in> set after" for s
  proof
    assume f: "same_family r s"
    then have "follows r s" using assms(1) that by (auto simp: table_ok_def s sorted_wrt_append)
    then have "cn_version r < cn_version s" by (rule follows_version)
    moreover have "same_family s r" using f by (auto simp: same_family_def)
    ultimately show False using assms(3) [of s] that by (simp add: s)
  qed
  moreover have "\<forall>s \<in> set before. same_family s r \<longrightarrow> follows s r"
    using assms(1) by (auto simp: table_ok_def s sorted_wrt_append)
  moreover have "\<forall>s \<in> set before \<union> set after. cn_id s \<noteq> cn_id r"
    using assms(1) by (auto simp: table_ok_def s image_iff)
  ultimately show ?thesis using that [OF s] by blast
qed

text \<open>Ending the newest version of a family keeps the table in order.\<close>

definition only_ends :: "(constraint_row \<Rightarrow> constraint_row) \<Rightarrow> bool" where
  "only_ends f \<longleftrightarrow> (\<forall>r. cn_id (f r) = cn_id r \<and> same_family (f r) r \<and> cn_version (f r) = cn_version r \<and>
     cn_effective (f r) = cn_effective r)"

lemma update_row_split:
  assumes "\<forall>s \<in> set before \<union> set after. cn_id s \<noteq> cn_id r"
  shows "update_row (cn_id r) f (before @ r # after) = before @ f r # after"
  using assms by (simp add: update_row_def map_idI)

lemma same_family_cong:
  assumes "same_family a b"
  shows "same_family a c \<longleftrightarrow> same_family b c" "same_family c a \<longleftrightarrow> same_family c b"
  using assms by (auto simp: same_family_def)

lemma follows_ended:
  assumes "cn_version a = cn_version b" "cn_effective a = cn_effective b" "follows s b"
  shows "follows s a"
  using assms by (auto simp: follows_def ended_before_def split: option.splits)

lemma table_ok_end_latest:
  assumes "table_ok rows" "r \<in> set rows" "\<And>s. s \<in> set rows \<Longrightarrow> same_family s r \<Longrightarrow> cn_version s \<le> cn_version r"
    and f: "only_ends f"
  shows "table_ok (update_row (cn_id r) f rows)"
proof -
  obtain before after where s: "rows = before @ r # after" "\<forall>s \<in> set after. \<not> same_family r s"
    "\<forall>s \<in> set before. same_family s r \<longrightarrow> follows s r" "\<forall>s \<in> set before \<union> set after. cn_id s \<noteq> cn_id r"
    using latest_split [OF assms(1-3)] by blast
  have u: "update_row (cn_id r) f rows = before @ f r # after" unfolding s(1) by (rule update_row_split [OF s(4)])
  have k: "cn_id (f r) = cn_id r" "same_family (f r) r" "cn_version (f r) = cn_version r" "cn_effective (f r) = cn_effective r"
    using f by (auto simp: only_ends_def)
  have b: "\<forall>s \<in> set before. same_family s (f r) \<longrightarrow> follows s (f r)"
    using s(3) k follows_ended same_family_cong(2) by blast
  have a: "\<forall>s \<in> set after. \<not> same_family (f r) s" using s(2) same_family_cong(1) [OF k(2)] by blast
  show ?thesis using assms(1) a b unfolding u by (auto simp: s(1) table_ok_def sorted_wrt_append k(1))
qed

section \<open>What the operations write\<close>

lemma with_idempotency_cases:
  assumes "with_idempotency records store path m key h work replay = Inr y"
  obtains (work) records' where "work records' = Inr y"
    | (replay) r where "replay r = Inr y"
proof (cases "key = None \<or> key = Some []")
  case True
  with assms show ?thesis by (intro that(1) [of records]) (auto simp: with_idempotency_def)
next
  case False
  then obtain k where "key = Some k" "k \<noteq> []" by auto
  with assms obtain records' r b where "idem_register records store path m k (Some h) = Inr (records', r, b)"
    "(if b then replay r else work records') = Inr y"
    by (auto simp: with_idempotency_def)
  then show ?thesis using that by (cases b) auto
qed

lemma finish_write_constraints [simp]: "kd_constraints (finish_write db store path m key a r res) = kd_constraints db"
  by (simp add: finish_write_def)

lemma request_cases:
  assumes "ebind (require_store stores store) (\<lambda>_. with_idempotency records (Some store) path m key h work (replay_response db)) =
    Inr (db', result)"
  obtains (replay) "db' = db" | (work) records' where "work records' = Inr (db', result)"
proof -
  from assms have "with_idempotency records (Some store) path m key h work (replay_response db) = Inr (db', result)"
    by (auto simp: require_store_def)
  then show ?thesis
    by (cases rule: with_idempotency_cases) (use that in \<open>auto simp: replay_response_def\<close>)
qed

lemma create_writes:
  assumes "create_constraint U H db store body key new_id = Inr (db', result)"
  shows "db' = db \<or> (\<exists>n. latest (kd_constraints db) store (cb_ingredient body) (nb_kind n) = None \<and>
    kd_constraints db' = kd_constraints db @ [create_row store body n new_id])"
  using assms unfolding create_constraint_def
  by (cases rule: request_cases) (auto simp: create_work_def Let_def result_simps)

text \<open>The row that an update or a deactivation may address: the newest of its family, at the expected version.\<close>

definition addressed :: "constraint_row list \<Rightarrow> string \<Rightarrow> string \<Rightarrow> int \<Rightarrow> constraint_row \<Rightarrow> bool" where
  "addressed rows store constraint_id expected current \<longleftrightarrow>
     current \<in> set rows \<and> cn_store current = store \<and> cn_id current = constraint_id \<and> cn_version current = expected \<and>
     (\<forall>s \<in> set rows. same_family s current \<longrightarrow> cn_version s \<le> cn_version current)"

lemma addressed_if:
  assumes "required_constraint rows store constraint_id = Inr current" "distinct (map cn_id rows)"
    and "map_option cn_id (latest rows store (cn_ingredient current) (cn_kind current)) = Some (cn_id current)"
  shows "addressed rows store constraint_id (cn_version current) current"
proof -
  from assms(1) have c: "current \<in> set rows" "cn_store current = store" "cn_id current = constraint_id"
    by (auto simp: required_constraint_def find_Some_iff split: option.splits)
  from assms(3) obtain l where l: "latest rows store (cn_ingredient current) (cn_kind current) = Some l" "cn_id l = cn_id current" by auto
  then have "l = current" using assms(2) c(1) latest_Some(1) [OF l(1)] by (metis inj_onD distinct_map)
  with l latest_Some(3) [OF l(1)] c show ?thesis by (auto simp: addressed_def same_family_def in_family_def)
qed

lemma update_writes:
  assumes "update_constraint U H db store constraint_id body key new_id = Inr (db', result)" "distinct (map cn_id (kd_constraints db))"
  obtains (replay) "db' = db"
    | (written) current n where "addressed (kd_constraints db) store constraint_id (ub_expected body) current"
      "cn_effective current \<le> update_effective body current"
      "normalize_write U db store (cn_ingredient current) (cn_kind current) (ub_value body) (ub_unit body) (ub_currency body) = Inr n"
      "kd_constraints db' = update_row constraint_id (close_row (update_effective body current) new_id) (kd_constraints db) @
         [next_row current body n new_id]"
  using assms(1) unfolding update_constraint_def
proof (cases rule: request_cases)
  case (work records')
  then obtain current n where c: "required_constraint (kd_constraints db) store constraint_id = Inr current"
    "map_option cn_id (latest (kd_constraints db) store (cn_ingredient current) (cn_kind current)) = Some (cn_id current)"
    "cn_version current = ub_expected body" "\<not> update_effective body current < cn_effective current"
    "normalize_write U db store (cn_ingredient current) (cn_kind current) (ub_value body) (ub_unit body) (ub_currency body) = Inr n"
    "kd_constraints db' = update_row (cn_id current) (close_row (update_effective body current) new_id) (kd_constraints db) @
       [next_row current body n new_id]"
    unfolding update_work_def Let_def by (elim ebind_InrE) auto
  have a: "addressed (kd_constraints db) store constraint_id (ub_expected body) current"
    using addressed_if [OF c(1) assms(2) c(2)] c(3) by simp
  then have "cn_id current = constraint_id" by (simp add: addressed_def)
  with c(4-6) show ?thesis by (intro that(2) [OF a]) simp_all
qed (use that(1) in blast)

lemma deactivate_writes:
  assumes "deactivate_constraint H db store constraint_id body key = Inr (db', result)" "distinct (map cn_id (kd_constraints db))"
  obtains (replay) "db' = db"
    | (written) current where "addressed (kd_constraints db) store constraint_id (db_expected body) current"
      "cn_effective current \<le> db_end body" "kd_constraints db' = update_row constraint_id (end_row body) (kd_constraints db)"
  using assms(1) unfolding deactivate_constraint_def
proof (cases rule: request_cases)
  case (work records')
  then obtain current where c: "required_constraint (kd_constraints db) store constraint_id = Inr current"
    "map_option cn_id (latest (kd_constraints db) store (cn_ingredient current) (cn_kind current)) = Some (cn_id current)"
    "cn_version current = db_expected body" "\<not> db_end body < cn_effective current"
    "kd_constraints db' = update_row (cn_id current) (end_row body) (kd_constraints db)"
    unfolding deactivate_work_def Let_def by (elim ebind_InrE) auto
  have a: "addressed (kd_constraints db) store constraint_id (db_expected body) current"
    using addressed_if [OF c(1) assms(2) c(2)] c(3) by simp
  then have "cn_id current = constraint_id" by (simp add: addressed_def)
  with c(4,5) show ?thesis by (intro that(2) [OF a]) simp_all
qed (use that(1) in blast)

text \<open>An import that writes appends a version to its family; the version before it is retired.\<close>

lemma append_version_cases:
  assumes "append_version rows previous content effective version = Inr rows'"
  shows "rows' = rows \<or> (previous = None \<and> rows' = rows @ [version 1]) \<or>
    (\<exists>p. previous = Some p \<and> cn_effective p < effective \<and>
      rows' = update_row (cn_id p) (retire_row effective) rows @ [version (cn_version p + 1)])"
  using assms by (auto simp: append_version_def split: option.splits if_splits)

lemma import_version_sel [simp]:
  "cn_id (import_version store i kind n effective end_date content note new_id v) = new_id"
  "cn_store (import_version store i kind n effective end_date content note new_id v) = store"
  "cn_ingredient (import_version store i kind n effective end_date content note new_id v) = i"
  "cn_kind (import_version store i kind n effective end_date content note new_id v) = kind"
  "cn_effective (import_version store i kind n effective end_date content note new_id v) = effective"
  "cn_version (import_version store i kind n effective end_date content note new_id v) = v"
  "cn_superseded (import_version store i kind n effective end_date content note new_id v) = None"
  by (simp_all add: import_version_def)

lemma import_writes:
  assumes "import_constraint U H db store row new_id = Inr db'"
  obtains (same) "kd_constraints db' = kd_constraints db"
    | (initial) model where "kd_constraints db' = kd_constraints db @ [model]" "cn_id model = new_id"
      "latest (kd_constraints db) (cn_store model) (cn_ingredient model) (cn_kind model) = None" "cn_superseded model = None"
    | (later) previous model where
      "latest (kd_constraints db) (cn_store model) (cn_ingredient model) (cn_kind model) = Some previous"
      "kd_constraints db' = update_row (cn_id previous) (retire_row (cn_effective model)) (kd_constraints db) @ [model]"
      "cn_id model = new_id" "cn_effective previous < cn_effective model" "cn_version model = cn_version previous + 1"
      "cn_superseded model = None"
proof -
  obtain i kind n effective end_date content rows where
    a: "append_version (kd_constraints db) (latest (kd_constraints db) store i kind) content effective
          (import_version store i kind n effective end_date content (mr_note row) new_id) = Inr rows"
    and db': "db' = db\<lparr>kd_constraints := rows\<rparr>"
    using assms unfolding import_constraint_def Let_def
    by (elim ebind_InrE) (auto split: prod.splits option.splits elim!: ebind_InrE)
  show ?thesis
    using append_version_cases [OF a]
  proof (elim disjE exE conjE)
    assume "rows = kd_constraints db"
    then show ?thesis by (intro that(1)) (simp add: db')
  next
    assume "latest (kd_constraints db) store i kind = None"
      "rows = kd_constraints db @ [import_version store i kind n effective end_date content (mr_note row) new_id 1]"
    then show ?thesis
      by (intro that(2) [of "import_version store i kind n effective end_date content (mr_note row) new_id 1"]) (simp_all add: db')
  next
    fix p
    assume "latest (kd_constraints db) store i kind = Some p" "cn_effective p < effective"
      "rows = update_row (cn_id p) (retire_row effective) (kd_constraints db) @
         [import_version store i kind n effective end_date content (mr_note row) new_id (cn_version p + 1)]"
    then show ?thesis
      by (intro that(3) [of "import_version store i kind n effective end_date content (mr_note row) new_id (cn_version p + 1)" p])
        (simp_all add: db')
  qed
qed

section \<open>Histories\<close>

text \<open>
  The tables that requests and imports build from one without constraints. Ids are fresh, and a new version of
  an import finds the older ones ended; everything else in the database may change at any time.
\<close>

inductive constraint_history :: "unicode \<Rightarrow> hashing \<Rightarrow> constraint_db \<Rightarrow> bool" for U H where
  start: "kd_constraints db = [] \<Longrightarrow> constraint_history U H db"
| requested: "constraint_history U H db \<Longrightarrow> new_id \<notin> cn_id ` set (kd_constraints db) \<Longrightarrow>
    inventory_constraint_write U H db store request key new_id = Inr (db', r) \<Longrightarrow> constraint_history U H db'"
| imported: "constraint_history U H db \<Longrightarrow> new_id \<notin> cn_id ` set (kd_constraints db) \<Longrightarrow>
    import_constraint U H db store row new_id = Inr db' \<Longrightarrow>
    (\<forall>p \<in> set (kd_constraints db). \<forall>m \<in> set (kd_constraints db'). cn_id m = new_id \<longrightarrow> same_family p m \<longrightarrow>
       cn_active p \<or> ended_before p m) \<Longrightarrow> constraint_history U H db'"
| elsewhere: "constraint_history U H db \<Longrightarrow> kd_constraints db' = kd_constraints db \<Longrightarrow> constraint_history U H db'"

text \<open>A superseded version is not the newest of its family.\<close>

definition superseded_old :: "constraint_row list \<Rightarrow> bool" where
  "superseded_old rows \<longleftrightarrow>
     (\<forall>r \<in> set rows. cn_superseded r \<noteq> None \<longrightarrow> (\<exists>s \<in> set rows. same_family r s \<and> cn_version r < cn_version s))"

definition history_ok :: "constraint_row list \<Rightarrow> bool" where
  "history_ok rows \<longleftrightarrow> table_ok rows \<and> superseded_old rows"

lemma history_ok_Nil [simp]: "history_ok []"
  by (simp add: history_ok_def superseded_old_def)

lemma addressed_latest:
  assumes "latest rows store i k = Some r" "in_family store i k m"
  shows "r \<in> set rows" "same_family r m" "\<And>s. s \<in> set rows \<Longrightarrow> same_family s m \<Longrightarrow> cn_version s \<le> cn_version r"
  using latest_Some [OF assms(1)] assms(2) by (auto simp: in_family_def same_family_def)

lemma history_ok_first:
  assumes "history_ok rows" "cn_id m \<notin> cn_id ` set rows" "cn_superseded m = None" "\<forall>r \<in> set rows. \<not> same_family r m"
  shows "history_ok (rows @ [m])"
proof -
  have "table_ok (rows @ [m])" using assms by (intro table_ok_append) (auto simp: history_ok_def)
  then show ?thesis using assms(1,3) by (auto simp: history_ok_def superseded_old_def)
qed

lemma update_row_eq:
  assumes "distinct (map cn_id rows)" "c \<in> set rows"
  shows "update_row (cn_id c) f rows = map (\<lambda>r. if r = c then f r else r) rows"
proof -
  have "cn_id r = cn_id c \<longleftrightarrow> r = c" if "r \<in> set rows" for r
    using assms that unfolding distinct_map by (metis inj_onD)
  then show ?thesis by (simp add: update_row_def)
qed

text \<open>A new version after the newest, which is ended so that it does not overlap.\<close>

lemma history_ok_next:
  assumes h: "history_ok rows" and fresh: "cn_id m \<notin> cn_id ` set rows" and m: "cn_superseded m = None"
    and c: "c \<in> set rows" "same_family c m" "\<And>s. s \<in> set rows \<Longrightarrow> same_family s m \<Longrightarrow> cn_version s \<le> cn_version c"
    and v: "cn_version m = cn_version c + 1" "cn_effective c \<le> cn_effective m"
    and f: "only_ends f" "ended_before (f c) m"
  shows "history_ok (update_row (cn_id c) f rows @ [m])"
proof -
  let ?rows = "update_row (cn_id c) f rows"
  have t: "table_ok rows" using h by (simp add: history_ok_def)
  have fam: "same_family s c \<longleftrightarrow> same_family s m" for s by (rule same_family_cong(2) [OF c(2)])
  have d: "distinct (map cn_id rows)" using t by (simp add: table_ok_def)
  have img: "set ?rows = f ` {c} \<union> (set rows - {c})"
    using c(1) unfolding update_row_eq [OF d c(1)] by auto
  have k: "cn_id (f c) = cn_id c" "same_family (f c) c" "cn_version (f c) = cn_version c" "cn_effective (f c) = cn_effective c"
    using f(1) by (auto simp: only_ends_def)
  have "table_ok ?rows" by (rule table_ok_end_latest [OF t c(1) _ f(1)]) (use c(3) fam in blast)
  moreover have "cn_id m \<notin> cn_id ` set ?rows" using fresh c(1) k(1) by (auto simp: img)
  moreover have "follows s m" if s: "s \<in> set ?rows" "same_family s m" for s
  proof (cases "s = f c")
    case True
    then show ?thesis using v f(2) k by (simp add: follows_def)
  next
    case False
    then have r: "s \<in> set rows" "s \<noteq> c" using s img by auto
    have "follows s c"
    proof -
      obtain before after where sp: "rows = before @ c # after" "\<forall>x \<in> set after. \<not> same_family c x"
        "\<forall>x \<in> set before. same_family x c \<longrightarrow> follows x c"
        using latest_split [OF t c(1)] c(3) fam by metis
      have "same_family s c" using s(2) fam by blast
      moreover from this have "same_family c s" by (simp add: same_family_def)
      ultimately show ?thesis using r sp by auto
    qed
    then show ?thesis using v by (auto simp: follows_def ended_before_def split: option.splits)
  qed
  ultimately have "table_ok (?rows @ [m])" by (rule table_ok_append)
  moreover have "superseded_old (?rows @ [m])"
    unfolding superseded_old_def
  proof (intro ballI impI)
    fix r assume r: "r \<in> set (?rows @ [m])" "cn_superseded r \<noteq> None"
    show "\<exists>s \<in> set (?rows @ [m]). same_family r s \<and> cn_version r < cn_version s"
    proof (cases "r = f c")
      case True
      then have "same_family r m \<and> cn_version r < cn_version m" using k c(2) v(1) by (auto simp: same_family_def)
      then show ?thesis by auto
    next
      case False
      from m r(2) have "r \<noteq> m" by metis
      with r(1) have "r \<in> set ?rows" by simp
      with False have "r \<in> set rows" "r \<noteq> c" unfolding img by auto
      then obtain s where s: "s \<in> set rows" "same_family r s" "cn_version r < cn_version s"
        using h r(2) by (auto simp: history_ok_def superseded_old_def)
      show ?thesis
      proof (cases "s = c")
        case True
        then have "same_family r m \<and> cn_version r < cn_version m" using s c(2) v(1) by (auto simp: same_family_def)
        then show ?thesis by auto
      next
        case False
        with s(1) have "s \<in> set ?rows" unfolding img by blast
        with s show ?thesis by auto
      qed
    qed
  qed
  ultimately show ?thesis by (simp add: history_ok_def)
qed

lemma only_ends_intros [simp]:
  "only_ends (close_row effective new_id)" "only_ends (end_row body)" "only_ends (retire_row effective)"
  by (simp_all add: only_ends_def close_row_def end_row_def retire_row_def same_family_def)

lemma addressed_same:
  assumes "addressed rows store constraint_id expected current"
  shows "current \<in> set rows" "cn_id current = constraint_id"
    "\<And>s. s \<in> set rows \<Longrightarrow> same_family s current \<Longrightarrow> cn_version s \<le> cn_version current"
  using assms by (auto simp: addressed_def)

lemma next_row_sel [simp]:
  "cn_id (next_row c body n new_id) = new_id" "same_family c (next_row c body n new_id)"
  "cn_version (next_row c body n new_id) = cn_version c + 1" "cn_effective (next_row c body n new_id) = update_effective body c"
  "cn_superseded (next_row c body n new_id) = None" "cn_end (next_row c body n new_id) = None" "cn_value (next_row c body n new_id) = nb_value n"
  by (simp_all add: next_row_def same_family_def)

lemma history_ok_update:
  assumes h: "history_ok rows" and fresh: "new_id \<notin> cn_id ` set rows"
    and a: "addressed rows store constraint_id expected c" and e: "cn_effective c \<le> update_effective body c"
  shows "history_ok (update_row constraint_id (close_row (update_effective body c) new_id) rows @ [next_row c body n new_id])"
proof -
  have "history_ok (update_row (cn_id c) (close_row (update_effective body c) new_id) rows @ [next_row c body n new_id])"
  proof (rule history_ok_next [OF h])
    show "cn_version s \<le> cn_version c" if "s \<in> set rows" "same_family s (next_row c body n new_id)" for s
      using addressed_same(3) [OF a that(1)] that(2) by (simp add: next_row_def same_family_def)
    show "ended_before (close_row (update_effective body c) new_id c) (next_row c body n new_id)"
      by (simp add: ended_before_def close_row_def)
  qed (use addressed_same [OF a] fresh e in simp_all)
  then show ?thesis using addressed_same(2) [OF a] by simp
qed

lemma history_ok_import:
  assumes h: "history_ok rows" and fresh: "cn_id m \<notin> cn_id ` set rows" and m: "cn_superseded m = None"
    and l: "latest rows (cn_store m) (cn_ingredient m) (cn_kind m) = Some p"
    and v: "cn_effective p < cn_effective m" "cn_version m = cn_version p + 1"
    and safe: "cn_active p \<or> ended_before p m"
  shows "history_ok (update_row (cn_id p) (retire_row (cn_effective m)) rows @ [m])"
proof (rule history_ok_next [OF h fresh m])
  have i: "in_family (cn_store m) (cn_ingredient m) (cn_kind m) m" by (simp add: in_family_def)
  show "p \<in> set rows" "same_family p m" by (rule addressed_latest [OF l i])+
  show "cn_version s \<le> cn_version p" if "s \<in> set rows" "same_family s m" for s using addressed_latest(3) [OF l i that] .
  show "ended_before (retire_row (cn_effective m) p) m"
    using safe by (auto simp: ended_before_def retire_row_def split: option.splits)
qed (use v in simp_all)

lemma superseded_old_map:
  assumes "superseded_old rows"
    and "\<And>r. same_family (g r) r" "\<And>r. cn_version (g r) = cn_version r" "\<And>r. cn_superseded (g r) = cn_superseded r"
  shows "superseded_old (map g rows)"
  unfolding superseded_old_def
proof (intro ballI impI)
  fix r assume "r \<in> set (map g rows)" "cn_superseded r \<noteq> None"
  then obtain a where a: "a \<in> set rows" "r = g a" "cn_superseded a \<noteq> None" by (auto simp: assms(4))
  with assms(1) obtain s where s: "s \<in> set rows" "same_family a s" "cn_version a < cn_version s"
    by (auto simp: superseded_old_def)
  then have "same_family r (g s)" "cn_version r < cn_version (g s)"
    using assms(2) [of a] assms(2) [of s] by (simp_all add: a(2) assms(3) same_family_def)
  with s(1) show "\<exists>s \<in> set (map g rows). same_family r s \<and> cn_version r < cn_version s" by auto
qed

lemma deactivate_ok:
  assumes h: "history_ok rows" and a: "addressed rows store constraint_id expected c"
  shows "history_ok (update_row constraint_id (end_row body) rows)"
proof -
  have "table_ok (update_row constraint_id (end_row body) rows)"
    using table_ok_end_latest [of rows c "end_row body"] h addressed_same [OF a] by (auto simp: history_ok_def)
  moreover have "superseded_old (update_row constraint_id (end_row body) rows)"
    using h unfolding update_row_def history_ok_def
    by (intro superseded_old_map) (simp_all add: end_row_def same_family_def)
  ultimately show ?thesis by (simp add: history_ok_def)
qed

lemma history_ok_write:
  assumes h: "history_ok (kd_constraints db)" and fresh: "new_id \<notin> cn_id ` set (kd_constraints db)"
    and w: "inventory_constraint_write U H db store request key new_id = Inr (db', r)"
  shows "history_ok (kd_constraints db')"
proof -
  have d: "distinct (map cn_id (kd_constraints db))" using h by (simp add: history_ok_def table_ok_def)
  show ?thesis
  proof (cases request)
    case (CreateRequest c)
    with w have "create_constraint U H db store c key new_id = Inr (db', r)" by (simp add: inventory_constraint_write_def)
    from create_writes [OF this] consider "db' = db"
      | n where "latest (kd_constraints db) store (cb_ingredient c) (nb_kind n) = None" "kd_constraints db' = kd_constraints db @ [create_row store c n new_id]"
      by blast
    then show ?thesis
    proof cases
      case 2
      have "\<forall>r \<in> set (kd_constraints db). \<not> same_family r (create_row store c n new_id)"
        using 2(1) by (auto simp: latest_None in_family_def same_family_def create_row_def)
      then show ?thesis unfolding 2(2) by (intro history_ok_first [OF h]) (use fresh in \<open>simp_all add: create_row_def\<close>)
    qed (use h in simp)
  next
    case (UpdateRequest constraint_id u)
    with w have "update_constraint U H db store constraint_id u key new_id = Inr (db', r)" by (simp add: inventory_constraint_write_def)
    then show ?thesis using d by (cases rule: update_writes) (use h history_ok_update [OF h fresh] in auto)
  next
    case (DeactivateRequest constraint_id b)
    with w have "deactivate_constraint H db store constraint_id b key = Inr (db', r)" by (simp add: inventory_constraint_write_def)
    then show ?thesis using d by (cases rule: deactivate_writes) (use h deactivate_ok [OF h] in auto)
  qed
qed

lemma history_keeps: "constraint_history U H db \<Longrightarrow> history_ok (kd_constraints db)"
proof (induction rule: constraint_history.induct)
  case (requested db new_id store request key db' r)
  show ?case by (rule history_ok_write [OF requested.IH requested.hyps(2,3)])
next
  case (imported db new_id store row db')
  from imported.hyps(3) show ?case
  proof (cases rule: import_writes)
    case (initial model)
    have "\<forall>r \<in> set (kd_constraints db). \<not> same_family r model"
      using initial(3) by (auto simp: latest_None in_family_def same_family_def)
    then show ?thesis unfolding initial(1)
      by (intro history_ok_first [OF imported.IH]) (use initial imported.hyps(2) in simp_all)
  next
    case (later previous model)
    have i: "in_family (cn_store model) (cn_ingredient model) (cn_kind model) model" by (simp add: in_family_def)
    have "cn_active previous \<or> ended_before previous model"
      using imported.hyps(4) addressed_latest(1,2) [OF later(1) i] later(2,3) by simp
    with imported.hyps(2) later show ?thesis unfolding later(2) by (intro history_ok_import [OF imported.IH]) simp_all
  qed (use imported.IH in simp)
qed simp_all

lemma resolve_ambiguous_iff:
  "resolve_constraint U rows store t i day = Inl (planning_error ''BUSINESS_CONSTRAINT_AMBIGUOUS'') \<longleftrightarrow>
     (\<exists>kind d. constraint_definition_of U (Some t) = Inr (kind, d) \<and> 1 < length (effective_constraints rows store kind i day))"
  by (auto simp: resolve_constraint_def ebind_def constraint_definition_of_def Let_def constraint_error_def planning_error_def
      split: option.splits list.splits)

lemma history_unambiguous:
  assumes "constraint_history U H db"
  shows "resolve_constraint V (kd_constraints db) store t i day \<noteq> Inl (planning_error ''BUSINESS_CONSTRAINT_AMBIGUOUS'')"
  using one_effective [of "kd_constraints db"] history_keeps [OF assms]
  unfolding resolve_ambiguous_iff by (auto simp: history_ok_def not_less)

section \<open>What an update changes\<close>

lemma sort_key_short: "length xs \<le> 1 \<Longrightarrow> sort_key f xs = xs"
  by (cases xs) auto

lemma effective_filter:
  assumes "history_ok rows"
  shows "effective_constraints rows store k i day = filter (\<lambda>r. in_family store i k r \<and> covers day r) rows"
  using one_effective [of rows store k i day] assms
  by (simp add: effective_constraints_def history_ok_def sort_key_short)

text \<open>The versions of a row's family that are effective on a day.\<close>

definition version_on :: "constraint_row list \<Rightarrow> constraint_row \<Rightarrow> date \<Rightarrow> constraint_row list" where
  "version_on rows c day = effective_constraints rows (cn_store c) (cn_kind c) (cn_ingredient c) day"

lemma in_family_iff: "in_family (cn_store c) (cn_ingredient c) (cn_kind c) r \<longleftrightarrow> same_family r c"
  by (auto simp: in_family_def same_family_def)

lemma version_filter:
  assumes "history_ok rows"
  shows "version_on rows c day = filter (\<lambda>r. same_family r c \<and> covers day r) rows"
  by (simp add: version_on_def effective_filter [OF assms] in_family_iff)

lemma newest_not_superseded:
  assumes "history_ok rows" "addressed rows store constraint_id expected c"
  shows "cn_superseded c = None"
proof (rule ccontr)
  assume "cn_superseded c \<noteq> None"
  then obtain s where "s \<in> set rows" "same_family c s" "cn_version c < cn_version s"
    using assms(1) addressed_same(1) [OF assms(2)] by (auto simp: history_ok_def superseded_old_def)
  moreover from this have "same_family s c" by (simp add: same_family_def)
  ultimately show False using addressed_same(3) [OF assms(2)] by (meson linorder_not_le)
qed

text \<open>Before the newest version began, its family is as the older versions left it.\<close>

lemma family_parts:
  assumes h: "history_ok rows" and a: "addressed rows store constraint_id expected c"
  obtains before after where "rows = before @ c # after" "filter (\<lambda>r. same_family r c \<and> covers day r) after = []"
    "cn_effective c \<le> day \<longrightarrow> filter (\<lambda>r. same_family r c \<and> covers day r) before = []"
    "\<forall>s \<in> set before \<union> set after. cn_id s \<noteq> cn_id c"
proof -
  have t: "table_ok rows" using h by (simp add: history_ok_def)
  obtain before after where s: "rows = before @ c # after" "\<forall>s \<in> set after. \<not> same_family c s"
    "\<forall>s \<in> set before. same_family s c \<longrightarrow> follows s c" "\<forall>s \<in> set before \<union> set after. cn_id s \<noteq> cn_id c"
    using latest_split [OF t addressed_same(1,3) [OF a]] by blast
  have "filter (\<lambda>r. same_family r c \<and> covers day r) after = []"
    using s(2) by (auto simp: filter_empty_conv same_family_def)
  moreover have "filter (\<lambda>r. same_family r c \<and> covers day r) before = []" if "cn_effective c \<le> day"
  proof -
    have "\<not> covers day r" if "r \<in> set before" "same_family r c" for r
      using s(3) that \<open>cn_effective c \<le> day\<close> versions.closed_ends [of r c day] by (fastforce simp: follows_def)
    then show ?thesis by (auto simp: filter_empty_conv)
  qed
  ultimately show ?thesis using that [OF s(1)] s(4) by blast
qed

lemma version_of_newest:
  assumes "history_ok rows" "addressed rows store constraint_id expected c" "cn_effective c \<le> day"
  shows "version_on rows c day = (if covers day c then [c] else [])"
proof -
  obtain before after where p: "rows = before @ c # after" "filter (\<lambda>r. same_family r c \<and> covers day r) after = []"
    "cn_effective c \<le> day \<longrightarrow> filter (\<lambda>r. same_family r c \<and> covers day r) before = []"
    by (rule family_parts [OF assms(1,2)])
  have "filter (\<lambda>r. same_family r c \<and> covers day r) rows = (if covers day c then [c] else [])"
    using p(2,3) assms(3) by (simp add: p(1) same_family_def)
  then show ?thesis by (simp only: version_filter [OF assms(1)])
qed

lemma update_takes_over_rows:
  fixes body :: update_body and n :: normalized_constraint
  defines "effective c \<equiv> update_effective body c"
  assumes h: "history_ok rows" and fresh: "new_id \<notin> cn_id ` set rows" and a: "addressed rows store constraint_id expected c"
    and e: "cn_effective c \<le> effective c"
  defines "rows' \<equiv> update_row constraint_id (close_row (effective c) new_id) rows @ [next_row c body n new_id]"
  shows "version_on rows' c day =
    (if effective c \<le> day then [next_row c body n new_id]
     else if cn_effective c \<le> day then [close_row (effective c) new_id c] else version_on rows c day)"
proof -
  let ?m = "next_row c body n new_id" and ?c = "close_row (effective c) new_id c"
  have h': "history_ok rows'" unfolding rows'_def effective_def by (rule history_ok_update [OF h fresh a]) (use e in \<open>simp add: effective_def\<close>)
  obtain before after where p: "rows = before @ c # after" "filter (\<lambda>r. same_family r c \<and> covers day r) after = []"
    "cn_effective c \<le> day \<longrightarrow> filter (\<lambda>r. same_family r c \<and> covers day r) before = []"
    "\<forall>s \<in> set before \<union> set after. cn_id s \<noteq> cn_id c"
    by (rule family_parts [OF h a])
  have r': "rows' = before @ ?c # after @ [?m]"
    unfolding rows'_def p(1) addressed_same(2) [OF a, symmetric] update_row_split [OF p(4)] by simp
  have m: "same_family ?m c" "covers day ?m \<longleftrightarrow> effective c \<le> day"
    by (simp_all add: effective_def next_row_def same_family_def covers_def)
  have c: "same_family ?c c" "covers day ?c \<longleftrightarrow> cn_effective c \<le> day \<and> day < effective c"
    using newest_not_superseded [OF h a] e by (auto simp: close_row_def same_family_def covers_def)
  have old: "\<not> covers day c" if "day < cn_effective c" using that by (simp add: covers_def)
  have "filter (\<lambda>r. same_family r c \<and> covers day r) rows' =
    (if effective c \<le> day then [?m] else if cn_effective c \<le> day then [?c]
     else filter (\<lambda>r. same_family r c \<and> covers day r) rows)"
    using p(2,3) m c old e unfolding r' p(1) by simp
  then show ?thesis by (simp only: version_filter [OF h] version_filter [OF h'])
qed

section \<open>Replays\<close>

lemma update_first_append:
  assumes "\<forall>x \<in> set xs. \<not> P x" "P y"
  shows "update_first P f (xs @ [y]) = xs @ [f y]"
  using assms by (induction xs) auto

text \<open>A request with a key that succeeded answers the same again and writes nothing.\<close>

lemma replayed:
  assumes w: "with_idempotency (kd_idem db) (Some store) path m (Some k) h work (replay_response db) = Inr (db', r)" and k: "k \<noteq> []"
    and work: "\<And>records. work records = Inr (db', r) \<Longrightarrow>
      \<exists>db1 a model. db' = finish_write db1 store path m (Some k) a model r \<and> kd_idem db1 = records"
  shows "with_idempotency (kd_idem db') (Some store) path m (Some k) h work' (replay_response db') = Inr (db', r)"
proof (cases "idem_get (kd_idem db) (Some store) path m k")
  case None
  define rec :: "constraint_response idem_record" where
    "rec = \<lparr>ir_store = Some store, ir_endpoint = path, ir_method = str_upper m, ir_key = k, ir_hash = Some h,
      ir_resource_type = None, ir_resource_id = None, ir_status = None, ir_body = None\<rparr>"
  have rec: "idem_matches (Some store) path m k rec" by (simp add: rec_def idem_matches_def)
  from w None k have "work (kd_idem db @ [rec]) = Inr (db', r)"
    by (simp add: with_idempotency_def idem_register_def rec_def Let_def)
  then obtain db1 a model where db1: "db' = finish_write db1 store path m (Some k) a model r" "kd_idem db1 = kd_idem db @ [rec]"
    using work by blast
  define rec' where "rec' = rec\<lparr>ir_resource_type := Some ''inventory_constraint'', ir_resource_id := Some (cn_id model),
    ir_status := Some 200, ir_body := Some r\<rparr>"
  have rec': "idem_matches (Some store) path m k rec'" "ir_hash rec' = Some h" "ir_body rec' = Some r"
    by (simp_all add: rec'_def rec_def idem_matches_def)
  have new: "\<forall>x \<in> set (kd_idem db). \<not> idem_matches (Some store) path m k x"
    using None by (auto simp: idem_get_def find_None_iff)
  have "kd_idem db' = kd_idem db @ [rec']"
    using k by (simp add: db1 finish_write_def idem_update_def update_first_append [OF new rec] rec'_def)
  then have "idem_get (kd_idem db') (Some store) path m k = Some rec'"
    using None rec'(1) by (simp add: idem_get_def find_append)
  with k rec' show ?thesis
    by (simp add: with_idempotency_def idem_register_def replay_response_def stored_response_def)
next
  case (Some e)
  then have "db' = db"
    using w k by (auto simp: with_idempotency_def idem_register_def replay_response_def result_simps)
  with w k Some show ?thesis by (auto simp: with_idempotency_def idem_register_def result_simps)
qed

lemma finish_write_stores [simp]: "kd_stores (finish_write db store path m key a model r) = kd_stores db"
  by (simp add: finish_write_def)

lemma create_work_finishes:
  assumes "create_work U db store body key new_id records = Inr (db', r)"
  shows "\<exists>db1 a model. db' = finish_write db1 store (constraints_path store) ''POST'' key a model r \<and>
    kd_idem db1 = records \<and> kd_stores db1 = kd_stores db"
  using assms unfolding create_work_def Let_def
  by (elim ebind_InrE) (clarsimp split del: if_split, intro exI conjI, rule refl, simp_all)

lemma update_work_finishes:
  assumes "update_work U db store constraint_id body key new_id records = Inr (db', r)"
  shows "\<exists>db1 a model. db' = finish_write db1 store (update_path store constraint_id) ''PATCH'' key a model r \<and>
    kd_idem db1 = records \<and> kd_stores db1 = kd_stores db"
  using assms unfolding update_work_def Let_def
  by (elim ebind_InrE) (clarsimp split del: if_split, intro exI conjI, rule refl, simp_all)

lemma deactivate_work_finishes:
  assumes "deactivate_work db store constraint_id body key records = Inr (db', r)"
  shows "\<exists>db1 a model. db' = finish_write db1 store (deactivate_path store constraint_id) ''POST'' key a model r \<and>
    kd_idem db1 = records \<and> kd_stores db1 = kd_stores db"
  using assms unfolding deactivate_work_def Let_def
  by (elim ebind_InrE) (clarsimp split del: if_split, intro exI conjI, rule refl, simp_all)

lemma request_stores:
  assumes "ebind (require_store (kd_stores db) store) (\<lambda>_. with_idempotency (kd_idem db) (Some store) path m key h work (replay_response db)) =
    Inr (db', r)"
    and "\<And>records. work records = Inr (db', r) \<Longrightarrow> kd_stores db' = kd_stores db"
  shows "kd_stores db' = kd_stores db" "require_store (kd_stores db) store = Inr ()"
proof -
  show "require_store (kd_stores db) store = Inr ()" using assms(1) by (auto simp: require_store_def)
  from assms(1) show "kd_stores db' = kd_stores db" by (cases rule: request_cases) (auto dest: assms(2))
qed

lemma replayed_request:
  assumes r: "ebind (require_store (kd_stores db) store)
      (\<lambda>_. with_idempotency (kd_idem db) (Some store) path m (Some k) h work (replay_response db)) = Inr (db', r)"
    and k: "k \<noteq> []"
    and work: "\<And>records. work records = Inr (db', r) \<Longrightarrow>
      \<exists>db1 a model. db' = finish_write db1 store path m (Some k) a model r \<and> kd_idem db1 = records \<and> kd_stores db1 = kd_stores db"
  shows "ebind (require_store (kd_stores db') store)
      (\<lambda>_. with_idempotency (kd_idem db') (Some store) path m (Some k) h work' (replay_response db')) = Inr (db', r)"
proof -
  have s: "kd_stores db' = kd_stores db" "require_store (kd_stores db) store = Inr ()"
    by (rule request_stores [OF r]; use work in fastforce)+
  then have "with_idempotency (kd_idem db) (Some store) path m (Some k) h work (replay_response db) = Inr (db', r)" using r by simp
  then have "with_idempotency (kd_idem db') (Some store) path m (Some k) h work' (replay_response db') = Inr (db', r)"
    by (rule replayed [OF _ k]) (use work in blast)
  with s show ?thesis by simp
qed

lemma write_replays:
  assumes "inventory_constraint_write U H db store request (Some k) new_id = Inr (db', r)" "k \<noteq> []"
  shows "inventory_constraint_write U H db' store request (Some k) new_id' = Inr (db', r)"
proof (cases request)
  case (CreateRequest body)
  with assms show ?thesis
    by (auto simp: inventory_constraint_write_def create_constraint_def intro!: replayed_request create_work_finishes)
next
  case (UpdateRequest constraint_id body)
  with assms show ?thesis
    by (auto simp: inventory_constraint_write_def update_constraint_def intro!: replayed_request update_work_finishes)
next
  case (DeactivateRequest constraint_id body)
  with assms show ?thesis
    by (auto simp: inventory_constraint_write_def deactivate_constraint_def intro!: replayed_request deactivate_work_finishes)
qed

text \<open>C32: a request to create, update or end a business constraint can be repeated. Repeating a request that
  succeeded, with its idempotency key and its body, returns the stored response of the first and leaves the
  database as the first left it.\<close>

theorem constraint_write_replays:
  assumes "inventory_constraint_write U H db store request (Some key) new_id = Inr (db', response)" "key \<noteq> []"
  shows "inventory_constraint_write U H db' store request (Some key) new_id' = Inr (db', response)"
  by (rule write_replays [OF assms])

section \<open>At most one constraint is effective\<close>

text \<open>C33: business constraints are never ambiguous. Whatever requests and imports built the table (an import
  whose predecessor is active or ends before it), resolving any constraint of any store on any day
  finds at most one version: the error for several effective constraints is not reachable.\<close>

theorem constraints_never_ambiguous:
  assumes "constraint_history U H db"
  shows "resolve_constraint V (kd_constraints db) store constraint_type ingredient_id day
    \<noteq> Inl (planning_error ''BUSINESS_CONSTRAINT_AMBIGUOUS'')"
  by (rule history_unambiguous [OF assms])

section \<open>An update takes over from its effective date\<close>

lemma update_takes_over:
  assumes h: "constraint_history U H db" "new_id \<notin> cn_id ` set (kd_constraints db)"
    and u: "update_constraint U H db store constraint_id body key new_id = Inr (db', response)" "db' \<noteq> db"
  obtains current n where "addressed (kd_constraints db) store constraint_id (ub_expected body) current"
    "normalize_write U db store (cn_ingredient current) (cn_kind current) (ub_value body) (ub_unit body) (ub_currency body) = Inr n"
    "cn_effective current \<le> update_effective body current"
    "\<And>day. version_on (kd_constraints db') current day =
       (if update_effective body current \<le> day then [next_row current body n new_id]
        else if cn_effective current \<le> day then [close_row (update_effective body current) new_id current]
        else version_on (kd_constraints db) current day)"
proof -
  have ok: "history_ok (kd_constraints db)" by (rule history_keeps [OF h(1)])
  then have "distinct (map cn_id (kd_constraints db))" by (simp add: history_ok_def table_ok_def)
  with u(1) show ?thesis
  proof (cases rule: update_writes)
    case (written current n)
    show ?thesis
      by (rule that [OF written(1,3,2)]) (simp only: written(4) update_takes_over_rows [OF ok h(2) written(1,2)])
  qed (use u(2) in simp)
qed


lemma update_reopens:
  assumes h: "constraint_history U H db" "new_id \<notin> cn_id ` set (kd_constraints db)"
    and u: "update_constraint U H db store constraint_id body key new_id = Inr (db', response)" "db' \<noteq> db"
    and c: "current \<in> set (kd_constraints db)" "cn_id current = constraint_id" "cn_end current = Some e"
    and d: "e < day" "day < update_effective body current" "cn_effective current \<le> e"
  shows "version_on (kd_constraints db) current day = [] \<and>
    (\<exists>r. version_on (kd_constraints db') current day = [r] \<and> cn_id r = constraint_id \<and> cn_value r = cn_value current)"
proof -
  have ok: "history_ok (kd_constraints db)" by (rule history_keeps [OF h(1)])
  obtain c' n where w: "addressed (kd_constraints db) store constraint_id (ub_expected body) c'"
    "version_on (kd_constraints db') c' day =
       (if update_effective body c' \<le> day then [next_row c' body n new_id]
        else if cn_effective c' \<le> day then [close_row (update_effective body c') new_id c']
        else version_on (kd_constraints db) c' day)"
    by (rule update_takes_over [OF h u]) blast
  have "distinct (map cn_id (kd_constraints db))" using ok by (simp add: history_ok_def table_ok_def)
  then have c': "c' = current" using addressed_same(1,2) [OF w(1)] c(1,2) by (metis distinct_map inj_onD)
  have "version_on (kd_constraints db) current day = []"
    using version_of_newest [OF ok w(1), of day] d c(3) by (simp add: c' covers_def)
  moreover have "version_on (kd_constraints db') current day = [close_row (update_effective body current) new_id current]"
    using w(2) d by (simp add: c')
  moreover have "cn_id (close_row eff new_id current) = constraint_id" "cn_value (close_row eff new_id current) = cn_value current" for eff
    using c(2) by (simp_all add: close_row_def)
  ultimately show ?thesis by blast
qed

text \<open>An ended constraint comes back to life. If the newest version had been ended on a day \<open>e\<close>, a later
  update that is effective after \<open>e + 1\<close> makes it effective again on the days in between, on which
  nothing was effective before: the update overwrites the end date instead of keeping the earlier one.\<close>

theorem update_reopens_ended_constraint:
  assumes "constraint_history U H db" "new_id \<notin> cn_id ` set (kd_constraints db)"
    and "update_constraint U H db store constraint_id body key new_id = Inr (db', response)" "db' \<noteq> db"
    and "current \<in> set (kd_constraints db)" "cn_id current = constraint_id" "cn_end current = Some e"
    and "e < day" "day < update_effective body current" "cn_effective current \<le> e"
  shows "version_on (kd_constraints db) current day = [] \<and>
    (\<exists>r. version_on (kd_constraints db') current day = [r] \<and> cn_id r = constraint_id \<and> cn_value r = cn_value current)"
  by (rule update_reopens [OF assms])

section \<open>An import can overlap an ended constraint\<close>

lemma update_row_ids: "only_ends f \<Longrightarrow> map cn_id (update_row constraint_id f rows) = map cn_id rows"
  by (simp add: update_row_def only_ends_def)

lemma import_overlaps:
  assumes h: "constraint_history U H db" "new_id \<notin> cn_id ` set (kd_constraints db)"
    and i: "import_constraint U H db store row new_id = Inr db'"
    and m: "m \<in> set (kd_constraints db')" "cn_id m = new_id"
    and p: "latest (kd_constraints db) (cn_store m) (cn_ingredient m) (cn_kind m) = Some p" "\<not> cn_active p" "cn_end p = Some e"
    and d: "cn_effective m \<le> day" "day \<le> e" "case cn_end m of None \<Rightarrow> True | Some f \<Rightarrow> day \<le> f"
  shows "1 < length (effective_constraints (kd_constraints db') (cn_store m) (cn_kind m) (cn_ingredient m) day)"
proof -
  let ?fam = "in_family (cn_store m) (cn_ingredient m) (cn_kind m)"
  have ok: "history_ok (kd_constraints db)" by (rule history_keeps [OF h(1)])
  then have dist: "distinct (map cn_id (kd_constraints db))" by (simp add: history_ok_def table_ok_def)
  have m0: "m \<notin> set (kd_constraints db)" using h(2) m(2) by auto
  have fam: "?fam m" by (simp add: in_family_def)
  have p': "p \<in> set (kd_constraints db)" "same_family p m" by (rule addressed_latest [OF p(1) fam])+
  have s0: "cn_superseded p = None"
  proof (rule ccontr)
    assume "cn_superseded p \<noteq> None"
    then obtain s where s: "s \<in> set (kd_constraints db)" "same_family p s" "cn_version p < cn_version s"
      using ok p'(1) by (auto simp: history_ok_def superseded_old_def)
    then have "same_family s m" using p'(2) by (simp add: same_family_def)
    then show False using addressed_latest(3) [OF p(1) fam s(1)] s(3) by simp
  qed
  from i show ?thesis
  proof (cases rule: import_writes)
    case same
    then show ?thesis using m(1) m0 by simp
  next
    case (initial model)
    then have "model = m" using m(1) m0 by auto
    then show ?thesis using initial(3) p(1) by simp
  next
    case (later previous model)
    have "model = m"
    proof (rule ccontr)
      assume "model \<noteq> m"
      then have "m \<in> set (update_row (cn_id previous) (retire_row (cn_effective model)) (kd_constraints db))" using m(1) later(2) by simp
      then have "cn_id m \<in> set (map cn_id (update_row (cn_id previous) (retire_row (cn_effective model)) (kd_constraints db)))" by simp
      then have "cn_id m \<in> cn_id ` set (kd_constraints db)" by (simp add: update_row_ids)
      then show False using h(2) m(2) by simp
    qed
    then have pr: "previous = p" using later(1) p(1) by simp
    have "retire_row (cn_effective m) p = p" using p(2) by (simp add: retire_row_def)
    then have "update_row (cn_id p) (retire_row (cn_effective m)) (kd_constraints db) = kd_constraints db"
      using update_row_eq [OF dist p'(1)] by (simp add: map_idI)
    then have rows: "kd_constraints db' = kd_constraints db @ [m]" using later(2) \<open>model = m\<close> pr by simp
    have "covers day m" using d(1,3) later(6) \<open>model = m\<close> by (simp add: covers_def)
    moreover have "covers day p" using s0 p(3) d later(4) pr \<open>model = m\<close> by (simp add: covers_def)
    moreover have "?fam p" using p'(2) by (auto simp: in_family_def same_family_def)
    ultimately have "p \<in> set (filter (\<lambda>r. ?fam r \<and> covers day r) (kd_constraints db))"
      and f: "filter (\<lambda>r. ?fam r \<and> covers day r) (kd_constraints db') = filter (\<lambda>r. ?fam r \<and> covers day r) (kd_constraints db) @ [m]"
      using fam p'(1) by (simp_all add: rows)
    then have "0 < length (filter (\<lambda>r. ?fam r \<and> covers day r) (kd_constraints db))" by (intro length_pos_if_in_set)
    then show ?thesis unfolding effective_constraints_def length_sort f by simp
  qed
qed

text \<open>An import after a planned end makes a constraint ambiguous. If the newest version was ended (not
  by an import) on a day that is still to come, importing a version that starts before that day leaves
  both effective until then, and resolving the constraint fails as ambiguous.\<close>

theorem import_after_end_is_ambiguous:
  assumes "constraint_history U H db" "new_id \<notin> cn_id ` set (kd_constraints db)"
    and "import_constraint U H db store row new_id = Inr db'"
    and "m \<in> set (kd_constraints db')" "cn_id m = new_id"
    and "latest (kd_constraints db) (cn_store m) (cn_ingredient m) (cn_kind m) = Some p" "\<not> cn_active p" "cn_end p = Some e"
    and "cn_effective m \<le> day" "day \<le> e" "cn_end m = None"
    and "constraint_definition_of V (Some constraint_type) = Inr (cn_kind m, d)"
  shows "resolve_constraint V (kd_constraints db') (cn_store m) constraint_type (cn_ingredient m) day
    = Inl (planning_error ''BUSINESS_CONSTRAINT_AMBIGUOUS'')"
  unfolding resolve_ambiguous_iff using import_overlaps [OF assms(1-10)] assms(11,12) by auto

end
