(* ===== verification/Constraint_Witness.thy ===== *)
theory Constraint_Witness
  imports Constraint_Facts
begin

text \<open>
  The theorems on business constraints at a concrete store: a safety stock is created, ended, updated later
  and, in another course of events, imported again while the old one still runs.
\<close>

definition plain_text :: unicode where
  "plain_text = \<lparr>un_nfc = (\<lambda>s. str_lower (str_strip s)), un_plain = (\<lambda>s. str_lower (str_strip s)),
     un_name = (\<lambda>s. str_lower (str_strip s)), un_decimal = (\<lambda>_. ''5'')\<rparr>"

definition plain_hash :: hashing where
  "plain_hash = \<lparr>hs_sha256 = (\<lambda>s. s), hs_float = (\<lambda>_. ''0''), hs_instant = (\<lambda>_. ''0'')\<rparr>"

definition empty_shop :: constraint_db where
  "empty_shop = \<lparr>kd_stores = [''shop''],
     kd_ingredients = [\<lparr>ig_id = ''flour'', ig_store = ''shop'', ig_name = ''Flour'', ig_normalized = ''flour'', ig_base_unit = ''kg'',
       ig_tracking = TrackUnknown, ig_declared = False\<rparr>],
     kd_aliases = [], kd_constraints = [], kd_plans = [], kd_idem = [], kd_audit = []\<rparr>"

definition stock_request :: constraint_request where
  "stock_request = CreateRequest \<lparr>cb_ingredient = Some ''flour'', cb_type = ''safety_stock'', cb_value = 5, cb_unit = Some ''kg'',
     cb_currency = None, cb_effective = 100, cb_note = None, cb_dump = PNone\<rparr>"

definition end_request :: constraint_request where
  "end_request = DeactivateRequest ''c1'' \<lparr>db_expected = 1, db_end = 110, db_note = None, db_dump = PNone\<rparr>"

definition late_update :: update_body where
  "late_update = \<lparr>ub_expected = 1, ub_value = 8, ub_unit = Some ''kg'', ub_currency = None, ub_effective = Some 120,
     ub_note = None, ub_correction = False, ub_dump = PNone\<rparr>"

definition import_sheet :: import_row where
  "import_sheet = \<lparr>mr_type = Some ''safety_stock'', mr_value = Some 5, mr_ingredient = Some ''flour'', mr_unit = Some ''kg'',
     mr_currency = None, mr_effective = Some 105, mr_end = Some None, mr_note = None\<rparr>"

fun written :: "(constraint_db \<times> constraint_response) app \<Rightarrow> constraint_db" where
  "written (Inr (db, r)) = db"
| "written (Inl _) = empty_shop"

lemma written_Inr: "is_ok m \<Longrightarrow> \<exists>r. m = Inr (written m, r)"
  by (cases m rule: written.cases) simp_all

definition stocked :: constraint_db where
  "stocked = written (inventory_constraint_write plain_text plain_hash empty_shop ''shop'' stock_request (Some ''k'') ''c1'')"

definition ended :: constraint_db where
  "ended = written (inventory_constraint_write plain_text plain_hash stocked ''shop'' end_request None ''x'')"

definition updated :: constraint_db where
  "updated = written (update_constraint plain_text plain_hash ended ''shop'' ''c1'' late_update None ''c2'')"

lemma stocked_Inr: "\<exists>r. inventory_constraint_write plain_text plain_hash empty_shop ''shop'' stock_request (Some ''k'') ''c1'' = Inr (stocked, r)"
  unfolding stocked_def by (rule written_Inr) code_simp

lemma ended_Inr: "\<exists>r. inventory_constraint_write plain_text plain_hash stocked ''shop'' end_request None ''x'' = Inr (ended, r)"
  unfolding ended_def by (rule written_Inr) code_simp

lemma updated_Inr: "\<exists>r. update_constraint plain_text plain_hash ended ''shop'' ''c1'' late_update None ''c2'' = Inr (updated, r)"
  unfolding updated_def by (rule written_Inr) code_simp

lemma stocked_history: "constraint_history plain_text plain_hash stocked"
proof -
  have "constraint_history plain_text plain_hash empty_shop" by (rule constraint_history.start) (simp add: empty_shop_def)
  moreover have "''c1'' \<notin> cn_id ` set (kd_constraints empty_shop)" by (simp add: empty_shop_def)
  ultimately show ?thesis using stocked_Inr constraint_history.requested by blast
qed

lemma ended_history: "constraint_history plain_text plain_hash ended"
proof -
  have "''x'' \<notin> cn_id ` set (kd_constraints stocked)" by code_simp
  with stocked_history show ?thesis using ended_Inr constraint_history.requested by blast
qed

definition old_row :: constraint_row where
  "old_row = \<lparr>cn_id = ''c1'', cn_store = ''shop'', cn_ingredient = Some ''flour'', cn_kind = ''safety_stock'', cn_value = 5, cn_unit = ''kg'',
     cn_currency = None, cn_effective = 100, cn_end = Some 110, cn_version = 1, cn_active = False, cn_source = ''api'', cn_hash = None,
     cn_note = None, cn_superseded = None\<rparr>"

lemma ended_rows: "kd_constraints ended = [old_row]"
  by code_simp

lemma fresh_c2: "''c2'' \<notin> cn_id ` set (kd_constraints ended)"
  by (simp add: ended_rows old_row_def)

lemma updated_history: "constraint_history plain_text plain_hash updated"
proof -
  have "\<exists>r. inventory_constraint_write plain_text plain_hash ended ''shop'' (UpdateRequest ''c1'' late_update) None ''c2'' = Inr (updated, r)"
    using updated_Inr by (simp add: inventory_constraint_write_def)
  with ended_history fresh_c2 show ?thesis using constraint_history.requested by blast
qed

lemma updated_new: "updated \<noteq> ended"
proof
  assume "updated = ended"
  then have "length (kd_audit updated) = length (kd_audit ended)" by simp
  then show False by code_simp
qed

lemma old_row: "old_row \<in> set (kd_constraints ended)" "cn_id old_row = ''c1''" "cn_end old_row = Some 110" "cn_effective old_row = 100"
  "cn_value old_row = 5"
  by (simp_all add: ended_rows) (simp_all add: old_row_def)

theorem constraint_write_replays_witness:
  "\<exists>r. inventory_constraint_write plain_text plain_hash stocked ''shop'' stock_request (Some ''k'') ''other'' = Inr (stocked, r)"
  using stocked_Inr constraint_write_replays by blast

theorem constraints_never_ambiguous_witness:
  "resolve_constraint plain_text (kd_constraints updated) ''shop'' ''safety_stock'' (Some ''flour'') 130
    \<noteq> Inl (planning_error ''BUSINESS_CONSTRAINT_AMBIGUOUS'')"
  by (rule constraints_never_ambiguous [OF updated_history])


theorem update_reopens_ended_constraint_witness:
  "version_on (kd_constraints ended) old_row 115 = [] \<and>
    (\<exists>r. version_on (kd_constraints updated) old_row 115 = [r] \<and> cn_id r = ''c1'' \<and> cn_value r = 5)"
proof -
  obtain r where u: "update_constraint plain_text plain_hash ended ''shop'' ''c1'' late_update None ''c2'' = Inr (updated, r)"
    using updated_Inr by blast
  have "update_effective late_update old_row = 120" by (simp add: update_effective_def late_update_def)
  then show ?thesis
    using update_reopens_ended_constraint [OF ended_history fresh_c2 u updated_new old_row(1,2,3), of 115] old_row(4,5) by simp
qed

section \<open>The import\<close>

definition flour_row :: ingredient_row where
  "flour_row = hd (kd_ingredients empty_shop)"

definition imported_stock :: normalized_constraint where
  "imported_stock = \<lparr>nb_kind = ''safety_stock'', nb_value = 5, nb_unit = ''kg'', nb_dimension = QuantityDim, nb_scope = IngredientScope\<rparr>"

definition new_row :: constraint_row where
  "new_row = import_version ''shop'' (Some ''flour'') ''safety_stock'' imported_stock 105 None
     (canonical_hash plain_hash (import_content plain_text (Some ''flour'') imported_stock import_sheet 105 None)) None ''c3'' 2"

definition reimported :: constraint_db where
  "reimported = ended\<lparr>kd_constraints := update_row ''c1'' (retire_row 105) (kd_constraints ended) @ [new_row]\<rparr>"

lemma old_row_latest: "latest (kd_constraints ended) ''shop'' (Some ''flour'') ''safety_stock'' = Some old_row"
  by (simp add: ended_rows latest_def family_def in_family_def) (simp add: old_row_def)

lemma safety_stock_definition: "constraint_definition_of plain_text (Some ''safety_stock'') = Inr (''safety_stock'', hd CONSTRAINT_DEFINITIONS)"
  by code_simp

lemma reimported_Inr: "import_constraint plain_text plain_hash ended ''shop'' import_sheet ''c3'' = Inr reimported"
proof -
  have k: "normalize_constraint_type plain_text (Some ''safety_stock'') = ''safety_stock''" by code_simp
  have s: "cd_scope (hd CONSTRAINT_DEFINITIONS) = IngredientScope" by code_simp
  have f: "find_ingredient plain_text ended ''shop'' (Some ''flour'') = Inr (Some flour_row)" by code_simp
  have g: "ig_id flour_row = ''flour''" by code_simp
  have v: "validate_and_normalize plain_text (Some ''safety_stock'') (Some 5) (Some ''kg'') (Some flour_row) = Inr imported_stock" by code_simp
  have h: "cn_hash old_row = None" "cn_version old_row = 1" by (simp_all add: old_row_def)
  have m: "mr_type import_sheet = Some ''safety_stock''" "mr_value import_sheet = Some 5" "mr_ingredient import_sheet = Some ''flour''"
    "mr_unit import_sheet = Some ''kg''" "mr_effective import_sheet = Some 105" "mr_end import_sheet = Some None" "mr_note import_sheet = None"
    by (simp_all add: import_sheet_def)
  have a: "append_version (kd_constraints ended) (Some old_row) c 105 (import_version ''shop'' (Some ''flour'') ''safety_stock'' imported_stock 105 None
      c None ''c3'') = Inr (update_row ''c1'' (retire_row 105) (kd_constraints ended) @
        [import_version ''shop'' (Some ''flour'') ''safety_stock'' imported_stock 105 None c None ''c3'' 2])" for c
    by (simp add: append_version_def h old_row)
  show ?thesis
    unfolding import_constraint_def m k safety_stock_definition ebind_simps prod.case s
    by (simp add: f v non_empty_def m g old_row_latest a reimported_def new_row_def Let_def)
qed

lemma new_row: "new_row \<in> set (kd_constraints reimported)" "cn_id new_row = ''c3''" "cn_store new_row = ''shop''"
  "cn_ingredient new_row = Some ''flour''" "cn_kind new_row = ''safety_stock''" "cn_effective new_row = 105" "cn_end new_row = None"
  by (simp_all add: reimported_def new_row_def import_version_def)

theorem import_after_end_is_ambiguous_witness:
  "resolve_constraint plain_text (kd_constraints reimported) ''shop'' ''safety_stock'' (Some ''flour'') 107
    = Inl (planning_error ''BUSINESS_CONSTRAINT_AMBIGUOUS'')"
proof -
  have a: "\<not> cn_active old_row" by (simp add: old_row_def)
  have "''c3'' \<notin> cn_id ` set (kd_constraints ended)" by (simp add: ended_rows old_row_def)
  from import_after_end_is_ambiguous [OF ended_history this reimported_Inr new_row(1,2), of old_row 110 107 plain_text "''safety_stock''"
    "hd CONSTRAINT_DEFINITIONS"]
  show ?thesis using old_row_latest a safety_stock_definition new_row(3-7) old_row(3) by simp
qed

end
