(* ===== verification/Expiry_Class.thy ===== *)
theory Expiry_Class
  imports Constraints
begin

text \<open>
  \<open>services/ingredient_expiry.py\<close>: whether the lots of an ingredient carry expiry dates. A declared mode is
  kept; the others are inferred from the lots and supplier terms of the store. The lots and terms are
  those of the operational tables.
\<close>

section \<open>The tables\<close>

record lot_row =
  il_id :: string
  il_store :: string
  il_ingredient :: string
  il_supplier :: "string option"
  il_batch :: "string option"
  il_received :: "date option"
  il_expiry :: "date option"
  il_initial :: dec
  il_unit :: string
  il_cost :: "int option"
  il_version :: int
  il_snapshot :: "date option"

record term_row =
  tm_id :: string
  tm_store :: string
  tm_supplier :: string
  tm_ingredient :: string
  tm_unit_cost :: int
  tm_moq :: dec
  tm_pack :: dec
  tm_delivery_days :: "int list option"
  tm_lead :: int
  tm_shelf :: "int option"
  tm_unit :: string
  tm_version :: int
  tm_active :: bool

section \<open>The classification\<close>

definition NON_EXPIRY_HINTS :: "string list" where
  "NON_EXPIRY_HINTS =
     [''ly'', ''ly nhua'', ''coc'', ''coc nhua'', ''ong hut'', ''nap'', ''nap ly'',
      ''tui'', ''tui giay'', ''tui nhua'', ''hop'', ''hop nhua'', ''hop giay'', ''bao bi'',
      ''khan giay'', ''muong'', ''thia'']"

text \<open>\<open>normalize_lookup_name\<close>, which folds accents by the Unicode tables, is the argument \<open>lookup\<close>.\<close>

definition is_conservative_non_expiry_material :: "text_fun \<Rightarrow> string \<Rightarrow> bool" where
  "is_conservative_non_expiry_material lookup name \<longleftrightarrow>
     (let normalized = lookup name in
      list_ex (\<lambda>hint. normalized = hint \<or> starts_with (hint @ '' '') normalized) NON_EXPIRY_HINTS)"

definition declare_expiry :: "ingredient_row \<Rightarrow> string option \<Rightarrow> (unit, ingredient_row) result" where
  "declare_expiry g mode =
     (case mode of
        None \<Rightarrow> Inr g
      | Some m \<Rightarrow>
          if m = [] then Inr g
          else let v = str_lower (str_strip m) in
            if v = ''required'' then Inr (g\<lparr>ig_tracking := TrackRequired, ig_declared := True\<rparr>)
            else if v = ''not_required'' then Inr (g\<lparr>ig_tracking := TrackNotRequired, ig_declared := True\<rparr>)
            else if v = ''unknown'' then Inr (g\<lparr>ig_tracking := TrackUnknown, ig_declared := True\<rparr>)
            else Inl ())"

text \<open>The evidence that an ingredient expires: a lot with an expiry date, or an active term with a shelf life.\<close>

definition has_lot_expiry :: "string \<Rightarrow> lot_row list \<Rightarrow> string \<Rightarrow> bool" where
  "has_lot_expiry store lots i \<longleftrightarrow> list_ex (\<lambda>l. il_store l = store \<and> il_ingredient l = i \<and> il_expiry l \<noteq> None) lots"

definition lots_without_expiry :: "string \<Rightarrow> lot_row list \<Rightarrow> string \<Rightarrow> lot_row list" where
  "lots_without_expiry store lots i = filter (\<lambda>l. il_store l = store \<and> il_ingredient l = i \<and> il_expiry l = None) lots"

definition has_term_shelf_life :: "string \<Rightarrow> term_row list \<Rightarrow> string \<Rightarrow> bool" where
  "has_term_shelf_life store terms i \<longleftrightarrow>
     list_ex (\<lambda>t. tm_store t = store \<and> tm_ingredient t = i \<and> tm_active t \<and> tm_shelf t \<noteq> None) terms"

definition has_evidence :: "string \<Rightarrow> lot_row list \<Rightarrow> term_row list \<Rightarrow> string \<Rightarrow> bool" where
  "has_evidence store lots terms i \<longleftrightarrow> has_lot_expiry store lots i \<or> has_term_shelf_life store terms i"

text \<open>Too many ingredients without evidence: more than half of those of the store, compared as floats.\<close>

definition no_expiry_candidates :: "string \<Rightarrow> lot_row list \<Rightarrow> term_row list \<Rightarrow> ingredient_row list \<Rightarrow> ingredient_row list" where
  "no_expiry_candidates store lots terms own =
     filter (\<lambda>g. \<not> (ig_declared g \<and> ig_tracking g = TrackRequired) \<and> \<not> has_evidence store lots terms (ig_id g)) own"

definition excessive_non_expiry :: "string \<Rightarrow> lot_row list \<Rightarrow> term_row list \<Rightarrow> ingredient_row list \<Rightarrow> bool" where
  "excessive_non_expiry store lots terms own \<longleftrightarrow>
     fl (1 / 2) < fint (int (length (no_expiry_candidates store lots terms own))) / fint (int (length own))"

definition classify_ingredient :: "text_fun \<Rightarrow> string \<Rightarrow> lot_row list \<Rightarrow> term_row list \<Rightarrow> bool \<Rightarrow> ingredient_row \<Rightarrow> ingredient_row" where
  "classify_ingredient lookup store lots terms excessive g =
     (if ig_declared g then g
      else g\<lparr>ig_tracking :=
        (if has_evidence store lots terms (ig_id g) then TrackRequired
         else if \<not> excessive \<and> is_conservative_non_expiry_material lookup (ig_name g) then TrackNotRequired
         else TrackUnknown)\<rparr>)"

datatype expiry_warning =
    ExcessiveNonExpiryRatio nat nat
  | InconsistentExpiryTracking string bool bool "string option list"

text \<open>\<open>recompute\<close>: the ingredients after it and its warnings.\<close>

definition recompute_expiry ::
    "text_fun \<Rightarrow> string \<Rightarrow> lot_row list \<Rightarrow> term_row list \<Rightarrow> ingredient_row list \<Rightarrow> ingredient_row list \<times> expiry_warning list" where
  "recompute_expiry lookup store lots terms ingredients =
     (let own = filter (\<lambda>g. ig_store g = store) ingredients;
          excessive = excessive_non_expiry store lots terms own in
      if own = [] then (ingredients, [])
      else
        (map (\<lambda>g. if ig_store g = store then classify_ingredient lookup store lots terms excessive g else g) ingredients,
         (if excessive then [ExcessiveNonExpiryRatio (length own) (length (no_expiry_candidates store lots terms own))] else []) @
         concat (map (\<lambda>g.
             let missing = lots_without_expiry store lots (ig_id g) in
             if \<not> ig_declared g \<and> has_evidence store lots terms (ig_id g) \<and> missing \<noteq> [] then
               [InconsistentExpiryTracking (ig_id g) (has_lot_expiry store lots (ig_id g)) (has_term_shelf_life store terms (ig_id g))
                  (take 10 (map il_batch missing))]
             else []) own)))"

section \<open>Its outcome\<close>

lemma classify_keeps [simp]:
  "ig_id (classify_ingredient lookup store lots terms x g) = ig_id g"
  "ig_store (classify_ingredient lookup store lots terms x g) = ig_store g"
  "ig_name (classify_ingredient lookup store lots terms x g) = ig_name g"
  "ig_declared (classify_ingredient lookup store lots terms x g) = ig_declared g"
  by (simp_all add: classify_ingredient_def)

lemma classify_declared: "ig_declared g \<Longrightarrow> classify_ingredient lookup store lots terms x g = g"
  by (simp add: classify_ingredient_def)

lemma classify_twice: "classify_ingredient lookup store lots terms x (classify_ingredient lookup store lots terms y g) =
    classify_ingredient lookup store lots terms x g"
  by (simp add: classify_ingredient_def)

lemma candidates_classified:
  "length (no_expiry_candidates store lots terms (map (classify_ingredient lookup store lots terms x) own)) =
   length (no_expiry_candidates store lots terms own)"
  by (induction own) (auto simp: no_expiry_candidates_def classify_declared)

lemma excessive_classified [simp]:
  "excessive_non_expiry store lots terms (map (classify_ingredient lookup store lots terms x) own) =
   excessive_non_expiry store lots terms own"
  by (simp add: excessive_non_expiry_def candidates_classified)

lemma own_classified:
  "filter (\<lambda>g. ig_store g = store) (map (\<lambda>g. if ig_store g = store then classify_ingredient lookup store lots terms x g else g) gs) =
   map (classify_ingredient lookup store lots terms x) (filter (\<lambda>g. ig_store g = store) gs)"
  by (induction gs) auto

text \<open>C40: the classification is stable and cautious. Recomputing a recomputed store changes nothing, a declared
  mode is kept, an ingredient with an expiry date on a lot or a shelf life in an active term that is not
  declared is always required, and not required is only inferred for packaging when at most half of the
  store's ingredients lack such evidence.\<close>

theorem expiry_classification_stable_and_cautious:
  "let (gs', warnings) = recompute_expiry lookup store lots terms gs in
     fst (recompute_expiry lookup store lots terms gs') = gs' \<and>
     list_all2 (\<lambda>g g'. ig_id g' = ig_id g \<and>
       (if ig_store g = store \<and> \<not> ig_declared g then
          ig_tracking g' =
            (if has_evidence store lots terms (ig_id g) then TrackRequired
             else if \<not> excessive_non_expiry store lots terms (filter (\<lambda>g. ig_store g = store) gs) \<and>
               is_conservative_non_expiry_material lookup (ig_name g) then TrackNotRequired else TrackUnknown)
        else g' = g)) gs gs'"
proof (cases "filter (\<lambda>g. ig_store g = store) gs = []")
  case True
  then have "\<forall>g \<in> set gs. ig_store g \<noteq> store" by (simp add: filter_empty_conv)
  with True show ?thesis by (simp add: recompute_expiry_def list_all2_conv_all_nth)
next
  case False
  let ?x = "excessive_non_expiry store lots terms (filter (\<lambda>g. ig_store g = store) gs)"
  have "fst (recompute_expiry lookup store lots terms gs) =
      map (\<lambda>g. if ig_store g = store then classify_ingredient lookup store lots terms ?x g else g) gs"
    using False by (simp add: recompute_expiry_def Let_def)
  moreover have "fst (recompute_expiry lookup store lots terms
      (map (\<lambda>g. if ig_store g = store then classify_ingredient lookup store lots terms ?x g else g) gs)) =
      map (\<lambda>g. if ig_store g = store then classify_ingredient lookup store lots terms ?x g else g) gs"
    using False by (simp add: recompute_expiry_def Let_def own_classified classify_twice)
  ultimately show ?thesis
    by (simp add: case_prod_beta list_all2_conv_all_nth classify_declared) (simp add: classify_ingredient_def)
qed

end
