(* ===== verification/Operations.thy ===== *)
theory Operations
  imports Expiry_Class
begin

text \<open>
  Purchase orders, monthly budgets and stock corrections of \<open>services/completion_service.py\<close>: \<open>po\<close> with its
  actions create, patch, confirm, receive and get, \<open>_inventory_write\<close> and the settings branch of \<open>write\<close>, on the
  tables of \<open>models/operations.py\<close> and \<open>models/business.py\<close>. Requests run one after the other; each commits the
  database it returns or, with an error, leaves it alone.
\<close>

section \<open>The tables\<close>

text \<open>A \<open>datetime\<close>: its date, its microseconds and its offset, absent for a naive one.\<close>

record moment =
  mo_date :: date
  mo_time :: nat
  mo_offset :: "int option"

record settings_row =
  sg_store :: string
  sg_monthly :: int
  sg_horizon :: int
  sg_strategy :: string
  sg_version :: int

record plan_run_row =
  pn_id :: string
  pn_store :: string
  pn_status :: string
  pn_engine :: string
  pn_strategy :: string

record recommendation_row =
  rc_id :: string
  rc_plan :: string
  rc_store :: string
  rc_ingredient :: string
  rc_unit :: string
  rc_quantity :: dec
  rc_unit_cost :: int
  rc_supplier :: string
  rc_moq :: dec
  rc_pack :: dec
  rc_lead :: int

datatype po_state = Drafted | Ordered | PartlyReceived | AllReceived

record po_row =
  pu_id :: string
  pu_store :: string
  pu_plan :: string
  pu_supplier :: string
  pu_order_date :: date
  pu_delivery :: date
  pu_strategy :: string
  pu_status :: po_state
  pu_total :: int
  pu_after :: int
  pu_version :: int
  pu_confirmed :: "moment option"
  pu_received :: "moment option"

record po_line =
  ol_id :: string
  ol_po :: string
  ol_recommendation :: string
  ol_ingredient :: string
  ol_ordered :: dec
  ol_received :: dec
  ol_unit :: string
  ol_unit_cost :: int
  ol_cost :: int
  ol_moq :: dec
  ol_pack :: dec
  ol_shelf :: "int option"
  ol_version :: int

record movement_row =
  mv_id :: string
  mv_store :: string
  mv_lot :: string
  mv_type :: string
  mv_delta :: dec
  mv_unit :: string
  mv_at :: moment
  mv_source :: string
  mv_source_id :: "string option"
  mv_note :: "string option"

record receipt_row =
  rp_id :: string
  rp_store :: string
  rp_ingredient :: string
  rp_supplier :: "string option"
  rp_date :: date
  rp_quantity :: dec
  rp_unit :: string
  rp_unit_cost :: "int option"
  rp_expiry :: "date option"
  rp_batch :: "string option"
  rp_source :: string
  rp_external :: "string option"
  rp_effect :: string
  rp_po :: "string option"
  rp_line :: "string option"

text \<open>Responses: an order with the name of its supplier and the projected expiry of each line; a corrected lot.\<close>

record public_order =
  pb_order :: po_row
  pb_supplier :: "string option"
  pb_lines :: "(po_line \<times> date option) list"

record balance_change =
  bc_movement :: "string option"
  bc_lot :: string
  bc_before :: dec
  bc_delta :: dec
  bc_after :: dec
  bc_version :: int

datatype op_response =
    OrdersCreated "public_order list"
  | OrderState public_order
  | CountDone string "balance_change list"
  | AdjustmentDone string moment "balance_change list"

text \<open>\<open>od_serial\<close> counts the identifiers that were drawn.\<close>

record op_db =
  od_stores :: "string list"
  od_settings :: "settings_row list"
  od_budgets :: "budget_row list"
  od_plans :: "plan_run_row list"
  od_recommendations :: "recommendation_row list"
  od_orders :: "po_row list"
  od_lines :: "po_line list"
  od_lots :: "lot_row list"
  od_movements :: "movement_row list"
  od_receipts :: "receipt_row list"
  od_terms :: "term_row list"
  od_ingredients :: "ingredient_row list"
  od_suppliers :: "(string, string) dict"
  od_idem :: "op_response idem_record list"
  od_audit :: "audit_row list"
  od_serial :: nat

text \<open>
  The runtime: the identifiers \<open>uuid4\<close> draws, hashing, the text tables of units and lookups, and what reading a
  stored time returns (the database may drop the offset or convert to UTC).
\<close>

record runtime =
  rn_fresh :: "nat \<Rightarrow> string"
  rn_hash :: hashing
  rn_nfc :: text_fun
  rn_lookup :: text_fun
  rn_readback :: "moment \<Rightarrow> moment"

definition draw_id :: "runtime \<Rightarrow> op_db \<Rightarrow> string" where
  "draw_id E db = rn_fresh E (od_serial db)"

section \<open>Budgets\<close>

definition budget_of :: "string \<Rightarrow> string \<Rightarrow> budget_row \<Rightarrow> bool" where
  "budget_of store period b \<longleftrightarrow> bg_store b = store \<and> bg_period b = period"

text \<open>\<open>_budget\<close>: the period's row, created from the settings when there is none.\<close>

definition ensure_budget :: "op_db \<Rightarrow> string \<Rightarrow> string \<Rightarrow> op_db \<times> budget_row" where
  "ensure_budget db store period =
     (case find (budget_of store period) (od_budgets db) of
        Some b \<Rightarrow> (db, b)
      | None \<Rightarrow>
          let b = \<lparr>bg_store = store, bg_period = period,
                bg_monthly = (case find (\<lambda>g. sg_store g = store) (od_settings db) of None \<Rightarrow> 0 | Some g \<Rightarrow> sg_monthly g),
                bg_reserved = 0, bg_spent = 0\<rparr>
          in (db\<lparr>od_budgets := od_budgets db @ [b]\<rparr>, b))"

definition remaining_budget :: "budget_row \<Rightarrow> int" where
  "remaining_budget b = bg_monthly b - bg_reserved b - bg_spent b"

definition modify_budget :: "string \<Rightarrow> string \<Rightarrow> (budget_row \<Rightarrow> budget_row) \<Rightarrow> op_db \<Rightarrow> op_db" where
  "modify_budget store period f db = db\<lparr>od_budgets := update_first (budget_of store period) f (od_budgets db)\<rparr>"

section \<open>Orders\<close>

definition line_total :: "dec \<Rightarrow> int \<Rightarrow> int" where
  "line_total q unit_cost = dec_int (dec_mul q (of_int unit_cost))"

definition lines_of :: "op_db \<Rightarrow> string \<Rightarrow> po_line list" where
  "lines_of db order = filter (\<lambda>l. ol_po l = order) (od_lines db)"

definition line_costs :: "op_db \<Rightarrow> string \<Rightarrow> int" where
  "line_costs db order = sum_list (map ol_cost (lines_of db order))"

definition find_order :: "op_db \<Rightarrow> string \<Rightarrow> string \<Rightarrow> po_row app" where
  "find_order db store order =
     (case find (\<lambda>p. pu_store p = store \<and> pu_id p = order) (od_orders db) of
        None \<Rightarrow> Inl resource_not_found | Some p \<Rightarrow> Inr p)"

definition modify_order :: "string \<Rightarrow> (po_row \<Rightarrow> po_row) \<Rightarrow> op_db \<Rightarrow> op_db" where
  "modify_order order f db = db\<lparr>od_orders := map (\<lambda>p. if pu_id p = order then f p else p) (od_orders db)\<rparr>"

definition modify_line :: "string \<Rightarrow> (po_line \<Rightarrow> po_line) \<Rightarrow> op_db \<Rightarrow> op_db" where
  "modify_line line f db = db\<lparr>od_lines := map (\<lambda>l. if ol_id l = line then f l else l) (od_lines db)\<rparr>"

definition po_public :: "op_db \<Rightarrow> po_row \<Rightarrow> public_order app" where
  "po_public db p =
     ebind (emap (\<lambda>l. ebind (map_error CoreFailure (resolve_inbound_expiry (pu_delivery p) None (ol_shelf l))) (\<lambda>e. Inr (l, e)))
       (sort_key ol_id (lines_of db (pu_id p)))) (\<lambda>lines.
     Inr \<lparr>pb_order = p, pb_supplier = dict_get (od_suppliers db) (pu_supplier p), pb_lines = lines\<rparr>)"

text \<open>The tests of a quantity against the minimum and the pack of its offer.\<close>

definition check_quantity :: "dec \<Rightarrow> dec \<Rightarrow> dec \<Rightarrow> unit app" where
  "check_quantity q moq pack =
     ebind (raise_if (q < moq) validation_error) (\<lambda>_.
     ebind (dec_mod q pack) (\<lambda>r. raise_if (r \<noteq> 0) validation_error))"

subsection \<open>Creation\<close>

record order_request =
  oq_plan :: string
  oq_lines :: "(string \<times> dec option) list"
  oq_dump :: pyval

definition requested_line :: "op_db \<Rightarrow> string \<Rightarrow> string \<Rightarrow> string \<times> dec option \<Rightarrow> (recommendation_row \<times> dec) app" where
  "requested_line db store plan = (\<lambda>(recommendation, override).
     case find (\<lambda>r. rc_store r = store \<and> rc_plan r = plan \<and> rc_id r = recommendation) (od_recommendations db) of
       None \<Rightarrow> Inl resource_not_found
     | Some r \<Rightarrow>
         let q = (case override of None \<Rightarrow> rc_quantity r | Some q \<Rightarrow> q) in
         ebind (raise_if (q \<le> 0) validation_error) (\<lambda>_.
         ebind (check_quantity q (rc_moq r) (rc_pack r)) (\<lambda>_. Inr (r, q))))"

definition by_supplier :: "(recommendation_row \<times> dec) list \<Rightarrow> (string, (recommendation_row \<times> dec) list) dict" where
  "by_supplier lines = group_by (\<lambda>(r, q). rc_supplier r) lines"

definition add_line :: "runtime \<Rightarrow> string \<Rightarrow> string \<Rightarrow> op_db \<Rightarrow> recommendation_row \<times> dec \<Rightarrow> op_db" where
  "add_line E store order db = (\<lambda>(r, q).
     let term = find (\<lambda>t. tm_store t = store \<and> tm_supplier t = rc_supplier r \<and> tm_ingredient t = rc_ingredient r \<and> tm_active t)
                  (od_terms db) in
     db\<lparr>od_lines := od_lines db @ [\<lparr>ol_id = draw_id E db, ol_po = order, ol_recommendation = rc_id r, ol_ingredient = rc_ingredient r,
            ol_ordered = q, ol_received = 0, ol_unit = rc_unit r, ol_unit_cost = rc_unit_cost r,
            ol_cost = line_total q (rc_unit_cost r), ol_moq = rc_moq r, ol_pack = rc_pack r,
            ol_shelf = (case term of None \<Rightarrow> None | Some t \<Rightarrow> tm_shelf t), ol_version = 1\<rparr>],
        od_serial := Suc (od_serial db)\<rparr>)"

definition create_order ::
    "runtime \<Rightarrow> date \<Rightarrow> string \<Rightarrow> plan_run_row \<Rightarrow> int \<Rightarrow> op_db \<times> public_order list \<Rightarrow> string \<times> (recommendation_row \<times> dec) list \<Rightarrow>
     (op_db \<times> public_order list) app" where
  "create_order E today store plan remaining = (\<lambda>(db, orders) (supplier, lines).
     ebind (map_error CoreFailure (add_days today (Max (set (map (rc_lead \<circ> fst) lines))))) (\<lambda>delivery.
     let total = sum_list (map (\<lambda>(r, q). line_total q (rc_unit_cost r)) lines);
         order = draw_id E db;
         p = \<lparr>pu_id = order, pu_store = store, pu_plan = pn_id plan, pu_supplier = supplier, pu_order_date = today,
              pu_delivery = delivery, pu_strategy = pn_strategy plan, pu_status = Drafted, pu_total = total,
              pu_after = remaining - total, pu_version = 1, pu_confirmed = None, pu_received = None\<rparr>;
         db' = foldl (add_line E store order) (db\<lparr>od_orders := od_orders db @ [p], od_serial := Suc (od_serial db)\<rparr>) lines in
     ebind (po_public db' p) (\<lambda>public. Inr (db', orders @ [public]))))"

definition join_comma :: "string list \<Rightarrow> string" where
  "join_comma xs = (case xs of [] \<Rightarrow> [] | y # ys \<Rightarrow> y @ concat (map (\<lambda>s. '','' @ s) ys))"

text \<open>The work of an action: the database, the resource of its audit row and its response.\<close>

definition create_orders :: "runtime \<Rightarrow> date \<Rightarrow> string \<Rightarrow> order_request \<Rightarrow> op_db \<Rightarrow> (op_db \<times> string \<times> op_response) app" where
  "create_orders E today store body db =
     (case find (\<lambda>n. pn_store n = store \<and> pn_id n = oq_plan body \<and> pn_status n = ''completed'') (od_plans db) of
        None \<Rightarrow> Inl resource_not_found
      | Some plan \<Rightarrow>
          ebind (raise_if (pn_engine plan = ''model_not_ready'') validation_error) (\<lambda>_.
          ebind (raise_if (\<not> distinct (map fst (oq_lines body))) validation_error) (\<lambda>_.
          ebind (emap (requested_line db store (pn_id plan)) (oq_lines body)) (\<lambda>lines.
          let (db1, b) = ensure_budget db store (month_period today) in
          ebind (efold (create_order E today store plan (remaining_budget b)) (db1, []) (by_supplier lines)) (\<lambda>(db2, orders).
          Inr (db2, join_comma (map (pu_id \<circ> pb_order) orders), OrdersCreated orders))))))"

subsection \<open>Change and confirmation\<close>

definition order_to_change :: "op_db \<Rightarrow> string \<Rightarrow> string \<Rightarrow> int \<Rightarrow> po_row app" where
  "order_to_change db store order version =
     ebind (find_order db store order) (\<lambda>p.
     ebind (raise_if (version \<noteq> pu_version p) version_conflict) (\<lambda>_. Inr p))"

definition order_line :: "op_db \<Rightarrow> string \<Rightarrow> string \<Rightarrow> po_line app" where
  "order_line db order line =
     (case find (\<lambda>l. ol_po l = order \<and> ol_id l = line) (od_lines db) of None \<Rightarrow> Inl resource_not_found | Some l \<Rightarrow> Inr l)"

record patch_request =
  pq_version :: int
  pq_lines :: "(string \<times> dec) list"
  pq_dump :: pyval

definition patch_line :: "string \<Rightarrow> op_db \<Rightarrow> string \<times> dec \<Rightarrow> op_db app" where
  "patch_line order db = (\<lambda>(line, q).
     ebind (order_line db order line) (\<lambda>l.
     ebind (check_quantity q (ol_moq l) (ol_pack l)) (\<lambda>_.
     Inr (modify_line line (\<lambda>l. l\<lparr>ol_ordered := q, ol_cost := line_total q (ol_unit_cost l), ol_version := ol_version l + 1\<rparr>) db))))"

definition patch_order :: "date \<Rightarrow> string \<Rightarrow> string \<Rightarrow> patch_request \<Rightarrow> op_db \<Rightarrow> op_db app" where
  "patch_order today store order body db =
     ebind (order_to_change db store order (pq_version body)) (\<lambda>p.
     ebind (raise_if (pu_status p \<noteq> Drafted) invalid_state_transition) (\<lambda>_.
     ebind (raise_if (\<not> distinct (map fst (pq_lines body))) validation_error) (\<lambda>_.
     ebind (efold (patch_line order) db (pq_lines body)) (\<lambda>db1.
     let total = line_costs db1 order; (db2, b) = ensure_budget db1 store (month_period today) in
     Inr (modify_order order (\<lambda>p. p\<lparr>pu_total := total, pu_version := pu_version p + 1, pu_after := remaining_budget b - total\<rparr>) db2)))))"

text \<open>\<open>_claim_confirm_version\<close> and \<open>_claim_receive_version\<close>: one update of the row if it still has the version and
  one of the states.\<close>

definition claim_version :: "po_state list \<Rightarrow> string \<Rightarrow> string \<Rightarrow> int \<Rightarrow> op_db \<Rightarrow> op_db app" where
  "claim_version states store order expected db =
     (if list_ex (\<lambda>p. pu_id p = order \<and> pu_store p = store \<and> pu_version p = expected \<and> pu_status p \<in> set states) (od_orders db)
      then Inr (modify_order order (\<lambda>p. p\<lparr>pu_version := pu_version p + 1\<rparr>) db)
      else ebind (find_order db store order) (\<lambda>p.
        Inl (if pu_version p \<noteq> expected then version_conflict else invalid_state_transition)))"

record confirm_request =
  cq_version :: int
  cq_at :: moment
  cq_dump :: pyval

definition confirm_order :: "string \<Rightarrow> string \<Rightarrow> confirm_request \<Rightarrow> op_db \<Rightarrow> op_db app" where
  "confirm_order store order body db =
     ebind (order_to_change db store order (cq_version body)) (\<lambda>p.
     ebind (raise_if (pu_status p \<noteq> Drafted) invalid_state_transition) (\<lambda>_.
     ebind (raise_if (mo_offset (cq_at body) = None) validation_error) (\<lambda>_.
     ebind (claim_version [Drafted] store order (cq_version body) db) (\<lambda>db1.
     let period = month_period (mo_date (cq_at body));
         (db2, b) = ensure_budget db1 store period;
         total = line_costs db2 order; remaining = remaining_budget b in
     ebind (raise_if (remaining < total) budget_exceeded) (\<lambda>_.
     Inr (modify_order order
            (\<lambda>p. p\<lparr>pu_total := total, pu_status := Ordered, pu_confirmed := Some (cq_at body), pu_after := remaining - total\<rparr>)
            (modify_budget store period (\<lambda>b. b\<lparr>bg_reserved := bg_reserved b + total\<rparr>) db2)))))))"

subsection \<open>Receipt\<close>

record delivered_lot =
  vl_quantity :: dec
  vl_expiry :: "date option"
  vl_code :: "string option"

record receive_request =
  vq_version :: int
  vq_at :: moment
  vq_reference :: string
  vq_lines :: "(string \<times> delivered_lot list) list"
  vq_dump :: pyval

text \<open>Writing pending rows: two receipts of a store and source must not share an external identifier.\<close>

definition flush :: "op_db \<Rightarrow> unit app" where
  "flush db = raise_if (\<not> distinct (map (\<lambda>r. (rp_store r, rp_source r, rp_external r))
     (filter (\<lambda>r. rp_external r \<noteq> None) (od_receipts db)))) IntegrityFailure"

definition identifier_of :: "string option \<Rightarrow> string option" where
  "identifier_of code = (case code of None \<Rightarrow> None | Some c \<Rightarrow> non_empty (Some (str_strip c)))"

text \<open>The lot of a delivery: the one of its batch code, or a new one.\<close>

definition delivery_lot :: "runtime \<Rightarrow> string \<Rightarrow> po_row \<Rightarrow> po_line \<Rightarrow> date \<Rightarrow> delivered_lot \<Rightarrow> op_db \<Rightarrow> (op_db \<times> string) app" where
  "delivery_lot E store p line day v db =
     (let batch = identifier_of (vl_code v) in
      case (case batch of None \<Rightarrow> None
            | Some c \<Rightarrow> find (\<lambda>l. il_store l = store \<and> il_ingredient l = ol_ingredient line \<and> il_batch l = Some c) (od_lots db)) of
        None \<Rightarrow>
          let lot = draw_id E db in
          Inr (db\<lparr>od_lots := od_lots db @ [\<lparr>il_id = lot, il_store = store, il_ingredient = ol_ingredient line,
                  il_supplier = Some (pu_supplier p), il_batch = batch, il_received = Some day, il_expiry = vl_expiry v,
                  il_initial = vl_quantity v, il_unit = ol_unit line, il_cost = Some (ol_unit_cost line), il_version = 1,
                  il_snapshot = None\<rparr>],
                 od_serial := Suc (od_serial db)\<rparr>, lot)
      | Some l \<Rightarrow>
          ebind (raise_if (il_unit l \<noteq> ol_unit line \<or> il_expiry l \<noteq> vl_expiry v \<or>
                           (il_supplier l \<noteq> None \<and> il_supplier l \<noteq> Some (pu_supplier p)))
                   (identity_conflict ''INVENTORY_LOT_METADATA_CONFLICT'')) (\<lambda>_.
          Inr (db, il_id l)))"

definition receive_lot :: "runtime \<Rightarrow> string \<Rightarrow> po_row \<Rightarrow> receive_request \<Rightarrow> po_line \<Rightarrow> op_db \<Rightarrow> delivered_lot \<Rightarrow> op_db app" where
  "receive_lot E store p body line db v =
     (let day = mo_date (vq_at body) in
      ebind (raise_if (case vl_expiry v of None \<Rightarrow> False | Some e \<Rightarrow> e < day) validation_error) (\<lambda>_.
      ebind (flush db) (\<lambda>_.
      ebind (delivery_lot E store p line day v db) (\<lambda>(db1, lot).
      Inr (db1\<lparr>
        od_movements := od_movements db1 @ [\<lparr>mv_id = draw_id E db1, mv_store = store, mv_lot = lot, mv_type = ''receipt'',
          mv_delta = vl_quantity v, mv_unit = ol_unit line, mv_at = vq_at body, mv_source = ''purchase_order'',
          mv_source_id = Some (pu_id p), mv_note = None\<rparr>],
        od_receipts := od_receipts db1 @ [\<lparr>rp_id = rn_fresh E (Suc (od_serial db1)), rp_store = store,
          rp_ingredient = ol_ingredient line, rp_supplier = Some (pu_supplier p), rp_date = day, rp_quantity = vl_quantity v,
          rp_unit = ol_unit line, rp_unit_cost = Some (ol_unit_cost line), rp_expiry = vl_expiry v,
          rp_batch = identifier_of (vl_code v), rp_source = ''purchase_order'',
          rp_external = Some (vq_reference body @ '':'' @ ol_id line @ '':'' @ lot), rp_effect = ''applied'',
          rp_po = Some (pu_id p), rp_line = Some (ol_id line)\<rparr>],
        od_serial := od_serial db1 + 2\<rparr>)))))"

definition receive_line ::
    "runtime \<Rightarrow> string \<Rightarrow> po_row \<Rightarrow> receive_request \<Rightarrow> op_db \<times> int \<Rightarrow> string \<times> delivered_lot list \<Rightarrow> (op_db \<times> int) app" where
  "receive_line E store p body = (\<lambda>(db, cost) (line, lots).
     ebind (order_line db (pu_id p) line) (\<lambda>l.
     let q = dec_sum (map vl_quantity lots) in
     ebind (raise_if (ol_ordered l < dec_add (ol_received l) q) validation_error) (\<lambda>_.
     ebind (efold (receive_lot E store p body l) db lots) (\<lambda>db1.
     Inr (modify_line line (\<lambda>l. l\<lparr>ol_received := dec_add (ol_received l) q, ol_version := ol_version l + 1\<rparr>) db1,
          cost + line_total q (ol_unit_cost l))))))"

definition earlier :: "moment \<Rightarrow> moment \<Rightarrow> bool" where
  "earlier a b \<longleftrightarrow> mo_date a < mo_date b \<or> (mo_date a = mo_date b \<and> mo_time a < mo_time b)"

definition fully_received :: "op_db \<Rightarrow> string \<Rightarrow> bool" where
  "fully_received db order \<longleftrightarrow> list_all (\<lambda>l. ol_received l = ol_ordered l) (lines_of db order)"

definition recompute_store :: "runtime \<Rightarrow> string \<Rightarrow> op_db \<Rightarrow> op_db" where
  "recompute_store E store db =
     db\<lparr>od_ingredients := fst (recompute_expiry (rn_lookup E) store (od_lots db) (od_terms db) (od_ingredients db))\<rparr>"

definition receive_order :: "runtime \<Rightarrow> string \<Rightarrow> string \<Rightarrow> receive_request \<Rightarrow> op_db \<Rightarrow> op_db app" where
  "receive_order E store order body db =
     ebind (order_to_change db store order (vq_version body)) (\<lambda>p.
     ebind (raise_if (pu_status p \<notin> {Ordered, PartlyReceived}) invalid_state_transition) (\<lambda>_.
     ebind (raise_if (mo_offset (vq_at body) = None) validation_error) (\<lambda>_.
     ebind (raise_if (case pu_confirmed p of None \<Rightarrow> False | Some m \<Rightarrow> earlier (vq_at body) (rn_readback E m)) validation_error) (\<lambda>_.
     ebind (raise_if (\<not> distinct (map fst (vq_lines body))) validation_error) (\<lambda>_.
     ebind (claim_version [Ordered, PartlyReceived] store order (vq_version body) db) (\<lambda>db1.
     case pu_confirmed p of
       None \<Rightarrow> Inl (CoreFailure (exn PyTypeError []))
     | Some m \<Rightarrow>
         let period = month_period (mo_date (rn_readback E m)); (db2, b) = ensure_budget db1 store period in
         ebind (efold (receive_line E store p body) (db2, 0) (vq_lines body)) (\<lambda>(db3, cost).
         ebind (raise_if (bg_reserved b < cost) validation_error) (\<lambda>_.
         let complete = fully_received db3 order;
             db4 = modify_budget store period (\<lambda>b. b\<lparr>bg_reserved := bg_reserved b - cost, bg_spent := bg_spent b + cost\<rparr>) db3;
             db5 = modify_order order (\<lambda>p. p\<lparr>pu_status := (if complete then AllReceived else PartlyReceived),
                     pu_received := (if complete then Some (vq_at body) else None)\<rparr>) db4 in
         ebind (flush db5) (\<lambda>_. Inr (recompute_store E store db5))))))))))"

subsection \<open>Requests\<close>

datatype po_request =
    CreateOrders order_request
  | PatchOrder string patch_request
  | ConfirmOrder string confirm_request
  | ReceiveOrder string receive_request

fun po_path :: "string \<Rightarrow> po_request \<Rightarrow> string" where
  "po_path store (CreateOrders _) = ''/api/v1/stores/'' @ store @ ''/purchase-orders''"
| "po_path store (PatchOrder order _) = ''/api/v1/stores/'' @ store @ ''/purchase-orders/'' @ order"
| "po_path store (ConfirmOrder order _) = ''/api/v1/stores/'' @ store @ ''/purchase-orders/'' @ order"
| "po_path store (ReceiveOrder order _) = ''/api/v1/stores/'' @ store @ ''/purchase-orders/'' @ order @ ''/receive''"

fun po_dump :: "po_request \<Rightarrow> pyval" where
  "po_dump (CreateOrders body) = oq_dump body"
| "po_dump (PatchOrder _ body) = pq_dump body"
| "po_dump (ConfirmOrder _ body) = cq_dump body"
| "po_dump (ReceiveOrder _ body) = vq_dump body"

fun po_action :: "po_request \<Rightarrow> string" where
  "po_action (CreateOrders _) = ''purchase_order_create''"
| "po_action (PatchOrder _ _) = ''purchase_order_patch''"
| "po_action (ConfirmOrder _ _) = ''purchase_order_confirm''"
| "po_action (ReceiveOrder _ _) = ''purchase_order_receive''"

text \<open>The response to a change of an order.\<close>

definition changed_order :: "string \<Rightarrow> string \<Rightarrow> op_db app \<Rightarrow> (op_db \<times> string \<times> op_response) app" where
  "changed_order store order result =
     ebind result (\<lambda>db. ebind (find_order db store order) (\<lambda>p. ebind (po_public db p) (\<lambda>public. Inr (db, order, OrderState public))))"

fun po_work :: "runtime \<Rightarrow> date \<Rightarrow> string \<Rightarrow> po_request \<Rightarrow> op_db \<Rightarrow> (op_db \<times> string \<times> op_response) app" where
  "po_work E today store (CreateOrders body) db = create_orders E today store body db"
| "po_work E today store (PatchOrder order body) db = changed_order store order (patch_order today store order body db)"
| "po_work E today store (ConfirmOrder order body) db = changed_order store order (confirm_order store order body db)"
| "po_work E today store (ReceiveOrder order body) db = changed_order store order (receive_order E store order body db)"

text \<open>The end of a write: its audit row, and its response under the key of the request.\<close>

definition finish_op ::
    "string \<Rightarrow> string \<Rightarrow> string option \<Rightarrow> string \<Rightarrow> string \<Rightarrow> op_db \<times> string \<times> op_response \<Rightarrow> op_db \<times> op_response" where
  "finish_op store path key action resource_type = (\<lambda>(db, resource, response).
     (db\<lparr>od_audit := od_audit db @ [\<lparr>au_store = store, au_action = action, au_type = resource_type, au_resource = resource\<rparr>],
         od_idem := (case non_empty key of
           None \<Rightarrow> od_idem db
         | Some k \<Rightarrow> idem_update (od_idem db) (Some store) path ''POST'' k (\<lambda>r. r\<lparr>ir_status := Some 201, ir_body := Some response\<rparr>))\<rparr>,
      response))"

definition op_replay :: "op_db \<Rightarrow> op_response idem_record \<Rightarrow> (op_db \<times> op_response) app" where
  "op_replay db r = ebind (stored_response r) (\<lambda>response. Inr (db, response))"

definition po_write ::
    "runtime \<Rightarrow> date \<Rightarrow> op_db \<Rightarrow> string \<Rightarrow> po_request \<Rightarrow> string option \<Rightarrow> (op_db \<times> op_response) app" where
  "po_write E today db store request key =
     ebind (require_store (od_stores db) store) (\<lambda>_.
     with_idempotency (od_idem db) (Some store) (po_path store request) ''POST'' key (canonical_hash (rn_hash E) (po_dump request))
       (\<lambda>records. ebind (po_work E today store request (db\<lparr>od_idem := records\<rparr>)) (\<lambda>done.
          Inr (finish_op store (po_path store request) key (po_action request) ''purchase_order'' done)))
       (op_replay db))"

definition po_get :: "op_db \<Rightarrow> string \<Rightarrow> string \<Rightarrow> public_order app" where
  "po_get db store order = ebind (require_store (od_stores db) store) (\<lambda>_. ebind (find_order db store order) (po_public db))"

section \<open>Counts and adjustments of stock\<close>

definition balance :: "op_db \<Rightarrow> string \<Rightarrow> string \<Rightarrow> dec" where
  "balance db store lot = sum_list (map mv_delta (filter (\<lambda>m. mv_store m = store \<and> mv_lot m = lot) (od_movements db)))"

record count_line =
  nl_lot :: string
  nl_quantity :: dec
  nl_unit :: "string option"
  nl_note :: "string option"

record adjust_line =
  jl_lot :: string
  jl_expected :: int
  jl_delta :: dec
  jl_unit :: "string option"
  jl_reason :: string
  jl_note :: "string option"

datatype inventory_request =
    CountRequest moment "count_line list" pyval
  | AdjustRequest moment "string option" "adjust_line list" pyval

definition find_lot :: "op_db \<Rightarrow> string \<Rightarrow> string \<Rightarrow> lot_row app" where
  "find_lot db store lot =
     (case find (\<lambda>l. il_store l = store \<and> il_id l = lot) (od_lots db) of None \<Rightarrow> Inl resource_not_found | Some l \<Rightarrow> Inr l)"

definition modify_lot :: "string \<Rightarrow> (lot_row \<Rightarrow> lot_row) \<Rightarrow> op_db \<Rightarrow> op_db" where
  "modify_lot lot f db = db\<lparr>od_lots := map (\<lambda>l. if il_id l = lot then f l else l) (od_lots db)\<rparr>"

text \<open>The common end of both loops: the balance must stay non-negative, a change is a movement, and the lot gets
  a new version.\<close>

definition apply_change ::
    "runtime \<Rightarrow> string \<Rightarrow> lot_row \<Rightarrow> string \<Rightarrow> moment \<Rightarrow> string option \<Rightarrow> string option \<Rightarrow> dec \<Rightarrow> dec \<Rightarrow> dec \<Rightarrow> op_db \<Rightarrow>
     (op_db \<times> balance_change) app" where
  "apply_change E store l movement_type tm source_id note before delta target db =
     ebind (raise_if (target < 0) validation_error) (\<lambda>_.
     let (db1, movement) =
           (if delta = 0 then (db, None)
            else (db\<lparr>od_movements := od_movements db @ [\<lparr>mv_id = draw_id E db, mv_store = store, mv_lot = il_id l,
                       mv_type = movement_type, mv_delta = delta, mv_unit = il_unit l, mv_at = tm, mv_source = ''api'',
                       mv_source_id = source_id, mv_note = note\<rparr>],
                     od_serial := Suc (od_serial db)\<rparr>, Some (draw_id E db))) in
     Inr (modify_lot (il_id l) (\<lambda>l. l\<lparr>il_version := il_version l + 1\<rparr>) db1,
          \<lparr>bc_movement = movement, bc_lot = il_id l, bc_before = before, bc_delta = delta, bc_after = target,
           bc_version = il_version l + 1\<rparr>))"

definition count_lot ::
    "runtime \<Rightarrow> string \<Rightarrow> moment \<Rightarrow> op_db \<times> balance_change list \<Rightarrow> count_line \<Rightarrow> (op_db \<times> balance_change list) app" where
  "count_lot E store tm = (\<lambda>(db, out) line.
     ebind (find_lot db store (nl_lot line)) (\<lambda>l.
     let before = balance db store (il_id l) in
     ebind (convert_quantity (rn_nfc E) (nl_quantity line) (nl_unit line) (Some (il_unit l))) (\<lambda>target.
     ebind (apply_change E store l ''physical_count_adjustment'' tm None (nl_note line) before (dec_sub target before) target
              (modify_lot (il_id l) (\<lambda>l. l\<lparr>il_snapshot := Some (mo_date tm)\<rparr>) db)) (\<lambda>(db1, change).
     Inr (db1, out @ [change])))))"

definition ADJUSTMENT_REASONS :: "string list" where
  "ADJUSTMENT_REASONS = [''waste'', ''expired'', ''damaged'', ''correction_increase'', ''correction_decrease'', ''other'']"

definition sign_mismatch :: "string \<Rightarrow> dec \<Rightarrow> string option \<Rightarrow> bool" where
  "sign_mismatch reason delta note \<longleftrightarrow>
     delta = 0 \<or> (reason \<in> {''waste'', ''expired'', ''damaged'', ''correction_decrease''} \<and> 0 \<le> delta) \<or>
     (reason = ''correction_increase'' \<and> delta \<le> 0) \<or> (reason = ''other'' \<and> non_empty note = None)"

definition adjust_lot ::
    "runtime \<Rightarrow> string \<Rightarrow> moment \<Rightarrow> string option \<Rightarrow> op_db \<times> balance_change list \<Rightarrow> adjust_line \<Rightarrow>
     (op_db \<times> balance_change list) app" where
  "adjust_lot E store tm reference = (\<lambda>(db, out) line.
     ebind (find_lot db store (jl_lot line)) (\<lambda>l.
     let before = balance db store (il_id l) in
     ebind (raise_if (jl_reason line \<notin> set ADJUSTMENT_REASONS) validation_error) (\<lambda>_.
     ebind (convert_quantity (rn_nfc E) (jl_delta line) (jl_unit line) (Some (il_unit l))) (\<lambda>delta.
     ebind (raise_if (sign_mismatch (jl_reason line) delta (jl_note line)) validation_error) (\<lambda>_.
     ebind (raise_if (il_version l \<noteq> jl_expected line) version_conflict) (\<lambda>_.
     ebind (apply_change E store l
              (if jl_reason line = ''expired'' then ''expiry'' else if jl_reason line = ''waste'' then ''waste'' else ''manual_adjustment'')
              tm reference (jl_note line) before delta (dec_add before delta) db) (\<lambda>(db1, change).
     Inr (db1, out @ [change]))))))))"

fun inventory_path :: "string \<Rightarrow> inventory_request \<Rightarrow> string" where
  "inventory_path store (CountRequest _ _ _) = ''/api/v1/stores/'' @ store @ ''/inventory-counts''"
| "inventory_path store (AdjustRequest _ _ _ _) = ''/api/v1/stores/'' @ store @ ''/inventory-adjustments''"

fun inventory_dump :: "inventory_request \<Rightarrow> pyval" where
  "inventory_dump (CountRequest _ _ dump) = dump"
| "inventory_dump (AdjustRequest _ _ _ dump) = dump"

fun inventory_action :: "inventory_request \<Rightarrow> string" where
  "inventory_action (CountRequest _ _ _) = ''inventory_count''"
| "inventory_action (AdjustRequest _ _ _ _) = ''inventory_adjustment''"

fun inventory_lots :: "inventory_request \<Rightarrow> string list" where
  "inventory_lots (CountRequest _ lines _) = map nl_lot lines"
| "inventory_lots (AdjustRequest _ _ lines _) = map jl_lot lines"

definition next_serial :: "op_db \<Rightarrow> op_db" where
  "next_serial db = db\<lparr>od_serial := Suc (od_serial db)\<rparr>"

fun inventory_work :: "runtime \<Rightarrow> string \<Rightarrow> inventory_request \<Rightarrow> op_db \<Rightarrow> (op_db \<times> string \<times> op_response) app" where
  "inventory_work E store (CountRequest tm lines _) db =
     ebind (efold (count_lot E store tm) (db, []) lines) (\<lambda>(db1, out).
     Inr (next_serial db1, draw_id E db1, CountDone (draw_id E db1) out))"
| "inventory_work E store (AdjustRequest tm reference lines _) db =
     ebind (efold (adjust_lot E store tm reference) (db, []) lines) (\<lambda>(db1, out).
     Inr (next_serial db1, draw_id E db1, AdjustmentDone (draw_id E db1) tm out))"

definition inventory_write ::
    "runtime \<Rightarrow> op_db \<Rightarrow> string \<Rightarrow> inventory_request \<Rightarrow> string option \<Rightarrow> (op_db \<times> op_response) app" where
  "inventory_write E db store request key =
     ebind (require_store (od_stores db) store) (\<lambda>_.
     ebind (raise_if (\<not> distinct (inventory_lots request)) validation_error) (\<lambda>_.
     with_idempotency (od_idem db) (Some store) (inventory_path store request) ''POST'' key
       (canonical_hash (rn_hash E) (inventory_dump request))
       (\<lambda>records. ebind (inventory_work E store request (db\<lparr>od_idem := records\<rparr>)) (\<lambda>done.
          Inr (finish_op store (inventory_path store request) key (inventory_action request) ''inventory'' done)))
       (op_replay db)))"

section \<open>Settings\<close>

record settings_request =
  sq_monthly :: int
  sq_horizon :: int
  sq_strategy :: string
  sq_version :: int

definition settings_changed :: "settings_request \<Rightarrow> settings_row \<Rightarrow> bool" where
  "settings_changed body g \<longleftrightarrow> (sg_monthly g, sg_horizon g, sg_strategy g) \<noteq> (sq_monthly body, sq_horizon body, sq_strategy body)"

definition settings_write :: "date \<Rightarrow> op_db \<Rightarrow> string \<Rightarrow> settings_request \<Rightarrow> string \<Rightarrow> op_db app" where
  "settings_write today db store body setting_id =
     ebind (require_store (od_stores db) store) (\<lambda>_.
     let existing = find (\<lambda>g. sg_store g = store) (od_settings db) in
     ebind (raise_if (case existing of None \<Rightarrow> False | Some g \<Rightarrow> sg_version g \<noteq> sq_version body) version_conflict) (\<lambda>_.
     let period = month_period today;
         settings = (case existing of
             None \<Rightarrow> od_settings db @ [\<lparr>sg_store = store, sg_monthly = sq_monthly body, sg_horizon = sq_horizon body,
                       sg_strategy = sq_strategy body, sg_version = 1\<rparr>]
           | Some g \<Rightarrow> update_first (\<lambda>g. sg_store g = store)
               (\<lambda>g. g\<lparr>sg_monthly := sq_monthly body, sg_horizon := sq_horizon body, sg_strategy := sq_strategy body,
                      sg_version := (if settings_changed body g then sg_version g + 1 else sg_version g)\<rparr>) (od_settings db));
         budgets = (case find (budget_of store period) (od_budgets db) of
             None \<Rightarrow> od_budgets db @ [\<lparr>bg_store = store, bg_period = period, bg_monthly = sq_monthly body, bg_reserved = 0, bg_spent = 0\<rparr>]
           | Some _ \<Rightarrow> update_first (budget_of store period) (\<lambda>b. b\<lparr>bg_monthly := sq_monthly body\<rparr>) (od_budgets db)) in
     Inr (db\<lparr>od_settings := settings, od_budgets := budgets,
             od_audit := od_audit db @ [\<lparr>au_store = store, au_action = ''settings_updated'', au_type = ''store_settings'',
               au_resource = setting_id\<rparr>]\<rparr>)))"

end
