(* ===== verification/Op_Facts.thy ===== *)
theory Op_Facts
  imports Operations
begin

text \<open>
  What the requests on purchase orders keep of the database. The books: per store and month, reserved and spent
  budget add up to the totals of the orders confirmed in it. The lines: nothing is received beyond what is
  ordered, and the state of an order says how much of it has arrived.
\<close>

section \<open>Decimals and sums\<close>

lemma round_half_even_nonneg: "0 \<le> x \<Longrightarrow> 0 \<le> round_half_even x"
  using round_half_even_mono [of 0 x] round_half_even_of_int [of 0] by simp

lemma dec_rnd_nonneg: "0 \<le> x \<Longrightarrow> 0 \<le> dec_rnd x"
  by (simp add: dec_rnd_def Let_def round_half_even_nonneg)

lemma dec_add_nonneg: "0 \<le> a \<Longrightarrow> 0 \<le> b \<Longrightarrow> 0 \<le> dec_add a b"
  by (simp add: dec_add_def dec_rnd_nonneg)

lemma dec_sum_nonneg: "(\<And>x. x \<in> set xs \<Longrightarrow> 0 \<le> x) \<Longrightarrow> 0 \<le> dec_sum xs"
  unfolding dec_sum_def by (induction xs rule: rev_induct) (auto simp: dec_add_nonneg)

lemma line_total_nonneg: "0 \<le> q \<Longrightarrow> 0 \<le> c \<Longrightarrow> 0 \<le> line_total q c"
  using dec_rnd_nonneg [of "q * of_int c"] by (simp add: line_total_def dec_int_def dec_mul_def linorder_not_less)

text \<open>A sum over rows with distinct identifiers when one row changes.\<close>

lemma sum_list_change_one:
  fixes g :: "'a \<Rightarrow> int"
  assumes "distinct (map k xs)" "x \<in> set xs"
  shows "sum_list (map g (map (\<lambda>y. if k y = k x then f y else y) xs)) = sum_list (map g xs) - g x + g (f x)"
  using assms
proof (induction xs)
  case Nil
  then show ?case by simp
next
  case (Cons y xs)
  show ?case
  proof (cases "y = x")
    case True
    then have "map (\<lambda>y. if k y = k x then f y else y) xs = xs"
      using Cons.prems by (intro map_idI) (auto simp: rev_image_eqI)
    with True show ?thesis by simp
  next
    case False
    with Cons.prems have "x \<in> set xs" "k y \<noteq> k x" by (auto simp: image_iff)
    with Cons show ?thesis by simp
  qed
qed

lemma find_snoc: "find P (xs @ [y]) = (case find P xs of None \<Rightarrow> if P y then Some y else None | Some x \<Rightarrow> Some x)"
  by (induction xs) auto

section \<open>The invariants\<close>

definition in_period :: "string \<Rightarrow> string \<Rightarrow> po_row \<Rightarrow> bool" where
  "in_period store period p \<longleftrightarrow>
     pu_store p = store \<and> (case pu_confirmed p of None \<Rightarrow> False | Some m \<Rightarrow> month_period (mo_date m) = period)"

definition period_total :: "op_db \<Rightarrow> string \<Rightarrow> string \<Rightarrow> int" where
  "period_total db store period = sum_list (map (\<lambda>p. if in_period store period p then pu_total p else 0) (od_orders db))"

definition books_ok :: "op_db \<Rightarrow> bool" where
  "books_ok db \<longleftrightarrow>
     distinct (map pu_id (od_orders db)) \<and>
     (\<forall>p \<in> set (od_orders db). pu_confirmed p = None \<longleftrightarrow> pu_status p = Drafted) \<and>
     distinct (map (\<lambda>b. (bg_store b, bg_period b)) (od_budgets db)) \<and>
     (\<forall>b \<in> set (od_budgets db). bg_reserved b + bg_spent b = period_total db (bg_store b) (bg_period b) \<and>
        0 \<le> bg_reserved b \<and> 0 \<le> bg_spent b) \<and>
     (\<forall>p \<in> set (od_orders db). \<forall>m. pu_confirmed p = Some m \<longrightarrow>
        (\<exists>b \<in> set (od_budgets db). budget_of (pu_store p) (month_period (mo_date m)) b))"

definition line_ok :: "po_line \<Rightarrow> bool" where
  "line_ok l \<longleftrightarrow> 0 \<le> ol_received l \<and> ol_received l \<le> ol_ordered l \<and> 0 < ol_ordered l \<and> 0 \<le> ol_cost l \<and> 0 \<le> ol_unit_cost l"

definition lines_ok :: "op_db \<Rightarrow> bool" where
  "lines_ok db \<longleftrightarrow> distinct (map ol_id (od_lines db)) \<and> (\<forall>l \<in> set (od_lines db). line_ok l)"

definition untouched :: "op_db \<Rightarrow> string \<Rightarrow> bool" where
  "untouched db order \<longleftrightarrow> (\<forall>l \<in> set (lines_of db order). ol_received l = 0)"

definition state_ok :: "op_db \<Rightarrow> po_row \<Rightarrow> bool" where
  "state_ok db p \<longleftrightarrow> (case pu_status p of
       Drafted \<Rightarrow> untouched db (pu_id p)
     | Ordered \<Rightarrow> untouched db (pu_id p)
     | PartlyReceived \<Rightarrow> \<not> fully_received db (pu_id p)
     | AllReceived \<Rightarrow> fully_received db (pu_id p))"

text \<open>Identifiers of orders and lines were drawn from the generator.\<close>

definition drawn :: "runtime \<Rightarrow> op_db \<Rightarrow> string \<Rightarrow> bool" where
  "drawn E db s \<longleftrightarrow> (\<exists>n < od_serial db. s = rn_fresh E n)"

definition ids_ok :: "runtime \<Rightarrow> op_db \<Rightarrow> bool" where
  "ids_ok E db \<longleftrightarrow> (\<forall>p \<in> set (od_orders db). drawn E db (pu_id p)) \<and>
     (\<forall>l \<in> set (od_lines db). drawn E db (ol_id l) \<and> drawn E db (ol_po l))"

definition po_inv :: "runtime \<Rightarrow> op_db \<Rightarrow> bool" where
  "po_inv E db \<longleftrightarrow> books_ok db \<and> lines_ok db \<and> (\<forall>p \<in> set (od_orders db). state_ok db p) \<and> ids_ok E db"

text \<open>The tables the invariant reads.\<close>

definition core :: "op_db \<Rightarrow> budget_row list \<times> po_row list \<times> po_line list" where
  "core db = (od_budgets db, od_orders db, od_lines db)"

lemma drawn_later: "drawn E db s \<Longrightarrow> od_serial db \<le> od_serial db' \<Longrightarrow> drawn E db' s"
  unfolding drawn_def using less_le_trans by blast

lemma core_frame:
  assumes "core db' = core db" "od_serial db \<le> od_serial db'"
  shows "books_ok db' = books_ok db" "lines_ok db' = lines_ok db" "lines_of db' order = lines_of db order"
    "fully_received db' order = fully_received db order" "untouched db' order = untouched db order"
    "state_ok db' p = state_ok db p" "ids_ok E db \<Longrightarrow> ids_ok E db'" "po_inv E db \<Longrightarrow> po_inv E db'"
proof -
  have c: "od_budgets db' = od_budgets db" "od_orders db' = od_orders db" "od_lines db' = od_lines db"
    using assms(1) by (simp_all add: core_def)
  show a: "books_ok db' = books_ok db" by (simp add: books_ok_def period_total_def c)
  show b: "lines_ok db' = lines_ok db" by (simp add: lines_ok_def c)
  show d: "lines_of db' order = lines_of db order" for order by (simp add: lines_of_def c)
  show f: "fully_received db' order = fully_received db order" "untouched db' order = untouched db order" for order
    by (simp_all add: fully_received_def untouched_def d)
  show g: "state_ok db' p = state_ok db p" for p by (simp add: state_ok_def f cong: po_state.case_cong)
  show h: "ids_ok E db \<Longrightarrow> ids_ok E db'" using drawn_later [OF _ assms(2)] by (auto simp: ids_ok_def c)
  show "po_inv E db \<Longrightarrow> po_inv E db'" using h by (simp add: po_inv_def a b c g)
qed

lemma po_invD:
  assumes "po_inv E db"
  shows "books_ok db" "lines_ok db" "p \<in> set (od_orders db) \<Longrightarrow> state_ok db p" "ids_ok E db"
  using assms by (simp_all add: po_inv_def)

section \<open>Changes of one row\<close>

lemma modify_order_simps [simp]:
  "od_budgets (modify_order order f db) = od_budgets db" "od_lines (modify_order order f db) = od_lines db"
  "od_serial (modify_order order f db) = od_serial db" "lines_of (modify_order order f db) x = lines_of db x"
  "fully_received (modify_order order f db) x = fully_received db x" "untouched (modify_order order f db) x = untouched db x"
  "line_costs (modify_order order f db) x = line_costs db x" "lines_ok (modify_order order f db) = lines_ok db"
  "od_recommendations (modify_order order f db) = od_recommendations db"
  by (simp_all add: modify_order_def lines_of_def fully_received_def untouched_def line_costs_def lines_ok_def)

lemma modify_budget_simps [simp]:
  "od_orders (modify_budget store period f db) = od_orders db" "od_lines (modify_budget store period f db) = od_lines db"
  "od_serial (modify_budget store period f db) = od_serial db" "lines_of (modify_budget store period f db) x = lines_of db x"
  "fully_received (modify_budget store period f db) x = fully_received db x"
  "untouched (modify_budget store period f db) x = untouched db x"
  "line_costs (modify_budget store period f db) x = line_costs db x" "lines_ok (modify_budget store period f db) = lines_ok db"
  "period_total (modify_budget store period f db) s q = period_total db s q"
  "od_recommendations (modify_budget store period f db) = od_recommendations db"
  by (simp_all add: modify_budget_def lines_of_def fully_received_def untouched_def line_costs_def lines_ok_def period_total_def)

lemma modify_line_simps [simp]:
  "od_orders (modify_line line f db) = od_orders db" "od_budgets (modify_line line f db) = od_budgets db"
  "od_serial (modify_line line f db) = od_serial db" "books_ok (modify_line line f db) = books_ok db"
  "od_recommendations (modify_line line f db) = od_recommendations db"
  by (simp_all add: modify_line_def books_ok_def period_total_def)

lemma find_order_Inr: "find_order db store order = Inr p \<Longrightarrow> p \<in> set (od_orders db) \<and> pu_store p = store \<and> pu_id p = order"
  by (auto simp: find_order_def find_Some_iff in_set_conv_nth split: option.splits)

lemma order_to_changeD:
  "order_to_change db store order version = Inr p \<Longrightarrow>
   p \<in> set (od_orders db) \<and> pu_store p = store \<and> pu_id p = order \<and> pu_version p = version"
  by (auto simp: order_to_change_def result_simps dest: find_order_Inr)

lemma order_line_Inr: "order_line db order line = Inr l \<Longrightarrow> l \<in> set (od_lines db) \<and> ol_po l = order \<and> ol_id l = line"
  by (auto simp: order_line_def find_Some_iff in_set_conv_nth split: option.splits)

lemma period_total_change_one:
  assumes "distinct (map pu_id (od_orders db))" "p \<in> set (od_orders db)"
  shows "period_total (modify_order (pu_id p) f db) store period =
    period_total db store period - (if in_period store period p then pu_total p else 0) +
      (if in_period store period (f p) then pu_total (f p) else 0)"
  using sum_list_change_one [OF assms, of "\<lambda>p. if in_period store period p then pu_total p else 0" f]
  by (simp add: period_total_def modify_order_def)

text \<open>A change that keeps the identity and the confirmation of an order, and its total if it is confirmed.\<close>

lemma books_keep_order:
  assumes b: "books_ok db" and p: "p \<in> set (od_orders db)" "pu_id p = order"
    and f: "pu_id (f p) = pu_id p" "pu_store (f p) = pu_store p" "pu_confirmed (f p) = pu_confirmed p"
      "pu_status (f p) = Drafted \<longleftrightarrow> pu_status p = Drafted" "pu_confirmed p \<noteq> None \<Longrightarrow> pu_total (f p) = pu_total p"
  shows "books_ok (modify_order order f db)"
proof -
  let ?db = "modify_order order f db"
  have d: "distinct (map pu_id (od_orders db))" using b by (simp add: books_ok_def)
  have t: "period_total ?db s q = period_total db s q" for s q
    using period_total_change_one [OF d p(1), of f s q] f p(2) by (auto simp: in_period_def split: option.splits)
  have only: "q = p" if "q \<in> set (od_orders db)" "pu_id q = order" for q
    using d that p by (metis distinct_map inj_onD)
  have "map pu_id (od_orders ?db) = map pu_id (od_orders db)"
    using only f(1) by (auto simp: modify_order_def p(2))
  with d have 1: "distinct (map pu_id (od_orders ?db))" by simp
  have 2: "\<exists>q' \<in> set (od_orders db). pu_store q = pu_store q' \<and> pu_confirmed q = pu_confirmed q' \<and>
      (pu_status q = Drafted \<longleftrightarrow> pu_status q' = Drafted)" if q: "q \<in> set (od_orders ?db)" for q
  proof -
    obtain q' where q': "q' \<in> set (od_orders db)" "q = (if pu_id q' = order then f q' else q')"
      using q by (auto simp: modify_order_def)
    then show ?thesis using only [of q'] f by (cases "pu_id q' = order") auto
  qed
  have 3: "\<forall>q \<in> set (od_orders ?db). pu_confirmed q = None \<longleftrightarrow> pu_status q = Drafted"
    using 2 b unfolding books_ok_def by metis
  have 4: "\<forall>q \<in> set (od_orders ?db). \<forall>m. pu_confirmed q = Some m \<longrightarrow>
      (\<exists>b \<in> set (od_budgets ?db). budget_of (pu_store q) (month_period (mo_date m)) b)"
    using 2 b unfolding books_ok_def modify_order_simps by metis
  show ?thesis
    using 1 3 4 b unfolding books_ok_def t modify_order_simps by blast
qed

subsection \<open>The budget of a period\<close>

lemma ensure_budget_keeps:
  assumes "ensure_budget db store period = (db', b)"
  shows "od_orders db' = od_orders db" "od_lines db' = od_lines db" "od_serial db' = od_serial db"
    "od_recommendations db' = od_recommendations db" "find (budget_of store period) (od_budgets db') = Some b"
  using assms by (auto simp: ensure_budget_def Let_def find_snoc budget_of_def split: option.splits)

lemma ensure_budget_lines:
  assumes "ensure_budget db store period = (db', b)"
  shows "lines_of db' order = lines_of db order" "line_costs db' order = line_costs db order" "lines_ok db' = lines_ok db"
    "fully_received db' order = fully_received db order" "untouched db' order = untouched db order" "state_ok db' p = state_ok db p"
    "ids_ok E db' = ids_ok E db"
proof -
  note k = ensure_budget_keeps [OF assms]
  show l: "lines_of db' order = lines_of db order" for order by (simp add: lines_of_def k)
  show "line_costs db' order = line_costs db order" "lines_ok db' = lines_ok db" "ids_ok E db' = ids_ok E db"
    by (simp_all add: line_costs_def l lines_ok_def ids_ok_def drawn_def k)
  show f: "fully_received db' order = fully_received db order" "untouched db' order = untouched db order" for order
    by (simp_all add: fully_received_def untouched_def l)
  show "state_ok db' p = state_ok db p" by (simp add: state_ok_def f cong: po_state.case_cong)
qed

text \<open>A period without a row has no confirmed orders, so a new row of zeroes is right.\<close>

lemma books_new_budget:
  assumes b: "books_ok db" and n: "find (budget_of store period) (od_budgets db) = None"
    and db': "od_orders db' = od_orders db" "od_budgets db' = od_budgets db @
      [\<lparr>bg_store = store, bg_period = period, bg_monthly = m, bg_reserved = 0, bg_spent = 0\<rparr>]"
  shows "books_ok db'"
proof -
  have n: "\<not> budget_of store period x" if "x \<in> set (od_budgets db)" for x
    using that n by (auto simp: find_None_iff)
  have "in_period store period p = False" if "p \<in> set (od_orders db)" for p
    using b n that unfolding books_ok_def in_period_def by (auto split: option.splits)
  then have z: "period_total db store period = 0" by (simp add: period_total_def cong: map_cong)
  have t: "period_total db' s q = period_total db s q" for s q by (simp add: period_total_def db'(1))
  have "(store, period) \<notin> (\<lambda>b. (bg_store b, bg_period b)) ` set (od_budgets db)"
    using n by (auto simp: budget_of_def)
  with b z show ?thesis unfolding books_ok_def t db' by simp
qed

lemma books_ensure:
  assumes b: "books_ok db" and e: "ensure_budget db store period = (db', r)"
  shows "books_ok db'"
proof (cases "find (budget_of store period) (od_budgets db)")
  case (Some x)
  with b e show ?thesis by (simp add: ensure_budget_def)
next
  case None
  then obtain m where "od_budgets db' = od_budgets db @
      [\<lparr>bg_store = store, bg_period = period, bg_monthly = m, bg_reserved = 0, bg_spent = 0\<rparr>]"
    using e by (auto simp: ensure_budget_def Let_def)
  with books_new_budget [OF b None ensure_budget_keeps(1) [OF e]] show ?thesis .
qed

text \<open>One row of the budgets changes.\<close>

lemma update_first_mem:
  assumes "find P xs = Some x" "distinct (map k xs)" "\<And>y. k (f y) = k y" "\<And>y. P y \<longleftrightarrow> k y = c"
  shows "map k (update_first P f xs) = map k xs" "y \<in> set (update_first P f xs) \<longleftrightarrow> (y \<in> set xs \<and> \<not> P y) \<or> y = f x"
proof -
  show "map k (update_first P f xs) = map k xs"
    by (induction xs) (simp_all add: assms(3))
  show "y \<in> set (update_first P f xs) \<longleftrightarrow> (y \<in> set xs \<and> \<not> P y) \<or> y = f x"
    using assms(1,2) by (induction xs) (auto simp: assms(4) rev_image_eqI)
qed

lemma find_update_first:
  assumes "find P xs = Some x" "P (f x)"
  shows "find P (update_first P f xs) = Some (f x)"
  using assms by (induction xs) (auto split: if_splits)

text \<open>A change of an order together with the budget of its period.\<close>

lemma books_change:
  assumes b: "books_ok db" and p: "p \<in> set (od_orders db)" "pu_id p = order" "pu_store p = store"
    and r: "find (budget_of store period) (od_budgets db) = Some r"
    and f: "pu_id (f p) = order" "in_period store period (f p)" "pu_status (f p) \<noteq> Drafted"
      "pu_confirmed p \<noteq> None \<Longrightarrow> in_period store period p"
    and g: "\<And>x. bg_store (g x) = bg_store x" "\<And>x. bg_period (g x) = bg_period x" "0 \<le> bg_reserved (g r)" "0 \<le> bg_spent (g r)"
      "bg_reserved (g r) + bg_spent (g r) =
        bg_reserved r + bg_spent r - (if pu_confirmed p = None then 0 else pu_total p) + pu_total (f p)"
  shows "books_ok (modify_order order f (modify_budget store period g db))"
proof -
  let ?db = "modify_order order f (modify_budget store period g db)"
  have d: "distinct (map pu_id (od_orders db))" "distinct (map (\<lambda>b. (bg_store b, bg_period b)) (od_budgets db))"
    using b by (simp_all add: books_ok_def)
  have only: "q = p" if "q \<in> set (od_orders db)" "pu_id q = order" for q
    using d(1) that p by (metis distinct_map inj_onD)
  have fs: "pu_store (f p) = store" "pu_confirmed (f p) \<noteq> None" using f(2) by (auto simp: in_period_def split: option.splits)
  have t: "period_total ?db s q = period_total db s q +
      (if s = store \<and> q = period then pu_total (f p) - (if pu_confirmed p = None then 0 else pu_total p) else 0)" for s q
  proof -
    have "period_total ?db s q = period_total (modify_order order f db) s q"
      by (simp add: period_total_def modify_order_def)
    also have "\<dots> = period_total db s q - (if in_period s q p then pu_total p else 0) + (if in_period s q (f p) then pu_total (f p) else 0)"
      using period_total_change_one [OF d(1) p(1), of f s q] p(2) by simp
    also have "in_period s q (f p) \<longleftrightarrow> s = store \<and> q = period"
      using f(2) by (auto simp: in_period_def split: option.splits)
    also have "in_period s q p \<longleftrightarrow> pu_confirmed p \<noteq> None \<and> s = store \<and> q = period"
      using f(4) by (auto simp: in_period_def split: option.splits)
    finally show ?thesis by auto
  qed
  have "map pu_id (od_orders ?db) = map pu_id (od_orders db)"
    using only f(1) p(2) by (auto simp: modify_order_def modify_budget_def)
  with d have 1: "distinct (map pu_id (od_orders ?db))" by simp
  have mem: "q = f p \<or> q \<in> set (od_orders db)" if q: "q \<in> set (od_orders ?db)" for q
    using q only by (auto simp: modify_order_def split: if_splits)
  have 2: "\<forall>q \<in> set (od_orders ?db). pu_confirmed q = None \<longleftrightarrow> pu_status q = Drafted"
    using mem b f(3) fs(2) unfolding books_ok_def by metis
  note u = update_first_mem [OF r d(2), of g "(store, period)"]
  have bs: "od_budgets ?db = update_first (budget_of store period) g (od_budgets db)" by (simp add: modify_budget_def)
  have m: "x \<in> set (od_budgets ?db) \<longleftrightarrow> (x \<in> set (od_budgets db) \<and> \<not> budget_of store period x) \<or> x = g r" for x
    unfolding bs by (rule u(2)) (auto simp: g budget_of_def)
  have 3: "distinct (map (\<lambda>b. (bg_store b, bg_period b)) (od_budgets ?db))"
    unfolding bs using u(1) d(2) by (simp add: g budget_of_def)
  have rb: "budget_of store period r" "r \<in> set (od_budgets db)" using r by (auto simp: find_Some_iff)
  have 4: "bg_reserved x + bg_spent x = period_total ?db (bg_store x) (bg_period x) \<and> 0 \<le> bg_reserved x \<and> 0 \<le> bg_spent x"
    if "x \<in> set (od_budgets ?db)" for x
    using that b rb g(3-5) unfolding m t books_ok_def by (auto simp: budget_of_def g(1,2))
  have 5: "\<exists>x \<in> set (od_budgets ?db). budget_of (pu_store q) (month_period (mo_date mm)) x"
    if q: "q \<in> set (od_orders ?db)" "pu_confirmed q = Some mm" for q mm
  proof (cases "q = f p")
    case True
    then have "budget_of (pu_store q) (month_period (mo_date mm)) (g r)"
      using q(2) f(2) rb(1) by (simp add: in_period_def budget_of_def g)
    then show ?thesis using m by blast
  next
    case False
    then obtain x where x: "x \<in> set (od_budgets db)" "budget_of (pu_store q) (month_period (mo_date mm)) x"
      using mem q b unfolding books_ok_def by metis
    show ?thesis
    proof (cases "budget_of store period x")
      case True
      then have "budget_of (pu_store q) (month_period (mo_date mm)) (g r)" using x(2) rb(1) by (simp add: budget_of_def g)
      then show ?thesis using m by blast
    qed (use x m in blast)
  qed
  show ?thesis unfolding books_ok_def using 1 2 3 4 5 by blast
qed

section \<open>What each action keeps\<close>

definition same_tables :: "op_db \<Rightarrow> op_db \<Rightarrow> bool" where
  "same_tables db db' \<longleftrightarrow> core db' = core db \<and> od_serial db \<le> od_serial db' \<and> od_recommendations db' = od_recommendations db"

lemma same_tables_refl [simp]: "same_tables db db"
  by (simp add: same_tables_def)

lemma same_tables_trans: "same_tables a b \<Longrightarrow> same_tables b c \<Longrightarrow> same_tables a c"
  by (auto simp: same_tables_def)

text \<open>A lot that arrives changes neither orders nor lines.\<close>

lemma receive_lot_tables: "receive_lot E store p body l db v = Inr db' \<Longrightarrow> same_tables db db'"
  by (auto simp: receive_lot_def delivery_lot_def Let_def result_simps same_tables_def core_def split: option.splits)

lemma receive_lots_tables:
  assumes "efold (receive_lot E store p body l) db lots = Inr db'"
  shows "same_tables db db'"
  by (rule efold_invariant [OF assms, of "same_tables db"]) (auto intro: same_tables_trans dest: receive_lot_tables)

lemma receive_lineD:
  assumes "receive_line E store p body (db, cost) (line, lots) = Inr (db', cost')"
  obtains l db1 where "order_line db (pu_id p) line = Inr l"
    "dec_add (ol_received l) (dec_sum (map vl_quantity lots)) \<le> ol_ordered l" "same_tables db db1"
    "db' = modify_line line (\<lambda>l. l\<lparr>ol_received := dec_add (ol_received l) (dec_sum (map vl_quantity lots)),
       ol_version := ol_version l + 1\<rparr>) db1"
    "cost' = cost + line_total (dec_sum (map vl_quantity lots)) (ol_unit_cost l)"
proof -
  from assms obtain l db1 where l: "order_line db (pu_id p) line = Inr l"
    "\<not> ol_ordered l < dec_add (ol_received l) (dec_sum (map vl_quantity lots))"
    "efold (receive_lot E store p body l) db lots = Inr db1"
    "(modify_line line (\<lambda>l. l\<lparr>ol_received := dec_add (ol_received l) (dec_sum (map vl_quantity lots)),
       ol_version := ol_version l + 1\<rparr>) db1, cost + line_total (dec_sum (map vl_quantity lots)) (ol_unit_cost l)) = (db', cost')"
    unfolding receive_line_def Let_def prod.case by (elim ebind_InrE, unfold raise_if_Inr_iff sum.inject, blast)
  with that [OF l(1) _ receive_lots_tables [OF l(3)]] show thesis by simp
qed

lemma lines_modify:
  assumes "lines_ok db" "l \<in> set (od_lines db)" "ol_id l = line" "\<And>x. ol_id (f x) = ol_id x" "line_ok (f l)"
  shows "lines_ok (modify_line line f db)"
proof -
  have d: "distinct (map ol_id (od_lines db))" using assms(1) by (simp add: lines_ok_def)
  have "map ol_id (od_lines (modify_line line f db)) = map ol_id (od_lines db)"
    by (simp add: modify_line_def assms(4))
  moreover have "line_ok x" if x: "x \<in> set (od_lines (modify_line line f db))" for x
  proof -
    obtain y where y: "y \<in> set (od_lines db)" "x = (if ol_id y = line then f y else y)"
      using x by (auto simp: modify_line_def)
    moreover have "y = l" if "ol_id y = line"
      using that y(1) assms(2,3) d by (metis distinct_map inj_onD)
    ultimately show ?thesis using assms(1,5) by (cases "ol_id y = line") (simp_all add: lines_ok_def)
  qed
  ultimately show ?thesis using d by (simp add: lines_ok_def)
qed

text \<open>What one received line keeps: every other order, and that nothing exceeds what was ordered.\<close>

definition receive_step :: "po_row \<Rightarrow> op_db \<times> int \<Rightarrow> op_db \<times> int \<Rightarrow> bool" where
  "receive_step p = (\<lambda>(db, cost) (db', cost').
     od_orders db' = od_orders db \<and> od_budgets db' = od_budgets db \<and> od_serial db \<le> od_serial db' \<and>
     od_recommendations db' = od_recommendations db \<and> cost \<le> cost' \<and> lines_ok db' \<and>
     (\<forall>order. order \<noteq> pu_id p \<longrightarrow> lines_of db' order = lines_of db order) \<and>
     map ol_id (od_lines db') = map ol_id (od_lines db) \<and> map ol_po (od_lines db') = map ol_po (od_lines db))"

lemma modify_line_elsewhere:
  assumes "lines_ok db" "l \<in> set (od_lines db)" "ol_id l = line" "ol_po l = order" "order' \<noteq> order" "\<And>x. ol_po (f x) = ol_po x"
  shows "lines_of (modify_line line f db) order' = lines_of db order'"
proof -
  have only: "x = l" if "x \<in> set (od_lines db)" "ol_id x = line" for x
    using that assms(1-3) by (metis distinct_map inj_onD lines_ok_def)
  have "filter (\<lambda>l. ol_po l = order') (map (\<lambda>l. if ol_id l = line then f l else l) ls) = filter (\<lambda>l. ol_po l = order') ls"
    if "set ls \<subseteq> set (od_lines db)" for ls
    using that
  proof (induction ls)
    case (Cons x ls)
    then show ?case using only [of x] assms(4-6) by (cases "ol_id x = line") simp_all
  qed simp
  then show ?thesis by (simp add: lines_of_def modify_line_def)
qed

lemma receive_line_step:
  assumes r: "receive_line E store p body s (line, lots) = Inr s'" and l: "lines_ok (fst s)"
    and q: "\<forall>v \<in> set lots. 0 < vl_quantity v"
  shows "receive_step p s s'"
proof -
  obtain db cost db' cost' where s: "s = (db, cost)" "s' = (db', cost')" by fastforce
  let ?q = "dec_sum (map vl_quantity lots)"
  let ?f = "\<lambda>l. l\<lparr>ol_received := dec_add (ol_received l) ?q, ol_version := ol_version l + 1\<rparr>"
  obtain x db1 where x: "order_line db (pu_id p) line = Inr x" "dec_add (ol_received x) ?q \<le> ol_ordered x"
    and t: "same_tables db db1" and db': "db' = modify_line line ?f db1"
    and c: "cost' = cost + line_total ?q (ol_unit_cost x)"
    using r unfolding s by (rule receive_lineD)
  have lines: "od_lines db1 = od_lines db" using t by (simp add: same_tables_def core_def)
  have ok: "lines_ok db1" using l core_frame(2) [of db1 db] t by (simp add: s same_tables_def)
  have m: "x \<in> set (od_lines db1)" "ol_po x = pu_id p" "ol_id x = line" using order_line_Inr [OF x(1)] lines by auto
  have q0: "0 \<le> ?q" by (rule dec_sum_nonneg) (use q in \<open>auto intro: less_imp_le\<close>)
  have lx: "line_ok x" using ok m(1) by (simp add: lines_ok_def)
  then have "line_ok (?f x)" using x(2) q0 by (simp add: line_ok_def dec_add_nonneg)
  then have "lines_ok db'" unfolding db' by (intro lines_modify [OF ok m(1,3)]) simp_all
  moreover have "lines_of db' order = lines_of db order" if "order \<noteq> pu_id p" for order
    using modify_line_elsewhere [OF ok m(1,3,2) that, of ?f] by (simp add: db' lines_of_def lines)
  moreover have "cost \<le> cost'" using lx q0 by (simp add: c line_total_nonneg line_ok_def)
  moreover have "map ol_id (od_lines db') = map ol_id (od_lines db)" "map ol_po (od_lines db') = map ol_po (od_lines db)"
    by (simp_all add: db' modify_line_def lines)
  ultimately show ?thesis
    using t by (simp add: s db' receive_step_def same_tables_def core_def)
qed

lemma receive_lines_step:
  assumes "efold (receive_line E store p body) s lines = Inr s'" "lines_ok (fst s)"
    and "\<forall>(line, lots) \<in> set lines. \<forall>v \<in> set lots. 0 < vl_quantity v"
  shows "receive_step p s s'"
proof (rule efold_invariant [OF assms(1), of "receive_step p s"])
  show "receive_step p s s" using assms(2) by (cases s) (simp add: receive_step_def)
next
  fix t x t'
  assume t: "receive_step p s t" "x \<in> set lines" "receive_line E store p body t x = Inr t'"
  then have "receive_step p t t'"
    using receive_line_step [of E store p body t "fst x" "snd x" t'] assms(3)
    by (cases s; cases t) (auto simp: receive_step_def)
  with t(1) show "receive_step p s t'" by (cases s; cases t; cases t') (auto simp: receive_step_def)
qed

lemma claim_versionD:
  "claim_version states store order expected db = Inr db' \<Longrightarrow>
   db' = modify_order order (\<lambda>p. p\<lparr>pu_version := pu_version p + 1\<rparr>) db"
  by (auto simp: claim_version_def ebind_def split: if_splits sum.splits)

lemma receive_orderD:
  assumes "receive_order E store order body db = Inr db'"
  obtains p m db1 db2 b db3 cost where "p \<in> set (od_orders db)" "pu_id p = order" "pu_store p = store"
    "pu_status p \<in> {Ordered, PartlyReceived}" "pu_confirmed p = Some m"
    "db1 = modify_order order (\<lambda>p. p\<lparr>pu_version := pu_version p + 1\<rparr>) db"
    "ensure_budget db1 store (month_period (mo_date (rn_readback E m))) = (db2, b)"
    "efold (receive_line E store p body) (db2, 0) (vq_lines body) = Inr (db3, cost)" "cost \<le> bg_reserved b"
    "db' = recompute_store E store (modify_order order
       (\<lambda>p. p\<lparr>pu_status := (if fully_received db3 order then AllReceived else PartlyReceived),
              pu_received := (if fully_received db3 order then Some (vq_at body) else None)\<rparr>)
       (modify_budget store (month_period (mo_date (rn_readback E m)))
         (\<lambda>b. b\<lparr>bg_reserved := bg_reserved b - cost, bg_spent := bg_spent b + cost\<rparr>) db3))"
proof -
  from assms obtain p db1 where p: "order_to_change db store order (vq_version body) = Inr p"
    "pu_status p \<in> {Ordered, PartlyReceived}"
    "claim_version [Ordered, PartlyReceived] store order (vq_version body) db = Inr db1"
    and rest: "(case pu_confirmed p of
       None \<Rightarrow> Inl (CoreFailure (exn PyTypeError []))
     | Some m \<Rightarrow>
         let period = month_period (mo_date (rn_readback E m)); (db2, b) = ensure_budget db1 store period in
         ebind (efold (receive_line E store p body) (db2, 0) (vq_lines body)) (\<lambda>(db3, cost).
         ebind (raise_if (bg_reserved b < cost) validation_error) (\<lambda>_.
         let complete = fully_received db3 order;
             db4 = modify_budget store period (\<lambda>b. b\<lparr>bg_reserved := bg_reserved b - cost, bg_spent := bg_spent b + cost\<rparr>) db3;
             db5 = modify_order order (\<lambda>p. p\<lparr>pu_status := (if complete then AllReceived else PartlyReceived),
                     pu_received := (if complete then Some (vq_at body) else None)\<rparr>) db4 in
         ebind (flush db5) (\<lambda>_. Inr (recompute_store E store db5))))) = Inr db'"
    unfolding receive_order_def by (elim ebind_InrE, unfold raise_if_Inr_iff, blast)
  obtain m where m: "pu_confirmed p = Some m" using rest by (cases "pu_confirmed p") auto
  let ?q = "month_period (mo_date (rn_readback E m))"
  obtain db2 b where e: "ensure_budget db1 store ?q = (db2, b)" by fastforce
  note rest = rest [unfolded m option.case e Let_def prod.case]
  obtain s where f: "efold (receive_line E store p body) (db2, 0) (vq_lines body) = Inr s" using rest by (rule ebind_InrE) blast
  obtain db3 cost where s: "s = (db3, cost)" by fastforce
  note rest = rest [unfolded f s ebind_simps prod.case]
  note q = order_to_changeD [OF p(1)]
  show thesis
    by (rule that [of p m db1 db2 b db3 cost])
      (use q p(2) m e f s rest claim_versionD [OF p(3)] in \<open>auto simp: result_simps simp del: insert_iff\<close>)
qed

lemma recompute_store_tables: "same_tables db (recompute_store E store db)"
  by (simp add: same_tables_def core_def recompute_store_def)

lemma lines_of_cong: "od_lines db' = od_lines db \<Longrightarrow> lines_of db' order = lines_of db order"
  by (simp add: lines_of_def)

lemma state_ok_cong:
  "lines_of db' (pu_id p) = lines_of db (pu_id p) \<Longrightarrow> state_ok db' p = state_ok db p"
  by (simp add: state_ok_def untouched_def fully_received_def cong: po_state.case_cong)

lemma state_ok_same: "pu_id q = pu_id p \<Longrightarrow> pu_status q = pu_status p \<Longrightarrow> state_ok db q = state_ok db p"
  by (cases "pu_status p") (simp_all add: state_ok_def)

lemma set_of_maps:
  assumes "map f xs = map f ys" "map g xs = map g ys" "x \<in> set xs"
  shows "\<exists>y \<in> set ys. f y = f x \<and> g y = g x"
proof -
  obtain i where "i < length xs" "x = xs ! i" using assms(3) by (metis in_set_conv_nth)
  then show ?thesis using assms(1,2) by (metis length_map nth_map nth_mem)
qed

text \<open>The effect of a change of one order on the other parts of the invariant.\<close>

lemma ids_keep_order:
  assumes "ids_ok E db" "\<And>p. pu_id (f p) = pu_id p"
  shows "ids_ok E (modify_order order f db)"
  using assms by (auto simp: ids_ok_def modify_order_def drawn_def)

lemma states_keep:
  assumes "\<forall>p \<in> set (od_orders db). state_ok db p" "\<And>p. p \<in> set (od_orders db) \<Longrightarrow> pu_id p = order \<Longrightarrow> state_ok db (f p)"
  shows "\<forall>p \<in> set (od_orders (modify_order order f db)). state_ok (modify_order order f db) p"
proof
  fix q assume "q \<in> set (od_orders (modify_order order f db))"
  then obtain p where p: "p \<in> set (od_orders db)" "q = (if pu_id p = order then f p else p)"
    by (auto simp: modify_order_def)
  have "state_ok (modify_order order f db) q = state_ok db q"
    by (rule state_ok_cong) (simp add: modify_order_def lines_of_def)
  with p assms show "state_ok (modify_order order f db) q" by simp
qed

text \<open>A stored time is read back on the same calendar day, as SQLite does, which drops the offset.\<close>

definition keeps_day :: "runtime \<Rightarrow> bool" where
  "keeps_day E \<longleftrightarrow> (\<forall>m. mo_date (rn_readback E m) = mo_date m)"

lemma books_cong: "od_orders db' = od_orders db \<Longrightarrow> od_budgets db' = od_budgets db \<Longrightarrow> books_ok db' = books_ok db"
  by (simp add: books_ok_def period_total_def)

lemma modified_orderE:
  assumes "q \<in> set (od_orders (modify_order order f db))"
  obtains p where "p \<in> set (od_orders db)" "q = (if pu_id p = order then f p else p)"
  using assms by (auto simp: modify_order_def)

lemma claimed_order:
  assumes "p \<in> set (od_orders db)" "pu_id p = order"
  shows "f p \<in> set (od_orders (modify_order order f db))"
  using assms by (auto simp: modify_order_def)

lemma receive_keeps:
  assumes inv: "po_inv E db" and r: "receive_order E store order body db = Inr db'" and day: "keeps_day E"
    and q: "\<forall>(line, lots) \<in> set (vq_lines body). \<forall>v \<in> set lots. 0 < vl_quantity v"
  shows "po_inv E db'"
proof -
  obtain p m db1 db2 b db3 cost where p: "p \<in> set (od_orders db)" "pu_id p = order" "pu_store p = store"
    "pu_status p \<in> {Ordered, PartlyReceived}" "pu_confirmed p = Some m"
    and db1: "db1 = modify_order order (\<lambda>p. p\<lparr>pu_version := pu_version p + 1\<rparr>) db"
    and e: "ensure_budget db1 store (month_period (mo_date (rn_readback E m))) = (db2, b)"
    and f: "efold (receive_line E store p body) (db2, 0) (vq_lines body) = Inr (db3, cost)" and c: "cost \<le> bg_reserved b"
    and db': "db' = recompute_store E store (modify_order order
       (\<lambda>p. p\<lparr>pu_status := (if fully_received db3 order then AllReceived else PartlyReceived),
              pu_received := (if fully_received db3 order then Some (vq_at body) else None)\<rparr>)
       (modify_budget store (month_period (mo_date (rn_readback E m)))
         (\<lambda>b. b\<lparr>bg_reserved := bg_reserved b - cost, bg_spent := bg_spent b + cost\<rparr>) db3))"
    using r by (rule receive_orderD)
  let ?q = "month_period (mo_date m)"
  have d: "mo_date (rn_readback E m) = mo_date m" using day by (simp add: keeps_day_def)
  note e = e [unfolded d] and db' = db' [unfolded d]
  let ?g = "\<lambda>b. b\<lparr>bg_reserved := bg_reserved b - cost, bg_spent := bg_spent b + cost\<rparr>"
  let ?f = "\<lambda>p. p\<lparr>pu_status := (if fully_received db3 order then AllReceived else PartlyReceived),
              pu_received := (if fully_received db3 order then Some (vq_at body) else None)\<rparr>"
  let ?p = "p\<lparr>pu_version := pu_version p + 1\<rparr>"
  define db5 where "db5 = modify_order order ?f (modify_budget store ?q ?g db3)"
  note k = ensure_budget_keeps [OF e] and kl = ensure_budget_lines [OF e]
  note i = po_invD [OF inv]
  have b1: "books_ok db1" unfolding db1 by (rule books_keep_order [OF i(1) p(1,2)]) simp_all
  have b2: "books_ok db2" by (rule books_ensure [OF b1 e])
  have l2: "lines_ok db2" using i(2) kl(3) by (simp add: db1)
  have st: "receive_step p (db2, 0) (db3, cost)" by (rule receive_lines_step [OF f _ q]) (simp add: l2)
  then have s3: "od_orders db3 = od_orders db2" "od_budgets db3 = od_budgets db2" "od_serial db2 \<le> od_serial db3" "0 \<le> cost"
    "lines_ok db3" "\<And>x. x \<noteq> order \<Longrightarrow> lines_of db3 x = lines_of db2 x"
    "map ol_id (od_lines db3) = map ol_id (od_lines db2)" "map ol_po (od_lines db3) = map ol_po (od_lines db2)"
    by (simp_all add: receive_step_def p(2))
  have b3: "books_ok db3" using b2 books_cong [of db3 db2] s3(1,2) by simp
  have p3: "?p \<in> set (od_orders db3)" using claimed_order [OF p(1,2)] by (simp add: s3(1) k(1) db1)
  have fb: "find (budget_of store ?q) (od_budgets db3) = Some b" by (simp add: s3(2) k(5))
  then have bm: "b \<in> set (od_budgets db3)" by (auto simp: find_Some_iff)
  have "books_ok db5"
    unfolding db5_def
  proof (rule books_change [OF b3 p3 _ _ fb])
    show "0 \<le> bg_spent (?g b)" using b3 bm s3(4) by (simp add: books_ok_def)
  qed (use p c in \<open>simp_all add: in_period_def\<close>)
  moreover have "lines_ok db5" by (simp add: db5_def s3(5))
  moreover have "\<forall>x \<in> set (od_orders db5). state_ok db5 x"
  proof
    fix x assume x: "x \<in> set (od_orders db5)"
    have l: "lines_of db5 y = lines_of db3 y" for y by (simp add: db5_def)
    show "state_ok db5 x"
    proof (cases "pu_id x = order")
      case True
      obtain y where "x = (if pu_id y = order then ?f y else y)" using x unfolding db5_def by (rule modified_orderE)
      then have "pu_status x = (if fully_received db3 order then AllReceived else PartlyReceived)"
        using True by (cases "pu_id y = order") simp_all
      moreover have "fully_received db5 order = fully_received db3 order" unfolding fully_received_def l ..
      ultimately show ?thesis using True by (simp add: state_ok_def)
    next
      case False
      obtain y where y: "y \<in> set (od_orders db1)" "x = (if pu_id y = order then ?f y else y)"
        using x unfolding db5_def by (rule modified_orderE) (simp add: s3(1) k(1))
      with False have "x \<in> set (od_orders db1)" by (cases "pu_id y = order") simp_all
      then have "x \<in> set (od_orders db)" unfolding db1 by (rule modified_orderE) (use False in \<open>auto split: if_splits\<close>)
      moreover have "lines_of db5 (pu_id x) = lines_of db (pu_id x)" using False by (simp add: l s3(6) kl(1) db1)
      ultimately show ?thesis using i(3) state_ok_cong by blast
    qed
  qed
  moreover have "ids_ok E db5"
  proof -
    have "ids_ok E db2" using i(4) ids_keep_order [of E db] by (simp add: kl(7) db1)
    then have o: "\<forall>p \<in> set (od_orders db2). drawn E db3 (pu_id p)"
      and l: "\<forall>l \<in> set (od_lines db2). drawn E db3 (ol_id l) \<and> drawn E db3 (ol_po l)"
      using drawn_later [OF _ s3(3)] by (auto simp: ids_ok_def)
    have "ids_ok E db3"
      using o l set_of_maps [OF s3(7,8)] unfolding ids_ok_def s3(1) by metis
    then have "ids_ok E (modify_budget store ?q ?g db3)" by (simp add: ids_ok_def drawn_def)
    then show ?thesis unfolding db5_def by (rule ids_keep_order) simp
  qed
  ultimately have "po_inv E db5" by (simp add: po_inv_def)
  then show ?thesis
    using recompute_store_tables [of db5 E store] core_frame(8) unfolding db' db5_def same_tables_def by blast
qed

subsection \<open>Confirmation and change\<close>

lemma confirm_orderD:
  assumes "confirm_order store order body db = Inr db'"
  obtains p db1 db2 b where "p \<in> set (od_orders db)" "pu_id p = order" "pu_store p = store" "pu_status p = Drafted"
    "db1 = modify_order order (\<lambda>p. p\<lparr>pu_version := pu_version p + 1\<rparr>) db"
    "ensure_budget db1 store (month_period (mo_date (cq_at body))) = (db2, b)"
    "line_costs db order \<le> remaining_budget b"
    "db' = modify_order order
            (\<lambda>p. p\<lparr>pu_total := line_costs db order, pu_status := Ordered, pu_confirmed := Some (cq_at body),
                    pu_after := remaining_budget b - line_costs db order\<rparr>)
            (modify_budget store (month_period (mo_date (cq_at body))) (\<lambda>b. b\<lparr>bg_reserved := bg_reserved b + line_costs db order\<rparr>) db2)"
proof -
  from assms obtain p db1 where p: "order_to_change db store order (cq_version body) = Inr p" "\<not> pu_status p \<noteq> Drafted"
    "claim_version [Drafted] store order (cq_version body) db = Inr db1"
    and rest: "(let period = month_period (mo_date (cq_at body));
         (db2, b) = ensure_budget db1 store period;
         total = line_costs db2 order; remaining = remaining_budget b in
     ebind (raise_if (remaining < total) budget_exceeded) (\<lambda>_.
     Inr (modify_order order
            (\<lambda>p. p\<lparr>pu_total := total, pu_status := Ordered, pu_confirmed := Some (cq_at body), pu_after := remaining - total\<rparr>)
            (modify_budget store period (\<lambda>b. b\<lparr>bg_reserved := bg_reserved b + total\<rparr>) db2)))) = Inr db'"
    unfolding confirm_order_def by (elim ebind_InrE, unfold raise_if_Inr_iff, blast)
  obtain db2 b where e: "ensure_budget db1 store (month_period (mo_date (cq_at body))) = (db2, b)" by fastforce
  have c: "line_costs db2 order = line_costs db order"
    using ensure_budget_lines(2) [OF e] claim_versionD [OF p(3)] by simp
  note rest = rest [unfolded Let_def e prod.case c]
  show thesis
    by (rule that [of p db1 db2 b])
      (use order_to_changeD [OF p(1)] p(2) e rest claim_versionD [OF p(3)] in \<open>auto simp: result_simps\<close>)
qed

lemma line_costs_nonneg: "lines_ok db \<Longrightarrow> 0 \<le> line_costs db order"
  unfolding line_costs_def by (rule sum_list_nonneg) (auto simp: lines_ok_def line_ok_def lines_of_def)

lemma confirm_keeps:
  assumes inv: "po_inv E db" and r: "confirm_order store order body db = Inr db'"
  shows "po_inv E db'"
proof -
  let ?q = "month_period (mo_date (cq_at body))"
  let ?t = "line_costs db order"
  obtain p db1 db2 b where p: "p \<in> set (od_orders db)" "pu_id p = order" "pu_store p = store" "pu_status p = Drafted"
    and db1: "db1 = modify_order order (\<lambda>p. p\<lparr>pu_version := pu_version p + 1\<rparr>) db"
    and e: "ensure_budget db1 store ?q = (db2, b)" and c: "?t \<le> remaining_budget b"
    and db': "db' = modify_order order
            (\<lambda>p. p\<lparr>pu_total := ?t, pu_status := Ordered, pu_confirmed := Some (cq_at body), pu_after := remaining_budget b - ?t\<rparr>)
            (modify_budget store ?q (\<lambda>b. b\<lparr>bg_reserved := bg_reserved b + ?t\<rparr>) db2)"
    using r by (rule confirm_orderD)
  let ?f = "\<lambda>p. p\<lparr>pu_total := ?t, pu_status := Ordered, pu_confirmed := Some (cq_at body), pu_after := remaining_budget b - ?t\<rparr>"
  let ?g = "\<lambda>b. b\<lparr>bg_reserved := bg_reserved b + ?t\<rparr>"
  let ?p = "p\<lparr>pu_version := pu_version p + 1\<rparr>"
  note k = ensure_budget_keeps [OF e] and kl = ensure_budget_lines [OF e] and i = po_invD [OF inv]
  have n: "pu_confirmed p = None" using i(1) p(1,4) by (simp add: books_ok_def)
  have b1: "books_ok db1" unfolding db1 by (rule books_keep_order [OF i(1) p(1,2)]) simp_all
  have b2: "books_ok db2" by (rule books_ensure [OF b1 e])
  have p2: "?p \<in> set (od_orders db2)" using claimed_order [OF p(1,2)] by (simp add: k(1) db1)
  have t: "0 \<le> ?t" by (rule line_costs_nonneg [OF i(2)])
  have bm: "b \<in> set (od_budgets db2)" using k(5) by (auto simp: find_Some_iff)
  have "books_ok db'"
    unfolding db'
  proof (rule books_change [OF b2 p2 _ _ k(5)])
    show "0 \<le> bg_reserved (?g b)" "0 \<le> bg_spent (?g b)" using b2 bm t by (auto simp: books_ok_def)
  qed (use p(2,3) n in \<open>simp_all add: in_period_def\<close>)
  moreover have "lines_ok db'" using i(2) by (simp add: db' kl(3) db1)
  moreover have "\<forall>x \<in> set (od_orders db'). state_ok db' x"
  proof
    fix x assume x: "x \<in> set (od_orders db')"
    obtain y where y: "y \<in> set (od_orders db1)" "x = (if pu_id y = order then ?f y else y)"
      using x unfolding db' by (rule modified_orderE) (simp add: k(1))
    obtain z where z: "z \<in> set (od_orders db)" "y = (if pu_id z = order then z\<lparr>pu_version := pu_version z + 1\<rparr> else z)"
      using y(1) unfolding db1 by (rule modified_orderE)
    have l: "lines_of db' v = lines_of db v" for v by (simp add: db' kl(1) db1)
    show "state_ok db' x"
    proof (cases "pu_id z = order")
      case True
      have "untouched db order" using i(3) [OF p(1)] p(2,4) by (simp add: state_ok_def)
      then have "untouched db' order" unfolding untouched_def l .
      then show ?thesis using True y(2) z(2) by (simp add: state_ok_def)
    next
      case False
      then show ?thesis using i(3) [OF z(1)] state_ok_cong [of db' x db] l y(2) z(2) by simp
    qed
  qed
  moreover have "ids_ok E db'"
  proof -
    have "ids_ok E db2" using i(4) ids_keep_order [of E db] by (simp add: kl(7) db1)
    then have "ids_ok E (modify_budget store ?q ?g db2)" by (simp add: ids_ok_def drawn_def)
    then show ?thesis unfolding db' by (rule ids_keep_order) simp
  qed
  ultimately show ?thesis by (simp add: po_inv_def)
qed

definition patch_step :: "string \<Rightarrow> op_db \<Rightarrow> op_db \<Rightarrow> bool" where
  "patch_step order db db' \<longleftrightarrow>
     od_orders db' = od_orders db \<and> od_budgets db' = od_budgets db \<and> od_serial db' = od_serial db \<and>
     od_recommendations db' = od_recommendations db \<and> lines_ok db' \<and> untouched db' order \<and>
     (\<forall>x. x \<noteq> order \<longrightarrow> lines_of db' x = lines_of db x) \<and>
     map ol_id (od_lines db') = map ol_id (od_lines db) \<and> map ol_po (od_lines db') = map ol_po (od_lines db)"

lemma patch_line_step:
  assumes r: "patch_line order db (line, q) = Inr db'" and l: "lines_ok db" "untouched db order" and q: "0 < q"
  shows "patch_step order db db'"
proof -
  let ?f = "\<lambda>l. l\<lparr>ol_ordered := q, ol_cost := line_total q (ol_unit_cost l), ol_version := ol_version l + 1\<rparr>"
  obtain x where x: "order_line db order line = Inr x" and db': "db' = modify_line line ?f db"
    using r by (auto simp: patch_line_def result_simps)
  note m = order_line_Inr [OF x]
  have "line_ok x" "ol_received x = 0" using l m by (auto simp: lines_ok_def untouched_def lines_of_def)
  then have f: "line_ok (?f x)" using q by (simp add: line_ok_def line_total_nonneg)
  have "lines_ok db'" unfolding db' by (rule lines_modify [of db x line ?f]) (use m l(1) f in simp_all)
  moreover have "untouched db' order" using l(2) by (auto simp: db' untouched_def lines_of_def modify_line_def)
  moreover have "lines_of db' y = lines_of db y" if "y \<noteq> order" for y
    unfolding db' by (rule modify_line_elsewhere [of db x line order]) (use m l(1) that in simp_all)
  moreover have "map ol_id (od_lines db') = map ol_id (od_lines db)" "map ol_po (od_lines db') = map ol_po (od_lines db)"
    by (simp_all add: db' modify_line_def)
  ultimately show ?thesis by (simp add: patch_step_def db')
qed

lemma patch_lines_step:
  assumes "efold (patch_line order) db lines = Inr db'" "lines_ok db" "untouched db order" "\<forall>(line, q) \<in> set lines. 0 < q"
  shows "patch_step order db db'"
proof (rule efold_invariant [OF assms(1), of "patch_step order db"])
  show "patch_step order db db" using assms(2,3) by (simp add: patch_step_def)
next
  fix t x t'
  assume t: "patch_step order db t" "x \<in> set lines" "patch_line order t x = Inr t'"
  then have "patch_step order t t'"
    using patch_line_step [of order t "fst x" "snd x" t'] assms(4) by (auto simp: patch_step_def)
  with t(1) show "patch_step order db t'" by (auto simp: patch_step_def)
qed

lemma patch_orderD:
  assumes "patch_order today store order body db = Inr db'"
  obtains p db1 db2 b where "p \<in> set (od_orders db)" "pu_id p = order" "pu_store p = store" "pu_status p = Drafted"
    "efold (patch_line order) db (pq_lines body) = Inr db1" "ensure_budget db1 store (month_period today) = (db2, b)"
    "db' = modify_order order (\<lambda>p. p\<lparr>pu_total := line_costs db1 order, pu_version := pu_version p + 1,
       pu_after := remaining_budget b - line_costs db1 order\<rparr>) db2"
proof -
  from assms obtain p db1 where p: "order_to_change db store order (pq_version body) = Inr p" "\<not> pu_status p \<noteq> Drafted"
    "efold (patch_line order) db (pq_lines body) = Inr db1"
    and rest: "(let total = line_costs db1 order; (db2, b) = ensure_budget db1 store (month_period today) in
     Inr (modify_order order (\<lambda>p. p\<lparr>pu_total := total, pu_version := pu_version p + 1, pu_after := remaining_budget b - total\<rparr>) db2))
       = (Inr db' :: op_db app)"
    unfolding patch_order_def by (elim ebind_InrE, unfold raise_if_Inr_iff, blast)
  obtain db2 b where e: "ensure_budget db1 store (month_period today) = (db2, b)" by fastforce
  note rest = rest [unfolded Let_def e prod.case]
  show thesis
    by (rule that [of p db1 db2 b]) (use order_to_changeD [OF p(1)] p(2,3) e rest in simp_all)
qed

lemma patch_keeps:
  assumes inv: "po_inv E db" and r: "patch_order today store order body db = Inr db'"
    and q: "\<forall>(line, q) \<in> set (pq_lines body). 0 < q"
  shows "po_inv E db'"
proof -
  obtain p db1 db2 b where p: "p \<in> set (od_orders db)" "pu_id p = order" "pu_store p = store" "pu_status p = Drafted"
    and f: "efold (patch_line order) db (pq_lines body) = Inr db1" and e: "ensure_budget db1 store (month_period today) = (db2, b)"
    and db': "db' = modify_order order (\<lambda>p. p\<lparr>pu_total := line_costs db1 order, pu_version := pu_version p + 1,
       pu_after := remaining_budget b - line_costs db1 order\<rparr>) db2"
    using r by (rule patch_orderD)
  note k = ensure_budget_keeps [OF e] and kl = ensure_budget_lines [OF e] and i = po_invD [OF inv]
  have u: "untouched db order" using i(3) [OF p(1)] p(2,4) by (simp add: state_ok_def)
  have st: "patch_step order db db1" by (rule patch_lines_step [OF f i(2) u q])
  have b1: "books_ok db1" using st i(1) books_cong [of db1 db] by (simp add: patch_step_def)
  have b2: "books_ok db2" by (rule books_ensure [OF b1 e])
  have n: "pu_confirmed p = None" using i(1) p(1,4) by (simp add: books_ok_def)
  have p2: "p \<in> set (od_orders db2)" using p(1) st by (simp add: patch_step_def k(1))
  have "books_ok db'" unfolding db' by (rule books_keep_order [OF b2 p2 p(2)]) (simp_all add: n)
  moreover have "lines_ok db'" using st by (simp add: db' kl(3) patch_step_def)
  moreover have "\<forall>x \<in> set (od_orders db'). state_ok db' x"
    unfolding db'
  proof (rule states_keep)
    have o: "od_orders db2 = od_orders db" using st by (simp add: k(1) patch_step_def)
    show s2: "\<forall>x \<in> set (od_orders db2). state_ok db2 x"
    proof
      fix x assume x: "x \<in> set (od_orders db2)"
      show "state_ok db2 x"
      proof (cases "pu_id x = order")
        case True
        with p(2) have "pu_id x = pu_id p" by simp
        moreover have "x \<in> set (od_orders db)" using x by (simp add: o)
        moreover have "distinct (map pu_id (od_orders db))" using i(1) by (simp add: books_ok_def)
        ultimately have "x = p" using p(1) by (metis distinct_map inj_onD)
        moreover have "untouched db1 order" using st by (simp add: patch_step_def)
        ultimately show ?thesis using p(2,4) by (simp add: kl(5) state_ok_def)
      next
        case False
        then have "lines_of db1 (pu_id x) = lines_of db (pu_id x)" using st by (simp add: patch_step_def)
        with i(3) [of x] x o show ?thesis using state_ok_cong [of db1 x db] by (simp add: kl(6))
      qed
    qed
    fix x assume "x \<in> set (od_orders db2)" "pu_id x = order"
    then show "state_ok db2 (x\<lparr>pu_total := line_costs db1 order, pu_version := pu_version x + 1,
        pu_after := remaining_budget b - line_costs db1 order\<rparr>)" using s2 by (subst state_ok_same [where p = x]) simp_all
  qed
  moreover have "ids_ok E db'"
  proof -
    have "ids_ok E db1" using i(4) set_of_maps [of ol_id "od_lines db1" "od_lines db" ol_po] st
      unfolding ids_ok_def patch_step_def drawn_def by metis
    then have "ids_ok E db2" by (simp add: kl(7))
    then show ?thesis unfolding db' by (rule ids_keep_order) simp
  qed
  ultimately show ?thesis by (simp add: po_inv_def)
qed

subsection \<open>Creation\<close>

definition costs_ok :: "op_db \<Rightarrow> bool" where
  "costs_ok db \<longleftrightarrow> (\<forall>r \<in> set (od_recommendations db). 0 \<le> rc_unit_cost r)"

lemma draw_fresh: "inj (rn_fresh E) \<Longrightarrow> \<not> drawn E db (draw_id E db)"
  by (auto simp: drawn_def draw_id_def dest: injD)

lemma drawn_now: "od_serial db' = Suc (od_serial db) \<Longrightarrow> drawn E db' (draw_id E db)"
  by (auto simp: drawn_def draw_id_def)

text \<open>A new line of a draft.\<close>

lemma add_line_keeps:
  fixes store :: string
  assumes inv: "po_inv E db" and inj: "inj (rn_fresh E)" and o: "drawn E db order"
    "\<forall>p \<in> set (od_orders db). pu_id p = order \<longrightarrow> pu_status p = Drafted"
    and q: "0 < q" "0 \<le> rc_unit_cost r"
  defines "db' \<equiv> add_line E store order db (r, q)"
  shows "po_inv E db'" "od_orders db' = od_orders db" "od_serial db \<le> od_serial db'" "od_recommendations db' = od_recommendations db"
proof -
  note i = po_invD [OF inv]
  obtain l where l: "od_lines db' = od_lines db @ [l]" "ol_id l = draw_id E db" "ol_po l = order" "ol_received l = 0"
    "line_ok l"
    unfolding db'_def add_line_def Let_def using q by (simp add: line_ok_def line_total_nonneg)
  have k: "od_orders db' = od_orders db" "od_budgets db' = od_budgets db" "od_serial db' = Suc (od_serial db)"
    "od_recommendations db' = od_recommendations db"
    by (simp_all add: db'_def add_line_def Let_def)
  then show "od_orders db' = od_orders db" "od_serial db \<le> od_serial db'" "od_recommendations db' = od_recommendations db" by simp_all
  have "books_ok db'" using i(1) books_cong [of db' db] k by simp
  moreover have "ol_id l \<notin> ol_id ` set (od_lines db)"
    using i(4) draw_fresh [OF inj, of db] unfolding ids_ok_def l(2) by (metis imageE)
  then have "lines_ok db'" using i(2) l(5) by (simp add: lines_ok_def l(1))
  moreover have "\<forall>p \<in> set (od_orders db'). state_ok db' p"
  proof
    fix p assume "p \<in> set (od_orders db')"
    then have p: "p \<in> set (od_orders db)" by (simp add: k)
    have s: "lines_of db' v = lines_of db v @ (if v = order then [l] else [])" for v by (simp add: lines_of_def l(1,3))
    show "state_ok db' p"
    proof (cases "pu_id p = order")
      case True
      with p o(2) i(3) [OF p] show ?thesis by (simp add: state_ok_def untouched_def s l(4))
    next
      case False
      then show ?thesis using i(3) [OF p] state_ok_cong [of db' p db] by (simp add: s)
    qed
  qed
  moreover have "ids_ok E db'"
    using i(4) o(1) drawn_now [OF k(3), of E] drawn_later [of E db _ db'] by (auto simp: ids_ok_def k l(1-3))
  ultimately show "po_inv E db'" by (simp add: po_inv_def)
qed

lemma add_lines_keep:
  assumes "po_inv E db" "inj (rn_fresh E)" "drawn E db order"
    "\<forall>p \<in> set (od_orders db). pu_id p = order \<longrightarrow> pu_status p = Drafted" "\<forall>(r, q) \<in> set lines. 0 < q \<and> 0 \<le> rc_unit_cost r"
  shows "po_inv E (foldl (add_line E store order) db lines) \<and>
    od_orders (foldl (add_line E store order) db lines) = od_orders db \<and>
    od_serial db \<le> od_serial (foldl (add_line E store order) db lines) \<and>
    od_recommendations (foldl (add_line E store order) db lines) = od_recommendations db"
  using assms
proof (induction lines arbitrary: db)
  case Nil
  then show ?case by simp
next
  case (Cons x lines)
  obtain r q where x: "x = (r, q)" by fastforce
  note k = add_line_keeps [OF Cons.prems(1-4), of q r store]
  have "0 < q" "0 \<le> rc_unit_cost r" using Cons.prems(5) by (simp_all add: x)
  note k = k [OF this]
  have "drawn E (add_line E store order db (r, q)) order" using Cons.prems(3) k(3) by (rule drawn_later)
  from Cons.IH [OF k(1) Cons.prems(2) this] Cons.prems(4,5) k(2-4) show ?case by (auto simp: x)
qed

text \<open>A new draft without lines.\<close>

lemma new_draft_keeps:
  assumes inv: "po_inv E db" and inj: "inj (rn_fresh E)" and p: "pu_id p = draw_id E db" "pu_status p = Drafted" "pu_confirmed p = None"
  defines "db' \<equiv> db\<lparr>od_orders := od_orders db @ [p], od_serial := Suc (od_serial db)\<rparr>"
  shows "po_inv E db'" "drawn E db' (pu_id p)" "\<forall>x \<in> set (od_orders db'). pu_id x = pu_id p \<longrightarrow> pu_status x = Drafted"
proof -
  note i = po_invD [OF inv]
  have n: "pu_id x \<noteq> pu_id p" if "x \<in> set (od_orders db)" for x
    using i(4) that draw_fresh [OF inj, of db] unfolding ids_ok_def p(1) by metis
  have nl: "ol_po x \<noteq> pu_id p" if "x \<in> set (od_lines db)" for x
    using i(4) that draw_fresh [OF inj, of db] unfolding ids_ok_def p(1) by metis
  have t: "period_total db' s q = period_total db s q" for s q
    by (simp add: period_total_def db'_def in_period_def p(3))
  have "pu_id p \<notin> pu_id ` set (od_orders db)" using n by (metis imageE)
  then have "books_ok db'"
    using i(1) p(2,3) unfolding books_ok_def t by (simp add: db'_def)
  moreover have "lines_ok db'" using i(2) by (simp add: lines_ok_def db'_def)
  moreover have "\<forall>x \<in> set (od_orders db'). state_ok db' x"
  proof
    fix x assume x: "x \<in> set (od_orders db')"
    have l: "lines_of db' v = lines_of db v" for v by (simp add: lines_of_def db'_def)
    show "state_ok db' x"
    proof (cases "x = p")
      case True
      have "lines_of db (pu_id p) = []" using nl by (simp add: lines_of_def filter_empty_conv)
      then show ?thesis by (simp add: True state_ok_def p(2) untouched_def l)
    next
      case False
      then have "x \<in> set (od_orders db)" using x by (simp add: db'_def)
      then show ?thesis using i(3) state_ok_cong [of db' x db] l by blast
    qed
  qed
  moreover show d: "drawn E db' (pu_id p)" unfolding p(1) by (rule drawn_now) (simp add: db'_def)
  moreover have "ids_ok E db'"
    using i(4) d drawn_later [of E db _ db'] by (auto simp: ids_ok_def db'_def)
  ultimately show "po_inv E db'" by (simp add: po_inv_def)
  show "\<forall>x \<in> set (od_orders db'). pu_id x = pu_id p \<longrightarrow> pu_status x = Drafted"
    using n p(2) by (auto simp: db'_def)
qed

lemma create_order_keeps:
  assumes c: "create_order E today store plan remaining (db, orders) (supplier, lines) = Inr (db', orders')"
    and inv: "po_inv E db" and inj: "inj (rn_fresh E)" and q: "\<forall>(r, q) \<in> set lines. 0 < q \<and> 0 \<le> rc_unit_cost r"
  shows "po_inv E db' \<and> od_recommendations db' = od_recommendations db \<and> od_serial db \<le> od_serial db'"
proof -
  obtain p where p: "pu_id p = draw_id E db" "pu_status p = Drafted" "pu_confirmed p = None"
    and db': "db' = foldl (add_line E store (pu_id p)) (db\<lparr>od_orders := od_orders db @ [p], od_serial := Suc (od_serial db)\<rparr>) lines"
    using c unfolding create_order_def Let_def prod.case by (elim ebind_InrE) (force simp: result_simps)
  note d = new_draft_keeps [OF inv inj p]
  show ?thesis
    using add_lines_keep [OF d(1) inj d(2,3) q, of store] unfolding db' by simp
qed

lemma create_ordersD:
  assumes c: "create_orders E today store body db = Inr (db', resource, response)"
  obtains plan lines db1 b orders where
    "emap (requested_line db store (pn_id plan)) (oq_lines body) = Inr lines"
    "ensure_budget db store (month_period today) = (db1, b)"
    "efold (create_order E today store plan (remaining_budget b)) (db1, []) (by_supplier lines) = Inr (db', orders)"
proof -
  obtain plan where plan: "find (\<lambda>n. pn_store n = store \<and> pn_id n = oq_plan body \<and> pn_status n = ''completed'') (od_plans db) = Some plan"
    using c by (auto simp: create_orders_def split: option.splits)
  obtain db1 b where e: "ensure_budget db store (month_period today) = (db1, b)" by fastforce
  show thesis
    using c unfolding create_orders_def plan option.case e Let_def prod.case
    by (elim ebind_InrE) (use that [OF _ e] in \<open>auto simp: result_simps\<close>)
qed

lemma requested_lineD:
  assumes "requested_line db store plan y = Inr x"
  shows "fst x \<in> set (od_recommendations db) \<and> 0 < snd x \<and> (snd y = None \<longrightarrow> snd x = rc_quantity (fst x)) \<and>
    (\<forall>q. snd y = Some q \<longrightarrow> snd x = q)"
proof -
  obtain r where r: "find (\<lambda>r. rc_store r = store \<and> rc_plan r = plan \<and> rc_id r = fst y) (od_recommendations db) = Some r"
    and x: "fst x = r" "0 < snd x" "snd x = (case snd y of None \<Rightarrow> rc_quantity r | Some q \<Rightarrow> q)"
    using assms unfolding requested_line_def by (cases y) (auto simp: result_simps Let_def split: option.splits)
  have "r \<in> set (od_recommendations db)" using r by (auto simp: find_Some_iff)
  then show ?thesis using x by simp
qed

lemma grouped_lines: "(supplier, g) \<in> set (by_supplier lines) \<Longrightarrow> set g \<subseteq> set lines"
  unfolding by_supplier_def using group_by_entry by fastforce

lemma create_orders_keeps:
  assumes c: "create_orders E today store body db = Inr (db', resource, response)"
    and inv: "po_inv E db" and inj: "inj (rn_fresh E)" and costs: "costs_ok db"
  shows "po_inv E db' \<and> od_recommendations db' = od_recommendations db \<and> od_serial db \<le> od_serial db'"
proof -
  obtain plan lines db1 b orders where
    l: "emap (requested_line db store (pn_id plan)) (oq_lines body) = Inr lines"
    and e: "ensure_budget db store (month_period today) = (db1, b)"
    and f: "efold (create_order E today store plan (remaining_budget b)) (db1, []) (by_supplier lines) = Inr (db', orders)"
    using c by (rule create_ordersD)
  have "0 < snd x \<and> 0 \<le> rc_unit_cost (fst x)" if x: "x \<in> set lines" for x
    using emap_in_set [OF l x] requested_lineD costs by (fastforce simp: costs_ok_def)
  then have q: "\<forall>(r, q) \<in> set g. 0 < q \<and> 0 \<le> rc_unit_cost r" if "(supplier, g) \<in> set (by_supplier lines)" for supplier g
    using grouped_lines [OF that] by fastforce
  have "po_inv E db1"
    using po_invD [OF inv] books_ensure [OF _ e] ensure_budget_lines [OF e] ensure_budget_keeps(1) [OF e] by (simp add: po_inv_def)
  let ?P = "\<lambda>s :: op_db \<times> public_order list. po_inv E (fst s) \<and> od_recommendations (fst s) = od_recommendations db \<and>
    od_serial db \<le> od_serial (fst s)"
  have "?P (db', orders)"
  proof (rule efold_invariant [OF f, of ?P])
    show "?P (db1, [])" using \<open>po_inv E db1\<close> by (simp add: ensure_budget_keeps [OF e])
  next
    fix s x s'
    assume a: "?P s" "x \<in> set (by_supplier lines)" "create_order E today store plan (remaining_budget b) s x = Inr s'"
    have "po_inv E (fst s') \<and> od_recommendations (fst s') = od_recommendations (fst s) \<and> od_serial (fst s) \<le> od_serial (fst s')"
      by (rule create_order_keeps [of E today store plan "remaining_budget b" "fst s" "snd s" "fst x" "snd x" "fst s'" "snd s'"])
        (use a inj q [of "fst x" "snd x"] in simp_all)
    with a(1) show "?P s'" by simp
  qed
  then show ?thesis by simp
qed

end
