(* ===== verification/Op_History.thy ===== *)
theory Op_History
  imports Op_Facts
begin

text \<open>
  The databases that requests can produce, one after the other, and what holds in all of them. The other
  services may change every table but those of budgets, orders and order lines.
\<close>

section \<open>Requests\<close>

text \<open>What the schemas of \<open>api/completion.py\<close> accept.\<close>

fun request_ok :: "po_request \<Rightarrow> bool" where
  "request_ok (CreateOrders body) \<longleftrightarrow> (\<forall>(_, q) \<in> set (oq_lines body). case q of None \<Rightarrow> True | Some q \<Rightarrow> 0 \<le> q)"
| "request_ok (PatchOrder _ body) \<longleftrightarrow> (\<forall>(_, q) \<in> set (pq_lines body). 0 < q)"
| "request_ok (ConfirmOrder _ _) \<longleftrightarrow> True"
| "request_ok (ReceiveOrder _ body) \<longleftrightarrow> (\<forall>(_, lots) \<in> set (vq_lines body). \<forall>v \<in> set lots. 0 < vl_quantity v)"

inductive op_history :: "runtime \<Rightarrow> op_db \<Rightarrow> bool" for E where
  op_start: "od_orders db = [] \<Longrightarrow> od_lines db = [] \<Longrightarrow> distinct (map (\<lambda>b. (bg_store b, bg_period b)) (od_budgets db)) \<Longrightarrow>
    \<forall>b \<in> set (od_budgets db). bg_reserved b = 0 \<and> bg_spent b = 0 \<Longrightarrow> costs_ok db \<Longrightarrow> op_history E db"
| op_order: "op_history E db \<Longrightarrow> request_ok request \<Longrightarrow> po_write E today db store request key = Inr (db', response) \<Longrightarrow>
    op_history E db'"
| op_stock: "op_history E db \<Longrightarrow> inventory_write E db store corr key = Inr (db', response) \<Longrightarrow> op_history E db'"
| op_settings: "op_history E db \<Longrightarrow> settings_write today db store body setting_id = Inr db' \<Longrightarrow> op_history E db'"
| op_other: "op_history E db \<Longrightarrow> core db' = core db \<Longrightarrow> od_serial db \<le> od_serial db' \<Longrightarrow> costs_ok db' \<Longrightarrow> op_history E db'"

lemma with_idempotencyD:
  assumes "with_idempotency records store endpoint http_method key h work replay = Inr x"
  shows "(\<exists>r. replay r = Inr x) \<or> (\<exists>records'. work records' = Inr x)"
  using assms by (auto simp: with_idempotency_def result_simps split: option.splits if_splits)

lemma finish_op_tables: "same_tables db (fst (finish_op store path key action resource_type (db, resource, response)))"
  by (simp add: finish_op_def same_tables_def core_def)

lemma set_idem_tables: "same_tables db (db\<lparr>od_idem := records\<rparr>)"
  by (simp add: same_tables_def core_def)

lemma po_writeD:
  assumes "po_write E today db store request key = Inr (db', response)"
  shows "db' = db \<or> (\<exists>db0 db1 resource. same_tables db db0 \<and> po_work E today store request db0 = Inr (db1, resource, response) \<and>
    same_tables db1 db')"
proof -
  from assms obtain w: "(\<exists>r. op_replay db r = Inr (db', response)) \<or> (\<exists>records. ebind (po_work E today store request (db\<lparr>od_idem := records\<rparr>))
      (\<lambda>done. Inr (finish_op store (po_path store request) key (po_action request) ''purchase_order'' done)) = Inr (db', response))"
    unfolding po_write_def by (elim ebind_InrE) (drule with_idempotencyD, blast)
  then show ?thesis
  proof
    assume "\<exists>r. op_replay db r = Inr (db', response)"
    then show ?thesis by (auto simp: op_replay_def result_simps)
  next
    assume "\<exists>records. ebind (po_work E today store request (db\<lparr>od_idem := records\<rparr>))
      (\<lambda>done. Inr (finish_op store (po_path store request) key (po_action request) ''purchase_order'' done)) = Inr (db', response)"
    then obtain records db1 resource r where "po_work E today store request (db\<lparr>od_idem := records\<rparr>) = Inr (db1, resource, r)"
      "finish_op store (po_path store request) key (po_action request) ''purchase_order'' (db1, resource, r) = (db', response)"
      by (auto simp: result_simps)
    moreover from this have "r = response" by (simp add: finish_op_def)
    ultimately show ?thesis
      using set_idem_tables finish_op_tables by (metis fst_conv)
  qed
qed

lemma same_tables_keep: "same_tables db db' \<Longrightarrow> po_inv E db \<Longrightarrow> costs_ok db \<Longrightarrow> po_inv E db' \<and> costs_ok db'"
  using core_frame(8) by (auto simp: same_tables_def costs_ok_def)

lemma changed_orderD:
  assumes "changed_order store order result = Inr (db', resource, response)"
  shows "result = Inr db'"
  using assms by (auto simp: changed_order_def result_simps)

lemma efold_recommendations:
  assumes "efold f s xs = Inr t" "\<And>s x t. f s x = Inr t \<Longrightarrow> od_recommendations t = od_recommendations s"
  shows "od_recommendations t = od_recommendations s"
  by (rule efold_invariant [OF assms(1), of "\<lambda>t. od_recommendations t = od_recommendations s"]) (simp_all add: assms(2))

lemma po_work_recommendations:
  assumes "po_work E today store request db = Inr (db', resource, response)" "costs_ok db" "po_inv E db" "inj (rn_fresh E)" "request_ok request"
  shows "od_recommendations db' = od_recommendations db"
proof (cases request)
  case (CreateOrders body)
  with assms create_orders_keeps show ?thesis by (metis po_work.simps(1))
next
  case (PatchOrder order body)
  then have r: "patch_order today store order body db = Inr db'" using assms(1) by (auto dest: changed_orderD)
  obtain p db1 db2 b where f: "efold (patch_line order) db (pq_lines body) = Inr db1" "ensure_budget db1 store (month_period today) = (db2, b)"
    "db' = modify_order order (\<lambda>p. p\<lparr>pu_total := line_costs db1 order, pu_version := pu_version p + 1,
       pu_after := remaining_budget b - line_costs db1 order\<rparr>) db2"
    using r by (rule patch_orderD)
  have "od_recommendations db1 = od_recommendations db"
    by (rule efold_recommendations [OF f(1)]) (auto simp: patch_line_def result_simps)
  then show ?thesis using ensure_budget_keeps(4) [OF f(2)] by (simp add: f(3))
next
  case (ConfirmOrder order body)
  then have r: "confirm_order store order body db = Inr db'" using assms(1) by (auto dest: changed_orderD)
  then show ?thesis
    by (rule confirm_orderD) (auto dest!: ensure_budget_keeps(4))
next
  case (ReceiveOrder order body)
  then have r: "receive_order E store order body db = Inr db'" using assms(1) by (auto dest: changed_orderD)
  then show ?thesis
  proof (rule receive_orderD)
    fix p m db1 db2 b db3 cost
    assume d: "db1 = modify_order order (\<lambda>p. p\<lparr>pu_version := pu_version p + 1\<rparr>) db" "p \<in> set (od_orders db)" "pu_id p = order"
      "ensure_budget db1 store (month_period (mo_date (rn_readback E m))) = (db2, b)"
      "efold (receive_line E store p body) (db2, 0) (vq_lines body) = Inr (db3, cost)"
      and db': "db' = recompute_store E store (modify_order order
       (\<lambda>p. p\<lparr>pu_status := (if fully_received db3 order then AllReceived else PartlyReceived),
              pu_received := (if fully_received db3 order then Some (vq_at body) else None)\<rparr>)
       (modify_budget store (month_period (mo_date (rn_readback E m)))
         (\<lambda>b. b\<lparr>bg_reserved := bg_reserved b - cost, bg_spent := bg_spent b + cost\<rparr>) db3))"
    have "receive_step p (db2, 0) (db3, cost)"
    proof (rule receive_lines_step [OF d(5)])
      show "lines_ok (fst (db2, 0 :: int))" using po_invD(2) [OF assms(3)] ensure_budget_lines(3) [OF d(4)] by (simp add: d(1))
      show "\<forall>(line, lots) \<in> set (vq_lines body). \<forall>v \<in> set lots. 0 < vl_quantity v" using assms(5) ReceiveOrder by simp
    qed
    then have "od_recommendations db3 = od_recommendations db"
      using ensure_budget_keeps(4) [OF d(4)] by (simp add: receive_step_def d(1))
    then show ?thesis by (simp add: db' recompute_store_def)
  qed
qed

lemma po_work_keeps:
  assumes "po_work E today store request db = Inr (db', resource, response)" "po_inv E db" "costs_ok db"
    and "inj (rn_fresh E)" "keeps_day E" "request_ok request"
  shows "po_inv E db' \<and> costs_ok db'"
proof -
  have "po_inv E db'"
  proof (cases request)
    case (CreateOrders body)
    then have "create_orders E today store body db = Inr (db', resource, response)" using assms(1) by simp
    then show ?thesis using create_orders_keeps assms(2-4) by blast
  next
    case (PatchOrder order body)
    then have "patch_order today store order body db = Inr db'" using assms(1) by (simp add: changed_orderD)
    then show ?thesis using assms(6) PatchOrder by (intro patch_keeps [OF assms(2)]) simp_all
  next
    case (ConfirmOrder order body)
    then have "confirm_order store order body db = Inr db'" using assms(1) by (simp add: changed_orderD)
    then show ?thesis by (rule confirm_keeps [OF assms(2)])
  next
    case (ReceiveOrder order body)
    then have "receive_order E store order body db = Inr db'" using assms(1) by (simp add: changed_orderD)
    then show ?thesis using assms(6) ReceiveOrder by (intro receive_keeps [OF assms(2) _ assms(5)]) simp_all
  qed
  moreover have "costs_ok db'" using po_work_recommendations [OF assms(1,3,2,4,6)] assms(3) by (simp add: costs_ok_def)
  ultimately show ?thesis ..
qed

lemma apply_change_tables:
  "apply_change E store l ty tm sid note before delta target db = Inr (db', change) \<Longrightarrow> same_tables db db'"
  by (auto simp: apply_change_def Let_def result_simps modify_lot_def same_tables_def core_def split: if_splits)

lemma modify_lot_tables: "same_tables db (modify_lot lot f db)"
  by (simp add: modify_lot_def same_tables_def core_def)

lemma inventory_work_tables:
  assumes "inventory_work E store corr db = Inr (db', resource, response)"
  shows "same_tables db db'"
proof -
  have c: "count_lot E store tm s line = Inr s' \<Longrightarrow> same_tables (fst s) (fst s')" for tm s line s'
    unfolding count_lot_def Let_def
    by (cases s) (auto simp: result_simps intro: same_tables_trans [OF modify_lot_tables] dest!: apply_change_tables)
  have a: "adjust_lot E store tm reference s line = Inr s' \<Longrightarrow> same_tables (fst s) (fst s')" for tm reference s line s'
    unfolding adjust_lot_def Let_def by (cases s) (auto simp: result_simps dest!: apply_change_tables)
  have n: "same_tables s (next_serial s)" for s by (simp add: next_serial_def same_tables_def core_def)
  show ?thesis
  proof (cases corr)
    case (CountRequest tm lines dump)
    with assms obtain db1 out where f: "efold (count_lot E store tm) (db, []) lines = Inr (db1, out)" "db' = next_serial db1"
      by (auto simp: result_simps)
    have "same_tables db (fst (db1, out))"
      by (rule efold_invariant [OF f(1), of "\<lambda>s. same_tables db (fst s)"]) (auto intro: same_tables_trans dest: c)
    then show ?thesis using n same_tables_trans f(2) by fastforce
  next
    case (AdjustRequest tm reference lines dump)
    with assms obtain db1 out where f: "efold (adjust_lot E store tm reference) (db, []) lines = Inr (db1, out)" "db' = next_serial db1"
      by (auto simp: result_simps)
    have "same_tables db (fst (db1, out))"
      by (rule efold_invariant [OF f(1), of "\<lambda>s. same_tables db (fst s)"]) (auto intro: same_tables_trans dest: a)
    then show ?thesis using n same_tables_trans f(2) by fastforce
  qed
qed

lemma inventory_write_tables:
  assumes "inventory_write E db store corr key = Inr (db', response)"
  shows "same_tables db db'"
proof -
  from assms obtain w: "(\<exists>r. op_replay db r = Inr (db', response)) \<or> (\<exists>records. ebind (inventory_work E store corr (db\<lparr>od_idem := records\<rparr>))
      (\<lambda>done. Inr (finish_op store (inventory_path store corr) key (inventory_action corr) ''inventory'' done)) = Inr (db', response))"
    unfolding inventory_write_def by (elim ebind_InrE) (drule with_idempotencyD, blast)
  then show ?thesis
  proof
    assume "\<exists>r. op_replay db r = Inr (db', response)"
    then show ?thesis by (auto simp: op_replay_def result_simps)
  next
    assume "\<exists>records. ebind (inventory_work E store corr (db\<lparr>od_idem := records\<rparr>))
      (\<lambda>done. Inr (finish_op store (inventory_path store corr) key (inventory_action corr) ''inventory'' done)) = Inr (db', response)"
    then obtain records db1 resource r where "inventory_work E store corr (db\<lparr>od_idem := records\<rparr>) = Inr (db1, resource, r)"
      "db' = fst (finish_op store (inventory_path store corr) key (inventory_action corr) ''inventory'' (db1, resource, r))"
      by (auto simp: result_simps)
    then show ?thesis
      using same_tables_trans [OF same_tables_trans [OF set_idem_tables inventory_work_tables] finish_op_tables] by simp
  qed
qed

text \<open>The settings change the monthly budget only.\<close>

lemma settings_keep:
  assumes inv: "po_inv E db" and w: "settings_write today db store body setting_id = Inr db'"
  shows "po_inv E db'" "od_recommendations db' = od_recommendations db"
proof -
  let ?q = "month_period today"
  have o: "od_orders db' = od_orders db" "od_lines db' = od_lines db" "od_serial db' = od_serial db"
    and k: "od_recommendations db' = od_recommendations db"
    and b: "od_budgets db' = (case find (budget_of store ?q) (od_budgets db) of
             None \<Rightarrow> od_budgets db @ [\<lparr>bg_store = store, bg_period = ?q, bg_monthly = sq_monthly body, bg_reserved = 0, bg_spent = 0\<rparr>]
           | Some _ \<Rightarrow> update_first (budget_of store ?q) (\<lambda>b. b\<lparr>bg_monthly := sq_monthly body\<rparr>) (od_budgets db))"
    using w by (auto simp: settings_write_def Let_def result_simps)
  show "od_recommendations db' = od_recommendations db" by (rule k)
  note i = po_invD [OF inv]
  have t: "period_total db' s x = period_total db s x" for s x by (simp add: period_total_def o)
  have "books_ok db'"
  proof (cases "find (budget_of store ?q) (od_budgets db)")
    case None
    show ?thesis by (rule books_new_budget [OF i(1) None o(1)]) (simp add: b None)
  next
    case (Some r)
    have d: "distinct (map (\<lambda>b. (bg_store b, bg_period b)) (od_budgets db))" using i(1) by (simp add: books_ok_def)
    have bs: "od_budgets db' = update_first (budget_of store ?q) (\<lambda>b. b\<lparr>bg_monthly := sq_monthly body\<rparr>) (od_budgets db)"
      by (simp add: b Some)
    note u = update_first_mem [OF Some d, of "\<lambda>b. b\<lparr>bg_monthly := sq_monthly body\<rparr>" "(store, ?q)"]
    have u1: "map (\<lambda>b. (bg_store b, bg_period b)) (od_budgets db') = map (\<lambda>b. (bg_store b, bg_period b)) (od_budgets db)"
      unfolding bs by (rule u(1)) (simp_all add: budget_of_def)
    have m: "x \<in> set (od_budgets db') \<longleftrightarrow> (x \<in> set (od_budgets db) \<and> \<not> budget_of store ?q x) \<or> x = r\<lparr>bg_monthly := sq_monthly body\<rparr>" for x
      unfolding bs by (rule u(2)) (simp_all add: budget_of_def)
    have r: "r \<in> set (od_budgets db)" "budget_of store ?q r" using Some by (auto simp: find_Some_iff)
    have 1: "bg_reserved x + bg_spent x = period_total db' (bg_store x) (bg_period x) \<and> 0 \<le> bg_reserved x \<and> 0 \<le> bg_spent x"
      if "x \<in> set (od_budgets db')" for x
      using that i(1) r unfolding books_ok_def m t by auto
    have 2: "\<exists>x \<in> set (od_budgets db'). budget_of s q x" if "\<exists>x \<in> set (od_budgets db). budget_of s q x" for s q
    proof -
      obtain x where x: "x \<in> set (od_budgets db)" "budget_of s q x" using \<open>\<exists>x \<in> set (od_budgets db). budget_of s q x\<close> by blast
      show ?thesis
      proof (cases "budget_of store ?q x")
        case True
        with x r have "budget_of s q (r\<lparr>bg_monthly := sq_monthly body\<rparr>)" by (simp add: budget_of_def)
        then show ?thesis using m by blast
      qed (use x m in blast)
    qed
    show ?thesis using i(1) 1 2 unfolding books_ok_def u1 o by blast
  qed
  moreover have l: "lines_of db' v = lines_of db v" for v by (simp add: lines_of_def o)
  moreover have "lines_ok db'" "ids_ok E db'" using i(2,4) by (simp_all add: lines_ok_def ids_ok_def drawn_def o)
  ultimately show "po_inv E db'" using i(3) state_ok_cong [of db' _ db] by (simp add: po_inv_def o)
qed

lemma history_inv:
  assumes "op_history E db" "inj (rn_fresh E)" "keeps_day E"
  shows "po_inv E db \<and> costs_ok db"
  using assms(1)
proof induction
  case (op_start db)
  then show ?case
    by (auto simp: po_inv_def books_ok_def lines_ok_def ids_ok_def period_total_def)
next
  case (op_order db request today store key db' response)
  then have k: "po_inv E db" "costs_ok db" by simp_all
  from po_writeD [OF op_order.hyps(3)] show ?case
  proof
    assume "\<exists>db0 db1 resource. same_tables db db0 \<and> po_work E today store request db0 = Inr (db1, resource, response) \<and> same_tables db1 db'"
    then obtain db0 db1 resource where s: "same_tables db db0" "po_work E today store request db0 = Inr (db1, resource, response)" "same_tables db1 db'"
      by blast
    have "po_inv E db0 \<and> costs_ok db0" by (rule same_tables_keep [OF s(1) k])
    then have "po_inv E db1 \<and> costs_ok db1" using po_work_keeps [OF s(2)] assms(2,3) op_order.hyps(2) by blast
    then show ?thesis using same_tables_keep [OF s(3)] by blast
  qed (use k in simp)
next
  case (op_stock db store corr key db' response)
  then show ?case using same_tables_keep inventory_write_tables by blast
next
  case (op_settings db today store body setting_id db')
  then show ?case using settings_keep by (auto simp: costs_ok_def)
next
  case (op_other db db')
  then show ?case using core_frame(8) by blast
qed

end
