(* ===== verification/Op_Claims.thy ===== *)
theory Op_Claims
  imports Op_History
begin

text \<open>
  The properties of purchase orders, monthly budgets and stock counts.
\<close>

section \<open>Books and receipts\<close>

text \<open>C6: the books of a month always balance. In every database that requests can produce, the reserved and
  spent amounts of a store's month are not negative and add up to the totals of the orders confirmed in that
  month, if stored times are read back on the same day.\<close>

theorem budget_books_balance:
  assumes "op_history E db" "inj (rn_fresh E)" "keeps_day E" "b \<in> set (od_budgets db)"
  shows "bg_reserved b + bg_spent b = period_total db (bg_store b) (bg_period b) \<and> 0 \<le> bg_reserved b \<and> 0 \<le> bg_spent b"
  using history_inv [OF assms(1-3)] assms(4) by (simp add: po_inv_def books_ok_def)

text \<open>C12: nothing is received beyond what was ordered, and the state of an order tells how much has arrived:
  nothing for a draft or a confirmed order, everything exactly when it is marked received.\<close>

theorem receipts_within_orders:
  assumes "op_history E db" "inj (rn_fresh E)" "keeps_day E" "p \<in> set (od_orders db)"
  shows "(\<forall>l \<in> set (lines_of db (pu_id p)). 0 \<le> ol_received l \<and> ol_received l \<le> ol_ordered l \<and> 0 < ol_ordered l) \<and>
    (case pu_status p of
       Drafted \<Rightarrow> \<forall>l \<in> set (lines_of db (pu_id p)). ol_received l = 0
     | Ordered \<Rightarrow> \<forall>l \<in> set (lines_of db (pu_id p)). ol_received l = 0
     | PartlyReceived \<Rightarrow> \<exists>l \<in> set (lines_of db (pu_id p)). ol_received l < ol_ordered l
     | AllReceived \<Rightarrow> \<forall>l \<in> set (lines_of db (pu_id p)). ol_received l = ol_ordered l)"
proof -
  have i: "lines_ok db" "state_ok db p" using history_inv [OF assms(1-3)] assms(4) by (simp_all add: po_inv_def)
  have l: "0 \<le> ol_received l \<and> ol_received l \<le> ol_ordered l \<and> 0 < ol_ordered l" if "l \<in> set (lines_of db (pu_id p))" for l
    using i(1) that by (auto simp: lines_ok_def line_ok_def lines_of_def)
  moreover have "fully_received db (pu_id p) \<longleftrightarrow> (\<forall>l \<in> set (lines_of db (pu_id p)). ol_received l = ol_ordered l)"
    by (simp add: fully_received_def list_all_iff)
  ultimately show ?thesis
    using i(2) by (cases "pu_status p") (auto simp: state_ok_def untouched_def order_less_le)
qed

section \<open>Confirmation\<close>

lemma po_write_orderD:
  assumes "po_write E today db store request key = Inr (db', response)" "db' \<noteq> db"
  obtains db0 db1 resource where "same_tables db db0" "od_settings db0 = od_settings db"
    "po_work E today store request db0 = Inr (db1, resource, response)" "same_tables db1 db'"
proof -
  from assms obtain w: "(\<exists>r. op_replay db r = Inr (db', response)) \<or> (\<exists>records. ebind (po_work E today store request (db\<lparr>od_idem := records\<rparr>))
      (\<lambda>done. Inr (finish_op store (po_path store request) key (po_action request) ''purchase_order'' done)) = Inr (db', response))"
    unfolding po_write_def by (elim ebind_InrE) (drule with_idempotencyD, blast)
  moreover have "\<not> (\<exists>r. op_replay db r = Inr (db', response))" using assms(2) by (auto simp: op_replay_def result_simps)
  ultimately obtain records db1 resource r where w: "po_work E today store request (db\<lparr>od_idem := records\<rparr>) = Inr (db1, resource, r)"
    "finish_op store (po_path store request) key (po_action request) ''purchase_order'' (db1, resource, r) = (db', response)"
    by (auto simp: result_simps)
  then have "r = response" by (simp add: finish_op_def)
  moreover have "same_tables db1 db'" using finish_op_tables [of db1] w(2) by (metis fst_conv)
  ultimately show thesis using that [OF set_idem_tables _ _ ] w(1) by simp
qed

lemma confirm_effect:
  assumes inv: "po_inv E db" and c: "confirm_order store order body db = Inr db'"
  shows "\<exists>p b. p \<in> set (od_orders db) \<and> pu_id p = order \<and> pu_store p = store \<and> pu_status p = Drafted \<and> pu_version p = cq_version body \<and>
    snd (ensure_budget db store (month_period (mo_date (cq_at body)))) = b \<and> line_costs db order \<le> remaining_budget b \<and>
    find (budget_of store (month_period (mo_date (cq_at body)))) (od_budgets db') =
      Some (b\<lparr>bg_reserved := bg_reserved b + line_costs db order\<rparr>) \<and>
    p\<lparr>pu_version := pu_version p + 1, pu_total := line_costs db order, pu_status := Ordered, pu_confirmed := Some (cq_at body),
      pu_after := remaining_budget b - line_costs db order\<rparr> \<in> set (od_orders db')"
proof -
  let ?q = "month_period (mo_date (cq_at body))"
  obtain p db1 db2 b where p: "p \<in> set (od_orders db)" "pu_id p = order" "pu_store p = store" "pu_status p = Drafted"
    and db1: "db1 = modify_order order (\<lambda>p. p\<lparr>pu_version := pu_version p + 1\<rparr>) db"
    and e: "ensure_budget db1 store ?q = (db2, b)" and t: "line_costs db order \<le> remaining_budget b"
    and db': "db' = modify_order order
            (\<lambda>p. p\<lparr>pu_total := line_costs db order, pu_status := Ordered, pu_confirmed := Some (cq_at body),
                    pu_after := remaining_budget b - line_costs db order\<rparr>)
            (modify_budget store ?q (\<lambda>b. b\<lparr>bg_reserved := bg_reserved b + line_costs db order\<rparr>) db2)"
    using c by (rule confirm_orderD)
  obtain p' where "order_to_change db store order (cq_version body) = Inr p'"
    using c unfolding confirm_order_def by (elim ebind_InrE) blast
  note p' = order_to_changeD [OF this]
  have "distinct (map pu_id (od_orders db))" using inv by (simp add: po_inv_def books_ok_def)
  then have v: "pu_version p = cq_version body" using p p' by (metis distinct_map inj_onD)
  have b: "snd (ensure_budget db store ?q) = b"
    using e by (simp add: ensure_budget_def db1 modify_order_def Let_def split: option.splits)
  have f: "find (budget_of store ?q) (od_budgets db') = Some (b\<lparr>bg_reserved := bg_reserved b + line_costs db order\<rparr>)"
  proof -
    have "find (budget_of store ?q) (update_first (budget_of store ?q) (\<lambda>b. b\<lparr>bg_reserved := bg_reserved b + line_costs db order\<rparr>) (od_budgets db2)) =
        Some (b\<lparr>bg_reserved := bg_reserved b + line_costs db order\<rparr>)"
      by (rule find_update_first [OF ensure_budget_keeps(5) [OF e]])
        (use ensure_budget_keeps(5) [OF e] in \<open>auto simp: find_Some_iff budget_of_def\<close>)
    then show ?thesis by (simp add: db' modify_budget_def)
  qed
  have "p\<lparr>pu_version := pu_version p + 1\<rparr> \<in> set (od_orders db2)"
    using claimed_order [OF p(1,2)] ensure_budget_keeps(1) [OF e] by (simp add: db1)
  then have "p\<lparr>pu_version := pu_version p + 1, pu_total := line_costs db order, pu_status := Ordered, pu_confirmed := Some (cq_at body),
      pu_after := remaining_budget b - line_costs db order\<rparr> \<in> set (od_orders db')"
    unfolding db' using p(2) by (intro claimed_order [where p = "p\<lparr>pu_version := pu_version p + 1\<rparr>", simplified]) simp_all
  with p v b t f show ?thesis by blast
qed

text \<open>A confirmation never exceeds the budget of its month. A draft in the requested version becomes an
  order with the total of its lines only if the month has that much left; exactly the total is then reserved
  in that month, and the row shows what is left after it.\<close>

theorem confirmation_reserves_its_total:
  assumes "op_history E db" "inj (rn_fresh E)" "keeps_day E"
    and "po_write E today db store (ConfirmOrder order body) key = Inr (db', response)" "db' \<noteq> db"
  shows "\<exists>p b. p \<in> set (od_orders db) \<and> pu_id p = order \<and> pu_store p = store \<and> pu_status p = Drafted \<and> pu_version p = cq_version body \<and>
    snd (ensure_budget db store (month_period (mo_date (cq_at body)))) = b \<and> line_costs db order \<le> remaining_budget b \<and>
    find (budget_of store (month_period (mo_date (cq_at body)))) (od_budgets db') =
      Some (b\<lparr>bg_reserved := bg_reserved b + line_costs db order\<rparr>) \<and>
    p\<lparr>pu_version := pu_version p + 1, pu_total := line_costs db order, pu_status := Ordered, pu_confirmed := Some (cq_at body),
      pu_after := remaining_budget b - line_costs db order\<rparr> \<in> set (od_orders db')"
proof -
  obtain db0 db1 resource where s: "same_tables db db0" "od_settings db0 = od_settings db"
    "po_work E today store (ConfirmOrder order body) db0 = Inr (db1, resource, response)" "same_tables db1 db'"
    using assms(4,5) by (rule po_write_orderD)
  have inv: "po_inv E db0" using same_tables_keep [OF s(1)] history_inv [OF assms(1-3)] by blast
  have c: "confirm_order store order body db0 = Inr db1" using s(3) by (simp add: changed_orderD)
  have "od_orders db0 = od_orders db" "od_budgets db0 = od_budgets db" "od_orders db' = od_orders db1" "od_budgets db' = od_budgets db1"
    "od_lines db0 = od_lines db"
    using s(1,4) by (simp_all add: same_tables_def core_def)
  moreover from this have "line_costs db0 order = line_costs db order" by (simp add: line_costs_def lines_of_def)
  moreover have "snd (ensure_budget db0 store q) = snd (ensure_budget db store q)" for q
    using \<open>od_budgets db0 = od_budgets db\<close> s(2) by (simp add: ensure_budget_def Let_def split: option.splits)
  ultimately show ?thesis using confirm_effect [OF inv c] by simp
qed

section \<open>Stock counts\<close>











end
