(* ===== verification/Op_Reserve.thy ===== *)
theory Op_Reserve
  imports Op_History
begin

text \<open>
  Why a receipt never lacks a reservation. What a receipt costs is truncated line by line, so the parts of a line
  cost at most what the whole line costs; what has been spent on an order therefore never exceeds the cost of
  what has arrived. The argument keeps track of the amount spent on each line, which the database does
  not store. It needs exact products, so quantities are those of the columns: six decimals, below \<open>10 ^ 12\<close>.
\<close>

section \<open>Quantities of the columns\<close>

definition micro :: "dec \<Rightarrow> bool" where
  "micro x \<longleftrightarrow> (\<exists>n. x = of_int n * pow10 (-6) \<and> 0 \<le> n \<and> n < 10 ^ 18)"

definition small_cost :: "int \<Rightarrow> bool" where
  "small_cost c \<longleftrightarrow> 0 \<le> c \<and> c < 10 ^ 10"

lemma micro_nonneg: "micro x \<Longrightarrow> 0 \<le> x"
  by (auto simp: micro_def)

lemma micro_0 [simp]: "micro 0"
  by (auto simp: micro_def intro!: exI [of _ 0])

lemma micro_add:
  assumes "micro a" "micro b"
  shows "dec_add a b = a + b" "a + b < 10 ^ 12 \<Longrightarrow> micro (a + b)"
proof -
  obtain m n where m: "a = of_int m * pow10 (-6)" "0 \<le> m" "m < 10 ^ 18" and n: "b = of_int n * pow10 (-6)" "0 \<le> n" "n < 10 ^ 18"
    using assms by (auto simp: micro_def)
  have e: "a + b = of_int (m + n) * pow10 (-6)" by (simp add: m(1) n(1) algebra_simps)
  have "\<bar>m + n\<bar> < 10 ^ 28" using m(2,3) n(2,3) by simp
  with e show "dec_add a b = a + b" unfolding dec_add_def by (rule dec_rnd_exact)
  show "micro (a + b)" if "a + b < 10 ^ 12"
  proof -
    have "of_int (m + n) < (10 ^ 18 :: rat)" using that unfolding e by (simp add: pow10_def)
    then have "m + n < 10 ^ 18" by (metis of_int_less_iff of_int_numeral of_int_power)
    with e m(2) n(2) show ?thesis unfolding micro_def by (intro exI [of _ "m + n"]) simp
  qed
qed

lemma micro_sum:
  assumes "\<forall>x \<in> set xs. micro x" "sum_list xs < 10 ^ 12"
  shows "micro (sum_list xs) \<and> dec_sum xs = sum_list xs"
  using assms
proof (induction xs rule: rev_induct)
  case Nil
  then show ?case by (simp add: dec_sum_def)
next
  case (snoc x xs)
  have x: "micro x" "0 \<le> x" using snoc.prems(1) micro_nonneg by simp_all
  then have i: "micro (sum_list xs) \<and> dec_sum xs = sum_list xs" using snoc by simp
  then have "dec_sum (xs @ [x]) = dec_add (sum_list xs) x" by (simp add: dec_sum_def)
  also have "\<dots> = sum_list (xs @ [x])" using micro_add(1) [of "sum_list xs" x] i x(1) by simp
  finally show ?case using micro_add(2) [of "sum_list xs" x] i x(1) snoc.prems(2) by simp
qed

lemma line_total_exact:
  assumes "micro q" "small_cost c"
  shows "line_total q c = \<lfloor>q * of_int c\<rfloor>"
proof -
  obtain n where n: "q = of_int n * pow10 (-6)" "0 \<le> n" "n < 10 ^ 18" using assms(1) by (auto simp: micro_def)
  have c: "0 \<le> c" "c < 10 ^ 10" using assms(2) by (simp_all add: small_cost_def)
  have "n * c < 10 ^ 18 * 10 ^ 10" using n c by (intro mult_strict_mono') simp_all
  then have "\<bar>n * c\<bar> < 10 ^ 28" using n(2) c(1) by simp
  then have "dec_mul q (of_int c) = q * of_int c"
    unfolding dec_mul_def by (intro dec_rnd_exact [of _ "n * c" "-6"]) (simp_all add: n(1))
  moreover have "0 \<le> q * of_int c" using micro_nonneg [OF assms(1)] c(1) by simp
  ultimately show ?thesis by (simp add: line_total_def dec_int_def)
qed

text \<open>The parts of a line cost at most what the line costs.\<close>

lemma line_total_parts:
  assumes "micro a" "micro b" "micro (a + b)" "small_cost c"
  shows "line_total a c + line_total b c \<le> line_total (a + b) c"
  using assms by (simp add: line_total_exact le_floor_add distrib_right)

lemma line_total_mono:
  assumes "micro a" "micro b" "a \<le> b" "small_cost c"
  shows "line_total a c \<le> line_total b c"
  using assms by (simp add: line_total_exact floor_mono mult_right_mono small_cost_def)

lemma line_total_0 [simp]: "line_total 0 c = 0"
  by (simp add: line_total_def dec_mul_def dec_rnd_def dec_int_def)

section \<open>The amount spent on each line\<close>

definition line_spent :: "(string \<Rightarrow> int) \<Rightarrow> po_line \<Rightarrow> bool" where
  "line_spent f l \<longleftrightarrow> micro (ol_ordered l) \<and> micro (ol_received l) \<and> small_cost (ol_unit_cost l) \<and>
     ol_cost l = line_total (ol_ordered l) (ol_unit_cost l) \<and>
     0 \<le> f (ol_id l) \<and> f (ol_id l) \<le> line_total (ol_received l) (ol_unit_cost l)"

definition lines_spent :: "(string \<Rightarrow> int) \<Rightarrow> op_db \<Rightarrow> bool" where
  "lines_spent f db \<longleftrightarrow> (\<forall>l \<in> set (od_lines db). line_spent f l)"

definition spent_on :: "(string \<Rightarrow> int) \<Rightarrow> op_db \<Rightarrow> string \<Rightarrow> int" where
  "spent_on f db order = sum_list (map (\<lambda>l. f (ol_id l)) (lines_of db order))"

definition period_spent :: "(string \<Rightarrow> int) \<Rightarrow> op_db \<Rightarrow> string \<Rightarrow> string \<Rightarrow> int" where
  "period_spent f db store period = sum_list (map (\<lambda>p. if in_period store period p then spent_on f db (pu_id p) else 0) (od_orders db))"

definition totals_ok :: "op_db \<Rightarrow> bool" where
  "totals_ok db \<longleftrightarrow> (\<forall>p \<in> set (od_orders db). pu_confirmed p \<noteq> None \<longrightarrow> pu_total p = line_costs db (pu_id p))"

definition spent_ok :: "runtime \<Rightarrow> (string \<Rightarrow> int) \<Rightarrow> op_db \<Rightarrow> bool" where
  "spent_ok E f db \<longleftrightarrow> lines_spent f db \<and> totals_ok db \<and> (\<forall>s. \<not> drawn E db s \<longrightarrow> f s = 0) \<and>
     (\<forall>b \<in> set (od_budgets db). bg_spent b = period_spent f db (bg_store b) (bg_period b))"

definition columns_ok :: "op_db \<Rightarrow> bool" where
  "columns_ok db \<longleftrightarrow> (\<forall>r \<in> set (od_recommendations db). micro (rc_quantity r) \<and> small_cost (rc_unit_cost r))"

fun column_request :: "po_request \<Rightarrow> bool" where
  "column_request (CreateOrders body) \<longleftrightarrow> (\<forall>(_, q) \<in> set (oq_lines body). case q of None \<Rightarrow> True | Some q \<Rightarrow> micro q)"
| "column_request (PatchOrder _ body) \<longleftrightarrow> (\<forall>(_, q) \<in> set (pq_lines body). micro q)"
| "column_request (ConfirmOrder _ _) \<longleftrightarrow> True"
| "column_request (ReceiveOrder _ body) \<longleftrightarrow>
     (\<forall>(_, lots) \<in> set (vq_lines body). (\<forall>v \<in> set lots. micro (vl_quantity v)) \<and> sum_list (map vl_quantity lots) < 10 ^ 12)"

text \<open>At most what the arrived quantity costs, hence at most the cost of the order, has been spent on it.\<close>

lemma spent_on_bounds:
  assumes s: "lines_spent f db" and l: "lines_ok db"
  shows "0 \<le> spent_on f db order" "spent_on f db order \<le> line_costs db order"
proof -
  have b: "0 \<le> f (ol_id x) \<and> f (ol_id x) \<le> ol_cost x" if "x \<in> set (lines_of db order)" for x
  proof -
    have "x \<in> set (od_lines db)" using that by (simp add: lines_of_def)
    then have x: "line_spent f x" "line_ok x" using s l by (simp_all add: lines_spent_def lines_ok_def)
    then have "line_total (ol_received x) (ol_unit_cost x) \<le> line_total (ol_ordered x) (ol_unit_cost x)"
      by (intro line_total_mono) (simp_all add: line_spent_def line_ok_def)
    with x show ?thesis by (simp add: line_spent_def)
  qed
  then show "0 \<le> spent_on f db order" unfolding spent_on_def by (intro sum_list_nonneg) auto
  show "spent_on f db order \<le> line_costs db order"
    unfolding spent_on_def line_costs_def by (rule sum_list_mono) (use b in blast)
qed

lemma reserved_covers:
  assumes inv: "po_inv E db" and s: "spent_ok E f db" and p: "p \<in> set (od_orders db)" "in_period store period p"
    and b: "b \<in> set (od_budgets db)" "budget_of store period b"
  shows "line_costs db (pu_id p) - spent_on f db (pu_id p) \<le> bg_reserved b"
proof -
  let ?g = "\<lambda>p. if in_period store period p then pu_total p - spent_on f db (pu_id p) else 0"
  have l: "lines_spent f db" "totals_ok db" "lines_ok db" using inv s by (simp_all add: spent_ok_def po_inv_def)
  have n: "0 \<le> ?g x" if "x \<in> set (od_orders db)" for x
  proof (cases "in_period store period x")
    case True
    then have "pu_confirmed x \<noteq> None" by (auto simp: in_period_def split: option.splits)
    with that l(2) have "pu_total x = line_costs db (pu_id x)" by (simp add: totals_ok_def)
    then show ?thesis using spent_on_bounds(2) [OF l(1,3), of "pu_id x"] by simp
  qed simp
  have "bg_reserved b = period_total db store period - period_spent f db store period"
    using inv s b by (auto simp: po_inv_def books_ok_def spent_ok_def budget_of_def)
  also have "\<dots> = sum_list (map ?g (od_orders db))"
    unfolding period_total_def period_spent_def
    by (subst sum_list_subtractf [symmetric], rule arg_cong [where f = sum_list], rule map_cong) auto
  finally have r: "bg_reserved b = sum_list (map ?g (od_orders db))" .
  have "?g p \<in> set (map ?g (od_orders db))" unfolding set_map using p(1) by (rule imageI)
  moreover have "0 \<le> y" if "y \<in> set (map ?g (od_orders db))" for y
    using that n unfolding set_map by blast
  ultimately have "?g p \<le> sum_list (map ?g (od_orders db))"
    using member_le_sum_list [of "?g p" "map ?g (od_orders db)"] by blast
  moreover have "pu_total p = line_costs db (pu_id p)"
    using p l(2) by (auto simp: totals_ok_def in_period_def split: option.splits)
  ultimately show ?thesis using p(2) r by simp
qed

section \<open>A receipt\<close>

lemma sum_list_change_fun:
  fixes f :: "string \<Rightarrow> int"
  assumes "distinct (map k xs)" "x \<in> set xs"
  shows "sum_list (map (\<lambda>y. (f(k x := f (k x) + d)) (k y)) xs) = sum_list (map (\<lambda>y. f (k y)) xs) + d"
  using assms
proof (induction xs)
  case Nil
  then show ?case by simp
next
  case (Cons y xs)
  show ?case
  proof (cases "y = x")
    case True
    have "map (\<lambda>y. (f(k x := f (k x) + d)) (k y)) xs = map (\<lambda>y. f (k y)) xs"
      using Cons.prems True by (intro map_cong) (auto simp: rev_image_eqI)
    with True show ?thesis by (simp only: list.map sum_list.Cons) simp
  next
    case False
    with Cons.prems have "x \<in> set xs" "k y \<noteq> k x" by (auto simp: image_iff)
    with Cons show ?thesis by simp
  qed
qed

text \<open>After a received line there are amounts that account for its cost.\<close>

definition spent_step :: "po_row \<Rightarrow> (string \<Rightarrow> int) \<times> op_db \<times> int \<Rightarrow> (string \<Rightarrow> int) \<times> op_db \<times> int \<Rightarrow> bool" where
  "spent_step p = (\<lambda>(f, db, cost) (f', db', cost').
     lines_spent f' db' \<and> spent_on f' db' (pu_id p) - spent_on f db (pu_id p) = cost' - cost \<and>
     map ol_cost (od_lines db') = map ol_cost (od_lines db) \<and>
     (\<forall>s. f' s \<noteq> f s \<longrightarrow> (\<exists>l \<in> set (lines_of db (pu_id p)). ol_id l = s)))"

lemma receive_line_spent:
  assumes r: "receive_line E store p body (db, cost) (line, lots) = Inr (db', cost')" and l: "lines_ok db" "lines_spent f db"
    and q: "\<forall>v \<in> set lots. micro (vl_quantity v)" "sum_list (map vl_quantity lots) < 10 ^ 12"
  shows "\<exists>f'. spent_step p (f, db, cost) (f', db', cost')"
proof -
  let ?q = "dec_sum (map vl_quantity lots)"
  let ?f = "\<lambda>l. l\<lparr>ol_received := dec_add (ol_received l) ?q, ol_version := ol_version l + 1\<rparr>"
  obtain x db1 where x: "order_line db (pu_id p) line = Inr x" "dec_add (ol_received x) ?q \<le> ol_ordered x"
    and t: "same_tables db db1" and db': "db' = modify_line line ?f db1"
    and c: "cost' = cost + line_total ?q (ol_unit_cost x)"
    using r by (rule receive_lineD)
  have lines: "od_lines db1 = od_lines db" using t by (simp add: same_tables_def core_def)
  have m: "x \<in> set (od_lines db)" "ol_po x = pu_id p" "ol_id x = line" using order_line_Inr [OF x(1)] by auto
  define d where "d = line_total ?q (ol_unit_cost x)"
  let ?g = "f(ol_id x := f (ol_id x) + d)"
  have mq: "micro ?q" using micro_sum [of "map vl_quantity lots"] q by simp
  have sx: "line_spent f x" "line_ok x" using l m(1) by (simp_all add: lines_spent_def lines_ok_def)
  then have mx: "micro (ol_received x)" "micro (ol_ordered x)" "small_cost (ol_unit_cost x)" by (simp_all add: line_spent_def)
  have a: "dec_add (ol_received x) ?q = ol_received x + ?q" by (rule micro_add(1) [OF mx(1) mq])
  have "ol_ordered x < 10 ^ 12"
  proof -
    obtain n where n: "ol_ordered x = of_int n * pow10 (-6)" "n < 10 ^ 18" using mx(2) by (auto simp: micro_def)
    then have "(of_int n :: rat) < 10 ^ 18" by (metis of_int_less_iff of_int_numeral of_int_power)
    then show ?thesis by (simp add: n(1) pow10_def)
  qed
  then have ma: "micro (ol_received x + ?q)" using x(2) a by (intro micro_add(2) [OF mx(1) mq]) simp
  have d0: "0 \<le> d" unfolding d_def using mq mx(3) by (intro line_total_nonneg) (simp_all add: micro_nonneg small_cost_def)
  have "f (ol_id x) + d \<le> line_total (ol_received x + ?q) (ol_unit_cost x)"
    using line_total_parts [OF mx(1) mq ma mx(3)] sx(1) by (simp add: d_def line_spent_def)
  then have sfx: "line_spent ?g (?f x)" using sx(1) ma d0 by (simp add: line_spent_def a)
  have only: "y = x" if "y \<in> set (od_lines db)" "ol_id y = line" for y
    using l(1) that m(1,3) by (metis distinct_map inj_onD lines_ok_def)
  have "line_spent ?g y" if y: "y \<in> set (od_lines db')" for y
  proof -
    obtain z where z: "z \<in> set (od_lines db)" "y = (if ol_id z = line then ?f z else z)"
      using y by (auto simp: db' modify_line_def lines)
    show ?thesis
    proof (cases "ol_id z = line")
      case True
      with only [OF z(1)] z(2) sfx show ?thesis by simp
    next
      case False
      have "line_spent f z" using l(2) z(1) by (simp add: lines_spent_def)
      with False z(2) m(3) show ?thesis by (simp add: line_spent_def)
    qed
  qed
  then have 1: "lines_spent ?g db'" by (simp add: lines_spent_def)
  have xs: "x \<in> set (lines_of db (pu_id p))" using m(1,2) by (simp add: lines_of_def)
  have ids: "map ol_id (lines_of db' (pu_id p)) = map ol_id (lines_of db (pu_id p))"
  proof -
    have "map ol_id (filter (\<lambda>l. ol_po l = pu_id p) (map (\<lambda>l. if ol_id l = line then ?f l else l) ls)) =
      map ol_id (filter (\<lambda>l. ol_po l = pu_id p) ls)" for ls by (induction ls) auto
    then show ?thesis by (simp add: lines_of_def db' modify_line_def lines)
  qed
  have "distinct (map ol_id (lines_of db (pu_id p)))"
    using l(1) by (simp add: lines_ok_def lines_of_def distinct_map_filter)
  from sum_list_change_fun [OF this xs, of f d]
  have "sum_list (map ?g (map ol_id (lines_of db (pu_id p)))) = spent_on f db (pu_id p) + d"
    by (simp add: spent_on_def comp_def del: fun_upd_apply)
  then have 2: "spent_on ?g db' (pu_id p) = spent_on f db (pu_id p) + d"
    unfolding ids [symmetric] by (simp add: spent_on_def comp_def del: fun_upd_apply)
  have 3: "map ol_cost (od_lines db') = map ol_cost (od_lines db)" by (simp add: db' modify_line_def lines)
  have "spent_step p (f, db, cost) (?g, db', cost')"
    using 1 2 3 xs by (auto simp: spent_step_def c d_def)
  then show ?thesis by blast
qed

lemma receive_lines_spent:
  assumes "efold (receive_line E store p body) s lines = Inr s'" "lines_ok (fst s)" "lines_spent f (fst s)"
    and "\<forall>(line, lots) \<in> set lines. \<forall>v \<in> set lots. 0 < vl_quantity v"
    and "\<forall>(line, lots) \<in> set lines. (\<forall>v \<in> set lots. micro (vl_quantity v)) \<and> sum_list (map vl_quantity lots) < 10 ^ 12"
  shows "\<exists>f'. spent_step p (f, s) (f', s')"
  using assms
proof (induction lines arbitrary: s f)
  case Nil
  then show ?case by (cases s) (auto simp: spent_step_def intro!: exI [of _ f])
next
  case (Cons x lines)
  obtain t where t: "receive_line E store p body s x = Inr t" "efold (receive_line E store p body) t lines = Inr s'"
    using Cons.prems(1) by (auto simp: ebind_Inr_iff)
  obtain db cost line lots db1 cost1 where s: "s = (db, cost)" "x = (line, lots)" "t = (db1, cost1)" by (metis surj_pair)
  have st: "receive_step p s t" using receive_line_step [of E store p body s line lots t] t(1) Cons.prems(2,4) by (simp add: s)
  obtain g where g: "spent_step p (f, s) (g, t)"
    using receive_line_spent [of E store p body db cost line lots db1 cost1 f] t(1) Cons.prems by (auto simp: s)
  obtain h where h: "spent_step p (g, t) (h, s')"
    using Cons.IH [OF t(2), of g] st g Cons.prems(4,5) by (auto simp: s receive_step_def spent_step_def)
  have ids: "(\<exists>l \<in> set (lines_of db1 (pu_id p)). ol_id l = i) \<longleftrightarrow> (\<exists>l \<in> set (lines_of db (pu_id p)). ol_id l = i)" for i
  proof -
    have k: "map ol_id (od_lines db1) = map ol_id (od_lines db)" "map ol_po (od_lines db1) = map ol_po (od_lines db)"
      using st by (simp_all add: s receive_step_def)
    show ?thesis
      using set_of_maps [OF k] set_of_maps [OF k [symmetric]] unfolding lines_of_def by (metis (mono_tags, lifting) mem_Collect_eq set_filter)
  qed
  have "spent_step p (f, s) (h, s')"
    using g h unfolding s by (cases s') (auto simp: spent_step_def ids, metis)
  then show ?case by blast
qed

section \<open>All requests\<close>

text \<open>The amounts depend on budgets, orders and lines only.\<close>

lemma spent_frame:
  assumes "core db' = core db" "od_serial db \<le> od_serial db'" "spent_ok E f db"
  shows "spent_ok E f db'"
proof -
  have c: "od_budgets db' = od_budgets db" "od_orders db' = od_orders db" "od_lines db' = od_lines db"
    using assms(1) by (simp_all add: core_def)
  have l: "lines_of db' o' = lines_of db o'" for o' by (simp add: lines_of_def c)
  have s: "spent_on f db' o' = spent_on f db o'" "line_costs db' o' = line_costs db o'" for o'
    by (simp_all add: spent_on_def line_costs_def l)
  have "period_spent f db' st q = period_spent f db st q" for st q unfolding period_spent_def s(1) c ..
  moreover have "\<not> drawn E db i" if "\<not> drawn E db' i" for i using that drawn_later assms(2) by blast
  ultimately show ?thesis
    using assms(3) by (simp add: spent_ok_def lines_spent_def totals_ok_def c s)
qed

lemma period_spent_cong:
  assumes "\<And>p. p \<in> set (od_orders db) \<Longrightarrow> pu_confirmed p \<noteq> None \<Longrightarrow> spent_on f' db' (pu_id p) = spent_on f db (pu_id p)"
    "od_orders db' = od_orders db"
  shows "period_spent f' db' store period = period_spent f db store period"
  unfolding period_spent_def assms(2)
  by (intro arg_cong [where f = sum_list] map_cong) (auto simp: assms(1) in_period_def split: option.splits)

lemma sum_list_zero: "\<forall>x \<in> set xs. g x = (0 :: int) \<Longrightarrow> sum_list (map g xs) = 0"
  by (induction xs) auto

text \<open>Nothing was spent on an order nothing of which arrived.\<close>

lemma untouched_spent:
  assumes "lines_spent f db" "untouched db order"
  shows "spent_on f db order = 0" "l \<in> set (lines_of db order) \<Longrightarrow> f (ol_id l) = 0"
proof -
  show *: "f (ol_id l) = 0" if "l \<in> set (lines_of db order)" for l
  proof -
    have "line_spent f l" "ol_received l = 0" using assms that by (auto simp: lines_spent_def lines_of_def untouched_def)
    then show ?thesis by (simp add: line_spent_def)
  qed
  show "spent_on f db order = 0" unfolding spent_on_def by (rule sum_list_zero) (use * in blast)
qed

text \<open>Nothing was spent in a month without a row.\<close>

lemma spent_new_budget:
  assumes "books_ok db" "find (budget_of store period) (od_budgets db) = None"
  shows "period_spent f db store period = 0"
proof -
  have n: "\<not> budget_of store period x" if "x \<in> set (od_budgets db)" for x
    using that assms(2) by (auto simp: find_None_iff)
  have "in_period store period p = False" if "p \<in> set (od_orders db)" for p
    using assms(1) n that unfolding books_ok_def in_period_def by (auto split: option.splits)
  then show ?thesis by (simp add: period_spent_def cong: map_cong)
qed

lemma ensure_spent:
  assumes inv: "books_ok db" and s: "spent_ok E f db" and e: "ensure_budget db store period = (db', r)"
  shows "spent_ok E f db'"
proof -
  note k = ensure_budget_keeps [OF e] and l = ensure_budget_lines [OF e]
  have sp: "spent_on f db' o' = spent_on f db o'" for o' by (simp add: spent_on_def l(1))
  have p: "period_spent f db' st q = period_spent f db st q" for st q unfolding period_spent_def sp k(1) ..
  have "bg_spent b = period_spent f db (bg_store b) (bg_period b)" if b: "b \<in> set (od_budgets db')" for b
  proof (cases "find (budget_of store period) (od_budgets db)")
    case (Some x)
    with e b s show ?thesis by (simp add: ensure_budget_def spent_ok_def)
  next
    case None
    then have "period_spent f db store period = 0" by (rule spent_new_budget [OF inv])
    with b s e None show ?thesis by (auto simp: ensure_budget_def Let_def spent_ok_def)
  qed
  then show ?thesis using s by (simp add: spent_ok_def lines_spent_def totals_ok_def p k l drawn_def)
qed

text \<open>Changes of orders and budgets.\<close>

lemma spent_modify:
  assumes s: "spent_ok E f db" and d: "od_orders db' = map (\<lambda>p. if pu_id p = order then g p else p) (od_orders db)"
    "od_lines db' = od_lines db" "od_serial db' = od_serial db"
    and g: "\<And>p. pu_id (g p) = pu_id p" "\<And>p. pu_store (g p) = pu_store p"
    and t: "\<And>p. p \<in> set (od_orders db) \<Longrightarrow> pu_id p = order \<Longrightarrow> pu_confirmed (g p) \<noteq> None \<Longrightarrow> pu_total (g p) = line_costs db order"
    and c: "\<And>p. p \<in> set (od_orders db) \<Longrightarrow> pu_id p = order \<Longrightarrow> pu_confirmed (g p) = pu_confirmed p \<or>
      pu_confirmed p = None \<and> spent_on f db order = 0"
    and b: "\<And>b. b \<in> set (od_budgets db') \<Longrightarrow> \<exists>b0 \<in> set (od_budgets db). bg_store b = bg_store b0 \<and> bg_period b = bg_period b0 \<and>
      bg_spent b = bg_spent b0"
  shows "spent_ok E f db'"
proof -
  have l: "lines_of db' v = lines_of db v" for v by (simp add: lines_of_def d)
  have sp: "spent_on f db' v = spent_on f db v" "line_costs db' v = line_costs db v" for v
    by (simp_all add: spent_on_def line_costs_def l)
  have "map (\<lambda>p. if in_period st q p then spent_on f db' (pu_id p) else 0) (od_orders db') =
      map (\<lambda>p. if in_period st q p then spent_on f db (pu_id p) else 0) (od_orders db)" for st q
    unfolding d(1) map_map
  proof (rule map_cong [OF refl])
    fix p assume p: "p \<in> set (od_orders db)"
    show "((\<lambda>p. if in_period st q p then spent_on f db' (pu_id p) else 0) \<circ> (\<lambda>p. if pu_id p = order then g p else p)) p =
        (if in_period st q p then spent_on f db (pu_id p) else 0)"
      using c [OF p] g by (auto simp: sp in_period_def split: option.splits)
  qed
  then have ps: "period_spent f db' st q = period_spent f db st q" for st q unfolding period_spent_def by metis
  have "pu_total p = line_costs db (pu_id p)" if p: "p \<in> set (od_orders db')" "pu_confirmed p \<noteq> None" for p
  proof -
    obtain x where x: "x \<in> set (od_orders db)" "p = (if pu_id x = order then g x else x)" using p(1) by (auto simp: d(1))
    show ?thesis
    proof (cases "pu_id x = order")
      case True
      with x t [OF x(1) True] p(2) g show ?thesis by simp
    next
      case False
      with x p(2) s show ?thesis by (simp add: spent_ok_def totals_ok_def)
    qed
  qed
  moreover have "bg_spent x = period_spent f db (bg_store x) (bg_period x)" if "x \<in> set (od_budgets db')" for x
    using b [OF that] s by (auto simp: spent_ok_def)
  ultimately show ?thesis
    using s by (simp add: spent_ok_def lines_spent_def totals_ok_def drawn_def d(2,3) ps sp)
qed

lemma spent_budgets:
  assumes "spent_ok E f db" "od_orders db' = od_orders db" "od_lines db' = od_lines db" "od_serial db' = od_serial db"
    and b: "\<And>b. b \<in> set (od_budgets db') \<Longrightarrow> \<exists>b0 \<in> set (od_budgets db). bg_store b = bg_store b0 \<and> bg_period b = bg_period b0 \<and>
      bg_spent b = bg_spent b0"
  shows "spent_ok E f db'"
  by (rule spent_modify [OF assms(1), where order = order and g = "\<lambda>p. p"])
    (use assms in \<open>simp_all add: spent_ok_def totals_ok_def\<close>)

lemma updated_budget:
  assumes "x \<in> set (update_first P g xs)"
  shows "x \<in> set xs \<or> (\<exists>y \<in> set xs. x = g y)"
  using assms by (induction xs) (auto split: if_splits)

lemma modified_orders: "od_orders (modify_order order f db) = map (\<lambda>p. if pu_id p = order then f p else p) (od_orders db)"
  by (simp add: modify_order_def)

lemma spent_claim:
  assumes "spent_ok E f db" "p \<in> set (od_orders db)"
  shows "spent_ok E f (modify_order order (\<lambda>p. p\<lparr>pu_version := pu_version p + 1\<rparr>) db)"
  using assms(1)
  by (rule spent_modify [where order = order and g = "\<lambda>p. p\<lparr>pu_version := pu_version p + 1\<rparr>"])
    (use assms(1) in \<open>auto simp: modify_order_def spent_ok_def totals_ok_def\<close>)

lemma confirm_spent:
  assumes inv: "po_inv E db" and s: "spent_ok E f db" and r: "confirm_order store order body db = Inr db'"
  shows "spent_ok E f db'"
proof -
  let ?q = "month_period (mo_date (cq_at body))"
  let ?t = "line_costs db order"
  obtain p db1 db2 b where p: "p \<in> set (od_orders db)" "pu_id p = order" "pu_store p = store" "pu_status p = Drafted"
    and db1: "db1 = modify_order order (\<lambda>p. p\<lparr>pu_version := pu_version p + 1\<rparr>) db"
    and e: "ensure_budget db1 store ?q = (db2, b)"
    and db': "db' = modify_order order
            (\<lambda>p. p\<lparr>pu_total := ?t, pu_status := Ordered, pu_confirmed := Some (cq_at body), pu_after := remaining_budget b - ?t\<rparr>)
            (modify_budget store ?q (\<lambda>b. b\<lparr>bg_reserved := bg_reserved b + ?t\<rparr>) db2)"
    using r by (rule confirm_orderD)
  note i = po_invD [OF inv] and k = ensure_budget_keeps [OF e] and l = ensure_budget_lines [OF e]
  have b1: "books_ok db1" unfolding db1 by (rule books_keep_order [OF i(1) p(1,2)]) simp_all
  have s2: "spent_ok E f db2" by (rule ensure_spent [OF b1 _ e]) (simp add: db1 spent_claim [OF s p(1)])
  have u: "untouched db order" using i(3) [OF p(1)] p(2,4) by (simp add: state_ok_def)
  have z: "spent_on f db2 order = 0"
    by (rule untouched_spent(1)) (use s2 u in \<open>simp_all add: spent_ok_def l(5) db1\<close>)
  have none: "pu_confirmed x = None" if x: "x \<in> set (od_orders db2)" "pu_id x = order" for x
  proof -
    obtain y where y: "y \<in> set (od_orders db)" "x = (if pu_id y = order then y\<lparr>pu_version := pu_version y + 1\<rparr> else y)"
      using x(1) unfolding k(1) db1 by (rule modified_orderE)
    with x(2) have yi: "pu_id y = pu_id p" unfolding p(2) by (cases "pu_id y = order") simp_all
    have "distinct (map pu_id (od_orders db))" using i(1) by (simp add: books_ok_def)
    then have "y = p" using yi y(1) p(1) by (metis distinct_map inj_onD)
    then have "pu_confirmed x = pu_confirmed p" using y(2) by (cases "pu_id y = order") simp_all
    with p(1,4) i(1) show ?thesis by (simp add: books_ok_def)
  qed
  let ?db = "modify_budget store ?q (\<lambda>b. b\<lparr>bg_reserved := bg_reserved b + ?t\<rparr>) db2"
  have s3: "spent_ok E f ?db"
    by (rule spent_budgets [OF s2]) (auto simp: modify_budget_def dest!: updated_budget)
  have sb: "spent_on f ?db order = 0" using z by (simp add: spent_on_def)
  have lc: "line_costs ?db order = ?t" by (simp add: l(2) db1)
  let ?g = "\<lambda>p. p\<lparr>pu_total := ?t, pu_status := Ordered, pu_confirmed := Some (cq_at body), pu_after := remaining_budget b - ?t\<rparr>"
  have no: "od_orders ?db = od_orders db2" by simp
  show ?thesis
    unfolding db'
  proof (rule spent_modify [OF s3, where order = order and g = ?g])
    fix x assume "x \<in> set (od_orders ?db)" "pu_id x = order"
    then show "pu_confirmed (?g x) = pu_confirmed x \<or> pu_confirmed x = None \<and> spent_on f ?db order = 0"
      using none sb unfolding no by blast
  next
    fix x assume "x \<in> set (od_budgets (modify_order order ?g ?db))"
    then show "\<exists>x0 \<in> set (od_budgets ?db). bg_store x = bg_store x0 \<and> bg_period x = bg_period x0 \<and> bg_spent x = bg_spent x0"
      unfolding modify_order_simps by blast
  qed (simp_all add: modified_orders l(2) db1)
qed

text \<open>Sums over the lines of an order depend on the columns of the lines only.\<close>

lemma lines_of_column:
  assumes "map ol_po (od_lines db') = map ol_po (od_lines db)" "map k (od_lines db') = map k (od_lines db)"
  shows "map k (lines_of db' order) = map k (lines_of db order)"
proof -
  have "map k (filter (\<lambda>l. ol_po l = order) ls) = map snd (filter (\<lambda>x. fst x = order) (zip (map ol_po ls) (map k ls)))" for ls
    by (induction ls) auto
  then show ?thesis by (simp add: lines_of_def assms)
qed

lemma spent_on_column:
  assumes "map ol_po (od_lines db') = map ol_po (od_lines db)" "map ol_id (od_lines db') = map ol_id (od_lines db)"
  shows "spent_on f db' order = spent_on f db order"
proof -
  have "map f (map ol_id (lines_of db' order)) = map f (map ol_id (lines_of db order))" using lines_of_column [OF assms] by simp
  then show ?thesis by (simp add: spent_on_def comp_def)
qed

lemma line_costs_column:
  assumes "map ol_po (od_lines db') = map ol_po (od_lines db)" "map ol_cost (od_lines db') = map ol_cost (od_lines db)"
  shows "line_costs db' order = line_costs db order"
  by (simp add: line_costs_def lines_of_column [OF assms])

lemma draft_unconfirmed:
  assumes "books_ok db" "p \<in> set (od_orders db)" "pu_status p = Drafted" "x \<in> set (od_orders db)" "pu_id x = pu_id p"
  shows "pu_confirmed x = None"
proof -
  have "distinct (map pu_id (od_orders db))" using assms(1) by (simp add: books_ok_def)
  then have "x = p" using assms(2,4,5) by (metis distinct_map inj_onD)
  then show ?thesis using assms(1-3) by (simp add: books_ok_def)
qed

subsection \<open>Change\<close>

lemma patch_line_spent:
  assumes r: "patch_line order db (line, q) = Inr db'" and s: "lines_spent f db" and u: "untouched db order" and d: "lines_ok db" and q: "micro q"
  shows "lines_spent f db'"
proof -
  let ?f = "\<lambda>l. l\<lparr>ol_ordered := q, ol_cost := line_total q (ol_unit_cost l), ol_version := ol_version l + 1\<rparr>"
  obtain x where x: "order_line db order line = Inr x" and db': "db' = modify_line line ?f db"
    using r by (auto simp: patch_line_def result_simps)
  note m = order_line_Inr [OF x]
  have "line_spent f x" using s m by (simp add: lines_spent_def)
  then have fx: "line_spent f (?f x)" using q by (simp add: line_spent_def)
  have only: "y = x" if "y \<in> set (od_lines db)" "ol_id y = line" for y
    using d that m by (metis distinct_map inj_onD lines_ok_def)
  have "line_spent f y" if y: "y \<in> set (od_lines db')" for y
  proof -
    obtain z where z: "z \<in> set (od_lines db)" "y = (if ol_id z = line then ?f z else z)"
      using y by (auto simp: db' modify_line_def)
    then show ?thesis using only [OF z(1)] fx s by (cases "ol_id z = line") (simp_all add: lines_spent_def)
  qed
  then show ?thesis by (simp add: lines_spent_def)
qed

lemma patch_lines_spent:
  assumes "efold (patch_line order) db lines = Inr db'" "lines_spent f db" "lines_ok db" "untouched db order"
    and q: "\<forall>(line, q) \<in> set lines. 0 < q" "\<forall>(line, q) \<in> set lines. micro q"
  shows "patch_step order db db' \<and> lines_spent f db'"
proof (rule efold_invariant [OF assms(1), of "\<lambda>t. patch_step order db t \<and> lines_spent f t"])
  show "patch_step order db db \<and> lines_spent f db" using assms(2-4) by (simp add: patch_step_def)
next
  fix t x t'
  assume t: "patch_step order db t \<and> lines_spent f t" "x \<in> set lines" "patch_line order t x = Inr t'"
  have x: "patch_line order t (fst x, snd x) = Inr t'" "0 < snd x" "micro (snd x)" using t(2,3) q by auto
  have ok: "lines_ok t" "untouched t order" using t(1) by (simp_all add: patch_step_def)
  have "patch_step order t t'" by (rule patch_line_step [OF x(1) ok x(2)])
  moreover have "lines_spent f t'" by (rule patch_line_spent [OF x(1) _ ok(2,1) x(3)]) (use t(1) in simp)
  ultimately show "patch_step order db t' \<and> lines_spent f t'" using t(1) by (auto simp: patch_step_def)
qed

lemma patch_spent:
  assumes inv: "po_inv E db" and s: "spent_ok E f db" and r: "patch_order today store order body db = Inr db'"
    and q: "\<forall>(line, q) \<in> set (pq_lines body). 0 < q" "\<forall>(line, q) \<in> set (pq_lines body). micro q"
  shows "spent_ok E f db'"
proof -
  obtain p db1 db2 b where p: "p \<in> set (od_orders db)" "pu_id p = order" "pu_store p = store" "pu_status p = Drafted"
    and f: "efold (patch_line order) db (pq_lines body) = Inr db1" and e: "ensure_budget db1 store (month_period today) = (db2, b)"
    and db': "db' = modify_order order (\<lambda>p. p\<lparr>pu_total := line_costs db1 order, pu_version := pu_version p + 1,
       pu_after := remaining_budget b - line_costs db1 order\<rparr>) db2"
    using r by (rule patch_orderD)
  note k = ensure_budget_keeps [OF e] and i = po_invD [OF inv]
  have u: "untouched db order" using i(3) [OF p(1)] p(2,4) by (simp add: state_ok_def)
  have "lines_spent f db" using s by (simp add: spent_ok_def)
  note patch_lines_spent [OF f this i(2) u q]
  then have st: "patch_step order db db1" "lines_spent f db1" by simp_all
  then have o1: "od_orders db1 = od_orders db" "od_budgets db1 = od_budgets db" "od_serial db1 = od_serial db"
    and other: "\<And>x. x \<noteq> order \<Longrightarrow> lines_of db1 x = lines_of db x"
    and c: "map ol_po (od_lines db1) = map ol_po (od_lines db)" "map ol_id (od_lines db1) = map ol_id (od_lines db)"
    by (simp_all add: patch_step_def)
  have n: "pu_confirmed x = None" if "x \<in> set (od_orders db)" "pu_id x = order" for x
    by (rule draft_unconfirmed [OF i(1) p(1,4)]) (use that p(2) in simp_all)
  have sp: "spent_on f db1 x = spent_on f db x" for x by (rule spent_on_column [OF c])
  have ps: "period_spent f db1 st x = period_spent f db st x" for st x unfolding period_spent_def sp o1 ..
  have "totals_ok db1"
    unfolding totals_ok_def o1
  proof (intro ballI impI)
    fix x assume x: "x \<in> set (od_orders db)" "pu_confirmed x \<noteq> None"
    then have "pu_id x \<noteq> order" using n [of x] by auto
    then show "pu_total x = line_costs db1 (pu_id x)" using s x other by (simp add: spent_ok_def totals_ok_def line_costs_def)
  qed
  then have s1: "spent_ok E f db1" using s st(2) by (simp add: spent_ok_def ps o1 drawn_def)
  have b1: "books_ok db1" using i(1) books_cong [of db1 db] o1 by simp
  have s2: "spent_ok E f db2" by (rule ensure_spent [OF b1 s1 e])
  let ?g = "\<lambda>p. p\<lparr>pu_total := line_costs db1 order, pu_version := pu_version p + 1, pu_after := remaining_budget b - line_costs db1 order\<rparr>"
  show ?thesis
    unfolding db'
  proof (rule spent_modify [OF s2, where order = order and g = ?g])
    fix x assume "x \<in> set (od_orders db2)" "pu_id x = order" "pu_confirmed (?g x) \<noteq> None"
    then show "pu_total (?g x) = line_costs db2 order" using n by (simp add: k(1) o1)
  next
    fix x assume "x \<in> set (od_budgets (modify_order order ?g db2))"
    then show "\<exists>x0 \<in> set (od_budgets db2). bg_store x = bg_store x0 \<and> bg_period x = bg_period x0 \<and> bg_spent x = bg_spent x0"
      unfolding modify_order_simps by blast
  qed (simp_all add: modified_orders)
qed

subsection \<open>Creation\<close>

lemma add_line_spent:
  assumes inv: "po_inv E db" and inj: "inj (rn_fresh E)" and o: "\<forall>p \<in> set (od_orders db). pu_id p = order \<longrightarrow> pu_status p = Drafted"
    and s: "spent_ok E f db" and q: "micro q" "small_cost (rc_unit_cost r)"
  shows "spent_ok E f (add_line E store order db (r, q))"
proof -
  define db' where "db' = add_line E store order db (r, q)"
  note i = po_invD [OF inv]
  obtain l where l: "od_lines db' = od_lines db @ [l]" "ol_id l = draw_id E db" "ol_po l = order" "ol_received l = 0"
    "ol_ordered l = q" "ol_unit_cost l = rc_unit_cost r" "ol_cost l = line_total q (rc_unit_cost r)"
    unfolding db'_def add_line_def Let_def by simp
  have k: "od_orders db' = od_orders db" "od_budgets db' = od_budgets db" "od_serial db' = Suc (od_serial db)"
    by (simp_all add: db'_def add_line_def Let_def)
  have f0: "f (ol_id l) = 0" using s draw_fresh [OF inj, of db] by (simp add: spent_ok_def l(2))
  have "line_spent f l" using q by (simp add: line_spent_def l(4-7) f0)
  then have "lines_spent f db'" using s by (simp add: lines_spent_def spent_ok_def l(1))
  moreover have lo: "lines_of db' v = lines_of db v @ (if v = order then [l] else [])" for v by (simp add: lines_of_def l(1,3))
  then have sp: "spent_on f db' v = spent_on f db v" for v by (simp add: spent_on_def f0)
  have ps: "period_spent f db' st x = period_spent f db st x" for st x unfolding period_spent_def sp k(1) ..
  have "totals_ok db'"
    unfolding totals_ok_def k(1)
  proof (intro ballI impI)
    fix x assume x: "x \<in> set (od_orders db)" "pu_confirmed x \<noteq> None"
    have "pu_confirmed x = None \<longleftrightarrow> pu_status x = Drafted" using i(1) x(1) unfolding books_ok_def by blast
    then have "pu_id x \<noteq> order" using o x by auto
    then show "pu_total x = line_costs db' (pu_id x)" using s x by (simp add: spent_ok_def totals_ok_def line_costs_def lo)
  qed
  moreover have "f v = 0" if "\<not> drawn E db' v" for v
    using that s drawn_later [of E db v db'] k(3) by (auto simp: spent_ok_def)
  ultimately have "spent_ok E f db'" using s by (simp add: spent_ok_def k ps)
  then show ?thesis by (simp add: db'_def)
qed

lemma add_lines_spent:
  assumes "po_inv E db" "inj (rn_fresh E)" "drawn E db order" "\<forall>p \<in> set (od_orders db). pu_id p = order \<longrightarrow> pu_status p = Drafted"
    and "spent_ok E f db" "\<forall>(r, q) \<in> set lines. 0 < q \<and> micro q \<and> small_cost (rc_unit_cost r)"
  shows "spent_ok E f (foldl (add_line E store order) db lines)"
  using assms
proof (induction lines arbitrary: db)
  case Nil
  then show ?case by simp
next
  case (Cons x lines)
  obtain r q where x: "x = (r, q)" by fastforce
  have q: "0 < q" "micro q" "small_cost (rc_unit_cost r)" using Cons.prems(6) by (simp_all add: x)
  have "0 \<le> rc_unit_cost r" using q(3) by (simp add: small_cost_def)
  note k = add_line_keeps [OF Cons.prems(1-4) q(1) this, of store]
  have "drawn E (add_line E store order db (r, q)) order" using Cons.prems(3) k(3) by (rule drawn_later)
  from Cons.IH [OF k(1) Cons.prems(2) this] Cons.prems(4,6) k(2) add_line_spent [OF Cons.prems(1,2,4,5) q(2,3), of store]
  show ?case by (simp add: x)
qed

lemma new_draft_spent:
  assumes s: "spent_ok E f db" and p: "pu_confirmed p = None"
  shows "spent_ok E f (db\<lparr>od_orders := od_orders db @ [p], od_serial := Suc (od_serial db)\<rparr>)"
proof -
  let ?db = "db\<lparr>od_orders := od_orders db @ [p], od_serial := Suc (od_serial db)\<rparr>"
  have l: "lines_of ?db v = lines_of db v" for v by (simp add: lines_of_def)
  have sp: "spent_on f ?db v = spent_on f db v" "line_costs ?db v = line_costs db v" for v by (simp_all add: spent_on_def line_costs_def l)
  have ps: "period_spent f ?db st x = period_spent f db st x" for st x
    unfolding period_spent_def sp by (simp add: in_period_def p)
  have "f v = 0" if "\<not> drawn E ?db v" for v
    using that s drawn_later [of E db v ?db] by (auto simp: spent_ok_def)
  then show ?thesis using s p unfolding spent_ok_def lines_spent_def totals_ok_def ps sp by simp
qed

lemma create_order_spent:
  assumes c: "create_order E today store plan remaining (db, orders) (supplier, lines) = Inr (db', orders')"
    and inv: "po_inv E db" and inj: "inj (rn_fresh E)" and s: "spent_ok E f db"
    and q: "\<forall>(r, q) \<in> set lines. 0 < q \<and> micro q \<and> small_cost (rc_unit_cost r)"
  shows "spent_ok E f db'"
proof -
  obtain p where p: "pu_id p = draw_id E db" "pu_status p = Drafted" "pu_confirmed p = None"
    and db': "db' = foldl (add_line E store (pu_id p)) (db\<lparr>od_orders := od_orders db @ [p], od_serial := Suc (od_serial db)\<rparr>) lines"
    using c unfolding create_order_def Let_def prod.case by (elim ebind_InrE) (force simp: result_simps)
  note d = new_draft_keeps [OF inv inj p]
  show ?thesis
    unfolding db' by (rule add_lines_spent [OF d(1) inj d(2,3) new_draft_spent [OF s p(3)] q])
qed

lemma create_spent:
  assumes c: "create_orders E today store body db = Inr (db', resource, response)" and inv: "po_inv E db" and inj: "inj (rn_fresh E)"
    and s: "spent_ok E f db" and col: "columns_ok db" "column_request (CreateOrders body)"
  shows "spent_ok E f db'"
proof -
  obtain plan lines db1 b orders where
    l: "emap (requested_line db store (pn_id plan)) (oq_lines body) = Inr lines"
    and e: "ensure_budget db store (month_period today) = (db1, b)"
    and f: "efold (create_order E today store plan (remaining_budget b)) (db1, []) (by_supplier lines) = Inr (db', orders)"
    using c by (rule create_ordersD)
  have "0 < snd x \<and> micro (snd x) \<and> small_cost (rc_unit_cost (fst x))" if x: "x \<in> set lines" for x
  proof -
    obtain y where y: "y \<in> set (oq_lines body)" "requested_line db store (pn_id plan) y = Inr x" using emap_in_set [OF l x] by blast
    note d = requested_lineD [OF y(2)]
    then have r: "micro (rc_quantity (fst x)) \<and> small_cost (rc_unit_cost (fst x))" using col(1) by (auto simp: columns_ok_def)
    show ?thesis
    proof (cases "snd y")
      case None
      with d r show ?thesis by simp
    next
      case (Some q)
      then have "micro q" using col(2) y(1) by (cases y) fastforce
      with Some d r show ?thesis by simp
    qed
  qed
  then have q: "\<forall>(r, q) \<in> set g. 0 < q \<and> micro q \<and> small_cost (rc_unit_cost r)" if "(supplier, g) \<in> set (by_supplier lines)" for supplier g
    using grouped_lines [OF that] by fastforce
  have i1: "po_inv E db1"
    using po_invD [OF inv] books_ensure [OF _ e] ensure_budget_lines [OF e] ensure_budget_keeps(1) [OF e] by (simp add: po_inv_def)
  have s1: "spent_ok E f db1" by (rule ensure_spent [OF po_invD(1) [OF inv] s e])
  let ?P = "\<lambda>s :: op_db \<times> public_order list. po_inv E (fst s) \<and> spent_ok E f (fst s)"
  have "?P (db', orders)"
  proof (rule efold_invariant [OF f, of ?P])
    show "?P (db1, [])" using i1 s1 by simp
  next
    fix t x t'
    assume a: "?P t" "x \<in> set (by_supplier lines)" "create_order E today store plan (remaining_budget b) t x = Inr t'"
    have r: "create_order E today store plan (remaining_budget b) (fst t, snd t) (fst x, snd x) = Inr (fst t', snd t')" using a(3) by simp
    have m: "\<forall>(r, q) \<in> set (snd x). 0 < q \<and> micro q \<and> small_cost (rc_unit_cost r)" using a(2) q [of "fst x" "snd x"] by simp
    then have m': "\<forall>(r, q) \<in> set (snd x). 0 < q \<and> 0 \<le> rc_unit_cost r" by (auto simp: small_cost_def)
    from create_order_keeps [OF r _ inj m'] create_order_spent [OF r _ inj _ m] a(1) show "?P t'" by blast
  qed
  then show ?thesis by simp
qed

subsection \<open>Receipt\<close>

lemma sum_list_only:
  fixes g :: "'a \<Rightarrow> int"
  assumes "distinct (map k xs)" "x \<in> set xs"
  shows "sum_list (map (\<lambda>y. if k y = k x then g y else 0) xs) = g x"
  using assms
proof (induction xs)
  case Nil
  then show ?case by simp
next
  case (Cons y xs)
  show ?case
  proof (cases "y = x")
    case True
    have "sum_list (map (\<lambda>y. if k y = k x then g y else 0) xs) = 0"
      by (rule sum_list_zero) (use Cons.prems True in \<open>auto simp: rev_image_eqI\<close>)
    with True show ?thesis by simp
  next
    case False
    with Cons.prems have "x \<in> set xs" "k y \<noteq> k x" by (auto simp: image_iff)
    with Cons show ?thesis by simp
  qed
qed

text \<open>The amounts of the other orders stay as they are.\<close>

lemma spent_step_other:
  assumes st: "spent_step p (f, db, cost) (f', db', cost')" "receive_step p (db, cost) (db', cost')" and l: "lines_ok db" and o: "order \<noteq> pu_id p"
  shows "spent_on f' db' order = spent_on f db order"
proof -
  have "f' (ol_id x) = f (ol_id x)" if x: "x \<in> set (lines_of db order)" for x
  proof (rule ccontr)
    assume "f' (ol_id x) \<noteq> f (ol_id x)"
    then obtain y where y: "y \<in> set (lines_of db (pu_id p))" "ol_id y = ol_id x" using st(1) by (auto simp: spent_step_def)
    have "y \<in> set (od_lines db)" "x \<in> set (od_lines db)" using x y by (simp_all add: lines_of_def)
    then have "y = x" using l y(2) by (metis distinct_map inj_onD lines_ok_def)
    then show False using x y o by (simp add: lines_of_def)
  qed
  then have "map (\<lambda>x. f' (ol_id x)) (lines_of db order) = map (\<lambda>x. f (ol_id x)) (lines_of db order)" by simp
  moreover have "lines_of db' order = lines_of db order" using st(2) o by (simp add: receive_step_def)
  ultimately show ?thesis unfolding spent_on_def by metis
qed

lemma receive_fold_spent:
  assumes f: "efold (receive_line E store p body) (db, 0) (vq_lines body) = Inr (db', cost)"
    and inv: "po_inv E db" and s: "spent_ok E f db"
    and q: "request_ok (ReceiveOrder order body)" "column_request (ReceiveOrder order body)"
  obtains f' where "spent_step p (f, db, 0) (f', db', cost)" "receive_step p (db, 0) (db', cost)"
proof -
  have l: "lines_ok db" "lines_spent f db" using inv s by (simp_all add: po_inv_def spent_ok_def)
  have "\<exists>f'. spent_step p (f, db, 0) (f', db', cost)"
    by (rule receive_lines_spent [OF f]) (use l q in simp_all)
  moreover have "receive_step p (db, 0) (db', cost)" by (rule receive_lines_step [OF f]) (use l q in simp_all)
  ultimately show thesis using that by blast
qed

text \<open>A receipt never costs more than its month has reserved.\<close>

lemma receipt_covered:
  assumes f: "efold (receive_line E store p body) (db, 0) (vq_lines body) = Inr (db', cost)"
    and inv: "po_inv E db" and s: "spent_ok E f db"
    and q: "request_ok (ReceiveOrder order body)" "column_request (ReceiveOrder order body)"
    and p: "p' \<in> set (od_orders db)" "pu_id p' = pu_id p" "in_period st period p'"
    and b: "b \<in> set (od_budgets db)" "budget_of st period b"
  shows "cost \<le> bg_reserved b"
proof -
  obtain f' where st: "spent_step p (f, db, 0) (f', db', cost)" "receive_step p (db, 0) (db', cost)"
    using f inv s q by (rule receive_fold_spent)
  have "lines_ok db'" "lines_spent f' db'" using st by (simp_all add: receive_step_def spent_step_def)
  then have "spent_on f' db' (pu_id p) \<le> line_costs db' (pu_id p)" by (intro spent_on_bounds)
  moreover have "line_costs db' (pu_id p) = line_costs db (pu_id p)"
    by (rule line_costs_column) (use st in \<open>simp_all add: receive_step_def spent_step_def\<close>)
  moreover have "spent_on f' db' (pu_id p) - spent_on f db (pu_id p) = cost" using st(1) by (simp add: spent_step_def)
  moreover have "line_costs db (pu_id p') - spent_on f db (pu_id p') \<le> bg_reserved b"
    by (rule reserved_covers [OF inv s p(1,3) b])
  ultimately show ?thesis using p(2) by simp
qed

lemma claim_keeps:
  assumes inv: "po_inv E db" and p: "p \<in> set (od_orders db)" "pu_id p = order"
  shows "po_inv E (modify_order order (\<lambda>p. p\<lparr>pu_version := pu_version p + 1\<rparr>) db)"
proof -
  note i = po_invD [OF inv]
  have "books_ok (modify_order order (\<lambda>p. p\<lparr>pu_version := pu_version p + 1\<rparr>) db)" by (rule books_keep_order [OF i(1) p]) simp_all
  moreover have "\<forall>x \<in> set (od_orders (modify_order order (\<lambda>p. p\<lparr>pu_version := pu_version p + 1\<rparr>) db)).
      state_ok (modify_order order (\<lambda>p. p\<lparr>pu_version := pu_version p + 1\<rparr>) db) x"
  proof (rule states_keep)
    fix x assume "x \<in> set (od_orders db)"
    then show "state_ok db (x\<lparr>pu_version := pu_version x + 1\<rparr>)" using i(3) [of x] state_ok_same [of "x\<lparr>pu_version := pu_version x + 1\<rparr>" x db] by simp
  qed (use i(3) in blast)
  ultimately show ?thesis using i(2,4) ids_keep_order [OF i(4)] by (simp add: po_inv_def)
qed

lemma ensure_keeps:
  assumes inv: "po_inv E db" and e: "ensure_budget db store period = (db', b)"
  shows "po_inv E db'"
  using po_invD [OF inv] books_ensure [OF _ e] ensure_budget_lines [OF e] ensure_budget_keeps(1) [OF e] by (simp add: po_inv_def)

lemma receive_spent:
  assumes inv: "po_inv E db" and s: "spent_ok E f db" and r: "receive_order E store order body db = Inr db'" and day: "keeps_day E"
    and q: "request_ok (ReceiveOrder order body)" "column_request (ReceiveOrder order body)"
  shows "\<exists>f'. spent_ok E f' db'"
proof -
  obtain p m db1 db2 b db3 cost where p: "p \<in> set (od_orders db)" "pu_id p = order" "pu_store p = store"
    "pu_status p \<in> {Ordered, PartlyReceived}" "pu_confirmed p = Some m"
    and db1: "db1 = modify_order order (\<lambda>p. p\<lparr>pu_version := pu_version p + 1\<rparr>) db"
    and e: "ensure_budget db1 store (month_period (mo_date (rn_readback E m))) = (db2, b)"
    and f: "efold (receive_line E store p body) (db2, 0) (vq_lines body) = Inr (db3, cost)" and "cost \<le> bg_reserved b"
    and db': "db' = recompute_store E store (modify_order order
       (\<lambda>p. p\<lparr>pu_status := (if fully_received db3 order then AllReceived else PartlyReceived),
              pu_received := (if fully_received db3 order then Some (vq_at body) else None)\<rparr>)
       (modify_budget store (month_period (mo_date (rn_readback E m)))
         (\<lambda>b. b\<lparr>bg_reserved := bg_reserved b - cost, bg_spent := bg_spent b + cost\<rparr>) db3))"
    using r by (rule receive_orderD)
  let ?q = "month_period (mo_date m)"
  have d: "mo_date (rn_readback E m) = mo_date m" using day by (simp add: keeps_day_def)
  note e = e [unfolded d] and db' = db' [unfolded d]
  let ?g = "\<lambda>b. b\<lparr>bg_reserved := bg_reserved b - cost, bg_spent := bg_spent b + cost\<rparr>"
  let ?f = "\<lambda>p. p\<lparr>pu_status := (if fully_received db3 order then AllReceived else PartlyReceived),
              pu_received := (if fully_received db3 order then Some (vq_at body) else None)\<rparr>"
  let ?p = "p\<lparr>pu_version := pu_version p + 1\<rparr>"
  define db5 where "db5 = modify_order order ?f (modify_budget store ?q ?g db3)"
  have i1: "po_inv E db1" unfolding db1 by (rule claim_keeps [OF inv p(1,2)])
  have i2: "po_inv E db2" by (rule ensure_keeps [OF i1 e])
  have s2: "spent_ok E f db2" by (rule ensure_spent [OF po_invD(1) [OF i1] _ e]) (simp add: db1 spent_claim [OF s p(1)])
  obtain f' where st: "spent_step p (f, db2, 0) (f', db3, cost)" "receive_step p (db2, 0) (db3, cost)"
    using f i2 s2 q by (rule receive_fold_spent)
  have t3: "od_orders db3 = od_orders db2" "od_budgets db3 = od_budgets db2" "od_serial db2 \<le> od_serial db3"
    "map ol_po (od_lines db3) = map ol_po (od_lines db2)" "map ol_cost (od_lines db3) = map ol_cost (od_lines db2)"
    using st by (simp_all add: receive_step_def spent_step_def)
  have p2: "?p \<in> set (od_orders db2)" using claimed_order [OF p(1,2)] ensure_budget_keeps(1) [OF e] by (simp add: db1)
  have l5: "od_lines db5 = od_lines db3" by (simp add: db5_def)
  have sp: "spent_on f' db5 v = spent_on f db2 v + (if v = order then cost else 0)" for v
  proof -
    have "spent_on f' db5 v = spent_on f' db3 v" by (simp add: spent_on_def lines_of_def l5)
    then show ?thesis
      using st(1) spent_step_other [OF st po_invD(2) [OF i2], of v] p(2) by (cases "v = order") (simp_all add: spent_step_def)
  qed
  have lc: "line_costs db5 v = line_costs db2 v" for v
    using line_costs_column [OF t3(4,5), of v] by (simp add: line_costs_def lines_of_def l5)
  have o5: "od_orders db5 = map (\<lambda>y. if pu_id y = order then ?f y else y) (od_orders db2)"
    unfolding db5_def modified_orders by (simp add: t3(1))
  have ps: "period_spent f' db5 s x = period_spent f db2 s x + (if in_period s x ?p then cost else 0)" for s x
  proof -
    let ?h = "\<lambda>y. if in_period s x y then spent_on f db2 (pu_id y) else 0"
    let ?c = "\<lambda>y. if in_period s x y then cost else 0"
    have "map (\<lambda>y. if in_period s x y then spent_on f' db5 (pu_id y) else 0) (od_orders db5) =
        map (\<lambda>y. ?h y + (if pu_id y = pu_id ?p then ?c y else 0)) (od_orders db2)"
      unfolding o5 map_map by (rule map_cong [OF refl]) (simp add: sp p(2) in_period_def)
    then have "period_spent f' db5 s x = sum_list (map (\<lambda>y. ?h y + (if pu_id y = pu_id ?p then ?c y else 0)) (od_orders db2))"
      unfolding period_spent_def by metis
    also have "\<dots> = sum_list (map ?h (od_orders db2)) + sum_list (map (\<lambda>y. if pu_id y = pu_id ?p then ?c y else 0) (od_orders db2))"
      by (rule sum_list_addf)
    also have "sum_list (map (\<lambda>y. if pu_id y = pu_id ?p then ?c y else 0) (od_orders db2)) = ?c ?p"
      by (rule sum_list_only [OF _ p2]) (use po_invD(1) [OF i2] in \<open>simp add: books_ok_def\<close>)
    finally show ?thesis unfolding period_spent_def .
  qed
  have d2: "distinct (map (\<lambda>b. (bg_store b, bg_period b)) (od_budgets db2))" using po_invD(1) [OF i2] by (simp add: books_ok_def)
  note fb = ensure_budget_keeps(5) [OF e]
  have rb: "b \<in> set (od_budgets db2)" "budget_of store ?q b" using fb by (auto simp: find_Some_iff)
  have inp: "in_period s x ?p \<longleftrightarrow> s = store \<and> x = ?q" for s x using p(3,5) by (auto simp: in_period_def)
  have bg: "bg_spent x = period_spent f' db5 (bg_store x) (bg_period x)" if x: "x \<in> set (od_budgets db5)" for x
  proof -
    have "x \<in> set (update_first (budget_of store ?q) ?g (od_budgets db2))" using x by (simp add: db5_def modify_budget_def t3(2))
    then have "(x \<in> set (od_budgets db2) \<and> \<not> budget_of store ?q x) \<or> x = ?g b"
      by (subst (asm) update_first_mem(2) [OF fb d2]) (auto simp: budget_of_def)
    then show ?thesis using s2 rb by (auto simp: ps inp spent_ok_def budget_of_def)
  qed
  have "totals_ok db5"
    unfolding totals_ok_def lc
  proof (intro ballI impI)
    fix x assume x: "x \<in> set (od_orders db5)" "pu_confirmed x \<noteq> None"
    obtain y where y: "y \<in> set (od_orders db2)" "x = (if pu_id y = order then ?f y else y)" using x(1) by (auto simp: o5)
    then have "pu_total x = pu_total y" "pu_id x = pu_id y" "pu_confirmed y \<noteq> None" using x(2) by (cases "pu_id y = order"; simp)+
    then show "pu_total x = line_costs db2 (pu_id x)" using s2 y(1) by (simp add: spent_ok_def totals_ok_def)
  qed
  moreover have "lines_spent f' db5" using st(1) by (simp add: lines_spent_def l5 spent_step_def)
  moreover have "f' v = 0" if v: "\<not> drawn E db5 v" for v
  proof -
    have "\<not> drawn E db2 v" using v t3(3) drawn_later [of E db2 v db5] by (auto simp: db5_def)
    moreover from this have "\<not> (\<exists>l \<in> set (lines_of db2 (pu_id p)). ol_id l = v)"
      using po_invD(4) [OF i2] by (auto simp: ids_ok_def lines_of_def)
    then have "f' v = f v" using st(1) by (auto simp: spent_step_def)
    ultimately show ?thesis using s2 by (simp add: spent_ok_def)
  qed
  ultimately have "spent_ok E f' db5" using bg by (simp add: spent_ok_def)
  then have "spent_ok E f' db'"
    using spent_frame recompute_store_tables [of db5 E store] unfolding db' db5_def same_tables_def by blast
  then show ?thesis by blast
qed

subsection \<open>Settings\<close>

lemma settings_spent:
  assumes inv: "po_inv E db" and s: "spent_ok E f db" and w: "settings_write today db store body setting_id = Inr db'"
  shows "spent_ok E f db'"
proof -
  let ?q = "month_period today"
  have o: "od_orders db' = od_orders db" "od_lines db' = od_lines db" "od_serial db' = od_serial db"
    and b: "od_budgets db' = (case find (budget_of store ?q) (od_budgets db) of
             None \<Rightarrow> od_budgets db @ [\<lparr>bg_store = store, bg_period = ?q, bg_monthly = sq_monthly body, bg_reserved = 0, bg_spent = 0\<rparr>]
           | Some _ \<Rightarrow> update_first (budget_of store ?q) (\<lambda>b. b\<lparr>bg_monthly := sq_monthly body\<rparr>) (od_budgets db))"
    using w by (auto simp: settings_write_def Let_def result_simps)
  have sp: "spent_on f db' v = spent_on f db v" for v by (simp add: spent_on_def lines_of_def o)
  have ps: "period_spent f db' st x = period_spent f db st x" for st x unfolding period_spent_def sp o(1) ..
  show ?thesis
  proof (cases "find (budget_of store ?q) (od_budgets db)")
    case None
    then have "period_spent f db store ?q = 0" by (rule spent_new_budget [OF po_invD(1) [OF inv]])
    then show ?thesis
      using s by (auto simp: spent_ok_def lines_spent_def totals_ok_def line_costs_def lines_of_def drawn_def o ps b None)
  next
    case (Some x)
    show ?thesis
      by (rule spent_budgets [OF s o]) (auto simp: b Some dest!: updated_budget)
  qed
qed

section \<open>Databases with quantities of the columns\<close>

inductive column_history :: "runtime \<Rightarrow> op_db \<Rightarrow> bool" for E where
  column_start: "od_orders db = [] \<Longrightarrow> od_lines db = [] \<Longrightarrow> distinct (map (\<lambda>b. (bg_store b, bg_period b)) (od_budgets db)) \<Longrightarrow>
    \<forall>b \<in> set (od_budgets db). bg_reserved b = 0 \<and> bg_spent b = 0 \<Longrightarrow> columns_ok db \<Longrightarrow> column_history E db"
| column_order: "column_history E db \<Longrightarrow> request_ok request \<Longrightarrow> column_request request \<Longrightarrow>
    po_write E today db store request key = Inr (db', response) \<Longrightarrow> column_history E db'"
| column_stock: "column_history E db \<Longrightarrow> inventory_write E db store corr key = Inr (db', response) \<Longrightarrow> column_history E db'"
| column_settings: "column_history E db \<Longrightarrow> settings_write today db store body setting_id = Inr db' \<Longrightarrow> column_history E db'"
| column_other: "column_history E db \<Longrightarrow> core db' = core db \<Longrightarrow> od_serial db \<le> od_serial db' \<Longrightarrow> columns_ok db' \<Longrightarrow>
    column_history E db'"

lemma columns_costs: "columns_ok db \<Longrightarrow> costs_ok db"
  by (auto simp: columns_ok_def costs_ok_def small_cost_def)

definition column_inv :: "runtime \<Rightarrow> op_db \<Rightarrow> bool" where
  "column_inv E db \<longleftrightarrow> po_inv E db \<and> columns_ok db \<and> (\<exists>f. spent_ok E f db)"

lemma same_tables_column: "same_tables db db' \<Longrightarrow> column_inv E db \<Longrightarrow> column_inv E db'"
  using spent_frame [of db' db E] core_frame(8) [of db' db E] by (auto simp: column_inv_def same_tables_def columns_ok_def)

lemma po_work_column:
  assumes w: "po_work E today store request db = Inr (db', resource, response)" and inv: "column_inv E db"
    and h: "inj (rn_fresh E)" "keeps_day E" "request_ok request" "column_request request"
  shows "column_inv E db'"
proof -
  obtain f where i: "po_inv E db" "columns_ok db" "spent_ok E f db" using inv by (auto simp: column_inv_def)
  note c = columns_costs [OF i(2)]
  have "po_inv E db'" using po_work_keeps [OF w i(1) c h(1-3)] by blast
  moreover have "columns_ok db'" using po_work_recommendations [OF w c i(1) h(1,3)] i(2) by (simp add: columns_ok_def)
  moreover have "\<exists>f. spent_ok E f db'"
  proof (cases request)
    case (CreateOrders body)
    then have "create_orders E today store body db = Inr (db', resource, response)" using w by simp
    then show ?thesis using create_spent [OF _ i(1) h(1) i(3,2)] h(4) CreateOrders by blast
  next
    case (PatchOrder order body)
    then have "patch_order today store order body db = Inr db'" using w by (simp add: changed_orderD)
    then show ?thesis using patch_spent [OF i(1,3)] h(3,4) PatchOrder by fastforce
  next
    case (ConfirmOrder order body)
    then have "confirm_order store order body db = Inr db'" using w by (simp add: changed_orderD)
    then show ?thesis using confirm_spent [OF i(1,3)] by blast
  next
    case (ReceiveOrder order body)
    then have "receive_order E store order body db = Inr db'" using w by (simp add: changed_orderD)
    then show ?thesis using receive_spent [OF i(1,3) _ h(2)] h(3,4) ReceiveOrder by blast
  qed
  ultimately show ?thesis by (simp add: column_inv_def)
qed

lemma column_history_inv:
  assumes "column_history E db" "inj (rn_fresh E)" "keeps_day E"
  shows "column_inv E db"
  using assms(1)
proof induction
  case (column_start db)
  then have "po_inv E db" "spent_ok E (\<lambda>_. 0) db"
    by (auto simp: po_inv_def books_ok_def lines_ok_def ids_ok_def period_total_def spent_ok_def lines_spent_def totals_ok_def period_spent_def)
  with column_start show ?case by (auto simp: column_inv_def)
next
  case (column_order db request today store key db' response)
  from po_writeD [OF column_order.hyps(4)] show ?case
    using column_order.IH same_tables_column po_work_column [OF _ _ assms(2,3) column_order.hyps(2,3)] by metis
next
  case (column_stock db store corr key db' response)
  then show ?case using same_tables_column inventory_write_tables by blast
next
  case (column_settings db today store body setting_id db')
  then obtain f where i: "po_inv E db" "columns_ok db" "spent_ok E f db" by (auto simp: column_inv_def)
  note w = column_settings.hyps(2)
  show ?case
    using settings_keep [OF i(1) w] settings_spent [OF i(1,3) w] i(2) by (auto simp: column_inv_def columns_ok_def)
next
  case (column_other db db')
  then show ?case using core_frame(8) [of db' db E] spent_frame [of db' db E] by (auto simp: column_inv_def)
qed

text \<open>C7: a delivery never fails for want of budget. In every database that requests can produce with quantities of
  the database columns, the cost of what a receipt brings is at most what the month of the confirmation still
  reserves, so the check \<open>received_cost > bp.reserved_budget\<close> of \<open>po\<close> never stops a receipt.\<close>

theorem reservation_covers_receipts:
  assumes "column_history E db" "inj (rn_fresh E)" "keeps_day E"
    and "request_ok (ReceiveOrder order body)" "column_request (ReceiveOrder order body)"
    and "find_order db store order = Inr p" "pu_confirmed p = Some m"
    and "claim_version [Ordered, PartlyReceived] store order (vq_version body) db = Inr db1"
    and "ensure_budget db1 store (month_period (mo_date (rn_readback E m))) = (db2, b)"
    and "efold (receive_line E store p body) (db2, 0) (vq_lines body) = Inr (db3, cost)"
  shows "cost \<le> bg_reserved b"
proof -
  let ?p = "p\<lparr>pu_version := pu_version p + 1\<rparr>"
  obtain f where i: "po_inv E db" "spent_ok E f db" using column_history_inv [OF assms(1-3)] by (auto simp: column_inv_def)
  have p: "p \<in> set (od_orders db)" "pu_id p = order" "pu_store p = store" using find_order_Inr [OF assms(6)] by simp_all
  note db1 = claim_versionD [OF assms(8)]
  have i1: "po_inv E db1" unfolding db1 by (rule claim_keeps [OF i(1) p(1,2)])
  have s1: "spent_ok E f db1" unfolding db1 by (rule spent_claim [OF i(2) p(1)])
  have "?p \<in> set (od_orders db2)" using claimed_order [OF p(1,2)] ensure_budget_keeps(1) [OF assms(9)] by (simp add: db1)
  moreover have "b \<in> set (od_budgets db2)" "budget_of store (month_period (mo_date (rn_readback E m))) b"
    using ensure_budget_keeps(5) [OF assms(9)] by (auto simp: find_Some_iff)
  moreover have "in_period store (month_period (mo_date (rn_readback E m))) ?p"
    using p(3) assms(3,7) by (simp add: in_period_def keeps_day_def)
  ultimately show ?thesis
    using receipt_covered [OF assms(10) ensure_keeps [OF i1 assms(9)] ensure_spent [OF po_invD(1) [OF i1] s1 assms(9)] assms(4,5)]
    by simp
qed

end
