(* ===== verification/Op_Witness.thy ===== *)
theory Op_Witness
  imports Op_Claims Op_Reserve
begin

text \<open>
  The theorems on purchase orders at a concrete shop: an order of one kilogram at 15 is created from a plan,
  confirmed and received in two halves; then its stock is counted.
\<close>

section \<open>A shop\<close>


definition shop_runtime :: runtime where
  "shop_runtime = \<lparr>rn_fresh = (\<lambda>n. CHR ''i'' # replicate n (CHR ''x'')),
     rn_hash = \<lparr>hs_sha256 = (\<lambda>s. s), hs_float = (\<lambda>_. ''0''), hs_instant = (\<lambda>_. ''0'')\<rparr>,
     rn_nfc = (\<lambda>s. str_lower (str_strip s)), rn_lookup = (\<lambda>s. s), rn_readback = (\<lambda>m. m\<lparr>mo_offset := None\<rparr>)\<rparr>"

definition shop_db :: op_db where
  "shop_db = \<lparr>od_stores = [''shop''],
     od_settings = [\<lparr>sg_store = ''shop'', sg_monthly = 1000, sg_horizon = 7, sg_strategy = ''balanced'', sg_version = 1\<rparr>],
     od_budgets = [], od_plans = [\<lparr>pn_id = ''p1'', pn_store = ''shop'', pn_status = ''completed'', pn_engine = ''ready'', pn_strategy = ''balanced''\<rparr>],
     od_recommendations = [\<lparr>rc_id = ''r1'', rc_plan = ''p1'', rc_store = ''shop'', rc_ingredient = ''flour'', rc_unit = ''kg'', rc_quantity = 1,
       rc_unit_cost = 15, rc_supplier = ''mill'', rc_moq = 0, rc_pack = 1 / 2, rc_lead = 1\<rparr>],
     od_orders = [], od_lines = [], od_lots = [], od_movements = [], od_receipts = [], od_terms = [], od_ingredients = [],
     od_suppliers = [], od_idem = [], od_audit = [], od_serial = 0\<rparr>"

definition create_request :: po_request where
  "create_request = CreateOrders \<lparr>oq_plan = ''p1'', oq_lines = [(''r1'', None)], oq_dump = PNone\<rparr>"

definition noon :: "date \<Rightarrow> moment" where
  "noon d = \<lparr>mo_date = d, mo_time = 12, mo_offset = Some 0\<rparr>"

definition shop_confirm :: confirm_request where
  "shop_confirm = \<lparr>cq_version = 1, cq_at = noon 738000, cq_dump = PNone\<rparr>"

definition half_request :: "int \<Rightarrow> receive_request" where
  "half_request version = \<lparr>vq_version = version, vq_at = noon 738001, vq_reference = ''d'',
     vq_lines = [(''ix'', [\<lparr>vl_quantity = 1 / 2, vl_expiry = None, vl_code = None\<rparr>])], vq_dump = PNone\<rparr>"


section \<open>Its history\<close>

lemma po_write_plain:
  assumes "store \<in> set (od_stores db)" "po_work E today store request db = Inr (db', resource, response)"
  shows "po_write E today db store request None =
    Inr (db'\<lparr>od_audit := od_audit db' @ [\<lparr>au_store = store, au_action = po_action request, au_type = ''purchase_order'', au_resource = resource\<rparr>]\<rparr>, response)"
proof -
  have "db\<lparr>od_idem := od_idem db\<rparr> = db" by simp
  then show ?thesis
    using assms by (simp add: po_write_def require_store_def with_idempotency_def finish_op_def non_empty_def)
qed

lemma months: "month_period 738000 = ''2021-07''"
  by (simp add: month_period_def ymd_of_def Let_def month_and_day_def days_in_month_def pad4_def pad2_def days_before_month_def) code_simp

lemma decs: "dec_mod 1 (1/2) = Inr 0" "dec_mul 1 15 = 15" "dec_mul (1/2) 15 = 15/2" "dec_add 0 (1/2) = 1/2" "dec_add (1/2) (1/2) = 1" 
   "dec_int 15 = 15" "dec_int (15/2) = 7"
  by code_simp+

definition shop_order :: "po_state \<Rightarrow> int \<Rightarrow> moment option \<Rightarrow> moment option \<Rightarrow> po_row" where
  "shop_order status version confirmed received = \<lparr>pu_id = ''i'', pu_store = ''shop'', pu_plan = ''p1'', pu_supplier = ''mill'',
     pu_order_date = 738000, pu_delivery = 738001, pu_strategy = ''balanced'', pu_status = status, pu_total = 15, pu_after = 985,
     pu_version = version, pu_confirmed = confirmed, pu_received = received\<rparr>"

definition shop_line :: "dec \<Rightarrow> int \<Rightarrow> po_line" where
  "shop_line received version = \<lparr>ol_id = ''ix'', ol_po = ''i'', ol_recommendation = ''r1'', ol_ingredient = ''flour'', ol_ordered = 1,
     ol_received = received, ol_unit = ''kg'', ol_unit_cost = 15, ol_cost = 15, ol_moq = 0, ol_pack = 1 / 2, ol_shelf = None,
     ol_version = version\<rparr>"

definition shop_budget :: "int \<Rightarrow> int \<Rightarrow> budget_row" where
  "shop_budget reserved spent = \<lparr>bg_store = ''shop'', bg_period = ''2021-07'', bg_monthly = 1000, bg_reserved = reserved, bg_spent = spent\<rparr>"

definition shop_lot :: "string \<Rightarrow> lot_row" where
  "shop_lot lot = \<lparr>il_id = lot, il_store = ''shop'', il_ingredient = ''flour'', il_supplier = Some ''mill'', il_batch = None,
     il_received = Some 738001, il_expiry = None, il_initial = 1 / 2, il_unit = ''kg'', il_cost = Some 15, il_version = 1, il_snapshot = None\<rparr>"

definition shop_movement :: "string \<Rightarrow> string \<Rightarrow> movement_row" where
  "shop_movement mid lot = \<lparr>mv_id = mid, mv_store = ''shop'', mv_lot = lot, mv_type = ''receipt'', mv_delta = 1 / 2, mv_unit = ''kg'',
     mv_at = noon 738001, mv_source = ''purchase_order'', mv_source_id = Some ''i'', mv_note = None\<rparr>"

definition shop_receipt :: "string \<Rightarrow> string \<Rightarrow> receipt_row" where
  "shop_receipt rid lot = \<lparr>rp_id = rid, rp_store = ''shop'', rp_ingredient = ''flour'', rp_supplier = Some ''mill'', rp_date = 738001,
     rp_quantity = 1 / 2, rp_unit = ''kg'', rp_unit_cost = Some 15, rp_expiry = None, rp_batch = None, rp_source = ''purchase_order'',
     rp_external = Some (''d:ix:'' @ lot), rp_effect = ''applied'', rp_po = Some ''i'', rp_line = Some ''ix''\<rparr>"

definition shop_audit :: "string \<Rightarrow> audit_row" where
  "shop_audit action = \<lparr>au_store = ''shop'', au_action = action, au_type = ''purchase_order'', au_resource = ''i''\<rparr>"

definition created_db :: op_db where
  "created_db = shop_db\<lparr>od_budgets := [shop_budget 0 0], od_orders := [shop_order Drafted 1 None None], od_lines := [shop_line 0 1],
     od_serial := 2, od_audit := [shop_audit ''purchase_order_create'']\<rparr>"

definition confirmed_db :: op_db where
  "confirmed_db = created_db\<lparr>od_budgets := [shop_budget 15 0], od_orders := [shop_order Ordered 2 (Some (noon 738000)) None],
     od_audit := [shop_audit ''purchase_order_create'', shop_audit ''purchase_order_confirm'']\<rparr>"

definition half_db :: op_db where
  "half_db = confirmed_db\<lparr>od_budgets := [shop_budget 8 7], od_orders := [shop_order PartlyReceived 3 (Some (noon 738000)) None],
     od_lines := [shop_line (1 / 2) 2], od_lots := [shop_lot ''ixx''], od_movements := [shop_movement ''ixxx'' ''ixx''],
     od_receipts := [shop_receipt ''ixxxx'' ''ixx''], od_serial := 5,
     od_audit := [shop_audit ''purchase_order_create'', shop_audit ''purchase_order_confirm'', shop_audit ''purchase_order_receive'']\<rparr>"

definition full_db :: op_db where
  "full_db = half_db\<lparr>od_budgets := [shop_budget 1 14], od_orders := [shop_order AllReceived 4 (Some (noon 738000)) (Some (noon 738001))],
     od_lines := [shop_line 1 3], od_lots := [shop_lot ''ixx'', shop_lot ''ixxxxx''],
     od_movements := [shop_movement ''ixxx'' ''ixx'', shop_movement ''ixxxxxx'' ''ixxxxx''],
     od_receipts := [shop_receipt ''ixxxx'' ''ixx'', shop_receipt ''ixxxxxxx'' ''ixxxxx''], od_serial := 8,
     od_audit := [shop_audit ''purchase_order_create'', shop_audit ''purchase_order_confirm'', shop_audit ''purchase_order_receive'',
       shop_audit ''purchase_order_receive'']\<rparr>"

lemmas shop_defs = shop_db_def shop_budget_def shop_order_def shop_line_def shop_lot_def shop_movement_def shop_receipt_def
  shop_audit_def shop_runtime_def noon_def

lemmas eval_defs = ensure_budget_def remaining_budget_def draw_id_def po_public_def lines_of_def resolve_inbound_expiry_def
  line_total_def line_costs_def Let_def months decs changed_order_def order_to_change_def find_order_def claim_version_def
  modify_order_def modify_budget_def modify_line_def budget_of_def

lemma created: "\<exists>r. po_write shop_runtime 738000 shop_db ''shop'' create_request None = Inr (created_db, r)"
proof -
  have "\<exists>r. po_work shop_runtime 738000 ''shop'' create_request shop_db =
      Inr (created_db\<lparr>od_audit := []\<rparr>, ''i'', r)"
    by (simp add: create_request_def create_orders_def requested_line_def check_quantity_def by_supplier_def group_by_def
      dict_append_def create_order_def add_days_def date_max_def date_min_def add_line_def join_comma_def created_db_def eval_defs shop_defs)
  then show ?thesis
    using po_write_plain [of "''shop''" shop_db] by (auto simp: created_db_def shop_audit_def shop_db_def create_request_def)
qed

lemma confirmed:
  "\<exists>r. po_write shop_runtime 738000 created_db ''shop'' (ConfirmOrder ''i'' shop_confirm) None = Inr (confirmed_db, r)"
proof -
  have "\<exists>r. po_work shop_runtime 738000 ''shop'' (ConfirmOrder ''i'' shop_confirm) created_db =
      Inr (confirmed_db\<lparr>od_audit := od_audit created_db\<rparr>, ''i'', r)"
    by (simp add: confirm_order_def shop_confirm_def confirmed_db_def created_db_def eval_defs shop_defs)
  then show ?thesis
    using po_write_plain [of "''shop''" created_db] by (auto simp: created_db_def confirmed_db_def shop_audit_def shop_db_def)
qed

lemmas receive_defs = receive_order_def half_request_def earlier_def receive_line_def receive_lot_def delivery_lot_def flush_def
  identifier_of_def order_line_def dec_sum_def fully_received_def recompute_store_def recompute_expiry_def

lemma half_received:
  "\<exists>r. po_write shop_runtime 738000 confirmed_db ''shop'' (ReceiveOrder ''i'' (half_request 2)) None = Inr (half_db, r)"
proof -
  have "\<exists>r. po_work shop_runtime 738000 ''shop'' (ReceiveOrder ''i'' (half_request 2)) confirmed_db =
      Inr (half_db\<lparr>od_audit := od_audit confirmed_db\<rparr>, ''i'', r)"
    by (simp add: receive_defs half_db_def confirmed_db_def created_db_def eval_defs shop_defs numeral_eq_Suc)
  then show ?thesis
    using po_write_plain [of "''shop''" confirmed_db] by (auto simp: half_db_def created_db_def confirmed_db_def shop_audit_def shop_db_def)
qed

lemma fully_received:
  "\<exists>r. po_write shop_runtime 738000 half_db ''shop'' (ReceiveOrder ''i'' (half_request 3)) None = Inr (full_db, r)"
proof -
  have "\<exists>r. po_work shop_runtime 738000 ''shop'' (ReceiveOrder ''i'' (half_request 3)) half_db =
      Inr (full_db\<lparr>od_audit := od_audit half_db\<rparr>, ''i'', r)"
    by (simp add: receive_defs full_db_def half_db_def confirmed_db_def created_db_def eval_defs shop_defs numeral_eq_Suc)
  then show ?thesis
    using po_write_plain [of "''shop''" half_db] by (auto simp: full_db_def half_db_def created_db_def confirmed_db_def shop_audit_def shop_db_def)
qed

section \<open>The theorems on this history\<close>

lemma shop_inj: "inj (rn_fresh shop_runtime)"
  by (rule injI) (simp add: shop_runtime_def)

lemma shop_keeps_day: "keeps_day shop_runtime"
  by (simp add: keeps_day_def shop_runtime_def)

lemma created_history: "op_history shop_runtime created_db"
proof -
  have "op_history shop_runtime shop_db"
    by (rule op_start) (simp_all add: shop_db_def costs_ok_def)
  moreover have "request_ok create_request" by (simp add: create_request_def)
  ultimately show ?thesis using created op_order by metis
qed

lemma full_history: "op_history shop_runtime full_db"
proof -
  have r: "request_ok (ReceiveOrder ''i'' (half_request v))" "request_ok (ConfirmOrder ''i'' shop_confirm)" for v
    by (simp_all add: half_request_def)
  have "op_history shop_runtime confirmed_db" using created_history r(2) confirmed op_order by metis
  then have "op_history shop_runtime half_db" using r(1) half_received op_order by metis
  then show ?thesis using r(1) fully_received op_order by metis
qed

lemma full_rows: "od_budgets full_db = [shop_budget 1 14]" "od_lines full_db = [shop_line 1 3]"
  "od_orders full_db = [shop_order AllReceived 4 (Some (noon 738000)) (Some (noon 738001))]"
  by (simp_all add: full_db_def half_db_def confirmed_db_def created_db_def)

text \<open>C35: receiving an order in parts leaks budget. What a receipt costs is truncated per receipt, so after an
  order has arrived completely in two halves a part of the month's budget stays reserved although no order
  is open: it can neither be spent nor released by any further receipt.\<close>

theorem partial_receipts_leak_budget:
  "\<exists>E db p m b. op_history E db \<and> inj (rn_fresh E) \<and> keeps_day E \<and> od_orders db = [p] \<and> pu_status p = AllReceived \<and>
     pu_confirmed p = Some m \<and> od_budgets db = [b] \<and> budget_of (pu_store p) (month_period (mo_date m)) b \<and>
     0 < bg_reserved b \<and> bg_spent b < pu_total p"
  by (rule exI [of _ shop_runtime], rule exI [of _ full_db])
    (simp add: full_history shop_inj shop_keeps_day full_rows shop_order_def shop_budget_def budget_of_def noon_def months)

theorem budget_books_balance_witness: "1 + 14 = period_total full_db ''shop'' ''2021-07''"
  using budget_books_balance [OF full_history shop_inj shop_keeps_day, of "shop_budget 1 14"]
  by (simp add: full_rows shop_budget_def)

theorem receipts_within_orders_witness: "ol_received (shop_line 1 3) = ol_ordered (shop_line 1 3)"
  using receipts_within_orders [OF full_history shop_inj shop_keeps_day,
      of "shop_order AllReceived 4 (Some (noon 738000)) (Some (noon 738001))"]
  by (simp add: full_rows shop_order_def shop_line_def lines_of_def)

theorem confirmation_reserves_its_total_witness:
  "find (budget_of ''shop'' ''2021-07'') (od_budgets confirmed_db) = Some (shop_budget 15 0)"
proof -
  have "od_budgets confirmed_db \<noteq> od_budgets created_db" by (simp add: confirmed_db_def created_db_def shop_budget_def)
  then have "confirmed_db \<noteq> created_db" by metis
  from confirmed confirmation_reserves_its_total [OF created_history shop_inj shop_keeps_day _ this, of 738000 "''shop''" "''i''" shop_confirm None]
  show ?thesis
    by (auto simp: shop_confirm_def noon_def months created_db_def confirmed_db_def shop_budget_def ensure_budget_def budget_of_def
      line_costs_def lines_of_def shop_line_def)
qed









lemma shop_columns: "columns_ok shop_db"
proof -
  have "micro 1" unfolding micro_def by (rule exI [of _ "10 ^ 6"]) (simp add: pow10_def)
  then show ?thesis by (simp add: columns_ok_def shop_db_def small_cost_def)
qed

lemma half_columns: "column_request (ReceiveOrder ''i'' (half_request v))"
proof -
  have "micro (1 / 2)" unfolding micro_def by (rule exI [of _ "5 * 10 ^ 5"]) (simp add: pow10_def)
  then show ?thesis by (simp add: half_request_def)
qed

lemma half_history: "column_history shop_runtime half_db"
proof -
  have "column_history shop_runtime shop_db"
    by (rule column_start [OF _ _ _ _ shop_columns]) (simp_all add: shop_db_def)
  moreover have "request_ok create_request" "column_request create_request" by (simp_all add: create_request_def)
  ultimately have "column_history shop_runtime created_db" using created column_order by metis
  moreover have "request_ok (ConfirmOrder ''i'' shop_confirm)" "column_request (ConfirmOrder ''i'' shop_confirm)" by simp_all
  ultimately have "column_history shop_runtime confirmed_db" using confirmed column_order by metis
  moreover have "request_ok (ReceiveOrder ''i'' (half_request 2))" by (simp add: half_request_def)
  ultimately show ?thesis using half_columns half_received column_order by metis
qed

definition half_claimed :: op_db where
  "half_claimed = half_db\<lparr>od_orders := [shop_order PartlyReceived 4 (Some (noon 738000)) None]\<rparr>"

lemma half_fold:
  "\<exists>db3. efold (receive_line shop_runtime ''shop'' (shop_order PartlyReceived 3 (Some (noon 738000)) None) (half_request 3)) (half_claimed, 0)
    (vq_lines (half_request 3)) = Inr (db3, 7)"
  by (simp add: receive_defs half_claimed_def half_db_def confirmed_db_def created_db_def eval_defs shop_defs numeral_eq_Suc)

theorem reservation_covers_receipts_witness: "(7 :: int) \<le> bg_reserved (shop_budget 8 7)"
proof -
  let ?p = "shop_order PartlyReceived 3 (Some (noon 738000)) None"
  obtain db3 where f: "efold (receive_line shop_runtime ''shop'' ?p (half_request 3)) (half_claimed, 0) (vq_lines (half_request 3)) = Inr (db3, 7)"
    using half_fold by blast
  have r: "request_ok (ReceiveOrder ''i'' (half_request 3))" by (simp add: half_request_def)
  have o: "od_orders half_db = [?p]" "od_budgets half_db = [shop_budget 8 7]" by (simp_all add: half_db_def)
  have p: "find_order half_db ''shop'' ''i'' = Inr ?p" by (simp add: find_order_def o shop_order_def)
  have c: "claim_version [Ordered, PartlyReceived] ''shop'' ''i'' (vq_version (half_request 3)) half_db = Inr half_claimed"
    by (simp add: claim_version_def half_request_def o modify_order_def half_claimed_def shop_order_def)
  have m: "pu_confirmed ?p = Some (noon 738000)" by (simp add: shop_order_def)
  have e: "ensure_budget half_claimed ''shop'' (month_period (mo_date (rn_readback shop_runtime (noon 738000)))) = (half_claimed, shop_budget 8 7)"
    by (simp add: ensure_budget_def half_claimed_def o shop_runtime_def noon_def months shop_budget_def budget_of_def)
  show ?thesis by (rule reservation_covers_receipts [OF half_history shop_inj shop_keeps_day r half_columns p m c e f])
qed



end
