(* ===== verification/Recipe_Versions.thy ===== *)
theory Recipe_Versions
  imports Operations
begin

text \<open>
  The versioned recipes of the application: \<open>core/recipe_versions.py\<close>, \<open>services/recipe_service.py\<close>,
  \<open>repositories/recipes.py\<close> and the recipe endpoints of \<open>services/catalog_service.py\<close>, on the tables of
  \<open>models/business.py\<close>. Each product has its own sequence of versions, one after the other in time.
\<close>

section \<open>The tables\<close>

record menu_product =
  mp_id :: string
  mp_store :: string
  mp_combo :: bool

record menu_bundle =
  mb_store :: string
  mb_combo :: string
  mb_component :: string
  mb_quantity :: int
  mb_position :: int

record recipe_version_row =
  rw_id :: string
  rw_store :: string
  rw_product :: string
  rw_version :: int
  rw_from :: date
  rw_to :: "date option"
  rw_yield :: dec
  rw_yield_unit :: "string option"
  rw_loss :: dec
  rw_hash :: string
  rw_source :: string

record recipe_line_row =
  rl_id :: string
  rl_recipe :: string
  rl_ingredient :: string
  rl_quantity :: dec
  rl_unit :: string

record sale_row =
  sw_id :: string
  sw_store :: string
  sw_date :: date
  sw_product :: string
  sw_quantity :: dec
  sw_price :: "int option"
  sw_promotion :: bool
  sw_source :: string
  sw_external :: "string option"

record usage_row =
  uw_id :: string
  uw_store :: string
  uw_date :: date
  uw_ingredient :: string
  uw_quantity :: dec
  uw_unit :: string
  uw_source :: string

record recipe_response =
  ro_store :: string
  ro_product :: string
  ro_version :: "recipe_version_row option"
  ro_lines :: "(recipe_line_row \<times> ingredient_row) list"

record sales_response =
  so_batch :: string
  so_created :: nat
  so_unchanged :: nat
  so_records :: "(string \<times> string \<times> bool) list"
  so_warnings :: "(string \<times> date) list"

datatype menu_response = RecipeStored recipe_response | SalesStored sales_response

record menu_db =
  mn_stores :: "string list"
  mn_products :: "menu_product list"
  mn_bundles :: "menu_bundle list"
  mn_ingredients :: "ingredient_row list"
  mn_versions :: "recipe_version_row list"
  mn_lines :: "recipe_line_row list"
  mn_sales :: "sale_row list"
  mn_usage :: "usage_row list"
  mn_idem :: "menu_response idem_record list"
  mn_audit :: "audit_row list"
  mn_serial :: nat

definition find_product :: "menu_db \<Rightarrow> string \<Rightarrow> string \<Rightarrow> menu_product option" where
  "find_product db store product = find (\<lambda>p. mp_store p = store \<and> mp_id p = product) (mn_products db)"

definition store_ingredient :: "menu_db \<Rightarrow> string \<Rightarrow> string \<Rightarrow> ingredient_row option" where
  "store_ingredient db store ingredient = find (\<lambda>g. ig_store g = store \<and> ig_id g = ingredient) (mn_ingredients db)"

section \<open>Version numbers\<close>

text \<open>The pattern \<open>(?:v)?([0-9]+)\<close>, case ignored; \<open>int\<close> refuses more than 4300 digits.\<close>

definition version_digits :: "string \<Rightarrow> string option" where
  "version_digits text =
     (let ds = (case text of [] \<Rightarrow> [] | c # cs \<Rightarrow> if c \<in> {CHR ''v'', CHR ''V''} then cs else text) in
      if ds \<noteq> [] \<and> list_all (\<lambda>c. c \<in> set ''0123456789'') ds then Some ds else None)"

definition normalize_recipe_version :: "pyval \<Rightarrow> int option app" where
  "normalize_recipe_version value =
     (let positive = (\<lambda>n. ebind (raise_if (n < 1) validation_error) (\<lambda>_. Inr (Some n))) in
      case value of
        PNone \<Rightarrow> Inr None
      | PStr s \<Rightarrow>
          let text = str_strip s in
          if text = [] then Inr None
          else (case version_digits text of
              None \<Rightarrow> Inl validation_error
            | Some ds \<Rightarrow>
                ebind (raise_if (4300 < length ds) (CoreFailure (exn PyValueError []))) (\<lambda>_. positive (int (read_digits ds))))
      | PInt n \<Rightarrow> positive n
      | _ \<Rightarrow> Inl validation_error)"

section \<open>Versions in time\<close>

definition recipe_versions :: "menu_db \<Rightarrow> string \<Rightarrow> string \<Rightarrow> recipe_version_row list" where
  "recipe_versions db store product =
     sort_key rw_version (filter (\<lambda>v. rw_store v = store \<and> rw_product v = product) (mn_versions db))"

definition version_covers :: "date \<Rightarrow> recipe_version_row \<Rightarrow> bool" where
  "version_covers day v \<longleftrightarrow> rw_from v \<le> day \<and> (case rw_to v of None \<Rightarrow> True | Some e \<Rightarrow> day \<le> e)"

text \<open>\<open>get_active\<close>: of the versions that cover a day the one with the highest number.\<close>

definition active_version :: "menu_db \<Rightarrow> string \<Rightarrow> string \<Rightarrow> date \<Rightarrow> recipe_version_row option" where
  "active_version db store product day = find (version_covers day) (rev (recipe_versions db store product))"

definition version_lines :: "menu_db \<Rightarrow> recipe_version_row \<Rightarrow> recipe_line_row list" where
  "version_lines db v = filter (\<lambda>l. rl_recipe l = rw_id v) (mn_lines db)"

section \<open>A new version\<close>

text \<open>A quantity of a request comes with the text of its \<open>Decimal\<close> where the code hashes that text.\<close>

record version_request =
  wr_product :: string
  wr_from :: date
  wr_lines :: "(string \<times> dec \<times> string) list"
  wr_source :: string
  wr_yield :: dec
  wr_yield_text :: string
  wr_loss :: dec
  wr_loss_text :: string
  wr_yield_unit :: "string option"
  wr_version :: pyval

text \<open>\<open>str(Decimal(q).normalize())\<close> is the argument \<open>dtext\<close>.\<close>

definition compute_content_hash :: "runtime \<Rightarrow> (dec \<Rightarrow> string) \<Rightarrow> version_request \<Rightarrow> string app" where
  "compute_content_hash E dtext r =
     ebind (emap (\<lambda>(ingredient, q, unit).
         ebind (normalize_unit_app (rn_nfc E) (Some unit)) (\<lambda>u. Inr (ingredient, dtext q, u))) (wr_lines r)) (\<lambda>lines.
     Inr (hs_sha256 (rn_hash E) (canonical_json (rn_hash E) (PDict
       [(''product_id'', PStr (wr_product r)), (''effective_from'', PStr (iso_date (wr_from r))),
        (''yield_quantity'', PStr (wr_yield_text r)), (''yield_unit'', opt_val PStr (wr_yield_unit r)),
        (''process_loss_rate'', PStr (wr_loss_text r)),
        (''lines'', PList (map (\<lambda>(ingredient, q, u). PDict [(''ingredient_id'', PStr ingredient), (''quantity'', PStr q), (''unit'', opt_val PStr u)])
           (sort_key fst lines)))]))))"

definition check_recipe_line :: "runtime \<Rightarrow> menu_db \<Rightarrow> string \<Rightarrow> string \<times> dec \<times> string \<Rightarrow> unit app" where
  "check_recipe_line E db store = (\<lambda>(ingredient, q, unit).
     case store_ingredient db store ingredient of
       None \<Rightarrow> Inl validation_error
     | Some g \<Rightarrow>
         ebind (raise_if (q \<le> 0) validation_error) (\<lambda>_. validate_compatible (rn_nfc E) (Some unit) (Some (ig_base_unit g))))"

text \<open>The loop over the existing versions: the one with this content, or an error for a date that is not later.\<close>

fun same_content :: "string \<Rightarrow> date \<Rightarrow> recipe_version_row list \<Rightarrow> recipe_version_row option app" where
  "same_content h effective [] = Inr None"
| "same_content h effective (v # vs) =
     (if rw_hash v = h then Inr (Some v)
      else if effective \<le> rw_from v then Inl validation_error
      else same_content h effective vs)"

definition end_previous :: "recipe_version_row option \<Rightarrow> date \<Rightarrow> recipe_version_row \<Rightarrow> recipe_version_row" where
  "end_previous previous effective v =
     (if previous \<noteq> None \<and> rw_id v = rw_id (the previous) \<and> rw_to v = None then v\<lparr>rw_to := Some (effective - 1)\<rparr> else v)"

definition add_recipe_line :: "runtime \<Rightarrow> string \<Rightarrow> menu_db \<Rightarrow> string \<times> dec \<times> string \<Rightarrow> menu_db" where
  "add_recipe_line E recipe db = (\<lambda>(ingredient, q, unit).
     db\<lparr>mn_lines := mn_lines db @ [\<lparr>rl_id = rn_fresh E (mn_serial db), rl_recipe = recipe, rl_ingredient = ingredient, rl_quantity = q,
          rl_unit = unit\<rparr>],
        mn_serial := Suc (mn_serial db)\<rparr>)"

text \<open>A line as it is stored; its unit column is not null.\<close>

definition stored_line :: "runtime \<Rightarrow> string \<times> dec \<times> string \<Rightarrow> (string \<times> dec \<times> string) app" where
  "stored_line E = (\<lambda>(ingredient, q, unit).
     ebind (normalize_unit_app (rn_nfc E) (Some unit)) (\<lambda>u.
     case u of None \<Rightarrow> Inl IntegrityFailure | Some u \<Rightarrow> Inr (ingredient, q, u)))"

text \<open>The rows of a new version: the end of the previous one, the version and its lines.\<close>

definition append_recipe :: "runtime \<Rightarrow> string \<Rightarrow> version_request \<Rightarrow> string \<Rightarrow> (string \<times> dec \<times> string) list \<Rightarrow> menu_db \<Rightarrow>
     menu_db \<times> recipe_version_row" where
  "append_recipe E store r h lines db =
     (let versions = recipe_versions db store (wr_product r);
          previous = (if versions = [] then None else Some (last versions));
          v = \<lparr>rw_id = rn_fresh E (mn_serial db), rw_store = store, rw_product = wr_product r,
               rw_version = (case previous of None \<Rightarrow> 1 | Some p \<Rightarrow> rw_version p + 1), rw_from = wr_from r, rw_to = None,
               rw_yield = wr_yield r, rw_yield_unit = wr_yield_unit r, rw_loss = wr_loss r, rw_hash = h, rw_source = wr_source r\<rparr> in
      (foldl (add_recipe_line E (rw_id v))
         (db\<lparr>mn_versions := map (end_previous previous (wr_from r)) (mn_versions db) @ [v], mn_serial := Suc (mn_serial db)\<rparr>) lines,
       v))"

definition create_version ::
    "runtime \<Rightarrow> (dec \<Rightarrow> string) \<Rightarrow> string \<Rightarrow> version_request \<Rightarrow> menu_db \<Rightarrow> (menu_db \<times> recipe_version_row) app" where
  "create_version E dtext store r db =
     ebind (raise_if (find_product db store (wr_product r) = None) validation_error) (\<lambda>_.
     ebind (raise_if (\<not> distinct (map fst (wr_lines r))) validation_error) (\<lambda>_.
     ebind (raise_if (wr_lines r = []) validation_error) (\<lambda>_.
     ebind (emap (check_recipe_line E db store) (wr_lines r)) (\<lambda>_.
     ebind (raise_if (wr_yield r \<le> 0) validation_error) (\<lambda>_.
     ebind (raise_if (wr_loss r < 0 \<or> 1 \<le> wr_loss r) validation_error) (\<lambda>_.
     ebind (compute_content_hash E dtext r) (\<lambda>h.
     let versions = recipe_versions db store (wr_product r) in
     ebind (same_content h (wr_from r) versions) (\<lambda>existing.
     case existing of
       Some v \<Rightarrow> Inr (db, v)
     | None \<Rightarrow>
         ebind (normalize_recipe_version (wr_version r)) (\<lambda>requested.
         ebind (raise_if (requested \<noteq> None \<and> the requested \<noteq> (if versions = [] then 1 else rw_version (last versions) + 1))
                  version_conflict) (\<lambda>_.
         ebind (emap (stored_line E) (wr_lines r)) (\<lambda>lines.
         Inr (append_recipe E store r h lines db))))))))))))"

section \<open>The endpoints\<close>

definition recipe_for_combo :: app_error where
  "recipe_for_combo = AppError ''RECIPE_NOT_ALLOWED_FOR_COMBO'' 409"

definition recipe_product :: "menu_db \<Rightarrow> string \<Rightarrow> string \<Rightarrow> unit app" where
  "recipe_product db store product =
     (case find_product db store product of
        None \<Rightarrow> Inl resource_not_found
      | Some p \<Rightarrow> raise_if (mp_combo p) recipe_for_combo)"

definition recipe_view :: "menu_db \<Rightarrow> string \<Rightarrow> string \<Rightarrow> recipe_version_row option \<Rightarrow> recipe_response" where
  "recipe_view db store product version =
     \<lparr>ro_store = store, ro_product = product, ro_version = version,
      ro_lines = (case version of None \<Rightarrow> [] | Some v \<Rightarrow>
        concat (map (\<lambda>l. map (Pair l) (filter (\<lambda>g. ig_id g = rl_ingredient l) (mn_ingredients db))) (version_lines db v)))\<rparr>"

definition get_recipe :: "menu_db \<Rightarrow> string \<Rightarrow> string \<Rightarrow> date option \<Rightarrow> recipe_response app" where
  "get_recipe db store product on_date =
     ebind (require_store (mn_stores db) store) (\<lambda>_.
     ebind (recipe_product db store product) (\<lambda>_.
     let versions = recipe_versions db store product in
     Inr (recipe_view db store product
       (case on_date of Some day \<Rightarrow> active_version db store product day | None \<Rightarrow> if versions = [] then None else Some (last versions)))))"

record recipe_body =
  rb_from :: date
  rb_version :: int
  rb_yield :: dec
  rb_yield_text :: string
  rb_loss :: dec
  rb_loss_text :: string
  rb_lines :: "(string \<times> dec \<times> string) list"
  rb_dump :: pyval

definition converted_line :: "runtime \<Rightarrow> menu_db \<Rightarrow> string \<Rightarrow> string \<times> dec \<times> string \<Rightarrow> (string \<times> dec \<times> string) app" where
  "converted_line E db store = (\<lambda>(ingredient, q, unit).
     case store_ingredient db store ingredient of
       None \<Rightarrow> Inl resource_not_found
     | Some g \<Rightarrow> ebind (convert_quantity (rn_nfc E) q (Some unit) (Some (ig_base_unit g))) (\<lambda>q'. Inr (ingredient, q', ig_base_unit g)))"

definition recipe_path :: "string \<Rightarrow> string \<Rightarrow> string" where
  "recipe_path store product = ''/api/v1/stores/'' @ store @ ''/products/'' @ product @ ''/recipe''"

definition put_work :: "runtime \<Rightarrow> (dec \<Rightarrow> string) \<Rightarrow> string \<Rightarrow> string \<Rightarrow> recipe_body \<Rightarrow> string option \<Rightarrow> menu_db \<Rightarrow> (menu_db \<times> menu_response) app" where
  "put_work E dtext store product body key db =
     (let versions = recipe_versions db store product; current = (if versions = [] then 0 else rw_version (last versions)) in
      ebind (raise_if (rb_version body \<noteq> current) version_conflict) (\<lambda>_.
      ebind (emap (converted_line E db store) (rb_lines body)) (\<lambda>lines.
      ebind (create_version E dtext store
          \<lparr>wr_product = product, wr_from = rb_from body, wr_lines = lines, wr_source = ''manual'', wr_yield = rb_yield body,
           wr_yield_text = rb_yield_text body, wr_loss = rb_loss body, wr_loss_text = rb_loss_text body, wr_yield_unit = None,
           wr_version = PNone\<rparr> db) (\<lambda>(db1, v).
      let created = length versions < length (recipe_versions db1 store product);
          response = RecipeStored (recipe_view db1 store product (Some v)) in
      Inr (db1\<lparr>mn_audit := mn_audit db1 @ [\<lparr>au_store = store,
               au_action = (if created then ''recipe_version_created'' else ''recipe_version_reused''),
               au_type = ''recipe_version'', au_resource = rw_id v\<rparr>],
             mn_idem := (case non_empty key of
               None \<Rightarrow> mn_idem db1
             | Some k \<Rightarrow> idem_update (mn_idem db1) (Some store) (recipe_path store product) ''PUT'' k
                 (\<lambda>i. i\<lparr>ir_resource_type := Some ''recipe_version'', ir_resource_id := Some (rw_id v),
                        ir_status := Some (if created then 201 else 200), ir_body := Some response\<rparr>))\<rparr>,
           response)))))"

definition put_recipe ::
    "runtime \<Rightarrow> (dec \<Rightarrow> string) \<Rightarrow> menu_db \<Rightarrow> string \<Rightarrow> string \<Rightarrow> recipe_body \<Rightarrow> string option \<Rightarrow> (menu_db \<times> menu_response) app" where
  "put_recipe E dtext db store product body key =
     ebind (require_store (mn_stores db) store) (\<lambda>_.
     ebind (recipe_product db store product) (\<lambda>_.
     with_idempotency (mn_idem db) (Some store) (recipe_path store product) ''PUT'' key (canonical_hash (rn_hash E) (rb_dump body))
       (\<lambda>records. put_work E dtext store product body key (db\<lparr>mn_idem := records\<rparr>))
       (\<lambda>i. ebind (stored_response i) (\<lambda>response. Inr (db, response)))))"

end
