(* ===== verification/Sales_Usage.thy ===== *)
theory Sales_Usage
  imports Recipe_Versions
begin

text \<open>
  Sales history and the usage derived from it: the sales branch of \<open>_history_batch\<close> in
  \<open>services/completion_service.py\<close>, \<open>services/sales_usage_reconciliation.py\<close>, and the rows an imported
  usage sheet writes (\<open>services/business_persistence.py\<close>).
\<close>

section \<open>Derived usage\<close>

definition DERIVED_USAGE_SOURCE :: string where
  "DERIVED_USAGE_SOURCE = ''reconstructed_from_sales''"

definition is_derived_usage_source :: "string \<Rightarrow> bool" where
  "is_derived_usage_source source \<longleftrightarrow> source = DERIVED_USAGE_SOURCE"

text \<open>What a product is made of: itself, or the components of a combo with their quantities.\<close>

definition demand_products :: "menu_db \<Rightarrow> string \<Rightarrow> menu_product \<Rightarrow> (string \<times> dec) list" where
  "demand_products db store p =
     (if mp_combo p
      then map (\<lambda>b. (mb_component b, of_int (mb_quantity b)))
             (filter (\<lambda>b. mb_component b \<in> mp_id ` set (mn_products db))
               (sort_key mb_position (filter (\<lambda>b. mb_store b = store \<and> mb_combo b = mp_id p) (mn_bundles db))))
      else [(mp_id p, 1)])"

text \<open>What one sale uses of each ingredient and unit, and the products without a recipe.\<close>

type_synonym usage_part = "(string \<times> string) \<times> dec"

definition product_usage :: "menu_db \<Rightarrow> string \<Rightarrow> date \<Rightarrow> dec \<Rightarrow> string \<times> dec \<Rightarrow> usage_part list \<times> (string \<times> date) list" where
  "product_usage db store day sold = (\<lambda>(product, multiplier).
     case active_version db store product day of
       None \<Rightarrow> ([], [(product, day)])
     | Some v \<Rightarrow> (map (\<lambda>l. ((rl_ingredient l, rl_unit l), dec_mul (dec_mul sold multiplier) (rl_quantity l))) (version_lines db v), []))"

definition sale_usage :: "menu_db \<Rightarrow> string \<Rightarrow> date \<Rightarrow> sale_row \<Rightarrow> usage_part list \<times> (string \<times> date) list" where
  "sale_usage db store day s =
     (case find_product db store (sw_product s) of
        None \<Rightarrow> ([], [])
      | Some p \<Rightarrow>
          let parts = map (product_usage db store day (sw_quantity s)) (demand_products db store p) in
          (concat (map fst parts), concat (map snd parts)))"

definition day_sales :: "menu_db \<Rightarrow> string \<Rightarrow> date \<Rightarrow> sale_row list" where
  "day_sales db store day = filter (\<lambda>s. sw_store s = store \<and> sw_date s = day) (mn_sales db)"

definition day_usage :: "menu_db \<Rightarrow> string \<Rightarrow> date \<Rightarrow> usage_part list" where
  "day_usage db store day = concat (map (\<lambda>s. fst (sale_usage db store day s)) (day_sales db store day))"

definition day_warnings :: "menu_db \<Rightarrow> string \<Rightarrow> date \<Rightarrow> (string \<times> date) list" where
  "day_warnings db store day = concat (map (\<lambda>s. snd (sale_usage db store day s)) (day_sales db store day))"

definition add_usage :: "usage_part \<Rightarrow> (string \<times> string, dec) dict \<Rightarrow> (string \<times> string, dec) dict" where
  "add_usage = (\<lambda>(k, x) totals. dict_set k (dec_add (dict_get_or totals k 0) x) totals)"

definition day_rows :: "menu_db \<Rightarrow> string \<Rightarrow> date \<Rightarrow> usage_row list" where
  "day_rows db store day = filter (\<lambda>u. uw_store u = store \<and> uw_date u = day) (mn_usage db)"

text \<open>One entry of the totals: a new row, or the row of its ingredient if that was derived.\<close>

definition apply_total ::
    "runtime \<Rightarrow> string \<Rightarrow> date \<Rightarrow> (string, usage_row) dict \<Rightarrow> menu_db \<Rightarrow> usage_part \<Rightarrow> menu_db" where
  "apply_total E store day existing db = (\<lambda>((ingredient, unit), q).
     case dict_get existing ingredient of
       None \<Rightarrow>
         db\<lparr>mn_usage := mn_usage db @ [\<lparr>uw_id = rn_fresh E (mn_serial db), uw_store = store, uw_date = day, uw_ingredient = ingredient,
              uw_quantity = q, uw_unit = unit, uw_source = DERIVED_USAGE_SOURCE\<rparr>],
            mn_serial := Suc (mn_serial db)\<rparr>
     | Some r \<Rightarrow>
         if is_derived_usage_source (uw_source r)
         then db\<lparr>mn_usage := map (\<lambda>u. if uw_id u = uw_id r then u\<lparr>uw_quantity := q, uw_unit := unit\<rparr> else u) (mn_usage db)\<rparr>
         else db)"

definition reset_row :: "string list \<Rightarrow> string list \<Rightarrow> usage_row \<Rightarrow> usage_row" where
  "reset_row ids used u =
     (if uw_id u \<in> set ids \<and> is_derived_usage_source (uw_source u) \<and> uw_ingredient u \<notin> set used then u\<lparr>uw_quantity := 0\<rparr> else u)"

text \<open>A store has one usage row per day and ingredient.\<close>

definition flush_usage :: "menu_db \<Rightarrow> unit app" where
  "flush_usage db = raise_if (\<not> distinct (map (\<lambda>u. (uw_store u, uw_date u, uw_ingredient u)) (mn_usage db))) IntegrityFailure"

definition reconcile_day :: "runtime \<Rightarrow> string \<Rightarrow> date \<Rightarrow> menu_db \<Rightarrow> (menu_db \<times> (string \<times> date) list) app" where
  "reconcile_day E store day db =
     (let totals = fold add_usage (day_usage db store day) [];
          rows = day_rows db store day;
          db1 = foldl (apply_total E store day (index_by uw_ingredient rows)) db totals;
          db2 = db1\<lparr>mn_usage := map (reset_row (map uw_id rows) (map (fst \<circ> fst) totals)) (mn_usage db1)\<rparr> in
      ebind (flush_usage db2) (\<lambda>_. Inr (db2, day_warnings db store day)))"

definition reconcile_usage_from_sales :: "runtime \<Rightarrow> string \<Rightarrow> date list \<Rightarrow> menu_db \<Rightarrow> (menu_db \<times> (string \<times> date) list) app" where
  "reconcile_usage_from_sales E store dates db =
     efold (\<lambda>(db, warnings) day. ebind (reconcile_day E store day db) (\<lambda>(db', ws). Inr (db', warnings @ ws))) (db, []) (sort (remdups dates))"

section \<open>Sales history\<close>

record sales_record =
  sr_external :: string
  sr_date :: date
  sr_product :: string
  sr_quantity :: dec
  sr_price :: int
  sr_promotion :: bool

record sales_body =
  sb_source :: string
  sb_records :: "sales_record list"
  sb_dump :: pyval

definition SALES_SOURCES :: "string list" where
  "SALES_SOURCES = [''pos'', ''manual'', ''integration'']"

definition sale_key :: "sales_record \<Rightarrow> date \<times> string \<times> bool" where
  "sale_key r = (sr_date r, sr_product r, sr_promotion r)"

definition stored_sale :: "menu_db \<Rightarrow> string \<Rightarrow> sales_record \<Rightarrow> sale_row option" where
  "stored_sale db store r =
     find (\<lambda>s. sw_store s = store \<and> sw_date s = sr_date r \<and> sw_product s = sr_product r \<and> sw_promotion s = sr_promotion r) (mn_sales db)"

definition same_sale :: "string \<Rightarrow> sales_record \<Rightarrow> sale_row \<Rightarrow> bool" where
  "same_sale source r s \<longleftrightarrow> sw_quantity s = sr_quantity r \<and> sw_price s = Some (sr_price r) \<and> sw_source s = source \<and>
     sw_promotion s = sr_promotion r \<and> sw_external s = Some (sr_external r)"

text \<open>A record of the batch: stored, or found unchanged; the flag of its answer says that it was created.\<close>

definition add_sale ::
    "runtime \<Rightarrow> string \<Rightarrow> string \<Rightarrow> menu_db \<times> (string \<times> string \<times> bool) list \<Rightarrow> sales_record \<Rightarrow>
     (menu_db \<times> (string \<times> string \<times> bool) list) app" where
  "add_sale E store source = (\<lambda>(db, records) r.
     ebind (raise_if (find_product db store (sr_product r) = None) resource_not_found) (\<lambda>_.
     case stored_sale db store r of
       Some s \<Rightarrow>
         ebind (raise_if (\<not> same_sale source r s) duplicate_request) (\<lambda>_.
         Inr (db, records @ [(sr_external r, sw_id s, False)]))
     | None \<Rightarrow>
         let sale = rn_fresh E (mn_serial db) in
         Inr (db\<lparr>mn_sales := mn_sales db @ [\<lparr>sw_id = sale, sw_store = store, sw_date = sr_date r, sw_product = sr_product r,
                    sw_quantity = sr_quantity r, sw_price = Some (sr_price r), sw_promotion = sr_promotion r, sw_source = source,
                    sw_external = Some (sr_external r)\<rparr>],
                 mn_serial := Suc (mn_serial db)\<rparr>,
              records @ [(sr_external r, sale, True)])))"

definition sales_path :: "string \<Rightarrow> string" where
  "sales_path store = ''/api/v1/stores/'' @ store @ ''/sales-history/batch''"

definition sales_work :: "runtime \<Rightarrow> string \<Rightarrow> sales_body \<Rightarrow> string option \<Rightarrow> menu_db \<Rightarrow> (menu_db \<times> menu_response) app" where
  "sales_work E store body key db =
     ebind (efold (add_sale E store (sb_source body)) (db, []) (sb_records body)) (\<lambda>(db1, records).
     ebind (reconcile_usage_from_sales E store (map sr_date (sb_records body)) db1) (\<lambda>(db2, warnings).
     let batch = rn_fresh E (mn_serial db2);
         created = length (filter (\<lambda>(_, _, new). new) records);
         response = SalesStored \<lparr>so_batch = batch, so_created = created, so_unchanged = length records - created, so_records = records,
           so_warnings = warnings\<rparr> in
     Inr (db2\<lparr>mn_serial := Suc (mn_serial db2),
            mn_audit := mn_audit db2 @ [\<lparr>au_store = store, au_action = ''sales_batch'', au_type = ''history_batch'', au_resource = batch\<rparr>],
            mn_idem := (case non_empty key of
              None \<Rightarrow> mn_idem db2
            | Some k \<Rightarrow> idem_update (mn_idem db2) (Some store) (sales_path store) ''POST'' k
                (\<lambda>i. i\<lparr>ir_status := Some 201, ir_body := Some response\<rparr>))\<rparr>,
          response)))"

definition sales_batch :: "runtime \<Rightarrow> menu_db \<Rightarrow> string \<Rightarrow> sales_body \<Rightarrow> string option \<Rightarrow> (menu_db \<times> menu_response) app" where
  "sales_batch E db store body key =
     ebind (raise_if (sb_source body \<notin> set SALES_SOURCES) validation_error) (\<lambda>_.
     ebind (raise_if (\<not> distinct (map sale_key (sb_records body))) validation_error) (\<lambda>_.
     ebind (require_store (mn_stores db) store) (\<lambda>_.
     with_idempotency (mn_idem db) (Some store) (sales_path store) ''POST'' key (canonical_hash (rn_hash E) (sb_dump body))
       (\<lambda>records. sales_work E store body key (db\<lparr>mn_idem := records\<rparr>))
       (\<lambda>i. ebind (stored_response i) (\<lambda>response. Inr (db, response))))))"

section \<open>Imported usage\<close>

text \<open>One group of a usage sheet, converted to the unit of its ingredient: a new row, or the quantity of the
  row there is, whose source stays as it was. Provenance and waste columns are left out.\<close>

definition import_usage :: "runtime \<Rightarrow> string \<Rightarrow> date \<Rightarrow> string \<Rightarrow> string \<Rightarrow> dec \<Rightarrow> menu_db \<Rightarrow> menu_db" where
  "import_usage E store day ingredient unit q db =
     (case find (\<lambda>u. uw_store u = store \<and> uw_date u = day \<and> uw_ingredient u = ingredient) (mn_usage db) of
        None \<Rightarrow>
          db\<lparr>mn_usage := mn_usage db @ [\<lparr>uw_id = rn_fresh E (mn_serial db), uw_store = store, uw_date = day, uw_ingredient = ingredient,
               uw_quantity = q, uw_unit = unit, uw_source = ''import''\<rparr>],
             mn_serial := Suc (mn_serial db)\<rparr>
      | Some r \<Rightarrow>
          db\<lparr>mn_usage := map (\<lambda>u. if uw_id u = uw_id r then u\<lparr>uw_quantity := q, uw_unit := unit\<rparr> else u) (mn_usage db)\<rparr>)"

end
