(* ===== verification/Recipe_Facts.thy ===== *)
theory Recipe_Facts
  imports Sales_Usage Op_History
begin

text \<open>
  The versions of a product form a chain in time: numbered from one, each ends the day before the next begins,
  and only the last is open. So at most one version is active on a day, and a new version changes no
  day before its own.
\<close>

section \<open>Chains\<close>

fun chained :: "int \<Rightarrow> recipe_version_row list \<Rightarrow> bool" where
  "chained n [] \<longleftrightarrow> True"
| "chained n [v] \<longleftrightarrow> rw_version v = n \<and> rw_to v = None"
| "chained n (v # w # vs) \<longleftrightarrow> rw_version v = n \<and> rw_to v = Some (rw_from w - 1) \<and> rw_from v < rw_from w \<and> chained (n + 1) (w # vs)"

lemma chained_later: "chained n (v # vs) \<Longrightarrow> w \<in> set vs \<Longrightarrow> rw_from v < rw_from w \<and> (\<exists>e. rw_to v = Some e \<and> e < rw_from w)"
proof (induction vs arbitrary: n v)
  case Nil
  then show ?case by simp
next
  case (Cons x vs)
  show ?case
  proof (cases "w = x")
    case True
    with Cons.prems show ?thesis by simp
  next
    case False
    with Cons.prems have w: "w \<in> set vs" and c: "chained (n + 1) (x # vs)" "rw_from v < rw_from x" "rw_to v = Some (rw_from x - 1)" by simp_all
    from Cons.IH [OF c(1) w] c(2,3) show ?thesis by simp
  qed
qed

lemma chained_tail: "chained n (v # vs) \<Longrightarrow> rw_version v = n \<and> chained (n + 1) vs"
  by (cases vs) simp_all

lemma chained_numbers: "chained n vs \<Longrightarrow> i < length vs \<Longrightarrow> rw_version (vs ! i) = n + int i"
proof (induction vs arbitrary: n i)
  case Nil
  then show ?case by simp
next
  case (Cons v vs)
  from chained_tail [OF Cons.prems(1)] Cons.IH [of "n + 1" "i - 1"] Cons.prems(2) show ?case by (cases i) simp_all
qed

lemma chained_sorted: "chained n vs \<Longrightarrow> sorted (map rw_version vs)"
  by (simp add: sorted_iff_nth_mono chained_numbers)

lemma chained_last: "chained n vs \<Longrightarrow> vs \<noteq> [] \<Longrightarrow> rw_to (last vs) = None \<and> rw_version (last vs) = n + int (length vs) - 1"
  by (induction n vs rule: chained.induct) auto

lemma chained_unique:
  "chained n vs \<Longrightarrow> v \<in> set vs \<Longrightarrow> w \<in> set vs \<Longrightarrow> version_covers day v \<Longrightarrow> version_covers day w \<Longrightarrow> v = w"
proof (induction vs arbitrary: n)
  case Nil
  then show ?case by simp
next
  case (Cons x vs)
  have l: "\<not> version_covers day y" if "version_covers day x" "y \<in> set vs" for y
    using chained_later [OF Cons.prems(1) that(2)] that(1) by (auto simp: version_covers_def)
  show ?case using Cons l chained_tail [OF Cons.prems(1)] by auto
qed

lemma chained_covers: "chained n vs \<Longrightarrow> v \<in> set vs \<Longrightarrow> rw_from v \<le> day \<Longrightarrow> \<exists>w \<in> set vs. version_covers day w"
proof (induction vs arbitrary: n v)
  case Nil
  then show ?case by simp
next
  case (Cons x vs)
  show ?case
  proof (cases vs)
    case Nil
    with Cons.prems show ?thesis by (simp add: version_covers_def)
  next
    case (Cons y ys)
    show ?thesis
    proof (cases "rw_from y \<le> day")
      case True
      have "chained (n + 1) vs" "y \<in> set vs" using chained_tail [OF Cons.prems(1)] Cons by simp_all
      from Cons.IH [OF this True] show ?thesis by auto
    next
      case False
      have "rw_from y \<le> rw_from w" if "w \<in> set vs" for w
        using that Cons chained_later [of "n + 1" y ys w] Cons.prems(1) by auto
      with False Cons.prems(3) have "v \<notin> set vs" by force
      with Cons.prems(2) have "v = x" by simp
      with Cons False Cons.prems show ?thesis by (auto simp: version_covers_def)
    qed
  qed
qed

lemma chained_append:
  assumes "chained n vs" "vs \<noteq> []" "rw_from (last vs) < effective" "rw_version new = rw_version (last vs) + 1" "rw_to new = None"
    "rw_from new = effective"
  shows "chained n (butlast vs @ [(last vs)\<lparr>rw_to := Some (effective - 1)\<rparr>, new])"
  using assms
proof (induction n vs rule: chained.induct)
  case (3 n v w vs)
  then have "chained (n + 1) (butlast (w # vs) @ [(last (w # vs))\<lparr>rw_to := Some (effective - 1)\<rparr>, new])" by simp
  moreover have "rw_from (hd (butlast (w # vs) @ [(last (w # vs))\<lparr>rw_to := Some (effective - 1)\<rparr>, new])) = rw_from w"
    by (cases vs) simp_all
  ultimately show ?case using 3(2) by (cases vs) simp_all
qed simp_all

section \<open>Reachable recipes\<close>

definition recipe_drawn :: "runtime \<Rightarrow> menu_db \<Rightarrow> string \<Rightarrow> bool" where
  "recipe_drawn E db s \<longleftrightarrow> (\<exists>n < mn_serial db. s = rn_fresh E n)"

definition product_versions :: "menu_db \<Rightarrow> string \<Rightarrow> string \<Rightarrow> recipe_version_row list" where
  "product_versions db store product = filter (\<lambda>v. rw_store v = store \<and> rw_product v = product) (mn_versions db)"

definition recipes_ok :: "runtime \<Rightarrow> menu_db \<Rightarrow> bool" where
  "recipes_ok E db \<longleftrightarrow> distinct (map rw_id (mn_versions db)) \<and> (\<forall>v \<in> set (mn_versions db). recipe_drawn E db (rw_id v)) \<and>
     (\<forall>l \<in> set (mn_lines db). recipe_drawn E db (rl_recipe l)) \<and> (\<forall>store product. chained 1 (product_versions db store product))"

lemma recipe_drawn_later: "recipe_drawn E db s \<Longrightarrow> mn_serial db \<le> mn_serial db' \<Longrightarrow> recipe_drawn E db' s"
  unfolding recipe_drawn_def using less_le_trans by blast

lemma recipes_frame:
  assumes "recipes_ok E db" "mn_versions db' = mn_versions db" "mn_lines db' = mn_lines db" "mn_serial db \<le> mn_serial db'"
  shows "recipes_ok E db'"
  using assms recipe_drawn_later [OF _ assms(4)] by (auto simp: recipes_ok_def product_versions_def)

lemma sorted_versions: "recipes_ok E db \<Longrightarrow> recipe_versions db store product = product_versions db store product"
  unfolding recipe_versions_def product_versions_def [symmetric]
  by (rule sort_key_id_if_sorted) (auto simp: recipes_ok_def intro: chained_sorted [of 1])

lemma find_mem: "find P xs = Some x \<Longrightarrow> x \<in> set xs \<and> P x"
  by (induction xs) (auto split: if_splits)

text \<open>The active version of a day is the only one that covers it.\<close>

lemma active_versionI:
  assumes "recipes_ok E db" "v \<in> set (recipe_versions db store product)" "version_covers day v"
  shows "active_version db store product day = Some v"
proof -
  have c: "chained 1 (recipe_versions db store product)" using assms(1) sorted_versions [OF assms(1)] by (simp add: recipes_ok_def)
  obtain w where w: "active_version db store product day = Some w"
    using assms(2,3) unfolding active_version_def
    by (cases "find (version_covers day) (rev (recipe_versions db store product))") (auto simp: find_None_iff)
  then have "w \<in> set (recipe_versions db store product)" "version_covers day w"
    by (auto simp: active_version_def dest!: find_mem)
  then show ?thesis using w chained_unique [OF c _ assms(2) _ assms(3)] by simp
qed

lemma active_versionD:
  "active_version db store product day = Some v \<Longrightarrow> v \<in> set (recipe_versions db store product) \<and> version_covers day v"
  by (auto simp: active_version_def dest!: find_mem)

subsection \<open>What a new version changes\<close>

lemma add_recipe_lines:
  "mn_versions (foldl (add_recipe_line E recipe) db lines) = mn_versions db"
  "mn_serial (foldl (add_recipe_line E recipe) db lines) = mn_serial db + length lines"
  "map (\<lambda>l. (rl_recipe l, rl_ingredient l, rl_quantity l, rl_unit l)) (mn_lines (foldl (add_recipe_line E recipe) db lines)) =
     map (\<lambda>l. (rl_recipe l, rl_ingredient l, rl_quantity l, rl_unit l)) (mn_lines db) @ map (Pair recipe) lines"
  by (induction lines arbitrary: db) (auto simp: add_recipe_line_def)

lemma same_contentD:
  assumes "same_content h effective vs = Inr r"
  shows "case r of None \<Rightarrow> \<forall>v \<in> set vs. rw_hash v \<noteq> h \<and> rw_from v < effective | Some v \<Rightarrow> v \<in> set vs \<and> rw_hash v = h"
  using assms by (induction vs) (auto split: if_splits option.splits)

lemma ended_previous:
  assumes "distinct (map rw_id vs)" "vs \<noteq> []" "rw_to (last vs) = None"
  shows "map (end_previous (Some (last vs)) effective) vs = butlast vs @ [(last vs)\<lparr>rw_to := Some (effective - 1)\<rparr>]"
  using assms
proof (induction vs rule: rev_induct)
  case Nil
  then show ?case by simp
next
  case (snoc x xs)
  have "map (end_previous (Some x) effective) xs = xs"
    using snoc.prems(1) by (intro map_idI) (auto simp: end_previous_def rev_image_eqI)
  moreover have "end_previous (Some x) effective x = x\<lparr>rw_to := Some (effective - 1)\<rparr>"
    using snoc.prems(3) by (simp add: end_previous_def)
  ultimately show ?case by simp
qed

lemma create_versionD:
  assumes "create_version E dtext store r db = Inr (db', v)"
  obtains h where "compute_content_hash E dtext r = Inr h" "v \<in> set (recipe_versions db store (wr_product r))" "rw_hash v = h" "db' = db"
  | h lines where "compute_content_hash E dtext r = Inr h" "emap (stored_line E) (wr_lines r) = Inr lines"
      "\<forall>w \<in> set (recipe_versions db store (wr_product r)). rw_hash w \<noteq> h \<and> rw_from w < wr_from r"
      "(db', v) = append_recipe E store r h lines db"
proof -
  from assms obtain h existing where h: "compute_content_hash E dtext r = Inr h"
    "same_content h (wr_from r) (recipe_versions db store (wr_product r)) = Inr existing"
    and rest: "(case existing of
       Some v \<Rightarrow> Inr (db, v)
     | None \<Rightarrow>
         ebind (normalize_recipe_version (wr_version r)) (\<lambda>requested.
         ebind (raise_if (requested \<noteq> None \<and> the requested \<noteq> (if recipe_versions db store (wr_product r) = [] then 1
             else rw_version (last (recipe_versions db store (wr_product r))) + 1)) version_conflict) (\<lambda>_.
         ebind (emap (stored_line E) (wr_lines r)) (\<lambda>lines.
         Inr (append_recipe E store r h lines db))))) = Inr (db', v)"
    unfolding create_version_def Let_def by (elim ebind_InrE) blast
  note s = same_contentD [OF h(2)]
  show thesis
  proof (cases existing)
    case None
    obtain lines where l: "emap (stored_line E) (wr_lines r) = Inr lines" "(db', v) = append_recipe E store r h lines db"
      using rest unfolding None option.case by (elim ebind_InrE) auto
    show thesis by (rule that(2) [OF h(1) l(1) _ l(2)]) (use s None in simp)
  next
    case (Some w)
    show thesis by (rule that(1) [OF h(1)]) (use s Some rest in auto)
  qed
qed

lemma append_recipe_effect:
  assumes ok: "recipes_ok E db" and inj: "inj (rn_fresh E)" and a: "(db', v) = append_recipe E store r h lines db"
    and later: "\<forall>w \<in> set (recipe_versions db store (wr_product r)). rw_from w < wr_from r"
  shows "recipes_ok E db'"
    "recipe_versions db' store (wr_product r) =
      (let vs = recipe_versions db store (wr_product r) in
       if vs = [] then [v] else butlast vs @ [(last vs)\<lparr>rw_to := Some (wr_from r - 1)\<rparr>, v])"
    "st \<noteq> store \<or> pr \<noteq> wr_product r \<Longrightarrow> recipe_versions db' st pr = recipe_versions db st pr"
    "rw_from v = wr_from r" "rw_to v = None" "rw_hash v = h" "v \<notin> set (mn_versions db)"
    "map (\<lambda>l. (rl_ingredient l, rl_quantity l, rl_unit l)) (version_lines db' v) = lines"
proof -
  let ?vs = "recipe_versions db store (wr_product r)"
  let ?prev = "if ?vs = [] then None else Some (last ?vs)"
  have vs: "?vs = product_versions db store (wr_product r)" by (rule sorted_versions [OF ok])
  have v: "rw_id v = rn_fresh E (mn_serial db)" "rw_store v = store" "rw_product v = wr_product r"
    "rw_version v = (if ?vs = [] then 1 else rw_version (last ?vs) + 1)" "rw_from v = wr_from r" "rw_to v = None" "rw_hash v = h"
    using a by (simp_all add: append_recipe_def Let_def)
  show "rw_from v = wr_from r" "rw_to v = None" "rw_hash v = h" by (rule v)+
  have db': "db' = foldl (add_recipe_line E (rw_id v))
      (db\<lparr>mn_versions := map (end_previous ?prev (wr_from r)) (mn_versions db) @ [v], mn_serial := Suc (mn_serial db)\<rparr>) lines"
    using a by (simp add: append_recipe_def Let_def)
  have mv: "mn_versions db' = map (end_previous ?prev (wr_from r)) (mn_versions db) @ [v]"
    and ser: "mn_serial db' = Suc (mn_serial db) + length lines" by (simp_all add: db' add_recipe_lines)
  have ids: "map rw_id (map (end_previous ?prev (wr_from r)) ws) = map rw_id ws" for ws by (simp add: end_previous_def)
  have new: "\<not> recipe_drawn E db (rw_id v)" using inj by (auto simp: recipe_drawn_def v(1) dest: injD)
  then have fresh: "rw_id v \<notin> rw_id ` set (mn_versions db)" "\<forall>l \<in> set (mn_lines db). rl_recipe l \<noteq> rw_id v"
    using ok by (auto simp: recipes_ok_def)
  then show "v \<notin> set (mn_versions db)" by auto
  have e: "product_versions db' st pr = map (end_previous ?prev (wr_from r)) (product_versions db st pr) @
      (if st = store \<and> pr = wr_product r then [v] else [])" for st pr
  proof -
    have "filter (\<lambda>v. rw_store v = st \<and> rw_product v = pr) (map (end_previous ?prev (wr_from r)) ws) =
        map (end_previous ?prev (wr_from r)) (filter (\<lambda>v. rw_store v = st \<and> rw_product v = pr) ws)" for ws
      by (induction ws) (auto simp: end_previous_def)
    then show ?thesis by (auto simp: product_versions_def mv v(2,3))
  qed
  have c: "chained 1 (product_versions db st pr)" for st pr using ok by (simp add: recipes_ok_def)
  have other: "product_versions db' st pr = product_versions db st pr" if sp: "st \<noteq> store \<or> pr \<noteq> wr_product r" for st pr
  proof -
    have "end_previous ?prev (wr_from r) w = w" if w: "w \<in> set (product_versions db st pr)" for w
    proof (rule ccontr)
      assume "end_previous ?prev (wr_from r) w \<noteq> w"
      then have i: "?vs \<noteq> []" "rw_id w = rw_id (last ?vs)" by (auto simp: end_previous_def split: if_splits)
      then have m: "last ?vs \<in> set (mn_versions db)" "rw_store (last ?vs) = store" "rw_product (last ?vs) = wr_product r"
        using last_in_set [OF i(1)] unfolding vs by (auto simp: product_versions_def)
      have "w \<in> set (mn_versions db)" using w by (simp add: product_versions_def)
      then have "w = last ?vs" using i(2) m(1) ok by (metis distinct_map inj_onD recipes_ok_def)
      then show False using w m(2,3) sp by (auto simp: product_versions_def)
    qed
    with sp show ?thesis by (simp add: e map_idI)
  qed
  have mine: "product_versions db' store (wr_product r) =
      (if ?vs = [] then [v] else butlast ?vs @ [(last ?vs)\<lparr>rw_to := Some (wr_from r - 1)\<rparr>, v])"
  proof (cases "?vs = []")
    case True
    then show ?thesis using vs by (simp add: e)
  next
    case False
    have "distinct (map rw_id ?vs)" using ok unfolding vs by (simp add: recipes_ok_def product_versions_def distinct_map_filter)
    from ended_previous [OF this False] chained_last [OF c [of store "wr_product r", folded vs] False]
    show ?thesis using False vs by (simp add: e)
  qed
  have "chained 1 (product_versions db' store (wr_product r))"
  proof (cases "?vs = []")
    case True
    then show ?thesis by (simp add: mine v(4,6))
  next
    case False
    have "chained 1 (butlast ?vs @ [(last ?vs)\<lparr>rw_to := Some (wr_from r - 1)\<rparr>, v])"
      by (rule chained_append [OF c [of store "wr_product r", folded vs] False]) (use False later v(4-6) in auto)
    then show ?thesis by (simp add: mine False)
  qed
  then have chains: "chained 1 (product_versions db' st pr)" for st pr
    using other [of st pr] c [of st pr] by (cases "st = store \<and> pr = wr_product r") auto
  have lines: "map (\<lambda>l. (rl_recipe l, rl_ingredient l, rl_quantity l, rl_unit l)) (mn_lines db') =
      map (\<lambda>l. (rl_recipe l, rl_ingredient l, rl_quantity l, rl_unit l)) (mn_lines db) @ map (Pair (rw_id v)) lines"
    by (simp add: db' add_recipe_lines)
  have dv: "recipe_drawn E db' (rw_id v)"
    unfolding recipe_drawn_def v(1) by (rule exI [of _ "mn_serial db"]) (simp add: ser)
  have dl: "recipe_drawn E db' (rl_recipe l)" if "l \<in> set (mn_lines db')" for l
  proof -
    have "rl_recipe l \<in> set (map rl_recipe (mn_lines db'))" using that by simp
    moreover have "map rl_recipe (mn_lines db') = map rl_recipe (mn_lines db) @ map (\<lambda>_. rw_id v) lines"
      using arg_cong [OF lines, of "map fst"] by (simp add: comp_def)
    ultimately have "rl_recipe l \<in> rl_recipe ` set (mn_lines db) \<or> rl_recipe l = rw_id v" by auto
    then show ?thesis using ok dv recipe_drawn_later [of E db _ db'] ser by (auto simp: recipes_ok_def)
  qed
  show ok': "recipes_ok E db'"
    unfolding recipes_ok_def
  proof (intro conjI allI)
    show "distinct (map rw_id (mn_versions db'))" using ok fresh(1) unfolding mv map_append ids by (simp add: recipes_ok_def)
    have "\<forall>i \<in> set (map rw_id (mn_versions db')). recipe_drawn E db' i"
      using ok dv recipe_drawn_later [of E db _ db'] ser unfolding mv map_append ids by (auto simp: recipes_ok_def)
    then show "\<forall>w \<in> set (mn_versions db'). recipe_drawn E db' (rw_id w)" by simp
  qed (use dl chains in blast)+
  show "recipe_versions db' store (wr_product r) =
      (let vs = recipe_versions db store (wr_product r) in
       if vs = [] then [v] else butlast vs @ [(last vs)\<lparr>rw_to := Some (wr_from r - 1)\<rparr>, v])"
    using mine by (simp add: sorted_versions [OF ok'] Let_def)
  show "recipe_versions db' st pr = recipe_versions db st pr" if "st \<noteq> store \<or> pr \<noteq> wr_product r"
    using other [OF that] by (simp add: sorted_versions [OF ok'] sorted_versions [OF ok])
  have "map (\<lambda>l. (rl_ingredient l, rl_quantity l, rl_unit l)) (filter (\<lambda>l. rl_recipe l = i) ls) =
      map snd (filter (\<lambda>x. fst x = i) (map (\<lambda>l. (rl_recipe l, rl_ingredient l, rl_quantity l, rl_unit l)) ls))" for i ls
    by (induction ls) auto
  then have "map (\<lambda>l. (rl_ingredient l, rl_quantity l, rl_unit l)) (version_lines db' v) =
      map snd (filter (\<lambda>x. fst x = rw_id v) (map (\<lambda>l. (rl_recipe l, rl_ingredient l, rl_quantity l, rl_unit l)) (mn_lines db')))"
    by (simp add: version_lines_def)
  also have "\<dots> = lines" unfolding lines using fresh(2) by (simp add: filter_map comp_def)
  finally show "map (\<lambda>l. (rl_ingredient l, rl_quantity l, rl_unit l)) (version_lines db' v) = lines" .
qed

lemma create_version_ok:
  assumes "create_version E dtext store r db = Inr (db', v)" "recipes_ok E db" "inj (rn_fresh E)"
  shows "recipes_ok E db'"
  using assms(1)
proof (rule create_versionD)
  fix h lines
  assume "\<forall>w \<in> set (recipe_versions db store (wr_product r)). rw_hash w \<noteq> h \<and> rw_from w < wr_from r"
    "(db', v) = append_recipe E store r h lines db"
  then show ?thesis using append_recipe_effect(1) [OF assms(2,3)] by blast
qed (use assms(2) in simp)

subsection \<open>Requests\<close>

definition same_recipes :: "menu_db \<Rightarrow> menu_db \<Rightarrow> bool" where
  "same_recipes db db' \<longleftrightarrow> mn_versions db' = mn_versions db \<and> mn_lines db' = mn_lines db \<and> mn_serial db \<le> mn_serial db'"

lemma same_recipes_trans: "same_recipes a b \<Longrightarrow> same_recipes b c \<Longrightarrow> same_recipes a c"
  by (auto simp: same_recipes_def)

lemma same_recipes_refl [simp]: "same_recipes db db"
  by (simp add: same_recipes_def)

lemma apply_total_recipes: "same_recipes db (apply_total E store day existing db t)"
  by (cases t) (auto simp: apply_total_def same_recipes_def split: option.splits)

lemma reconcile_day_recipes:
  assumes "reconcile_day E store day db = Inr (db', ws)"
  shows "same_recipes db db'"
proof -
  have "same_recipes db (foldl (apply_total E store day existing) db totals)" for existing totals
    by (induction totals arbitrary: db) (auto intro: same_recipes_trans [OF apply_total_recipes])
  from this [of "index_by uw_ingredient (day_rows db store day)" "fold add_usage (day_usage db store day) []"] show ?thesis
    using assms by (auto simp: reconcile_day_def Let_def result_simps same_recipes_def)
qed

lemma sales_batch_recipes:
  assumes "sales_batch E db store body key = Inr (db', response)"
  shows "same_recipes db db'"
proof -
  from assms have "(\<exists>i. ebind (stored_response i) (\<lambda>response. Inr (db, response)) = Inr (db', response)) \<or>
      (\<exists>records. sales_work E store body key (db\<lparr>mn_idem := records\<rparr>) = Inr (db', response))"
    unfolding sales_batch_def by (elim ebind_InrE) (rule with_idempotencyD)
  then show ?thesis
  proof
    assume "\<exists>i. ebind (stored_response i) (\<lambda>response. Inr (db, response)) = Inr (db', response)"
    then show ?thesis by (auto simp: result_simps)
  next
    assume "\<exists>records. sales_work E store body key (db\<lparr>mn_idem := records\<rparr>) = Inr (db', response)"
    then obtain idem where w: "sales_work E store body key (db\<lparr>mn_idem := idem\<rparr>) = Inr (db', response)" by blast
    define db0 where "db0 = db\<lparr>mn_idem := idem\<rparr>"
    have db0: "same_recipes db db0" by (simp add: db0_def same_recipes_def)
    obtain db1 records where f: "efold (add_sale E store (sb_source body)) (db0, []) (sb_records body) = Inr (db1, records)"
      using w unfolding sales_work_def db0_def by (elim ebind_InrE) auto
    note w = w [unfolded sales_work_def db0_def [symmetric] f ebind_simps prod.case]
    obtain db2 ws where r: "reconcile_usage_from_sales E store (map sr_date (sb_records body)) db1 = Inr (db2, ws)"
      using w by (elim ebind_InrE) auto
    have d: "same_recipes db2 db'" using w by (auto simp: r Let_def same_recipes_def)
    have "same_recipes db0 (fst (db1, records))"
      by (rule efold_invariant [OF f, of "\<lambda>s. same_recipes db0 (fst s)"])
        (auto simp: add_sale_def result_simps Let_def same_recipes_def split: option.splits)
    moreover have "same_recipes db1 (fst (db2, ws))"
      using r unfolding reconcile_usage_from_sales_def
      by (rule efold_invariant [of _ _ _ _ "\<lambda>s. same_recipes db1 (fst s)"])
        (auto simp: result_simps intro: same_recipes_trans dest!: reconcile_day_recipes)
    ultimately show ?thesis using db0 d same_recipes_trans by (metis fst_conv)
  qed
qed

lemma put_recipeD:
  assumes "put_recipe E dtext db store product body key = Inr (db', response)"
  shows "db' = db \<or> (\<exists>db0 r db1 v. same_recipes db db0 \<and> create_version E dtext store r db0 = Inr (db1, v) \<and> same_recipes db1 db')"
proof -
  from assms have "(\<exists>i. ebind (stored_response i) (\<lambda>response. Inr (db, response)) = Inr (db', response)) \<or>
      (\<exists>records. put_work E dtext store product body key (db\<lparr>mn_idem := records\<rparr>) = Inr (db', response))"
    unfolding put_recipe_def by (elim ebind_InrE) (rule with_idempotencyD)
  then show ?thesis
  proof
    assume "\<exists>records. put_work E dtext store product body key (db\<lparr>mn_idem := records\<rparr>) = Inr (db', response)"
    then obtain records r db1 v where "create_version E dtext store r (db\<lparr>mn_idem := records\<rparr>) = Inr (db1, v)" "same_recipes db1 db'"
      unfolding put_work_def Let_def by (elim exE ebind_InrE) (fastforce simp: result_simps same_recipes_def)
    moreover have "same_recipes db (db\<lparr>mn_idem := records\<rparr>)" by (simp add: same_recipes_def)
    ultimately show ?thesis by blast
  qed (auto simp: result_simps)
qed

text \<open>The databases requests can produce: the recipe endpoint, an imported recipe sheet, sales, and other
  requests that leave recipes alone.\<close>

inductive recipe_history :: "runtime \<Rightarrow> menu_db \<Rightarrow> bool" for E where
  recipe_start: "mn_versions db = [] \<Longrightarrow> mn_lines db = [] \<Longrightarrow> recipe_history E db"
| recipe_put: "recipe_history E db \<Longrightarrow> put_recipe E dtext db store product body key = Inr (db', response) \<Longrightarrow> recipe_history E db'"
| recipe_import: "recipe_history E db \<Longrightarrow> create_version E dtext store r db = Inr (db', v) \<Longrightarrow> recipe_history E db'"
| recipe_sales: "recipe_history E db \<Longrightarrow> sales_batch E db store sales key = Inr (db', response) \<Longrightarrow> recipe_history E db'"
| recipe_other: "recipe_history E db \<Longrightarrow> same_recipes db db' \<Longrightarrow> recipe_history E db'"

lemma same_recipes_ok: "same_recipes db db' \<Longrightarrow> recipes_ok E db \<Longrightarrow> recipes_ok E db'"
  using recipes_frame by (simp add: same_recipes_def)

lemma recipe_history_ok:
  assumes "recipe_history E db" "inj (rn_fresh E)"
  shows "recipes_ok E db"
  using assms(1)
proof induction
  case (recipe_start db)
  then show ?case by (simp add: recipes_ok_def product_versions_def)
next
  case (recipe_put db dtext store product body key db' response)
  from put_recipeD [OF recipe_put.hyps(2)] show ?case
    using recipe_put.IH same_recipes_ok create_version_ok assms(2) by metis
next
  case (recipe_import db dtext store r db' v)
  then show ?case using create_version_ok assms(2) by blast
next
  case (recipe_sales db store sales key db' response)
  then show ?case using sales_batch_recipes same_recipes_ok by blast
next
  case (recipe_other db db')
  then show ?case using same_recipes_ok by blast
qed

section \<open>The properties\<close>

text \<open>C13: a product has one recipe at a time. In every database that requests can produce its versions are numbered
  from one in the order of their dates, the version active on a day is the only one that covers it, and from
  its first version on a product always has a recipe.\<close>

theorem recipe_versions_partition_time:
  assumes "recipe_history E db" "inj (rn_fresh E)"
  shows "(\<forall>v \<in> set (recipe_versions db store product). version_covers day v \<longleftrightarrow> active_version db store product day = Some v) \<and>
    (\<forall>v \<in> set (recipe_versions db store product). rw_from v \<le> day \<longrightarrow> active_version db store product day \<noteq> None) \<and>
    map rw_version (recipe_versions db store product) = map int [1..<Suc (length (recipe_versions db store product))] \<and>
    sorted_wrt (<) (map rw_from (recipe_versions db store product))"
proof -
  note ok = recipe_history_ok [OF assms]
  let ?vs = "recipe_versions db store product"
  have c: "chained 1 ?vs" using ok sorted_versions [OF ok] by (simp add: recipes_ok_def)
  have 1: "version_covers day v \<longleftrightarrow> active_version db store product day = Some v" if "v \<in> set ?vs" for v
    using active_versionI [OF ok that] active_versionD by blast
  have 2: "active_version db store product day \<noteq> None" if v: "v \<in> set ?vs" "rw_from v \<le> day" for v
  proof -
    obtain w where "w \<in> set ?vs" "version_covers day w" using chained_covers [OF c v] by blast
    then show ?thesis using active_versionI [OF ok] by blast
  qed
  have 3: "map rw_version ?vs = map int [1..<Suc (length ?vs)]"
    by (rule nth_equalityI) (simp_all add: chained_numbers [OF c] del: upt_Suc)
  have "sorted_wrt (<) (map rw_from vs)" if "chained n vs" for n vs
    using that by (induction vs arbitrary: n) (auto dest: chained_later chained_tail)
  then show ?thesis using 1 2 3 c by blast
qed

text \<open>C14: a new version leaves the past alone. It is active on its first day and every day after; the days before
  keep the version they had, whose end is all that may change; every other product keeps its versions; and
  the lines of the version are those of the request.\<close>

theorem new_version_keeps_past:
  assumes "recipe_history E db" "inj (rn_fresh E)" "create_version E dtext store r db = Inr (db', v)" "v \<notin> set (mn_versions db)"
  shows "(\<forall>day. if wr_from r \<le> day then active_version db' store (wr_product r) day = Some v
      else map_option (rw_to_update (\<lambda>_. None)) (active_version db' store (wr_product r) day) =
        map_option (rw_to_update (\<lambda>_. None)) (active_version db store (wr_product r) day)) \<and>
    (\<forall>st pr. st \<noteq> store \<or> pr \<noteq> wr_product r \<longrightarrow> recipe_versions db' st pr = recipe_versions db st pr) \<and>
    emap (stored_line E) (wr_lines r) = Inr (map (\<lambda>l. (rl_ingredient l, rl_quantity l, rl_unit l)) (version_lines db' v))"
proof -
  note ok = recipe_history_ok [OF assms(1,2)]
  let ?vs = "recipe_versions db store (wr_product r)" and ?vs' = "recipe_versions db' store (wr_product r)"
  have nv: "v \<notin> set ?vs" using assms(4) by (simp add: sorted_versions [OF ok] product_versions_def)
  obtain h lines where l: "emap (stored_line E) (wr_lines r) = Inr lines" and later: "\<forall>w \<in> set ?vs. rw_from w < wr_from r"
    and a: "(db', v) = append_recipe E store r h lines db"
    using assms(3) by (rule create_versionD) (use nv in auto)
  note e = append_recipe_effect [OF ok assms(2) a later]
  let ?last = "(last ?vs)\<lparr>rw_to := Some (wr_from r - 1)\<rparr>"
  have mem: "w \<in> set ?vs' \<longleftrightarrow> w = v \<or> ?vs \<noteq> [] \<and> (w \<in> set (butlast ?vs) \<or> w = ?last)" for w
    unfolding e(2) Let_def by auto
  have split: "w \<in> set ?vs \<longleftrightarrow> ?vs \<noteq> [] \<and> (w \<in> set (butlast ?vs) \<or> w = last ?vs)" for w
    by (cases ?vs rule: rev_cases) auto
  have c: "chained 1 ?vs" using ok sorted_versions [OF ok] by (simp add: recipes_ok_def)
  have last: "version_covers day ?last \<longleftrightarrow> version_covers day (last ?vs)" if "?vs \<noteq> []" "day < wr_from r" for day
    using chained_last [OF c that(1)] that(2) by (simp add: version_covers_def)
  have 1: "active_version db' store (wr_product r) day = Some v" if "wr_from r \<le> day" for day
    by (rule active_versionI [OF e(1)]) (use that e(4,5) mem in \<open>auto simp: version_covers_def\<close>)
  have 2: "map_option (rw_to_update (\<lambda>_. None)) (active_version db' store (wr_product r) day) =
      map_option (rw_to_update (\<lambda>_. None)) (active_version db store (wr_product r) day)" if day: "day < wr_from r" for day
  proof (cases "active_version db store (wr_product r) day")
    case (Some w)
    note w = active_versionD [OF Some]
    show ?thesis
    proof (cases "w = last ?vs")
      case True
      have "active_version db' store (wr_product r) day = Some ?last"
        by (rule active_versionI [OF e(1)]) (use w True mem last [OF _ day] split in auto)
      then show ?thesis by (simp add: Some True)
    next
      case False
      have "active_version db' store (wr_product r) day = Some w"
        by (rule active_versionI [OF e(1)]) (use w False mem split in auto)
      then show ?thesis by (simp add: Some)
    qed
  next
    case None
    have "active_version db' store (wr_product r) day = None"
    proof (rule ccontr)
      assume "active_version db' store (wr_product r) day \<noteq> None"
      then obtain x where "x \<in> set ?vs'" "version_covers day x" using active_versionD by blast
      then have "\<exists>y \<in> set ?vs. version_covers day y" using mem split last [OF _ day] e(4) day by (auto simp: version_covers_def)
      then show False using active_versionI [OF ok] None by auto
    qed
    then show ?thesis by (simp add: None)
  qed
  show ?thesis using 1 2 e(3,8) l by (auto simp: not_le)
qed

text \<open>Sending a recipe again.\<close>

lemma same_content_found:
  "\<forall>w \<in> set vs. rw_hash w \<noteq> h \<and> rw_from w < effective \<Longrightarrow> rw_hash v = h \<Longrightarrow> same_content h effective (vs @ [v]) = Inr (Some v)"
  by (induction vs) auto

lemma append_recipe_catalog:
  assumes "(db', v) = append_recipe E store r h lines db"
  shows "mn_products db' = mn_products db" "mn_ingredients db' = mn_ingredients db"
proof -
  have k: "mn_products (foldl (add_recipe_line E i) x ls) = mn_products x" "mn_ingredients (foldl (add_recipe_line E i) x ls) = mn_ingredients x" for i x ls
    by (induction ls arbitrary: x) (auto simp: add_recipe_line_def)
  show "mn_products db' = mn_products db" "mn_ingredients db' = mn_ingredients db"
    using assms by (simp_all add: append_recipe_def Let_def k)
qed

lemma create_version_again:
  assumes c: "create_version E dtext store r db = Inr (db', v)"
    and d: "mn_products db' = mn_products db" "mn_ingredients db' = mn_ingredients db"
    and h: "compute_content_hash E dtext r = Inr h" "same_content h (wr_from r) (recipe_versions db' store (wr_product r)) = Inr (Some v)"
  shows "create_version E dtext store r db' = Inr (db', v)"
proof -
  have f: "find_product db' store i = find_product db store i" "check_recipe_line E db' store = check_recipe_line E db store" for i
    by (simp_all add: find_product_def check_recipe_line_def store_ingredient_def d)
  obtain xs where g: "\<not> find_product db store (wr_product r) = None" "\<not> \<not> distinct (map fst (wr_lines r))" "\<not> wr_lines r = []"
    "emap (check_recipe_line E db store) (wr_lines r) = Inr xs" "\<not> wr_yield r \<le> 0" "\<not> (wr_loss r < 0 \<or> 1 \<le> wr_loss r)"
    using c unfolding create_version_def by (elim ebind_InrE, unfold raise_if_Inr_iff, blast)
  show ?thesis unfolding create_version_def f h(1) Let_def by (simp only: raise_if_simps g ebind_simps h option.case)
qed

text \<open>A recipe can be sent twice. Creating a version again, with the content it was created with, returns the
  stored version and changes nothing.\<close>

theorem repeated_recipe_reuses_version:
  assumes "recipe_history E db" "inj (rn_fresh E)" "create_version E dtext store r db = Inr (db', v)"
  shows "create_version E dtext store r db' = Inr (db', v)"
  using assms(3)
proof (rule create_versionD)
  fix h lines
  assume h: "compute_content_hash E dtext r = Inr h"
    "\<forall>w \<in> set (recipe_versions db store (wr_product r)). rw_hash w \<noteq> h \<and> rw_from w < wr_from r"
    and a: "(db', v) = append_recipe E store r h lines db"
  let ?vs = "recipe_versions db store (wr_product r)"
  note e = append_recipe_effect [OF recipe_history_ok [OF assms(1,2)] assms(2) a] and k = append_recipe_catalog [OF a]
  have "recipe_versions db' store (wr_product r) =
      (if ?vs = [] then [] else butlast ?vs @ [(last ?vs)\<lparr>rw_to := Some (wr_from r - 1)\<rparr>]) @ [v]"
    using e(2) h(2) by (simp add: Let_def)
  moreover have "\<forall>w \<in> set (if ?vs = [] then [] else butlast ?vs @ [(last ?vs)\<lparr>rw_to := Some (wr_from r - 1)\<rparr>]). rw_hash w \<noteq> h \<and> rw_from w < wr_from r"
    using h(2) by (auto dest: in_set_butlastD)
  ultimately have "same_content h (wr_from r) (recipe_versions db' store (wr_product r)) = Inr (Some v)"
    using same_content_found e(6) h(2) by metis
  then show ?thesis by (rule create_version_again [OF assms(3) k h(1)])
qed (use assms(3) in simp)

end
