(* ===== verification/Usage_Facts.thy ===== *)
theory Usage_Facts
  imports Recipe_Facts
begin

text \<open>
  What rebuilding the usage of a day leaves behind: the observed rows as they were, and for every ingredient that
  the sales of the day use a row, which holds what they use if it is a derived one.
\<close>

section \<open>Totals\<close>

definition amounts :: "('k \<times> dec) list \<Rightarrow> 'k \<Rightarrow> dec list" where
  "amounts parts k = map snd (filter (\<lambda>p. fst p = k) parts)"

lemma totals_get: "dict_get_or (fold add_usage parts d) k 0 = foldl dec_add (dict_get_or d k 0) (amounts parts k)"
proof (induction parts arbitrary: d)
  case Nil
  then show ?case by (simp add: amounts_def)
next
  case (Cons p parts)
  then show ?case by (cases p) (simp add: amounts_def add_usage_def dict_get_or_set)
qed

lemma totals_keys: "set (dict_keys (fold add_usage parts d)) = fst ` set parts \<union> set (dict_keys d)"
proof (induction parts arbitrary: d)
  case Nil
  then show ?case by simp
next
  case (Cons p parts)
  have "set (dict_keys (add_usage p d)) = insert (fst p) (set (dict_keys d))" by (cases p) (simp add: add_usage_def dict_keys_set_eq del: set_map)
  with Cons show ?case by simp
qed

lemma totals_distinct: "distinct (dict_keys d) \<Longrightarrow> distinct (dict_keys (fold add_usage parts d))"
  by (induction parts arbitrary: d) (auto simp: add_usage_def intro: distinct_dict_set)

lemma totals_entry:
  assumes "(k, q) \<in> set (fold add_usage parts [])"
  shows "q = dec_sum (amounts parts k)"
proof -
  have "map_of (fold add_usage parts []) k = Some q"
    using assms totals_distinct [of "[]" parts] by simp
  then show ?thesis using totals_get [of parts "[]" k] by (simp add: dict_get_or_def dec_sum_def)
qed

text \<open>When every ingredient has one unit, an ingredient has one total.\<close>

definition uniform :: "usage_part list \<Rightarrow> bool" where
  "uniform parts \<longleftrightarrow> (\<forall>p \<in> set parts. \<forall>q \<in> set parts. fst (fst p) = fst (fst q) \<longrightarrow> fst p = fst q)"

definition used :: "usage_part list \<Rightarrow> string \<Rightarrow> dec" where
  "used parts ingredient = dec_sum (map snd (filter (\<lambda>p. fst (fst p) = ingredient) parts))"

lemma uniform_used:
  assumes "uniform parts" "p \<in> set parts"
  shows "dec_sum (amounts parts (fst p)) = used parts (fst (fst p))"
proof -
  have "filter (\<lambda>q. fst q = fst p) parts = filter (\<lambda>q. fst (fst q) = fst (fst p)) parts"
    by (rule filter_cong) (use assms in \<open>auto simp: uniform_def\<close>)
  then show ?thesis by (simp add: amounts_def used_def)
qed

lemma uniform_totals:
  assumes "uniform parts"
  shows "distinct (map (fst \<circ> fst) (fold add_usage parts []))"
proof -
  have k: "set (dict_keys (fold add_usage parts [])) = fst ` set parts" using totals_keys [of parts "[]"] by simp
  have "inj_on fst (set (dict_keys (fold add_usage parts [])))"
    unfolding k using assms by (auto simp: uniform_def inj_on_def)
  then have "distinct (map fst (dict_keys (fold add_usage parts [])))"
    by (rule distinct_map [THEN iffD2, OF conjI, rotated]) (simp add: totals_distinct)
  then show ?thesis by (simp only: map_map)
qed

definition one_unit :: "menu_db \<Rightarrow> bool" where
  "one_unit db \<longleftrightarrow> (\<forall>l \<in> set (mn_lines db). \<forall>m \<in> set (mn_lines db). rl_ingredient l = rl_ingredient m \<longrightarrow> rl_unit l = rl_unit m)"

lemma product_usage_line:
  "p \<in> set (fst (product_usage db store day sold x)) \<Longrightarrow> \<exists>l \<in> set (mn_lines db). fst p = (rl_ingredient l, rl_unit l)"
  by (cases x) (auto simp: product_usage_def version_lines_def split: option.splits)

lemma day_usage_line:
  assumes "p \<in> set (day_usage db store day)"
  shows "\<exists>l \<in> set (mn_lines db). fst p = (rl_ingredient l, rl_unit l)"
proof -
  obtain s where "p \<in> set (fst (sale_usage db store day s))" using assms by (auto simp: day_usage_def)
  then obtain x where "p \<in> set (fst (product_usage db store day (sw_quantity s) x))"
    by (auto simp: sale_usage_def Let_def split: option.splits)
  then show ?thesis by (rule product_usage_line)
qed

lemma one_unit_uniform: "one_unit db \<Longrightarrow> uniform (day_usage db store day)"
  unfolding uniform_def one_unit_def using day_usage_line by (metis prod.sel)

section \<open>Rows\<close>

definition usage_drawn :: "runtime \<Rightarrow> menu_db \<Rightarrow> bool" where
  "usage_drawn E db \<longleftrightarrow> distinct (map uw_id (mn_usage db)) \<and> (\<forall>u \<in> set (mn_usage db). recipe_drawn E db (uw_id u))"

definition usage_key :: "usage_row \<Rightarrow> string \<times> date \<times> string" where
  "usage_key u = (uw_store u, uw_date u, uw_ingredient u)"

definition usage_ok :: "runtime \<Rightarrow> menu_db \<Rightarrow> bool" where
  "usage_ok E db \<longleftrightarrow> usage_drawn E db \<and> distinct (map usage_key (mn_usage db))"

definition rebuilt :: "string \<Rightarrow> date \<Rightarrow> usage_row \<Rightarrow> bool" where
  "rebuilt store day u \<longleftrightarrow> uw_store u = store \<and> uw_date u = day \<and> is_derived_usage_source (uw_source u)"

definition settle :: "(string, usage_row) dict \<Rightarrow> usage_row \<Rightarrow> usage_part \<Rightarrow> usage_row" where
  "settle existing u = (\<lambda>((ingredient, unit), q).
     case dict_get existing ingredient of
       None \<Rightarrow> u
     | Some r \<Rightarrow> if is_derived_usage_source (uw_source r) \<and> uw_id u = uw_id r then u\<lparr>uw_quantity := q, uw_unit := unit\<rparr> else u)"

fun new_rows :: "runtime \<Rightarrow> string \<Rightarrow> date \<Rightarrow> (string, usage_row) dict \<Rightarrow> nat \<Rightarrow> usage_part list \<Rightarrow> usage_row list" where
  "new_rows E store day existing n [] = []"
| "new_rows E store day existing n (((ingredient, unit), q) # ts) =
     (case dict_get existing ingredient of
        None \<Rightarrow> \<lparr>uw_id = rn_fresh E n, uw_store = store, uw_date = day, uw_ingredient = ingredient, uw_quantity = q, uw_unit = unit,
                 uw_source = DERIVED_USAGE_SOURCE\<rparr> # new_rows E store day existing (Suc n) ts
      | Some _ \<Rightarrow> new_rows E store day existing n ts)"

lemma settle_id:
  assumes "\<And>k r. dict_get existing k = Some r \<Longrightarrow> uw_id r \<noteq> uw_id u"
  shows "foldl (settle existing) u ts = u"
proof -
  have "settle existing u t = u" for t
    by (cases "dict_get existing (fst (fst t))") (auto simp: settle_def case_prod_beta dest: assms)
  then show ?thesis by (induction ts) simp_all
qed

lemma apply_totals:
  assumes "\<And>k r n. dict_get existing k = Some r \<Longrightarrow> mn_serial db \<le> n \<Longrightarrow> uw_id r \<noteq> rn_fresh E n"
  shows "mn_usage (foldl (apply_total E store day existing) db ts) =
      map (\<lambda>u. foldl (settle existing) u ts) (mn_usage db) @ new_rows E store day existing (mn_serial db) ts \<and>
    mn_serial db + length (new_rows E store day existing (mn_serial db) ts) = mn_serial (foldl (apply_total E store day existing) db ts)"
  using assms
proof (induction ts arbitrary: db)
  case Nil
  then show ?case by simp
next
  case (Cons t ts)
  obtain i un q where t: "t = ((i, un), q)" by (metis surj_pair)
  let ?d = "apply_total E store day existing db t"
  have s: "mn_serial db \<le> mn_serial ?d" by (auto simp: apply_total_def t split: option.splits)
  have h: "uw_id r \<noteq> rn_fresh E n" if "dict_get existing k = Some r" "mn_serial ?d \<le> n" for k r n
    using Cons.prems [OF that(1)] that(2) s by simp
  note IH = Cons.IH [of ?d, OF h]
  show ?case
  proof (cases "dict_get existing i")
    case None
    let ?u = "\<lparr>uw_id = rn_fresh E (mn_serial db), uw_store = store, uw_date = day, uw_ingredient = i, uw_quantity = q, uw_unit = un,
               uw_source = DERIVED_USAGE_SOURCE\<rparr>"
    have "foldl (settle existing) ?u ts = ?u" by (rule settle_id) (use Cons.prems in fastforce)
    moreover have "settle existing u t = u" for u by (simp add: settle_def t None)
    ultimately show ?thesis using IH None by (simp add: apply_total_def t)
  next
    case (Some r)
    have "settle existing u t = (if is_derived_usage_source (uw_source r) \<and> uw_id u = uw_id r then u\<lparr>uw_quantity := q, uw_unit := un\<rparr> else u)" for u
      by (simp add: settle_def t Some)
    with IH Some show ?thesis by (auto simp: apply_total_def t comp_def)
  qed
qed

text \<open>The rows of the day by ingredient.\<close>

lemma day_rows_get:
  assumes "usage_ok E db"
  shows "dict_get (index_by uw_ingredient (day_rows db store day)) i = Some r \<longleftrightarrow> r \<in> set (day_rows db store day) \<and> uw_ingredient r = i"
proof -
  let ?rows = "day_rows db store day"
  have d: "distinct (map usage_key ?rows)" using assms by (simp add: usage_ok_def day_rows_def distinct_map_filter)
  have key: "usage_key u = (store, day, uw_ingredient u)" if "u \<in> set ?rows" for u using that by (simp add: day_rows_def usage_key_def)
  have inj: "u = w" if "u \<in> set ?rows" "w \<in> set ?rows" "uw_ingredient u = uw_ingredient w" for u w
    using d that key by (metis distinct_map inj_onD)
  show ?thesis
  proof
    assume "dict_get (index_by uw_ingredient ?rows) i = Some r"
    then show "r \<in> set ?rows \<and> uw_ingredient r = i" using find_mem by (fastforce simp: dict_get_index_by)
  next
    assume r: "r \<in> set ?rows \<and> uw_ingredient r = i"
    then obtain w where w: "find (\<lambda>x. uw_ingredient x = i) (rev ?rows) = Some w"
      by (cases "find (\<lambda>x. uw_ingredient x = i) (rev ?rows)") (auto simp: find_None_iff)
    from find_mem [OF w] have "w \<in> set ?rows" "uw_ingredient w = i" by simp_all
    with r inj w show "dict_get (index_by uw_ingredient ?rows) i = Some r" unfolding dict_get_index_by by metis
  qed
qed

text \<open>A derived row of the day takes the total of its ingredient; every other row stays.\<close>

definition total_of :: "usage_part list \<Rightarrow> usage_row \<Rightarrow> usage_row" where
  "total_of ts u = (case find (\<lambda>t. fst (fst t) = uw_ingredient u) ts of None \<Rightarrow> u | Some ((i, un), q) \<Rightarrow> u\<lparr>uw_quantity := q, uw_unit := un\<rparr>)"

lemma settled:
  assumes ok: "usage_ok E db" and u: "u \<in> set (mn_usage db)" and d: "distinct (map (fst \<circ> fst) ts)"
  shows "foldl (settle (index_by uw_ingredient (day_rows db store day))) u ts = (if rebuilt store day u then total_of ts u else u)"
proof -
  let ?x = "index_by uw_ingredient (day_rows db store day)"
  have same: "r = w" if "r \<in> set (mn_usage db)" "w \<in> set (mn_usage db)" "uw_id r = uw_id w" for r w
    using ok that by (metis distinct_map inj_onD usage_drawn_def usage_ok_def)
  have one: "settle ?x w t = (if rebuilt store day u \<and> fst (fst t) = uw_ingredient u then w\<lparr>uw_quantity := snd t, uw_unit := snd (fst t)\<rparr> else w)"
    if w: "uw_id w = uw_id u" for w t
  proof (cases "dict_get ?x (fst (fst t))")
    case None
    then have "\<not> (rebuilt store day u \<and> fst (fst t) = uw_ingredient u)"
      using day_rows_get [OF ok, of store day "fst (fst t)" u] u by (auto simp: day_rows_def rebuilt_def)
    then show ?thesis using None by (auto simp: settle_def case_prod_beta)
  next
    case (Some r)
    then have r: "r \<in> set (day_rows db store day)" "uw_ingredient r = fst (fst t)" using day_rows_get [OF ok] by simp_all
    have "is_derived_usage_source (uw_source r) \<and> uw_id w = uw_id r \<longleftrightarrow> rebuilt store day u \<and> fst (fst t) = uw_ingredient u"
    proof
      assume a: "is_derived_usage_source (uw_source r) \<and> uw_id w = uw_id r"
      then have "r = u" using same [OF _ u, of r] r w by (simp add: day_rows_def)
      then show "rebuilt store day u \<and> fst (fst t) = uw_ingredient u" using a r by (simp add: rebuilt_def day_rows_def)
    next
      assume a: "rebuilt store day u \<and> fst (fst t) = uw_ingredient u"
      then have "dict_get ?x (fst (fst t)) = Some u" using day_rows_get [OF ok] u by (simp add: rebuilt_def day_rows_def)
      with Some have "r = u" by simp
      then show "is_derived_usage_source (uw_source r) \<and> uw_id w = uw_id r" using a w by (simp add: rebuilt_def)
    qed
    then show ?thesis using Some by (simp add: settle_def case_prod_beta)
  qed
  have rest: "foldl (settle ?x) w ts = w" if "uw_id w = uw_id u" "\<not> rebuilt store day u \<or> uw_ingredient u \<notin> (fst \<circ> fst) ` set ts" for w ts
    using that(2) by (induction ts) (auto simp: one [OF that(1)])
  have "foldl (settle ?x) w ts = (if rebuilt store day u
      then (case find (\<lambda>t. fst (fst t) = uw_ingredient u) ts of None \<Rightarrow> w | Some ((i, un), q) \<Rightarrow> w\<lparr>uw_quantity := q, uw_unit := un\<rparr>) else w)"
    if "uw_id w = uw_id u" for w
    using d that
  proof (induction ts arbitrary: w)
    case Nil
    then show ?case by simp
  next
    case (Cons t ts)
    show ?case
    proof (cases "rebuilt store day u \<and> fst (fst t) = uw_ingredient u")
      case True
      then have "uw_ingredient u \<notin> (fst \<circ> fst) ` set ts" using Cons.prems(1) by auto
      then show ?thesis using True rest [of "w\<lparr>uw_quantity := snd t, uw_unit := snd (fst t)\<rparr>" ts] Cons.prems(2)
        by (simp add: one case_prod_beta)
    next
      case False
      then show ?thesis using Cons by (auto simp: one)
    qed
  qed
  then show ?thesis by (simp add: total_of_def)
qed

lemma new_rows_mem:
  assumes "u \<in> set (new_rows E store day existing n ts)"
  shows "uw_store u = store \<and> uw_date u = day \<and> uw_source u = DERIVED_USAGE_SOURCE \<and> dict_get existing (uw_ingredient u) = None \<and>
    ((uw_ingredient u, uw_unit u), uw_quantity u) \<in> set ts \<and>
    (\<exists>k. uw_id u = rn_fresh E k \<and> n \<le> k \<and> k < n + length (new_rows E store day existing n ts))"
  using assms
proof (induction ts arbitrary: n)
  case Nil
  then show ?case by simp
next
  case (Cons t ts)
  obtain i un q where t: "t = ((i, un), q)" by (metis surj_pair)
  show ?case
  proof (cases "dict_get existing i")
    case None
    show ?thesis
    proof (cases "u \<in> set (new_rows E store day existing (Suc n) ts)")
      case True
      from Cons.IH [OF this] None show ?thesis by (auto simp: t Suc_le_eq intro: less_imp_le)
    next
      case False
      with Cons.prems None show ?thesis by (auto simp: t)
    qed
  next
    case (Some r)
    with Cons show ?thesis by (simp add: t)
  qed
qed

lemma new_rows_cover:
  "t \<in> set ts \<Longrightarrow> dict_get existing (fst (fst t)) = None \<Longrightarrow>
   \<exists>u \<in> set (new_rows E store day existing n ts). uw_ingredient u = fst (fst t)"
proof (induction ts arbitrary: n)
  case Nil
  then show ?case by simp
next
  case (Cons x ts)
  obtain i un q where x: "x = ((i, un), q)" by (metis surj_pair)
  show ?case using Cons by (cases "dict_get existing i") (auto simp: x)
qed

lemma new_rows_ids:
  assumes "inj (rn_fresh E)"
  shows "distinct (map uw_id (new_rows E store day existing n ts))"
proof (induction ts arbitrary: n)
  case Nil
  then show ?case by simp
next
  case (Cons t ts)
  obtain i un q where t: "t = ((i, un), q)" by (metis surj_pair)
  have "uw_id x \<noteq> rn_fresh E n" if x: "x \<in> set (new_rows E store day existing (Suc n) ts)" for x
  proof -
    obtain k where "uw_id x = rn_fresh E k" "Suc n \<le> k" using new_rows_mem [OF x] by blast
    then show ?thesis using assms by (auto dest: injD)
  qed
  then have "rn_fresh E n \<notin> uw_id ` set (new_rows E store day existing (Suc n) ts)" by (metis imageE)
  with Cons show ?case by (auto simp: t split: option.splits)
qed

text \<open>The rows after the usage of a day has been rebuilt.\<close>

definition rebuilt_row :: "menu_db \<Rightarrow> string \<Rightarrow> date \<Rightarrow> usage_row \<Rightarrow> usage_row" where
  "rebuilt_row db store day u =
     (let ts = fold add_usage (day_usage db store day) [] in
      if rebuilt store day u
      then (if uw_ingredient u \<in> (fst \<circ> fst) ` set ts then total_of ts u else u\<lparr>uw_quantity := 0\<rparr>)
      else u)"

text \<open>The database a rebuild leaves, before the unique key is checked.\<close>

definition rebuilt_db :: "runtime \<Rightarrow> string \<Rightarrow> date \<Rightarrow> menu_db \<Rightarrow> menu_db" where
  "rebuilt_db E store day db =
     (let totals = fold add_usage (day_usage db store day) []; rows = day_rows db store day;
          db1 = foldl (apply_total E store day (index_by uw_ingredient rows)) db totals in
      db1\<lparr>mn_usage := map (reset_row (map uw_id rows) (map (fst \<circ> fst) totals)) (mn_usage db1)\<rparr>)"

lemma reconcile_day_rebuilt:
  "reconcile_day E store day db =
     ebind (flush_usage (rebuilt_db E store day db)) (\<lambda>_. Inr (rebuilt_db E store day db, day_warnings db store day))"
  by (simp add: reconcile_day_def rebuilt_db_def Let_def)

lemma new_rows_keys:
  "distinct (map (fst \<circ> fst) ts) \<Longrightarrow> distinct (map uw_ingredient (new_rows E store day existing n ts)) \<and>
   uw_ingredient ` set (new_rows E store day existing n ts) \<subseteq> (fst \<circ> fst) ` set ts"
proof (induction ts arbitrary: n)
  case Nil
  then show ?case by simp
next
  case (Cons t ts)
  obtain i un q where t: "t = ((i, un), q)" by (metis prod.exhaust)
  from Cons.IH Cons.prems show ?case by (cases "dict_get existing i") (auto simp: t)
qed

lemma rebuilt_rows:
  assumes ok: "usage_ok E db" and inj: "inj (rn_fresh E)"
    and un: "uniform (day_usage db store day)"
  defines "db' \<equiv> rebuilt_db E store day db" and "existing \<equiv> index_by uw_ingredient (day_rows db store day)" and "ts \<equiv> fold add_usage (day_usage db store day) []"
  shows "mn_usage db' = map (rebuilt_row db store day) (mn_usage db) @ new_rows E store day existing (mn_serial db) ts"
    "usage_ok E db'" "mn_sales db' = mn_sales db" "mn_products db' = mn_products db" "mn_bundles db' = mn_bundles db"
proof -
  let ?new = "new_rows E store day existing (mn_serial db) ts"
  let ?d = "foldl (apply_total E store day existing) db ts"
  have fresh: "uw_id u \<noteq> rn_fresh E n" if u: "u \<in> set (mn_usage db)" "mn_serial db \<le> n" for u n
  proof -
    obtain m where "m < mn_serial db" "uw_id u = rn_fresh E m"
      using ok u(1) by (auto simp: usage_ok_def usage_drawn_def recipe_drawn_def)
    with u(2) inj show ?thesis by (auto dest: injD)
  qed
  have "uw_id x \<noteq> rn_fresh E n" if "dict_get existing k = Some x" "mn_serial db \<le> n" for k x n
    using that fresh [of x n] day_rows_get [OF ok, of store day k x] by (simp add: existing_def day_rows_def)
  from apply_totals [of existing db E store day ts, OF this]
  have a: "mn_usage ?d = map (\<lambda>u. foldl (settle existing) u ts) (mn_usage db) @ ?new" "mn_serial db + length ?new = mn_serial ?d" by simp_all
  have d: "distinct (map (fst \<circ> fst) ts)" unfolding ts_def by (rule uniform_totals [OF un])
  have same: "u = w" if "u \<in> set (mn_usage db)" "w \<in> set (mn_usage db)" "uw_id u = uw_id w" for u w
    using ok that by (metis distinct_map inj_onD usage_drawn_def usage_ok_def)
  let ?reset = "reset_row (map uw_id (day_rows db store day)) (map (fst \<circ> fst) ts)"
  have tot: "uw_id (total_of ts u) = uw_id u" "uw_source (total_of ts u) = uw_source u" "uw_ingredient (total_of ts u) = uw_ingredient u"
    "usage_key (total_of ts u) = usage_key u" for u
    by (auto simp: total_of_def usage_key_def split: option.splits)
  have old: "?reset (foldl (settle existing) u ts) = rebuilt_row db store day u" if u: "u \<in> set (mn_usage db)" for u
  proof -
    have m: "uw_id u \<in> uw_id ` set (day_rows db store day) \<longleftrightarrow> uw_store u = store \<and> uw_date u = day"
      using same [OF u] u by (auto simp: day_rows_def)
    have none: "total_of ts u = u" if "uw_ingredient u \<notin> (fst \<circ> fst) ` set ts"
    proof -
      have "find (\<lambda>t. fst (fst t) = uw_ingredient u) ts = None" using that by (force simp: find_None_iff)
      then show ?thesis by (simp add: total_of_def)
    qed
    have "foldl (settle existing) u ts = (if rebuilt store day u then total_of ts u else u)"
      unfolding existing_def by (rule settled [OF ok u d])
    then show ?thesis
      using none by (auto simp: rebuilt_row_def ts_def [symmetric] Let_def reset_row_def m tot rebuilt_def)
  qed
  have new: "?reset u = u" if u: "u \<in> set ?new" for u
  proof -
    obtain k where "uw_id u = rn_fresh E k" "mn_serial db \<le> k" using new_rows_mem [OF u] by blast
    then have "uw_id u \<notin> uw_id ` set (day_rows db store day)" using fresh by (fastforce simp: day_rows_def)
    then show ?thesis by (simp add: reset_row_def)
  qed
  have db': "db' = ?d\<lparr>mn_usage := map ?reset (mn_usage ?d)\<rparr>"
    by (simp add: db'_def rebuilt_db_def Let_def existing_def ts_def)
  show rows: "mn_usage db' = map (rebuilt_row db store day) (mn_usage db) @ ?new"
    using old new by (simp add: db' a(1) comp_def map_idI)
  have "mn_sales (foldl (apply_total E store day existing) x ys) = mn_sales x \<and>
      mn_products (foldl (apply_total E store day existing) x ys) = mn_products x \<and>
      mn_bundles (foldl (apply_total E store day existing) x ys) = mn_bundles x" for x ys
    by (induction ys arbitrary: x) (auto simp: apply_total_def split: option.splits)
  then show "mn_sales db' = mn_sales db" "mn_products db' = mn_products db" "mn_bundles db' = mn_bundles db" by (simp_all add: db')
  have ids: "uw_id (rebuilt_row db store day u) = uw_id u" for u by (auto simp: rebuilt_row_def Let_def ts_def [symmetric] tot)
  have "distinct (map uw_id (mn_usage db'))"
    using ok new_rows_ids [OF inj, of store day existing "mn_serial db" ts] new_rows_mem [of _ E store day existing "mn_serial db" ts] fresh
    by (fastforce simp: rows ids comp_def usage_ok_def usage_drawn_def)
  moreover have "recipe_drawn E db' (uw_id u)" if "u \<in> set (mn_usage db')" for u
  proof -
    have ser: "mn_serial db' = mn_serial db + length ?new" using a(2) by (simp add: db')
    from that consider w where "w \<in> set (mn_usage db)" "uw_id u = uw_id w" | "u \<in> set ?new" unfolding rows using ids by auto
    then show ?thesis
    proof cases
      case 1
      then show ?thesis using ok recipe_drawn_later [of E db "uw_id w" db'] ser by (auto simp: usage_ok_def usage_drawn_def)
    next
      case 2
      from new_rows_mem [OF this] show ?thesis using ser by (auto simp: recipe_drawn_def)
    qed
  qed
  moreover have "distinct (map usage_key (mn_usage db'))"
  proof -
    have "usage_key (rebuilt_row db store day u) = usage_key u" for u
      by (auto simp: rebuilt_row_def Let_def ts_def [symmetric] tot) (simp add: usage_key_def)
    then have "distinct (map usage_key (map (rebuilt_row db store day) (mn_usage db)))" using ok by (simp add: usage_ok_def comp_def)
    moreover have n: "usage_key u = (store, day, uw_ingredient u)" if "u \<in> set ?new" for u
      using new_rows_mem [OF that] by (simp add: usage_key_def)
    have "map usage_key ?new = map (Pair store \<circ> Pair day) (map uw_ingredient ?new)" using n by simp
    then have "distinct (map usage_key ?new)"
      using new_rows_keys [OF d] by (simp add: distinct_map inj_on_def)
    moreover have "usage_key u \<noteq> usage_key w" if "u \<in> set ?new" "w \<in> set (mn_usage db)" for u w
    proof
      assume "usage_key u = usage_key w"
      then have "w \<in> set (day_rows db store day)" "uw_ingredient w = uw_ingredient u"
        using n [OF that(1)] that(2) by (simp_all add: usage_key_def day_rows_def)
      then have "dict_get existing (uw_ingredient u) = Some w" using day_rows_get [OF ok] by (simp add: existing_def)
      then show False using new_rows_mem [OF that(1)] by simp
    qed
    ultimately show ?thesis
      unfolding rows by (fastforce simp: \<open>\<And>u. usage_key (rebuilt_row db store day u) = usage_key u\<close>)
  qed
  ultimately show "usage_ok E db'" by (simp add: usage_ok_def usage_drawn_def)
qed

lemma reconciled_rows:
  assumes r: "reconcile_day E store day db = Inr (db', ws)" and ok: "usage_ok E db" and inj: "inj (rn_fresh E)"
    and un: "uniform (day_usage db store day)"
  shows "mn_usage db' = map (rebuilt_row db store day) (mn_usage db) @
      new_rows E store day (index_by uw_ingredient (day_rows db store day)) (mn_serial db) (fold add_usage (day_usage db store day) [])"
    "usage_ok E db'" "mn_sales db' = mn_sales db" "mn_products db' = mn_products db" "mn_bundles db' = mn_bundles db"
proof -
  have "db' = rebuilt_db E store day db" using r unfolding reconcile_day_rebuilt by (elim ebind_InrE) simp
  with rebuilt_rows [OF ok inj un] show "mn_usage db' = map (rebuilt_row db store day) (mn_usage db) @
      new_rows E store day (index_by uw_ingredient (day_rows db store day)) (mn_serial db) (fold add_usage (day_usage db store day) [])"
    "usage_ok E db'" "mn_sales db' = mn_sales db" "mn_products db' = mn_products db" "mn_bundles db' = mn_bundles db" by simp_all
qed

text \<open>The unique key of the table is never in the way.\<close>

lemma reconcile_day_returns:
  assumes "usage_ok E db" "inj (rn_fresh E)" "uniform (day_usage db store day)"
  shows "reconcile_day E store day db = Inr (rebuilt_db E store day db, day_warnings db store day)"
proof -
  have "usage_ok E (rebuilt_db E store day db)" by (rule rebuilt_rows(2) [OF assms])
  then have "flush_usage (rebuilt_db E store day db) = Inr ()" by (simp add: flush_usage_def usage_ok_def usage_key_def [abs_def])
  then show ?thesis by (simp add: reconcile_day_rebuilt)
qed

section \<open>The properties\<close>

lemma day_usage_cong:
  assumes "mn_versions db' = mn_versions db" "mn_lines db' = mn_lines db" "mn_sales db' = mn_sales db" "mn_products db' = mn_products db"
    "mn_bundles db' = mn_bundles db"
  shows "day_usage db' store day = day_usage db store day" "day_warnings db' store day = day_warnings db store day"
proof -
  have av: "active_version db' = active_version db" "version_lines db' = version_lines db"
    by (intro ext, simp add: active_version_def recipe_versions_def assms, intro ext, simp add: version_lines_def assms)
  have pu: "product_usage db' = product_usage db" by (intro ext) (simp only: product_usage_def av)
  have fp: "find_product db' = find_product db" "demand_products db' = demand_products db"
    by (intro ext, simp add: find_product_def assms, intro ext, simp add: demand_products_def assms)
  have "sale_usage db' st d x = sale_usage db st d x" for st d x unfolding sale_usage_def pu fp ..
  then show "day_usage db' store day = day_usage db store day" "day_warnings db' store day = day_warnings db store day"
    by (simp_all add: day_usage_def day_warnings_def day_sales_def assms)
qed

text \<open>What a rebuilt row holds.\<close>

lemma rebuilt_quantity:
  assumes r: "reconcile_day E store day db = Inr (db', ws)" and ok: "usage_ok E db" and inj: "inj (rn_fresh E)"
    and un: "uniform (day_usage db store day)" and u: "u \<in> set (mn_usage db')" "rebuilt store day u"
  shows "uw_quantity u = used (day_usage db store day) (uw_ingredient u)"
    "uw_ingredient u \<in> (fst \<circ> fst) ` set (day_usage db store day) \<Longrightarrow>
      ((uw_ingredient u, uw_unit u), uw_quantity u) \<in> set (fold add_usage (day_usage db store day) [])"
proof -
  let ?parts = "day_usage db store day"
  let ?ts = "fold add_usage ?parts []"
  have keys: "fst ` set ?ts = fst ` set ?parts" using totals_keys [of ?parts "[]"] by simp
  then have ings: "(fst \<circ> fst) ` set ?ts = (fst \<circ> fst) ` set ?parts" by (metis image_comp)
  have entry: "q = used ?parts i" if t: "((i, un'), q) \<in> set ?ts" for i un' q
  proof -
    have "(i, un') \<in> fst ` set ?parts" using t unfolding keys [symmetric] by force
    then obtain p where p: "p \<in> set ?parts" "fst p = (i, un')" by auto
    then have "dec_sum (amounts ?parts (i, un')) = used ?parts i" using uniform_used [OF un, of p] by simp
    then show ?thesis using totals_entry [OF t] by simp
  qed
  have none: "used ?parts i = 0" if i: "i \<notin> (fst \<circ> fst) ` set ?parts" for i
  proof -
    have "filter (\<lambda>p. fst (fst p) = i) ?parts = []" using i by (force simp: filter_empty_conv)
    then show ?thesis by (simp add: used_def dec_sum_def)
  qed
  have "uw_quantity u = used ?parts (uw_ingredient u) \<and> (uw_ingredient u \<in> (fst \<circ> fst) ` set ?parts \<longrightarrow>
      ((uw_ingredient u, uw_unit u), uw_quantity u) \<in> set ?ts)"
  proof (cases "u \<in> rebuilt_row db store day ` set (mn_usage db)")
    case True
    then obtain w where w: "u = rebuilt_row db store day w" by blast
    then have rw: "rebuilt store day w" and i: "uw_ingredient u = uw_ingredient w"
      using u(2) by (auto simp: rebuilt_row_def rebuilt_def total_of_def Let_def split: if_splits option.splits)
    show ?thesis
    proof (cases "uw_ingredient w \<in> (fst \<circ> fst) ` set ?parts")
      case True
      then obtain t where t: "find (\<lambda>t. fst (fst t) = uw_ingredient w) ?ts = Some t"
        unfolding ings [symmetric] by (cases "find (\<lambda>t. fst (fst t) = uw_ingredient w) ?ts") (auto simp: find_None_iff)
      obtain un' q where tt: "t = ((uw_ingredient w, un'), q)" using find_mem [OF t] by (cases t) auto
      have "u = w\<lparr>uw_quantity := q, uw_unit := un'\<rparr>" using True t rw ings by (simp add: w rebuilt_row_def Let_def total_of_def tt)
      moreover have m: "((uw_ingredient w, un'), q) \<in> set ?ts" using find_mem [OF t] tt by simp
      ultimately show ?thesis using entry [OF m] by simp
    next
      case False
      then have "uw_quantity u = 0" using rw ings by (simp add: w rebuilt_row_def Let_def)
      with False none i show ?thesis by simp
    qed
  next
    case False
    then have "u \<in> set (new_rows E store day (index_by uw_ingredient (day_rows db store day)) (mn_serial db) ?ts)"
      using u(1) reconciled_rows(1) [OF r ok inj un] by auto
    then show ?thesis using new_rows_mem entry by blast
  qed
  then show "uw_quantity u = used ?parts (uw_ingredient u)"
    "uw_ingredient u \<in> (fst \<circ> fst) ` set ?parts \<Longrightarrow> ((uw_ingredient u, uw_unit u), uw_quantity u) \<in> set ?ts" by blast+
qed

lemma rebuilt_covers:
  assumes r: "reconcile_day E store day db = Inr (db', ws)" and ok: "usage_ok E db" and inj: "inj (rn_fresh E)"
    and un: "uniform (day_usage db store day)" and p: "p \<in> set (day_usage db store day)"
  shows "\<exists>u \<in> set (day_rows db' store day). uw_ingredient u = fst (fst p)"
proof -
  let ?ts = "fold add_usage (day_usage db store day) []" and ?x = "index_by uw_ingredient (day_rows db store day)"
  note rows = reconciled_rows(1) [OF r ok inj un]
  show ?thesis
  proof (cases "dict_get ?x (fst (fst p))")
    case None
    have "fst ` set ?ts = fst ` set (day_usage db store day)" using totals_keys [of "day_usage db store day" "[]"] by simp
    then obtain t where t: "t \<in> set ?ts" "fst t = fst p" using p by (metis imageE imageI)
    then obtain u where "u \<in> set (new_rows E store day ?x (mn_serial db) ?ts)" "uw_ingredient u = fst (fst p)"
      using new_rows_cover [OF t(1), of ?x E store day "mn_serial db"] None by auto
    then show ?thesis using new_rows_mem [of u] rows by (auto simp: day_rows_def)
  next
    case (Some w)
    then have w: "w \<in> set (day_rows db store day)" "uw_ingredient w = fst (fst p)" using day_rows_get [OF ok] by simp_all
    have "uw_store (rebuilt_row db store day w) = uw_store w" "uw_date (rebuilt_row db store day w) = uw_date w"
      "uw_ingredient (rebuilt_row db store day w) = uw_ingredient w"
      by (auto simp: rebuilt_row_def Let_def total_of_def split: option.splits)
    then have "rebuilt_row db store day w \<in> set (day_rows db' store day)" using w by (auto simp: rows day_rows_def)
    then show ?thesis using w(2) \<open>uw_ingredient (rebuilt_row db store day w) = uw_ingredient w\<close> by metis
  qed
qed


text \<open>Nothing is left to do on rows that hold their totals.\<close>

lemma apply_total_settled:
  assumes "dict_get existing (fst (fst t)) = Some r" "r \<in> set (mn_usage db)" "distinct (map uw_id (mn_usage db))"
    and "is_derived_usage_source (uw_source r) \<Longrightarrow> uw_quantity r = snd t \<and> uw_unit r = snd (fst t)"
  shows "apply_total E store day existing db t = db"
proof -
  have "u = r" if "u \<in> set (mn_usage db)" "uw_id u = uw_id r" for u
    using assms(2,3) that by (metis distinct_map inj_onD)
  moreover have "r\<lparr>uw_quantity := snd t, uw_unit := snd (fst t)\<rparr> = r" if "is_derived_usage_source (uw_source r)"
    using assms(4) [OF that] by (cases r) simp
  ultimately have "map (\<lambda>u. if uw_id u = uw_id r then u\<lparr>uw_quantity := snd t, uw_unit := snd (fst t)\<rparr> else u) (mn_usage db) = mn_usage db"
    if "is_derived_usage_source (uw_source r)" using that by (intro map_idI) auto
  then show ?thesis by (simp add: apply_total_def case_prod_beta assms(1))
qed

lemma foldl_fixed: "(\<And>t. t \<in> set ts \<Longrightarrow> f d t = d) \<Longrightarrow> foldl f d ts = d"
  by (induction ts) auto

text \<open>Rebuilding the usage of a day twice is the same as once.\<close>

theorem usage_rebuild_idempotent:
  assumes "reconcile_day E store day db = Inr (db', ws)" "usage_ok E db" "inj (rn_fresh E)" "one_unit db"
  shows "reconcile_day E store day db' = Inr (db', ws)"
proof -
  note un = one_unit_uniform [OF assms(4), of store day]
  note r = reconciled_rows [OF assms(1-3) un]
  have c: "day_usage db' store day = day_usage db store day" "day_warnings db' store day = day_warnings db store day"
    using day_usage_cong [of db' db] reconcile_day_recipes [OF assms(1)] r(3-5) by (simp_all add: same_recipes_def)
  let ?parts = "day_usage db store day"
  let ?ts = "fold add_usage ?parts []" and ?x = "index_by uw_ingredient (day_rows db' store day)"
  have keys: "fst ` set ?ts = fst ` set ?parts" using totals_keys [of ?parts "[]"] by simp
  have ids: "distinct (map uw_id (mn_usage db'))" using r(2) by (simp add: usage_ok_def usage_drawn_def)
  have "apply_total E store day ?x db' t = db'" if t: "t \<in> set ?ts" for t
  proof -
    obtain p where p: "p \<in> set ?parts" "fst p = fst t" using t keys by (metis imageE imageI)
    obtain u where u: "u \<in> set (day_rows db' store day)" "uw_ingredient u = fst (fst t)"
      using rebuilt_covers [OF assms(1-3) un p(1)] p(2) by auto
    then have x: "dict_get ?x (fst (fst t)) = Some u" using day_rows_get [OF r(2)] by simp
    have m: "u \<in> set (mn_usage db')" using u(1) by (simp add: day_rows_def)
    show ?thesis
    proof (rule apply_total_settled [OF x m ids])
      assume d: "is_derived_usage_source (uw_source u)"
      have "rebuilt store day u" using u(1) d by (simp add: day_rows_def rebuilt_def)
      moreover have "uw_ingredient u \<in> (fst \<circ> fst) ` set ?parts" by (rule image_eqI [OF _ p(1)]) (simp add: p(2) u(2))
      ultimately have e: "((uw_ingredient u, uw_unit u), uw_quantity u) \<in> set ?ts" using rebuilt_quantity(2) [OF assms(1-3) un m] by blast
      have i: "inj_on (fst \<circ> fst) (set ?ts)" using uniform_totals [OF un] by (simp add: distinct_map)
      have "((uw_ingredient u, uw_unit u), uw_quantity u) = t" by (rule inj_onD [OF i _ e t]) (simp add: u(2))
      then show "uw_quantity u = snd t \<and> uw_unit u = snd (fst t)" by (metis prod.sel)
    qed
  qed
  then have f: "foldl (apply_total E store day ?x) db' ?ts = db'" by (rule foldl_fixed)
  have "reset_row (map uw_id (day_rows db' store day)) (map (fst \<circ> fst) ?ts) u = u" if u: "u \<in> set (mn_usage db')" for u
  proof (cases "uw_id u \<in> uw_id ` set (day_rows db' store day) \<and> is_derived_usage_source (uw_source u) \<and> uw_ingredient u \<notin> (fst \<circ> fst) ` set ?ts")
    case True
    then obtain w where w: "w \<in> set (day_rows db' store day)" "uw_id w = uw_id u" by (metis imageE)
    then have "w = u" using u ids by (metis (mono_tags, lifting) day_rows_def distinct_map filter_is_subset inj_onD subsetD)
    then have b: "rebuilt store day u" using w True by (simp add: day_rows_def rebuilt_def)
    have "uw_ingredient u \<notin> (fst \<circ> fst) ` set ?parts" using True keys by (metis image_comp)
    then have "filter (\<lambda>p. fst (fst p) = uw_ingredient u) ?parts = []" by (force simp: filter_empty_conv)
    then have "uw_quantity u = 0" using rebuilt_quantity(1) [OF assms(1-3) un u b] by (simp add: used_def dec_sum_def)
    then show ?thesis by (simp add: reset_row_def)
  next
    case False
    then show ?thesis by (auto simp: reset_row_def)
  qed
  then have m: "map (reset_row (map uw_id (day_rows db' store day)) (map (fst \<circ> fst) ?ts)) (mn_usage db') = mn_usage db'" by (rule map_idI)
  have "flush_usage db' = Inr ()" using r(2) by (simp add: flush_usage_def usage_ok_def usage_key_def [abs_def])
  moreover have "ws = day_warnings db store day" using assms(1) by (auto simp: reconcile_day_def Let_def result_simps)
  ultimately show ?thesis by (simp add: reconcile_day_def c Let_def f m)
qed

section \<open>Where it goes wrong\<close>

text \<open>Recipes with other yields and losses.\<close>

definition reyield :: "(recipe_version_row \<Rightarrow> dec) \<Rightarrow> (recipe_version_row \<Rightarrow> dec) \<Rightarrow> menu_db \<Rightarrow> menu_db" where
  "reyield y l db = db\<lparr>mn_versions := map (\<lambda>v. v\<lparr>rw_yield := y v, rw_loss := l v\<rparr>) (mn_versions db)\<rparr>"

lemma sort_key_map: "(\<And>x. k (f x) = k x) \<Longrightarrow> sort_key k (map f xs) = map f (sort_key k xs)"
proof (induction xs)
  case Nil
  then show ?case by simp
next
  case (Cons x xs)
  have "insort_key k (f x) (map f ys) = map f (insort_key k x ys)" for ys
    by (induction ys) (simp_all add: Cons.prems)
  with Cons show ?case by simp
qed

lemma find_map: "(\<And>x. P (f x) = P x) \<Longrightarrow> find P (map f xs) = map_option f (find P xs)"
  by (induction xs) auto

lemma reyield_usage:
  "day_usage (reyield y l db) store day = day_usage db store day" "day_warnings (reyield y l db) store day = day_warnings db store day"
proof -
  let ?f = "\<lambda>v. v\<lparr>rw_yield := y v, rw_loss := l v\<rparr>" and ?db = "reyield y l db"
  have "filter (\<lambda>v. rw_store v = st \<and> rw_product v = pr) (map ?f vs) = map ?f (filter (\<lambda>v. rw_store v = st \<and> rw_product v = pr) vs)" for st pr vs
    by (induction vs) simp_all
  then have "recipe_versions ?db st pr = map ?f (recipe_versions db st pr)" for st pr
    by (simp add: recipe_versions_def reyield_def sort_key_map)
  then have av: "active_version ?db st pr d = map_option ?f (active_version db st pr d)" for st pr d
    by (simp add: active_version_def rev_map find_map version_covers_def)
  have ln: "version_lines ?db (?f v) = version_lines db v" for v by (simp add: version_lines_def reyield_def)
  have "product_usage ?db st d q x = product_usage db st d q x" for st d q x
    by (cases x; cases "active_version db st (fst x) d") (simp_all add: product_usage_def av ln)
  then have pu: "product_usage ?db = product_usage db" by blast
  have fp: "find_product ?db = find_product db" "demand_products ?db = demand_products db"
    by (intro ext, simp add: find_product_def reyield_def, intro ext, simp add: demand_products_def reyield_def)
  have su: "sale_usage ?db st d x = sale_usage db st d x" for st d x unfolding sale_usage_def pu fp ..
  have "day_sales ?db = day_sales db" by (intro ext) (simp add: day_sales_def reyield_def)
  then show "day_usage ?db store day = day_usage db store day" "day_warnings ?db store day = day_warnings db store day"
    by (simp_all add: day_usage_def day_warnings_def su)
qed

lemma reyield_day:
  "reconcile_day E store day (reyield y l db) = ebind (reconcile_day E store day db) (\<lambda>(db', ws). Inr (reyield y l db', ws))"
proof -
  have a: "apply_total E store day x (reyield y l d) t = reyield y l (apply_total E store day x d t)" for x d t
    by (cases t) (auto simp: apply_total_def reyield_def split: option.splits)
  have f: "foldl (apply_total E store day x) (reyield y l d) ts = reyield y l (foldl (apply_total E store day x) d ts)" for x d ts
    by (induction ts arbitrary: d) (simp_all add: a)
  have r: "day_rows (reyield y l db) store day = day_rows db store day" by (simp add: day_rows_def reyield_def)
  have u: "(reyield y l d)\<lparr>mn_usage := us\<rparr> = reyield y l (d\<lparr>mn_usage := us\<rparr>)" "mn_usage (reyield y l d) = mn_usage d" for d us
    by (simp_all add: reyield_def)
  have fl: "flush_usage (reyield y l d) = flush_usage d" for d by (simp add: flush_usage_def u(2))
  show ?thesis
    unfolding reconcile_day_def Let_def reyield_usage r f u fl
    by (cases "flush_usage ((foldl (apply_total E store day (index_by uw_ingredient (day_rows db store day))) db
        (fold add_usage (day_usage db store day) []))\<lparr>mn_usage := map (reset_row (map uw_id (day_rows db store day))
          (map (fst \<circ> fst) (fold add_usage (day_usage db store day) [])))
          (mn_usage (foldl (apply_total E store day (index_by uw_ingredient (day_rows db store day))) db
            (fold add_usage (day_usage db store day) [])))\<rparr>)") simp_all
qed

lemma reyield_days:
  "efold (\<lambda>(db, warnings) day. ebind (reconcile_day E store day db) (\<lambda>(db', ws). Inr (db', warnings @ ws))) (reyield y l db, w) days =
   ebind (efold (\<lambda>(db, warnings) day. ebind (reconcile_day E store day db) (\<lambda>(db', ws). Inr (db', warnings @ ws))) (db, w) days)
     (\<lambda>(db', ws). Inr (reyield y l db', ws))"
proof (induction days arbitrary: db w)
  case Nil
  then show ?case by simp
next
  case (Cons day days)
  show ?case
    by (cases "reconcile_day E store day db") (auto simp: reyield_day Cons.IH)
qed

text \<open>C39: the derived usage ignores what a recipe yields and loses. Whatever yields and process losses the stored
  recipe versions have, the rebuilt rows and warnings are the same: a recipe for ten portions is booked tenfold
  for each portion sold, while the demand propagation divides by the yield.\<close>

theorem usage_ignores_yield:
  "reconcile_usage_from_sales E store dates (reyield y l db) =
     ebind (reconcile_usage_from_sales E store dates db) (\<lambda>(db', ws). Inr (reyield y l db', ws))"
  unfolding reconcile_usage_from_sales_def by (rule reyield_days)

lemma new_rows_cong:
  assumes "\<And>i. dict_get x i = None \<longleftrightarrow> dict_get x' i = None"
  shows "new_rows E store day x n ts = new_rows E store day x' n ts"
proof (induction ts arbitrary: n)
  case Nil
  show ?case by simp
next
  case (Cons t ts)
  obtain i un q where t: "t = ((i, un), q)" by (metis prod.exhaust)
  show ?case using assms [of i] by (cases "dict_get x i"; cases "dict_get x' i") (simp_all add: t Cons)
qed

text \<open>C38: usage that was imported for a day with sales is lost. Importing an observed quantity into a row that was
  derived from sales leaves the source of the row as it was, so the next rebuild of the day overwrites the
  quantity: the rows are those of a rebuild without the import.\<close>

theorem imported_usage_is_overwritten:
  assumes "usage_ok E db" "inj (rn_fresh E)" "one_unit db"
    and "find (\<lambda>u. uw_store u = store \<and> uw_date u = day \<and> uw_ingredient u = ingredient) (mn_usage db) = Some r"
    and "is_derived_usage_source (uw_source r)"
    and "reconcile_day E store day (import_usage E store day ingredient (uw_unit r) q db) = Inr (db1, ws1)"
    and "reconcile_day E store day db = Inr (db2, ws2)"
  shows "mn_usage db1 = mn_usage db2"
proof -
  let ?f = "\<lambda>u. if uw_id u = uw_id r then u\<lparr>uw_quantity := q, uw_unit := uw_unit r\<rparr> else u"
  define dbi where "dbi = db\<lparr>mn_usage := map ?f (mn_usage db)\<rparr>"
  have dbi: "import_usage E store day ingredient (uw_unit r) q db = dbi" by (simp add: import_usage_def assms(4) dbi_def)
  have m: "r \<in> set (mn_usage db)" "uw_store r = store" "uw_date r = day" using find_mem [OF assms(4)] by simp_all
  have only: "u = r" if "u \<in> set (mn_usage db)" "uw_id u = uw_id r" for u
    using assms(1) m(1) that by (metis distinct_map inj_onD usage_drawn_def usage_ok_def)
  have k: "uw_id (?f u) = uw_id u" "uw_source (?f u) = uw_source u" "uw_ingredient (?f u) = uw_ingredient u" "usage_key (?f u) = usage_key u"
    "uw_store (?f u) = uw_store u" "uw_date (?f u) = uw_date u" for u
    by (simp_all add: usage_key_def)
  have ids: "map uw_id (map ?f us) = map uw_id us" "map usage_key (map ?f us) = map usage_key us" for us by (simp_all add: k)
  have "usage_ok E dbi"
    using assms(1) m(1) unfolding usage_ok_def usage_drawn_def dbi_def by (fastforce simp: recipe_drawn_def k comp_def)
  moreover have c: "day_usage dbi store day = day_usage db store day" by (rule day_usage_cong) (simp_all add: dbi_def)
  moreover have un: "uniform (day_usage db store day)" by (rule one_unit_uniform [OF assms(3)])
  ultimately have r1: "mn_usage db1 = map (rebuilt_row dbi store day) (mn_usage dbi) @
      new_rows E store day (index_by uw_ingredient (day_rows dbi store day)) (mn_serial dbi) (fold add_usage (day_usage dbi store day) [])"
    using reconciled_rows(1) [OF assms(6) [unfolded dbi] _ assms(2)] by simp
  note r2 = reconciled_rows(1) [OF assms(7,1,2) un]
  have same: "rebuilt_row dbi store day (?f u) = rebuilt_row db store day u" if u: "u \<in> set (mn_usage db)" for u
  proof (cases "uw_id u = uw_id r")
    case True
    have "u = r" by (rule only [OF u True])
    then show ?thesis
      using assms(5) m(2,3)
      by (auto simp: rebuilt_row_def Let_def c rebuilt_def total_of_def find_None_iff split: option.splits)
  next
    case False
    then show ?thesis by (simp add: rebuilt_row_def Let_def c)
  qed
  have rows: "day_rows dbi store day = map ?f (day_rows db store day)"
  proof -
    have "filter (\<lambda>u. uw_store u = store \<and> uw_date u = day) (map ?f us) = map ?f (filter (\<lambda>u. uw_store u = store \<and> uw_date u = day) us)" for us
      by (induction us) auto
    then show ?thesis by (simp add: day_rows_def dbi_def)
  qed
  have get: "dict_get (index_by uw_ingredient (map ?f us)) i = map_option ?f (dict_get (index_by uw_ingredient us) i)" for us i
    by (simp add: dict_get_index_by rev_map find_map)
  have none: "dict_get (index_by uw_ingredient (day_rows dbi store day)) i = None \<longleftrightarrow> dict_get (index_by uw_ingredient (day_rows db store day)) i = None" for i
    unfolding rows get by (rule option.map_disc_iff)
  from new_rows_cong [OF none] same show ?thesis unfolding r1 r2 c by (simp add: dbi_def)
qed

end
