(* ===== verification/Usage_Witness.thy ===== *)
theory Usage_Witness
  imports Usage_Facts Approval_Witness
begin

text \<open>
  The theorems on recipes and derived usage at a shop that sells tea: its recipe is stored on day 100 and changed
  on day 200, and two sales of day 150 are booked as leaves used.
\<close>

section \<open>Two versions of a recipe\<close>

definition tea_runtime :: runtime where
  "tea_runtime = \<lparr>rn_fresh = (\<lambda>n. CHR ''i'' # replicate n (CHR ''x'')),
     rn_hash = \<lparr>hs_sha256 = (\<lambda>s. s), hs_float = plain_float, hs_instant = (\<lambda>_. ''0'')\<rparr>,
     rn_nfc = (\<lambda>s. s), rn_lookup = (\<lambda>s. s), rn_readback = (\<lambda>m. m)\<rparr>"

lemma tea_inj: "inj (rn_fresh tea_runtime)"
  by (rule injI) (simp add: tea_runtime_def)

definition tea_request :: "date \<Rightarrow> dec \<Rightarrow> string \<Rightarrow> version_request" where
  "tea_request day yield ytext = \<lparr>wr_product = ''tea'', wr_from = day, wr_lines = [(''leaf'', 1 / 2, ''g'')], wr_source = ''manual'',
     wr_yield = yield, wr_yield_text = ytext, wr_loss = 0, wr_loss_text = ''0'', wr_yield_unit = None, wr_version = PNone\<rparr>"

definition tea_text :: "dec \<Rightarrow> string" where
  "tea_text q = ''0.5''"

definition empty_menu :: menu_db where
  "empty_menu = \<lparr>mn_stores = [''shop''], mn_products = [\<lparr>mp_id = ''tea'', mp_store = ''shop'', mp_combo = False\<rparr>], mn_bundles = [],
     mn_ingredients = [\<lparr>ig_id = ''leaf'', ig_store = ''shop'', ig_name = ''Leaf'', ig_normalized = ''leaf'', ig_base_unit = ''g'',
       ig_tracking = TrackUnknown, ig_declared = False\<rparr>],
     mn_versions = [], mn_lines = [], mn_sales = [], mn_usage = [], mn_idem = [], mn_audit = [], mn_serial = 0\<rparr>"

definition tea_facts :: "date \<Rightarrow> string \<Rightarrow> (string \<times> pyval) list" where
  "tea_facts day ytext =
     [(''product_id'', PStr ''tea''), (''effective_from'', PStr (iso_date day)), (''yield_quantity'', PStr ytext), (''yield_unit'', PNone),
      (''process_loss_rate'', PStr ''0''),
      (''lines'', PList [PDict [(''ingredient_id'', PStr ''leaf''), (''quantity'', PStr ''0.5''), (''unit'', PStr ''g'')]])]"

definition tea_hash :: "date \<Rightarrow> string \<Rightarrow> string" where
  "tea_hash day ytext = canonical_json (rn_hash tea_runtime) (PDict (tea_facts day ytext))"

definition tea_version :: "string \<Rightarrow> int \<Rightarrow> date \<Rightarrow> date option \<Rightarrow> dec \<Rightarrow> string \<Rightarrow> recipe_version_row" where
  "tea_version vid n day until yield ytext = \<lparr>rw_id = vid, rw_store = ''shop'', rw_product = ''tea'', rw_version = n, rw_from = day, rw_to = until,
     rw_yield = yield, rw_yield_unit = None, rw_loss = 0, rw_hash = tea_hash day ytext, rw_source = ''manual''\<rparr>"

definition tea_line :: "string \<Rightarrow> string \<Rightarrow> recipe_line_row" where
  "tea_line lid vid = \<lparr>rl_id = lid, rl_recipe = vid, rl_ingredient = ''leaf'', rl_quantity = 1 / 2, rl_unit = ''g''\<rparr>"

definition first_menu :: menu_db where
  "first_menu = empty_menu\<lparr>mn_versions := [tea_version ''i'' 1 100 None 1 ''1''], mn_lines := [tea_line ''ix'' ''i''], mn_serial := 2\<rparr>"

definition second_menu :: menu_db where
  "second_menu = empty_menu\<lparr>mn_versions := [tea_version ''i'' 1 100 (Some 199) 1 ''1'', tea_version ''ixx'' 2 200 None 2 ''2''],
     mn_lines := [tea_line ''ix'' ''i'', tea_line ''ixxx'' ''ixx''], mn_serial := 4\<rparr>"

lemmas menu_defs = first_menu_def second_menu_def empty_menu_def tea_version_def tea_line_def

lemma gram: "normalize_unit_app (rn_nfc tea_runtime) (Some ''g'') = Inr (Some ''g'')"
  by code_simp

lemma gram_gram: "validate_compatible (rn_nfc tea_runtime) (Some ''g'') (Some ''g'') = Inr ()"
  by code_simp

lemma tea_content: "compute_content_hash tea_runtime tea_text (tea_request day y ytext) = Inr (tea_hash day ytext)"
  by (simp add: compute_content_hash_def tea_request_def tea_text_def tea_hash_def tea_facts_def gram opt_val_def) (simp add: tea_runtime_def)

lemma tea_stored: "emap (stored_line tea_runtime) (wr_lines (tea_request day y ytext)) = Inr [(''leaf'', 1 / 2, ''g'')]"
  by (simp add: tea_request_def stored_line_def gram)

lemma hashes_differ: "tea_hash 100 ''1'' \<noteq> tea_hash 200 ''2''"
proof
  assume e: "tea_hash 100 ''1'' = tea_hash 200 ''2''"
  have f: "float_text_ok (hs_float (rn_hash tea_runtime))" using plain_float_ok by (simp add: tea_runtime_def)
  let ?v = "\<lambda>d. map (\<lambda>(k, v). (k, canonical_value v)) d"
  have "canonical_value (PDict (tea_facts 100 ''1'')) = canonical_value (PDict (tea_facts 200 ''2''))"
    by (rule json_text_inj [OF f, THEN iffD1]) (rule e [unfolded tea_hash_def canonical_json_def])
  then have "sort_key fst (?v (tea_facts 100 ''1'')) = sort_key fst (?v (tea_facts 200 ''2''))"
    unfolding canonical_value.simps(8) by (rule json.inject [THEN iffD1])
  then have "set (?v (tea_facts 100 ''1'')) = set (?v (tea_facts 200 ''2''))" by (metis set_sort)
  moreover have "(''yield_quantity'', JStr ''1'') \<in> set (?v (tea_facts 100 ''1''))" by (simp add: tea_facts_def)
  moreover have "(''yield_quantity'', JStr ''1'') \<notin> set (?v (tea_facts 200 ''2''))" by (simp add: tea_facts_def)
  ultimately show False by blast
qed

lemma first_created: "create_version tea_runtime tea_text ''shop'' (tea_request 100 1 ''1'') empty_menu = Inr (first_menu, tea_version ''i'' 1 100 None 1 ''1'')"
proof -
  have c: "create_version tea_runtime tea_text ''shop'' (tea_request 100 1 ''1'') empty_menu =
      Inr (append_recipe tea_runtime ''shop'' (tea_request 100 1 ''1'') (tea_hash 100 ''1'') [(''leaf'', 1 / 2, ''g'')] empty_menu)"
    unfolding create_version_def tea_content tea_stored Let_def
    by (simp add: tea_request_def find_product_def store_ingredient_def check_recipe_line_def gram_gram recipe_versions_def normalize_recipe_version_def
      empty_menu_def)
  show ?thesis
    unfolding c by (simp add: append_recipe_def Let_def recipe_versions_def add_recipe_line_def tea_request_def menu_defs) (simp add: tea_runtime_def)
qed

lemma second_created:
  "create_version tea_runtime tea_text ''shop'' (tea_request 200 2 ''2'') first_menu = Inr (second_menu, tea_version ''ixx'' 2 200 None 2 ''2'')"
proof -
  have c: "create_version tea_runtime tea_text ''shop'' (tea_request 200 2 ''2'') first_menu =
      Inr (append_recipe tea_runtime ''shop'' (tea_request 200 2 ''2'') (tea_hash 200 ''2'') [(''leaf'', 1 / 2, ''g'')] first_menu)"
    unfolding create_version_def tea_content tea_stored Let_def
    by (simp add: tea_request_def find_product_def store_ingredient_def check_recipe_line_def gram_gram recipe_versions_def normalize_recipe_version_def
      hashes_differ menu_defs)
  show ?thesis
    unfolding c by (simp add: append_recipe_def Let_def recipe_versions_def add_recipe_line_def end_previous_def tea_request_def menu_defs)
      (simp add: tea_runtime_def numeral_eq_Suc)
qed

lemma first_history: "recipe_history tea_runtime first_menu"
  by (rule recipe_history.recipe_import [OF recipe_history.recipe_start first_created]) (simp_all add: empty_menu_def)

lemma second_history: "recipe_history tea_runtime second_menu"
  by (rule recipe_history.recipe_import [OF first_history second_created])


theorem recipe_versions_partition_time_witness:
  "recipe_history tea_runtime second_menu \<and>
   (version_covers 150 (tea_version ''i'' 1 100 (Some 199) 1 ''1'') \<longleftrightarrow>
      active_version second_menu ''shop'' ''tea'' 150 = Some (tea_version ''i'' 1 100 (Some 199) 1 ''1''))"
  using recipe_versions_partition_time [OF second_history tea_inj, of "''shop''" "''tea''" 150] second_history
  by (simp add: recipe_versions_def second_menu_def tea_version_def)

theorem new_version_keeps_past_witness:
  "create_version tea_runtime tea_text ''shop'' (tea_request 200 2 ''2'') first_menu = Inr (second_menu, tea_version ''ixx'' 2 200 None 2 ''2'') \<and>
   active_version second_menu ''shop'' ''tea'' 200 = Some (tea_version ''ixx'' 2 200 None 2 ''2'')"
proof -
  have n: "tea_version ''ixx'' 2 200 None 2 ''2'' \<notin> set (mn_versions first_menu)" by (simp add: menu_defs)
  have "if wr_from (tea_request 200 2 ''2'') \<le> 200 then active_version second_menu ''shop'' (wr_product (tea_request 200 2 ''2'')) 200 =
      Some (tea_version ''ixx'' 2 200 None 2 ''2'') else True"
    using new_version_keeps_past [OF first_history tea_inj second_created n] by meson
  then show ?thesis using second_created by (simp add: tea_request_def)
qed

theorem repeated_recipe_reuses_version_witness:
  "create_version tea_runtime tea_text ''shop'' (tea_request 200 2 ''2'') first_menu = Inr (second_menu, tea_version ''ixx'' 2 200 None 2 ''2'') \<and>
   create_version tea_runtime tea_text ''shop'' (tea_request 200 2 ''2'') second_menu = Inr (second_menu, tea_version ''ixx'' 2 200 None 2 ''2'')"
  using repeated_recipe_reuses_version [OF first_history tea_inj second_created] second_created by blast

section \<open>A day of sales\<close>

definition tea_sale :: "string \<Rightarrow> dec \<Rightarrow> bool \<Rightarrow> sale_row" where
  "tea_sale sid q promotion = \<lparr>sw_id = sid, sw_store = ''shop'', sw_date = 150, sw_product = ''tea'', sw_quantity = q, sw_price = Some 3,
     sw_promotion = promotion, sw_source = ''pos'', sw_external = None\<rparr>"

definition use_row :: "string \<Rightarrow> string \<Rightarrow> dec \<Rightarrow> string \<Rightarrow> usage_row" where
  "use_row uid ingredient q source = \<lparr>uw_id = uid, uw_store = ''shop'', uw_date = 150, uw_ingredient = ingredient, uw_quantity = q,
     uw_unit = ''g'', uw_source = source\<rparr>"

definition sold_menu :: menu_db where
  "sold_menu = second_menu\<lparr>mn_sales := [tea_sale ''s'' 2 False, tea_sale ''t'' 1 True],
     mn_usage := [use_row ''ixxxx'' ''leaf'' 7 DERIVED_USAGE_SOURCE, use_row ''ixxxxx'' ''sugar'' 3 DERIVED_USAGE_SOURCE,
       use_row ''ixxxxxx'' ''milk'' 4 ''import''],
     mn_serial := 7\<rparr>"

definition rebuilt_menu :: menu_db where
  "rebuilt_menu = sold_menu\<lparr>mn_usage := [use_row ''ixxxx'' ''leaf'' (3 / 2) DERIVED_USAGE_SOURCE, use_row ''ixxxxx'' ''sugar'' 0 DERIVED_USAGE_SOURCE,
       use_row ''ixxxxxx'' ''milk'' 4 ''import'']\<rparr>"

lemmas sold_defs = sold_menu_def rebuilt_menu_def second_menu_def empty_menu_def tea_version_def tea_line_def tea_sale_def use_row_def

lemma tea_amounts: "dec_mul (dec_mul 2 1) (1 / 2) = 1" "dec_mul (dec_mul 1 1) (1 / 2) = 1 / 2" "dec_add (dec_add 0 1) (1 / 2) = 3 / 2"
  by code_simp+

lemma sold_usage: "day_usage sold_menu ''shop'' 150 = [((''leaf'', ''g''), 1), ((''leaf'', ''g''), 1 / 2)]"
  by (simp add: day_usage_def day_sales_def sale_usage_def find_product_def demand_products_def product_usage_def active_version_def
    recipe_versions_def version_covers_def version_lines_def tea_amounts sold_defs Let_def)

lemma sold_warnings: "day_warnings sold_menu ''shop'' 150 = []"
  by (simp add: day_warnings_def day_sales_def sale_usage_def find_product_def demand_products_def product_usage_def active_version_def
    recipe_versions_def version_covers_def version_lines_def tea_amounts sold_defs Let_def)

lemma sold_totals: "fold add_usage (day_usage sold_menu ''shop'' 150) [] = [((''leaf'', ''g''), 3 / 2)]"
  unfolding sold_usage by (simp add: add_usage_def dict_get_or_def tea_amounts)

lemma sold_rebuilt: "reconcile_day tea_runtime ''shop'' 150 sold_menu = Inr (rebuilt_menu, [])"
  unfolding reconcile_day_def sold_totals sold_warnings Let_def
  by (simp add: day_rows_def index_by_def apply_total_def reset_row_def is_derived_usage_source_def flush_usage_def
    DERIVED_USAGE_SOURCE_def sold_defs)

lemma sold_ok: "usage_ok tea_runtime sold_menu"
proof -
  have d: "recipe_drawn tea_runtime sold_menu (CHR ''i'' # replicate n (CHR ''x''))" if "n < 7" for n
    using that by (auto simp: recipe_drawn_def tea_runtime_def sold_menu_def)
  show ?thesis
    using d [of 4] d [of 5] d [of 6]
    by (simp add: usage_ok_def usage_drawn_def usage_key_def sold_menu_def use_row_def numeral_eq_Suc)
qed

lemma sold_unit: "one_unit sold_menu"
  by (simp add: one_unit_def sold_defs)


theorem usage_rebuild_idempotent_witness:
  "reconcile_day tea_runtime ''shop'' 150 sold_menu = Inr (rebuilt_menu, []) \<and> rebuilt_menu \<noteq> sold_menu \<and>
   reconcile_day tea_runtime ''shop'' 150 rebuilt_menu = Inr (rebuilt_menu, [])"
proof -
  have "mn_usage rebuilt_menu \<noteq> mn_usage sold_menu" by (simp add: rebuilt_menu_def sold_menu_def use_row_def)
  then show ?thesis
    using usage_rebuild_idempotent [OF sold_rebuilt sold_ok tea_inj sold_unit] sold_rebuilt by metis
qed

definition imported_menu :: menu_db where
  "imported_menu = import_usage tea_runtime ''shop'' 150 ''leaf'' ''g'' 9 sold_menu"

lemma imported_usage_lost:
  "use_row ''ixxxx'' ''leaf'' 9 DERIVED_USAGE_SOURCE \<in> set (mn_usage imported_menu)"
  by (simp add: imported_menu_def import_usage_def sold_menu_def use_row_def)

lemma imported_rebuilt: "reconcile_day tea_runtime ''shop'' 150 imported_menu = Inr (rebuilt_menu, [])"
proof -
  have i: "imported_menu = sold_menu\<lparr>mn_usage := [use_row ''ixxxx'' ''leaf'' 9 DERIVED_USAGE_SOURCE,
      use_row ''ixxxxx'' ''sugar'' 3 DERIVED_USAGE_SOURCE, use_row ''ixxxxxx'' ''milk'' 4 ''import'']\<rparr>"
    by (simp add: imported_menu_def import_usage_def sold_menu_def use_row_def)
  have u: "day_usage imported_menu ''shop'' 150 = day_usage sold_menu ''shop'' 150" "day_warnings imported_menu ''shop'' 150 = []"
    using day_usage_cong [of imported_menu sold_menu] sold_warnings by (simp_all add: i)
  show ?thesis
    unfolding reconcile_day_def u sold_totals Let_def
    by (simp add: i day_rows_def index_by_def apply_total_def reset_row_def is_derived_usage_source_def flush_usage_def
      DERIVED_USAGE_SOURCE_def sold_defs)
qed

theorem imported_usage_is_overwritten_witness:
  "use_row ''ixxxx'' ''leaf'' 9 DERIVED_USAGE_SOURCE \<in> set (mn_usage imported_menu) \<and>
   (\<exists>db1 ws1 db2 ws2. reconcile_day tea_runtime ''shop'' 150 imported_menu = Inr (db1, ws1) \<and>
      reconcile_day tea_runtime ''shop'' 150 sold_menu = Inr (db2, ws2) \<and> mn_usage db1 = mn_usage db2)"
proof -
  have f: "find (\<lambda>u. uw_store u = ''shop'' \<and> uw_date u = 150 \<and> uw_ingredient u = ''leaf'') (mn_usage sold_menu) =
      Some (use_row ''ixxxx'' ''leaf'' 7 DERIVED_USAGE_SOURCE)" by (simp add: sold_menu_def use_row_def)
  have d: "is_derived_usage_source (uw_source (use_row ''ixxxx'' ''leaf'' 7 DERIVED_USAGE_SOURCE))"
    by (simp add: use_row_def is_derived_usage_source_def)
  have i: "import_usage tea_runtime ''shop'' 150 ''leaf'' (uw_unit (use_row ''ixxxx'' ''leaf'' 7 DERIVED_USAGE_SOURCE)) 9 sold_menu = imported_menu"
    by (simp add: imported_menu_def use_row_def)
  show ?thesis
    using imported_usage_is_overwritten [OF sold_ok tea_inj sold_unit f d imported_rebuilt [folded i] sold_rebuilt]
      imported_usage_lost imported_rebuilt sold_rebuilt by blast
qed

end
