(* ===== verification/Menu.thy ===== *)
theory Menu
  imports Operations
begin

text \<open>
  The menu of a store: \<open>services/menu_service.py\<close>, \<open>core/names.py\<close> and the labels of \<open>core/menu.py\<close>. A product is single or a
  combo of other products; the requests create products, change them and replace the components of a combo.
\<close>

section \<open>The tables\<close>

record product_row =
  pr_id :: string
  pr_store :: string
  pr_name :: string
  pr_normalized :: string
  pr_sku :: "string option"
  pr_price :: "int option"
  pr_combo :: bool
  pr_unit :: "string option"
  pr_active :: bool
  pr_version :: int

record bundle_row =
  br_id :: string
  br_store :: string
  br_combo :: string
  br_component :: string
  br_quantity :: int
  br_position :: nat

text \<open>A product as it is returned. The discount rate, a float, is left out.\<close>

record product_view =
  pv_product :: product_row
  pv_components :: "(bundle_row \<times> product_row) list"
  pv_list_price :: "int option"
  pv_savings :: int

record product_db =
  pd_stores :: "string list"
  pd_products :: "product_row list"
  pd_bundles :: "bundle_row list"
  pd_idem :: "product_view idem_record list"
  pd_audit :: "audit_row list"
  pd_serial :: nat

section \<open>Names and labels\<close>

text \<open>Texts of the runtime: NFC, stripped, with runs of white space made one space; \<open>casefold\<close>; \<open>strip\<close> and \<open>upper\<close>;
  \<open>_fold\<close> with runs of white space made one space; SQL's \<open>lower\<close>; and whether a text contains another by SQL's \<open>LIKE\<close>.\<close>

record menu_text =
  mt_display :: text_fun
  mt_casefold :: text_fun
  mt_upper :: text_fun
  mt_fold :: text_fun
  mt_term :: text_fun
  mt_lower :: text_fun
  mt_like :: "string \<Rightarrow> string \<Rightarrow> bool"

definition display_name :: "menu_text \<Rightarrow> string option \<Rightarrow> string app" where
  "display_name T value =
     (let name = mt_display T (case value of None \<Rightarrow> ''None'' | Some s \<Rightarrow> s) in
      ebind (raise_if (name = []) validation_error) (\<lambda>_. Inr name))"

definition name_key :: "menu_text \<Rightarrow> string option \<Rightarrow> string app" where
  "name_key T value = ebind (display_name T value) (\<lambda>name. Inr (mt_casefold T name))"

definition menu_error :: "string \<Rightarrow> app_error" where
  "menu_error code = AppError code 422"

definition menu_conflict :: "string \<Rightarrow> app_error" where
  "menu_conflict code = AppError code 409"

text \<open>Whether the label means a combo.\<close>

definition normalize_item_type :: "menu_text \<Rightarrow> string \<Rightarrow> bool app" where
  "normalize_item_type T value =
     (let folded = mt_fold T value in
      if folded \<in> {''mon le'', ''single'', ''retail''} then Inr False
      else if folded \<in> {''combo'', ''bundle''} then Inr True
      else Inl validation_error)"

text \<open>Whether the label means an active product.\<close>

definition normalize_menu_status :: "menu_text \<Rightarrow> string \<Rightarrow> bool app" where
  "normalize_menu_status T value =
     (let folded = mt_fold T value in
      if folded \<in> {''dang ban'', ''active'', ''enabled''} then Inr True
      else if folded \<in> {''ngung ban'', ''inactive'', ''disabled''} then Inr False
      else Inl validation_error)"

definition PORTION :: string where
  "PORTION = [CHR ''p'', CHR ''h'', CHR 0xE1, CHR 0xBA, CHR 0xA7, CHR ''n'']"

definition PRODUCT_UNITS :: "string list" where
  "PRODUCT_UNITS = [''ly'', PORTION, ''chai'', PIECE, ''combo'']"

definition normalize_product_unit :: "menu_text \<Rightarrow> string option \<Rightarrow> string app" where
  "normalize_product_unit T value =
     (let folded = mt_fold T (case value of None \<Rightarrow> [] | Some s \<Rightarrow> s);
          unit = dict_get_or [(''phan'', PORTION), (''cai'', PIECE)] folded folded in
      ebind (raise_if (unit \<notin> set PRODUCT_UNITS) validation_error) (\<lambda>_. Inr unit))"

section \<open>Reading\<close>

definition get_product :: "product_db \<Rightarrow> string \<Rightarrow> string \<Rightarrow> product_row option" where
  "get_product db store product = find (\<lambda>p. pr_store p = store \<and> pr_id p = product) (pd_products db)"

definition combo_lines :: "product_db \<Rightarrow> string \<Rightarrow> string \<Rightarrow> bundle_row list" where
  "combo_lines db store combo = sort_key br_position (filter (\<lambda>b. br_store b = store \<and> br_combo b = combo) (pd_bundles db))"

text \<open>The components of a product; one that is not in the store is a \<open>KeyError\<close>.\<close>

definition load_graph :: "product_db \<Rightarrow> string \<Rightarrow> product_row \<Rightarrow> (bundle_row \<times> product_row) list app" where
  "load_graph db store p =
     emap (\<lambda>b. case get_product db store (br_component b) of
         None \<Rightarrow> Inl (CoreFailure (exn PyKeyError []))
       | Some c \<Rightarrow> Inr (b, c)) (combo_lines db store (pr_id p))"

definition list_price :: "(bundle_row \<times> product_row) list \<Rightarrow> int" where
  "list_price components = sum_list (map (\<lambda>(b, c). br_quantity b * (case pr_price c of None \<Rightarrow> 0 | Some x \<Rightarrow> x)) components)"

definition serialize :: "product_row \<Rightarrow> (bundle_row \<times> product_row) list \<Rightarrow> product_view" where
  "serialize p components =
     (if pr_combo p
      then \<lparr>pv_product = p, pv_components = components, pv_list_price = Some (list_price components),
             pv_savings = max (list_price components - (case pr_price p of None \<Rightarrow> 0 | Some x \<Rightarrow> x)) 0\<rparr>
      else \<lparr>pv_product = p, pv_components = components, pv_list_price = pr_price p, pv_savings = 0\<rparr>)"

definition serialize_one :: "product_db \<Rightarrow> string \<Rightarrow> product_row \<Rightarrow> product_view app" where
  "serialize_one db store p = ebind (load_graph db store p) (\<lambda>components. Inr (serialize p components))"

record menu_filter =
  mf_status :: string
  mf_type :: string
  mf_search :: "string option"

definition menu_matches :: "menu_text \<Rightarrow> menu_filter \<Rightarrow> string \<Rightarrow> product_row \<Rightarrow> bool" where
  "menu_matches T f term p \<longleftrightarrow>
     (mf_status f \<noteq> ''all'' \<longrightarrow> pr_active p = (mf_status f = ''active'')) \<and>
     (mf_type f \<noteq> ''all'' \<longrightarrow> pr_combo p = (mf_type f = ''combo'')) \<and>
     (case mf_search f of
        None \<Rightarrow> True
      | Some s \<Rightarrow> s = [] \<or> mt_like T (pr_normalized p) term \<or>
          (case pr_sku p of None \<Rightarrow> False | Some sku \<Rightarrow> mt_like T (mt_lower T sku) (mt_term T s)))"

text \<open>Products by name, then by id.\<close>

definition menu_order :: "product_row \<Rightarrow> string \<times> string" where
  "menu_order p = (pr_normalized p, pr_id p)"

record menu_page =
  mg_items :: "product_view list"
  mg_counts :: "nat \<times> nat \<times> nat \<times> nat"
  mg_total :: nat

definition menu_listing :: "menu_text \<Rightarrow> product_db \<Rightarrow> string \<Rightarrow> menu_filter \<Rightarrow> string \<Rightarrow> product_row list" where
  "menu_listing T db store f term =
     sort_key menu_order (filter (\<lambda>p. pr_store p = store \<and> menu_matches T f term p) (pd_products db))"

definition menu_view :: "menu_text \<Rightarrow> product_db \<Rightarrow> string \<Rightarrow> menu_filter \<Rightarrow> nat \<Rightarrow> nat \<Rightarrow> menu_page app" where
  "menu_view T db store f page page_size =
     ebind (raise_if (mf_status f \<notin> {''active'', ''inactive'', ''all''}) (menu_error ''INVALID_MENU_STATUS'')) (\<lambda>_.
     ebind (raise_if (mf_type f \<notin> {''single'', ''combo'', ''all''}) (menu_error ''INVALID_MENU_ITEM_TYPE'')) (\<lambda>_.
     ebind (require_store (pd_stores db) store) (\<lambda>_.
     ebind (case non_empty (mf_search f) of None \<Rightarrow> Inr [] | Some s \<Rightarrow> name_key T (Some s)) (\<lambda>term.
     let rows = filter (\<lambda>p. pr_store p = store) (pd_products db); found = menu_listing T db store f term in
     ebind (emap (serialize_one db store) (take page_size (drop ((page - 1) * page_size) found))) (\<lambda>items.
     Inr \<lparr>mg_items = items,
           mg_counts = (length (filter (\<lambda>p. \<not> pr_combo p) rows), length (filter pr_combo rows), length (filter pr_active rows),
             length (filter (\<lambda>p. \<not> pr_active p) rows)),
           mg_total = length found\<rparr>)))))"

section \<open>Components\<close>

definition check_components :: "product_db \<Rightarrow> string \<Rightarrow> product_row \<Rightarrow> (string \<times> int) list \<Rightarrow> unit app" where
  "check_components db store combo items =
     (let ids = map fst items; products = filter (\<lambda>p. pr_store p = store \<and> pr_id p \<in> set ids) (pd_products db) in
      ebind (raise_if (length items < 1 \<or> 20 < length items) (menu_error ''COMBO_COMPONENTS_REQUIRED'')) (\<lambda>_.
      ebind (raise_if (\<not> distinct ids) (menu_error ''COMBO_COMPONENT_DUPLICATE'')) (\<lambda>_.
      ebind (raise_if (pr_id combo \<in> set ids) (menu_error ''COMBO_SELF_REFERENCE'')) (\<lambda>_.
      ebind (raise_if (\<not> set ids \<subseteq> pr_id ` set products) resource_not_found) (\<lambda>_.
      ebind (emap (\<lambda>c.
          ebind (raise_if (pr_combo c) (menu_error ''COMBO_NESTING_NOT_SUPPORTED'')) (\<lambda>_.
          raise_if (pr_active combo \<and> \<not> pr_active c) (menu_error ''INACTIVE_COMBO_COMPONENT''))) products) (\<lambda>_.
      Inr ()))))))"

fun new_lines :: "runtime \<Rightarrow> string \<Rightarrow> string \<Rightarrow> nat \<Rightarrow> nat \<Rightarrow> (string \<times> int) list \<Rightarrow> bundle_row list" where
  "new_lines E store combo position serial [] = []"
| "new_lines E store combo position serial ((component, quantity) # items) =
     \<lparr>br_id = rn_fresh E serial, br_store = store, br_combo = combo, br_component = component, br_quantity = quantity, br_position = position\<rparr>
     # new_lines E store combo (Suc position) (Suc serial) items"

definition put_components :: "runtime \<Rightarrow> string \<Rightarrow> product_row \<Rightarrow> (string \<times> int) list \<Rightarrow> product_db \<Rightarrow> product_db app" where
  "put_components E store combo items db =
     ebind (check_components db store combo items) (\<lambda>_.
     Inr (db\<lparr>pd_bundles := filter (\<lambda>b. \<not> (br_store b = store \<and> br_combo b = pr_id combo)) (pd_bundles db) @
               new_lines E store (pr_id combo) 0 (pd_serial db) items,
             pd_serial := pd_serial db + length items\<rparr>))"

text \<open>A store has one product per SKU.\<close>

definition flush_products :: "app_error \<Rightarrow> product_db \<Rightarrow> unit app" where
  "flush_products err db =
     raise_if (\<not> distinct (map (\<lambda>p. (pr_store p, pr_sku p)) (filter (\<lambda>p. pr_sku p \<noteq> None) (pd_products db)))) err"

section \<open>Requests\<close>

record product_body =
  pb_name :: string
  pb_sku :: "string option"
  pb_type :: string
  pb_unit :: "string option"
  pb_price :: "int option"
  pb_status :: "string option"
  pb_active :: "bool option"
  pb_components :: "(string \<times> int) list"
  pb_dump :: pyval

text \<open>A field of a patch is \<open>None\<close> if the request does not send it, and \<open>Some None\<close> if it sends \<open>null\<close>.\<close>

record product_patch =
  pp_version :: int
  pp_name :: "string option option"
  pp_sku :: "string option option"
  pp_price :: "int option option"
  pp_status :: "string option option"
  pp_active :: "bool option option"
  pp_unit :: "string option option"
  pp_type :: "string option option"

record components_body =
  cm_version :: int
  cm_items :: "(string \<times> int) list"
  cm_dump :: pyval

datatype menu_request =
    CreateProduct product_body
  | PatchProduct string product_patch
  | ReplaceComponents string components_body

definition items_ok :: "(string \<times> int) list \<Rightarrow> bool" where
  "items_ok items \<longleftrightarrow> (\<forall>(_, q) \<in> set items. 0 < q) \<and> length items \<le> 20"

fun menu_request_ok :: "menu_request \<Rightarrow> bool" where
  "menu_request_ok (CreateProduct b) \<longleftrightarrow>
     (case pb_price b of None \<Rightarrow> True | Some x \<Rightarrow> 0 \<le> x) \<and> items_ok (pb_components b) \<and>
     (case (pb_status b, pb_active b) of (Some s, Some a) \<Rightarrow> (s = ''active'') = a | _ \<Rightarrow> True)"
| "menu_request_ok (PatchProduct _ p) \<longleftrightarrow>
     1 \<le> pp_version p \<and> (case pp_price p of Some (Some x) \<Rightarrow> 0 \<le> x | _ \<Rightarrow> True) \<and>
     \<not> (pp_name p = None \<and> pp_sku p = None \<and> pp_price p = None \<and> pp_status p = None \<and> pp_active p = None \<and> pp_unit p = None \<and> pp_type p = None)"
| "menu_request_ok (ReplaceComponents _ b) \<longleftrightarrow> 1 \<le> cm_version b \<and> items_ok (cm_items b) \<and> cm_items b \<noteq> []"

definition product_path :: "string \<Rightarrow> string" where
  "product_path store = ''/api/v1/stores/'' @ store @ ''/products''"

definition components_path :: "string \<Rightarrow> string \<Rightarrow> string" where
  "components_path store product = product_path store @ ''/'' @ product @ ''/components''"

definition audit_product :: "string \<Rightarrow> string \<Rightarrow> string \<Rightarrow> product_db \<Rightarrow> product_db" where
  "audit_product store action product db =
     db\<lparr>pd_audit := pd_audit db @ [\<lparr>au_store = store, au_action = action, au_type = ''product'', au_resource = product\<rparr>]\<rparr>"

definition store_view ::
    "string \<Rightarrow> string \<Rightarrow> string \<Rightarrow> string option \<Rightarrow> string \<Rightarrow> nat \<Rightarrow> product_view \<Rightarrow> product_db \<Rightarrow> product_db" where
  "store_view store path http_method key product status response db =
     db\<lparr>pd_idem := (case non_empty key of
          None \<Rightarrow> pd_idem db
        | Some k \<Rightarrow> idem_update (pd_idem db) (Some store) path http_method k
            (\<lambda>i. i\<lparr>ir_resource_type := Some ''product'', ir_resource_id := Some product, ir_status := Some status, ir_body := Some response\<rparr>))\<rparr>"

definition new_product :: "runtime \<Rightarrow> menu_text \<Rightarrow> string \<Rightarrow> product_body \<Rightarrow> product_db \<Rightarrow> product_row app" where
  "new_product E T store b db =
     ebind (normalize_item_type T (pb_type b)) (\<lambda>combo.
     ebind (case non_empty (pb_status b) of Some s \<Rightarrow> normalize_menu_status T s | None \<Rightarrow> Inr (pb_active b \<noteq> Some False)) (\<lambda>active.
     ebind (case non_empty (pb_unit b) of Some u \<Rightarrow> ebind (normalize_product_unit T (Some u)) (\<lambda>u. Inr (Some u)) | None \<Rightarrow> Inr None) (\<lambda>unit.
     ebind (raise_if (combo \<and> unit \<noteq> Some ''combo'') (menu_error ''INVALID_PRODUCT_UNIT'')) (\<lambda>_.
     ebind (raise_if (combo \<and> pb_components b = []) (menu_error ''COMBO_COMPONENTS_REQUIRED'')) (\<lambda>_.
     ebind (raise_if (\<not> combo \<and> pb_components b \<noteq> []) (menu_error ''COMBO_COMPONENT_PARSE_ERROR'')) (\<lambda>_.
     ebind (raise_if (case pb_price b of None \<Rightarrow> False | Some x \<Rightarrow> x \<le> 0) (menu_error ''INVALID_PRICE'')) (\<lambda>_.
     ebind (display_name T (Some (pb_name b))) (\<lambda>name.
     ebind (name_key T (Some (pb_name b))) (\<lambda>key.
     Inr \<lparr>pr_id = rn_fresh E (pd_serial db), pr_store = store, pr_name = name, pr_normalized = key, pr_sku = map_option (mt_upper T) (pb_sku b),
           pr_price = pb_price b, pr_combo = combo, pr_unit = unit, pr_active = active, pr_version = 1\<rparr>)))))))))"

definition create_product_work ::
    "runtime \<Rightarrow> menu_text \<Rightarrow> string \<Rightarrow> product_body \<Rightarrow> string option \<Rightarrow> product_db \<Rightarrow> (product_db \<times> product_view) app" where
  "create_product_work E T store b key db =
     ebind (new_product E T store b db) (\<lambda>p.
     let db1 = db\<lparr>pd_products := pd_products db @ [p], pd_serial := Suc (pd_serial db)\<rparr> in
     ebind (flush_products (menu_conflict ''DUPLICATE_PRODUCT_SKU'') db1) (\<lambda>_.
     ebind (if pr_combo p then put_components E store p (pb_components b) db1 else Inr db1) (\<lambda>db2.
     ebind (serialize_one db2 store p) (\<lambda>response.
     Inr (store_view store (product_path store) ''POST'' key (pr_id p) 201 response (audit_product store ''product_created'' (pr_id p) db2),
          response)))))"

definition product_in_active_combo :: "product_db \<Rightarrow> string \<Rightarrow> string \<Rightarrow> bool" where
  "product_in_active_combo db store product \<longleftrightarrow>
     list_ex (\<lambda>b. br_store b = store \<and> br_component b = product \<and>
        list_ex (\<lambda>c. pr_id c = br_combo b \<and> pr_active c) (pd_products db)) (pd_bundles db)"

text \<open>The status a patch asks for: of the two fields the status, where a missing flag counts as false.\<close>

definition patched_active :: "menu_text \<Rightarrow> product_patch \<Rightarrow> bool app" where
  "patched_active T d =
     (case pp_status d of
        Some (Some s) \<Rightarrow> if s \<noteq> [] then normalize_menu_status T s else Inr (pp_active d = Some (Some True))
      | _ \<Rightarrow> Inr (pp_active d = Some (Some True)))"

definition patched_product :: "menu_text \<Rightarrow> product_db \<Rightarrow> string \<Rightarrow> product_patch \<Rightarrow> product_row \<Rightarrow> product_row app" where
  "patched_product T db store d p =
     ebind (case pp_type d of
         Some (Some t) \<Rightarrow> ebind (normalize_item_type T t) (\<lambda>combo. raise_if (combo \<noteq> pr_combo p) (menu_conflict ''PRODUCT_TYPE_IMMUTABLE''))
       | _ \<Rightarrow> Inr ()) (\<lambda>_.
     ebind (if pp_status d = None \<and> pp_active d = None then Inr p
            else ebind (patched_active T d) (\<lambda>active.
              ebind (raise_if (\<not> active \<and> \<not> pr_combo p \<and> product_in_active_combo db store (pr_id p))
                       (menu_conflict ''PRODUCT_IN_ACTIVE_COMBO'')) (\<lambda>_.
              Inr (p\<lparr>pr_active := active\<rparr>)))) (\<lambda>p1.
     ebind (case pp_name d of
         None \<Rightarrow> Inr p1
       | Some v \<Rightarrow> ebind (display_name T v) (\<lambda>name. ebind (name_key T v) (\<lambda>key. Inr (p1\<lparr>pr_name := name, pr_normalized := key\<rparr>)))) (\<lambda>p2.
     let p3 = (case pp_sku d of None \<Rightarrow> p2 | Some v \<Rightarrow> p2\<lparr>pr_sku := map_option (mt_upper T) v\<rparr>) in
     ebind (case pp_price d of
         None \<Rightarrow> Inr p3
       | Some v \<Rightarrow> ebind (raise_if (case v of None \<Rightarrow> False | Some x \<Rightarrow> x \<le> 0) (menu_error ''INVALID_PRICE'')) (\<lambda>_. Inr (p3\<lparr>pr_price := v\<rparr>))) (\<lambda>p4.
     ebind (case pp_unit d of
         None \<Rightarrow> Inr p4
       | Some v \<Rightarrow> ebind (normalize_product_unit T v) (\<lambda>unit.
           ebind (raise_if (pr_combo p \<and> unit \<noteq> ''combo'') (menu_error ''INVALID_PRODUCT_UNIT'')) (\<lambda>_. Inr (p4\<lparr>pr_unit := Some unit\<rparr>)))) (\<lambda>p5.
     Inr (p5\<lparr>pr_version := pr_version p5 + 1\<rparr>))))))"

definition set_product :: "product_row \<Rightarrow> product_db \<Rightarrow> product_db" where
  "set_product p db = db\<lparr>pd_products := map (\<lambda>q. if pr_id q = pr_id p then p else q) (pd_products db)\<rparr>"

definition patch_product :: "menu_text \<Rightarrow> product_db \<Rightarrow> string \<Rightarrow> string \<Rightarrow> product_patch \<Rightarrow> (product_db \<times> product_view) app" where
  "patch_product T db store product d =
     ebind (require_store (pd_stores db) store) (\<lambda>_.
     case get_product db store product of
       None \<Rightarrow> Inl resource_not_found
     | Some p \<Rightarrow>
         ebind (raise_if (pr_version p \<noteq> pp_version d) version_conflict) (\<lambda>_.
         ebind (patched_product T db store d p) (\<lambda>p'.
         let db1 = set_product p' db in
         ebind (flush_products (menu_conflict ''DUPLICATE_PRODUCT_NAME'') db1) (\<lambda>_.
         ebind (serialize_one db1 store p') (\<lambda>response.
         Inr (audit_product store ''product_updated'' product db1, response))))))"

definition create_product ::
    "runtime \<Rightarrow> menu_text \<Rightarrow> product_db \<Rightarrow> string \<Rightarrow> product_body \<Rightarrow> string option \<Rightarrow> (product_db \<times> product_view) app" where
  "create_product E T db store b key =
     ebind (require_store (pd_stores db) store) (\<lambda>_.
     with_idempotency (pd_idem db) (Some store) (product_path store) ''POST'' key (canonical_hash (rn_hash E) (pb_dump b))
       (\<lambda>records. create_product_work E T store b key (db\<lparr>pd_idem := records\<rparr>))
       (\<lambda>i. ebind (stored_response i) (\<lambda>response. Inr (db, response))))"

definition replace_work ::
    "runtime \<Rightarrow> string \<Rightarrow> product_row \<Rightarrow> components_body \<Rightarrow> string option \<Rightarrow> product_db \<Rightarrow> (product_db \<times> product_view) app" where
  "replace_work E store p b key db =
     ebind (raise_if (pr_version p \<noteq> cm_version b) version_conflict) (\<lambda>_.
     ebind (put_components E store p (cm_items b) db) (\<lambda>db1.
     let p' = p\<lparr>pr_version := pr_version p + 1\<rparr>; db2 = set_product p' db1 in
     ebind (serialize_one db2 store p') (\<lambda>response.
     Inr (store_view store (components_path store (pr_id p)) ''PUT'' key (pr_id p) 200 response
            (audit_product store ''combo_components_replaced'' (pr_id p) db2), response))))"

definition replace_components ::
    "runtime \<Rightarrow> product_db \<Rightarrow> string \<Rightarrow> string \<Rightarrow> components_body \<Rightarrow> string option \<Rightarrow> (product_db \<times> product_view) app" where
  "replace_components E db store product b key =
     ebind (require_store (pd_stores db) store) (\<lambda>_.
     case get_product db store product of
       None \<Rightarrow> Inl resource_not_found
     | Some p \<Rightarrow>
         ebind (raise_if (\<not> pr_combo p) (menu_error ''COMBO_COMPONENTS_REQUIRED'')) (\<lambda>_.
         with_idempotency (pd_idem db) (Some store) (components_path store product) ''PUT'' key (canonical_hash (rn_hash E) (cm_dump b))
           (\<lambda>records. replace_work E store p b key (db\<lparr>pd_idem := records\<rparr>))
           (\<lambda>i. ebind (stored_response i) (\<lambda>response. Inr (db, response)))))"

fun menu_write ::
    "runtime \<Rightarrow> menu_text \<Rightarrow> product_db \<Rightarrow> string \<Rightarrow> menu_request \<Rightarrow> string option \<Rightarrow> (product_db \<times> product_view) app" where
  "menu_write E T db store (CreateProduct b) key = create_product E T db store b key"
| "menu_write E T db store (PatchProduct product d) key = patch_product T db store product d"
| "menu_write E T db store (ReplaceComponents product b) key = replace_components E db store product b key"

end
