(* ===== verification/Menu_Facts.thy ===== *)
theory Menu_Facts
  imports Menu Op_History
begin

text \<open>
  What every menu that requests can build looks like, and what its requests keep: combos of one to twenty single products of
  their store, and, as long as no combo is switched on, active combos of active products.
\<close>

section \<open>Well-formed menus\<close>

definition product_drawn :: "runtime \<Rightarrow> product_db \<Rightarrow> string \<Rightarrow> bool" where
  "product_drawn E db s \<longleftrightarrow> (\<exists>n < pd_serial db. s = rn_fresh E n)"

definition product_key :: "product_row \<Rightarrow> string \<times> string \<times> bool" where
  "product_key p = (pr_id p, pr_store p, pr_combo p)"

definition lines_of_combo :: "bundle_row list \<Rightarrow> string \<Rightarrow> string \<Rightarrow> bundle_row list" where
  "lines_of_combo bundles store combo = filter (\<lambda>b. br_store b = store \<and> br_combo b = combo) bundles"

definition combo_ok :: "(string \<times> string \<times> bool) set \<Rightarrow> bundle_row list \<Rightarrow> string \<Rightarrow> string \<Rightarrow> bool" where
  "combo_ok keys bundles store combo \<longleftrightarrow>
     (let ls = lines_of_combo bundles store combo in
      map br_position ls = [0..<length ls] \<and> 1 \<le> length ls \<and> length ls \<le> 20 \<and> distinct (map br_component ls) \<and>
      (\<forall>l \<in> set ls. 0 < br_quantity l \<and> (br_component l, store, False) \<in> keys))"

text \<open>All combos outside \<open>skip\<close> are in order.\<close>

definition menus_ok :: "runtime \<Rightarrow> string set \<Rightarrow> product_db \<Rightarrow> bool" where
  "menus_ok E skip db \<longleftrightarrow>
     (let keys = product_key ` set (pd_products db) in
      distinct (map pr_id (pd_products db)) \<and> (\<forall>p \<in> set (pd_products db). product_drawn E db (pr_id p)) \<and>
      (\<forall>b \<in> set (pd_bundles db). (br_combo b, br_store b, True) \<in> keys) \<and>
      (\<forall>(combo, store, c) \<in> keys. c \<and> combo \<notin> skip \<longrightarrow> combo_ok keys (pd_bundles db) store combo))"

lemma menus_okI:
  assumes "distinct (map pr_id (pd_products db))" "\<And>p. p \<in> set (pd_products db) \<Longrightarrow> product_drawn E db (pr_id p)"
    and "\<And>b. b \<in> set (pd_bundles db) \<Longrightarrow> (br_combo b, br_store b, True) \<in> product_key ` set (pd_products db)"
    and combos: "\<And>i st. (i, st, True) \<in> product_key ` set (pd_products db) \<Longrightarrow> i \<notin> skip \<Longrightarrow>
      combo_ok (product_key ` set (pd_products db)) (pd_bundles db) st i"
  shows "menus_ok E skip db"
proof -
  let ?keys = "product_key ` set (pd_products db)"
  have "\<forall>x \<in> ?keys. case x of (i, st, c) \<Rightarrow> c \<and> i \<notin> skip \<longrightarrow> combo_ok ?keys (pd_bundles db) st i"
  proof
    fix x assume x: "x \<in> ?keys"
    obtain i st c where e: "x = (i, st, c)" by (cases x)
    show "case x of (i, st, c) \<Rightarrow> c \<and> i \<notin> skip \<longrightarrow> combo_ok ?keys (pd_bundles db) st i"
      using combos [of i st] x unfolding e by (cases c) simp_all
  qed
  then show ?thesis unfolding menus_ok_def Let_def using assms(1-3) by blast
qed

lemma menus_okD:
  assumes "menus_ok E skip db" "(i, st, True) \<in> product_key ` set (pd_products db)" "i \<notin> skip"
  shows "combo_ok (product_key ` set (pd_products db)) (pd_bundles db) st i"
proof -
  let ?keys = "product_key ` set (pd_products db)"
  have "\<forall>x \<in> ?keys. case x of (i, st, c) \<Rightarrow> c \<and> i \<notin> skip \<longrightarrow> combo_ok ?keys (pd_bundles db) st i"
    using assms(1) unfolding menus_ok_def Let_def by blast
  from bspec [OF this assms(2)] assms(3) show ?thesis by simp
qed

lemma product_drawn_later: "product_drawn E db s \<Longrightarrow> pd_serial db \<le> pd_serial db' \<Longrightarrow> product_drawn E db' s"
  unfolding product_drawn_def using less_le_trans by blast

lemma menus_frame:
  assumes "menus_ok E skip db" "map product_key (pd_products db') = map product_key (pd_products db)" "pd_bundles db' = pd_bundles db"
    "pd_serial db \<le> pd_serial db'"
  shows "menus_ok E skip db'"
proof -
  have k: "product_key ` set (pd_products db') = product_key ` set (pd_products db)"
    using arg_cong [OF assms(2), of set] by simp
  have i: "map pr_id ps = map fst (map product_key ps)" for ps by (simp add: product_key_def)
  have ids: "map pr_id (pd_products db') = map pr_id (pd_products db)" unfolding i assms(2) ..
  have "pr_id ` set (pd_products db') = pr_id ` set (pd_products db)" using arg_cong [OF ids, of set] by simp
  moreover have "\<forall>s \<in> pr_id ` set (pd_products db). product_drawn E db s" using assms(1) by (simp add: menus_ok_def Let_def)
  ultimately have "\<forall>s \<in> pr_id ` set (pd_products db'). product_drawn E db' s" using product_drawn_later [OF _ assms(4)] by metis
  then show ?thesis using assms(1) by (simp add: menus_ok_def Let_def k ids assms(3))
qed

lemma set_product_keys:
  assumes "q \<in> set (pd_products db)" "product_key p = product_key q" "distinct (map pr_id (pd_products db))"
  shows "map product_key (pd_products (set_product p db)) = map product_key (pd_products db)"
proof -
  have "product_key p = product_key r" if "r \<in> set (pd_products db)" "pr_id r = pr_id p" for r
  proof -
    have "pr_id r = pr_id q" using that assms(2) by (simp add: product_key_def)
    then have "r = q" using assms(1,3) that(1) by (metis distinct_map inj_onD)
    then show ?thesis using assms(2) by simp
  qed
  then show ?thesis by (auto simp: set_product_def)
qed

lemma get_productD: "get_product db store product = Some p \<Longrightarrow> p \<in> set (pd_products db) \<and> pr_store p = store \<and> pr_id p = product"
  by (auto simp: get_product_def find_Some_iff)

lemma get_product_of:
  assumes "distinct (map pr_id (pd_products db))" "p \<in> set (pd_products db)"
  shows "get_product db (pr_store p) (pr_id p) = Some p"
proof -
  have "find (\<lambda>q. pr_store q = pr_store p \<and> pr_id q = pr_id p) ps = Some p" if "p \<in> set ps" "distinct (map pr_id ps)" for ps
    using that by (induction ps) (auto simp: rev_image_eqI)
  then show ?thesis using assms by (simp add: get_product_def)
qed

section \<open>Components\<close>

lemma new_lines_facts:
  "map br_position (new_lines E store combo i n items) = [i..<i + length items]"
  "map br_component (new_lines E store combo i n items) = map fst items"
  "map br_quantity (new_lines E store combo i n items) = map snd items"
  "b \<in> set (new_lines E store combo i n items) \<Longrightarrow> br_store b = store \<and> br_combo b = combo"
proof (induction items arbitrary: i n)
  case (Cons x items)
  case 1 then show ?case using Cons by (cases x) (simp add: upt_rec)
  case 2 then show ?case using Cons by (cases x) simp
  case 3 then show ?case using Cons by (cases x) simp
  case 4 then show ?case using Cons by (cases x) auto
qed simp_all

lemma new_lines_length [simp]: "length (new_lines E store combo i n items) = length items"
  using arg_cong [OF new_lines_facts(2), of length] by simp

lemma check_componentsD:
  assumes "check_components db store combo items = Inr ()"
  shows "1 \<le> length items" "length items \<le> 20" "distinct (map fst items)" "pr_id combo \<notin> fst ` set items"
    "i \<in> fst ` set items \<Longrightarrow> (i, store, False) \<in> product_key ` set (pd_products db)"
    "p \<in> set (pd_products db) \<Longrightarrow> pr_store p = store \<Longrightarrow> pr_id p \<in> fst ` set items \<Longrightarrow> pr_active combo \<Longrightarrow> pr_active p"
proof -
  let ?ps = "filter (\<lambda>p. pr_store p = store \<and> pr_id p \<in> set (map fst items)) (pd_products db)"
  from assms obtain us where c: "\<not> (length items < 1 \<or> 20 < length items)" "distinct (map fst items)" "pr_id combo \<notin> set (map fst items)"
    "set (map fst items) \<subseteq> pr_id ` set ?ps"
    "emap (\<lambda>c. ebind (raise_if (pr_combo c) (menu_error ''COMBO_NESTING_NOT_SUPPORTED'')) (\<lambda>_.
        raise_if (pr_active combo \<and> \<not> pr_active c) (menu_error ''INACTIVE_COMBO_COMPONENT''))) ?ps = Inr us"
    unfolding check_components_def Let_def by (elim ebind_InrE) (unfold raise_if_Inr_iff, blast)
  then show "1 \<le> length items" "length items \<le> 20" "distinct (map fst items)" "pr_id combo \<notin> fst ` set items" by (auto simp: Suc_le_eq)
  have each: "\<not> pr_combo p \<and> (pr_active combo \<longrightarrow> pr_active p)" if "p \<in> set ?ps" for p
    using emap_of_set [OF c(5) that] by auto
  show "(i, store, False) \<in> product_key ` set (pd_products db)" if i: "i \<in> fst ` set items"
  proof -
    have "i \<in> pr_id ` set ?ps" using c(4) i by auto
    then obtain p where "p \<in> set ?ps" "i = pr_id p" by (rule imageE)
    with each show ?thesis by (intro image_eqI [of _ _ p]) (auto simp: product_key_def)
  qed
  show "pr_active p" if "p \<in> set (pd_products db)" "pr_store p = store" "pr_id p \<in> fst ` set items" "pr_active combo"
    using each [of p] that by auto
qed

lemma put_components_ok:
  assumes "put_components E store combo items db = Inr db'" "menus_ok E {pr_id combo} db" "product_key combo \<in> product_key ` set (pd_products db)"
    "pr_combo combo" "pr_store combo = store" "\<forall>(i, q) \<in> set items. 0 < q"
  shows "menus_ok E {} db'" "pd_products db' = pd_products db" "pd_serial db \<le> pd_serial db'"
    "lines_of_combo (pd_bundles db') store (pr_id combo) = new_lines E store (pr_id combo) 0 (pd_serial db) items"
    "c \<noteq> pr_id combo \<Longrightarrow> lines_of_combo (pd_bundles db') st c = lines_of_combo (pd_bundles db) st c"
proof -
  let ?new = "new_lines E store (pr_id combo) 0 (pd_serial db) items" and ?keys = "product_key ` set (pd_products db)"
  have chk: "check_components db store combo items = Inr ()"
    and db': "db' = db\<lparr>pd_bundles := filter (\<lambda>b. \<not> (br_store b = store \<and> br_combo b = pr_id combo)) (pd_bundles db) @ ?new,
               pd_serial := pd_serial db + length items\<rparr>"
    using assms(1) unfolding put_components_def by (auto elim!: ebind_InrE)
  note c = check_componentsD [OF chk] and new = new_lines_facts [where E = E and store = store and combo = "pr_id combo" and i = 0 and n = "pd_serial db" and items = items]
  show "pd_products db' = pd_products db" "pd_serial db \<le> pd_serial db'" by (simp_all add: db')
  have mem: "br_store b = store \<and> br_combo b = pr_id combo" if "b \<in> set ?new" for b using new(4) that by blast
  have "filter (\<lambda>b. br_store b = store \<and> br_combo b = pr_id combo) ?new = ?new" using mem by (simp add: filter_id_conv)
  then show own: "lines_of_combo (pd_bundles db') store (pr_id combo) = ?new"
    by (simp add: lines_of_combo_def db' filter_empty_conv)
  have "filter (\<lambda>b. br_store b = st \<and> br_combo b = c) ?new = []" if "c \<noteq> pr_id combo" for st c
    using mem that by (auto simp: filter_empty_conv)
  moreover have "filter (\<lambda>b. (br_store b = st \<and> br_combo b = c) \<and> \<not> (br_store b = store \<and> br_combo b = pr_id combo)) bs =
      filter (\<lambda>b. br_store b = st \<and> br_combo b = c) bs" if "c \<noteq> pr_id combo" for st c bs
    by (rule filter_cong) (use that in auto)
  ultimately show other: "lines_of_combo (pd_bundles db') st c = lines_of_combo (pd_bundles db) st c" if "c \<noteq> pr_id combo" for st c
    using that by (simp add: lines_of_combo_def db' conj_commute)
  have q: "\<forall>b \<in> set ?new. 0 < br_quantity b"
  proof -
    have "br_quantity ` set ?new = snd ` set items" using arg_cong [OF new(3), of set] by simp
    then show ?thesis using assms(6) by (metis (no_types, lifting) case_prod_beta imageE imageI)
  qed
  have cs: "\<forall>b \<in> set ?new. br_component b \<in> fst ` set items" using arg_cong [OF new(2), of set] by auto
  have this_ok: "combo_ok ?keys (pd_bundles db') store (pr_id combo)"
    unfolding combo_ok_def own Let_def using c q cs by (simp add: new)
  have stores: "st = store" if "(pr_id combo, st, True) \<in> ?keys" for st
  proof -
    have "distinct (map pr_id (pd_products db))" using assms(2) by (simp add: menus_ok_def Let_def)
    then show ?thesis using that assms(3,5) unfolding product_key_def by (auto dest: inj_onD simp: distinct_map)
  qed
  have combos: "combo_ok ?keys (pd_bundles db') st i" if k: "(i, st, True) \<in> ?keys" for i st
  proof (cases "i = pr_id combo")
    case True
    then show ?thesis using this_ok stores k by blast
  next
    case False
    then have "combo_ok ?keys (pd_bundles db) st i" using assms(2) k by (auto simp: menus_ok_def Let_def)
    then show ?thesis by (simp add: combo_ok_def other [OF False])
  qed
  have owners: "(br_combo b, br_store b, True) \<in> ?keys" if "b \<in> set (pd_bundles db')" for b
  proof (cases "b \<in> set ?new")
    case True
    then show ?thesis using mem assms(3,4,5) by (simp add: product_key_def)
  next
    case False
    then show ?thesis using that assms(2) by (auto simp: db' menus_ok_def Let_def)
  qed
  have drawn: "product_drawn E db' (pr_id p)" if "p \<in> set (pd_products db)" for p
    by (rule product_drawn_later [of E db]) (use that assms(2) in \<open>auto simp: menus_ok_def Let_def db'\<close>)
  have p: "pd_products db' = pd_products db" "distinct (map pr_id (pd_products db))" using assms(2) by (simp_all add: db' menus_ok_def Let_def)
  show "menus_ok E {} db'" by (rule menus_okI) (use owners drawn p combos in simp_all)
qed

section \<open>The effect of a request\<close>

definition same_menu :: "product_db \<Rightarrow> product_db \<Rightarrow> bool" where
  "same_menu db db' \<longleftrightarrow> pd_products db' = pd_products db \<and> pd_bundles db' = pd_bundles db \<and> pd_serial db \<le> pd_serial db'"

definition with_product :: "product_row \<Rightarrow> product_db \<Rightarrow> product_db" where
  "with_product p db = db\<lparr>pd_products := pd_products db @ [p], pd_serial := Suc (pd_serial db)\<rparr>"

lemma same_menu_writes:
  "same_menu db (audit_product store action product db)" "same_menu db (store_view store path m key product status response db)"
  by (auto simp: same_menu_def audit_product_def store_view_def)

lemma same_menu_trans: "same_menu a b \<Longrightarrow> same_menu b c \<Longrightarrow> same_menu a c"
  by (auto simp: same_menu_def)

lemma new_productD:
  assumes "new_product E T store b db = Inr p"
  shows "pr_id p = rn_fresh E (pd_serial db)" "pr_store p = store" "pr_combo p \<or> pb_components b = []"
proof -
  obtain combo active unit name key where p: "p = \<lparr>pr_id = rn_fresh E (pd_serial db), pr_store = store, pr_name = name, pr_normalized = key,
      pr_sku = map_option (mt_upper T) (pb_sku b), pr_price = pb_price b, pr_combo = combo, pr_unit = unit, pr_active = active, pr_version = 1\<rparr>"
    and c: "\<not> (\<not> combo \<and> pb_components b \<noteq> [])"
    using assms unfolding new_product_def by (elim ebind_InrE, unfold raise_if_Inr_iff) blast
  then show "pr_id p = rn_fresh E (pd_serial db)" "pr_store p = store" "pr_combo p \<or> pb_components b = []" by auto
qed

lemma create_productD:
  assumes "create_product E T db store b key = Inr (db', v)"
  shows "db' = db \<or> (\<exists>db0 p db2. same_menu db db0 \<and> new_product E T store b db0 = Inr p \<and>
    (if pr_combo p then put_components E store p (pb_components b) (with_product p db0) else Inr (with_product p db0)) = Inr db2 \<and>
    same_menu db2 db')"
proof -
  from assms have "(\<exists>i. ebind (stored_response i) (\<lambda>response. Inr (db, response)) = Inr (db', v)) \<or>
      (\<exists>records. create_product_work E T store b key (db\<lparr>pd_idem := records\<rparr>) = Inr (db', v))"
    unfolding create_product_def by (elim ebind_InrE) (rule with_idempotencyD)
  then show ?thesis
  proof
    assume "\<exists>records. create_product_work E T store b key (db\<lparr>pd_idem := records\<rparr>) = Inr (db', v)"
    then obtain records where w: "create_product_work E T store b key (db\<lparr>pd_idem := records\<rparr>) = Inr (db', v)" by blast
    define db0 where "db0 = db\<lparr>pd_idem := records\<rparr>"
    have s: "same_menu db db0" by (simp add: db0_def same_menu_def)
    obtain p where p: "new_product E T store b db0 = Inr p"
      using w unfolding create_product_work_def db0_def by (elim ebind_InrE)
    note w = w [unfolded create_product_work_def db0_def [symmetric] p ebind_simps Let_def]
    obtain db2 where d: "(if pr_combo p then put_components E store p (pb_components b) (with_product p db0) else Inr (with_product p db0)) = Inr db2"
      using w unfolding with_product_def by (elim ebind_InrE) blast
    note w = w [folded with_product_def, unfolded d ebind_simps]
    have "same_menu db2 db'" using w by (elim ebind_InrE) (auto intro: same_menu_trans same_menu_writes)
    then show ?thesis using s p d by blast
  qed (auto simp: result_simps)
qed

lemma patched_productD:
  assumes "patched_product T db store d p = Inr p'"
  shows "product_key p' = product_key p"
    "pr_active p' \<noteq> pr_active p \<Longrightarrow> patched_active T d = Inr (pr_active p') \<and> (pr_active p' \<or> pr_combo p \<or> \<not> product_in_active_combo db store (pr_id p))"
proof -
  let ?p1 = "if pp_status d = None \<and> pp_active d = None then Inr p
      else ebind (patched_active T d) (\<lambda>active.
        ebind (raise_if (\<not> active \<and> \<not> pr_combo p \<and> product_in_active_combo db store (pr_id p)) (menu_conflict ''PRODUCT_IN_ACTIVE_COMBO'')) (\<lambda>_.
        Inr (p\<lparr>pr_active := active\<rparr>)))"
  obtain p1 where p1: "?p1 = Inr p1" and e: "product_key p' = product_key p1" "pr_active p' = pr_active p1"
    using assms unfolding patched_product_def Let_def product_key_def
    by (elim ebind_InrE) (auto simp: result_simps split: option.splits)
  show "product_key p' = product_key p"
    unfolding e(1) using p1 by (auto simp: product_key_def result_simps split: if_splits)
  show "patched_active T d = Inr (pr_active p') \<and> (pr_active p' \<or> pr_combo p \<or> \<not> product_in_active_combo db store (pr_id p))"
    if "pr_active p' \<noteq> pr_active p"
    using p1 that unfolding e(2) by (auto simp: result_simps split: if_splits)
qed

lemma patch_productD:
  assumes "patch_product T db store product d = Inr (db', v)"
  shows "\<exists>p p'. get_product db store product = Some p \<and> patched_product T db store d p = Inr p' \<and> same_menu (set_product p' db) db'"
proof -
  obtain p where p: "get_product db store product = Some p"
    using assms unfolding patch_product_def by (elim ebind_InrE) (auto split: option.splits)
  obtain p' where p': "patched_product T db store d p = Inr p'"
    using assms unfolding patch_product_def p option.case by (elim ebind_InrE)
  have "same_menu (set_product p' db) db'"
    using assms unfolding patch_product_def p option.case p' ebind_simps Let_def
    by (elim ebind_InrE) (auto intro: same_menu_writes)
  then show ?thesis using p p' by blast
qed

lemma replace_componentsD:
  assumes "replace_components E db store product b key = Inr (db', v)"
  shows "db' = db \<or> (\<exists>p db0 db1. get_product db store product = Some p \<and> pr_combo p \<and> same_menu db db0 \<and>
    put_components E store p (cm_items b) db0 = Inr db1 \<and> same_menu (set_product (p\<lparr>pr_version := pr_version p + 1\<rparr>) db1) db')"
proof -
  obtain p where p: "get_product db store product = Some p" "pr_combo p"
    using assms unfolding replace_components_def by (elim ebind_InrE) (auto simp: result_simps split: option.splits)
  from assms have "(\<exists>i. ebind (stored_response i) (\<lambda>response. Inr (db, response)) = Inr (db', v)) \<or>
      (\<exists>records. replace_work E store p b key (db\<lparr>pd_idem := records\<rparr>) = Inr (db', v))"
    unfolding replace_components_def p(1) option.case by (elim ebind_InrE) (rule with_idempotencyD)
  then show ?thesis
  proof
    assume "\<exists>records. replace_work E store p b key (db\<lparr>pd_idem := records\<rparr>) = Inr (db', v)"
    then obtain records where w: "replace_work E store p b key (db\<lparr>pd_idem := records\<rparr>) = Inr (db', v)" by blast
    define db0 where "db0 = db\<lparr>pd_idem := records\<rparr>"
    have s: "same_menu db db0" by (simp add: db0_def same_menu_def)
    obtain db1 where d: "put_components E store p (cm_items b) db0 = Inr db1"
      using w unfolding replace_work_def db0_def by (elim ebind_InrE)
    have "same_menu (set_product (p\<lparr>pr_version := pr_version p + 1\<rparr>) db1) db'"
      using w unfolding replace_work_def db0_def [symmetric] d ebind_simps Let_def
      by (elim ebind_InrE) (auto intro: same_menu_trans same_menu_writes)
    then show ?thesis using s p d by blast
  qed (auto simp: result_simps)
qed

section \<open>Every request keeps the menu in order\<close>

lemma menus_same: "same_menu db db' \<Longrightarrow> menus_ok E skip db \<Longrightarrow> menus_ok E skip db'"
  by (rule menus_frame) (auto simp: same_menu_def)

lemma combo_ok_mono: "combo_ok keys bundles store combo \<Longrightarrow> keys \<subseteq> keys' \<Longrightarrow> combo_ok keys' bundles store combo"
  by (auto simp: combo_ok_def Let_def)

lemma with_product_ok:
  assumes "menus_ok E {} db" "inj (rn_fresh E)" "pr_id p = rn_fresh E (pd_serial db)"
  shows "menus_ok E {pr_id p} (with_product p db)" "\<not> pr_combo p \<Longrightarrow> menus_ok E {} (with_product p db)"
    "\<And>q. q \<in> set (pd_products db) \<Longrightarrow> pr_id q \<noteq> pr_id p"
proof -
  let ?keys = "product_key ` set (pd_products db)" and ?keys' = "product_key ` set (pd_products (with_product p db))"
  have k: "?keys' = insert (product_key p) ?keys" by (simp add: with_product_def)
  show fresh: "pr_id q \<noteq> pr_id p" if q: "q \<in> set (pd_products db)" for q
  proof -
    have "product_drawn E db (pr_id q)" using assms(1) q by (simp add: menus_ok_def Let_def)
    then obtain n where n: "n < pd_serial db" "pr_id q = rn_fresh E n" by (auto simp: product_drawn_def)
    then show ?thesis using injD [OF assms(2), of n "pd_serial db"] assms(3) by auto
  qed
  have ids: "distinct (map pr_id (pd_products (with_product p db)))"
    using assms(1) fresh by (auto simp: menus_ok_def Let_def with_product_def dest: fresh)
  have drawn: "product_drawn E (with_product p db) (pr_id q)" if "q \<in> set (pd_products (with_product p db))" for q
  proof (cases "q = p")
    case True
    then show ?thesis using assms(3) by (auto simp: product_drawn_def with_product_def)
  next
    case False
    then have "product_drawn E db (pr_id q)" using that assms(1) by (auto simp: menus_ok_def Let_def with_product_def)
    then show ?thesis by (rule product_drawn_later) (simp add: with_product_def)
  qed
  have owners: "\<forall>b \<in> set (pd_bundles (with_product p db)). (br_combo b, br_store b, True) \<in> ?keys'"
    using assms(1) by (auto simp: menus_ok_def Let_def with_product_def)
  have olds: "combo_ok ?keys' (pd_bundles (with_product p db)) st i" if "(i, st, True) \<in> ?keys" for i st
    by (rule combo_ok_mono [of ?keys]) (use menus_okD [OF assms(1) that] in \<open>simp_all add: k subset_insertI with_product_def\<close>)
  have "menus_ok E skip (with_product p db)" if p: "\<not> pr_combo p \<or> pr_id p \<in> skip" for skip
  proof (rule menus_okI)
    fix i st assume m: "(i, st, True) \<in> ?keys'" "i \<notin> skip"
    then have "(i, st, True) \<noteq> product_key p" using p by (auto simp: product_key_def)
    then have "(i, st, True) \<in> ?keys" using m(1) unfolding k by blast
    then show "combo_ok ?keys' (pd_bundles (with_product p db)) st i" by (rule olds)
  qed (use ids drawn owners in simp_all)
  then show "menus_ok E {pr_id p} (with_product p db)" "\<not> pr_combo p \<Longrightarrow> menus_ok E {} (with_product p db)" by simp_all
qed

lemma menus_ok_weaken: "menus_ok E {} db \<Longrightarrow> menus_ok E skip db"
  by (auto simp: menus_ok_def Let_def)

lemma menus_ok_distinct: "menus_ok E skip db \<Longrightarrow> distinct (map pr_id (pd_products db))"
  by (simp add: menus_ok_def Let_def)

lemma set_product_ok:
  assumes "menus_ok E {} db" "q \<in> set (pd_products db)" "product_key p = product_key q"
  shows "menus_ok E {} (set_product p db)"
  by (rule menus_frame [OF assms(1)])
    (use set_product_keys [OF assms(2,3) menus_ok_distinct [OF assms(1)]] in \<open>simp_all add: set_product_def\<close>)

lemma items_positive: "items_ok items \<Longrightarrow> \<forall>(i, q) \<in> set items. 0 < q"
  by (auto simp: items_ok_def)

lemma menu_write_ok:
  assumes "menu_write E T db store request key = Inr (db', v)" "menus_ok E {} db" "inj (rn_fresh E)" "menu_request_ok request"
  shows "menus_ok E {} db'"
proof (cases request)
  case (CreateProduct b)
  with assms(1) have "create_product E T db store b key = Inr (db', v)" by simp
  then consider "db' = db"
    | db0 p db2 where "same_menu db db0" "new_product E T store b db0 = Inr p"
      "(if pr_combo p then put_components E store p (pb_components b) (with_product p db0) else Inr (with_product p db0)) = Inr db2"
      "same_menu db2 db'" by (blast dest: create_productD)
  then show ?thesis
  proof cases
    case 2
    note p = new_productD [OF 2(2)] and ok = menus_same [OF 2(1) assms(2)]
    note w = with_product_ok [OF ok assms(3) p(1)]
    have "menus_ok E {} db2"
    proof (cases "pr_combo p")
      case True
      then have c: "put_components E store p (pb_components b) (with_product p db0) = Inr db2" using 2(3) by simp
      have m: "product_key p \<in> product_key ` set (pd_products (with_product p db0))" by (simp add: with_product_def)
      show ?thesis
        by (rule put_components_ok(1) [OF c w(1) m True p(2) items_positive]) (use assms(4) CreateProduct in simp)
    next
      case False
      then show ?thesis using 2(3) w(2) by simp
    qed
    then show ?thesis by (rule menus_same [OF 2(4)])
  qed (use assms(2) in simp)
next
  case (PatchProduct product d)
  with assms(1) have "patch_product T db store product d = Inr (db', v)" by simp
  then obtain p p' where p: "get_product db store product = Some p" "patched_product T db store d p = Inr p'" "same_menu (set_product p' db) db'"
    by (blast dest: patch_productD)
  have "p \<in> set (pd_products db)" using get_productD [OF p(1)] by simp
  then show ?thesis using menus_same [OF p(3)] set_product_ok [OF assms(2) _ patched_productD(1) [OF p(2)]] by blast
next
  case (ReplaceComponents product b)
  with assms(1) have "replace_components E db store product b key = Inr (db', v)" by simp
  then consider "db' = db"
    | p db0 db1 where "get_product db store product = Some p" "pr_combo p" "same_menu db db0"
      "put_components E store p (cm_items b) db0 = Inr db1" "same_menu (set_product (p\<lparr>pr_version := pr_version p + 1\<rparr>) db1) db'"
    by (blast dest: replace_componentsD)
  then show ?thesis
  proof cases
    case 2
    note g = get_productD [OF 2(1)] and ok = menus_same [OF 2(3) assms(2)]
    have m: "p \<in> set (pd_products db0)" using g 2(3) by (simp add: same_menu_def)
    have q: "\<forall>(i, q) \<in> set (cm_items b). 0 < q" using assms(4) ReplaceComponents by (intro items_positive) simp
    note c = put_components_ok [OF 2(4) menus_ok_weaken [OF ok] imageI [OF m] 2(2) _ q]
    have "menus_ok E {} (set_product (p\<lparr>pr_version := pr_version p + 1\<rparr>) db1)"
      by (rule set_product_ok [OF c(1), of p]) (use g m c(2) in \<open>simp_all add: product_key_def\<close>)
    then show ?thesis by (rule menus_same [OF 2(5)])
  qed (use assms(2) in simp)
qed

section \<open>Active combos\<close>

definition actives_ok :: "product_db \<Rightarrow> bool" where
  "actives_ok db \<longleftrightarrow>
     (\<forall>c \<in> set (pd_products db). pr_combo c \<longrightarrow> pr_active c \<longrightarrow>
        (\<forall>l \<in> set (lines_of_combo (pd_bundles db) (pr_store c) (pr_id c)). \<forall>p \<in> set (pd_products db). pr_id p = br_component l \<longrightarrow> pr_active p))"

lemma actives_okD:
  "actives_ok db \<Longrightarrow> c \<in> set (pd_products db) \<Longrightarrow> pr_combo c \<Longrightarrow> pr_active c \<Longrightarrow> l \<in> set (lines_of_combo (pd_bundles db) (pr_store c) (pr_id c)) \<Longrightarrow>
   p \<in> set (pd_products db) \<Longrightarrow> pr_id p = br_component l \<Longrightarrow> pr_active p"
  by (auto simp: actives_ok_def)

text \<open>The products of an in-order menu: one per id, and the components of a combo are single products of its store.\<close>

lemma same_id:
  "menus_ok E skip db \<Longrightarrow> p \<in> set (pd_products db) \<Longrightarrow> q \<in> set (pd_products db) \<Longrightarrow> pr_id p = pr_id q \<Longrightarrow> p = q"
  by (auto simp: menus_ok_def Let_def distinct_map dest: inj_onD)

lemma key_product:
  assumes "menus_ok E skip db" "p \<in> set (pd_products db)" "(pr_id p, st, k) \<in> product_key ` set (pd_products db)"
  shows "pr_store p = st \<and> pr_combo p = k"
proof -
  obtain q where "q \<in> set (pd_products db)" "(pr_id p, st, k) = product_key q" using assms(3) by (rule imageE) blast
  moreover from this have "q = p" using same_id [OF assms(1) _ assms(2)] by (simp add: product_key_def)
  ultimately show ?thesis by (simp add: product_key_def)
qed

lemma combo_component:
  assumes "menus_ok E skip db" "c \<in> set (pd_products db)" "pr_combo c" "pr_id c \<notin> skip"
    and "l \<in> set (lines_of_combo (pd_bundles db) (pr_store c) (pr_id c))"
  shows "(br_component l, pr_store c, False) \<in> product_key ` set (pd_products db)"
    "p \<in> set (pd_products db) \<Longrightarrow> pr_id p = br_component l \<Longrightarrow> pr_store p = pr_store c \<and> \<not> pr_combo p"
proof -
  have "(pr_id c, pr_store c, True) \<in> product_key ` set (pd_products db)"
    by (rule image_eqI [OF _ assms(2)]) (simp add: product_key_def assms(3))
  from menus_okD [OF assms(1) this assms(4)] show m: "(br_component l, pr_store c, False) \<in> product_key ` set (pd_products db)"
    using assms(5) by (auto simp: combo_ok_def Let_def)
  then show "pr_store p = pr_store c \<and> \<not> pr_combo p" if "p \<in> set (pd_products db)" "pr_id p = br_component l"
    using key_product [OF assms(1) that(1)] that(2) by metis
qed

lemma actives_same: "same_menu db db' \<Longrightarrow> actives_ok db \<Longrightarrow> actives_ok db'"
  by (simp add: same_menu_def actives_ok_def)

lemma actives_put:
  assumes "put_components E store p items db = Inr db'" "menus_ok E {pr_id p} db" "p \<in> set (pd_products db)" "pr_combo p" "pr_store p = store"
    "\<forall>(i, q) \<in> set items. 0 < q"
    and others: "\<And>c l q. c \<in> set (pd_products db) \<Longrightarrow> pr_id c \<noteq> pr_id p \<Longrightarrow> pr_combo c \<Longrightarrow> pr_active c \<Longrightarrow>
      l \<in> set (lines_of_combo (pd_bundles db) (pr_store c) (pr_id c)) \<Longrightarrow> q \<in> set (pd_products db) \<Longrightarrow> pr_id q = br_component l \<Longrightarrow> pr_active q"
  shows "actives_ok db'"
proof -
  note put = put_components_ok [OF assms(1,2) imageI [OF assms(3)] assms(4-6)]
  have chk: "check_components db store p items = Inr ()" using assms(1) unfolding put_components_def by (auto elim!: ebind_InrE)
  note c = check_componentsD [OF chk]
  have "pr_active q" if x: "x \<in> set (pd_products db)" "pr_combo x" "pr_active x"
    and l: "l \<in> set (lines_of_combo (pd_bundles db') (pr_store x) (pr_id x))" and q: "q \<in> set (pd_products db)" "pr_id q = br_component l" for x l q
  proof (cases "pr_id x = pr_id p")
    case True
    then have xp: "x = p" using same_id [OF assms(2) x(1) assms(3)] by simp
    then have "l \<in> set (new_lines E store (pr_id p) 0 (pd_serial db) items)" using l put(4) assms(5) by simp
    then have i: "pr_id q \<in> fst ` set items" using q(2) arg_cong [OF new_lines_facts(2) [of E store "pr_id p" 0 "pd_serial db" items], of set]
      by (metis image_eqI set_map)
    then have "pr_store q = store" using key_product [OF assms(2) q(1)] c(5) by blast
    then show ?thesis using c(6) [OF q(1) _ i] x(3) xp by blast
  next
    case False
    then show ?thesis using others [OF x(1) False x(2,3) _ q] l put(5) by metis
  qed
  then show ?thesis unfolding actives_ok_def put(2) by blast
qed

text \<open>A patch that sets an inactive combo active.\<close>

fun switches_on :: "menu_text \<Rightarrow> product_db \<Rightarrow> string \<Rightarrow> menu_request \<Rightarrow> bool" where
  "switches_on T db store (PatchProduct product d) \<longleftrightarrow>
     (\<exists>p. get_product db store product = Some p \<and> pr_combo p \<and> \<not> pr_active p \<and> patched_active T d = Inr True)"
| "switches_on T db store _ \<longleftrightarrow> False"

lemma actives_patch:
  assumes "menus_ok E {} db" "actives_ok db" "get_product db store product = Some p" "patched_product T db store d p = Inr p'"
    "\<not> switches_on T db store (PatchProduct product d)"
  shows "actives_ok (set_product p' db)"
proof -
  note g = get_productD [OF assms(3)] and k = patched_productD [OF assms(4)]
  have old: "\<exists>x \<in> set (pd_products db). product_key x = product_key x' \<and> (x' = x \<or> x = p \<and> x' = p')"
    if m: "x' \<in> set (pd_products (set_product p' db))" for x'
  proof -
    obtain x where x: "x \<in> set (pd_products db)" "x' = (if pr_id x = pr_id p' then p' else x)"
      using m by (auto simp: set_product_def)
    show ?thesis
    proof (cases "pr_id x = pr_id p'")
      case True
      then have "x = p" using same_id [OF assms(1) x(1)] g k(1) by (simp add: product_key_def)
      then show ?thesis using x True k(1) by auto
    qed (use x in auto)
  qed
  have b: "pd_bundles (set_product p' db) = pd_bundles db" by (simp add: set_product_def)
  have "pr_active q'" if c': "c' \<in> set (pd_products (set_product p' db))" "pr_combo c'" "pr_active c'"
    and l: "l \<in> set (lines_of_combo (pd_bundles db) (pr_store c') (pr_id c'))" and q': "q' \<in> set (pd_products (set_product p' db))" "pr_id q' = br_component l"
    for c' l q'
  proof -
    obtain c where c: "c \<in> set (pd_products db)" "product_key c = product_key c'" "c' = c \<or> c = p \<and> c' = p'" using old [OF c'(1)] by blast
    obtain q where q: "q \<in> set (pd_products db)" "product_key q = product_key q'" "q' = q \<or> q = p \<and> q' = p'" using old [OF q'(1)] by blast
    have ck: "pr_combo c" "pr_store c = pr_store c'" "pr_id c = pr_id c'" and qk: "pr_id q = br_component l" "pr_combo q = pr_combo q'"
      using c(2) q(2) c'(2) q'(2) by (simp_all add: product_key_def)
    have lc: "l \<in> set (lines_of_combo (pd_bundles db) (pr_store c) (pr_id c))" using l ck by simp
    have ca: "pr_active c"
    proof (rule ccontr)
      assume "\<not> pr_active c"
      then have "c = p" "pr_active p' \<noteq> pr_active p" using c(3) c'(3) by auto
      then show False using k(2) assms(3,5) \<open>\<not> pr_active c\<close> c'(3) c(3) ck(1) by auto
    qed
    have qa: "pr_active q" by (rule actives_okD [OF assms(2) c(1) ck(1) ca lc q(1) qk(1)])
    show ?thesis
    proof (rule ccontr)
      assume n: "\<not> pr_active q'"
      then have qp: "q = p" "pr_active p' \<noteq> pr_active p" "\<not> pr_active p'" using q(3) qa by auto
      have cc: "pr_store p = pr_store c" "\<not> pr_combo p" using combo_component(2) [OF assms(1) c(1) ck(1) _ lc q(1) qk(1)] qp(1) by simp_all
      have "\<not> product_in_active_combo db store (pr_id p)" using k(2) qp cc by blast
      moreover have "l \<in> set (pd_bundles db)" "br_store l = store" "br_component l = pr_id p" "br_combo l = pr_id c"
        using lc qk(1) qp(1) g cc by (auto simp: lines_of_combo_def)
      ultimately show False using c(1) ca unfolding product_in_active_combo_def list_ex_iff by metis
    qed
  qed
  then show ?thesis unfolding actives_ok_def b by blast
qed

lemma actives_version:
  assumes "actives_ok db" "menus_ok E {} db" "p \<in> set (pd_products db)"
  shows "actives_ok (set_product (p\<lparr>pr_version := n\<rparr>) db)"
proof -
  have old: "\<exists>x \<in> set (pd_products db). product_key x = product_key x' \<and> pr_active x = pr_active x'"
    if m: "x' \<in> set (pd_products (set_product (p\<lparr>pr_version := n\<rparr>) db))" for x'
  proof -
    obtain x where "x \<in> set (pd_products db)" "x' = (if pr_id x = pr_id p then p\<lparr>pr_version := n\<rparr> else x)"
      using m by (auto simp: set_product_def)
    then show ?thesis using same_id [OF assms(2) _ assms(3)] by (auto simp: product_key_def split: if_splits)
  qed
  have "pr_active q'" if c': "c' \<in> set (pd_products (set_product (p\<lparr>pr_version := n\<rparr>) db))" "pr_combo c'" "pr_active c'"
    and l: "l \<in> set (lines_of_combo (pd_bundles db) (pr_store c') (pr_id c'))"
    and q': "q' \<in> set (pd_products (set_product (p\<lparr>pr_version := n\<rparr>) db))" "pr_id q' = br_component l" for c' l q'
  proof -
    obtain c where c: "c \<in> set (pd_products db)" "product_key c = product_key c'" "pr_active c = pr_active c'" using old [OF c'(1)] by blast
    obtain q where q: "q \<in> set (pd_products db)" "product_key q = product_key q'" "pr_active q = pr_active q'" using old [OF q'(1)] by blast
    have k: "pr_combo c" "pr_store c = pr_store c'" "pr_id c = pr_id c'" "pr_id q = br_component l"
      using c(2) q(2) c'(2) q'(2) by (simp_all add: product_key_def)
    have "pr_active q" by (rule actives_okD [OF assms(1) c(1) k(1) _ _ q(1) k(4)]) (use c(3) c'(3) l k in simp_all)
    then show ?thesis using q(3) by simp
  qed
  moreover have "pd_bundles (set_product (p\<lparr>pr_version := n\<rparr>) db) = pd_bundles db" by (simp add: set_product_def)
  ultimately show ?thesis unfolding actives_ok_def by metis
qed

lemma menu_write_actives:
  assumes "menu_write E T db store request key = Inr (db', v)" "menus_ok E {} db" "inj (rn_fresh E)" "menu_request_ok request"
    "actives_ok db" "\<not> switches_on T db store request"
  shows "actives_ok db'"
proof (cases request)
  case (CreateProduct b)
  with assms(1) have "create_product E T db store b key = Inr (db', v)" by simp
  then consider "db' = db"
    | db0 p db2 where "same_menu db db0" "new_product E T store b db0 = Inr p"
      "(if pr_combo p then put_components E store p (pb_components b) (with_product p db0) else Inr (with_product p db0)) = Inr db2"
      "same_menu db2 db'" by (blast dest: create_productD)
  then show ?thesis
  proof cases
    case 2
    note p = new_productD [OF 2(2)] and ok = menus_same [OF 2(1) assms(2)] and a = actives_same [OF 2(1) assms(5)]
    note w = with_product_ok [OF ok assms(3) p(1)]
    have old: "pr_active q" if c: "c \<in> set (pd_products (with_product p db0))" "pr_id c \<noteq> pr_id p" "pr_combo c" "pr_active c"
      and l: "l \<in> set (lines_of_combo (pd_bundles (with_product p db0)) (pr_store c) (pr_id c))"
      and q: "q \<in> set (pd_products (with_product p db0))" "pr_id q = br_component l" for c l q
    proof -
      have c0: "c \<in> set (pd_products db0)" and l0: "l \<in> set (lines_of_combo (pd_bundles db0) (pr_store c) (pr_id c))"
        using c l by (auto simp: with_product_def)
      have "(br_component l, pr_store c, False) \<in> product_key ` set (pd_products db0)" by (rule combo_component(1) [OF ok c0 c(3) _ l0]) simp
      then obtain x where x: "x \<in> set (pd_products db0)" "pr_id x = pr_id q" using q(2) by (auto simp: product_key_def)
      have "x = q" using same_id [OF w(1) _ q(1) x(2)] x(1) by (simp add: with_product_def)
      then show ?thesis using actives_okD [OF a c0 c(3,4) l0 _ q(2)] x(1) by simp
    qed
    have "actives_ok db2"
    proof (cases "pr_combo p")
      case True
      then have put: "put_components E store p (pb_components b) (with_product p db0) = Inr db2" using 2(3) by simp
      have m: "p \<in> set (pd_products (with_product p db0))" by (simp add: with_product_def)
      show ?thesis
        by (rule actives_put [OF put w(1) m True p(2) items_positive old]) (use assms(4) CreateProduct in simp_all)
    next
      case False
      have "pr_active q" if c: "c \<in> set (pd_products (with_product p db0))" "pr_combo c" "pr_active c"
        and l: "l \<in> set (lines_of_combo (pd_bundles (with_product p db0)) (pr_store c) (pr_id c))"
        and q: "q \<in> set (pd_products (with_product p db0))" "pr_id q = br_component l" for c l q
      proof -
        have "pr_id c \<noteq> pr_id p" using c False w(3) by (auto simp: with_product_def)
        then show ?thesis using old c l q by blast
      qed
      then show ?thesis using 2(3) False unfolding actives_ok_def by auto
    qed
    then show ?thesis by (rule actives_same [OF 2(4)])
  qed (use assms(5) in simp)
next
  case (PatchProduct product d)
  with assms(1) have "patch_product T db store product d = Inr (db', v)" by simp
  then obtain p p' where p: "get_product db store product = Some p" "patched_product T db store d p = Inr p'" "same_menu (set_product p' db) db'"
    by (blast dest: patch_productD)
  then show ?thesis using actives_same [OF p(3)] actives_patch [OF assms(2,5) p(1,2)] assms(6) PatchProduct by blast
next
  case (ReplaceComponents product b)
  with assms(1) have "replace_components E db store product b key = Inr (db', v)" by simp
  then consider "db' = db"
    | p db0 db1 where "get_product db store product = Some p" "pr_combo p" "same_menu db db0"
      "put_components E store p (cm_items b) db0 = Inr db1" "same_menu (set_product (p\<lparr>pr_version := pr_version p + 1\<rparr>) db1) db'"
    by (blast dest: replace_componentsD)
  then show ?thesis
  proof cases
    case 2
    note g = get_productD [OF 2(1)] and ok = menus_same [OF 2(3) assms(2)] and a = actives_same [OF 2(3) assms(5)]
    have m: "p \<in> set (pd_products db0)" using g 2(3) by (simp add: same_menu_def)
    have q: "\<forall>(i, q) \<in> set (cm_items b). 0 < q" using assms(4) ReplaceComponents by (intro items_positive) simp
    have s: "pr_store p = store" using g by simp
    note c = put_components_ok [OF 2(4) menus_ok_weaken [OF ok] imageI [OF m] 2(2) s q]
    have "actives_ok db1"
      by (rule actives_put [OF 2(4) menus_ok_weaken [OF ok] m 2(2) s q]) (rule actives_okD [OF a])
    then have "actives_ok (set_product (p\<lparr>pr_version := pr_version p + 1\<rparr>) db1)"
      by (rule actives_version [OF _ c(1)]) (use m c(2) in simp)
    then show ?thesis by (rule actives_same [OF 2(5)])
  qed (use assms(5) in simp)
qed

section \<open>The menus requests can build\<close>

text \<open>With \<open>careful\<close> no request switches a combo on.\<close>

inductive menu_history :: "runtime \<Rightarrow> menu_text \<Rightarrow> bool \<Rightarrow> product_db \<Rightarrow> bool" for E T careful where
  menu_start: "pd_products db = [] \<Longrightarrow> pd_bundles db = [] \<Longrightarrow> menu_history E T careful db"
| menu_request: "menu_history E T careful db \<Longrightarrow> menu_write E T db store request key = Inr (db', v) \<Longrightarrow> menu_request_ok request \<Longrightarrow>
    careful \<longrightarrow> \<not> switches_on T db store request \<Longrightarrow> menu_history E T careful db'"
| menu_other: "menu_history E T careful db \<Longrightarrow> same_menu db db' \<Longrightarrow> menu_history E T careful db'"

lemma menu_history_ok:
  "menu_history E T careful db \<Longrightarrow> inj (rn_fresh E) \<Longrightarrow> menus_ok E {} db \<and> (careful \<longrightarrow> actives_ok db)"
proof (induction rule: menu_history.induct)
  case (menu_start db)
  then show ?case by (simp add: menus_ok_def actives_ok_def)
next
  case (menu_request db store request key db' v)
  then show ?case using menu_write_ok menu_write_actives by blast
next
  case (menu_other db db')
  then show ?case using menus_same actives_same by blast
qed

lemma combo_lines_set: "set (combo_lines db store combo) = set (lines_of_combo (pd_bundles db) store combo)"
  by (simp add: combo_lines_def lines_of_combo_def)

lemma combo_lines_ordered:
  assumes "combo_ok keys (pd_bundles db) store combo"
  shows "combo_lines db store combo = lines_of_combo (pd_bundles db) store combo"
proof -
  have "sorted (map br_position (lines_of_combo (pd_bundles db) store combo))" using assms by (simp add: combo_ok_def Let_def)
  then show ?thesis unfolding combo_lines_def lines_of_combo_def by (rule sort_key_id_if_sorted)
qed

lemma serialize_ok:
  assumes "menus_ok E {} db" "p \<in> set (pd_products db)"
  shows "\<exists>v. serialize_one db (pr_store p) p = Inr v"
proof -
  have "\<exists>c. get_product db (pr_store p) (br_component b) = Some c" if b: "b \<in> set (combo_lines db (pr_store p) (pr_id p))" for b
  proof -
    have l: "b \<in> set (lines_of_combo (pd_bundles db) (pr_store p) (pr_id p))" using b combo_lines_set by blast
    then have "b \<in> set (pd_bundles db)" "br_combo b = pr_id p" "br_store b = pr_store p" by (auto simp: lines_of_combo_def)
    then have "(pr_id p, pr_store p, True) \<in> product_key ` set (pd_products db)" using assms(1) by (auto simp: menus_ok_def Let_def)
    then have "pr_combo p" using key_product [OF assms] by blast
    from combo_component(1) [OF assms this _ l] obtain c where "c \<in> set (pd_products db)" "product_key c = (br_component b, pr_store p, False)"
      by force
    then show ?thesis using get_product_of [OF menus_ok_distinct [OF assms(1)], of c] by (auto simp: product_key_def)
  qed
  then have "load_graph db (pr_store p) p =
      Inr (map (\<lambda>b. (b, the (get_product db (pr_store p) (br_component b)))) (combo_lines db (pr_store p) (pr_id p)))"
    unfolding load_graph_def by (intro emap_all_ok) fastforce
  then show ?thesis by (auto simp: serialize_one_def)
qed

text \<open>C18: combos are made of single products. In every menu that requests can build a combo has one to twenty components, no
  component twice, each a single product of the same store in a positive quantity, and every product can be read.\<close>

theorem combos_well_formed:
  assumes "menu_history E T careful db" "inj (rn_fresh E)"
  shows "(\<forall>c \<in> set (pd_products db). pr_combo c \<longrightarrow>
      (let ls = combo_lines db (pr_store c) (pr_id c) in
       1 \<le> length ls \<and> length ls \<le> 20 \<and> distinct (map br_component ls) \<and>
       (\<forall>l \<in> set ls. 0 < br_quantity l \<and>
          (\<exists>p \<in> set (pd_products db). pr_id p = br_component l \<and> pr_store p = pr_store c \<and> \<not> pr_combo p)))) \<and>
    (\<forall>p \<in> set (pd_products db). \<exists>v. serialize_one db (pr_store p) p = Inr v)"
proof -
  note ok = conjunct1 [OF menu_history_ok [OF assms]]
  have "let ls = combo_lines db (pr_store c) (pr_id c) in
       1 \<le> length ls \<and> length ls \<le> 20 \<and> distinct (map br_component ls) \<and>
       (\<forall>l \<in> set ls. 0 < br_quantity l \<and>
          (\<exists>p \<in> set (pd_products db). pr_id p = br_component l \<and> pr_store p = pr_store c \<and> \<not> pr_combo p))"
    if c: "c \<in> set (pd_products db)" "pr_combo c" for c
  proof -
    have "(pr_id c, pr_store c, True) \<in> product_key ` set (pd_products db)"
      by (rule image_eqI [OF _ c(1)]) (simp add: product_key_def c(2))
    note k = menus_okD [OF ok this, simplified]
    then show ?thesis unfolding Let_def combo_lines_ordered [OF k] by (fastforce simp: combo_ok_def Let_def product_key_def)
  qed
  then show ?thesis using serialize_ok [OF ok] by blast
qed

text \<open>C19: an active combo sells active products, provided that no patch switches a combo on: creating and replacing check
  the components and a product cannot be switched off while an active combo has it.\<close>

theorem active_combos_have_active_components:
  assumes "menu_history E T True db" "inj (rn_fresh E)" "c \<in> set (pd_products db)" "pr_combo c" "pr_active c"
    "l \<in> set (combo_lines db (pr_store c) (pr_id c))" "p \<in> set (pd_products db)" "pr_id p = br_component l"
  shows "pr_active p"
  using actives_okD [OF _ assms(3-5) _ assms(7,8)] menu_history_ok [OF assms(1,2)] assms(6) by (simp add: combo_lines_set)

end
