(* ===== verification/Menu_Witness.thy ===== *)
theory Menu_Witness
  imports Menu_Facts Op_Witness
begin

text \<open>
  The theorems on menus at a cafe that sells coffee and, as a combo, two cups of it; and a menu whose active combo has an
  inactive component.
\<close>

definition cafe_text :: menu_text where
  "cafe_text = \<lparr>mt_display = (\<lambda>s. s), mt_casefold = (\<lambda>s. s), mt_upper = (\<lambda>s. s), mt_fold = (\<lambda>s. s), mt_term = (\<lambda>s. s),
     mt_lower = (\<lambda>s. s), mt_like = (=)\<rparr>"

definition empty_cafe :: product_db where
  "empty_cafe = \<lparr>pd_stores = [''cafe''], pd_products = [], pd_bundles = [], pd_idem = [], pd_audit = [], pd_serial = 0\<rparr>"

definition coffee_request :: menu_request where
  "coffee_request = CreateProduct \<lparr>pb_name = ''coffee'', pb_sku = None, pb_type = ''single'', pb_unit = None, pb_price = Some 3,
     pb_status = None, pb_active = None, pb_components = [], pb_dump = PNone\<rparr>"

definition duo_request :: "bool \<Rightarrow> menu_request" where
  "duo_request active = CreateProduct \<lparr>pb_name = ''duo'', pb_sku = None, pb_type = ''combo'', pb_unit = Some ''combo'', pb_price = Some 5,
     pb_status = None, pb_active = Some active, pb_components = [(''i'', 2)], pb_dump = PNone\<rparr>"

definition switch_request :: "string \<Rightarrow> bool \<Rightarrow> menu_request" where
  "switch_request product active = PatchProduct product \<lparr>pp_version = 1, pp_name = None, pp_sku = None, pp_price = None, pp_status = None,
     pp_active = Some (Some active), pp_unit = None, pp_type = None\<rparr>"

definition coffee :: "bool \<Rightarrow> int \<Rightarrow> product_row" where
  "coffee active version = \<lparr>pr_id = ''i'', pr_store = ''cafe'', pr_name = ''coffee'', pr_normalized = ''coffee'', pr_sku = None, pr_price = Some 3,
     pr_combo = False, pr_unit = None, pr_active = active, pr_version = version\<rparr>"

definition duo :: "bool \<Rightarrow> int \<Rightarrow> product_row" where
  "duo active version = \<lparr>pr_id = ''ix'', pr_store = ''cafe'', pr_name = ''duo'', pr_normalized = ''duo'', pr_sku = None, pr_price = Some 5,
     pr_combo = True, pr_unit = Some ''combo'', pr_active = active, pr_version = version\<rparr>"

definition duo_line :: bundle_row where
  "duo_line = \<lparr>br_id = ''ixx'', br_store = ''cafe'', br_combo = ''ix'', br_component = ''i'', br_quantity = 2, br_position = 0\<rparr>"

definition cafe_audit :: "string \<Rightarrow> string \<Rightarrow> audit_row" where
  "cafe_audit action product = \<lparr>au_store = ''cafe'', au_action = action, au_type = ''product'', au_resource = product\<rparr>"

definition coffee_cafe :: product_db where
  "coffee_cafe = empty_cafe\<lparr>pd_products := [coffee True 1], pd_serial := 1, pd_audit := [cafe_audit ''product_created'' ''i'']\<rparr>"

definition duo_cafe :: "bool \<Rightarrow> product_db" where
  "duo_cafe active = empty_cafe\<lparr>pd_products := [coffee True 1, duo active 1], pd_bundles := [duo_line], pd_serial := 3,
     pd_audit := [cafe_audit ''product_created'' ''i'', cafe_audit ''product_created'' ''ix'']\<rparr>"

definition dry_cafe :: "bool \<Rightarrow> product_db" where
  "dry_cafe active = empty_cafe\<lparr>pd_products := [coffee False 2, duo active (if active then 2 else 1)], pd_bundles := [duo_line], pd_serial := 3,
     pd_audit := [cafe_audit ''product_created'' ''i'', cafe_audit ''product_created'' ''ix'', cafe_audit ''product_updated'' ''i''] @
       (if active then [cafe_audit ''product_updated'' ''ix''] else [])\<rparr>"

lemmas cafe_defs = empty_cafe_def coffee_def duo_def duo_line_def cafe_audit_def coffee_cafe_def duo_cafe_def dry_cafe_def shop_runtime_def cafe_text_def

lemmas cafe_evals = create_product_def require_store_def with_idempotency_def create_product_work_def new_product_def normalize_item_type_def
  non_empty_def normalize_product_unit_def PRODUCT_UNITS_def display_name_def name_key_def flush_products_def serialize_one_def load_graph_def
  combo_lines_def serialize_def store_view_def audit_product_def put_components_def check_components_def get_product_def list_price_def
  patch_product_def patched_product_def patched_active_def product_in_active_combo_def set_product_def Let_def dict_get_or_def

lemma coffee_created: "\<exists>v. menu_write shop_runtime cafe_text empty_cafe ''cafe'' coffee_request None = Inr (coffee_cafe, v)"
  by (simp add: coffee_request_def cafe_defs cafe_evals)

lemma duo_created: "\<exists>v. menu_write shop_runtime cafe_text coffee_cafe ''cafe'' (duo_request active) None = Inr (duo_cafe active, v)"
  by (cases active) (simp_all add: duo_request_def cafe_defs cafe_evals)

lemma coffee_switched: "\<exists>v. menu_write shop_runtime cafe_text (duo_cafe False) ''cafe'' (switch_request ''i'' False) None = Inr (dry_cafe False, v)"
  by (simp add: switch_request_def cafe_defs cafe_evals)

lemma duo_switched: "\<exists>v. menu_write shop_runtime cafe_text (dry_cafe False) ''cafe'' (switch_request ''ix'' True) None = Inr (dry_cafe True, v)"
  by (simp add: switch_request_def cafe_defs cafe_evals)

lemma cafe_requests_ok: "menu_request_ok coffee_request" "menu_request_ok (duo_request a)" "menu_request_ok (switch_request p a)"
  by (simp_all add: coffee_request_def duo_request_def switch_request_def items_ok_def)

lemma duo_history: "menu_history shop_runtime cafe_text careful (duo_cafe active)"
proof -
  have 0: "menu_history shop_runtime cafe_text careful empty_cafe" by (rule menu_history.menu_start) (simp_all add: empty_cafe_def)
  obtain v where v: "menu_write shop_runtime cafe_text empty_cafe ''cafe'' coffee_request None = Inr (coffee_cafe, v)" using coffee_created by blast
  have 1: "menu_history shop_runtime cafe_text careful coffee_cafe"
    by (rule menu_history.menu_request [OF 0 v cafe_requests_ok(1)]) (simp add: coffee_request_def)
  obtain w where w: "menu_write shop_runtime cafe_text coffee_cafe ''cafe'' (duo_request active) None = Inr (duo_cafe active, w)" using duo_created by blast
  show ?thesis by (rule menu_history.menu_request [OF 1 w cafe_requests_ok(2)]) (simp add: duo_request_def)
qed

theorem combos_well_formed_witness:
  "menu_history shop_runtime cafe_text True (duo_cafe True) \<and> length (combo_lines (duo_cafe True) ''cafe'' ''ix'') \<le> 20 \<and>
   (\<exists>v. serialize_one (duo_cafe True) ''cafe'' (duo True 1) = Inr v)"
proof -
  have d: "duo True 1 \<in> set (pd_products (duo_cafe True))" "pr_combo (duo True 1)" "pr_store (duo True 1) = ''cafe''" "pr_id (duo True 1) = ''ix''"
    by (simp_all add: duo_cafe_def duo_def)
  show ?thesis
    using combos_well_formed [OF duo_history [of True True] shop_inj] d duo_history [of True True] unfolding Let_def by metis
qed

theorem active_combos_have_active_components_witness:
  "menu_history shop_runtime cafe_text True (duo_cafe True) \<and> duo_line \<in> set (combo_lines (duo_cafe True) ''cafe'' ''ix'') \<and> pr_active (coffee True 1)"
proof -
  have d: "duo True 1 \<in> set (pd_products (duo_cafe True))" "pr_combo (duo True 1)" "pr_active (duo True 1)"
    "duo_line \<in> set (combo_lines (duo_cafe True) (pr_store (duo True 1)) (pr_id (duo True 1)))"
    "coffee True 1 \<in> set (pd_products (duo_cafe True))" "pr_id (coffee True 1) = br_component duo_line"
    by (simp_all add: duo_cafe_def duo_def coffee_def duo_line_def combo_lines_def)
  show ?thesis
    using active_combos_have_active_components [OF duo_history [of True True] shop_inj d] duo_history [of True True] d(4)
    by (simp add: duo_def)
qed

text \<open>C36: an active combo can sell an inactive product. A component may be switched off while its combo is inactive, and
  a patch that switches the combo on afterwards does not look at its components.\<close>

theorem switched_on_combo_sells_inactive:
  "\<exists>E T db c l p. menu_history E T False db \<and> inj (rn_fresh E) \<and> c \<in> set (pd_products db) \<and> pr_combo c \<and> pr_active c \<and>
     l \<in> set (combo_lines db (pr_store c) (pr_id c)) \<and> p \<in> set (pd_products db) \<and> pr_id p = br_component l \<and> \<not> pr_active p"
proof -
  have 1: "menu_history shop_runtime cafe_text False (dry_cafe False)"
    using coffee_switched menu_history.menu_request [OF duo_history [of False False] _ cafe_requests_ok(3)] by blast
  have "menu_history shop_runtime cafe_text False (dry_cafe True)"
    using duo_switched menu_history.menu_request [OF 1 _ cafe_requests_ok(3)] by blast
  moreover have "duo True 2 \<in> set (pd_products (dry_cafe True))" "pr_combo (duo True 2)" "pr_active (duo True 2)"
    "duo_line \<in> set (combo_lines (dry_cafe True) (pr_store (duo True 2)) (pr_id (duo True 2)))"
    "coffee False 2 \<in> set (pd_products (dry_cafe True))" "pr_id (coffee False 2) = br_component duo_line" "\<not> pr_active (coffee False 2)"
    by (simp_all add: dry_cafe_def duo_def coffee_def duo_line_def combo_lines_def)
  ultimately show ?thesis using shop_inj by blast
qed

end
