(* ===== verification/Catalog.thy ===== *)
theory Catalog
  imports Menu Sales_Usage
begin

text \<open>
  The ingredients of a store and their aliases: the endpoints of \<open>CatalogApiService\<close> in \<open>services/catalog_service.py\<close>, with the tables
  that lock the unit of an ingredient, and the ingredients, recipes and usage of an imported sheet
  (\<open>services/business_persistence.py\<close>).
\<close>

section \<open>The tables\<close>

text \<open>The columns of an ingredient that recipes and usage do not read.\<close>

record ingredient_columns =
  ic_id :: string
  ic_sku :: "string option"
  ic_active :: bool
  ic_version :: int

record alias_row =
  al_id :: string
  al_store :: string
  al_ingredient :: string
  al_alias :: string
  al_normalized :: string

record ingredient_view =
  iv_ingredient :: ingredient_row
  iv_columns :: ingredient_columns
  iv_aliases :: "string list"

datatype catalog_response = IngredientAnswer ingredient_view | AliasAnswer "alias_row list"

text \<open>The idempotency records of the endpoints of this theory; those of the menu are kept with the menu.\<close>

record catalog_db =
  ct_menu :: menu_db
  ct_columns :: "ingredient_columns list"
  ct_aliases :: "alias_row list"
  ct_terms :: "term_row list"
  ct_lots :: "lot_row list"
  ct_receipts :: "receipt_row list"
  ct_idem :: "catalog_response idem_record list"

definition duplicate_resource :: app_error where
  "duplicate_resource = AppError ''DUPLICATE_REQUEST'' 409"

definition catalog_ingredient :: "catalog_db \<Rightarrow> string \<Rightarrow> string \<Rightarrow> ingredient_row option" where
  "catalog_ingredient db store ingredient = store_ingredient (ct_menu db) store ingredient"

definition ingredient_by_name :: "menu_text \<Rightarrow> catalog_db \<Rightarrow> string \<Rightarrow> string option \<Rightarrow> ingredient_row option app" where
  "ingredient_by_name T db store name =
     ebind (name_key T name) (\<lambda>key. Inr (find (\<lambda>g. ig_store g = store \<and> ig_normalized g = key) (mn_ingredients (ct_menu db))))"

definition resolve_alias :: "menu_text \<Rightarrow> catalog_db \<Rightarrow> string \<Rightarrow> string option \<Rightarrow> ingredient_row option app" where
  "resolve_alias T db store alias =
     ebind (name_key T alias) (\<lambda>key.
     Inr (case find (\<lambda>a. al_store a = store \<and> al_normalized a = key \<and> (\<exists>g \<in> set (mn_ingredients (ct_menu db)). ig_id g = al_ingredient a \<and> ig_store g = store))
              (ct_aliases db) of
        None \<Rightarrow> None
      | Some a \<Rightarrow> find (\<lambda>g. ig_id g = al_ingredient a \<and> ig_store g = store) (mn_ingredients (ct_menu db))))"

definition columns_of :: "catalog_db \<Rightarrow> string \<Rightarrow> ingredient_columns option" where
  "columns_of db ingredient = find (\<lambda>c. ic_id c = ingredient) (ct_columns db)"

section \<open>Ingredients\<close>

text \<open>\<open>_sku\<close>: stripped, and none if nothing is left.\<close>

definition sku_of :: "string option \<Rightarrow> string option" where
  "sku_of value = non_empty (map_option str_strip (non_empty value))"

definition ingredient_sku :: "catalog_db \<Rightarrow> ingredient_row \<Rightarrow> string option" where
  "ingredient_sku db g = (case columns_of db (ig_id g) of None \<Rightarrow> None | Some c \<Rightarrow> ic_sku c)"

text \<open>A store has one ingredient per normalised name and per SKU.\<close>

definition flush_ingredients :: "catalog_db \<Rightarrow> unit app" where
  "flush_ingredients db =
     (let rows = mn_ingredients (ct_menu db) in
      raise_if (\<not> distinct (map (\<lambda>g. (ig_store g, ig_normalized g)) rows) \<or>
        \<not> distinct (map (\<lambda>g. (ig_store g, ingredient_sku db g)) (filter (\<lambda>g. ingredient_sku db g \<noteq> None) rows))) duplicate_resource)"

definition ingredient_answer :: "catalog_db \<Rightarrow> ingredient_row \<Rightarrow> ingredient_columns \<Rightarrow> string list \<Rightarrow> catalog_response" where
  "ingredient_answer db g c aliases = IngredientAnswer \<lparr>iv_ingredient = g, iv_columns = c, iv_aliases = aliases\<rparr>"

text \<open>The aliases of an ingredient in the order of their normalised texts.\<close>

definition aliases_of :: "catalog_db \<Rightarrow> string \<Rightarrow> string \<Rightarrow> string list" where
  "aliases_of db store ingredient =
     map al_alias (sort_key al_normalized (filter (\<lambda>a. al_store a = store \<and> al_ingredient a = ingredient) (ct_aliases db)))"

record ingredient_body =
  nb_name :: string
  nb_sku :: "string option"
  nb_base_unit :: string
  nb_active :: bool
  nb_tracking :: "tracking_mode option"
  nb_dump :: pyval

record ingredient_patch =
  ip_version :: int
  ip_name :: "string option option"
  ip_sku :: "string option option"
  ip_unit :: "string option option"
  ip_active :: "bool option option"
  ip_tracking :: "tracking_mode option option"

definition ingredients_path :: "string \<Rightarrow> string" where
  "ingredients_path store = ''/api/v1/stores/'' @ store @ ''/ingredients''"

definition audit_catalog :: "string \<Rightarrow> string \<Rightarrow> string \<Rightarrow> string \<Rightarrow> catalog_db \<Rightarrow> catalog_db" where
  "audit_catalog store action kind resource db =
     db\<lparr>ct_menu := (ct_menu db)\<lparr>mn_audit := mn_audit (ct_menu db) @
          [\<lparr>au_store = store, au_action = action, au_type = kind, au_resource = resource\<rparr>]\<rparr>\<rparr>"

definition store_answer ::
    "string \<Rightarrow> string \<Rightarrow> string \<Rightarrow> string option \<Rightarrow> (catalog_response idem_record \<Rightarrow> catalog_response idem_record) \<Rightarrow> catalog_db \<Rightarrow> catalog_db" where
  "store_answer store path http_method key f db =
     db\<lparr>ct_idem := (case non_empty key of None \<Rightarrow> ct_idem db | Some k \<Rightarrow> idem_update (ct_idem db) (Some store) path http_method k f)\<rparr>"

text \<open>\<open>add_ingredient\<close>: the unit column is not null.\<close>

definition add_ingredient ::
    "runtime \<Rightarrow> menu_text \<Rightarrow> string \<Rightarrow> string \<Rightarrow> string option \<Rightarrow> tracking_mode option \<Rightarrow> ingredient_columns \<Rightarrow> catalog_db \<Rightarrow>
     (catalog_db \<times> ingredient_row) app" where
  "add_ingredient E T store name unit tracking columns db =
     ebind (require_store (mn_stores (ct_menu db)) store) (\<lambda>_.
     ebind (display_name T (Some name)) (\<lambda>shown.
     ebind (name_key T (Some name)) (\<lambda>key.
     ebind (normalize_unit_app (rn_nfc E) unit) (\<lambda>base.
     let serial = mn_serial (ct_menu db) in
     case base of
       None \<Rightarrow> Inl duplicate_resource
     | Some u \<Rightarrow>
         let g = \<lparr>ig_id = rn_fresh E serial, ig_store = store, ig_name = shown, ig_normalized = key, ig_base_unit = u,
                  ig_tracking = (case tracking of None \<Rightarrow> TrackUnknown | Some m \<Rightarrow> m), ig_declared = (tracking \<noteq> None)\<rparr> in
         Inr (db\<lparr>ct_menu := (ct_menu db)\<lparr>mn_ingredients := mn_ingredients (ct_menu db) @ [g], mn_serial := Suc serial\<rparr>,
                 ct_columns := ct_columns db @ [columns\<lparr>ic_id := rn_fresh E serial\<rparr>]\<rparr>, g)))))"

definition create_ingredient_work ::
    "runtime \<Rightarrow> menu_text \<Rightarrow> string \<Rightarrow> ingredient_body \<Rightarrow> string option \<Rightarrow> catalog_db \<Rightarrow> (catalog_db \<times> catalog_response) app" where
  "create_ingredient_work E T store b key db =
     ebind (normalize_unit_app (rn_nfc E) (Some (nb_base_unit b))) (\<lambda>unit.
     let columns = \<lparr>ic_id = [], ic_sku = sku_of (nb_sku b), ic_active = nb_active b, ic_version = 1\<rparr> in
     ebind (add_ingredient E T store (nb_name b) unit (nb_tracking b) columns db) (\<lambda>(db1, g).
     ebind (flush_ingredients db1) (\<lambda>_.
     let response = ingredient_answer db1 g (columns\<lparr>ic_id := ig_id g\<rparr>) [] in
     Inr (audit_catalog store ''ingredient_created'' ''ingredient'' (ig_id g)
            (store_answer store (ingredients_path store) ''POST'' key
              (\<lambda>i. i\<lparr>ir_resource_type := Some ''ingredient'', ir_resource_id := Some (ig_id g), ir_status := Some 201, ir_body := Some response\<rparr>) db1),
          response))))"

definition create_ingredient ::
    "runtime \<Rightarrow> menu_text \<Rightarrow> catalog_db \<Rightarrow> string \<Rightarrow> ingredient_body \<Rightarrow> string option \<Rightarrow> (catalog_db \<times> catalog_response) app" where
  "create_ingredient E T db store b key =
     ebind (require_store (mn_stores (ct_menu db)) store) (\<lambda>_.
     with_idempotency (ct_idem db) (Some store) (ingredients_path store) ''POST'' key (canonical_hash (rn_hash E) (nb_dump b))
       (\<lambda>records. create_ingredient_work E T store b key (db\<lparr>ct_idem := records\<rparr>))
       (\<lambda>i. ebind (stored_response i) (\<lambda>response. Inr (db, response))))"

text \<open>The rows that lock the unit of an ingredient.\<close>

definition has_dependencies :: "catalog_db \<Rightarrow> string \<Rightarrow> bool" where
  "has_dependencies db ingredient \<longleftrightarrow>
     ingredient \<in> rl_ingredient ` set (mn_lines (ct_menu db)) \<or> ingredient \<in> tm_ingredient ` set (ct_terms db) \<or>
     ingredient \<in> il_ingredient ` set (ct_lots db) \<or> ingredient \<in> uw_ingredient ` set (mn_usage (ct_menu db)) \<or>
     ingredient \<in> rp_ingredient ` set (ct_receipts db)"

text \<open>A unit, an active flag or a tracking mode that is \<open>null\<close> violates its column when the row is flushed.\<close>

definition patched_unit :: "runtime \<Rightarrow> catalog_db \<Rightarrow> ingredient_patch \<Rightarrow> ingredient_row \<Rightarrow> string option app" where
  "patched_unit E db d g =
     (case ip_unit d of
        None \<Rightarrow> Inr (Some (ig_base_unit g))
      | Some v \<Rightarrow>
          ebind (normalize_unit_app (rn_nfc E) v) (\<lambda>unit.
          ebind (raise_if (unit \<noteq> Some (ig_base_unit g) \<and> has_dependencies db (ig_id g)) version_conflict) (\<lambda>_. Inr unit)))"

definition patched_names :: "menu_text \<Rightarrow> ingredient_patch \<Rightarrow> ingredient_row \<Rightarrow> ingredient_row app" where
  "patched_names T d g =
     (case ip_name d of
        None \<Rightarrow> Inr g
      | Some v \<Rightarrow> ebind (display_name T v) (\<lambda>name. ebind (name_key T v) (\<lambda>key. Inr (g\<lparr>ig_name := name, ig_normalized := key\<rparr>))))"

definition patched_ingredient ::
    "runtime \<Rightarrow> menu_text \<Rightarrow> catalog_db \<Rightarrow> ingredient_patch \<Rightarrow> ingredient_row \<Rightarrow> ingredient_columns \<Rightarrow> (ingredient_row \<times> ingredient_columns) app" where
  "patched_ingredient E T db d g c =
     ebind (patched_unit E db d g) (\<lambda>unit.
     ebind (patched_names T d g) (\<lambda>named.
     ebind (raise_if (unit = None \<or> ip_active d = Some None \<or> ip_tracking d = Some None) duplicate_resource) (\<lambda>_.
     let g' = named\<lparr>ig_base_unit := the unit\<rparr> in
     Inr (case ip_tracking d of Some (Some m) \<Rightarrow> g'\<lparr>ig_tracking := m, ig_declared := True\<rparr> | _ \<Rightarrow> g',
          c\<lparr>ic_sku := (case ip_sku d of None \<Rightarrow> ic_sku c | Some v \<Rightarrow> sku_of v),
            ic_active := (case ip_active d of Some (Some a) \<Rightarrow> a | _ \<Rightarrow> ic_active c),
            ic_version := ic_version c + 1\<rparr>))))"

definition set_ingredient :: "ingredient_row \<Rightarrow> ingredient_columns \<Rightarrow> catalog_db \<Rightarrow> catalog_db" where
  "set_ingredient g c db =
     db\<lparr>ct_menu := (ct_menu db)\<lparr>mn_ingredients := map (\<lambda>h. if ig_id h = ig_id g then g else h) (mn_ingredients (ct_menu db))\<rparr>,
        ct_columns := map (\<lambda>k. if ic_id k = ic_id c then c else k) (ct_columns db)\<rparr>"

definition patch_ingredient ::
    "runtime \<Rightarrow> menu_text \<Rightarrow> catalog_db \<Rightarrow> string \<Rightarrow> string \<Rightarrow> ingredient_patch \<Rightarrow> (catalog_db \<times> catalog_response) app" where
  "patch_ingredient E T db store ingredient d =
     ebind (require_store (mn_stores (ct_menu db)) store) (\<lambda>_.
     case (catalog_ingredient db store ingredient, columns_of db ingredient) of
       (Some g, Some c) \<Rightarrow>
         ebind (raise_if (ic_version c \<noteq> ip_version d) version_conflict) (\<lambda>_.
         ebind (patched_ingredient E T db d g c) (\<lambda>(g', c').
         let db1 = set_ingredient g' c' db in
         ebind (flush_ingredients db1) (\<lambda>_.
         Inr (audit_catalog store ''ingredient_updated'' ''ingredient'' ingredient db1,
              ingredient_answer db1 g' c' (aliases_of db store ingredient)))))
     | _ \<Rightarrow> Inl resource_not_found)"

section \<open>Aliases\<close>

record alias_item =
  ai_source :: string
  ai_canonical :: string
  ai_ingredient :: "string option"

record alias_body =
  ab_items :: "alias_item list"
  ab_dump :: pyval

definition aliased_ingredient :: "menu_text \<Rightarrow> catalog_db \<Rightarrow> string \<Rightarrow> alias_item \<Rightarrow> ingredient_row option app" where
  "aliased_ingredient T db store i =
     (case non_empty (ai_ingredient i) of
        Some k \<Rightarrow> Inr (catalog_ingredient db store k)
      | None \<Rightarrow> ingredient_by_name T db store (Some (ai_canonical i)))"

text \<open>One item: an alias that exists is moved to the ingredient, else a new one is stored.\<close>

definition put_alias ::
    "runtime \<Rightarrow> menu_text \<Rightarrow> string \<Rightarrow> catalog_db \<times> string list \<times> alias_row list \<times> string list \<Rightarrow> alias_item \<Rightarrow>
     (catalog_db \<times> string list \<times> alias_row list \<times> string list) app" where
  "put_alias E T store = (\<lambda>(db, seen, results, created) i.
     ebind (name_key T (Some (ai_source i))) (\<lambda>key.
     ebind (raise_if (key \<in> set seen) validation_error) (\<lambda>_.
     ebind (aliased_ingredient T db store i) (\<lambda>found.
     case found of
       None \<Rightarrow> Inl resource_not_found
     | Some g \<Rightarrow>
         ebind (name_key T (Some (ai_canonical i))) (\<lambda>canonical.
         ebind (raise_if (canonical \<noteq> ig_normalized g) validation_error) (\<lambda>_.
         case find (\<lambda>a. al_store a = store \<and> al_normalized a = key) (ct_aliases db) of
           Some a \<Rightarrow>
             let a' = a\<lparr>al_ingredient := ig_id g\<rparr> in
             Inr (db\<lparr>ct_aliases := map (\<lambda>b. if al_id b = al_id a then a' else b) (ct_aliases db)\<rparr>, key # seen, results @ [a'], created)
         | None \<Rightarrow>
             ebind (display_name T (Some (ai_source i))) (\<lambda>shown.
             let a = \<lparr>al_id = rn_fresh E (mn_serial (ct_menu db)), al_store = store, al_ingredient = ig_id g, al_alias = shown, al_normalized = key\<rparr> in
             Inr (db\<lparr>ct_aliases := ct_aliases db @ [a], ct_menu := (ct_menu db)\<lparr>mn_serial := Suc (mn_serial (ct_menu db))\<rparr>\<rparr>,
                  key # seen, results @ [a], created @ [al_id a]))))))))"

definition aliases_path :: "string \<Rightarrow> string" where
  "aliases_path store = ''/api/v1/stores/'' @ store @ ''/aliases''"

definition put_aliases_work ::
    "runtime \<Rightarrow> menu_text \<Rightarrow> string \<Rightarrow> alias_body \<Rightarrow> string option \<Rightarrow> catalog_db \<Rightarrow> (catalog_db \<times> catalog_response) app" where
  "put_aliases_work E T store b key db =
     ebind (efold (put_alias E T store) (db, [], [], []) (ab_items b)) (\<lambda>(db1, _, results, created).
     Inr (audit_catalog store ''ingredient_aliases_upserted'' ''ingredient_alias'' (case created of [a] \<Rightarrow> a | _ \<Rightarrow> store)
            (store_answer store (aliases_path store) ''PUT'' key
              (\<lambda>i. i\<lparr>ir_resource_type := Some ''ingredient_aliases'', ir_resource_id := non_empty (Some (join_comma created)), ir_status := Some 200,
                     ir_body := Some (AliasAnswer results)\<rparr>) db1),
          AliasAnswer results))"

text \<open>The body is sorted by its normalised names before it is hashed, so a name that is empty fails first.\<close>

definition put_aliases ::
    "runtime \<Rightarrow> menu_text \<Rightarrow> catalog_db \<Rightarrow> string \<Rightarrow> alias_body \<Rightarrow> string option \<Rightarrow> (catalog_db \<times> catalog_response) app" where
  "put_aliases E T db store b key =
     ebind (emap (\<lambda>i. ebind (name_key T (Some (ai_source i))) (\<lambda>_. name_key T (Some (ai_canonical i)))) (ab_items b)) (\<lambda>_.
     ebind (require_store (mn_stores (ct_menu db)) store) (\<lambda>_.
     with_idempotency (ct_idem db) (Some store) (aliases_path store) ''PUT'' key (canonical_hash (rn_hash E) (ab_dump b))
       (\<lambda>records. put_aliases_work E T store b key (db\<lparr>ct_idem := records\<rparr>))
       (\<lambda>i. ebind (stored_response i) (\<lambda>response. Inr (db, response)))))"

section \<open>Imported sheets\<close>

text \<open>The ingredient of a row: by name, then by alias, else a new one in the unit of the row. The declaration of an
  expiry mode is left out.\<close>

definition sheet_ingredient ::
    "runtime \<Rightarrow> menu_text \<Rightarrow> string \<Rightarrow> string \<Rightarrow> string option \<Rightarrow> catalog_db \<Rightarrow> (catalog_db \<times> ingredient_row) app" where
  "sheet_ingredient E T store name unit db =
     ebind (ingredient_by_name T db store (Some name)) (\<lambda>named.
     ebind (case named of Some g \<Rightarrow> Inr (Some g) | None \<Rightarrow> resolve_alias T db store (Some name)) (\<lambda>found.
     case found of
       Some g \<Rightarrow>
         ebind (case non_empty unit of None \<Rightarrow> Inr () | Some u \<Rightarrow> validate_compatible (rn_nfc E) (Some u) (Some (ig_base_unit g))) (\<lambda>_. Inr (db, g))
     | None \<Rightarrow>
         ebind (raise_if (non_empty unit = None) validation_error) (\<lambda>_.
         ebind (normalize_unit_app (rn_nfc E) unit) (\<lambda>u.
         ebind (raise_if (non_empty u = None) validation_error) (\<lambda>_.
         ebind (add_ingredient E T store name u None \<lparr>ic_id = [], ic_sku = None, ic_active = True, ic_version = 1\<rparr> db) (\<lambda>(db1, g).
         ebind (flush_ingredients db1) (\<lambda>_. Inr (db1, g))))))))"

text \<open>The lines of a recipe of a sheet, each in the unit of its ingredient.\<close>

definition sheet_line ::
    "runtime \<Rightarrow> menu_text \<Rightarrow> string \<Rightarrow> catalog_db \<times> (string \<times> dec \<times> string) list \<Rightarrow> string \<times> dec \<times> string \<Rightarrow>
     (catalog_db \<times> (string \<times> dec \<times> string) list) app" where
  "sheet_line E T store = (\<lambda>(db, lines) (name, q, unit).
     ebind (sheet_ingredient E T store name (Some unit) db) (\<lambda>(db1, g).
     ebind (convert_quantity (rn_nfc E) q (Some unit) (Some (ig_base_unit g))) (\<lambda>q'.
     Inr (db1, lines @ [(ig_id g, q', ig_base_unit g)]))))"

definition import_recipe ::
    "runtime \<Rightarrow> menu_text \<Rightarrow> (dec \<Rightarrow> string) \<Rightarrow> string \<Rightarrow> version_request \<Rightarrow> catalog_db \<Rightarrow> catalog_db app" where
  "import_recipe E T dtext store r db =
     ebind (efold (sheet_line E T store) (db, []) (wr_lines r)) (\<lambda>(db1, lines).
     ebind (create_version E dtext store (r\<lparr>wr_lines := lines, wr_source := ''import''\<rparr>) (ct_menu db1)) (\<lambda>(menu, _).
     Inr (db1\<lparr>ct_menu := menu\<rparr>)))"

text \<open>A row of a usage sheet, stored in the unit of its ingredient.\<close>

definition import_usage_row ::
    "runtime \<Rightarrow> menu_text \<Rightarrow> string \<Rightarrow> date \<Rightarrow> string \<Rightarrow> dec \<Rightarrow> string option \<Rightarrow> catalog_db \<Rightarrow> catalog_db app" where
  "import_usage_row E T store day name q unit db =
     ebind (sheet_ingredient E T store name unit db) (\<lambda>(db1, g).
     ebind (convert_quantity (rn_nfc E) q unit (Some (ig_base_unit g))) (\<lambda>q'.
     Inr (db1\<lparr>ct_menu := import_usage E store day (ig_id g) (ig_base_unit g) q' (ct_menu db1)\<rparr>)))"

end
