(* ===== verification/Catalog_Facts.thy ===== *)
theory Catalog_Facts
  imports Catalog Usage_Facts
begin

text \<open>
  One unit per ingredient: whatever requests and sheets build the database, recipes and usage are stored in the base unit of
  their ingredient, which cannot change once there are such rows.
\<close>

section \<open>Base units\<close>

definition in_base :: "menu_db \<Rightarrow> string \<Rightarrow> string \<Rightarrow> bool" where
  "in_base db ingredient unit \<longleftrightarrow> (\<exists>g \<in> set (mn_ingredients db). ig_id g = ingredient \<and> ig_base_unit g = unit)"

definition canonical_unit :: "runtime \<Rightarrow> string \<Rightarrow> bool" where
  "canonical_unit E u \<longleftrightarrow> normalize_unit_app (rn_nfc E) (Some u) = Inr (Some u)"

definition units_ok :: "runtime \<Rightarrow> menu_db \<Rightarrow> bool" where
  "units_ok E db \<longleftrightarrow> distinct (map ig_id (mn_ingredients db)) \<and>
     (\<forall>g \<in> set (mn_ingredients db). recipe_drawn E db (ig_id g) \<and> canonical_unit E (ig_base_unit g)) \<and>
     (\<forall>l \<in> set (mn_lines db). in_base db (rl_ingredient l) (rl_unit l)) \<and>
     (\<forall>u \<in> set (mn_usage db). in_base db (uw_ingredient u) (uw_unit u)) \<and> usage_ok E db"

text \<open>The text of the runtime leaves the five units as they are.\<close>

definition keeps_units :: "runtime \<Rightarrow> bool" where
  "keeps_units E \<longleftrightarrow> (\<forall>u \<in> {''kg'', ''g'', LITER, ''ml'', PIECE}. rn_nfc E u = u)"

lemma normalized_canonical:
  assumes "normalize_unit_app (rn_nfc E) v = Inr (Some u)" "keeps_units E"
  shows "canonical_unit E u"
proof -
  obtain k where "dict_get app_aliases k = Some u"
    using assms(1) by (auto simp: normalize_unit_app_def Let_def split: if_splits option.splits)
  then have "(k, u) \<in> set app_aliases" by (rule map_of_SomeD)
  moreover have "snd ` set app_aliases \<subseteq> {''kg'', ''g'', LITER, ''ml'', PIECE}" by code_simp
  ultimately have u: "u \<in> {''kg'', ''g'', LITER, ''ml'', PIECE}" by force
  then have "rn_nfc E u = u" using assms(2) by (auto simp: keeps_units_def)
  moreover have "\<forall>u \<in> {''kg'', ''g'', LITER, ''ml'', PIECE}. dict_get app_aliases u = Some u \<and> u \<noteq> ''none''" by code_simp
  ultimately show ?thesis using u by (auto simp: canonical_unit_def normalize_unit_app_def Let_def)
qed

lemma in_base_unique:
  assumes "units_ok E db" "in_base db i u" "in_base db i v"
  shows "u = v"
  using assms unfolding units_ok_def in_base_def by (metis distinct_map inj_onD)

lemma units_one: "units_ok E db \<Longrightarrow> one_unit db"
  unfolding one_unit_def using in_base_unique by (metis units_ok_def)

lemma usage_frame:
  assumes "usage_ok E db" "mn_usage db' = mn_usage db" "mn_serial db \<le> mn_serial db'"
  shows "usage_ok E db'"
  using assms recipe_drawn_later unfolding usage_ok_def usage_drawn_def by metis

text \<open>A step that keeps the ingredients, and whose lines and usage are in base units.\<close>

lemma units_step:
  assumes "units_ok E db" "mn_ingredients db' = mn_ingredients db" "mn_serial db \<le> mn_serial db'" "usage_ok E db'"
    and "\<And>l. l \<in> set (mn_lines db') \<Longrightarrow> in_base db (rl_ingredient l) (rl_unit l)"
    and "\<And>u. u \<in> set (mn_usage db') \<Longrightarrow> in_base db (uw_ingredient u) (uw_unit u)"
  shows "units_ok E db'"
proof -
  have b: "in_base db' i u \<longleftrightarrow> in_base db i u" for i u by (simp add: in_base_def assms(2))
  show ?thesis
    using assms(1,4) recipe_drawn_later [OF _ assms(3)] assms(5,6) unfolding units_ok_def assms(2) b by blast
qed

lemma units_frame:
  assumes "units_ok E db" "mn_ingredients db' = mn_ingredients db" "mn_serial db \<le> mn_serial db'" "mn_lines db' = mn_lines db"
    "mn_usage db' = mn_usage db"
  shows "units_ok E db'"
  by (rule units_step [OF assms(1-3) usage_frame]) (use assms in \<open>auto simp: units_ok_def\<close>)

section \<open>Ingredients\<close>

lemma add_ingredientD:
  assumes "add_ingredient E T store name unit tracking columns db = Inr (db', g)"
  shows "mn_ingredients (ct_menu db') = mn_ingredients (ct_menu db) @ [g]" "ig_id g = rn_fresh E (mn_serial (ct_menu db))" "ig_store g = store"
    "mn_serial (ct_menu db') = Suc (mn_serial (ct_menu db))" "mn_lines (ct_menu db') = mn_lines (ct_menu db)"
    "mn_usage (ct_menu db') = mn_usage (ct_menu db)" "\<exists>v. normalize_unit_app (rn_nfc E) v = Inr (Some (ig_base_unit g))"
proof -
  obtain shown key u where n: "normalize_unit_app (rn_nfc E) unit = Inr (Some u)"
    and e: "db' = db\<lparr>ct_menu := (ct_menu db)\<lparr>mn_ingredients := mn_ingredients (ct_menu db) @ [g], mn_serial := Suc (mn_serial (ct_menu db))\<rparr>,
        ct_columns := ct_columns db @ [columns\<lparr>ic_id := rn_fresh E (mn_serial (ct_menu db))\<rparr>]\<rparr>"
    and g: "g = \<lparr>ig_id = rn_fresh E (mn_serial (ct_menu db)), ig_store = store, ig_name = shown, ig_normalized = key, ig_base_unit = u,
        ig_tracking = (case tracking of None \<Rightarrow> TrackUnknown | Some m \<Rightarrow> m), ig_declared = (tracking \<noteq> None)\<rparr>"
    using assms unfolding add_ingredient_def Let_def by (elim ebind_InrE) (auto split: option.splits)
  show "\<exists>v. normalize_unit_app (rn_nfc E) v = Inr (Some (ig_base_unit g))" using n by (auto simp: g)
  show "mn_ingredients (ct_menu db') = mn_ingredients (ct_menu db) @ [g]" "ig_id g = rn_fresh E (mn_serial (ct_menu db))" "ig_store g = store"
    "mn_serial (ct_menu db') = Suc (mn_serial (ct_menu db))" "mn_lines (ct_menu db') = mn_lines (ct_menu db)"
    "mn_usage (ct_menu db') = mn_usage (ct_menu db)" unfolding e by (simp_all add: g)
qed

lemma in_base_append: "in_base db i u \<Longrightarrow> mn_ingredients db' = mn_ingredients db @ [g] \<Longrightarrow> in_base db' i u"
  by (auto simp: in_base_def)

lemma add_ingredient_units:
  assumes "add_ingredient E T store name unit tracking columns db = Inr (db', g)" "units_ok E (ct_menu db)" "inj (rn_fresh E)" "keeps_units E"
  shows "units_ok E (ct_menu db')" "g \<in> set (mn_ingredients (ct_menu db'))"
proof -
  note a = add_ingredientD [OF assms(1)]
  let ?m = "ct_menu db" and ?m' = "ct_menu db'"
  have s: "mn_serial ?m \<le> mn_serial ?m'" by (simp add: a)
  have fresh: "ig_id g \<notin> ig_id ` set (mn_ingredients ?m)"
  proof
    assume "ig_id g \<in> ig_id ` set (mn_ingredients ?m)"
    then have "recipe_drawn E ?m (ig_id g)" using assms(2) by (auto simp: units_ok_def)
    then obtain n where "n < mn_serial ?m" "rn_fresh E (mn_serial ?m) = rn_fresh E n" by (auto simp: recipe_drawn_def a)
    then show False using injD [OF assms(3)] by fastforce
  qed
  have "canonical_unit E (ig_base_unit g)" using a(7) normalized_canonical [OF _ assms(4)] by blast
  moreover have "recipe_drawn E ?m' (ig_id g)" unfolding recipe_drawn_def a by blast
  ultimately have "recipe_drawn E ?m' (ig_id h) \<and> canonical_unit E (ig_base_unit h)" if "h \<in> set (mn_ingredients ?m')" for h
    using that assms(2) recipe_drawn_later [OF _ s] by (auto simp: a(1) units_ok_def)
  moreover have "usage_ok E ?m'" by (rule usage_frame [OF _ a(6) s]) (use assms(2) in \<open>simp add: units_ok_def\<close>)
  moreover have "distinct (map ig_id (mn_ingredients ?m'))" using assms(2) fresh by (simp add: a(1) units_ok_def)
  ultimately show "units_ok E ?m'"
    using assms(2) in_base_append [OF _ a(1)] unfolding units_ok_def a(5,6) by blast
  show "g \<in> set (mn_ingredients ?m')" by (simp add: a(1))
qed

lemma set_ingredient_units:
  assumes "units_ok E (ct_menu db)" "g \<in> set (mn_ingredients (ct_menu db))" "ig_id g' = ig_id g" "canonical_unit E (ig_base_unit g')"
    and "ig_base_unit g' = ig_base_unit g \<or> \<not> has_dependencies db (ig_id g)"
  shows "units_ok E (ct_menu (set_ingredient g' c db))"
proof -
  let ?m = "ct_menu db" and ?m' = "ct_menu (set_ingredient g' c db)"
  have m': "mn_ingredients ?m' = map (\<lambda>h. if ig_id h = ig_id g' then g' else h) (mn_ingredients ?m)" "mn_lines ?m' = mn_lines ?m"
    "mn_usage ?m' = mn_usage ?m" "mn_serial ?m' = mn_serial ?m" by (simp_all add: set_ingredient_def)
  have ids: "map ig_id (mn_ingredients ?m') = map ig_id (mn_ingredients ?m)" by (simp add: m'(1))
  have same: "h = g" if "h \<in> set (mn_ingredients ?m)" "ig_id h = ig_id g" for h
    using assms(1,2) that by (auto simp: units_ok_def distinct_map dest: inj_onD)
  have base: "in_base ?m' i u" if i: "in_base ?m i u" and d: "i \<noteq> ig_id g \<or> ig_base_unit g' = ig_base_unit g" for i u
  proof -
    obtain h where h: "h \<in> set (mn_ingredients ?m)" "ig_id h = i" "ig_base_unit h = u" using i by (auto simp: in_base_def)
    let ?h = "if ig_id h = ig_id g' then g' else h"
    have "?h \<in> set (mn_ingredients ?m')" using h(1) by (auto simp: m'(1))
    moreover have "ig_id ?h = i \<and> ig_base_unit ?h = u" using h d same [OF h(1)] assms(3) by auto
    ultimately show ?thesis unfolding in_base_def by blast
  qed
  have dep: "i \<noteq> ig_id g \<or> ig_base_unit g' = ig_base_unit g" if "i \<in> rl_ingredient ` set (mn_lines ?m) \<or> i \<in> uw_ingredient ` set (mn_usage ?m)" for i
    using that assms(5) by (auto simp: has_dependencies_def)
  have "recipe_drawn E ?m' (ig_id h) \<and> canonical_unit E (ig_base_unit h)" if "h \<in> set (mn_ingredients ?m')" for h
    using that assms(1-4) by (auto simp: m' units_ok_def recipe_drawn_def)
  moreover have "usage_ok E ?m'" by (rule usage_frame [of E ?m]) (use assms(1) in \<open>simp_all add: units_ok_def m'\<close>)
  moreover have "in_base ?m' (rl_ingredient l) (rl_unit l)" if "l \<in> set (mn_lines ?m)" for l
    by (rule base) (use that assms(1) dep [of "rl_ingredient l"] in \<open>auto simp: units_ok_def\<close>)
  moreover have "in_base ?m' (uw_ingredient u) (uw_unit u)" if "u \<in> set (mn_usage ?m)" for u
    by (rule base) (use that assms(1) dep [of "uw_ingredient u"] in \<open>auto simp: units_ok_def\<close>)
  ultimately show ?thesis using assms(1) unfolding units_ok_def m'(2,3) ids by blast
qed

lemma patched_ingredientD:
  assumes "patched_ingredient E T db d g c = Inr (g', c')"
  shows "ig_id g' = ig_id g"
    "ig_base_unit g' = ig_base_unit g \<or> \<not> has_dependencies db (ig_id g) \<and> (\<exists>v. normalize_unit_app (rn_nfc E) v = Inr (Some (ig_base_unit g')))"
proof -
  obtain unit named where u: "patched_unit E db d g = Inr unit" "unit \<noteq> None" and n: "patched_names T d g = Inr named"
    and e: "(case ip_tracking d of Some (Some m) \<Rightarrow> named\<lparr>ig_base_unit := the unit, ig_tracking := m, ig_declared := True\<rparr>
        | _ \<Rightarrow> named\<lparr>ig_base_unit := the unit\<rparr>) = g'"
    using assms unfolding patched_ingredient_def Let_def by (elim ebind_InrE, unfold raise_if_Inr_iff sum.inject prod.inject, blast)
  have g': "ig_id g' = ig_id named" "ig_base_unit g' = the unit" unfolding e [symmetric] by (simp_all split: option.splits)
  have "ig_id named = ig_id g" using n by (auto simp: patched_names_def result_simps split: option.splits)
  then show "ig_id g' = ig_id g" using g' by simp
  show "ig_base_unit g' = ig_base_unit g \<or> \<not> has_dependencies db (ig_id g) \<and> (\<exists>v. normalize_unit_app (rn_nfc E) v = Inr (Some (ig_base_unit g')))"
    using u g'(2) by (auto simp: patched_unit_def result_simps split: option.splits)
qed

section \<open>Recipes\<close>

lemma add_recipe_lines_in:
  "l \<in> set (mn_lines (foldl (add_recipe_line E i) db lines)) \<Longrightarrow>
   l \<in> set (mn_lines db) \<or> (rl_ingredient l, rl_quantity l, rl_unit l) \<in> set lines"
proof (induction lines arbitrary: db)
  case Nil
  then show ?case by simp
next
  case (Cons x lines)
  from Cons.IH [OF Cons.prems [unfolded foldl.simps]] show ?case by (cases x) (auto simp: add_recipe_line_def)
qed

lemma append_recipe_usage:
  assumes "(db', v) = append_recipe E store r h lines db"
  shows "mn_usage db' = mn_usage db" "mn_serial db \<le> mn_serial db'" "mn_ingredients db' = mn_ingredients db"
    "l \<in> set (mn_lines db') \<Longrightarrow> l \<in> set (mn_lines db) \<or> (rl_ingredient l, rl_quantity l, rl_unit l) \<in> set lines"
proof -
  have k: "mn_usage (foldl (add_recipe_line E i) x ls) = mn_usage x" "mn_serial (foldl (add_recipe_line E i) x ls) = mn_serial x + length ls" for i x ls
    by (induction ls arbitrary: x) (auto simp: add_recipe_line_def)
  show "mn_usage db' = mn_usage db" "mn_serial db \<le> mn_serial db'" using assms by (simp_all add: append_recipe_def Let_def k)
  show "mn_ingredients db' = mn_ingredients db" using append_recipe_catalog [OF assms] by simp
  show "l \<in> set (mn_lines db) \<or> (rl_ingredient l, rl_quantity l, rl_unit l) \<in> set lines" if "l \<in> set (mn_lines db')"
  proof -
    obtain i x where "db' = foldl (add_recipe_line E i) x lines" "mn_lines x = mn_lines db" using assms by (auto simp: append_recipe_def Let_def)
    with add_recipe_lines_in [of l E i x lines] that show ?thesis by simp
  qed
qed

lemma create_version_units:
  assumes "create_version E dtext store r db = Inr (db', v)" "units_ok E db"
    "\<And>i q u. (i, q, u) \<in> set (wr_lines r) \<Longrightarrow> in_base db i u"
  shows "units_ok E db'"
  using assms(1)
proof (rule create_versionD)
  fix h lines
  assume lines: "emap (stored_line E) (wr_lines r) = Inr lines" and a: "(db', v) = append_recipe E store r h lines db"
  note e = append_recipe_usage [OF a]
  have new: "in_base db i u" if m: "(i, q, u) \<in> set lines" for i q u
  proof -
    obtain x where x: "x \<in> set (wr_lines r)" "stored_line E x = Inr (i, q, u)" using emap_in_set [OF lines m] by blast
    obtain w where w: "x = (i, q, w)" "normalize_unit_app (rn_nfc E) (Some w) = Inr (Some u)"
      using x(2) by (cases x) (auto simp: stored_line_def result_simps split: option.splits)
    have b: "in_base db i w" using assms(3) x(1) w(1) by simp
    then have "canonical_unit E w" using assms(2) by (auto simp: in_base_def units_ok_def)
    then show ?thesis using b w(2) by (simp add: canonical_unit_def)
  qed
  show ?thesis
  proof (rule units_step [OF assms(2) e(3,2)])
    show "usage_ok E db'" by (rule usage_frame [OF _ e(1,2)]) (use assms(2) in \<open>simp add: units_ok_def\<close>)
    show "in_base db (rl_ingredient l) (rl_unit l)" if l: "l \<in> set (mn_lines db')" for l
      using e(4) [OF l] new assms(2) by (auto simp: units_ok_def)
    show "in_base db (uw_ingredient u) (uw_unit u)" if u: "u \<in> set (mn_usage db')" for u
      using u assms(2) by (simp add: e(1) units_ok_def)
  qed
qed (use assms(2) in simp)

lemma store_ingredient_base: "store_ingredient db store i = Some g \<Longrightarrow> in_base db i (ig_base_unit g)"
  by (auto simp: store_ingredient_def in_base_def find_Some_iff dest: nth_mem)

lemma put_recipe_units:
  assumes "put_recipe E dtext db store product body key = Inr (db', response)" "units_ok E db"
  shows "units_ok E db'"
proof -
  from assms(1) have "(\<exists>i. ebind (stored_response i) (\<lambda>response. Inr (db, response)) = Inr (db', response)) \<or>
      (\<exists>records. put_work E dtext store product body key (db\<lparr>mn_idem := records\<rparr>) = Inr (db', response))"
    unfolding put_recipe_def by (elim ebind_InrE) (rule with_idempotencyD)
  then show ?thesis
  proof
    assume "\<exists>records. put_work E dtext store product body key (db\<lparr>mn_idem := records\<rparr>) = Inr (db', response)"
    then obtain records where w: "put_work E dtext store product body key (db\<lparr>mn_idem := records\<rparr>) = Inr (db', response)" by blast
    define db0 where "db0 = db\<lparr>mn_idem := records\<rparr>"
    have ok: "units_ok E db0" by (rule units_frame [OF assms(2)]) (simp_all add: db0_def)
    obtain lines where l: "emap (converted_line E db0 store) (rb_lines body) = Inr lines"
      using w unfolding put_work_def Let_def db0_def by (elim ebind_InrE) blast
    note w = w [unfolded put_work_def Let_def db0_def [symmetric] l ebind_simps]
    obtain r db1 v where c: "create_version E dtext store r db0 = Inr (db1, v)" "wr_lines r = lines"
      and d: "mn_ingredients db' = mn_ingredients db1" "mn_serial db1 = mn_serial db'" "mn_lines db' = mn_lines db1" "mn_usage db' = mn_usage db1"
      using w by (elim ebind_InrE) (fastforce simp: result_simps)
    have base: "in_base db0 i u" if m: "(i, q, u) \<in> set (wr_lines r)" for i q u
    proof -
      obtain x where x: "converted_line E db0 store x = Inr (i, q, u)" using emap_in_set [OF l] m c(2) by blast
      then show ?thesis using store_ingredient_base by (cases x) (auto simp: converted_line_def result_simps split: option.splits)
    qed
    have "units_ok E db1" by (rule create_version_units [OF c(1) ok]) (rule base)
    then show ?thesis by (rule units_frame) (simp_all add: d)
  qed (use assms(2) in \<open>auto simp: result_simps\<close>)
qed

section \<open>Usage\<close>

lemma reconcile_day_units:
  assumes "reconcile_day E store day db = Inr (db', ws)" "units_ok E db" "inj (rn_fresh E)"
  shows "units_ok E db'"
proof -
  have uo: "usage_ok E db" using assms(2) by (simp add: units_ok_def)
  note un = one_unit_uniform [OF units_one [OF assms(2)], of store day]
  note r = reconciled_rows [OF assms(1) uo assms(3) un]
  let ?ts = "fold add_usage (day_usage db store day) []"
  have keys: "fst ` set ?ts = fst ` set (day_usage db store day)" using totals_keys [of "day_usage db store day" "[]"] by simp
  have total: "in_base db i u" if m: "((i, u), q) \<in> set ?ts" for i u q
  proof -
    have "(i, u) \<in> fst ` set (day_usage db store day)" unfolding keys [symmetric] by (rule image_eqI [OF _ m]) simp
    then obtain p where p: "p \<in> set (day_usage db store day)" "fst p = (i, u)" by (metis imageE)
    from day_usage_line [OF p(1)] show ?thesis using p(2) assms(2) by (auto simp: units_ok_def)
  qed
  have row: "in_base db (uw_ingredient u) (uw_unit u)" if u: "u \<in> set (mn_usage db')" for u
  proof (cases "u \<in> set (new_rows E store day (index_by uw_ingredient (day_rows db store day)) (mn_serial db) ?ts)")
    case True
    then show ?thesis using new_rows_mem total by blast
  next
    case False
    then obtain w where w: "w \<in> set (mn_usage db)" "u = rebuilt_row db store day w" using u by (auto simp: r(1))
    have b: "in_base db (uw_ingredient w) (uw_unit w)" using w(1) assms(2) by (simp add: units_ok_def)
    have "in_base db (uw_ingredient (total_of ?ts w)) (uw_unit (total_of ?ts w))"
    proof (cases "find (\<lambda>t. fst (fst t) = uw_ingredient w) ?ts")
      case None
      then show ?thesis using b by (simp add: total_of_def)
    next
      case (Some t)
      note t = find_mem [OF this]
      obtain un q where tt: "t = ((uw_ingredient w, un), q)" using t by (cases t) auto
      show ?thesis using total [of "uw_ingredient w" un q] t Some by (simp add: total_of_def tt)
    qed
    then show ?thesis using b w(2) by (simp add: rebuilt_row_def Let_def)
  qed
  have i: "mn_ingredients db' = mn_ingredients db"
  proof -
    have "mn_ingredients (foldl (apply_total E store day x) d ts) = mn_ingredients d" for x d ts
      by (induction ts arbitrary: d) (auto simp: apply_total_def split: option.splits)
    then show ?thesis using assms(1) by (auto simp: reconcile_day_def Let_def result_simps)
  qed
  have s: "same_recipes db db'" by (rule reconcile_day_recipes [OF assms(1)])
  show ?thesis
    by (rule units_step [OF assms(2) i _ r(2) _ row]) (use s assms(2) in \<open>auto simp: same_recipes_def units_ok_def\<close>)
qed

lemma add_sale_units:
  assumes "add_sale E store source (db, records) r = Inr (db', records')" "units_ok E db"
  shows "units_ok E db'"
proof -
  have "mn_ingredients db' = mn_ingredients db" "mn_serial db \<le> mn_serial db'" "mn_lines db' = mn_lines db" "mn_usage db' = mn_usage db"
    using assms(1) by (auto simp: add_sale_def result_simps Let_def split: option.splits)
  then show ?thesis by (rule units_frame [OF assms(2)])
qed

lemma sales_batch_units:
  assumes "sales_batch E db store body key = Inr (db', response)" "units_ok E db" "inj (rn_fresh E)"
  shows "units_ok E db'"
proof -
  from assms(1) have "(\<exists>i. ebind (stored_response i) (\<lambda>response. Inr (db, response)) = Inr (db', response)) \<or>
      (\<exists>records. sales_work E store body key (db\<lparr>mn_idem := records\<rparr>) = Inr (db', response))"
    unfolding sales_batch_def by (elim ebind_InrE) (rule with_idempotencyD)
  then show ?thesis
  proof
    assume "\<exists>records. sales_work E store body key (db\<lparr>mn_idem := records\<rparr>) = Inr (db', response)"
    then obtain idem where w: "sales_work E store body key (db\<lparr>mn_idem := idem\<rparr>) = Inr (db', response)" by blast
    define db0 where "db0 = db\<lparr>mn_idem := idem\<rparr>"
    have ok0: "units_ok E db0" by (rule units_frame [OF assms(2)]) (simp_all add: db0_def)
    obtain db1 records where f: "efold (add_sale E store (sb_source body)) (db0, []) (sb_records body) = Inr (db1, records)"
      using w unfolding sales_work_def db0_def by (elim ebind_InrE) auto
    note w = w [unfolded sales_work_def db0_def [symmetric] f ebind_simps prod.case]
    obtain db2 ws where r: "reconcile_usage_from_sales E store (map sr_date (sb_records body)) db1 = Inr (db2, ws)"
      using w by (elim ebind_InrE) auto
    have d: "mn_ingredients db' = mn_ingredients db2" "mn_serial db2 \<le> mn_serial db'" "mn_lines db' = mn_lines db2" "mn_usage db' = mn_usage db2"
      using w by (auto simp: r Let_def)
    have "units_ok E (fst (db1, records))"
      by (rule efold_invariant [OF f, of "\<lambda>s. units_ok E (fst s)"])
        (use ok0 add_sale_units in fastforce)+
    then have "units_ok E (fst (db2, ws))"
      by (intro efold_invariant [OF r [unfolded reconcile_usage_from_sales_def], of "\<lambda>s. units_ok E (fst s)"])
        (auto simp: result_simps dest: reconcile_day_units [OF _ _ assms(3)])
    then have "units_ok E db2" by simp
    then show ?thesis by (rule units_frame) (simp_all add: d)
  qed (use assms(2) in \<open>auto simp: result_simps\<close>)
qed

lemma import_usage_units:
  assumes "units_ok E db" "inj (rn_fresh E)" "in_base db i u"
  shows "units_ok E (import_usage E store day i u q db)"
proof (cases "find (\<lambda>w. uw_store w = store \<and> uw_date w = day \<and> uw_ingredient w = i) (mn_usage db)")
  case None
  let ?w = "\<lparr>uw_id = rn_fresh E (mn_serial db), uw_store = store, uw_date = day, uw_ingredient = i, uw_quantity = q, uw_unit = u,
      uw_source = ''import''\<rparr>" and ?db = "import_usage E store day i u q db"
  have d: "mn_usage ?db = mn_usage db @ [?w]" "mn_serial ?db = Suc (mn_serial db)" "mn_ingredients ?db = mn_ingredients db" "mn_lines ?db = mn_lines db"
    by (simp_all add: import_usage_def None)
  have uo: "usage_ok E db" using assms(1) by (simp add: units_ok_def)
  have fresh: "rn_fresh E (mn_serial db) \<notin> uw_id ` set (mn_usage db)"
  proof
    assume "rn_fresh E (mn_serial db) \<in> uw_id ` set (mn_usage db)"
    then obtain n where "n < mn_serial db" "rn_fresh E (mn_serial db) = rn_fresh E n"
      using uo by (auto simp: usage_ok_def usage_drawn_def recipe_drawn_def)
    then show False using injD [OF assms(2)] by fastforce
  qed
  have key: "(store, day, i) \<notin> usage_key ` set (mn_usage db)" using None by (auto simp: find_None_iff usage_key_def)
  have "recipe_drawn E ?db (uw_id w)" if w: "w \<in> set (mn_usage ?db)" for w
  proof (cases "w = ?w")
    case True
    then show ?thesis by (auto simp: recipe_drawn_def d(2))
  next
    case False
    then have "recipe_drawn E db (uw_id w)" using w uo by (auto simp: d(1) usage_ok_def usage_drawn_def)
    then show ?thesis by (rule recipe_drawn_later) (simp add: d(2))
  qed
  moreover have "distinct (map uw_id (mn_usage ?db))" "distinct (map usage_key (mn_usage ?db))"
    using uo fresh key by (simp_all add: d(1) usage_ok_def usage_drawn_def usage_key_def)
  ultimately have uo': "usage_ok E ?db" by (simp add: usage_ok_def usage_drawn_def)
  show ?thesis
  proof (rule units_step [OF assms(1) d(3) _ uo'])
    show "in_base db (uw_ingredient w) (uw_unit w)" if "w \<in> set (mn_usage ?db)" for w
      using that assms(1,3) by (auto simp: d(1) units_ok_def)
  qed (use assms(1) d in \<open>auto simp: units_ok_def\<close>)
next
  case (Some r)
  let ?f = "\<lambda>w. if uw_id w = uw_id r then w\<lparr>uw_quantity := q, uw_unit := u\<rparr> else w" and ?db = "import_usage E store day i u q db"
  have d: "mn_usage ?db = map ?f (mn_usage db)" "mn_serial ?db = mn_serial db" "mn_ingredients ?db = mn_ingredients db" "mn_lines ?db = mn_lines db"
    by (simp_all add: import_usage_def Some)
  have uo: "usage_ok E db" using assms(1) by (simp add: units_ok_def)
  have r: "r \<in> set (mn_usage db)" "uw_ingredient r = i" using find_mem [OF Some] by simp_all
  have k: "map uw_id (map ?f ws) = map uw_id ws" "map usage_key (map ?f ws) = map usage_key ws" for ws by (simp_all add: usage_key_def)
  have i: "uw_id ` set (mn_usage ?db) = uw_id ` set (mn_usage db)" using arg_cong [OF k(1) [of "mn_usage db"], of set] unfolding d(1) by (simp only: set_map)
  have "recipe_drawn E ?db s" if "s \<in> uw_id ` set (mn_usage ?db)" for s
    using that uo unfolding i by (auto simp: usage_ok_def usage_drawn_def recipe_drawn_def d(2))
  then have uo': "usage_ok E ?db" using uo unfolding usage_ok_def usage_drawn_def d(1) k by blast
  show ?thesis
  proof (rule units_step [OF assms(1) d(3) _ uo'])
    fix w assume "w \<in> set (mn_usage ?db)"
    then obtain x where x: "x \<in> set (mn_usage db)" "w = ?f x" by (auto simp: d(1))
    have "x = r" if "uw_id x = uw_id r" using uo x(1) r(1) that by (auto simp: usage_ok_def usage_drawn_def distinct_map dest: inj_onD)
    then show "in_base db (uw_ingredient w) (uw_unit w)" using x assms(1,3) r(2) by (auto simp: units_ok_def)
  qed (use assms(1) d in \<open>auto simp: units_ok_def\<close>)
qed

section \<open>The databases requests and sheets can build\<close>

lemma create_ingredient_units:
  assumes "create_ingredient E T db store b key = Inr (db', response)" "units_ok E (ct_menu db)" "inj (rn_fresh E)" "keeps_units E"
  shows "units_ok E (ct_menu db')"
proof -
  from assms(1) have "(\<exists>i. ebind (stored_response i) (\<lambda>response. Inr (db, response)) = Inr (db', response)) \<or>
      (\<exists>records. create_ingredient_work E T store b key (db\<lparr>ct_idem := records\<rparr>) = Inr (db', response))"
    unfolding create_ingredient_def by (elim ebind_InrE) (rule with_idempotencyD)
  then show ?thesis
  proof
    assume "\<exists>records. create_ingredient_work E T store b key (db\<lparr>ct_idem := records\<rparr>) = Inr (db', response)"
    then obtain records where w: "create_ingredient_work E T store b key (db\<lparr>ct_idem := records\<rparr>) = Inr (db', response)" by blast
    define db0 where "db0 = db\<lparr>ct_idem := records\<rparr>"
    have ok: "units_ok E (ct_menu db0)" using assms(2) by (simp add: db0_def)
    obtain unit columns db1 g where a: "add_ingredient E T store (nb_name b) unit (nb_tracking b) columns db0 = Inr (db1, g)"
      and d: "ct_menu db' = (ct_menu db1)\<lparr>mn_audit := mn_audit (ct_menu db')\<rparr>"
      using w unfolding create_ingredient_work_def Let_def db0_def by (elim ebind_InrE) (fastforce simp: result_simps audit_catalog_def store_answer_def)
    show ?thesis
      by (subst d, rule units_frame [OF add_ingredient_units(1) [OF a ok assms(3,4)]]) simp_all
  qed (use assms(2) in \<open>auto simp: result_simps\<close>)
qed

lemma patch_ingredient_units:
  assumes "patch_ingredient E T db store ingredient d = Inr (db', response)" "units_ok E (ct_menu db)" "keeps_units E"
  shows "units_ok E (ct_menu db')"
proof -
  obtain g c where gc: "catalog_ingredient db store ingredient = Some g" "columns_of db ingredient = Some c"
    using assms(1) unfolding patch_ingredient_def by (elim ebind_InrE) (auto split: option.splits)
  note w = assms(1) [unfolded patch_ingredient_def gc prod.case option.case]
  obtain g' c' where p: "patched_ingredient E T db d g c = Inr (g', c')"
    using w by (elim ebind_InrE) fastforce
  note k = patched_ingredientD [OF p]
  have m: "ct_menu db' = (ct_menu (set_ingredient g' c' db))\<lparr>mn_audit := mn_audit (ct_menu db')\<rparr>"
    using w unfolding p ebind_simps prod.case Let_def by (elim ebind_InrE) (auto simp: audit_catalog_def)
  have g: "g \<in> set (mn_ingredients (ct_menu db))"
    using gc(1) by (auto simp: catalog_ingredient_def store_ingredient_def find_Some_iff dest: nth_mem)
  have u: "canonical_unit E (ig_base_unit g')"
    using k(2) normalized_canonical [OF _ assms(3)] g assms(2) by (auto simp: units_ok_def)
  have "ig_base_unit g' = ig_base_unit g \<or> \<not> has_dependencies db (ig_id g)" using k(2) by blast
  then have "units_ok E (ct_menu (set_ingredient g' c' db))" by (rule set_ingredient_units [OF assms(2) g k(1) u])
  then show ?thesis by (subst m) (rule units_frame, simp_all)
qed

lemma put_alias_units:
  assumes "put_alias E T store s i = Inr s'" "units_ok E (ct_menu (fst s))"
  shows "units_ok E (ct_menu (fst s'))"
proof -
  obtain db seen results created where s: "s = (db, seen, results, created)" by (cases s) auto
  obtain key where key: "name_key T (Some (ai_source i)) = Inr key"
    using assms(1) unfolding s put_alias_def prod.case by (elim ebind_InrE)
  obtain found where f: "aliased_ingredient T db store i = Inr found"
    using assms(1) unfolding s put_alias_def prod.case by (elim ebind_InrE)
  note w = assms(1) [unfolded s put_alias_def prod.case key f ebind_simps]
  obtain g where g: "found = Some g" using w by (elim ebind_InrE) (auto split: option.splits)
  note w = w [unfolded g option.case]
  have "mn_ingredients (ct_menu (fst s')) = mn_ingredients (ct_menu db) \<and> mn_serial (ct_menu db) \<le> mn_serial (ct_menu (fst s')) \<and>
    mn_lines (ct_menu (fst s')) = mn_lines (ct_menu db) \<and> mn_usage (ct_menu (fst s')) = mn_usage (ct_menu db)"
  proof (cases "find (\<lambda>a. al_store a = store \<and> al_normalized a = key) (ct_aliases db)")
    case None
    show ?thesis using w unfolding None option.case Let_def by (elim ebind_InrE) auto
  next
    case (Some a)
    show ?thesis using w unfolding Some option.case Let_def by (elim ebind_InrE) auto
  qed
  then show ?thesis using units_frame assms(2) by (simp add: s)
qed

lemma put_aliases_units:
  assumes "put_aliases E T db store b key = Inr (db', response)" "units_ok E (ct_menu db)"
  shows "units_ok E (ct_menu db')"
proof -
  from assms(1) have "(\<exists>i. ebind (stored_response i) (\<lambda>response. Inr (db, response)) = Inr (db', response)) \<or>
      (\<exists>records. put_aliases_work E T store b key (db\<lparr>ct_idem := records\<rparr>) = Inr (db', response))"
    unfolding put_aliases_def by (elim ebind_InrE) (rule with_idempotencyD)
  then show ?thesis
  proof
    assume "\<exists>records. put_aliases_work E T store b key (db\<lparr>ct_idem := records\<rparr>) = Inr (db', response)"
    then obtain records s where f: "efold (put_alias E T store) (db\<lparr>ct_idem := records\<rparr>, [], [], []) (ab_items b) = Inr s"
      and d: "ct_menu db' = (ct_menu (fst s))\<lparr>mn_audit := mn_audit (ct_menu db')\<rparr>"
      unfolding put_aliases_work_def by (elim exE ebind_InrE) (fastforce simp: audit_catalog_def store_answer_def)
    have "units_ok E (ct_menu (fst s))"
      by (rule efold_invariant [OF f, of "\<lambda>s. units_ok E (ct_menu (fst s))"]) (use assms(2) put_alias_units in auto)
    then show ?thesis by (subst d) (erule units_frame, simp_all)
  qed (use assms(2) in \<open>auto simp: result_simps\<close>)
qed

lemma sheet_ingredient_units:
  assumes "sheet_ingredient E T store name unit db = Inr (db', g)" "units_ok E (ct_menu db)" "inj (rn_fresh E)" "keeps_units E"
  shows "units_ok E (ct_menu db')" "g \<in> set (mn_ingredients (ct_menu db'))"
    "\<And>i u. in_base (ct_menu db) i u \<Longrightarrow> in_base (ct_menu db') i u"
proof -
  obtain named found where n: "ingredient_by_name T db store (Some name) = Inr named"
    "(case named of Some g \<Rightarrow> Inr (Some g) | None \<Rightarrow> resolve_alias T db store (Some name)) = Inr found"
    using assms(1) unfolding sheet_ingredient_def by (elim ebind_InrE)
  note w = assms(1) [unfolded sheet_ingredient_def n ebind_simps]
  have "units_ok E (ct_menu db') \<and> g \<in> set (mn_ingredients (ct_menu db')) \<and> (\<forall>i u. in_base (ct_menu db) i u \<longrightarrow> in_base (ct_menu db') i u)"
  proof (cases found)
    case None
    obtain u columns where a: "add_ingredient E T store name u None columns db = Inr (db', g)"
      using w unfolding None option.case by (elim ebind_InrE) (fastforce simp: result_simps)
    show ?thesis using add_ingredient_units [OF a assms(2-4)] in_base_append [OF _ add_ingredientD(1) [OF a]] by blast
  next
    case (Some h)
    then have "db' = db" "g = h" using w by (auto simp: result_simps)
    moreover have "h \<in> set (mn_ingredients (ct_menu db))"
      using n Some by (auto simp: ingredient_by_name_def resolve_alias_def result_simps find_Some_iff split: option.splits dest: nth_mem)
    ultimately show ?thesis using assms(2) by simp
  qed
  then show "units_ok E (ct_menu db')" "g \<in> set (mn_ingredients (ct_menu db'))"
    "\<And>i u. in_base (ct_menu db) i u \<Longrightarrow> in_base (ct_menu db') i u" by blast+
qed

lemma base_of: "g \<in> set (mn_ingredients db) \<Longrightarrow> in_base db (ig_id g) (ig_base_unit g)"
  by (auto simp: in_base_def)

lemma import_recipe_units:
  assumes "import_recipe E T dtext store r db = Inr db'" "units_ok E (ct_menu db)" "inj (rn_fresh E)" "keeps_units E"
  shows "units_ok E (ct_menu db')"
proof -
  obtain db1 lines where f: "efold (sheet_line E T store) (db, []) (wr_lines r) = Inr (db1, lines)"
    using assms(1) unfolding import_recipe_def by (elim ebind_InrE) fastforce
  obtain menu v where c: "create_version E dtext store (r\<lparr>wr_lines := lines, wr_source := ''import''\<rparr>) (ct_menu db1) = Inr (menu, v)"
    and d: "db' = db1\<lparr>ct_menu := menu\<rparr>"
    using assms(1) unfolding import_recipe_def f ebind_simps prod.case by (elim ebind_InrE) fastforce
  let ?P = "\<lambda>(db, lines). units_ok E (ct_menu db) \<and> (\<forall>(i, q, u) \<in> set lines. in_base (ct_menu db) i u)"
  have "?P (db1, lines)"
  proof (rule efold_invariant [OF f, of ?P])
    show "?P (db, [])" using assms(2) by simp
    fix s x s' assume P: "?P s" and e: "sheet_line E T store s x = Inr s'"
    obtain d ls where s: "s = (d, ls)" by (cases s)
    obtain name q unit where x: "x = (name, q, unit)" by (cases x) auto
    obtain d1 g where g: "sheet_ingredient E T store name (Some unit) d = Inr (d1, g)"
      using e unfolding s x sheet_line_def prod.case by (elim ebind_InrE) fastforce
    obtain q' where s': "s' = (d1, ls @ [(ig_id g, q', ig_base_unit g)])"
      using e unfolding s x sheet_line_def prod.case g ebind_simps by (elim ebind_InrE) fastforce
    have ok: "units_ok E (ct_menu d)" using P s by simp
    note k = sheet_ingredient_units [OF g ok assms(3,4)]
    show "?P s'" using P k base_of [OF k(2)] by (auto simp: s s')
  qed
  then have "units_ok E (ct_menu db1)" "\<And>i q u. (i, q, u) \<in> set lines \<Longrightarrow> in_base (ct_menu db1) i u" by auto
  from create_version_units [OF c this(1)] this(2) show ?thesis by (simp add: d)
qed

lemma import_usage_row_units:
  assumes "import_usage_row E T store day name q unit db = Inr db'" "units_ok E (ct_menu db)" "inj (rn_fresh E)" "keeps_units E"
  shows "units_ok E (ct_menu db')"
proof -
  obtain db1 g where g: "sheet_ingredient E T store name unit db = Inr (db1, g)"
    using assms(1) unfolding import_usage_row_def by (elim ebind_InrE) fastforce
  obtain q' where d: "db' = db1\<lparr>ct_menu := import_usage E store day (ig_id g) (ig_base_unit g) q' (ct_menu db1)\<rparr>"
    using assms(1) unfolding import_usage_row_def g ebind_simps prod.case by (elim ebind_InrE) fastforce
  note k = sheet_ingredient_units [OF g assms(2-4)]
  show ?thesis using import_usage_units [OF k(1) assms(3) base_of [OF k(2)]] by (simp add: d)
qed

inductive catalog_history :: "runtime \<Rightarrow> menu_text \<Rightarrow> catalog_db \<Rightarrow> bool" for E T where
  catalog_start: "mn_ingredients (ct_menu db) = [] \<Longrightarrow> mn_lines (ct_menu db) = [] \<Longrightarrow> mn_usage (ct_menu db) = [] \<Longrightarrow> catalog_history E T db"
| catalog_created: "catalog_history E T db \<Longrightarrow> create_ingredient E T db store b key = Inr (db', response) \<Longrightarrow> catalog_history E T db'"
| catalog_patched: "catalog_history E T db \<Longrightarrow> patch_ingredient E T db store ingredient d = Inr (db', response) \<Longrightarrow> catalog_history E T db'"
| catalog_aliases: "catalog_history E T db \<Longrightarrow> put_aliases E T db store ab key = Inr (db', response) \<Longrightarrow> catalog_history E T db'"
| catalog_recipe: "catalog_history E T db \<Longrightarrow> put_recipe E dtext (ct_menu db) store product body key = Inr (menu, answer) \<Longrightarrow>
    catalog_history E T (db\<lparr>ct_menu := menu\<rparr>)"
| catalog_sheet: "catalog_history E T db \<Longrightarrow> import_recipe E T dtext store r db = Inr db' \<Longrightarrow> catalog_history E T db'"
| catalog_sales: "catalog_history E T db \<Longrightarrow> sales_batch E (ct_menu db) store sales key = Inr (menu, answer) \<Longrightarrow>
    catalog_history E T (db\<lparr>ct_menu := menu\<rparr>)"
| catalog_usage: "catalog_history E T db \<Longrightarrow> import_usage_row E T store day name q unit db = Inr db' \<Longrightarrow> catalog_history E T db'"
| catalog_other: "catalog_history E T db \<Longrightarrow> mn_ingredients (ct_menu db') = mn_ingredients (ct_menu db) \<Longrightarrow>
    mn_lines (ct_menu db') = mn_lines (ct_menu db) \<Longrightarrow> mn_usage (ct_menu db') = mn_usage (ct_menu db) \<Longrightarrow>
    mn_serial (ct_menu db) \<le> mn_serial (ct_menu db') \<Longrightarrow> catalog_history E T db'"

lemma catalog_history_units:
  assumes "catalog_history E T db" "inj (rn_fresh E)" "keeps_units E"
  shows "units_ok E (ct_menu db)"
  using assms(1)
proof (induction rule: catalog_history.induct)
  case (catalog_start db)
  then show ?case by (simp add: units_ok_def usage_ok_def usage_drawn_def)
next
  case (catalog_created db store b key db' response)
  then show ?case using create_ingredient_units assms(2,3) by blast
next
  case (catalog_patched db store ingredient d db' response)
  then show ?case using patch_ingredient_units assms(3) by blast
next
  case (catalog_aliases db store ab key db' response)
  then show ?case using put_aliases_units by blast
next
  case (catalog_recipe db dtext store product body key menu answer)
  then have "units_ok E menu" using put_recipe_units by blast
  then show ?case by simp
next
  case (catalog_sheet db dtext store r db')
  then show ?case using import_recipe_units assms(2,3) by blast
next
  case (catalog_sales db store sales key menu answer)
  have "units_ok E menu" by (rule sales_batch_units [OF catalog_sales.hyps(2) catalog_sales.IH assms(2)])
  then show ?case by simp
next
  case (catalog_usage db store day name q unit db')
  then show ?case using import_usage_row_units assms(2,3) by blast
next
  case (catalog_other db db')
  show ?case by (rule units_frame [OF catalog_other.IH]) (use catalog_other.hyps in simp_all)
qed

text \<open>C16: an ingredient has one unit. Whatever requests and sheets build the database, every recipe line and every usage row,
  derived or imported, is in the base unit its ingredient has now; usage rows are unique per day and ingredient.\<close>

theorem one_unit_per_ingredient:
  assumes "catalog_history E T db" "inj (rn_fresh E)" "keeps_units E"
  shows "(\<forall>l \<in> set (mn_lines (ct_menu db)). \<exists>g \<in> set (mn_ingredients (ct_menu db)). ig_id g = rl_ingredient l \<and> ig_base_unit g = rl_unit l) \<and>
    (\<forall>u \<in> set (mn_usage (ct_menu db)). \<exists>g \<in> set (mn_ingredients (ct_menu db)). ig_id g = uw_ingredient u \<and> ig_base_unit g = uw_unit u) \<and>
    one_unit (ct_menu db) \<and> usage_ok E (ct_menu db)"
  using catalog_history_units [OF assms] units_one [OF catalog_history_units [OF assms]] by (simp add: units_ok_def in_base_def)

text \<open>C17: rebuilding the usage of any days always succeeds. In every database that requests and sheets can build no rebuild
  violates the unique key of the usage table.\<close>

theorem usage_rebuild_returns:
  assumes "catalog_history E T db" "inj (rn_fresh E)" "keeps_units E"
  shows "\<exists>menu warnings. reconcile_usage_from_sales E store dates (ct_menu db) = Inr (menu, warnings)"
proof -
  let ?f = "\<lambda>(db, warnings) day. ebind (reconcile_day E store day db) (\<lambda>(db', ws). Inr (db', warnings @ ws))"
  have "\<exists>s'. efold ?f (d, w) days = Inr s'" if "units_ok E d" for d w and days :: "date list"
    using that
  proof (induction days arbitrary: d w)
    case Nil
    then show ?case by simp
  next
    case (Cons day days)
    have "usage_ok E d" using Cons.prems by (simp add: units_ok_def)
    then obtain d' ws where r: "reconcile_day E store day d = Inr (d', ws)"
      using reconcile_day_returns [OF _ assms(2) one_unit_uniform [OF units_one [OF Cons.prems]]] by blast
    from Cons.IH [OF reconcile_day_units [OF r Cons.prems assms(2)]] show ?case by (simp add: r)
  qed
  from this [OF catalog_history_units [OF assms]] show ?thesis unfolding reconcile_usage_from_sales_def by fast
qed

end
