(* ===== verification/Catalog_Witness.thy ===== *)
theory Catalog_Witness
  imports Catalog_Facts Op_Witness
begin

text \<open>
  The theorems on the catalog at a store whose first ingredient comes from a usage sheet.
\<close>

definition plain_names :: menu_text where
  "plain_names = \<lparr>mt_display = (\<lambda>s. s), mt_casefold = (\<lambda>s. s), mt_upper = (\<lambda>s. s), mt_fold = (\<lambda>s. s), mt_term = (\<lambda>s. s),
     mt_lower = (\<lambda>s. s), mt_like = (=)\<rparr>"

definition sheet_runtime :: runtime where
  "sheet_runtime = shop_runtime\<lparr>rn_nfc := (\<lambda>s. s)\<rparr>"

definition empty_catalog :: catalog_db where
  "empty_catalog = \<lparr>ct_menu = \<lparr>mn_stores = [''shop''], mn_products = [], mn_bundles = [], mn_ingredients = [], mn_versions = [], mn_lines = [],
       mn_sales = [], mn_usage = [], mn_idem = [], mn_audit = [], mn_serial = 0\<rparr>,
     ct_columns = [], ct_aliases = [], ct_terms = [], ct_lots = [], ct_receipts = [], ct_idem = []\<rparr>"

definition leaf :: ingredient_row where
  "leaf = \<lparr>ig_id = ''i'', ig_store = ''shop'', ig_name = ''leaf'', ig_normalized = ''leaf'', ig_base_unit = ''g'',
     ig_tracking = TrackUnknown, ig_declared = False\<rparr>"

definition leaf_used :: usage_row where
  "leaf_used = \<lparr>uw_id = ''ix'', uw_store = ''shop'', uw_date = 150, uw_ingredient = ''i'', uw_quantity = 9, uw_unit = ''g'', uw_source = ''import''\<rparr>"

definition leaf_catalog :: catalog_db where
  "leaf_catalog = empty_catalog\<lparr>ct_menu := (ct_menu empty_catalog)\<lparr>mn_ingredients := [leaf], mn_usage := [leaf_used], mn_serial := 2\<rparr>,
     ct_columns := [\<lparr>ic_id = ''i'', ic_sku = None, ic_active = True, ic_version = 1\<rparr>]\<rparr>"

lemma sheet_inj: "inj (rn_fresh sheet_runtime)"
  using shop_inj by (simp add: sheet_runtime_def)

lemma sheet_keeps_units: "keeps_units sheet_runtime"
  by (simp add: keeps_units_def sheet_runtime_def)

lemma grams_kept: "convert_quantity (rn_nfc sheet_runtime) 9 (Some ''g'') (Some ''g'') = Inr 9"
  by code_simp

lemma gram_unit: "normalize_unit_app (rn_nfc sheet_runtime) (Some ''g'') = Inr (Some ''g'')"
  by code_simp

lemma leaf_imported: "import_usage_row sheet_runtime plain_names ''shop'' 150 ''leaf'' 9 (Some ''g'') empty_catalog = Inr leaf_catalog"
proof -
  have "sheet_ingredient sheet_runtime plain_names ''shop'' ''leaf'' (Some ''g'') empty_catalog =
      Inr (leaf_catalog\<lparr>ct_menu := (ct_menu empty_catalog)\<lparr>mn_ingredients := [leaf], mn_serial := 1\<rparr>\<rparr>, leaf)"
    by (simp add: sheet_ingredient_def ingredient_by_name_def resolve_alias_def name_key_def display_name_def plain_names_def empty_catalog_def
      non_empty_def add_ingredient_def gram_unit require_store_def flush_ingredients_def leaf_catalog_def leaf_def Let_def ingredient_sku_def columns_of_def)
      (simp add: sheet_runtime_def shop_runtime_def)
  then show ?thesis
    by (simp add: import_usage_row_def grams_kept leaf_def import_usage_def leaf_catalog_def empty_catalog_def leaf_used_def)
      (simp add: sheet_runtime_def shop_runtime_def)
qed

lemma leaf_history: "catalog_history sheet_runtime plain_names leaf_catalog"
proof -
  have "catalog_history sheet_runtime plain_names empty_catalog" by (rule catalog_history.catalog_start) (simp_all add: empty_catalog_def)
  then show ?thesis using leaf_imported by (rule catalog_history.catalog_usage)
qed

theorem one_unit_per_ingredient_witness:
  "catalog_history sheet_runtime plain_names leaf_catalog \<and> mn_usage (ct_menu leaf_catalog) = [leaf_used] \<and> one_unit (ct_menu leaf_catalog)"
  using one_unit_per_ingredient [OF leaf_history sheet_inj sheet_keeps_units] leaf_history by (simp add: leaf_catalog_def)

theorem usage_rebuild_returns_witness:
  "catalog_history sheet_runtime plain_names leaf_catalog \<and>
   (\<exists>menu warnings. reconcile_usage_from_sales sheet_runtime ''shop'' [150, 151] (ct_menu leaf_catalog) = Inr (menu, warnings))"
  using usage_rebuild_returns [OF leaf_history sheet_inj sheet_keeps_units] leaf_history by blast

end
