(* ===== verification/Supplier_Terms.thy ===== *)
theory Supplier_Terms
  imports Op_History
begin

text \<open>
  The terms of suppliers and the calendar of a store: \<open>_supplier_write\<close> and \<open>_calendar_write\<close> of
  \<open>services/completion_service.py\<close>, the rows of a sheet of supplier terms (\<open>services/business_persistence.py\<close>) and the
  packaging units of \<open>core/packaging_units.py\<close>. A pair of a supplier and an ingredient has versions, of which at most one
  should be active. The packaging unit of a term is only written, so a row leaves it out; the hash of the sheet row a term
  comes from is kept beside the rows, by the id of the term.
\<close>

section \<open>The tables\<close>

record supplier_row =
  su_id :: string
  su_store :: string
  su_name :: string

record calendar_row =
  cf_id :: string
  cf_store :: string
  cf_date :: date
  cf_weekend :: bool
  cf_holiday :: bool
  cf_closed :: bool
  cf_promotion :: bool
  cf_note :: "string option"

record term_answer =
  ta_term :: term_row
  ta_supplier :: string

record supply_db =
  sy_op :: op_db
  sy_suppliers :: "supplier_row list"
  sy_calendar :: "calendar_row list"
  sy_hashes :: "(string, string) dict"
  sy_idem :: "term_answer idem_record list"

section \<open>Supplier terms\<close>

record term_body =
  tb_ingredient :: string
  tb_supplier :: string
  tb_unit_cost :: int
  tb_moq :: dec
  tb_pack :: dec
  tb_lead :: int
  tb_shelf :: "int option"
  tb_unit :: string
  tb_version :: "int option"
  tb_dump :: pyval

definition term_versions :: "supply_db \<Rightarrow> string \<Rightarrow> string \<Rightarrow> string \<Rightarrow> term_row list" where
  "term_versions db store supplier ingredient =
     sort_key tm_version (filter (\<lambda>t. tm_store t = store \<and> tm_supplier t = supplier \<and> tm_ingredient t = ingredient) (od_terms (sy_op db)))"

definition find_term :: "supply_db \<Rightarrow> string \<Rightarrow> string \<Rightarrow> term_row option" where
  "find_term db store target = find (\<lambda>t. tm_store t = store \<and> tm_id t = target) (od_terms (sy_op db))"

text \<open>The term that is replaced: of an update the target, which must be active and in the requested version; a creation
  fails if the pair has an active term.\<close>

definition replaced_term :: "supply_db \<Rightarrow> string \<Rightarrow> term_body \<Rightarrow> string option \<Rightarrow> term_row option app" where
  "replaced_term db store b target =
     (case target of
        Some k \<Rightarrow>
          (case find_term db store k of
             None \<Rightarrow> Inl resource_not_found
           | Some t \<Rightarrow>
               ebind (raise_if (\<not> tm_active t) version_conflict) (\<lambda>_.
               ebind (raise_if (tb_version b \<noteq> Some (tm_version t)) version_conflict) (\<lambda>_. Inr (Some t))))
      | None \<Rightarrow>
          ebind (raise_if (find tm_active (term_versions db store (tb_supplier b) (tb_ingredient b)) \<noteq> None) duplicate_request) (\<lambda>_. Inr None))"

definition same_term :: "term_body \<Rightarrow> dec \<Rightarrow> dec \<Rightarrow> term_row \<Rightarrow> bool" where
  "same_term b moq pack t \<longleftrightarrow> tm_moq t = moq \<and> tm_pack t = pack \<and> tm_unit_cost t = tb_unit_cost b \<and> tm_lead t = tb_lead b \<and> tm_shelf t = tb_shelf b"

definition next_version :: "term_row list \<Rightarrow> int" where
  "next_version versions = (if versions = [] then 0 else Max (set (map tm_version versions))) + 1"

definition new_term :: "runtime \<Rightarrow> supply_db \<Rightarrow> string \<Rightarrow> term_body \<Rightarrow> dec \<Rightarrow> dec \<Rightarrow> string \<Rightarrow> term_row" where
  "new_term E db store b moq pack unit =
     \<lparr>tm_id = rn_fresh E (od_serial (sy_op db)), tm_store = store, tm_supplier = tb_supplier b, tm_ingredient = tb_ingredient b,
      tm_unit_cost = tb_unit_cost b, tm_moq = moq, tm_pack = pack, tm_delivery_days = None, tm_lead = tb_lead b, tm_shelf = tb_shelf b,
      tm_unit = unit, tm_version = next_version (term_versions db store (tb_supplier b) (tb_ingredient b)), tm_active = True\<rparr>"

text \<open>The rows after a write: the replaced term is no longer active and the new one is added.\<close>

definition put_term :: "term_row option \<Rightarrow> term_row \<Rightarrow> supply_db \<Rightarrow> supply_db" where
  "put_term current t db =
     db\<lparr>sy_op := (sy_op db)\<lparr>od_terms :=
            map (\<lambda>r. if current \<noteq> None \<and> tm_id r = tm_id (the current) then r\<lparr>tm_active := False\<rparr> else r) (od_terms (sy_op db)) @ [t],
          od_serial := Suc (od_serial (sy_op db))\<rparr>\<rparr>"

definition flush_terms :: "supply_db \<Rightarrow> unit app" where
  "flush_terms db =
     raise_if (\<not> distinct (map (\<lambda>t. (tm_supplier t, tm_ingredient t, tm_version t)) (od_terms (sy_op db)))) IntegrityFailure"

definition term_path :: "string \<Rightarrow> string option \<Rightarrow> string" where
  "term_path store target = ''/api/v1/stores/'' @ store @ ''/supplier-constraints'' @ (case target of None \<Rightarrow> [] | Some t \<Rightarrow> CHR ''/'' # t)"

definition term_method :: "string option \<Rightarrow> string" where
  "term_method target = (if target = None then ''POST'' else ''PUT'')"

definition finish_term ::
    "runtime \<Rightarrow> string \<Rightarrow> string option \<Rightarrow> string option \<Rightarrow> term_row \<Rightarrow> string \<Rightarrow> supply_db \<Rightarrow> supply_db \<times> term_answer" where
  "finish_term E store target key t name db =
     (let answer = \<lparr>ta_term = t, ta_supplier = name\<rparr>; op = recompute_store E store (sy_op db) in
      (db\<lparr>sy_op := op\<lparr>od_audit := od_audit op @ [\<lparr>au_store = store,
             au_action = (if target = None then ''supplier_create'' else ''supplier_update''), au_type = ''supplier_constraint'', au_resource = tm_id t\<rparr>]\<rparr>,
          sy_idem := (case non_empty key of
            None \<Rightarrow> sy_idem db
          | Some k \<Rightarrow> idem_update (sy_idem db) (Some store) (term_path store target) (term_method target) k
              (\<lambda>i. i\<lparr>ir_resource_type := Some ''supplier_constraint'', ir_resource_id := Some (tm_id t),
                     ir_status := Some (if target = None then 201 else 200), ir_body := Some answer\<rparr>))\<rparr>, answer))"

definition term_work ::
    "runtime \<Rightarrow> string \<Rightarrow> term_body \<Rightarrow> string option \<Rightarrow> string option \<Rightarrow> supply_db \<Rightarrow> (supply_db \<times> term_answer) app" where
  "term_work E store b target key db =
     (case (find (\<lambda>g. ig_store g = store \<and> ig_id g = tb_ingredient b) (od_ingredients (sy_op db)),
            find (\<lambda>s. su_store s = store \<and> su_id s = tb_supplier b) (sy_suppliers db)) of
        (Some g, Some s) \<Rightarrow>
          ebind (convert_quantity (rn_nfc E) (tb_moq b) (Some (tb_unit b)) (Some (ig_base_unit g))) (\<lambda>moq.
          ebind (convert_quantity (rn_nfc E) (tb_pack b) (Some (tb_unit b)) (Some (ig_base_unit g))) (\<lambda>pack.
          ebind (replaced_term db store b target) (\<lambda>current.
          if (case current of None \<Rightarrow> False | Some t \<Rightarrow> same_term b moq pack t)
          then Inr (finish_term E store target key (the current) (su_name s) db)
          else
            let t = new_term E db store b moq pack (ig_base_unit g); db1 = put_term current t db in
            ebind (flush_terms db1) (\<lambda>_. Inr (finish_term E store target key t (su_name s) db1)))))
      | _ \<Rightarrow> Inl resource_not_found)"

definition term_write ::
    "runtime \<Rightarrow> supply_db \<Rightarrow> string \<Rightarrow> term_body \<Rightarrow> string option \<Rightarrow> string option \<Rightarrow> (supply_db \<times> term_answer) app" where
  "term_write E db store b target key =
     ebind (require_store (od_stores (sy_op db)) store) (\<lambda>_.
     with_idempotency (sy_idem db) (Some store) (term_path store target) (term_method target) key (canonical_hash (rn_hash E) (tb_dump b))
       (\<lambda>records. term_work E store b target key (db\<lparr>sy_idem := records\<rparr>))
       (\<lambda>i. ebind (stored_response i) (\<lambda>answer. Inr (db, answer))))"

section \<open>Sheets of supplier terms\<close>

subsection \<open>Packaging units\<close>

definition packaging_aliases :: "(string, string) dict" where
  "packaging_aliases =
     [([CHR ''t'', CHR ''h'', CHR 0xC3, CHR 0xB9, CHR ''n'', CHR ''g''], ''case''), (''case'', ''case''), (''carton'', ''case''),
      (''bao'', ''bag''), (''bag'', ''bag''), (''sack'', ''bag''),
      ([CHR ''g'', CHR 0xC3, CHR 0xB3, CHR ''i''], ''pack''), (''pack'', ''pack''), (''packet'', ''pack''),
      ([CHR ''h'', CHR 0xE1, CHR 0xBB, CHR 0x99, CHR ''p''], ''box''), (''box'', ''box''),
      ([CHR ''k'', CHR 0xC3, CHR 0xA9, CHR ''t''], ''crate''), (''crate'', ''crate''),
      ([CHR ''b'', CHR 0xC3, CHR 0xB3], ''bundle''), (''bundle'', ''bundle'')]"

definition packaging_unit_key :: "text_fun \<Rightarrow> string option \<Rightarrow> string app" where
  "packaging_unit_key nfc unit =
     (case unit of
        None \<Rightarrow> Inl validation_error
      | Some u \<Rightarrow> ebind (raise_if (nfc u = []) validation_error) (\<lambda>_. Inr (nfc u)))"

definition normalize_packaging_unit :: "text_fun \<Rightarrow> string option \<Rightarrow> string app" where
  "normalize_packaging_unit nfc unit = ebind (packaging_unit_key nfc unit) (\<lambda>key. Inr (dict_get_or packaging_aliases key key))"

definition is_known_packaging_unit :: "text_fun \<Rightarrow> string option \<Rightarrow> bool" where
  "is_known_packaging_unit nfc unit = (case packaging_unit_key nfc unit of Inl _ \<Rightarrow> False | Inr key \<Rightarrow> dict_get packaging_aliases key \<noteq> None)"

subsection \<open>Delivery days\<close>

definition day_aliases :: "(string, int) dict" where
  "day_aliases =
     [(''mon'', 0), (''monday'', 0), (''thu 2'', 0), (''thu hai'', 0), (''t2'', 0), (''tue'', 1), (''tuesday'', 1), (''thu 3'', 1),
      (''thu ba'', 1), (''t3'', 1), (''wed'', 2), (''wednesday'', 2), (''thu 4'', 2), (''thu tu'', 2), (''t4'', 2), (''thu'', 3),
      (''thursday'', 3), (''thu 5'', 3), (''thu nam'', 3), (''t5'', 3), (''fri'', 4), (''friday'', 4), (''thu 6'', 4), (''thu sau'', 4),
      (''t6'', 4), (''sat'', 5), (''saturday'', 5), (''thu 7'', 5), (''thu bay'', 5), (''t7'', 5), (''sun'', 6), (''sunday'', 6),
      (''chu nhat'', 6), (''cn'', 6)]"

text \<open>A cell holds a text, which is split at commas and semicolons, or a list, whose items are given as texts.
  Digits are those of ASCII.\<close>

datatype day_cell = DayText string | DayItems "string list"

fun split_at :: "char \<Rightarrow> string \<Rightarrow> string list" where
  "split_at c [] = [[]]"
| "split_at c (x # xs) = (if x = c then [] # split_at c xs else (case split_at c xs of [] \<Rightarrow> [[x]] | w # ws \<Rightarrow> (x # w) # ws))"

definition day_items :: "day_cell option \<Rightarrow> string list option" where
  "day_items cell =
     (case cell of
        None \<Rightarrow> None
      | Some (DayText s) \<Rightarrow> if str_strip s = [] then None else Some (split_at CHR '','' (str_replace_char CHR '';'' CHR '','' s))
      | Some (DayItems xs) \<Rightarrow> Some xs)"

definition digit_day :: "string \<Rightarrow> int option" where
  "digit_day key =
     (if key \<noteq> [] \<and> list_all (\<lambda>c. CHR ''0'' \<le> c \<and> c \<le> CHR ''9'') key \<and> read_digits key \<le> 6 then Some (int (read_digits key)) else None)"

definition add_delivery_day :: "text_fun \<Rightarrow> int list \<Rightarrow> string \<Rightarrow> int list app" where
  "add_delivery_day lookup days item =
     (let key = lookup item in
      case (case digit_day key of Some d \<Rightarrow> Some d | None \<Rightarrow> dict_get day_aliases key) of
        None \<Rightarrow> Inl validation_error
      | Some d \<Rightarrow> Inr (if d \<in> set days then days else days @ [d]))"

definition normalize_delivery_days :: "text_fun \<Rightarrow> day_cell option \<Rightarrow> int list option app" where
  "normalize_delivery_days lookup cell =
     (case day_items cell of
        None \<Rightarrow> Inr None
      | Some items \<Rightarrow> ebind (efold (add_delivery_day lookup) [] items) (\<lambda>days. Inr (Some (sort days))))"

subsection \<open>Rows\<close>

text \<open>A row of the sheet. A number is given as the decimal its text stands for, \<open>None\<close> if there is none.\<close>

record term_sheet =
  ts_unit :: "string option"
  ts_order_unit :: "string option"
  ts_minimum :: "dec option"
  ts_package :: "dec option"
  ts_cost :: "dec option"
  ts_lead :: "dec option"
  ts_shelf :: "dec option option"
  ts_days :: "day_cell option"

definition sheet_decimal :: "dec option \<Rightarrow> dec app" where
  "sheet_decimal n = (case n of None \<Rightarrow> Inl validation_error | Some x \<Rightarrow> ebind (raise_if (x < 0) validation_error) (\<lambda>_. Inr x))"

definition sheet_positive :: "dec option \<Rightarrow> dec app" where
  "sheet_positive n = ebind (sheet_decimal n) (\<lambda>x. ebind (raise_if (x \<le> 0) validation_error) (\<lambda>_. Inr x))"

definition sheet_unit :: "text_fun \<Rightarrow> string option \<Rightarrow> string app" where
  "sheet_unit nfc unit = ebind (normalize_unit_app nfc unit) (\<lambda>u. case u of None \<Rightarrow> Inl validation_error | Some u \<Rightarrow> Inr u)"

definition sheet_shelf_life :: "dec option option \<Rightarrow> int option app" where
  "sheet_shelf_life cell =
     (case cell of
        Some None \<Rightarrow> Inr None
      | None \<Rightarrow> Inl validation_error
      | Some n \<Rightarrow> ebind (sheet_decimal n) (\<lambda>x. ebind (raise_if (x \<noteq> of_int (dec_int x)) validation_error) (\<lambda>_. Inr (Some (dec_int x)))))"

definition term_content ::
    "(dec \<Rightarrow> string) \<Rightarrow> int \<Rightarrow> dec \<Rightarrow> dec \<Rightarrow> int \<Rightarrow> int option \<Rightarrow> string \<Rightarrow> string \<Rightarrow> int list option \<Rightarrow> pyval" where
  "term_content dtext cost moq pack lead shelf unit order_unit days = PDict
     [(''unit_cost'', PInt cost), (''moq'', PStr (dtext moq)), (''pack_size'', PStr (dtext pack)), (''lead_time_days'', PInt lead),
      (''shelf_life_days'', opt_val PInt shelf), (''unit'', PStr unit), (''order_unit'', PStr order_unit),
      (''available_delivery_days'', opt_val (\<lambda>ds. PList (map PInt ds)) days)]"

definition latest_term :: "term_row list \<Rightarrow> term_row option" where
  "latest_term versions = (case sort_key (\<lambda>t. - tm_version t) versions of [] \<Rightarrow> None | t # _ \<Rightarrow> Some t)"

text \<open>A row that repeats the latest version is skipped; else the latest version is closed.\<close>

definition append_term :: "term_row option \<Rightarrow> string \<Rightarrow> (int \<Rightarrow> term_row) \<Rightarrow> supply_db \<Rightarrow> supply_db app" where
  "append_term previous content version db =
     (if previous \<noteq> None \<and> dict_get (sy_hashes db) (tm_id (the previous)) = Some content then Inr db
      else
        let t = version (case previous of None \<Rightarrow> 1 | Some l \<Rightarrow> tm_version l + 1); db1 = put_term previous t db in
        ebind (flush_terms db1) (\<lambda>_. Inr (db1\<lparr>sy_hashes := sy_hashes db1 @ [(tm_id t, content)]\<rparr>)))"

definition sheet_version ::
    "runtime \<Rightarrow> supply_db \<Rightarrow> string \<Rightarrow> string \<Rightarrow> string \<Rightarrow> int \<Rightarrow> dec \<Rightarrow> dec \<Rightarrow> int \<Rightarrow> int option \<Rightarrow> string \<Rightarrow> int list option \<Rightarrow> int \<Rightarrow>
     term_row" where
  "sheet_version E db store supplier ingredient cost moq pack lead shelf unit days version =
     \<lparr>tm_id = rn_fresh E (od_serial (sy_op db)), tm_store = store, tm_supplier = supplier, tm_ingredient = ingredient,
      tm_unit_cost = cost, tm_moq = moq, tm_pack = pack, tm_delivery_days = days, tm_lead = lead, tm_shelf = shelf,
      tm_unit = unit, tm_version = version, tm_active = True\<rparr>"

text \<open>One row of \<open>_persist_supplier_constraints\<close>, its ingredient and its supplier resolved. The
  warning about a packaging unit that is not known is left out.\<close>

definition import_term ::
    "runtime \<Rightarrow> (dec \<Rightarrow> string) \<Rightarrow> string \<Rightarrow> ingredient_row \<Rightarrow> supplier_row \<Rightarrow> term_sheet \<Rightarrow> supply_db \<Rightarrow> supply_db app" where
  "import_term E dtext store g s r db =
     ebind (normalize_packaging_unit (rn_nfc E) (ts_order_unit r)) (\<lambda>order_unit.
     ebind (sheet_positive (ts_minimum r)) (\<lambda>minimum.
     ebind (sheet_positive (ts_package r)) (\<lambda>package.
     ebind (normalize_unit_app (rn_nfc E) (ts_unit r)) (\<lambda>source.
     ebind (sheet_unit (rn_nfc E) (Some (ig_base_unit g))) (\<lambda>target.
     ebind (raise_if (source = None) validation_error) (\<lambda>_.
     ebind (validate_compatible (rn_nfc E) source (Some target)) (\<lambda>_.
     ebind (convert_quantity (rn_nfc E) package source (Some target)) (\<lambda>pack.
     ebind (sheet_decimal (ts_cost r)) (\<lambda>cost.
     ebind (sheet_decimal (ts_lead r)) (\<lambda>lead.
     ebind (sheet_shelf_life (ts_shelf r)) (\<lambda>shelf.
     ebind (normalize_delivery_days (rn_lookup E) (ts_days r)) (\<lambda>days.
     let moq = dec_mul minimum pack;
         content = canonical_hash (rn_hash E) (term_content dtext (dec_int cost) moq pack (dec_int lead) shelf target order_unit days) in
     append_term (latest_term (term_versions db store (su_id s) (ig_id g))) content
       (sheet_version E db store (su_id s) (ig_id g) (dec_int cost) moq pack (dec_int lead) shelf target days) db))))))))))))"

section \<open>The calendar\<close>

record calendar_item =
  ci_date :: date
  ci_holiday :: bool
  ci_promotion :: bool
  ci_note :: "string option"

record calendar_count =
  cc_created :: nat
  cc_updated :: nat
  cc_unchanged :: nat

definition promotion_note :: "calendar_item \<Rightarrow> string option" where
  "promotion_note i = (if ci_promotion i then ci_note i else None)"

definition is_weekend :: "date \<Rightarrow> bool" where
  "is_weekend d \<longleftrightarrow> 5 \<le> weekday d"

definition upsert_day :: "runtime \<Rightarrow> string \<Rightarrow> supply_db \<times> calendar_count \<Rightarrow> calendar_item \<Rightarrow> supply_db \<times> calendar_count" where
  "upsert_day E store = (\<lambda>(db, n) i.
     case find (\<lambda>x. cf_store x = store \<and> cf_date x = ci_date i) (sy_calendar db) of
       Some x \<Rightarrow>
         if cf_holiday x = ci_holiday i \<and> cf_promotion x = ci_promotion i \<and> cf_note x = promotion_note i
         then (db, n\<lparr>cc_unchanged := Suc (cc_unchanged n)\<rparr>)
         else (db\<lparr>sy_calendar := map (\<lambda>y. if cf_id y = cf_id x
                   then y\<lparr>cf_holiday := ci_holiday i, cf_promotion := ci_promotion i, cf_note := promotion_note i, cf_weekend := is_weekend (ci_date i)\<rparr>
                   else y) (sy_calendar db)\<rparr>, n\<lparr>cc_updated := Suc (cc_updated n)\<rparr>)
     | None \<Rightarrow>
         (db\<lparr>sy_calendar := sy_calendar db @ [\<lparr>cf_id = rn_fresh E (od_serial (sy_op db)), cf_store = store, cf_date = ci_date i,
                cf_weekend = is_weekend (ci_date i), cf_holiday = ci_holiday i, cf_closed = False, cf_promotion = ci_promotion i,
                cf_note = promotion_note i\<rparr>],
             sy_op := (sy_op db)\<lparr>od_serial := Suc (od_serial (sy_op db))\<rparr>\<rparr>, n\<lparr>cc_created := Suc (cc_created n)\<rparr>))"

definition calendar_write :: "runtime \<Rightarrow> supply_db \<Rightarrow> string \<Rightarrow> calendar_item list \<Rightarrow> (supply_db \<times> calendar_count) app" where
  "calendar_write E db store items =
     ebind (raise_if (\<not> distinct (map ci_date items)) validation_error) (\<lambda>_.
     ebind (require_store (od_stores (sy_op db)) store) (\<lambda>_.
     let (db1, n) = foldl (upsert_day E store) (db, \<lparr>cc_created = 0, cc_updated = 0, cc_unchanged = 0\<rparr>) items in
     Inr (db1\<lparr>sy_op := (sy_op db1)\<lparr>od_audit := od_audit (sy_op db1) @
            [\<lparr>au_store = store, au_action = ''calendar_upserted'', au_type = ''calendar'', au_resource = store\<rparr>]\<rparr>\<rparr>, n)))"

end
