(* ===== verification/Supplier_Facts.thy ===== *)
theory Supplier_Facts
  imports Supplier_Terms
begin

text \<open>
  The versions of supplier terms. A version is closed when the next one is added, so of a pair of a supplier and an
  ingredient exactly the newest version is active: shown first for one pair (\<open>numbered\<close>), then for every database that
  requests and sheets build, provided that an update names the pair of the term it replaces.
\<close>

section \<open>The versions of a pair\<close>

definition numbered :: "term_row list \<Rightarrow> bool" where
  "numbered ts \<longleftrightarrow> (\<forall>i < length ts. tm_version (ts ! i) = int i + 1 \<and> (tm_active (ts ! i) \<longleftrightarrow> Suc i = length ts))"

lemma numbered_Nil [simp]: "numbered []"
  by (simp add: numbered_def)

lemma numbered_snoc:
  assumes "numbered ts" "\<And>t. t \<in> set ts \<Longrightarrow> \<not> tm_active (f t) \<and> tm_version (f t) = tm_version t"
    "tm_version n = int (length ts) + 1" "tm_active n"
  shows "numbered (map f ts @ [n])"
  using assms by (auto simp: numbered_def nth_append less_Suc_eq)

lemma numbered_versions: "numbered ts \<Longrightarrow> map tm_version ts = map int [1..<Suc (length ts)]"
  by (auto simp: numbered_def intro!: nth_equalityI simp del: upt_Suc)

lemma numbered_sorted: "numbered ts \<Longrightarrow> sorted (map tm_version ts)"
  by (simp add: numbered_def sorted_iff_nth_mono)

lemma numbered_last:
  assumes "numbered ts" "ts \<noteq> []"
  shows "tm_active (last ts)" "tm_version (last ts) = int (length ts)"
proof -
  have "length ts - 1 < length ts" using assms(2) by simp
  then show "tm_active (last ts)" "tm_version (last ts) = int (length ts)"
    using assms by (auto simp: numbered_def last_conv_nth of_nat_diff Suc_leI)
qed

lemma numbered_active:
  assumes "numbered ts" "t \<in> set ts"
  shows "tm_active t \<longleftrightarrow> tm_version t = int (length ts)" "tm_version t \<le> int (length ts)"
proof -
  from assms(2) obtain i where "i < length ts" "t = ts ! i" by (auto simp: in_set_conv_nth)
  with assms(1) show "tm_active t \<longleftrightarrow> tm_version t = int (length ts)" "tm_version t \<le> int (length ts)"
    by (auto simp: numbered_def)
qed

lemma numbered_unique:
  assumes "numbered ts" "t \<in> set ts" "tm_version t = int (length ts)"
  shows "t = last ts"
proof -
  from assms(2) obtain i where i: "i < length ts" "t = ts ! i" by (auto simp: in_set_conv_nth)
  with assms have "Suc i = length ts" by (simp add: numbered_def)
  then have "last ts = ts ! i" by (metis diff_Suc_1 last_conv_nth list.size(3) nat.distinct(1))
  then show ?thesis using i(2) by simp
qed

lemma numbered_filter:
  assumes "numbered ts"
  shows "filter tm_active ts = (if ts = [] then [] else [last ts])"
proof (cases ts rule: rev_cases)
  case (snoc xs t)
  have "\<not> tm_active u" if u: "u \<in> set xs" for u
  proof -
    from u obtain i where "i < length xs" "u = ts ! i" by (auto simp: snoc in_set_conv_nth nth_append)
    with assms show ?thesis by (simp add: numbered_def snoc)
  qed
  then have "filter tm_active xs = []" by (simp add: filter_empty_conv)
  then show ?thesis using numbered_last [OF assms] by (simp add: snoc)
qed simp

lemma numbered_next: "numbered ts \<Longrightarrow> next_version ts = int (length ts) + 1"
proof (cases "ts = []")
  case False
  assume n: "numbered ts"
  have "Max (set (map tm_version ts)) = int (length ts)"
  proof (rule Max_eqI)
    show "int (length ts) \<in> set (map tm_version ts)"
      using numbered_last(2) [OF n False] False by (metis image_eqI last_in_set list.set_map)
  qed (use numbered_active(2) [OF n] in auto)
  then show ?thesis using False by (simp add: next_version_def)
qed (simp add: next_version_def)

lemma latest_term_in:
  assumes "latest_term ts = Some t"
  shows "t \<in> set ts" "\<And>u. u \<in> set ts \<Longrightarrow> tm_version u \<le> tm_version t"
proof -
  from assms obtain rest where s: "sort_key (\<lambda>t. - tm_version t) ts = t # rest"
    by (auto simp: latest_term_def split: list.splits)
  then have m: "set ts = set (t # rest)" by (metis set_sort)
  then show "t \<in> set ts" by simp
  have "sorted (map (\<lambda>t. - tm_version t) (t # rest))" by (metis s sorted_sort_key)
  then show "tm_version u \<le> tm_version t" if "u \<in> set ts" for u using that m by auto
qed

lemma latest_term_None: "latest_term ts = None \<longleftrightarrow> ts = []"
proof -
  have "sort_key (\<lambda>t. - tm_version t) ts = [] \<longleftrightarrow> ts = []" by (metis length_0_conv length_sort)
  then show ?thesis by (cases "sort_key (\<lambda>t. - tm_version t) ts") (simp_all add: latest_term_def)
qed

lemma numbered_latest:
  assumes "numbered ts" "latest_term ts = Some t"
  shows "t = last ts"
proof -
  have "ts \<noteq> []" using assms(2) latest_term_None by (metis option.distinct(1))
  then have "int (length ts) \<le> tm_version t"
    using latest_term_in(2) [OF assms(2), of "last ts"] numbered_last(2) [OF assms(1)] by simp
  then show ?thesis
    using numbered_unique [OF assms(1) latest_term_in(1) [OF assms(2)]] numbered_active(2) [OF assms(1) latest_term_in(1) [OF assms(2)]]
    by linarith
qed

section \<open>The table\<close>

definition in_pair :: "string \<Rightarrow> string \<Rightarrow> string \<Rightarrow> term_row \<Rightarrow> bool" where
  "in_pair store supplier ingredient t \<longleftrightarrow> tm_store t = store \<and> tm_supplier t = supplier \<and> tm_ingredient t = ingredient"

definition terms_ok :: "runtime \<Rightarrow> supply_db \<Rightarrow> bool" where
  "terms_ok E db \<longleftrightarrow>
     distinct (map tm_id (od_terms (sy_op db))) \<and>
     (\<forall>t \<in> set (od_terms (sy_op db)). \<exists>n < od_serial (sy_op db). tm_id t = rn_fresh E n) \<and>
     (\<forall>store supplier ingredient. numbered (filter (in_pair store supplier ingredient) (od_terms (sy_op db))))"

lemma terms_okD:
  assumes "terms_ok E db"
  shows "distinct (map tm_id (od_terms (sy_op db)))"
    "t \<in> set (od_terms (sy_op db)) \<Longrightarrow> \<exists>n < od_serial (sy_op db). tm_id t = rn_fresh E n"
    "numbered (filter (in_pair store supplier ingredient) (od_terms (sy_op db)))"
  using assms by (auto simp: terms_ok_def)

lemma terms_same:
  assumes "terms_ok E db" "od_terms (sy_op db') = od_terms (sy_op db)" "od_serial (sy_op db) \<le> od_serial (sy_op db')"
  shows "terms_ok E db'"
  using assms by (fastforce simp: terms_ok_def intro: order_less_le_trans)

lemma term_versions_eq:
  assumes "terms_ok E db"
  shows "term_versions db store supplier ingredient = filter (in_pair store supplier ingredient) (od_terms (sy_op db))"
proof -
  have "(\<lambda>t. tm_store t = store \<and> tm_supplier t = supplier \<and> tm_ingredient t = ingredient) = in_pair store supplier ingredient"
    by (simp add: fun_eq_iff in_pair_def)
  moreover have "sorted (map tm_version (filter (in_pair store supplier ingredient) (od_terms (sy_op db))))"
    by (rule numbered_sorted [OF terms_okD(3) [OF assms]])
  ultimately show ?thesis unfolding term_versions_def by (simp add: sort_key_id_if_sorted)
qed

text \<open>Adding a version to a pair and closing the active one, which must be of the same pair.\<close>

definition closes :: "supply_db \<Rightarrow> term_row option \<Rightarrow> term_row \<Rightarrow> bool" where
  "closes db current t \<longleftrightarrow>
     (let ts = filter (in_pair (tm_store t) (tm_supplier t) (tm_ingredient t)) (od_terms (sy_op db)) in
      current = (if ts = [] then None else Some (last ts)) \<and> tm_version t = int (length ts) + 1 \<and> tm_active t)"

lemma put_term_ok:
  assumes "terms_ok E db" "inj (rn_fresh E)" "closes db current t" "tm_id t = rn_fresh E (od_serial (sy_op db))"
  shows "terms_ok E (put_term current t db)"
proof -
  let ?old = "od_terms (sy_op db)"
  let ?f = "\<lambda>r. if current \<noteq> None \<and> tm_id r = tm_id (the current) then r\<lparr>tm_active := False\<rparr> else r"
  note ok = terms_okD [OF assms(1)]
  have new: "od_terms (sy_op (put_term current t db)) = map ?f ?old @ [t]"
    and serial: "od_serial (sy_op (put_term current t db)) = Suc (od_serial (sy_op db))"
    by (simp_all add: put_term_def)
  have ids: "map tm_id (map ?f ?old @ [t]) = map tm_id ?old @ [tm_id t]" by simp
  have keep: "in_pair s p i (?f r) = in_pair s p i r" for s p i r by (simp add: in_pair_def)
  have "tm_id t \<notin> tm_id ` set ?old"
    using ok(2) assms(2,4) by (force dest: injD)
  then have d: "distinct (map tm_id (map ?f ?old @ [t]))"
    using ok(1) unfolding ids by simp
  have n: "numbered (filter (in_pair s p i) (map ?f ?old @ [t]))" for s p i
  proof (cases "in_pair s p i t")
    case True
    then have pair: "s = tm_store t" "p = tm_supplier t" "i = tm_ingredient t" by (auto simp: in_pair_def)
    let ?ts = "filter (in_pair s p i) ?old"
    have c: "current = (if ?ts = [] then None else Some (last ?ts))" "tm_version t = int (length ?ts) + 1" "tm_active t"
      using assms(3) by (simp_all add: closes_def Let_def pair)
    have "\<not> tm_active (?f r) \<and> tm_version (?f r) = tm_version r" if "r \<in> set ?ts" for r
    proof -
      have ne: "?ts \<noteq> []" using that by (metis list.set(1) empty_iff)
      then have cur: "current = Some (last ?ts)" using c(1) by simp
      have "tm_active r \<Longrightarrow> r = last ?ts"
        using numbered_active(1) [OF ok(3) that] numbered_unique [OF ok(3) that] by blast
      then show ?thesis using cur by auto
    qed
    then have "numbered (map ?f ?ts @ [t])" by (rule numbered_snoc [OF ok(3) _ c(2,3)])
    moreover have "filter (in_pair s p i) (map ?f ?old @ [t]) = map ?f ?ts @ [t]"
      using True keep by (simp add: filter_map comp_def)
    ultimately show ?thesis by simp
  next
    case False
    let ?ts = "filter (in_pair s p i) ?old"
    have "?f r = r" if "r \<in> set ?ts" for r
    proof -
      have "tm_id r \<noteq> tm_id c" if "current = Some c" for c
      proof
        assume e: "tm_id r = tm_id c"
        have "c = last (filter (in_pair (tm_store t) (tm_supplier t) (tm_ingredient t)) ?old)"
          "filter (in_pair (tm_store t) (tm_supplier t) (tm_ingredient t)) ?old \<noteq> []"
          using assms(3) that by (simp_all only: closes_def Let_def split: if_splits) simp_all
        then have "c \<in> set (filter (in_pair (tm_store t) (tm_supplier t) (tm_ingredient t)) ?old)"
          using last_in_set by blast
        then have "c \<in> set ?old" "in_pair (tm_store t) (tm_supplier t) (tm_ingredient t) c" by auto
        moreover have "r \<in> set ?old" "in_pair s p i r" using \<open>r \<in> set ?ts\<close> by auto
        ultimately show False
          using e ok(1) False by (metis distinct_map in_pair_def inj_onD)
      qed
      then show ?thesis by auto
    qed
    then have "map ?f ?ts = ?ts" by (rule map_idI)
    moreover have "filter (in_pair s p i) (map ?f ?old @ [t]) = map ?f ?ts"
      using False keep by (simp add: filter_map comp_def)
    ultimately show ?thesis using ok(3) by simp
  qed
  have "\<exists>n < Suc (od_serial (sy_op db)). tm_id r = rn_fresh E n" if r: "r \<in> set (map ?f ?old @ [t])" for r
  proof (cases "r = t")
    case False
    then obtain r' where "r' \<in> set ?old" "tm_id r = tm_id r'" using r by (auto split: if_splits)
    then show ?thesis using ok(2) less_SucI by metis
  qed (use assms(4) in auto)
  with d n show ?thesis unfolding terms_ok_def new serial by blast
qed

section \<open>The calendar\<close>

definition day_key :: "calendar_row \<Rightarrow> string \<times> date" where
  "day_key x = (cf_store x, cf_date x)"

definition item_on :: "string \<Rightarrow> calendar_item \<Rightarrow> calendar_row \<Rightarrow> bool" where
  "item_on store i x \<longleftrightarrow> day_key x = (store, ci_date i) \<and> cf_holiday x = ci_holiday i \<and> cf_promotion x = ci_promotion i \<and>
     cf_note x = promotion_note i"

definition days_ok :: "runtime \<Rightarrow> supply_db \<Rightarrow> bool" where
  "days_ok E db \<longleftrightarrow> distinct (map cf_id (sy_calendar db)) \<and> distinct (map day_key (sy_calendar db)) \<and>
     (\<forall>x \<in> set (sy_calendar db). \<exists>n < od_serial (sy_op db). cf_id x = rn_fresh E n)"

lemma upsert_terms:
  "upsert_day E store (db, n) i = (db', n') \<Longrightarrow> od_terms (sy_op db') = od_terms (sy_op db) \<and> od_serial (sy_op db) \<le> od_serial (sy_op db')"
  by (auto simp: upsert_day_def split: option.splits if_splits)

text \<open>One item: its day has it, the other days are left alone.\<close>

lemma upsert_day_step:
  assumes "upsert_day E store (db, n) i = (db', n')" "days_ok E db" "inj (rn_fresh E)"
  shows "days_ok E db'" "\<exists>x \<in> set (sy_calendar db'). item_on store i x"
    "day_key x \<noteq> (store, ci_date i) \<Longrightarrow> x \<in> set (sy_calendar db') \<longleftrightarrow> x \<in> set (sy_calendar db)"
    "cc_created n' + cc_updated n' + cc_unchanged n' = Suc (cc_created n + cc_updated n + cc_unchanged n)"
proof -
  let ?old = "find (\<lambda>x. cf_store x = store \<and> cf_date x = ci_date i) (sy_calendar db)"
  have ok: "distinct (map cf_id (sy_calendar db))" "distinct (map day_key (sy_calendar db))"
    "\<And>x. x \<in> set (sy_calendar db) \<Longrightarrow> \<exists>n < od_serial (sy_op db). cf_id x = rn_fresh E n"
    using assms(2) by (auto simp: days_ok_def)
  have goal: "days_ok E db' \<and> (\<exists>x \<in> set (sy_calendar db'). item_on store i x) \<and>
      (\<forall>x. day_key x \<noteq> (store, ci_date i) \<longrightarrow> (x \<in> set (sy_calendar db') \<longleftrightarrow> x \<in> set (sy_calendar db)))"
  proof (cases ?old)
    case None
    then have no: "\<And>x. x \<in> set (sy_calendar db) \<Longrightarrow> day_key x \<noteq> (store, ci_date i)"
      by (auto simp: find_None_iff day_key_def)
    have "rn_fresh E (od_serial (sy_op db)) \<notin> cf_id ` set (sy_calendar db)"
      using ok(3) assms(3) by (force dest: injD)
    moreover have "(store, ci_date i) \<notin> day_key ` set (sy_calendar db)" using no by force
    moreover obtain r where r: "sy_calendar db' = sy_calendar db @ [r]" "item_on store i r" "cf_id r = rn_fresh E (od_serial (sy_op db))"
      "od_serial (sy_op db') = Suc (od_serial (sy_op db))"
      using assms(1) None by (auto simp: upsert_day_def item_on_def day_key_def)
    moreover have k: "day_key r = (store, ci_date i)" using r(2) by (simp add: item_on_def)
    ultimately have "distinct (map cf_id (sy_calendar db'))" "distinct (map day_key (sy_calendar db'))" using ok(1,2) by simp_all
    moreover have "\<exists>n < od_serial (sy_op db'). cf_id x = rn_fresh E n" if "x \<in> set (sy_calendar db')" for x
      using that ok(3) [of x] by (auto simp: r less_Suc_eq)
    ultimately show ?thesis using r(1,2) k by (auto simp: days_ok_def)
  next
    case (Some y)
    then have y: "y \<in> set (sy_calendar db)" "day_key y = (store, ci_date i)" by (auto simp: find_Some_iff day_key_def)
    show ?thesis
    proof (cases "item_on store i y")
      case True
      then have "db' = db" using assms(1) Some by (auto simp: upsert_day_def item_on_def)
      then show ?thesis using True assms(2) y by auto
    next
      case False
      let ?f = "\<lambda>z. if cf_id z = cf_id y then z\<lparr>cf_holiday := ci_holiday i, cf_promotion := ci_promotion i, cf_note := promotion_note i,
        cf_weekend := is_weekend (ci_date i)\<rparr> else z"
      have new: "sy_calendar db' = map ?f (sy_calendar db)" "sy_op db' = sy_op db"
        using assms(1) Some False y(2) by (auto simp: upsert_day_def item_on_def split: if_splits)
      have k: "day_key (?f z) = day_key z" "cf_id (?f z) = cf_id z" for z by (simp_all add: day_key_def)
      have one: "z = y" if "z \<in> set (sy_calendar db)" "cf_id z = cf_id y" for z
        using ok(1) y(1) that by (auto simp: distinct_map dest: inj_onD)
      have "days_ok E db'"
        using assms(2) k ok(3) [OF y(1)] unfolding days_ok_def new by (auto simp: comp_def)
      moreover have "item_on store i (?f y)" using y(2) by (simp add: item_on_def day_key_def)
      moreover have "?f y \<in> set (sy_calendar db')" using y(1) unfolding new by (simp add: image_iff) blast
      moreover have "x \<in> set (sy_calendar db') \<longleftrightarrow> x \<in> set (sy_calendar db)" if "day_key x \<noteq> (store, ci_date i)" for x
      proof
        assume "x \<in> set (sy_calendar db')"
        then obtain z where z: "z \<in> set (sy_calendar db)" "x = ?f z" unfolding new by auto
        then have "cf_id z \<noteq> cf_id y" using that one y(2) k(1) by metis
        then show "x \<in> set (sy_calendar db)" using z by simp
      next
        assume x: "x \<in> set (sy_calendar db)"
        then have "cf_id x \<noteq> cf_id y" using that one y(2) by metis
        then show "x \<in> set (sy_calendar db')" unfolding new set_map by (intro image_eqI [OF _ x]) simp
      qed
      ultimately show ?thesis by blast
    qed
  qed
  then show "days_ok E db'" "\<exists>x \<in> set (sy_calendar db'). item_on store i x"
    "day_key x \<noteq> (store, ci_date i) \<Longrightarrow> x \<in> set (sy_calendar db') \<longleftrightarrow> x \<in> set (sy_calendar db)"
    by blast+
  show "cc_created n' + cc_updated n' + cc_unchanged n' = Suc (cc_created n + cc_updated n + cc_unchanged n)"
    using assms(1) by (auto simp: upsert_day_def split: option.splits if_splits)
qed

lemma upsert_days:
  assumes "foldl (upsert_day E store) (db, n) items = (db', n')" "days_ok E db" "inj (rn_fresh E)" "distinct (map ci_date items)"
  shows "days_ok E db' \<and> (\<forall>i \<in> set items. \<exists>x \<in> set (sy_calendar db'). item_on store i x) \<and>
    (\<forall>x. (\<forall>i \<in> set items. day_key x \<noteq> (store, ci_date i)) \<longrightarrow> (x \<in> set (sy_calendar db') \<longleftrightarrow> x \<in> set (sy_calendar db))) \<and>
    cc_created n' + cc_updated n' + cc_unchanged n' = length items + (cc_created n + cc_updated n + cc_unchanged n)"
  using assms(1,2,4)
proof (induction items arbitrary: db n)
  case (Cons i items)
  obtain db1 n1 where u: "upsert_day E store (db, n) i = (db1, n1)" by fastforce
  note step = upsert_day_step [OF u Cons.prems(2) assms(3)]
  have "foldl (upsert_day E store) (db1, n1) items = (db', n')" using Cons.prems(1) u by simp
  note ih = Cons.IH [OF this step(1)]
  obtain x where x: "x \<in> set (sy_calendar db1)" "item_on store i x" using step(2) by blast
  have "\<forall>j \<in> set items. day_key x \<noteq> (store, ci_date j)"
    using Cons.prems(3) x(2) by (auto simp: item_on_def image_iff)
  then have "x \<in> set (sy_calendar db')" using ih Cons.prems(3) x(1) by auto
  then show ?case using ih Cons.prems(3) x(2) step(3,4) by auto
qed simp

lemma calendar_writeD:
  assumes "calendar_write E db store items = Inr (db', n)"
  obtains db1 where "distinct (map ci_date items)"
    "foldl (upsert_day E store) (db, \<lparr>cc_created = 0, cc_updated = 0, cc_unchanged = 0\<rparr>) items = (db1, n)"
    "sy_calendar db' = sy_calendar db1" "od_terms (sy_op db') = od_terms (sy_op db1)" "od_serial (sy_op db') = od_serial (sy_op db1)"
  using assms that unfolding calendar_write_def Let_def
  by (elim ebind_InrE) (auto split: prod.splits)

lemma upserts_terms:
  "foldl (upsert_day E store) (db, n) items = (db', n') \<Longrightarrow>
    od_terms (sy_op db') = od_terms (sy_op db) \<and> od_serial (sy_op db) \<le> od_serial (sy_op db')"
proof (induction items arbitrary: db n)
  case (Cons i items)
  obtain db1 n1 where u: "upsert_day E store (db, n) i = (db1, n1)" by fastforce
  then show ?case using Cons upsert_terms [OF u] by fastforce
qed simp

lemma calendar_write_terms:
  assumes "calendar_write E db store items = Inr (db', n)" "terms_ok E db"
  shows "terms_ok E db'"
  using assms(1)
proof (rule calendar_writeD)
  fix db1
  assume "foldl (upsert_day E store) (db, \<lparr>cc_created = 0, cc_updated = 0, cc_unchanged = 0\<rparr>) items = (db1, n)"
    "od_terms (sy_op db') = od_terms (sy_op db1)" "od_serial (sy_op db') = od_serial (sy_op db1)"
  then show ?thesis by (intro terms_same [OF assms(2)]) (auto dest: upserts_terms)
qed

section \<open>Requests and sheets\<close>

lemma recompute_terms: "od_terms (recompute_store E store op) = od_terms op" "od_serial (recompute_store E store op) = od_serial op"
  by (simp_all add: recompute_store_def)

lemma finish_term_ok:
  assumes "finish_term E store target key t name db = (db', answer)" "terms_ok E db"
  shows "terms_ok E db'"
  by (rule terms_same [OF assms(2)]) (use assms(1) in \<open>auto simp: finish_term_def Let_def recompute_terms\<close>)

text \<open>An update names the pair of the term it replaces.\<close>

definition same_pair :: "supply_db \<Rightarrow> string \<Rightarrow> term_body \<Rightarrow> string option \<Rightarrow> bool" where
  "same_pair db store b target =
     (case target of
        None \<Rightarrow> True
      | Some k \<Rightarrow> (case find_term db store k of
          None \<Rightarrow> True
        | Some t \<Rightarrow> tm_supplier t = tb_supplier b \<and> tm_ingredient t = tb_ingredient b))"

lemma replaced_term_closes:
  assumes "replaced_term db store b target = Inr current" "terms_ok E db" "same_pair db store b target"
  shows "closes db current (new_term E db store b moq pack unit)"
proof -
  let ?ts = "filter (in_pair store (tb_supplier b) (tb_ingredient b)) (od_terms (sy_op db))"
  note n = terms_okD(3) [OF assms(2), of store "tb_supplier b" "tb_ingredient b"]
  have "current = (if ?ts = [] then None else Some (last ?ts))"
  proof (cases target)
    case None
    then have c: "current = None" "\<forall>t \<in> set ?ts. \<not> tm_active t"
      using assms(1) term_versions_eq [OF assms(2)] by (auto simp: replaced_term_def find_None_iff result_simps)
    then have "?ts = []" using numbered_last(1) [OF n] last_in_set by blast
    then show ?thesis using c(1) by simp
  next
    case (Some k)
    then obtain t where f: "find_term db store k = Some t" and t: "tm_active t" "current = Some t"
      using assms(1) by (auto simp: replaced_term_def result_simps split: option.splits)
    have "t \<in> set (od_terms (sy_op db))" "tm_store t = store"
      using f by (auto simp: find_term_def find_Some_iff)
    then have "t \<in> set ?ts"
      using f assms(3) Some by (simp add: same_pair_def in_pair_def)
    moreover from this have "t = last ?ts"
      using numbered_unique [OF n] numbered_active(1) [OF n] t(1) by blast
    ultimately show ?thesis using t(2) by (auto simp del: set_filter)
  qed
  then show ?thesis
    using numbered_next [OF n] by (simp add: closes_def Let_def new_term_def term_versions_eq [OF assms(2)])
qed

lemma term_work_ok:
  assumes "term_work E store b target key db = Inr (db', answer)" "terms_ok E db" "inj (rn_fresh E)" "same_pair db store b target"
  shows "terms_ok E db'"
proof -
  obtain g s where gs: "find (\<lambda>g. ig_store g = store \<and> ig_id g = tb_ingredient b) (od_ingredients (sy_op db)) = Some g"
      "find (\<lambda>s. su_store s = store \<and> su_id s = tb_supplier b) (sy_suppliers db) = Some s"
    using assms(1) by (auto simp: term_work_def split: option.splits)
  note w = assms(1) [unfolded term_work_def gs prod.case option.case]
  from w obtain moq pack current where c: "replaced_term db store b target = Inr current"
    and r: "(if (case current of None \<Rightarrow> False | Some t \<Rightarrow> same_term b moq pack t)
          then Inr (finish_term E store target key (the current) (su_name s) db)
          else
            let t = new_term E db store b moq pack (ig_base_unit g); db1 = put_term current t db in
            ebind (flush_terms db1) (\<lambda>_. Inr (finish_term E store target key t (su_name s) db1))) = Inr (db', answer)"
    by (elim ebind_InrE) blast
  show ?thesis
  proof (cases "case current of None \<Rightarrow> False | Some t \<Rightarrow> same_term b moq pack t")
    case True
    then show ?thesis using r finish_term_ok assms(2) by (metis Inr_inject)
  next
    case False
    let ?t = "new_term E db store b moq pack (ig_base_unit g)"
    have "finish_term E store target key ?t (su_name s) (put_term current ?t db) = (db', answer)"
      using r False by (auto simp: Let_def result_simps)
    moreover have "terms_ok E (put_term current ?t db)"
      by (rule put_term_ok [OF assms(2,3) replaced_term_closes [OF c assms(2,4)]]) (simp add: new_term_def)
    ultimately show ?thesis by (rule finish_term_ok)
  qed
qed

lemma find_term_records: "find_term (db\<lparr>sy_idem := records\<rparr>) = find_term db"
  by (simp add: fun_eq_iff find_term_def)

lemma term_write_ok:
  assumes "term_write E db store b target key = Inr (db', answer)" "terms_ok E db" "inj (rn_fresh E)" "same_pair db store b target"
  shows "terms_ok E db'"
proof -
  from assms(1) have "(\<exists>i. ebind (stored_response i) (\<lambda>a. Inr (db, a)) = Inr (db', answer)) \<or>
      (\<exists>records. term_work E store b target key (db\<lparr>sy_idem := records\<rparr>) = Inr (db', answer))"
    unfolding term_write_def by (elim ebind_InrE) (drule with_idempotencyD, blast)
  then show ?thesis
  proof (elim disjE exE)
    fix records assume w: "term_work E store b target key (db\<lparr>sy_idem := records\<rparr>) = Inr (db', answer)"
    show ?thesis
      by (rule term_work_ok [OF w _ assms(3)]) (use assms(2,4) in \<open>cases target; simp add: terms_ok_def same_pair_def find_term_records\<close>)+
  qed (use assms(2) in \<open>auto simp: result_simps\<close>)
qed

lemma import_term_ok:
  assumes "import_term E dtext store g s r db = Inr db'" "terms_ok E db" "inj (rn_fresh E)"
  shows "terms_ok E db'"
proof -
  let ?latest = "latest_term (term_versions db store (su_id s) (ig_id g))"
  let ?ts = "filter (in_pair store (su_id s) (ig_id g)) (od_terms (sy_op db))"
  note n = terms_okD(3) [OF assms(2), of store "su_id s" "ig_id g"]
  have l: "?latest = (if ?ts = [] then None else Some (last ?ts))"
    unfolding term_versions_eq [OF assms(2)] using numbered_latest [OF n] latest_term_None [of ?ts] by (cases "latest_term ?ts") auto
  obtain cost moq pack lead shelf unit days content where
    r: "append_term ?latest content (sheet_version E db store (su_id s) (ig_id g) cost moq pack lead shelf unit days) db = Inr db'"
    using assms(1) unfolding import_term_def Let_def by (elim ebind_InrE) blast
  let ?t = "sheet_version E db store (su_id s) (ig_id g) cost moq pack lead shelf unit days
    (case ?latest of None \<Rightarrow> 1 | Some l \<Rightarrow> tm_version l + 1)"
  consider "db' = db" | "db' = (put_term ?latest ?t db)\<lparr>sy_hashes := sy_hashes (put_term ?latest ?t db) @ [(tm_id ?t, content)]\<rparr>"
    using r by (auto simp: append_term_def Let_def result_simps split: if_splits)
  then show ?thesis
  proof cases
    case 2
    have "closes db ?latest ?t"
      using numbered_last(2) [OF n] by (simp add: closes_def Let_def sheet_version_def l)
    from put_term_ok [OF assms(2,3) this] have "terms_ok E (put_term ?latest ?t db)" by (simp add: sheet_version_def)
    then show ?thesis by (rule terms_same) (simp_all add: 2)
  qed (use assms(2) in simp)
qed

section \<open>Histories\<close>

text \<open>Requests and rows of sheets one after the other; with \<open>careful\<close> an update names the pair of the term it replaces.
  The other services leave the terms alone.\<close>

inductive term_history :: "runtime \<Rightarrow> (dec \<Rightarrow> string) \<Rightarrow> bool \<Rightarrow> supply_db \<Rightarrow> bool" for E dtext careful where
  term_start: "od_terms (sy_op db) = [] \<Longrightarrow> term_history E dtext careful db"
| term_request: "term_history E dtext careful db \<Longrightarrow> term_write E db store b target key = Inr (db', answer) \<Longrightarrow>
    careful \<longrightarrow> same_pair db store b target \<Longrightarrow> term_history E dtext careful db'"
| term_import: "term_history E dtext careful db \<Longrightarrow> import_term E dtext store g s r db = Inr db' \<Longrightarrow> term_history E dtext careful db'"
| term_calendar: "term_history E dtext careful db \<Longrightarrow> calendar_write E db store items = Inr (db', n) \<Longrightarrow> term_history E dtext careful db'"
| term_other: "term_history E dtext careful db \<Longrightarrow> od_terms (sy_op db') = od_terms (sy_op db) \<Longrightarrow>
    od_serial (sy_op db) \<le> od_serial (sy_op db') \<Longrightarrow> term_history E dtext careful db'"

lemma term_history_ok: "term_history E dtext True db \<Longrightarrow> inj (rn_fresh E) \<Longrightarrow> terms_ok E db"
proof (induction rule: term_history.induct)
  case (term_start db)
  then show ?case by (simp add: terms_ok_def)
next
  case term_request
  then show ?case using term_write_ok by blast
next
  case term_import
  then show ?case using import_term_ok by blast
next
  case term_calendar
  then show ?case using calendar_write_terms by blast
next
  case term_other
  then show ?case using terms_same by blast
qed

text \<open>C20: the terms of a supplier for an ingredient are numbered from one and exactly the newest is active, in every database
  that requests and sheets build, provided that an update names the pair of the term it replaces.\<close>

theorem exactly_newest_term_active:
  assumes "term_history E dtext True db" "inj (rn_fresh E)"
  shows "let ts = term_versions db store supplier ingredient in
    map tm_version ts = map int [1..<Suc (length ts)] \<and> filter tm_active ts = (if ts = [] then [] else [last ts])"
proof -
  note ok = term_history_ok [OF assms]
  note n = terms_okD(3) [OF ok, of store supplier ingredient]
  show ?thesis unfolding Let_def term_versions_eq [OF ok] using numbered_versions [OF n] numbered_filter [OF n] by simp
qed

text \<open>Writing the calendar gives every day of the request its holiday, promotion and note, keeps one row per day and
  every other row, and counts each item once.\<close>

theorem calendar_write_sets_days:
  assumes "calendar_write E db store items = Inr (db', n)" "days_ok E db" "inj (rn_fresh E)"
  shows "distinct (map day_key (sy_calendar db')) \<and>
    (\<forall>i \<in> set items. \<exists>x \<in> set (sy_calendar db'). item_on store i x) \<and>
    (\<forall>x. (\<forall>i \<in> set items. day_key x \<noteq> (store, ci_date i)) \<longrightarrow> (x \<in> set (sy_calendar db') \<longleftrightarrow> x \<in> set (sy_calendar db))) \<and>
    cc_created n + cc_updated n + cc_unchanged n = length items"
proof -
  obtain db1 where d: "distinct (map ci_date items)"
    "foldl (upsert_day E store) (db, \<lparr>cc_created = 0, cc_updated = 0, cc_unchanged = 0\<rparr>) items = (db1, n)"
    "sy_calendar db' = sy_calendar db1"
    using assms(1) by (rule calendar_writeD)
  note u = upsert_days [OF d(2) assms(2,3) d(1)]
  then show ?thesis
    by (simp add: d(3) days_ok_def)
qed

end
