(* ===== verification/Supplier_Witness.thy ===== *)
theory Supplier_Witness
  imports Supplier_Facts Op_Witness
begin

text \<open>
  The theorems on supplier terms and the calendar at a concrete shop, which buys flour and sugar from a mill: terms are
  created and changed, and an update that names another ingredient leaves two active terms.
\<close>

section \<open>A shop\<close>

definition supplied :: "string \<Rightarrow> ingredient_row" where
  "supplied i = \<lparr>ig_id = i, ig_store = ''shop'', ig_name = i, ig_normalized = i, ig_base_unit = ''g'', ig_tracking = TrackRequired,
     ig_declared = True\<rparr>"

definition supply_start :: supply_db where
  "supply_start = \<lparr>sy_op = shop_db\<lparr>od_ingredients := [supplied ''flour'', supplied ''sugar'']\<rparr>,
     sy_suppliers = [\<lparr>su_id = ''mill'', su_store = ''shop'', su_name = ''Mill''\<rparr>], sy_calendar = [], sy_hashes = [], sy_idem = []\<rparr>"

definition offer_of :: "string \<Rightarrow> int \<Rightarrow> int option \<Rightarrow> term_body" where
  "offer_of i cost version = \<lparr>tb_ingredient = i, tb_supplier = ''mill'', tb_unit_cost = cost, tb_moq = 9, tb_pack = 9, tb_lead = 1,
     tb_shelf = None, tb_unit = ''g'', tb_version = version, tb_dump = PNone\<rparr>"

definition mill_term :: "nat \<Rightarrow> string \<Rightarrow> int \<Rightarrow> int \<Rightarrow> bool \<Rightarrow> term_row" where
  "mill_term n i cost version active = \<lparr>tm_id = CHR ''i'' # replicate n CHR ''x'', tm_store = ''shop'', tm_supplier = ''mill'',
     tm_ingredient = i, tm_unit_cost = cost, tm_moq = 9, tm_pack = 9, tm_delivery_days = None, tm_lead = 1, tm_shelf = None,
     tm_unit = ''g'', tm_version = version, tm_active = active\<rparr>"

definition supply_after :: "term_row list \<Rightarrow> audit_row list \<Rightarrow> supply_db" where
  "supply_after terms audit = supply_start\<lparr>sy_op := (sy_op supply_start)\<lparr>od_terms := terms, od_serial := length terms, od_audit := audit\<rparr>\<rparr>"

lemmas supply_defs = supply_start_def supply_after_def supplied_def offer_of_def mill_term_def shop_db_def

lemma nine_grams: "convert_quantity (rn_nfc shop_runtime) 9 (Some ''g'') (Some ''g'') = Inr 9"
  by code_simp

lemma declared_stay:
  assumes "\<forall>g \<in> set (od_ingredients op). ig_declared g"
  shows "recompute_store E store op = op"
proof -
  have "map (\<lambda>g. if ig_store g = store then classify_ingredient l store lots terms x g else g) (od_ingredients op) = od_ingredients op"
    for l lots terms x
    using assms by (intro map_idI) (simp add: classify_declared)
  then show ?thesis by (simp add: recompute_store_def recompute_expiry_def Let_def)
qed

text \<open>A request without an idempotency key whose body differs from the term it replaces.\<close>

lemma term_write_plain:
  assumes "replaced_term (supply_after terms audit) ''shop'' (offer_of i cost v) target = Inr current" "i \<in> {''flour'', ''sugar''}"
    "case current of None \<Rightarrow> True | Some t \<Rightarrow> tm_unit_cost t \<noteq> cost"
    "new_term shop_runtime (supply_after terms audit) ''shop'' (offer_of i cost v) 9 9 ''g'' = t"
    "terms' = map (\<lambda>r. if current \<noteq> None \<and> tm_id r = tm_id (the current) then r\<lparr>tm_active := False\<rparr> else r) terms @ [t]"
    "distinct (map (\<lambda>t. (tm_supplier t, tm_ingredient t, tm_version t)) terms')"
  shows "\<exists>audit' answer. term_write shop_runtime (supply_after terms audit) ''shop'' (offer_of i cost v) target None =
    Inr (supply_after terms' audit', answer)"
proof -
  let ?db = "supply_after terms audit" and ?b = "offer_of i cost v"
  have g: "find (\<lambda>g. ig_store g = ''shop'' \<and> ig_id g = i) (od_ingredients (sy_op ?db)) = Some (supplied i)"
    using assms(2) by (auto simp: supply_defs)
  have b: "tb_moq ?b = 9" "tb_pack ?b = 9" "tb_unit ?b = ''g''" "tb_ingredient ?b = i" "tb_supplier ?b = ''mill''" "ig_base_unit (supplied i) = ''g''"
    by (simp_all add: offer_of_def supplied_def)
  have s: "find (\<lambda>s. su_store s = ''shop'' \<and> su_id s = ''mill'') (sy_suppliers ?db) = Some \<lparr>su_id = ''mill'', su_store = ''shop'', su_name = ''Mill''\<rparr>"
    by (simp add: supply_defs)
  have d: "(case current of None \<Rightarrow> False | Some t \<Rightarrow> same_term ?b 9 9 t) = False"
    using assms(3) by (auto simp: same_term_def offer_of_def split: option.splits)
  have p: "put_term current t ?db = supply_after terms' audit"
    by (simp add: put_term_def supply_after_def assms(5))
  have "flush_terms (supply_after terms' audit) = Inr ()"
    using assms(6) by (simp add: flush_terms_def supply_after_def)
  moreover have "\<exists>audit' answer. finish_term shop_runtime ''shop'' target None t n (supply_after terms' audit) = (supply_after terms' audit', answer)" for n
    by (simp add: finish_term_def Let_def declared_stay supply_after_def supply_start_def supplied_def non_empty_def) blast
  moreover have "?db\<lparr>sy_idem := sy_idem ?db\<rparr> = ?db" by simp
  ultimately show ?thesis
    by (simp add: term_write_def term_work_def require_store_def with_idempotency_def non_empty_def g s b nine_grams assms(1,4) d p Let_def)
      (simp add: supply_after_def supply_start_def shop_db_def)
qed

section \<open>Its history\<close>

lemmas term_step_defs = term_versions_def replaced_term_def find_term_def new_term_def next_version_def shop_runtime_def supply_defs

lemma flour_created: "\<exists>a. term_history shop_runtime dtext careful (supply_after [mill_term 0 ''flour'' 5 1 True] a)"
proof -
  have "\<exists>audit' answer. term_write shop_runtime (supply_after [] []) ''shop'' (offer_of ''flour'' 5 None) None None =
      Inr (supply_after [mill_term 0 ''flour'' 5 1 True] audit', answer)"
    by (rule term_write_plain [where current = "None" and t = "mill_term 0 ''flour'' 5 1 True"]) (simp_all add: term_step_defs)
  moreover have "term_history shop_runtime dtext careful (supply_after [] [])"
    by (rule term_start) (simp add: supply_after_def)
  ultimately show ?thesis using term_request by (fastforce simp: same_pair_def)
qed

lemma flour_changed:
  "\<exists>a. term_history shop_runtime dtext careful (supply_after [mill_term 0 ''flour'' 5 1 False, mill_term 1 ''flour'' 6 2 True] a)"
proof -
  obtain a where h: "term_history shop_runtime dtext careful (supply_after [mill_term 0 ''flour'' 5 1 True] a)" using flour_created by blast
  have "\<exists>audit' answer. term_write shop_runtime (supply_after [mill_term 0 ''flour'' 5 1 True] a) ''shop'' (offer_of ''flour'' 6 (Some 1)) (Some ''i'') None =
      Inr (supply_after [mill_term 0 ''flour'' 5 1 False, mill_term 1 ''flour'' 6 2 True] audit', answer)"
    by (rule term_write_plain [where current = "Some (mill_term 0 ''flour'' 5 1 True)" and t = "mill_term 1 ''flour'' 6 2 True"]) (simp_all add: term_step_defs)
  then obtain audit' answer where w: "term_write shop_runtime (supply_after [mill_term 0 ''flour'' 5 1 True] a) ''shop''
      (offer_of ''flour'' 6 (Some 1)) (Some ''i'') None =
      Inr (supply_after [mill_term 0 ''flour'' 5 1 False, mill_term 1 ''flour'' 6 2 True] audit', answer)" by blast
  have "same_pair (supply_after [mill_term 0 ''flour'' 5 1 True] a) ''shop'' (offer_of ''flour'' 6 (Some 1)) (Some ''i'')"
    by (simp add: same_pair_def term_step_defs)
  then show ?thesis using term_request [OF h w] by blast
qed

lemma flour_and_sugar:
  "\<exists>a. term_history shop_runtime dtext careful (supply_after [mill_term 0 ''flour'' 5 1 True, mill_term 1 ''sugar'' 7 1 True] a)"
proof -
  obtain a where h: "term_history shop_runtime dtext careful (supply_after [mill_term 0 ''flour'' 5 1 True] a)" using flour_created by blast
  have "\<exists>audit' answer. term_write shop_runtime (supply_after [mill_term 0 ''flour'' 5 1 True] a) ''shop'' (offer_of ''sugar'' 7 None) None None =
      Inr (supply_after [mill_term 0 ''flour'' 5 1 True, mill_term 1 ''sugar'' 7 1 True] audit', answer)"
    by (rule term_write_plain [where current = "None" and t = "mill_term 1 ''sugar'' 7 1 True"]) (simp_all add: term_step_defs)
  then show ?thesis using term_request [OF h] by (fastforce simp: same_pair_def)
qed

section \<open>The theorems at the shop\<close>

lemma exactly_newest_term_active_witness:
  "\<exists>db. filter tm_active (term_versions db ''shop'' ''mill'' ''flour'') = [mill_term 1 ''flour'' 6 2 True]"
proof -
  obtain a where h: "term_history shop_runtime (\<lambda>_. []) True
      (supply_after [mill_term 0 ''flour'' 5 1 False, mill_term 1 ''flour'' 6 2 True] a)" using flour_changed by blast
  show ?thesis
    using exactly_newest_term_active [OF h shop_inj, of "''shop''" "''mill''" "''flour''"]
    by (intro exI [of _ "supply_after [mill_term 0 ''flour'' 5 1 False, mill_term 1 ''flour'' 6 2 True] a"])
      (simp add: Let_def term_versions_def supply_after_def mill_term_def)
qed

text \<open>C37: an update that names another ingredient leaves two active terms. It closes the term of its path and adds a version
  to the pair of its body, whose active term stays active.\<close>

theorem update_leaves_two_active_terms:
  "\<exists>E dtext db. inj (rn_fresh E) \<and> term_history E dtext False db \<and>
     length (filter tm_active (term_versions db ''shop'' ''mill'' ''flour'')) = 2 \<and>
     filter tm_active (term_versions db ''shop'' ''mill'' ''sugar'') = [] \<and>
     term_versions db ''shop'' ''mill'' ''sugar'' \<noteq> []"
proof -
  let ?terms = "[mill_term 0 ''flour'' 5 1 True, mill_term 1 ''sugar'' 7 1 True]"
  let ?terms' = "[mill_term 0 ''flour'' 5 1 True, mill_term 1 ''sugar'' 7 1 False, mill_term 2 ''flour'' 6 2 True]"
  obtain a where h: "term_history shop_runtime (\<lambda>_. []) False (supply_after ?terms a)" using flour_and_sugar by blast
  have "\<exists>audit' answer. term_write shop_runtime (supply_after ?terms a) ''shop'' (offer_of ''flour'' 6 (Some 1)) (Some ''ix'') None =
      Inr (supply_after ?terms' audit', answer)"
    by (rule term_write_plain [where current = "Some (mill_term 1 ''sugar'' 7 1 True)" and t = "mill_term 2 ''flour'' 6 2 True"]) (simp_all add: term_step_defs numeral_eq_Suc)
  then obtain audit' where "term_history shop_runtime (\<lambda>_. []) False (supply_after ?terms' audit')" using term_request [OF h] by blast
  then show ?thesis
    using shop_inj by (intro exI [of _ shop_runtime] exI [of _ "\<lambda>_. []"] exI [of _ "supply_after ?terms' audit'"])
      (simp add: term_versions_def supply_after_def mill_term_def)
qed

definition feast :: calendar_item where
  "feast = \<lparr>ci_date = 738003, ci_holiday = True, ci_promotion = False, ci_note = Some ''sale''\<rparr>"

lemma calendar_write_sets_days_witness:
  "\<exists>db n. calendar_write shop_runtime supply_start ''shop'' [feast] = Inr (db, n) \<and> (\<exists>x \<in> set (sy_calendar db). item_on ''shop'' feast x) \<and>
     cc_created n + cc_updated n + cc_unchanged n = 1"
proof -
  obtain db n where w: "calendar_write shop_runtime supply_start ''shop'' [feast] = Inr (db, n)"
    by (simp add: calendar_write_def require_store_def supply_start_def shop_db_def upsert_day_def)
  have "days_ok shop_runtime supply_start" by (simp add: days_ok_def supply_start_def)
  from calendar_write_sets_days [OF w this shop_inj] show ?thesis using w by auto
qed

end
