(* ===== verification/Spec2Isabelle.thy ===== *)
theory Spec2Isabelle
  imports Unit_Search Recipes Bom_Engine Scenarios Inv_Adapters Metrics Simulator Sim_Monotone Sim_Progress
    Inv_Batch Batch_Facts Milp_Facts Resim_Facts Opt_Witness
    Approval_Witness Constraint_Witness Op_Witness Usage_Witness Menu_Witness Catalog_Witness Supplier_Witness
begin

text \<open>
  This development models the ShelfCash backend, a planning service for stores: its decision core
  \<open>src/shelfcash_core\<close>, the approval workflow of \<open>src/shelfcash_forecast\<close>, and the services of \<open>src/app\<close> that keep
  menus, recipes, sales, usage, business constraints, budgets, purchase orders and stock.

  How the parts interact. The application keeps the books of a store: recipes in versions, the sales of each day and
  the usage derived from them, lots and their movements, monthly budgets, business constraints. The decision
  core turns a sales forecast into ingredient demand with the recipes (BOM), simulates the stock day by day first
  expired first out, and chooses orders by a mixed-integer model whose plans are simulated exactly and
  judged by a critic before one is recommended. A decision's orders are bound into an approval case with a hash
  chain of events. A purchase order made from a plan then reserves, and its receipts spend, the budget of its month.

  Decision core, in the order the code has its modules.

  Prelude holds the shared vocabulary: results \<open>'a py = core_error + 'a\<close> with \<open>ebind\<close>, \<open>efold\<close> and \<open>emap\<close> for the code
  that raises, insertion-ordered dictionaries, and the lemmas on them. Float64 models Python's floats as binary64
  values over the integers (rounding to nearest even, overflow to infinity, no NaN as every contract
  rejects it), so that every sum, product and comparison of the model rounds as the program's does. Values holds
  the JSON-like values of details and provenance and the exception classes of \<open>exceptions.py\<close>.

  Units models \<open>bom/units.py\<close>, with a locale \<open>unit_service\<close> for what its clients rely on; Unit_Search proves its search
  complete and sound. Recipes models \<open>bom/contracts.py\<close>, \<open>bom/adapter.py\<close> and \<open>bom/recipe_resolver.py\<close>, Bom_Engine
  \<open>bom/engine.py\<close>, Scenarios \<open>scenario/contracts.py\<close>, \<open>scenario/bom.py\<close> and the recipe model of \<open>scenario/yield_loss.py\<close>.

  Inv_Contracts models \<open>inventory/contracts.py\<close>, each pydantic class as a record with its validator as a
  predicate; Fefo \<open>inventory/fefo.py\<close> and \<open>inventory/accounting.py\<close> with the greedy allocation they refine; Inv_Adapters
  \<open>inventory/adapters.py\<close>; Metrics \<open>inventory/metrics.py\<close>; Simulator \<open>inventory/simulator.py\<close>: the state of a run is the
  record \<open>sim_state\<close>, a key's day is \<open>sim_key_day\<close>, and \<open>simulate_inventory\<close> composes checks, conversion, the loop
  over days and keys, and the result. Sim_Monotone relates two runs with different demand; Sim_Progress shows that
  runs in whole units return. Inv_Batch models the batches of \<open>simulator.py\<close>, \<open>monte_carlo.py\<close> and \<open>stress.py\<close>; Batch_Facts
  proves once, in the locale \<open>scenario_runner\<close>, what every runner guarantees.

  Opt_Contracts models \<open>optimization/contracts.py\<close>, \<open>strategies.py\<close>, \<open>robust.py\<close> and \<open>expiry.py\<close>; Opt_Data \<open>model_data.py\<close>;
  Opt_Milp the variables and rows of \<open>deterministic.py\<close> and the probes of \<open>infeasibility.py\<close>; Opt_Plan the plan read off
  a solver's answer; Opt_Stochastic \<open>stochastic.py\<close>; Opt_Critic \<open>adapters.py\<close>, \<open>constraints.py\<close> and \<open>critic.py\<close>; Opt_Loop
  \<open>resimulation.py\<close>, \<open>optimizer.py\<close> and \<open>rolling_horizon.py\<close>. Plan_Facts, Milp_Facts, Critic_Facts (with the locale
  \<open>planner\<close> of the rolling horizon) and Resim_Facts hold their lemmas, Opt_Witness one request from end to end.

  Approval. Decimal_Text and Canonical_Json model \<open>decision_intelligence/integrity.py\<close>: a value's canonical form and
  JSON text, which determine each other. Approval models \<open>approval/contracts.py\<close>, \<open>workflow.py\<close> and \<open>integrity.py\<close>: a case, its
  chained events and transitions. Approval_Facts holds the lemmas, Approval_Witness a case from creation to approval.

  Application. A database is a record of tables, a table the list of its rows, a request a function from the database to
  the one it commits, or an \<open>app_error\<close> and no change. App_Base models what the services share: errors and
  statuses, \<open>Decimal\<close> at 28 digits, \<open>core/units.py\<close>, planning dates, request hashes and the idempotency records.

  Constraints models \<open>core/business_constraints.py\<close>, the versioned writes of \<open>inventory_constraint_write_service.py\<close>, the import
  of a constraint, and the resolvers; Constraint_Facts proves the versions disjoint through the locale \<open>timeline\<close>.
  Expiry_Class models \<open>ingredient_expiry.py\<close>. Operations models \<open>completion_service.py\<close>: purchase orders, budgets, counts
  and adjustments. Op_Facts shows what each request keeps, Op_History defines the reachable databases, Op_Claims
  and Op_Reserve hold the properties.

  Recipe_Versions models \<open>recipe_service.py\<close>, \<open>repositories/recipes.py\<close> and the recipe endpoints of \<open>catalog_service.py\<close>;
  Sales_Usage the sales history and \<open>sales_usage_reconciliation.py\<close>. Recipe_Facts proves the versions of a product a
  chain in time, Usage_Facts what a rebuild of derived usage leaves. Menu models \<open>menu_service.py\<close>, Catalog the ingredients and
  aliases of \<open>catalog_service.py\<close> and the ingredients, recipes and usage of imported sheets; Menu_Facts and Catalog_Facts
  prove the invariants of their reachable databases. Supplier_Terms models the supplier terms and the calendar of
  \<open>completion_service.py\<close>, the sheets of supplier terms and \<open>packaging_units.py\<close>; Supplier_Facts shows which version of a term is
  active and what a write of the calendar leaves. The theories named Witness apply the properties to small shops.

  Parameters stand for code outside the repository, with what is relied on as named hypotheses. pandas (missing cells,
  texts, numbers and dates of cells) is the record \<open>pandas\<close>; numpy's sums, whose order of additions is not fixed,
  the record \<open>numpy\<close> with the laws \<open>numpy_ok\<close>; \<open>scipy.optimize.milp\<close> a function \<open>solve\<close> with \<open>sound_solver\<close> (its points are
  feasible up to a tolerance); the lead-time and shelf-life models the record \<open>supply_model\<close>. SHA-256 and the texts of
  floats and instants are the record \<open>hashing\<close>, with injectivity on the texts at hand where a property is about
  digests; unicode tables (NFC, casefold) are text functions; \<open>uuid4\<close> is \<open>rn_fresh\<close>, which never repeats itself;
  \<open>rn_readback\<close> is how the database returns a time. Witnesses instantiate all of them.

  Bounds. No definition uses fuel: the searches of the unit graph recurse on a measure, all other loops are folds.
  Statements about exact balance of a simulation restrict quantities to whole units of total at most \<open>2 ^ 53\<close>, where
  binary64 addition is exact; the one about reservations restricts quantities to those of the database columns.
  The exponent limits of \<open>Decimal\<close> and the rounding of columns are not modelled. Strings are UTF-8 bytes.

  Not modelled. Messages and details of errors. Requests run one after the other: transactions that overlap are out
  of reach, and SQL without an order reads rows as they were inserted. The forecasting pipeline of \<open>shelfcash_core\<close>
  (pandas features, fitted LightGBM and statsmodels models), the samplers of \<open>scenario/\<close> (numpy random generators) and the
  empirical yield model: the arithmetic lives in the packages. \<open>src/shelfcash_forecast\<close> except its hashes and its
  approval workflow: a second edition of the same core. The remaining services of \<open>src/app\<close>: spreadsheet
  reading, mapping and staging, forecast and planning runs, and the layers that prompt
  language models and check the text they return; migrations, scripts and tests.
\<close>

end
